(* ===== verification/Pluton_Prelude.thy ===== *)
theory Pluton_Prelude
  imports Main "HOL-Library.Char_ord" "HOL-Library.List_Lexorder" "HOL-Library.Product_Lexorder"
    "HOL-Library.Multiset"
begin

text \<open>
  The prelude of the Pluton development.  It holds what the components share:
  \<^item> the error values (\<open>AppError\<close>, \<open>DatabaseRestoreError\<close>, ...) and the result type of the
    operations that may throw;
  \<^item> the operations on SQL tables (a table is the list of its rows in \<open>rowid\<close> order):
    select by key, update, delete and count, with their lemmas;
  \<^item> the character classes and string tests the validators use;
  \<^item> reachability of a step relation and the locales \<open>invariant_system\<close>, \<open>exclusive_slot\<close>, \<open>simulation\<close>,
    \<open>progress_system\<close>, \<open>monotone_system\<close> and \<open>keyed_rows\<close>, the contracts the stores are proved to meet.
  Integers of the source are JavaScript safe integers (timestamps, counters): they are modelled
  as \<open>int\<close> or \<open>nat\<close>; the one counter whose bound the code tests is modelled with the bound.
  Strings are lists of characters below U+0100.
\<close>

named_theorems table_simps "simplification of table operations"

section \<open>Errors and results\<close>

text \<open>
  A thrown \<open>AppError(status, message)\<close>, a \<open>DatabaseRestoreError(code)\<close>, the retained-dependency
  error, a constraint violation raised by SQLite, or a plain \<open>Error(message)\<close>.
\<close>

datatype app_error =
    AppError nat string
  | RestoreError string
  | DependencyError
  | SqlError
  | PlainError string

type_synonym 'a result = "app_error + 'a"

abbreviation Ok :: "'a \<Rightarrow> 'a result" where
  "Ok x \<equiv> Inr x"

abbreviation Throw :: "app_error \<Rightarrow> 'a result" where
  "Throw e \<equiv> Inl e"

text \<open>Sequencing: the rest of the operation runs only if the first part did not throw.\<close>

definition bind_result :: "'a result \<Rightarrow> ('a \<Rightarrow> 'b result) \<Rightarrow> 'b result" where
  "bind_result r f = (case r of Inl e \<Rightarrow> Inl e | Inr x \<Rightarrow> f x)"

lemma bind_result_simps [simp]:
  "bind_result (Inl e) f = Inl e" "bind_result (Inr x) f = f x"
  by (simp_all add: bind_result_def)

lemma bind_result_Inr_iff:
  "bind_result r f = Inr y \<longleftrightarrow> (\<exists>x. r = Inr x \<and> f x = Inr y)"
  by (cases r) auto

lemma bind_result_Inl_iff:
  "bind_result r f = Inl e \<longleftrightarrow> r = Inl e \<or> (\<exists>x. r = Inr x \<and> f x = Inl e)"
  by (cases r) auto

text \<open>\<open>xs.map(f)\<close> where \<open>f\<close> may throw: the first error aborts the whole map.\<close>

fun map_result :: "('a \<Rightarrow> 'b result) \<Rightarrow> 'a list \<Rightarrow> 'b list result" where
  "map_result f [] = Inr []"
| "map_result f (x # xs) =
     bind_result (f x) (\<lambda>y. bind_result (map_result f xs) (\<lambda>ys. Inr (y # ys)))"

lemma map_result_Inr:
  "map_result f xs = Inr ys \<Longrightarrow> length ys = length xs \<and> (\<forall>i < length xs. f (xs ! i) = Inr (ys ! i))"
proof (induction xs arbitrary: ys)
  case Nil
  then show ?case by simp
next
  case (Cons x xs)
  then obtain y zs where "f x = Inr y" "map_result f xs = Inr zs" "ys = y # zs"
    by (auto simp: bind_result_Inr_iff)
  with Cons.IH show ?case by (auto simp: nth_Cons split: nat.split)
qed

lemma map_result_list_all:
  "map_result f xs = Inr ys \<Longrightarrow> (\<And>x y. f x = Inr y \<Longrightarrow> P y) \<Longrightarrow> list_all P ys"
  by (induction xs arbitrary: ys) (auto simp: bind_result_Inr_iff)

lemma map_result_id:
  "(\<And>x. x \<in> set xs \<Longrightarrow> f (g x) = Inr x) \<Longrightarrow> map_result f (map g xs) = Inr xs"
  by (induction xs) auto

text \<open>\<open>for (const x of xs) f(x)\<close> where \<open>f\<close> only checks: the first error ends the loop.\<close>

fun each_result :: "('a \<Rightarrow> unit result) \<Rightarrow> 'a list \<Rightarrow> unit result" where
  "each_result f [] = Inr ()"
| "each_result f (x # xs) = bind_result (f x) (\<lambda>_. each_result f xs)"

lemma each_result_Ok_iff: "each_result f xs = Inr () \<longleftrightarrow> (\<forall>x \<in> set xs. f x = Inr ())"
  by (induction xs) (auto simp: bind_result_Inr_iff)

lemma each_result_append:
  "each_result f (xs @ ys) = bind_result (each_result f xs) (\<lambda>_. each_result f ys)"
  by (induction xs) (auto simp: bind_result_def split: sum.splits)

text \<open>\<open>if (p) throw e\<close>\<close>

definition refuse_if :: "bool \<Rightarrow> app_error \<Rightarrow> unit result" where
  "refuse_if p e = (if p then Inl e else Inr ())"

lemma refuse_if_Ok_iff [simp]: "refuse_if p e = Inr () \<longleftrightarrow> \<not> p"
  by (simp add: refuse_if_def)

section \<open>SQL tables\<close>

text \<open>
  \<open>SELECT * FROM t WHERE key = k\<close> with \<open>.get()\<close>: the first row, or nothing.
\<close>

definition row_by :: "('r \<Rightarrow> 'k) \<Rightarrow> 'k \<Rightarrow> 'r list \<Rightarrow> 'r option" where
  "row_by key k t = find (\<lambda>r. key r = k) t"

text \<open>\<open>UPDATE t SET f WHERE p\<close>, \<open>DELETE FROM t WHERE p\<close>, \<open>SELECT COUNT(*) ... WHERE p\<close>.\<close>

definition update_where :: "('r \<Rightarrow> bool) \<Rightarrow> ('r \<Rightarrow> 'r) \<Rightarrow> 'r list \<Rightarrow> 'r list" where
  "update_where p f t = map (\<lambda>r. if p r then f r else r) t"

definition delete_where :: "('r \<Rightarrow> bool) \<Rightarrow> 'r list \<Rightarrow> 'r list" where
  "delete_where p t = filter (\<lambda>r. \<not> p r) t"

definition count_where :: "('r \<Rightarrow> bool) \<Rightarrow> 'r list \<Rightarrow> nat" where
  "count_where p t = length (filter p t)"

lemma row_by_Nil [simp]: "row_by key k [] = None"
  by (simp add: row_by_def)

lemma row_by_Cons [simp]:
  "row_by key k (r # t) = (if key r = k then Some r else row_by key k t)"
  by (simp add: row_by_def)

lemma row_by_SomeD: "row_by key k t = Some r \<Longrightarrow> r \<in> set t \<and> key r = k"
  by (induction t) (auto split: if_splits)

lemma row_by_None_iff: "row_by key k t = None \<longleftrightarrow> k \<notin> key ` set t"
  by (induction t) auto

lemma row_by_append:
  "row_by key k (t @ u) = (case row_by key k t of None \<Rightarrow> row_by key k u | Some r \<Rightarrow> Some r)"
  by (induction t) auto

lemma row_by_unique:
  "distinct (map key t) \<Longrightarrow> r \<in> set t \<Longrightarrow> row_by key (key r) t = Some r"
  by (induction t) (auto simp: image_iff)

lemma distinct_map_eqD:
  "distinct (map key t) \<Longrightarrow> r \<in> set t \<Longrightarrow> q \<in> set t \<Longrightarrow> key r = key q \<Longrightarrow> r = q"
  by (auto simp: distinct_map dest: inj_onD)

lemma update_where_Nil [simp]: "update_where p f [] = []"
  by (simp add: update_where_def)

lemma update_where_Cons [simp]:
  "update_where p f (r # t) = (if p r then f r else r) # update_where p f t"
  by (simp add: update_where_def)

lemma set_update_where:
  "set (update_where p f t) = (\<lambda>r. if p r then f r else r) ` set t"
  by (simp add: update_where_def)

lemma in_update_where:
  "r \<in> set (update_where p f t) \<longleftrightarrow> (\<exists>q \<in> set t. r = (if p q then f q else q))"
  by (auto simp: set_update_where)

lemma update_where_none: "(\<And>r. r \<in> set t \<Longrightarrow> \<not> p r) \<Longrightarrow> update_where p f t = t"
  by (induction t) auto

lemma length_update_where [simp]: "length (update_where p f t) = length t"
  by (simp add: update_where_def)

lemma map_update_where:
  "(\<And>r. r \<in> set t \<Longrightarrow> p r \<Longrightarrow> g (f r) = g r) \<Longrightarrow> map g (update_where p f t) = map g t"
  by (induction t) auto

lemma count_where_Nil [simp]: "count_where p [] = 0"
  by (simp add: count_where_def)

lemma count_where_Cons [simp]:
  "count_where p (r # t) = (if p r then Suc (count_where p t) else count_where p t)"
  by (simp add: count_where_def)

lemma count_where_append [simp]: "count_where p (t @ u) = count_where p t + count_where p u"
  by (simp add: count_where_def)

lemma count_where_0_iff: "count_where p t = 0 \<longleftrightarrow> (\<forall>r \<in> set t. \<not> p r)"
  by (induction t) auto

lemma count_where_mono:
  "(\<And>r. r \<in> set t \<Longrightarrow> p r \<Longrightarrow> q r) \<Longrightarrow> count_where p t \<le> count_where q t"
  by (induction t) (auto intro: le_SucI)

lemma count_where_le_length: "count_where p t \<le> length t"
  by (simp add: count_where_def)

lemma count_where_delete_le: "count_where p (delete_where q t) \<le> count_where p t"
  by (induction t) (auto simp: delete_where_def intro: le_SucI)

lemma count_where_update_le:
  "(\<And>r. r \<in> set t \<Longrightarrow> c r \<Longrightarrow> p (f r) \<Longrightarrow> p r)
   \<Longrightarrow> count_where p (update_where c f t) \<le> count_where p t"
  by (induction t) (auto intro: le_SucI)

lemma count_where_update_eq:
  "(\<And>r. r \<in> set t \<Longrightarrow> c r \<Longrightarrow> p (f r) = p r)
   \<Longrightarrow> count_where p (update_where c f t) = count_where p t"
  by (induction t) auto

lemma distinct_key_neq:
  "distinct (map key (r # t)) \<Longrightarrow> q \<in> set t \<Longrightarrow> key q \<noteq> key r"
  by (auto simp: image_iff)

lemma count_where_unique_le:
  assumes "distinct (map key t)"
  shows "count_where (\<lambda>r. key r = k \<and> p r) t \<le> 1"
  using assms
proof (induction t)
  case Nil
  then show ?case by simp
next
  case (Cons r t)
  have "count_where (\<lambda>r. key r = k \<and> p r) t = 0" if "key r = k"
    using distinct_key_neq [OF Cons.prems] that by (auto simp: count_where_0_iff)
  with Cons show ?case by auto
qed

lemma count_where_update_by_key:
  assumes "distinct (map key t)"
  shows "count_where p (update_where (\<lambda>r. key r = k \<and> c r) f t) \<le> Suc (count_where p t)"
  using assms
proof (induction t)
  case Nil
  then show ?case by simp
next
  case (Cons r t)
  show ?case
  proof (cases "key r = k")
    case True
    then have "update_where (\<lambda>r. key r = k \<and> c r) f t = t"
      using distinct_key_neq [OF Cons.prems] by (intro update_where_none) auto
    then show ?thesis by auto
  next
    case False
    with Cons show ?thesis by auto
  qed
qed

lemma count_where_update_one:
  assumes "distinct (map key t)" and "r \<in> set t" and "\<not> p r" and "p (f r)"
  shows "count_where p (update_where (\<lambda>x. x = r) f t) = Suc (count_where p t)"
  using assms
proof (induction t)
  case Nil
  then show ?case by simp
next
  case (Cons q t)
  show ?case
  proof (cases "q = r")
    case True
    then have "update_where (\<lambda>x. x = r) f t = t"
      using Cons.prems(1) by (intro update_where_none) auto
    with True Cons.prems show ?thesis by simp
  next
    case False
    with Cons show ?thesis by auto
  qed
qed

lemma set_delete_where [simp]: "set (delete_where p t) = {r \<in> set t. \<not> p r}"
  by (simp add: delete_where_def)

lemma distinct_map_delete_where:
  "distinct (map key t) \<Longrightarrow> distinct (map key (delete_where p t))"
  by (simp add: delete_where_def distinct_map_filter)

lemma row_by_update_where:
  assumes "\<And>r. key (f r) = key r"
  shows "row_by key k (update_where p f t) =
         map_option (\<lambda>r. if p r then f r else r) (row_by key k t)"
  using assms by (induction t) auto

lemmas row_facts = row_by_update_where row_by_append row_by_None_iff
declare set_update_where [table_simps] count_where_update_eq [table_simps]

text \<open>Stable insertion sort by a key: SQL's \<open>ORDER BY\<close> with ties in \<open>rowid\<close> order.\<close>

definition order_by :: "('r \<Rightarrow> 'k::linorder) \<Rightarrow> 'r list \<Rightarrow> 'r list" where
  "order_by key t = sort_key key t"

lemma set_order_by [simp]: "set (order_by key t) = set t"
  by (simp add: order_by_def)

lemma order_by_hd_least:
  "order_by key t = r # rest \<Longrightarrow> q \<in> set t \<Longrightarrow> key r \<le> key q"
proof -
  assume eq: "order_by key t = r # rest" and q: "q \<in> set t"
  have "sorted (map key (r # rest))"
    using eq by (metis order_by_def sorted_sort_key)
  moreover from q eq have "q \<in> set (r # rest)"
    by (metis set_order_by)
  ultimately show ?thesis by auto
qed

section \<open>Strings\<close>

definition is_digit :: "char \<Rightarrow> bool" where
  "is_digit c \<longleftrightarrow> CHR ''0'' \<le> c \<and> c \<le> CHR ''9''"

definition is_lower :: "char \<Rightarrow> bool" where
  "is_lower c \<longleftrightarrow> CHR ''a'' \<le> c \<and> c \<le> CHR ''z''"

definition is_upper :: "char \<Rightarrow> bool" where
  "is_upper c \<longleftrightarrow> CHR ''A'' \<le> c \<and> c \<le> CHR ''Z''"

definition is_alnum :: "char \<Rightarrow> bool" where
  "is_alnum c \<longleftrightarrow> is_digit c \<or> is_lower c \<or> is_upper c"

text \<open>\<open>[a-f0-9]\<close> and \<open>/^[a-f0-9]{n}$/\<close>.\<close>

definition is_hex_char :: "char \<Rightarrow> bool" where
  "is_hex_char c \<longleftrightarrow> is_digit c \<or> (CHR ''a'' \<le> c \<and> c \<le> CHR ''f'')"

definition hex_string :: "nat \<Rightarrow> string \<Rightarrow> bool" where
  "hex_string n s \<longleftrightarrow> length s = n \<and> list_all is_hex_char s"

definition starts_with :: "string \<Rightarrow> string \<Rightarrow> bool" where
  "starts_with p s \<longleftrightarrow> take (length p) s = p"

lemma starts_with_append [simp]: "starts_with p (p @ s)"
  by (simp add: starts_with_def)

lemma starts_with_iff: "starts_with p s \<longleftrightarrow> (\<exists>r. s = p @ r)"
  by (metis append_take_drop_id starts_with_append starts_with_def)

text \<open>\<open>s.trim()\<close>: white space is tab to carriage return, space and the no-break space.\<close>

definition is_space :: "char \<Rightarrow> bool" where
  "is_space c \<longleftrightarrow>
     of_char c \<in> {32 :: nat, 160} \<or> (9 \<le> (of_char c :: nat) \<and> of_char c \<le> (13 :: nat))"

definition js_trim :: "string \<Rightarrow> string" where
  "js_trim s = rev (dropWhile is_space (rev (dropWhile is_space s)))"

text \<open>\<open>s.split(sep)\<close> for a one-character separator: never empty.\<close>

fun split_on :: "char \<Rightarrow> string \<Rightarrow> string list" where
  "split_on sep [] = [[]]"
| "split_on sep (c # cs) =
     (if c = sep then [] # split_on sep cs
      else case split_on sep cs of [] \<Rightarrow> [[c]] | w # ws \<Rightarrow> (c # w) # ws)"

lemma split_on_nonempty [simp]: "split_on sep s \<noteq> []"
  by (induction s) (auto split: list.splits)

lemma split_on_append: "split_on sep (a @ sep # r) = split_on sep a @ split_on sep r"
  by (induction a) (auto split: list.splits)

lemma split_on_Cons_other:
  "c \<noteq> sep \<Longrightarrow> split_on sep (c # cs) = (c # hd (split_on sep cs)) # tl (split_on sep cs)"
  by (cases "split_on sep cs") auto

lemma split_on_inj: "split_on sep a = split_on sep b \<Longrightarrow> a = b"
proof (induction a arbitrary: b)
  case Nil
  then show ?case by (cases b) (auto split: list.splits if_splits)
next
  case (Cons c a)
  then obtain d b' where b: "b = d # b'"
    by (cases b) (auto split: list.splits if_splits)
  have "split_on sep a = split_on sep b' \<and> c = d"
    using Cons.prems unfolding b
    by (cases "c = sep"; cases "d = sep")
       (auto simp: split_on_Cons_other simp del: split_on.simps(2) intro: list.expand simp: split_on.simps(2) [of sep sep])
  with Cons.IH b show ?case by auto
qed

lemma split_on_prefixE:
  assumes "split_on sep b = xs @ ys" and "xs \<noteq> []" and "ys \<noteq> []"
  obtains u v where "b = u @ sep # v" "split_on sep u = xs" "split_on sep v = ys"
  using assms
proof (induction b arbitrary: xs thesis)
  case Nil
  then show ?case by (cases xs) auto
next
  case (Cons c b)
  show ?case
  proof (cases "c = sep")
    case True
    with Cons.prems(2) have e: "[] # split_on sep b = xs @ ys" by simp
    then obtain zs where zs: "xs = [] # zs" using Cons.prems(3) by (cases xs) auto
    show ?thesis
    proof (cases zs)
      case Nil
      with e zs True Cons.prems(1) [of "[]" b] show ?thesis by simp
    next
      case Cons1: (Cons z zs')
      with e zs Cons.prems(4) obtain u v where "b = u @ sep # v" "split_on sep u = zs" "split_on sep v = ys"
        using Cons.IH [of zs] by auto
      with zs True Cons.prems(1) [of "c # u" v] show ?thesis by simp
    qed
  next
    case False
    let ?w = "hd (split_on sep b)"
    from False Cons.prems(2) have e: "(c # ?w) # tl (split_on sep b) = xs @ ys"
      by (simp add: split_on_Cons_other del: split_on.simps)
    then obtain zs where zs: "xs = (c # ?w) # zs" using Cons.prems(3) by (cases xs) auto
    with e have "split_on sep b = (?w # zs) @ ys"
      by (metis append_Cons hd_Cons_tl list.inject split_on_nonempty)
    with Cons.prems(4) obtain u v where u: "b = u @ sep # v" "split_on sep u = ?w # zs" "split_on sep v = ys"
      using Cons.IH [of "?w # zs"] by auto
    have "split_on sep (c # u) = xs"
      using False u(2) zs by (simp add: split_on_Cons_other del: split_on.simps)
    with u Cons.prems(1) [of "c # u" v] show ?thesis by simp
  qed
qed

text \<open>\<open>toLowerCase\<close> on the ASCII alphabet the validated strings are drawn from.\<close>

definition lower_char :: "char \<Rightarrow> char" where
  "lower_char c = (if is_upper c then char_of (of_char c + 32 :: nat) else c)"

definition to_lower :: "string \<Rightarrow> string" where
  "to_lower s = map lower_char s"

section \<open>JSON values\<close>

text \<open>
  A JavaScript value as \<open>JSON.parse\<close> yields it.  Object fields keep their order.  \<open>JFrac\<close> is a
  finite number that is no integer, by its decimal text.  An absent value (\<open>undefined\<close>) is
  \<open>None\<close> of \<open>json option\<close>.  On such values \<open>JSON.stringify(a) === JSON.stringify(b)\<close> is equality.
\<close>

datatype json =
    JNull
  | JBool bool
  | JInt int
  | JFrac string
  | JStr string
  | JArr "json list"
  | JObj "(string \<times> json) list"

fun json_field :: "string \<Rightarrow> json \<Rightarrow> json option" where
  "json_field k (JObj fs) = map_of fs k"
| "json_field k _ = None"

text \<open>JavaScript truthiness.\<close>

fun truthy :: "json \<Rightarrow> bool" where
  "truthy JNull = False"
| "truthy (JBool b) = b"
| "truthy (JInt i) = (i \<noteq> 0)"
| "truthy (JFrac s) = True"
| "truthy (JStr s) = (s \<noteq> [])"
| "truthy (JArr xs) = True"
| "truthy (JObj fs) = True"

section \<open>Reachable states and the contracts of a store\<close>

inductive reachable :: "('s \<Rightarrow> bool) \<Rightarrow> ('s \<Rightarrow> 's \<Rightarrow> bool) \<Rightarrow> 's \<Rightarrow> bool"
  for init :: "'s \<Rightarrow> bool" and step :: "'s \<Rightarrow> 's \<Rightarrow> bool" where
  reach_init: "init s \<Longrightarrow> reachable init step s"
| reach_step: "reachable init step s \<Longrightarrow> step s t \<Longrightarrow> reachable init step t"

lemma reachable_steps: "step\<^sup>*\<^sup>* s t \<Longrightarrow> reachable init step s \<Longrightarrow> reachable init step t"
  by (induction rule: rtranclp_induct) (auto intro: reach_step)

text \<open>An invariant of a step relation: it holds at the start and every step keeps it.\<close>

locale invariant_system =
  fixes init :: "'s \<Rightarrow> bool" and step :: "'s \<Rightarrow> 's \<Rightarrow> bool" and inv :: "'s \<Rightarrow> bool"
  assumes inv_init: "init s \<Longrightarrow> inv s"
    and inv_step: "inv s \<Longrightarrow> step s t \<Longrightarrow> inv t"
begin

lemma reachable_inv: "reachable init step s \<Longrightarrow> inv s"
  by (induction rule: reachable.induct) (auto intro: inv_init inv_step)

lemma steps_inv: "step\<^sup>*\<^sup>* s t \<Longrightarrow> inv s \<Longrightarrow> inv t"
  by (induction rule: rtranclp_induct) (auto intro: inv_step)

end

text \<open>
  An execution slot: \<open>busy\<close> counts the executing rows.  A step either does not add one or
  takes the slot from the idle state.  Under the invariant \<open>good\<close> of the store no run ever
  has two executions at once.
\<close>

locale exclusive_slot =
  fixes step :: "'s \<Rightarrow> 's \<Rightarrow> bool" and good :: "'s \<Rightarrow> bool" and busy :: "'s \<Rightarrow> nat"
  assumes good_step: "good s \<Longrightarrow> step s t \<Longrightarrow> good t"
    and slot_step: "good s \<Longrightarrow> step s t \<Longrightarrow> busy t \<le> busy s \<or> (busy s = 0 \<and> busy t = 1)"
begin

lemma slot_inv: "invariant_system (\<lambda>s. good s \<and> busy s \<le> 1) step (\<lambda>s. good s \<and> busy s \<le> 1)"
proof
  fix s t assume "good s \<and> busy s \<le> 1" and "step s t"
  then show "good t \<and> busy t \<le> 1"
    using good_step [of s t] slot_step [of s t] by auto
qed

lemma slot_bound:
  "reachable (\<lambda>s. good s \<and> busy s \<le> 1) step s \<Longrightarrow> good s \<and> busy s \<le> 1"
  by (rule invariant_system.reachable_inv [OF slot_inv])

lemma slot_steps: "step\<^sup>*\<^sup>* s t \<Longrightarrow> good s \<Longrightarrow> busy s \<le> 1 \<Longrightarrow> busy t \<le> 1"
  using invariant_system.steps_inv [OF slot_inv, of s t] by simp

end

text \<open>
  A transition system that implements another: every step is a step of the abstract system on the
  abstracted states, or leaves the abstract state alone.
\<close>

locale simulation = invariant_system +
  fixes astep :: "'a \<Rightarrow> 'a \<Rightarrow> bool" and abs :: "'s \<Rightarrow> 'a"
  assumes sim_step: "inv s \<Longrightarrow> step s t \<Longrightarrow> astep (abs s) (abs t) \<or> abs t = abs s"
begin

lemma sim_steps: "step\<^sup>*\<^sup>* s t \<Longrightarrow> inv s \<Longrightarrow> astep\<^sup>*\<^sup>* (abs s) (abs t)"
proof (induction rule: rtranclp_induct)
  case (step u v)
  then have "inv u" using steps_inv by blast
  with step sim_step [of u v] show ?case by (metis rtranclp.rtrancl_into_rtrancl)
qed simp

end

text \<open>A preorder that every step from a good state climbs.\<close>

locale progress_system = invariant_system +
  fixes le :: "'s \<Rightarrow> 's \<Rightarrow> bool"
  assumes le_refl: "le s s"
    and le_trans: "le s t \<Longrightarrow> le t u \<Longrightarrow> le s u"
    and le_step: "inv s \<Longrightarrow> step s t \<Longrightarrow> le s t"
begin

lemma le_steps: "step\<^sup>*\<^sup>* s t \<Longrightarrow> inv s \<Longrightarrow> le s t"
proof (induction rule: rtranclp_induct)
  case (step u v)
  then have "inv u" using steps_inv by blast
  with step show ?case using le_step le_trans by blast
qed (rule le_refl)

end

text \<open>A quantity that no step decreases.\<close>

locale monotone_system =
  fixes step :: "'s \<Rightarrow> 's \<Rightarrow> bool" and level :: "'s \<Rightarrow> 'v::preorder"
  assumes level_step: "step s t \<Longrightarrow> level s \<le> level t"
begin

lemma level_steps: "step\<^sup>*\<^sup>* s t \<Longrightarrow> level s \<le> level t"
  by (induction rule: rtranclp_induct) (auto intro: level_step order_trans)

end

text \<open>
  The contract of a row update: it never changes the key column.  Then the table's keys are
  untouched by any \<open>UPDATE\<close>, and a lookup sees the updated row.
\<close>

locale keyed_rows =
  fixes key :: "'r \<Rightarrow> 'k" and upd :: "'u \<Rightarrow> 'r \<Rightarrow> 'r"
  assumes key_upd: "key (upd u r) = key r"
begin

lemma keys_update: "map key (update_where p (upd u) t) = map key t"
  by (rule map_update_where) (rule key_upd)

lemma lookup_update:
  "row_by key k (update_where p (upd u) t) =
   map_option (\<lambda>r. if p r then upd u r else r) (row_by key k t)"
  by (rule row_by_update_where) (rule key_upd)

lemma distinct_update:
  "distinct (map key t) \<Longrightarrow> distinct (map key (update_where p (upd u) t))"
  by (simp add: keys_update)

end

end
