(* ===== verification/Job_Queue.thy ===== *)
theory Job_Queue
  imports Pluton_Prelude
begin

text \<open>
  The in-memory job queue (\<open>backend/src/jobs/JobQueue.ts\<close>): a list of waiting jobs and the job
  that was handed out.  One definition per method.  The locale \<open>work_queue\<close> is the contract the
  processor relies on; it is interpreted on these definitions at the end.
\<close>

section \<open>Jobs and the queue\<close>

record job =
  job_id :: string
  job_name :: string
  job_payload :: json
  job_attempts :: nat
  job_maxAttempts :: nat
  job_retryDelay :: int
  job_lastAttempt :: int

record job_queue =
  jq_queue :: "job list"
  jq_running :: "job option"

definition empty_queue :: job_queue where
  "empty_queue = \<lparr>jq_queue = [], jq_running = None\<rparr>"

text \<open>\<open>job.name === jobName && job.payload?.planId === planId\<close>\<close>

definition job_for_plan :: "string \<Rightarrow> string \<Rightarrow> job \<Rightarrow> bool" where
  "job_for_plan jobName planId j \<longleftrightarrow>
     job_name j = jobName \<and> json_field ''planId'' (job_payload j) = Some (JStr planId)"

definition reQueue :: "job \<Rightarrow> job_queue \<Rightarrow> job_queue" where
  "reQueue j q = q\<lparr>jq_queue := jq_queue q @ [j], jq_running := None\<rparr>"

definition requeueAtFront :: "job \<Rightarrow> job_queue \<Rightarrow> job_queue" where
  "requeueAtFront j q = q\<lparr>jq_queue := j # jq_queue q, jq_running := None\<rparr>"

definition getNext :: "job_queue \<Rightarrow> (job \<times> job_queue) option" where
  "getNext q =
     (if jq_running q \<noteq> None then None
      else case jq_queue q of
        [] \<Rightarrow> None
      | j # js \<Rightarrow> Some (j, q\<lparr>jq_queue := js, jq_running := Some j\<rparr>))"

definition hasPendingForPlan :: "string \<Rightarrow> string \<Rightarrow> job_queue \<Rightarrow> bool" where
  "hasPendingForPlan jobName planId q \<longleftrightarrow>
     (case jq_running q of None \<Rightarrow> False | Some j \<Rightarrow> job_for_plan jobName planId j) \<or>
     list_ex (job_for_plan jobName planId) (jq_queue q)"

definition hasPending :: "string \<Rightarrow> job_queue \<Rightarrow> bool" where
  "hasPending jobName q \<longleftrightarrow>
     (case jq_running q of None \<Rightarrow> False | Some j \<Rightarrow> job_name j = jobName) \<or>
     list_ex (\<lambda>j. job_name j = jobName) (jq_queue q)"

definition completeJob :: "job_queue \<Rightarrow> job_queue" where
  "completeJob q = (if jq_running q \<noteq> None then q\<lparr>jq_running := None\<rparr> else q)"

text \<open>
  The failed job object is mutated before the decision; the boolean is the method's result
  (true: permanently failed).
\<close>

definition failJob :: "int \<Rightarrow> job \<Rightarrow> job_queue \<Rightarrow> bool \<times> job_queue" where
  "failJob now j q =
     (let j' = j\<lparr>job_attempts := Suc (job_attempts j), job_lastAttempt := now\<rparr>
      in if job_attempts j' < job_maxAttempts j' then (False, reQueue j' q)
         else (True, q\<lparr>jq_running := None\<rparr>))"

text \<open>
  \<open>JSON.stringify(j.payload) === JSON.stringify(payload)\<close>: an absent argument stringifies to
  \<open>undefined\<close>, which equals no stored payload.
\<close>

definition same_job :: "string \<Rightarrow> json option \<Rightarrow> job \<Rightarrow> bool" where
  "same_job jobName payload j \<longleftrightarrow> job_name j = jobName \<and> Some (job_payload j) = payload"

text \<open>\<open>payload || {}\<close>\<close>

definition payload_or_empty :: "json option \<Rightarrow> json" where
  "payload_or_empty payload =
     (case payload of None \<Rightarrow> JObj [] | Some p \<Rightarrow> if truthy p then p else JObj [])"

definition addJob ::
  "string \<Rightarrow> string \<Rightarrow> json option \<Rightarrow> nat \<Rightarrow> int \<Rightarrow> bool \<Rightarrow> job_queue \<Rightarrow> job_queue" where
  "addJob uid jobName payload maxAttempts retryDelay isPriority q =
     (let isPresent =
            list_ex (same_job jobName payload) (jq_queue q) \<or>
            (case jq_running q of None \<Rightarrow> False | Some j \<Rightarrow> same_job jobName payload j);
          j = \<lparr>job_id = uid, job_name = jobName, job_payload = payload_or_empty payload,
               job_attempts = 0, job_maxAttempts = maxAttempts, job_retryDelay = retryDelay,
               job_lastAttempt = 0\<rparr>
      in if isPresent then q
         else if isPriority then q\<lparr>jq_queue := j # jq_queue q\<rparr>
         else q\<lparr>jq_queue := jq_queue q @ [j]\<rparr>)"

definition add ::
  "string \<Rightarrow> string \<Rightarrow> json option \<Rightarrow> nat \<Rightarrow> int \<Rightarrow> job_queue \<Rightarrow> job_queue" where
  "add uid jobName payload maxAttempts retryDelay q =
     addJob uid jobName payload maxAttempts retryDelay False q"

definition addPriorityJob ::
  "string \<Rightarrow> string \<Rightarrow> json option \<Rightarrow> nat \<Rightarrow> int \<Rightarrow> job_queue \<Rightarrow> job_queue" where
  "addPriorityJob uid jobName payload maxAttempts retryDelay q =
     addJob uid jobName payload maxAttempts retryDelay True q"

definition remove_job :: "string \<Rightarrow> string \<Rightarrow> job_queue \<Rightarrow> bool \<times> job_queue" where
  "remove_job jobName planId q =
     (let queue' = filter (\<lambda>j. \<not> job_for_plan jobName planId j) (jq_queue q);
          wasRemovedFromQueue = length queue' < length (jq_queue q);
          wasRemovedFromRunning =
            (case jq_running q of None \<Rightarrow> False | Some j \<Rightarrow> job_for_plan jobName planId j)
      in (wasRemovedFromQueue \<or> wasRemovedFromRunning,
          q\<lparr>jq_queue := queue',
            jq_running := if wasRemovedFromRunning then None else jq_running q\<rparr>))"

section \<open>Counting jobs\<close>

text \<open>All the jobs the queue knows: waiting ones and the one handed out.\<close>

definition queue_jobs :: "job_queue \<Rightarrow> job list" where
  "queue_jobs q = (case jq_running q of None \<Rightarrow> [] | Some j \<Rightarrow> [j]) @ jq_queue q"

lemmas queue_op_defs =
  reQueue_def requeueAtFront_def getNext_def completeJob_def failJob_def addJob_def add_def
  addPriorityJob_def remove_job_def queue_jobs_def empty_queue_def

lemma getNext_SomeD:
  "getNext q = Some (j, q') \<Longrightarrow>
     jq_running q = None \<and> jq_queue q = j # jq_queue q' \<and> jq_running q' = Some j"
  by (auto simp: getNext_def split: if_splits list.splits)

lemma getNext_None_iff: "getNext q = None \<longleftrightarrow> jq_running q \<noteq> None \<or> jq_queue q = []"
  by (auto simp: getNext_def split: list.splits)

lemma payload_or_empty_truthy: "truthy (payload_or_empty p)"
  by (auto simp: payload_or_empty_def split: option.splits)

section \<open>The contract of a work queue\<close>

text \<open>
  What the processor relies on: it takes a job only while none is out, and gives it back in
  front, gives it back behind, or drops it, each of which frees the queue.
\<close>

locale work_queue =
  fixes take_job :: "'q \<Rightarrow> ('j \<times> 'q) option"
    and to_front :: "'j \<Rightarrow> 'q \<Rightarrow> 'q" and to_back :: "'j \<Rightarrow> 'q \<Rightarrow> 'q"
    and drop_job :: "'q \<Rightarrow> 'q"
    and waiting :: "'q \<Rightarrow> 'j list" and current :: "'q \<Rightarrow> 'j option"
  assumes take_Some: "take_job q = Some (j, q') \<Longrightarrow>
      current q = None \<and> waiting q = j # waiting q' \<and> current q' = Some j"
    and take_None: "take_job q = None \<longleftrightarrow> current q \<noteq> None \<or> waiting q = []"
    and front_law: "waiting (to_front j q) = j # waiting q \<and> current (to_front j q) = None"
    and back_law: "waiting (to_back j q) = waiting q @ [j] \<and> current (to_back j q) = None"
    and drop_law: "waiting (drop_job q) = waiting q \<and> current (drop_job q) = None"
begin

lemma take_front:
  "take_job q = Some (j, q') \<Longrightarrow>
     waiting (to_front j q') = waiting q \<and> current (to_front j q') = current q"
  using take_Some front_law by metis

lemma take_back:
  "take_job q = Some (j, q') \<Longrightarrow>
     waiting (to_back j q') = rotate1 (waiting q) \<and> current (to_back j q') = None"
  using take_Some back_law by (metis rotate1.simps(2))

lemma take_drop:
  "take_job q = Some (j, q') \<Longrightarrow>
     waiting (drop_job q') = tl (waiting q) \<and> current (drop_job q') = None"
  using take_Some drop_law by (metis list.sel(3))

lemma idle_take:
  "current q = None \<Longrightarrow> waiting q \<noteq> [] \<Longrightarrow> \<exists>q'. take_job q = Some (hd (waiting q), q')"
  using take_None take_Some by (metis list.sel(1) option.exhaust surj_pair)

end

interpretation jq: work_queue getNext requeueAtFront reQueue completeJob jq_queue jq_running
  by unfold_locales
     (auto simp: reQueue_def requeueAtFront_def completeJob_def getNext_None_iff dest: getNext_SomeD)

section \<open>Properties of the queue\<close>

text \<open>
  adding a job whose name and payload are already queued or running changes nothing;
  otherwise exactly one fresh job, with no attempt made, goes to the front (priority) or to the
  back, and the running job is untouched.
\<close>

theorem addJob_dedup:
  "addJob uid jobName (Some p) m d pri q =
    (if \<exists>j \<in> set (queue_jobs q). job_name j = jobName \<and> job_payload j = p then q
     else let j = \<lparr>job_id = uid, job_name = jobName,
                   job_payload = (if truthy p then p else JObj []), job_attempts = 0,
                   job_maxAttempts = m, job_retryDelay = d, job_lastAttempt = 0\<rparr>
          in q\<lparr>jq_queue := if pri then j # jq_queue q else jq_queue q @ [j]\<rparr>)"
  by (auto simp: addJob_def queue_jobs_def same_job_def list_ex_iff payload_or_empty_def Let_def
           split: option.splits)

text \<open>
  the duplicate test never fires for a job added without a payload: the stored payload is
  the empty object while the test compares with \<open>undefined\<close>.  Such a job is queued again every
  time, however many copies are waiting.
\<close>

theorem addJob_no_payload_never_dedups:
  "length (jq_queue (add uid jobName None m d q)) = Suc (length (jq_queue q))"
  by (simp add: add_def addJob_def same_job_def list_ex_iff Let_def split: option.splits)

text \<open>
  a failed job is given up exactly when its attempts are used up; otherwise it waits at the
  end with one more attempt counted.  In both cases the queue is free for the next job.
\<close>

theorem failJob_outcome:
  "failJob now j q =
    (if Suc (job_attempts j) < job_maxAttempts j
     then (False, \<lparr>jq_queue = jq_queue q @
             [j\<lparr>job_attempts := Suc (job_attempts j), job_lastAttempt := now\<rparr>], jq_running = None\<rparr>)
     else (True, \<lparr>jq_queue = jq_queue q, jq_running = None\<rparr>))"
  by (simp add: failJob_def reQueue_def Let_def)

text \<open>
  removing a plan's jobs leaves none of them queued or running, keeps every other job in
  order, and reports true exactly when there was one.
\<close>

theorem remove_job_spec:
  "fst (remove_job jobName planId q) = hasPendingForPlan jobName planId q \<and>
   \<not> hasPendingForPlan jobName planId (snd (remove_job jobName planId q)) \<and>
   queue_jobs (snd (remove_job jobName planId q)) =
     filter (\<lambda>j. \<not> job_for_plan jobName planId j) (queue_jobs q)"
proof -
  have "length (filter (\<lambda>j. \<not> job_for_plan jobName planId j) xs) < length xs \<longleftrightarrow>
        list_ex (job_for_plan jobName planId) xs" for xs
    by (induction xs) (auto simp: less_Suc_eq_le order.strict_implies_order)
  then show ?thesis
    by (auto simp: remove_job_def hasPendingForPlan_def queue_jobs_def list_ex_iff Let_def
             split: option.splits)
qed

end
