(* ===== verification/Job_Processor.thy ===== *)
theory Job_Processor
  imports Job_Queue
begin

text \<open>
  The job processor (\<open>backend/src/jobs/JobProcessor.ts\<close>).  \<open>processQueue\<close> suspends once, at
  \<open>await task.run(job)\<close>; it is modelled by the part before the suspension (\<open>process_begin\<close>) and
  the part after it (\<open>process_end\<close>, which gets the task's outcome).  Between the two every other
  operation of the program may run, so the processor is a step relation (\<open>proc_step\<close>) over the
  shared queue.  The job held by the suspended call is the field \<open>p_inflight\<close>.
\<close>

section \<open>State\<close>

text \<open>An event of the emitter: its name, the job's payload and the error text.\<close>

type_synonym job_event = "string \<times> json \<times> string"

record processor =
  p_queue :: job_queue
  p_isRunning :: bool
  p_interval :: bool
  p_tasks :: "string list"
  p_activeBackupJobs :: int
  p_inflight :: "job option"
  p_emitted :: "job_event list"

datatype task_outcome =
    TaskDone
  | TaskThrew string "bool option"  \<comment> \<open>\<open>error.message\<close> and \<open>error.retryable\<close>\<close>

definition fresh_processor :: processor where
  "fresh_processor =
     \<lparr>p_queue = empty_queue, p_isRunning = False, p_interval = False, p_tasks = [],
      p_activeBackupJobs = 0, p_inflight = None, p_emitted = []\<rparr>"

section \<open>Operations\<close>

text \<open>\<open>tasks.set(task.name, task)\<close>: a map keeps one entry per name.\<close>

definition set_task :: "string \<Rightarrow> processor \<Rightarrow> processor" where
  "set_task name s = s\<lparr>p_tasks := if name \<in> set (p_tasks s) then p_tasks s else p_tasks s @ [name]\<rparr>"

definition registerTasks :: "bool \<Rightarrow> bool \<Rightarrow> processor \<Rightarrow> processor" where
  "registerTasks hasBackupManager hasRestoreManager s =
     fold set_task
       ([''CleanDownloads''] @
        (if hasBackupManager then [''Backup'', ''ReplicationRetry''] else []) @
        (if hasRestoreManager then [''Restore''] else [])) s"

definition addTask :: "string \<Rightarrow> processor \<Rightarrow> processor" where
  "addTask name s = set_task name s"

definition start :: "processor \<Rightarrow> processor" where
  "start s = (if p_interval s then s else if p_tasks s = [] then s else s\<lparr>p_interval := True\<rparr>)"

definition stop :: "processor \<Rightarrow> processor" where
  "stop s = (if p_interval s then s\<lparr>p_interval := False\<rparr> else s)"

definition backup_delta :: "job \<Rightarrow> int" where
  "backup_delta j = (if job_name j = ''Backup'' then 1 else 0)"

text \<open>
  \<open>processQueue\<close> up to the \<open>await\<close>.  The order of the tests is the source's: already running,
  nothing to take, backup limit, retry delay, unknown task.
\<close>

definition process_begin :: "int \<Rightarrow> int \<Rightarrow> processor \<Rightarrow> processor" where
  "process_begin maxConcurrentBackups now s =
     (if p_isRunning s then s
      else case getNext (p_queue s) of
        None \<Rightarrow> s
      | Some (j, q) \<Rightarrow>
          if job_name j = ''Backup'' \<and> p_activeBackupJobs s \<ge> maxConcurrentBackups
          then s\<lparr>p_queue := requeueAtFront j q\<rparr>
          else if job_lastAttempt j \<noteq> 0 \<and> now - job_lastAttempt j < job_retryDelay j
          then s\<lparr>p_queue := reQueue j q\<rparr>
          else if job_name j \<notin> set (p_tasks s)
          then s\<lparr>p_queue := snd (failJob now j q)\<rparr>
          else s\<lparr>p_queue := q, p_isRunning := True, p_inflight := Some j,
                 p_activeBackupJobs := p_activeBackupJobs s + backup_delta j\<rparr>)"

definition is_cancellation :: "string \<Rightarrow> bool" where
  "is_cancellation msg \<longleftrightarrow>
     starts_with ''BACKUP_CANCELLED:'' msg \<or> starts_with ''RESTORE_CANCELLED:'' msg"

text \<open>The \<open>try\<close> and \<open>catch\<close> parts after the \<open>await\<close>: the queue and the emitted events.\<close>

definition settle_job ::
  "int \<Rightarrow> task_outcome \<Rightarrow> job \<Rightarrow> job_queue \<Rightarrow> job_queue \<times> job_event list" where
  "settle_job now out j q =
     (case out of
        TaskDone \<Rightarrow> (completeJob q, [])
      | TaskThrew msg retryable \<Rightarrow>
          if is_cancellation msg then (completeJob q, [])
          else
            let (isPermanentlyFailed, q') =
                  (if retryable = Some False then (True, completeJob q) else failJob now j q)
            in (q', if isPermanentlyFailed
                    then [(to_lower (job_name j) @ ''_failed'', job_payload j,
                           if msg = [] then ''Unknown error after multiple retries.'' else msg)]
                    else []))"

text \<open>The \<open>finally\<close> block runs in every case.\<close>

definition process_end :: "int \<Rightarrow> task_outcome \<Rightarrow> processor \<Rightarrow> processor" where
  "process_end now out s =
     (case p_inflight s of
        None \<Rightarrow> s
      | Some j \<Rightarrow>
          let (q, events) = settle_job now out j (p_queue s)
          in s\<lparr>p_queue := q, p_isRunning := False, p_inflight := None,
               p_activeBackupJobs := p_activeBackupJobs s - backup_delta j,
               p_emitted := p_emitted s @ events\<rparr>)"

section \<open>Executions\<close>

text \<open>The jobs the program still has: the suspended one and the waiting ones.\<close>

definition proc_jobs :: "processor \<Rightarrow> job list" where
  "proc_jobs s = (case p_inflight s of None \<Rightarrow> [] | Some j \<Rightarrow> [j]) @ jq_queue (p_queue s)"

text \<open>
  The steps: a timer tick, the end of a task, additions (with an id not in use, as
  \<open>generateUID\<close> promises), removals and the start-up operations, in any order.
\<close>

inductive proc_step :: "int \<Rightarrow> processor \<Rightarrow> processor \<Rightarrow> bool" for maxb :: int where
  tick: "p_interval s \<Longrightarrow> proc_step maxb s (process_begin maxb now s)"
| settle: "p_inflight s \<noteq> None \<Longrightarrow> proc_step maxb s (process_end now out s)"
| enqueue: "uid \<notin> job_id ` set (proc_jobs s) \<Longrightarrow>
    proc_step maxb s (s\<lparr>p_queue := addJob uid name payload m d pri (p_queue s)\<rparr>)"
| cancel: "proc_step maxb s (s\<lparr>p_queue := snd (remove_job name planId (p_queue s))\<rparr>)"
| starting: "proc_step maxb s (start s)"
| stopping: "proc_step maxb s (stop s)"
| registering: "proc_step maxb s (addTask name s)"

inductive_cases proc_stepE: "proc_step maxb s t"

text \<open>
  Attempts left to a job: a job is run at least once, and again while its attempts are below
  \<open>maxAttempts\<close>.
\<close>

definition job_budget :: "job \<Rightarrow> nat" where
  "job_budget j = max 1 (job_maxAttempts j) - job_attempts j"

definition budget :: "processor \<Rightarrow> nat" where
  "budget s = sum_list (map job_budget (proc_jobs s))"

definition job_ok :: "job \<Rightarrow> bool" where
  "job_ok j \<longleftrightarrow> job_attempts j = 0 \<or> job_attempts j < job_maxAttempts j"

definition proc_inv :: "processor \<Rightarrow> bool" where
  "proc_inv s \<longleftrightarrow>
     (p_isRunning s \<longleftrightarrow> p_inflight s \<noteq> None) \<and>
     p_activeBackupJobs s = (case p_inflight s of None \<Rightarrow> 0 | Some j \<Rightarrow> backup_delta j) \<and>
     (\<forall>j. jq_running (p_queue s) = Some j \<longrightarrow> p_inflight s = Some j) \<and>
     list_all job_ok (proc_jobs s) \<and>
     distinct (map job_id (proc_jobs s))"

section \<open>The invariant\<close>

lemma job_ok_budget: "job_ok j \<Longrightarrow> 0 < job_budget j"
  by (auto simp: job_ok_def job_budget_def)

lemma failJob_budget:
  assumes "job_ok j" and "failJob now j q = (b, q')"
  shows "jq_running q' = None"
    and "\<exists>js. jq_queue q' = jq_queue q @ js \<and> list_all job_ok js \<and> length js \<le> 1 \<and>
           (b \<longleftrightarrow> js = []) \<and> set (map job_id js) \<subseteq> {job_id j} \<and>
           sum_list (map job_budget js) < job_budget j"
proof -
  show "jq_running q' = None"
    using assms(2) by (auto simp: failJob_def reQueue_def Let_def split: if_splits)
  show "\<exists>js. jq_queue q' = jq_queue q @ js \<and> list_all job_ok js \<and> length js \<le> 1 \<and>
          (b \<longleftrightarrow> js = []) \<and> set (map job_id js) \<subseteq> {job_id j} \<and>
          sum_list (map job_budget js) < job_budget j"
  proof (cases "Suc (job_attempts j) < job_maxAttempts j")
    case True
    with assms show ?thesis
      by (intro exI [of _ "[j\<lparr>job_attempts := Suc (job_attempts j), job_lastAttempt := now\<rparr>]"])
         (auto simp: failJob_def reQueue_def Let_def job_ok_def job_budget_def)
  next
    case False
    with assms show ?thesis
      by (auto simp: failJob_def Let_def job_ok_budget)
  qed
qed

lemma settle_job_effect:
  assumes "job_ok j" and "settle_job now out j q = (q', ev)"
  shows "jq_running q' = None"
    and "\<exists>js. jq_queue q' = jq_queue q @ js \<and> list_all job_ok js \<and> length js \<le> 1 \<and>
           set (map job_id js) \<subseteq> {job_id j} \<and> sum_list (map job_budget js) < job_budget j"
proof -
  note defs = settle_job_def Let_def completeJob_def
  have "jq_running q' = None \<and>
    (\<exists>js. jq_queue q' = jq_queue q @ js \<and> list_all job_ok js \<and> length js \<le> 1 \<and>
       set (map job_id js) \<subseteq> {job_id j} \<and> sum_list (map job_budget js) < job_budget j)"
  proof (cases "\<exists>b. failJob now j q = (b, q')")
    case True
    then show ?thesis using failJob_budget [OF assms(1)] by blast
  next
    case False
    with assms(2) have "q' = completeJob q"
      by (auto simp: settle_job_def Let_def split: task_outcome.splits if_splits prod.splits)
    then show ?thesis
      using job_ok_budget [OF assms(1)] jq.drop_law [of q]
      by (intro conjI exI [of _ "[]"]) auto
  qed
  then show "jq_running q' = None"
    and "\<exists>js. jq_queue q' = jq_queue q @ js \<and> list_all job_ok js \<and> length js \<le> 1 \<and>
           set (map job_id js) \<subseteq> {job_id j} \<and> sum_list (map job_budget js) < job_budget j"
    by blast+
qed

lemma distinct_one_more:
  "distinct (map f (j # xs)) \<Longrightarrow> length js \<le> 1 \<Longrightarrow> set (map f js) \<subseteq> {f j} \<Longrightarrow>
   distinct (map f (xs @ js))"
  by (cases js) auto

lemma process_end_inv:
  assumes "proc_inv s" and "p_inflight s = Some j"
  shows "proc_inv (process_end now out s) \<and> budget (process_end now out s) < budget s"
proof -
  obtain q ev where st: "settle_job now out j (p_queue s) = (q, ev)" by fastforce
  from assms have jobs: "proc_jobs s = j # jq_queue (p_queue s)" and ok: "job_ok j"
    by (auto simp: proc_inv_def proc_jobs_def)
  from settle_job_effect [OF ok st] obtain js where
    run: "jq_running q = None" and js: "jq_queue q = jq_queue (p_queue s) @ js"
      "list_all job_ok js" "length js \<le> 1" "set (map job_id js) \<subseteq> {job_id j}"
      "sum_list (map job_budget js) < job_budget j" by blast
  have "distinct (map job_id (jq_queue (p_queue s) @ js))"
    using assms(1) js(3,4) by (intro distinct_one_more [of _ j]) (auto simp: proc_inv_def jobs)
  with assms jobs run js st show ?thesis
    by (auto simp: proc_inv_def process_end_def proc_jobs_def budget_def)
qed

lemma proc_idle_queue: "proc_inv s \<Longrightarrow> \<not> p_isRunning s \<Longrightarrow> jq_running (p_queue s) = None"
  by (auto simp: proc_inv_def)

text \<open>
  What a tick does, by cases: nothing, the same queue (limit reached), the queue rotated
  (retry delay), the head job failed for want of a task, or the head job started.
\<close>

lemma process_begin_cases:
  assumes "proc_inv s"
  obtains (same) "process_begin maxb now s = s"
  | (front) q where "process_begin maxb now s = s\<lparr>p_queue := q\<rparr>"
      "jq_queue q = jq_queue (p_queue s)" "jq_running q = None" "\<not> p_isRunning s"
  | (rotate) q where "process_begin maxb now s = s\<lparr>p_queue := q\<rparr>"
      "jq_queue q = rotate1 (jq_queue (p_queue s))" "jq_running q = None" "\<not> p_isRunning s"
  | (untasked) j js q q' b where "jq_queue (p_queue s) = j # js" "jq_queue q = js"
      "failJob now j q = (b, q')" "process_begin maxb now s = s\<lparr>p_queue := q'\<rparr>"
      "\<not> p_isRunning s" "job_name j \<notin> set (p_tasks s)"
  | (begin_task) j js q where "jq_queue (p_queue s) = j # js" "jq_queue q = js" "jq_running q = Some j"
      "process_begin maxb now s = s\<lparr>p_queue := q, p_isRunning := True, p_inflight := Some j,
         p_activeBackupJobs := p_activeBackupJobs s + backup_delta j\<rparr>"
      "\<not> p_isRunning s" "job_name j \<in> set (p_tasks s)"
proof (cases "p_isRunning s \<or> getNext (p_queue s) = None")
  case True
  then have "process_begin maxb now s = s" by (auto simp: process_begin_def)
  then show ?thesis by (rule same)
next
  case False
  then obtain j q where nx: "getNext (p_queue s) = Some (j, q)" and idle: "\<not> p_isRunning s" by auto
  note tk = jq.take_Some [OF nx]
  obtain b q' where fj: "failJob now j q = (b, q')" by fastforce
  let ?limit = "job_name j = ''Backup'' \<and> p_activeBackupJobs s \<ge> maxb"
  let ?early = "job_lastAttempt j \<noteq> 0 \<and> now - job_lastAttempt j < job_retryDelay j"
  consider (1) ?limit | (2) "\<not> ?limit" ?early
    | (3) "\<not> ?limit" "\<not> ?early" "job_name j \<notin> set (p_tasks s)"
    | (4) "\<not> ?limit" "\<not> ?early" "job_name j \<in> set (p_tasks s)" by blast
  then show ?thesis
  proof cases
    case 1
    with idle nx have "process_begin maxb now s = s\<lparr>p_queue := requeueAtFront j q\<rparr>"
      by (simp add: process_begin_def)
    with jq.take_front [OF nx] tk idle show ?thesis by (intro front) auto
  next
    case 2
    with idle nx have "process_begin maxb now s = s\<lparr>p_queue := reQueue j q\<rparr>"
      by (simp add: process_begin_def del: de_Morgan_conj)
    with jq.take_back [OF nx] idle show ?thesis by (intro rotate) auto
  next
    case 3
    with idle nx fj have "process_begin maxb now s = s\<lparr>p_queue := q'\<rparr>"
      by (simp add: process_begin_def del: de_Morgan_conj)
    with tk fj idle 3(3) show ?thesis by (intro untasked) auto
  next
    case 4
    with idle nx have "process_begin maxb now s = s\<lparr>p_queue := q, p_isRunning := True,
        p_inflight := Some j, p_activeBackupJobs := p_activeBackupJobs s + backup_delta j\<rparr>"
      by (simp add: process_begin_def del: de_Morgan_conj)
    with tk idle 4(3) show ?thesis by (intro begin_task) auto
  qed
qed

lemma process_begin_inv:
  assumes "proc_inv s"
  shows "proc_inv (process_begin maxb now s) \<and> budget (process_begin maxb now s) \<le> budget s"
  using assms
proof (cases rule: process_begin_cases [of s maxb now])
  case same
  with assms show ?thesis by simp
next
  case (front q)
  with assms show ?thesis by (auto simp: proc_inv_def proc_jobs_def budget_def)
next
  case (rotate q)
  have "mset (rotate1 xs) = mset xs" for xs :: "job list" by (cases xs) auto
  then have "sum_list (map job_budget (rotate1 (jq_queue (p_queue s)))) =
      sum_list (map job_budget (jq_queue (p_queue s)))"
    by (metis mset_map sum_mset_sum_list)
  with rotate assms show ?thesis
    by (auto simp: proc_inv_def proc_jobs_def budget_def list_all_iff rotate1_map [symmetric])
next
  case (untasked j js q q' b)
  from untasked assms have idle: "p_inflight s = None" and ok: "job_ok j"
    by (auto simp: proc_inv_def proc_jobs_def)
  from failJob_budget [OF ok untasked(3)] obtain ks where
    run: "jq_running q' = None" and ks: "jq_queue q' = jq_queue q @ ks" "list_all job_ok ks"
      "length ks \<le> 1" "set (map job_id ks) \<subseteq> {job_id j}"
      "sum_list (map job_budget ks) < job_budget j" by blast
  have "distinct (map job_id (js @ ks))"
    using assms ks(3,4) untasked(1) idle
    by (intro distinct_one_more [of _ j]) (auto simp: proc_inv_def proc_jobs_def)
  with untasked assms idle run ks show ?thesis
    by (auto simp: proc_inv_def proc_jobs_def budget_def)
next
  case (begin_task j js q)
  with assms show ?thesis by (auto simp: proc_inv_def proc_jobs_def budget_def)
qed

lemma addJob_jobs:
  "jq_running (addJob uid name payload m d pri q) = jq_running q \<and>
   (addJob uid name payload m d pri q = q \<or>
    (\<exists>j. job_id j = uid \<and> job_ok j \<and>
       (jq_queue (addJob uid name payload m d pri q) = j # jq_queue q \<or>
        jq_queue (addJob uid name payload m d pri q) = jq_queue q @ [j])))"
  by (auto simp: addJob_def Let_def job_ok_def
      intro!: exI [of _ "\<lparr>job_id = uid, job_name = name, job_payload = payload_or_empty payload,
        job_attempts = 0, job_maxAttempts = m, job_retryDelay = d, job_lastAttempt = 0\<rparr>"])

lemma enqueue_inv:
  assumes "proc_inv s" and "uid \<notin> job_id ` set (proc_jobs s)"
  shows "proc_inv (s\<lparr>p_queue := addJob uid name payload m d pri (p_queue s)\<rparr>)"
  using assms addJob_jobs [of uid name payload m d pri "p_queue s"]
  by (auto simp: proc_inv_def proc_jobs_def split: option.splits)

lemma distinct_map_filter_append:
  "distinct (map f (xs @ ys)) \<Longrightarrow> distinct (map f (xs @ filter P ys))"
  by (auto simp: distinct_map_filter)

lemma cancel_inv:
  assumes "proc_inv s"
  shows "proc_inv (s\<lparr>p_queue := snd (remove_job name planId (p_queue s))\<rparr>)"
proof -
  have "distinct (map job_id (proc_jobs (s\<lparr>p_queue := snd (remove_job name planId (p_queue s))\<rparr>)))"
    using assms distinct_map_filter_append [of job_id "case p_inflight s of None \<Rightarrow> [] | Some j \<Rightarrow> [j]"]
    by (simp add: proc_inv_def proc_jobs_def remove_job_def Let_def)
  with assms show ?thesis
    by (auto simp: proc_inv_def proc_jobs_def remove_job_def Let_def list_all_iff)
qed

lemma proc_step_inv:
  assumes "proc_inv s" and "proc_step maxb s t"
  shows "proc_inv t"
  using assms(2)
proof cases
  case (tick now)
  with assms(1) show ?thesis using process_begin_inv by simp
next
  case (settle now out)
  with assms(1) show ?thesis using process_end_inv by auto
next
  case (enqueue uid name payload m d pri)
  with assms(1) show ?thesis using enqueue_inv by simp
next
  case (cancel name planId)
  with assms(1) show ?thesis using cancel_inv by simp
qed (use assms(1) in \<open>auto simp: proc_inv_def proc_jobs_def start_def stop_def addTask_def set_task_def\<close>)

interpretation processor_runs: invariant_system "\<lambda>s. s = fresh_processor" "proc_step maxb" proc_inv
proof
  fix s assume "s = fresh_processor"
  then show "proc_inv s"
    by (simp add: proc_inv_def fresh_processor_def empty_queue_def proc_jobs_def)
next
  fix s t assume "proc_inv s" "proc_step maxb s t"
  then show "proc_inv t" by (rule proc_step_inv)
qed

section \<open>Runs without additions\<close>

text \<open>
  A run in which nothing is added, with the number of task executions that ended in it.
\<close>

inductive work_run :: "int \<Rightarrow> processor \<Rightarrow> nat \<Rightarrow> processor \<Rightarrow> bool" for maxb :: int where
  run_refl: "work_run maxb s 0 s"
| run_tick: "work_run maxb s n t \<Longrightarrow> work_run maxb s n (process_begin maxb now t)"
| run_settle: "work_run maxb s n t \<Longrightarrow> p_inflight t \<noteq> None \<Longrightarrow>
    work_run maxb s (Suc n) (process_end now out t)"

lemma work_run_budget:
  "work_run maxb s n t \<Longrightarrow> proc_inv s \<Longrightarrow> proc_inv t \<and> n + budget t \<le> budget s"
proof (induction rule: work_run.induct)
  case (run_refl s)
  then show ?case by simp
next
  case (run_tick s n t now)
  then show ?case using process_begin_inv [of t maxb now] by auto
next
  case (run_settle s n t now out)
  then obtain j where "p_inflight t = Some j" by auto
  with run_settle show ?case using process_end_inv [of t j now out] by auto
qed

section \<open>Properties of the processor\<close>

text \<open>
  in every execution at most one task runs at a time.  The backup counter is 1 exactly
  while the running job is a backup and 0 otherwise, so it never drifts or goes negative; the job the
  queue has handed out is the running one; and no job is held twice (ids stay distinct).
\<close>

theorem processor_single_flight:
  assumes "reachable (\<lambda>s. s = fresh_processor) (proc_step maxb) s"
  shows "(p_isRunning s \<longleftrightarrow> p_inflight s \<noteq> None) \<and>
     p_activeBackupJobs s =
       (if \<exists>j. p_inflight s = Some j \<and> job_name j = ''Backup'' then 1 else 0) \<and>
     (\<forall>j. jq_running (p_queue s) = Some j \<longrightarrow> p_inflight s = Some j) \<and>
     distinct (map job_id (proc_jobs s))"
  using processor_runs.reachable_inv [OF assms]
  by (auto simp: proc_inv_def backup_delta_def split: option.splits)

definition demo_processor :: processor where
  "demo_processor =
     process_begin 2 5
       (start (addTask ''Backup''
          (fresh_processor\<lparr>p_queue :=
             addJob ''u1'' ''Backup'' (Some (JObj [(''planId'', JStr ''p'')])) 3 60000 False
               empty_queue\<rparr>)))"

definition demo_job :: job where
  "demo_job = \<lparr>job_id = ''u1'', job_name = ''Backup'',
      job_payload = JObj [(''planId'', JStr ''p'')], job_attempts = 0, job_maxAttempts = 3,
      job_retryDelay = 60000, job_lastAttempt = 0\<rparr>"

lemma demo_inflight: "p_inflight demo_processor = Some demo_job"
  by (simp add: demo_processor_def process_begin_def start_def addTask_def set_task_def
      fresh_processor_def addJob_def empty_queue_def getNext_def same_job_def
      payload_or_empty_def demo_job_def)

definition demo_restore_job :: job where
  "demo_restore_job = \<lparr>job_id = ''u'', job_name = ''Restore'', job_payload = JObj [],
      job_attempts = 0, job_maxAttempts = 2, job_retryDelay = 60000, job_lastAttempt = 0\<rparr>"

lemma demo_restore_queue:
  "add ''u'' ''Restore'' None 2 60000 empty_queue =
     \<lparr>jq_queue = [demo_restore_job], jq_running = None\<rparr>"
  by (simp add: add_def addJob_def empty_queue_def payload_or_empty_def demo_restore_job_def)

lemma demo_restore_inv:
  "proc_inv (fresh_processor\<lparr>p_queue := \<lparr>jq_queue = [demo_restore_job], jq_running = None\<rparr>,
     p_tasks := ts\<rparr>)"
  by (simp add: proc_inv_def proc_jobs_def job_ok_def fresh_processor_def demo_restore_job_def)

lemma demo_processor_reachable:
  "reachable (\<lambda>s. s = fresh_processor) (proc_step 2) demo_processor"
proof -
  let ?s1 = "fresh_processor\<lparr>p_queue :=
      addJob ''u1'' ''Backup'' (Some (JObj [(''planId'', JStr ''p'')])) 3 60000 False
        (p_queue fresh_processor)\<rparr>"
  have "reachable (\<lambda>s. s = fresh_processor) (proc_step 2) ?s1"
    by (rule reach_step [OF reach_init], rule refl, rule enqueue)
       (simp add: fresh_processor_def proc_jobs_def empty_queue_def)
  then have "reachable (\<lambda>s. s = fresh_processor) (proc_step 2) (start (addTask ''Backup'' ?s1))"
    by (meson reach_step registering starting)
  moreover have "p_interval (start (addTask ''Backup'' ?s1))"
    by (simp add: start_def addTask_def set_task_def fresh_processor_def)
  moreover have "demo_processor = process_begin 2 5 (start (addTask ''Backup'' ?s1))"
    by (simp add: demo_processor_def fresh_processor_def)
  ultimately show ?thesis
    using tick [of "start (addTask ''Backup'' ?s1)" 2 5] by (simp add: reach_step)
qed

theorem processor_single_flight_witness:
  "p_isRunning demo_processor \<and> p_activeBackupJobs demo_processor = 1"
proof -
  have "\<exists>j. p_inflight demo_processor = Some j \<and> job_name j = ''Backup''"
    by (simp add: demo_inflight demo_job_def)
  then show ?thesis
    using processor_single_flight [OF demo_processor_reachable] by auto
qed

text \<open>
  the limit \<open>MAX_CONCURRENT_BACKUPS\<close> never delays a job: with a positive limit, an idle processor
  always finds the number of active backups below it, so the concurrency branch is dead and
  a limit above one gives no concurrency.
\<close>

theorem backup_limit_never_reached:
  assumes "reachable (\<lambda>s. s = fresh_processor) (proc_step maxb) s"
    and "0 < maxb" and "\<not> p_isRunning s"
  shows "p_activeBackupJobs s < maxb \<and> p_activeBackupJobs s = 0"
  using processor_runs.reachable_inv [OF assms(1)] assms(2,3)
  by (auto simp: proc_inv_def)

theorem backup_limit_never_reached_witness:
  "p_activeBackupJobs (process_end 9 TaskDone demo_processor) < 2"
proof -
  have infl: "p_inflight demo_processor \<noteq> None" by (simp add: demo_inflight)
  have "reachable (\<lambda>s. s = fresh_processor) (proc_step 2) (process_end 9 TaskDone demo_processor)"
    by (rule reach_step [OF demo_processor_reachable settle [OF infl]])
  moreover have "\<not> p_isRunning (process_end 9 TaskDone demo_processor)"
    using infl by (auto simp: process_end_def settle_job_def)
  ultimately show ?thesis
    using backup_limit_never_reached [of 2 "process_end 9 TaskDone demo_processor"] by simp
qed

text \<open>
  C29: retries are bounded.  In a run without additions the number of finished task executions is
  at most the attempts the queued jobs have left (each job's \<open>maxAttempts\<close>, at least one), whatever
  the tasks' outcomes: the processor cannot loop on failing jobs.
\<close>

theorem retries_bounded:
  assumes "reachable (\<lambda>s. s = fresh_processor) (proc_step maxb) s"
    and "work_run maxb s n t"
  shows "n \<le> (\<Sum>j\<leftarrow>proc_jobs s. max 1 (job_maxAttempts j))"
proof -
  have "n \<le> budget s"
    using work_run_budget [OF assms(2) processor_runs.reachable_inv [OF assms(1)]] by simp
  also have "budget s \<le> (\<Sum>j\<leftarrow>proc_jobs s. max 1 (job_maxAttempts j))"
    unfolding budget_def by (rule sum_list_mono) (simp add: job_budget_def)
  finally show ?thesis .
qed

theorem retries_bounded_witness:
  "(1::nat) \<le> (\<Sum>j\<leftarrow>proc_jobs demo_processor. max 1 (job_maxAttempts j))"
proof (rule retries_bounded [OF demo_processor_reachable])
  have "p_inflight demo_processor \<noteq> None" by (simp add: demo_inflight)
  then show "work_run 2 demo_processor 1 (process_end 9 TaskDone demo_processor)"
    using run_settle [OF run_refl, of demo_processor 2 9 TaskDone] by simp
qed

text \<open>
  how a finished task settles.  Success and user cancellation drop the job without an event;
  a non-retryable error drops it and emits one failure event; any other error re-queues the job
  with one more attempt, or, when the attempts are used up, drops it and emits one event.  In
  every case the queue is freed and the waiting jobs keep their order.
\<close>

theorem settle_job_spec:
  "settle_job now out j q =
    (let failed = [(to_lower (job_name j) @ ''_failed'', job_payload j,
                    case out of TaskThrew msg r \<Rightarrow>
                      (if msg = [] then ''Unknown error after multiple retries.'' else msg)
                    | TaskDone \<Rightarrow> [])];
         dropped = \<lparr>jq_queue = jq_queue q, jq_running = None\<rparr>
     in case out of
          TaskDone \<Rightarrow> (dropped, [])
        | TaskThrew msg r \<Rightarrow>
            if is_cancellation msg then (dropped, [])
            else if r = Some False \<or> job_maxAttempts j \<le> Suc (job_attempts j)
            then (dropped, failed)
            else (\<lparr>jq_queue = jq_queue q @
                      [j\<lparr>job_attempts := Suc (job_attempts j), job_lastAttempt := now\<rparr>],
                   jq_running = None\<rparr>, []))"
  by (cases q) (auto simp: settle_job_def completeJob_def failJob_def reQueue_def Let_def
      split: task_outcome.splits)

text \<open>
  progress.  A tick of an idle processor whose head job has a registered task, is due and is
  within the backup limit starts exactly that job.
\<close>

theorem idle_tick_starts_head:
  assumes "proc_inv s" and "\<not> p_isRunning s" and "jq_queue (p_queue s) = j # js"
    and "job_name j \<in> set (p_tasks s)"
    and "job_lastAttempt j = 0 \<or> job_retryDelay j \<le> now - job_lastAttempt j" and "0 < maxb"
  shows "p_inflight (process_begin maxb now s) = Some j \<and>
         jq_queue (p_queue (process_begin maxb now s)) = js \<and>
         p_isRunning (process_begin maxb now s)"
proof -
  obtain q where nx: "getNext (p_queue s) = Some (j, q)"
    using jq.idle_take [of "p_queue s"] proc_idle_queue assms(1,2,3) by auto
  have "p_activeBackupJobs s = 0" using assms(1,2) by (auto simp: proc_inv_def)
  with assms nx jq.take_Some [OF nx] show ?thesis by (auto simp: process_begin_def)
qed

theorem idle_tick_starts_head_witness:
  "\<exists>j. p_inflight (process_begin 1 7
      (fresh_processor\<lparr>p_queue := add ''u'' ''Restore'' None 2 60000 empty_queue,
         p_tasks := [''Restore'']\<rparr>)) = Some j"
  unfolding demo_restore_queue
  using idle_tick_starts_head [OF demo_restore_inv [of "[''Restore'']"], of demo_restore_job "[]" 7 1]
  by (simp add: fresh_processor_def demo_restore_job_def)

text \<open>
  a job whose task is not registered is not failed permanently: as long as attempts are
  left it goes back to the end of the queue, counted as one failed attempt.
\<close>

theorem unregistered_task_is_requeued:
  assumes "proc_inv s" and "\<not> p_isRunning s" and "jq_queue (p_queue s) = j # js"
    and "job_name j \<notin> set (p_tasks s)" and "job_lastAttempt j = 0"
    and "Suc (job_attempts j) < job_maxAttempts j" and "0 < maxb"
  shows "jq_queue (p_queue (process_begin maxb now s)) =
           js @ [j\<lparr>job_attempts := Suc (job_attempts j), job_lastAttempt := now\<rparr>] \<and>
         p_emitted (process_begin maxb now s) = p_emitted s"
proof -
  obtain q where nx: "getNext (p_queue s) = Some (j, q)"
    using jq.idle_take [of "p_queue s"] proc_idle_queue assms(1,2,3) by auto
  have "p_activeBackupJobs s = 0" using assms(1,2) by (auto simp: proc_inv_def)
  with assms nx jq.take_Some [OF nx] show ?thesis
    by (auto simp: process_begin_def failJob_def reQueue_def Let_def)
qed

theorem unregistered_task_is_requeued_witness:
  "length (jq_queue (p_queue (process_begin 1 7
      (fresh_processor\<lparr>p_queue := add ''u'' ''Restore'' None 2 60000 empty_queue\<rparr>)))) = 1"
  unfolding demo_restore_queue
  using unregistered_task_is_requeued [OF demo_restore_inv [of "p_tasks fresh_processor"],
      of demo_restore_job "[]" 1 7]
  by (simp add: fresh_processor_def demo_restore_job_def)

text \<open>
  removing a job while its task runs frees the queue but does not stop a retry: when the
  running task then fails with a retryable error and attempts are left, the removed job is
  queued again.
\<close>

theorem removed_running_job_returns:
  assumes "proc_inv s" and "p_inflight s = Some j" and "job_for_plan name planId j"
    and "\<not> is_cancellation msg" and "Suc (job_attempts j) < job_maxAttempts j"
  shows "let t = s\<lparr>p_queue := snd (remove_job name planId (p_queue s))\<rparr>
         in \<not> hasPendingForPlan name planId (p_queue t) \<and>
            hasPendingForPlan name planId (p_queue (process_end now (TaskThrew msg None) t))"
  using assms
  by (auto simp: Let_def process_end_def settle_job_def failJob_def reQueue_def remove_job_def
      hasPendingForPlan_def job_for_plan_def list_ex_iff split: option.splits)

theorem removed_running_job_returns_witness:
  "hasPendingForPlan ''Backup'' ''p''
     (p_queue (process_end 9 (TaskThrew ''io'' None)
        (demo_processor\<lparr>p_queue := snd (remove_job ''Backup'' ''p'' (p_queue demo_processor))\<rparr>)))"
proof -
  have "\<not> is_cancellation ''io''" by (simp add: is_cancellation_def starts_with_def)
  then show ?thesis
    using removed_running_job_returns [OF _ demo_inflight, of "''Backup''" "''p''" "''io''" 9]
      processor_runs.reachable_inv [OF demo_processor_reachable]
    by (simp add: job_for_plan_def Let_def demo_job_def)
qed

end
