(* ===== verification/Pluton_Database.thy ===== *)
theory Pluton_Database
  imports Pluton_Prelude
begin

text \<open>
  The SQLite schema the stores share (\<open>backend/src/db/schema/*.ts\<close> and the migrations under
  \<open>backend/drizzle\<close>): one record per row type and one record \<open>pdb\<close> for the database.  A table is
  the list of its rows in \<open>rowid\<close> order.  JSON columns are their decoded values, nullable columns
  are options, enumerated text columns are datatypes.  Columns that no modelled operation reads or
  writes are left out.  The last section holds the triggers on \<open>recovery_tests\<close>.
  Every store operation runs in one transaction (or is a single statement): it maps the database
  before it to an error, which rolls back, or to its result and the database after it.
\<close>

section \<open>Plans, backups, repositories\<close>

record replica_ref =
  rr_replicationId :: string
  rr_storageId :: "string option"
  rr_storagePath :: "string option"

text \<open>A database entry of \<open>settings.remoteLifecycle\<close>: host, port and engine.\<close>

record source_database =
  sd_host :: string
  sd_port :: "int option"
  sd_engine :: string

record plan_row =
  pl_id :: string
  pl_title :: string
  pl_storageId :: "string option"
  pl_storagePath :: "string option"
  pl_method :: string
  pl_sourceType :: string
  pl_sourceId :: string
  pl_replicationEnabled :: bool
  pl_replicas :: "replica_ref list"
  pl_databases :: "source_database list"

text \<open>A mirror of a backup: its replication, its status and where it is stored.\<close>

record mirror_ref =
  mr_replicationId :: string
  mr_status :: string
  mr_storageId :: "string option"
  mr_storagePath :: "string option"

record backup_row =
  bk_id :: string
  bk_planId :: "string option"
  bk_status :: "string option"
  bk_inProgress :: "bool option"
  bk_success :: "bool option"
  bk_method :: string
  bk_sourceType :: string
  bk_sourceId :: string
  bk_storageId :: "string option"
  bk_storagePath :: "string option"
  bk_encryption :: "bool option"
  bk_ended :: "int option"
  bk_snapshot :: "string option"
  bk_warnings :: nat
  bk_mirrors :: "mirror_ref list"

text \<open>A storage; its settings and (encrypted) credentials only reach the injected security functions.\<close>

record storage_row =
  st_id :: string
  st_name :: string
  st_type :: "string option"
  st_defaultPath :: "string option"
  st_settings :: json
  st_credentials :: json

record repo_row =
  rp_id :: string
  rp_planId :: string
  rp_agentId :: string
  rp_storageId :: string
  rp_storagePath :: string
  rp_initializedAt :: "int option"

record agent_row =
  ag_agentId :: string
  ag_deviceId :: string
  ag_revokedAt :: "int option"

section \<open>Recovery tests\<close>

datatype engine = Mariadb | Mysql | Postgresql

datatype recovery_status =
    RQueued | RRunning | RPassed | RFailed | RCancelled | RPassedWithWarning

datatype import_mode = ImportDisabled | ImportRequired

datatype target_mode = ModeInternal | ModeCustom

datatype tls_mode = TlsLocal | TlsVerifyIdentity

record recovery_policy =
  rpo_enabled :: bool
  rpo_databaseImport :: import_mode
  rpo_enabledAt :: "int option"
  rpo_targetModes :: "(engine \<times> target_mode) list option"
  rpo_snapshotMetadataToken :: "string option"

text \<open>\<open>result.cleanup\<close>: workspace, databases and (if present) infrastructure.\<close>

record recovery_result =
  rr_workspace :: bool
  rr_databases :: bool
  rr_infrastructure :: "bool option"

record recovery_test =
  rt_id :: string
  rt_planId :: string
  rt_backupId :: string
  rt_repositoryId :: string
  rt_snapshotId :: string
  rt_status :: recovery_status
  rt_automationKey :: "string option"
  rt_policy :: recovery_policy
  rt_createdAt :: int
  rt_startedAt :: "int option"
  rt_completedAt :: "int option"
  rt_result :: "recovery_result option"
  rt_stage :: "string option"
  rt_failureStage :: "string option"
  rt_failureCode :: "string option"
  rt_warnings :: "(string \<times> string) list"
  rt_cancelRequested :: bool

record target_config =
  tc_engine :: engine
  tc_host :: string
  tc_port :: int
  tc_username :: string
  tc_tls :: tls_mode
  tc_enabled :: bool

record target_row =
  tg_id :: string
  tg_planId :: string
  tg_config :: target_config
  tg_encryptedPassword :: string

record import_lease =
  il_id :: string
  il_testId :: string
  il_targetId :: string
  il_database :: string
  il_ownerToken :: string

record internal_session =
  is_id :: string
  is_testId :: string
  is_engine :: engine
  is_installationId :: string
  is_activationId :: string
  is_config :: target_config
  is_encryptedPassword :: string
  is_caSha256 :: string
  is_cleanupReady :: bool
  is_releasedAt :: "int option"

section \<open>Persistent database restores and the lifecycle mailbox\<close>

datatype restore_status =
    DProvisioning | DQueued | DImporting | DActive | DStopped | DExpired | DDeleting
  | DCleanupRequired | DDeleted | DFailed | DCancelled

datatype restore_cleanup =
    CNone | CRequested | CDatabaseRemoved | CInfrastructurePending | CVerified | CUncertain

text \<open>\<open>RecoveryDatabaseResult\<close>: the database artifact of a snapshot; its validation outcomes are left out.\<close>

record recovery_database =
  rd_databaseId :: "string option"
  rd_engine :: "engine option"
  rd_database :: "string option"
  rd_path :: string
  rd_bytes :: int
  rd_sha256 :: string

record restore_row =
  dr_id :: string
  dr_owner :: string
  dr_purpose :: string
  dr_planId :: string
  dr_repositoryId :: string
  dr_backupId :: string
  dr_snapshotId :: string
  dr_databaseId :: string
  dr_artifact :: recovery_database
  dr_metadataToken :: string
  dr_mode :: target_mode
  dr_targetId :: string
  dr_targetFingerprint :: "string option"
  dr_encryptedApproval :: "string option"
  dr_ownerToken :: string
  dr_database :: "string option"
  dr_status :: restore_status
  dr_stage :: string
  dr_cleanup :: restore_cleanup
  dr_createdAt :: int
  dr_startedAt :: "int option"
  dr_completedAt :: "int option"
  dr_failureStage :: "string option"
  dr_failureCode :: "string option"
  dr_expiresAt :: int
  dr_ttlSeconds :: int
  dr_lastValidatedAt :: "int option"
  dr_inspection :: "json option"
  dr_errorCode :: "string option"
  dr_cancelRequested :: bool

datatype lease_state = LIntended | LCreated | LValidated

record restore_lease =
  dl_restoreId :: string
  dl_targetId :: string
  dl_database :: string
  dl_ownerToken :: string
  dl_state :: lease_state

datatype lifecycle_mode = LPersistent | LDisposable

datatype lifecycle_action = AProvision | AInspect | AStop | AResume | ADelete

datatype lifecycle_state =
    SRequested | SCheckingResources | SProvisioningContainer | SStartingDatabase | SReady
  | SStopped | SCleaningUp | SRemoved | SCleanupRequired

record artifact_binding =
  ab_databaseId :: string
  ab_database :: string
  ab_sha256 :: string
  ab_bytes :: int

record lifecycle_binding =
  lb_id :: string
  lb_mode :: lifecycle_mode
  lb_engine :: engine
  lb_snapshotId :: string
  lb_artifacts :: "artifact_binding list"
  lb_createdAt :: int
  lb_expiresAt :: int

record lifecycle_row =
  lr_id :: string
  lr_mode :: lifecycle_mode
  lr_binding :: lifecycle_binding
  lr_ownerToken :: string
  lr_action :: lifecycle_action
  lr_state :: lifecycle_state
  lr_code :: "string option"
  lr_observedSequence :: int
  lr_resumeSequence :: int
  lr_createdAt :: int
  lr_updatedAt :: int

section \<open>Notifications\<close>

datatype source_kind = KBackup | KRecovery

record source_row =
  so_id :: nat
  so_kind :: source_kind
  so_jobId :: string
  so_ready :: bool

datatype channel_kind = Webhook | Smtp

record channel_row =
  ch_id :: string
  ch_name :: string
  ch_kind :: channel_kind
  ch_enabled :: bool
  ch_deleted :: bool
  ch_events :: "string list"
  ch_username :: string
  ch_encryptedSecret :: "string option"
  ch_revision :: nat
  ch_sourceFloor :: nat
  ch_createdAt :: int
  ch_updatedAt :: int

record subscription_row =
  su_planId :: string
  su_enabled :: bool
  su_channelIds :: "string list"
  su_events :: "string list"
  su_sourceFloor :: nat

record event_row =
  ev_id :: string
  ev_logicalKey :: string
  ev_type :: string
  ev_planId :: "string option"
  ev_createdAt :: int

datatype delivery_status = NPending | NSending | NSucceeded | NFailed

record delivery_row =
  de_id :: string
  de_eventId :: string
  de_channelId :: string
  de_channelName :: string
  de_kind :: channel_kind
  de_revision :: nat
  de_status :: delivery_status
  de_attemptCount :: nat
  de_cycleAttempts :: nat
  de_manualRetries :: nat
  de_createdAt :: int
  de_lastAttemptAt :: "int option"
  de_nextAttemptAt :: "int option"
  de_completedAt :: "int option"
  de_leaseUntil :: "int option"
  de_leaseOwner :: "string option"
  de_errorCode :: "string option"
  de_httpStatus :: "int option"

section \<open>Managed replication and export reservations\<close>

datatype init_state = IUninitialized | IInitializing | IReady | IUncertain | IDetached

record destination_row =
  ds_fingerprint :: string
  ds_planId :: string
  ds_replicationId :: string
  ds_sourceRepositoryId :: string
  ds_storageId :: string
  ds_storagePath :: string
  ds_authority :: string
  ds_prefix :: string
  ds_initState :: init_state
  ds_actualRepositoryId :: "string option"
  ds_createdAt :: int

datatype replication_status =
    JPending | JRunning | JCompleted | JFailed | JUncertain | JCancelled

text \<open>The columns of \<open>ManagedReplicationEnqueue\<close>, which no later operation changes.\<close>

record replication_binding =
  rb_id :: string
  rb_backupId :: string
  rb_planId :: string
  rb_repositoryId :: string
  rb_agentId :: string
  rb_sourceStorageId :: string
  rb_sourceStoragePath :: string
  rb_sourceSnapshotId :: string
  rb_sourceRepositoryConfigId :: string
  rb_sourceTreeId :: string
  rb_sourceBindingHash :: string
  rb_replicationId :: string
  rb_destinationStorageId :: string
  rb_destinationStoragePath :: string
  rb_destinationFingerprint :: string
  rb_createdAt :: int

record replication_job =
  rj_binding :: replication_binding
  rj_destinationSnapshotId :: "string option"
  rj_status :: replication_status
  rj_ownerToken :: "string option"
  rj_attempts :: nat
  rj_lastErrorCode :: "string option"
  rj_updatedAt :: int
  rj_verifiedAt :: "int option"

record scope =
  sc_authority :: string
  sc_prefix :: string

text \<open>A retained repository of a removed plan, and a storage configuration edit in progress.\<close>

record retained_row =
  rm_id :: string
  rm_storageId :: string
  rm_storagePath :: string

record storage_edit =
  se_storageId :: string
  se_remoteName :: string
  se_authorities :: "string list"

text \<open>A reference of the code to a place on a storage: \<open>{ storageId, storagePath }\<close>.\<close>

record place =
  pc_storageId :: "string option"
  pc_storagePath :: "string option"

section \<open>The database\<close>

record pdb =
  t_plans :: "plan_row list"
  t_backups :: "backup_row list"
  t_restoresInProgress :: "bool list"
  t_repositories :: "repo_row list"
  t_agents :: "agent_row list"
  t_recoveryTests :: "recovery_test list"
  t_recoveryPolicies :: "(string \<times> recovery_policy) list"
  t_recoveryTargets :: "target_row list"
  t_recoveryLeases :: "import_lease list"
  t_internalSessions :: "internal_session list"
  t_internalLeases :: "import_lease list"
  t_dbRestores :: "restore_row list"
  t_dbRestoreLeases :: "restore_lease list"
  t_lifecycle :: "lifecycle_row list"
  t_sources :: "source_row list"
  t_sourceSeq :: nat
  t_observed :: "(nat \<times> string) list"
  t_channels :: "channel_row list"
  t_subscriptions :: "subscription_row list"
  t_events :: "event_row list"
  t_deliveries :: "delivery_row list"
  t_destinations :: "destination_row list"
  t_replicationJobs :: "replication_job list"
  t_storages :: "storage_row list"
  t_retained :: "retained_row list"
  t_selfBackups :: "place list"
  t_legacyBackends :: "string list"
  t_exportInitialized :: bool
  t_reservations :: "scope list"
  t_storageEdits :: "storage_edit list"

definition empty_db :: pdb where
  "empty_db =
     \<lparr>t_plans = [], t_backups = [], t_restoresInProgress = [], t_repositories = [], t_agents = [],
      t_recoveryTests = [], t_recoveryPolicies = [], t_recoveryTargets = [], t_recoveryLeases = [],
      t_internalSessions = [], t_internalLeases = [], t_dbRestores = [], t_dbRestoreLeases = [],
      t_lifecycle = [], t_sources = [], t_sourceSeq = 0, t_observed = [], t_channels = [],
      t_subscriptions = [], t_events = [], t_deliveries = [], t_destinations = [],
      t_replicationJobs = [], t_storages = [], t_retained = [], t_selfBackups = [],
      t_legacyBackends = [], t_exportInitialized = False, t_reservations = [], t_storageEdits = []\<rparr>"

definition plan_exists :: "string \<Rightarrow> pdb \<Rightarrow> bool" where
  "plan_exists planId db \<longleftrightarrow> list_ex (\<lambda>p. pl_id p = planId) (t_plans db)"

section \<open>Triggers on \<open>recovery_tests\<close>\<close>

text \<open>The terminal statuses of a recovery test, and the active ones.\<close>

definition recovery_terminal :: "recovery_status \<Rightarrow> bool" where
  "recovery_terminal st \<longleftrightarrow> st \<noteq> RQueued \<and> st \<noteq> RRunning"

abbreviation recovery_active :: "recovery_status \<Rightarrow> bool" where
  "recovery_active st \<equiv> \<not> recovery_terminal st"

text \<open>
  \<open>notification_recovery_created\<close>: an insert registers the test as a notification source
  (\<open>INSERT OR IGNORE\<close> over the unique pair of kind and job; ids are \<open>AUTOINCREMENT\<close>).
\<close>

definition register_source :: "source_kind \<Rightarrow> string \<Rightarrow> bool \<Rightarrow> pdb \<Rightarrow> pdb" where
  "register_source kind jobId ready db =
     (if list_ex (\<lambda>s. so_kind s = kind \<and> so_jobId s = jobId) (t_sources db) then db
      else db\<lparr>t_sources := t_sources db @
                [\<lparr>so_id = Suc (t_sourceSeq db), so_kind = kind, so_jobId = jobId, so_ready = ready\<rparr>],
              t_sourceSeq := Suc (t_sourceSeq db)\<rparr>)"

definition insert_recovery_test :: "recovery_test \<Rightarrow> pdb \<Rightarrow> pdb" where
  "insert_recovery_test row db =
     register_source KRecovery (rt_id row) (recovery_terminal (rt_status row))
       (db\<lparr>t_recoveryTests := t_recoveryTests db @ [row]\<rparr>)"

text \<open>
  \<open>notification_recovery_terminal\<close>: when an update changes a test's status to a terminal one,
  its source becomes ready.
\<close>

definition became_terminal :: "(recovery_test \<Rightarrow> bool) \<Rightarrow> (recovery_test \<Rightarrow> recovery_test) \<Rightarrow>
    recovery_test list \<Rightarrow> string list" where
  "became_terminal p f tests =
     map rt_id (filter (\<lambda>r. p r \<and> recovery_terminal (rt_status (f r)) \<and> rt_status (f r) \<noteq> rt_status r)
       tests)"

definition update_recovery_tests ::
  "(recovery_test \<Rightarrow> bool) \<Rightarrow> (recovery_test \<Rightarrow> recovery_test) \<Rightarrow> pdb \<Rightarrow> pdb" where
  "update_recovery_tests p f db =
     db\<lparr>t_recoveryTests := update_where p f (t_recoveryTests db),
        t_sources := update_where
          (\<lambda>s. so_kind s = KRecovery \<and> so_jobId s \<in> set (became_terminal p f (t_recoveryTests db)))
          (\<lambda>s. s\<lparr>so_ready := True\<rparr>) (t_sources db)\<rparr>"

lemma insert_recovery_test_frame [simp]:
  "t_recoveryTests (insert_recovery_test row db) = t_recoveryTests db @ [row]"
  "t_dbRestores (insert_recovery_test row db) = t_dbRestores db"
  "t_deliveries (insert_recovery_test row db) = t_deliveries db"
  "t_lifecycle (insert_recovery_test row db) = t_lifecycle db"
  "t_internalSessions (insert_recovery_test row db) = t_internalSessions db"
  "t_internalLeases (insert_recovery_test row db) = t_internalLeases db"
  "t_recoveryLeases (insert_recovery_test row db) = t_recoveryLeases db"
  by (simp_all add: insert_recovery_test_def register_source_def)

lemma update_recovery_tests_frame [simp]:
  "t_recoveryTests (update_recovery_tests p f db) = update_where p f (t_recoveryTests db)"
  "t_dbRestores (update_recovery_tests p f db) = t_dbRestores db"
  "t_deliveries (update_recovery_tests p f db) = t_deliveries db"
  "t_lifecycle (update_recovery_tests p f db) = t_lifecycle db"
  "t_internalSessions (update_recovery_tests p f db) = t_internalSessions db"
  "t_internalLeases (update_recovery_tests p f db) = t_internalLeases db"
  "t_recoveryLeases (update_recovery_tests p f db) = t_recoveryLeases db"
  by (simp_all add: update_recovery_tests_def)

end
