(* ===== verification/Notification_Store.thy ===== *)
theory Notification_Store
  imports Pluton_Database
begin

text \<open>
  The notification outbox (\<open>backend/src/stores/NotificationDeliveryStore.ts\<close>) and the worker that
  drains it (\<open>backend/src/notifications/NotificationDeliveryManager.ts\<close>).  One definition per store
  method.  The clock, the random ids and the cipher are arguments.  Event types and error codes are
  the source's strings.  The delivery transport is outside the model: its result is an argument of
  \<open>finish_delivery\<close>.
\<close>

section \<open>Channels and subscriptions\<close>

definition maxPending :: nat where "maxPending = 10000"
definition maxHistory :: nat where "maxHistory = 20000"

text \<open>\<open>SELECT COALESCE(MAX(id),0) FROM notification_sources\<close>\<close>

definition source_floor :: "pdb \<Rightarrow> nat" where
  "source_floor db = foldr max (map so_id (t_sources db)) 0"

definition channelRow :: "string \<Rightarrow> pdb \<Rightarrow> channel_row option" where
  "channelRow channelId db = row_by ch_id channelId (t_channels db)"

text \<open>What the API shows of a channel: never the secret, only whether there is one.\<close>

record channel_view =
  cv_id :: string
  cv_name :: string
  cv_kind :: channel_kind
  cv_enabled :: bool
  cv_deleted :: bool
  cv_events :: "string list"
  cv_revision :: nat
  cv_sourceFloor :: nat
  cv_secretConfigured :: bool

definition view :: "channel_row \<Rightarrow> channel_view" where
  "view r = \<lparr>cv_id = ch_id r, cv_name = ch_name r, cv_kind = ch_kind r, cv_enabled = ch_enabled r,
     cv_deleted = ch_deleted r, cv_events = ch_events r, cv_revision = ch_revision r,
     cv_sourceFloor = ch_sourceFloor r,
     cv_secretConfigured = (case ch_encryptedSecret r of None \<Rightarrow> False | Some s \<Rightarrow> s \<noteq> [])\<rparr>"

definition channels :: "pdb \<Rightarrow> channel_view list" where
  "channels db =
     map view (order_by (\<lambda>r. (ch_createdAt r, ch_id r)) (filter (\<lambda>r. \<not> ch_deleted r) (t_channels db)))"

definition channel :: "string \<Rightarrow> pdb \<Rightarrow> channel_view option" where
  "channel channelId db = map_option view (channelRow channelId db)"

definition channelSecret :: "(string \<Rightarrow> string) \<Rightarrow> string \<Rightarrow> pdb \<Rightarrow> string option" where
  "channelSecret decrypt channelId db =
     (case channelRow channelId db of
        None \<Rightarrow> None
      | Some r \<Rightarrow>
          (case ch_encryptedSecret r of
             None \<Rightarrow> None
           | Some s \<Rightarrow> if s = [] then None else Some (decrypt s)))"

text \<open>A channel input as \<open>parseChannel\<close> returns it; the username is empty for a webhook.\<close>

record channel_input =
  ci_name :: string
  ci_kind :: channel_kind
  ci_enabled :: bool
  ci_events :: "string list"
  ci_username :: string
  ci_secret :: "string option"

definition saveChannel ::
  "(string \<Rightarrow> string) \<Rightarrow> string \<Rightarrow> int \<Rightarrow> channel_input \<Rightarrow> string option \<Rightarrow> pdb \<Rightarrow>
   (channel_view option \<times> pdb) result" where
  "saveChannel encrypt freshId now value channelId db =
     (let saved = (case channelId of None \<Rightarrow> None | Some c \<Rightarrow> channelRow c db)
      in if channelId \<noteq> None \<and> (case saved of None \<Rightarrow> True | Some r \<Rightarrow> ch_deleted r)
         then Throw (AppError 404 ''Notification channel not found.'')
         else if (case saved of None \<Rightarrow> False | Some r \<Rightarrow> ch_kind r \<noteq> ci_kind value)
         then Throw (AppError 400 ''Channel type cannot be changed. Create a new channel.'')
         else if saved = None \<and> 32 \<le> length (channels db)
         then Throw (AppError 409 ''A maximum of 32 notification channels is supported.'')
         else
           let secret =
                 (case ci_secret value of
                    None \<Rightarrow> (case saved of None \<Rightarrow> None | Some r \<Rightarrow> ch_encryptedSecret r)
                  | Some s \<Rightarrow> if s \<noteq> [] then Some (encrypt s) else None)
           in if ci_kind value = Smtp \<and> ci_username value \<noteq> [] \<and>
                 (case secret of None \<Rightarrow> True | Some s \<Rightarrow> s = [])
              then Throw (AppError 400 ''SMTP authentication requires a saved password.'')
              else
                (case saved of
                   Some r \<Rightarrow>
                     let db' = db\<lparr>t_channels :=
                           update_where (\<lambda>c. ch_id c = ch_id r)
                             (\<lambda>c. c\<lparr>ch_name := ci_name value, ch_enabled := ci_enabled value,
                                    ch_events := ci_events value, ch_username := ci_username value,
                                    ch_encryptedSecret := secret,
                                    ch_revision := Suc (ch_revision c),
                                    ch_sourceFloor :=
                                      (if \<not> ch_enabled r \<and> ci_enabled value then source_floor db
                                       else ch_sourceFloor r),
                                    ch_updatedAt := now\<rparr>) (t_channels db)\<rparr>
                     in Ok (channel (ch_id r) db', db')
                 | None \<Rightarrow>
                     if freshId \<in> ch_id ` set (t_channels db) then Throw SqlError
                     else
                       let db' = db\<lparr>t_channels := t_channels db @
                             [\<lparr>ch_id = freshId, ch_name = ci_name value, ch_kind = ci_kind value,
                               ch_enabled = ci_enabled value, ch_deleted = False,
                               ch_events = ci_events value, ch_username = ci_username value,
                               ch_encryptedSecret = secret, ch_revision = 1,
                               ch_sourceFloor = source_floor db, ch_createdAt = now,
                               ch_updatedAt = now\<rparr>]\<rparr>
                       in Ok (channel freshId db', db')))"

definition deleteChannel :: "int \<Rightarrow> string \<Rightarrow> pdb \<Rightarrow> pdb result" where
  "deleteChannel now channelId db =
     (if \<not> list_ex (\<lambda>c. ch_id c = channelId \<and> \<not> ch_deleted c) (t_channels db)
      then Throw (AppError 404 ''Notification channel not found.'')
      else Ok (db\<lparr>t_channels :=
                    update_where (\<lambda>c. ch_id c = channelId \<and> \<not> ch_deleted c)
                      (\<lambda>c. c\<lparr>ch_deleted := True, ch_enabled := False, ch_encryptedSecret := None,
                             ch_revision := Suc (ch_revision c), ch_updatedAt := now\<rparr>)
                      (t_channels db),
                  t_subscriptions :=
                    map (\<lambda>s. let ids = filter (\<lambda>c. c \<noteq> channelId) (su_channelIds s)
                             in s\<lparr>su_channelIds := ids,
                                  su_enabled := (if ids \<noteq> [] then su_enabled s else False)\<rparr>)
                      (t_subscriptions db)\<rparr>))"

record subscription =
  sb_enabled :: bool
  sb_channelIds :: "string list"
  sb_events :: "string list"

definition requirePlan :: "string \<Rightarrow> pdb \<Rightarrow> unit result" where
  "requirePlan planId db =
     (if plan_exists planId db then Ok () else Throw (AppError 404 ''Backup plan not found.''))"

definition subscription_of :: "string \<Rightarrow> pdb \<Rightarrow> subscription" where
  "subscription_of planId db =
     (case row_by su_planId planId (t_subscriptions db) of
        None \<Rightarrow> \<lparr>sb_enabled = False, sb_channelIds = [], sb_events = []\<rparr>
      | Some r \<Rightarrow> \<lparr>sb_enabled = su_enabled r, sb_channelIds = su_channelIds r, sb_events = su_events r\<rparr>)"

definition get_subscription :: "string \<Rightarrow> pdb \<Rightarrow> subscription result" where
  "get_subscription planId db =
     bind_result (requirePlan planId db) (\<lambda>_. Ok (subscription_of planId db))"

datatype policy_error = PlanRemoved | SubscriptionDisabled

definition deliveryPolicyError ::
  "string option \<Rightarrow> string \<Rightarrow> string \<Rightarrow> pdb \<Rightarrow> policy_error option" where
  "deliveryPolicyError planId channelId eventType db =
     (case planId of
        None \<Rightarrow> None
      | Some p \<Rightarrow>
          if p = [] then None
          else if \<not> plan_exists p db then Some PlanRemoved
          else
            let policy = subscription_of p db
            in if \<not> sb_enabled policy \<or> channelId \<notin> set (sb_channelIds policy) \<or>
                  eventType \<notin> set (sb_events policy)
               then Some SubscriptionDisabled else None)"

text \<open>
  The input is a subscription as \<open>parseSubscription\<close> returns it.  The stored lists are sorted, so
  that an unchanged subscription keeps its source floor.
\<close>

definition saveSubscription :: "string \<Rightarrow> subscription \<Rightarrow> pdb \<Rightarrow> (subscription \<times> pdb) result" where
  "saveSubscription planId value db =
     bind_result (requirePlan planId db) (\<lambda>_.
       if list_ex (\<lambda>c. case channel c db of None \<Rightarrow> True | Some v \<Rightarrow> cv_deleted v) (sb_channelIds value)
       then Throw (AppError 400 ''Select existing notification channels.'')
       else
         let saved = row_by su_planId planId (t_subscriptions db);
             ids = sort (sb_channelIds value);
             events = sort (sb_events value);
             changed = (case saved of
                          None \<Rightarrow> True
                        | Some r \<Rightarrow> \<not> su_enabled r \<or> su_channelIds r \<noteq> ids \<or> su_events r \<noteq> events);
             floor' = (if changed then source_floor db
                       else case saved of None \<Rightarrow> source_floor db | Some r \<Rightarrow> su_sourceFloor r);
             row = \<lparr>su_planId = planId, su_enabled = sb_enabled value, su_channelIds = ids,
                    su_events = events, su_sourceFloor = floor'\<rparr>
         in Ok (value,
                db\<lparr>t_subscriptions :=
                     (if saved = None then t_subscriptions db @ [row]
                      else update_where (\<lambda>r. su_planId r = planId) (\<lambda>_. row) (t_subscriptions db))\<rparr>))"

section \<open>Events and deliveries\<close>

definition pendingCount :: "pdb \<Rightarrow> nat" where
  "pendingCount db = count_where (\<lambda>d. de_status d \<in> {NPending, NSending}) (t_deliveries db)"

text \<open>
  The row a channel gets for an event: \<open>INSERT OR IGNORE\<close> over the primary key and the unique pair
  of event and channel.  \<open>newId\<close> gives the random delivery id.
\<close>

definition insert_delivery ::
  "int \<Rightarrow> (string \<Rightarrow> string) \<Rightarrow> string \<Rightarrow> channel_view \<Rightarrow> delivery_row list \<Rightarrow> delivery_row list" where
  "insert_delivery now newId eventId c ds =
     (if list_ex (\<lambda>d. de_id d = newId (cv_id c) \<or> (de_eventId d = eventId \<and> de_channelId d = cv_id c)) ds
      then ds
      else ds @ [\<lparr>de_id = newId (cv_id c), de_eventId = eventId, de_channelId = cv_id c,
                  de_channelName = cv_name c, de_kind = cv_kind c, de_revision = cv_revision c,
                  de_status = NPending, de_attemptCount = 0, de_cycleAttempts = 0,
                  de_manualRetries = 0, de_createdAt = now, de_lastAttemptAt = None,
                  de_nextAttemptAt = Some now, de_completedAt = None, de_leaseUntil = None,
                  de_leaseOwner = None, de_errorCode = None, de_httpStatus = None\<rparr>])"

definition insertEvent ::
  "int \<Rightarrow> (string \<Rightarrow> string) \<Rightarrow> string \<Rightarrow> string \<Rightarrow> string option \<Rightarrow> string \<Rightarrow> channel_view list \<Rightarrow>
   pdb \<Rightarrow> pdb result" where
  "insertEvent now newId eventId eventType planId logicalKey cs db =
     (let events =
            (if list_ex (\<lambda>e. ev_id e = eventId \<or> ev_logicalKey e = logicalKey) (t_events db)
             then t_events db
             else t_events db @ [\<lparr>ev_id = eventId, ev_logicalKey = logicalKey, ev_type = eventType,
                                  ev_planId = planId, ev_createdAt = now\<rparr>])
      in case row_by ev_logicalKey logicalKey events of
           None \<Rightarrow> Throw (PlainError ''Cannot read properties of undefined'')
         | Some e \<Rightarrow>
             Ok (db\<lparr>t_events := events,
                    t_deliveries := fold (insert_delivery now newId (ev_id e)) cs (t_deliveries db)\<rparr>))"

section \<open>Reconciliation of finished jobs\<close>

text \<open>The status column of a recovery test as the text that SQL and the event types use.\<close>

fun recovery_status_text :: "recovery_status \<Rightarrow> string" where
  "recovery_status_text RQueued = ''queued''"
| "recovery_status_text RRunning = ''running''"
| "recovery_status_text RPassed = ''passed''"
| "recovery_status_text RFailed = ''failed''"
| "recovery_status_text RCancelled = ''cancelled''"
| "recovery_status_text RPassedWithWarning = ''passed_with_warning''"

text \<open>\<open>terminalPayload\<close>: the event type of a finished backup.\<close>

definition backup_event_type :: "string \<Rightarrow> nat \<Rightarrow> string" where
  "backup_event_type status warnings =
     (if status = ''completed''
      then (if warnings \<noteq> 0 then ''backup.completed_with_warning'' else ''backup.completed'')
      else if status = ''cancelled'' then ''backup.cancelled'' else ''backup.failed'')"

text \<open>
  The projection of one ready source: the finished job behind it, if the job is terminal, its plan
  exists and (for a recovery test) its infrastructure cleanup is not outstanding.  The value is the
  plan, the terminal status and the event type.
\<close>

definition terminal_job :: "source_row \<Rightarrow> pdb \<Rightarrow> (string \<times> string \<times> string) option" where
  "terminal_job s db =
     (case so_kind s of
        KBackup \<Rightarrow>
          (case row_by bk_id (so_jobId s) (t_backups db) of
             None \<Rightarrow> None
           | Some b \<Rightarrow>
               (case (bk_planId b, bk_status b) of
                  (Some p, Some st) \<Rightarrow>
                    if plan_exists p db \<and> st \<in> {''completed'', ''failed'', ''cancelled''} \<and>
                       bk_inProgress b \<noteq> Some True
                    then Some (p, st, backup_event_type st (bk_warnings b)) else None
                | _ \<Rightarrow> None))
      | KRecovery \<Rightarrow>
          (case row_by rt_id (so_jobId s) (t_recoveryTests db) of
             None \<Rightarrow> None
           | Some r \<Rightarrow>
               if plan_exists (rt_planId r) db \<and> recovery_terminal (rt_status r) \<and>
                  (case rt_result r of None \<Rightarrow> True | Some res \<Rightarrow> rr_infrastructure res \<noteq> Some False)
               then Some (rt_planId r, recovery_status_text (rt_status r),
                          ''recovery.'' @ recovery_status_text (rt_status r))
               else None))"

definition ready_sources :: "nat \<Rightarrow> pdb \<Rightarrow> source_row list" where
  "ready_sources limit db =
     take limit (order_by so_id
       (filter (\<lambda>s. so_ready s \<and> terminal_job s db \<noteq> None) (t_sources db)))"

definition clear_ready :: "nat \<Rightarrow> pdb \<Rightarrow> pdb" where
  "clear_ready sourceId db =
     db\<lparr>t_sources := update_where (\<lambda>s. so_id s = sourceId) (\<lambda>s. s\<lparr>so_ready := False\<rparr>) (t_sources db)\<rparr>"

fun kind_text :: "source_kind \<Rightarrow> string" where
  "kind_text KBackup = ''backup''"
| "kind_text KRecovery = ''recovery''"

definition event_channels :: "source_row \<Rightarrow> string \<Rightarrow> string \<Rightarrow> pdb \<Rightarrow> channel_view list" where
  "event_channels s planId eventType db =
     (case find (\<lambda>r. su_planId r = planId \<and> su_enabled r \<and> su_sourceFloor r < so_id s)
             (t_subscriptions db) of
        None \<Rightarrow> []
      | Some sub \<Rightarrow>
          if eventType \<in> set (su_events sub)
          then filter (\<lambda>c. cv_enabled c \<and> cv_sourceFloor c < so_id s \<and>
                         cv_id c \<in> set (su_channelIds sub) \<and> eventType \<in> set (cv_events c))
                 (channels db)
          else [])"

text \<open>
  One turn of the loop: \<open>None\<close> is the \<open>break\<close> of the backpressure test.  \<open>ne\<close> gives the random
  event id, \<open>nd\<close> the random delivery ids.
\<close>

definition reconcile_one ::
  "int \<Rightarrow> (nat \<Rightarrow> string \<Rightarrow> string) \<Rightarrow> (string \<Rightarrow> string \<Rightarrow> string) \<Rightarrow> source_row \<Rightarrow> pdb \<Rightarrow>
   pdb option result" where
  "reconcile_one now ne nd s db =
     (case terminal_job s db of
        None \<Rightarrow> Throw (PlainError ''Cannot read properties of undefined'')
      | Some (planId, status, eventType) \<Rightarrow>
          if (so_id s, status) \<in> set (t_observed db) then Ok (Some (clear_ready (so_id s) db))
          else
            let cs = event_channels s planId eventType db;
                eventId = ne (so_id s) status;
                key = kind_text (so_kind s) @ '':'' @ so_jobId s @ '':'' @ status
            in if pendingCount db + length cs > maxPending then Ok None
               else
                 bind_result
                   (if cs \<noteq> []
                    then insertEvent now (nd eventId) eventId eventType (Some planId) key cs db
                    else Ok db)
                   (\<lambda>db'. Ok (Some (clear_ready (so_id s)
                            (db'\<lparr>t_observed := t_observed db' @ [(so_id s, status)]\<rparr>)))))"

fun reconcile_loop ::
  "int \<Rightarrow> (nat \<Rightarrow> string \<Rightarrow> string) \<Rightarrow> (string \<Rightarrow> string \<Rightarrow> string) \<Rightarrow> source_row list \<Rightarrow> pdb \<Rightarrow>
   (nat \<times> pdb) result" where
  "reconcile_loop now ne nd [] db = Ok (0, db)"
| "reconcile_loop now ne nd (s # ss) db =
     bind_result (reconcile_one now ne nd s db) (\<lambda>r.
       case r of
         None \<Rightarrow> Ok (0, db)
       | Some db' \<Rightarrow>
           bind_result (reconcile_loop now ne nd ss db') (\<lambda>(n, db''). Ok (Suc n, db'')))"

definition reconcile ::
  "int \<Rightarrow> (nat \<Rightarrow> string \<Rightarrow> string) \<Rightarrow> (string \<Rightarrow> string \<Rightarrow> string) \<Rightarrow> nat \<Rightarrow> pdb \<Rightarrow> (nat \<times> pdb) result" where
  "reconcile now ne nd limit db = reconcile_loop now ne nd (ready_sources limit db) db"

section \<open>Delivery views, claim, finish, retry\<close>

record delivery =
  dv_row :: delivery_row
  dv_eventType :: string
  dv_planId :: "string option"
  dv_canRetry :: bool

definition deliveryView :: "pdb \<Rightarrow> delivery_row \<Rightarrow> event_row \<Rightarrow> delivery" where
  "deliveryView db d e =
     \<lparr>dv_row = d, dv_eventType = ev_type e, dv_planId = ev_planId e,
      dv_canRetry =
        (de_status d = NFailed \<and> de_manualRetries d < 3 \<and> de_attemptCount d < 20 \<and>
         (case channel (de_channelId d) db of None \<Rightarrow> False | Some c \<Rightarrow> cv_enabled c \<and> \<not> cv_deleted c) \<and>
         deliveryPolicyError (ev_planId e) (de_channelId d) (ev_type e) db = None)\<rparr>"

text \<open>The inner join of deliveries and events.\<close>

definition delivery_views :: "pdb \<Rightarrow> delivery_row list \<Rightarrow> delivery list" where
  "delivery_views db ds =
     List.map_filter
       (\<lambda>d. map_option (deliveryView db d) (row_by ev_id (de_eventId d) (t_events db))) ds"

definition deliveries :: "nat \<Rightarrow> nat \<Rightarrow> string option \<Rightarrow> pdb \<Rightarrow> delivery list" where
  "deliveries limit offset eventId db =
     take limit (drop offset
       (order_by (\<lambda>d. (- de_createdAt (dv_row d), de_id (dv_row d)))
          (delivery_views db
             (filter (\<lambda>d. case eventId of None \<Rightarrow> True | Some e \<Rightarrow> e = [] \<or> de_eventId d = e)
                (t_deliveries db)))))"

definition get_delivery :: "string \<Rightarrow> pdb \<Rightarrow> delivery option" where
  "get_delivery deliveryId db =
     (case row_by de_id deliveryId (t_deliveries db) of
        None \<Rightarrow> None
      | Some d \<Rightarrow> map_option (deliveryView db d) (row_by ev_id (de_eventId d) (t_events db)))"

definition test_channel ::
  "int \<Rightarrow> (string \<Rightarrow> string) \<Rightarrow> string \<Rightarrow> string \<Rightarrow> pdb \<Rightarrow> (delivery option \<times> pdb) result" where
  "test_channel now newId eventId channelId db =
     (case channel channelId db of
        None \<Rightarrow> Throw (AppError 404 ''Notification channel not found.'')
      | Some c \<Rightarrow>
          if cv_deleted c then Throw (AppError 404 ''Notification channel not found.'')
          else if \<not> cv_enabled c
          then Throw (AppError 409 ''Enable the channel before sending a test.'')
          else if maxPending \<le> pendingCount db
          then Throw (AppError 409 ''Notification queue is full. Retry later.'')
          else
            bind_result (insertEvent now newId eventId ''notification.test'' None eventId [c] db)
              (\<lambda>db'. Ok (case deliveries 1 0 (Some eventId) db' of [] \<Rightarrow> None | d # _ \<Rightarrow> Some d, db')))"

text \<open>The first statement of \<open>claim\<close>: deliveries whose lease ran out are released or given up.\<close>

definition exhausted :: "delivery_row \<Rightarrow> bool" where
  "exhausted d \<longleftrightarrow> 5 \<le> de_cycleAttempts d \<or> 20 \<le> de_attemptCount d"

definition lease_expired :: "int \<Rightarrow> delivery_row \<Rightarrow> bool" where
  "lease_expired now d \<longleftrightarrow>
     de_status d = NSending \<and> (case de_leaseUntil d of None \<Rightarrow> False | Some u \<Rightarrow> u \<le> now)"

definition release_row :: "int \<Rightarrow> delivery_row \<Rightarrow> delivery_row" where
  "release_row now d =
     d\<lparr>de_status := (if exhausted d then NFailed else NPending),
       de_errorCode := Some ''delivery-interrupted'',
       de_nextAttemptAt := (if exhausted d then None else Some (now + 30000)),
       de_completedAt := (if exhausted d then Some now else None),
       de_leaseOwner := None, de_leaseUntil := None\<rparr>"

definition claimable :: "int \<Rightarrow> delivery_row \<Rightarrow> bool" where
  "claimable now d \<longleftrightarrow>
     de_status d = NPending \<and> (case de_nextAttemptAt d of None \<Rightarrow> False | Some t \<Rightarrow> t \<le> now) \<and>
     de_cycleAttempts d < 5 \<and> de_attemptCount d < 20"

definition lease_row :: "int \<Rightarrow> string \<Rightarrow> delivery_row \<Rightarrow> delivery_row" where
  "lease_row now owner d =
     d\<lparr>de_status := NSending, de_attemptCount := Suc (de_attemptCount d),
       de_cycleAttempts := Suc (de_cycleAttempts d), de_lastAttemptAt := Some now,
       de_leaseOwner := Some owner, de_leaseUntil := Some (now + 60000)\<rparr>"

definition next_due :: "int \<Rightarrow> delivery_row list \<Rightarrow> delivery_row option" where
  "next_due now ds =
     (case order_by (\<lambda>d. (case de_nextAttemptAt d of None \<Rightarrow> 0 | Some t \<Rightarrow> t, de_createdAt d))
             (filter (claimable now) ds) of
        [] \<Rightarrow> None | d # _ \<Rightarrow> Some d)"

definition claim_delivery :: "int \<Rightarrow> string \<Rightarrow> pdb \<Rightarrow> delivery option \<times> pdb" where
  "claim_delivery now owner db =
     (let ds = update_where (lease_expired now) (release_row now) (t_deliveries db);
          db1 = db\<lparr>t_deliveries := ds\<rparr>
      in if 2 \<le> count_where (\<lambda>d. de_status d = NSending) ds then (None, db1)
         else case next_due now ds of
                None \<Rightarrow> (None, db1)
              | Some d \<Rightarrow>
                  let db2 = db1\<lparr>t_deliveries :=
                        update_where (\<lambda>x. de_id x = de_id d \<and> de_status x = NPending)
                          (lease_row now owner) ds\<rparr>
                  in (get_delivery (de_id d) db2, db2))"

text \<open>A transport result.\<close>

record delivery_result =
  re_success :: bool
  re_retryable :: bool
  re_code :: "string option"
  re_status :: "int option"
  re_retryAfterSeconds :: "int option"

text \<open>\<open>30000 * 2 ** (cycleAttempts - 1)\<close>, at least \<open>Retry-After\<close>, at most one hour.\<close>

definition retry_delay :: "nat \<Rightarrow> int option \<Rightarrow> int" where
  "retry_delay cycleAttempts retryAfter =
     min 3600000
       (max (if cycleAttempts = 0 then 15000 else 30000 * 2 ^ (cycleAttempts - 1))
          ((case retryAfter of None \<Rightarrow> 0 | Some s \<Rightarrow> s) * 1000))"

definition finish_row :: "int \<Rightarrow> delivery_row \<Rightarrow> delivery_result \<Rightarrow> delivery_row \<Rightarrow> delivery_row" where
  "finish_row now d res x =
     (let retry = \<not> re_success res \<and> re_retryable res \<and> de_cycleAttempts d < 5 \<and>
                  de_attemptCount d < 20;
          delay = retry_delay (de_cycleAttempts d) (re_retryAfterSeconds res)
      in x\<lparr>de_status := (if re_success res then NSucceeded
                         else if retry then NPending else NFailed),
           de_errorCode := (if re_success res then None
                            else case re_code res of None \<Rightarrow> Some ''delivery-failed''
                                 | Some c \<Rightarrow> Some c),
           de_httpStatus := (if re_status res = Some 0 then None else re_status res),
           de_nextAttemptAt := (if retry then Some (now + delay) else None),
           de_completedAt := (if retry then None else Some now),
           de_leaseOwner := None, de_leaseUntil := None\<rparr>)"

definition finish_delivery :: "int \<Rightarrow> delivery_row \<Rightarrow> delivery_result \<Rightarrow> pdb \<Rightarrow> pdb" where
  "finish_delivery now d res db =
     db\<lparr>t_deliveries :=
          update_where
            (\<lambda>x. de_id x = de_id d \<and> de_status x = NSending \<and> de_leaseOwner d \<noteq> None \<and>
                 de_leaseOwner x = de_leaseOwner d)
            (finish_row now d res) (t_deliveries db)\<rparr>"

definition retry_row :: "int \<Rightarrow> nat \<Rightarrow> delivery_row \<Rightarrow> delivery_row" where
  "retry_row now revision x =
     x\<lparr>de_status := NPending, de_revision := revision, de_cycleAttempts := 0,
       de_manualRetries := Suc (de_manualRetries x), de_nextAttemptAt := Some (now + 30000),
       de_completedAt := None, de_errorCode := None, de_httpStatus := None\<rparr>"

definition retry_delivery :: "int \<Rightarrow> string \<Rightarrow> pdb \<Rightarrow> (delivery option \<times> pdb) result" where
  "retry_delivery now deliveryId db =
     (case get_delivery deliveryId db of
        None \<Rightarrow> Throw (AppError 404 ''Notification delivery not found.'')
      | Some v \<Rightarrow>
          if \<not> dv_canRetry v
          then Throw (AppError 409 ''This delivery cannot be retried. Enable the channel, review its configuration and retry limits.'')
          else if maxPending \<le> pendingCount db
          then Throw (AppError 409 ''Notification queue is full. Retry later.'')
          else
            (case channel (de_channelId (dv_row v)) db of
               None \<Rightarrow> Throw (PlainError ''Cannot read properties of undefined'')
             | Some c \<Rightarrow>
                 let db' = db\<lparr>t_deliveries :=
                       update_where (\<lambda>x. de_id x = deliveryId \<and> de_status x = NFailed)
                         (retry_row now (cv_revision c)) (t_deliveries db)\<rparr>
                 in Ok (get_delivery deliveryId db', db')))"

abbreviation delivery_settled :: "delivery_row \<Rightarrow> bool" where
  "delivery_settled d \<equiv> de_status d \<in> {NSucceeded, NFailed}"

definition maintenance :: "int \<Rightarrow> pdb \<Rightarrow> pdb" where
  "maintenance now db =
     (let cutoff = now - 30 * 86400000;
          old = map de_id (drop maxHistory
                  (order_by (\<lambda>d. - de_createdAt d) (filter delivery_settled (t_deliveries db))));
          ds1 = delete_where (\<lambda>d. de_id d \<in> set old) (t_deliveries db);
          ds2 = delete_where (\<lambda>d. delivery_settled d \<and> de_createdAt d < cutoff) ds1;
          evs = delete_where (\<lambda>e. \<not> list_ex (\<lambda>d. de_eventId d = ev_id e) ds2) (t_events db);
          cs = delete_where (\<lambda>c. ch_deleted c \<and> \<not> list_ex (\<lambda>d. de_channelId d = ch_id c) ds2)
                 (t_channels db)
      in db\<lparr>t_deliveries := ds2, t_events := evs, t_channels := cs\<rparr>)"

end
