(* ===== verification/Notification_Worker.thy ===== *)
theory Notification_Worker
  imports Notification_Store
begin

text \<open>
  The delivery worker (\<open>backend/src/notifications/NotificationDeliveryManager.ts\<close>) over the
  outbox, and the invariant of the two together.  The worker holds the deliveries it has claimed
  and not finished; each claim has its own random lease owner.  Everything else that writes the
  database, and every method of the store, may run between the worker's steps.
\<close>

section \<open>The worker\<close>

record worker =
  w_db :: pdb
  w_active :: "delivery list"
  w_stopped :: bool

definition failed_result :: "string \<Rightarrow> delivery_result" where
  "failed_result code =
     \<lparr>re_success = False, re_retryable = False, re_code = Some code, re_status = None,
      re_retryAfterSeconds = None\<rparr>"

fun policy_error_code :: "policy_error \<Rightarrow> string" where
  "policy_error_code PlanRemoved = ''plan-removed''"
| "policy_error_code SubscriptionDisabled = ''subscription-disabled''"

text \<open>
  \<open>send\<close> up to the transport: the checks that refuse a claimed delivery without sending it.
  \<open>decrypt\<close> is \<open>None\<close> where the cipher throws.
\<close>

definition send_check :: "(string \<Rightarrow> string option) \<Rightarrow> delivery \<Rightarrow> pdb \<Rightarrow> delivery_result option" where
  "send_check decrypt d db =
     (let row = dv_row d
      in case channel (de_channelId row) db of
           None \<Rightarrow> Some (failed_result ''channel-disabled'')
         | Some c \<Rightarrow>
             if \<not> cv_enabled c \<or> cv_deleted c then Some (failed_result ''channel-disabled'')
             else if cv_revision c \<noteq> de_revision row then Some (failed_result ''channel-changed'')
             else case deliveryPolicyError (dv_planId d) (de_channelId row) (dv_eventType d) db of
                    Some e \<Rightarrow> Some (failed_result (policy_error_code e))
                  | None \<Rightarrow>
                      (case map_option ch_encryptedSecret (channelRow (de_channelId row) db) of
                         Some (Some s) \<Rightarrow>
                           if s \<noteq> [] \<and> decrypt s = None then Some (failed_result ''credential-invalid'')
                           else None
                       | _ \<Rightarrow> None))"

text \<open>The check repeated just before the request leaves (\<open>canSend\<close>).\<close>

definition canSend :: "delivery \<Rightarrow> pdb \<Rightarrow> bool" where
  "canSend d db \<longleftrightarrow>
     (case channel (de_channelId (dv_row d)) db of
        None \<Rightarrow> False
      | Some c \<Rightarrow> cv_enabled c \<and> \<not> cv_deleted c \<and> cv_revision c = de_revision (dv_row d)) \<and>
     deliveryPolicyError (dv_planId d) (de_channelId (dv_row d)) (dv_eventType d) db = None"

text \<open>
  \<open>send\<close> runs without a break up to the request: a refused delivery is settled at once, before the
  next claim, while its promise leaves \<open>active\<close> later.
\<close>

definition send_start :: "int \<Rightarrow> (string \<Rightarrow> string option) \<Rightarrow> delivery \<Rightarrow> pdb \<Rightarrow> pdb" where
  "send_start now decrypt d db =
     (case send_check decrypt d db of
        Some res \<Rightarrow> finish_delivery now (dv_row d) res db
      | None \<Rightarrow> db)"

text \<open>The claiming loop of a tick, for the free slots; \<open>owner\<close> gives the random lease owners.\<close>

fun claim_loop ::
  "int \<Rightarrow> (string \<Rightarrow> string option) \<Rightarrow> (nat \<Rightarrow> string) \<Rightarrow> nat \<Rightarrow> worker \<Rightarrow> worker" where
  "claim_loop now decrypt owner 0 w = w"
| "claim_loop now decrypt owner (Suc n) w =
     (case claim_delivery now (owner n) (w_db w) of
        (None, db') \<Rightarrow> w\<lparr>w_db := db'\<rparr>
      | (Some d, db') \<Rightarrow>
          claim_loop now decrypt owner n
            (w\<lparr>w_db := send_start now decrypt d db', w_active := w_active w @ [d]\<rparr>))"

definition worker_tick ::
  "int \<Rightarrow> (string \<Rightarrow> string option) \<Rightarrow> (nat \<Rightarrow> string \<Rightarrow> string) \<Rightarrow> (string \<Rightarrow> string \<Rightarrow> string) \<Rightarrow>
   (nat \<Rightarrow> string) \<Rightarrow> worker \<Rightarrow> worker" where
  "worker_tick now decrypt ne nd owner w =
     (if w_stopped w then w
      else case reconcile now ne nd 50 (w_db w) of
             Inl e \<Rightarrow> w
           | Inr (n, db1) \<Rightarrow>
               claim_loop now decrypt owner (2 - length (w_active w)) (w\<lparr>w_db := maintenance now db1\<rparr>))"

text \<open>\<open>start\<close> runs a tick at once; \<open>shutdown\<close> only stops the timer and waits for the promises.\<close>

definition worker_start ::
  "int \<Rightarrow> (string \<Rightarrow> string option) \<Rightarrow> (nat \<Rightarrow> string \<Rightarrow> string) \<Rightarrow> (string \<Rightarrow> string \<Rightarrow> string) \<Rightarrow>
   (nat \<Rightarrow> string) \<Rightarrow> worker \<Rightarrow> worker" where
  "worker_start now decrypt ne nd owner w =
     (if \<not> w_stopped w then w else worker_tick now decrypt ne nd owner (w\<lparr>w_stopped := False\<rparr>))"

definition worker_shutdown :: "worker \<Rightarrow> worker" where
  "worker_shutdown w = w\<lparr>w_stopped := True\<rparr>"

text \<open>The end of \<open>send\<close> after the transport's result (or \<open>delivery-failed\<close> where it threw).\<close>

definition worker_finish :: "int \<Rightarrow> delivery \<Rightarrow> delivery_result \<Rightarrow> worker \<Rightarrow> worker" where
  "worker_finish now d res w =
     w\<lparr>w_db := finish_delivery now (dv_row d) res (w_db w), w_active := remove1 d (w_active w)\<rparr>"

section \<open>Well-formed deliveries\<close>

definition row_ok :: "delivery_row \<Rightarrow> bool" where
  "row_ok d \<longleftrightarrow>
     de_cycleAttempts d \<le> 5 \<and> de_manualRetries d \<le> 3 \<and>
     de_attemptCount d \<le> 5 * de_manualRetries d + de_cycleAttempts d \<and> de_attemptCount d \<le> 20 \<and>
     (de_status d = NSending \<longleftrightarrow> de_leaseOwner d \<noteq> None) \<and>
     (de_status d = NSending \<longrightarrow> de_leaseUntil d \<noteq> None \<and> 1 \<le> de_cycleAttempts d) \<and>
     (de_status d = NPending \<longrightarrow>
        de_cycleAttempts d < 5 \<and> de_attemptCount d < 20 \<and> de_nextAttemptAt d \<noteq> None) \<and>
     (delivery_settled d \<longrightarrow> de_completedAt d \<noteq> None)"

abbreviation is_sending :: "delivery_row \<Rightarrow> bool" where
  "is_sending d \<equiv> de_status d = NSending"

abbreviation is_open :: "delivery_row \<Rightarrow> bool" where
  "is_open d \<equiv> de_status d \<in> {NPending, NSending}"

abbreviation delivery_key :: "delivery_row \<Rightarrow> string \<times> string" where
  "delivery_key d \<equiv> (de_eventId d, de_channelId d)"

definition deliveries_ok :: "delivery_row list \<Rightarrow> bool" where
  "deliveries_ok ds \<longleftrightarrow>
     distinct (map de_id ds) \<and> distinct (map delivery_key ds) \<and> list_all row_ok ds \<and>
     count_where is_sending ds \<le> 2 \<and> count_where is_open ds \<le> maxPending"

text \<open>
  The worker's copy of a delivery agrees with the row as long as the row still carries the copy's
  lease.
\<close>

definition copy_ok :: "delivery_row list \<Rightarrow> delivery_row \<Rightarrow> bool" where
  "copy_ok ds d \<longleftrightarrow>
     de_leaseOwner d \<noteq> None \<and>
     (\<forall>x \<in> set ds. de_id x = de_id d \<longrightarrow> de_leaseOwner x = de_leaseOwner d \<longrightarrow>
        de_cycleAttempts x = de_cycleAttempts d \<and> de_attemptCount x = de_attemptCount d)"

definition worker_inv :: "worker \<Rightarrow> bool" where
  "worker_inv w \<longleftrightarrow>
     deliveries_ok (t_deliveries (w_db w)) \<and>
     list_all (\<lambda>d. copy_ok (t_deliveries (w_db w)) (dv_row d)) (w_active w)"

text \<open>The lease owners in use; a new claim draws another one.\<close>

definition owners :: "worker \<Rightarrow> string option set" where
  "owners w = de_leaseOwner ` set (t_deliveries (w_db w)) \<union>
              (de_leaseOwner \<circ> dv_row) ` set (w_active w)"

inductive worker_step :: "worker \<Rightarrow> worker \<Rightarrow> bool" where
  ws_claim: "Some owner \<notin> owners w \<Longrightarrow> length (w_active w) < 2 \<Longrightarrow>
    claim_delivery now owner (w_db w) = (r, db') \<Longrightarrow>
    worker_step w (w\<lparr>w_db := db', w_active := w_active w @ (case r of None \<Rightarrow> [] | Some d \<Rightarrow> [d])\<rparr>)"
| ws_finish: "d \<in> set (w_active w) \<Longrightarrow> worker_step w (worker_finish now d res w)"
| ws_refuse: "d \<in> set (w_active w) \<Longrightarrow> worker_step w (w\<lparr>w_db := send_start now decrypt d (w_db w)\<rparr>)"
| ws_settled: "worker_step w (w\<lparr>w_active := remove1 d (w_active w)\<rparr>)"
| ws_shutdown: "worker_step w (worker_shutdown w)"
| ws_crash: "worker_step w (w\<lparr>w_active := []\<rparr>)"
| ws_reconcile: "reconcile now ne nd limit (w_db w) = Ok (n, db') \<Longrightarrow>
    worker_step w (w\<lparr>w_db := db'\<rparr>)"
| ws_maintenance: "worker_step w (w\<lparr>w_db := maintenance now (w_db w)\<rparr>)"
| ws_test: "test_channel now newId eventId channelId (w_db w) = Ok (r, db') \<Longrightarrow>
    worker_step w (w\<lparr>w_db := db'\<rparr>)"
| ws_retry: "retry_delivery now deliveryId (w_db w) = Ok (r, db') \<Longrightarrow>
    worker_step w (w\<lparr>w_db := db'\<rparr>)"
| ws_other: "t_deliveries db' = t_deliveries (w_db w) \<Longrightarrow> worker_step w (w\<lparr>w_db := db'\<rparr>)"

inductive_cases worker_stepE: "worker_step w w'"

section \<open>Updates keep deliveries well formed\<close>

lemma deliveries_ok_update:
  assumes "deliveries_ok ds"
    and "\<And>d. de_id (f d) = de_id d" "\<And>d. delivery_key (f d) = delivery_key d"
    and "\<And>d. d \<in> set ds \<Longrightarrow> p d \<Longrightarrow> row_ok d \<Longrightarrow> row_ok (f d)"
    and "\<And>d. p d \<Longrightarrow> is_sending (f d) \<Longrightarrow> is_sending d"
    and "\<And>d. p d \<Longrightarrow> is_open (f d) \<Longrightarrow> is_open d"
  shows "deliveries_ok (update_where p f ds)"
proof -
  have "map de_id (update_where p f ds) = map de_id ds"
    by (rule map_update_where) (rule assms(2))
  moreover have "map delivery_key (update_where p f ds) = map delivery_key ds"
    by (rule map_update_where) (rule assms(3))
  moreover have "count_where is_sending (update_where p f ds) \<le> count_where is_sending ds"
    by (rule count_where_update_le) (rule assms(5))
  moreover have "count_where is_open (update_where p f ds) \<le> count_where is_open ds"
    by (rule count_where_update_le) (rule assms(6))
  moreover have "list_all row_ok (update_where p f ds)"
    using assms(1,4) by (auto simp: list_all_iff set_update_where deliveries_ok_def)
  ultimately show ?thesis
    using assms(1) by (auto simp: deliveries_ok_def)
qed

lemma copy_ok_update:
  assumes "copy_ok ds d"
    and "\<And>x. x \<in> set ds \<Longrightarrow> p x \<Longrightarrow> de_id (f x) = de_id x"
    and "\<And>x. x \<in> set ds \<Longrightarrow> p x \<Longrightarrow> de_leaseOwner d \<noteq> None \<Longrightarrow> de_leaseOwner (f x) \<noteq> de_leaseOwner d"
  shows "copy_ok (update_where p f ds) d"
  unfolding copy_ok_def set_update_where ball_simps(9)
proof (intro conjI ballI impI)
  show o: "de_leaseOwner d \<noteq> None" using assms(1) by (simp add: copy_ok_def)
  fix x assume x: "x \<in> set ds" "de_id (if p x then f x else x) = de_id d"
    "de_leaseOwner (if p x then f x else x) = de_leaseOwner d"
  then have "\<not> p x" using assms(3) [OF x(1) _ o] by auto
  with x assms(1) show "de_cycleAttempts (if p x then f x else x) = de_cycleAttempts d"
    "de_attemptCount (if p x then f x else x) = de_attemptCount d"
    by (auto simp: copy_ok_def)
qed

lemma copy_ok_subset: "copy_ok ds d \<Longrightarrow> set ds' \<subseteq> set ds \<Longrightarrow> copy_ok ds' d"
  by (auto simp: copy_ok_def)

lemma release_row_ok: "row_ok d \<Longrightarrow> is_sending d \<Longrightarrow> row_ok (release_row now d)"
  by (auto simp: row_ok_def release_row_def exhausted_def)

lemma release_row_keys [simp]:
  "de_id (release_row now d) = de_id d" "de_eventId (release_row now d) = de_eventId d"
  "de_channelId (release_row now d) = de_channelId d" "de_leaseOwner (release_row now d) = None"
  "\<not> is_sending (release_row now d)"
  by (simp_all add: release_row_def)

lemma lease_row_ok: "row_ok d \<Longrightarrow> de_status d = NPending \<Longrightarrow> row_ok (lease_row now owner d)"
  by (auto simp: row_ok_def lease_row_def)

interpretation release: keyed_rows "\<lambda>d. (de_id d, de_eventId d, de_channelId d)" release_row
  by unfold_locales (simp add: release_row_def)

interpretation leasing: keyed_rows "\<lambda>d. (de_id d, de_eventId d, de_channelId d)" "\<lambda>(now, owner). lease_row now owner"
  by unfold_locales (auto simp: lease_row_def)

lemma next_due_SomeD: "next_due now ds = Some d \<Longrightarrow> d \<in> set ds \<and> claimable now d"
proof -
  assume "next_due now ds = Some d"
  then obtain rest where "order_by (\<lambda>d. (case de_nextAttemptAt d of None \<Rightarrow> 0 | Some t \<Rightarrow> t, de_createdAt d))
      (filter (claimable now) ds) = d # rest"
    by (auto simp: next_due_def split: list.splits)
  then have "d \<in> set (filter (claimable now) ds)"
    by (metis list.set_intros(1) set_order_by)
  then show ?thesis by simp
qed

lemma next_due_least:
  assumes "next_due now ds = Some d" and "x \<in> set ds" and "claimable now x"
  shows "(the (de_nextAttemptAt d), de_createdAt d) \<le> (the (de_nextAttemptAt x), de_createdAt x)"
proof -
  let ?k = "\<lambda>d. (case de_nextAttemptAt d of None \<Rightarrow> 0 | Some t \<Rightarrow> t, de_createdAt d)"
  from assms(1) obtain rest where "order_by ?k (filter (claimable now) ds) = d # rest"
    by (auto simp: next_due_def split: list.splits)
  moreover have "x \<in> set (filter (claimable now) ds)" using assms(2,3) by simp
  ultimately have "?k d \<le> ?k x" by (rule order_by_hd_least)
  moreover have "de_nextAttemptAt d \<noteq> None" "de_nextAttemptAt x \<noteq> None"
    using next_due_SomeD [OF assms(1)] assms(3) by (auto simp: claimable_def split: option.splits)
  ultimately show ?thesis by auto
qed

lemma next_due_None_iff: "next_due now ds = None \<longleftrightarrow> (\<forall>d \<in> set ds. \<not> claimable now d)"
proof -
  have e: "order_by k xs = [] \<longleftrightarrow> xs = []" for k :: "delivery_row \<Rightarrow> int \<times> int" and xs
    by (metis set_empty set_order_by)
  have "next_due now ds = None \<longleftrightarrow> filter (claimable now) ds = []"
    unfolding next_due_def by (subst e [symmetric]) (auto split: list.splits)
  then show ?thesis by (simp add: filter_empty_conv)
qed

text \<open>The released table: well formed, no expired lease left, and no row gained a lease.\<close>

lemma released_ok:
  "deliveries_ok ds \<Longrightarrow> deliveries_ok (update_where (lease_expired now) (release_row now) ds)"
  by (rule deliveries_ok_update) (simp_all add: lease_expired_def release_row_ok release_row_keys)

lemma released_copy:
  "copy_ok ds d \<Longrightarrow> copy_ok (update_where (lease_expired now) (release_row now) ds) d"
  by (rule copy_ok_update) auto

lemma claim_delivery_cases:
  fixes db :: pdb and now :: int
  defines "ds \<equiv> update_where (lease_expired now) (release_row now) (t_deliveries db)"
  assumes "claim_delivery now owner db = (r, db')"
  obtains (idle) "t_deliveries db' = ds" "r = None"
      "2 \<le> count_where is_sending ds \<or> (\<forall>x \<in> set ds. \<not> claimable now x)"
  | (leased) d where "d \<in> set ds" "claimable now d" "count_where is_sending ds < 2"
      "next_due now ds = Some d"
      "t_deliveries db' = update_where (\<lambda>x. de_id x = de_id d \<and> de_status x = NPending) (lease_row now owner) ds"
      "r = get_delivery (de_id d) db'"
proof (cases "2 \<le> count_where is_sending ds \<or> next_due now ds = None")
  case True
  with assms have "t_deliveries db' = ds \<and> r = None"
    by (auto simp: claim_delivery_def Let_def split: if_splits option.splits)
  with True show ?thesis
    using idle by (metis next_due_None_iff)
next
  case False
  then obtain d where d: "next_due now ds = Some d" by auto
  with False assms have
    "t_deliveries db' = update_where (\<lambda>x. de_id x = de_id d \<and> de_status x = NPending) (lease_row now owner) ds"
    "r = get_delivery (de_id d) db'"
    by (auto simp: claim_delivery_def Let_def)
  with d False next_due_SomeD [OF d] show ?thesis by (intro leased [of d]) auto
qed

lemma lease_count:
  assumes "deliveries_ok ds" and "count_where is_sending ds < 2"
  shows "deliveries_ok (update_where (\<lambda>x. de_id x = k \<and> de_status x = NPending) (lease_row now owner) ds)"
proof -
  let ?ds = "update_where (\<lambda>x. de_id x = k \<and> de_status x = NPending) (lease_row now owner) ds"
  have d: "distinct (map de_id ds)" and k: "distinct (map delivery_key ds)" and ok: "list_all row_ok ds"
    and o: "count_where is_open ds \<le> maxPending"
    using assms(1) by (auto simp: deliveries_ok_def)
  have "map de_id ?ds = map de_id ds" "map delivery_key ?ds = map delivery_key ds"
    by (rule map_update_where; simp add: lease_row_def)+
  moreover have "count_where is_sending ?ds \<le> Suc (count_where is_sending ds)"
    by (rule count_where_update_by_key [OF d])
  moreover have "count_where is_open ?ds = count_where is_open ds"
    by (rule count_where_update_eq) (auto simp: lease_row_def)
  moreover have "list_all row_ok ?ds"
    using ok by (auto simp: list_all_iff set_update_where intro: lease_row_ok)
  ultimately show ?thesis using assms(2) d k o by (auto simp: deliveries_ok_def)
qed

lemma get_delivery_row: "get_delivery k db = Some v \<Longrightarrow> row_by de_id k (t_deliveries db) = Some (dv_row v)"
  by (auto simp: get_delivery_def deliveryView_def split: option.splits)

section \<open>Every step keeps the invariant\<close>

lemma copy_ok_append:
  "copy_ok ds d \<Longrightarrow> (\<And>x. x \<in> set ds' \<Longrightarrow> de_leaseOwner x = None) \<Longrightarrow> copy_ok (ds @ ds') d"
  by (auto simp: copy_ok_def)

lemma copy_ok_fresh:
  assumes "row_by de_id (de_id d) ds = Some d" and "distinct (map de_id ds)" and "de_leaseOwner d \<noteq> None"
  shows "copy_ok ds d"
proof -
  have "x = d" if "x \<in> set ds" "de_id x = de_id d" for x
    using row_by_unique [OF assms(2) that(1)] that(2) assms(1) by simp
  then show ?thesis using assms(3) by (auto simp: copy_ok_def)
qed

lemma worker_inv_claim:
  assumes inv: "worker_inv w" and fresh: "Some owner \<notin> owners w"
    and claim: "claim_delivery now owner (w_db w) = (r, db')"
  shows "worker_inv (w\<lparr>w_db := db', w_active := w_active w @ (case r of None \<Rightarrow> [] | Some d \<Rightarrow> [d])\<rparr>)"
proof -
  let ?ds = "update_where (lease_expired now) (release_row now) (t_deliveries (w_db w))"
  have ok: "deliveries_ok ?ds" using inv by (simp add: worker_inv_def released_ok)
  have copies: "copy_ok ?ds (dv_row d)" "de_leaseOwner (dv_row d) \<noteq> Some owner" if "d \<in> set (w_active w)" for d
    using inv fresh that by (auto simp: worker_inv_def list_all_iff owners_def image_iff intro: released_copy)
  from claim show ?thesis
  proof (cases rule: claim_delivery_cases)
    case idle
    with ok copies show ?thesis by (simp add: worker_inv_def list_all_iff)
  next
    case (leased d)
    let ?new = "update_where (\<lambda>x. de_id x = de_id d \<and> de_status x = NPending) (lease_row now owner) ?ds"
    have new: "deliveries_ok ?new" by (rule lease_count [OF ok leased(3)])
    have "copy_ok ?new (dv_row a)" if "a \<in> set (w_active w)" for a
      by (rule copy_ok_update [OF copies(1) [OF that]])
         (use copies(2) [OF that] in \<open>auto simp: lease_row_def\<close>)
    moreover have "copy_ok ?new (dv_row v)" if "r = Some v" for v
    proof (rule copy_ok_fresh)
      have v: "row_by de_id (de_id d) ?new = Some (dv_row v)"
        using that leased(5,6) get_delivery_row by metis
      then show "row_by de_id (de_id (dv_row v)) ?new = Some (dv_row v)"
        using row_by_SomeD [OF v] by simp
      show "distinct (map de_id ?new)" using new by (simp add: deliveries_ok_def)
      have "row_by de_id (de_id d) ?ds = Some d"
        using ok leased(1) by (simp add: deliveries_ok_def row_by_unique)
      with v leased(2) have "dv_row v = lease_row now owner d"
        by (simp add: row_by_update_where lease_row_def claimable_def)
      then show "de_leaseOwner (dv_row v) \<noteq> None" by (simp add: lease_row_def)
    qed
    ultimately show ?thesis
      using new leased(5) by (auto simp: worker_inv_def list_all_iff split: option.split)
  qed
qed

lemma finish_row_ok:
  "row_ok x \<Longrightarrow> de_cycleAttempts x = de_cycleAttempts d \<Longrightarrow> de_attemptCount x = de_attemptCount d \<Longrightarrow>
   row_ok (finish_row now d res x)"
  by (auto simp: row_ok_def finish_row_def Let_def)

lemma finish_row_keys [simp]:
  "de_id (finish_row now d res x) = de_id x" "de_eventId (finish_row now d res x) = de_eventId x"
  "de_channelId (finish_row now d res x) = de_channelId x" "de_leaseOwner (finish_row now d res x) = None"
  "\<not> is_sending (finish_row now d res x)"
  by (simp_all add: finish_row_def Let_def)

lemma finish_delivery_deliveries:
  "t_deliveries (finish_delivery now d res db) =
   update_where (\<lambda>x. de_id x = de_id d \<and> de_status x = NSending \<and> de_leaseOwner d \<noteq> None \<and>
                 de_leaseOwner x = de_leaseOwner d) (finish_row now d res) (t_deliveries db)"
  by (simp add: finish_delivery_def)

lemma worker_inv_finish:
  assumes inv: "worker_inv w" and d: "d \<in> set (w_active w)"
  shows "worker_inv (w\<lparr>w_db := finish_delivery now (dv_row d) res (w_db w)\<rparr>)"
proof -
  have ok: "deliveries_ok (t_deliveries (w_db w))" and c: "copy_ok (t_deliveries (w_db w)) (dv_row d)"
    using inv d by (auto simp: worker_inv_def list_all_iff)
  have "deliveries_ok (t_deliveries (finish_delivery now (dv_row d) res (w_db w)))"
    unfolding finish_delivery_deliveries
  proof (rule deliveries_ok_update [OF ok], goal_cases)
    case (3 x)
    then show ?case using c by (intro finish_row_ok) (auto simp: copy_ok_def)
  qed auto
  moreover have "copy_ok (t_deliveries (finish_delivery now (dv_row d) res (w_db w))) (dv_row a)"
    if "a \<in> set (w_active w)" for a
    unfolding finish_delivery_deliveries
    by (rule copy_ok_update) (use inv that in \<open>auto simp: worker_inv_def list_all_iff\<close>)
  ultimately show ?thesis
    by (simp add: worker_inv_def list_all_iff)
qed

lemma worker_inv_drop: "worker_inv w \<Longrightarrow> worker_inv (w\<lparr>w_active := remove1 d (w_active w)\<rparr>)"
  by (auto simp: worker_inv_def list_all_iff dest: notin_set_remove1)

lemma worker_inv_send_start:
  "worker_inv w \<Longrightarrow> d \<in> set (w_active w) \<Longrightarrow> worker_inv (w\<lparr>w_db := send_start now decrypt d (w_db w)\<rparr>)"
  by (auto simp: send_start_def worker_inv_finish split: option.split)

text \<open>New rows: pending, unleased, with their own key.\<close>

lemma insert_delivery_ok:
  assumes "distinct (map de_id ds)" "distinct (map delivery_key ds)" "list_all row_ok ds"
  shows "distinct (map de_id (insert_delivery now newId e c ds))"
    and "distinct (map delivery_key (insert_delivery now newId e c ds))"
    and "list_all row_ok (insert_delivery now newId e c ds)"
    and "count_where is_sending (insert_delivery now newId e c ds) = count_where is_sending ds"
    and "count_where is_open (insert_delivery now newId e c ds) \<le> Suc (count_where is_open ds)"
    and "copy_ok ds d \<Longrightarrow> copy_ok (insert_delivery now newId e c ds) d"
  using assms by (auto simp: insert_delivery_def row_ok_def list_ex_iff list_all_iff image_iff
      intro!: copy_ok_append)

lemma fold_insert_delivery_ok:
  assumes "distinct (map de_id ds)" "distinct (map delivery_key ds)" "list_all row_ok ds"
  shows "distinct (map de_id (fold (insert_delivery now newId e) cs ds)) \<and> distinct (map delivery_key (fold (insert_delivery now newId e) cs ds)) \<and> list_all row_ok (fold (insert_delivery now newId e) cs ds) \<and>
     count_where is_sending (fold (insert_delivery now newId e) cs ds) = count_where is_sending ds \<and>
     count_where is_open (fold (insert_delivery now newId e) cs ds) \<le> count_where is_open ds + length cs \<and>
     (copy_ok ds d \<longrightarrow> copy_ok (fold (insert_delivery now newId e) cs ds) d)"
  using assms
proof (induction cs arbitrary: ds)
  case Nil
  then show ?case by simp
next
  case (Cons c cs)
  note one = insert_delivery_ok [OF Cons.prems, where now = now and newId = newId and e = e and c = c]
  from Cons.IH [OF one(1,2,3)] one(4,5) one(6) [of d] show ?case by auto
qed

lemma insertEvent_ok:
  assumes "insertEvent now newId eventId ty p key cs db = Ok db'"
    and "deliveries_ok (t_deliveries db)" and "pendingCount db + length cs \<le> maxPending"
  shows "deliveries_ok (t_deliveries db') \<and> (copy_ok (t_deliveries db) d \<longrightarrow> copy_ok (t_deliveries db') d)"
proof -
  from assms(1) obtain e where "t_deliveries db' = fold (insert_delivery now newId e) cs (t_deliveries db)"
    by (auto simp: insertEvent_def Let_def split: option.splits)
  with assms(2,3) fold_insert_delivery_ok [of "t_deliveries db" now newId e cs d]
  show ?thesis by (auto simp: deliveries_ok_def pendingCount_def)
qed

lemma insertEvent_deliveries:
  "insertEvent now newId eventId ty p key cs db = Ok db' \<Longrightarrow>
   \<exists>e. t_deliveries db' = fold (insert_delivery now newId e) cs (t_deliveries db)"
  by (auto simp: insertEvent_def Let_def split: option.splits)

lemma reconcile_one_deliveries:
  assumes "reconcile_one now ne nd s db = Ok (Some db')"
  obtains (same) "t_deliveries db' = t_deliveries db"
  | (event) newId eventId ty p key cs db1 where "insertEvent now newId eventId ty p key cs db = Ok db1"
      "t_deliveries db' = t_deliveries db1" "pendingCount db + length cs \<le> maxPending"
proof -
  from assms obtain p st ty where t: "terminal_job s db = Some (p, st, ty)"
    by (auto simp: reconcile_one_def split: option.splits)
  show ?thesis
  proof (cases "(so_id s, st) \<in> set (t_observed db) \<or> event_channels s p ty db = []")
    case True
    with assms t have "t_deliveries db' = t_deliveries db"
      by (auto simp: reconcile_one_def clear_ready_def Let_def split: if_splits)
    then show ?thesis by (rule same)
  next
    case False
    let ?e = "ne (so_id s) st"
    from False assms t obtain db1 where
      "insertEvent now (nd ?e) ?e ty (Some p) (kind_text (so_kind s) @ '':'' @ so_jobId s @ '':'' @ st)
         (event_channels s p ty db) db = Ok db1"
      "t_deliveries db' = t_deliveries db1" "pendingCount db + length (event_channels s p ty db) \<le> maxPending"
      by (auto simp: reconcile_one_def clear_ready_def Let_def bind_result_Inr_iff split: if_splits)
    then show ?thesis by (rule event)
  qed
qed

lemma reconcile_one_ok:
  assumes "reconcile_one now ne nd s db = Ok (Some db')" and "deliveries_ok (t_deliveries db)"
  shows "deliveries_ok (t_deliveries db') \<and> (copy_ok (t_deliveries db) d \<longrightarrow> copy_ok (t_deliveries db') d)"
  using assms(1)
proof (cases rule: reconcile_one_deliveries)
  case same
  with assms(2) show ?thesis by simp
next
  case event
  with insertEvent_ok [OF event(1) assms(2) event(3)] show ?thesis by simp
qed

lemma reconcile_loop_ok:
  "reconcile_loop now ne nd ss db = Ok (n, db') \<Longrightarrow> deliveries_ok (t_deliveries db) \<Longrightarrow>
   deliveries_ok (t_deliveries db') \<and> (copy_ok (t_deliveries db) d \<longrightarrow> copy_ok (t_deliveries db') d)"
proof (induction ss arbitrary: n db)
  case Nil
  then show ?case by simp
next
  case (Cons s ss)
  then show ?case
    by (auto simp: bind_result_Inr_iff split: option.splits dest!: reconcile_one_ok [where d = d])
qed

lemma maintenance_ok:
  assumes "deliveries_ok (t_deliveries db)"
  shows "deliveries_ok (t_deliveries (maintenance now db))"
proof -
  have sub: "deliveries_ok (delete_where p ds)" if "deliveries_ok ds" for p ds
    using that count_where_delete_le [of is_sending p ds] count_where_delete_le [of is_open p ds]
    by (auto simp: deliveries_ok_def distinct_map_delete_where list_all_iff)
  then show ?thesis using assms by (simp add: maintenance_def Let_def)
qed

lemma maintenance_deliveries_subset:
  "set (t_deliveries (maintenance now db)) \<subseteq> set (t_deliveries db)"
  by (auto simp: maintenance_def Let_def)

lemma retry_delivery_cases:
  assumes "retry_delivery now k db = Ok (r, db')"
  obtains v n where "row_by de_id k (t_deliveries db) = Some v"
    "de_status v = NFailed" "de_manualRetries v < 3" "de_attemptCount v < 20"
    "pendingCount db < maxPending"
    "t_deliveries db' = update_where (\<lambda>x. de_id x = k \<and> de_status x = NFailed)
       (retry_row now n) (t_deliveries db)"
proof -
  from assms obtain v c where v: "get_delivery k db = Some v" and can: "dv_canRetry v"
    and c: "channel (de_channelId (dv_row v)) db = Some c"
    by (auto simp: retry_delivery_def split: option.splits if_splits)
  from assms v c can have room: "pendingCount db < maxPending"
    and upd: "t_deliveries db' = update_where (\<lambda>x. de_id x = k \<and> de_status x = NFailed)
       (retry_row now (cv_revision c)) (t_deliveries db)"
    by (auto simp: retry_delivery_def Let_def split: if_splits)
  have "de_status (dv_row v) = NFailed" "de_manualRetries (dv_row v) < 3" "de_attemptCount (dv_row v) < 20"
    using v can by (auto simp: get_delivery_def deliveryView_def split: option.splits)
  with that get_delivery_row [OF v] room upd show ?thesis by blast
qed

lemma worker_inv_retry:
  assumes inv: "worker_inv w" and retry: "retry_delivery now k (w_db w) = Ok (r, db')"
  shows "worker_inv (w\<lparr>w_db := db'\<rparr>)"
  using retry
proof (rule retry_delivery_cases)
  fix v n
  let ?ds = "t_deliveries (w_db w)"
  let ?p = "\<lambda>x. de_id x = k \<and> de_status x = NFailed"
  let ?f = "retry_row now n"
  assume v: "row_by de_id k ?ds = Some v" and "de_status v = NFailed"
    and lim: "de_manualRetries v < 3" "de_attemptCount v < 20"
    and room: "pendingCount (w_db w) < maxPending" and upd: "t_deliveries db' = update_where ?p ?f ?ds"
  have ok: "distinct (map de_id ?ds)" "distinct (map delivery_key ?ds)" "list_all row_ok ?ds"
    "count_where is_sending ?ds \<le> 2" and copies: "list_all (\<lambda>d. copy_ok ?ds (dv_row d)) (w_active w)"
    using inv by (auto simp: worker_inv_def deliveries_ok_def)
  have only: "x = v" if "x \<in> set ?ds" "de_id x = k" for x
    using row_by_unique [OF ok(1) that(1)] that(2) v by simp
  have "row_ok (?f x)" if "x \<in> set ?ds" "?p x" for x
    using ok(3) that only [of x] lim by (auto simp: list_all_iff row_ok_def retry_row_def)
  then have "list_all row_ok (update_where ?p ?f ?ds)"
    using ok(3) by (auto simp: list_all_iff set_update_where)
  moreover have "map de_id (update_where ?p ?f ?ds) = map de_id ?ds"
    "map delivery_key (update_where ?p ?f ?ds) = map delivery_key ?ds"
    by (rule map_update_where; simp add: retry_row_def)+
  moreover have "count_where is_sending (update_where ?p ?f ?ds) = count_where is_sending ?ds"
    by (rule count_where_update_eq) (simp add: retry_row_def)
  moreover have "count_where is_open (update_where ?p ?f ?ds) \<le> Suc (count_where is_open ?ds)"
    by (rule count_where_update_by_key [OF ok(1)])
  ultimately have "deliveries_ok (update_where ?p ?f ?ds)"
    using ok room by (simp add: deliveries_ok_def pendingCount_def)
  moreover have "copy_ok (update_where ?p ?f ?ds) (dv_row d)" if "d \<in> set (w_active w)" for d
    by (rule copy_ok_update)
       (use copies ok(3) that in \<open>auto simp: list_all_iff row_ok_def retry_row_def\<close>)
  ultimately show ?thesis using upd by (simp add: worker_inv_def list_all_iff)
qed

lemma worker_inv_step:
  assumes inv: "worker_inv w" and "worker_step w w'"
  shows "worker_inv w'"
  using assms(2)
proof cases
  case (ws_claim owner now r db')
  with worker_inv_claim [OF inv] show ?thesis by auto
next
  case (ws_finish d now res)
  with worker_inv_drop [OF worker_inv_finish [OF inv], of d d now res] show ?thesis
    by (simp add: worker_finish_def)
next
  case (ws_refuse d now decrypt)
  with worker_inv_send_start [OF inv] show ?thesis by simp
next
  case (ws_settled d)
  with worker_inv_drop [OF inv] show ?thesis by simp
next
  case ws_shutdown
  with inv show ?thesis by (simp add: worker_inv_def worker_shutdown_def)
next
  case ws_crash
  with inv show ?thesis by (simp add: worker_inv_def)
next
  case (ws_reconcile now ne nd limit n db')
  with inv reconcile_loop_ok show ?thesis
    by (auto simp: worker_inv_def reconcile_def list_all_iff)
next
  case (ws_maintenance now)
  with inv show ?thesis
    using maintenance_ok copy_ok_subset [OF _ maintenance_deliveries_subset]
    by (auto simp: worker_inv_def list_all_iff)
next
  case (ws_test now newId eventId channelId r db')
  then obtain c where "insertEvent now newId eventId ''notification.test'' None eventId [c] (w_db w) = Ok db'"
    "pendingCount (w_db w) < maxPending"
    by (auto simp: test_channel_def bind_result_Inr_iff split: option.splits if_splits)
  with inv ws_test(1) insertEvent_ok [of _ _ _ _ _ _ "[c]" "w_db w" db'] show ?thesis
    by (auto simp: worker_inv_def list_all_iff)
next
  case (ws_retry now deliveryId r db')
  with worker_inv_retry [OF inv] show ?thesis by simp
next
  case (ws_other db')
  with inv show ?thesis by (simp add: worker_inv_def)
qed

definition worker_init :: "worker \<Rightarrow> bool" where
  "worker_init w \<longleftrightarrow> t_deliveries (w_db w) = [] \<and> w_active w = []"

interpretation outbox: invariant_system worker_init worker_step worker_inv
proof
  show "worker_init w \<Longrightarrow> worker_inv w" for w
    by (simp add: worker_init_def worker_inv_def deliveries_ok_def)
qed (rule worker_inv_step)

section \<open>Reconciliation loses nothing\<close>

lemma fold_insert_delivery_keeps:
  "d \<in> set ds \<Longrightarrow> d \<in> set (fold (insert_delivery now newId e) cs ds)"
  by (induction cs arbitrary: ds) (auto simp: insert_delivery_def)

lemma fold_insert_delivery_new:
  assumes "d \<in> set (fold (insert_delivery now newId e) cs ds)" "d \<notin> set ds"
  shows "de_id d \<in> newId ` cv_id ` set cs"
  using assms by (induction cs arbitrary: ds) (fastforce simp: insert_delivery_def split: if_splits)+

lemma fold_insert_delivery_covers:
  assumes "inj newId" and "\<And>d c. d \<in> set ds \<Longrightarrow> c \<in> set cs \<Longrightarrow> de_id d \<noteq> newId (cv_id c)"
    and "c \<in> set cs" and "distinct (map cv_id cs)"
  shows "\<exists>d \<in> set (fold (insert_delivery now newId e) cs ds). delivery_key d = (e, cv_id c)"
  using assms
proof (induction cs arbitrary: ds)
  case Nil
  then show ?case by simp
next
  case (Cons b cs)
  let ?ds = "insert_delivery now newId e b ds"
  show ?case
  proof (cases "c = b")
    case True
    have "\<exists>d \<in> set ?ds. delivery_key d = (e, cv_id b)"
      using Cons.prems(2) [of _ b] by (auto simp: insert_delivery_def list_ex_iff)
    with True fold_insert_delivery_keeps show ?thesis by fastforce
  next
    case False
    have "de_id d \<noteq> newId (cv_id a)" if "d \<in> set ?ds" "a \<in> set cs" for d a
      using that Cons.prems by (auto simp: insert_delivery_def inj_eq split: if_splits)
    with False Cons show ?thesis by simp
  qed
qed

lemma clear_ready_frame [simp]:
  "t_plans (clear_ready k db) = t_plans db" "t_backups (clear_ready k db) = t_backups db"
  "t_recoveryTests (clear_ready k db) = t_recoveryTests db" "t_observed (clear_ready k db) = t_observed db"
  "t_channels (clear_ready k db) = t_channels db" "t_subscriptions (clear_ready k db) = t_subscriptions db"
  "t_deliveries (clear_ready k db) = t_deliveries db" "t_events (clear_ready k db) = t_events db"
  by (simp_all add: clear_ready_def)

lemma reconcile_one_frame:
  assumes "reconcile_one now ne nd s db = Ok (Some db')"
  shows "t_plans db' = t_plans db" "t_backups db' = t_backups db"
    "t_recoveryTests db' = t_recoveryTests db" "t_channels db' = t_channels db"
    "t_subscriptions db' = t_subscriptions db" "set (t_observed db) \<subseteq> set (t_observed db')"
    "t_sources db' = update_where (\<lambda>x. so_id x = so_id s) (\<lambda>x. x\<lparr>so_ready := False\<rparr>) (t_sources db)"
  using assms
  by (auto simp: reconcile_one_def insertEvent_def clear_ready_def Let_def bind_result_Inr_iff
      split: option.splits prod.splits if_splits)

text \<open>What decides the projection and the channels of a source is not touched by the loop.\<close>

lemma reconcile_one_stable:
  assumes "reconcile_one now ne nd s db = Ok (Some db')"
  shows "terminal_job x db' = terminal_job x db" "event_channels x p ty db' = event_channels x p ty db"
  using reconcile_one_frame [OF assms]
  by (auto simp: terminal_job_def plan_exists_def event_channels_def channels_def
      split: source_kind.splits option.splits)

definition source_done :: "pdb \<Rightarrow> source_row \<Rightarrow> bool" where
  "source_done db s \<longleftrightarrow>
     (\<forall>x \<in> set (t_sources db). so_id x = so_id s \<longrightarrow> \<not> so_ready x) \<and>
     (case terminal_job s db of None \<Rightarrow> False | Some (p, st, ty) \<Rightarrow> (so_id s, st) \<in> set (t_observed db))"

definition source_blocked :: "pdb \<Rightarrow> source_row \<Rightarrow> bool" where
  "source_blocked db s \<longleftrightarrow>
     (case terminal_job s db of None \<Rightarrow> False
      | Some (p, st, ty) \<Rightarrow> pendingCount db + length (event_channels s p ty db) > maxPending)"

lemma source_done_step:
  assumes "reconcile_one now ne nd s db = Ok (Some db')"
  shows "source_done db' s" and "source_done db x \<Longrightarrow> source_done db' x"
proof -
  note frame = reconcile_one_frame [OF assms] and stable = reconcile_one_stable [OF assms]
  from assms show "source_done db' s"
    by (auto simp: source_done_def stable frame(7) set_update_where reconcile_one_def Let_def
        bind_result_Inr_iff split: option.splits prod.splits if_splits)
  show "source_done db x \<Longrightarrow> source_done db' x"
    using frame(6,7) by (auto simp: source_done_def stable set_update_where split: option.splits)
qed

lemma reconcile_loop_keeps_done:
  "reconcile_loop now ne nd ss db = Ok (n, db') \<Longrightarrow> source_done db x \<Longrightarrow> source_done db' x"
  by (induction ss arbitrary: n db)
     (auto simp: bind_result_Inr_iff split: option.splits, use source_done_step(2) in blast)

lemma reconcile_loop_progress:
  "reconcile_loop now ne nd ss db = Ok (n, db') \<Longrightarrow>
   n \<le> length ss \<and> list_all (source_done db') (take n ss) \<and>
   (n < length ss \<longrightarrow> source_blocked db' (ss ! n))"
proof (induction ss arbitrary: n db)
  case Nil
  then show ?case by simp
next
  case (Cons s ss)
  then obtain r where r: "reconcile_one now ne nd s db = Ok r" by (auto simp: bind_result_Inr_iff)
  show ?case
  proof (cases r)
    case None
    with r Cons.prems have "n = 0" "db' = db" by auto
    with r None show ?thesis
      by (auto simp: source_blocked_def reconcile_one_def Let_def bind_result_Inr_iff
          split: option.splits prod.splits if_splits)
  next
    case (Some db1)
    with r Cons.prems obtain m where m: "reconcile_loop now ne nd ss db1 = Ok (m, db')" "n = Suc m"
      by (auto simp: bind_result_Inr_iff)
    have "source_done db' s"
      using r Some m(1) source_done_step(1) reconcile_loop_keeps_done by blast
    with Cons.IH [OF m(1)] m(2) show ?thesis by simp
  qed
qed

lemma channels_distinct: "distinct (map ch_id (t_channels db)) \<Longrightarrow> distinct (map cv_id (channels db))"
proof -
  assume "distinct (map ch_id (t_channels db))"
  then have "inj_on ch_id (set (t_channels db))" "distinct (t_channels db)"
    by (auto simp: distinct_map)
  then have "distinct (map ch_id (order_by k (filter P (t_channels db))))" for k :: "_ \<Rightarrow> int \<times> string" and P
    by (auto simp: distinct_map order_by_def inj_on_def)
  moreover have "cv_id \<circ> view = ch_id" by (rule ext) (simp add: view_def)
  ultimately show ?thesis by (simp add: channels_def)
qed

lemma event_channels_distinct:
  "distinct (map ch_id (t_channels db)) \<Longrightarrow> distinct (map cv_id (event_channels s p ty db))"
  by (auto simp: event_channels_def distinct_map_filter channels_distinct split: option.splits)

section \<open>A whole tick\<close>

lemma insert_delivery_owners:
  "de_leaseOwner ` set (fold (insert_delivery now newId e) cs ds) \<subseteq> insert None (de_leaseOwner ` set ds)"
proof (induction cs arbitrary: ds)
  case Nil
  then show ?case by auto
next
  case (Cons c cs)
  have "de_leaseOwner ` set (insert_delivery now newId e c ds) \<subseteq> insert None (de_leaseOwner ` set ds)"
    by (auto simp: insert_delivery_def)
  with Cons [of "insert_delivery now newId e c ds"] show ?case by auto
qed

lemma reconcile_one_owners:
  assumes "reconcile_one now ne nd s db = Ok (Some db')"
  shows "de_leaseOwner ` set (t_deliveries db') \<subseteq> insert None (de_leaseOwner ` set (t_deliveries db))"
  using assms
proof (cases rule: reconcile_one_deliveries)
  case same
  then show ?thesis by auto
next
  case (event newId eventId ty p key cs db1)
  obtain e where "t_deliveries db' = fold (insert_delivery now newId e) cs (t_deliveries db)"
    using insertEvent_deliveries [OF event(1)] event(2) by auto
  then show ?thesis by (simp add: insert_delivery_owners)
qed

lemma reconcile_loop_owners:
  "reconcile_loop now ne nd ss db = Ok (n, db') \<Longrightarrow>
   de_leaseOwner ` set (t_deliveries db') \<subseteq> insert None (de_leaseOwner ` set (t_deliveries db))"
proof (induction ss arbitrary: n db)
  case Nil
  then show ?case by auto
next
  case (Cons s ss)
  then consider "db' = db" | db1 m where "reconcile_one now ne nd s db = Ok (Some db1)"
    "reconcile_loop now ne nd ss db1 = Ok (m, db')"
    by (auto simp: bind_result_Inr_iff split: option.splits)
  then show ?case
  proof cases
    case 1
    then show ?thesis by auto
  next
    case 2
    have "insert None (de_leaseOwner ` set (t_deliveries db1)) \<subseteq> insert None (de_leaseOwner ` set (t_deliveries db))"
      using reconcile_one_owners [OF 2(1)] by (rule insert_subsetI [OF insertI1])
    with Cons.IH [OF 2(2)] show ?thesis by (rule subset_trans)
  qed
qed

lemma claim_owners:
  assumes "claim_delivery now owner db = (r, db')"
  shows "de_leaseOwner ` set (t_deliveries db') \<subseteq>
           {None, Some owner} \<union> de_leaseOwner ` set (t_deliveries db)"
    and "r = Some v \<Longrightarrow> de_leaseOwner (dv_row v) \<in> de_leaseOwner ` set (t_deliveries db')"
proof -
  show "de_leaseOwner ` set (t_deliveries db') \<subseteq>
           {None, Some owner} \<union> de_leaseOwner ` set (t_deliveries db)"
    using assms by (cases rule: claim_delivery_cases) (auto simp: set_update_where lease_row_def)
  assume "r = Some v"
  with assms obtain k where "get_delivery k db' = Some v"
    by (cases rule: claim_delivery_cases) auto
  then have "dv_row v \<in> set (t_deliveries db')"
    by (rule conjunct1 [OF row_by_SomeD [OF get_delivery_row]])
  then show "de_leaseOwner (dv_row v) \<in> de_leaseOwner ` set (t_deliveries db')" by simp
qed

lemma send_start_owners:
  "de_leaseOwner ` set (t_deliveries (send_start now decrypt d db)) \<subseteq>
     insert None (de_leaseOwner ` set (t_deliveries db))"
  by (auto simp: send_start_def finish_delivery_deliveries set_update_where split: option.splits)

lemma claim_loop_inv:
  assumes "worker_inv w" and "\<And>i. i < n \<Longrightarrow> Some (owner i) \<notin> owners w" and "inj owner"
    and "length (w_active w) + n \<le> 2"
  shows "worker_inv (claim_loop now decrypt owner n w) \<and>
         length (w_active (claim_loop now decrypt owner n w)) \<le> 2"
  using assms
proof (induction n arbitrary: w)
  case 0
  then show ?case by simp
next
  case (Suc n)
  obtain r db' where c: "claim_delivery now (owner n) (w_db w) = (r, db')" by fastforce
  note inv = worker_inv_claim [OF Suc.prems(1,2) c, simplified]
  show ?case
  proof (cases r)
    case None
    with c inv Suc.prems(4) show ?thesis by simp
  next
    case (Some d)
    let ?w = "w\<lparr>w_db := send_start now decrypt d db', w_active := w_active w @ [d]\<rparr>"
    have "Some (owner i) \<notin> owners ?w" if "i < n" for i
    proof -
      have "owner i \<noteq> owner n" using that Suc.prems(3) by (auto dest: injD)
      then have "Some (owner i) \<notin> de_leaseOwner ` set (t_deliveries db')" "Some (owner i) \<noteq> de_leaseOwner (dv_row d)"
        using claim_owners [OF c] Some Suc.prems(2) [of i] that by (auto simp: owners_def)
      then show ?thesis
        using send_start_owners [of now decrypt d db'] Suc.prems(2) [of i] that by (auto simp: owners_def)
    qed
    moreover have "worker_inv ?w"
      using worker_inv_send_start [of "w\<lparr>w_db := db', w_active := w_active w @ [d]\<rparr>" d now decrypt] inv Some
      by (simp add: worker_inv_def)
    ultimately show ?thesis using Suc.IH [of ?w] Suc.prems(3,4) Some c by simp
  qed
qed

section \<open>Properties\<close>

text \<open>An outbox with one enabled channel, for the concrete instances below.\<close>

definition sample_channel :: channel_row where
  "sample_channel =
     \<lparr>ch_id = ''c'', ch_name = ''ops'', ch_kind = Webhook, ch_enabled = True, ch_deleted = False,
      ch_events = [''backup.completed''], ch_username = [], ch_encryptedSecret = Some ''x'', ch_revision = 1,
      ch_sourceFloor = 0, ch_createdAt = 0, ch_updatedAt = 0\<rparr>"

definition sample_delivery :: delivery_row where
  "sample_delivery =
     \<lparr>de_id = ''d'', de_eventId = ''e'', de_channelId = ''c'', de_channelName = ''ops'',
      de_kind = Webhook, de_revision = 1, de_status = NPending, de_attemptCount = 0, de_cycleAttempts = 0,
      de_manualRetries = 0, de_createdAt = 5, de_lastAttemptAt = None, de_nextAttemptAt = Some 5,
      de_completedAt = None, de_leaseUntil = None, de_leaseOwner = None, de_errorCode = None,
      de_httpStatus = None\<rparr>"

definition sample_event :: event_row where
  "sample_event = \<lparr>ev_id = ''e'', ev_logicalKey = ''e'', ev_type = ''notification.test'',
     ev_planId = None, ev_createdAt = 5\<rparr>"

definition sample_outbox :: pdb where
  "sample_outbox = empty_db\<lparr>t_channels := [sample_channel], t_events := [sample_event],
     t_deliveries := [sample_delivery]\<rparr>"

lemmas sample_defs = sample_channel_def sample_delivery_def sample_event_def sample_outbox_def empty_db_def

lemma sample_outbox_reachable:
  "reachable worker_init worker_step \<lparr>w_db = sample_outbox, w_active = [], w_stopped = False\<rparr>"
proof -
  let ?w = "\<lparr>w_db = empty_db\<lparr>t_channels := [sample_channel]\<rparr>, w_active = [], w_stopped = False\<rparr>"
  have "test_channel 5 (\<lambda>_. ''d'') ''e'' ''c'' (w_db ?w) =
      Ok (Some \<lparr>dv_row = sample_delivery, dv_eventType = ''notification.test'', dv_planId = None,
            dv_canRetry = False\<rparr>, sample_outbox)"
    by (simp add: test_channel_def channel_def channelRow_def view_def pendingCount_def maxPending_def
        insertEvent_def insert_delivery_def deliveries_def delivery_views_def deliveryView_def order_by_def
        List.map_filter_def sample_defs)
  then have "worker_step ?w (?w\<lparr>w_db := sample_outbox\<rparr>)" by (rule ws_test)
  moreover have "worker_init ?w" by (simp add: worker_init_def empty_db_def)
  ultimately show ?thesis by (auto intro: reach_step reach_init)
qed

text \<open>
  C19: In every state the outbox and its worker reach, whatever runs in between and whenever the
  worker crashes, at most two deliveries are being sent, at most \<open>maxPending\<close> are open, no event has
  two deliveries for a channel, no row exceeds 5 attempts in a cycle, 20 attempts or 3 manual
  retries, exactly the rows being sent carry a lease, and every pending row can still be claimed.
\<close>

theorem outbox_bounds:
  assumes "reachable worker_init worker_step w"
  shows "count_where is_sending (t_deliveries (w_db w)) \<le> 2 \<and>
    count_where is_open (t_deliveries (w_db w)) \<le> maxPending \<and>
    distinct (map delivery_key (t_deliveries (w_db w))) \<and>
    list_all (\<lambda>d. de_cycleAttempts d \<le> 5 \<and> de_attemptCount d \<le> 20 \<and> de_manualRetries d \<le> 3 \<and>
        (is_sending d \<longleftrightarrow> de_leaseOwner d \<noteq> None) \<and>
        (de_status d = NPending \<longrightarrow>
           (\<exists>t. de_nextAttemptAt d = Some t \<and> (\<forall>now \<ge> t. claimable now d))))
      (t_deliveries (w_db w))"
proof -
  have "worker_inv w" using assms by (rule outbox.reachable_inv)
  then show ?thesis
    by (auto simp: worker_inv_def deliveries_ok_def list_all_iff row_ok_def claimable_def)
qed

theorem outbox_bounds_witness:
  "count_where is_sending (t_deliveries sample_outbox) \<le> 2 \<and> claimable 7 sample_delivery"
  using outbox_bounds [OF sample_outbox_reachable]
  by (auto simp: sample_outbox_def sample_delivery_def)

text \<open>
  A whole tick of the worker (reconcile, maintenance, then a claim per free slot) keeps the
  invariant and never leaves more than two deliveries in the worker's hands, as long as each claim
  draws a lease owner nobody holds.
\<close>

theorem worker_tick_safe:
  assumes "worker_inv w" and "length (w_active w) \<le> 2"
    and "inj owner" and "\<And>i. Some (owner i) \<notin> owners w"
  shows "worker_inv (worker_tick now decrypt ne nd owner w) \<and> length (w_active (worker_tick now decrypt ne nd owner w)) \<le> 2"
proof (cases "w_stopped w \<or> (\<exists>e. reconcile now ne nd 50 (w_db w) = Inl e)")
  case True
  with assms(1,2) show ?thesis by (auto simp: worker_tick_def)
next
  case False
  then obtain n db1 where r: "\<not> w_stopped w" "reconcile now ne nd 50 (w_db w) = Ok (n, db1)"
    by (metis old.sum.exhaust surj_pair)
  let ?w = "w\<lparr>w_db := maintenance now db1\<rparr>"
  have "worker_inv (w\<lparr>w_db := db1\<rparr>)"
    using worker_inv_step [OF assms(1) ws_reconcile [OF r(2)]] .
  then have "worker_inv ?w" using worker_inv_step [OF _ ws_maintenance] by fastforce
  moreover have "Some (owner i) \<notin> owners ?w" for i
    using assms(4) [of i] reconcile_loop_owners [OF r(2) [unfolded reconcile_def]]
      maintenance_deliveries_subset [of now db1] by (auto simp: owners_def)
  ultimately show ?thesis
    using claim_loop_inv [of ?w "2 - length (w_active w)" owner now decrypt] assms(2,3) r
    by (simp add: worker_tick_def)
qed

theorem worker_tick_safe_witness:
  "length (w_active (worker_tick 7 Some (\<lambda>_ _. ''e'') (\<lambda>_ _. ''d'') (\<lambda>i. replicate i (CHR ''o''))
     \<lparr>w_db = sample_outbox, w_active = [], w_stopped = False\<rparr>)) \<le> 2"
proof -
  let ?w = "\<lparr>w_db = sample_outbox, w_active = [], w_stopped = False\<rparr>"
  have "worker_inv ?w" using sample_outbox_reachable by (rule outbox.reachable_inv)
  moreover have "inj (\<lambda>i. replicate i (CHR ''o''))" by (rule injI) (metis length_replicate)
  moreover have "Some x \<notin> owners ?w" for x by (simp add: owners_def sample_defs)
  ultimately show ?thesis using worker_tick_safe [of ?w] by simp
qed

end
