(* ===== verification/Notification_Guarantees.thy ===== *)
theory Notification_Guarantees
  imports Notification_Worker
begin

text \<open>
  What the outbox promises its users: due deliveries are claimed, earliest first; a worker whose
  lease ran out cannot change the row; finished jobs are reported once and to every subscribed
  channel; a deleted channel is never sent to; a new subscription does not report old jobs;
  maintenance only drops settled deliveries.
\<close>

section \<open>Claims and leases\<close>

lemma released_next_due:
  assumes "distinct (map de_id ds)" and "next_due now ds = Some d"
  shows "update_where (\<lambda>x. de_id x = de_id d \<and> de_status x = NPending) (lease_row now owner) ds =
         update_where (\<lambda>x. x = d) (lease_row now owner) ds"
proof -
  have d: "d \<in> set ds" "de_status d = NPending"
    using next_due_SomeD [OF assms(2)] by (auto simp: claimable_def)
  have "(de_id x = de_id d \<and> de_status x = NPending) = (x = d)" if "x \<in> set ds" for x
    using d that distinct_map_eqD [OF assms(1), of x d] by auto
  then show ?thesis unfolding update_where_def by (intro map_cong) auto
qed

text \<open>
  C28: Whenever a claimable delivery exists after the expired leases are released and fewer than two
  are being sent, a claim succeeds: it leases, for one minute and with one more attempt, the
  claimable delivery with the earliest due time (ties by creation time), and changes nothing else.
\<close>

theorem claim_leases_earliest_due:
  fixes db :: pdb and now :: int
  defines "ds \<equiv> update_where (lease_expired now) (release_row now) (t_deliveries db)"
  assumes "distinct (map de_id (t_deliveries db))"
    and "\<And>d. d \<in> set (t_deliveries db) \<Longrightarrow> de_eventId d \<in> ev_id ` set (t_events db)"
    and "x \<in> set ds" and "claimable now x" and "count_where is_sending ds < 2"
  shows "\<exists>d v. claimable now d \<and> d \<in> set ds \<and>
     (\<forall>y \<in> set ds. claimable now y \<longrightarrow>
        (the (de_nextAttemptAt d), de_createdAt d) \<le> (the (de_nextAttemptAt y), de_createdAt y)) \<and>
     claim_delivery now owner db =
       (Some v, db\<lparr>t_deliveries := update_where (\<lambda>y. y = d) (lease_row now owner) ds\<rparr>) \<and>
     dv_row v = lease_row now owner d"
proof -
  have "next_due now ds \<noteq> None" using assms(4,5) by (auto simp: next_due_None_iff)
  then obtain d where d: "next_due now ds = Some d" by auto
  note due = next_due_SomeD [OF d]
  have ids: "distinct (map de_id ds)"
    using assms(2) unfolding ds_def by (simp add: map_update_where)
  let ?new = "update_where (\<lambda>y. y = d) (lease_row now owner) ds"
  let ?db = "db\<lparr>t_deliveries := ?new\<rparr>"
  have "row_by de_id (de_id d) ?new = map_option (\<lambda>y. if y = d then lease_row now owner y else y) (row_by de_id (de_id d) ds)"
    by (rule row_by_update_where) (simp add: lease_row_def)
  also have "row_by de_id (de_id d) ds = Some d" using ids due by (simp add: row_by_unique)
  finally have row: "row_by de_id (de_id d) ?new = Some (lease_row now owner d)" by simp
  have "de_eventId d \<in> ev_id ` set (t_events db)"
    using due assms(3) unfolding ds_def by (auto simp: set_update_where)
  then obtain e where "row_by ev_id (de_eventId (lease_row now owner d)) (t_events db) = Some e"
    by (cases "row_by ev_id (de_eventId d) (t_events db)") (auto simp: row_by_None_iff lease_row_def)
  then have "get_delivery (de_id d) ?db = Some (deliveryView ?db (lease_row now owner d) e)"
    using row by (simp add: get_delivery_def)
  moreover from d assms(6) have "claim_delivery now owner db = (get_delivery (de_id d) ?db, ?db)"
    unfolding ds_def by (simp add: claim_delivery_def Let_def released_next_due [OF ids d, unfolded ds_def])
  ultimately show ?thesis
    using due next_due_least [OF d] by (intro exI [of _ d]) (auto simp: deliveryView_def)
qed

theorem claim_leases_earliest_due_witness:
  "\<exists>d v. claimable 7 d \<and> d \<in> set [sample_delivery] \<and>
     (\<forall>y \<in> set [sample_delivery]. claimable 7 y \<longrightarrow>
        (the (de_nextAttemptAt d), de_createdAt d) \<le> (the (de_nextAttemptAt y), de_createdAt y)) \<and>
     claim_delivery 7 ''o'' sample_outbox =
       (Some v, sample_outbox\<lparr>t_deliveries := update_where (\<lambda>y. y = d) (lease_row 7 ''o'') [sample_delivery]\<rparr>) \<and>
     dv_row v = lease_row 7 ''o'' d"
proof -
  have r: "update_where (lease_expired 7) (release_row 7) (t_deliveries sample_outbox) = [sample_delivery]"
    by (simp add: sample_outbox_def sample_delivery_def lease_expired_def)
  show ?thesis
    by (rule claim_leases_earliest_due [where now = 7 and db = sample_outbox, unfolded r])
       (auto simp: sample_outbox_def sample_delivery_def sample_event_def claimable_def)
qed

text \<open>
  A worker that lost its lease cannot settle the delivery: once another claim has found the lease
  expired, finishing the stale copy leaves the database as it is, whether or not the delivery was
  leased again in the meantime.
\<close>

theorem expired_lease_cannot_finish:
  assumes "distinct (map de_id (t_deliveries db))"
    and "x \<in> set (t_deliveries db)" and "lease_expired now x" and "de_id x = de_id d"
    and "de_leaseOwner d \<noteq> Some owner" and "claim_delivery now owner db = (r, db')"
  shows "finish_delivery later d res db' = db'"
proof -
  let ?ds = "update_where (lease_expired now) (release_row now) (t_deliveries db)"
  have one: "y = x" if "y \<in> set (t_deliveries db)" "de_id y = de_id d" for y
    using assms(2,4) that by (intro distinct_map_eqD [OF assms(1)]) auto
  have free: "de_leaseOwner y = None" if "y \<in> set ?ds" "de_id y = de_id d" for y
    using that one assms(3) by (auto simp: set_update_where split: if_splits)
  from assms(6) have "de_leaseOwner y \<in> {None, Some owner}" if "y \<in> set (t_deliveries db')" "de_id y = de_id d" for y
    using that free by (cases rule: claim_delivery_cases) (auto simp: set_update_where lease_row_def split: if_splits)
  then have "t_deliveries (finish_delivery later d res db') = t_deliveries db'"
    unfolding finish_delivery_deliveries using assms(5) by (intro update_where_none) fastforce
  then show ?thesis by (simp add: finish_delivery_def)
qed

theorem expired_lease_cannot_finish_witness:
  "finish_delivery 70001 (lease_row 7 ''a'' sample_delivery) (failed_result ''timeout'')
     (snd (claim_delivery 70000 ''b'' (sample_outbox\<lparr>t_deliveries := [lease_row 7 ''a'' sample_delivery]\<rparr>))) =
   snd (claim_delivery 70000 ''b'' (sample_outbox\<lparr>t_deliveries := [lease_row 7 ''a'' sample_delivery]\<rparr>))"
proof -
  let ?x = "lease_row 7 ''a'' sample_delivery"
  let ?db = "sample_outbox\<lparr>t_deliveries := [?x]\<rparr>"
  have "claim_delivery 70000 ''b'' ?db =
      (fst (claim_delivery 70000 ''b'' ?db), snd (claim_delivery 70000 ''b'' ?db))" by simp
  from expired_lease_cannot_finish [OF _ _ _ _ _ this, of ?x ?x] show ?thesis
    by (simp add: lease_row_def lease_expired_def)
qed

text \<open>
  The holder of the lease settles the delivery as the transport said: a success is final; a
  retryable failure within the limits becomes pending again, not before the exponential backoff and
  the receiver's \<open>Retry-After\<close> (both capped at one hour); anything else fails it for good.  The
  lease is dropped in every case.
\<close>

theorem finish_outcome:
  assumes "x \<in> set (t_deliveries db)" and "is_sending x" and "de_leaseOwner x = Some o'"
    and "1 \<le> de_cycleAttempts x"
  shows "\<exists>y \<in> set (t_deliveries (finish_delivery now x res db)).
     de_id y = de_id x \<and> de_leaseOwner y = None \<and>
     (if re_success res then de_status y = NSucceeded \<and> de_completedAt y = Some now
      else if re_retryable res \<and> de_cycleAttempts x < 5 \<and> de_attemptCount x < 20
      then de_status y = NPending \<and> (\<exists>t. de_nextAttemptAt y = Some t \<and> t \<le> now + 3600000 \<and>
             now + 30000 * 2 ^ (de_cycleAttempts x - 1) \<le> t \<and>
             (case re_retryAfterSeconds res of None \<Rightarrow> True | Some s \<Rightarrow> now + min 3600000 (s * 1000) \<le> t))
      else de_status y = NFailed \<and> de_completedAt y = Some now \<and> de_errorCode y \<noteq> None)"
proof (rule bexI [of _ "finish_row now x res x"])
  show "finish_row now x res x \<in> set (t_deliveries (finish_delivery now x res db))"
    unfolding finish_delivery_deliveries set_update_where using assms(1-3) by (auto intro!: image_eqI [of _ _ x])
  have "(2::int) ^ (de_cycleAttempts x - 1) \<le> 2 ^ 3" if "de_cycleAttempts x < 5"
    using that by (intro power_increasing) auto
  then show "de_id (finish_row now x res x) = de_id x \<and> de_leaseOwner (finish_row now x res x) = None \<and>
     (if re_success res then de_status (finish_row now x res x) = NSucceeded \<and> de_completedAt (finish_row now x res x) = Some now
      else if re_retryable res \<and> de_cycleAttempts x < 5 \<and> de_attemptCount x < 20
      then de_status (finish_row now x res x) = NPending \<and> (\<exists>t. de_nextAttemptAt (finish_row now x res x) = Some t \<and> t \<le> now + 3600000 \<and>
             now + 30000 * 2 ^ (de_cycleAttempts x - 1) \<le> t \<and>
             (case re_retryAfterSeconds res of None \<Rightarrow> True | Some s \<Rightarrow> now + min 3600000 (s * 1000) \<le> t))
      else de_status (finish_row now x res x) = NFailed \<and> de_completedAt (finish_row now x res x) = Some now \<and>
           de_errorCode (finish_row now x res x) \<noteq> None)"
    using assms(4) by (auto simp: finish_row_def retry_delay_def Let_def split: option.split)
qed

theorem finish_outcome_witness:
  "\<exists>y \<in> set (t_deliveries (finish_delivery 9 (lease_row 7 ''a'' sample_delivery)
        \<lparr>re_success = False, re_retryable = True, re_code = None, re_status = Some 503,
         re_retryAfterSeconds = Some 60\<rparr> (sample_outbox\<lparr>t_deliveries := [lease_row 7 ''a'' sample_delivery]\<rparr>))).
     de_status y = NPending \<and> (\<exists>t. de_nextAttemptAt y = Some t \<and> 60009 \<le> t)"
  using finish_outcome [of "lease_row 7 ''a'' sample_delivery"
      "sample_outbox\<lparr>t_deliveries := [lease_row 7 ''a'' sample_delivery]\<rparr>" "''a''" 9
      "\<lparr>re_success = False, re_retryable = True, re_code = None, re_status = Some 503, re_retryAfterSeconds = Some 60\<rparr>"]
  by (auto simp: lease_row_def sample_delivery_def)

section \<open>Finished jobs\<close>

text \<open>
  Reconciliation loses no finished job: the sources it handled are cleared only together with the
  record that their status was observed, and where it stops early, the first source it left
  (still ready) has more channels than the queue has room for.
\<close>

theorem reconcile_handles_prefix:
  assumes "reconcile now ne nd limit db = Ok (n, db')"
  shows "n \<le> length (ready_sources limit db) \<and>
     (\<forall>s \<in> set (take n (ready_sources limit db)). source_done db' s) \<and>
     (n < length (ready_sources limit db) \<longrightarrow> source_blocked db' (ready_sources limit db ! n))"
  using reconcile_loop_progress [OF assms [unfolded reconcile_def]] by (auto simp: list_all_iff)

definition sample_backup :: backup_row where
  "sample_backup =
     \<lparr>bk_id = ''b'', bk_planId = Some ''p'', bk_status = Some ''completed'', bk_inProgress = Some False,
      bk_success = Some True, bk_method = ''backup'', bk_sourceType = ''device'', bk_sourceId = ''main'',
      bk_storageId = Some ''s'', bk_storagePath = Some ''x'', bk_encryption = Some True, bk_ended = Some 4,
      bk_snapshot = None, bk_warnings = 0, bk_mirrors = []\<rparr>"

definition sample_plan :: plan_row where
  "sample_plan =
     \<lparr>pl_id = ''p'', pl_title = ''plan'', pl_storageId = Some ''s'', pl_storagePath = Some ''x'',
      pl_method = ''backup'', pl_sourceType = ''device'', pl_sourceId = ''main'',
      pl_replicationEnabled = False, pl_replicas = [], pl_databases = []\<rparr>"

definition sample_source :: source_row where
  "sample_source = \<lparr>so_id = 3, so_kind = KBackup, so_jobId = ''b'', so_ready = True\<rparr>"

definition sample_jobs :: pdb where
  "sample_jobs = empty_db\<lparr>t_plans := [sample_plan], t_backups := [sample_backup],
     t_sources := [sample_source],
     t_channels := [sample_channel],
     t_subscriptions := [\<lparr>su_planId = ''p'', su_enabled = True, su_channelIds = [''c''],
        su_events = [''backup.completed''], su_sourceFloor = 0\<rparr>]\<rparr>"

lemma sample_terminal_job:
  "terminal_job sample_source sample_jobs =
     Some (''p'', ''completed'', ''backup.completed'')"
  by (simp add: terminal_job_def plan_exists_def sample_jobs_def sample_plan_def sample_backup_def
      sample_source_def backup_event_type_def)

lemma sample_event_channels:
  "event_channels sample_source
     ''p'' ''backup.completed'' sample_jobs = [view sample_channel]"
  by (simp add: event_channels_def channels_def view_def order_by_def sample_jobs_def
      sample_channel_def sample_source_def)

lemma sample_reconcile_one:
  "\<exists>db'. reconcile_one 9 (\<lambda>_ _. ''e'') (\<lambda>_ c. c)
     sample_source sample_jobs = Ok (Some db')"
proof -
  have "t_events sample_jobs = []" "t_observed sample_jobs = []" "t_deliveries sample_jobs = []"
    by (simp_all add: sample_jobs_def empty_db_def)
  then show ?thesis
    by (simp add: reconcile_one_def sample_terminal_job sample_event_channels insertEvent_def
        pendingCount_def maxPending_def)
qed

theorem reconcile_handles_prefix_witness:
  "\<exists>db'. reconcile 9 (\<lambda>_ _. ''e'') (\<lambda>_ c. c) 50 sample_jobs = Ok (1, db') \<and>
     source_done db' sample_source"
proof -
  let ?s = sample_source
  have src: "t_sources sample_jobs = [?s]" by (simp add: sample_jobs_def)
  then have ready: "ready_sources 50 sample_jobs = [?s]"
    using sample_terminal_job by (simp add: ready_sources_def order_by_def sample_source_def)
  obtain db' where "reconcile_one 9 (\<lambda>_ _. ''e'') (\<lambda>_ c. c) ?s sample_jobs = Ok (Some db')"
    using sample_reconcile_one by blast
  then have "reconcile 9 (\<lambda>_ _. ''e'') (\<lambda>_ c. c) 50 sample_jobs = Ok (1, db')"
    by (simp add: reconcile_def ready)
  with reconcile_handles_prefix [OF this] ready show ?thesis by auto
qed

text \<open>
  A finished job is reported to every channel that is enabled and subscribed to its event, and
  exactly once: handling its source files a delivery for each of these channels under one event, and
  handling a source whose status was observed before files nothing.  Event and delivery ids are
  drawn fresh.
\<close>

theorem reconcile_reports_once:
  assumes "reconcile_one now ne nd s db = Ok (Some db')" and "terminal_job s db = Some (p, st, ty)"
    and "distinct (map ch_id (t_channels db))" and "inj (nd (ne (so_id s) st))"
    and "\<And>d c. d \<in> set (t_deliveries db) \<Longrightarrow> de_id d \<noteq> nd (ne (so_id s) st) c"
  shows "if (so_id s, st) \<in> set (t_observed db) then t_deliveries db' = t_deliveries db
     else \<forall>c \<in> set (event_channels s p ty db). \<exists>d \<in> set (t_deliveries db'). \<exists>e \<in> set (t_events db').
            de_channelId d = cv_id c \<and> de_eventId d = ev_id e \<and>
            ev_logicalKey e = kind_text (so_kind s) @ '':'' @ so_jobId s @ '':'' @ st"
proof (cases "(so_id s, st) \<in> set (t_observed db) \<or> event_channels s p ty db = []")
  case True
  with assms(1,2) show ?thesis by (auto simp: reconcile_one_def)
next
  case False
  let ?key = "kind_text (so_kind s) @ '':'' @ so_jobId s @ '':'' @ st"
  let ?e = "ne (so_id s) st"
  let ?cs = "event_channels s p ty db"
  from False assms(1,2) obtain db1 where db1: "insertEvent now (nd ?e) ?e ty (Some p) ?key ?cs db = Ok db1"
    "t_deliveries db' = t_deliveries db1" "t_events db' = t_events db1"
    by (auto simp: reconcile_one_def Let_def bind_result_Inr_iff split: if_splits)
  from db1(1) obtain e where e: "row_by ev_logicalKey ?key (t_events db1) = Some e"
    "t_deliveries db1 = fold (insert_delivery now (nd ?e) (ev_id e)) ?cs (t_deliveries db)"
    by (auto simp: insertEvent_def Let_def split: option.splits if_splits)
  have covered: "\<exists>d \<in> set (t_deliveries db1). delivery_key d = (ev_id e, cv_id c)" if "c \<in> set ?cs" for c
    unfolding e(2)
    by (rule fold_insert_delivery_covers [OF assms(4) _ that])
       (use assms(3,5) in \<open>auto intro: event_channels_distinct\<close>)
  have "\<exists>d \<in> set (t_deliveries db'). \<exists>e \<in> set (t_events db'). de_channelId d = cv_id c \<and>
      de_eventId d = ev_id e \<and> ev_logicalKey e = ?key" if "c \<in> set ?cs" for c
    using covered [OF that] row_by_SomeD [OF e(1)] unfolding db1(2,3) by auto
  with False show ?thesis by simp
qed

theorem reconcile_reports_once_witness:
  "\<exists>db'. reconcile_one 9 (\<lambda>_ _. ''e'') (\<lambda>_ c. c)
       sample_source sample_jobs = Ok (Some db') \<and>
     (\<exists>d \<in> set (t_deliveries db'). de_channelId d = ''c'')"
proof -
  let ?s = sample_source
  obtain db' where r: "reconcile_one 9 (\<lambda>_ _. ''e'') (\<lambda>_ c. c) ?s sample_jobs = Ok (Some db')"
    using sample_reconcile_one by blast
  have "t_observed sample_jobs = []" "t_deliveries sample_jobs = []" "t_channels sample_jobs = [sample_channel]"
    "cv_id (view sample_channel) = ''c''"
    by (simp_all add: sample_jobs_def empty_db_def view_def sample_channel_def)
  with reconcile_reports_once [OF r sample_terminal_job] sample_event_channels r show ?thesis by auto
qed

section \<open>Channels, subscriptions, maintenance\<close>

text \<open>
  Once a channel is deleted nothing is sent to it any more, also not a delivery a worker had
  already claimed: both checks of the worker refuse.  Its secret is gone, no subscription lists it,
  and a subscription left without channels is disabled.
\<close>

theorem deleted_channel_never_sends:
  assumes "deleteChannel now c db = Ok db'" and "distinct (map ch_id (t_channels db))"
  shows "(\<forall>d. de_channelId (dv_row d) = c \<longrightarrow>
            \<not> canSend d db' \<and> send_check decrypt d db' = Some (failed_result ''channel-disabled'')) \<and>
     channelSecret dec c db' = None \<and>
     (\<forall>s \<in> set (t_subscriptions db'). c \<notin> set (su_channelIds s) \<and> (su_enabled s \<longrightarrow> su_channelIds s \<noteq> []))"
proof -
  let ?f = "\<lambda>c. c\<lparr>ch_deleted := True, ch_enabled := False, ch_encryptedSecret := None,
              ch_revision := Suc (ch_revision c), ch_updatedAt := now\<rparr>"
  from assms(1) obtain r where r: "r \<in> set (t_channels db)" "ch_id r = c" "\<not> ch_deleted r"
    by (auto simp: deleteChannel_def list_ex_iff split: if_splits)
  have "row_by ch_id c (t_channels db) = Some r" using row_by_unique [OF assms(2) r(1)] r(2) by simp
  moreover have "t_channels db' = update_where (\<lambda>x. ch_id x = c \<and> \<not> ch_deleted x) ?f (t_channels db)"
    using assms(1) by (auto simp: deleteChannel_def split: if_splits)
  ultimately have row: "channelRow c db' = Some (?f r)"
    using r by (simp add: channelRow_def row_by_update_where)
  then have "channel c db' = Some (view (?f r))" by (simp add: channel_def)
  then have "\<not> canSend d db' \<and> send_check decrypt d db' = Some (failed_result ''channel-disabled'')"
    if "de_channelId (dv_row d) = c" for d
    using that by (simp add: canSend_def send_check_def view_def)
  moreover have "channelSecret dec c db' = None" using row by (simp add: channelSecret_def)
  moreover have "\<forall>s \<in> set (t_subscriptions db'). c \<notin> set (su_channelIds s) \<and> (su_enabled s \<longrightarrow> su_channelIds s \<noteq> [])"
    using assms(1) by (auto simp: deleteChannel_def Let_def split: if_splits)
  ultimately show ?thesis by blast
qed

theorem deleted_channel_never_sends_witness:
  "\<exists>db'. deleteChannel 9 ''c'' sample_jobs = Ok db' \<and>
     (\<forall>s \<in> set (t_subscriptions db'). ''c'' \<notin> set (su_channelIds s))"
proof -
  have ch: "t_channels sample_jobs = [sample_channel]" by (simp add: sample_jobs_def)
  then obtain db' where d: "deleteChannel 9 ''c'' sample_jobs = Ok db'"
    by (simp add: deleteChannel_def sample_channel_def)
  with deleted_channel_never_sends [OF d] ch show ?thesis by simp
qed

lemma source_floor_ge: "s \<in> set (t_sources db) \<Longrightarrow> so_id s \<le> source_floor db"
proof -
  have "x \<in> set xs \<Longrightarrow> x \<le> foldr max xs (0::nat)" for x xs
    by (induction xs) auto
  then show "s \<in> set (t_sources db) \<Longrightarrow> so_id s \<le> source_floor db"
    by (simp add: source_floor_def)
qed

text \<open>
  Subscribing does not report the past: saving a subscription that is new, was disabled or
  changes its channels or events means that no job known at that moment is reported under it, while
  re-saving an unchanged enabled one (its lists in any order) leaves the stored rows as they are.
\<close>

theorem new_subscription_skips_old_jobs:
  assumes "saveSubscription planId value db = Ok (r, db')"
  shows "if \<exists>q \<in> set (t_subscriptions db). row_by su_planId planId (t_subscriptions db) = Some q \<and>
             su_enabled q \<and> su_channelIds q = sort (sb_channelIds value) \<and> su_events q = sort (sb_events value)
     then (distinct (map su_planId (t_subscriptions db)) \<and> sb_enabled value \<longrightarrow> db' = db)
     else \<forall>s \<in> set (t_sources db). event_channels s planId ty db' = []"
proof -
  let ?old = "row_by su_planId planId (t_subscriptions db)"
  let ?row = "\<lambda>fl. \<lparr>su_planId = planId, su_enabled = sb_enabled value, su_channelIds = sort (sb_channelIds value),
                    su_events = sort (sb_events value), su_sourceFloor = fl\<rparr>"
  show ?thesis
  proof (cases "\<exists>q. ?old = Some q \<and> su_enabled q \<and> su_channelIds q = sort (sb_channelIds value) \<and>
      su_events q = sort (sb_events value)")
    case True
    then obtain q where q: "?old = Some q" "su_enabled q" "su_channelIds q = sort (sb_channelIds value)"
      "su_events q = sort (sb_events value)" by blast
    note in_q = row_by_SomeD [OF q(1)]
    have new: "db' = db\<lparr>t_subscriptions := update_where (\<lambda>r. su_planId r = planId) (\<lambda>_. ?row (su_sourceFloor q)) (t_subscriptions db)\<rparr>"
      using assms q by (auto simp: saveSubscription_def bind_result_Inr_iff Let_def split: if_splits)
    have "db' = db" if "distinct (map su_planId (t_subscriptions db))" "sb_enabled value"
    proof -
      have "(if su_planId x = planId then ?row (su_sourceFloor q) else x) = x" if "x \<in> set (t_subscriptions db)" for x
        using distinct_map_eqD [OF \<open>distinct _\<close> that, of q] in_q q \<open>sb_enabled value\<close> by auto
      then show ?thesis using new by (simp add: update_where_def map_idI)
    qed
    with q in_q show ?thesis by auto
  next
    case False
    then have new: "t_subscriptions db' = (if ?old = None then t_subscriptions db @ [?row (source_floor db)]
        else update_where (\<lambda>r. su_planId r = planId) (\<lambda>_. ?row (source_floor db)) (t_subscriptions db))"
      using assms
      by (auto simp: saveSubscription_def bind_result_Inr_iff Let_def split: if_splits option.splits)
    have "su_sourceFloor x = source_floor db" if "x \<in> set (t_subscriptions db')" "su_planId x = planId" for x
    proof -
      from that new consider "x \<in> set (t_subscriptions db)" "?old = None" | "x = ?row (source_floor db)"
        by (auto simp: set_update_where split: if_splits)
      then show ?thesis
      proof cases
        case 1
        with that(2) show ?thesis by (auto simp: row_by_None_iff)
      qed simp
    qed
    then have "find (\<lambda>r. su_planId r = planId \<and> su_enabled r \<and> su_sourceFloor r < so_id s) (t_subscriptions db') = None"
      if "s \<in> set (t_sources db)" for s
      using source_floor_ge [OF that] by (auto simp: find_None_iff)
    with False show ?thesis by (auto simp: event_channels_def)
  qed
qed

theorem new_subscription_skips_old_jobs_witness:
  "\<exists>db'. saveSubscription ''p'' \<lparr>sb_enabled = True, sb_channelIds = [''c''], sb_events = [''backup.failed'']\<rparr>
       sample_jobs = Ok (\<lparr>sb_enabled = True, sb_channelIds = [''c''], sb_events = [''backup.failed'']\<rparr>, db') \<and>
     (\<forall>s \<in> set (t_sources sample_jobs). event_channels s ''p'' ''backup.failed'' db' = [])"
proof -
  let ?v = "\<lparr>sb_enabled = True, sb_channelIds = [''c''], sb_events = [''backup.failed'']\<rparr>"
  obtain db' where d: "saveSubscription ''p'' ?v sample_jobs = Ok (?v, db')"
    by (simp add: saveSubscription_def requirePlan_def plan_exists_def channel_def channelRow_def view_def
        sample_jobs_def sample_plan_def sample_channel_def Let_def)
  have "t_subscriptions sample_jobs = [\<lparr>su_planId = ''p'', su_enabled = True, su_channelIds = [''c''],
        su_events = [''backup.completed''], su_sourceFloor = 0\<rparr>]"
    by (simp add: sample_jobs_def)
  with new_subscription_skips_old_jobs [OF d, of "''backup.failed''"] d show ?thesis by simp
qed

text \<open>
  Maintenance drops only settled deliveries: every open one survives, with its event; and
  afterwards every event has a delivery.
\<close>

theorem maintenance_keeps_open:
  "(\<forall>d. is_open d \<longrightarrow> (d \<in> set (t_deliveries (maintenance now db)) \<longleftrightarrow> d \<in> set (t_deliveries db)) \<or>
       (\<exists>x \<in> set (t_deliveries db). delivery_settled x \<and> de_id x = de_id d)) \<and>
   (\<forall>d \<in> set (t_deliveries (maintenance now db)). \<forall>e \<in> set (t_events db).
       ev_id e = de_eventId d \<longrightarrow> e \<in> set (t_events (maintenance now db))) \<and>
   (\<forall>e \<in> set (t_events (maintenance now db)). \<exists>d \<in> set (t_deliveries (maintenance now db)). de_eventId d = ev_id e)"
  by (auto simp: maintenance_def Let_def list_ex_iff dest!: in_set_dropD)

theorem maintenance_keeps_open_witness:
  "sample_delivery \<in> set (t_deliveries (maintenance (10 ^ 12) sample_outbox))"
  using maintenance_keeps_open [of "10 ^ 12" sample_outbox]
  by (auto simp: sample_outbox_def sample_delivery_def)

end
