(* ===== verification/Namespace_Policy.thy ===== *)
theory Namespace_Policy
  imports Pluton_Database "HOL-Library.Sublist"
begin

text \<open>
  Who may write where on an S3 storage.  Two policies:
  \<^item> \<open>backend/src/utils/managedReplicationPolicy.ts\<close>: a plan, a storage edit or a replica
    reservation never overlaps a managed replica that is not its own;
  \<^item> \<open>backend/src/utils/managedExport/NamespaceReservation.ts\<close>: the permanently reserved prefixes of
    reliable downloads.
  The functions that startup injects (\<open>replicaScopeResolver\<close>, \<open>NamespaceSecurity\<close>) are arguments, as
  they are in the source.  Storage names are ASCII.
\<close>

section \<open>Scopes\<close>

text \<open>The test on prefixes that both policies share: empty means the whole bucket.\<close>

definition prefix_overlaps :: "string \<Rightarrow> string \<Rightarrow> bool" where
  "prefix_overlaps a b \<longleftrightarrow>
     a = [] \<or> b = [] \<or> a = b \<or> starts_with (b @ ''/'') a \<or> starts_with (a @ ''/'') b"

definition overlaps :: "scope \<Rightarrow> scope \<Rightarrow> bool" where
  "overlaps a b \<longleftrightarrow> sc_authority a = sc_authority b \<and> prefix_overlaps (sc_prefix a) (sc_prefix b)"

text \<open>
  \<open>new URL(authority).pathname\<close> for the authorities \<open>canonicalS3Location\<close> makes: an origin, a slash
  and a bucket name.
\<close>

fun after_scheme :: "string \<Rightarrow> string" where
  "after_scheme (c1 # c2 # c3 # cs) =
     (if [c1, c2, c3] = ''://'' then cs else after_scheme (c2 # c3 # cs))"
| "after_scheme _ = []"

definition url_pathname :: "string \<Rightarrow> string" where
  "url_pathname authority =
     (case dropWhile (\<lambda>c. c \<noteq> CHR ''/'') (after_scheme authority) of [] \<Rightarrow> ''/'' | p \<Rightarrow> p)"

definition namespaceMayAlias :: "scope \<Rightarrow> scope \<Rightarrow> bool" where
  "namespaceMayAlias a b \<longleftrightarrow> url_pathname (sc_authority a) = url_pathname (sc_authority b)"

definition namespaceScopesOverlap :: "scope \<Rightarrow> scope \<Rightarrow> bool" where
  "namespaceScopesOverlap a b \<longleftrightarrow>
     namespaceMayAlias a b \<and> prefix_overlaps (sc_prefix a) (sc_prefix b)"

section \<open>Managed replica isolation\<close>

text \<open>The provider types whose rclone backend is S3 (\<open>utils/providers.ts\<close>).\<close>

definition s3_providers :: "string list" where
  "s3_providers =
     [''s3'', ''r2'', ''oss'', ''ceph'', ''dreamobjects'', ''spaces'', ''obs'', ''ibmcos'', ''idrive'',
      ''ionos'', ''minio'', ''outscale'', ''qiniu'', ''rackcorp'', ''rclone'', ''scaleway'',
      ''lyvecloud'', ''seaweedfs'', ''selectel'', ''wasabi'', ''leviia'', ''liara'', ''linode'',
      ''magalu'', ''arvan'', ''tencent'', ''petabox'', ''synologyc2'', ''s3compatible'']"

definition isS3Storage :: "string option \<Rightarrow> bool" where
  "isS3Storage ty \<longleftrightarrow> (case ty of None \<Rightarrow> False | Some t \<Rightarrow> t \<in> set s3_providers)"

type_synonym resolver = "storage_row \<Rightarrow> string option \<Rightarrow> scope result"

definition isolationError :: app_error where
  "isolationError = AppError 409 ''Repository scope overlaps an owned or retained managed replica. Select a separate repository prefix.''"

abbreviation no_text :: "string option \<Rightarrow> bool" where
  "no_text t \<equiv> t = None \<or> t = Some []"

text \<open>The storage a reference means: the edited row if it has the id, else the stored one.\<close>

definition storage_for :: "pdb \<Rightarrow> storage_row option \<Rightarrow> string \<Rightarrow> storage_row option" where
  "storage_for db override k =
     (case override of
        Some r \<Rightarrow> if st_id r = k then Some r else row_by st_id k (t_storages db)
      | None \<Rightarrow> row_by st_id k (t_storages db))"

definition storedScope ::
  "resolver option \<Rightarrow> pdb \<Rightarrow> storage_row option \<Rightarrow> place \<Rightarrow> scope option result" where
  "storedScope resolver db override ref =
     (if no_text (pc_storageId ref) then Ok None
      else case storage_for db override (the (pc_storageId ref)) of
             None \<Rightarrow> Ok None
           | Some r \<Rightarrow>
               if \<not> isS3Storage (st_type r) then Ok None
               else (case resolver of
                       None \<Rightarrow> Throw (AppError 503 ''Managed replica scope verification is not configured.'')
                     | Some f \<Rightarrow> bind_result (f r (pc_storagePath ref)) (\<lambda>s. Ok (Some s))))"

text \<open>The places of a plan: its own repository, then its replicas with their replication ids.\<close>

definition plan_place :: "plan_row \<Rightarrow> place" where
  "plan_place p = \<lparr>pc_storageId = pl_storageId p, pc_storagePath = pl_storagePath p\<rparr>"

definition replica_place :: "replica_ref \<Rightarrow> place" where
  "replica_place r = \<lparr>pc_storageId = rr_storageId r, pc_storagePath = rr_storagePath r\<rparr>"

definition references :: "plan_row \<Rightarrow> (string option \<times> place) list" where
  "references p =
     (None, plan_place p) # map (\<lambda>r. (Some (rr_replicationId r), replica_place r)) (pl_replicas p)"

definition destination_scope :: "destination_row \<Rightarrow> scope" where
  "destination_scope d = \<lparr>sc_authority = ds_authority d, sc_prefix = ds_prefix d\<rparr>"

definition ownsReplica :: "plan_row \<Rightarrow> string option \<times> place \<Rightarrow> destination_row \<Rightarrow> bool" where
  "ownsReplica p ref d \<longleftrightarrow>
     pl_method p = ''backup'' \<and> pl_sourceType p = ''device'' \<and> pl_sourceId p \<noteq> ''main'' \<and>
     pl_id p = ds_planId d \<and> fst ref = Some (ds_replicationId d) \<and>
     pc_storageId (snd ref) = Some (ds_storageId d) \<and>
     pc_storagePath (snd ref) = Some (ds_storagePath d) \<and> ds_initState d \<noteq> IDetached"

definition assertPlanReplicaIsolation ::
  "resolver option \<Rightarrow> pdb \<Rightarrow> plan_row \<Rightarrow> storage_row option \<Rightarrow> unit result" where
  "assertPlanReplicaIsolation resolver db p override =
     (if t_destinations db = [] then Ok ()
      else each_result (\<lambda>ref.
             bind_result (storedScope resolver db override (snd ref)) (\<lambda>sc.
               case sc of
                 None \<Rightarrow> Ok ()
               | Some s \<Rightarrow>
                   each_result (\<lambda>d.
                     refuse_if (overlaps s (destination_scope d) \<and> \<not> ownsReplica p ref d) isolationError)
                     (t_destinations db))) (references p))"

definition assertReplicaNotPlanOwned ::
  "resolver option \<Rightarrow> pdb \<Rightarrow> string \<Rightarrow> scope \<Rightarrow> unit result" where
  "assertReplicaNotPlanOwned resolver db planId candidate =
     each_result (\<lambda>p.
       each_result (\<lambda>ref.
         bind_result (storedScope resolver db None (snd ref)) (\<lambda>sc.
           refuse_if (case sc of None \<Rightarrow> False | Some s \<Rightarrow> overlaps candidate s) isolationError))
         (references p))
       (filter (\<lambda>p. pl_id p \<noteq> planId) (t_plans db))"

definition assertStorageReplicaIsolation ::
  "resolver option \<Rightarrow> pdb \<Rightarrow> storage_row \<Rightarrow> unit result" where
  "assertStorageReplicaIsolation resolver db storage =
     each_result (\<lambda>p.
       if list_ex (\<lambda>ref. pc_storageId (snd ref) = Some (st_id storage)) (references p)
       then assertPlanReplicaIsolation resolver db p (Some storage) else Ok ())
       (t_plans db)"

text \<open>A partial plan: \<open>None\<close> is an absent key of \<open>updates\<close>.\<close>

record plan_update =
  pu_storageId :: "string option option"
  pu_storagePath :: "string option option"
  pu_replicas :: "replica_ref list option"
  pu_method :: "string option"
  pu_sourceType :: "string option"
  pu_sourceId :: "string option"

definition spread :: "'a option \<Rightarrow> 'a \<Rightarrow> 'a" where
  "spread u old = (case u of None \<Rightarrow> old | Some v \<Rightarrow> v)"

definition merge_plan :: "plan_update \<Rightarrow> plan_row \<Rightarrow> plan_row" where
  "merge_plan u p =
     p\<lparr>pl_storageId := spread (pu_storageId u) (pl_storageId p),
       pl_storagePath := spread (pu_storagePath u) (pl_storagePath p),
       pl_replicas := spread (pu_replicas u) (pl_replicas p),
       pl_method := spread (pu_method u) (pl_method p),
       pl_sourceType := spread (pu_sourceType u) (pl_sourceType p),
       pl_sourceId := spread (pu_sourceId u) (pl_sourceId p)\<rparr>"

definition assertPlanUpdateReplicaIsolation ::
  "resolver option \<Rightarrow> pdb \<Rightarrow> string \<Rightarrow> plan_update \<Rightarrow> unit result" where
  "assertPlanUpdateReplicaIsolation resolver db planId u =
     (case row_by pl_id planId (t_plans db) of
        None \<Rightarrow> Ok ()
      | Some p \<Rightarrow> assertPlanReplicaIsolation resolver db (merge_plan u p) None)"

text \<open>\<open>upd\<close> is the spread of the partial storage over the stored one.\<close>

definition assertStorageUpdateReplicaIsolation ::
  "resolver option \<Rightarrow> pdb \<Rightarrow> string \<Rightarrow> (storage_row \<Rightarrow> storage_row) \<Rightarrow> storage_row option result" where
  "assertStorageUpdateReplicaIsolation resolver db k upd =
     (case row_by st_id k (t_storages db) of
        None \<Rightarrow> Ok None
      | Some r \<Rightarrow>
          bind_result (assertStorageReplicaIsolation resolver db (upd r)) (\<lambda>_. Ok (Some (upd r))))"

text \<open>\<open>validateReplicationSettings\<close>: at most two replicas, each with its own id and an exact path.\<close>

definition replication_id_ok :: "string \<Rightarrow> bool" where
  "replication_id_ok s \<longleftrightarrow>
     1 \<le> length s \<and> length s \<le> 100 \<and>
     list_all (\<lambda>c. is_alnum c \<or> c = CHR ''_'' \<or> c = CHR ''-'') s"

fun replica_items_ok :: "string list \<Rightarrow> json list \<Rightarrow> bool" where
  "replica_items_ok seen [] = True"
| "replica_items_ok seen (x # xs) =
     (case (json_field ''replicationId'' x, json_field ''storageId'' x, json_field ''storagePath'' x) of
        (Some (JStr r), Some (JStr s), Some (JStr p)) \<Rightarrow>
          replication_id_ok r \<and> s \<noteq> [] \<and> r \<notin> set seen \<and> replica_items_ok (r # seen) xs
      | _ \<Rightarrow> False)"

definition validateReplicationSettings :: "json option \<Rightarrow> unit result" where
  "validateReplicationSettings settings =
     (case settings of
        None \<Rightarrow> Ok ()
      | Some JNull \<Rightarrow> Ok ()
      | Some (JObj fs) \<Rightarrow>
          (case (map_of fs ''enabled'', map_of fs ''concurrent'', map_of fs ''storages'') of
             (Some (JBool e), c, Some (JArr xs)) \<Rightarrow>
               if (case c of None \<Rightarrow> False | Some (JBool _) \<Rightarrow> False | Some _ \<Rightarrow> True) \<or> 2 < length xs
               then Throw (AppError 400 ''Select zero, one or two replication destinations.'')
               else refuse_if (\<not> replica_items_ok [] xs)
                      (AppError 400 ''Each replica requires a unique identity and an exact repository path.'')
           | _ \<Rightarrow> Throw (AppError 400 ''Select zero, one or two replication destinations.''))
      | Some _ \<Rightarrow> Throw (AppError 400 ''Invalid replication settings.''))"

definition replication_blocking :: "replication_status \<Rightarrow> bool" where
  "replication_blocking st \<longleftrightarrow> st \<in> {JPending, JRunning, JUncertain}"

definition assertManagedReplicationIdle ::
  "pdb \<Rightarrow> string option \<Rightarrow> string \<Rightarrow> unit result" where
  "assertManagedReplicationIdle db planId backupId =
     refuse_if
       (list_ex (\<lambda>j. (if no_text planId then rb_backupId (rj_binding j) = backupId
                      else Some (rb_planId (rj_binding j)) = planId) \<and>
                     replication_blocking (rj_status j)) (t_replicationJobs db))
       (AppError 409 ''Managed replication is pending, active or uncertain. Resolve it before changing or removing this source.'')"

section \<open>Reserved export namespaces\<close>

type_synonym credentials = "(string \<times> string) list"

text \<open>\<open>NamespaceSecurity\<close>, injected at startup.\<close>

record namespace_security =
  ns_canonical :: "string \<Rightarrow> string \<Rightarrow> string \<Rightarrow> scope result"
  ns_scope :: "storage_row \<Rightarrow> string option \<Rightarrow> credentials option \<Rightarrow> scope result"
  ns_decrypt :: "storage_row \<Rightarrow> credentials result"
  ns_isS3 :: "string option \<Rightarrow> bool"

definition configured :: "namespace_security option \<Rightarrow> namespace_security result" where
  "configured sec =
     (case sec of None \<Rightarrow> Throw (AppError 503 ''Export namespace verification is not configured.'')
      | Some s \<Rightarrow> Ok s)"

definition refused :: app_error where
  "refused = AppError 409 ''S3 scope overlaps a permanently reserved Reliable Download prefix, or cannot be resolved safely.''"

definition initializeExportNamespaceReservations :: "pdb \<Rightarrow> pdb" where
  "initializeExportNamespaceReservations db = db\<lparr>t_exportInitialized := True\<rparr>"

definition reservations :: "pdb \<Rightarrow> scope list" where
  "reservations db = (if t_exportInitialized db then t_reservations db else [])"

definition storage_edits :: "pdb \<Rightarrow> storage_edit list" where
  "storage_edits db = (if t_exportInitialized db then t_storageEdits db else [])"

definition hasExportNamespaceReservation :: "pdb \<Rightarrow> bool" where
  "hasExportNamespaceReservation db \<longleftrightarrow> 0 < length (reservations db)"

text \<open>\<open>normalizeStorageName(name).trim().toLowerCase()\<close>\<close>

definition remote_name :: "string \<Rightarrow> string" where
  "remote_name n =
     to_lower (js_trim (if n = ''Local'' \<or> n = ''Local Storage'' then ''local'' else n))"

text \<open>\<open>path.replace(/^\/+|\/+$/g, '')\<close>\<close>

definition strip_slashes :: "string \<Rightarrow> string" where
  "strip_slashes s =
     rev (dropWhile (\<lambda>c. c = CHR ''/'') (rev (dropWhile (\<lambda>c. c = CHR ''/'') s)))"

text \<open>\<open>`${credentials.bucket}/scope-placeholder`\<close>\<close>

definition placeholder_path :: "credentials \<Rightarrow> string" where
  "placeholder_path cs =
     (case map_of cs ''bucket'' of None \<Rightarrow> ''undefined'' | Some b \<Rightarrow> b) @ ''/scope-placeholder''"

definition assertExportRepositoryScope :: "pdb \<Rightarrow> scope \<Rightarrow> unit result" where
  "assertExportRepositoryScope db candidate =
     refuse_if (list_ex (\<lambda>s. namespaceScopesOverlap s candidate) (reservations db)) refused"

definition assertExportStorageCreation ::
  "namespace_security option \<Rightarrow> pdb \<Rightarrow> storage_row \<Rightarrow> unit result" where
  "assertExportStorageCreation sec db storage =
     (if \<not> t_exportInitialized db then Ok ()
      else
        let name = remote_name (st_name storage)
        in if name = [] \<or>
              list_ex (\<lambda>r. st_id r \<noteq> st_id storage \<and> remote_name (st_name r) = name) (t_storages db)
           then Throw (AppError 409 ''Storage remote name is already registered or ambiguous.'')
           else if list_ex (\<lambda>e. se_storageId e \<noteq> st_id storage \<and> se_remoteName e = name) (storage_edits db)
           then Throw (AppError 409 ''Storage remote name is reserved by an active or uncertain configuration edit.'')
           else bind_result (configured sec) (\<lambda>sc.
             if \<not> ns_isS3 sc (st_type storage) then Ok ()
             else bind_result (ns_decrypt sc storage) (\<lambda>cs.
               bind_result (ns_scope sc storage (Some (placeholder_path cs)) None) (\<lambda>_.
                 case st_defaultPath storage of
                   None \<Rightarrow> Ok ()
                 | Some d \<Rightarrow>
                     if d \<noteq> [] \<and> Some (strip_slashes d) \<noteq> map_of cs ''bucket''
                     then bind_result (ns_scope sc storage (Some d) None) (assertExportRepositoryScope db)
                     else Ok ()))))"

text \<open>
  The scope of a reference, and the same with the resolution cache of one transaction: the cache
  maps a storage id to its row, its decrypted credentials and whether it is S3.
\<close>

definition referenceScope ::
  "namespace_security option \<Rightarrow> pdb \<Rightarrow> storage_row option \<Rightarrow> place \<Rightarrow> scope option result" where
  "referenceScope sec db override ref =
     (if no_text (pc_storageId ref) then Ok None
      else case storage_for db override (the (pc_storageId ref)) of
             None \<Rightarrow> Throw refused
           | Some st \<Rightarrow>
               bind_result (configured sec) (\<lambda>sc.
                 if \<not> ns_isS3 sc (st_type st) then Ok None
                 else bind_result (ns_decrypt sc st) (\<lambda>cs.
                   bind_result (ns_scope sc st (pc_storagePath ref) (Some cs)) (\<lambda>s. Ok (Some s)))))"

record cached_storage =
  cs_storage :: storage_row
  cs_credentials :: "credentials option"
  cs_s3 :: bool

type_synonym resolution_cache = "(string \<times> cached_storage) list"

definition referenceScope_cached ::
  "namespace_security option \<Rightarrow> pdb \<Rightarrow> resolution_cache \<Rightarrow> place \<Rightarrow>
   (scope option \<times> resolution_cache) result" where
  "referenceScope_cached sec db cache ref =
     (if no_text (pc_storageId ref) then Ok (None, cache)
      else
        let k = the (pc_storageId ref)
        in case map_of cache k of
             Some c \<Rightarrow>
               if cs_s3 c
               then bind_result (configured sec) (\<lambda>sc.
                      bind_result (ns_scope sc (cs_storage c) (pc_storagePath ref) (cs_credentials c))
                        (\<lambda>s. Ok (Some s, cache)))
               else Ok (None, cache)
           | None \<Rightarrow>
               (case storage_for db None k of
                  None \<Rightarrow> Throw refused
                | Some st \<Rightarrow>
                    bind_result (configured sec) (\<lambda>sc.
                      if \<not> ns_isS3 sc (st_type st)
                      then Ok (None, (k, \<lparr>cs_storage = st, cs_credentials = None, cs_s3 = False\<rparr>) # cache)
                      else bind_result (ns_decrypt sc st) (\<lambda>cs.
                        bind_result (ns_scope sc st (pc_storagePath ref) (Some cs)) (\<lambda>s.
                          Ok (Some s, (k, \<lparr>cs_storage = st, cs_credentials = Some cs, cs_s3 = True\<rparr>) # cache))))))"

definition assertExportPlanScope ::
  "namespace_security option \<Rightarrow> pdb \<Rightarrow> place \<Rightarrow> place list \<Rightarrow> storage_row option \<Rightarrow> unit result" where
  "assertExportPlanScope sec db main replicas override =
     (if reservations db = [] then Ok ()
      else if list_ex (\<lambda>r. no_text (pc_storageId r)) replicas then Throw refused
      else each_result (\<lambda>ref.
             bind_result (referenceScope sec db override ref) (\<lambda>c.
               case c of None \<Rightarrow> Ok () | Some s \<Rightarrow> assertExportRepositoryScope db s))
             (main # replicas))"

definition mirror_place :: "mirror_ref \<Rightarrow> place" where
  "mirror_place m = \<lparr>pc_storageId = mr_storageId m, pc_storagePath = mr_storagePath m\<rparr>"

definition backup_place :: "backup_row \<Rightarrow> place" where
  "backup_place b = \<lparr>pc_storageId = bk_storageId b, pc_storagePath = bk_storagePath b\<rparr>"

definition assertExportBackupScope ::
  "namespace_security option \<Rightarrow> pdb \<Rightarrow> backup_row \<Rightarrow> storage_row option \<Rightarrow> unit result" where
  "assertExportBackupScope sec db b override =
     (if reservations db = [] then Ok ()
      else assertExportPlanScope sec db (backup_place b) (map mirror_place (bk_mirrors b)) override)"

text \<open>
  \<open>plan.storageId ?? plan.storage_id\<close>: an update that sets the storage to \<open>null\<close> is checked with the
  stored one.
\<close>

definition nullish :: "'a option option \<Rightarrow> 'a option \<Rightarrow> 'a option" where
  "nullish u old = (case u of Some (Some v) \<Rightarrow> Some v | _ \<Rightarrow> old)"

definition assertExportPlanUpdate ::
  "namespace_security option \<Rightarrow> pdb \<Rightarrow> string \<Rightarrow> plan_update \<Rightarrow> unit result" where
  "assertExportPlanUpdate sec db planId u =
     (if reservations db = [] then Ok ()
      else case row_by pl_id planId (t_plans db) of
             None \<Rightarrow> Ok ()
           | Some p \<Rightarrow>
               assertExportPlanScope sec db
                 \<lparr>pc_storageId = nullish (pu_storageId u) (pl_storageId p),
                  pc_storagePath = nullish (pu_storagePath u) (pl_storagePath p)\<rparr>
                 (map replica_place (spread (pu_replicas u) (pl_replicas p))) None)"

definition assertExportSettingsScope ::
  "namespace_security option \<Rightarrow> pdb \<Rightarrow> place \<Rightarrow> storage_row option \<Rightarrow> unit result" where
  "assertExportSettingsScope sec db self override =
     (if reservations db = [] \<or> no_text (pc_storageId self) then Ok ()
      else bind_result (referenceScope sec db override self) (\<lambda>c.
             case c of None \<Rightarrow> Ok () | Some s \<Rightarrow> assertExportRepositoryScope db s))"

definition place_at :: "string \<Rightarrow> string \<Rightarrow> place" where
  "place_at s p = \<lparr>pc_storageId = Some s, pc_storagePath = Some p\<rparr>"

text \<open>
  The places of the stored rows outside the plans, table by table in the order of the code, and
  those among them that lie on the edited storage.
\<close>

definition row_places :: "pdb \<Rightarrow> place list" where
  "row_places db =
     map backup_place (t_backups db) @
     map (\<lambda>r. place_at (rp_storageId r) (rp_storagePath r)) (t_repositories db) @
     map (\<lambda>r. place_at (rm_storageId r) (rm_storagePath r)) (t_retained db)"

definition destination_place :: "destination_row \<Rightarrow> place" where
  "destination_place d = place_at (ds_storageId d) (ds_storagePath d)"

definition job_places :: "replication_job \<Rightarrow> place list" where
  "job_places j =
     [place_at (rb_sourceStorageId (rj_binding j)) (rb_sourceStoragePath (rj_binding j)),
      place_at (rb_destinationStorageId (rj_binding j)) (rb_destinationStoragePath (rj_binding j))]"

definition assertExportStorageUpdate ::
  "namespace_security option \<Rightarrow> pdb \<Rightarrow> string \<Rightarrow> (storage_row \<Rightarrow> storage_row) \<Rightarrow> unit result" where
  "assertExportStorageUpdate sec db k upd =
     (if reservations db = [] then Ok ()
      else case row_by st_id k (t_storages db) of
             None \<Rightarrow> Ok ()
           | Some original \<Rightarrow>
               let next = Some (upd original);
                   check = (\<lambda>ref. bind_result (referenceScope sec db next ref) (\<lambda>c.
                              case c of None \<Rightarrow> Ok () | Some s \<Rightarrow> assertExportRepositoryScope db s));
                   here = filter (\<lambda>ref. pc_storageId ref = Some k)
               in bind_result
                    (each_result (\<lambda>p. assertExportPlanScope sec db (plan_place p)
                       (map replica_place (pl_replicas p)) next) (t_plans db)) (\<lambda>_.
                  bind_result (each_result check (here (row_places db))) (\<lambda>_.
                  bind_result (each_result check (here (map destination_place (t_destinations db)))) (\<lambda>_.
                  bind_result
                    (each_result check (here (concat (map job_places (t_replicationJobs db))))) (\<lambda>_.
                  bind_result
                    (each_result (\<lambda>s. assertExportSettingsScope sec db s next) (t_selfBackups db)) (\<lambda>_.
                  each_result (\<lambda>b. assertExportBackupScope sec db b next) (t_backups db)))))))"

text \<open>The authorities an edit touches, or the refusal where one may alias a reservation.\<close>

fun edit_authorities ::
  "namespace_security option \<Rightarrow> pdb \<Rightarrow> bool \<Rightarrow> storage_row list \<Rightarrow> string list result" where
  "edit_authorities sec db exists [] = Ok []"
| "edit_authorities sec db exists (st # sts) =
     bind_result (configured sec) (\<lambda>sc.
       if \<not> ns_isS3 sc (st_type st) then edit_authorities sec db exists sts
       else bind_result (ns_decrypt sc st) (\<lambda>cs.
         bind_result (ns_scope sc st (Some (placeholder_path cs)) None) (\<lambda>candidate.
           if exists \<and> list_ex (\<lambda>s. namespaceMayAlias s candidate) (reservations db)
           then Throw refused
           else bind_result (edit_authorities sec db exists sts)
                  (\<lambda>as. Ok (sc_authority candidate # as)))))"

definition beginExportStorageEdit ::
  "namespace_security option \<Rightarrow> string \<Rightarrow> storage_row \<Rightarrow> pdb \<Rightarrow> pdb result" where
  "beginExportStorageEdit sec k next db =
     (if \<not> t_exportInitialized db then Ok db
      else
        let original = row_by st_id k (t_storages db)
        in bind_result (assertExportStorageCreation sec db next) (\<lambda>_.
           bind_result (assertExportStorageUpdate sec db k (\<lambda>_. next)) (\<lambda>_.
           bind_result (edit_authorities sec db (original \<noteq> None)
             (next # (case original of None \<Rightarrow> [] | Some r \<Rightarrow> [r]))) (\<lambda>as.
             if list_ex (\<lambda>e. se_storageId e = k) (t_storageEdits db)
             then Throw (AppError 409 ''S3 configuration edit is active or uncertain; operator reconciliation is required.'')
             else if list_ex (\<lambda>e. se_remoteName e = remote_name (st_name next)) (t_storageEdits db)
             then Throw SqlError
             else Ok (db\<lparr>t_storageEdits := t_storageEdits db @
                    [\<lparr>se_storageId = k, se_remoteName = remote_name (st_name next),
                      se_authorities = as\<rparr>]\<rparr>)))))"

definition endExportStorageEdit :: "string \<Rightarrow> pdb \<Rightarrow> pdb" where
  "endExportStorageEdit k db =
     db\<lparr>t_storageEdits := delete_where (\<lambda>e. se_storageId e = k) (t_storageEdits db)\<rparr>"

record export_config =
  ec_endpoint :: string
  ec_bucket :: string
  ec_prefix :: string

text \<open>
  \<open>reserveExportNamespace\<close>.  The places it checks, in the order of the code; a replica or a mirror
  without a storage, and a destination whose recorded scope overlaps, are refused on the way.
\<close>

datatype reserve_check = CheckPlace place | CheckScope scope | NeedStorage place

definition reserve_checks :: "pdb \<Rightarrow> reserve_check list" where
  "reserve_checks db =
     concat (map (\<lambda>p. CheckPlace (plan_place p) #
       concat (map (\<lambda>r. [NeedStorage (replica_place r), CheckPlace (replica_place r)]) (pl_replicas p)))
       (t_plans db)) @
     map CheckPlace (row_places db) @
     concat (map (\<lambda>b. concat (map (\<lambda>m. [NeedStorage (mirror_place m), CheckPlace (mirror_place m)])
       (bk_mirrors b))) (t_backups db)) @
     concat (map (\<lambda>d. [CheckScope (destination_scope d), CheckPlace (destination_place d)])
       (t_destinations db)) @
     concat (map (\<lambda>j. map CheckPlace (rev (job_places j))) (t_replicationJobs db)) @
     map CheckPlace (filter (\<lambda>s. \<not> no_text (pc_storageId s)) (t_selfBackups db))"

fun run_checks ::
  "namespace_security option \<Rightarrow> pdb \<Rightarrow> scope \<Rightarrow> resolution_cache \<Rightarrow> reserve_check list \<Rightarrow> unit result" where
  "run_checks sec db selected cache [] = Ok ()"
| "run_checks sec db selected cache (CheckPlace ref # rest) =
     bind_result (referenceScope_cached sec db cache ref) (\<lambda>(sc, cache').
       if (case sc of None \<Rightarrow> False | Some s \<Rightarrow> namespaceScopesOverlap selected s) then Throw refused
       else run_checks sec db selected cache' rest)"
| "run_checks sec db selected cache (CheckScope s # rest) =
     (if namespaceScopesOverlap selected s then Throw refused
      else run_checks sec db selected cache rest)"
| "run_checks sec db selected cache (NeedStorage ref # rest) =
     (if no_text (pc_storageId ref) then Throw refused else run_checks sec db selected cache rest)"

definition reserve_body :: "namespace_security option \<Rightarrow> export_config \<Rightarrow> pdb \<Rightarrow> pdb result" where
  "reserve_body sec config db =
     bind_result (configured sec) (\<lambda>sc.
     bind_result (ns_canonical sc (ec_endpoint config) (ec_bucket config)
         (ec_bucket config @ ''/'' @ ec_prefix config)) (\<lambda>selected.
     bind_result (refuse_if (list_ex (\<lambda>e. list_ex (\<lambda>a.
         namespaceMayAlias selected \<lparr>sc_authority = a, sc_prefix = []\<rparr>) (se_authorities e))
         (storage_edits db)) refused) (\<lambda>_.
     bind_result (refuse_if (\<not> distinct (map (\<lambda>r. remote_name (st_name r)) (t_storages db))) refused) (\<lambda>_.
     bind_result (run_checks sec db selected [] (reserve_checks db)) (\<lambda>_.
     bind_result (refuse_if (list_ex (\<lambda>b. b \<noteq> ''local'') (t_legacyBackends db)) refused) (\<lambda>_.
       if \<not> t_exportInitialized db then Throw SqlError
       else if selected \<in> set (t_reservations db) then Ok db
       else if 8 \<le> length (reservations db) then Throw refused
       else Ok (db\<lparr>t_reservations := t_reservations db @ [selected]\<rparr>)))))))"

definition reserveExportNamespace :: "namespace_security option \<Rightarrow> export_config \<Rightarrow> pdb \<Rightarrow> pdb result" where
  "reserveExportNamespace sec config db =
     (case reserve_body sec config db of
        Inl _ \<Rightarrow> Throw (AppError 409 ''Reliable Download unavailable (destination-not-isolated).'')
      | Inr db' \<Rightarrow> Ok db')"

section \<open>Prefixes are compared by path segments\<close>

lemma starts_with_slash_iff:
  "starts_with (a @ ''/'') b \<longleftrightarrow>
   (\<exists>ys. ys \<noteq> [] \<and> split_on (CHR ''/'') b = split_on (CHR ''/'') a @ ys)"
proof
  assume "starts_with (a @ ''/'') b"
  then obtain r where "b = a @ CHR ''/'' # r" by (auto simp: starts_with_iff)
  then show "\<exists>ys. ys \<noteq> [] \<and> split_on (CHR ''/'') b = split_on (CHR ''/'') a @ ys"
    by (intro exI [of _ "split_on (CHR ''/'') r"]) (simp add: split_on_append)
next
  assume "\<exists>ys. ys \<noteq> [] \<and> split_on (CHR ''/'') b = split_on (CHR ''/'') a @ ys"
  then obtain ys where "ys \<noteq> []" "split_on (CHR ''/'') b = split_on (CHR ''/'') a @ ys" by blast
  then obtain u v where b: "b = u @ CHR ''/'' # v" "split_on (CHR ''/'') u = split_on (CHR ''/'') a"
    using split_on_prefixE [of "CHR ''/''" b "split_on (CHR ''/'') a" ys] split_on_nonempty by blast
  then have "u = a" by (auto dest: split_on_inj)
  with b show "starts_with (a @ ''/'') b" by (auto simp: starts_with_iff)
qed

lemma prefix_overlaps_sym: "prefix_overlaps a b = prefix_overlaps b a"
  by (auto simp: prefix_overlaps_def)

lemma overlaps_sym: "overlaps a b = overlaps b a"
  by (auto simp: overlaps_def prefix_overlaps_sym)

lemma overlaps_namespace: "overlaps a b \<Longrightarrow> namespaceScopesOverlap a b"
  by (simp add: overlaps_def namespaceScopesOverlap_def namespaceMayAlias_def)

text \<open>
  Two prefixes overlap exactly when one names a directory at or above the other: the path
  segments of one are an initial part of the segments of the other.  Names that merely share their
  first characters (\<open>backup\<close>, \<open>backup2\<close>) do not overlap, and the empty prefix overlaps everything.
\<close>

theorem prefix_overlaps_segments:
  "prefix_overlaps a b \<longleftrightarrow>
     a = [] \<or> b = [] \<or>
     prefix (split_on (CHR ''/'') a) (split_on (CHR ''/'') b) \<or>
     prefix (split_on (CHR ''/'') b) (split_on (CHR ''/'') a)"
proof -
  have "prefix (split_on (CHR ''/'') x) (split_on (CHR ''/'') y) \<longleftrightarrow> x = y \<or> starts_with (x @ ''/'') y" for x y
    unfolding prefix_def starts_with_slash_iff
    by (metis append_Nil2 split_on_inj)
  then show ?thesis by (auto simp: prefix_overlaps_def)
qed

section \<open>The resolution cache changes nothing\<close>

definition cache_ok :: "namespace_security option \<Rightarrow> pdb \<Rightarrow> resolution_cache \<Rightarrow> bool" where
  "cache_ok sec db cache \<longleftrightarrow>
     (\<forall>(k, c) \<in> set cache. \<exists>sc. sec = Some sc \<and> storage_for db None k = Some (cs_storage c) \<and>
        cs_s3 c = ns_isS3 sc (st_type (cs_storage c)) \<and>
        (cs_s3 c \<longrightarrow> (\<exists>cs. ns_decrypt sc (cs_storage c) = Ok cs \<and> cs_credentials c = Some cs)))"

lemma cache_ok_lookup:
  "cache_ok sec db cache \<Longrightarrow> map_of cache k = Some c \<Longrightarrow>
   \<exists>sc. sec = Some sc \<and> storage_for db None k = Some (cs_storage c) \<and>
        cs_s3 c = ns_isS3 sc (st_type (cs_storage c)) \<and>
        (cs_s3 c \<longrightarrow> (\<exists>cs. ns_decrypt sc (cs_storage c) = Ok cs \<and> cs_credentials c = Some cs))"
  by (auto simp: cache_ok_def dest!: map_of_SomeD)

lemma referenceScope_cached_step:
  assumes "cache_ok sec db cache"
  shows "bind_result (referenceScope_cached sec db cache ref) (\<lambda>(s, c). Ok s) = referenceScope sec db None ref"
    and "referenceScope_cached sec db cache ref = Ok (s, cache') \<Longrightarrow> cache_ok sec db cache'"
proof -
  show "bind_result (referenceScope_cached sec db cache ref) (\<lambda>(s, c). Ok s) = referenceScope sec db None ref"
    using cache_ok_lookup [OF assms, of "the (pc_storageId ref)"]
    by (auto simp: referenceScope_cached_def referenceScope_def Let_def configured_def bind_result_def
        split: option.splits sum.splits)
  show "referenceScope_cached sec db cache ref = Ok (s, cache') \<Longrightarrow> cache_ok sec db cache'"
    using assms
    by (auto simp: referenceScope_cached_def Let_def configured_def bind_result_Inr_iff cache_ok_def
        split: option.splits if_splits)
qed

text \<open>One check of a reservation, resolved from the database alone.\<close>

fun check_one :: "namespace_security option \<Rightarrow> pdb \<Rightarrow> scope \<Rightarrow> reserve_check \<Rightarrow> unit result" where
  "check_one sec db selected (CheckPlace ref) =
     bind_result (referenceScope sec db None ref) (\<lambda>sc.
       refuse_if (case sc of None \<Rightarrow> False | Some s \<Rightarrow> namespaceScopesOverlap selected s) refused)"
| "check_one sec db selected (CheckScope s) = refuse_if (namespaceScopesOverlap selected s) refused"
| "check_one sec db selected (NeedStorage ref) = refuse_if (no_text (pc_storageId ref)) refused"

lemma run_checks_uncached:
  "cache_ok sec db cache \<Longrightarrow> run_checks sec db selected cache cs = each_result (check_one sec db selected) cs"
proof (induction cs arbitrary: cache)
  case Nil
  then show ?case by simp
next
  case (Cons c cs)
  show ?case
  proof (cases c)
    case (CheckPlace ref)
    note step = referenceScope_cached_step [OF Cons.prems, of ref]
    show ?thesis
    proof (cases "referenceScope_cached sec db cache ref")
      case (Inl e)
      with step(1) have "referenceScope sec db None ref = Inl e" by simp
      with Inl CheckPlace show ?thesis by simp
    next
      case (Inr p)
      then obtain s cache' where p: "referenceScope_cached sec db cache ref = Ok (s, cache')" by (cases p) auto
      with step(1) have "referenceScope sec db None ref = Ok s" by simp
      with p Cons.IH [OF step(2) [OF p]] CheckPlace show ?thesis by (simp add: refuse_if_def)
    qed
  qed (use Cons in \<open>simp_all add: refuse_if_def\<close>)
qed

text \<open>
  The checks of a reservation with the transaction's resolution cache give the result, error
  included, of resolving every reference from the database each time.
\<close>

theorem run_checks_cache_free:
  "run_checks sec db selected [] cs = each_result (check_one sec db selected) cs"
  by (rule run_checks_uncached) (simp add: cache_ok_def)

section \<open>A reservation is isolated\<close>

lemma reserve_bodyD:
  assumes "reserve_body sec config db = Ok db'"
  obtains sc selected where "sec = Some sc"
    "ns_canonical sc (ec_endpoint config) (ec_bucket config) (ec_bucket config @ ''/'' @ ec_prefix config) = Ok selected"
    "run_checks sec db selected [] (reserve_checks db) = Ok ()" "t_exportInitialized db"
    "db' = db \<and> selected \<in> set (t_reservations db) \<or>
     db' = db\<lparr>t_reservations := t_reservations db @ [selected]\<rparr> \<and> length (t_reservations db) < 8"
  using assms
  by (auto simp: reserve_body_def configured_def bind_result_Inr_iff reservations_def
      split: option.splits if_splits)

lemma reserve_checks_places:
  "p \<in> set (t_plans db) \<Longrightarrow> ref \<in> set (references p) \<Longrightarrow> CheckPlace (snd ref) \<in> set (reserve_checks db)"
  "p \<in> set (t_plans db) \<Longrightarrow> r \<in> set (pl_replicas p) \<Longrightarrow> NeedStorage (replica_place r) \<in> set (reserve_checks db)"
  "q \<in> set (row_places db) \<Longrightarrow> CheckPlace q \<in> set (reserve_checks db)"
  "d \<in> set (t_destinations db) \<Longrightarrow> CheckScope (destination_scope d) \<in> set (reserve_checks db)"
  "d \<in> set (t_destinations db) \<Longrightarrow> CheckPlace (destination_place d) \<in> set (reserve_checks db)"
  "j \<in> set (t_replicationJobs db) \<Longrightarrow> q \<in> set (job_places j) \<Longrightarrow> CheckPlace q \<in> set (reserve_checks db)"
  "b \<in> set (t_backups db) \<Longrightarrow> m \<in> set (bk_mirrors b) \<Longrightarrow> CheckPlace (mirror_place m) \<in> set (reserve_checks db)"
  unfolding reserve_checks_def references_def by fastforce+

text \<open>
  A namespace is reserved only where nothing else is stored: the reserved scope overlaps no
  replica destination, and no scope that a plan, a replica, a backup, a mirror, a managed or retained
  repository or a replication job resolves to; existing reservations are never dropped, and at most
  eight are ever kept.
\<close>

theorem reservation_isolated:
  assumes "reserveExportNamespace sec config db = Ok db'"
  shows "\<exists>selected. set (reservations db') = insert selected (set (reservations db)) \<and>
     length (reservations db') \<le> max 8 (length (reservations db)) \<and>
     (\<forall>d \<in> set (t_destinations db). \<not> namespaceScopesOverlap selected (destination_scope d)) \<and>
     (\<forall>ref s. ref \<in> (\<Union>p \<in> set (t_plans db). snd ` set (references p)) \<union> set (row_places db) \<union>
           destination_place ` set (t_destinations db) \<union>
           (\<Union>j \<in> set (t_replicationJobs db). set (job_places j)) \<union>
           (\<Union>b \<in> set (t_backups db). mirror_place ` set (bk_mirrors b)) \<longrightarrow>
        referenceScope sec db None ref = Ok (Some s) \<longrightarrow> \<not> namespaceScopesOverlap selected s)"
proof -
  have "reserve_body sec config db = Ok db'"
    using assms by (simp add: reserveExportNamespace_def split: sum.splits)
  then obtain sc selected where run: "run_checks sec db selected [] (reserve_checks db) = Ok ()"
    and db': "t_exportInitialized db" "db' = db \<and> selected \<in> set (t_reservations db) \<or>
      db' = db\<lparr>t_reservations := t_reservations db @ [selected]\<rparr> \<and> length (t_reservations db) < 8"
    by (rule reserve_bodyD)
  have checked: "check_one sec db selected c = Ok ()" if "c \<in> set (reserve_checks db)" for c
    using run that by (simp add: run_checks_uncached cache_ok_def each_result_Ok_iff)
  have "set (reservations db') = insert selected (set (reservations db))"
    "length (reservations db') \<le> max 8 (length (reservations db))"
    using db' by (auto simp: reservations_def)
  moreover have "\<not> namespaceScopesOverlap selected (destination_scope d)" if "d \<in> set (t_destinations db)" for d
    using checked [OF reserve_checks_places(4) [OF that]] by simp
  moreover have "\<not> namespaceScopesOverlap selected s"
    if "CheckPlace ref \<in> set (reserve_checks db)" "referenceScope sec db None ref = Ok (Some s)" for ref s
    using checked [OF that(1)] that(2) by simp
  ultimately show ?thesis
    by (intro exI [of _ selected]) (auto dest: reserve_checks_places)
qed

definition sample_security :: namespace_security where
  "sample_security =
     \<lparr>ns_canonical = (\<lambda>e b p. Ok \<lparr>sc_authority = e @ ''/'' @ b, sc_prefix = drop (Suc (length b)) p\<rparr>),
      ns_scope = (\<lambda>st p cs. Ok \<lparr>sc_authority = ''https://s3/b'',
        sc_prefix = (case p of None \<Rightarrow> [] | Some q \<Rightarrow> drop 2 q)\<rparr>),
      ns_decrypt = (\<lambda>st. Ok [(''bucket'', ''b'')]), ns_isS3 = isS3Storage\<rparr>"

definition sample_storage :: storage_row where
  "sample_storage = \<lparr>st_id = ''s'', st_name = ''hcp'', st_type = Some ''s3'', st_defaultPath = None,
     st_settings = JObj [], st_credentials = JObj []\<rparr>"

definition sample_store_plan :: plan_row where
  "sample_store_plan =
     \<lparr>pl_id = ''p'', pl_title = ''plan'', pl_storageId = Some ''s'', pl_storagePath = Some ''b/backup'',
      pl_method = ''backup'', pl_sourceType = ''device'', pl_sourceId = ''agent'',
      pl_replicationEnabled = True, pl_replicas = [], pl_databases = []\<rparr>"

definition sample_namespace :: pdb where
  "sample_namespace = empty_db\<lparr>t_storages := [sample_storage], t_plans := [sample_store_plan],
     t_exportInitialized := True\<rparr>"

theorem reservation_isolated_witness:
  "\<exists>db'. reserveExportNamespace (Some sample_security)
       \<lparr>ec_endpoint = ''https://s3'', ec_bucket = ''b'', ec_prefix = ''backup2''\<rparr> sample_namespace = Ok db' \<and>
     length (reservations db') \<le> 8"
proof -
  let ?c = "\<lparr>ec_endpoint = ''https://s3'', ec_bucket = ''b'', ec_prefix = ''backup2''\<rparr>"
  have "\<exists>db'. reserveExportNamespace (Some sample_security) ?c sample_namespace = Ok db'"
    by (simp add: reserveExportNamespace_def reserve_body_def configured_def sample_security_def
        sample_namespace_def empty_db_def storage_edits_def reservations_def reserve_checks_def
        row_places_def plan_place_def sample_store_plan_def referenceScope_cached_def storage_for_def
        sample_storage_def isS3Storage_def s3_providers_def namespaceScopesOverlap_def prefix_overlaps_def
        starts_with_def refuse_if_def references_def Let_def)
  then obtain db' where r: "reserveExportNamespace (Some sample_security) ?c sample_namespace = Ok db'" ..
  have "reservations sample_namespace = []"
    by (simp add: reservations_def sample_namespace_def empty_db_def)
  with reservation_isolated [OF r] r show ?thesis by auto
qed

end
