(* ===== verification/Replication_Store.thy ===== *)
theory Replication_Store
  imports Namespace_Policy
begin

text \<open>
  The durable queue of managed replications (\<open>backend/src/stores/ManagedReplicationStore.ts\<close>): one
  definition per method, over the tables \<open>managed_replication_jobs\<close> and
  \<open>managed_replication_destinations\<close>.  The clock and the executor's token are arguments.  A row is
  its immutable binding (the columns of \<open>enqueue\<close>) and its progress.
\<close>

section \<open>Reading\<close>

definition busy_error :: app_error where
  "busy_error = AppError 409 ''Managed replication is pending, active or uncertain. Resolve it before changing or removing its resources.''"

definition fullId :: "string \<Rightarrow> bool" where
  "fullId s \<longleftrightarrow> hex_string 64 s"

abbreviation rj_id :: "replication_job \<Rightarrow> string" where
  "rj_id j \<equiv> rb_id (rj_binding j)"

definition rj_getById :: "string \<Rightarrow> pdb \<Rightarrow> replication_job option" where
  "rj_getById k db = row_by rj_id k (t_replicationJobs db)"

definition rj_listByBackup :: "string \<Rightarrow> pdb \<Rightarrow> replication_job list" where
  "rj_listByBackup backupId db =
     order_by (\<lambda>j. (rb_createdAt (rj_binding j), rj_id j))
       (filter (\<lambda>j. rb_backupId (rj_binding j) = backupId) (t_replicationJobs db))"

definition rj_listRunnable :: "pdb \<Rightarrow> replication_job list" where
  "rj_listRunnable db =
     take 100 (order_by (\<lambda>j. (rb_createdAt (rj_binding j), rj_id j))
       (filter (\<lambda>j. rj_status j = JPending) (t_replicationJobs db)))"

definition getDestination :: "string \<Rightarrow> pdb \<Rightarrow> destination_row option" where
  "getDestination fingerprint db = row_by ds_fingerprint fingerprint (t_destinations db)"

definition hasBlockingPlan :: "string \<Rightarrow> pdb \<Rightarrow> bool" where
  "hasBlockingPlan planId db \<longleftrightarrow>
     list_ex (\<lambda>j. rb_planId (rj_binding j) = planId \<and> replication_blocking (rj_status j))
       (t_replicationJobs db)"

definition hasBlockingBackup :: "string \<Rightarrow> pdb \<Rightarrow> bool" where
  "hasBlockingBackup backupId db \<longleftrightarrow>
     list_ex (\<lambda>j. rb_backupId (rj_binding j) = backupId \<and> replication_blocking (rj_status j))
       (t_replicationJobs db)"

definition assertPlanIdle :: "string \<Rightarrow> pdb \<Rightarrow> unit result" where
  "assertPlanIdle planId db = refuse_if (hasBlockingPlan planId db) busy_error"

definition assertBackupIdle :: "string \<Rightarrow> pdb \<Rightarrow> unit result" where
  "assertBackupIdle backupId db = refuse_if (hasBlockingBackup backupId db) busy_error"

section \<open>Destinations\<close>

record destination_binding =
  db_planId :: string
  db_replicationId :: string
  db_sourceRepositoryId :: string
  db_storageId :: string
  db_storagePath :: string
  db_authority :: string
  db_prefix :: string
  db_fingerprint :: string

definition binding_scope :: "destination_binding \<Rightarrow> scope" where
  "binding_scope b = \<lparr>sc_authority = db_authority b, sc_prefix = db_prefix b\<rparr>"

text \<open>The overlap of two destinations on one authority; their prefixes are never empty.\<close>

definition destinations_clash :: "string \<Rightarrow> string \<Rightarrow> destination_row \<Rightarrow> bool" where
  "destinations_clash authority p other \<longleftrightarrow>
     ds_authority other = authority \<and>
     (ds_prefix other = p \<or> starts_with (p @ ''/'') (ds_prefix other) \<or>
      starts_with (ds_prefix other @ ''/'') p)"

definition reserveDestination ::
  "resolver option \<Rightarrow> int \<Rightarrow> destination_binding \<Rightarrow> pdb \<Rightarrow> (destination_row \<times> pdb) result" where
  "reserveDestination resolver now b db =
     bind_result (assertReplicaNotPlanOwned resolver db (db_planId b) (binding_scope b)) (\<lambda>_.
     bind_result (assertExportRepositoryScope db (binding_scope b)) (\<lambda>_.
       case getDestination (db_fingerprint b) db of
         Some old \<Rightarrow>
           if ds_planId old \<noteq> db_planId b \<or> ds_replicationId old \<noteq> db_replicationId b \<or>
              ds_sourceRepositoryId old \<noteq> db_sourceRepositoryId b \<or>
              ds_storageId old \<noteq> db_storageId b \<or> ds_storagePath old \<noteq> db_storagePath b \<or>
              ds_initState old = IDetached
           then Throw (AppError 409 ''Replica repository ownership changed.'')
           else Ok (old, db)
       | None \<Rightarrow>
           if \<not> fullId (db_fingerprint b) \<or> db_authority b = [] \<or> db_prefix b = [] \<or>
              list_ex (\<lambda>part. part = ''..'' \<or> part = []) (split_on (CHR ''/'') (db_prefix b))
           then Throw (AppError 400 ''Invalid replica repository identity.'')
           else if list_ex (destinations_clash (db_authority b) (db_prefix b)) (t_destinations db)
           then Throw (AppError 409 ''Replica repository prefix overlaps an existing or retained destination.'')
           else if list_ex (\<lambda>d. ds_planId d = db_planId b \<and> ds_replicationId d = db_replicationId b)
                     (t_destinations db)
           then Throw SqlError
           else
             let row = \<lparr>ds_fingerprint = db_fingerprint b, ds_planId = db_planId b,
                        ds_replicationId = db_replicationId b,
                        ds_sourceRepositoryId = db_sourceRepositoryId b,
                        ds_storageId = db_storageId b, ds_storagePath = db_storagePath b,
                        ds_authority = db_authority b, ds_prefix = db_prefix b,
                        ds_initState = IUninitialized, ds_actualRepositoryId = None,
                        ds_createdAt = now\<rparr>
             in Ok (row, db\<lparr>t_destinations := t_destinations db @ [row]\<rparr>)))"

section \<open>Jobs\<close>

text \<open>
  The completed backup an input is bound to: its plan, its initialised repository and the agent of
  the plan's device agree on every column.
\<close>

definition source_valid :: "replication_binding \<Rightarrow> pdb \<Rightarrow> bool" where
  "source_valid i db \<longleftrightarrow>
     list_ex (\<lambda>b. list_ex (\<lambda>p. list_ex (\<lambda>r. list_ex (\<lambda>a.
       bk_planId b = Some (pl_id p) \<and> rp_planId r = pl_id p \<and> ag_agentId a = rp_agentId r \<and>
       bk_id b = rb_backupId i \<and> pl_id p = rb_planId i \<and> rp_id r = rb_repositoryId i \<and>
       rp_agentId r = rb_agentId i \<and> ag_deviceId a = pl_sourceId p \<and> ag_revokedAt a = None \<and>
       rp_initializedAt r \<noteq> None \<and> pl_storageId p = Some (rp_storageId r) \<and>
       pl_storagePath p = Some (rp_storagePath r) \<and> pl_method p = ''backup'' \<and>
       bk_method b = ''backup'' \<and> pl_sourceType p = ''device'' \<and> bk_sourceType b = pl_sourceType p \<and>
       bk_encryption b = Some True \<and> bk_sourceId b = pl_sourceId p \<and>
       bk_storageId b = Some (rp_storageId r) \<and> bk_storagePath b = Some (rp_storagePath r) \<and>
       rp_storageId r = rb_sourceStorageId i \<and> rp_storagePath r = rb_sourceStoragePath i \<and>
       bk_status b = Some ''completed'' \<and> bk_success b = Some True \<and> bk_inProgress b \<noteq> Some True \<and>
       bk_snapshot b = Some (rb_sourceSnapshotId i))
       (t_agents db)) (t_repositories db)) (t_plans db)) (t_backups db)"

text \<open>Every key of the input but \<open>id\<close> and \<open>createdAt\<close>.\<close>

definition same_binding :: "replication_binding \<Rightarrow> replication_binding \<Rightarrow> bool" where
  "same_binding a b \<longleftrightarrow> a\<lparr>rb_id := rb_id b, rb_createdAt := rb_createdAt b\<rparr> = b"

definition rj_enqueue ::
  "int \<Rightarrow> replication_binding \<Rightarrow> pdb \<Rightarrow> (replication_job \<times> pdb) result" where
  "rj_enqueue now i db =
     (if \<not> list_all fullId [rb_sourceSnapshotId i, rb_sourceRepositoryConfigId i, rb_sourceTreeId i,
           rb_sourceBindingHash i, rb_destinationFingerprint i]
      then Throw (AppError 409 ''Replication requires verified full source and destination identity.'')
      else if \<not> source_valid i db
      then Throw (AppError 409 ''Completed backup source binding is no longer valid.'')
      else if (case getDestination (rb_destinationFingerprint i) db of
                 None \<Rightarrow> True
               | Some d \<Rightarrow> ds_planId d \<noteq> rb_planId i \<or> ds_replicationId d \<noteq> rb_replicationId i \<or>
                          ds_initState d = IDetached)
      then Throw (AppError 409 ''Replica destination is not reserved for this plan.'')
      else
        (case row_by (\<lambda>j. (rb_backupId (rj_binding j), rb_replicationId (rj_binding j)))
                (rb_backupId i, rb_replicationId i) (t_replicationJobs db) of
           Some old \<Rightarrow>
             if \<not> same_binding (rj_binding old) i
             then Throw (AppError 409 ''Replication immutable binding changed.'')
             else Ok (old, db)
         | None \<Rightarrow>
             if list_ex (\<lambda>j. rj_id j = rb_id i) (t_replicationJobs db) then Throw SqlError
             else
               let row = \<lparr>rj_binding = i, rj_destinationSnapshotId = None, rj_status = JPending,
                          rj_ownerToken = None, rj_attempts = 0, rj_lastErrorCode = None,
                          rj_updatedAt = now, rj_verifiedAt = None\<rparr>
               in Ok (row, db\<lparr>t_replicationJobs := t_replicationJobs db @ [row]\<rparr>)))"

text \<open>\<open>/^[a-f0-9]{48,64}$/\<close> and \<open>/^[a-z][a-z0-9-]{0,79}$/\<close>.\<close>

definition executor_token :: "string \<Rightarrow> bool" where
  "executor_token s \<longleftrightarrow> 48 \<le> length s \<and> length s \<le> 64 \<and> list_all is_hex_char s"

definition failure_category :: "string \<Rightarrow> bool" where
  "failure_category s \<longleftrightarrow>
     (case s of
        [] \<Rightarrow> False
      | c # cs \<Rightarrow> is_lower c \<and> length cs \<le> 79 \<and>
                  list_all (\<lambda>d. is_lower d \<or> is_digit d \<or> d = CHR ''-'') cs)"

definition slot_taken :: "replication_job \<Rightarrow> bool" where
  "slot_taken j \<longleftrightarrow> rj_status j \<in> {JRunning, JUncertain}"

definition rj_claim :: "int \<Rightarrow> string \<Rightarrow> string \<Rightarrow> pdb \<Rightarrow> (replication_job option \<times> pdb) result" where
  "rj_claim now k token db =
     (if \<not> executor_token token then Throw (AppError 400 ''Invalid executor token.'')
      else if list_ex slot_taken (t_replicationJobs db) then Ok (None, db)
      else if \<not> list_ex (\<lambda>j. rj_id j = k \<and> rj_status j = JPending) (t_replicationJobs db)
      then Ok (None, db)
      else
        let db' = db\<lparr>t_replicationJobs :=
              update_where (\<lambda>j. rj_id j = k \<and> rj_status j = JPending)
                (\<lambda>j. j\<lparr>rj_status := JRunning, rj_ownerToken := Some token,
                       rj_attempts := Suc (rj_attempts j), rj_updatedAt := now\<rparr>)
                (t_replicationJobs db)\<rparr>
        in Ok (rj_getById k db', db'))"

definition owns :: "string \<Rightarrow> string \<Rightarrow> pdb \<Rightarrow> bool" where
  "owns fingerprint token db \<longleftrightarrow>
     list_ex (\<lambda>j. rb_destinationFingerprint (rj_binding j) = fingerprint \<and>
                  rj_ownerToken j = Some token \<and> rj_status j = JRunning) (t_replicationJobs db)"

definition beginInitialization :: "string \<Rightarrow> string \<Rightarrow> pdb \<Rightarrow> bool \<times> pdb" where
  "beginInitialization fingerprint token db =
     (let hit = (\<lambda>d. ds_fingerprint d = fingerprint \<and> ds_initState d = IUninitialized)
      in if owns fingerprint token db \<and> list_ex hit (t_destinations db)
         then (True, db\<lparr>t_destinations :=
                update_where hit (\<lambda>d. d\<lparr>ds_initState := IInitializing\<rparr>) (t_destinations db)\<rparr>)
         else (False, db))"

definition finalizeInitialization :: "string \<Rightarrow> string \<Rightarrow> string \<Rightarrow> pdb \<Rightarrow> bool \<times> pdb" where
  "finalizeInitialization fingerprint token repositoryId db =
     (let hit = (\<lambda>d. ds_fingerprint d = fingerprint \<and> ds_initState d = IInitializing)
      in if fullId repositoryId \<and> owns fingerprint token db \<and> list_ex hit (t_destinations db)
         then (True, db\<lparr>t_destinations :=
                update_where hit
                  (\<lambda>d. d\<lparr>ds_initState := IReady, ds_actualRepositoryId := Some repositoryId\<rparr>)
                  (t_destinations db)\<rparr>)
         else (False, db))"

datatype finish_status = FCompleted | FFailed | FUncertain | FCancelled

fun finish_to :: "finish_status \<Rightarrow> replication_status" where
  "finish_to FCompleted = JCompleted"
| "finish_to FFailed = JFailed"
| "finish_to FUncertain = JUncertain"
| "finish_to FCancelled = JCancelled"

record finish_result =
  fr_status :: finish_status
  fr_snapshotId :: "string option"
  fr_failureCode :: "string option"
  fr_lastErrorCode :: "string option"

abbreviation text_or_null :: "string option \<Rightarrow> string option" where
  "text_or_null t \<equiv> (if t = Some [] then None else t)"

definition result_code :: "finish_result \<Rightarrow> string option" where
  "result_code res =
     (case text_or_null (fr_failureCode res) of Some c \<Rightarrow> Some c
      | None \<Rightarrow> text_or_null (fr_lastErrorCode res))"

definition rj_finish :: "int \<Rightarrow> string \<Rightarrow> string \<Rightarrow> finish_result \<Rightarrow> pdb \<Rightarrow> (bool \<times> pdb) result" where
  "rj_finish now k token res db =
     (if fr_status res = FCompleted \<and>
         \<not> fullId (case fr_snapshotId res of None \<Rightarrow> [] | Some s \<Rightarrow> s)
      then Throw (AppError 409 ''Replica completion requires an exact verified snapshot.'')
      else if (case result_code res of None \<Rightarrow> False | Some c \<Rightarrow> \<not> failure_category c)
      then Throw (AppError 400 ''Invalid replication failure category.'')
      else
        let hit = (\<lambda>j. rj_id j = k \<and> rj_ownerToken j = Some token \<and> rj_status j = JRunning)
        in Ok (list_ex hit (t_replicationJobs db),
               db\<lparr>t_replicationJobs :=
                 update_where hit
                   (\<lambda>j. j\<lparr>rj_status := finish_to (fr_status res),
                          rj_destinationSnapshotId := text_or_null (fr_snapshotId res),
                          rj_lastErrorCode := result_code res,
                          rj_verifiedAt := (if fr_status res = FCompleted then Some now else None),
                          rj_updatedAt := now,
                          rj_ownerToken := (if fr_status res = FUncertain then rj_ownerToken j else None)\<rparr>)
                   (t_replicationJobs db)\<rparr>))"

definition rj_retry :: "int \<Rightarrow> string \<Rightarrow> pdb \<Rightarrow> (bool \<times> pdb) result" where
  "rj_retry now k db =
     (let job = rj_getById k db;
          destination = getDestination
            (case job of None \<Rightarrow> [] | Some j \<Rightarrow> rb_destinationFingerprint (rj_binding j)) db
      in if (case job of None \<Rightarrow> False | Some j \<Rightarrow> rj_status j = JUncertain) \<or>
            (case destination of None \<Rightarrow> False
             | Some d \<Rightarrow> ds_initState d \<in> {IInitializing, IUncertain, IDetached})
         then Throw (AppError 409 ''Uncertain execution requires operator verification; automatic replay is refused.'')
         else
           let hit = (\<lambda>j. rj_id j = k \<and> rj_status j \<in> {JFailed, JCancelled})
           in Ok (list_ex hit (t_replicationJobs db),
                  db\<lparr>t_replicationJobs :=
                    update_where hit
                      (\<lambda>j. j\<lparr>rj_status := JPending, rj_lastErrorCode := None, rj_updatedAt := now\<rparr>)
                      (t_replicationJobs db)\<rparr>))"

definition rj_cancelPending :: "int \<Rightarrow> string \<Rightarrow> pdb \<Rightarrow> bool \<times> pdb" where
  "rj_cancelPending now k db =
     (let hit = (\<lambda>j. rj_id j = k \<and> rj_status j = JPending)
      in (list_ex hit (t_replicationJobs db),
          db\<lparr>t_replicationJobs :=
            update_where hit
              (\<lambda>j. j\<lparr>rj_status := JCancelled, rj_lastErrorCode := Some ''cancelled'', rj_updatedAt := now\<rparr>)
              (t_replicationJobs db)\<rparr>))"

definition markInterrupted :: "int \<Rightarrow> pdb \<Rightarrow> nat \<times> pdb" where
  "markInterrupted now db =
     (count_where (\<lambda>j. rj_status j = JRunning) (t_replicationJobs db),
      db\<lparr>t_replicationJobs :=
        update_where (\<lambda>j. rj_status j = JRunning)
          (\<lambda>j. j\<lparr>rj_status := JUncertain, rj_lastErrorCode := Some ''execution-interrupted'',
                 rj_updatedAt := now\<rparr>) (t_replicationJobs db)\<rparr>)"

definition replication_due :: "pdb \<Rightarrow> backup_row \<Rightarrow> plan_row \<Rightarrow> bool" where
  "replication_due db b p \<longleftrightarrow>
     bk_sourceType b = ''device'' \<and> bk_sourceId b \<noteq> ''main'' \<and> bk_status b = Some ''completed'' \<and>
     bk_success b = Some True \<and> bk_inProgress b \<noteq> Some True \<and> pl_replicationEnabled p \<and>
     count_where (\<lambda>j. rb_backupId (rj_binding j) = bk_id b) (t_replicationJobs db) < length (pl_replicas p) \<and>
     \<not> list_ex (\<lambda>m. mr_status m = ''failed'' \<and>
            \<not> list_ex (\<lambda>j. rb_backupId (rj_binding j) = bk_id b \<and>
                           rb_replicationId (rj_binding j) = mr_replicationId m) (t_replicationJobs db))
          (bk_mirrors b)"

definition completedBackupCandidates :: "int \<Rightarrow> string \<Rightarrow> pdb \<Rightarrow> string list" where
  "completedBackupCandidates limit afterId db =
     take (nat (max 1 (min 25 limit)))
       (map bk_id (order_by bk_id
         (filter (\<lambda>b. afterId < bk_id b \<and>
            list_ex (\<lambda>p. bk_planId b = Some (pl_id p) \<and> replication_due db b p) (t_plans db))
            (t_backups db))))"

definition detach :: "string \<Rightarrow> string option \<Rightarrow> pdb \<Rightarrow> pdb result" where
  "detach planId replicationId db =
     bind_result (assertPlanIdle planId db) (\<lambda>_.
       Ok (db\<lparr>t_destinations :=
         update_where
           (\<lambda>d. ds_planId d = planId \<and>
                (no_text replicationId \<or> Some (ds_replicationId d) = replicationId))
           (\<lambda>d. d\<lparr>ds_initState := IDetached\<rparr>) (t_destinations db)\<rparr>))"

end
