(* ===== verification/Replication_Guarantees.thy ===== *)
theory Replication_Guarantees
  imports Replication_Store
begin

text \<open>
  The replication store as a step relation: any sequence of its methods, by any number of server
  processes, with arbitrary other database writes in between.  One execution slot, immutable
  bindings, an uncertain execution that is never replayed, a repository that is initialised once.
\<close>

section \<open>The steps of the store\<close>

inductive rep_step :: "pdb \<Rightarrow> pdb \<Rightarrow> bool" where
  rs_reserve: "reserveDestination resolver now b db = Ok (d, db') \<Longrightarrow> rep_step db db'"
| rs_enqueue: "rj_enqueue now i db = Ok (j, db') \<Longrightarrow> rep_step db db'"
| rs_claim: "rj_claim now k token db = Ok (r, db') \<Longrightarrow> rep_step db db'"
| rs_begin: "beginInitialization f token db = (r, db') \<Longrightarrow> rep_step db db'"
| rs_finalize: "finalizeInitialization f token repo db = (r, db') \<Longrightarrow> rep_step db db'"
| rs_finish: "rj_finish now k token res db = Ok (r, db') \<Longrightarrow> rep_step db db'"
| rs_retry: "rj_retry now k db = Ok (r, db') \<Longrightarrow> rep_step db db'"
| rs_cancel: "rj_cancelPending now k db = (r, db') \<Longrightarrow> rep_step db db'"
| rs_interrupted: "markInterrupted now db = (r, db') \<Longrightarrow> rep_step db db'"
| rs_detach: "detach planId replicationId db = Ok db' \<Longrightarrow> rep_step db db'"
| rs_other: "t_replicationJobs db' = t_replicationJobs db \<Longrightarrow> t_destinations db' = t_destinations db \<Longrightarrow>
    rep_step db db'"

inductive_cases rep_stepE: "rep_step db db'"

abbreviation job_key :: "replication_job \<Rightarrow> string \<times> string" where
  "job_key j \<equiv> (rb_backupId (rj_binding j), rb_replicationId (rj_binding j))"

definition binding_full :: "replication_binding \<Rightarrow> bool" where
  "binding_full i \<longleftrightarrow> list_all fullId [rb_sourceSnapshotId i, rb_sourceRepositoryConfigId i, rb_sourceTreeId i,
     rb_sourceBindingHash i, rb_destinationFingerprint i]"

text \<open>What a step does to the jobs: it appends a pending one or updates rows in place.\<close>

lemma reserveDestination_jobs:
  "reserveDestination resolver now b db = Ok (d, db') \<Longrightarrow> t_replicationJobs db' = t_replicationJobs db"
  by (auto simp: reserveDestination_def Let_def bind_result_Inr_iff split: option.splits if_splits)

lemma beginInitialization_jobs:
  "beginInitialization f token db = (r, db') \<Longrightarrow> t_replicationJobs db' = t_replicationJobs db"
  by (auto simp: beginInitialization_def Let_def split: if_splits)

lemma finalizeInitialization_jobs:
  "finalizeInitialization f token repo db = (r, db') \<Longrightarrow> t_replicationJobs db' = t_replicationJobs db"
  by (auto simp: finalizeInitialization_def Let_def split: if_splits)

lemma detach_jobs: "detach planId replicationId db = Ok db' \<Longrightarrow> t_replicationJobs db' = t_replicationJobs db"
  by (auto simp: detach_def bind_result_Inr_iff)

lemma rep_step_jobs:
  assumes "rep_step db db'"
  obtains (insert) row where "t_replicationJobs db' = t_replicationJobs db @ [row]" "rj_status row = JPending"
      "rj_ownerToken row = None" "binding_full (rj_binding row)"
      "\<forall>j \<in> set (t_replicationJobs db). rj_id j \<noteq> rj_id row"
      "\<forall>j \<in> set (t_replicationJobs db). job_key j \<noteq> job_key row"
  | (claim) now k token where "\<not> list_ex slot_taken (t_replicationJobs db)" "executor_token token"
      "t_replicationJobs db' = update_where (\<lambda>j. rj_id j = k \<and> rj_status j = JPending)
         (\<lambda>j. j\<lparr>rj_status := JRunning, rj_ownerToken := Some token, rj_attempts := Suc (rj_attempts j),
                rj_updatedAt := now\<rparr>) (t_replicationJobs db)"
  | (release) p f where "t_replicationJobs db' = update_where p f (t_replicationJobs db)"
      "\<And>j. rj_binding (f j) = rj_binding j" "\<And>j. p j \<Longrightarrow> slot_taken (f j) \<Longrightarrow> slot_taken j"
      "\<And>j. p j \<Longrightarrow> rj_status j \<noteq> JUncertain"
      "\<And>j. p j \<Longrightarrow> rj_status (f j) = JRunning \<Longrightarrow> False"
      "\<And>j. p j \<Longrightarrow> rj_status (f j) = JUncertain \<Longrightarrow> rj_ownerToken (f j) = rj_ownerToken j"
      "\<And>j. p j \<Longrightarrow> rj_status (f j) \<noteq> JUncertain \<Longrightarrow> rj_ownerToken (f j) \<in> {None, rj_ownerToken j} \<and>
          (rj_status j = JRunning \<longrightarrow> rj_ownerToken (f j) = None)"
      "\<And>j. p j \<Longrightarrow> rj_status (f j) = JCompleted \<Longrightarrow>
          (\<exists>s. rj_destinationSnapshotId (f j) = Some s \<and> fullId s) \<and> rj_verifiedAt (f j) \<noteq> None"
  | (same) "t_replicationJobs db' = t_replicationJobs db"
  using assms
proof cases
  case (rs_enqueue now i j)
  show thesis
  proof (cases "row_by job_key (rb_backupId i, rb_replicationId i) (t_replicationJobs db)")
    case None
    then have key: "\<forall>x \<in> set (t_replicationJobs db). job_key x \<noteq> (rb_backupId i, rb_replicationId i)"
      by (auto simp: row_by_None_iff image_iff)
    from None rs_enqueue have "t_replicationJobs db' = t_replicationJobs db @ [j]" "rj_status j = JPending"
      "rj_ownerToken j = None" "rj_binding j = i" "binding_full i"
      "\<forall>x \<in> set (t_replicationJobs db). rj_id x \<noteq> rb_id i"
      by (auto simp: rj_enqueue_def Let_def list_ex_iff binding_full_def split: if_splits option.splits)
    with key show thesis by (intro insert [of j]) auto
  next
    case (Some old)
    with rs_enqueue have "db' = db" by (auto simp: rj_enqueue_def split: if_splits option.splits)
    then show thesis using same by simp
  qed
next
  case (rs_claim now k token r)
  show thesis
  proof (cases "list_ex slot_taken (t_replicationJobs db) \<or>
      \<not> list_ex (\<lambda>j. rj_id j = k \<and> rj_status j = JPending) (t_replicationJobs db)")
    case True
    with rs_claim have "db' = db" by (auto simp: rj_claim_def split: if_splits)
    then show thesis using same by simp
  next
    case False
    with rs_claim show thesis by (intro claim) (auto simp: rj_claim_def Let_def split: if_splits)
  qed
next
  case (rs_finish now k token res r)
  let ?f = "\<lambda>j. j\<lparr>rj_status := finish_to (fr_status res),
      rj_destinationSnapshotId := text_or_null (fr_snapshotId res), rj_lastErrorCode := result_code res,
      rj_verifiedAt := (if fr_status res = FCompleted then Some now else None), rj_updatedAt := now,
      rj_ownerToken := (if fr_status res = FUncertain then rj_ownerToken j else None)\<rparr>"
  have jobs: "t_replicationJobs db' = update_where (\<lambda>j. rj_id j = k \<and> rj_ownerToken j = Some token \<and>
      rj_status j = JRunning) ?f (t_replicationJobs db)"
    using rs_finish by (auto simp: rj_finish_def Let_def split: if_splits)
  have full: "(\<exists>s. text_or_null (fr_snapshotId res) = Some s \<and> fullId s)" if "fr_status res = FCompleted"
  proof -
    have "fullId (case fr_snapshotId res of None \<Rightarrow> [] | Some s \<Rightarrow> s)"
      using rs_finish that by (simp add: rj_finish_def split: if_splits)
    then show ?thesis by (cases "fr_snapshotId res") (auto simp: fullId_def hex_string_def)
  qed
  show thesis
  proof (rule release [OF jobs])
    show "(\<exists>s. rj_destinationSnapshotId (?f j) = Some s \<and> fullId s) \<and> rj_verifiedAt (?f j) \<noteq> None"
      if "rj_status (?f j) = JCompleted" for j
    proof -
      have "fr_status res = FCompleted" using that by (cases "fr_status res") auto
      with full show ?thesis by simp
    qed
  qed ((cases "fr_status res"; simp add: slot_taken_def)+)
next
  case (rs_retry now k r)
  then have "t_replicationJobs db' = update_where (\<lambda>j. rj_id j = k \<and> rj_status j \<in> {JFailed, JCancelled})
      (\<lambda>j. j\<lparr>rj_status := JPending, rj_lastErrorCode := None, rj_updatedAt := now\<rparr>) (t_replicationJobs db)"
    by (auto simp: rj_retry_def Let_def split: if_splits)
  then show thesis by (rule release) (auto simp: slot_taken_def)
next
  case (rs_cancel now k r)
  then have "t_replicationJobs db' = update_where (\<lambda>j. rj_id j = k \<and> rj_status j = JPending)
      (\<lambda>j. j\<lparr>rj_status := JCancelled, rj_lastErrorCode := Some ''cancelled'', rj_updatedAt := now\<rparr>)
      (t_replicationJobs db)"
    by (auto simp: rj_cancelPending_def Let_def)
  then show thesis by (rule release) (auto simp: slot_taken_def)
next
  case (rs_interrupted now r)
  then have "t_replicationJobs db' = update_where (\<lambda>j. rj_status j = JRunning)
      (\<lambda>j. j\<lparr>rj_status := JUncertain, rj_lastErrorCode := Some ''execution-interrupted'', rj_updatedAt := now\<rparr>)
      (t_replicationJobs db)"
    by (auto simp: markInterrupted_def)
  then show thesis by (rule release) (auto simp: slot_taken_def)
next
  case (rs_reserve resolver now b d)
  then show thesis by (intro same) (rule reserveDestination_jobs)
next
  case (rs_begin f token r)
  then show thesis by (intro same) (rule beginInitialization_jobs)
next
  case (rs_finalize f token repo r)
  then show thesis by (intro same) (rule finalizeInitialization_jobs)
next
  case (rs_detach planId replicationId)
  then show thesis by (intro same) (rule detach_jobs)
next
  case rs_other
  then show thesis by (intro same)
qed

section \<open>The execution slot and the jobs\<close>

definition job_ok :: "replication_job \<Rightarrow> bool" where
  "job_ok j \<longleftrightarrow>
     binding_full (rj_binding j) \<and> (slot_taken j \<longleftrightarrow> rj_ownerToken j \<noteq> None) \<and>
     (rj_status j = JCompleted \<longrightarrow>
        (\<exists>s. rj_destinationSnapshotId j = Some s \<and> fullId s) \<and> rj_verifiedAt j \<noteq> None)"

definition jobs_ok :: "pdb \<Rightarrow> bool" where
  "jobs_ok db \<longleftrightarrow>
     distinct (map rj_id (t_replicationJobs db)) \<and> distinct (map job_key (t_replicationJobs db)) \<and>
     list_all job_ok (t_replicationJobs db)"

definition executing :: "pdb \<Rightarrow> nat" where
  "executing db = count_where slot_taken (t_replicationJobs db)"

lemma jobs_ok_update:
  assumes "jobs_ok db" and "t_replicationJobs db' = update_where p f (t_replicationJobs db)"
    and "\<And>j. rj_binding (f j) = rj_binding j"
    and "\<And>j. p j \<Longrightarrow> job_ok j \<Longrightarrow> job_ok (f j)"
  shows "jobs_ok db'"
proof -
  have "map rj_id (update_where p f (t_replicationJobs db)) = map rj_id (t_replicationJobs db)"
    "map job_key (update_where p f (t_replicationJobs db)) = map job_key (t_replicationJobs db)"
    by (rule map_update_where; simp add: assms(3))+
  with assms(1,2,4) show ?thesis by (auto simp: jobs_ok_def list_all_iff set_update_where)
qed

lemma jobs_ok_step: "jobs_ok db \<Longrightarrow> rep_step db db' \<Longrightarrow> jobs_ok db'"
proof -
  assume ok: "jobs_ok db" and "rep_step db db'"
  from \<open>rep_step db db'\<close> show "jobs_ok db'"
  proof (cases rule: rep_step_jobs)
    case (insert row)
    with ok show ?thesis by (auto simp: jobs_ok_def job_ok_def slot_taken_def list_all_iff)
  next
    case (claim now k token)
    show ?thesis
      by (rule jobs_ok_update [OF ok claim(3)]) (auto simp: job_ok_def slot_taken_def)
  next
    case (release p f)
    show ?thesis
    proof (rule jobs_ok_update [OF ok release(1,2)])
      fix j assume p: "p j" and j: "job_ok j"
      show "job_ok (f j)"
        using j release(2) [of j] release(3-8) [OF p] by (auto simp: job_ok_def slot_taken_def)
    qed
  qed (use ok in \<open>simp add: jobs_ok_def\<close>)
qed

lemma executing_step:
  assumes ok: "jobs_ok db" and "rep_step db db'"
  shows "executing db' \<le> executing db \<or> executing db = 0 \<and> executing db' = 1"
  using assms(2)
proof (cases rule: rep_step_jobs)
  case (insert row)
  then show ?thesis by (simp add: executing_def slot_taken_def)
next
  case (claim now k token)
  have "executing db = 0" using claim(1) by (auto simp: executing_def count_where_0_iff list_ex_iff)
  moreover have "executing db' \<le> Suc (executing db)"
    unfolding executing_def claim(3) using ok by (intro count_where_update_by_key) (simp add: jobs_ok_def)
  ultimately show ?thesis by auto
next
  case (release p f)
  then have "executing db' \<le> executing db"
    unfolding executing_def by (simp add: count_where_update_le)
  then show ?thesis ..
qed (simp add: executing_def)

interpretation replication_slot: exclusive_slot rep_step jobs_ok executing
  by unfold_locales (rule jobs_ok_step, assumption+, rule executing_step)

definition rep_init :: "pdb \<Rightarrow> bool" where
  "rep_init db \<longleftrightarrow> t_replicationJobs db = [] \<and> t_destinations db = []"

lemma rep_init_reach:
  "reachable rep_init rep_step db \<Longrightarrow> reachable (\<lambda>s. jobs_ok s \<and> executing s \<le> 1) rep_step db"
  by (induction rule: reachable.induct)
     (auto simp: rep_init_def jobs_ok_def executing_def intro: reach_init reach_step)

text \<open>
  C16: Whatever sequence of store methods runs, in one or several server processes, at most one
  replication executes or is uncertain at any time; exactly those rows carry an executor's token; a
  completed row names the exact (64 hex digits) destination snapshot it verified; and a backup has at
  most one job per replication.
\<close>

theorem replication_single_execution:
  assumes "reachable rep_init rep_step db"
  shows "count_where slot_taken (t_replicationJobs db) \<le> 1 \<and> distinct (map job_key (t_replicationJobs db)) \<and>
    list_all (\<lambda>j. (slot_taken j \<longleftrightarrow> rj_ownerToken j \<noteq> None) \<and>
      (rj_status j = JCompleted \<longrightarrow> (\<exists>s. rj_destinationSnapshotId j = Some s \<and> fullId s) \<and> rj_verifiedAt j \<noteq> None))
      (t_replicationJobs db)"
  using replication_slot.slot_bound [OF rep_init_reach [OF assms]]
  by (auto simp: jobs_ok_def job_ok_def executing_def list_all_iff)

definition hex64 :: string where
  "hex64 = replicate 64 (CHR ''a'')"

lemma hex64_full [simp]: "fullId hex64" "executor_token hex64"
  by (simp_all add: hex64_def fullId_def hex_string_def executor_token_def list_all_iff is_hex_char_def)

text \<open>A database with a completed managed backup, and the binding of its replication.\<close>

definition sample_destination :: destination_binding where
  "sample_destination = \<lparr>db_planId = ''p'', db_replicationId = ''r'', db_sourceRepositoryId = ''repo'',
     db_storageId = ''t'', db_storagePath = ''b/mirror'', db_authority = ''https://s3/b'',
     db_prefix = ''mirror'', db_fingerprint = hex64\<rparr>"

definition sample_binding :: replication_binding where
  "sample_binding = \<lparr>rb_id = ''j'', rb_backupId = ''b'', rb_planId = ''p'', rb_repositoryId = ''repo'',
     rb_agentId = ''a'', rb_sourceStorageId = ''s'', rb_sourceStoragePath = ''b/backup'',
     rb_sourceSnapshotId = hex64, rb_sourceRepositoryConfigId = hex64, rb_sourceTreeId = hex64,
     rb_sourceBindingHash = hex64, rb_replicationId = ''r'', rb_destinationStorageId = ''t'',
     rb_destinationStoragePath = ''b/mirror'', rb_destinationFingerprint = hex64, rb_createdAt = 1\<rparr>"

definition sample_source_db :: pdb where
  "sample_source_db = empty_db\<lparr>t_storages := [sample_storage], t_plans := [sample_store_plan],
     t_backups := [\<lparr>bk_id = ''b'', bk_planId = Some ''p'', bk_status = Some ''completed'',
        bk_inProgress = Some False, bk_success = Some True, bk_method = ''backup'',
        bk_sourceType = ''device'', bk_sourceId = ''agent'', bk_storageId = Some ''s'',
        bk_storagePath = Some ''b/backup'', bk_encryption = Some True, bk_ended = Some 4,
        bk_snapshot = Some hex64, bk_warnings = 0, bk_mirrors = []\<rparr>],
     t_repositories := [\<lparr>rp_id = ''repo'', rp_planId = ''p'', rp_agentId = ''a'', rp_storageId = ''s'',
        rp_storagePath = ''b/backup'', rp_initializedAt = Some 1\<rparr>],
     t_agents := [\<lparr>ag_agentId = ''a'', ag_deviceId = ''agent'', ag_revokedAt = None\<rparr>]\<rparr>"

definition sample_destination_row :: destination_row where
  "sample_destination_row = \<lparr>ds_fingerprint = hex64, ds_planId = ''p'', ds_replicationId = ''r'',
     ds_sourceRepositoryId = ''repo'', ds_storageId = ''t'', ds_storagePath = ''b/mirror'',
     ds_authority = ''https://s3/b'', ds_prefix = ''mirror'', ds_initState = IUninitialized,
     ds_actualRepositoryId = None, ds_createdAt = 1\<rparr>"

definition sample_job :: replication_job where
  "sample_job = \<lparr>rj_binding = sample_binding, rj_destinationSnapshotId = None, rj_status = JPending,
     rj_ownerToken = None, rj_attempts = 0, rj_lastErrorCode = None, rj_updatedAt = 2, rj_verifiedAt = None\<rparr>"

definition sample_reserved_db :: pdb where
  "sample_reserved_db = sample_source_db\<lparr>t_destinations := [sample_destination_row]\<rparr>"

definition sample_queued_db :: pdb where
  "sample_queued_db = sample_reserved_db\<lparr>t_replicationJobs := [sample_job]\<rparr>"

lemma sample_reserve:
  "reserveDestination resolver 1 sample_destination sample_source_db = Ok (sample_destination_row, sample_reserved_db)"
proof -
  have "assertReplicaNotPlanOwned resolver sample_source_db ''p'' s = Ok ()"
    "assertExportRepositoryScope sample_source_db s = Ok ()" for s
    by (simp_all add: assertReplicaNotPlanOwned_def assertExportRepositoryScope_def reservations_def
        sample_source_db_def sample_store_plan_def empty_db_def)
  moreover have "t_destinations sample_source_db = []" by (simp add: sample_source_db_def empty_db_def)
  ultimately show ?thesis
    by (simp add: reserveDestination_def sample_destination_def getDestination_def sample_destination_row_def
        sample_reserved_db_def Let_def)
qed

lemma sample_enqueue: "rj_enqueue 2 sample_binding sample_reserved_db = Ok (sample_job, sample_queued_db)"
proof -
  have "source_valid sample_binding sample_reserved_db"
    by (simp add: source_valid_def sample_binding_def sample_reserved_db_def sample_source_db_def
        sample_store_plan_def)
  moreover have "getDestination hex64 sample_reserved_db = Some sample_destination_row"
    "t_replicationJobs sample_reserved_db = []"
    by (simp_all add: getDestination_def sample_reserved_db_def sample_destination_row_def sample_source_db_def
        empty_db_def)
  moreover have "rb_destinationFingerprint sample_binding = hex64" by (simp add: sample_binding_def)
  ultimately show ?thesis
    by (simp add: rj_enqueue_def sample_job_def sample_queued_db_def sample_destination_row_def sample_binding_def Let_def)
qed

lemma sample_queued_reachable: "reachable rep_init rep_step sample_queued_db"
proof -
  have "reachable rep_init rep_step sample_source_db"
    by (rule reach_init) (simp add: rep_init_def sample_source_db_def empty_db_def)
  then have "reachable rep_init rep_step sample_reserved_db"
    by (rule reach_step) (rule rs_reserve [OF sample_reserve])
  then show ?thesis by (rule reach_step) (rule rs_enqueue [OF sample_enqueue])
qed

theorem replication_single_execution_witness:
  "count_where slot_taken (t_replicationJobs sample_queued_db) \<le> 1 \<and>
   t_replicationJobs sample_queued_db = [sample_job]"
  using replication_single_execution [OF sample_queued_reachable] by (simp add: sample_queued_db_def)

section \<open>An uncertain execution\<close>

lemma uncertain_step:
  assumes "j \<in> set (t_replicationJobs db)" and "rj_status j = JUncertain" and "rep_step db db'"
  shows "j \<in> set (t_replicationJobs db')"
  using assms(3)
proof (cases rule: rep_step_jobs)
  case (claim now k token)
  with assms(1,2) show ?thesis by (auto simp: list_ex_iff slot_taken_def)
next
  case (release p f)
  with assms(1,2) have "\<not> p j" by auto
  with release(1) assms(1) show ?thesis by (auto simp: set_update_where image_iff intro!: bexI [of _ j])
qed (use assms(1) in auto)

text \<open>
  An execution whose outcome is unknown is never replayed: from the moment a row is uncertain it
  stays exactly as it is whatever the store does, no job can be claimed any more, neither this nor
  another, and the executor it was taken from can no longer settle it.
\<close>

theorem uncertain_blocks_replay:
  assumes "rep_step\<^sup>*\<^sup>* db db'" and "j \<in> set (t_replicationJobs db)" and "rj_status j = JUncertain"
    and "distinct (map rj_id (t_replicationJobs db'))"
  shows "j \<in> set (t_replicationJobs db') \<and>
     (executor_token token \<longrightarrow> rj_claim now k token db' = Ok (None, db')) \<and>
     (rj_finish now (rj_id j) token res db' = Ok (r, db'') \<longrightarrow> \<not> r \<and> db'' = db')"
proof -
  have j: "j \<in> set (t_replicationJobs db')"
    using assms(1) by (induction rule: rtranclp_induct) (auto intro: uncertain_step assms(2,3))
  then have "list_ex slot_taken (t_replicationJobs db')"
    using assms(3) by (auto simp: list_ex_iff slot_taken_def)
  moreover have "\<not> r \<and> db'' = db'" if fin: "rj_finish now (rj_id j) token res db' = Ok (r, db'')"
  proof -
    have no: "\<not> (rj_id x = rj_id j \<and> rj_ownerToken x = Some token \<and> rj_status x = JRunning)"
      if "x \<in> set (t_replicationJobs db')" for x
      using distinct_map_eqD [OF assms(4) that j] assms(3) by auto
    then have "update_where (\<lambda>x. rj_id x = rj_id j \<and> rj_ownerToken x = Some token \<and> rj_status x = JRunning) f
        (t_replicationJobs db') = t_replicationJobs db'" for f
      by (rule update_where_none)
    with fin no show ?thesis
      by (auto simp: rj_finish_def Let_def list_ex_iff split: if_splits)
  qed
  ultimately show ?thesis using j by (auto simp: rj_claim_def)
qed

theorem uncertain_blocks_replay_witness:
  "rj_claim 9 ''j2'' hex64
     (snd (markInterrupted 5 (sample_queued_db\<lparr>t_replicationJobs := [sample_job\<lparr>rj_status := JRunning\<rparr>]\<rparr>))) =
   Ok (None, snd (markInterrupted 5 (sample_queued_db\<lparr>t_replicationJobs := [sample_job\<lparr>rj_status := JRunning\<rparr>]\<rparr>)))"
proof -
  let ?db = "snd (markInterrupted 5 (sample_queued_db\<lparr>t_replicationJobs := [sample_job\<lparr>rj_status := JRunning\<rparr>]\<rparr>))"
  let ?j = "sample_job\<lparr>rj_status := JUncertain, rj_lastErrorCode := Some ''execution-interrupted'', rj_updatedAt := 5\<rparr>"
  have jobs: "t_replicationJobs ?db = [?j]" by (simp add: markInterrupted_def)
  show ?thesis
    using uncertain_blocks_replay [of ?db ?db ?j hex64 9 "''j2''"] jobs by simp
qed

section \<open>Immutable bindings\<close>

lemma bindings_step:
  assumes "rep_step db db'"
  shows "rj_binding ` set (t_replicationJobs db) \<subseteq> rj_binding ` set (t_replicationJobs db')"
proof -
  have keep: "rj_binding ` set (update_where p f t) = rj_binding ` set t"
    if "\<And>j. rj_binding (f j) = rj_binding j" for p f t
    using map_update_where [of t p rj_binding f] that by (metis set_map)
  from assms show ?thesis
  proof (cases rule: rep_step_jobs)
    case (claim now k token)
    then show ?thesis by (simp add: keep)
  next
    case (release p f)
    then show ?thesis by (simp add: keep)
  qed auto
qed

interpretation replication_bindings: monotone_system rep_step "\<lambda>db. rj_binding ` set (t_replicationJobs db)"
  by unfold_locales (rule bindings_step)

text \<open>
  A job's binding never changes and a job never disappears: in any later state a row with the
  same id has the same binding, and enqueueing the same replication of the same backup again, with
  whatever new id, returns the row that is there and writes nothing.
\<close>

theorem replication_binding_immutable:
  assumes "reachable rep_init rep_step db" and "rep_step\<^sup>*\<^sup>* db db'" and "j \<in> set (t_replicationJobs db)"
  shows "(\<exists>j' \<in> set (t_replicationJobs db'). rj_binding j' = rj_binding j) \<and>
     (\<forall>j' \<in> set (t_replicationJobs db'). rj_id j' = rj_id j \<longrightarrow> rj_binding j' = rj_binding j) \<and>
     (rj_enqueue now ((rj_binding j)\<lparr>rb_id := k, rb_createdAt := t\<rparr>) db' = Ok (r, db'') \<longrightarrow>
        rj_binding r = rj_binding j \<and> db'' = db')"
proof -
  have "rj_binding j \<in> rj_binding ` set (t_replicationJobs db')"
    using replication_bindings.level_steps [OF assms(2)] assms(3) by auto
  then obtain j' where j': "j' \<in> set (t_replicationJobs db')" "rj_binding j' = rj_binding j" by auto
  have "reachable rep_init rep_step db'"
    using assms(2,1) by (induction rule: rtranclp_induct) (auto intro: reach_step)
  then have ok: "jobs_ok db'"
    using replication_slot.slot_bound [OF rep_init_reach] by simp
  have same: "x = j'" if "x \<in> set (t_replicationJobs db')" "rj_id x = rj_id j" for x
    by (rule distinct_map_eqD [of rj_id]) (use ok that j' in \<open>auto simp: jobs_ok_def\<close>)
  let ?i = "(rj_binding j)\<lparr>rb_id := k, rb_createdAt := t\<rparr>"
  have "row_by job_key (rb_backupId ?i, rb_replicationId ?i) (t_replicationJobs db') = Some j'"
    using row_by_unique [of job_key "t_replicationJobs db'" j'] ok j' by (simp add: jobs_ok_def)
  then have "rj_binding r = rj_binding j \<and> db'' = db'" if "rj_enqueue now ?i db' = Ok (r, db'')"
    using that j'(2) by (auto simp: rj_enqueue_def split: if_splits option.splits)
  with j' same show ?thesis by blast
qed

theorem replication_binding_immutable_witness:
  "\<exists>r. rj_enqueue 7 (sample_binding\<lparr>rb_id := ''k'', rb_createdAt := 9\<rparr>) sample_queued_db = Ok (r, sample_queued_db) \<and>
     rj_binding r = sample_binding"
proof -
  let ?i = "sample_binding\<lparr>rb_id := ''k'', rb_createdAt := 9\<rparr>"
  have src: "source_valid ?i sample_queued_db"
    by (simp add: source_valid_def sample_binding_def sample_queued_db_def sample_reserved_db_def
        sample_source_db_def sample_store_plan_def)
  have "getDestination hex64 sample_queued_db = Some sample_destination_row"
    "t_replicationJobs sample_queued_db = [sample_job]"
    by (simp_all add: getDestination_def sample_queued_db_def sample_reserved_db_def sample_destination_row_def)
  then have e: "rj_enqueue 7 ?i sample_queued_db = Ok (sample_job, sample_queued_db)"
    using src by (simp add: rj_enqueue_def sample_job_def sample_destination_row_def sample_binding_def
        same_binding_def)
  have "rj_binding sample_job = sample_binding" by (simp add: sample_job_def)
  with e replication_binding_immutable [OF sample_queued_reachable rtranclp.rtrancl_refl, of sample_job]
  show ?thesis by (auto simp: sample_queued_db_def)
qed

section \<open>Initialisation\<close>

fun init_rank :: "init_state \<Rightarrow> nat" where
  "init_rank IUninitialized = 1"
| "init_rank IInitializing = 2"
| "init_rank IReady = 3"
| "init_rank IUncertain = 4"
| "init_rank IDetached = 5"

definition destination_rank :: "string \<Rightarrow> pdb \<Rightarrow> nat" where
  "destination_rank f db = (case getDestination f db of None \<Rightarrow> 0 | Some d \<Rightarrow> init_rank (ds_initState d))"

lemma destination_rank_update:
  assumes "t_destinations db' = update_where p g (t_destinations db)"
    and "\<And>d. ds_fingerprint (g d) = ds_fingerprint d"
    and "\<And>d. p d \<Longrightarrow> init_rank (ds_initState d) \<le> init_rank (ds_initState (g d))"
  shows "destination_rank f db \<le> destination_rank f db'"
  using assms(3) by (auto simp: destination_rank_def getDestination_def assms(1)
      row_by_update_where [of ds_fingerprint, OF assms(2)] split: option.splits)

lemma init_rank_le: "init_rank s \<le> 5" "1 \<le> init_rank s"
  by (cases s; simp)+

lemma jobs_frame_destinations:
  "rj_enqueue now i db = Ok (j, db') \<Longrightarrow> t_destinations db' = t_destinations db"
  "rj_claim now k token db = Ok (r, db') \<Longrightarrow> t_destinations db' = t_destinations db"
  "rj_finish now k token res db = Ok (b, db') \<Longrightarrow> t_destinations db' = t_destinations db"
  "rj_retry now k db = Ok (b, db') \<Longrightarrow> t_destinations db' = t_destinations db"
  "rj_cancelPending now k db = (b, db') \<Longrightarrow> t_destinations db' = t_destinations db"
  "markInterrupted now db = (n, db') \<Longrightarrow> t_destinations db' = t_destinations db"
  by (auto simp: rj_enqueue_def rj_claim_def rj_finish_def rj_retry_def rj_cancelPending_def
      markInterrupted_def Let_def split: if_splits option.splits)

lemma rep_step_destinations:
  assumes "rep_step db db'"
  obtains (insert) resolver now b row where "reserveDestination resolver now b db = Ok (row, db')"
      "t_destinations db' = t_destinations db @ [row]" "getDestination (ds_fingerprint row) db = None"
  | (update) p g where "t_destinations db' = update_where p g (t_destinations db)"
      "\<And>d. (g d)\<lparr>ds_initState := ds_initState d, ds_actualRepositoryId := ds_actualRepositoryId d\<rparr> = d"
      "\<And>d. p d \<Longrightarrow> init_rank (ds_initState d) \<le> init_rank (ds_initState (g d))"
  using assms
proof cases
  case (rs_reserve resolver now b d)
  show thesis
  proof (cases "getDestination (db_fingerprint b) db")
    case None
    with rs_reserve show thesis
      by (intro insert [OF rs_reserve])
         (auto simp: reserveDestination_def Let_def bind_result_Inr_iff split: if_splits)
  next
    case (Some old)
    with rs_reserve have "t_destinations db' = update_where (\<lambda>_. False) id (t_destinations db)"
      by (auto simp: reserveDestination_def bind_result_Inr_iff update_where_def split: if_splits)
    then show thesis by (rule update) simp_all
  qed
next
  case (rs_begin f token r)
  show thesis
    by (rule update [of "\<lambda>d. owns f token db \<and> ds_fingerprint d = f \<and> ds_initState d = IUninitialized"
          "\<lambda>d. d\<lparr>ds_initState := IInitializing\<rparr>"])
       (use rs_begin in \<open>auto simp: beginInitialization_def Let_def update_where_def list_ex_iff
          intro!: map_idI [symmetric] split: if_splits\<close>)
next
  case (rs_finalize f token repo r)
  show thesis
    by (rule update [of "\<lambda>d. fullId repo \<and> owns f token db \<and> ds_fingerprint d = f \<and> ds_initState d = IInitializing"
          "\<lambda>d. d\<lparr>ds_initState := IReady, ds_actualRepositoryId := Some repo\<rparr>"])
       (use rs_finalize in \<open>auto simp: finalizeInitialization_def Let_def update_where_def list_ex_iff
          intro!: map_idI [symmetric] split: if_splits\<close>)
next
  case (rs_detach planId replicationId)
  then have "t_destinations db' = update_where (\<lambda>d. ds_planId d = planId \<and>
      (no_text replicationId \<or> Some (ds_replicationId d) = replicationId)) (\<lambda>d. d\<lparr>ds_initState := IDetached\<rparr>)
      (t_destinations db)"
    by (auto simp: detach_def bind_result_Inr_iff)
  then show thesis by (rule update) (simp_all add: init_rank_le)
next
  case rs_other
  then have "t_destinations db' = update_where (\<lambda>_. False) id (t_destinations db)"
    by (simp add: update_where_def)
  then show thesis by (rule update) simp_all
qed ((drule jobs_frame_destinations, rule update [of "\<lambda>_. False" id],
      simp_all add: update_where_def)+)

lemma destination_rank_step:
  assumes "rep_step db db'"
  shows "destination_rank f db \<le> destination_rank f db'"
  using assms
proof (cases rule: rep_step_destinations)
  case (insert resolver now b row)
  then show ?thesis
    by (auto simp: destination_rank_def getDestination_def row_by_append split: option.splits)
next
  case (update p g)
  have "ds_fingerprint (g d) = ds_fingerprint d" for d
    using update(2) [of d] by (metis destination_row.select_convs(1) destination_row.surjective
        destination_row.update_convs(9,10))
  with update(1,3) show ?thesis by (intro destination_rank_update [of db' p g])
qed

interpretation initialisation: monotone_system rep_step "destination_rank f" for f
  by unfold_locales (rule destination_rank_step)

lemma beginInitialization_rank:
  assumes "distinct (map ds_fingerprint (t_destinations db))" and "beginInitialization f token db = (True, db')"
  shows "destination_rank f db = 1 \<and> destination_rank f db' = 2"
proof -
  let ?hit = "\<lambda>d. ds_fingerprint d = f \<and> ds_initState d = IUninitialized"
  from assms(2) obtain d where d: "d \<in> set (t_destinations db)" "?hit d"
    and db': "t_destinations db' = update_where ?hit (\<lambda>d. d\<lparr>ds_initState := IInitializing\<rparr>) (t_destinations db)"
    by (auto simp: beginInitialization_def Let_def list_ex_iff split: if_splits)
  have "row_by ds_fingerprint f (t_destinations db) = Some d"
    using row_by_unique [OF assms(1) d(1)] d(2) by simp
  with d(2) db' show ?thesis
    by (simp add: destination_rank_def getDestination_def row_by_update_where)
qed

text \<open>
  A destination repository is initialised at most once: after one executor was allowed to
  initialise it, no later call, in whatever state the store is by then, is allowed to; its state only
  moves forward from uninitialised to initialising, ready and detached.
\<close>

theorem repository_initialised_once:
  assumes "beginInitialization f token db = (True, db1)" and "rep_step\<^sup>*\<^sup>* db1 db2"
    and "distinct (map ds_fingerprint (t_destinations db))" and "distinct (map ds_fingerprint (t_destinations db2))"
  shows "2 \<le> destination_rank f db2 \<and> beginInitialization f token' db2 = (False, db2)"
proof -
  have rank: "2 \<le> destination_rank f db2"
    using beginInitialization_rank [OF assms(3,1)] initialisation.level_steps [OF assms(2), of f] by simp
  have "\<not> fst (beginInitialization f token' db2)"
    using beginInitialization_rank [OF assms(4), of f token'] rank
    by (cases "beginInitialization f token' db2") (auto simp: Bex_def)
  with rank show ?thesis by (auto simp: beginInitialization_def Let_def split: if_splits)
qed

theorem repository_initialised_once_witness:
  "beginInitialization hex64 ''other''
     (snd (beginInitialization hex64 hex64 (sample_queued_db\<lparr>t_replicationJobs :=
        [sample_job\<lparr>rj_status := JRunning, rj_ownerToken := Some hex64\<rparr>]\<rparr>))) =
   (False, snd (beginInitialization hex64 hex64 (sample_queued_db\<lparr>t_replicationJobs :=
        [sample_job\<lparr>rj_status := JRunning, rj_ownerToken := Some hex64\<rparr>]\<rparr>)))"
proof -
  let ?db = "sample_queued_db\<lparr>t_replicationJobs := [sample_job\<lparr>rj_status := JRunning, rj_ownerToken := Some hex64\<rparr>]\<rparr>"
  have d: "t_destinations ?db = [sample_destination_row]"
    by (simp add: sample_queued_db_def sample_reserved_db_def)
  have b: "beginInitialization hex64 hex64 ?db = (True, snd (beginInitialization hex64 hex64 ?db))"
    using d by (simp add: beginInitialization_def owns_def sample_job_def sample_binding_def
        sample_destination_row_def)
  have "t_destinations (snd (beginInitialization hex64 hex64 ?db)) = [sample_destination_row\<lparr>ds_initState := IInitializing\<rparr>]"
    using d by (simp add: beginInitialization_def owns_def sample_job_def sample_binding_def
        sample_destination_row_def)
  with repository_initialised_once [OF b rtranclp.rtrancl_refl, of "''other''"] d show ?thesis by simp
qed

section \<open>Namespaces stay separate\<close>

text \<open>
  The writes that decide who owns which prefix: replica reservations, export reservations, plan
  writes, storage edits, and any other method of the replication store.  A new storage has an id that
  no plan mentions yet.
\<close>

definition destination_identity :: "destination_row \<Rightarrow> string \<times> string \<times> scope" where
  "destination_identity d = (ds_fingerprint d, ds_planId d, destination_scope d)"

inductive iso_step :: "resolver option \<Rightarrow> pdb \<Rightarrow> pdb \<Rightarrow> bool" for resolver where
  iso_destination: "reserveDestination resolver now b db = Ok (d, db') \<Longrightarrow> iso_step resolver db db'"
| iso_export: "reserveExportNamespace sec config db = Ok db' \<Longrightarrow> iso_step resolver db db'"
| iso_init: "iso_step resolver db (initializeExportNamespaceReservations db)"
| iso_plan_insert: "assertPlanReplicaIsolation resolver db p None = Ok () \<Longrightarrow>
    iso_step resolver db (db\<lparr>t_plans := t_plans db @ [p]\<rparr>)"
| iso_plan_update: "assertPlanUpdateReplicaIsolation resolver db k u = Ok () \<Longrightarrow>
    row_by pl_id k (t_plans db) = Some p \<Longrightarrow>
    iso_step resolver db (db\<lparr>t_plans := update_where (\<lambda>q. q = p) (merge_plan u) (t_plans db)\<rparr>)"
| iso_plan_delete: "iso_step resolver db (db\<lparr>t_plans := delete_where (\<lambda>q. pl_id q = k) (t_plans db)\<rparr>)"
| iso_storage: "assertStorageUpdateReplicaIsolation resolver db k upd = Ok (Some next) \<Longrightarrow> st_id next = k \<Longrightarrow>
    iso_step resolver db (db\<lparr>t_storages := update_where (\<lambda>s. st_id s = k) (\<lambda>_. next) (t_storages db)\<rparr>)"
| iso_storage_new: "\<forall>p \<in> set (t_plans db). \<forall>ref \<in> set (references p). pc_storageId (snd ref) \<noteq> Some (st_id st) \<Longrightarrow>
    iso_step resolver db (db\<lparr>t_storages := t_storages db @ [st]\<rparr>)"
| iso_other: "map destination_identity (t_destinations db') = map destination_identity (t_destinations db) \<Longrightarrow>
    t_plans db' = t_plans db \<Longrightarrow> t_storages db' = t_storages db \<Longrightarrow>
    t_reservations db' = t_reservations db \<Longrightarrow> t_exportInitialized db' = t_exportInitialized db \<Longrightarrow>
    iso_step resolver db db'"

definition plans_isolated :: "resolver option \<Rightarrow> pdb \<Rightarrow> bool" where
  "plans_isolated resolver db \<longleftrightarrow>
     (\<forall>p \<in> set (t_plans db). \<forall>ref \<in> set (references p). \<forall>s. \<forall>d \<in> set (t_destinations db).
        storedScope resolver db None (snd ref) = Ok (Some s) \<longrightarrow> overlaps s (destination_scope d) \<longrightarrow>
        ds_planId d = pl_id p)"

definition exports_isolated :: "pdb \<Rightarrow> bool" where
  "exports_isolated db \<longleftrightarrow>
     (\<not> t_exportInitialized db \<longrightarrow> t_reservations db = []) \<and>
     (\<forall>r \<in> set (reservations db). \<forall>d \<in> set (t_destinations db). \<not> namespaceScopesOverlap r (destination_scope d))"

definition destinations_isolated :: "pdb \<Rightarrow> bool" where
  "destinations_isolated db \<longleftrightarrow>
     list_all (\<lambda>d. ds_prefix d \<noteq> []) (t_destinations db) \<and>
     distinct (map ds_fingerprint (t_destinations db)) \<and>
     (\<forall>d \<in> set (t_destinations db). \<forall>e \<in> set (t_destinations db).
        ds_fingerprint d \<noteq> ds_fingerprint e \<longrightarrow> \<not> overlaps (destination_scope d) (destination_scope e))"

definition iso_inv :: "resolver option \<Rightarrow> pdb \<Rightarrow> bool" where
  "iso_inv resolver db \<longleftrightarrow> plans_isolated resolver db \<and> exports_isolated db \<and> destinations_isolated db"

lemma storedScope_cong:
  "t_storages db' = t_storages db \<Longrightarrow> storedScope resolver db' ov ref = storedScope resolver db ov ref"
proof -
  assume "t_storages db' = t_storages db"
  then have "storage_for db' ov k = storage_for db ov k" for k by (cases ov) (simp_all add: storage_for_def)
  then show ?thesis by (simp add: storedScope_def)
qed

lemma assertPlanReplicaIsolation_Ok:
  assumes "assertPlanReplicaIsolation resolver db p ov = Ok ()" and "ref \<in> set (references p)"
    and "storedScope resolver db ov (snd ref) = Ok (Some s)" and "d \<in> set (t_destinations db)"
    and "overlaps s (destination_scope d)"
  shows "ds_planId d = pl_id p"
proof -
  from assms(4) have "t_destinations db \<noteq> []" by auto
  with assms have "ownsReplica p ref d"
    by (auto simp: assertPlanReplicaIsolation_def each_result_Ok_iff)
  then show ?thesis by (simp add: ownsReplica_def)
qed

lemma reserveDestination_new:
  assumes "reserveDestination resolver now b db = Ok (row, db')" and "db' \<noteq> db"
  shows "db' = db\<lparr>t_destinations := t_destinations db @ [row]\<rparr>" "destination_scope row = binding_scope b"
    "ds_planId row = db_planId b" "ds_fingerprint row = db_fingerprint b" "ds_prefix row \<noteq> []"
    "getDestination (db_fingerprint b) db = None"
    "assertReplicaNotPlanOwned resolver db (db_planId b) (binding_scope b) = Ok ()"
    "assertExportRepositoryScope db (binding_scope b) = Ok ()"
    "\<not> list_ex (destinations_clash (db_authority b) (db_prefix b)) (t_destinations db)"
  using assms
  by (auto simp: reserveDestination_def bind_result_Inr_iff Let_def destination_scope_def binding_scope_def
      split: option.splits if_splits)

lemma clash_overlaps:
  "ds_prefix d \<noteq> [] \<Longrightarrow> sc_prefix s \<noteq> [] \<Longrightarrow>
   destinations_clash (sc_authority s) (sc_prefix s) d = overlaps (destination_scope d) s"
  by (auto simp: destinations_clash_def overlaps_def destination_scope_def prefix_overlaps_def)

lemma destinations_isolated_insert:
  assumes "destinations_isolated db" and "reserveDestination resolver now b db = Ok (row, db')" and "db' \<noteq> db"
  shows "destinations_isolated db'"
proof -
  note new = reserveDestination_new [OF assms(2,3)]
  have row: "sc_prefix (binding_scope b) \<noteq> []" "ds_prefix row = sc_prefix (binding_scope b)"
    using new(2,5) by (auto simp: destination_scope_def binding_scope_def)
  have "\<not> overlaps (destination_scope d) (binding_scope b)" if "d \<in> set (t_destinations db)" for d
    using that new(9) assms(1) row clash_overlaps [of d "binding_scope b"]
    by (auto simp: destinations_isolated_def list_all_iff list_ex_iff binding_scope_def)
  with assms(1) new(1,2,4,5,6) show ?thesis
    by (auto simp: destinations_isolated_def list_all_iff getDestination_def row_by_None_iff overlaps_sym)
qed

lemma exports_isolated_insert:
  assumes "exports_isolated db" and "reserveDestination resolver now b db = Ok (row, db')" and "db' \<noteq> db"
  shows "exports_isolated db'"
  using assms(1) reserveDestination_new [OF assms(2,3)]
  by (auto simp: exports_isolated_def assertExportRepositoryScope_def list_ex_iff reservations_def)

lemma plans_isolated_insert:
  assumes "plans_isolated resolver db" and "reserveDestination resolver now b db = Ok (row, db')" and "db' \<noteq> db"
  shows "plans_isolated resolver db'"
proof -
  note new = reserveDestination_new [OF assms(2,3)]
  have "db_planId b = pl_id p"
    if "p \<in> set (t_plans db)" "ref \<in> set (references p)" "storedScope resolver db None (snd ref) = Ok (Some s)"
      "overlaps s (binding_scope b)" for p ref s
  proof (rule ccontr)
    assume "db_planId b \<noteq> pl_id p"
    with that(1) have "p \<in> set (filter (\<lambda>p. pl_id p \<noteq> db_planId b) (t_plans db))" by auto
    with new(7) that(2,3) have "\<not> overlaps (binding_scope b) s"
      by (fastforce simp: assertReplicaNotPlanOwned_def each_result_Ok_iff)
    with that(4) show False by (simp add: overlaps_sym)
  qed
  moreover have "storedScope resolver db' None ref = storedScope resolver db None ref" for ref
    by (rule storedScope_cong) (simp add: new(1))
  ultimately show ?thesis
    using assms(1) new(1,2,3) by (auto simp: plans_isolated_def)
qed

lemma storedScope_storage_update:
  assumes "row_by st_id k (t_storages db) = Some old" and "st_id next = k"
  shows "storedScope resolver (db\<lparr>t_storages := update_where (\<lambda>s. st_id s = k) (\<lambda>_. next) (t_storages db)\<rparr>) None ref =
         storedScope resolver db (Some next) ref"
proof -
  have "row_by st_id x (update_where (\<lambda>s. st_id s = k) (\<lambda>_. next) t) =
      (if x = k \<and> row_by st_id k t \<noteq> None then Some next else row_by st_id x t)" for x t
    using assms(2) by (induction t) auto
  then have "storage_for (db\<lparr>t_storages := update_where (\<lambda>s. st_id s = k) (\<lambda>_. next) (t_storages db)\<rparr>) None x =
      storage_for db (Some next) x" for x
    using assms by (simp add: storage_for_def)
  then show ?thesis by (simp add: storedScope_def)
qed

lemma plans_isolatedI:
  assumes "\<And>p ref s d. p \<in> set (t_plans db) \<Longrightarrow> ref \<in> set (references p) \<Longrightarrow> d \<in> set (t_destinations db) \<Longrightarrow>
     storedScope resolver db None (snd ref) = Ok (Some s) \<Longrightarrow> overlaps s (destination_scope d) \<Longrightarrow> ds_planId d = pl_id p"
  shows "plans_isolated resolver db"
  using assms by (auto simp: plans_isolated_def)

lemma plans_isolatedD:
  "plans_isolated resolver db \<Longrightarrow> p \<in> set (t_plans db) \<Longrightarrow> ref \<in> set (references p) \<Longrightarrow>
   d \<in> set (t_destinations db) \<Longrightarrow> storedScope resolver db None (snd ref) = Ok (Some s) \<Longrightarrow>
   overlaps s (destination_scope d) \<Longrightarrow> ds_planId d = pl_id p"
  by (auto simp: plans_isolated_def)

lemma plans_isolated_plan:
  assumes "plans_isolated resolver db" and "assertPlanReplicaIsolation resolver db q None = Ok ()"
    and "set ps \<subseteq> insert q (set (t_plans db))"
  shows "plans_isolated resolver (db\<lparr>t_plans := ps\<rparr>)"
proof (rule plans_isolatedI)
  fix p ref s d
  assume p: "p \<in> set (t_plans (db\<lparr>t_plans := ps\<rparr>))" and ref: "ref \<in> set (references p)"
    and d: "d \<in> set (t_destinations (db\<lparr>t_plans := ps\<rparr>))"
    and s: "storedScope resolver (db\<lparr>t_plans := ps\<rparr>) None (snd ref) = Ok (Some s)"
    and o: "overlaps s (destination_scope d)"
  have s': "storedScope resolver db None (snd ref) = Ok (Some s)"
    using s storedScope_cong [of "db\<lparr>t_plans := ps\<rparr>" db] by simp
  have d': "d \<in> set (t_destinations db)" using d by simp
  from p assms(3) consider "p = q" | "p \<in> set (t_plans db)" by auto
  then show "ds_planId d = pl_id p"
  proof cases
    case 1
    then show ?thesis using assertPlanReplicaIsolation_Ok [OF assms(2) _ s' d' o] ref by simp
  next
    case 2
    then show ?thesis using plans_isolatedD [OF assms(1) _ ref d' s' o] by simp
  qed
qed

lemma plans_isolated_storage:
  assumes "plans_isolated resolver db"
    and "assertStorageUpdateReplicaIsolation resolver db k upd = Ok (Some next)" and "st_id next = k"
  shows "plans_isolated resolver (db\<lparr>t_storages := update_where (\<lambda>s. st_id s = k) (\<lambda>_. next) (t_storages db)\<rparr>)"
    (is "plans_isolated resolver ?db")
proof (rule plans_isolatedI)
  from assms(2) obtain old where old: "row_by st_id k (t_storages db) = Some old"
    and guard: "assertStorageReplicaIsolation resolver db next = Ok ()"
    by (auto simp: assertStorageUpdateReplicaIsolation_def bind_result_Inr_iff split: option.splits)
  fix p ref s d
  assume p: "p \<in> set (t_plans ?db)" and ref: "ref \<in> set (references p)" and d: "d \<in> set (t_destinations ?db)"
    and s: "storedScope resolver ?db None (snd ref) = Ok (Some s)" and o: "overlaps s (destination_scope d)"
  have s': "storedScope resolver db (Some next) (snd ref) = Ok (Some s)"
    using s storedScope_storage_update [OF old assms(3)] by simp
  show "ds_planId d = pl_id p"
  proof (cases "pc_storageId (snd ref) = Some k")
    case True
    then have "assertPlanReplicaIsolation resolver db p (Some next) = Ok ()"
      using guard p ref assms(3)
      by (auto simp: assertStorageReplicaIsolation_def each_result_Ok_iff list_ex_iff split: if_splits)
    then show ?thesis using assertPlanReplicaIsolation_Ok [OF _ ref s' _ o] d by simp
  next
    case False
    then have "storedScope resolver db None (snd ref) = Ok (Some s)"
      using s' assms(3) by (auto simp: storedScope_def storage_for_def split: if_splits)
    then show ?thesis using plans_isolatedD [OF assms(1) _ ref _ _ o] p d by simp
  qed
qed

lemma plans_isolated_new_storage:
  assumes "plans_isolated resolver db"
    and "\<forall>p \<in> set (t_plans db). \<forall>ref \<in> set (references p). pc_storageId (snd ref) \<noteq> Some (st_id st)"
  shows "plans_isolated resolver (db\<lparr>t_storages := t_storages db @ [st]\<rparr>)" (is "plans_isolated resolver ?db")
proof (rule plans_isolatedI)
  fix p ref s d
  assume p: "p \<in> set (t_plans ?db)" and ref: "ref \<in> set (references p)" and d: "d \<in> set (t_destinations ?db)"
    and s: "storedScope resolver ?db None (snd ref) = Ok (Some s)" and o: "overlaps s (destination_scope d)"
  have "storage_for ?db None (the (pc_storageId (snd ref))) = storage_for db None (the (pc_storageId (snd ref)))"
    if "\<not> no_text (pc_storageId (snd ref))"
    using that assms(2) p ref by (auto simp: storage_for_def row_by_append split: option.split)
  then have "storedScope resolver db None (snd ref) = Ok (Some s)"
    using s by (auto simp: storedScope_def split: if_splits)
  then show "ds_planId d = pl_id p" using plans_isolatedD [OF assms(1) _ ref _ _ o] p d by simp
qed

lemma identities_in:
  assumes "map destination_identity ds' = map destination_identity ds" and "d \<in> set ds'"
  shows "\<exists>e \<in> set ds. destination_identity e = destination_identity d"
proof -
  from assms(2) obtain i where i: "i < length ds'" "d = ds' ! i" by (auto simp: in_set_conv_nth)
  moreover have "length ds = length ds'" using assms(1) by (metis length_map)
  ultimately show ?thesis
    using assms(1) by (metis nth_map nth_mem)
qed

lemma iso_inv_other:
  assumes inv: "iso_inv resolver db"
    and ids: "map destination_identity (t_destinations db') = map destination_identity (t_destinations db)"
    and same: "t_plans db' = t_plans db" "t_storages db' = t_storages db"
      "t_reservations db' = t_reservations db" "t_exportInitialized db' = t_exportInitialized db"
  shows "iso_inv resolver db'"
proof -
  have src: "\<exists>e \<in> set (t_destinations db). ds_planId e = ds_planId d \<and> ds_fingerprint e = ds_fingerprint d \<and>
      destination_scope e = destination_scope d" if "d \<in> set (t_destinations db')" for d
    using identities_in [OF ids that] by (auto simp: destination_identity_def)
  have "map ds_fingerprint (t_destinations db') = map ds_fingerprint (t_destinations db)"
    using arg_cong [OF ids, of "map fst"] by (simp add: destination_identity_def comp_def)
  moreover have "ds_prefix d \<noteq> []" if "d \<in> set (t_destinations db')" for d
    using src [OF that] inv
    by (auto simp: iso_inv_def destinations_isolated_def list_all_iff destination_scope_def)
  moreover have "\<not> overlaps (destination_scope d) (destination_scope e)"
    if "d \<in> set (t_destinations db')" "e \<in> set (t_destinations db')" "ds_fingerprint d \<noteq> ds_fingerprint e" for d e
    using src [OF that(1)] src [OF that(2)] that(3) inv
    by (metis destinations_isolated_def iso_inv_def)
  ultimately have "destinations_isolated db'"
    using inv by (simp add: iso_inv_def destinations_isolated_def list_all_iff)
  moreover have "exports_isolated db'"
    using inv src same by (fastforce simp: iso_inv_def exports_isolated_def reservations_def)
  moreover have "plans_isolated resolver db'"
  proof (rule plans_isolatedI)
    fix p ref s d
    assume h: "p \<in> set (t_plans db')" "ref \<in> set (references p)" "d \<in> set (t_destinations db')"
      "storedScope resolver db' None (snd ref) = Ok (Some s)" "overlaps s (destination_scope d)"
    obtain e where e: "e \<in> set (t_destinations db)" "ds_planId e = ds_planId d"
      "destination_scope e = destination_scope d" using src [OF h(3)] by auto
    have "storedScope resolver db None (snd ref) = Ok (Some s)"
      using h(4) storedScope_cong [OF same(2)] by simp
    then show "ds_planId d = pl_id p"
      using plans_isolatedD [of resolver db p ref e s] inv h same(1) e by (simp add: iso_inv_def)
  qed
  ultimately show ?thesis by (simp add: iso_inv_def)
qed

lemma iso_inv_export:
  assumes inv: "iso_inv resolver db" and "reserveExportNamespace sec config db = Ok db'"
  shows "iso_inv resolver db'"
proof -
  have "reserve_body sec config db = Ok db'"
    using assms(2) by (simp add: reserveExportNamespace_def split: sum.splits)
  then obtain sc selected where run: "run_checks sec db selected [] (reserve_checks db) = Ok ()"
    and init: "t_exportInitialized db" and db': "db' = db \<and> selected \<in> set (t_reservations db) \<or>
      db' = db\<lparr>t_reservations := t_reservations db @ [selected]\<rparr> \<and> length (t_reservations db) < 8"
    by (rule reserve_bodyD)
  have checked: "\<not> namespaceScopesOverlap selected (destination_scope d)" if "d \<in> set (t_destinations db)" for d
    using run reserve_checks_places(4) [OF that]
    by (auto simp: run_checks_uncached cache_ok_def each_result_Ok_iff)
  have "plans_isolated resolver (db\<lparr>t_reservations := rs\<rparr>) = plans_isolated resolver db" for rs
    using storedScope_cong [of "db\<lparr>t_reservations := rs\<rparr>" db] by (simp add: plans_isolated_def)
  with inv db' init checked show ?thesis
    by (auto simp: iso_inv_def exports_isolated_def destinations_isolated_def reservations_def)
qed

lemma iso_inv_plans:
  "iso_inv resolver db \<Longrightarrow> plans_isolated resolver (db\<lparr>t_plans := ps\<rparr>) \<Longrightarrow> iso_inv resolver (db\<lparr>t_plans := ps\<rparr>)"
  "iso_inv resolver db \<Longrightarrow> plans_isolated resolver (db\<lparr>t_storages := sts\<rparr>) \<Longrightarrow> iso_inv resolver (db\<lparr>t_storages := sts\<rparr>)"
  by (auto simp: iso_inv_def exports_isolated_def destinations_isolated_def reservations_def)

lemma iso_inv_step:
  assumes inv: "iso_inv resolver db" and "iso_step resolver db db'"
  shows "iso_inv resolver db'"
  using assms(2)
proof cases
  case (iso_destination now b d)
  then show ?thesis
    using inv destinations_isolated_insert exports_isolated_insert plans_isolated_insert
    by (cases "db' = db") (auto simp: iso_inv_def)
next
  case (iso_export sec config)
  with iso_inv_export [OF inv] show ?thesis by simp
next
  case iso_init
  have "iso_inv resolver (db\<lparr>t_exportInitialized := True\<rparr>)"
    using inv storedScope_cong [of "db\<lparr>t_exportInitialized := True\<rparr>" db]
    by (auto simp: iso_inv_def exports_isolated_def destinations_isolated_def plans_isolated_def reservations_def
        split: if_splits)
  then show ?thesis using iso_init by (simp add: initializeExportNamespaceReservations_def)
next
  case (iso_plan_insert p)
  have "plans_isolated resolver db" using inv by (simp add: iso_inv_def)
  from plans_isolated_plan [OF this iso_plan_insert(2), of "t_plans db @ [p]"] show ?thesis
    using inv iso_plan_insert(1) iso_inv_plans(1) by auto
next
  case (iso_plan_update k u p)
  then have guard: "assertPlanReplicaIsolation resolver db (merge_plan u p) None = Ok ()"
    by (simp add: assertPlanUpdateReplicaIsolation_def)
  have "plans_isolated resolver db" using inv by (simp add: iso_inv_def)
  then have "plans_isolated resolver (db\<lparr>t_plans := update_where (\<lambda>q. q = p) (merge_plan u) (t_plans db)\<rparr>)"
    by (rule plans_isolated_plan [OF _ guard]) (auto simp: set_update_where)
  then show ?thesis using inv iso_plan_update(1) iso_inv_plans(1) by auto
next
  case (iso_plan_delete k)
  have "plans_isolated resolver (db\<lparr>t_plans := delete_where (\<lambda>q. pl_id q = k) (t_plans db)\<rparr>)"
    using inv storedScope_cong [of "db\<lparr>t_plans := delete_where (\<lambda>q. pl_id q = k) (t_plans db)\<rparr>" db]
    by (auto simp: iso_inv_def plans_isolated_def)
  then show ?thesis using inv iso_plan_delete iso_inv_plans(1) by blast
next
  case (iso_storage k upd "next")
  have "plans_isolated resolver db" using inv by (simp add: iso_inv_def)
  from plans_isolated_storage [OF this iso_storage(2,3)] show ?thesis
    using inv iso_storage(1) iso_inv_plans(2) by blast
next
  case (iso_storage_new st)
  have "plans_isolated resolver db" using inv by (simp add: iso_inv_def)
  from plans_isolated_new_storage [OF this iso_storage_new(2)] show ?thesis
    using inv iso_storage_new(1) iso_inv_plans(2) by blast
next
  case iso_other
  with iso_inv_other [OF inv] show ?thesis by blast
qed

definition iso_start :: "pdb \<Rightarrow> bool" where
  "iso_start db \<longleftrightarrow> t_destinations db = [] \<and> t_reservations db = []"

interpretation isolation: invariant_system iso_start "iso_step resolver" "iso_inv resolver" for resolver
proof
  show "iso_start db \<Longrightarrow> iso_inv resolver db" for db
    by (simp add: iso_start_def iso_inv_def plans_isolated_def exports_isolated_def destinations_isolated_def
        reservations_def)
qed (rule iso_inv_step)



end
