(* ===== verification/Json_Schema.thy ===== *)
theory Json_Schema
  imports Pluton_Prelude
begin

text \<open>
  The parts of the \<open>zod\<close> schemas the components share, as parsers over JSON values: a parser gives
  the parsed value, or \<open>None\<close> where the schema refuses the input.
\<close>

section \<open>Objects and arrays\<close>

text \<open>A strict object has no other keys; an optional key may be absent.\<close>

definition strict_keys :: "string list \<Rightarrow> (string \<times> json) list \<Rightarrow> bool" where
  "strict_keys allowed fs \<longleftrightarrow> list_all (\<lambda>(k, v). k \<in> set allowed) fs"

definition optional_field ::
  "(json \<Rightarrow> 'a option) \<Rightarrow> string \<Rightarrow> (string \<times> json) list \<Rightarrow> 'a option option" where
  "optional_field p k fs = (case map_of fs k of None \<Rightarrow> Some None | Some j \<Rightarrow> map_option Some (p j))"

definition required_field ::
  "(json \<Rightarrow> 'a option) \<Rightarrow> string \<Rightarrow> (string \<times> json) list \<Rightarrow> 'a option" where
  "required_field p k fs = (case map_of fs k of None \<Rightarrow> None | Some j \<Rightarrow> p j)"

text \<open>An array is parsed when each of its elements is.\<close>

fun all_some :: "'a option list \<Rightarrow> 'a list option" where
  "all_some [] = Some []"
| "all_some (None # xs) = None"
| "all_some (Some x # xs) = map_option (\<lambda>ys. x # ys) (all_some xs)"

fun parse_array :: "(json \<Rightarrow> 'a option) \<Rightarrow> json \<Rightarrow> 'a list option" where
  "parse_array p (JArr xs) = all_some (map p xs)"
| "parse_array p _ = None"

text \<open>\<open>schema.refine(p)\<close>\<close>

definition refine :: "('a \<Rightarrow> bool) \<Rightarrow> (json \<Rightarrow> 'a option) \<Rightarrow> json \<Rightarrow> 'a option" where
  "refine p f j = (case f j of None \<Rightarrow> None | Some x \<Rightarrow> if p x then Some x else None)"

lemma refine_Some: "refine p f j = Some x \<longleftrightarrow> f j = Some x \<and> p x"
  by (auto simp: refine_def split: option.splits if_splits)

section \<open>Scalars\<close>

definition MAX_SAFE_INTEGER :: int where
  "MAX_SAFE_INTEGER = 9007199254740991"

fun parse_bool :: "json \<Rightarrow> bool option" where
  "parse_bool (JBool b) = Some b"
| "parse_bool _ = None"

fun parse_int :: "json \<Rightarrow> int option" where
  "parse_int (JInt i) = Some i"
| "parse_int _ = None"

fun parse_str :: "json \<Rightarrow> string option" where
  "parse_str (JStr s) = Some s"
| "parse_str _ = None"

text \<open>A string that satisfies a test, an integer between bounds.\<close>

definition parse_str_if :: "(string \<Rightarrow> bool) \<Rightarrow> json \<Rightarrow> string option" where
  "parse_str_if p j = (case parse_str j of Some s \<Rightarrow> if p s then Some s else None | None \<Rightarrow> None)"

definition parse_int_in :: "int \<Rightarrow> int \<Rightarrow> json \<Rightarrow> int option" where
  "parse_int_in lo hi j = (case parse_int j of Some i \<Rightarrow> if lo \<le> i \<and> i \<le> hi then Some i else None | None \<Rightarrow> None)"

text \<open>\<open>[A-Za-z0-9_-]\<close> and \<open>/^[A-Za-z0-9_-]{1,n}$/\<close>.\<close>

definition is_ident_char :: "char \<Rightarrow> bool" where
  "is_ident_char c \<longleftrightarrow> is_alnum c \<or> c = CHR ''_'' \<or> c = CHR ''-''"

definition ident_ok :: "nat \<Rightarrow> string \<Rightarrow> bool" where
  "ident_ok n s \<longleftrightarrow> 1 \<le> length s \<and> length s \<le> n \<and> list_all is_ident_char s"

end
