(* ===== verification/Recovery_Store.thy ===== *)
theory Recovery_Store
  imports Pluton_Database Json_Schema "HOL-Library.AList"
begin

text \<open>
  Recovery tests: the input schemas of \<open>backend/src/utils/recoveryTestPolicy.ts\<close> over JSON values and
  every method of \<open>backend/src/stores/RecoveryTestStore.ts\<close>.  The clock is in milliseconds; columns
  in timestamp mode keep seconds.  The cipher is an argument: \<open>encrypt\<close>, and \<open>decrypt\<close> that is
  \<open>None\<close> where it throws.  Random ids are arguments.  The unique indexes of the tables raise
  \<open>SqlError\<close>; foreign keys are left out (a violation makes the call fail).
\<close>

section \<open>Input schemas\<close>

fun parse_engine :: "json \<Rightarrow> engine option" where
  "parse_engine (JStr s) =
     (if s = ''mariadb'' then Some Mariadb else if s = ''mysql'' then Some Mysql
      else if s = ''postgresql'' then Some Postgresql else None)"
| "parse_engine _ = None"

fun parse_mode :: "json \<Rightarrow> target_mode option" where
  "parse_mode (JStr s) =
     (if s = ''internal'' then Some ModeInternal else if s = ''custom'' then Some ModeCustom else None)"
| "parse_mode _ = None"

fun parse_import :: "json \<Rightarrow> import_mode option" where
  "parse_import (JStr s) =
     (if s = ''disabled'' then Some ImportDisabled else if s = ''required'' then Some ImportRequired else None)"
| "parse_import _ = None"

fun parse_tls :: "json \<Rightarrow> tls_mode option" where
  "parse_tls (JStr s) =
     (if s = ''local'' then Some TlsLocal else if s = ''verify-identity'' then Some TlsVerifyIdentity else None)"
| "parse_tls _ = None"

definition mode_entry :: "engine \<Rightarrow> target_mode option \<Rightarrow> (engine \<times> target_mode) list" where
  "mode_entry e m = (case m of None \<Rightarrow> [] | Some v \<Rightarrow> [(e, v)])"

fun parse_target_modes :: "json \<Rightarrow> (engine \<times> target_mode) list option" where
  "parse_target_modes (JObj fs) =
     (if \<not> strict_keys [''mariadb'', ''postgresql'', ''mysql''] fs then None
      else case (optional_field parse_mode ''mariadb'' fs, optional_field parse_mode ''postgresql'' fs,
                 optional_field parse_mode ''mysql'' fs) of
             (Some a, Some b, Some c) \<Rightarrow>
               Some (mode_entry Mariadb a @ mode_entry Postgresql b @ mode_entry Mysql c)
           | _ \<Rightarrow> None)"
| "parse_target_modes _ = None"

definition invalid_input :: app_error where
  "invalid_input = AppError 400 ''Invalid recovery testing configuration.''"

fun recovery_policy_schema :: "json \<Rightarrow> recovery_policy option" where
  "recovery_policy_schema (JObj fs) =
     (if \<not> strict_keys [''enabled'', ''databaseImport'', ''targetModes''] fs then None
      else case (required_field parse_bool ''enabled'' fs, required_field parse_import ''databaseImport'' fs,
                 optional_field parse_target_modes ''targetModes'' fs) of
             (Some e, Some i, Some m) \<Rightarrow>
               Some \<lparr>rpo_enabled = e, rpo_databaseImport = i, rpo_enabledAt = None,
                     rpo_targetModes = m, rpo_snapshotMetadataToken = None\<rparr>
           | _ \<Rightarrow> None)"
| "recovery_policy_schema _ = None"

text \<open>
  \<open>/^(?:[A-Za-z0-9][A-Za-z0-9.:-]*|::1)$/\<close>, \<open>/^[A-Za-z_][A-Za-z0-9_]{0,62}$/\<close> and the password
  without line breaks or NUL.
\<close>

definition host_ok :: "string \<Rightarrow> bool" where
  "host_ok h \<longleftrightarrow>
     1 \<le> length h \<and> length h \<le> 253 \<and>
     (h = ''::1'' \<or>
      (is_alnum (hd h) \<and>
       list_all (\<lambda>c. is_alnum c \<or> c = CHR ''.'' \<or> c = CHR '':'' \<or> c = CHR ''-'') (tl h)))"

definition username_ok :: "string \<Rightarrow> bool" where
  "username_ok u \<longleftrightarrow>
     u \<noteq> [] \<and> (is_lower (hd u) \<or> is_upper (hd u) \<or> hd u = CHR ''_'') \<and> length (tl u) \<le> 62 \<and>
     list_all (\<lambda>c. is_alnum c \<or> c = CHR ''_'') (tl u)"

definition password_ok :: "string \<Rightarrow> bool" where
  "password_ok p \<longleftrightarrow>
     length p \<le> 4096 \<and> list_all (\<lambda>c. (of_char c :: nat) \<notin> {13, 10, 0}) p"

definition target_config_ok :: "target_config \<Rightarrow> bool" where
  "target_config_ok c \<longleftrightarrow>
     host_ok (tc_host c) \<and> 1 \<le> tc_port c \<and> tc_port c \<le> 65535 \<and> username_ok (tc_username c) \<and>
     (tc_tls c = TlsLocal \<longrightarrow> tc_host c \<in> {''localhost'', ''127.0.0.1'', ''::1''})"

fun recovery_target_schema :: "json \<Rightarrow> (target_config \<times> string option) option" where
  "recovery_target_schema (JObj fs) =
     (if \<not> strict_keys [''engine'', ''host'', ''port'', ''username'', ''tls'', ''enabled'', ''dedicated'',
           ''password''] fs then None
      else case (required_field parse_engine ''engine'' fs, required_field parse_str ''host'' fs,
                 required_field parse_int ''port'' fs, required_field parse_str ''username'' fs,
                 required_field parse_tls ''tls'' fs, required_field parse_bool ''enabled'' fs,
                 required_field parse_bool ''dedicated'' fs, optional_field parse_str ''password'' fs) of
             (Some e, Some h, Some p, Some u, Some t, Some en, Some True, Some pw) \<Rightarrow>
               let c = \<lparr>tc_engine = e, tc_host = h, tc_port = p, tc_username = u, tc_tls = t, tc_enabled = en\<rparr>
               in if target_config_ok c \<and> (case pw of None \<Rightarrow> True | Some s \<Rightarrow> password_ok s)
                  then Some (c, pw) else None
           | _ \<Rightarrow> None)"
| "recovery_target_schema _ = None"

definition parseRecoveryInput :: "(json \<Rightarrow> 'a option) \<Rightarrow> json \<Rightarrow> 'a result" where
  "parseRecoveryInput schema input = (case schema input of None \<Rightarrow> Throw invalid_input | Some v \<Rightarrow> Ok v)"

definition defaultRecoveryPolicy :: recovery_policy where
  "defaultRecoveryPolicy =
     \<lparr>rpo_enabled = False, rpo_databaseImport = ImportDisabled, rpo_enabledAt = None,
      rpo_targetModes = None, rpo_snapshotMetadataToken = None\<rparr>"

section \<open>Reading\<close>

definition rt_get :: "string \<Rightarrow> pdb \<Rightarrow> recovery_test option" where
  "rt_get k db = row_by rt_id k (t_recoveryTests db)"

text \<open>\<open>ORDER BY created_at DESC, rowid DESC\<close>\<close>

definition newest_first :: "recovery_test list \<Rightarrow> recovery_test list" where
  "newest_first ts = order_by (\<lambda>t. - rt_createdAt t) (rev ts)"

definition latestForSnapshot ::
  "string \<Rightarrow> string \<Rightarrow> string \<Rightarrow> pdb \<Rightarrow> (string \<times> recovery_status \<times> int) option" where
  "latestForSnapshot planId backupId snapshotId db =
     (case newest_first (filter (\<lambda>t. rt_planId t = planId \<and> rt_backupId t = backupId \<and>
                                     rt_snapshotId t = snapshotId) (t_recoveryTests db)) of
        [] \<Rightarrow> None | t # _ \<Rightarrow> Some (rt_id t, rt_status t, rt_createdAt t))"

record activity =
  ac_backup :: bool
  ac_restore :: bool
  ac_recovery :: bool

definition rt_activity :: "pdb \<Rightarrow> activity" where
  "rt_activity db =
     \<lparr>ac_backup = list_ex (\<lambda>b. bk_inProgress b = Some True) (t_backups db),
      ac_restore = list_ex (\<lambda>b. b) (t_restoresInProgress db),
      ac_recovery = list_ex (\<lambda>t. rt_status t = RRunning) (t_recoveryTests db)\<rparr>"

text \<open>
  \<open>list\<close>: the 200 newest tests of a plan and, when backups are named, also the latest test of each
  of them.  \<open>newer_test\<close> compares by creation time and then by row order.
\<close>

definition newer_test :: "nat \<times> recovery_test \<Rightarrow> nat \<times> recovery_test \<Rightarrow> bool" where
  "newer_test n t \<longleftrightarrow>
     rt_planId (snd n) = rt_planId (snd t) \<and> rt_backupId (snd n) = rt_backupId (snd t) \<and>
     (rt_createdAt (snd t) < rt_createdAt (snd n) \<or>
      (rt_createdAt (snd n) = rt_createdAt (snd t) \<and> fst t < fst n))"

definition rt_list :: "string \<Rightarrow> string list \<Rightarrow> pdb \<Rightarrow> recovery_test list" where
  "rt_list planId backupIds db =
     (let tests = t_recoveryTests db;
          recent = take 200 (newest_first (filter (\<lambda>t. rt_planId t = planId) tests));
          rows = zip [0..<length tests] tests
      in if backupIds = [] then recent
         else newest_first (map snd (filter (\<lambda>r.
                rt_planId (snd r) = planId \<and>
                (rt_id (snd r) \<in> set (map rt_id recent) \<or>
                 (rt_backupId (snd r) \<in> set backupIds \<and> \<not> list_ex (\<lambda>n. newer_test n r) rows)))
                rows)))"

section \<open>Policies and targets\<close>

definition stored_policy :: "string \<Rightarrow> pdb \<Rightarrow> recovery_policy option" where
  "stored_policy planId db = map_of (t_recoveryPolicies db) planId"

definition rt_policy_of :: "string \<Rightarrow> pdb \<Rightarrow> recovery_policy" where
  "rt_policy_of planId db =
     (case stored_policy planId db of None \<Rightarrow> defaultRecoveryPolicy | Some p \<Rightarrow> p)"

definition uses_internal :: "recovery_policy \<Rightarrow> bool" where
  "uses_internal p \<longleftrightarrow>
     (case rpo_targetModes p of None \<Rightarrow> False | Some ms \<Rightarrow> list_ex (\<lambda>(e, m). m = ModeInternal) ms)"

definition merged_policy :: "int \<Rightarrow> recovery_policy \<Rightarrow> recovery_policy option \<Rightarrow> recovery_policy" where
  "merged_policy now p previous =
     p\<lparr>rpo_targetModes := (case rpo_targetModes p of Some m \<Rightarrow> Some m
          | None \<Rightarrow> (case previous of None \<Rightarrow> None | Some q \<Rightarrow> rpo_targetModes q)),
       rpo_enabledAt :=
         (if \<not> rpo_enabled p then None
          else case previous of
                 Some q \<Rightarrow> if rpo_enabled q then rpo_enabledAt q else Some (now div 1000 * 1000)
               | None \<Rightarrow> Some (now div 1000 * 1000))\<rparr>"

definition savePolicy :: "int \<Rightarrow> string \<Rightarrow> json \<Rightarrow> pdb \<Rightarrow> (recovery_policy \<times> pdb) result" where
  "savePolicy now planId input db =
     bind_result (parseRecoveryInput recovery_policy_schema input) (\<lambda>policy.
       if \<not> plan_exists planId db then Throw (AppError 404 ''Plan not found.'')
       else
         let saved = merged_policy now policy (stored_policy planId db)
         in if rpo_enabled saved \<and> uses_internal saved
            then Throw (AppError 400 ''Internal targets require manual operator activation and cleanup. Disable after-backup automation before selecting Internal.'')
            else Ok (saved, db\<lparr>t_recoveryPolicies := AList.update planId saved (t_recoveryPolicies db)\<rparr>))"

definition target_of :: "string \<Rightarrow> engine \<Rightarrow> pdb \<Rightarrow> target_row option" where
  "target_of planId e db =
     row_by (\<lambda>t. (tg_planId t, tc_engine (tg_config t))) (planId, e) (t_recoveryTargets db)"

definition rt_targets :: "string \<Rightarrow> pdb \<Rightarrow> (target_config \<times> bool) list" where
  "rt_targets planId db =
     map (\<lambda>t. (tg_config t, tg_encryptedPassword t \<noteq> []))
       (filter (\<lambda>t. tg_planId t = planId) (t_recoveryTargets db))"

definition active_for_plan :: "string \<Rightarrow> pdb \<Rightarrow> recovery_test option" where
  "active_for_plan planId db =
     find (\<lambda>t. rt_planId t = planId \<and> recovery_active (rt_status t)) (t_recoveryTests db)"

definition saveTarget ::
  "(string \<Rightarrow> string) \<Rightarrow> string \<Rightarrow> string \<Rightarrow> json \<Rightarrow> pdb \<Rightarrow> pdb result" where
  "saveTarget encrypt freshId planId input db =
     bind_result (parseRecoveryInput recovery_target_schema input) (\<lambda>(config, password).
       let previous = target_of planId (tc_engine config) db;
           encrypted = (case password of
                          Some p \<Rightarrow> if p \<noteq> [] then encrypt p
                                    else (case previous of None \<Rightarrow> [] | Some t \<Rightarrow> tg_encryptedPassword t)
                        | None \<Rightarrow> (case previous of None \<Rightarrow> [] | Some t \<Rightarrow> tg_encryptedPassword t))
       in if active_for_plan planId db \<noteq> None
          then Throw (AppError 409 ''Wait for the recovery test to finish before changing its target.'')
          else if (case previous of None \<Rightarrow> False
                   | Some t \<Rightarrow> list_ex (\<lambda>l. il_targetId l = tg_id t) (t_recoveryLeases db))
          then Throw (AppError 409 ''Resolve the outstanding recovery database cleanup before changing this target.'')
          else if \<not> plan_exists planId db then Throw (AppError 404 ''Plan not found.'')
          else if encrypted = []
          then Throw (AppError 400 ''A separate recovery target password is required.'')
          else
            (case previous of
               Some t \<Rightarrow>
                 Ok (db\<lparr>t_recoveryTargets :=
                   update_where (\<lambda>r. tg_planId r = planId \<and> tc_engine (tg_config r) = tc_engine config)
                     (\<lambda>r. r\<lparr>tg_config := config, tg_encryptedPassword := encrypted\<rparr>)
                     (t_recoveryTargets db)\<rparr>)
             | None \<Rightarrow>
                 if list_ex (\<lambda>r. tg_id r = freshId) (t_recoveryTargets db) then Throw SqlError
                 else Ok (db\<lparr>t_recoveryTargets := t_recoveryTargets db @
                   [\<lparr>tg_id = freshId, tg_planId = planId, tg_config = config,
                     tg_encryptedPassword = encrypted\<rparr>]\<rparr>)))"

text \<open>A target with its decrypted password.\<close>

definition materialize ::
  "(string \<Rightarrow> string option) \<Rightarrow> target_config \<Rightarrow> string \<Rightarrow> (target_config \<times> string) result" where
  "materialize decrypt config encrypted =
     (case decrypt encrypted of
        None \<Rightarrow> Throw (AppError 409 ''Recovery target credentials are unavailable.'')
      | Some p \<Rightarrow>
          if target_config_ok config \<and> password_ok p \<and> p \<noteq> [] then Ok (config, p)
          else Throw (AppError 409 ''Recovery target credentials are unavailable.''))"

definition rt_target ::
  "(string \<Rightarrow> string option) \<Rightarrow> string \<Rightarrow> engine \<Rightarrow> pdb \<Rightarrow> (target_config \<times> string \<times> string) option result" where
  "rt_target decrypt planId e db =
     (case target_of planId e db of
        None \<Rightarrow> Ok None
      | Some t \<Rightarrow>
          if \<not> tc_enabled (tg_config t) then Ok None
          else bind_result (materialize decrypt (tg_config t) (tg_encryptedPassword t))
                 (\<lambda>(c, p). Ok (Some (c, p, tg_id t))))"

definition internalSession :: "string \<Rightarrow> pdb \<Rightarrow> internal_session option" where
  "internalSession k db = row_by is_id k (t_internalSessions db)"

definition pendingInternalSessions :: "pdb \<Rightarrow> internal_session list" where
  "pendingInternalSessions db = filter (\<lambda>s. is_releasedAt s = None) (t_internalSessions db)"

definition leaseTarget ::
  "(string \<Rightarrow> string option) \<Rightarrow> string \<Rightarrow> pdb \<Rightarrow> (target_config \<times> string) option result" where
  "leaseTarget decrypt targetId db =
     (if starts_with ''irt_'' targetId
      then (case internalSession targetId db of
              None \<Rightarrow> Ok None
            | Some s \<Rightarrow>
                if is_releasedAt s \<noteq> None then Ok None
                else bind_result (materialize decrypt (is_config s) (is_encryptedPassword s)) (\<lambda>t. Ok (Some t)))
      else (case row_by tg_id targetId (t_recoveryTargets db) of
              None \<Rightarrow> Ok None
            | Some t \<Rightarrow>
                bind_result (materialize decrypt (tg_config t) (tg_encryptedPassword t)) (\<lambda>t. Ok (Some t))))"

definition assertPlanRemovable :: "string \<Rightarrow> pdb \<Rightarrow> unit result" where
  "assertPlanRemovable planId db =
     (let own = (\<lambda>k. list_ex (\<lambda>t. rt_id t = k \<and> rt_planId t = planId) (t_recoveryTests db))
      in if list_ex (\<lambda>s. own (is_testId s) \<and> is_releasedAt s = None) (t_internalSessions db)
         then Throw (AppError 409 ''Resolve internal recovery infrastructure cleanup before removing this plan.'')
         else refuse_if (active_for_plan planId db \<noteq> None \<or>
                list_ex (\<lambda>l. own (il_testId l)) (t_recoveryLeases db))
              (AppError 409 ''Finish recovery testing and its cleanup before removing this plan.''))"

section \<open>The queue of tests\<close>

text \<open>
  A partial row, as \<open>update\<close> takes it.  No caller makes a test active again, so that the unique index
  on the active test of a plan is not concerned.
\<close>

record test_changes =
  tch_status :: "recovery_status option"
  tch_completedAt :: "int option option"
  tch_result :: "recovery_result option option"
  tch_stage :: "string option option"
  tch_failureStage :: "string option option"
  tch_failureCode :: "string option option"
  tch_warnings :: "(string \<times> string) list option"

definition keep :: "'a option \<Rightarrow> 'a \<Rightarrow> 'a" where
  "keep u old = (case u of None \<Rightarrow> old | Some v \<Rightarrow> v)"

definition apply_changes :: "test_changes \<Rightarrow> recovery_test \<Rightarrow> recovery_test" where
  "apply_changes c t =
     t\<lparr>rt_status := keep (tch_status c) (rt_status t),
       rt_completedAt := keep (tch_completedAt c) (rt_completedAt t),
       rt_result := keep (tch_result c) (rt_result t),
       rt_stage := keep (tch_stage c) (rt_stage t),
       rt_failureStage := keep (tch_failureStage c) (rt_failureStage t),
       rt_failureCode := keep (tch_failureCode c) (rt_failureCode t),
       rt_warnings := keep (tch_warnings c) (rt_warnings t)\<rparr>"

definition rt_update :: "string \<Rightarrow> test_changes \<Rightarrow> pdb \<Rightarrow> recovery_test option \<times> pdb" where
  "rt_update k changes db =
     (let db' = update_recovery_tests (\<lambda>t. rt_id t = k) (apply_changes changes) db
      in (rt_get k db', db'))"

definition cancel_row :: "int \<Rightarrow> recovery_test \<Rightarrow> recovery_test" where
  "cancel_row now t =
     (if rt_status t = RQueued
      then t\<lparr>rt_cancelRequested := True, rt_status := RCancelled, rt_completedAt := Some (now div 1000),
             rt_failureStage := Some ''job'', rt_failureCode := Some ''cancelled''\<rparr>
      else t\<lparr>rt_cancelRequested := True\<rparr>)"

definition requestCancellation :: "int \<Rightarrow> string \<Rightarrow> pdb \<Rightarrow> recovery_test option \<times> pdb" where
  "requestCancellation now k db =
     (case rt_get k db of
        None \<Rightarrow> (None, db)
      | Some row \<Rightarrow>
          if recovery_terminal (rt_status row) then (Some row, db)
          else
            let db' = update_recovery_tests (\<lambda>t. rt_id t = k) (cancel_row now) db
            in (rt_get k db', db'))"

definition cleanupCandidates :: "pdb \<Rightarrow> recovery_test list" where
  "cleanupCandidates db =
     filter (\<lambda>t. recovery_terminal (rt_status t) \<and>
       list_ex (\<lambda>(st, code). code = ''workspace-cleanup-failed'' \<or> code = ''unsafe-workspace'') (rt_warnings t))
       (t_recoveryTests db)"

text \<open>The binding of a new test to a completed managed backup.\<close>

definition binding_available :: "recovery_test \<Rightarrow> pdb \<Rightarrow> bool" where
  "binding_available row db \<longleftrightarrow>
     (case (row_by bk_id (rt_backupId row) (t_backups db), row_by pl_id (rt_planId row) (t_plans db),
            row_by rp_id (rt_repositoryId row) (t_repositories db)) of
        (Some b, Some p, Some r) \<Rightarrow>
          bk_planId b = Some (rt_planId row) \<and> rp_planId r = rt_planId row \<and>
          bk_snapshot b = Some (rt_snapshotId row) \<and> hex_string 64 (rt_snapshotId row) \<and>
          bk_status b = Some ''completed'' \<and> bk_inProgress b \<noteq> Some True \<and> bk_success b \<noteq> Some False \<and>
          bk_method b = ''backup'' \<and> bk_sourceType b = ''device'' \<and> bk_sourceId b \<noteq> ''main'' \<and>
          bk_storageId b = Some (rp_storageId r) \<and> bk_storagePath b = Some (rp_storagePath r) \<and>
          pl_storageId p = Some (rp_storageId r) \<and> pl_storagePath p = Some (rp_storagePath r) \<and>
          rp_initializedAt r \<noteq> None
      | _ \<Rightarrow> False)"

definition rt_enqueue :: "recovery_test \<Rightarrow> pdb \<Rightarrow> (recovery_test \<times> pdb) result" where
  "rt_enqueue row db =
     (if \<not> binding_available row db then Throw (AppError 409 ''Recovery snapshot binding is unavailable.'')
      else
        let prior = (case rt_automationKey row of
                       None \<Rightarrow> None
                     | Some k \<Rightarrow> if k = [] then None
                                 else row_by rt_automationKey (Some k) (t_recoveryTests db))
        in case prior of
             Some t \<Rightarrow> Ok (t, db)
           | None \<Rightarrow>
               (case active_for_plan (rt_planId row) db of
                  Some current \<Rightarrow>
                    if (case rpo_snapshotMetadataToken (rt_policy row) of None \<Rightarrow> False | Some t \<Rightarrow> t \<noteq> [])
                    then Throw (AppError 409 ''A recovery test is already queued or running. Review its result before submitting another confirmation.'')
                    else if rt_backupId current = rt_backupId row \<and> rt_snapshotId current = rt_snapshotId row
                    then Ok (current, db)
                    else Throw (AppError 409 ''One recovery test is already queued or running for this plan.'')
                | None \<Rightarrow>
                    if list_ex (\<lambda>t. rt_id t = rt_id row \<or>
                         (rt_automationKey row \<noteq> None \<and> rt_automationKey t = rt_automationKey row))
                         (t_recoveryTests db)
                    then Throw SqlError
                    else Ok (row, insert_recovery_test row db)))"

text \<open>The claim of the one global worker.\<close>

definition restore_executing :: "restore_row \<Rightarrow> bool" where
  "restore_executing r \<longleftrightarrow> dr_status r \<in> {DImporting, DDeleting}"

definition worker_blocked :: "pdb \<Rightarrow> bool" where
  "worker_blocked db \<longleftrightarrow>
     list_ex (\<lambda>t. rt_status t = RRunning) (t_recoveryTests db) \<or>
     list_ex restore_executing (t_dbRestores db) \<or>
     list_ex (\<lambda>b. bk_inProgress b = Some True) (t_backups db) \<or>
     list_ex (\<lambda>b. b) (t_restoresInProgress db)"

definition claim_candidate :: "pdb \<Rightarrow> recovery_test option" where
  "claim_candidate db =
     find (\<lambda>t. pendingInternalSessions db = [] \<or> rpo_databaseImport (rt_policy t) = ImportDisabled)
       (order_by rt_createdAt (filter (\<lambda>t. rt_status t = RQueued) (t_recoveryTests db)))"

definition start_row :: "int \<Rightarrow> recovery_test \<Rightarrow> recovery_test" where
  "start_row now t = t\<lparr>rt_status := RRunning, rt_startedAt := Some (now div 1000)\<rparr>"

definition rt_claim :: "int \<Rightarrow> pdb \<Rightarrow> recovery_test option \<times> pdb" where
  "rt_claim now db =
     (if worker_blocked db then (None, db)
      else case claim_candidate db of
             None \<Rightarrow> (None, db)
           | Some row \<Rightarrow>
               let db' = update_recovery_tests (\<lambda>t. rt_id t = rt_id row \<and> rt_status t = RQueued)
                           (start_row now) db
               in (rt_get (rt_id row) db', db'))"

text \<open>The first backup of a plan that after-backup automation still has to test.\<close>

definition testable_backup :: "recovery_policy \<Rightarrow> pdb \<Rightarrow> backup_row \<Rightarrow> bool" where
  "testable_backup p db b \<longleftrightarrow>
     bk_inProgress b \<noteq> Some True \<and> bk_success b \<noteq> Some False \<and>
     (case bk_ended b of
        None \<Rightarrow> False
      | Some e \<Rightarrow> (case rpo_enabledAt p of
                     None \<Rightarrow> 9007199254740991 \<le> e * 1000
                   | Some t \<Rightarrow> (if t = 0 then 9007199254740991 else t) \<le> e * 1000)) \<and>
     (case bk_snapshot b of
        None \<Rightarrow> False
      | Some s \<Rightarrow> hex_string 64 s \<and>
          \<not> list_ex (\<lambda>t. rt_backupId t = bk_id b \<and> rt_snapshotId t = s) (t_recoveryTests db))"

definition plan_candidate :: "pdb \<Rightarrow> string \<times> recovery_policy \<Rightarrow> string list" where
  "plan_candidate db entry =
     (if active_for_plan (fst entry) db \<noteq> None then []
      else case find (testable_backup (snd entry) db)
             (order_by (\<lambda>b. case bk_ended b of None \<Rightarrow> (0 :: nat, 0) | Some e \<Rightarrow> (1, e))
               (filter (\<lambda>b. bk_planId b = Some (fst entry) \<and> bk_status b = Some ''completed'') (t_backups db))) of
             None \<Rightarrow> [] | Some b \<Rightarrow> [bk_id b])"

definition automaticCandidates :: "pdb \<Rightarrow> string list" where
  "automaticCandidates db =
     concat (map (plan_candidate db)
       (filter (\<lambda>(k, p). rpo_enabled p \<and> \<not> uses_internal p) (t_recoveryPolicies db)))"

definition interrupted_changes :: "int \<Rightarrow> recovery_test \<Rightarrow> test_changes" where
  "interrupted_changes now row =
     \<lparr>tch_status = Some (if rt_cancelRequested row then RCancelled else RFailed),
      tch_completedAt = Some (Some (now div 1000)), tch_result = None, tch_stage = None,
      tch_failureStage = Some (Some ''job''), tch_failureCode = Some (Some ''interrupted''),
      tch_warnings = None\<rparr>"

definition rt_interrupted :: "int \<Rightarrow> pdb \<Rightarrow> recovery_test list \<times> pdb" where
  "rt_interrupted now db =
     (let rows = filter (\<lambda>t. rt_status t = RRunning) (t_recoveryTests db)
      in (rows, fold (\<lambda>row d. snd (rt_update (rt_id row) (interrupted_changes now row) d)) rows db))"

section \<open>Import leases and internal sessions\<close>

definition rt_leases :: "string option \<Rightarrow> pdb \<Rightarrow> import_lease list" where
  "rt_leases testId db =
     (let own = (\<lambda>l. case testId of None \<Rightarrow> True | Some k \<Rightarrow> k = [] \<or> il_testId l = k)
      in filter own (t_recoveryLeases db) @ filter own (t_internalLeases db))"

definition addLease :: "import_lease \<Rightarrow> pdb \<Rightarrow> pdb result" where
  "addLease lease db =
     (if starts_with ''irt_'' (il_targetId lease)
      then
        (case internalSession (il_targetId lease) db of
           None \<Rightarrow> Throw (AppError 409 ''Internal recovery activation is unavailable.'')
         | Some s \<Rightarrow>
             if is_testId s \<noteq> il_testId lease \<or> is_releasedAt s \<noteq> None \<or> is_cleanupReady s \<or>
                \<not> hex_string 24 (il_id lease) \<or> \<not> hex_string 48 (il_ownerToken lease)
             then Throw (AppError 409 ''Internal recovery activation is unavailable.'')
             else
               let row = lease\<lparr>il_id := ''il_'' @ il_id lease\<rparr>
               in if list_ex (\<lambda>l. il_id l = il_id row) (t_internalLeases db) then Throw SqlError
                  else Ok (db\<lparr>t_internalLeases := t_internalLeases db @ [row]\<rparr>))
      else if list_ex (\<lambda>l. il_id l = il_id lease) (t_recoveryLeases db) then Throw SqlError
      else Ok (db\<lparr>t_recoveryLeases := t_recoveryLeases db @ [lease]\<rparr>))"

definition removeLease :: "string \<Rightarrow> pdb \<Rightarrow> pdb" where
  "removeLease k db =
     (if starts_with ''il_'' k
      then db\<lparr>t_internalLeases := delete_where (\<lambda>l. il_id l = k) (t_internalLeases db)\<rparr>
      else db\<lparr>t_recoveryLeases := delete_where (\<lambda>l. il_id l = k) (t_recoveryLeases db)\<rparr>)"

record internal_input =
  ii_testId :: string
  ii_engine :: engine
  ii_installationId :: string
  ii_activationId :: string
  ii_config :: target_config
  ii_password :: string
  ii_caSha256 :: string

definition beginInternalSession ::
  "(string \<Rightarrow> string) \<Rightarrow> string \<Rightarrow> internal_input \<Rightarrow> pdb \<Rightarrow> ((target_config \<times> string \<times> string) \<times> pdb) result" where
  "beginInternalSession encrypt random i db =
     (if \<not> (target_config_ok (ii_config i) \<and> password_ok (ii_password i)) then Throw invalid_input
      else if ii_password i = [] \<or> tc_engine (ii_config i) \<noteq> ii_engine i \<or>
              tc_tls (ii_config i) \<noteq> TlsVerifyIdentity
      then Throw (AppError 409 ''Unsafe internal target.'')
      else
        let k = ''irt_'' @ random
        in case rt_get (ii_testId i) db of
             None \<Rightarrow> Throw (AppError 409 ''Internal recovery activation is unavailable.'')
           | Some t \<Rightarrow>
               if rt_status t \<noteq> RRunning \<or> rpo_databaseImport (rt_policy t) \<noteq> ImportRequired \<or>
                  (case rpo_targetModes (rt_policy t) of None \<Rightarrow> True
                   | Some ms \<Rightarrow> map_of ms (ii_engine i) \<noteq> Some ModeInternal) \<or>
                  \<not> hex_string 32 (ii_installationId i) \<or> \<not> hex_string 32 (ii_activationId i) \<or>
                  \<not> hex_string 64 (ii_caSha256 i)
               then Throw (AppError 409 ''Internal recovery activation is unavailable.'')
               else if list_ex (\<lambda>s. is_id s = k \<or> is_testId s = ii_testId i \<or> is_releasedAt s = None)
                         (t_internalSessions db)
               then Throw SqlError
               else Ok ((ii_config i, ii_password i, k),
                 db\<lparr>t_internalSessions := t_internalSessions db @
                   [\<lparr>is_id = k, is_testId = ii_testId i, is_engine = ii_engine i,
                     is_installationId = ii_installationId i, is_activationId = ii_activationId i,
                     is_config = ii_config i, is_encryptedPassword = encrypt (ii_password i),
                     is_caSha256 = ii_caSha256 i, is_cleanupReady = False, is_releasedAt = None\<rparr>]\<rparr>))"

definition markInternalCleanupReady :: "string \<Rightarrow> pdb \<Rightarrow> pdb result" where
  "markInternalCleanupReady k db =
     (case internalSession k db of
        None \<Rightarrow> Throw (AppError 409 ''Database cleanup is incomplete.'')
      | Some s \<Rightarrow>
          if rt_leases (Some (is_testId s)) db \<noteq> []
          then Throw (AppError 409 ''Database cleanup is incomplete.'')
          else Ok (db\<lparr>t_internalSessions :=
                 update_where (\<lambda>x. is_id x = k) (\<lambda>x. x\<lparr>is_cleanupReady := True\<rparr>) (t_internalSessions db)\<rparr>))"

definition completeInternalCleanup :: "int \<Rightarrow> string \<Rightarrow> test_changes \<Rightarrow> pdb \<Rightarrow> pdb result" where
  "completeInternalCleanup now k changes db =
     (case internalSession k db of
        None \<Rightarrow> Throw (AppError 409 ''Database cleanup is incomplete.'')
      | Some s \<Rightarrow>
          if \<not> is_cleanupReady s \<or> list_ex (\<lambda>l. il_testId l = is_testId s) (t_internalLeases db) \<or>
             list_ex (\<lambda>l. il_testId l = is_testId s) (t_recoveryLeases db)
          then Throw (AppError 409 ''Database cleanup is incomplete.'')
          else
            let db1 = update_recovery_tests (\<lambda>t. rt_id t = is_testId s) (apply_changes changes) db
            in Ok (db1\<lparr>t_internalSessions :=
                 update_where (\<lambda>x. is_id x = k) (\<lambda>x. x\<lparr>is_releasedAt := Some (now div 1000)\<rparr>)
                   (t_internalSessions db1)\<rparr>))"

end
