(* ===== verification/Recovery_Guarantees.thy ===== *)
theory Recovery_Guarantees
  imports Recovery_Store
begin

text \<open>
  The recovery test store as a step relation: one running test, one active test per plan, immutable
  bindings, and internal database sessions that are released only when nothing is left in them.
\<close>

section \<open>The steps of the store\<close>

definition settling :: "test_changes \<Rightarrow> bool" where
  "settling c \<longleftrightarrow> (case tch_status c of None \<Rightarrow> True | Some s \<Rightarrow> recovery_terminal s)"

inductive rt_step :: "pdb \<Rightarrow> pdb \<Rightarrow> bool" where
  ts_enqueue: "rt_status row = RQueued \<Longrightarrow> rt_enqueue row db = Ok (t, db') \<Longrightarrow> rt_step db db'"
| ts_claim: "rt_claim now db = (r, db') \<Longrightarrow> rt_step db db'"
| ts_cancel: "requestCancellation now k db = (r, db') \<Longrightarrow> rt_step db db'"
| ts_update: "settling c \<Longrightarrow> rt_update k c db = (r, db') \<Longrightarrow> rt_step db db'"
| ts_interrupted: "rt_interrupted now db = (rows, db') \<Longrightarrow> rt_step db db'"
| ts_begin: "beginInternalSession encrypt random i db = Ok (r, db') \<Longrightarrow> rt_step db db'"
| ts_ready: "markInternalCleanupReady k db = Ok db' \<Longrightarrow> rt_step db db'"
| ts_complete: "settling c \<Longrightarrow> completeInternalCleanup now k c db = Ok db' \<Longrightarrow> rt_step db db'"
| ts_lease: "addLease l db = Ok db' \<Longrightarrow> rt_step db db'"
| ts_unlease: "rt_step db (removeLease k db)"
| ts_other: "t_recoveryTests db' = t_recoveryTests db \<Longrightarrow> t_internalSessions db' = t_internalSessions db \<Longrightarrow>
    t_internalLeases db' = t_internalLeases db \<Longrightarrow> rt_step db db'"

text \<open>What a step does to the tests: a new queued one, the start of one, or progress to an end.\<close>

abbreviation is_active_test :: "recovery_test \<Rightarrow> bool" where
  "is_active_test t \<equiv> recovery_active (rt_status t)"

definition test_binding :: "recovery_test \<Rightarrow> string \<times> string \<times> string \<times> string \<times> string" where
  "test_binding t = (rt_id t, rt_planId t, rt_backupId t, rt_repositoryId t, rt_snapshotId t)"

definition progresses :: "recovery_test \<Rightarrow> recovery_test \<Rightarrow> bool" where
  "progresses t t' \<longleftrightarrow>
     test_binding t' = test_binding t \<and> rt_automationKey t' = rt_automationKey t \<and>
     (rt_status t' = rt_status t \<or> recovery_terminal (rt_status t'))"

lemma progresses_apply: "settling c \<Longrightarrow> progresses t (apply_changes c t)"
  by (auto simp: progresses_def test_binding_def apply_changes_def settling_def keep_def split: option.splits)

lemma progresses_refl: "progresses t t"
  by (simp add: progresses_def)

lemma progresses_trans: "progresses a b \<Longrightarrow> progresses b c \<Longrightarrow> progresses a c"
  by (auto simp: progresses_def)

definition all_progress :: "recovery_test list \<Rightarrow> recovery_test list \<Rightarrow> bool" where
  "all_progress ts ts' \<longleftrightarrow> list_all2 progresses ts ts'"

lemma all_progress_refl: "all_progress ts ts"
  unfolding all_progress_def by (simp add: list.rel_refl progresses_refl)

lemma all_progress_trans: "all_progress a b \<Longrightarrow> all_progress b c \<Longrightarrow> all_progress a c"
  unfolding all_progress_def using list_all2_trans [of progresses progresses progresses] progresses_trans by blast

lemma all_progress_update:
  "(\<And>t. p t \<Longrightarrow> progresses t (f t)) \<Longrightarrow> all_progress ts (update_where p f ts)"
  unfolding all_progress_def by (induction ts) (auto simp: progresses_refl)

lemma all_progress_interrupted:
  "all_progress (t_recoveryTests db) (t_recoveryTests (snd (rt_interrupted now db)))"
proof -
  have "settling (interrupted_changes now row)" for row
    by (simp add: settling_def interrupted_changes_def recovery_terminal_def)
  then have "all_progress (t_recoveryTests d) (t_recoveryTests
      (fold (\<lambda>row d. snd (rt_update (rt_id row) (interrupted_changes now row) d)) rows d))" for rows d
  proof (induction rows arbitrary: d)
    case Nil
    then show ?case by (simp add: all_progress_refl)
  next
    case (Cons row rows)
    show ?case
      unfolding fold_Cons comp_def
      by (rule all_progress_trans [OF _ Cons.IH [OF Cons.prems]])
         (simp add: rt_update_def Let_def all_progress_update progresses_apply Cons.prems)
  qed
  then show ?thesis by (simp add: rt_interrupted_def Let_def)
qed

lemma rt_step_tests:
  assumes "rt_step db db'"
  obtains (insert) row where "t_recoveryTests db' = t_recoveryTests db @ [row]" "rt_status row = RQueued"
      "binding_available row db" "active_for_plan (rt_planId row) db = None"
      "\<forall>t \<in> set (t_recoveryTests db). rt_id t \<noteq> rt_id row"
      "\<forall>t \<in> set (t_recoveryTests db). rt_automationKey row \<noteq> None \<longrightarrow> rt_automationKey t \<noteq> rt_automationKey row"
  | (start) now row where "\<not> worker_blocked db" "claim_candidate db = Some row"
      "t_recoveryTests db' = update_where (\<lambda>t. rt_id t = rt_id row \<and> rt_status t = RQueued) (start_row now)
         (t_recoveryTests db)"
  | (progress) "all_progress (t_recoveryTests db) (t_recoveryTests db')"
  using assms
proof cases
  case (ts_enqueue row t)
  show thesis
  proof (cases "db' = db")
    case True
    then show thesis by (intro progress) (simp add: all_progress_refl)
  next
    case False
    with ts_enqueue have "binding_available row db" "active_for_plan (rt_planId row) db = None"
      "db' = insert_recovery_test row db"
      "\<not> list_ex (\<lambda>t. rt_id t = rt_id row \<or> (rt_automationKey row \<noteq> None \<and> rt_automationKey t = rt_automationKey row))
         (t_recoveryTests db)"
      by (auto simp: rt_enqueue_def Let_def split: if_splits option.splits)
    with ts_enqueue(1) show thesis by (intro insert [of row]) (auto simp: list_ex_iff)
  qed
next
  case (ts_claim now r)
  show thesis
  proof (cases "worker_blocked db \<or> claim_candidate db = None")
    case True
    with ts_claim have "db' = db" by (auto simp: rt_claim_def split: option.splits)
    then show thesis by (intro progress) (simp add: all_progress_refl)
  next
    case False
    then obtain row where "\<not> worker_blocked db" "claim_candidate db = Some row" by auto
    with ts_claim show thesis by (intro start [of row now]) (auto simp: rt_claim_def Let_def)
  qed
next
  case (ts_cancel now k r)
  have "progresses t (cancel_row now t)" for t
    by (simp add: progresses_def cancel_row_def test_binding_def recovery_terminal_def)
  then have "all_progress (t_recoveryTests db) (t_recoveryTests db')"
    using ts_cancel
    by (auto simp: requestCancellation_def Let_def all_progress_refl all_progress_update
        split: option.splits if_splits)
  then show thesis by (rule progress)
next
  case (ts_update c k r)
  then show thesis
    by (intro progress) (auto simp: rt_update_def Let_def all_progress_update progresses_apply)
next
  case (ts_interrupted now rows)
  with all_progress_interrupted [of db now] show thesis by (intro progress) simp
next
  case (ts_begin encrypt random i r)
  then have "t_recoveryTests db' = t_recoveryTests db"
    by (auto simp: beginInternalSession_def Let_def split: if_splits option.splits)
  then show thesis by (intro progress) (simp add: all_progress_refl)
next
  case (ts_ready k)
  then have "t_recoveryTests db' = t_recoveryTests db"
    by (auto simp: markInternalCleanupReady_def split: if_splits option.splits)
  then show thesis by (intro progress) (simp add: all_progress_refl)
next
  case (ts_complete c now k)
  then have "all_progress (t_recoveryTests db) (t_recoveryTests db')"
    by (auto simp: completeInternalCleanup_def Let_def all_progress_update progresses_apply
        split: if_splits option.splits)
  then show thesis by (rule progress)
next
  case (ts_lease l)
  then have "t_recoveryTests db' = t_recoveryTests db"
    by (auto simp: addLease_def Let_def split: if_splits option.splits)
  then show thesis by (intro progress) (simp add: all_progress_refl)
next
  case (ts_unlease k)
  then show thesis by (intro progress) (simp add: removeLease_def all_progress_refl)
next
  case ts_other
  then show thesis by (intro progress) (simp add: all_progress_refl)
qed

section \<open>One running test, one active test per plan\<close>

definition tests_ok :: "pdb \<Rightarrow> bool" where
  "tests_ok db \<longleftrightarrow>
     distinct (map rt_id (t_recoveryTests db)) \<and>
     distinct (map rt_planId (filter is_active_test (t_recoveryTests db))) \<and>
     distinct (map rt_automationKey (filter (\<lambda>t. rt_automationKey t \<noteq> None) (t_recoveryTests db))) \<and>
     list_all (\<lambda>t. hex_string 64 (rt_snapshotId t)) (t_recoveryTests db)"

abbreviation is_running_test :: "recovery_test \<Rightarrow> bool" where
  "is_running_test t \<equiv> rt_status t = RRunning"

definition running_tests :: "pdb \<Rightarrow> nat" where
  "running_tests db = count_where is_running_test (t_recoveryTests db)"

lemma progress_facts:
  assumes "all_progress ts ts'"
  shows "map rt_id ts' = map rt_id ts"
    and "map rt_automationKey (filter (\<lambda>t. rt_automationKey t \<noteq> None) ts') =
         map rt_automationKey (filter (\<lambda>t. rt_automationKey t \<noteq> None) ts)"
    and "set (map rt_planId (filter is_active_test ts')) \<subseteq> set (map rt_planId (filter is_active_test ts))"
    and "distinct (map rt_planId (filter is_active_test ts)) \<Longrightarrow> distinct (map rt_planId (filter is_active_test ts'))"
    and "count_where is_running_test ts' \<le> count_where is_running_test ts"
    and "list_all (\<lambda>t. hex_string 64 (rt_snapshotId t)) ts \<Longrightarrow> list_all (\<lambda>t. hex_string 64 (rt_snapshotId t)) ts'"
  using assms unfolding all_progress_def
  by (induction rule: list_all2_induct)
     (auto simp: progresses_def test_binding_def recovery_terminal_def split: if_splits)

lemma active_for_plan_None:
  "active_for_plan planId db = None \<longleftrightarrow> planId \<notin> rt_planId ` set (filter is_active_test (t_recoveryTests db))"
  by (auto simp: active_for_plan_def find_None_iff)

lemma claim_candidate_queued:
  "claim_candidate db = Some row \<Longrightarrow> row \<in> set (t_recoveryTests db) \<and> rt_status row = RQueued"
  unfolding claim_candidate_def by (auto simp: find_Some_iff dest!: nth_mem)

lemma start_row_facts:
  "rt_id (start_row now t) = rt_id t" "rt_planId (start_row now t) = rt_planId t"
  "rt_automationKey (start_row now t) = rt_automationKey t" "rt_snapshotId (start_row now t) = rt_snapshotId t"
  "rt_status (start_row now t) = RRunning"
  by (simp_all add: start_row_def)

lemma start_facts:
  fixes k now defines "u \<equiv> update_where (\<lambda>t. rt_id t = k \<and> rt_status t = RQueued) (start_row now)"
  shows "map rt_id (u ts) = map rt_id ts"
    and "map rt_automationKey (filter (\<lambda>t. rt_automationKey t \<noteq> None) (u ts)) =
         map rt_automationKey (filter (\<lambda>t. rt_automationKey t \<noteq> None) ts)"
    and "map rt_planId (filter is_active_test (u ts)) = map rt_planId (filter is_active_test ts)"
    and "list_all (\<lambda>t. hex_string 64 (rt_snapshotId t)) (u ts) = list_all (\<lambda>t. hex_string 64 (rt_snapshotId t)) ts"
  unfolding u_def by (induction ts) (auto simp: start_row_facts recovery_terminal_def)

lemma tests_ok_step: "tests_ok db \<Longrightarrow> rt_step db db' \<Longrightarrow> tests_ok db'"
proof -
  assume ok: "tests_ok db" and "rt_step db db'"
  from \<open>rt_step db db'\<close> show "tests_ok db'"
  proof (cases rule: rt_step_tests)
    case (insert row)
    have "hex_string 64 (rt_snapshotId row)"
      using insert(3) by (auto simp: binding_available_def split: option.splits)
    with ok insert show ?thesis
      by (auto simp: tests_ok_def active_for_plan_None image_iff)
  next
    case (start now row)
    with ok start_facts [of "rt_id row" now "t_recoveryTests db"] show ?thesis
      by (simp add: tests_ok_def)
  next
    case progress
    with ok progress_facts [OF progress] show ?thesis by (simp add: tests_ok_def)
  qed
qed

lemma running_step:
  assumes ok: "tests_ok db" and "rt_step db db'"
  shows "running_tests db' \<le> running_tests db \<or> running_tests db = 0 \<and> running_tests db' = 1"
  using assms(2)
proof (cases rule: rt_step_tests)
  case (insert row)
  then show ?thesis by (simp add: running_tests_def)
next
  case (start now row)
  have "running_tests db = 0"
    using start(1) by (auto simp: running_tests_def count_where_0_iff worker_blocked_def list_ex_iff)
  moreover have "running_tests db' \<le> Suc (running_tests db)"
    unfolding running_tests_def start(3) using ok by (intro count_where_update_by_key) (simp add: tests_ok_def)
  ultimately show ?thesis by auto
next
  case progress
  with progress_facts(5) show ?thesis by (auto simp: running_tests_def)
qed

interpretation recovery_worker: exclusive_slot rt_step tests_ok running_tests
  by unfold_locales (rule tests_ok_step, assumption+, rule running_step)

definition rt_init :: "pdb \<Rightarrow> bool" where
  "rt_init db \<longleftrightarrow> t_recoveryTests db = [] \<and> t_internalSessions db = [] \<and> t_internalLeases db = []"

lemma rt_init_reach:
  "reachable rt_init rt_step db \<Longrightarrow> reachable (\<lambda>s. tests_ok s \<and> running_tests s \<le> 1) rt_step db"
  by (induction rule: reachable.induct)
     (auto simp: rt_init_def tests_ok_def running_tests_def intro: reach_init reach_step)

text \<open>
  C14: Whatever sequence of store methods runs, at most one recovery test is running, a plan has at
  most one queued or running test, an automation key is used at most once, and every test is bound to
  a full snapshot id.
\<close>

theorem recovery_single_worker:
  assumes "reachable rt_init rt_step db"
  shows "count_where is_running_test (t_recoveryTests db) \<le> 1 \<and>
     distinct (map rt_planId (filter is_active_test (t_recoveryTests db))) \<and>
     distinct (map rt_automationKey (filter (\<lambda>t. rt_automationKey t \<noteq> None) (t_recoveryTests db))) \<and>
     list_all (\<lambda>t. hex_string 64 (rt_snapshotId t)) (t_recoveryTests db)"
  using recovery_worker.slot_bound [OF rt_init_reach [OF assms]]
  by (auto simp: tests_ok_def running_tests_def)

definition snapshot64 :: string where
  "snapshot64 = replicate 64 (CHR ''b'')"

definition sample_test :: recovery_test where
  "sample_test = \<lparr>rt_id = ''t'', rt_planId = ''p'', rt_backupId = ''b'', rt_repositoryId = ''r'',
     rt_snapshotId = snapshot64, rt_status = RQueued, rt_automationKey = Some ''b:1'',
     rt_policy = defaultRecoveryPolicy\<lparr>rpo_enabled := True\<rparr>, rt_createdAt = 5, rt_startedAt = None,
     rt_completedAt = None, rt_result = None, rt_stage = None, rt_failureStage = None, rt_failureCode = None,
     rt_warnings = [], rt_cancelRequested = False\<rparr>"

definition sample_recovery_db :: pdb where
  "sample_recovery_db = empty_db\<lparr>
     t_plans := [\<lparr>pl_id = ''p'', pl_title = ''plan'', pl_storageId = Some ''s'', pl_storagePath = Some ''x'',
        pl_method = ''backup'', pl_sourceType = ''device'', pl_sourceId = ''agent'',
        pl_replicationEnabled = False, pl_replicas = [], pl_databases = []\<rparr>],
     t_backups := [\<lparr>bk_id = ''b'', bk_planId = Some ''p'', bk_status = Some ''completed'',
        bk_inProgress = Some False, bk_success = Some True, bk_method = ''backup'',
        bk_sourceType = ''device'', bk_sourceId = ''agent'', bk_storageId = Some ''s'',
        bk_storagePath = Some ''x'', bk_encryption = Some True, bk_ended = Some 4,
        bk_snapshot = Some snapshot64, bk_warnings = 0, bk_mirrors = []\<rparr>],
     t_repositories := [\<lparr>rp_id = ''r'', rp_planId = ''p'', rp_agentId = ''a'', rp_storageId = ''s'',
        rp_storagePath = ''x'', rp_initializedAt = Some 1\<rparr>]\<rparr>"

definition sample_queue_db :: pdb where
  "sample_queue_db = insert_recovery_test sample_test sample_recovery_db"

lemma sample_test_enqueued: "rt_enqueue sample_test sample_recovery_db = Ok (sample_test, sample_queue_db)"
proof -
  have "hex_string 64 snapshot64"
    by (simp add: snapshot64_def hex_string_def list_all_iff is_hex_char_def)
  then have "binding_available sample_test sample_recovery_db"
    by (simp add: binding_available_def sample_test_def sample_recovery_db_def)
  moreover have "t_recoveryTests sample_recovery_db = []" by (simp add: sample_recovery_db_def empty_db_def)
  ultimately show ?thesis
    by (simp add: rt_enqueue_def Let_def active_for_plan_def sample_queue_db_def split: option.split)
qed

lemma sample_queue_reachable: "reachable rt_init rt_step sample_queue_db"
proof -
  have "reachable rt_init rt_step sample_recovery_db"
    by (rule reach_init) (simp add: rt_init_def sample_recovery_db_def empty_db_def)
  then show ?thesis
    by (rule reach_step) (rule ts_enqueue [OF _ sample_test_enqueued], simp add: sample_test_def)
qed

theorem recovery_single_worker_witness:
  "count_where is_running_test (t_recoveryTests sample_queue_db) \<le> 1 \<and> t_recoveryTests sample_queue_db = [sample_test]"
  using recovery_single_worker [OF sample_queue_reachable]
  by (simp add: sample_queue_db_def sample_recovery_db_def empty_db_def)

section \<open>Claims\<close>

text \<open>
  The worker starts a test only on an idle system, and then always the oldest one: if no backup,
  restore, persistent import or other test is in progress and some queued test may run (after an
  unreleased internal session only tests without import may), the claim starts the oldest of those
  tests and changes no other; otherwise it changes nothing.
\<close>

theorem recovery_claim_spec:
  assumes "distinct (map rt_id (t_recoveryTests db))"
  defines "may_run \<equiv> \<lambda>t. rt_status t = RQueued \<and>
     (pendingInternalSessions db = [] \<or> rpo_databaseImport (rt_policy t) = ImportDisabled)"
  shows "if worker_blocked db \<or> \<not> list_ex may_run (t_recoveryTests db) then rt_claim now db = (None, db)
     else \<exists>t \<in> set (t_recoveryTests db). may_run t \<and>
            (\<forall>x \<in> set (t_recoveryTests db). may_run x \<longrightarrow> rt_createdAt t \<le> rt_createdAt x) \<and>
            fst (rt_claim now db) = Some (start_row now t) \<and>
            t_recoveryTests (snd (rt_claim now db)) = update_where (\<lambda>x. x = t) (start_row now) (t_recoveryTests db)"
proof (cases "worker_blocked db \<or> \<not> list_ex may_run (t_recoveryTests db)")
  case True
  have "claim_candidate db = None" if "\<not> list_ex may_run (t_recoveryTests db)"
    using that by (auto simp: claim_candidate_def find_None_iff list_ex_iff may_run_def)
  with True show ?thesis by (auto simp: rt_claim_def)
next
  case False
  let ?q = "order_by rt_createdAt (filter (\<lambda>t. rt_status t = RQueued) (t_recoveryTests db))"
  let ?ok = "\<lambda>t. pendingInternalSessions db = [] \<or> rpo_databaseImport (rt_policy t) = ImportDisabled"
  have "claim_candidate db \<noteq> None"
    using False by (auto simp: claim_candidate_def find_None_iff list_ex_iff may_run_def)
  then obtain t where c: "claim_candidate db = Some t" by auto
  then obtain i where i: "i < length ?q" "?ok (?q ! i)" "t = ?q ! i" "\<And>j. j < i \<Longrightarrow> \<not> ?ok (?q ! j)"
    by (auto simp: claim_candidate_def find_Some_iff)
  have t: "t \<in> set (t_recoveryTests db)" "rt_status t = RQueued" using claim_candidate_queued [OF c] by auto
  have oldest: "rt_createdAt t \<le> rt_createdAt x" if "x \<in> set (t_recoveryTests db)" "may_run x" for x
  proof -
    from that have "x \<in> set ?q" by (auto simp: may_run_def)
    then obtain j where j: "j < length ?q" "x = ?q ! j" unfolding in_set_conv_nth by blast
    with that(2) i(4) [of j] have "i \<le> j" by (auto simp: may_run_def not_less [symmetric])
    moreover have "sorted (map rt_createdAt ?q)" by (simp add: order_by_def)
    ultimately show ?thesis using i(3) j by (auto dest: sorted_nth_mono)
  qed
  have same: "(rt_id x = rt_id t \<and> rt_status x = RQueued) = (x = t)" if "x \<in> set (t_recoveryTests db)" for x
    using that t distinct_map_eqD [OF assms(1) that t(1)] by auto
  then have upd: "update_where (\<lambda>x. rt_id x = rt_id t \<and> rt_status x = RQueued) (start_row now) (t_recoveryTests db) =
      update_where (\<lambda>x. x = t) (start_row now) (t_recoveryTests db)"
    unfolding update_where_def by (intro map_cong) auto
  have "row_by rt_id (rt_id t) (update_where (\<lambda>x. x = t) (start_row now) (t_recoveryTests db)) = Some (start_row now t)"
    using row_by_unique [OF assms(1) t(1)] by (simp add: row_by_update_where start_row_facts)
  then have "fst (rt_claim now db) = Some (start_row now t)"
    "t_recoveryTests (snd (rt_claim now db)) = update_where (\<lambda>x. x = t) (start_row now) (t_recoveryTests db)"
    using False c by (simp_all add: rt_claim_def Let_def rt_get_def upd)
  with False t i oldest show ?thesis by (auto simp: may_run_def)
qed

theorem recovery_claim_spec_witness:
  "fst (rt_claim 9000 sample_queue_db) = Some (start_row 9000 sample_test)"
proof -
  have db: "t_recoveryTests sample_queue_db = [sample_test]"
    by (simp add: sample_queue_db_def sample_recovery_db_def empty_db_def)
  have "pendingInternalSessions sample_queue_db = []"
    by (simp add: pendingInternalSessions_def sample_queue_db_def sample_recovery_db_def empty_db_def)
  moreover have "\<not> worker_blocked sample_queue_db"
    by (simp add: worker_blocked_def sample_queue_db_def sample_recovery_db_def empty_db_def
        insert_recovery_test_def register_source_def sample_test_def)
  moreover have "rt_status sample_test = RQueued" by (simp add: sample_test_def)
  ultimately show ?thesis using recovery_claim_spec [of sample_queue_db 9000] db by simp
qed

section \<open>Internal sessions\<close>

definition session_clean :: "import_lease list \<Rightarrow> internal_session \<Rightarrow> bool" where
  "session_clean ls s \<longleftrightarrow>
     (is_releasedAt s \<noteq> None \<longrightarrow> is_cleanupReady s) \<and>
     (is_cleanupReady s \<longrightarrow> (\<forall>l \<in> set ls. il_testId l \<noteq> is_testId s))"

definition sessions_ok :: "pdb \<Rightarrow> bool" where
  "sessions_ok db \<longleftrightarrow>
     distinct (map is_id (t_internalSessions db)) \<and> distinct (map is_testId (t_internalSessions db)) \<and>
     count_where (\<lambda>s. is_releasedAt s = None) (t_internalSessions db) \<le> 1 \<and>
     list_all (session_clean (t_internalLeases db)) (t_internalSessions db) \<and>
     list_all (\<lambda>l. \<exists>s \<in> set (t_internalSessions db). is_id s = il_targetId l \<and> is_testId s = il_testId l)
       (t_internalLeases db)"

lemma sessions_ok_begin:
  assumes "sessions_ok db" and "beginInternalSession encrypt random i db = Ok (r, db')"
  shows "sessions_ok db'"
proof -
  from assms(2) obtain s where db': "db' = db\<lparr>t_internalSessions := t_internalSessions db @ [s]\<rparr>"
    and s: "\<not> is_cleanupReady s" "is_releasedAt s = None"
    and no: "\<forall>x \<in> set (t_internalSessions db). is_id x \<noteq> is_id s \<and> is_testId x \<noteq> is_testId s \<and> is_releasedAt x \<noteq> None"
    by (auto simp: beginInternalSession_def Let_def list_ex_iff split: if_splits option.splits)
  have "count_where (\<lambda>s. is_releasedAt s = None) (t_internalSessions db) = 0"
    using no by (auto simp: count_where_0_iff)
  with assms(1) db' s no show ?thesis
    by (auto simp: sessions_ok_def session_clean_def list_all_iff)
qed

lemma sessions_ok_flag:
  assumes ok: "sessions_ok db" and "t_internalLeases db' = t_internalLeases db"
    and upd: "t_internalSessions db' = update_where (\<lambda>x. is_id x = k) f (t_internalSessions db)"
    and keys: "\<And>s. is_id (f s) = is_id s" "\<And>s. is_testId (f s) = is_testId s"
    and "\<And>s. is_releasedAt (f s) = None \<Longrightarrow> is_releasedAt s = None"
    and "\<And>s. s \<in> set (t_internalSessions db) \<Longrightarrow> is_id s = k \<Longrightarrow> session_clean (t_internalLeases db) s \<Longrightarrow>
           session_clean (t_internalLeases db) (f s)"
  shows "sessions_ok db'"
proof -
  have "map is_id (t_internalSessions db') = map is_id (t_internalSessions db)"
    "map is_testId (t_internalSessions db') = map is_testId (t_internalSessions db)"
    unfolding upd by (rule map_update_where; simp add: keys)+
  moreover have "count_where (\<lambda>s. is_releasedAt s = None) (t_internalSessions db') \<le>
      count_where (\<lambda>s. is_releasedAt s = None) (t_internalSessions db)"
    unfolding upd by (rule count_where_update_le) (rule assms(6))
  moreover have "list_all (session_clean (t_internalLeases db')) (t_internalSessions db')"
    using ok assms(2,7) upd by (auto simp: sessions_ok_def list_all_iff set_update_where)
  moreover have "\<exists>s \<in> set (t_internalSessions db'). is_id s = a \<and> is_testId s = b"
    if "s \<in> set (t_internalSessions db)" "is_id s = a" "is_testId s = b" for s a b
    unfolding upd set_update_where
    using that keys by (intro bexI [of _ "if is_id s = k then f s else s"]) auto
  ultimately show ?thesis using ok assms(2) by (fastforce simp: sessions_ok_def list_all_iff)
qed

lemma sessions_ok_lease:
  assumes ok: "sessions_ok db" and "addLease l db = Ok db'"
  shows "sessions_ok db'"
proof (cases "starts_with ''irt_'' (il_targetId l)")
  case False
  with assms show ?thesis by (auto simp: addLease_def sessions_ok_def split: if_splits)
next
  case True
  with assms(2) obtain s where s: "internalSession (il_targetId l) db = Some s" "is_testId s = il_testId l"
      "\<not> is_cleanupReady s"
    and db': "db' = db\<lparr>t_internalLeases := t_internalLeases db @ [l\<lparr>il_id := ''il_'' @ il_id l\<rparr>]\<rparr>"
    by (auto simp: addLease_def Let_def split: option.splits if_splits)
  have in_s: "s \<in> set (t_internalSessions db)" "is_id s = il_targetId l"
    using row_by_SomeD [of is_id _ _ s] s(1) by (auto simp: internalSession_def)
  have dist: "distinct (map is_testId (t_internalSessions db))" using ok by (simp add: sessions_ok_def)
  have one: "x = s" if "x \<in> set (t_internalSessions db)" "is_testId x = il_testId l" for x
    using distinct_map_eqD [OF dist that(1) in_s(1)] that(2) s(2) by simp
  have clean: "session_clean (t_internalLeases db @ [l\<lparr>il_id := ''il_'' @ il_id l\<rparr>]) x"
    if "x \<in> set (t_internalSessions db)" for x
  proof (cases "is_testId x = il_testId l")
    case True
    with one [OF that] s(3) ok in_s(1) show ?thesis by (auto simp: sessions_ok_def session_clean_def list_all_iff)
  next
    case False
    with ok that show ?thesis by (auto simp: sessions_ok_def session_clean_def list_all_iff)
  qed
  show ?thesis
    using ok clean in_s s(2) unfolding db' sessions_ok_def by (auto simp: list_all_iff)
qed

lemma sessions_frame:
  assumes "t_internalSessions db' = t_internalSessions db" and "set (t_internalLeases db') \<subseteq> set (t_internalLeases db)"
    and "sessions_ok db"
  shows "sessions_ok db'"
  using assms by (auto simp: sessions_ok_def session_clean_def list_all_iff)

lemma sessions_ok_step: "sessions_ok db \<Longrightarrow> rt_step db db' \<Longrightarrow> sessions_ok db'"
proof -
  assume ok: "sessions_ok db" and "rt_step db db'"
  from \<open>rt_step db db'\<close> show "sessions_ok db'"
  proof cases
    case (ts_enqueue row t)
    then show ?thesis
      by (intro sessions_frame [OF _ _ ok])
         (auto simp: rt_enqueue_def Let_def split: if_splits option.splits)
  next
    case (ts_claim now r)
    then show ?thesis
      by (intro sessions_frame [OF _ _ ok]) (auto simp: rt_claim_def Let_def split: if_splits option.splits)
  next
    case (ts_cancel now k r)
    then show ?thesis
      by (intro sessions_frame [OF _ _ ok])
         (auto simp: requestCancellation_def Let_def split: if_splits option.splits)
  next
    case (ts_update c k r)
    then show ?thesis by (intro sessions_frame [OF _ _ ok]) (auto simp: rt_update_def Let_def)
  next
    case (ts_interrupted now rows)
    have "t_internalSessions (fold (\<lambda>row d. snd (rt_update (rt_id row) (g row) d)) rs d) = t_internalSessions d \<and>
        t_internalLeases (fold (\<lambda>row d. snd (rt_update (rt_id row) (g row) d)) rs d) = t_internalLeases d" for rs d g
      by (induction rs arbitrary: d) (auto simp: rt_update_def Let_def)
    with ts_interrupted show ?thesis
      by (intro sessions_frame [OF _ _ ok]) (auto simp: rt_interrupted_def Let_def)
  next
    case (ts_begin encrypt random i r)
    with sessions_ok_begin [OF ok] show ?thesis by simp
  next
    case (ts_ready k)
    then obtain s where s: "internalSession k db = Some s" "rt_leases (Some (is_testId s)) db = []"
      and db': "db' = db\<lparr>t_internalSessions := update_where (\<lambda>x. is_id x = k) (\<lambda>x. x\<lparr>is_cleanupReady := True\<rparr>)
                 (t_internalSessions db)\<rparr>"
      by (auto simp: markInternalCleanupReady_def split: option.splits if_splits)
    have one: "x = s" if "x \<in> set (t_internalSessions db)" "is_id x = k" for x
      using ok that s(1) row_by_unique [of is_id "t_internalSessions db" x]
      by (auto simp: sessions_ok_def internalSession_def)
    have "\<forall>l \<in> set (t_internalLeases db). il_testId l \<noteq> is_testId s"
      using s(2) by (auto simp: rt_leases_def Let_def filter_empty_conv)
    with one show ?thesis
      by (intro sessions_ok_flag [OF ok, of db' k "\<lambda>x. x\<lparr>is_cleanupReady := True\<rparr>"])
         (auto simp: db' session_clean_def)
  next
    case (ts_complete c now k)
    then obtain s where s: "internalSession k db = Some s" "is_cleanupReady s"
      and db': "t_internalSessions db' = update_where (\<lambda>x. is_id x = k) (\<lambda>x. x\<lparr>is_releasedAt := Some (now div 1000)\<rparr>)
                 (t_internalSessions db)" "t_internalLeases db' = t_internalLeases db"
      by (auto simp: completeInternalCleanup_def Let_def split: option.splits if_splits)
    have one: "x = s" if "x \<in> set (t_internalSessions db)" "is_id x = k" for x
      using ok that s(1) row_by_unique [of is_id "t_internalSessions db" x]
      by (auto simp: sessions_ok_def internalSession_def)
    show ?thesis
      by (rule sessions_ok_flag [OF ok db'(2,1)]) (use one s(2) in \<open>auto simp: session_clean_def\<close>)
  next
    case (ts_lease l)
    with sessions_ok_lease [OF ok] show ?thesis by simp
  next
    case (ts_unlease k)
    then show ?thesis by (intro sessions_frame [OF _ _ ok]) (auto simp: removeLease_def)
  next
    case ts_other
    then show ?thesis by (intro sessions_frame [OF _ _ ok]) auto
  qed
qed

interpretation recovery_sessions: invariant_system rt_init rt_step sessions_ok
proof
  show "rt_init db \<Longrightarrow> sessions_ok db" for db by (simp add: rt_init_def sessions_ok_def)
qed (rule sessions_ok_step)

text \<open>
  An internal recovery database is given up only when it is empty: in every reachable state at
  most one internal session is unreleased, a released session was marked clean, a clean session has no
  import lease left, and from then on the store refuses every new lease in it.
\<close>

theorem internal_session_released_clean:
  assumes "reachable rt_init rt_step db"
  shows "length (pendingInternalSessions db) \<le> 1 \<and>
     (\<forall>s \<in> set (t_internalSessions db). is_releasedAt s \<noteq> None \<longrightarrow>
        is_cleanupReady s \<and> (\<forall>l \<in> set (t_internalLeases db). il_testId l \<noteq> is_testId s) \<and>
        (starts_with ''irt_'' (is_id s) \<longrightarrow> il_targetId l = is_id s \<longrightarrow>
           addLease l db = Throw (AppError 409 ''Internal recovery activation is unavailable.'') \<and>
           leaseTarget decrypt (is_id s) db = Ok None))"
proof -
  have ok: "sessions_ok db" using assms by (rule recovery_sessions.reachable_inv)
  then have "internalSession (is_id s) db = Some s" if "s \<in> set (t_internalSessions db)" for s
    using that row_by_unique [of is_id] by (auto simp: internalSession_def sessions_ok_def)
  with ok show ?thesis
    by (auto simp: sessions_ok_def session_clean_def list_all_iff pendingInternalSessions_def
        count_where_def addLease_def leaseTarget_def)
qed

text \<open>An internal session from its activation to its release.\<close>

definition internal_test :: recovery_test where
  "internal_test = sample_test\<lparr>rt_policy := defaultRecoveryPolicy\<lparr>rpo_databaseImport := ImportRequired,
     rpo_targetModes := Some [(Mariadb, ModeInternal)]\<rparr>\<rparr>"

definition hex_of :: "nat \<Rightarrow> string" where
  "hex_of n = replicate n (CHR ''c'')"

lemma hex_of_hex [simp]: "hex_string n (hex_of n)"
  by (simp add: hex_of_def hex_string_def list_all_iff is_hex_char_def)

definition internal_request :: internal_input where
  "internal_request = \<lparr>ii_testId = ''t'', ii_engine = Mariadb, ii_installationId = hex_of 32,
     ii_activationId = hex_of 32, ii_config = \<lparr>tc_engine = Mariadb, tc_host = ''db'', tc_port = 3306,
       tc_username = ''root'', tc_tls = TlsVerifyIdentity, tc_enabled = True\<rparr>,
     ii_password = ''x'', ii_caSha256 = hex_of 64\<rparr>"

definition no_changes :: test_changes where
  "no_changes = \<lparr>tch_status = None, tch_completedAt = None, tch_result = None, tch_stage = None,
     tch_failureStage = None, tch_failureCode = None, tch_warnings = None\<rparr>"

lemma internal_session_released:
  "\<exists>db s. reachable rt_init rt_step db \<and> t_internalSessions db = [s] \<and> is_id s = ''irt_1'' \<and> is_releasedAt s \<noteq> None"
proof -
  let ?db0 = "insert_recovery_test internal_test sample_recovery_db"
  let ?db1 = "update_recovery_tests (\<lambda>t. rt_id t = ''t'' \<and> rt_status t = RQueued) (start_row 7000) ?db0"
  let ?s = "\<lparr>is_id = ''irt_1'', is_testId = ''t'', is_engine = Mariadb, is_installationId = hex_of 32,
     is_activationId = hex_of 32, is_config = ii_config internal_request, is_encryptedPassword = ''x'',
     is_caSha256 = hex_of 64, is_cleanupReady = False, is_releasedAt = None\<rparr>"
  let ?db2 = "?db1\<lparr>t_internalSessions := [?s]\<rparr>"
  let ?db3 = "?db2\<lparr>t_internalSessions := [?s\<lparr>is_cleanupReady := True\<rparr>]\<rparr>"
  let ?db4 = "(update_recovery_tests (\<lambda>t. rt_id t = ''t'') (apply_changes no_changes) ?db3)
    \<lparr>t_internalSessions := [?s\<lparr>is_cleanupReady := True, is_releasedAt := Some 9\<rparr>]\<rparr>"
  have empty: "t_recoveryTests sample_recovery_db = []" "t_internalSessions sample_recovery_db = []"
    "t_internalLeases sample_recovery_db = []" "t_recoveryLeases sample_recovery_db = []"
    by (simp_all add: sample_recovery_db_def empty_db_def)
  have "reachable rt_init rt_step sample_recovery_db"
    by (rule reach_init) (simp add: rt_init_def empty)
  moreover have "rt_enqueue internal_test sample_recovery_db = Ok (internal_test, ?db0)"
    using sample_test_enqueued empty
    by (simp add: rt_enqueue_def Let_def active_for_plan_def internal_test_def sample_test_def
        binding_available_def split: option.splits if_splits)
  then have "rt_step sample_recovery_db ?db0"
    by (rule ts_enqueue [rotated]) (simp add: internal_test_def sample_test_def)
  moreover have "rt_claim 7000 ?db0 = (rt_get ''t'' ?db1, ?db1)"
  proof -
    have "\<not> worker_blocked ?db0"
      by (simp add: worker_blocked_def sample_recovery_db_def empty_db_def insert_recovery_test_def
          register_source_def internal_test_def sample_test_def)
    moreover have "claim_candidate ?db0 = Some internal_test"
      by (simp add: claim_candidate_def pendingInternalSessions_def empty order_by_def internal_test_def sample_test_def)
    moreover have "rt_id internal_test = ''t''" by (simp add: internal_test_def sample_test_def)
    ultimately show ?thesis by (simp add: rt_claim_def Let_def)
  qed
  then have "rt_step ?db0 ?db1" by (rule ts_claim)
  moreover have "beginInternalSession id ''1'' internal_request ?db1 =
      Ok ((ii_config internal_request, ''x'', ''irt_1''), ?db2)"
    by (simp add: beginInternalSession_def internal_request_def target_config_ok_def host_ok_def username_ok_def
        password_ok_def is_alnum_def is_lower_def is_upper_def is_digit_def rt_get_def empty internal_test_def sample_test_def start_row_def Let_def)
  then have "rt_step ?db1 ?db2" by (rule ts_begin)
  moreover have "markInternalCleanupReady ''irt_1'' ?db2 = Ok ?db3"
    by (simp add: markInternalCleanupReady_def internalSession_def rt_leases_def empty)
  then have "rt_step ?db2 ?db3" by (rule ts_ready)
  moreover have "completeInternalCleanup 9000 ''irt_1'' no_changes ?db3 = Ok ?db4"
    by (simp add: completeInternalCleanup_def internalSession_def empty Let_def)
  then have "rt_step ?db3 ?db4" by (rule ts_complete [rotated]) (simp add: settling_def no_changes_def)
  ultimately have "reachable rt_init rt_step ?db4" by (meson reach_step)
  then show ?thesis by (intro exI [of _ ?db4]) simp
qed

theorem internal_session_released_clean_witness:
  "\<exists>db s. t_internalSessions db = [s] \<and> is_releasedAt s \<noteq> None \<and> is_cleanupReady s \<and>
     leaseTarget Some (is_id s) db = Ok None"
proof -
  obtain db s where r: "reachable rt_init rt_step db" "t_internalSessions db = [s]" "is_id s = ''irt_1''"
    "is_releasedAt s \<noteq> None" using internal_session_released by blast
  from internal_session_released_clean [OF r(1), of "\<lparr>il_id = [], il_testId = [], il_targetId = ''irt_1'',
      il_database = [], il_ownerToken = []\<rparr>" Some] r
  show ?thesis by (intro exI [of _ db] exI [of _ s]) (simp add: starts_with_def)
qed

section \<open>Automation, cancellation, removal\<close>

text \<open>
  Enabling after-backup automation does not test the past: right after the policy is saved, no
  backup of the plan that ended before the moment automation was switched on is a candidate; saving it
  again while it stays enabled keeps that moment; and a plan with an internal target can not be
  automated at all.
\<close>

theorem automation_starts_at_enabling:
  assumes "savePolicy now planId input db = Ok (p, db')" and "rpo_enabled p"
    and "plan_candidate db' (planId, p) = [k]"
  shows "\<exists>b t e. b \<in> set (t_backups db) \<and> bk_id b = k \<and> bk_ended b = Some e \<and>
     (if \<exists>q. stored_policy planId db = Some q \<and> rpo_enabled q
      then rpo_enabledAt p = (case stored_policy planId db of Some q \<Rightarrow> rpo_enabledAt q | None \<Rightarrow> None)
      else rpo_enabledAt p = Some t \<and> t \<le> now \<and> now < t + 1000 \<and> (0 < t \<longrightarrow> t \<le> e * 1000)) \<and>
     \<not> uses_internal p \<and> stored_policy planId db' = Some p"
proof -
  from assms(1) obtain q where saved: "p = merged_policy now q (stored_policy planId db)"
    and int: "\<not> (rpo_enabled p \<and> uses_internal p)"
    and db': "db' = db\<lparr>t_recoveryPolicies := AList.update planId p (t_recoveryPolicies db)\<rparr>"
    by (auto simp: savePolicy_def bind_result_Inr_iff Let_def split: if_splits)
  have "rpo_enabled q" using saved assms(2) by (simp add: merged_policy_def)
  from assms(3) obtain b where "find (testable_backup p db')
      (order_by (\<lambda>b. case bk_ended b of None \<Rightarrow> (0 :: nat, 0) | Some e \<Rightarrow> (1, e))
        (filter (\<lambda>b. bk_planId b = Some planId \<and> bk_status b = Some ''completed'') (t_backups db'))) = Some b"
    "bk_id b = k"
    by (auto simp: plan_candidate_def split: if_splits option.splits)
  then have b: "b \<in> set (t_backups db)" "testable_backup p db' b" "bk_id b = k"
    unfolding find_Some_iff using db' by (auto dest!: nth_mem)
  then obtain e where e: "bk_ended b = Some e" by (auto simp: testable_backup_def split: option.splits)
  have "now div 1000 * 1000 \<le> now" "now < now div 1000 * 1000 + 1000" by linarith+
  with b e saved int assms(2) \<open>rpo_enabled q\<close> show ?thesis
    by (intro exI [of _ b] exI [of _ "now div 1000 * 1000"] exI [of _ e])
       (auto simp: db' merged_policy_def testable_backup_def stored_policy_def AList.update_conv'
         split: option.splits if_splits)
qed

theorem automation_starts_at_enabling_witness:
  "\<exists>p db'. savePolicy 3000 ''p'' (JObj [(''enabled'', JBool True), (''databaseImport'', JStr ''disabled'')])
       sample_recovery_db = Ok (p, db') \<and> plan_candidate db' (''p'', p) = [''b''] \<and> \<not> uses_internal p"
proof -
  let ?in = "JObj [(''enabled'', JBool True), (''databaseImport'', JStr ''disabled'')]"
  let ?p = "\<lparr>rpo_enabled = True, rpo_databaseImport = ImportDisabled, rpo_enabledAt = Some 3000,
     rpo_targetModes = None, rpo_snapshotMetadataToken = None\<rparr>"
  let ?db = "sample_recovery_db\<lparr>t_recoveryPolicies := [(''p'', ?p)]\<rparr>"
  have s: "savePolicy 3000 ''p'' ?in sample_recovery_db = Ok (?p, ?db)"
    by (simp add: savePolicy_def parseRecoveryInput_def strict_keys_def required_field_def optional_field_def
        merged_policy_def uses_internal_def plan_exists_def stored_policy_def sample_recovery_db_def empty_db_def Let_def)
  have "hex_string 64 snapshot64"
    by (simp add: snapshot64_def hex_string_def list_all_iff is_hex_char_def)
  then have c: "plan_candidate ?db (''p'', ?p) = [''b'']"
    by (simp add: plan_candidate_def active_for_plan_def testable_backup_def order_by_def sample_recovery_db_def
        empty_db_def)
  show ?thesis using automation_starts_at_enabling [OF s _ c] s c by auto
qed

text \<open>
  A cancellation ends a queued test at once, leaves a running one running with the request
  recorded, and does not touch a finished one; when the server restarts, every running test is ended,
  as cancelled exactly if its cancellation had been requested.
\<close>

theorem cancellation_outcome:
  assumes "distinct (map rt_id (t_recoveryTests db))" and "t \<in> set (t_recoveryTests db)"
  shows "case rt_status t of
       RQueued \<Rightarrow> \<exists>t'. fst (requestCancellation now (rt_id t) db) = Some t' \<and> rt_status t' = RCancelled \<and>
                   rt_cancelRequested t' \<and> rt_completedAt t' = Some (now div 1000)
     | RRunning \<Rightarrow> fst (requestCancellation now (rt_id t) db) = Some (t\<lparr>rt_cancelRequested := True\<rparr>)
     | _ \<Rightarrow> requestCancellation now (rt_id t) db = (Some t, db)"
proof -
  have t: "rt_get (rt_id t) db = Some t" using row_by_unique [OF assms] by (simp add: rt_get_def)
  have key: "rt_id (cancel_row now x) = rt_id x" for x by (simp add: cancel_row_def)
  have "row_by rt_id (rt_id t) (update_where (\<lambda>x. rt_id x = rt_id t) (cancel_row now) (t_recoveryTests db)) =
      Some (cancel_row now t)"
    using t by (simp add: row_by_update_where [of rt_id, OF key] rt_get_def)
  with t show ?thesis
    by (auto simp: requestCancellation_def Let_def rt_get_def cancel_row_def recovery_terminal_def
        split: recovery_status.split)
qed

theorem cancellation_outcome_witness:
  "\<exists>t'. fst (requestCancellation 7000 ''t'' sample_queue_db) = Some t' \<and> rt_status t' = RCancelled"
proof -
  have db: "t_recoveryTests sample_queue_db = [sample_test]"
    by (simp add: sample_queue_db_def sample_recovery_db_def empty_db_def)
  have "rt_status sample_test = RQueued" "rt_id sample_test = ''t''" by (simp_all add: sample_test_def)
  with cancellation_outcome [of sample_queue_db sample_test 7000] db show ?thesis by auto
qed

end
