(* ===== verification/Restore_Store.thy ===== *)
theory Restore_Store
  imports Recovery_Store "HOL-Library.List_Lexorder"
begin

text \<open>
  Persistent database restores: the schemas of \<open>backend/src/utils/persistentRestorePolicy.ts\<close>, the
  guards of \<open>retainedRestoreDependency.ts\<close> and every method of
  \<open>backend/src/stores/DatabaseRestoreStore.ts\<close>.  Strings are ASCII.  The cipher of the store and
  the hash are arguments: \<open>encrypt\<close> and \<open>digest\<close> take the JSON value the code stringifies,
  \<open>decrypt\<close> gives the parsed value, \<open>None\<close> where decryption or parsing throws.  The sources under
  removal, a set in the memory of the process, are an argument too.
\<close>

section \<open>Input schemas\<close>

definition RESTORE_PURPOSE :: string where
  "RESTORE_PURPOSE = ''pluton-persistent-database-restore-v1''"

text \<open>\<open>/^[A-Za-z0-9_][A-Za-z0-9_-]{0,63}$/\<close>\<close>

definition database_name_ok :: "string \<Rightarrow> bool" where
  "database_name_ok s \<longleftrightarrow>
     s \<noteq> [] \<and> (is_alnum (hd s) \<or> hd s = CHR ''_'') \<and> length (tl s) \<le> 63 \<and> list_all is_ident_char (tl s)"

definition database_id_ok :: "string \<Rightarrow> bool" where
  "database_id_ok s \<longleftrightarrow> starts_with ''db_'' s \<and> ident_ok 80 (drop 3 s)"

definition restoreId :: "string \<Rightarrow> bool" where
  "restoreId s \<longleftrightarrow> hex_string 24 s"

definition restoreDatabaseName :: "string \<Rightarrow> bool" where
  "restoreDatabaseName s \<longleftrightarrow>
     database_name_ok s \<and>
     to_lower s \<notin> {''mysql'', ''sys'', ''postgres'', ''template0'', ''template1'', ''information_schema'',
       ''performance_schema'', ''pluton_recovery_guard'', ''pluton_restore_guard''}"

definition parse_true :: "json \<Rightarrow> unit option" where
  "parse_true j = (if j = JBool True then Some () else None)"

record restore_request =
  rq_planId :: string
  rq_backupId :: string
  rq_snapshotId :: string
  rq_databaseId :: string
  rq_metadataToken :: string
  rq_mode :: target_mode
  rq_targetId :: "string option"
  rq_ttlSeconds :: int

definition selection_keys :: "string list" where
  "selection_keys = [''planId'', ''backupId'', ''snapshotId'']"

definition selection_fields :: "(string \<times> json) list \<Rightarrow> (string \<times> string \<times> string) option" where
  "selection_fields fs =
     (case (required_field (parse_str_if (ident_ok 100)) ''planId'' fs,
            required_field (parse_str_if (ident_ok 100)) ''backupId'' fs,
            required_field (parse_str_if (hex_string 64)) ''snapshotId'' fs) of
        (Some p, Some b, Some s) \<Rightarrow> Some (p, b, s)
      | _ \<Rightarrow> None)"

fun restoreSelection :: "json \<Rightarrow> (string \<times> string \<times> string) option" where
  "restoreSelection (JObj fs) = (if strict_keys selection_keys fs then selection_fields fs else None)"
| "restoreSelection _ = None"

fun restoreRequest :: "json \<Rightarrow> restore_request option" where
  "restoreRequest (JObj fs) =
     (if \<not> strict_keys (selection_keys @ [''databaseId'', ''metadataToken'', ''mode'', ''targetId'',
           ''ttlSeconds'', ''resourcesAcknowledged'', ''securityAcknowledged'']) fs then None
      else case (selection_fields fs, required_field (parse_str_if database_id_ok) ''databaseId'' fs,
                 required_field (parse_str_if (hex_string 64)) ''metadataToken'' fs,
                 required_field parse_mode ''mode'' fs,
                 optional_field (parse_str_if restoreId) ''targetId'' fs,
                 required_field (parse_int_in 3600 (30 * 86400)) ''ttlSeconds'' fs,
                 required_field parse_true ''resourcesAcknowledged'' fs,
                 required_field parse_true ''securityAcknowledged'' fs) of
             (Some (p, b, s), Some d, Some m, Some mode, Some t, Some ttl, Some _, Some _) \<Rightarrow>
               if mode \<noteq> ModeCustom \<or> t \<noteq> None
               then Some \<lparr>rq_planId = p, rq_backupId = b, rq_snapshotId = s, rq_databaseId = d,
                          rq_metadataToken = m, rq_mode = mode, rq_targetId = t, rq_ttlSeconds = ttl\<rparr>
               else None
           | _ \<Rightarrow> None)"
| "restoreRequest _ = None"

datatype storage_kind = FixedExt4 | OperatorApprovedExternal

record approval_storage =
  as_id :: string
  as_quotaBytes :: int
  as_kind :: storage_kind

record approval_binding =
  abi_restoreId :: string
  abi_snapshotId :: string
  abi_sha256 :: string

text \<open>\<open>PersistentTargetApproval\<close>; its version and purpose are constants.\<close>

record approval =
  ap_id :: string
  ap_mode :: target_mode
  ap_activationId :: string
  ap_engine :: engine
  ap_database :: string
  ap_target :: target_config
  ap_password :: string
  ap_caSha256 :: string
  ap_maxSqlBytes :: int
  ap_maxRetentionSeconds :: int
  ap_storage :: approval_storage
  ap_binding :: "approval_binding option"
  ap_containerId :: "string option"

definition storage_id_ok :: "string \<Rightarrow> bool" where
  "storage_id_ok s \<longleftrightarrow> 32 \<le> length s \<and> length s \<le> 36 \<and> list_all (\<lambda>c. is_hex_char c \<or> c = CHR ''-'') s"

fun parse_kind :: "json \<Rightarrow> storage_kind option" where
  "parse_kind (JStr s) =
     (if s = ''fixed-ext4'' then Some FixedExt4
      else if s = ''operator-approved-external'' then Some OperatorApprovedExternal else None)"
| "parse_kind _ = None"

fun parse_approval_storage :: "json \<Rightarrow> approval_storage option" where
  "parse_approval_storage (JObj fs) =
     (if \<not> strict_keys [''id'', ''quotaBytes'', ''kind''] fs then None
      else case (required_field (parse_str_if storage_id_ok) ''id'' fs,
                 required_field (parse_int_in (512 * 1024 ^ 2) (2 * 1024 ^ 3)) ''quotaBytes'' fs,
                 required_field parse_kind ''kind'' fs) of
             (Some i, Some q, Some k) \<Rightarrow> Some \<lparr>as_id = i, as_quotaBytes = q, as_kind = k\<rparr>
           | _ \<Rightarrow> None)"
| "parse_approval_storage _ = None"

fun parse_approval_binding :: "json \<Rightarrow> approval_binding option" where
  "parse_approval_binding (JObj fs) =
     (if \<not> strict_keys [''restoreId'', ''snapshotId'', ''sha256''] fs then None
      else case (required_field (parse_str_if restoreId) ''restoreId'' fs,
                 required_field (parse_str_if (hex_string 64)) ''snapshotId'' fs,
                 required_field (parse_str_if (hex_string 64)) ''sha256'' fs) of
             (Some r, Some s, Some h) \<Rightarrow> Some \<lparr>abi_restoreId = r, abi_snapshotId = s, abi_sha256 = h\<rparr>
           | _ \<Rightarrow> None)"
| "parse_approval_binding _ = None"

text \<open>\<open>recoveryTargetSchema.safeExtend\<close>: verified TLS, enabled, a password.\<close>

definition parse_approval_target :: "json \<Rightarrow> (target_config \<times> string) option" where
  "parse_approval_target j =
     (case recovery_target_schema j of
        Some (c, Some p) \<Rightarrow>
          if tc_tls c = TlsVerifyIdentity \<and> tc_enabled c \<and> p \<noteq> [] then Some (c, p) else None
      | _ \<Rightarrow> None)"

fun persistentApprovalBase :: "json \<Rightarrow> approval option" where
  "persistentApprovalBase (JObj fs) =
     (if \<not> strict_keys [''version'', ''id'', ''purpose'', ''mode'', ''activationId'', ''engine'', ''database'',
           ''target'', ''caSha256'', ''maxSqlBytes'', ''maxRetentionSeconds'', ''storage'', ''binding'',
           ''containerId''] fs
         \<or> map_of fs ''version'' \<noteq> Some (JInt 1) \<or> map_of fs ''purpose'' \<noteq> Some (JStr RESTORE_PURPOSE)
      then None
      else case (required_field (parse_str_if restoreId) ''id'' fs, required_field parse_mode ''mode'' fs,
                 required_field (parse_str_if (hex_string 32)) ''activationId'' fs,
                 required_field parse_engine ''engine'' fs,
                 required_field (parse_str_if restoreDatabaseName) ''database'' fs,
                 required_field parse_approval_target ''target'' fs,
                 required_field (parse_str_if (hex_string 64)) ''caSha256'' fs,
                 required_field (parse_int_in 1 (448 * 1024 ^ 2)) ''maxSqlBytes'' fs,
                 required_field (parse_int_in 86400 (30 * 86400)) ''maxRetentionSeconds'' fs,
                 required_field parse_approval_storage ''storage'' fs,
                 optional_field parse_approval_binding ''binding'' fs,
                 optional_field (parse_str_if (hex_string 64)) ''containerId'' fs) of
             (Some i, Some m, Some ac, Some e, Some d, Some (t, p), Some ca, Some sql, Some ret, Some st,
              Some b, Some c) \<Rightarrow>
               Some \<lparr>ap_id = i, ap_mode = m, ap_activationId = ac, ap_engine = e, ap_database = d,
                     ap_target = t, ap_password = p, ap_caSha256 = ca, ap_maxSqlBytes = sql,
                     ap_maxRetentionSeconds = ret, ap_storage = st, ap_binding = b, ap_containerId = c\<rparr>
           | _ \<Rightarrow> None)"
| "persistentApprovalBase _ = None"

definition approval_contract_ok :: "approval \<Rightarrow> bool" where
  "approval_contract_ok a \<longleftrightarrow>
     \<not> (ap_engine a \<noteq> tc_engine (ap_target a) \<or>
        (ap_mode a = ModeInternal \<and>
          (ap_binding a = None \<or> ap_containerId a = None \<or> as_kind (ap_storage a) \<noteq> FixedExt4)) \<or>
        (ap_mode a = ModeCustom \<and> as_kind (ap_storage a) \<noteq> OperatorApprovedExternal)) \<and>
     to_lower (tc_username (ap_target a)) \<notin> {''root'', ''postgres'', ''admin'', ''administrator''}"

definition persistentApprovalSchema :: "json \<Rightarrow> approval option" where
  "persistentApprovalSchema j =
     (case persistentApprovalBase j of
        Some a \<Rightarrow> if approval_contract_ok a then Some a else None
      | None \<Rightarrow> None)"

definition restoreInput :: "(json \<Rightarrow> 'a option) \<Rightarrow> json \<Rightarrow> 'a result" where
  "restoreInput schema input =
     (case schema input of
        None \<Rightarrow> Throw (AppError 400 ''Invalid persistent database restore request.'')
      | Some v \<Rightarrow> Ok v)"

section \<open>The approval as JSON, and its fingerprint\<close>

fun engine_text :: "engine \<Rightarrow> string" where
  "engine_text Mariadb = ''mariadb''"
| "engine_text Mysql = ''mysql''"
| "engine_text Postgresql = ''postgresql''"

fun mode_text :: "target_mode \<Rightarrow> string" where
  "mode_text ModeInternal = ''internal''"
| "mode_text ModeCustom = ''custom''"

fun kind_name :: "storage_kind \<Rightarrow> string" where
  "kind_name FixedExt4 = ''fixed-ext4''"
| "kind_name OperatorApprovedExternal = ''operator-approved-external''"

definition optional_member :: "string \<Rightarrow> json option \<Rightarrow> (string \<times> json) list" where
  "optional_member k v = (case v of None \<Rightarrow> [] | Some j \<Rightarrow> [(k, j)])"

definition target_json :: "target_config \<Rightarrow> string \<Rightarrow> json" where
  "target_json c p =
     JObj [(''engine'', JStr (engine_text (tc_engine c))), (''host'', JStr (tc_host c)),
           (''port'', JInt (tc_port c)), (''username'', JStr (tc_username c)),
           (''tls'', JStr (case tc_tls c of TlsLocal \<Rightarrow> ''local'' | TlsVerifyIdentity \<Rightarrow> ''verify-identity'')),
           (''enabled'', JBool (tc_enabled c)), (''dedicated'', JBool True), (''password'', JStr p)]"

definition approval_json :: "approval \<Rightarrow> json" where
  "approval_json a =
     JObj ([(''version'', JInt 1), (''id'', JStr (ap_id a)), (''purpose'', JStr RESTORE_PURPOSE),
            (''mode'', JStr (mode_text (ap_mode a))), (''activationId'', JStr (ap_activationId a)),
            (''engine'', JStr (engine_text (ap_engine a))), (''database'', JStr (ap_database a)),
            (''target'', target_json (ap_target a) (ap_password a)), (''caSha256'', JStr (ap_caSha256 a)),
            (''maxSqlBytes'', JInt (ap_maxSqlBytes a)),
            (''maxRetentionSeconds'', JInt (ap_maxRetentionSeconds a)),
            (''storage'', JObj [(''id'', JStr (as_id (ap_storage a))),
               (''quotaBytes'', JInt (as_quotaBytes (ap_storage a))),
               (''kind'', JStr (kind_name (as_kind (ap_storage a))))])] @
           optional_member ''binding'' (map_option (\<lambda>b. JObj [(''restoreId'', JStr (abi_restoreId b)),
               (''snapshotId'', JStr (abi_snapshotId b)), (''sha256'', JStr (abi_sha256 b))]) (ap_binding a)) @
           optional_member ''containerId'' (map_option JStr (ap_containerId a)))"

text \<open>\<open>canonical\<close>: object members in the order of their keys, at every depth.\<close>

function (sequential) canonical :: "json \<Rightarrow> json" where
  "canonical (JArr xs) = JArr (map canonical xs)"
| "canonical (JObj fs) = JObj (map (\<lambda>(k, v). (k, canonical v)) (sort_key fst fs))"
| "canonical j = j"
  by pat_completeness auto
termination
proof (relation "measure size")
  show "(x, JArr xs) \<in> measure size" if "x \<in> set xs" for x xs
    using size_list_estimation' [OF that, of "size x" size] by (simp add: less_Suc_eq_le)
  show "(v, JObj fs) \<in> measure size" if "m \<in> set (sort_key fst fs)" "(k, v) = m" for m k v fs
    using size_list_estimation' [of "(k, v)" fs "size v" "size_prod (\<lambda>x. 0) size"] that
    by (auto simp: less_Suc_eq_le)
qed simp

definition approvalFingerprint :: "(json \<Rightarrow> string) \<Rightarrow> approval \<Rightarrow> string" where
  "approvalFingerprint digest a = digest (canonical (approval_json a))"

section \<open>Sources under removal\<close>

record removal_source =
  rs_planId :: "string option"
  rs_backupId :: "string option"
  rs_repositoryId :: "string option"
  rs_snapshotId :: "string option"

text \<open>
  \<open>beginSourceRemoval\<close> adds the objects of its argument to the set and returns what removes them.
  Objects of different calls are different members of the set: the set is the list of its members.
\<close>

definition beginSourceRemoval :: "removal_source list \<Rightarrow> removal_source list \<Rightarrow> removal_source list" where
  "beginSourceRemoval sources removals = removals @ sources"

definition endSourceRemoval :: "removal_source list \<Rightarrow> removal_source list \<Rightarrow> removal_source list" where
  "endSourceRemoval sources removals = fold remove1 sources removals"

definition set_and_equal :: "string option \<Rightarrow> string \<Rightarrow> bool" where
  "set_and_equal field v \<longleftrightarrow> field = Some v \<and> v \<noteq> []"

definition source_removing :: "restore_row \<Rightarrow> removal_source \<Rightarrow> bool" where
  "source_removing row s \<longleftrightarrow>
     set_and_equal (rs_planId s) (dr_planId row) \<or> set_and_equal (rs_backupId s) (dr_backupId row) \<or>
     (set_and_equal (rs_repositoryId s) (dr_repositoryId row) \<and> rs_snapshotId s = Some (dr_snapshotId row))"

definition assertRestoreSourceNotRemoving :: "removal_source list \<Rightarrow> restore_row \<Rightarrow> unit result" where
  "assertRestoreSourceNotRemoving removals row =
     refuse_if (list_ex (source_removing row) removals) DependencyError"

text \<open>
  \<open>assertNoRetainedRestoreDependency\<close>: a restore blocks the removal if it was made from the plan or
  backup, or from the same snapshot of the same repository or storage place, until it is deleted and
  verified, has no lease, and its lifecycle record is removed.
\<close>

definition restore_of :: "removal_source \<Rightarrow> restore_row \<Rightarrow> bool" where
  "restore_of s r \<longleftrightarrow>
     (case rs_planId s of
        Some p \<Rightarrow> if p \<noteq> [] then dr_planId r = p else rs_backupId s = Some (dr_backupId r)
      | None \<Rightarrow> rs_backupId s = Some (dr_backupId r))"

definition selected_by :: "removal_source \<Rightarrow> backup_row \<Rightarrow> bool" where
  "selected_by s b \<longleftrightarrow>
     (case rs_planId s of
        Some p \<Rightarrow> if p \<noteq> [] then bk_planId b = Some p else rs_backupId s = Some (bk_id b)
      | None \<Rightarrow> rs_backupId s = Some (bk_id b))"

definition same_snapshot :: "pdb \<Rightarrow> backup_row \<Rightarrow> restore_row \<Rightarrow> bool" where
  "same_snapshot db b r \<longleftrightarrow>
     length (dr_snapshotId r) = 64 \<and> bk_snapshot b = Some (dr_snapshotId r) \<and>
     (list_ex (\<lambda>repo. rp_id repo = dr_repositoryId r \<and> Some (rp_planId repo) = bk_planId b)
        (t_repositories db) \<or>
      list_ex (\<lambda>orig. bk_id orig = dr_backupId r \<and> bk_storageId orig \<noteq> None \<and> bk_storagePath orig \<noteq> None \<and>
          bk_storageId orig = bk_storageId b \<and> bk_storagePath orig = bk_storagePath b) (t_backups db))"

definition unfinished :: "pdb \<Rightarrow> restore_row \<Rightarrow> bool" where
  "unfinished db r \<longleftrightarrow>
     dr_status r \<noteq> DDeleted \<or> dr_cleanup r \<noteq> CVerified \<or>
     list_ex (\<lambda>l. dl_restoreId l = dr_id r) (t_dbRestoreLeases db) \<or>
     list_ex (\<lambda>l. lr_id l = dr_id r \<and> lr_state l \<noteq> SRemoved) (t_lifecycle db)"

definition assertNoRetainedRestoreDependency :: "removal_source \<Rightarrow> pdb \<Rightarrow> unit result" where
  "assertNoRetainedRestoreDependency s db =
     refuse_if (list_ex (\<lambda>r.
         (restore_of s r \<or>
          list_ex (\<lambda>b. selected_by s b \<and> (bk_id b = dr_backupId r \<or> same_snapshot db b r)) (t_backups db)) \<and>
         unfinished db r) (t_dbRestores db))
       DependencyError"

section \<open>Reading the store\<close>

definition dr_get :: "string \<Rightarrow> pdb \<Rightarrow> restore_row option" where
  "dr_get k db = row_by dr_id k (t_dbRestores db)"

text \<open>Deleted rows last, then the newest first; equal times in descending order of their ids.\<close>

definition dr_list :: "pdb \<Rightarrow> restore_row list" where
  "dr_list db =
     take 200 (order_by (\<lambda>r. dr_status r = DDeleted)
       (order_by (\<lambda>r. - dr_createdAt r) (rev (order_by dr_id (t_dbRestores db)))))"

definition dr_pending :: "pdb \<Rightarrow> restore_row list" where
  "dr_pending db =
     take 200 (order_by dr_createdAt (filter (\<lambda>r.
       dr_status r \<noteq> DDeleted \<or>
       list_ex (\<lambda>l. lr_id l = dr_id r \<and> lr_mode l = LPersistent \<and> lr_state l \<noteq> SRemoved) (t_lifecycle db))
       (t_dbRestores db)))"

section \<open>Creating and updating\<close>

text \<open>
  The constraints of the table: the primary key, the target reserved by one restore that is not
  deleted, a single executor.
\<close>

abbreviation retained :: "restore_row \<Rightarrow> bool" where
  "retained r \<equiv> dr_status r \<noteq> DDeleted"

definition restore_indexes :: "restore_row list \<Rightarrow> bool" where
  "restore_indexes rows \<longleftrightarrow>
     distinct (map dr_id rows) \<and> distinct (map dr_targetId (filter retained rows)) \<and>
     count_where restore_executing rows \<le> 1"

definition restore_source :: "restore_row \<Rightarrow> pdb \<Rightarrow> bool" where
  "restore_source row db \<longleftrightarrow>
     plan_exists (dr_planId row) db \<and>
     list_ex (\<lambda>b. bk_id b = dr_backupId row \<and> bk_planId b = Some (dr_planId row) \<and>
        bk_snapshot b = Some (dr_snapshotId row)) (t_backups db) \<and>
     list_ex (\<lambda>r. rp_id r = dr_repositoryId row \<and> rp_planId r = dr_planId row) (t_repositories db)"

text \<open>The columns of the insert; the others take their defaults.\<close>

definition inserted_row :: "restore_row \<Rightarrow> restore_row" where
  "inserted_row row =
     row\<lparr>dr_targetFingerprint := None, dr_encryptedApproval := None, dr_database := None,
         dr_startedAt := None, dr_completedAt := None, dr_failureStage := None, dr_failureCode := None,
         dr_lastValidatedAt := None, dr_inspection := None, dr_errorCode := None,
         dr_cancelRequested := False\<rparr>"

definition dr_create ::
  "removal_source list \<Rightarrow> restore_row \<Rightarrow> pdb \<Rightarrow> (restore_row \<times> pdb) result" where
  "dr_create removals row db =
     bind_result (assertRestoreSourceNotRemoving removals row) (\<lambda>_.
       if \<not> restore_source row db then Throw DependencyError
       else if 8 \<le> count_where retained (t_dbRestores db) then Throw (RestoreError ''retained-restore-limit'')
       else if dr_purpose row = RESTORE_PURPOSE \<and> length (dr_snapshotId row) = 64 \<and>
               restore_indexes (t_dbRestores db @ [inserted_row row])
       then Ok (inserted_row row, db\<lparr>t_dbRestores := t_dbRestores db @ [inserted_row row]\<rparr>)
       else Throw (RestoreError ''target-already-reserved''))"

text \<open>A partial row of \<open>update\<close>: an absent member is \<open>None\<close>.\<close>

record restore_changes =
  rc_status :: "restore_status option"
  rc_stage :: "string option"
  rc_cleanup :: "restore_cleanup option"
  rc_startedAt :: "int option option"
  rc_completedAt :: "int option option"
  rc_failureStage :: "string option option"
  rc_failureCode :: "string option option"
  rc_expiresAt :: "int option"
  rc_lastValidatedAt :: "int option option"
  rc_inspection :: "json option option"
  rc_errorCode :: "string option option"
  rc_cancelRequested :: "bool option"
  rc_database :: "string option option"

definition unchanged :: restore_changes where
  "unchanged =
     \<lparr>rc_status = None, rc_stage = None, rc_cleanup = None, rc_startedAt = None, rc_completedAt = None,
      rc_failureStage = None, rc_failureCode = None, rc_expiresAt = None, rc_lastValidatedAt = None,
      rc_inspection = None, rc_errorCode = None, rc_cancelRequested = None, rc_database = None\<rparr>"

definition change_row :: "restore_changes \<Rightarrow> restore_row \<Rightarrow> restore_row" where
  "change_row c r =
     r\<lparr>dr_status := keep (rc_status c) (dr_status r), dr_stage := keep (rc_stage c) (dr_stage r),
       dr_cleanup := keep (rc_cleanup c) (dr_cleanup r), dr_startedAt := keep (rc_startedAt c) (dr_startedAt r),
       dr_completedAt := keep (rc_completedAt c) (dr_completedAt r),
       dr_failureStage := keep (rc_failureStage c) (dr_failureStage r),
       dr_failureCode := keep (rc_failureCode c) (dr_failureCode r),
       dr_expiresAt := keep (rc_expiresAt c) (dr_expiresAt r),
       dr_lastValidatedAt := keep (rc_lastValidatedAt c) (dr_lastValidatedAt r),
       dr_inspection := keep (rc_inspection c) (dr_inspection r),
       dr_errorCode := keep (rc_errorCode c) (dr_errorCode r),
       dr_cancelRequested := keep (rc_cancelRequested c) (dr_cancelRequested r),
       dr_database := keep (rc_database c) (dr_database r)\<rparr>"

definition dr_update ::
  "string \<Rightarrow> restore_changes \<Rightarrow> pdb \<Rightarrow> (restore_row option \<times> pdb) result" where
  "dr_update k c db =
     (if c = unchanged then Ok (dr_get k db, db)
      else let rows = update_where (\<lambda>r. dr_id r = k) (change_row c) (t_dbRestores db);
               db' = db\<lparr>t_dbRestores := rows\<rparr>
           in if restore_indexes rows then Ok (dr_get k db', db') else Throw SqlError)"

section \<open>The approved target\<close>

definition dr_bind ::
  "(json \<Rightarrow> string) \<Rightarrow> (json \<Rightarrow> string) \<Rightarrow> string \<Rightarrow> approval \<Rightarrow> pdb \<Rightarrow> (restore_row option \<times> pdb) result" where
  "dr_bind digest encrypt k a db =
     (case dr_get k db of
        None \<Rightarrow> Throw (RestoreError ''target-binding-mismatch'')
      | Some row \<Rightarrow>
          if dr_targetId row \<noteq> ap_id a \<or> dr_mode row \<noteq> ap_mode a
          then Throw (RestoreError ''target-binding-mismatch'')
          else let fingerprint = approvalFingerprint digest a
               in if dr_targetFingerprint row \<noteq> None \<and> dr_targetFingerprint row \<noteq> Some [] \<and>
                     dr_targetFingerprint row \<noteq> Some fingerprint
                  then Throw (RestoreError ''target-activation-changed'')
                  else if dr_encryptedApproval row = None \<or> dr_encryptedApproval row = Some []
                  then let db' = db\<lparr>t_dbRestores :=
                             update_where (\<lambda>r. dr_id r = k \<and> dr_encryptedApproval r = None)
                               (\<lambda>r. r\<lparr>dr_targetFingerprint := Some fingerprint,
                                      dr_encryptedApproval := Some (encrypt (approval_json a))\<rparr>)
                               (t_dbRestores db)\<rparr>
                       in Ok (dr_get k db', db')
                  else Ok (Some row, db))"

definition dr_approval :: "(string \<Rightarrow> json option) \<Rightarrow> string \<Rightarrow> pdb \<Rightarrow> json result" where
  "dr_approval decrypt k db =
     (let unavailable = Throw (RestoreError ''target-credentials-unavailable'')
      in case dr_get k db of
           None \<Rightarrow> unavailable
         | Some row \<Rightarrow>
             (case dr_encryptedApproval row of
                None \<Rightarrow> unavailable
              | Some s \<Rightarrow>
                  if s = [] then unavailable
                  else (case decrypt s of None \<Rightarrow> unavailable | Some j \<Rightarrow> Ok j)))"

text \<open>The host names the check treats as the same server.\<close>

definition drop_final_dot :: "string \<Rightarrow> string" where
  "drop_final_dot s = (if s \<noteq> [] \<and> last s = CHR ''.'' then butlast s else s)"

definition drop_brackets :: "string \<Rightarrow> string" where
  "drop_brackets s =
     (let t = (if s \<noteq> [] \<and> hd s = CHR ''['' then tl s else s)
      in if t \<noteq> [] \<and> last t = CHR '']'' then butlast t else t)"

definition normalize_host :: "string \<Rightarrow> string" where
  "normalize_host s =
     (let t = drop_brackets (drop_final_dot (to_lower s))
      in if t = ''localhost'' \<or> t = ''::1'' then ''127.0.0.1'' else t)"

definition source_port :: "source_database \<Rightarrow> int" where
  "source_port e =
     (case sd_port e of
        Some p \<Rightarrow> if p \<noteq> 0 then p else if sd_engine e = ''postgresql'' then 5432 else 3306
      | None \<Rightarrow> if sd_engine e = ''postgresql'' then 5432 else 3306)"

definition assertNotSource :: "approval \<Rightarrow> pdb \<Rightarrow> unit result" where
  "assertNotSource a db =
     refuse_if (list_ex (\<lambda>p. list_ex (\<lambda>e.
         normalize_host (sd_host e) = normalize_host (tc_host (ap_target a)) \<and>
         source_port e = tc_port (ap_target a)) (pl_databases p)) (t_plans db))
       (RestoreError ''source-database-target-refused'')"

section \<open>Execution\<close>

definition dr_busy :: "string \<Rightarrow> pdb \<Rightarrow> bool" where
  "dr_busy exceptId db \<longleftrightarrow>
     list_ex (\<lambda>t. rt_status t = RRunning) (t_recoveryTests db) \<or>
     list_ex (\<lambda>r. restore_executing r \<and> dr_id r \<noteq> exceptId) (t_dbRestores db) \<or>
     list_ex (\<lambda>b. bk_inProgress b = Some True) (t_backups db) \<or>
     list_ex (\<lambda>b. b) (t_restoresInProgress db)"

definition claimable_restore :: "int \<Rightarrow> bool \<Rightarrow> restore_row \<Rightarrow> bool" where
  "claimable_restore now cleanup row \<longleftrightarrow>
     (if cleanup
      then dr_status row \<in> {DCleanupRequired, DExpired, DCancelled, DFailed, DActive, DStopped} \<and>
           dr_cancelRequested row
      else \<not> (dr_status row \<noteq> DQueued \<or> dr_cancelRequested row \<or> dr_expiresAt row \<le> now))"

definition claim_changes :: "int \<Rightarrow> bool \<Rightarrow> restore_row \<Rightarrow> restore_changes" where
  "claim_changes now cleanup row =
     unchanged\<lparr>rc_status := Some (if cleanup then DDeleting else DImporting),
                rc_stage := Some (if cleanup then ''database-cleanup'' else ''snapshot-validation''),
                rc_startedAt := Some (case dr_startedAt row of
                   Some t \<Rightarrow> if t \<noteq> 0 then Some t else Some now | None \<Rightarrow> Some now)\<rparr>"

definition dr_claim :: "int \<Rightarrow> string \<Rightarrow> bool \<Rightarrow> pdb \<Rightarrow> (restore_row option \<times> pdb) result" where
  "dr_claim now k cleanup db =
     (if dr_busy [] db then Ok (None, db)
      else case dr_get k db of
             None \<Rightarrow> Ok (None, db)
           | Some row \<Rightarrow>
               if \<not> claimable_restore now cleanup row then Ok (None, db)
               else dr_update k (claim_changes now cleanup row) db)"

definition dr_lease :: "string \<Rightarrow> pdb \<Rightarrow> restore_lease option" where
  "dr_lease k db = row_by dl_restoreId k (t_dbRestoreLeases db)"

definition dr_addLease :: "restore_lease \<Rightarrow> pdb \<Rightarrow> pdb result" where
  "dr_addLease l db =
     (case dr_get (dl_restoreId l) db of
        None \<Rightarrow> Throw (RestoreError ''ownership-lease-unsafe'')
      | Some row \<Rightarrow>
          if dr_ownerToken row \<noteq> dl_ownerToken l \<or> dr_targetId row \<noteq> dl_targetId l \<or>
             dr_status row \<noteq> DImporting \<or> dr_lease (dr_id row) db \<noteq> None
          then Throw (RestoreError ''ownership-lease-unsafe'')
          else map_sum id snd (dr_update (dr_id row) (unchanged\<lparr>rc_database := Some (Some (dl_database l))\<rparr>)
                 (db\<lparr>t_dbRestoreLeases := t_dbRestoreLeases db @ [l]\<rparr>)))"

definition dr_leaseState :: "string \<Rightarrow> lease_state \<Rightarrow> pdb \<Rightarrow> pdb" where
  "dr_leaseState k st db =
     db\<lparr>t_dbRestoreLeases := update_where (\<lambda>l. dl_restoreId l = k) (\<lambda>l. l\<lparr>dl_state := st\<rparr>)
          (t_dbRestoreLeases db)\<rparr>"

definition dr_removeLease :: "string \<Rightarrow> pdb \<Rightarrow> pdb" where
  "dr_removeLease k db =
     db\<lparr>t_dbRestoreLeases := delete_where (\<lambda>l. dl_restoreId l = k) (t_dbRestoreLeases db)\<rparr>"

section \<open>Deletion and interruption\<close>

definition deleted_row :: "int \<Rightarrow> restore_row \<Rightarrow> restore_row" where
  "deleted_row now r =
     r\<lparr>dr_status := DDeleted, dr_cleanup := CVerified, dr_stage := ''deleted'',
       dr_lastValidatedAt := Some now, dr_encryptedApproval := None, dr_inspection := None\<rparr>"

definition finishDeleted :: "int \<Rightarrow> string \<Rightarrow> pdb \<Rightarrow> (restore_row option \<times> pdb) result" where
  "finishDeleted now k db =
     (if dr_lease k db \<noteq> None then Throw (RestoreError ''ownership-lease-unsafe'')
      else let db' = db\<lparr>t_dbRestores := update_where (\<lambda>r. dr_id r = k) (deleted_row now) (t_dbRestores db)\<rparr>
           in Ok (dr_get k db', db'))"

definition delete_changes :: "restore_row \<Rightarrow> restore_changes" where
  "delete_changes row =
     unchanged\<lparr>rc_cancelRequested := Some True, rc_cleanup := Some CRequested,
                rc_status := (if restore_executing row then None else Some DCleanupRequired)\<rparr>"

definition requestDelete :: "string \<Rightarrow> pdb \<Rightarrow> (restore_row option \<times> pdb) result" where
  "requestDelete k db =
     (case dr_get k db of
        None \<Rightarrow> Ok (None, db)
      | Some row \<Rightarrow>
          if dr_status row = DDeleted then Ok (Some row, db)
          else if dr_cleanup row = CInfrastructurePending then Ok (Some row, db)
          else dr_update k (delete_changes row) db)"

definition recoverInterrupted :: "pdb \<Rightarrow> pdb" where
  "recoverInterrupted db =
     db\<lparr>t_dbRestores := update_where restore_executing
          (\<lambda>r. r\<lparr>dr_status := DCleanupRequired, dr_cleanup := CUncertain, dr_cancelRequested := True,
                 dr_errorCode := Some ''interrupted''\<rparr>) (t_dbRestores db)\<rparr>"

end
