(* ===== verification/Restore_Guarantees.thy ===== *)
theory Restore_Guarantees
  imports Restore_Store Recovery_Guarantees
begin

text \<open>
  The persistent restore store as a step relation: one executor, at most eight retained restores on
  distinct targets, leases only on retained restores, immutable targets, cancellation that no later
  operation undoes, and the protection of the sources of retained restores.
\<close>

section \<open>The steps of the store\<close>

text \<open>
  What the restore service passes to \<open>update\<close>: it never withdraws a cancellation, never writes the
  database name, and changes the status and the cleanup of a retained row only, the status to one of the resting states.
  New rows have an id and are queued or await provisioning.
\<close>

definition service_changes :: "string \<Rightarrow> restore_changes \<Rightarrow> pdb \<Rightarrow> bool" where
  "service_changes k c db \<longleftrightarrow>
     rc_cancelRequested c \<noteq> Some False \<and> rc_database c = None \<and>
     rc_status c \<notin> {Some DImporting, Some DDeleting, Some DDeleted} \<and>
     (rc_status c = None \<and> rc_cleanup c = None \<or> (\<forall>r. dr_get k db = Some r \<longrightarrow> retained r))"

inductive rs_step :: "removal_source list \<Rightarrow> pdb \<Rightarrow> pdb \<Rightarrow> bool"
  for removals :: "removal_source list" where
  ss_create: "dr_status row \<in> {DProvisioning, DQueued} \<Longrightarrow> dr_id row \<noteq> [] \<Longrightarrow> dr_create removals row db = Ok (r, db') \<Longrightarrow> rs_step removals db db'"
| ss_update: "service_changes k c db \<Longrightarrow> dr_update k c db = Ok (r, db') \<Longrightarrow> rs_step removals db db'"
| ss_bind: "dr_bind digest encrypt k a db = Ok (r, db') \<Longrightarrow> rs_step removals db db'"
| ss_claim: "dr_claim now k cleanup db = Ok (r, db') \<Longrightarrow> rs_step removals db db'"
| ss_lease: "dr_addLease l db = Ok db' \<Longrightarrow> rs_step removals db db'"
| ss_state: "rs_step removals db (dr_leaseState k st db)"
| ss_unlease: "rs_step removals db (dr_removeLease k db)"
| ss_deleted: "finishDeleted now k db = Ok (r, db') \<Longrightarrow> rs_step removals db db'"
| ss_delete: "requestDelete k db = Ok (r, db') \<Longrightarrow> rs_step removals db db'"
| ss_interrupted: "rs_step removals db (recoverInterrupted db)"
| ss_other: "t_dbRestores db' = t_dbRestores db \<Longrightarrow> t_dbRestoreLeases db' = t_dbRestoreLeases db \<Longrightarrow> rs_step removals db db'"

text \<open>The columns that the trigger \<open>persistent_restore_binding_immutable\<close> and the key fix.\<close>

definition restore_binding :: "restore_row \<Rightarrow> restore_row" where
  "restore_binding r =
     r\<lparr>dr_targetFingerprint := None, dr_encryptedApproval := None, dr_database := None, dr_status := DQueued,
       dr_stage := [], dr_cleanup := CNone, dr_startedAt := None, dr_completedAt := None,
       dr_failureStage := None, dr_failureCode := None, dr_expiresAt := 0, dr_lastValidatedAt := None,
       dr_inspection := None, dr_errorCode := None, dr_cancelRequested := False\<rparr>"

lemma restore_binding_key:
  assumes "restore_binding r = restore_binding q"
  shows "dr_id r = dr_id q" "dr_targetId r = dr_targetId q" "dr_ownerToken r = dr_ownerToken q"
    "dr_planId r = dr_planId q" "dr_mode r = dr_mode q"
  using assms by (cases r; cases q; simp add: restore_binding_def)+

text \<open>What a step may do to one row.\<close>

definition row_step :: "restore_row \<Rightarrow> restore_row \<Rightarrow> bool" where
  "row_step r r' \<longleftrightarrow>
     restore_binding r' = restore_binding r \<and>
     (dr_status r = DDeleted \<longrightarrow> dr_status r' = DDeleted) \<and>
     (dr_status r = DDeleted \<and> dr_cleanup r = CVerified \<longrightarrow> dr_cleanup r' = CVerified) \<and>
     (dr_cancelRequested r \<longrightarrow> dr_cancelRequested r') \<and>
     (dr_status r' = DImporting \<longrightarrow> dr_status r = DImporting \<or> (dr_status r = DQueued \<and> \<not> dr_cancelRequested r)) \<and>
     (\<forall>f. f \<noteq> [] \<longrightarrow> dr_targetFingerprint r = Some f \<longrightarrow> dr_targetFingerprint r' = Some f)"

lemma row_step_refl: "row_step r r"
  by (simp add: row_step_def)

abbreviation rows_step :: "restore_row list \<Rightarrow> restore_row list \<Rightarrow> bool" where
  "rows_step \<equiv> list_all2 row_step"

lemma rows_step_refl: "rows_step rows rows"
  by (simp add: list.rel_refl row_step_refl)

lemma rows_step_update:
  "(\<And>r. r \<in> set rows \<Longrightarrow> p r \<Longrightarrow> row_step r (f r)) \<Longrightarrow> rows_step rows (update_where p f rows)"
  by (induction rows) (auto simp: row_step_refl)

lemma change_row_binding: "restore_binding (change_row c r) = restore_binding r"
  by (simp add: restore_binding_def change_row_def)

lemma change_row_fields:
  "dr_status (change_row c r) = keep (rc_status c) (dr_status r)"
  "dr_cleanup (change_row c r) = keep (rc_cleanup c) (dr_cleanup r)"
  "dr_cancelRequested (change_row c r) = keep (rc_cancelRequested c) (dr_cancelRequested r)"
  "dr_targetFingerprint (change_row c r) = dr_targetFingerprint r"
  "dr_database (change_row c r) = keep (rc_database c) (dr_database r)"
  "dr_id (change_row c r) = dr_id r" "dr_targetId (change_row c r) = dr_targetId r"
  "dr_ownerToken (change_row c r) = dr_ownerToken r"
  by (simp_all add: change_row_def)

lemma dr_update_rows:
  assumes "dr_update k c db = Ok (r, db')"
  shows "t_dbRestores db' = t_dbRestores db \<or>
     (t_dbRestores db' = update_where (\<lambda>r. dr_id r = k) (change_row c) (t_dbRestores db) \<and>
      restore_indexes (t_dbRestores db'))"
    and "t_dbRestoreLeases db' = t_dbRestoreLeases db" and "t_recoveryTests db' = t_recoveryTests db"
  using assms by (auto simp: dr_update_def Let_def split: if_splits)

lemma dr_update_rows_step:
  assumes "dr_update k c db = Ok (r, db')" and "restore_indexes (t_dbRestores db)"
    and "\<And>r. r \<in> set (t_dbRestores db) \<Longrightarrow> dr_id r = k \<Longrightarrow> row_step r (change_row c r)"
  shows "rows_step (t_dbRestores db) (t_dbRestores db') \<and> restore_indexes (t_dbRestores db')"
  using dr_update_rows(1) [OF assms(1)] assms(2,3) by (auto simp: rows_step_refl intro!: rows_step_update)

lemma restore_indexes_update:
  assumes "restore_indexes rows"
    and "\<And>r. dr_id (f r) = dr_id r" "\<And>r. dr_targetId (f r) = dr_targetId r"
    and "\<And>r. p r \<Longrightarrow> retained (f r) \<Longrightarrow> retained r"
    and "\<And>r. p r \<Longrightarrow> restore_executing (f r) \<Longrightarrow> restore_executing r"
  shows "restore_indexes (update_where p f rows)"
proof -
  have sub: "t \<in> dr_targetId ` {r \<in> set (update_where p f rows). retained r} \<Longrightarrow>
      t \<in> dr_targetId ` {r \<in> set rows. retained r}" for t rows
    using assms(3,4) by (force simp: in_update_where image_iff split: if_splits)
  have "distinct (map dr_targetId (filter retained rows)) \<longrightarrow>
     distinct (map dr_targetId (filter retained (update_where p f rows)))" for rows
  proof (induction rows)
    case (Cons r rows)
    have "dr_targetId r \<in> dr_targetId ` {r \<in> set rows. retained r}"
      if "dr_targetId r \<in> dr_targetId ` {r \<in> set (update_where p f rows). retained r}"
      using sub [OF that] .
    with Cons assms(3,4) show ?case by auto
  qed simp
  moreover have "map dr_id (update_where p f rows) = map dr_id rows"
    using assms(2) by (simp add: map_update_where)
  moreover have "count_where restore_executing (update_where p f rows) \<le> count_where restore_executing rows"
    using assms(5) by (intro count_where_update_le)
  ultimately show ?thesis using assms(1) by (auto simp: restore_indexes_def)
qed

lemma row_by_id: "restore_indexes (t_dbRestores db) \<Longrightarrow> r \<in> set (t_dbRestores db) \<Longrightarrow> dr_get (dr_id r) db = Some r"
  by (simp add: dr_get_def restore_indexes_def row_by_unique)

lemma service_changes_row_step:
  assumes "service_changes k c db" "dr_get k db = Some r"
  shows "row_step r (change_row c r)"
  using assms
  by (auto simp: row_step_def change_row_binding change_row_fields service_changes_def keep_def split: option.splits)

lemma claim_row_step:
  assumes "claimable_restore now cleanup r"
  shows "row_step r (change_row (claim_changes now cleanup r) r)"
  using assms
  by (auto simp: row_step_def change_row_binding change_row_fields claim_changes_def unchanged_def keep_def
      claimable_restore_def split: if_splits)

lemma delete_row_step: "retained r \<Longrightarrow> row_step r (change_row (delete_changes r) r)"
  by (auto simp: row_step_def change_row_binding change_row_fields delete_changes_def unchanged_def keep_def)

definition bound_row :: "string \<Rightarrow> string \<Rightarrow> restore_row \<Rightarrow> restore_row" where
  "bound_row fingerprint secret r = r\<lparr>dr_targetFingerprint := Some fingerprint, dr_encryptedApproval := Some secret\<rparr>"

lemma dr_bind_cases:
  assumes "dr_bind digest encrypt k a db = Ok (r, db')"
  obtains (same) "db' = db"
  | (bound) row where "dr_get k db = Some row" "dr_targetId row = ap_id a" "dr_mode row = ap_mode a"
      "dr_targetFingerprint row \<in> {None, Some [], Some (approvalFingerprint digest a)}"
      "db' = db\<lparr>t_dbRestores := update_where (\<lambda>r. dr_id r = k \<and> dr_encryptedApproval r = None)
         (bound_row (approvalFingerprint digest a) (encrypt (approval_json a))) (t_dbRestores db)\<rparr>"
proof -
  from assms obtain row where row: "dr_get k db = Some row" "dr_targetId row = ap_id a" "dr_mode row = ap_mode a"
    "dr_targetFingerprint row \<in> {None, Some [], Some (approvalFingerprint digest a)}"
    by (auto simp: dr_bind_def Let_def split: option.splits if_splits)
  show thesis
  proof (cases "dr_encryptedApproval row = None \<or> dr_encryptedApproval row = Some []")
    case True
    with assms row show thesis
      by (intro bound [OF row]) (auto simp: dr_bind_def Let_def bound_row_def [abs_def] split: if_splits)
  next
    case False
    with assms row have "db' = db" by (auto simp: dr_bind_def Let_def split: if_splits)
    then show thesis by (rule same)
  qed
qed

lemma bound_row_fields:
  "dr_id (bound_row f s r) = dr_id r" "dr_targetId (bound_row f s r) = dr_targetId r"
  "dr_status (bound_row f s r) = dr_status r" "dr_cleanup (bound_row f s r) = dr_cleanup r" "dr_ownerToken (bound_row f s r) = dr_ownerToken r"
  "dr_database (bound_row f s r) = dr_database r" "dr_cancelRequested (bound_row f s r) = dr_cancelRequested r"
  "dr_targetFingerprint (bound_row f s r) = Some f" "dr_encryptedApproval (bound_row f s r) = Some s"
  "restore_binding (bound_row f s r) = restore_binding r"
  by (simp_all add: bound_row_def restore_binding_def)

lemma restore_executing_simps:
  "restore_executing (bound_row f s r) = restore_executing r" "restore_executing (deleted_row now r) = False"
  by (simp_all add: restore_executing_def bound_row_def deleted_row_def)

lemma dr_addLease_cases:
  assumes "dr_addLease l db = Ok db'"
  obtains row r where "dr_get (dl_restoreId l) db = Some row" "dr_ownerToken row = dl_ownerToken l"
    "dr_targetId row = dl_targetId l" "dr_status row = DImporting" "dr_lease (dl_restoreId l) db = None"
    "dr_update (dl_restoreId l) (unchanged\<lparr>rc_database := Some (Some (dl_database l))\<rparr>)
       (db\<lparr>t_dbRestoreLeases := t_dbRestoreLeases db @ [l]\<rparr>) = Ok (r, db')"
proof -
  from assms obtain row where row: "dr_get (dl_restoreId l) db = Some row"
    by (auto simp: dr_addLease_def split: option.splits)
  then have "dr_id row = dl_restoreId l" by (auto simp: dr_get_def dest: row_by_SomeD)
  with assms row that show thesis
    by (cases "dr_update (dl_restoreId l) (unchanged\<lparr>rc_database := Some (Some (dl_database l))\<rparr>)
       (db\<lparr>t_dbRestoreLeases := t_dbRestoreLeases db @ [l]\<rparr>)")
       (auto simp: dr_addLease_def split: if_splits)
qed

lemma database_row_step: "row_step r (change_row (unchanged\<lparr>rc_database := d\<rparr>) r)"
  by (simp add: row_step_def change_row_binding change_row_fields unchanged_def keep_def)

lemma deleted_row_step: "row_step r (deleted_row now r)"
  by (simp add: row_step_def deleted_row_def restore_binding_def)

lemma dr_claim_cases:
  assumes "dr_claim now k cleanup db = Ok (r, db')"
  obtains (idle) "db' = db"
  | (started) row where "\<not> dr_busy [] db" "dr_get k db = Some row" "claimable_restore now cleanup row"
      "dr_update k (claim_changes now cleanup row) db = Ok (r, db')"
  using assms by (auto simp: dr_claim_def split: if_splits option.splits)

lemma requestDelete_cases:
  assumes "requestDelete k db = Ok (r, db')"
  obtains (idle) "db' = db"
  | (requested) row where "dr_get k db = Some row" "retained row" "dr_update k (delete_changes row) db = Ok (r, db')"
  using assms by (auto simp: requestDelete_def split: if_splits option.splits)

lemma rs_step_rows:
  assumes "rs_step removals db db'" and ok: "restore_indexes (t_dbRestores db)"
  obtains (insert) row where "t_dbRestores db' = t_dbRestores db @ [inserted_row row]"
      "\<not> list_ex (source_removing row) removals" "dr_id row \<noteq> []"
      "dr_status row \<in> {DProvisioning, DQueued}" "count_where retained (t_dbRestores db) < 8"
      "restore_indexes (t_dbRestores db')" "t_dbRestoreLeases db' = t_dbRestoreLeases db"
  | (progress) "rows_step (t_dbRestores db) (t_dbRestores db')" "restore_indexes (t_dbRestores db')"
  using assms(1)
proof cases
  case (ss_create row r)
  then show thesis
    by (intro insert [of row])
       (auto simp: dr_create_def bind_result_Inr_iff assertRestoreSourceNotRemoving_def split: if_splits)
next
  case (ss_update k c r)
  have "row_step x (change_row c x)" if "x \<in> set (t_dbRestores db)" "dr_id x = k" for x
    using service_changes_row_step [OF ss_update(1)] row_by_id [OF ok that(1)] that(2) by simp
  then show thesis using dr_update_rows_step [OF ss_update(2) ok] progress by blast
next
  case (ss_bind digest encrypt k a r)
  from ss_bind show thesis
  proof (cases rule: dr_bind_cases)
    case same
    with ok show thesis by (intro progress) (simp_all add: rows_step_refl)
  next
    case (bound row)
    have "row_step x (bound_row (approvalFingerprint digest a) s x)" if "x \<in> set (t_dbRestores db)" "dr_id x = k" for x s
    proof -
      have "x = row" using row_by_id [OF ok that(1)] that(2) bound(1) by simp
      with bound(4) show ?thesis by (auto simp: row_step_def bound_row_fields)
    qed
    then have "rows_step (t_dbRestores db) (t_dbRestores db')"
      unfolding bound(5) by (auto intro: rows_step_update)
    moreover have "restore_indexes (t_dbRestores db')"
      unfolding bound(5)
      by (simp, rule restore_indexes_update [OF ok]) (simp_all add: bound_row_fields restore_executing_simps)
    ultimately show thesis by (rule progress)
  qed
next
  case (ss_claim now k cleanup r)
  from ss_claim show thesis
  proof (cases rule: dr_claim_cases)
    case idle
    with ok show thesis by (intro progress) (simp_all add: rows_step_refl)
  next
    case (started row)
    have "row_step x (change_row (claim_changes now cleanup row) x)" if "x \<in> set (t_dbRestores db)" "dr_id x = k" for x
      using row_by_id [OF ok that(1)] that(2) started(2) claim_row_step [OF started(3)] by simp
    then show thesis using dr_update_rows_step [OF started(4) ok] progress by blast
  qed
next
  case (ss_lease l)
  then obtain r where u: "dr_update (dl_restoreId l) (unchanged\<lparr>rc_database := Some (Some (dl_database l))\<rparr>)
       (db\<lparr>t_dbRestoreLeases := t_dbRestoreLeases db @ [l]\<rparr>) = Ok (r, db')"
    using dr_addLease_cases by metis
  show thesis using dr_update_rows_step [OF u] ok database_row_step progress by simp
next
  case (ss_state k st)
  with ok show thesis by (intro progress) (simp_all add: rows_step_refl dr_leaseState_def)
next
  case (ss_unlease k)
  with ok show thesis by (intro progress) (simp_all add: rows_step_refl dr_removeLease_def)
next
  case (ss_deleted now k r)
  then have "t_dbRestores db' = update_where (\<lambda>r. dr_id r = k) (deleted_row now) (t_dbRestores db)"
    by (auto simp: finishDeleted_def Let_def split: if_splits)
  moreover have "restore_indexes (update_where (\<lambda>r. dr_id r = k) (deleted_row now) (t_dbRestores db))"
    by (rule restore_indexes_update [OF ok]) (simp_all add: restore_executing_simps, simp_all add: deleted_row_def)
  ultimately show thesis by (intro progress) (simp_all add: rows_step_update deleted_row_step)
next
  case (ss_delete k r)
  from ss_delete show thesis
  proof (cases rule: requestDelete_cases)
    case idle
    with ok show thesis by (intro progress) (simp_all add: rows_step_refl)
  next
    case (requested row)
    have "row_step x (change_row (delete_changes row) x)" if "x \<in> set (t_dbRestores db)" "dr_id x = k" for x
      using row_by_id [OF ok that(1)] that(2) requested(1) delete_row_step [OF requested(2)] by simp
    then show thesis using dr_update_rows_step [OF requested(3) ok] progress by blast
  qed
next
  case ss_interrupted
  have "row_step r (r\<lparr>dr_status := DCleanupRequired, dr_cleanup := CUncertain, dr_cancelRequested := True,
       dr_errorCode := Some ''interrupted''\<rparr>)" if "restore_executing r" for r
    using that by (auto simp: row_step_def restore_binding_def restore_executing_def)
  moreover have "restore_indexes (t_dbRestores (recoverInterrupted db))"
    unfolding recoverInterrupted_def
    by (simp, rule restore_indexes_update [OF ok]) (auto simp: restore_executing_def)
  ultimately show thesis using ss_interrupted
    by (intro progress) (simp_all add: recoverInterrupted_def rows_step_update)
next
  case ss_other
  with ok show thesis by (intro progress) (simp_all add: rows_step_refl)
qed

section \<open>The invariant of the store\<close>

definition lease_owned :: "restore_row list \<Rightarrow> restore_lease \<Rightarrow> bool" where
  "lease_owned rows l \<longleftrightarrow>
     (\<exists>r \<in> set rows. dr_id r = dl_restoreId l \<and> dr_targetId r = dl_targetId l \<and>
        dr_ownerToken r = dl_ownerToken l \<and> retained r \<and> dr_database r = Some (dl_database l))"

definition leases_ok :: "pdb \<Rightarrow> bool" where
  "leases_ok db \<longleftrightarrow>
     distinct (map dl_restoreId (t_dbRestoreLeases db)) \<and>
     list_all (lease_owned (t_dbRestores db)) (t_dbRestoreLeases db)"

definition restores_ok :: "pdb \<Rightarrow> bool" where
  "restores_ok db \<longleftrightarrow>
     restore_indexes (t_dbRestores db) \<and> count_where retained (t_dbRestores db) \<le> 8 \<and>
     list_all (\<lambda>r. dr_id r \<noteq> []) (t_dbRestores db) \<and> leases_ok db"

lemma lease_owned_update:
  assumes "lease_owned rows l"
    and "\<And>r. r \<in> set rows \<Longrightarrow> p r \<Longrightarrow> dr_id r = dl_restoreId l \<Longrightarrow> retained r \<Longrightarrow>
       dr_id (f r) = dr_id r \<and> dr_targetId (f r) = dr_targetId r \<and> dr_ownerToken (f r) = dr_ownerToken r \<and>
       retained (f r) \<and> dr_database (f r) = dr_database r"
  shows "lease_owned (update_where p f rows) l"
proof -
  from assms(1) obtain r where r: "r \<in> set rows" "dr_id r = dl_restoreId l" "dr_targetId r = dl_targetId l"
    "dr_ownerToken r = dl_ownerToken l" "retained r" "dr_database r = Some (dl_database l)"
    by (auto simp: lease_owned_def)
  let ?r = "if p r then f r else r"
  have "?r \<in> set (update_where p f rows)" using r(1) by (auto simp: in_update_where)
  moreover have "dr_id ?r = dl_restoreId l \<and> dr_targetId ?r = dl_targetId l \<and> dr_ownerToken ?r = dl_ownerToken l \<and>
      retained ?r \<and> dr_database ?r = Some (dl_database l)"
    using r assms(2) [of r] by simp
  ultimately show ?thesis unfolding lease_owned_def by blast
qed

lemma leases_ok_rows:
  assumes "leases_ok db" "t_dbRestoreLeases db' = t_dbRestoreLeases db"
    and "\<And>l. l \<in> set (t_dbRestoreLeases db) \<Longrightarrow> lease_owned (t_dbRestores db) l \<Longrightarrow> lease_owned (t_dbRestores db') l"
  shows "leases_ok db'"
  using assms by (auto simp: leases_ok_def list_all_iff)

lemma leases_ok_update:
  assumes "leases_ok db" "dr_update k c db = Ok (r, db')" "rc_status c \<noteq> Some DDeleted" "rc_database c = None"
  shows "leases_ok db'"
proof (rule leases_ok_rows [OF assms(1) dr_update_rows(2) [OF assms(2)]])
  fix l assume l: "lease_owned (t_dbRestores db) l"
  have "lease_owned (update_where (\<lambda>r. dr_id r = k) (change_row c) (t_dbRestores db)) l"
    by (rule lease_owned_update [OF l])
       (use assms(3,4) in \<open>auto simp: change_row_fields keep_def split: option.splits\<close>)
  with l dr_update_rows(1) [OF assms(2)] show "lease_owned (t_dbRestores db') l" by auto
qed

lemma leases_ok_add:
  assumes "leases_ok db" "restore_indexes (t_dbRestores db)" "dr_addLease l db = Ok db'"
  shows "leases_ok db'"
proof -
  from assms(3) obtain row r where row: "dr_get (dl_restoreId l) db = Some row" "dr_ownerToken row = dl_ownerToken l"
    "dr_targetId row = dl_targetId l" "dr_status row = DImporting" "dr_lease (dl_restoreId l) db = None"
    and u: "dr_update (dl_restoreId l) (unchanged\<lparr>rc_database := Some (Some (dl_database l))\<rparr>)
       (db\<lparr>t_dbRestoreLeases := t_dbRestoreLeases db @ [l]\<rparr>) = Ok (r, db')"
    by (rule dr_addLease_cases)
  let ?c = "unchanged\<lparr>rc_database := Some (Some (dl_database l))\<rparr>"
  have rows: "t_dbRestores db' = update_where (\<lambda>r. dr_id r = dl_restoreId l) (change_row ?c) (t_dbRestores db)"
    using u by (auto simp: dr_update_def unchanged_def Let_def split: if_splits)
  have in_rows: "row \<in> set (t_dbRestores db)" "dr_id row = dl_restoreId l"
    using row(1) by (auto simp: dr_get_def dest: row_by_SomeD)
  then have "change_row ?c row \<in> set (t_dbRestores db')" by (auto simp: rows in_update_where)
  then have "lease_owned (t_dbRestores db') l"
    unfolding lease_owned_def using row(2-4) in_rows(2)
    by (intro bexI [of _ "change_row ?c row"]) (auto simp: change_row_fields unchanged_def keep_def)
  moreover have "lease_owned (t_dbRestores db') m" if "m \<in> set (t_dbRestoreLeases db)" for m
  proof -
    have "dl_restoreId m \<noteq> dl_restoreId l" using row(5) that by (auto simp: dr_lease_def row_by_None_iff image_iff)
    moreover have "lease_owned (t_dbRestores db) m" using assms(1) that by (auto simp: leases_ok_def list_all_iff)
    ultimately show ?thesis unfolding rows by (intro lease_owned_update) auto
  qed
  moreover have "t_dbRestoreLeases db' = t_dbRestoreLeases db @ [l]" using dr_update_rows(2) [OF u] by simp
  ultimately show ?thesis using assms(1) row(5)
    by (auto simp: leases_ok_def list_all_iff dr_lease_def row_by_None_iff image_iff)
qed

lemma leases_ok_step:
  assumes ok: "leases_ok db" "restore_indexes (t_dbRestores db)" and "rs_step removals db db'"
  shows "leases_ok db'"
  using assms(3)
proof cases
  case (ss_create row r)
  then have "t_dbRestores db' = t_dbRestores db @ [inserted_row row]" "t_dbRestoreLeases db' = t_dbRestoreLeases db"
    by (auto simp: dr_create_def bind_result_Inr_iff split: if_splits)
  then show ?thesis by (intro leases_ok_rows [OF ok(1)]) (auto simp: lease_owned_def)
next
  case (ss_update k c r)
  then show ?thesis by (intro leases_ok_update [OF ok(1)]) (auto simp: service_changes_def)
next
  case (ss_bind digest encrypt k a r)
  from ss_bind show ?thesis
  proof (cases rule: dr_bind_cases)
    case same
    with ok show ?thesis by simp
  next
    case (bound row)
    show ?thesis unfolding bound(5)
      by (rule leases_ok_rows [OF ok(1)], simp) (simp, rule lease_owned_update, assumption, simp add: bound_row_fields)
  qed
next
  case (ss_claim now k cleanup r)
  from ss_claim show ?thesis
  proof (cases rule: dr_claim_cases)
    case idle
    with ok show ?thesis by simp
  next
    case (started row)
    from leases_ok_update [OF ok(1) started(4)] show ?thesis by (simp add: claim_changes_def unchanged_def)
  qed
next
  case (ss_lease l)
  then show ?thesis by (rule leases_ok_add [OF ok])
next
  case (ss_state k st)
  have "lease_owned rows (l\<lparr>dl_state := st\<rparr>) = lease_owned rows l" for rows and l :: restore_lease by (simp add: lease_owned_def)
  moreover have "map dl_restoreId (update_where (\<lambda>l. dl_restoreId l = k) (\<lambda>l. l\<lparr>dl_state := st\<rparr>) ls) = map dl_restoreId ls"
    for ls :: "restore_lease list"
    by (simp add: map_update_where)
  ultimately show ?thesis using ok ss_state
    by (auto simp: leases_ok_def dr_leaseState_def list_all_iff in_update_where)
next
  case (ss_unlease k)
  with ok show ?thesis by (auto simp: leases_ok_def dr_removeLease_def list_all_iff distinct_map_delete_where)
next
  case (ss_deleted now k r)
  then have d: "dr_lease k db = None" "t_dbRestoreLeases db' = t_dbRestoreLeases db"
    "t_dbRestores db' = update_where (\<lambda>r. dr_id r = k) (deleted_row now) (t_dbRestores db)"
    by (auto simp: finishDeleted_def Let_def split: if_splits)
  show ?thesis
  proof (rule leases_ok_rows [OF ok(1) d(2)])
    fix l assume l: "l \<in> set (t_dbRestoreLeases db)" "lease_owned (t_dbRestores db) l"
    then have "dl_restoreId l \<noteq> k" using d(1) by (auto simp: dr_lease_def row_by_None_iff image_iff)
    then show "lease_owned (t_dbRestores db') l" unfolding d(3) by (intro lease_owned_update [OF l(2)]) simp
  qed
next
  case (ss_delete k r)
  from ss_delete show ?thesis
  proof (cases rule: requestDelete_cases)
    case idle
    with ok show ?thesis by simp
  next
    case (requested row)
    from leases_ok_update [OF ok(1) requested(3)] show ?thesis by (simp add: delete_changes_def unchanged_def)
  qed
next
  case ss_interrupted
  show ?thesis unfolding ss_interrupted recoverInterrupted_def
    by (rule leases_ok_rows [OF ok(1)], simp) (simp, rule lease_owned_update, assumption, simp)
next
  case ss_other
  with ok show ?thesis by (simp add: leases_ok_def)
qed

definition any_rs_step :: "pdb \<Rightarrow> pdb \<Rightarrow> bool" where
  "any_rs_step db db' \<longleftrightarrow> (\<exists>removals. rs_step removals db db')"

definition rs_init :: "pdb \<Rightarrow> bool" where
  "rs_init db \<longleftrightarrow> t_dbRestores db = [] \<and> t_dbRestoreLeases db = []"

lemma rows_step_retained: "rows_step rows rows' \<Longrightarrow> count_where retained rows' \<le> count_where retained rows"
  by (induction rule: list_all2_induct) (auto simp: row_step_def)

lemma rows_step_ids: "rows_step rows rows' \<Longrightarrow> map dr_id rows' = map dr_id rows"
  by (induction rule: list_all2_induct) (auto simp: row_step_def dest: restore_binding_key)

lemma restores_ok_step:
  assumes "restores_ok db" "rs_step removals db db'"
  shows "restores_ok db'"
proof -
  have ix: "restore_indexes (t_dbRestores db)" and "leases_ok db" using assms(1) by (auto simp: restores_ok_def)
  then have "leases_ok db'" using leases_ok_step [OF _ _ assms(2)] by blast
  from assms(2) ix show ?thesis
  proof (cases rule: rs_step_rows)
    case (insert row)
    moreover have "list_all (\<lambda>r. dr_id r \<noteq> []) (t_dbRestores db)" using assms(1) by (simp add: restores_ok_def)
    ultimately show ?thesis using \<open>leases_ok db'\<close> by (auto simp: restores_ok_def inserted_row_def)
  next
    case progress
    have "map dr_id (t_dbRestores db') = map dr_id (t_dbRestores db)" by (rule rows_step_ids [OF progress(1)])
    then have "dr_id ` set (t_dbRestores db') = dr_id ` set (t_dbRestores db)" by (metis list.set_map)
    then have "list_all (\<lambda>r. dr_id r \<noteq> []) (t_dbRestores db')"
      using assms(1) unfolding restores_ok_def list_all_iff by (metis (no_types, lifting) imageE imageI)
    then show ?thesis using progress \<open>leases_ok db'\<close> assms(1) rows_step_retained [OF progress(1)]
      by (auto simp: restores_ok_def)
  qed
qed

interpretation restores: invariant_system rs_init any_rs_step restores_ok
proof
  show "restores_ok db" if "rs_init db" for db
    using that by (simp add: rs_init_def restores_ok_def restore_indexes_def leases_ok_def)
  show "restores_ok db'" if "restores_ok db" "any_rs_step db db'" for db db'
    using that unfolding any_rs_step_def by (blast intro: restores_ok_step)
qed

text \<open>
  C3: Whatever the service does with the restore store, at most one restore imports or deletes, at
  most eight restores are retained and no two of them share a target, and every import lease belongs
  to exactly one retained restore with the same target, owner token and database name.
\<close>

theorem restores_bounded:
  assumes "reachable rs_init any_rs_step db"
  shows "count_where restore_executing (t_dbRestores db) \<le> 1 \<and>
     count_where retained (t_dbRestores db) \<le> 8 \<and>
     distinct (map dr_targetId (filter retained (t_dbRestores db))) \<and>
     distinct (map dl_restoreId (t_dbRestoreLeases db)) \<and>
     (\<forall>l \<in> set (t_dbRestoreLeases db). \<exists>r. dr_get (dl_restoreId l) db = Some r \<and> retained r \<and>
        dr_targetId r = dl_targetId l \<and> dr_ownerToken r = dl_ownerToken l \<and> dr_database r = Some (dl_database l))"
proof -
  have ok: "restores_ok db" using assms by (rule restores.reachable_inv)
  have "\<exists>r. dr_get (dl_restoreId l) db = Some r \<and> retained r \<and> dr_targetId r = dl_targetId l \<and>
      dr_ownerToken r = dl_ownerToken l \<and> dr_database r = Some (dl_database l)"
    if "l \<in> set (t_dbRestoreLeases db)" for l
  proof -
    from ok that obtain r where r: "r \<in> set (t_dbRestores db)" "dr_id r = dl_restoreId l" "retained r"
      "dr_targetId r = dl_targetId l" "dr_ownerToken r = dl_ownerToken l" "dr_database r = Some (dl_database l)"
      by (auto simp: restores_ok_def leases_ok_def list_all_iff lease_owned_def)
    moreover have "dr_get (dl_restoreId l) db = Some r"
      using ok row_by_id [of db r] r(1,2) by (simp add: restores_ok_def)
    ultimately show ?thesis by blast
  qed
  with ok show ?thesis by (simp add: restores_ok_def restore_indexes_def leases_ok_def)
qed

definition sample_restore :: restore_row where
  "sample_restore = \<lparr>dr_id = ''x'', dr_owner = ''o'', dr_purpose = RESTORE_PURPOSE, dr_planId = ''p'',
     dr_repositoryId = ''r'', dr_backupId = ''b'', dr_snapshotId = snapshot64, dr_databaseId = ''db_1'',
     dr_artifact = \<lparr>rd_databaseId = Some ''db_1'', rd_engine = Some Mariadb, rd_database = Some ''shop'',
        rd_path = ''a.sql'', rd_bytes = 10, rd_sha256 = snapshot64\<rparr>,
     dr_metadataToken = snapshot64, dr_mode = ModeCustom, dr_targetId = ''y'', dr_targetFingerprint = None,
     dr_encryptedApproval = None, dr_ownerToken = ''tok'', dr_database = None, dr_status = DQueued,
     dr_stage = ''operator-provisioning'', dr_cleanup = CNone, dr_createdAt = 5, dr_startedAt = None,
     dr_completedAt = None, dr_failureStage = None, dr_failureCode = None, dr_expiresAt = 9000,
     dr_ttlSeconds = 3600, dr_lastValidatedAt = None, dr_inspection = None, dr_errorCode = None,
     dr_cancelRequested = False\<rparr>"

definition sample_restore_db :: pdb where
  "sample_restore_db = sample_recovery_db\<lparr>t_dbRestores := [sample_restore]\<rparr>"

lemma sample_inserted: "inserted_row sample_restore = sample_restore"
  by (simp add: inserted_row_def sample_restore_def)

lemma sample_restore_created: "dr_create [] sample_restore sample_recovery_db = Ok (sample_restore, sample_restore_db)"
proof -
  have "t_dbRestores sample_recovery_db = []" by (simp add: sample_recovery_db_def empty_db_def)
  moreover have "restore_source sample_restore sample_recovery_db"
    by (simp add: restore_source_def plan_exists_def sample_restore_def sample_recovery_db_def)
  moreover have "restore_indexes [sample_restore]"
    by (simp add: restore_indexes_def)
  moreover have "dr_purpose sample_restore = RESTORE_PURPOSE" "length (dr_snapshotId sample_restore) = 64"
    by (simp_all add: sample_restore_def snapshot64_def)
  ultimately show ?thesis
    by (simp add: dr_create_def assertRestoreSourceNotRemoving_def refuse_if_def sample_inserted sample_restore_db_def)
qed

lemma sample_restore_reachable: "reachable rs_init any_rs_step sample_restore_db"
proof -
  have "reachable rs_init any_rs_step sample_recovery_db"
    by (rule reach_init) (simp add: rs_init_def sample_recovery_db_def empty_db_def)
  moreover have "rs_step [] sample_recovery_db sample_restore_db"
    by (rule ss_create [OF _ _ sample_restore_created]) (simp_all add: sample_restore_def)
  ultimately show ?thesis unfolding any_rs_step_def by (blast intro: reach_step)
qed

theorem restores_bounded_witness:
  "count_where retained (t_dbRestores sample_restore_db) \<le> 8 \<and> t_dbRestores sample_restore_db = [sample_restore]"
  using restores_bounded [OF sample_restore_reachable] by (simp add: sample_restore_db_def)

section \<open>Claims\<close>

lemma restore_indexes_claim:
  assumes "restore_indexes rows" "\<forall>r \<in> set rows. \<not> restore_executing r"
    and "\<And>r. dr_id (f r) = dr_id r" "\<And>r. dr_targetId (f r) = dr_targetId r"
    and "\<And>r. r \<in> set rows \<Longrightarrow> dr_id r = k \<Longrightarrow> retained r \<and> retained (f r)"
  shows "restore_indexes (update_where (\<lambda>r. dr_id r = k) f rows)"
proof -
  have "map dr_targetId (filter retained (update_where (\<lambda>r. dr_id r = k) f rows)) = map dr_targetId (filter retained rows)"
    using assms(4,5) by (induction rows) auto
  moreover have "map dr_id (update_where (\<lambda>r. dr_id r = k) f rows) = map dr_id rows"
    using assms(3) by (simp add: map_update_where)
  moreover have "count_where restore_executing rows = 0" using assms(2) by (simp add: count_where_0_iff)
  ultimately show ?thesis
    using assms(1) count_where_update_by_key [of dr_id rows restore_executing k "\<lambda>r. True" f]
    by (simp add: restore_indexes_def)
qed

text \<open>
  A restore is claimed exactly when no test, restore, import or backup is in progress and the row
  allows it: a queued, uncancelled, unexpired row starts to import, a cancelled row in a resting state
  starts to be deleted; the first start is kept.  The claim never fails, and changes no other row.
\<close>

theorem restore_claim_spec:
  assumes "reachable rs_init any_rs_step db" and "dr_get k db = Some row"
  shows "dr_claim now k cleanup db =
    (if dr_busy [] db \<or> \<not> claimable_restore now cleanup row then Ok (None, db)
     else let row' = row\<lparr>dr_status := if cleanup then DDeleting else DImporting,
                         dr_stage := if cleanup then ''database-cleanup'' else ''snapshot-validation'',
                         dr_startedAt := Some (case dr_startedAt row of None \<Rightarrow> now | Some t \<Rightarrow> if t = 0 then now else t)\<rparr>
          in Ok (Some row', db\<lparr>t_dbRestores := update_where (\<lambda>r. r = row) (\<lambda>r. row') (t_dbRestores db)\<rparr>))"
proof (cases "dr_busy [] db \<or> \<not> claimable_restore now cleanup row")
  case True
  then show ?thesis using assms(2) by (auto simp: dr_claim_def)
next
  case False
  let ?c = "claim_changes now cleanup row"
  have ix: "restore_indexes (t_dbRestores db)" and ids: "\<forall>r \<in> set (t_dbRestores db). dr_id r \<noteq> []"
    using restores.reachable_inv [OF assms(1)] by (simp_all add: restores_ok_def list_all_iff)
  have row: "row \<in> set (t_dbRestores db)" "dr_id row = k" using assms(2) by (auto simp: dr_get_def dest: row_by_SomeD)
  have changed: "change_row ?c row = row\<lparr>dr_status := if cleanup then DDeleting else DImporting,
      dr_stage := if cleanup then ''database-cleanup'' else ''snapshot-validation'',
      dr_startedAt := Some (case dr_startedAt row of None \<Rightarrow> now | Some t \<Rightarrow> if t = 0 then now else t)\<rparr>"
    by (cases row) (simp add: change_row_def claim_changes_def unchanged_def keep_def split: option.split)
  have idle: "\<forall>r \<in> set (t_dbRestores db). \<not> restore_executing r"
    using False ids by (auto simp: dr_busy_def list_ex_iff)
  have only: "dr_id r = k \<longleftrightarrow> r = row" if "r \<in> set (t_dbRestores db)" for r
    using row_by_id [OF ix that] assms(2) row(2) by (metis option.inject)
  have same: "update_where (\<lambda>r. dr_id r = k) (change_row ?c) (t_dbRestores db) =
      update_where (\<lambda>r. r = row) (\<lambda>r. change_row ?c row) (t_dbRestores db)"
    unfolding update_where_def using only by (intro map_cong) auto
  have "restore_indexes (update_where (\<lambda>r. dr_id r = k) (change_row ?c) (t_dbRestores db))"
    by (rule restore_indexes_claim [OF ix idle])
       (use False in \<open>auto simp: only change_row_fields claim_changes_def unchanged_def keep_def
          claimable_restore_def split: if_splits\<close>)
  moreover have "?c \<noteq> unchanged" by (simp add: claim_changes_def unchanged_def)
  moreover have "row_by dr_id k (update_where (\<lambda>r. dr_id r = k) (change_row ?c) (t_dbRestores db)) = Some (change_row ?c row)"
    using assms(2) row(2) by (simp add: row_by_update_where change_row_fields dr_get_def)
  ultimately show ?thesis using False assms(2)
    by (simp add: dr_claim_def dr_update_def Let_def dr_get_def same changed)
qed

theorem restore_claim_spec_witness:
  "\<exists>r db'. dr_claim 7000 ''x'' False sample_restore_db = Ok (Some r, db') \<and> dr_status r = DImporting \<and>
     dr_startedAt r = Some 7000"
proof -
  have "dr_get ''x'' sample_restore_db = Some sample_restore"
    by (simp add: dr_get_def sample_restore_db_def, simp add: sample_restore_def)
  moreover have "\<not> dr_busy [] sample_restore_db" "claimable_restore 7000 False sample_restore" "dr_startedAt sample_restore = None"
    by (simp_all add: dr_busy_def claimable_restore_def sample_restore_db_def sample_recovery_db_def
        empty_db_def sample_restore_def restore_executing_def)
  ultimately show ?thesis
    using restore_claim_spec [OF sample_restore_reachable, of "''x''" sample_restore 7000 False] by (simp add: Let_def)
qed

section \<open>What never changes\<close>

text \<open>What any number of steps may do to a row.\<close>

definition row_later :: "restore_row \<Rightarrow> restore_row \<Rightarrow> bool" where
  "row_later r r' \<longleftrightarrow>
     restore_binding r' = restore_binding r \<and>
     (dr_status r = DDeleted \<longrightarrow> dr_status r' = DDeleted) \<and>
     (dr_status r = DDeleted \<and> dr_cleanup r = CVerified \<longrightarrow> dr_cleanup r' = CVerified) \<and>
     (dr_cancelRequested r \<longrightarrow> dr_cancelRequested r' \<and> (dr_status r \<noteq> DImporting \<longrightarrow> dr_status r' \<noteq> DImporting)) \<and>
     (\<forall>f. f \<noteq> [] \<longrightarrow> dr_targetFingerprint r = Some f \<longrightarrow> dr_targetFingerprint r' = Some f)"

lemma row_later_refl: "row_later r r"
  by (simp add: row_later_def)

lemma row_later_step: "row_later r r' \<Longrightarrow> row_step r' r'' \<Longrightarrow> row_later r r''"
  unfolding row_later_def row_step_def by auto

lemma rows_step_lookup:
  assumes "rows_step rows rows'" "r \<in> set rows"
  shows "\<exists>r' \<in> set rows'. row_step r r'"
  using assms by (induction rule: list_all2_induct) auto

lemma rs_step_lookup:
  assumes "rs_step removals db db'" "restore_indexes (t_dbRestores db)" "r \<in> set (t_dbRestores db)"
  shows "\<exists>r' \<in> set (t_dbRestores db'). row_step r r'"
  using assms(1,2)
proof (cases rule: rs_step_rows)
  case (insert row)
  then show ?thesis using assms(3) row_step_refl by auto
next
  case progress
  then show ?thesis using assms(3) rows_step_lookup by blast
qed

lemma rs_steps_later:
  assumes "any_rs_step\<^sup>*\<^sup>* db db'" "restores_ok db" "r \<in> set (t_dbRestores db)"
  shows "\<exists>r' \<in> set (t_dbRestores db'). row_later r r'"
  using assms(1)
proof (induction rule: rtranclp_induct)
  case base
  then show ?case using assms(3) row_later_refl by blast
next
  case (step db1 db2)
  then obtain r1 removals where r1: "r1 \<in> set (t_dbRestores db1)" "row_later r r1" "rs_step removals db1 db2"
    unfolding any_rs_step_def by blast
  have "restore_indexes (t_dbRestores db1)"
    using restores.steps_inv [OF step(1) assms(2)] by (simp add: restores_ok_def)
  from rs_step_lookup [OF r1(3) this r1(1)] r1(2) show ?case using row_later_step by blast
qed

text \<open>
  C30: A restore is never lost, and what was decided about it stays: in every later state its row is
  still there with the same owner, source, artifact, target and owner token, a bound target
  fingerprint is unchanged, a deleted restore stays deleted, and once a cancellation is requested it
  stays requested and a restore that is not importing never starts to import again.
\<close>

theorem restore_decisions_permanent:
  assumes "reachable rs_init any_rs_step db" and "any_rs_step\<^sup>*\<^sup>* db db'" and "dr_get k db = Some r"
  shows "\<exists>r'. dr_get k db' = Some r' \<and> restore_binding r' = restore_binding r \<and>
     (dr_status r = DDeleted \<longrightarrow> dr_status r' = DDeleted) \<and>
     (dr_cancelRequested r \<longrightarrow> dr_cancelRequested r' \<and> (dr_status r \<noteq> DImporting \<longrightarrow> dr_status r' \<noteq> DImporting)) \<and>
     (\<forall>f. f \<noteq> [] \<longrightarrow> dr_targetFingerprint r = Some f \<longrightarrow> dr_targetFingerprint r' = Some f)"
proof -
  have ok: "restores_ok db" using assms(1) by (rule restores.reachable_inv)
  have r: "r \<in> set (t_dbRestores db)" "dr_id r = k" using assms(3) by (auto simp: dr_get_def dest: row_by_SomeD)
  then obtain r' where r': "r' \<in> set (t_dbRestores db')" "row_later r r'" using rs_steps_later [OF assms(2) ok] by blast
  have "restore_indexes (t_dbRestores db')"
    using restores.steps_inv [OF assms(2) ok] by (simp add: restores_ok_def)
  then have "dr_get (dr_id r') db' = Some r'" using r'(1) by (rule row_by_id)
  moreover have "dr_id r' = k" using r'(2) r(2) restore_binding_key(1) [of r' r] by (simp add: row_later_def)
  ultimately show ?thesis using r'(2) by (auto simp: row_later_def)
qed

definition sample_cancelled_db :: pdb where
  "sample_cancelled_db = sample_recovery_db\<lparr>t_dbRestores :=
     [sample_restore\<lparr>dr_cancelRequested := True, dr_cleanup := CRequested, dr_status := DCleanupRequired\<rparr>]\<rparr>"

lemma sample_cancelled: "requestDelete ''x'' sample_restore_db =
    Ok (Some (sample_restore\<lparr>dr_cancelRequested := True, dr_cleanup := CRequested, dr_status := DCleanupRequired\<rparr>),
        sample_cancelled_db)"
  by (simp add: requestDelete_def dr_get_def sample_restore_db_def sample_restore_def restore_executing_def
      dr_update_def delete_changes_def unchanged_def change_row_def keep_def Let_def restore_indexes_def
      sample_cancelled_db_def)

theorem restore_decisions_permanent_witness:
  "\<exists>r'. dr_get ''x'' (recoverInterrupted sample_cancelled_db) = Some r' \<and> dr_cancelRequested r' \<and>
     dr_status r' \<noteq> DImporting"
proof -
  have a: "any_rs_step sample_restore_db sample_cancelled_db" "any_rs_step sample_cancelled_db (recoverInterrupted sample_cancelled_db)"
    unfolding any_rs_step_def using ss_delete [OF sample_cancelled] ss_interrupted by blast+
  let ?r = "sample_restore\<lparr>dr_cancelRequested := True, dr_cleanup := CRequested, dr_status := DCleanupRequired\<rparr>"
  have "dr_get ''x'' sample_cancelled_db = Some ?r"
    by (simp add: dr_get_def sample_cancelled_db_def sample_restore_def)
  moreover have "dr_cancelRequested ?r" "dr_status ?r \<noteq> DImporting" by simp_all
  moreover have "any_rs_step\<^sup>*\<^sup>* sample_cancelled_db (recoverInterrupted sample_cancelled_db)" using a(2) by (rule r_into_rtranclp)
  ultimately show ?thesis
    using restore_decisions_permanent [OF reach_step [OF sample_restore_reachable a(1)], of _ "''x''" ?r] by blast
qed

section \<open>Sources of retained restores\<close>

definition removal_names :: "removal_source \<Rightarrow> bool" where
  "removal_names s \<longleftrightarrow>
     (case rs_planId s of Some p \<Rightarrow> p \<noteq> [] | None \<Rightarrow> rs_backupId s \<noteq> None \<and> rs_backupId s \<noteq> Some [])"

lemma restore_of_removing: "removal_names s \<Longrightarrow> restore_of s r \<Longrightarrow> source_removing r s"
  by (auto simp: removal_names_def restore_of_def source_removing_def set_and_equal_def split: option.splits if_splits)

lemma restore_of_binding: "restore_binding r = restore_binding q \<Longrightarrow> restore_of s r = restore_of s q"
proof -
  assume "restore_binding r = restore_binding q"
  then have "dr_planId r = dr_planId q" "dr_backupId r = dr_backupId q"
    by (cases r; cases q; simp add: restore_binding_def)+
  then show ?thesis by (simp add: restore_of_def split: option.split)
qed

definition source_settled :: "removal_source \<Rightarrow> pdb \<Rightarrow> bool" where
  "source_settled s db \<longleftrightarrow>
     (\<forall>r \<in> set (t_dbRestores db). restore_of s r \<longrightarrow> dr_status r = DDeleted \<and> dr_cleanup r = CVerified)"

lemma source_settled_step:
  assumes "source_settled s db" "restore_indexes (t_dbRestores db)" "rs_step removals db db'"
    and "s \<in> set removals" "removal_names s"
  shows "source_settled s db'"
  using assms(3,2)
proof (cases rule: rs_step_rows)
  case (insert row)
  have "\<not> restore_of s row" using insert(2) restore_of_removing [OF assms(5)] assms(4) by (auto simp: list_ex_iff)
  moreover have "restore_of s (inserted_row row) = restore_of s row" by (simp add: restore_of_def inserted_row_def split: option.split)
  ultimately show ?thesis using assms(1) insert(1) by (auto simp: source_settled_def)
next
  case progress
  have "\<exists>r \<in> set rows. row_step r r'" if "rows_step rows rows'" "r' \<in> set rows'" for rows rows' r'
    using that by (induction rule: list_all2_induct) auto
  from this [OF progress(1)] assms(1) show ?thesis
    unfolding source_settled_def row_step_def by (metis restore_of_binding)
qed

lemma settled_without_lease:
  assumes "restores_ok db" "r \<in> set (t_dbRestores db)" "dr_status r = DDeleted"
  shows "dr_lease (dr_id r) db = None"
proof -
  have "dl_restoreId l \<noteq> dr_id r" if l: "l \<in> set (t_dbRestoreLeases db)" for l
  proof
    assume eq: "dl_restoreId l = dr_id r"
    from assms(1) l obtain q where q: "q \<in> set (t_dbRestores db)" "dr_id q = dl_restoreId l" "retained q"
      by (auto simp: restores_ok_def leases_ok_def list_all_iff lease_owned_def)
    have "distinct (map dr_id (t_dbRestores db))" using assms(1) by (simp add: restores_ok_def restore_indexes_def)
    from distinct_map_eqD [OF this q(1) assms(2)] q(2,3) eq assms(3) show False by simp
  qed
  then show ?thesis unfolding dr_lease_def row_by_None_iff by fastforce
qed

text \<open>
  C27: A source can be removed safely once the check has passed: while the removal is registered, no
  sequence of operations creates a restore of that plan or backup, and every restore made from it
  before is deleted, verified and without a lease.
\<close>

theorem removal_excludes_restores:
  assumes "reachable rs_init any_rs_step db" and "assertNoRetainedRestoreDependency s db = Ok ()"
    and "s \<in> set removals" and "removal_names s" and "(rs_step removals)\<^sup>*\<^sup>* db db'"
    and "r \<in> set (t_dbRestores db')" and "restore_of s r"
  shows "dr_status r = DDeleted \<and> dr_cleanup r = CVerified \<and> dr_lease (dr_id r) db' = None"
proof -
  have "restores_ok db' \<and> source_settled s db'"
    using assms(5)
  proof (induction rule: rtranclp_induct)
    case base
    have "source_settled s db" using assms(2)
      by (auto simp: assertNoRetainedRestoreDependency_def list_ex_iff source_settled_def unfinished_def)
    with restores.reachable_inv [OF assms(1)] show ?case by simp
  next
    case (step db1 db2)
    then have "restore_indexes (t_dbRestores db1)" by (simp add: restores_ok_def)
    with step show ?case using restores_ok_step source_settled_step [OF _ _ _ assms(3,4)] by blast
  qed
  then show ?thesis using assms(6,7) settled_without_lease by (auto simp: source_settled_def)
qed

theorem removal_excludes_restores_witness:
  "\<exists>db r. (rs_step [\<lparr>rs_planId = Some ''p'', rs_backupId = None, rs_repositoryId = None, rs_snapshotId = None\<rparr>])\<^sup>*\<^sup>* db db \<and>
     r \<in> set (t_dbRestores db) \<and> dr_planId r = ''p'' \<and> dr_status r = DDeleted \<and> dr_lease (dr_id r) db = None"
proof -
  let ?s = "\<lparr>rs_planId = Some ''p'', rs_backupId = None, rs_repositoryId = None, rs_snapshotId = None\<rparr>"
  let ?db = "sample_restore_db\<lparr>t_dbRestores := [deleted_row 8000 sample_restore]\<rparr>"
  have fin: "finishDeleted 8000 ''x'' sample_restore_db = Ok (Some (deleted_row 8000 sample_restore), ?db)"
    by (simp add: finishDeleted_def dr_lease_def dr_get_def Let_def sample_restore_db_def sample_recovery_db_def
        empty_db_def, simp add: sample_restore_def deleted_row_def)
  have "reachable rs_init any_rs_step ?db"
    using reach_step [OF sample_restore_reachable] ss_deleted [OF fin] unfolding any_rs_step_def by blast
  moreover have "assertNoRetainedRestoreDependency ?s ?db = Ok ()"
    by (simp add: assertNoRetainedRestoreDependency_def unfinished_def deleted_row_def sample_restore_db_def
        sample_recovery_db_def empty_db_def)
  moreover have "restore_of ?s (deleted_row 8000 sample_restore)"
    by (simp add: restore_of_def deleted_row_def sample_restore_def)
  moreover have "dr_planId (deleted_row 8000 sample_restore) = ''p''" by (simp add: deleted_row_def sample_restore_def)
  ultimately show ?thesis
    using removal_excludes_restores [of ?db ?s "[?s]" ?db "deleted_row 8000 sample_restore"]
    by (intro exI [of _ ?db] exI [of _ "deleted_row 8000 sample_restore"]) (simp add: removal_names_def)
qed

section \<open>The approved target\<close>

definition approval_ok :: "approval \<Rightarrow> bool" where
  "approval_ok a \<longleftrightarrow>
     restoreId (ap_id a) \<and> hex_string 32 (ap_activationId a) \<and> restoreDatabaseName (ap_database a) \<and>
     target_config_ok (ap_target a) \<and> tc_tls (ap_target a) = TlsVerifyIdentity \<and> tc_enabled (ap_target a) \<and>
     password_ok (ap_password a) \<and> ap_password a \<noteq> [] \<and> hex_string 64 (ap_caSha256 a) \<and>
     ap_maxSqlBytes a \<in> {1..448 * 1024 ^ 2} \<and> ap_maxRetentionSeconds a \<in> {86400..30 * 86400} \<and>
     storage_id_ok (as_id (ap_storage a)) \<and> as_quotaBytes (ap_storage a) \<in> {512 * 1024 ^ 2..2 * 1024 ^ 3} \<and>
     (\<forall>b. ap_binding a = Some b \<longrightarrow>
        restoreId (abi_restoreId b) \<and> hex_string 64 (abi_snapshotId b) \<and> hex_string 64 (abi_sha256 b)) \<and>
     (\<forall>c. ap_containerId a = Some c \<longrightarrow> hex_string 64 c) \<and> approval_contract_ok a"

lemma parse_text [simp]:
  "parse_engine (JStr (engine_text e)) = Some e" "parse_mode (JStr (mode_text m)) = Some m"
  "parse_kind (JStr (kind_name k)) = Some k"
  by (cases e, simp_all) (cases m, simp_all, cases k, simp_all)

lemma parse_str_if_Some: "parse_str_if p j = Some s \<longleftrightarrow> j = JStr s \<and> p s"
  by (cases j) (auto simp: parse_str_if_def)

lemma parse_int_in_Some: "parse_int_in lo hi j = Some i \<longleftrightarrow> j = JInt i \<and> lo \<le> i \<and> i \<le> hi"
  by (cases j) (auto simp: parse_int_in_def)

lemma parse_target_json:
  "target_config_ok c \<Longrightarrow> tc_tls c = TlsVerifyIdentity \<Longrightarrow> tc_enabled c \<Longrightarrow> password_ok p \<Longrightarrow> p \<noteq> [] \<Longrightarrow>
   parse_approval_target (target_json c p) = Some (c, p)"
  by (cases c) (simp add: parse_approval_target_def target_json_def strict_keys_def required_field_def
      optional_field_def Let_def del: parse_engine.simps)

lemma approval_json_accepted:
  assumes "approval_ok a"
  shows "persistentApprovalSchema (approval_json a) = Some a"
proof -
  have target: "parse_approval_target (target_json (ap_target a) (ap_password a)) = Some (ap_target a, ap_password a)"
    using assms by (intro parse_target_json) (auto simp: approval_ok_def)
  have storage: "parse_approval_storage (JObj [(''id'', JStr (as_id (ap_storage a))),
      (''quotaBytes'', JInt (as_quotaBytes (ap_storage a))), (''kind'', JStr (kind_name (as_kind (ap_storage a))))]) =
      Some (ap_storage a)"
    using assms by (cases "ap_storage a")
      (auto simp: approval_ok_def strict_keys_def required_field_def parse_str_if_def parse_int_in_def
        simp del: parse_kind.simps)
  have "persistentApprovalBase (approval_json a) = Some a"
    using assms target storage
    by (cases "ap_binding a"; cases "ap_containerId a")
       (auto simp: approval_json_def optional_member_def strict_keys_def required_field_def optional_field_def
         approval_ok_def parse_str_if_def parse_int_in_def
         simp del: parse_engine.simps parse_mode.simps parse_kind.simps parse_approval_storage.simps)
  with assms show ?thesis by (simp add: persistentApprovalSchema_def approval_ok_def)
qed

lemma required_field_Some: "required_field p k fs = Some v \<longleftrightarrow> (\<exists>j. map_of fs k = Some j \<and> p j = Some v)"
  by (auto simp: required_field_def split: option.splits)

lemma optional_field_SomeD: "optional_field p k fs = Some (Some v) \<Longrightarrow> \<exists>j. p j = Some v"
  by (auto simp: optional_field_def split: option.splits)

lemma parse_approval_storage_ok:
  "parse_approval_storage j = Some st \<Longrightarrow>
     storage_id_ok (as_id st) \<and> 512 * 1024 ^ 2 \<le> as_quotaBytes st \<and> as_quotaBytes st \<le> 2 * 1024 ^ 3"
  by (cases j) (auto simp: required_field_Some parse_str_if_Some parse_int_in_Some split: if_splits option.splits)

lemma parse_approval_binding_ok:
  "parse_approval_binding j = Some b \<Longrightarrow>
     restoreId (abi_restoreId b) \<and> hex_string 64 (abi_snapshotId b) \<and> hex_string 64 (abi_sha256 b)"
  by (cases j) (auto simp: required_field_Some parse_str_if_Some split: if_splits option.splits)

lemma recovery_target_schema_ok:
  "recovery_target_schema j = Some (c, pw) \<Longrightarrow> target_config_ok c \<and> (\<forall>p. pw = Some p \<longrightarrow> password_ok p)"
  by (cases j) (auto simp: Let_def split: if_splits option.splits bool.splits)

lemma parse_approval_target_ok:
  "parse_approval_target j = Some (c, p) \<Longrightarrow>
     target_config_ok c \<and> tc_tls c = TlsVerifyIdentity \<and> tc_enabled c \<and> password_ok p \<and> p \<noteq> []"
  by (auto simp: parse_approval_target_def split: if_splits option.splits dest: recovery_target_schema_ok)

lemma persistentApprovalBase_obtain:
  assumes "persistentApprovalBase j = Some a"
  obtains fs where "j = JObj fs"
    "required_field (parse_str_if restoreId) ''id'' fs = Some (ap_id a)"
    "required_field (parse_str_if (hex_string 32)) ''activationId'' fs = Some (ap_activationId a)"
    "required_field (parse_str_if restoreDatabaseName) ''database'' fs = Some (ap_database a)"
    "required_field parse_approval_target ''target'' fs = Some (ap_target a, ap_password a)"
    "required_field (parse_str_if (hex_string 64)) ''caSha256'' fs = Some (ap_caSha256 a)"
    "required_field (parse_int_in 1 (448 * 1024 ^ 2)) ''maxSqlBytes'' fs = Some (ap_maxSqlBytes a)"
    "required_field (parse_int_in 86400 (30 * 86400)) ''maxRetentionSeconds'' fs = Some (ap_maxRetentionSeconds a)"
    "required_field parse_approval_storage ''storage'' fs = Some (ap_storage a)"
    "optional_field parse_approval_binding ''binding'' fs = Some (ap_binding a)"
    "optional_field (parse_str_if (hex_string 64)) ''containerId'' fs = Some (ap_containerId a)"
  using assms by (cases j) (auto split: if_splits option.splits)

lemma persistentApprovalSchema_ok:
  assumes "persistentApprovalSchema j = Some a"
  shows "approval_ok a"
proof -
  from assms have base: "persistentApprovalBase j = Some a" and c: "approval_contract_ok a"
    by (auto simp: persistentApprovalSchema_def split: option.splits if_splits)
  from base show ?thesis
  proof (rule persistentApprovalBase_obtain)
    fix fs
    assume f: "required_field (parse_str_if restoreId) ''id'' fs = Some (ap_id a)"
      "required_field (parse_str_if (hex_string 32)) ''activationId'' fs = Some (ap_activationId a)"
      "required_field (parse_str_if restoreDatabaseName) ''database'' fs = Some (ap_database a)"
      "required_field parse_approval_target ''target'' fs = Some (ap_target a, ap_password a)"
      "required_field (parse_str_if (hex_string 64)) ''caSha256'' fs = Some (ap_caSha256 a)"
      "required_field (parse_int_in 1 (448 * 1024 ^ 2)) ''maxSqlBytes'' fs = Some (ap_maxSqlBytes a)"
      "required_field (parse_int_in 86400 (30 * 86400)) ''maxRetentionSeconds'' fs = Some (ap_maxRetentionSeconds a)"
      "required_field parse_approval_storage ''storage'' fs = Some (ap_storage a)"
      "optional_field parse_approval_binding ''binding'' fs = Some (ap_binding a)"
      "optional_field (parse_str_if (hex_string 64)) ''containerId'' fs = Some (ap_containerId a)"
    have "target_config_ok (ap_target a) \<and> tc_tls (ap_target a) = TlsVerifyIdentity \<and> tc_enabled (ap_target a) \<and>
        password_ok (ap_password a) \<and> ap_password a \<noteq> []"
      using f(4) parse_approval_target_ok unfolding required_field_Some by blast
    moreover have "storage_id_ok (as_id (ap_storage a)) \<and> 512 * 1024 ^ 2 \<le> as_quotaBytes (ap_storage a) \<and>
        as_quotaBytes (ap_storage a) \<le> 2 * 1024 ^ 3"
      using f(8) parse_approval_storage_ok unfolding required_field_Some by blast
    moreover have "restoreId (abi_restoreId b) \<and> hex_string 64 (abi_snapshotId b) \<and> hex_string 64 (abi_sha256 b)"
      if "ap_binding a = Some b" for b
      using f(9) that optional_field_SomeD [of parse_approval_binding] parse_approval_binding_ok by metis
    moreover have "hex_string 64 s" if "ap_containerId a = Some s" for s
      using f(10) that optional_field_SomeD [of "parse_str_if (hex_string 64)"] parse_str_if_Some by metis
    ultimately show ?thesis using f(1-3,5-7) c
      unfolding approval_ok_def by (auto simp: required_field_Some parse_str_if_Some parse_int_in_Some)
  qed
qed

text \<open>
  An approved target survives its storage: when an approval that passed the schema is bound to a
  fresh restore of its target, the store returns exactly that approval, which the schema accepts again
  with the same value; binding it again changes nothing, and any approval of that target with another
  fingerprint is refused.  The cipher decrypts what it encrypted and neither it nor the hash gives the
  empty string.
\<close>

theorem bound_approval_recovered:
  assumes "reachable rs_init any_rs_step db" and "dr_get k db = Some row"
    and "dr_targetFingerprint row = None" and "dr_encryptedApproval row = None"
    and "persistentApprovalSchema j = Some a" and "dr_targetId row = ap_id a" and "dr_mode row = ap_mode a"
    and "decrypt (encrypt (approval_json a)) = Some (approval_json a)"
    and "encrypt (approval_json a) \<noteq> []" and "approvalFingerprint digest a \<noteq> []"
  shows "\<exists>row' db'. dr_bind digest encrypt k a db = Ok (Some row', db') \<and>
     dr_approval decrypt k db' = Ok (approval_json a) \<and> persistentApprovalSchema (approval_json a) = Some a \<and>
     dr_bind digest encrypt k a db' = Ok (Some row', db') \<and>
     (ap_id b = ap_id a \<longrightarrow> ap_mode b = ap_mode a \<longrightarrow> approvalFingerprint digest b \<noteq> approvalFingerprint digest a \<longrightarrow>
        dr_bind digest encrypt k b db' = Throw (RestoreError ''target-activation-changed''))"
proof -
  let ?row = "bound_row (approvalFingerprint digest a) (encrypt (approval_json a)) row"
  let ?db = "db\<lparr>t_dbRestores := update_where (\<lambda>r. dr_id r = k \<and> dr_encryptedApproval r = None)
     (bound_row (approvalFingerprint digest a) (encrypt (approval_json a))) (t_dbRestores db)\<rparr>"
  have "dr_id row = k" using assms(2) by (auto simp: dr_get_def dest: row_by_SomeD)
  then have get: "dr_get k ?db = Some ?row"
    using assms(2,4) by (simp add: dr_get_def row_by_update_where bound_row_fields)
  have "dr_bind digest encrypt k a db = Ok (Some ?row, ?db)"
    using assms(2-4,6,7) get by (simp add: dr_bind_def Let_def bound_row_def [abs_def])
  moreover have "dr_approval decrypt k ?db = Ok (approval_json a)"
    using assms(8,9) by (simp only: dr_approval_def get Let_def) (simp add: bound_row_fields)
  moreover have "dr_bind digest encrypt k a ?db = Ok (Some ?row, ?db)"
    using assms(6,7,9) by (simp only: dr_bind_def get Let_def) (simp add: bound_row_def)
  moreover have "dr_bind digest encrypt k b ?db = Throw (RestoreError ''target-activation-changed'')"
    if "ap_id b = ap_id a" "ap_mode b = ap_mode a" "approvalFingerprint digest b \<noteq> approvalFingerprint digest a"
    using assms(6,7,10) that by (simp only: dr_bind_def get Let_def) (simp add: bound_row_def)
  ultimately show ?thesis using approval_json_accepted [OF persistentApprovalSchema_ok [OF assms(5)]] by blast
qed

definition sample_approval :: approval where
  "sample_approval = \<lparr>ap_id = replicate 24 (CHR ''a''), ap_mode = ModeCustom, ap_activationId = replicate 32 (CHR ''a''),
     ap_engine = Mariadb, ap_database = ''shop'',
     ap_target = \<lparr>tc_engine = Mariadb, tc_host = ''db'', tc_port = 3306, tc_username = ''u'', tc_tls = TlsVerifyIdentity,
        tc_enabled = True\<rparr>, ap_password = ''pw'', ap_caSha256 = snapshot64, ap_maxSqlBytes = 1000,
     ap_maxRetentionSeconds = 86400,
     ap_storage = \<lparr>as_id = replicate 32 (CHR ''a''), as_quotaBytes = 1073741824, as_kind = OperatorApprovedExternal\<rparr>,
     ap_binding = None, ap_containerId = None\<rparr>"

lemma sample_approval_ok: "approval_ok sample_approval"
proof -
  have "hex_string 64 snapshot64" "hex_string 24 (replicate 24 (CHR ''a''))" "hex_string 32 (replicate 32 (CHR ''a''))"
    by (simp_all add: snapshot64_def hex_string_def list_all_iff is_hex_char_def)
  moreover have "restoreDatabaseName ''shop''"
    by (simp add: restoreDatabaseName_def database_name_ok_def is_ident_char_def is_alnum_def is_lower_def is_upper_def
        is_digit_def to_lower_def lower_char_def)
  moreover have "host_ok ''db''" "username_ok ''u''" "password_ok ''pw''" "storage_id_ok (replicate 32 (CHR ''a''))"
    by (simp_all add: host_ok_def username_ok_def password_ok_def storage_id_ok_def is_alnum_def is_lower_def is_upper_def
        is_digit_def is_hex_char_def list_all_iff)
  moreover have "to_lower ''u'' = ''u''" by (simp add: to_lower_def lower_char_def is_upper_def)
  ultimately show ?thesis
    by (simp add: approval_ok_def sample_approval_def approval_contract_ok_def restoreId_def target_config_ok_def)
qed

definition custom_restore_db :: pdb where
  "custom_restore_db = sample_recovery_db\<lparr>t_dbRestores := [sample_restore\<lparr>dr_targetId := ap_id sample_approval\<rparr>]\<rparr>"

lemma custom_restore_reachable: "reachable rs_init any_rs_step custom_restore_db"
proof -
  let ?r = "sample_restore\<lparr>dr_targetId := ap_id sample_approval\<rparr>"
  have "dr_create [] ?r sample_recovery_db = Ok (?r, custom_restore_db)"
    by (simp add: dr_create_def assertRestoreSourceNotRemoving_def refuse_if_def restore_source_def plan_exists_def
        sample_recovery_db_def empty_db_def sample_restore_def inserted_row_def restore_indexes_def snapshot64_def
        custom_restore_db_def)
  then have "rs_step [] sample_recovery_db custom_restore_db"
    by (rule ss_create [rotated 2]) (simp_all add: sample_restore_def)
  moreover have "reachable rs_init any_rs_step sample_recovery_db"
    by (rule reach_init) (simp add: rs_init_def sample_recovery_db_def empty_db_def)
  ultimately show ?thesis unfolding any_rs_step_def by (blast intro: reach_step)
qed

theorem bound_approval_recovered_witness:
  "\<exists>row' db'. dr_bind (\<lambda>j. ''hash'') (\<lambda>j. ''cipher'') ''x'' sample_approval custom_restore_db = Ok (Some row', db') \<and>
     dr_approval (\<lambda>s. Some (approval_json sample_approval)) ''x'' db' = Ok (approval_json sample_approval)"
proof -
  let ?r = "sample_restore\<lparr>dr_targetId := ap_id sample_approval\<rparr>"
  have "dr_get ''x'' custom_restore_db = Some ?r"
    by (simp add: dr_get_def custom_restore_db_def sample_restore_def)
  moreover have "dr_targetFingerprint ?r = None" "dr_encryptedApproval ?r = None" "dr_targetId ?r = ap_id sample_approval"
    "dr_mode ?r = ap_mode sample_approval"
    by (simp_all add: sample_restore_def sample_approval_def)
  ultimately show ?thesis
    using bound_approval_recovered [OF custom_restore_reachable _ _ _ approval_json_accepted [OF sample_approval_ok],
        of "''x''" ?r "\<lambda>s. Some (approval_json sample_approval)" "\<lambda>j. ''cipher''" "\<lambda>j. ''hash''" sample_approval]
    by (auto simp: approvalFingerprint_def)
qed

section \<open>When a restore starts to execute\<close>

abbreviation executing_restores :: "pdb \<Rightarrow> nat" where
  "executing_restores db \<equiv> count_where restore_executing (t_dbRestores db)"

lemma dr_update_executing:
  assumes "dr_update k c db = Ok (r, db')"
    and "\<And>x. x \<in> set (t_dbRestores db) \<Longrightarrow> dr_id x = k \<Longrightarrow> restore_executing (change_row c x) \<Longrightarrow> restore_executing x"
  shows "executing_restores db' \<le> executing_restores db"
proof -
  have "count_where restore_executing (update_where (\<lambda>r. dr_id r = k) (change_row c) (t_dbRestores db)) \<le> executing_restores db"
    by (rule count_where_update_le) (rule assms(2))
  with dr_update_rows(1) [OF assms(1)] show ?thesis by auto
qed

text \<open>Only a claim raises the number of executing restores, and only in an idle system.\<close>

lemma restore_executing_step:
  assumes "rs_step removals db db'" and "restore_indexes (t_dbRestores db)"
  shows "executing_restores db' \<le> executing_restores db \<or> \<not> dr_busy [] db"
  using assms(1)
proof cases
  case (ss_create row r)
  then have "t_dbRestores db' = t_dbRestores db @ [inserted_row row]"
    by (auto simp: dr_create_def bind_result_Inr_iff split: if_splits)
  with ss_create(1) show ?thesis by (auto simp: restore_executing_def inserted_row_def)
next
  case (ss_update k c r)
  have "executing_restores db' \<le> executing_restores db"
    by (rule dr_update_executing [OF ss_update(2)])
       (use ss_update(1) in \<open>auto simp: service_changes_def change_row_fields restore_executing_def keep_def split: option.splits\<close>)
  then show ?thesis ..
next
  case (ss_bind digest encrypt k a r)
  from ss_bind have "executing_restores db' = executing_restores db"
    by (cases rule: dr_bind_cases) (auto simp: count_where_update_eq restore_executing_simps)
  then show ?thesis by simp
next
  case (ss_claim now k cleanup r)
  from ss_claim show ?thesis by (cases rule: dr_claim_cases) simp_all
next
  case (ss_lease l)
  then obtain r where u: "dr_update (dl_restoreId l) (unchanged\<lparr>rc_database := Some (Some (dl_database l))\<rparr>)
       (db\<lparr>t_dbRestoreLeases := t_dbRestoreLeases db @ [l]\<rparr>) = Ok (r, db')"
    using dr_addLease_cases by metis
  have "executing_restores db' \<le> executing_restores (db\<lparr>t_dbRestoreLeases := t_dbRestoreLeases db @ [l]\<rparr>)"
    by (rule dr_update_executing [OF u]) (simp add: change_row_fields restore_executing_def unchanged_def keep_def)
  then show ?thesis by simp
next
  case (ss_deleted now k r)
  then have "t_dbRestores db' = update_where (\<lambda>r. dr_id r = k) (deleted_row now) (t_dbRestores db)"
    by (auto simp: finishDeleted_def Let_def split: if_splits)
  then show ?thesis by (auto simp: restore_executing_simps intro!: count_where_update_le)
next
  case (ss_delete k r)
  from ss_delete show ?thesis
  proof (cases rule: requestDelete_cases)
    case idle
    then show ?thesis by simp
  next
    case (requested row)
    have "executing_restores db' \<le> executing_restores db"
    proof (rule dr_update_executing [OF requested(3)])
      fix x assume "x \<in> set (t_dbRestores db)" "dr_id x = k" "restore_executing (change_row (delete_changes row) x)"
      moreover from this have "x = row" using row_by_id [OF assms(2)] requested(1) by force
      ultimately show "restore_executing x"
        by (auto simp: restore_executing_def change_row_fields delete_changes_def unchanged_def keep_def split: if_splits)
    qed
    then show ?thesis ..
  qed
next
  case ss_interrupted
  have "executing_restores db' \<le> executing_restores db"
    unfolding ss_interrupted recoverInterrupted_def by (simp, rule count_where_update_le) simp
  then show ?thesis ..
qed (simp_all add: dr_leaseState_def dr_removeLease_def)

end
