(* ===== verification/Recovery_Mailbox.thy ===== *)
theory Recovery_Mailbox
  imports Restore_Store "HOL-Library.AList"
begin

unbundle bit_operations_syntax

text \<open>
  The mailbox to the root-owned recovery operator: \<open>backend/src/utils/automaticRecoveryLifecycle.ts\<close>.
  The durable records are the table \<open>t_lifecycle\<close>; the request directory is an association list
  from record ids to requests.  What the process reads from outside in a call (clock, file stats, file
  contents) is an environment record; the hash of \<open>lifecycleHash\<close> is an argument.  A path is the list
  of its segments.  A write of \<open>writeRequest\<close> is two atomic parts, up to the temporary file and
  from the second check of the intent to the rename; other operations may run in between.  The writes
  of one record run one after the other.  Operations of several transactions return their result and
  the state they leave, also when they throw.
\<close>

section \<open>The outside\<close>

record file_stat =
  fs_isFile :: bool
  fs_isDirectory :: bool
  fs_isSymbolicLink :: bool
  fs_uid :: nat
  fs_mode :: nat
  fs_size :: nat
  fs_nlink :: nat

text \<open>The text of a file and the value \<open>JSON.parse\<close> gives for it, \<open>None\<close> where it throws.\<close>

record file_content =
  fc_text :: string
  fc_json :: "json option"

text \<open>
  \<open>en_self\<close>: on Linux as user 10001.  \<open>en_lstat\<close> and \<open>en_open\<close> are \<open>None\<close> where the call throws;
  \<open>en_open\<close> is \<open>open\<close> with \<open>O_NOFOLLOW\<close>, \<open>fstat\<close> and the read.
\<close>

record mail_env =
  en_clock :: int
  en_self :: bool
  en_root :: "string list"
  en_lstat :: "string list \<Rightarrow> file_stat option"
  en_open :: "string list \<Rightarrow> (file_stat \<times> file_content) option"

definition io_error :: app_error where
  "io_error = PlainError ''io''"

text \<open>An exception of \<open>schema.parse\<close>.\<close>

definition zod_error :: app_error where
  "zod_error = PlainError ''ZodError''"

definition trusted_name :: "string \<Rightarrow> bool" where
  "trusted_name n \<longleftrightarrow>
     n \<in> {''capabilities.json'', ''capacity.json''} \<or>
     (hex_string 24 (take 24 n) \<and> drop 24 n \<in> {''.receipt.json'', ''.target.json'', ''-ca.pem''})"

text \<open>The directories above a file, the nearest first, the root last.\<close>

definition ancestors :: "string list \<Rightarrow> string list list" where
  "ancestors dir = map (\<lambda>n. take n dir) (rev [0..<Suc (length dir)])"

definition trusted_directory :: "mail_env \<Rightarrow> string list \<Rightarrow> unit result" where
  "trusted_directory e dir =
     (case en_lstat e dir of
        None \<Rightarrow> Throw io_error
      | Some st \<Rightarrow>
          refuse_if (\<not> fs_isDirectory st \<or> fs_isSymbolicLink st \<or> fs_uid st \<noteq> 0 \<or> fs_mode st AND 18 \<noteq> 0)
            (RestoreError ''lifecycle-unsafe''))"

definition trusted :: "mail_env \<Rightarrow> string \<Rightarrow> nat \<Rightarrow> file_content result" where
  "trusted e n limit =
     (if \<not> trusted_name n \<or> \<not> en_self e then Throw (RestoreError ''lifecycle-unavailable'')
      else bind_result (each_result (trusted_directory e) (ancestors (en_root e))) (\<lambda>_.
        case en_open e (en_root e @ [n]) of
          None \<Rightarrow> Throw io_error
        | Some (st, content) \<Rightarrow>
            if \<not> fs_isFile st \<or> fs_uid st \<noteq> 0 \<or> fs_mode st AND 23 \<noteq> 0 \<or> fs_size st > limit \<or> fs_nlink st \<noteq> 1
            then Throw (RestoreError ''lifecycle-unsafe'')
            else Ok content))"

definition trusted_json :: "mail_env \<Rightarrow> string \<Rightarrow> nat \<Rightarrow> json result" where
  "trusted_json e n limit =
     bind_result (trusted e n limit) (\<lambda>c. case fc_json c of None \<Rightarrow> Throw io_error | Some j \<Rightarrow> Ok j)"

section \<open>Capability and capacity\<close>

record capability_view =
  ca_engines :: "engine list"
  ca_maxSqlBytes :: int
  ca_maxRetentionSeconds :: int
  ca_observedAt :: int

fun parse_engines :: "json \<Rightarrow> engine list option" where
  "parse_engines (JArr xs) =
     (if xs = [JStr ''mariadb'', JStr ''postgresql''] then Some [Mariadb, Postgresql]
      else if xs = [JStr ''mariadb'', JStr ''postgresql'', JStr ''mysql''] then Some [Mariadb, Postgresql, Mysql]
      else None)"
| "parse_engines _ = None"

abbreviation parse_positive :: "json \<Rightarrow> int option" where
  "parse_positive \<equiv> parse_int_in 1 MAX_SAFE_INTEGER"

fun capability_schema :: "json \<Rightarrow> capability_view option" where
  "capability_schema (JObj fs) =
     (if \<not> strict_keys [''version'', ''engines'', ''maxSqlBytes'', ''quotaBytes'', ''maxRetentionSeconds'',
           ''observedAt''] fs \<or> map_of fs ''version'' \<noteq> Some (JInt 1) \<or>
         map_of fs ''quotaBytes'' \<noteq> Some (JInt 2147483648)
      then None
      else case (required_field parse_engines ''engines'' fs,
                 required_field (parse_int_in 1 (448 * 1024 ^ 2)) ''maxSqlBytes'' fs,
                 required_field (parse_int_in 86400 (30 * 86400)) ''maxRetentionSeconds'' fs,
                 required_field parse_positive ''observedAt'' fs) of
             (Some en, Some sql, Some ret, Some t) \<Rightarrow>
               Some \<lparr>ca_engines = en, ca_maxSqlBytes = sql, ca_maxRetentionSeconds = ret, ca_observedAt = t\<rparr>
           | _ \<Rightarrow> None)"
| "capability_schema _ = None"

text \<open>A sample is fresh from thirty seconds before to five seconds after the clock.\<close>

definition fresh_sample :: "mail_env \<Rightarrow> int \<Rightarrow> bool" where
  "fresh_sample e t \<longleftrightarrow> \<not> (t > en_clock e + 5000 \<or> t < en_clock e - 30000)"

definition capability :: "mail_env \<Rightarrow> capability_view option" where
  "capability e =
     (case trusted_json e ''capabilities.json'' 2048 of
        Inl _ \<Rightarrow> None
      | Inr j \<Rightarrow>
          (case capability_schema j of
             None \<Rightarrow> None
           | Some c \<Rightarrow> if fresh_sample e (ca_observedAt c) then Some c else None))"

text \<open>A finite number that is not negative, and the sample of such numbers.\<close>

fun parse_nonnegative :: "json \<Rightarrow> json option" where
  "parse_nonnegative (JInt i) = (if 0 \<le> i then Some (JInt i) else None)"
| "parse_nonnegative (JFrac s) = (if s \<noteq> [] \<and> hd s = CHR ''-'' then None else Some (JFrac s))"
| "parse_nonnegative _ = None"

definition sample_keys :: "string list" where
  "sample_keys = [''total'', ''available'', ''swapUsed'', ''cgroupSwap'', ''pressure'', ''cpuAvailable'', ''diskAvailable'']"

fun parse_sample :: "json \<Rightarrow> (string \<times> json) list option option" where
  "parse_sample JNull = Some None"
| "parse_sample (JObj fs) =
     (if strict_keys sample_keys fs \<and> list_all (\<lambda>k. required_field parse_nonnegative k fs \<noteq> None) sample_keys
      then Some (Some (map (\<lambda>k. (k, the (map_of fs k))) sample_keys)) else None)"
| "parse_sample _ = None"

fun capacity_schema :: "json \<Rightarrow> (int \<times> (string \<times> json) list option) option" where
  "capacity_schema (JObj fs) =
     (if \<not> strict_keys [''version'', ''observedAt'', ''sample''] fs \<or> map_of fs ''version'' \<noteq> Some (JInt 1)
      then None
      else case (required_field parse_positive ''observedAt'' fs, required_field parse_sample ''sample'' fs) of
             (Some t, Some s) \<Rightarrow> Some (t, s)
           | _ \<Rightarrow> None)"
| "capacity_schema _ = None"

definition capacity :: "mail_env \<Rightarrow> ((string \<times> json) list \<times> int) option" where
  "capacity e =
     (case trusted_json e ''capacity.json'' 2048 of
        Inl _ \<Rightarrow> None
      | Inr j \<Rightarrow>
          (case capacity_schema j of
             None \<Rightarrow> None
           | Some (t, s) \<Rightarrow> if fresh_sample e t then map_option (\<lambda>v. (v, t)) s else None))"

section \<open>Records and requests\<close>

definition artifact_ok :: "artifact_binding \<Rightarrow> bool" where
  "artifact_ok a \<longleftrightarrow>
     database_id_ok (ab_databaseId a) \<and> database_name_ok (ab_database a) \<and> hex_string 64 (ab_sha256 a) \<and>
     1 \<le> ab_bytes a \<and> ab_bytes a \<le> 448 * 1024 ^ 2"

definition lifecycleBindingSchema :: "lifecycle_binding \<Rightarrow> bool" where
  "lifecycleBindingSchema b \<longleftrightarrow>
     hex_string 24 (lb_id b) \<and> hex_string 64 (lb_snapshotId b) \<and>
     1 \<le> length (lb_artifacts b) \<and> length (lb_artifacts b) \<le> 8 \<and> list_all artifact_ok (lb_artifacts b) \<and>
     1 \<le> lb_createdAt b \<and> lb_createdAt b \<le> MAX_SAFE_INTEGER \<and>
     1 \<le> lb_expiresAt b \<and> lb_expiresAt b \<le> MAX_SAFE_INTEGER"

text \<open>The artifact of a database of a snapshot, \<open>None\<close> where a member the schema requires is absent.\<close>

definition artifact_of :: "string option \<Rightarrow> recovery_database \<Rightarrow> artifact_binding option" where
  "artifact_of databaseId d =
     (case (databaseId, rd_database d) of
        (Some i, Some n) \<Rightarrow> Some \<lparr>ab_databaseId = i, ab_database = n, ab_sha256 = rd_sha256 d, ab_bytes = rd_bytes d\<rparr>
      | _ \<Rightarrow> None)"

definition persistent_binding :: "restore_row \<Rightarrow> lifecycle_binding option" where
  "persistent_binding row =
     (case (rd_engine (dr_artifact row), artifact_of (Some (dr_databaseId row)) (dr_artifact row)) of
        (Some en, Some a) \<Rightarrow>
          Some \<lparr>lb_id = dr_id row, lb_mode = LPersistent, lb_engine = en, lb_snapshotId = dr_snapshotId row,
                lb_artifacts = [a], lb_createdAt = dr_createdAt row, lb_expiresAt = dr_expiresAt row\<rparr>
      | _ \<Rightarrow> None)"

definition testing_binding ::
  "string \<Rightarrow> string \<Rightarrow> recovery_database list \<Rightarrow> int \<Rightarrow> engine \<Rightarrow> lifecycle_binding option" where
  "testing_binding k snapshotId entries createdAt en =
     map_option (\<lambda>as. \<lparr>lb_id = k, lb_mode = LDisposable, lb_engine = en, lb_snapshotId = snapshotId,
         lb_artifacts = as, lb_createdAt = createdAt, lb_expiresAt = createdAt + 2 * 60 * 60000\<rparr>)
       (all_some (map (\<lambda>d. artifact_of (rd_databaseId d) d) entries))"

definition lc_record :: "string \<Rightarrow> pdb \<Rightarrow> lifecycle_row option" where
  "lc_record k db = row_by lr_id k (t_lifecycle db)"

abbreviation live_record :: "lifecycle_row \<Rightarrow> bool" where
  "live_record r \<equiv> lr_state r \<noteq> SRemoved"

definition lc_assertAvailable :: "string \<Rightarrow> pdb \<Rightarrow> unit result" where
  "lc_assertAvailable k db =
     refuse_if (list_ex (\<lambda>r. live_record r \<and> lr_id r \<noteq> k) (t_lifecycle db)) (RestoreError ''internal-lifecycle-busy'')"

definition parent_snapshot :: "lifecycle_binding \<Rightarrow> pdb \<Rightarrow> string option" where
  "parent_snapshot b db =
     (case lb_mode b of
        LPersistent \<Rightarrow> map_option dr_snapshotId (dr_get (lb_id b) db)
      | LDisposable \<Rightarrow> map_option rt_snapshotId (rt_get (lb_id b) db))"

definition new_record :: "int \<Rightarrow> string \<Rightarrow> lifecycle_binding \<Rightarrow> lifecycle_row" where
  "new_record now token b =
     \<lparr>lr_id = lb_id b, lr_mode = lb_mode b, lr_binding = b, lr_ownerToken = token, lr_action = AProvision,
      lr_state = SRequested, lr_code = None, lr_observedSequence = 0, lr_resumeSequence = 0,
      lr_createdAt = lb_createdAt b, lr_updatedAt = now\<rparr>"

text \<open>
  \<open>ensure\<close>: the unique index \<open>automatic_recovery_one_internal\<close> and the primary key refuse the insert.
\<close>

definition lc_ensure ::
  "int \<Rightarrow> string \<Rightarrow> lifecycle_binding option \<Rightarrow> string option \<Rightarrow> pdb \<Rightarrow> (lifecycle_row \<times> pdb) result" where
  "lc_ensure now random input ownerToken db =
     (case input of
        None \<Rightarrow> Throw zod_error
      | Some b \<Rightarrow>
          if \<not> lifecycleBindingSchema b then Throw zod_error
          else case lc_record (lb_id b) db of
            Some previous \<Rightarrow>
              if lr_binding previous \<noteq> b \<or>
                 (ownerToken \<noteq> None \<and> ownerToken \<noteq> Some [] \<and> ownerToken \<noteq> Some (lr_ownerToken previous))
              then Throw (RestoreError ''lifecycle-binding-mismatch'') else Ok (previous, db)
          | None \<Rightarrow>
              if parent_snapshot b db \<noteq> Some (lb_snapshotId b)
              then Throw (RestoreError ''lifecycle-binding-mismatch'')
              else if list_ex live_record (t_lifecycle db) then Throw (RestoreError ''internal-lifecycle-busy'')
              else let row = new_record now (case ownerToken of Some t \<Rightarrow> if t = [] then random else t | None \<Rightarrow> random) b
                   in Ok (row, db\<lparr>t_lifecycle := t_lifecycle db @ [row]\<rparr>))"

text \<open>The durable intent: the transaction of \<open>publish\<close>.  No result means nothing to write.\<close>

definition next_sequence :: "lifecycle_action \<Rightarrow> bool \<Rightarrow> lifecycle_row \<Rightarrow> int result" where
  "next_sequence a replay current =
     (let n = lr_resumeSequence current
      in if a \<noteq> AResume then Ok n
         else if lr_mode current \<noteq> LPersistent \<or> n > MAX_SAFE_INTEGER \<or> n < 0 \<or> (\<not> replay \<and> n = MAX_SAFE_INTEGER)
         then Throw (RestoreError ''lifecycle-resume-sequence-invalid'')
         else let m = (if replay then n else n + 1)
              in if m = 0 then Throw (RestoreError ''lifecycle-resume-explicit-required'') else Ok m)"

definition intend_row :: "int \<Rightarrow> lifecycle_action \<Rightarrow> int \<Rightarrow> lifecycle_row \<Rightarrow> lifecycle_row" where
  "intend_row now a n r = r\<lparr>lr_action := a, lr_updatedAt := now, lr_resumeSequence := n\<rparr>"

definition lc_intent ::
  "int \<Rightarrow> string \<Rightarrow> lifecycle_action \<Rightarrow> bool \<Rightarrow> pdb \<Rightarrow> (lifecycle_row option \<times> pdb) result" where
  "lc_intent now k a replay db =
     (case lc_record k db of
        None \<Rightarrow> Ok (None, db)
      | Some current \<Rightarrow>
          if lr_state current = SRemoved then Ok (None, db)
          else if lr_action current = ADelete \<and> a \<noteq> ADelete
          then Throw (RestoreError ''lifecycle-deletion-in-progress'')
          else if replay \<and> lr_action current \<noteq> a then Ok (None, db)
          else bind_result (next_sequence a replay current) (\<lambda>n.
            Ok (Some (current\<lparr>lr_action := a, lr_resumeSequence := n\<rparr>),
                db\<lparr>t_lifecycle := update_where (\<lambda>r. lr_id r = k) (intend_row now a n) (t_lifecycle db)\<rparr>)))"

section \<open>The state of the mailbox\<close>

record mail_request =
  mq_version :: int
  mq_binding :: lifecycle_binding
  mq_ownerToken :: string
  mq_action :: lifecycle_action
  mq_cleanupReady :: bool
  mq_resumeSequence :: "int option"

text \<open>A write that \<open>publish\<close> has queued; \<open>pw_staged\<close> once its temporary file is written.\<close>

record pending_write =
  pw_record :: lifecycle_row
  pw_cleanupReady :: bool
  pw_replay :: bool
  pw_staged :: bool

record mailbox =
  mb_db :: pdb
  mb_requests :: "(string \<times> mail_request) list"
  mb_writes :: "pending_write list"

definition request_of :: "pending_write \<Rightarrow> mail_request" where
  "request_of w =
     (let r = pw_record w; resume = (lr_action r = AResume)
      in \<lparr>mq_version = (if resume then 2 else 1), mq_binding = lr_binding r, mq_ownerToken = lr_ownerToken r,
          mq_action = lr_action r, mq_cleanupReady = pw_cleanupReady w,
          mq_resumeSequence = (if resume then Some (lr_resumeSequence r) else None)\<rparr>)"

text \<open>\<open>publish\<close> up to the queued write; \<open>durable\<close> tells whether the connection syncs fully.\<close>

definition mb_publish ::
  "int \<Rightarrow> bool \<Rightarrow> string \<Rightarrow> lifecycle_action \<Rightarrow> bool \<Rightarrow> bool \<Rightarrow> mailbox \<Rightarrow> unit result \<times> mailbox" where
  "mb_publish now durable k a cleanupReady replay m =
     (if a = AResume \<and> \<not> replay \<and> \<not> durable then (Throw (RestoreError ''lifecycle-durability-unavailable''), m)
      else case lc_intent now k a replay (mb_db m) of
             Inl err \<Rightarrow> (Throw err, m)
           | Inr (None, db) \<Rightarrow> (Ok (), m\<lparr>mb_db := db\<rparr>)
           | Inr (Some r, db) \<Rightarrow>
               (Ok (), m\<lparr>mb_db := db, mb_writes := mb_writes m @
                  [\<lparr>pw_record = r, pw_cleanupReady = cleanupReady, pw_replay = replay, pw_staged = False\<rparr>]\<rparr>))"

definition mb_persistent ::
  "int \<Rightarrow> string \<Rightarrow> bool \<Rightarrow> restore_row \<Rightarrow> lifecycle_action \<Rightarrow> bool \<Rightarrow> bool \<Rightarrow> mailbox \<Rightarrow> unit result \<times> mailbox" where
  "mb_persistent now random durable row a cleanupReady replay m =
     (case lc_ensure now random (persistent_binding row) (Some (dr_ownerToken row)) (mb_db m) of
        Inl err \<Rightarrow> (Throw err, m)
      | Inr (r, db) \<Rightarrow> mb_publish now durable (lr_id r) a cleanupReady replay (m\<lparr>mb_db := db\<rparr>))"

definition same_engine :: "recovery_database list \<Rightarrow> engine option" where
  "same_engine entries =
     (case entries of
        [] \<Rightarrow> None
      | d # _ \<Rightarrow> if list_all (\<lambda>x. rd_engine x = rd_engine d) entries then rd_engine d else None)"

definition mb_testing ::
  "int \<Rightarrow> string \<Rightarrow> string \<Rightarrow> string \<Rightarrow> recovery_database list \<Rightarrow> int \<Rightarrow> mailbox \<Rightarrow> unit result \<times> mailbox" where
  "mb_testing now random k snapshotId entries createdAt m =
     (case same_engine entries of
        None \<Rightarrow> (Throw (RestoreError ''lifecycle-binding-mismatch''), m)
      | Some en \<Rightarrow>
          (case lc_ensure now random (testing_binding k snapshotId entries createdAt en) None (mb_db m) of
             Inl err \<Rightarrow> (Throw err, m)
           | Inr (r, db) \<Rightarrow> mb_publish now False (lr_id r) AProvision False False (m\<lparr>mb_db := db\<rparr>)))"

definition mb_action :: "int \<Rightarrow> string \<Rightarrow> lifecycle_action \<Rightarrow> bool \<Rightarrow> mailbox \<Rightarrow> unit result \<times> mailbox" where
  "mb_action now k a cleanupReady m =
     (if a = AResume then (Throw (RestoreError ''lifecycle-resume-explicit-required''), m)
      else case lc_record k (mb_db m) of
             None \<Rightarrow> (Throw (RestoreError ''lifecycle-binding-mismatch''), m)
           | Some r \<Rightarrow> mb_publish now False (lr_id r) a cleanupReady False m)"

section \<open>Writing a request\<close>

text \<open>The environment of a write: the stats of the request directory and of the request itself.\<close>

record write_env =
  we_capability :: "capability_view option"
  we_directory :: "file_stat option"
  we_existing :: "file_stat option"
  we_io_ok :: bool

definition currentIntent :: "lifecycle_row \<Rightarrow> pdb \<Rightarrow> bool" where
  "currentIntent r db \<longleftrightarrow>
     (case lc_record (lr_id r) db of
        None \<Rightarrow> False
      | Some c \<Rightarrow> lr_action c = lr_action r \<and> lr_state c \<noteq> SRemoved \<and> lr_resumeSequence c = lr_resumeSequence r)"

definition requests_directory_ok :: "file_stat \<Rightarrow> bool" where
  "requests_directory_ok st \<longleftrightarrow>
     \<not> (\<not> fs_isDirectory st \<or> fs_isSymbolicLink st \<or> fs_uid st \<noteq> 10001 \<or> fs_mode st AND 511 \<noteq> 448)"

definition request_file_ok :: "file_stat \<Rightarrow> bool" where
  "request_file_ok st \<longleftrightarrow>
     fs_isFile st \<and> fs_uid st = 10001 \<and> fs_mode st AND 511 = 384 \<and> fs_nlink st = 1 \<and> fs_size st \<le> 8192"

text \<open>
  The outcome of the first part of \<open>writeRequest\<close>: an exception, nothing more to do, or a staged
  temporary file.  \<open>we_io_ok\<close> tells whether the calls on the temporary file and the sync of the
  directory succeed.
\<close>

definition write_begins :: "write_env \<Rightarrow> pending_write \<Rightarrow> mailbox \<Rightarrow> bool result" where
  "write_begins e w m =
     (let r = pw_record w
      in if \<not> currentIntent r (mb_db m) then Ok False
         else case we_capability e of
           None \<Rightarrow> Throw (RestoreError ''lifecycle-unavailable'')
         | Some c \<Rightarrow>
             if lb_engine (lr_binding r) \<notin> set (ca_engines c) then Throw (RestoreError ''lifecycle-unavailable'')
             else case we_directory e of
               None \<Rightarrow> Throw io_error
             | Some d \<Rightarrow>
                 if \<not> requests_directory_ok d then Throw (RestoreError ''lifecycle-unsafe'')
                 else case map_of (mb_requests m) (lr_id r) of
                   None \<Rightarrow> if we_io_ok e then Ok True else Throw io_error
                 | Some old \<Rightarrow>
                     if pw_replay w
                     then (case we_existing e of
                             None \<Rightarrow> Throw io_error
                           | Some st \<Rightarrow>
                               if \<not> request_file_ok st then Throw (RestoreError ''lifecycle-unsafe'')
                               else if old = request_of w
                               then (if we_io_ok e then Ok False
                                     else Throw (RestoreError ''lifecycle-durability-unavailable''))
                               else if we_io_ok e then Ok True else Throw io_error)
                     else if we_io_ok e then Ok True else Throw io_error)"

text \<open>Only the first write of a record may run.\<close>

definition first_write :: "string \<Rightarrow> mailbox \<Rightarrow> pending_write option" where
  "first_write k m = find (\<lambda>w. lr_id (pw_record w) = k) (mb_writes m)"

definition drop_write :: "pending_write \<Rightarrow> mailbox \<Rightarrow> mailbox" where
  "drop_write w m = m\<lparr>mb_writes := remove1 w (mb_writes m)\<rparr>"

fun stage_first :: "string \<Rightarrow> pending_write list \<Rightarrow> pending_write list" where
  "stage_first k [] = []"
| "stage_first k (w # ws) =
     (if lr_id (pw_record w) = k then w\<lparr>pw_staged := True\<rparr> # ws else w # stage_first k ws)"

definition mb_write_begin :: "write_env \<Rightarrow> string \<Rightarrow> mailbox \<Rightarrow> unit result \<times> mailbox" where
  "mb_write_begin e k m =
     (case first_write k m of
        None \<Rightarrow> (Ok (), m)
      | Some w \<Rightarrow>
          if pw_staged w then (Ok (), m)
          else case write_begins e w m of
                 Inl err \<Rightarrow> (Throw err, drop_write w m)
               | Inr False \<Rightarrow> (Ok (), drop_write w m)
               | Inr True \<Rightarrow> (Ok (), m\<lparr>mb_writes := stage_first k (mb_writes m)\<rparr>))"

text \<open>
  The second part: the intent is checked again right before the rename.  \<open>synced\<close> tells whether the
  sync of the directory after the rename succeeds.
\<close>

definition mb_write_commit :: "bool \<Rightarrow> string \<Rightarrow> mailbox \<Rightarrow> unit result \<times> mailbox" where
  "mb_write_commit synced k m =
     (case first_write k m of
        None \<Rightarrow> (Ok (), m)
      | Some w \<Rightarrow>
          if \<not> pw_staged w then (Ok (), m)
          else if \<not> currentIntent (pw_record w) (mb_db m) then (Ok (), drop_write w m)
          else ((if synced then Ok () else Throw (RestoreError ''lifecycle-durability-unavailable'')),
                (drop_write w m)\<lparr>mb_requests := AList.update k (request_of w) (mb_requests m)\<rparr>))"

section \<open>Receipts\<close>

record receipt =
  re_id :: string
  re_bindingHash :: string
  re_state :: lifecycle_state
  re_code :: "string option"
  re_observedAt :: int
  re_sequence :: int

definition state_names :: "(string \<times> lifecycle_state) list" where
  "state_names = [(''requested'', SRequested), (''checking-resources'', SCheckingResources),
     (''provisioning-container'', SProvisioningContainer), (''starting-database'', SStartingDatabase),
     (''ready'', SReady), (''stopped'', SStopped), (''cleaning-up'', SCleaningUp), (''removed'', SRemoved),
     (''cleanup-required'', SCleanupRequired)]"

fun parse_state :: "json \<Rightarrow> lifecycle_state option" where
  "parse_state (JStr s) = map_of state_names s"
| "parse_state _ = None"

definition receipt_code_ok :: "string \<Rightarrow> bool" where
  "receipt_code_ok s \<longleftrightarrow>
     s \<noteq> [] \<and> is_lower (hd s) \<and> length (tl s) \<le> 79 \<and>
     list_all (\<lambda>c. is_lower c \<or> is_digit c \<or> c = CHR ''-'') (tl s)"

fun parse_code :: "json \<Rightarrow> string option option" where
  "parse_code JNull = Some None"
| "parse_code (JStr s) = (if receipt_code_ok s then Some (Some s) else None)"
| "parse_code _ = None"

fun lifecycleReceiptSchema :: "json \<Rightarrow> receipt option" where
  "lifecycleReceiptSchema (JObj fs) =
     (if \<not> strict_keys [''version'', ''id'', ''bindingHash'', ''state'', ''code'', ''observedAt'', ''sequence''] fs \<or>
         map_of fs ''version'' \<noteq> Some (JInt 1)
      then None
      else case (required_field (parse_str_if (hex_string 24)) ''id'' fs,
                 required_field (parse_str_if (hex_string 64)) ''bindingHash'' fs,
                 required_field parse_state ''state'' fs, required_field parse_code ''code'' fs,
                 required_field parse_positive ''observedAt'' fs, required_field parse_positive ''sequence'' fs) of
             (Some i, Some h, Some st, Some c, Some t, Some n) \<Rightarrow>
               Some \<lparr>re_id = i, re_bindingHash = h, re_state = st, re_code = c, re_observedAt = t, re_sequence = n\<rparr>
           | _ \<Rightarrow> None)"
| "lifecycleReceiptSchema _ = None"

definition observe_row :: "int \<Rightarrow> receipt \<Rightarrow> lifecycle_row \<Rightarrow> lifecycle_row" where
  "observe_row now v r =
     r\<lparr>lr_state := re_state v, lr_code := re_code v, lr_updatedAt := now, lr_observedSequence := re_sequence v\<rparr>"

definition receipt_stale :: "receipt \<Rightarrow> lifecycle_row \<Rightarrow> bool" where
  "receipt_stale v current \<longleftrightarrow>
     lr_observedSequence current > re_sequence v \<or>
     (lr_state current = SRemoved \<and> re_state v \<noteq> SRemoved) \<or>
     (lr_observedSequence current = re_sequence v \<and> lr_state current \<noteq> re_state v)"

text \<open>The receipt file as the process may trust it, checked against the record.\<close>

definition read_receipt ::
  "(lifecycle_binding \<Rightarrow> string \<Rightarrow> string) \<Rightarrow> mail_env \<Rightarrow> string \<Rightarrow> lifecycle_row \<Rightarrow> receipt option" where
  "read_receipt lifecycleHash e k r =
     (case trusted_json e (k @ ''.receipt.json'') 2048 of
        Inl _ \<Rightarrow> None
      | Inr j \<Rightarrow>
          (case lifecycleReceiptSchema j of
             None \<Rightarrow> None
           | Some v \<Rightarrow>
               if re_id v \<noteq> k \<or> re_bindingHash v \<noteq> lifecycleHash (lr_binding r) (lr_ownerToken r) \<or>
                  re_observedAt v > en_clock e + 5000
               then None else Some v))"

text \<open>A request is unlinked when its record is removed, if its file is the mailbox's own.\<close>

definition own_request_file :: "file_stat option \<Rightarrow> bool" where
  "own_request_file st \<longleftrightarrow>
     (case st of
        None \<Rightarrow> False
      | Some f \<Rightarrow> fs_isFile f \<and> \<not> fs_isSymbolicLink f \<and> fs_uid f = 10001 \<and> fs_mode f AND 511 = 384 \<and> fs_nlink f = 1)"

definition mb_receipt ::
  "(lifecycle_binding \<Rightarrow> string \<Rightarrow> string) \<Rightarrow> mail_env \<Rightarrow> (string \<Rightarrow> file_stat option) \<Rightarrow> string \<Rightarrow> mailbox \<Rightarrow>
     receipt option \<times> mailbox" where
  "mb_receipt lifecycleHash e request_stat k m =
     (case lc_record k (mb_db m) of
        None \<Rightarrow> (None, m)
      | Some r \<Rightarrow>
          (case read_receipt lifecycleHash e k r of
             None \<Rightarrow> (None, m)
           | Some v \<Rightarrow>
               if receipt_stale v r then (None, m)
               else let db = (mb_db m)\<lparr>t_lifecycle := update_where (\<lambda>r. lr_id r = k \<and> lr_observedSequence r \<le> re_sequence v)
                               (observe_row (en_clock e) v) (t_lifecycle (mb_db m))\<rparr>;
                        files = (if re_state v = SRemoved \<and> own_request_file (request_stat k)
                                 then AList.delete k (mb_requests m) else mb_requests m)
                    in (Some v, m\<lparr>mb_db := db, mb_requests := files\<rparr>)))"

section \<open>The provisioned target\<close>

record lifecycle_target =
  lt_engine :: engine
  lt_target :: target_config
  lt_password :: "string option"
  lt_installationId :: string
  lt_activationId :: string
  lt_caSha256 :: string
  lt_containerId :: string
  lt_bindingHash :: string
  lt_storageId :: string

fun parse_fixed_storage :: "json \<Rightarrow> string option" where
  "parse_fixed_storage (JObj fs) =
     (if strict_keys [''id'', ''kind'', ''quotaBytes''] fs \<and> map_of fs ''kind'' = Some (JStr ''fixed-ext4'') \<and>
         map_of fs ''quotaBytes'' = Some (JInt 2147483648)
      then required_field (parse_str_if storage_id_ok) ''id'' fs else None)"
| "parse_fixed_storage _ = None"

fun target_schema :: "json \<Rightarrow> (string \<times> lifecycle_target) option" where
  "target_schema (JObj fs) =
     (if \<not> strict_keys [''version'', ''id'', ''engine'', ''target'', ''installationId'', ''activationId'', ''caSha256'',
           ''containerId'', ''bindingHash'', ''storage''] fs \<or> map_of fs ''version'' \<noteq> Some (JInt 1)
      then None
      else case (required_field (parse_str_if (hex_string 24)) ''id'' fs, required_field parse_engine ''engine'' fs,
                 required_field recovery_target_schema ''target'' fs,
                 required_field (parse_str_if (hex_string 32)) ''installationId'' fs,
                 required_field (parse_str_if (hex_string 32)) ''activationId'' fs,
                 required_field (parse_str_if (hex_string 64)) ''caSha256'' fs,
                 required_field (parse_str_if (hex_string 64)) ''containerId'' fs,
                 required_field (parse_str_if (hex_string 64)) ''bindingHash'' fs,
                 required_field parse_fixed_storage ''storage'' fs) of
             (Some i, Some en, Some (t, p), Some ins, Some act, Some ca, Some con, Some h, Some st) \<Rightarrow>
               Some (i, \<lparr>lt_engine = en, lt_target = t, lt_password = p, lt_installationId = ins, lt_activationId = act,
                  lt_caSha256 = ca, lt_containerId = con, lt_bindingHash = h, lt_storageId = st\<rparr>)
           | _ \<Rightarrow> None)"
| "target_schema _ = None"

definition target_matches :: "string \<Rightarrow> string \<Rightarrow> lifecycle_binding \<Rightarrow> string \<times> lifecycle_target \<Rightarrow> bool" where
  "target_matches k bindingHash b v \<longleftrightarrow>
     (let t = snd v; c = lt_target t
      in fst v = k \<and> lt_bindingHash t = bindingHash \<and> lt_engine t = lb_engine b \<and> tc_engine c = lb_engine b \<and>
         tc_host c = ''persistent-db-'' @ k \<and> tc_port c = (if lb_engine b = Postgresql then 5432 else 3306) \<and>
         tc_tls c = TlsVerifyIdentity \<and> tc_username c = ''restore_user'' \<and> tc_enabled c \<and>
         lt_password t \<noteq> None \<and> lt_password t \<noteq> Some [])"

definition mb_target ::
  "(lifecycle_binding \<Rightarrow> string \<Rightarrow> string) \<Rightarrow> (string \<Rightarrow> string) \<Rightarrow> mail_env \<Rightarrow> (string \<Rightarrow> file_stat option) \<Rightarrow>
     string \<Rightarrow> bool \<Rightarrow> mailbox \<Rightarrow> lifecycle_target result \<times> mailbox" where
  "mb_target lifecycleHash sha256 e request_stat k cleanup m =
     (case lc_record k (mb_db m) of
        None \<Rightarrow> (Throw (RestoreError ''lifecycle-binding-mismatch''), m)
      | Some r \<Rightarrow>
          if lr_mode r \<noteq> LDisposable then (Throw (RestoreError ''lifecycle-binding-mismatch''), m)
          else let (rc, m') = mb_receipt lifecycleHash e request_stat k m
               in (case rc of
                     None \<Rightarrow> Throw (RestoreError ''lifecycle-target-not-ready'')
                   | Some v \<Rightarrow>
                       if re_state v \<noteq> SReady \<or> (\<not> cleanup \<and> lb_expiresAt (lr_binding r) \<le> en_clock e)
                       then Throw (RestoreError ''lifecycle-target-not-ready'')
                       else bind_result (trusted_json e (k @ ''.target.json'') 65536) (\<lambda>j.
                         case target_schema j of
                           None \<Rightarrow> Throw zod_error
                         | Some t \<Rightarrow>
                             if \<not> target_matches k (re_bindingHash v) (lr_binding r) t
                             then Throw (RestoreError ''lifecycle-binding-mismatch'')
                             else bind_result (trusted e (k @ ''-ca.pem'') 16384) (\<lambda>ca.
                               if sha256 (fc_text ca) \<noteq> lt_caSha256 (snd t)
                               then Throw (RestoreError ''lifecycle-tls-binding-mismatch'')
                               else Ok (snd t))), m'))"

text \<open>
  \<open>waitReady\<close> polls until the deadline.  A poll is what one turn of the loop observes: the time,
  whether the signal is aborted, and the environment.  The stages it reports are returned with its
  outcome; \<open>None\<close> while it is still waiting.
\<close>

record poll =
  po_clock :: int
  po_aborted :: bool
  po_env :: mail_env
  po_stat :: "string \<Rightarrow> file_stat option"

fun waitReady ::
  "(lifecycle_binding \<Rightarrow> string \<Rightarrow> string) \<Rightarrow> (string \<Rightarrow> string) \<Rightarrow> string \<Rightarrow> int \<Rightarrow> poll list \<Rightarrow> mailbox \<Rightarrow>
     lifecycle_target result option \<times> lifecycle_state list \<times> mailbox" where
  "waitReady h sha256 k deadline [] m = (None, [], m)"
| "waitReady h sha256 k deadline (p # ps) m =
     (if po_clock p \<ge> deadline then (Some (Throw (RestoreError ''lifecycle-readiness-timeout'')), [], m)
      else if po_aborted p then (Some (Throw (PlainError ''AbortError'')), [], m)
      else let (rc, m') = mb_receipt h (po_env p) (po_stat p) k m
           in case rc of
                None \<Rightarrow> waitReady h sha256 k deadline ps m'
              | Some v \<Rightarrow>
                  if re_state v = SReady
                  then let (t, m'') = mb_target h sha256 (po_env p) (po_stat p) k False m'
                       in (Some t, [re_state v], m'')
                  else if re_state v \<in> {SCleanupRequired, SRemoved, SStopped}
                  then (Some (Throw (RestoreError (case re_code v of
                          Some c \<Rightarrow> if c = [] then ''lifecycle-target-not-ready'' else c
                        | None \<Rightarrow> ''lifecycle-target-not-ready''))), [re_state v], m')
                  else (case waitReady h sha256 k deadline ps m' of
                          (out, stages, m'') \<Rightarrow> (out, re_state v # stages, m'')))"

section \<open>Storage of a target\<close>

text \<open>\<open>s.split(sep)\<close> for a longer separator.\<close>

function (sequential) split_str :: "string \<Rightarrow> string \<Rightarrow> string list" where
  "split_str sep [] = [[]]"
| "split_str sep (c # cs) =
     (if sep \<noteq> [] \<and> starts_with sep (c # cs) then [] # split_str sep (drop (length sep) (c # cs))
      else case split_str sep cs of [] \<Rightarrow> [[c]] | h # t \<Rightarrow> (c # h) # t)"
  by pat_completeness auto
termination
  by (relation "measure (\<lambda>(sep, s). length s)") (auto simp: neq_Nil_conv)

text \<open>
  \<open>isReadonlyRecoveryMount\<close>; a line whose mount point matches but which has no options makes the
  code throw, which is \<open>None\<close>.
\<close>

definition nth_field :: "nat \<Rightarrow> string list \<Rightarrow> string option" where
  "nth_field n xs = (if n < length xs then Some (xs ! n) else None)"

definition mount_lines :: "string \<Rightarrow> string \<Rightarrow> string list list" where
  "mount_lines mountinfo directory =
     filter (\<lambda>parts. nth_field 4 (split_on (CHR '' '') (hd parts)) = Some directory)
       (map (split_str '' - '') (split_on (char_of (10 :: nat)) mountinfo))"

definition isReadonlyRecoveryMount :: "string \<Rightarrow> string \<Rightarrow> bool option" where
  "isReadonlyRecoveryMount mountinfo directory =
     (case mount_lines mountinfo directory of
        [[head, tail]] \<Rightarrow>
          (case nth_field 5 (split_on (CHR '' '') head) of
             None \<Rightarrow> None
           | Some field \<Rightarrow>
               let options = split_on (CHR '','') field
               in Some (hd (split_on (CHR '' '') tail) = ''ext4'' \<and> ''rw'' \<notin> set options \<and>
                    list_all (\<lambda>option. option \<in> set options) [''ro'', ''nodev'', ''nosuid'', ''noexec'']))
      | _ \<Rightarrow> Some False)"

record storage_view =
  sv_mountinfo :: "string option"
  sv_parent :: "file_stat option"
  sv_directory :: "file_stat option"
  sv_sameDevice :: bool
  sv_realpath :: "string option"
  sv_anchor :: "(file_stat \<times> json option) option"
  sv_disk :: "(int \<times> int \<times> int) option"

definition storage_directory_ok :: "file_stat \<Rightarrow> bool" where
  "storage_directory_ok st \<longleftrightarrow>
     \<not> (\<not> fs_isDirectory st \<or> fs_isSymbolicLink st \<or> fs_uid st \<noteq> 0 \<or> fs_mode st AND 18 \<noteq> 0)"

definition anchor_matches :: "string \<Rightarrow> string \<Rightarrow> string \<Rightarrow> file_stat \<times> json option \<Rightarrow> bool" where
  "anchor_matches k storageId activationId f \<longleftrightarrow>
     fs_isFile (fst f) \<and> fs_uid (fst f) = 0 \<and> fs_mode (fst f) AND 511 = 292 \<and> fs_size (fst f) \<le> 4096 \<and>
     (case snd f of
        None \<Rightarrow> False
      | Some j \<Rightarrow> json_field ''restoreId'' j = Some (JStr k) \<and> json_field ''storageId'' j = Some (JStr storageId) \<and>
                  json_field ''activationId'' j = Some (JStr activationId))"

definition verifyStorage ::
  "storage_view \<Rightarrow> string \<Rightarrow> string \<Rightarrow> int \<Rightarrow> string \<Rightarrow> pdb \<Rightarrow> unit result" where
  "verifyStorage v k storageId quotaBytes activationId db =
     (let directory = ''/run/pluton-automatic-storage/'' @ k; unverified = Throw (RestoreError ''lifecycle-storage-unverified'')
      in if lc_record k db = None \<or> \<not> hex_string 24 k then Throw (RestoreError ''lifecycle-binding-mismatch'')
         else case sv_mountinfo v of
           None \<Rightarrow> unverified
         | Some info \<Rightarrow>
             (case isReadonlyRecoveryMount info directory of
                None \<Rightarrow> Throw (PlainError ''TypeError'')
              | Some False \<Rightarrow> unverified
              | Some True \<Rightarrow>
                  (case (sv_directory v, sv_parent v, sv_realpath v) of
                     (Some d, Some p, Some real) \<Rightarrow>
                       if \<not> storage_directory_ok p \<or> \<not> storage_directory_ok d \<or> sv_sameDevice v \<or> real \<noteq> directory
                       then unverified
                       else (case sv_anchor v of
                         None \<Rightarrow> Throw io_error
                       | Some f \<Rightarrow>
                           if \<not> anchor_matches k storageId activationId f then Throw io_error
                           else (case sv_disk v of
                             None \<Rightarrow> Throw io_error
                           | Some (ty, bsize, blocks) \<Rightarrow>
                               refuse_if (ty \<noteq> 61267 \<or> bsize * blocks > quotaBytes)
                                 (RestoreError ''lifecycle-storage-unverified'')))
                   | _ \<Rightarrow> Throw io_error)))"

section \<open>Reconciliation\<close>

definition disposable_live :: "pdb \<Rightarrow> lifecycle_row list" where
  "disposable_live db = take 8 (filter (\<lambda>r. lr_mode r = LDisposable \<and> live_record r) (t_lifecycle db))"

definition test_clean :: "recovery_test \<Rightarrow> bool" where
  "test_clean t \<longleftrightarrow> (case rt_result t of None \<Rightarrow> False | Some x \<Rightarrow> rr_workspace x \<and> rr_databases x)"

fun retry_ids ::
  "(lifecycle_binding \<Rightarrow> string \<Rightarrow> string) \<Rightarrow> mail_env \<Rightarrow> (string \<Rightarrow> file_stat option) \<Rightarrow> lifecycle_row list \<Rightarrow> mailbox \<Rightarrow>
     string list \<times> mailbox" where
  "retry_ids h e st [] m = ([], m)"
| "retry_ids h e st (r # rs) m =
     (case rt_get (lr_id r) (mb_db m) of
        None \<Rightarrow> retry_ids h e st rs m
      | Some t \<Rightarrow>
          if recovery_active (rt_status t) \<or> test_clean t then retry_ids h e st rs m
          else let (rc, m') = mb_receipt h e st (lr_id r) m; (ids, m'') = retry_ids h e st rs m'
               in (if map_option re_state rc = Some SReady then lr_id r # ids else ids, m''))"

definition cleanupRetryIds ::
  "(lifecycle_binding \<Rightarrow> string \<Rightarrow> string) \<Rightarrow> mail_env \<Rightarrow> (string \<Rightarrow> file_stat option) \<Rightarrow> mailbox \<Rightarrow> string list \<times> mailbox" where
  "cleanupRetryIds h e st m = retry_ids h e st (disposable_live (mb_db m)) m"

definition infrastructure_gone :: "recovery_test \<Rightarrow> recovery_test" where
  "infrastructure_gone t = t\<lparr>rt_result := map_option (\<lambda>x. x\<lparr>rr_infrastructure := Some True\<rparr>) (rt_result t)\<rparr>"

definition reconcile_record ::
  "(lifecycle_binding \<Rightarrow> string \<Rightarrow> string) \<Rightarrow> mail_env \<Rightarrow> (string \<Rightarrow> file_stat option) \<Rightarrow> lifecycle_row \<Rightarrow> mailbox \<Rightarrow> mailbox" where
  "reconcile_record h e st r m =
     (let k = lr_id r; (rc, m') = mb_receipt h e st k m
      in case rt_get k (mb_db m') of
           None \<Rightarrow> m'
         | Some t \<Rightarrow>
             if recovery_active (rt_status t) then m'
             else if map_option re_state rc = Some SRemoved \<and> rt_result t \<noteq> None
             then m'\<lparr>mb_db := update_recovery_tests (\<lambda>x. rt_id x = k) infrastructure_gone (mb_db m')\<rparr>
             else if \<not> list_ex (\<lambda>l. il_testId l = k) (t_internalLeases (mb_db m')) \<and> test_clean t
             then snd (mb_action (en_clock e) k ADelete True m')
             else m')"

definition reconcileTesting ::
  "(lifecycle_binding \<Rightarrow> string \<Rightarrow> string) \<Rightarrow> mail_env \<Rightarrow> (string \<Rightarrow> file_stat option) \<Rightarrow> mailbox \<Rightarrow> mailbox" where
  "reconcileTesting h e st m = fold (reconcile_record h e st) (disposable_live (mb_db m)) m"

end
