(* ===== verification/Mailbox_Guarantees.thy ===== *)
theory Mailbox_Guarantees
  imports Recovery_Mailbox Recovery_Guarantees
begin

text \<open>
  The recovery mailbox as a step relation over its atomic parts.  Records only advance, requests
  never carry more authority than the durable record, a durable deletion is never overwritten, and
  each record follows an abstract protocol.
\<close>

section \<open>The steps of the mailbox\<close>

inductive mb_step :: "mailbox \<Rightarrow> mailbox \<Rightarrow> bool" where
  ms_ensure: "lc_ensure now random input token (mb_db m) = Ok (r, db) \<Longrightarrow> mb_step m (m\<lparr>mb_db := db\<rparr>)"
| ms_publish: "mb_step m (snd (mb_publish now durable k a cleanupReady replay m))"
| ms_begin: "mb_step m (snd (mb_write_begin we k m))"
| ms_commit: "mb_step m (snd (mb_write_commit synced k m))"
| ms_receipt: "mb_step m (snd (mb_receipt h e st k m))"
| ms_restart: "mb_step m (m\<lparr>mb_writes := []\<rparr>)"
| ms_other: "t_lifecycle db = t_lifecycle (mb_db m) \<Longrightarrow> mb_step m (m\<lparr>mb_db := db\<rparr>)"

definition mb_init :: "mailbox \<Rightarrow> bool" where
  "mb_init m \<longleftrightarrow> t_lifecycle (mb_db m) = [] \<and> mb_requests m = [] \<and> mb_writes m = []"

text \<open>The operations of the class are sequences of these steps.\<close>

lemma mb_step_other: "t_lifecycle db = t_lifecycle (mb_db m) \<Longrightarrow> mb_step\<^sup>*\<^sup>* m (m\<lparr>mb_db := db\<rparr>)"
  using ms_other by (simp add: r_into_rtranclp)

lemma mb_publish_steps: "mb_step\<^sup>*\<^sup>* m (snd (mb_publish now durable k a cr replay m))"
  using ms_publish by (simp add: r_into_rtranclp)

lemma mb_ensure_publish_steps:
  assumes "lc_ensure now random input token (mb_db m) = Ok (r, db)"
  shows "mb_step\<^sup>*\<^sup>* m (snd (mb_publish now durable k a cr replay (m\<lparr>mb_db := db\<rparr>)))"
  using ms_ensure [OF assms] mb_publish_steps by (metis converse_rtranclp_into_rtranclp)

lemma mb_persistent_steps: "mb_step\<^sup>*\<^sup>* m (snd (mb_persistent now random durable row a cr replay m))"
  unfolding mb_persistent_def by (auto split: sum.split intro: mb_ensure_publish_steps)

lemma mb_testing_steps: "mb_step\<^sup>*\<^sup>* m (snd (mb_testing now random k s entries t m))"
  unfolding mb_testing_def by (auto split: sum.split option.split intro: mb_ensure_publish_steps)

lemma mb_action_steps: "mb_step\<^sup>*\<^sup>* m (snd (mb_action now k a cr m))"
  unfolding mb_action_def by (auto split: option.split intro: mb_publish_steps)

lemma mb_receipt_steps: "mb_receipt h e st k m = (v, m') \<Longrightarrow> mb_step\<^sup>*\<^sup>* m m'"
  using ms_receipt [of m h e st k] by (simp add: r_into_rtranclp)

lemma retry_ids_steps: "retry_ids h e st rs m = (ids, m') \<Longrightarrow> mb_step\<^sup>*\<^sup>* m m'"
proof (induction rs arbitrary: ids m m')
  case (Cons r rs)
  then show ?case
    by (auto simp: Let_def split: option.splits if_splits prod.splits dest!: mb_receipt_steps intro: rtranclp_trans)
qed simp

lemma reconcile_record_steps: "mb_step\<^sup>*\<^sup>* m (reconcile_record h e st r m)"
proof -
  obtain v m' where r: "mb_receipt h e st (lr_id r) m = (v, m')" by fastforce
  have "mb_step\<^sup>*\<^sup>* m' (reconcile_record h e st r m)"
    using r mb_action_steps [of m' "en_clock e" "lr_id r" ADelete True]
    by (auto simp: reconcile_record_def Let_def update_recovery_tests_def split: option.split intro!: mb_step_other)
  with mb_receipt_steps [OF r] show ?thesis by (rule rtranclp_trans)
qed

lemma reconcileTesting_steps: "mb_step\<^sup>*\<^sup>* m (reconcileTesting h e st m)"
proof -
  have "mb_step\<^sup>*\<^sup>* m (fold (reconcile_record h e st) rs m)" for rs
    by (induction rs arbitrary: m) (auto intro: rtranclp_trans [OF reconcile_record_steps])
  then show ?thesis by (simp add: reconcileTesting_def)
qed

lemma waitReady_steps: "waitReady h sha k d ps m = (out, stages, m') \<Longrightarrow> mb_step\<^sup>*\<^sup>* m m'"
proof (induction ps arbitrary: m out stages m')
  case (Cons p ps)
  have target: "mb_step\<^sup>*\<^sup>* m1 m2" if "mb_target h sha e st k c m1 = (t, m2)" for e st c t m1 m2
    using that by (auto simp: mb_target_def Let_def split: option.splits if_splits prod.splits dest!: mb_receipt_steps)
  obtain rc m1 where rc: "mb_receipt h (po_env p) (po_stat p) k m = (rc, m1)" by fastforce
  have "m' = m \<or> mb_step\<^sup>*\<^sup>* m1 m'"
    using Cons rc by (auto simp: Let_def split: option.splits if_splits prod.splits dest: target)
  with mb_receipt_steps [OF rc] show ?case by (auto intro: rtranclp_trans)
qed simp

section \<open>What a step does to the records\<close>

abbreviation records :: "mailbox \<Rightarrow> lifecycle_row list" where
  "records m \<equiv> t_lifecycle (mb_db m)"

abbreviation record_of :: "string \<Rightarrow> mailbox \<Rightarrow> lifecycle_row option" where
  "record_of k m \<equiv> lc_record k (mb_db m)"

lemma parse_positive_required:
  "required_field parse_positive k fs = Some n \<Longrightarrow> 1 \<le> n"
  by (auto simp: required_field_def parse_int_in_def split: option.splits if_splits)

lemma receipt_sequence_positive: "lifecycleReceiptSchema j = Some v \<Longrightarrow> 1 \<le> re_sequence v"
  by (cases j) (auto split: if_splits option.splits dest: parse_positive_required)

lemma lc_intent_cases:
  assumes "lc_intent now k a replay db = Ok (res, db')"
  obtains (idle) "db' = db" "res = None"
  | (updated) r n where "lc_record k db = Some r" "live_record r" "lr_action r = ADelete \<longrightarrow> a = ADelete"
      "replay \<longrightarrow> lr_action r = a" "next_sequence a replay r = Ok n"
      "res = Some (r\<lparr>lr_action := a, lr_resumeSequence := n\<rparr>)"
      "db' = db\<lparr>t_lifecycle := update_where (\<lambda>r. lr_id r = k) (intend_row now a n) (t_lifecycle db)\<rparr>"
proof (cases res)
  case None
  with assms have "db' = db" by (auto simp: lc_intent_def bind_result_Inr_iff split: option.splits if_splits)
  then show thesis using None by (rule idle)
next
  case (Some x)
  with assms obtain r where r: "lc_record k db = Some r" by (auto simp: lc_intent_def split: option.splits)
  with assms Some have ok: "live_record r" "lr_action r = ADelete \<longrightarrow> a = ADelete" "replay \<longrightarrow> lr_action r = a"
    by (auto simp: lc_intent_def split: if_splits)
  have "lc_intent now k a replay db = bind_result (next_sequence a replay r) (\<lambda>n.
      Ok (Some (r\<lparr>lr_action := a, lr_resumeSequence := n\<rparr>),
          db\<lparr>t_lifecycle := update_where (\<lambda>r. lr_id r = k) (intend_row now a n) (t_lifecycle db)\<rparr>))"
    using r ok by (auto simp: lc_intent_def)
  with assms obtain n where "next_sequence a replay r = Ok n" "res = Some (r\<lparr>lr_action := a, lr_resumeSequence := n\<rparr>)"
    "db' = db\<lparr>t_lifecycle := update_where (\<lambda>r. lr_id r = k) (intend_row now a n) (t_lifecycle db)\<rparr>"
    by (auto simp: bind_result_Inr_iff)
  then show thesis by (rule updated [OF r ok])
qed

lemma lc_intent_None: "lc_intent now k a replay db = Ok (None, db') \<Longrightarrow> db' = db"
  by (auto simp: lc_intent_def bind_result_Inr_iff split: option.splits if_splits)

lemma mb_publish_cases:
  assumes "mb_publish now durable k a cr replay m = (res, m')"
  obtains (nothing) "m' = m"
  | (published) r n where "record_of k m = Some r" "live_record r" "lr_action r = ADelete \<longrightarrow> a = ADelete"
      "replay \<longrightarrow> lr_action r = a" "next_sequence a replay r = Ok n"
      "m' = m\<lparr>mb_db := (mb_db m)\<lparr>t_lifecycle := update_where (\<lambda>r. lr_id r = k) (intend_row now a n) (records m)\<rparr>,
           mb_writes := mb_writes m @ [\<lparr>pw_record = r\<lparr>lr_action := a, lr_resumeSequence := n\<rparr>,
             pw_cleanupReady = cr, pw_replay = replay, pw_staged = False\<rparr>]\<rparr>"
proof (cases "\<exists>r db. lc_intent now k a replay (mb_db m) = Ok (Some r, db) \<and> \<not> (a = AResume \<and> \<not> replay \<and> \<not> durable)")
  case True
  then obtain r db where i: "lc_intent now k a replay (mb_db m) = Ok (Some r, db)"
    and d: "\<not> (a = AResume \<and> \<not> replay \<and> \<not> durable)" by blast
  have m': "m' = m\<lparr>mb_db := db, mb_writes := mb_writes m @
      [\<lparr>pw_record = r, pw_cleanupReady = cr, pw_replay = replay, pw_staged = False\<rparr>]\<rparr>"
    using assms i d by (auto simp: mb_publish_def)
  from i show thesis
  proof (cases rule: lc_intent_cases)
    case idle
    then show thesis by simp
  next
    case (updated q n)
    show thesis by (rule published [OF updated(1-5)]) (use m' updated(6,7) in simp)
  qed
next
  case False
  then have "m' = m"
    using assms by (auto simp: mb_publish_def split: if_splits sum.splits option.splits dest!: lc_intent_None)
  then show thesis by (rule nothing)
qed

lemma lc_ensure_cases:
  assumes "lc_ensure now random input token db = Ok (r, db')"
  obtains (found) "db' = db"
  | (fresh) b tok where "lifecycleBindingSchema b" "lc_record (lb_id b) db = None" "\<not> list_ex live_record (t_lifecycle db)"
      "db' = db\<lparr>t_lifecycle := t_lifecycle db @ [new_record now tok b]\<rparr>"
proof -
  from assms obtain b where b: "input = Some b" "lifecycleBindingSchema b"
    by (auto simp: lc_ensure_def split: option.splits if_splits)
  show thesis
  proof (cases "lc_record (lb_id b) db")
    case None
    with assms b obtain tok where "\<not> list_ex live_record (t_lifecycle db)"
      "db' = db\<lparr>t_lifecycle := t_lifecycle db @ [new_record now tok b]\<rparr>"
      by (auto simp: lc_ensure_def Let_def split: if_splits)
    then show thesis using b(2) None fresh by blast
  next
    case (Some p)
    with assms b have "db' = db" by (auto simp: lc_ensure_def split: if_splits)
    then show thesis by (rule found)
  qed
qed

lemma mb_receipt_cases:
  assumes "mb_receipt h e st k m = (v, m')"
  obtains (nothing) "m' = m"
  | (received) r w where "record_of k m = Some r" "\<not> receipt_stale w r" "1 \<le> re_sequence w"
      "mb_db m' = (mb_db m)\<lparr>t_lifecycle := update_where (\<lambda>r. lr_id r = k \<and> lr_observedSequence r \<le> re_sequence w)
         (observe_row (en_clock e) w) (records m)\<rparr>"
      "mb_requests m' = mb_requests m \<or> mb_requests m' = AList.delete k (mb_requests m)" "mb_writes m' = mb_writes m"
proof (cases v)
  case None
  with assms have "m' = m"
    by (auto simp: mb_receipt_def Let_def split: option.splits if_splits)
  then show thesis by (rule nothing)
next
  case (Some w)
  with assms obtain r where r: "record_of k m = Some r" "read_receipt h e k r = Some w" "\<not> receipt_stale w r"
    by (auto simp: mb_receipt_def Let_def split: option.splits if_splits)
  then have pos: "1 \<le> re_sequence w"
    by (auto simp: read_receipt_def split: sum.splits option.splits if_splits dest: receipt_sequence_positive)
  show thesis by (rule received [OF r(1,3) pos]) (use assms r Some in \<open>auto simp: mb_receipt_def Let_def\<close>)
qed

lemma lc_record_update:
  "(\<And>r. lr_id (f r) = lr_id r) \<Longrightarrow>
   lc_record k (db\<lparr>t_lifecycle := update_where p f (t_lifecycle db)\<rparr>) = map_option (\<lambda>r. if p r then f r else r) (lc_record k db)"
  by (simp add: lc_record_def row_by_update_where)

lemma lc_record_id: "lc_record k db = Some r \<Longrightarrow> lr_id r = k"
  by (auto simp: lc_record_def dest: row_by_SomeD)

lemma intend_row_fields:
  "lr_id (intend_row now a n r) = lr_id r" "lr_mode (intend_row now a n r) = lr_mode r"
  "lr_binding (intend_row now a n r) = lr_binding r" "lr_ownerToken (intend_row now a n r) = lr_ownerToken r"
  "lr_state (intend_row now a n r) = lr_state r" "lr_observedSequence (intend_row now a n r) = lr_observedSequence r"
  "lr_action (intend_row now a n r) = a" "lr_resumeSequence (intend_row now a n r) = n"
  by (simp_all add: intend_row_def)

lemma observe_row_fields:
  "lr_id (observe_row now v r) = lr_id r" "lr_mode (observe_row now v r) = lr_mode r"
  "lr_binding (observe_row now v r) = lr_binding r" "lr_ownerToken (observe_row now v r) = lr_ownerToken r"
  "lr_state (observe_row now v r) = re_state v" "lr_observedSequence (observe_row now v r) = re_sequence v"
  "lr_action (observe_row now v r) = lr_action r" "lr_resumeSequence (observe_row now v r) = lr_resumeSequence r"
  by (simp_all add: observe_row_def)

lemmas row_fields = intend_row_fields observe_row_fields

text \<open>How a record may change: its binding is fixed, its sequences grow, deletion and removal stay.\<close>

definition record_later :: "lifecycle_row \<Rightarrow> lifecycle_row \<Rightarrow> bool" where
  "record_later r r' \<longleftrightarrow>
     lr_id r' = lr_id r \<and> lr_mode r' = lr_mode r \<and> lr_binding r' = lr_binding r \<and> lr_ownerToken r' = lr_ownerToken r \<and>
     lr_observedSequence r \<le> lr_observedSequence r' \<and> lr_resumeSequence r \<le> lr_resumeSequence r' \<and>
     (lr_action r = ADelete \<longrightarrow> lr_action r' = ADelete) \<and> (lr_state r = SRemoved \<longrightarrow> lr_state r' = SRemoved)"

lemma record_later_refl: "record_later r r"
  by (simp add: record_later_def)

lemma record_later_trans: "record_later r s \<Longrightarrow> record_later s t \<Longrightarrow> record_later r t"
  by (auto simp: record_later_def)

lemma next_sequence_bounds:
  "next_sequence a replay r = Ok n \<Longrightarrow> lr_resumeSequence r \<le> n \<and> n \<le> lr_resumeSequence r + 1 \<and>
     (a \<noteq> AResume \<or> replay \<longrightarrow> n = lr_resumeSequence r) \<and>
     (a = AResume \<longrightarrow> lr_mode r = LPersistent \<and> 1 \<le> n \<and> n \<le> MAX_SAFE_INTEGER)"
  by (auto simp: next_sequence_def Let_def split: if_splits)

lemma mb_write_records:
  "mb_db (snd (mb_write_begin e k m)) = mb_db m" "mb_db (snd (mb_write_commit s k m)) = mb_db m"
  "mb_requests (snd (mb_write_begin e k m)) = mb_requests m"
  by (auto simp: mb_write_begin_def mb_write_commit_def drop_write_def split: option.split sum.split bool.split)

text \<open>The four ways a step changes the table of records.\<close>

lemma mb_step_records:
  assumes "mb_step m m'"
  obtains (same) "records m' = records m"
  | (created) b now tok where "lifecycleBindingSchema b" "record_of (lb_id b) m = None" "\<not> list_ex live_record (records m)"
      "records m' = records m @ [new_record now tok b]"
  | (intended) k now a n r replay where "record_of k m = Some r" "live_record r" "lr_action r = ADelete \<longrightarrow> a = ADelete"
      "replay \<longrightarrow> lr_action r = a" "next_sequence a replay r = Ok n"
      "records m' = update_where (\<lambda>r. lr_id r = k) (intend_row now a n) (records m)"
  | (observed) k now v r where "record_of k m = Some r" "\<not> receipt_stale v r" "1 \<le> re_sequence v"
      "records m' = update_where (\<lambda>r. lr_id r = k \<and> lr_observedSequence r \<le> re_sequence v) (observe_row now v) (records m)"
  using assms
proof cases
  case (ms_ensure now random input token r db)
  from ms_ensure(2) show thesis
  proof (cases rule: lc_ensure_cases)
    case found
    with ms_ensure(1) show thesis by (intro same) simp
  next
    case (fresh b tok)
    show thesis by (rule created [OF fresh(1-3), of now tok]) (simp add: ms_ensure(1) fresh(4))
  qed
next
  case (ms_publish now durable k a cr replay)
  obtain res m1 where p: "mb_publish now durable k a cr replay m = (res, m1)" by fastforce
  with ms_publish have "m' = m1" by simp
  from p show thesis
  proof (cases rule: mb_publish_cases)
    case nothing
    with \<open>m' = m1\<close> show thesis by (intro same) simp
  next
    case (published r n)
    show thesis by (rule intended [OF published(1-5), of now]) (simp add: \<open>m' = m1\<close> published(6))
  qed
next
  case (ms_begin we k)
  then show thesis by (intro same) (simp add: mb_write_records)
next
  case (ms_commit synced k)
  then show thesis by (intro same) (simp add: mb_write_records)
next
  case (ms_receipt h e st k)
  obtain v m1 where p: "mb_receipt h e st k m = (v, m1)" by fastforce
  with ms_receipt have "m' = m1" by simp
  from p show thesis
  proof (cases rule: mb_receipt_cases)
    case nothing
    with \<open>m' = m1\<close> show thesis by (intro same) simp
  next
    case (received r w)
    show thesis by (rule observed [OF received(1-3), of "en_clock e"]) (simp add: \<open>m' = m1\<close> received(4))
  qed
next
  case ms_restart
  then show thesis by (intro same) simp
next
  case (ms_other db)
  then show thesis by (intro same) simp
qed

definition records_later :: "mailbox \<Rightarrow> mailbox \<Rightarrow> bool" where
  "records_later m m' \<longleftrightarrow>
     (\<forall>k r. record_of k m = Some r \<longrightarrow> (\<exists>r'. record_of k m' = Some r' \<and> record_later r r'))"

lemma records_later_rows:
  assumes "records m' = update_where p f (records m)" "\<And>r. lr_id (f r) = lr_id r"
    and "\<And>k r. record_of k m = Some r \<Longrightarrow> p r \<Longrightarrow> record_later r (f r)"
  shows "records_later m m'"
proof -
  have "lc_record k (mb_db m') = map_option (\<lambda>r. if p r then f r else r) (record_of k m)" for k
    using assms(1,2) by (simp add: lc_record_def row_by_update_where)
  then show ?thesis using assms(3) record_later_refl by (auto simp: records_later_def)
qed

lemma mb_step_later: "mb_step m m' \<Longrightarrow> records_later m m'"
proof (elim mb_step_records)
  assume "records m' = records m"
  then show ?thesis by (simp add: records_later_def lc_record_def record_later_refl)
next
  fix b now tok assume "records m' = records m @ [new_record now tok b]"
  then show ?thesis using record_later_refl by (auto simp: records_later_def lc_record_def row_by_append)
next
  fix k now a n r replay
  assume i: "record_of k m = Some r" "lr_action r = ADelete \<longrightarrow> a = ADelete" "next_sequence a replay r = Ok n"
    "records m' = update_where (\<lambda>r. lr_id r = k) (intend_row now a n) (records m)"
  show ?thesis
  proof (rule records_later_rows [OF i(4) row_fields(1)])
    fix j x assume "record_of j m = Some x" "lr_id x = k"
    then have "x = r" using i(1) lc_record_id by fastforce
    then show "record_later x (intend_row now a n x)"
      using i(2) next_sequence_bounds [OF i(3)] by (simp add: record_later_def row_fields)
  qed
next
  fix k now v r
  assume o: "record_of k m = Some r" "\<not> receipt_stale v r"
    "records m' = update_where (\<lambda>r. lr_id r = k \<and> lr_observedSequence r \<le> re_sequence v) (observe_row now v) (records m)"
  show ?thesis
  proof (rule records_later_rows [OF o(3)])
    fix j x assume "record_of j m = Some x" "lr_id x = k \<and> lr_observedSequence x \<le> re_sequence v"
    then have "x = r" using o(1) lc_record_id by fastforce
    then show "record_later x (observe_row now v x)"
      using o(2) by (auto simp: record_later_def row_fields receipt_stale_def)
  qed (simp add: row_fields)
qed

section \<open>The invariant\<close>

definition record_ok :: "lifecycle_row \<Rightarrow> bool" where
  "record_ok r \<longleftrightarrow>
     lifecycleBindingSchema (lr_binding r) \<and> lb_id (lr_binding r) = lr_id r \<and> lb_mode (lr_binding r) = lr_mode r \<and>
     0 \<le> lr_observedSequence r \<and> 0 \<le> lr_resumeSequence r \<and> lr_resumeSequence r \<le> MAX_SAFE_INTEGER \<and>
     (lr_mode r = LDisposable \<longrightarrow> lr_resumeSequence r = 0) \<and> (lr_action r = AResume \<longrightarrow> 1 \<le> lr_resumeSequence r)"

definition table_ok :: "lifecycle_row list \<Rightarrow> bool" where
  "table_ok rows \<longleftrightarrow>
     distinct (map lr_id rows) \<and> count_where live_record rows \<le> 1 \<and> list_all record_ok rows"

lemma table_ok_unique:
  "table_ok (records m) \<Longrightarrow> record_of k m = Some r \<Longrightarrow> x \<in> set (records m) \<Longrightarrow> lr_id x = k \<Longrightarrow> x = r"
  unfolding table_ok_def lc_record_def by (metis option.inject row_by_unique)

lemma table_ok_update:
  assumes "table_ok rows" "\<And>r. lr_id (f r) = lr_id r"
    and "\<And>r. r \<in> set rows \<Longrightarrow> p r \<Longrightarrow> record_ok r \<Longrightarrow> record_ok (f r) \<and> (live_record (f r) \<longrightarrow> live_record r)"
  shows "table_ok (update_where p f rows)"
proof -
  have "count_where live_record (update_where p f rows) \<le> count_where live_record rows"
    using assms(1,3) by (intro count_where_update_le) (auto simp: table_ok_def list_all_iff)
  moreover have "map lr_id (update_where p f rows) = map lr_id rows" using assms(2) by (simp add: map_update_where)
  moreover have "list_all record_ok (update_where p f rows)"
    using assms(1,3) by (auto simp: table_ok_def list_all_iff in_update_where)
  ultimately show ?thesis using assms(1) by (simp add: table_ok_def)
qed

lemma intend_record_ok:
  "record_ok r \<Longrightarrow> next_sequence a replay r = Ok n \<Longrightarrow> record_ok (intend_row now a n r)"
  using next_sequence_bounds [of a replay r n] by (cases "lr_mode r"; cases "a = AResume") (auto simp: record_ok_def row_fields)

lemma table_ok_step:
  assumes ok: "table_ok (records m)" and "mb_step m m'"
  shows "table_ok (records m')"
  using assms(2)
proof (cases rule: mb_step_records)
  case same
  with ok show ?thesis by simp
next
  case (created b now tok)
  have "record_ok (new_record now tok b)"
    using created(1) by (simp add: record_ok_def new_record_def MAX_SAFE_INTEGER_def)
  moreover have "count_where live_record (records m) = 0"
    using created(3) by (auto simp: count_where_0_iff list_ex_iff)
  moreover have "lb_id b \<notin> lr_id ` set (records m)" using created(2) by (simp add: lc_record_def row_by_None_iff)
  ultimately show ?thesis using ok created(4) by (auto simp: table_ok_def new_record_def)
next
  case (intended k now a n r replay)
  show ?thesis unfolding intended(6)
  proof (rule table_ok_update [OF ok])
    fix x assume "x \<in> set (records m)" "lr_id x = k" "record_ok x"
    then show "record_ok (intend_row now a n x) \<and> (live_record (intend_row now a n x) \<longrightarrow> live_record x)"
      using table_ok_unique [OF ok intended(1)] intended(5) intend_record_ok by (auto simp: row_fields)
  qed (simp add: row_fields)
next
  case (observed k now v r)
  show ?thesis unfolding observed(4)
  proof (rule table_ok_update [OF ok])
    fix x assume x: "x \<in> set (records m)" "lr_id x = k \<and> lr_observedSequence x \<le> re_sequence v" "record_ok x"
    then have "x = r" using table_ok_unique [OF ok observed(1)] by blast
    with x(3) observed(2,3) show "record_ok (observe_row now v x) \<and> (live_record (observe_row now v x) \<longrightarrow> live_record x)"
      by (auto simp: record_ok_def row_fields receipt_stale_def)
  qed (simp add: row_fields)
qed

text \<open>A request that a record authorises, and a queued write of such a request.\<close>

definition authorised :: "mail_request \<Rightarrow> lifecycle_row \<Rightarrow> bool" where
  "authorised q r \<longleftrightarrow>
     mq_binding q = lr_binding r \<and> mq_ownerToken q = lr_ownerToken r \<and>
     (if mq_action q = AResume
      then mq_version q = 2 \<and> (\<exists>n. mq_resumeSequence q = Some n \<and> 1 \<le> n \<and> n \<le> lr_resumeSequence r)
      else mq_version q = 1 \<and> mq_resumeSequence q = None)"

definition request_ok :: "mailbox \<Rightarrow> string \<times> mail_request \<Rightarrow> bool" where
  "request_ok m kq \<longleftrightarrow> (\<exists>r. record_of (fst kq) m = Some r \<and> authorised (snd kq) r)"

definition write_ok :: "mailbox \<Rightarrow> pending_write \<Rightarrow> bool" where
  "write_ok m w \<longleftrightarrow> request_ok m (lr_id (pw_record w), request_of w)"

definition mail_ok :: "mailbox \<Rightarrow> bool" where
  "mail_ok m \<longleftrightarrow>
     table_ok (records m) \<and> list_all (request_ok m) (mb_requests m) \<and> list_all (write_ok m) (mb_writes m)"

lemma authorised_later: "authorised q r \<Longrightarrow> record_later r r' \<Longrightarrow> authorised q r'"
  by (auto simp: authorised_def record_later_def split: if_splits)

lemma request_ok_later: "records_later m m' \<Longrightarrow> request_ok m kq \<Longrightarrow> request_ok m' kq"
  unfolding request_ok_def records_later_def using authorised_later by blast

lemma write_ok_later: "records_later m m' \<Longrightarrow> write_ok m w \<Longrightarrow> write_ok m' w"
  by (simp add: write_ok_def request_ok_later)

lemma write_ok_staged: "write_ok m (w\<lparr>pw_staged := s\<rparr>) = write_ok m w"
  by (simp add: write_ok_def request_of_def)

lemma stage_first_ok: "list_all (write_ok m) ws \<Longrightarrow> list_all (write_ok m) (stage_first k ws)"
  by (induction ws) (auto simp: write_ok_staged)

lemma first_writeD: "first_write k m = Some w \<Longrightarrow> w \<in> set (mb_writes m) \<and> lr_id (pw_record w) = k"
  unfolding first_write_def find_Some_iff in_set_conv_nth by blast

lemma begin_writes_ok:
  assumes "list_all (write_ok m0) (mb_writes m)"
  shows "list_all (write_ok m0) (mb_writes (snd (mb_write_begin e k m)))"
proof -
  have "list_all (write_ok m0) (remove1 w (mb_writes m))" for w
    using assms by (auto simp: list_all_iff dest: notin_set_remove1)
  then show ?thesis using assms
    by (auto simp: mb_write_begin_def drop_write_def stage_first_ok split: option.split sum.split bool.split)
qed

lemma commit_ok:
  assumes "list_all (write_ok m) (mb_writes m)" "list_all (request_ok m) (mb_requests m)"
    and "m' = snd (mb_write_commit synced k m)"
  shows "list_all (write_ok m) (mb_writes m') \<and> list_all (request_ok m) (mb_requests m')"
proof -
  have rem: "list_all (write_ok m) (remove1 w (mb_writes m))" for w
    using assms(1) by (auto simp: list_all_iff dest: notin_set_remove1)
  have "list_all (request_ok m) (AList.update k (request_of w) (mb_requests m))" if "first_write k m = Some w" for w
  proof -
    have "request_ok m (k, request_of w)" using first_writeD [OF that] assms(1) by (auto simp: list_all_iff write_ok_def)
    moreover have "set (AList.update k q al) \<subseteq> insert (k, q) (set al)" for q and al :: "(string \<times> mail_request) list"
      by (induction al) auto
    ultimately show ?thesis using assms(2) unfolding list_all_iff by blast
  qed
  with rem assms(1,2) show ?thesis
    by (auto simp: assms(3) mb_write_commit_def drop_write_def split: option.split)
qed

lemma mail_ok_step:
  assumes ok: "mail_ok m" and step: "mb_step m m'"
  shows "mail_ok m'"
proof -
  have later: "records_later m m'" using step by (rule mb_step_later)
  have "list_all (request_ok m') (mb_requests m') \<and> list_all (write_ok m') (mb_writes m')"
    if "list_all (request_ok m) (mb_requests m')" "list_all (write_ok m) (mb_writes m')"
    using that request_ok_later [OF later] write_ok_later [OF later] by (auto simp: list_all_iff)
  note keep = this
  have old: "list_all (request_ok m) (mb_requests m)" "list_all (write_ok m) (mb_writes m)" using ok by (auto simp: mail_ok_def)
  have tab: "table_ok (records m')" using table_ok_step [OF _ step] ok by (simp add: mail_ok_def)
  from step have "list_all (request_ok m') (mb_requests m') \<and> list_all (write_ok m') (mb_writes m')"
  proof cases
    case (ms_publish now durable k a cr replay)
    obtain res m1 where p: "mb_publish now durable k a cr replay m = (res, m1)" by fastforce
    with ms_publish have m1: "m' = m1" by simp
    from p show ?thesis
    proof (cases rule: mb_publish_cases)
      case nothing
      with m1 old show ?thesis by (intro keep) simp_all
    next
      case (published r n)
      let ?w = "\<lparr>pw_record = r\<lparr>lr_action := a, lr_resumeSequence := n\<rparr>, pw_cleanupReady = cr, pw_replay = replay, pw_staged = False\<rparr>"
      have id: "lr_id r = k" using published(1) by (rule lc_record_id)
      have "record_of k m' = Some (intend_row now a n r)"
        unfolding m1 published(6) using published(1) id by (simp add: lc_record_update row_fields)
      then have "write_ok m' ?w"
        using id next_sequence_bounds [OF published(5)]
        by (auto simp: write_ok_def request_ok_def authorised_def request_of_def row_fields Let_def)
      moreover have "mb_requests m' = mb_requests m" "mb_writes m' = mb_writes m @ [?w]" by (simp_all add: m1 published(6))
      ultimately show ?thesis using old request_ok_later [OF later] write_ok_later [OF later]
        by (auto simp: list_all_iff)
    qed
  next
    case (ms_begin we k)
    with old show ?thesis by (intro keep) (simp_all add: mb_write_records begin_writes_ok)
  next
    case (ms_commit synced k)
    from commit_ok [OF old(2,1) ms_commit] show ?thesis by (intro keep) simp_all
  next
    case (ms_receipt h e st k)
    obtain v m1 where p: "mb_receipt h e st k m = (v, m1)" by fastforce
    with ms_receipt have m1: "m' = m1" by simp
    from p show ?thesis
    proof (cases rule: mb_receipt_cases)
      case nothing
      with m1 old show ?thesis by (intro keep) simp_all
    next
      case (received r w)
      have "list_all (request_ok m) (AList.delete k (mb_requests m))"
        using old(1) by (auto simp: list_all_iff AList.delete_eq)
      with received(5,6) m1 old show ?thesis by (intro keep) auto
    qed
  qed (use old keep in auto)
  with tab show ?thesis by (simp add: mail_ok_def)
qed

interpretation mailbox_progress: progress_system mb_init mb_step mail_ok records_later
proof
  show "mail_ok m" if "mb_init m" for m
    using that by (simp add: mb_init_def mail_ok_def table_ok_def)
  show "records_later m m" for m by (auto simp: records_later_def intro: record_later_refl)
  show "records_later m u" if "records_later m t" "records_later t u" for m t u
    using that unfolding records_later_def by (meson record_later_trans)
  show "mail_ok t" if "mail_ok m" "mb_step m t" for m t using that by (rule mail_ok_step)
  show "records_later m t" if "mb_step m t" for m t using that by (rule mb_step_later)
qed

text \<open>
  C21: The mailbox never asks the operator for more than its durable records allow: in every reachable
  state, restarts included, at most one record is not removed, and every request in the directory
  belongs to a record with the same binding and owner token; a Resume request carries a sequence
  number between one and the one its record has reached, and no other request carries one.
\<close>

theorem requests_authorised:
  assumes "reachable mb_init mb_step m"
  shows "count_where live_record (records m) \<le> 1 \<and>
     (\<forall>(k, q) \<in> set (mb_requests m). \<exists>r. record_of k m = Some r \<and> mq_binding q = lr_binding r \<and>
        mq_ownerToken q = lr_ownerToken r \<and>
        (if mq_action q = AResume
         then \<exists>n. mq_resumeSequence q = Some n \<and> 1 \<le> n \<and> n \<le> lr_resumeSequence r \<and> lr_resumeSequence r \<le> MAX_SAFE_INTEGER
         else mq_resumeSequence q = None))"
proof -
  have ok: "mail_ok m" using assms by (rule mailbox_progress.reachable_inv)
  have "\<exists>r. record_of k m = Some r \<and> mq_binding q = lr_binding r \<and> mq_ownerToken q = lr_ownerToken r \<and>
        (if mq_action q = AResume
         then \<exists>n. mq_resumeSequence q = Some n \<and> 1 \<le> n \<and> n \<le> lr_resumeSequence r \<and> lr_resumeSequence r \<le> MAX_SAFE_INTEGER
         else mq_resumeSequence q = None)"
    if "(k, q) \<in> set (mb_requests m)" for k q
  proof -
    from ok that obtain r where r: "record_of k m = Some r" "authorised q r"
      by (auto simp: mail_ok_def list_all_iff request_ok_def)
    then have "record_ok r" using ok by (auto simp: mail_ok_def table_ok_def list_all_iff lc_record_def dest: row_by_SomeD)
    with r show ?thesis by (auto simp: authorised_def record_ok_def split: if_splits)
  qed
  moreover have "count_where live_record (records m) \<le> 1" using ok by (simp add: mail_ok_def table_ok_def)
  ultimately show ?thesis by blast
qed

text \<open>
  Lifecycle records only move forward: in every later state a record still exists with the same
  binding, mode and owner token, its observed sequence and its Resume sequence have not decreased, and
  a deletion that was made durable and a removal that was observed are never undone.
\<close>

theorem lifecycle_monotone:
  assumes "reachable mb_init mb_step m" and "mb_step\<^sup>*\<^sup>* m m'" and "record_of k m = Some r"
  shows "\<exists>r'. record_of k m' = Some r' \<and> lr_binding r' = lr_binding r \<and> lr_mode r' = lr_mode r \<and>
     lr_ownerToken r' = lr_ownerToken r \<and> lr_observedSequence r \<le> lr_observedSequence r' \<and>
     lr_resumeSequence r \<le> lr_resumeSequence r' \<and> (lr_action r = ADelete \<longrightarrow> lr_action r' = ADelete) \<and>
     (lr_state r = SRemoved \<longrightarrow> lr_state r' = SRemoved)"
proof -
  have "records_later m m'"
    by (rule mailbox_progress.le_steps [OF assms(2) mailbox_progress.reachable_inv [OF assms(1)]])
  then obtain r' where "record_of k m' = Some r'" "record_later r r'" using assms(3) by (auto simp: records_later_def)
  then show ?thesis by (auto simp: record_later_def)
qed

section \<open>A durable deletion wins\<close>

definition deletion_only :: "string \<Rightarrow> mailbox \<Rightarrow> bool" where
  "deletion_only k m \<longleftrightarrow>
     (\<exists>r. record_of k m = Some r \<and> lr_action r = ADelete) \<and>
     (\<forall>q. map_of (mb_requests m) k = Some q \<longrightarrow> mq_action q = ADelete)"

lemma commit_deletion_only:
  assumes "deletion_only k m" "map_of (mb_requests (snd (mb_write_commit synced j m))) k = Some q"
  shows "mq_action q = ADelete"
proof (cases "\<exists>w. first_write j m = Some w \<and> pw_staged w \<and> currentIntent (pw_record w) (mb_db m) \<and> j = k")
  case True
  then obtain w where w: "first_write k m = Some w" "pw_staged w" "currentIntent (pw_record w) (mb_db m)" "j = k" by blast
  have "lr_action (pw_record w) = ADelete"
    using w(3) first_writeD [OF w(1)] assms(1) by (auto simp: currentIntent_def deletion_only_def split: option.splits)
  with w assms(2) show ?thesis
    by (auto simp: mb_write_commit_def update_conv request_of_def Let_def)
next
  case False
  then have "map_of (mb_requests (snd (mb_write_commit synced j m))) k = map_of (mb_requests m) k"
    by (auto simp: mb_write_commit_def drop_write_def update_conv split: option.split)
  with assms show ?thesis by (simp add: deletion_only_def)
qed

lemma deletion_only_step:
  assumes "deletion_only k m" "mb_step m m'"
  shows "deletion_only k m'"
proof -
  from assms(1) obtain r where "record_of k m = Some r" "lr_action r = ADelete" by (auto simp: deletion_only_def)
  with mb_step_later [OF assms(2)] have "\<exists>r'. record_of k m' = Some r' \<and> lr_action r' = ADelete"
    by (force simp: records_later_def record_later_def)
  moreover have "mq_action q = ADelete" if q: "map_of (mb_requests m') k = Some q" for q
    using assms(2)
  proof cases
    case (ms_publish now durable j a cr replay)
    obtain res m1 where "mb_publish now durable j a cr replay m = (res, m1)" by fastforce
    moreover from this have "mb_requests m1 = mb_requests m" by (cases rule: mb_publish_cases) simp_all
    ultimately show ?thesis using ms_publish q assms(1) by (auto simp: deletion_only_def)
  next
    case (ms_commit synced j)
    with commit_deletion_only [OF assms(1)] q show ?thesis by blast
  next
    case (ms_receipt h e st j)
    obtain v m1 where p: "mb_receipt h e st j m = (v, m1)" by fastforce
    then have "mb_requests m1 = mb_requests m \<or> mb_requests m1 = AList.delete j (mb_requests m)"
      by (cases rule: mb_receipt_cases) auto
    with p ms_receipt q assms(1) show ?thesis by (auto simp: deletion_only_def delete_conv split: if_splits)
  qed (use q assms(1) in \<open>auto simp: deletion_only_def mb_write_records\<close>)
  ultimately show ?thesis by (simp add: deletion_only_def)
qed


section \<open>The protocol of a record\<close>

text \<open>
  The contract with the operator, for one id: it starts with a Provision intent; intents may change
  until Delete; a Resume always takes the next number of its own; the end is removal.
\<close>

datatype protocol = Absent | Live lifecycle_action int | Gone

inductive protocol_step :: "protocol \<Rightarrow> protocol \<Rightarrow> bool" where
  pr_create: "protocol_step Absent (Live AProvision 0)"
| pr_intend: "a' \<noteq> AResume \<Longrightarrow> a = ADelete \<longrightarrow> a' = ADelete \<Longrightarrow> protocol_step (Live a n) (Live a' n)"
| pr_resume: "a \<noteq> ADelete \<Longrightarrow> n < MAX_SAFE_INTEGER \<Longrightarrow> protocol_step (Live a n) (Live AResume (n + 1))"
| pr_remove: "protocol_step (Live a n) Gone"

inductive_simps protocol_step_Gone [simp]: "protocol_step Gone p"

definition protocol_of :: "string \<Rightarrow> mailbox \<Rightarrow> protocol" where
  "protocol_of k m =
     (case record_of k m of
        None \<Rightarrow> Absent
      | Some r \<Rightarrow> if lr_state r = SRemoved then Gone else Live (lr_action r) (lr_resumeSequence r))"

lemma next_sequence_resume:
  "next_sequence AResume False r = Ok n \<Longrightarrow> n = lr_resumeSequence r + 1 \<and> lr_resumeSequence r < MAX_SAFE_INTEGER"
  by (auto simp: next_sequence_def Let_def split: if_splits)

lemma protocol_intended:
  assumes "live_record r" "lr_action r = ADelete \<longrightarrow> a = ADelete" "replay \<longrightarrow> lr_action r = a" "next_sequence a replay r = Ok n"
  shows "protocol_step (Live (lr_action r) (lr_resumeSequence r)) (Live a n) \<or>
     Live a n = Live (lr_action r) (lr_resumeSequence r)"
proof (cases "a = AResume \<and> \<not> replay")
  case True
  with next_sequence_resume [of r n] assms have "n = lr_resumeSequence r + 1" "lr_resumeSequence r < MAX_SAFE_INTEGER" by auto
  with True assms(2) pr_resume show ?thesis by auto
next
  case False
  with next_sequence_bounds [OF assms(4)] have "n = lr_resumeSequence r" by auto
  with False assms(2,3) pr_intend show ?thesis by (cases "a = AResume") auto
qed

lemma protocol_sim:
  assumes "mb_step m m'"
  shows "protocol_step (protocol_of k m) (protocol_of k m') \<or> protocol_of k m' = protocol_of k m"
  using assms
proof (cases rule: mb_step_records)
  case same
  then show ?thesis by (simp add: protocol_of_def lc_record_def)
next
  case (created b now tok)
  have "protocol_of k m' = (if record_of k m = None \<and> k = lb_id b then Live AProvision 0 else protocol_of k m)"
    using created(4) by (auto simp: protocol_of_def lc_record_def row_by_append new_record_def split: option.split)
  moreover have "protocol_of k m = Absent" if "record_of k m = None" using that by (simp add: protocol_of_def)
  ultimately show ?thesis using pr_create by auto
next
  case (intended j now a n r replay)
  have rec: "record_of k m' = map_option (\<lambda>r. if lr_id r = j then intend_row now a n r else r) (record_of k m)"
    using intended(6) by (simp add: lc_record_def row_by_update_where row_fields)
  show ?thesis
  proof (cases "k = j")
    case True
    with rec intended(1) lc_record_id [OF intended(1)] have "record_of k m' = Some (intend_row now a n r)" by simp
    with protocol_intended [OF intended(2-5)] intended(1,2) True show ?thesis by (simp add: protocol_of_def row_fields)
  next
    case False
    with rec show ?thesis by (auto simp: protocol_of_def dest: lc_record_id split: option.split)
  qed
next
  case (observed j now v r)
  have rec: "record_of k m' = map_option (\<lambda>r. if lr_id r = j \<and> lr_observedSequence r \<le> re_sequence v then observe_row now v r else r)
      (record_of k m)"
    using observed(4) by (simp add: lc_record_def row_by_update_where row_fields)
  show ?thesis
  proof (cases "k = j")
    case True
    have "lr_observedSequence r \<le> re_sequence v" using observed(2) by (simp add: receipt_stale_def)
    with rec True observed(1) lc_record_id [OF observed(1)] have "record_of k m' = Some (observe_row now v r)" by simp
    with observed(1,2) True pr_remove show ?thesis
      by (cases "lr_state r = SRemoved"; cases "re_state v = SRemoved") (auto simp: protocol_of_def row_fields receipt_stale_def)
  next
    case False
    with rec show ?thesis by (auto simp: protocol_of_def dest: lc_record_id split: option.split)
  qed
qed

interpretation mailbox_protocol: simulation mb_init mb_step mail_ok protocol_step "protocol_of k" for k
  by unfold_locales (rule protocol_sim)

text \<open>
  C15: The mailbox implements the lifecycle protocol: projected to one id, every sequence of its
  operations, including interleaved writes, receipts and restarts, is a run of the abstract protocol
  that starts with no record.
\<close>

theorem mailbox_refines_protocol:
  assumes "mb_init m" and "mb_step\<^sup>*\<^sup>* m m'"
  shows "protocol_of k m = Absent \<and> protocol_step\<^sup>*\<^sup>* Absent (protocol_of k m')"
proof -
  have "protocol_of k m = Absent" using assms(1) by (simp add: mb_init_def protocol_of_def lc_record_def)
  with mailbox_protocol.sim_steps [OF assms(2) mailbox_progress.inv_init [OF assms(1)], of k] show ?thesis by simp
qed

section \<open>A sample run\<close>

definition id24 :: string where
  "id24 = replicate 24 (CHR ''a'')"

definition sample_binding :: lifecycle_binding where
  "sample_binding = \<lparr>lb_id = id24, lb_mode = LDisposable, lb_engine = Mariadb, lb_snapshotId = snapshot64,
     lb_artifacts = [\<lparr>ab_databaseId = ''db_1'', ab_database = ''shop'', ab_sha256 = snapshot64, ab_bytes = 10\<rparr>],
     lb_createdAt = 5, lb_expiresAt = 7200005\<rparr>"

definition sample_mail :: mailbox where
  "sample_mail = \<lparr>mb_db = empty_db\<lparr>t_recoveryTests := [sample_test\<lparr>rt_id := id24\<rparr>]\<rparr>, mb_requests = [], mb_writes = []\<rparr>"

definition sample_record :: lifecycle_row where
  "sample_record = new_record 6 ''tok'' sample_binding"

definition ensured_mail :: mailbox where
  "ensured_mail = sample_mail\<lparr>mb_db := (mb_db sample_mail)\<lparr>t_lifecycle := [sample_record]\<rparr>\<rparr>"

definition delete_record :: lifecycle_row where
  "delete_record = sample_record\<lparr>lr_action := ADelete\<rparr>"

definition deleting_mail :: mailbox where
  "deleting_mail = ensured_mail\<lparr>mb_db := (mb_db sample_mail)\<lparr>t_lifecycle := [delete_record\<lparr>lr_updatedAt := 7\<rparr>]\<rparr>,
     mb_writes := [\<lparr>pw_record = delete_record, pw_cleanupReady = True, pw_replay = False, pw_staged = False\<rparr>]\<rparr>"

definition sample_write_env :: write_env where
  "sample_write_env =
     \<lparr>we_capability = Some \<lparr>ca_engines = [Mariadb, Postgresql], ca_maxSqlBytes = 9, ca_maxRetentionSeconds = 86400, ca_observedAt = 7\<rparr>,
      we_directory = Some \<lparr>fs_isFile = False, fs_isDirectory = True, fs_isSymbolicLink = False, fs_uid = 10001,
         fs_mode = 448, fs_size = 0, fs_nlink = 2\<rparr>, we_existing = None, we_io_ok = True\<rparr>"

definition delete_request :: mail_request where
  "delete_request = \<lparr>mq_version = 1, mq_binding = sample_binding, mq_ownerToken = ''tok'', mq_action = ADelete,
     mq_cleanupReady = True, mq_resumeSequence = None\<rparr>"

definition published_mail :: mailbox where
  "published_mail = deleting_mail\<lparr>mb_writes := [], mb_requests := [(id24, delete_request)]\<rparr>"

lemma sample_binding_valid: "lifecycleBindingSchema sample_binding"
proof -
  have "hex_string 64 snapshot64" "hex_string 24 id24"
    by (simp_all add: snapshot64_def id24_def hex_string_def list_all_iff is_hex_char_def)
  moreover have "database_name_ok ''shop''" "database_id_ok ''db_1''"
    by (simp_all add: database_name_ok_def database_id_ok_def starts_with_def ident_ok_def is_ident_char_def is_alnum_def
        is_lower_def is_upper_def is_digit_def)
  ultimately show ?thesis
    by (simp add: lifecycleBindingSchema_def sample_binding_def artifact_ok_def MAX_SAFE_INTEGER_def)
qed

lemmas sample_defs = lc_record_def sample_record_def new_record_def sample_mail_def ensured_mail_def empty_db_def

lemma sample_ensured: "lc_ensure 6 ''tok'' (Some sample_binding) None (mb_db sample_mail) = Ok (sample_record, mb_db ensured_mail)"
  using sample_binding_valid
  by (simp add: lc_ensure_def sample_defs parent_snapshot_def rt_get_def Let_def)
     (simp add: sample_binding_def sample_test_def rt_get_def)

lemma sample_deleting: "mb_publish 7 False id24 ADelete True False ensured_mail = (Ok (), deleting_mail)"
  by (simp add: mb_publish_def lc_intent_def sample_defs next_sequence_def Let_def intend_row_def deleting_mail_def
      delete_record_def, simp add: sample_binding_def)

lemma sample_published: "snd (mb_write_commit True id24 (snd (mb_write_begin sample_write_env id24 deleting_mail))) = published_mail"
proof -
  have mode: "(448 :: nat) AND 511 = 448" by code_simp
  have "currentIntent delete_record (mb_db deleting_mail)" "lr_id delete_record = id24" "lb_engine (lr_binding delete_record) = Mariadb"
    by (simp_all add: currentIntent_def deleting_mail_def delete_record_def sample_defs sample_binding_def)
  moreover have "request_of \<lparr>pw_record = delete_record, pw_cleanupReady = True, pw_replay = False, pw_staged = True\<rparr> = delete_request"
    by (simp add: request_of_def delete_request_def delete_record_def sample_defs Let_def)
  moreover have "mb_writes deleting_mail = [\<lparr>pw_record = delete_record, pw_cleanupReady = True, pw_replay = False, pw_staged = False\<rparr>]"
    "mb_requests deleting_mail = []" by (simp_all add: deleting_mail_def sample_defs)
  ultimately show ?thesis
    by (simp add: mb_write_begin_def mb_write_commit_def first_write_def write_begins_def sample_write_env_def
        requests_directory_ok_def mode drop_write_def published_mail_def Let_def)
qed

lemma sample_run: "mb_step\<^sup>*\<^sup>* sample_mail ensured_mail" "mb_step\<^sup>*\<^sup>* ensured_mail deleting_mail" "mb_step\<^sup>*\<^sup>* deleting_mail published_mail"
proof -
  have "ensured_mail = sample_mail\<lparr>mb_db := mb_db ensured_mail\<rparr>" by (simp add: ensured_mail_def)
  with ms_ensure [OF sample_ensured] have "mb_step sample_mail ensured_mail" by simp
  then show "mb_step\<^sup>*\<^sup>* sample_mail ensured_mail" by (rule r_into_rtranclp)
  show "mb_step\<^sup>*\<^sup>* ensured_mail deleting_mail" using mb_publish_steps [of ensured_mail 7 False id24 ADelete True False] sample_deleting by simp
  show "mb_step\<^sup>*\<^sup>* deleting_mail published_mail"
    using ms_begin ms_commit sample_published by (metis converse_rtranclp_into_rtranclp r_into_rtranclp)
qed

lemma sample_init: "mb_init sample_mail"
  by (simp add: mb_init_def sample_defs)

lemma sample_reachable:
  "reachable mb_init mb_step ensured_mail" "reachable mb_init mb_step deleting_mail" "reachable mb_init mb_step published_mail"
  using reachable_steps sample_run reach_init [of mb_init, OF sample_init] by metis+

theorem requests_authorised_witness:
  "mb_requests published_mail = [(id24, delete_request)] \<and>
     (\<exists>r. record_of id24 published_mail = Some r \<and> mq_ownerToken delete_request = lr_ownerToken r)"
  using requests_authorised [OF sample_reachable(3)] by (auto simp: published_mail_def)

theorem lifecycle_monotone_witness:
  "\<exists>r'. record_of id24 published_mail = Some r' \<and> lr_binding r' = sample_binding"
proof -
  have "record_of id24 ensured_mail = Some sample_record" "lr_binding sample_record = sample_binding"
    by (simp_all add: sample_defs, simp add: sample_binding_def)
  with lifecycle_monotone [OF sample_reachable(1) rtranclp_trans [OF sample_run(2,3)], of id24 sample_record]
  show ?thesis by auto
qed


theorem mailbox_refines_protocol_witness:
  "protocol_step\<^sup>*\<^sup>* Absent (Live ADelete 0) \<and> protocol_of id24 published_mail = Live ADelete 0"
proof -
  have "protocol_of id24 published_mail = Live ADelete 0"
    by (simp add: protocol_of_def published_mail_def deleting_mail_def delete_record_def sample_defs) (simp add: sample_binding_def)
  moreover have "mb_step\<^sup>*\<^sup>* sample_mail published_mail" using sample_run by (meson rtranclp_trans)
  ultimately show ?thesis using mailbox_refines_protocol [OF sample_init, of published_mail id24] by simp
qed

end
