(* ===== verification/Control_Database.thy ===== *)
theory Control_Database
  imports Json_Schema
begin

text \<open>
  The tables of the agent control plane (\<open>backend/src/db/schema/agents.ts\<close>,
  \<open>agentSourceAccess.ts\<close>, \<open>devices.ts\<close>): one record per row type and one record \<open>control_db\<close> of
  the tables.  Of the plans and backups, which other components own, it has the columns the control
  plane reads.  Columns in timestamp mode keep seconds (\<open>secs\<close>), columns in timestamp_ms mode
  milliseconds.  Inserts check the primary keys, unique indexes and foreign keys of the table; a
  violation is \<open>SqlError\<close>.
\<close>

section \<open>Rows of the control plane\<close>

text \<open>\<open>Math.floor(date.getTime() / 1000)\<close>, what a column in timestamp mode keeps of a date.\<close>

definition secs :: "int \<Rightarrow> int" where
  "secs ms = ms div 1000"

datatype command_state =
  CQueued | CLeased | CAcknowledged | CRunning | CCompleted | CFailed | CCancelled | CExpired

record enrollment_token =
  et_id :: string
  et_tokenHash :: string
  et_deviceName :: string
  et_expiresAt :: int
  et_createdAt :: int
  et_usedAt :: "int option"
  et_revokedAt :: "int option"

text \<open>The versions of a device: agent, restic, rclone.\<close>

record device_row =
  dv_id :: string
  dv_name :: string
  dv_type :: string
  dv_agentId :: "string option"
  dv_hostname :: "string option"
  dv_os :: "string option"
  dv_platform :: "string option"
  dv_versions :: "(string \<times> string \<times> string) option"
  dv_status :: "string option"
  dv_lastSeen :: "int option"

record agent_identity =
  ai_agentId :: string
  ai_deviceId :: string
  ai_encryptedSecret :: string
  ai_hostname :: string
  ai_os :: string
  ai_architecture :: string
  ai_agentVersion :: string
  ai_resticVersion :: "string option"
  ai_rcloneVersion :: "string option"
  ai_capabilities :: json
  ai_createdAt :: int
  ai_lastSeen :: "int option"
  ai_revokedAt :: "int option"

record nonce_row =
  nr_id :: string
  nr_agentId :: string
  nr_nonceHash :: string
  nr_expiresAt :: int

record agent_command =
  cm_id :: string
  cm_agentId :: string
  cm_type :: string
  cm_payload :: json
  cm_state :: command_state
  cm_idempotencyKey :: string
  cm_createdAt :: int
  cm_leasedAt :: "int option"
  cm_leaseOwner :: "string option"
  cm_leaseExpiresAt :: "int option"
  cm_acknowledgedAt :: "int option"
  cm_completedAt :: "int option"
  cm_attemptCount :: int
  cm_lastEventSequence :: int
  cm_lastError :: "string option"

section \<open>Source access\<close>

datatype root_health = RootReadable | RootUnreadable | RootMissing | RootRejected

record root_status =
  ro_path :: string
  ro_status :: root_health
  ro_code :: "string option"

datatype authorization_mode = HostApproved | ServerManaged

text \<open>\<open>SourceAccessReport\<close>; its version is the constant 1.\<close>

record source_report =
  sr_authorizationMode :: "authorization_mode option"
  sr_delegatedRoots :: "string list option"
  sr_lastModeSetupRequestId :: "string option"
  sr_hostPolicyRevision :: string
  sr_effectiveVersion :: int
  sr_approvedRoots :: "string list"
  sr_effectiveRoots :: "string list"
  sr_rootStatuses :: "root_status list"
  sr_lastAppliedRequestId :: "string option"
  sr_policyError :: "string option"

datatype validation_status = VApproved | VPendingHostApproval | VRejected

record source_validation =
  va_requestedPath :: string
  va_canonicalPath :: "string option"
  va_status :: validation_status
  va_code :: "string option"

datatype request_kind = KValidate | KApply | KModeSetup

datatype request_status =
  QQueued | QValidating | QValidated | QPendingHostApproval | QPendingHostSetup | QApplied | QRejected
  | QCancelled

record source_state =
  ss_agentId :: string
  ss_report :: source_report
  ss_selectedRoots :: "string list"
  ss_latestReportTimestamp :: int
  ss_receivedAt :: int

record source_request =
  sq_id :: string
  sq_agentId :: string
  sq_commandId :: string
  sq_kind :: request_kind
  sq_requestedMode :: "authorization_mode option"
  sq_setupExpiresAt :: "int option"
  sq_status :: request_status
  sq_expectedVersion :: int
  sq_expectedHostPolicyRevision :: string
  sq_roots :: "string list"
  sq_confirmedAffectedPlanIds :: "string list"
  sq_validation :: "source_validation list option"
  sq_resultCode :: "string option"
  sq_createdAt :: int
  sq_completedAt :: "int option"

text \<open>What the control plane reads of a plan and of a backup.\<close>

record planned_source =
  ps_id :: string
  ps_title :: string
  ps_isActive :: bool
  ps_sourceId :: string
  ps_sourceType :: string
  ps_includes :: "string list option"

record backup_activity =
  ba_planId :: "string option"
  ba_sourceId :: string
  ba_status :: "string option"
  ba_inProgress :: "bool option"

section \<open>The tables\<close>

record control_db =
  c_tokens :: "enrollment_token list"
  c_devices :: "device_row list"
  c_identities :: "agent_identity list"
  c_nonces :: "nonce_row list"
  c_commands :: "agent_command list"
  c_sourceStates :: "source_state list"
  c_sourceRequests :: "source_request list"
  c_plans :: "planned_source list"
  c_backups :: "backup_activity list"

definition empty_control :: control_db where
  "empty_control = \<lparr>c_tokens = [], c_devices = [], c_identities = [], c_nonces = [], c_commands = [],
     c_sourceStates = [], c_sourceRequests = [], c_plans = [], c_backups = []\<rparr>"

text \<open>\<open>UPDATE ... RETURNING\<close> on a table, first row of the result.\<close>

definition update_returning :: "('r \<Rightarrow> bool) \<Rightarrow> ('r \<Rightarrow> 'r) \<Rightarrow> 'r list \<Rightarrow> 'r option \<times> 'r list" where
  "update_returning p f t = (map_option f (find p t), update_where p f t)"

definition agent_known :: "string \<Rightarrow> control_db \<Rightarrow> bool" where
  "agent_known agentId db \<longleftrightarrow> agentId \<in> ai_agentId ` set (c_identities db)"

definition command_conflict :: "agent_command \<Rightarrow> control_db \<Rightarrow> bool" where
  "command_conflict c db \<longleftrightarrow>
     cm_id c \<in> cm_id ` set (c_commands db) \<or>
     cm_idempotencyKey c \<in> cm_idempotencyKey ` set (c_commands db) \<or> \<not> agent_known (cm_agentId c) db"

definition insert_command :: "agent_command \<Rightarrow> control_db \<Rightarrow> control_db result" where
  "insert_command c db =
     (if command_conflict c db then Throw SqlError else Ok (db\<lparr>c_commands := c_commands db @ [c]\<rparr>))"

end
