(* ===== verification/Source_Policy.thy ===== *)
theory Source_Policy
  imports Control_Database
begin

text \<open>
  Which paths a remote agent may back up: the path tests and schemas of
  \<open>backend/src/utils/agentSourceAccess.ts\<close> and the audit pages of \<open>sourceAccessHistory.ts\<close>.  Strings
  are ASCII.
\<close>

section \<open>Paths\<close>

definition SOURCE_ACCESS_MAX_ROOTS :: nat where
  "SOURCE_ACCESS_MAX_ROOTS = 32"

definition SOURCE_ACCESS_MAX_PATH_LENGTH :: nat where
  "SOURCE_ACCESS_MAX_PATH_LENGTH = 1024"

fun includes_text :: "string \<Rightarrow> string \<Rightarrow> bool" where
  "includes_text p [] \<longleftrightarrow> p = []"
| "includes_text p (c # cs) \<longleftrightarrow> starts_with p (c # cs) \<or> includes_text p cs"

definition ends_with :: "string \<Rightarrow> string \<Rightarrow> bool" where
  "ends_with p s \<longleftrightarrow> starts_with (rev p) (rev s)"

definition control_char :: "char \<Rightarrow> bool" where
  "control_char c \<longleftrightarrow> of_char c \<le> (0x1f :: nat) \<or> of_char c = (0x7f :: nat)"

abbreviation slash :: char where
  "slash \<equiv> CHR ''/''"

definition isSafeSourceAccessPath :: "string \<Rightarrow> bool" where
  "isSafeSourceAccessPath v \<longleftrightarrow>
     starts_with ''/'' v \<and> length v \<le> SOURCE_ACCESS_MAX_PATH_LENGTH \<and>
     \<not> includes_text [CHR 0x5C] v \<and> \<not> includes_text '','' v \<and> \<not> includes_text ''//'' v \<and>
     (v = ''/'' \<or> \<not> ends_with ''/'' v) \<and> \<not> list_ex control_char v \<and>
     \<not> list_ex (\<lambda>part. part = ''..'' \<or> part = ''.'') (split_on slash v)"

definition sourcePathWithin :: "string \<Rightarrow> string \<Rightarrow> bool" where
  "sourcePathWithin root candidate \<longleftrightarrow>
     candidate = root \<or> starts_with (if root = ''/'' then ''/'' else root @ ''/'') candidate"

text \<open>
  \<open>path.posix.normalize\<close>: empty segments and \<open>.\<close> are dropped, \<open>..\<close> removes the segment before it (kept
  at the front of a relative path), a final slash stays.
\<close>

fun normal_segments :: "bool \<Rightarrow> string list \<Rightarrow> string list \<Rightarrow> string list" where
  "normal_segments up acc [] = rev acc"
| "normal_segments up acc (s # ss) =
     (if s = [] \<or> s = ''.'' then normal_segments up acc ss
      else if s = ''..''
           then (case acc of
                   p # ps \<Rightarrow> if p \<noteq> ''..'' then normal_segments up ps ss
                             else normal_segments up (if up then s # acc else acc) ss
                 | [] \<Rightarrow> normal_segments up (if up then [s] else []) ss)
      else normal_segments up (s # acc) ss)"

fun join_path :: "string list \<Rightarrow> string" where
  "join_path [] = []"
| "join_path [s] = s"
| "join_path (s # t # ts) = s @ slash # join_path (t # ts)"

definition posix_normalize :: "string \<Rightarrow> string" where
  "posix_normalize p =
     (if p = [] then ''.''
      else let absolute = (hd p = slash); trailing = (last p = slash);
               q = join_path (normal_segments (\<not> absolute) [] (split_on slash p))
           in if q = [] then (if absolute then ''/'' else if trailing then ''./'' else ''.'')
              else (if absolute then ''/'' else []) @ q @ (if trailing then ''/'' else []))"

definition isCanonicalSourcePath :: "string \<Rightarrow> bool" where
  "isCanonicalSourcePath v \<longleftrightarrow> isSafeSourceAccessPath v \<and> posix_normalize v = v"

definition deniedExactRoots :: "string list" where
  "deniedExactRoots = [''/'', ''/home'', ''/srv'', ''/var'', ''/var/www'', ''/opt'', ''/mnt'', ''/media'', ''/run'',
     ''/usr'', ''/usr/local'', ''/usr/share'', ''/usr/lib'', ''/bin'', ''/sbin'', ''/lib'', ''/lib64'', ''/var/lib'',
     ''/var/log'', ''/var/cache'', ''/tmp'', ''/var/tmp'', ''/run/user'', ''/lost+found'']"

definition deniedSubtrees :: "string list" where
  "deniedSubtrees = [''/etc'', ''/proc'', ''/sys'', ''/dev'', ''/boot'', ''/root'', ''/var/lib/pluton-agent'',
     ''/var/lib/pluton-agent-upgrades'', ''/opt/pluton-agent'']"

definition isNewSourceRootAllowed :: "string \<Rightarrow> bool" where
  "isNewSourceRootAllowed v \<longleftrightarrow>
     v \<notin> set deniedExactRoots \<and> \<not> list_ex (\<lambda>root. sourcePathWithin root v) deniedSubtrees"

definition sourcePathContainsPrivateDirectory :: "string \<Rightarrow> bool" where
  "sourcePathContainsPrivateDirectory v \<longleftrightarrow>
     list_ex (\<lambda>part. part \<in> {''.ssh'', ''.aws'', ''.gnupg'', ''.kube''}) (split_on slash v)"

definition sameSourceRoots :: "string list \<Rightarrow> string list \<Rightarrow> bool" where
  "sameSourceRoots l r \<longleftrightarrow> length l = length r \<and> list_all (\<lambda>(a, b). a = b) (zip (sort l) (sort r))"

definition hasOverlappingSourceRoots :: "string list \<Rightarrow> bool" where
  "hasOverlappingSourceRoots roots \<longleftrightarrow>
     list_ex (\<lambda>i. list_ex (\<lambda>j. i \<noteq> j \<and> sourcePathWithin (roots ! i) (roots ! j)) [0..<length roots])
       [0..<length roots]"

section \<open>Reports\<close>

abbreviation distinct_count :: "'a list \<Rightarrow> nat" where
  "distinct_count xs \<equiv> length (remdups xs)"

definition truthy_text :: "string option \<Rightarrow> bool" where
  "truthy_text v \<longleftrightarrow> (case v of None \<Rightarrow> False | Some s \<Rightarrow> s \<noteq> [])"

definition or_none :: "'a list option \<Rightarrow> 'a list" where
  "or_none v = (case v of None \<Rightarrow> [] | Some xs \<Rightarrow> xs)"

definition sourceReportHealthy :: "source_report \<Rightarrow> bool" where
  "sourceReportHealthy r \<longleftrightarrow>
     \<not> truthy_text (sr_policyError r) \<and>
     list_all (\<lambda>root. \<not> list_ex (\<lambda>s. ro_path s = root \<and> ro_status s \<noteq> RootReadable) (sr_rootStatuses r))
       (sr_effectiveRoots r)"

section \<open>Schemas\<close>

definition sourceAccessIdSchema :: "json \<Rightarrow> string option" where
  "sourceAccessIdSchema = parse_str_if (ident_ok 160)"

text \<open>\<open>/^[a-z][a-z0-9]*(?:-[a-z0-9]+)*$/\<close>, at most 96 characters.\<close>

definition code_ok :: "string \<Rightarrow> bool" where
  "code_ok s \<longleftrightarrow>
     s \<noteq> [] \<and> is_lower (hd s) \<and> length s \<le> 96 \<and>
     list_all (\<lambda>part. part \<noteq> [] \<and> list_all (\<lambda>c. is_lower c \<or> is_digit c) part) (split_on CHR ''-'' s)"

definition sourceAccessCodeSchema :: "json \<Rightarrow> string option" where
  "sourceAccessCodeSchema = parse_str_if code_ok"

definition sourceAccessPathSchema :: "json \<Rightarrow> string option" where
  "sourceAccessPathSchema =
     parse_str_if (\<lambda>s. 1 \<le> length s \<and> length s \<le> SOURCE_ACCESS_MAX_PATH_LENGTH \<and> isSafeSourceAccessPath s)"

definition canonicalPathSchema :: "json \<Rightarrow> string option" where
  "canonicalPathSchema = refine isCanonicalSourcePath sourceAccessPathSchema"

definition roots_ok :: "string list \<Rightarrow> bool" where
  "roots_ok roots \<longleftrightarrow> length roots \<le> SOURCE_ACCESS_MAX_ROOTS \<and> distinct_count roots = length roots"

definition canonicalRootsSchema :: "json \<Rightarrow> string list option" where
  "canonicalRootsSchema = refine roots_ok (parse_array canonicalPathSchema)"

fun parse_authorization :: "json \<Rightarrow> authorization_mode option" where
  "parse_authorization (JStr s) =
     (if s = ''host-approved'' then Some HostApproved else if s = ''server-managed'' then Some ServerManaged else None)"
| "parse_authorization _ = None"

fun parse_health :: "json \<Rightarrow> root_health option" where
  "parse_health (JStr s) =
     (if s = ''readable'' then Some RootReadable else if s = ''unreadable'' then Some RootUnreadable
      else if s = ''missing'' then Some RootMissing else if s = ''rejected'' then Some RootRejected else None)"
| "parse_health _ = None"

fun parse_root_status :: "json \<Rightarrow> root_status option" where
  "parse_root_status (JObj fs) =
     (if \<not> strict_keys [''path'', ''status'', ''code''] fs then None
      else case (required_field canonicalPathSchema ''path'' fs, required_field parse_health ''status'' fs,
                 optional_field sourceAccessCodeSchema ''code'' fs) of
             (Some p, Some s, Some c) \<Rightarrow> Some \<lparr>ro_path = p, ro_status = s, ro_code = c\<rparr>
           | _ \<Rightarrow> None)"
| "parse_root_status _ = None"

definition rootStatusesSchema :: "json \<Rightarrow> root_status list option" where
  "rootStatusesSchema = refine (\<lambda>xs. length xs \<le> SOURCE_ACCESS_MAX_ROOTS) (parse_array parse_root_status)"

definition parse_version_one :: "json \<Rightarrow> unit option" where
  "parse_version_one j = (if j = JInt 1 then Some () else None)"

text \<open>The maximum the host grants: its approved roots and, in server-managed mode, the delegated ones.\<close>

definition host_maximum :: "source_report \<Rightarrow> string list" where
  "host_maximum r = sr_approvedRoots r @
     (if sr_authorizationMode r = Some ServerManaged then or_none (sr_delegatedRoots r) else [])"

definition report_consistent :: "source_report \<Rightarrow> bool" where
  "report_consistent r \<longleftrightarrow>
     (sr_authorizationMode r = Some ServerManaged \<or> or_none (sr_delegatedRoots r) = []) \<and>
     distinct_count (sr_approvedRoots r @ or_none (sr_delegatedRoots r)) \<le> SOURCE_ACCESS_MAX_ROOTS \<and>
     list_all (\<lambda>root. list_ex (\<lambda>a. sourcePathWithin a root) (host_maximum r)) (sr_effectiveRoots r) \<and>
     list_all (\<lambda>root. list_ex (\<lambda>s. ro_path s = root \<and> ro_status s = RootReadable) (sr_rootStatuses r))
       (sr_effectiveRoots r) \<and>
     distinct_count (map ro_path (sr_rootStatuses r)) = length (sr_rootStatuses r)"

definition report_keys :: "string list" where
  "report_keys = [''version'', ''authorizationMode'', ''delegatedRoots'', ''lastModeSetupRequestId'',
     ''hostPolicyRevision'', ''effectiveVersion'', ''approvedRoots'', ''effectiveRoots'', ''rootStatuses'',
     ''lastAppliedRequestId'', ''policyError'']"

fun parse_report :: "json \<Rightarrow> source_report option" where
  "parse_report (JObj fs) =
     (if \<not> strict_keys report_keys fs then None
      else case (required_field parse_version_one ''version'' fs,
                 optional_field parse_authorization ''authorizationMode'' fs,
                 optional_field canonicalRootsSchema ''delegatedRoots'' fs,
                 optional_field sourceAccessIdSchema ''lastModeSetupRequestId'' fs,
                 required_field (parse_str_if (hex_string 64)) ''hostPolicyRevision'' fs,
                 required_field (parse_int_in 0 MAX_SAFE_INTEGER) ''effectiveVersion'' fs) of
             (Some _, Some m, Some d, Some l, Some h, Some v) \<Rightarrow>
               (case (required_field canonicalRootsSchema ''approvedRoots'' fs,
                      required_field canonicalRootsSchema ''effectiveRoots'' fs,
                      required_field rootStatusesSchema ''rootStatuses'' fs,
                      optional_field sourceAccessIdSchema ''lastAppliedRequestId'' fs,
                      optional_field sourceAccessCodeSchema ''policyError'' fs) of
                  (Some a, Some e, Some r, Some q, Some p) \<Rightarrow>
                    Some \<lparr>sr_authorizationMode = m, sr_delegatedRoots = d, sr_lastModeSetupRequestId = l,
                          sr_hostPolicyRevision = h, sr_effectiveVersion = v, sr_approvedRoots = a,
                          sr_effectiveRoots = e, sr_rootStatuses = r, sr_lastAppliedRequestId = q,
                          sr_policyError = p\<rparr>
                | _ \<Rightarrow> None)
           | _ \<Rightarrow> None)"
| "parse_report _ = None"

definition sourceAccessReportSchema :: "json \<Rightarrow> source_report option" where
  "sourceAccessReportSchema = refine report_consistent parse_report"

fun parse_validation_status :: "json \<Rightarrow> validation_status option" where
  "parse_validation_status (JStr s) =
     (if s = ''approved'' then Some VApproved else if s = ''pending-host-approval'' then Some VPendingHostApproval
      else if s = ''rejected'' then Some VRejected else None)"
| "parse_validation_status _ = None"

fun parse_validation :: "json \<Rightarrow> source_validation option" where
  "parse_validation (JObj fs) =
     (if \<not> strict_keys [''requestedPath'', ''canonicalPath'', ''status'', ''code''] fs then None
      else case (required_field sourceAccessPathSchema ''requestedPath'' fs,
                 optional_field canonicalPathSchema ''canonicalPath'' fs,
                 required_field parse_validation_status ''status'' fs,
                 optional_field sourceAccessCodeSchema ''code'' fs) of
             (Some r, Some c, Some s, Some k) \<Rightarrow>
               if s = VRejected \<or> truthy_text c
               then Some \<lparr>va_requestedPath = r, va_canonicalPath = c, va_status = s, va_code = k\<rparr> else None
           | _ \<Rightarrow> None)"
| "parse_validation _ = None"

definition sourceAccessValidationSchema :: "json \<Rightarrow> source_validation list option" where
  "sourceAccessValidationSchema = refine (\<lambda>xs. length xs \<le> SOURCE_ACCESS_MAX_ROOTS) (parse_array parse_validation)"

record mode_setup =
  mo_requestId :: string
  mo_authorizationMode :: authorization_mode
  mo_delegatedRoots :: "string list"
  mo_expiresAt :: int

fun parse_mode_setup :: "json \<Rightarrow> mode_setup option" where
  "parse_mode_setup (JObj fs) =
     (if \<not> strict_keys [''requestId'', ''authorizationMode'', ''delegatedRoots'', ''expiresAt''] fs then None
      else case (required_field sourceAccessIdSchema ''requestId'' fs,
                 required_field parse_authorization ''authorizationMode'' fs,
                 required_field canonicalRootsSchema ''delegatedRoots'' fs,
                 required_field (parse_int_in 1 MAX_SAFE_INTEGER) ''expiresAt'' fs) of
             (Some r, Some m, Some d, Some e) \<Rightarrow>
               Some \<lparr>mo_requestId = r, mo_authorizationMode = m, mo_delegatedRoots = d, mo_expiresAt = e\<rparr>
           | _ \<Rightarrow> None)"
| "parse_mode_setup _ = None"

record command_result =
  cs_sourceAccess :: source_report
  cs_validation :: "source_validation list option"
  cs_modeSetup :: "mode_setup option"

fun sourceAccessResultSchema :: "json \<Rightarrow> command_result option" where
  "sourceAccessResultSchema (JObj fs) =
     (if \<not> strict_keys [''sourceAccess'', ''validation'', ''modeSetup''] fs then None
      else case (required_field sourceAccessReportSchema ''sourceAccess'' fs,
                 optional_field sourceAccessValidationSchema ''validation'' fs,
                 optional_field parse_mode_setup ''modeSetup'' fs) of
             (Some r, Some v, Some m) \<Rightarrow> Some \<lparr>cs_sourceAccess = r, cs_validation = v, cs_modeSetup = m\<rparr>
           | _ \<Rightarrow> None)"
| "sourceAccessResultSchema _ = None"

definition planIdsSchema :: "json \<Rightarrow> string list option" where
  "planIdsSchema = refine (\<lambda>ids. length ids \<le> 500 \<and> distinct_count ids = length ids) (parse_array sourceAccessIdSchema)"

record selection_input =
  si_expectedVersion :: int
  si_expectedHostPolicyRevision :: string
  si_roots :: "string list"
  si_confirmedAffectedPlanIds :: "string list option"

fun sourceAccessModeSetupSchema :: "json \<Rightarrow> (authorization_mode \<times> selection_input) option" where
  "sourceAccessModeSetupSchema (JObj fs) =
     (if \<not> strict_keys [''expectedVersion'', ''expectedHostPolicyRevision'', ''authorizationMode'', ''roots'',
           ''confirmedAffectedPlanIds''] fs then None
      else case (required_field (parse_int_in 0 (MAX_SAFE_INTEGER - 1)) ''expectedVersion'' fs,
                 required_field (parse_str_if (hex_string 64)) ''expectedHostPolicyRevision'' fs,
                 required_field parse_authorization ''authorizationMode'' fs,
                 required_field canonicalRootsSchema ''roots'' fs,
                 required_field planIdsSchema ''confirmedAffectedPlanIds'' fs) of
             (Some v, Some h, Some m, Some r, Some p) \<Rightarrow>
               if (if m = ServerManaged then r \<noteq> [] else r = [])
               then Some (m, \<lparr>si_expectedVersion = v, si_expectedHostPolicyRevision = h, si_roots = r,
                              si_confirmedAffectedPlanIds = Some p\<rparr>) else None
           | _ \<Rightarrow> None)"
| "sourceAccessModeSetupSchema _ = None"

fun sourceAccessRequestSchema :: "json \<Rightarrow> selection_input option" where
  "sourceAccessRequestSchema (JObj fs) =
     (if \<not> strict_keys [''expectedVersion'', ''expectedHostPolicyRevision'', ''roots'',
           ''confirmedAffectedPlanIds''] fs then None
      else case (required_field (parse_int_in 0 (MAX_SAFE_INTEGER - 1)) ''expectedVersion'' fs,
                 required_field (parse_str_if (hex_string 64)) ''expectedHostPolicyRevision'' fs,
                 required_field (refine roots_ok (parse_array sourceAccessPathSchema)) ''roots'' fs,
                 optional_field planIdsSchema ''confirmedAffectedPlanIds'' fs) of
             (Some v, Some h, Some r, Some p) \<Rightarrow>
               Some \<lparr>si_expectedVersion = v, si_expectedHostPolicyRevision = h, si_roots = r,
                     si_confirmedAffectedPlanIds = p\<rparr>
           | _ \<Rightarrow> None)"
| "sourceAccessRequestSchema _ = None"

end
