(* ===== verification/Agent_Store.thy ===== *)
theory Agent_Store
  imports Control_Database
begin

text \<open>
  The agent control plane: every method of \<open>backend/src/stores/AgentStore.ts\<close>, the signed requests
  of \<open>backend/src/utils/agentProtocol.ts\<close> and \<open>authenticate\<close> of \<open>AgentService.ts\<close>.  Clock readings are
  arguments in milliseconds, one per call of \<open>new Date()\<close> or \<open>this.now()\<close> whose order matters.
  Random ids, hashes, ciphers, HMAC, base64 decoding and \<open>Number\<close> are arguments.  The SQLite driver is
  synchronous: the statements of a method run without a pause in between, so a method is one step.
\<close>

section \<open>Inventories\<close>

record agent_inventory =
  iv_hostname :: string
  iv_os :: string
  iv_architecture :: string
  iv_agentVersion :: string
  iv_resticVersion :: "string option"
  iv_rcloneVersion :: "string option"
  iv_uptimeSeconds :: "int option"
  iv_sourceAccess :: "source_report option"
  iv_capabilities :: json

definition AGENT_COMMAND_TYPES :: "string list" where
  "AGENT_COMMAND_TYPES = [''PING'', ''INVENTORY_REFRESH'', ''BACKUP_FILESYSTEM'', ''SOURCE_ACCESS_VALIDATE'',
     ''SOURCE_ACCESS_APPLY'', ''SOURCE_ACCESS_MODE_SETUP'']"

definition AGENT_REQUEST_SKEW_MS :: int where
  "AGENT_REQUEST_SKEW_MS = 5 * 60 * 1000"

definition AGENT_COMMAND_LEASE_MS :: int where
  "AGENT_COMMAND_LEASE_MS = 60 * 1000"

text \<open>\<open>value || ''\<close> and \<open>value || null\<close> on an optional string.\<close>

definition or_empty :: "string option \<Rightarrow> string" where
  "or_empty v = (case v of None \<Rightarrow> [] | Some s \<Rightarrow> s)"

definition or_null :: "string option \<Rightarrow> string option" where
  "or_null v = (if v = Some [] then None else v)"

definition inventory_versions :: "agent_inventory \<Rightarrow> string \<times> string \<times> string" where
  "inventory_versions i = (iv_agentVersion i, or_empty (iv_resticVersion i), or_empty (iv_rcloneVersion i))"

section \<open>Enrollment\<close>

definition createEnrollment ::
  "string \<Rightarrow> string \<Rightarrow> string \<Rightarrow> int \<Rightarrow> int \<Rightarrow> control_db \<Rightarrow> (enrollment_token option \<times> control_db) result" where
  "createEnrollment i tokenHash deviceName expiresAt now db =
     (if i \<in> et_id ` set (c_tokens db) \<or> tokenHash \<in> et_tokenHash ` set (c_tokens db) then Throw SqlError
      else let row = \<lparr>et_id = i, et_tokenHash = tokenHash, et_deviceName = deviceName,
                      et_expiresAt = secs expiresAt, et_createdAt = secs now, et_usedAt = None,
                      et_revokedAt = None\<rparr>
           in Ok (Some row, db\<lparr>c_tokens := c_tokens db @ [row]\<rparr>))"

definition token_open :: "enrollment_token \<Rightarrow> bool" where
  "token_open t \<longleftrightarrow> et_usedAt t = None \<and> et_revokedAt t = None"

definition revokeEnrollment :: "int \<Rightarrow> string \<Rightarrow> control_db \<Rightarrow> enrollment_token option \<times> control_db" where
  "revokeEnrollment now i db =
     (let (row, t) = update_returning (\<lambda>r. et_id r = i \<and> token_open r)
                       (\<lambda>r. r\<lparr>et_revokedAt := Some (secs now)\<rparr>) (c_tokens db)
      in (row, db\<lparr>c_tokens := t\<rparr>))"

record new_identity =
  ni_agentId :: string
  ni_deviceId :: string
  ni_encryptedSecret :: string
  ni_inventory :: agent_inventory

record new_command =
  nc_id :: string
  nc_agentId :: string
  nc_type :: string
  nc_payload :: json
  nc_idempotencyKey :: string

record enroll_data =
  ed_tokenHash :: string
  ed_now :: int
  ed_deviceId :: string
  ed_agentId :: string
  ed_inventory :: agent_inventory
  ed_identity :: new_identity
  ed_command :: new_command

definition command_row :: "int \<Rightarrow> new_command \<Rightarrow> agent_command" where
  "command_row now c = \<lparr>cm_id = nc_id c, cm_agentId = nc_agentId c, cm_type = nc_type c,
     cm_payload = nc_payload c, cm_state = CQueued, cm_idempotencyKey = nc_idempotencyKey c,
     cm_createdAt = secs now, cm_leasedAt = None, cm_leaseOwner = None, cm_leaseExpiresAt = None,
     cm_acknowledgedAt = None, cm_completedAt = None, cm_attemptCount = 0, cm_lastEventSequence = 0,
     cm_lastError = None\<rparr>"

definition enrolled_device :: "enrollment_token \<Rightarrow> enroll_data \<Rightarrow> device_row" where
  "enrolled_device tok d = \<lparr>dv_id = ed_deviceId d, dv_name = et_deviceName tok, dv_type = ''remote-agent'',
     dv_agentId = Some (ed_agentId d), dv_hostname = Some (iv_hostname (ed_inventory d)),
     dv_os = Some (iv_os (ed_inventory d)), dv_platform = Some (iv_architecture (ed_inventory d)),
     dv_versions = Some (inventory_versions (ed_inventory d)), dv_status = Some ''active'',
     dv_lastSeen = Some (secs (ed_now d))\<rparr>"

definition identity_row :: "int \<Rightarrow> int \<Rightarrow> new_identity \<Rightarrow> agent_identity" where
  "identity_row seen now n = (let i = ni_inventory n in
     \<lparr>ai_agentId = ni_agentId n, ai_deviceId = ni_deviceId n, ai_encryptedSecret = ni_encryptedSecret n,
      ai_hostname = iv_hostname i, ai_os = iv_os i, ai_architecture = iv_architecture i,
      ai_agentVersion = iv_agentVersion i, ai_resticVersion = or_null (iv_resticVersion i),
      ai_rcloneVersion = or_null (iv_rcloneVersion i), ai_capabilities = iv_capabilities i,
      ai_createdAt = secs now, ai_lastSeen = Some (secs seen), ai_revokedAt = None\<rparr>)"

definition token_usable :: "string \<Rightarrow> int \<Rightarrow> enrollment_token \<Rightarrow> bool" where
  "token_usable tokenHash now t \<longleftrightarrow> et_tokenHash t = tokenHash \<and> token_open t \<and> secs now < et_expiresAt t"

text \<open>
  The transaction of \<open>enrollAgent\<close> after the token was claimed.  An error rolls the claim back too.
  \<open>clock\<close> is \<open>unixepoch()\<close> for the \<open>created_at\<close> defaults.
\<close>

definition enroll_rows :: "int \<Rightarrow> enroll_data \<Rightarrow> enrollment_token \<Rightarrow> control_db \<Rightarrow> control_db result" where
  "enroll_rows clock d tok db =
     bind_result (refuse_if (ed_deviceId d \<in> dv_id ` set (c_devices db))
       (PlainError ''Device is already enrolled.'')) (\<lambda>_.
     bind_result (refuse_if (Some (ed_agentId d) \<in> dv_agentId ` set (c_devices db)) SqlError) (\<lambda>_.
     let db1 = db\<lparr>c_devices := c_devices db @ [enrolled_device tok d]\<rparr>; n = ed_identity d in
     bind_result (refuse_if (ni_agentId n \<in> ai_agentId ` set (c_identities db) \<or>
        ni_deviceId n \<in> ai_deviceId ` set (c_identities db)) SqlError) (\<lambda>_.
     insert_command (command_row clock (ed_command d))
       (db1\<lparr>c_identities := c_identities db @ [identity_row (ed_now d) clock n]\<rparr>))))"

definition enrollAgent ::
  "int \<Rightarrow> enroll_data \<Rightarrow> control_db \<Rightarrow> (enrollment_token option \<times> control_db) result" where
  "enrollAgent clock d db =
     (if nc_type (ed_command d) \<notin> set AGENT_COMMAND_TYPES
      then Throw (PlainError ''REMOTE_CAPABILITY_NOT_IMPLEMENTED'')
      else if ed_deviceId d \<noteq> ni_deviceId (ed_identity d) \<or> ed_agentId d \<noteq> ni_agentId (ed_identity d) \<or>
              nc_agentId (ed_command d) \<noteq> ni_agentId (ed_identity d)
      then Throw (PlainError ''Agent enrollment data is inconsistent.'')
      else let (claimed, ts) = update_returning (token_usable (ed_tokenHash d) (ed_now d))
                                 (\<lambda>t. t\<lparr>et_usedAt := Some (secs (ed_now d))\<rparr>) (c_tokens db)
           in case claimed of
                None \<Rightarrow> Ok (None, db)
              | Some tok \<Rightarrow> bind_result (enroll_rows clock d tok (db\<lparr>c_tokens := ts\<rparr>)) (\<lambda>db'. Ok (Some tok, db')))"

section \<open>Identities\<close>

definition getAgentById :: "string \<Rightarrow> control_db \<Rightarrow> agent_identity option" where
  "getAgentById agentId db = row_by ai_agentId agentId (c_identities db)"

definition getAgentByDeviceId :: "string \<Rightarrow> control_db \<Rightarrow> agent_identity option" where
  "getAgentByDeviceId deviceId db = row_by ai_deviceId deviceId (c_identities db)"

definition seen_identity :: "int \<Rightarrow> agent_inventory \<Rightarrow> agent_identity \<Rightarrow> agent_identity" where
  "seen_identity now i a = a\<lparr>ai_hostname := iv_hostname i, ai_os := iv_os i,
     ai_architecture := iv_architecture i, ai_agentVersion := iv_agentVersion i,
     ai_resticVersion := or_null (iv_resticVersion i), ai_rcloneVersion := or_null (iv_rcloneVersion i),
     ai_capabilities := iv_capabilities i, ai_lastSeen := Some (secs now)\<rparr>"

definition seen_device :: "int \<Rightarrow> agent_inventory \<Rightarrow> device_row \<Rightarrow> device_row" where
  "seen_device now i d = d\<lparr>dv_hostname := Some (iv_hostname i), dv_os := Some (iv_os i),
     dv_platform := Some (iv_architecture i), dv_versions := Some (inventory_versions i),
     dv_status := Some ''active'', dv_lastSeen := Some (secs now)\<rparr>"

definition updateHeartbeat ::
  "int \<Rightarrow> string \<Rightarrow> agent_inventory \<Rightarrow> control_db \<Rightarrow> agent_identity option \<times> control_db" where
  "updateHeartbeat now agentId i db =
     (let (agent, t) = update_returning (\<lambda>a. ai_agentId a = agentId \<and> ai_revokedAt a = None)
                         (seen_identity now i) (c_identities db);
          db1 = db\<lparr>c_identities := t\<rparr>
      in case agent of
           None \<Rightarrow> (None, db1)
         | Some a \<Rightarrow> (Some a, db1\<lparr>c_devices := update_where (\<lambda>d. dv_id d = ai_deviceId a)
                                  (seen_device now i) (c_devices db)\<rparr>))"

definition revokeAgentByDeviceId :: "int \<Rightarrow> string \<Rightarrow> control_db \<Rightarrow> agent_identity option \<times> control_db" where
  "revokeAgentByDeviceId now deviceId db =
     (let (agent, t) = update_returning (\<lambda>a. ai_deviceId a = deviceId \<and> ai_revokedAt a = None)
                         (\<lambda>a. a\<lparr>ai_revokedAt := Some (secs now)\<rparr>) (c_identities db);
          db1 = db\<lparr>c_identities := t\<rparr>
      in case agent of
           None \<Rightarrow> (None, db1)
         | Some a \<Rightarrow> (Some a, db1\<lparr>c_devices := update_where (\<lambda>d. dv_id d = deviceId)
                       (\<lambda>d. d\<lparr>dv_status := Some ''revoked'', dv_lastSeen := ai_lastSeen a\<rparr>) (c_devices db)\<rparr>))"

section \<open>Nonces\<close>

definition nonce_conflict :: "string \<Rightarrow> string \<Rightarrow> control_db \<Rightarrow> bool" where
  "nonce_conflict agentId nonceHash db \<longleftrightarrow>
     agentId @ '':'' @ nonceHash \<in> nr_id ` set (c_nonces db) \<or>
     (agentId, nonceHash) \<in> (\<lambda>n. (nr_agentId n, nr_nonceHash n)) ` set (c_nonces db) \<or>
     \<not> agent_known agentId db"

definition reserveNonce :: "int \<Rightarrow> string \<Rightarrow> string \<Rightarrow> int \<Rightarrow> control_db \<Rightarrow> bool \<times> control_db" where
  "reserveNonce now agentId nonceHash expiresAt db =
     (let db1 = db\<lparr>c_nonces := delete_where (\<lambda>n. nr_expiresAt n < secs now) (c_nonces db)\<rparr>
      in if nonce_conflict agentId nonceHash db1 then (False, db1)
         else (True, db1\<lparr>c_nonces := c_nonces db1 @
                [\<lparr>nr_id = agentId @ '':'' @ nonceHash, nr_agentId = agentId, nr_nonceHash = nonceHash,
                  nr_expiresAt = secs expiresAt\<rparr>]\<rparr>))"

section \<open>Commands\<close>

definition enqueueCommand ::
  "int \<Rightarrow> new_command \<Rightarrow> control_db \<Rightarrow> (agent_command option \<times> control_db) result" where
  "enqueueCommand now c db =
     (if nc_type c \<notin> set AGENT_COMMAND_TYPES then Throw (PlainError ''REMOTE_CAPABILITY_NOT_IMPLEMENTED'')
      else bind_result (insert_command (command_row now c) db) (\<lambda>db'. Ok (Some (command_row now c), db')))"

definition command_live :: "agent_command \<Rightarrow> bool" where
  "command_live c \<longleftrightarrow> cm_state c \<in> {CLeased, CAcknowledged, CRunning}"

text \<open>\<open>lte(leaseExpiresAt, now)\<close> and \<open>gt(leaseExpiresAt, now)\<close>; both fail on \<open>NULL\<close>.\<close>

definition lease_over :: "int \<Rightarrow> agent_command \<Rightarrow> bool" where
  "lease_over now c \<longleftrightarrow> (case cm_leaseExpiresAt c of None \<Rightarrow> False | Some e \<Rightarrow> e \<le> secs now)"

definition lease_valid :: "int \<Rightarrow> agent_command \<Rightarrow> bool" where
  "lease_valid now c \<longleftrightarrow> (case cm_leaseExpiresAt c of None \<Rightarrow> False | Some e \<Rightarrow> secs now < e)"

definition requeue_row :: "agent_command \<Rightarrow> agent_command" where
  "requeue_row c = c\<lparr>cm_state := CQueued, cm_leaseOwner := None, cm_leaseExpiresAt := None, cm_leasedAt := None\<rparr>"

definition requeue_expired :: "int \<Rightarrow> string \<Rightarrow> agent_command list \<Rightarrow> agent_command list" where
  "requeue_expired now agentId =
     update_where (\<lambda>c. cm_agentId c = agentId \<and> command_live c \<and> lease_over now c) requeue_row"

definition next_command :: "string \<Rightarrow> agent_command list \<Rightarrow> agent_command option" where
  "next_command agentId cs =
     (case order_by cm_createdAt (filter (\<lambda>c. cm_agentId c = agentId \<and> cm_state c = CQueued) cs) of
        [] \<Rightarrow> None | c # _ \<Rightarrow> Some c)"

definition lease_command :: "int \<Rightarrow> string \<Rightarrow> int \<Rightarrow> int \<Rightarrow> agent_command \<Rightarrow> agent_command" where
  "lease_command now owner leaseMs attempts c = c\<lparr>cm_state := CLeased, cm_leaseOwner := Some owner,
     cm_leasedAt := Some (secs now), cm_leaseExpiresAt := Some (secs (now + leaseMs)),
     cm_attemptCount := attempts\<rparr>"

definition leaseNext ::
  "string \<Rightarrow> string \<Rightarrow> int \<Rightarrow> int \<Rightarrow> control_db \<Rightarrow> agent_command option \<times> control_db" where
  "leaseNext agentId owner leaseMs now db =
     (let cs = requeue_expired now agentId (c_commands db); db1 = db\<lparr>c_commands := cs\<rparr> in
      if list_ex (\<lambda>c. cm_agentId c = agentId \<and> command_live c \<and> lease_valid now c) cs then (None, db1)
      else case next_command agentId cs of
             None \<Rightarrow> (None, db1)
           | Some cand \<Rightarrow>
               let (leased, cs') = update_returning (\<lambda>c. cm_id c = cm_id cand \<and> cm_state c = CQueued)
                     (lease_command now owner leaseMs (cm_attemptCount cand + 1)) cs
               in (leased, db1\<lparr>c_commands := cs'\<rparr>))"

definition getCommandForAgent :: "string \<Rightarrow> string \<Rightarrow> control_db \<Rightarrow> agent_command option" where
  "getCommandForAgent agentId commandId db =
     find (\<lambda>c. cm_id c = commandId \<and> cm_agentId c = agentId) (c_commands db)"

text \<open>The test of the lease in JavaScript: the stored second as a date against the clock.\<close>

definition lease_lost :: "int \<Rightarrow> string \<Rightarrow> agent_command \<Rightarrow> bool" where
  "lease_lost now token c \<longleftrightarrow>
     cm_leaseOwner c \<noteq> Some token \<or>
     (case cm_leaseExpiresAt c of None \<Rightarrow> True | Some e \<Rightarrow> e * 1000 \<le> now)"

text \<open>The common part of the guards of the update statements.\<close>

definition holds_lease :: "string \<Rightarrow> string \<Rightarrow> string \<Rightarrow> int \<Rightarrow> agent_command \<Rightarrow> bool" where
  "holds_lease agentId commandId token now c \<longleftrightarrow>
     cm_id c = commandId \<and> cm_agentId c = agentId \<and> cm_leaseOwner c = Some token \<and> lease_valid now c"

definition acknowledge_row :: "int \<Rightarrow> agent_command \<Rightarrow> agent_command" where
  "acknowledge_row clock c = c\<lparr>cm_state := CAcknowledged, cm_acknowledgedAt := Some (secs clock)\<rparr>"

definition acknowledgeCommand ::
  "int \<Rightarrow> string \<Rightarrow> string \<Rightarrow> string \<Rightarrow> int \<Rightarrow> control_db \<Rightarrow> agent_command option \<times> control_db" where
  "acknowledgeCommand clock agentId commandId token now db =
     (case getCommandForAgent agentId commandId db of
        None \<Rightarrow> (None, db)
      | Some c \<Rightarrow>
          if cm_state c \<in> {CCompleted, CFailed} then (Some c, db)
          else if lease_lost now token c then (None, db)
          else let (row, cs) = update_returning
                     (\<lambda>c. holds_lease agentId commandId token now c \<and> cm_state c \<in> {CLeased, CAcknowledged})
                     (acknowledge_row clock) (c_commands db)
               in (row, db\<lparr>c_commands := cs\<rparr>))"

definition command_settled :: "agent_command \<Rightarrow> bool" where
  "command_settled c \<longleftrightarrow> cm_state c \<in> {CCompleted, CFailed, CCancelled}"

definition accepts_sequence :: "string \<Rightarrow> string \<Rightarrow> string \<Rightarrow> int \<Rightarrow> int \<Rightarrow> agent_command \<Rightarrow> bool" where
  "accepts_sequence agentId commandId token now sequence c \<longleftrightarrow>
     holds_lease agentId commandId token now c \<and> command_live c \<and> cm_lastEventSequence c < sequence"

definition running_row :: "int \<Rightarrow> int \<Rightarrow> agent_command \<Rightarrow> agent_command" where
  "running_row sequence expires c = c\<lparr>cm_state := CRunning, cm_lastEventSequence := sequence,
     cm_leaseExpiresAt := Some (secs expires)\<rparr>"

definition recordCommandEvent ::
  "string \<Rightarrow> string \<Rightarrow> string \<Rightarrow> int \<Rightarrow> int \<Rightarrow> int \<Rightarrow> control_db \<Rightarrow> agent_command option \<times> control_db" where
  "recordCommandEvent agentId commandId token sequence now leaseMs db =
     (case getCommandForAgent agentId commandId db of
        None \<Rightarrow> (None, db)
      | Some c \<Rightarrow>
          if command_settled c then (Some c, db)
          else if lease_lost now token c then (None, db)
          else if sequence \<le> cm_lastEventSequence c then (Some c, db)
          else let (row, cs) = update_returning (accepts_sequence agentId commandId token now sequence)
                     (running_row sequence (now + leaseMs)) (c_commands db)
               in (row, db\<lparr>c_commands := cs\<rparr>))"

definition completion_row :: "int \<Rightarrow> int \<Rightarrow> bool \<Rightarrow> string option \<Rightarrow> agent_command \<Rightarrow> agent_command" where
  "completion_row clock sequence success error c = c\<lparr>cm_state := (if success then CCompleted else CFailed),
     cm_completedAt := Some (secs clock), cm_lastEventSequence := sequence,
     cm_lastError := (if success then None
                      else Some (case or_null error of None \<Rightarrow> ''Agent reported command failure.'' | Some e \<Rightarrow> e))\<rparr>"

definition completeCommand ::
  "int \<Rightarrow> string \<Rightarrow> string \<Rightarrow> string \<Rightarrow> int \<Rightarrow> bool \<Rightarrow> string option \<Rightarrow> int \<Rightarrow> control_db
   \<Rightarrow> agent_command option \<times> control_db" where
  "completeCommand clock agentId commandId token sequence success error now db =
     (case getCommandForAgent agentId commandId db of
        None \<Rightarrow> (None, db)
      | Some c \<Rightarrow>
          if command_settled c then (Some c, db)
          else if lease_lost now token c then (None, db)
          else if sequence \<le> cm_lastEventSequence c then (None, db)
          else let (row, cs) = update_returning (accepts_sequence agentId commandId token now sequence)
                     (completion_row clock sequence success error) (c_commands db)
               in (row, db\<lparr>c_commands := cs\<rparr>))"

definition cancel_command_row :: "int \<Rightarrow> agent_command \<Rightarrow> agent_command" where
  "cancel_command_row clock c = c\<lparr>cm_state := CCancelled, cm_completedAt := Some (secs clock),
     cm_lastError := Some ''Cancelled by user.''\<rparr>"

definition cancelCommand :: "int \<Rightarrow> string \<Rightarrow> control_db \<Rightarrow> agent_command option \<times> control_db" where
  "cancelCommand clock commandId db =
     (case row_by cm_id commandId (c_commands db) of
        None \<Rightarrow> (None, db)
      | Some c \<Rightarrow>
          if command_settled c then (Some c, db)
          else let (row, cs) = update_returning
                     (\<lambda>c. cm_id c = commandId \<and> (cm_state c = CQueued \<or> command_live c)) (cancel_command_row clock)
                     (c_commands db)
               in (Some (case row of None \<Rightarrow> c | Some r \<Rightarrow> r), db\<lparr>c_commands := cs\<rparr>))"

definition renew_row :: "int \<Rightarrow> agent_command \<Rightarrow> agent_command" where
  "renew_row expires c = c\<lparr>cm_leaseExpiresAt := Some (secs expires)\<rparr>"

definition getCommandStatus ::
  "string \<Rightarrow> string \<Rightarrow> string \<Rightarrow> int \<Rightarrow> int \<Rightarrow> control_db \<Rightarrow> (agent_command \<times> bool) option \<times> control_db" where
  "getCommandStatus agentId commandId token leaseMs now db =
     (case getCommandForAgent agentId commandId db of
        None \<Rightarrow> (None, db)
      | Some c \<Rightarrow>
          if cm_leaseOwner c \<noteq> Some token then (None, db)
          else if cm_state c = CCancelled then (Some (c, True), db)
          else if cm_state c \<in> {CCompleted, CFailed} \<or> lease_lost now token c then (None, db)
          else let (row, cs) = update_returning
                     (\<lambda>c. holds_lease agentId commandId token now c \<and> command_live c)
                     (renew_row (now + leaseMs)) (c_commands db)
               in (map_option (\<lambda>r. (r, False)) row, db\<lparr>c_commands := cs\<rparr>))"

section \<open>Signed requests\<close>

definition upper_char :: "char \<Rightarrow> char" where
  "upper_char c = (if is_lower c then char_of (of_char c - 32 :: nat) else c)"

definition newline :: char where
  "newline = CHR 0x0A"

fun join_lines :: "string list \<Rightarrow> string" where
  "join_lines [] = []"
| "join_lines [s] = s"
| "join_lines (s # t # ts) = s @ newline # join_lines (t # ts)"

text \<open>The text the HMAC of a request covers; \<open>hash\<close> is the SHA-256 of the body.\<close>

definition canonical_request ::
  "(string \<Rightarrow> string) \<Rightarrow> string \<Rightarrow> string \<Rightarrow> string \<Rightarrow> string \<Rightarrow> string \<Rightarrow> string" where
  "canonical_request hash timestamp nonce verb path body =
     join_lines [timestamp, nonce, map upper_char verb, path, hash body]"

definition signAgentRequest ::
  "(string \<Rightarrow> string \<Rightarrow> string) \<Rightarrow> (string \<Rightarrow> string) \<Rightarrow> string \<Rightarrow> string \<Rightarrow> string \<Rightarrow> string \<Rightarrow> string \<Rightarrow> string
   \<Rightarrow> string" where
  "signAgentRequest hmac hash secret timestamp nonce verb path body =
     hmac secret (canonical_request hash timestamp nonce verb path body)"

definition verifyAgentSignature :: "(string \<Rightarrow> nat list) \<Rightarrow> string \<Rightarrow> string \<Rightarrow> bool" where
  "verifyAgentSignature decode64 expected actual \<longleftrightarrow> decode64 expected = decode64 actual"

text \<open>The text the signature of a delivered command covers.  \<open>stringify\<close> is \<open>JSON.stringify\<close>.\<close>

definition signAgentCommand ::
  "(string \<Rightarrow> string \<Rightarrow> string) \<Rightarrow> (json \<Rightarrow> string) \<Rightarrow> (int \<Rightarrow> string) \<Rightarrow> string \<Rightarrow> string \<Rightarrow> agent_command \<Rightarrow> string
   \<Rightarrow> string" where
  "signAgentCommand hmac stringify toString secret timestamp c token =
     hmac secret (join_lines [''command'', timestamp, cm_id c, cm_type c, stringify (cm_payload c),
       cm_idempotencyKey c, token,
       (case cm_leaseExpiresAt c of None \<Rightarrow> [] | Some e \<Rightarrow> toString (e * 1000))])"

section \<open>Authentication\<close>

text \<open>\<open>/^[A-Za-z0-9_-]{22,128}$/\<close>\<close>

definition nonce_ok :: "string \<Rightarrow> bool" where
  "nonce_ok s \<longleftrightarrow> 22 \<le> length s \<and> length s \<le> 128 \<and> list_all is_ident_char s"

record signed_request =
  sg_agentId :: "string option"
  sg_timestamp :: "string option"
  sg_nonce :: "string option"
  sg_signature :: "string option"
  sg_method :: string
  sg_path :: string
  sg_body :: string

text \<open>
  What authentication takes from outside: \<open>Number(s)\<close> where it is a safe integer, the decryption of a
  stored secret (\<open>None\<close> where it throws), HMAC, the hash of the body, the hash of the nonce and the
  base64 decoder.
\<close>

record crypto =
  cr_number :: "string \<Rightarrow> int option"
  cr_decrypt :: "string \<Rightarrow> string option"
  cr_hmac :: "string \<Rightarrow> string \<Rightarrow> string"
  cr_bodyHash :: "string \<Rightarrow> string"
  cr_nonceHash :: "string \<Rightarrow> string"
  cr_decode64 :: "string \<Rightarrow> nat list"

record authenticated_agent =
  aa_agentId :: string
  aa_deviceId :: string
  aa_secret :: string

definition authenticationFailure :: app_error where
  "authenticationFailure = AppError 401 ''Agent authentication failed.''"

definition present :: "string option \<Rightarrow> bool" where
  "present v \<longleftrightarrow> or_empty v \<noteq> []"

text \<open>
  \<open>authenticate\<close> up to the reservation of the nonce: the agent and the signed time.  \<open>now\<close> is
  \<open>this.now()\<close>.
\<close>

definition check_request ::
  "crypto \<Rightarrow> int \<Rightarrow> signed_request \<Rightarrow> control_db \<Rightarrow> (authenticated_agent \<times> int) option" where
  "check_request cr now rq db =
     (if \<not> (present (sg_agentId rq) \<and> present (sg_timestamp rq) \<and> present (sg_nonce rq) \<and> present (sg_signature rq))
      then None
      else if \<not> nonce_ok (or_empty (sg_nonce rq)) then None
      else case cr_number cr (or_empty (sg_timestamp rq)) of
        None \<Rightarrow> None
      | Some ts \<Rightarrow>
          if AGENT_REQUEST_SKEW_MS < \<bar>now - ts\<bar> then None
          else case getAgentById (or_empty (sg_agentId rq)) db of
            None \<Rightarrow> None
          | Some a \<Rightarrow>
              if ai_revokedAt a \<noteq> None then None
              else case cr_decrypt cr (ai_encryptedSecret a) of
                None \<Rightarrow> None
              | Some secret \<Rightarrow>
                  if verifyAgentSignature (cr_decode64 cr)
                       (signAgentRequest (cr_hmac cr) (cr_bodyHash cr) secret (or_empty (sg_timestamp rq))
                          (or_empty (sg_nonce rq)) (sg_method rq) (sg_path rq) (sg_body rq))
                       (or_empty (sg_signature rq))
                  then Some (\<lparr>aa_agentId = ai_agentId a, aa_deviceId = ai_deviceId a, aa_secret = secret\<rparr>, ts)
                  else None)"

text \<open>\<open>clock\<close> is the later \<open>new Date()\<close> of \<open>reserveNonce\<close>.  A refused request still purges old nonces.\<close>

definition authenticate ::
  "crypto \<Rightarrow> int \<Rightarrow> int \<Rightarrow> signed_request \<Rightarrow> control_db \<Rightarrow> authenticated_agent result \<times> control_db" where
  "authenticate cr now clock rq db =
     (case check_request cr now rq db of
        None \<Rightarrow> (Throw authenticationFailure, db)
      | Some (agent, ts) \<Rightarrow>
          let (reserved, db') = reserveNonce clock (aa_agentId agent) (cr_nonceHash cr (or_empty (sg_nonce rq)))
                                  (ts + AGENT_REQUEST_SKEW_MS) db
          in (if reserved then Ok agent else Throw authenticationFailure, db'))"

end
