(* ===== verification/Source_Access.thy ===== *)
theory Source_Access
  imports Source_Policy Agent_Store
begin

text \<open>
  Source access of remote agents: every method of \<open>backend/src/stores/AgentSourceAccessStore.ts\<close> and
  the service \<open>AgentSourceAccessService.ts\<close> around it.  Each store method is one transaction.  Clock
  readings are in milliseconds.  The freshness limit of the configuration and random ids are arguments.
  Audit log lines are left out.
\<close>

section \<open>Reading\<close>

definition getState :: "string \<Rightarrow> control_db \<Rightarrow> source_state option" where
  "getState agentId db = row_by ss_agentId agentId (c_sourceStates db)"

definition requests_of :: "string \<Rightarrow> control_db \<Rightarrow> source_request list" where
  "requests_of agentId db = filter (\<lambda>q. sq_agentId q = agentId) (c_sourceRequests db)"

text \<open>\<open>ORDER BY created_at DESC, id DESC\<close>\<close>

definition requests_newest_first :: "source_request list \<Rightarrow> source_request list" where
  "requests_newest_first qs = rev (order_by (\<lambda>q. (sq_createdAt q, sq_id q)) qs)"

definition listRequests :: "string \<Rightarrow> control_db \<Rightarrow> source_request list" where
  "listRequests agentId db = take 20 (requests_newest_first (requests_of agentId db))"

record history_cursor =
  hc_ceiling :: nat
  hc_before :: "(int \<times> string) option"

record history_query =
  hq_limit :: nat
  hq_status :: "request_status option"
  hq_kind :: "request_kind option"
  hq_cursor :: "history_cursor option"

record history_page =
  hp_requests :: "source_request list"
  hp_hasMore :: bool
  hp_total :: nat
  hp_ceiling :: nat

text \<open>
  Rows are only appended to the table and never deleted: the \<open>rowid\<close> of a row is its position, from 1.
\<close>

definition max_rowid :: "string \<Rightarrow> control_db \<Rightarrow> nat" where
  "max_rowid agentId db =
     fold max (map Suc (filter (\<lambda>i. sq_agentId (c_sourceRequests db ! i) = agentId)
       [0..<length (c_sourceRequests db)])) 0"

definition history_scope :: "string \<Rightarrow> nat \<Rightarrow> history_query \<Rightarrow> control_db \<Rightarrow> source_request list" where
  "history_scope agentId roof opts db =
     filter (\<lambda>q. sq_agentId q = agentId \<and> (hq_status opts = None \<or> hq_status opts = Some (sq_status q)) \<and>
                 (hq_kind opts = None \<or> hq_kind opts = Some (sq_kind q)))
       (take roof (c_sourceRequests db))"

definition before_position :: "(int \<times> string) option \<Rightarrow> source_request \<Rightarrow> bool" where
  "before_position b q \<longleftrightarrow>
     (case b of None \<Rightarrow> True
      | Some (time, i) \<Rightarrow> sq_createdAt q < time \<or> (sq_createdAt q = time \<and> sq_id q < i))"

definition requestHistory :: "string \<Rightarrow> history_query \<Rightarrow> control_db \<Rightarrow> history_page" where
  "requestHistory agentId opts db =
     (let roof = (case hq_cursor opts of Some c \<Rightarrow> hc_ceiling c | None \<Rightarrow> max_rowid agentId db);
          before = (case hq_cursor opts of Some c \<Rightarrow> hc_before c | None \<Rightarrow> None);
          scope = history_scope agentId roof opts db;
          rows = take (hq_limit opts + 1) (requests_newest_first (filter (before_position before) scope))
      in \<lparr>hp_requests = take (hq_limit opts) rows, hp_hasMore = hq_limit opts < length rows,
          hp_total = length scope, hp_ceiling = roof\<rparr>)"

definition request_open :: "source_request \<Rightarrow> bool" where
  "request_open q \<longleftrightarrow> sq_status q \<in> {QQueued, QValidating}"

definition getOpenApply :: "string \<Rightarrow> control_db \<Rightarrow> source_request option" where
  "getOpenApply agentId db =
     find (\<lambda>q. sq_agentId q = agentId \<and> sq_kind q = KApply \<and> request_open q) (c_sourceRequests db)"

definition setup_pending :: "int \<Rightarrow> source_request \<Rightarrow> bool" where
  "setup_pending now q \<longleftrightarrow>
     (case sq_setupExpiresAt q of None \<Rightarrow> False | Some e \<Rightarrow> now < e + AGENT_REQUEST_SKEW_MS) \<and>
     sq_status q \<notin> {QApplied, QCancelled}"

definition modeFrozen :: "string \<Rightarrow> int \<Rightarrow> control_db \<Rightarrow> source_request option" where
  "modeFrozen agentId now db =
     find (setup_pending now)
       (filter (\<lambda>q. sq_agentId q = agentId \<and> sq_kind q = KModeSetup) (c_sourceRequests db))"

definition getOpenModeSetup :: "string \<Rightarrow> int \<Rightarrow> control_db \<Rightarrow> source_request option" where
  "getOpenModeSetup = modeFrozen"

definition backup_running :: "backup_activity \<Rightarrow> bool" where
  "backup_running b \<longleftrightarrow>
     ba_inProgress b = Some True \<or>
     ba_status b \<in> {Some ''queued'', Some ''running'', Some ''started'', Some ''in_progress''}"

definition activeOperations :: "string \<Rightarrow> string \<Rightarrow> string option \<Rightarrow> control_db \<Rightarrow> nat" where
  "activeOperations agentId deviceId exclude db =
     count_where (\<lambda>b. ba_sourceId b = deviceId \<and> backup_running b) (c_backups db) +
     count_where (\<lambda>c. cm_agentId c = agentId \<and>
         cm_type c \<in> {''BACKUP_FILESYSTEM'', ''SOURCE_ACCESS_APPLY'', ''SOURCE_ACCESS_VALIDATE'',
                      ''SOURCE_ACCESS_MODE_SETUP''} \<and>
         (cm_state c = CQueued \<or> command_live c) \<and> Some (cm_id c) \<noteq> exclude) (c_commands db)"

record source_plan =
  sp_id :: string
  sp_title :: string
  sp_isActive :: bool
  sp_sourcePath :: string

definition plan_source :: "planned_source \<Rightarrow> source_plan" where
  "plan_source p = \<lparr>sp_id = ps_id p, sp_title = ps_title p, sp_isActive = ps_isActive p,
     sp_sourcePath = (case ps_includes p of Some (s # _) \<Rightarrow> s | _ \<Rightarrow> [])\<rparr>"

definition readPlans :: "string \<Rightarrow> control_db \<Rightarrow> source_plan list" where
  "readPlans deviceId db =
     map plan_source (filter (\<lambda>p. ps_sourceId p = deviceId \<and> ps_sourceType p = ''device'') (c_plans db))"

definition getModeChangeState :: "string \<Rightarrow> string \<Rightarrow> int \<Rightarrow> control_db \<Rightarrow> source_plan list \<times> nat \<times> bool" where
  "getModeChangeState agentId deviceId now db =
     (let plans = readPlans deviceId db; n = activeOperations agentId deviceId None db
      in (plans, n, list_ex sp_isActive plans \<or> 0 < n \<or> modeFrozen agentId now db \<noteq> None))"

definition getRequestForCommand :: "string \<Rightarrow> string \<Rightarrow> control_db \<Rightarrow> source_request option" where
  "getRequestForCommand agentId commandId db =
     find (\<lambda>q. sq_agentId q = agentId \<and> sq_commandId q = commandId) (c_sourceRequests db)"

definition request_by :: "string \<Rightarrow> string \<Rightarrow> control_db \<Rightarrow> source_request option" where
  "request_by requestId agentId db =
     find (\<lambda>q. sq_id q = requestId \<and> sq_agentId q = agentId) (c_sourceRequests db)"

definition matchesAppliedReport :: "source_request \<Rightarrow> source_report \<Rightarrow> bool" where
  "matchesAppliedReport q r \<longleftrightarrow>
     sq_kind q = KApply \<and> sr_lastAppliedRequestId r = Some (sq_id q) \<and>
     sr_effectiveVersion r = sq_expectedVersion q + 1 \<and>
     sr_hostPolicyRevision r = sq_expectedHostPolicyRevision q \<and>
     sameSourceRoots (sq_roots q) (sr_effectiveRoots r) \<and>
     sameSourceRoots (sq_roots q) (map ro_path (sr_rootStatuses r)) \<and> sourceReportHealthy r"

definition set_request :: "string \<Rightarrow> (source_request \<Rightarrow> source_request) \<Rightarrow> control_db \<Rightarrow> control_db" where
  "set_request i f db = db\<lparr>c_sourceRequests := update_where (\<lambda>q. sq_id q = i) f (c_sourceRequests db)\<rparr>"

definition set_command :: "string \<Rightarrow> (agent_command \<Rightarrow> agent_command) \<Rightarrow> control_db \<Rightarrow> control_db" where
  "set_command i f db = db\<lparr>c_commands := update_where (\<lambda>c. cm_id c = i) f (c_commands db)\<rparr>"

definition settle_request ::
  "request_status \<Rightarrow> string \<Rightarrow> int option \<Rightarrow> source_request \<Rightarrow> source_request" where
  "settle_request st code at q = q\<lparr>sq_status := st, sq_resultCode := Some code, sq_completedAt := at\<rparr>"

definition settle_command :: "command_state \<Rightarrow> int \<Rightarrow> string option \<Rightarrow> agent_command \<Rightarrow> agent_command" where
  "settle_command st now error c = c\<lparr>cm_state := st, cm_completedAt := Some (secs now), cm_lastError := error\<rparr>"

section \<open>Reports\<close>

text \<open>A report with a policy error keeps the authority metadata of the last accepted report.\<close>

definition keep_authority :: "source_state \<Rightarrow> source_report \<Rightarrow> source_report" where
  "keep_authority s r =
     (if truthy_text (sr_policyError r)
      then r\<lparr>sr_authorizationMode := sr_authorizationMode (ss_report s),
             sr_delegatedRoots := sr_delegatedRoots (ss_report s),
             sr_lastModeSetupRequestId := sr_lastModeSetupRequestId (ss_report s), sr_effectiveRoots := []\<rparr>
      else r)"

definition effective_mode :: "authorization_mode option \<Rightarrow> authorization_mode" where
  "effective_mode m = (case m of None \<Rightarrow> HostApproved | Some v \<Rightarrow> v)"

definition within_selection :: "string list \<Rightarrow> source_report \<Rightarrow> bool" where
  "within_selection selected r \<longleftrightarrow>
     list_all (\<lambda>root. list_ex (\<lambda>s. sourcePathWithin s root) selected) (sr_effectiveRoots r)"

definition mode_changed :: "source_state option \<Rightarrow> source_report \<Rightarrow> bool" where
  "mode_changed state r \<longleftrightarrow>
     (case state of
        None \<Rightarrow> HostApproved \<noteq> effective_mode (sr_authorizationMode r) \<or>
                \<not> sameSourceRoots [] (or_none (sr_delegatedRoots r))
      | Some s \<Rightarrow>
          effective_mode (sr_authorizationMode (ss_report s)) \<noteq> effective_mode (sr_authorizationMode r) \<or>
          \<not> sameSourceRoots (or_none (sr_delegatedRoots (ss_report s))) (or_none (sr_delegatedRoots r)) \<or>
          sr_lastModeSetupRequestId (ss_report s) \<noteq> sr_lastModeSetupRequestId r \<or>
          sr_policyError (ss_report s) = Some ''source-mode-unconfirmed'')"

definition confirming_setup ::
  "string \<Rightarrow> string list \<Rightarrow> source_report \<Rightarrow> control_db \<Rightarrow> source_request option" where
  "confirming_setup agentId selected r db =
     (case (if truthy_text (sr_lastModeSetupRequestId r)
            then request_by (or_empty (sr_lastModeSetupRequestId r)) agentId db else None) of
        None \<Rightarrow> None
      | Some q \<Rightarrow>
          if sq_kind q = KModeSetup \<and> sq_status q \<in> {QQueued, QValidating, QPendingHostSetup, QApplied} \<and>
             sq_requestedMode q = Some (effective_mode (sr_authorizationMode r)) \<and>
             sameSourceRoots (sq_roots q) (or_none (sr_delegatedRoots r)) \<and>
             sr_effectiveVersion r = sq_expectedVersion q \<and> within_selection selected r
          then Some q else None)"

definition confirming_apply :: "bool \<Rightarrow> string \<Rightarrow> source_report \<Rightarrow> control_db \<Rightarrow> source_request option" where
  "confirming_apply allowed agentId r db =
     (case (if truthy_text (sr_lastAppliedRequestId r)
            then request_by (or_empty (sr_lastAppliedRequestId r)) agentId db else None) of
        None \<Rightarrow> None
      | Some q \<Rightarrow>
          if allowed \<and> matchesAppliedReport q r \<and> sq_status q \<in> {QQueued, QValidating, QApplied}
          then Some q else None)"

text \<open>The selection, the accepted report and the database after a report of a known, confirmed mode.\<close>

definition accept_report ::
  "bool \<Rightarrow> string \<Rightarrow> source_state \<Rightarrow> source_report \<Rightarrow> int \<Rightarrow> control_db
   \<Rightarrow> string list \<times> source_report \<times> control_db" where
  "accept_report allowed agentId s r now db =
     (let selected = ss_selectedRoots s; known = sr_effectiveVersion (ss_report s) in
      if sr_effectiveVersion r < known
      then (selected, r\<lparr>sr_effectiveVersion := known, sr_effectiveRoots := []\<rparr>, db)
      else if known < sr_effectiveVersion r
      then (case confirming_apply allowed agentId r db of
              Some q \<Rightarrow> (sq_roots q, r,
                 set_request (sq_id q) (settle_request QApplied ''source-selection-applied'' (Some now)) db)
            | None \<Rightarrow> (selected, r\<lparr>sr_effectiveVersion := known, sr_effectiveRoots := [],
                 sr_policyError := Some ''source-policy-unconfirmed-selection''\<rparr>, db))
      else if \<not> within_selection selected r
      then (selected, r\<lparr>sr_effectiveRoots := [],
              sr_policyError := Some ''source-policy-unconfirmed-selection''\<rparr>, db)
      else (selected, r, db))"

definition save_state :: "source_state \<Rightarrow> control_db \<Rightarrow> control_db" where
  "save_state s db =
     db\<lparr>c_sourceStates :=
        (if ss_agentId s \<in> ss_agentId ` set (c_sourceStates db)
         then update_where (\<lambda>x. ss_agentId x = ss_agentId s) (\<lambda>_. s) (c_sourceStates db)
         else c_sourceStates db @ [s])\<rparr>"

definition outdated_report :: "source_state \<Rightarrow> source_report \<Rightarrow> int \<Rightarrow> bool" where
  "outdated_report s r signed \<longleftrightarrow>
     signed \<le> ss_latestReportTimestamp s \<or>
     (sr_effectiveVersion r < sr_effectiveVersion (ss_report s) \<and> \<not> truthy_text (sr_policyError r))"

definition writeReport ::
  "string \<Rightarrow> source_report \<Rightarrow> int \<Rightarrow> int \<Rightarrow> bool \<Rightarrow> control_db \<Rightarrow> control_db" where
  "writeReport agentId r0 signed now allowed db =
     (let state = getState agentId db in
      if (case state of None \<Rightarrow> False | Some s \<Rightarrow> outdated_report s r0 signed) then db
      else let r = (case state of None \<Rightarrow> r0 | Some s \<Rightarrow> keep_authority s r0);
               selected = (case state of Some s \<Rightarrow> ss_selectedRoots s | None \<Rightarrow> map ro_path (sr_rootStatuses r));
               changed = mode_changed state r;
               setup = (if changed then confirming_setup agentId selected r db else None);
               db1 = (case setup of
                        None \<Rightarrow> db
                      | Some q \<Rightarrow> set_request (sq_id q)
                          (settle_request QApplied ''source-mode-setup-applied'' (Some now)) db);
               unconfirmed = (changed \<and> setup = None);
               (selected', accepted, db2) =
                 (case state of
                    Some s \<Rightarrow>
                      if unconfirmed
                      then (selected, r\<lparr>sr_effectiveVersion := sr_effectiveVersion (ss_report s),
                              sr_effectiveRoots := [], sr_policyError := Some ''source-mode-unconfirmed''\<rparr>, db1)
                      else accept_report allowed agentId s r now db1
                  | None \<Rightarrow>
                      (selected, if unconfirmed
                         then r\<lparr>sr_effectiveVersion := 0, sr_effectiveRoots := [],
                                sr_policyError := Some ''source-mode-unconfirmed''\<rparr> else r, db1))
           in save_state \<lparr>ss_agentId = agentId, ss_report = accepted, ss_selectedRoots = selected',
                ss_latestReportTimestamp = signed, ss_receivedAt = now\<rparr> db2)"

definition recordHeartbeat :: "string \<Rightarrow> source_report \<Rightarrow> int \<Rightarrow> int \<Rightarrow> control_db \<Rightarrow> control_db" where
  "recordHeartbeat agentId r signed now db = writeReport agentId r signed now True db"

section \<open>Requests\<close>

record request_input =
  ri_id :: string
  ri_commandId :: string
  ri_agentId :: string
  ri_deviceId :: string
  ri_kind :: request_kind
  ri_requestedMode :: "authorization_mode option"
  ri_setupExpiresAt :: "int option"
  ri_expectedVersion :: int
  ri_expectedHostPolicyRevision :: string
  ri_roots :: "string list"
  ri_confirmedAffectedPlanIds :: "string list"
  ri_now :: int
  ri_freshSince :: int

definition conflict :: "string \<Rightarrow> app_error" where
  "conflict m = AppError 409 m"

definition capability_is :: "string \<Rightarrow> int \<Rightarrow> agent_identity \<Rightarrow> bool" where
  "capability_is k v a \<longleftrightarrow> json_field k (ai_capabilities a) = Some (JInt v)"

definition identity_ready :: "request_input \<Rightarrow> agent_identity option \<Rightarrow> bool" where
  "identity_ready i a \<longleftrightarrow>
     (case a of
        None \<Rightarrow> False
      | Some a \<Rightarrow>
          ai_revokedAt a = None \<and>
          (case ai_lastSeen a of None \<Rightarrow> False | Some t \<Rightarrow> \<not> t * 1000 < ri_freshSince i \<and> \<not> ri_now i < t * 1000) \<and>
          capability_is ''sourceAccessVersion'' 1 a)"

definition removed_plans :: "string list \<Rightarrow> string list \<Rightarrow> source_plan list \<Rightarrow> source_plan list" where
  "removed_plans selected roots plans =
     filter (\<lambda>p. list_ex (\<lambda>root. sourcePathWithin root (sp_sourcePath p)) selected \<and>
                 \<not> list_ex (\<lambda>root. sourcePathWithin root (sp_sourcePath p)) roots) plans"

definition plan_backup_running :: "source_plan list \<Rightarrow> control_db \<Rightarrow> bool" where
  "plan_backup_running plans db \<longleftrightarrow>
     list_ex (\<lambda>b. ba_planId b \<in> Some ` set (map sp_id plans) \<and> backup_running b) (c_backups db)"

text \<open>The drain conditions of a change of the authorization mode.\<close>

definition mode_setup_checks :: "request_input \<Rightarrow> agent_identity \<Rightarrow> source_state \<Rightarrow> control_db \<Rightarrow> unit result" where
  "mode_setup_checks i a s db =
     (let plans = readPlans (ri_deviceId i) db in
      bind_result (refuse_if (32 < distinct_count (sr_approvedRoots (ss_report s) @ ri_roots i))
        (AppError 400 ''The combined strict and delegated host scope supports at most 32 roots.'')) (\<lambda>_.
      bind_result (refuse_if (\<not> capability_is ''sourceAccessModesVersion'' 1 a \<or> ri_requestedMode i = None \<or>
          ri_setupExpiresAt i = None \<or> \<not> sourceReportHealthy (ss_report s))
        (conflict ''Update this agent and refresh its healthy mode report first.'')) (\<lambda>_.
      bind_result (refuse_if (\<not> sameSourceRoots (map sp_id plans) (ri_confirmedAffectedPlanIds i))
        (conflict ''Confirm every backup plan on this agent before changing authorization mode.'')) (\<lambda>_.
      bind_result (refuse_if (list_ex sp_isActive plans)
        (conflict ''Pause every backup plan on this agent before changing authorization mode.'')) (\<lambda>_.
      refuse_if (activeOperations (ri_agentId i) (ri_deviceId i) None db \<noteq> 0)
        (conflict ''Wait for every queued or running agent operation before changing authorization mode.''))))))"

definition apply_checks :: "request_input \<Rightarrow> source_state \<Rightarrow> control_db \<Rightarrow> unit result" where
  "apply_checks i s db =
     (let affected = removed_plans (ss_selectedRoots s) (ri_roots i) (readPlans (ri_deviceId i) db) in
      bind_result (refuse_if (\<not> sameSourceRoots (map sp_id affected) (ri_confirmedAffectedPlanIds i))
        (conflict ''Confirm the exact affected backup plans before removing source access.'')) (\<lambda>_.
      bind_result (refuse_if (list_ex sp_isActive affected)
        (conflict ''Pause affected backup plans before removing source access.'')) (\<lambda>_.
      refuse_if (affected \<noteq> [] \<and> plan_backup_running affected db)
        (conflict ''Wait for affected queued or running backups to finish before removing source access.''))))"

definition mode_name :: "authorization_mode \<Rightarrow> string" where
  "mode_name m = (case m of HostApproved \<Rightarrow> ''host-approved'' | ServerManaged \<Rightarrow> ''server-managed'')"

definition request_payload :: "request_input \<Rightarrow> json" where
  "request_payload i =
     JObj ([(''version'', JInt 1), (''requestId'', JStr (ri_id i)), (''expectedVersion'', JInt (ri_expectedVersion i)),
            (''expectedHostPolicyRevision'', JStr (ri_expectedHostPolicyRevision i)),
            (''roots'', JArr (map JStr (ri_roots i)))] @
           (if ri_kind i = KModeSetup
            then (case ri_requestedMode i of None \<Rightarrow> [] | Some m \<Rightarrow> [(''authorizationMode'', JStr (mode_name m))]) @
                 (case ri_setupExpiresAt i of None \<Rightarrow> [] | Some e \<Rightarrow> [(''expiresAt'', JInt e)])
            else []))"

definition kind_command :: "request_kind \<Rightarrow> string" where
  "kind_command k = (case k of KApply \<Rightarrow> ''SOURCE_ACCESS_APPLY'' | KModeSetup \<Rightarrow> ''SOURCE_ACCESS_MODE_SETUP''
     | KValidate \<Rightarrow> ''SOURCE_ACCESS_VALIDATE'')"

definition request_row :: "request_input \<Rightarrow> source_request" where
  "request_row i = \<lparr>sq_id = ri_id i, sq_agentId = ri_agentId i, sq_commandId = ri_commandId i, sq_kind = ri_kind i,
     sq_requestedMode = ri_requestedMode i, sq_setupExpiresAt = ri_setupExpiresAt i, sq_status = QQueued,
     sq_expectedVersion = ri_expectedVersion i,
     sq_expectedHostPolicyRevision = ri_expectedHostPolicyRevision i, sq_roots = ri_roots i,
     sq_confirmedAffectedPlanIds = ri_confirmedAffectedPlanIds i, sq_validation = None, sq_resultCode = None,
     sq_createdAt = ri_now i, sq_completedAt = None\<rparr>"

definition insert_request :: "source_request \<Rightarrow> control_db \<Rightarrow> control_db result" where
  "insert_request q db =
     (if sq_id q \<in> sq_id ` set (c_sourceRequests db) \<or> sq_commandId q \<in> sq_commandId ` set (c_sourceRequests db)
      then Throw SqlError else Ok (db\<lparr>c_sourceRequests := c_sourceRequests db @ [q]\<rparr>))"

definition request_checks :: "request_input \<Rightarrow> agent_identity \<Rightarrow> source_state \<Rightarrow> control_db \<Rightarrow> unit result" where
  "request_checks i a s db =
     bind_result (refuse_if (ss_receivedAt s < ri_freshSince i \<or> ri_now i < ss_receivedAt s)
       (conflict ''Refresh Source Access before submitting a request.'')) (\<lambda>_.
     bind_result (refuse_if (sr_effectiveVersion (ss_report s) \<noteq> ri_expectedVersion i \<or>
         sr_hostPolicyRevision (ss_report s) \<noteq> ri_expectedHostPolicyRevision i)
       (conflict ''Source Access changed. Refresh it and review the selection again.'')) (\<lambda>_.
     bind_result (refuse_if (ri_kind i = KApply \<and> \<not> sourceReportHealthy (ss_report s))
       (conflict ''Resolve the host source policy error before applying a selection.'')) (\<lambda>_.
     bind_result (refuse_if (list_ex (\<lambda>q. sq_agentId q = ri_agentId i \<and> request_open q) (c_sourceRequests db))
       (conflict ''Another Source Access request is still running.'')) (\<lambda>_.
     bind_result (refuse_if (modeFrozen (ri_agentId i) (ri_now i) db \<noteq> None)
       (conflict ''A host authorization mode setup is pending. Wait for host confirmation or its expiry.'')) (\<lambda>_.
     bind_result (if ri_kind i = KModeSetup then mode_setup_checks i a s db else Ok ()) (\<lambda>_.
     if ri_kind i = KApply then apply_checks i s db else Ok ()))))))"

text \<open>\<open>clock\<close> is \<open>unixepoch()\<close> for the command row.\<close>

definition createRequest :: "int \<Rightarrow> request_input \<Rightarrow> control_db \<Rightarrow> (source_request \<times> control_db) result" where
  "createRequest clock i db =
     (let identity = find (\<lambda>a. ai_agentId a = ri_agentId i \<and> ai_deviceId a = ri_deviceId i) (c_identities db) in
      if \<not> identity_ready i identity
      then Throw (conflict ''The remote agent must be online and support Source Access.'')
      else case (identity, getState (ri_agentId i) db) of
             (Some a, Some s) \<Rightarrow>
               bind_result (request_checks i a s db) (\<lambda>_.
               bind_result (insert_command (command_row clock \<lparr>nc_id = ri_commandId i, nc_agentId = ri_agentId i,
                   nc_type = kind_command (ri_kind i), nc_payload = request_payload i,
                   nc_idempotencyKey = ''source-access:'' @ ri_id i\<rparr>) db) (\<lambda>db1.
               bind_result (insert_request (request_row i) db1) (\<lambda>db2. Ok (request_row i, db2))))
           | _ \<Rightarrow> Throw (conflict ''Refresh Source Access before submitting a request.''))"

definition device_of :: "string \<Rightarrow> control_db \<Rightarrow> string option" where
  "device_of agentId db = map_option ai_deviceId (getAgentById agentId db)"

definition request_stale :: "int \<Rightarrow> int \<Rightarrow> source_request \<Rightarrow> source_state option \<Rightarrow> bool" where
  "request_stale now freshSince q state \<longleftrightarrow>
     (case state of
        None \<Rightarrow> True
      | Some s \<Rightarrow> ss_receivedAt s < freshSince \<or> now < ss_receivedAt s \<or>
          sr_effectiveVersion (ss_report s) \<noteq> sq_expectedVersion q \<or>
          sr_hostPolicyRevision (ss_report s) \<noteq> sq_expectedHostPolicyRevision q)"

definition setup_not_drained :: "int \<Rightarrow> string \<Rightarrow> string \<Rightarrow> source_request \<Rightarrow> control_db \<Rightarrow> bool" where
  "setup_not_drained now agentId commandId q db \<longleftrightarrow>
     (case device_of agentId db of
        None \<Rightarrow> True
      | Some device \<Rightarrow>
          (let plans = readPlans device db in
           (case sq_setupExpiresAt q of None \<Rightarrow> True | Some e \<Rightarrow> e \<le> now) \<or> list_ex sp_isActive plans \<or>
           \<not> sameSourceRoots (map sp_id plans) (sq_confirmedAffectedPlanIds q) \<or>
           activeOperations agentId device (Some commandId) db \<noteq> 0))"

definition removal_conflict :: "string \<Rightarrow> source_request \<Rightarrow> source_state \<Rightarrow> control_db \<Rightarrow> bool" where
  "removal_conflict agentId q s db \<longleftrightarrow>
     (let affected = (case device_of agentId db of
                        None \<Rightarrow> []
                      | Some device \<Rightarrow> removed_plans (ss_selectedRoots s) (sq_roots q) (readPlans device db))
      in \<not> sourceReportHealthy (ss_report s) \<or>
         \<not> sameSourceRoots (map sp_id affected) (sq_confirmedAffectedPlanIds q) \<or> list_ex sp_isActive affected \<or>
         (affected \<noteq> [] \<and> plan_backup_running affected db))"

definition delivery_rejection ::
  "int \<Rightarrow> int \<Rightarrow> string \<Rightarrow> string \<Rightarrow> source_request \<Rightarrow> source_state option \<Rightarrow> control_db \<Rightarrow> string option" where
  "delivery_rejection now freshSince agentId commandId q state db =
     (if request_stale now freshSince q state then Some ''source-policy-stale''
      else if sq_kind q = KModeSetup \<and> setup_not_drained now agentId commandId q db
      then Some ''source-mode-drain-required''
      else case state of
             Some s \<Rightarrow> if sq_kind q = KApply \<and> removal_conflict agentId q s db
                       then Some ''source-removal-conflict'' else None
           | None \<Rightarrow> None)"

definition markDelivered :: "string \<Rightarrow> string \<Rightarrow> int \<Rightarrow> int \<Rightarrow> control_db \<Rightarrow> bool \<times> control_db" where
  "markDelivered agentId commandId now freshSince db =
     (case getRequestForCommand agentId commandId db of
        None \<Rightarrow> (False, db)
      | Some q \<Rightarrow>
          (let state = getState agentId db in
           if sq_kind q = KModeSetup \<and> sq_status q = QApplied
           then (False, set_command commandId
                   (\<lambda>c. c\<lparr>cm_state := CCompleted, cm_completedAt := Some (secs now)\<rparr>) db)
           else if sq_status q = QApplied \<and>
                   (case state of None \<Rightarrow> False | Some s \<Rightarrow> matchesAppliedReport q (ss_report s))
           then (True, db)
           else case delivery_rejection now freshSince agentId commandId q state db of
                  Some code \<Rightarrow>
                    (False, set_command commandId (settle_command CFailed now (Some code))
                       (set_request (sq_id q) (settle_request QRejected code (Some now)) db))
                | None \<Rightarrow>
                    (True, db\<lparr>c_sourceRequests := update_where (\<lambda>x. sq_id x = sq_id q \<and> sq_status x = QQueued)
                       (\<lambda>x. x\<lparr>sq_status := QValidating\<rparr>) (c_sourceRequests db)\<rparr>)))"

section \<open>Completion\<close>

record completion_input =
  ci_agentId :: string
  ci_commandId :: string
  ci_leaseToken :: string
  ci_sequence :: int
  ci_success :: bool
  ci_result :: "command_result option"
  ci_signedTimestamp :: int
  ci_now :: int

fun json_strings :: "json \<Rightarrow> string list option" where
  "json_strings j = parse_array parse_str j"

definition payload_matches :: "json \<Rightarrow> source_request \<Rightarrow> bool" where
  "payload_matches p q \<longleftrightarrow>
     json_field ''requestId'' p = Some (JStr (sq_id q)) \<and>
     json_field ''expectedVersion'' p = Some (JInt (sq_expectedVersion q)) \<and>
     json_field ''expectedHostPolicyRevision'' p = Some (JStr (sq_expectedHostPolicyRevision q)) \<and>
     (case json_field ''roots'' p of
        None \<Rightarrow> False
      | Some j \<Rightarrow> (case json_strings j of None \<Rightarrow> False | Some rs \<Rightarrow> sameSourceRoots rs (sq_roots q)))"

definition validation_ok :: "bool \<Rightarrow> source_request \<Rightarrow> source_validation list option \<Rightarrow> bool" where
  "validation_ok success q v \<longleftrightarrow>
     (case v of
        None \<Rightarrow> True
      | Some items \<Rightarrow> distinct_count (map va_requestedPath items) = length items \<and>
                      list_all (\<lambda>x. va_requestedPath x \<in> set (sq_roots q)) items) \<and>
     \<not> (sq_kind q = KValidate \<and> success \<and>
        (case v of None \<Rightarrow> True | Some items \<Rightarrow> length items \<noteq> length (sq_roots q)))"

definition setup_accepted :: "source_request \<Rightarrow> mode_setup \<Rightarrow> source_report \<Rightarrow> int \<Rightarrow> bool" where
  "setup_accepted q m r now \<longleftrightarrow>
     mo_requestId m = sq_id q \<and> Some (mo_authorizationMode m) = sq_requestedMode q \<and>
     Some (mo_expiresAt m) = sq_setupExpiresAt q \<and> sameSourceRoots (mo_delegatedRoots m) (sq_roots q) \<and>
     sr_hostPolicyRevision r = sq_expectedHostPolicyRevision q \<and> sr_effectiveVersion r = sq_expectedVersion q \<and>
     now < mo_expiresAt m"

definition some_item :: "(source_validation \<Rightarrow> bool) \<Rightarrow> source_validation list option \<Rightarrow> bool" where
  "some_item p v \<longleftrightarrow> (case v of None \<Rightarrow> False | Some items \<Rightarrow> list_ex p items)"

definition completion_outcome ::
  "source_request \<Rightarrow> bool \<Rightarrow> command_result option \<Rightarrow> int \<Rightarrow> request_status \<times> string" where
  "completion_outcome q success result now =
     (let rejected = (QRejected, ''source-access-rejected''); validation = Option.bind result cs_validation in
      case result of
        None \<Rightarrow> rejected
      | Some res \<Rightarrow>
          (let r = cs_sourceAccess res in
           if sq_kind q = KModeSetup \<and> success \<and> cs_modeSetup res \<noteq> None
           then (case cs_modeSetup res of
                   Some m \<Rightarrow> if setup_accepted q m r now
                             then (QPendingHostSetup, ''source-mode-host-setup-required'') else rejected
                 | None \<Rightarrow> rejected)
           else if sq_kind q = KApply \<and> success \<and> matchesAppliedReport q r
           then (QApplied, ''source-selection-applied'')
           else if some_item (\<lambda>x. va_status x = VPendingHostApproval) validation
           then (QPendingHostApproval, ''source-host-approval-required'')
           else if sq_kind q = KValidate \<and> success \<and> sr_effectiveVersion r = sq_expectedVersion q \<and>
                   sr_hostPolicyRevision r = sq_expectedHostPolicyRevision q \<and>
                   \<not> truthy_text (sr_policyError r) \<and> \<not> some_item (\<lambda>x. va_status x = VRejected) validation
           then (QValidated, ''source-validation-complete'')
           else rejected))"

definition finish_source_command ::
  "completion_input \<Rightarrow> agent_command \<Rightarrow> source_request \<Rightarrow> control_db \<Rightarrow> control_db" where
  "finish_source_command i c q db =
     (let (st, code) = completion_outcome q (ci_success i) (ci_result i) (ci_now i);
          db1 = (case ci_result i of
                   None \<Rightarrow> db
                 | Some res \<Rightarrow> writeReport (ci_agentId i) (cs_sourceAccess res) (ci_signedTimestamp i) (ci_now i)
                                 (sq_kind q = KApply \<and> ci_success i) db);
          db2 = set_request (sq_id q) (\<lambda>x. settle_request st code (Some (ci_now i))
                  (x\<lparr>sq_validation := Option.bind (ci_result i) cs_validation\<rparr>)) db1;
          succeeded = (st \<in> {QApplied, QValidated, QPendingHostSetup})
      in set_command (cm_id c) (\<lambda>x. settle_command (if succeeded then CCompleted else CFailed) (ci_now i)
           (if succeeded then None else Some code) (x\<lparr>cm_lastEventSequence := ci_sequence i\<rparr>)) db2)"

definition complete_source :: "completion_input \<Rightarrow> control_db \<Rightarrow> bool \<times> control_db" where
  "complete_source i db =
     (case (getCommandForAgent (ci_agentId i) (ci_commandId i) db,
            getRequestForCommand (ci_agentId i) (ci_commandId i) db) of
        (Some c, Some q) \<Rightarrow>
          if cm_leaseOwner c \<noteq> Some (ci_leaseToken i) \<or> cm_type c \<noteq> kind_command (sq_kind q) then (False, db)
          else if command_settled c then (True, db)
          else if sq_kind q = KModeSetup \<and> sq_status q = QApplied
          then (True, set_command (cm_id c)
                  (\<lambda>x. x\<lparr>cm_state := CCompleted, cm_completedAt := Some (secs (ci_now i))\<rparr>) db)
          else if \<not> command_live c \<or> lease_lost (ci_now i) (ci_leaseToken i) c \<or>
                  ci_sequence i \<le> cm_lastEventSequence c then (False, db)
          else if \<not> payload_matches (cm_payload c) q then (False, db)
          else if \<not> validation_ok (ci_success i) q (Option.bind (ci_result i) cs_validation) then (False, db)
          else (True, finish_source_command i c q db)
      | _ \<Rightarrow> (False, db))"

definition cancel_request :: "string \<Rightarrow> string \<Rightarrow> int \<Rightarrow> control_db \<Rightarrow> bool \<times> control_db" where
  "cancel_request agentId requestId now db =
     (case request_by requestId agentId db of
        None \<Rightarrow> (False, db)
      | Some q \<Rightarrow>
          if sq_status q \<notin> {QQueued, QPendingHostApproval} then (False, db)
          else case row_by cm_id (sq_commandId q) (c_commands db) of
                 None \<Rightarrow> (False, db)
               | Some c \<Rightarrow>
                   if cm_state c \<notin> {CQueued, CFailed} then (False, db)
                   else (True, set_request requestId (settle_request QCancelled ''source-request-cancelled'' (Some now))
                          (set_command (sq_commandId q)
                             (settle_command CCancelled now (Some ''source-request-cancelled'')) db)))"

section \<open>Reconciliation\<close>

text \<open>The outcome of an open request whose command has ended, from the snapshot of the query.\<close>

definition terminal_outcome ::
  "source_request \<Rightarrow> command_state \<Rightarrow> source_state option \<Rightarrow> (request_status \<times> string) option" where
  "terminal_outcome q st state =
     (case st of
        CCancelled \<Rightarrow> Some (QCancelled, ''source-command-cancelled'')
      | CExpired \<Rightarrow> Some (QRejected, ''source-command-expired'')
      | CFailed \<Rightarrow> Some (QRejected, ''source-command-failed'')
      | CCompleted \<Rightarrow>
          (if (case state of None \<Rightarrow> False | Some s \<Rightarrow> matchesAppliedReport q (ss_report s))
           then Some (QApplied, ''source-selection-applied'')
           else Some (QValidating, ''source-outcome-unconfirmed''))
      | _ \<Rightarrow> None)"

definition reconcile_request ::
  "int \<Rightarrow> source_state option \<Rightarrow> source_request \<times> command_state
   \<Rightarrow> (string \<times> request_status \<times> string) list \<times> control_db
   \<Rightarrow> (string \<times> request_status \<times> string) list \<times> control_db" where
  "reconcile_request now state = (\<lambda>(q, st) (changed, db).
     if sq_kind q = KModeSetup
     then (if (case sq_setupExpiresAt q of None \<Rightarrow> True | Some e \<Rightarrow> now < e + AGENT_REQUEST_SKEW_MS)
           then (changed, db)
           else (changed @ [(sq_id q, QRejected, ''source-mode-setup-expired'')],
                 set_command (sq_commandId q) (settle_command CExpired now (Some ''source-mode-setup-expired''))
                   (set_request (sq_id q) (settle_request QRejected ''source-mode-setup-expired'' (Some now)) db)))
     else case terminal_outcome q st state of
            None \<Rightarrow> (changed, db)
          | Some (s, code) \<Rightarrow>
              if sq_status q = s \<and> sq_resultCode q = Some code then (changed, db)
              else (changed @ [(sq_id q, s, code)],
                    set_request (sq_id q)
                      (settle_request s code (if s = QValidating then None else Some now)) db))"

definition open_rows :: "string \<Rightarrow> control_db \<Rightarrow> (source_request \<times> command_state) list" where
  "open_rows agentId db =
     concat (map (\<lambda>q. if sq_agentId q = agentId \<and> (request_open q \<or> sq_status q = QPendingHostSetup)
                      then (case row_by cm_id (sq_commandId q) (c_commands db) of
                              None \<Rightarrow> [] | Some c \<Rightarrow> [(q, cm_state c)])
                      else []) (c_sourceRequests db))"

definition reconcileTerminalRequests ::
  "string \<Rightarrow> int \<Rightarrow> control_db \<Rightarrow> (string \<times> request_status \<times> string) list \<times> control_db" where
  "reconcileTerminalRequests agentId now db =
     fold (reconcile_request now (getState agentId db)) (open_rows agentId db) ([], db)"

end
