(* ===== verification/Source_Service.thy ===== *)
theory Source_Service
  imports Source_Access
begin

text \<open>
  The service over the source access store (\<open>backend/src/services/AgentSourceAccessService.ts\<close>) and the
  pages of its audit history (\<open>backend/src/utils/sourceAccessHistory.ts\<close>).  \<open>fresh\<close> is the freshness
  limit of the configuration in milliseconds; the clock is read once per call.  \<open>decode\<close> is the parsed
  JSON of a base64url cursor (\<open>None\<close> where decoding or parsing fails), \<open>encode\<close> its inverse.
\<close>

section \<open>Availability\<close>

definition NotFoundError :: "string \<Rightarrow> app_error" where
  "NotFoundError m = AppError 404 m"

definition online :: "int \<Rightarrow> int \<Rightarrow> agent_identity \<Rightarrow> bool" where
  "online fresh now a \<longleftrightarrow>
     (let age = (case ai_lastSeen a of Some t \<Rightarrow> now - t * 1000 | None \<Rightarrow> -1)
      in ai_revokedAt a = None \<and> 0 \<le> age \<and> age \<le> fresh)"

definition service_identity :: "string \<Rightarrow> control_db \<Rightarrow> agent_identity result" where
  "service_identity deviceId db =
     (case (if deviceId = ''main'' then None else getAgentByDeviceId deviceId db) of
        None \<Rightarrow> Throw (NotFoundError ''Remote machine was not found.'') | Some a \<Rightarrow> Ok a)"

definition assertAvailable :: "int \<Rightarrow> int \<Rightarrow> agent_identity \<Rightarrow> unit result" where
  "assertAvailable fresh now a =
     (if \<not> capability_is ''sourceAccessVersion'' 1 a
      then Throw (conflict ''Update this agent to manage Source Access. Existing host configuration remains in use.'')
      else refuse_if (\<not> online fresh now a) (conflict ''The remote agent must be online to manage Source Access.''))"

definition report_fresh :: "int \<Rightarrow> int \<Rightarrow> source_state \<Rightarrow> bool" where
  "report_fresh fresh now s \<longleftrightarrow> \<not> now < ss_receivedAt s \<and> \<not> fresh < now - ss_receivedAt s"

section \<open>Requests\<close>

definition drop_end_slashes :: "string \<Rightarrow> string" where
  "drop_end_slashes s = rev (dropWhile (\<lambda>c. c = slash) (rev s))"

definition canonical_root :: "string \<Rightarrow> string" where
  "canonical_root root = (let c = drop_end_slashes (posix_normalize root) in if c = [] then ''/'' else c)"

definition root_refused :: "source_state option \<Rightarrow> string \<Rightarrow> bool" where
  "root_refused state root \<longleftrightarrow>
     \<not> isNewSourceRootAllowed (canonical_root root) \<and>
     (case state of
        None \<Rightarrow> True
      | Some s \<Rightarrow> root \<notin> set (sr_approvedRoots (ss_report s)) \<and> root \<notin> set (ss_selectedRoots s))"

definition selection_checks :: "request_kind \<Rightarrow> selection_input option \<Rightarrow> source_state option \<Rightarrow> selection_input result" where
  "selection_checks kind parsed state =
     (case parsed of
        None \<Rightarrow> Throw (AppError 400 ''Source Access requires at most 32 safe absolute Linux paths of up to 1024 characters, without duplicates or traversal.'')
      | Some p \<Rightarrow>
          if kind = KValidate \<and> si_roots p = []
          then Throw (AppError 400 ''Source Access requires at most 32 safe absolute Linux paths of up to 1024 characters, without duplicates or traversal.'')
          else if list_ex (root_refused state) (si_roots p)
          then Throw (AppError 400 ''A new source root must be a specific application directory outside protected agent and system locations.'')
          else if kind = KApply \<and> (list_ex (\<lambda>r. \<not> isCanonicalSourcePath r) (si_roots p) \<or> hasOverlappingSourceRoots (si_roots p))
          then Throw (AppError 400 ''Apply only canonical source paths without duplicate or overlapping roots. Validate the paths first.'')
          else Ok p)"

definition request_of_input ::
  "string \<Rightarrow> string \<Rightarrow> int \<Rightarrow> int \<Rightarrow> agent_identity \<Rightarrow> string \<Rightarrow> request_kind \<Rightarrow> authorization_mode option \<Rightarrow> int option
   \<Rightarrow> selection_input \<Rightarrow> request_input" where
  "request_of_input requestId commandId fresh now a deviceId kind mode expires p =
     \<lparr>ri_id = requestId, ri_commandId = commandId, ri_agentId = ai_agentId a, ri_deviceId = deviceId,
      ri_kind = kind, ri_requestedMode = mode, ri_setupExpiresAt = expires,
      ri_expectedVersion = si_expectedVersion p,
      ri_expectedHostPolicyRevision = si_expectedHostPolicyRevision p, ri_roots = si_roots p,
      ri_confirmedAffectedPlanIds = or_none (si_confirmedAffectedPlanIds p), ri_now = now,
      ri_freshSince = now - fresh\<rparr>"

text \<open>
  \<open>request\<close>: the reconciliation is a transaction of its own and stays when the rest fails.
  \<open>requestId\<close> and \<open>commandId\<close> are the new random ids, \<open>kind\<close> is validate or apply.
\<close>

definition request_source ::
  "string \<Rightarrow> string \<Rightarrow> int \<Rightarrow> int \<Rightarrow> string \<Rightarrow> request_kind \<Rightarrow> json \<Rightarrow> control_db \<Rightarrow> string result \<times> control_db" where
  "request_source requestId commandId fresh now deviceId kind input db =
     (case bind_result (service_identity deviceId db) (\<lambda>a. bind_result (assertAvailable fresh now a) (\<lambda>_. Ok a)) of
        Inl e \<Rightarrow> (Throw e, db)
      | Inr a \<Rightarrow>
          (let db1 = snd (reconcileTerminalRequests (ai_agentId a) now db) in
           case bind_result (selection_checks kind (sourceAccessRequestSchema input) (getState (ai_agentId a) db1))
                  (\<lambda>p. createRequest now
                     (request_of_input requestId commandId fresh now a deviceId kind None None p) db1) of
             Inl e \<Rightarrow> (Throw e, db1)
           | Inr (q, db2) \<Rightarrow> (Ok requestId, db2)))"

definition delegated_root_refused :: "string \<Rightarrow> bool" where
  "delegated_root_refused root \<longleftrightarrow> \<not> isNewSourceRootAllowed root \<or> sourcePathContainsPrivateDirectory root"

definition setup_checks :: "(authorization_mode \<times> selection_input) option \<Rightarrow> (authorization_mode \<times> selection_input) result" where
  "setup_checks parsed =
     (case parsed of
        Some (m, p) \<Rightarrow>
          if list_ex delegated_root_refused (si_roots p) \<or> hasOverlappingSourceRoots (si_roots p)
          then Throw (AppError 400 ''Choose specific, canonical delegated application directories outside private credential and system locations.'')
          else Ok (m, p)
      | None \<Rightarrow> Throw (AppError 400 ''Choose specific, canonical delegated application directories outside private credential and system locations.''))"

definition setupMode ::
  "string \<Rightarrow> string \<Rightarrow> int \<Rightarrow> int \<Rightarrow> string \<Rightarrow> json \<Rightarrow> control_db \<Rightarrow> string result \<times> control_db" where
  "setupMode requestId commandId fresh now deviceId input db =
     (case bind_result (service_identity deviceId db) (\<lambda>a. bind_result (assertAvailable fresh now a) (\<lambda>_. Ok a)) of
        Inl e \<Rightarrow> (Throw e, db)
      | Inr a \<Rightarrow>
          (let db1 = snd (reconcileTerminalRequests (ai_agentId a) now db) in
           case bind_result (setup_checks (sourceAccessModeSetupSchema input))
                  (\<lambda>(m, p). createRequest now (request_of_input requestId commandId fresh now a deviceId KModeSetup
                     (Some m) (Some (now + 15 * 60000)) p) db1) of
             Inl e \<Rightarrow> (Throw e, db1)
           | Inr (q, db2) \<Rightarrow> (Ok requestId, db2)))"

definition refresh ::
  "string \<Rightarrow> int \<Rightarrow> int \<Rightarrow> string \<Rightarrow> control_db \<Rightarrow> (string \<times> control_db) result" where
  "refresh commandId fresh now deviceId db =
     bind_result (service_identity deviceId db) (\<lambda>a.
     bind_result (assertAvailable fresh now a) (\<lambda>_.
     bind_result (enqueueCommand now \<lparr>nc_id = commandId, nc_agentId = ai_agentId a, nc_type = ''INVENTORY_REFRESH'',
         nc_payload = JObj [], nc_idempotencyKey = commandId\<rparr> db) (\<lambda>(c, db'). Ok (commandId, db'))))"

definition cancel_source :: "string \<Rightarrow> string \<Rightarrow> int \<Rightarrow> control_db \<Rightarrow> control_db result" where
  "cancel_source deviceId requestId now db =
     bind_result (service_identity deviceId db) (\<lambda>a.
       case cancel_request (ai_agentId a) requestId now db of
         (True, db') \<Rightarrow> Ok db'
       | (False, _) \<Rightarrow> Throw (conflict ''Only queued or pending host approval requests can be cancelled.''))"

section \<open>Reports and completions\<close>

definition safe_integer :: "int \<Rightarrow> bool" where
  "safe_integer n \<longleftrightarrow> \<bar>n\<bar> \<le> MAX_SAFE_INTEGER"

definition service_heartbeat :: "string \<Rightarrow> source_report \<Rightarrow> int \<Rightarrow> int \<Rightarrow> control_db \<Rightarrow> control_db result" where
  "service_heartbeat agentId r signed now db =
     (if \<not> safe_integer signed then Throw (AppError 400 ''Source Access report timestamp is invalid.'')
      else Ok (recordHeartbeat agentId r signed now db))"

text \<open>\<open>/^[A-Za-z0-9_-]{32,128}$/\<close>\<close>

definition lease_token_ok :: "string \<Rightarrow> bool" where
  "lease_token_ok s \<longleftrightarrow> 32 \<le> length s \<and> length s \<le> 128 \<and> list_all is_ident_char s"

fun completionSchema :: "json \<Rightarrow> (string \<times> int \<times> bool \<times> command_result option) option" where
  "completionSchema (JObj fs) =
     (if \<not> strict_keys [''leaseToken'', ''sequence'', ''success'', ''error'', ''result'', ''cancelled''] fs then None
      else case (required_field (parse_str_if lease_token_ok) ''leaseToken'' fs,
                 required_field (parse_int_in 1 MAX_SAFE_INTEGER) ''sequence'' fs,
                 required_field parse_bool ''success'' fs,
                 optional_field (parse_str_if (\<lambda>s. 1 \<le> length s \<and> length s \<le> 500)) ''error'' fs,
                 optional_field sourceAccessResultSchema ''result'' fs,
                 optional_field parse_bool ''cancelled'' fs) of
             (Some t, Some n, Some s, Some _, Some r, Some _) \<Rightarrow> Some (t, n, s, r)
           | _ \<Rightarrow> None)"
| "completionSchema _ = None"

definition service_complete ::
  "string \<Rightarrow> string \<Rightarrow> json \<Rightarrow> int \<Rightarrow> int \<Rightarrow> control_db \<Rightarrow> control_db result" where
  "service_complete agentId commandId input signed now db =
     (case completionSchema input of
        None \<Rightarrow> Throw (AppError 400 ''Source Access command completion is invalid.'')
      | Some (t, n, s, r) \<Rightarrow>
          if (s \<and> r = None) \<or> \<not> safe_integer signed
          then Throw (AppError 400 ''Source Access command completion is invalid.'')
          else case complete_source \<lparr>ci_agentId = agentId, ci_commandId = commandId, ci_leaseToken = t,
                      ci_sequence = n, ci_success = s, ci_result = r, ci_signedTimestamp = signed,
                      ci_now = now\<rparr> db of
                 (True, db') \<Rightarrow> Ok db'
               | (False, _) \<Rightarrow> Throw (NotFoundError ''Source Access command not found or its lease is no longer valid.''))"

definition service_markDelivered :: "string \<Rightarrow> string \<Rightarrow> int \<Rightarrow> int \<Rightarrow> control_db \<Rightarrow> bool \<times> control_db" where
  "service_markDelivered agentId commandId fresh now db = markDelivered agentId commandId now (now - fresh) db"

section \<open>The guard of backup plans\<close>

definition assertModeChangeIdle :: "string \<Rightarrow> int \<Rightarrow> control_db \<Rightarrow> unit result" where
  "assertModeChangeIdle agentId now db =
     refuse_if (getOpenModeSetup agentId now db \<noteq> None)
       (conflict ''Keep this agent backup plans paused until host authorization mode setup is confirmed or expires.'')"

definition source_state_usable :: "int \<Rightarrow> int \<Rightarrow> agent_identity \<Rightarrow> source_state option \<Rightarrow> bool" where
  "source_state_usable fresh now a state \<longleftrightarrow>
     online fresh now a \<and>
     (case state of None \<Rightarrow> False | Some s \<Rightarrow> report_fresh fresh now s \<and> sourceReportHealthy (ss_report s))"

definition assertPlanSource :: "int \<Rightarrow> int \<Rightarrow> agent_identity \<Rightarrow> string \<Rightarrow> control_db \<Rightarrow> unit result" where
  "assertPlanSource fresh now a source db =
     (if getOpenModeSetup (ai_agentId a) now db \<noteq> None
      then Throw (conflict ''Host authorization mode setup is pending. Backup work stays paused until host confirmation or receipt expiry.'')
      else if \<not> capability_is ''sourceAccessVersion'' 1 a then Ok ()
      else let state = getState (ai_agentId a) db;
               effective = (case state of None \<Rightarrow> [] | Some s \<Rightarrow> sr_effectiveRoots (ss_report s)) in
           if (case state of None \<Rightarrow> False | Some s \<Rightarrow> sr_authorizationMode (ss_report s) = Some ServerManaged) \<and>
              sourcePathContainsPrivateDirectory source
           then Throw (AppError 400 ''Private credential directories cannot be backup sources in Server-Managed mode.'')
           else if \<not> source_state_usable fresh now a state
           then Throw (conflict ''Source Access needs a fresh healthy report from the remote agent.'')
           else if \<not> isCanonicalSourcePath source \<or> \<not> list_ex (\<lambda>root. sourcePathWithin root source) effective
           then Throw (AppError 400 ''The backup source must be a canonical path within an enabled, effective source root. Validate and enable the source in Source Access first.'')
           else case getOpenApply (ai_agentId a) db of
                  Some q \<Rightarrow> refuse_if (\<not> list_ex (\<lambda>root. sourcePathWithin root source) (sq_roots q))
                    (conflict ''A Source Access request is removing this source. Wait for it to finish or cancel the queued request.'')
                | None \<Rightarrow> Ok ())"

section \<open>The view of an agent\<close>

record source_view =
  vw_supported :: bool
  vw_modeSetupSupported :: "bool option"
  vw_modeChangePlans :: "source_plan list option"
  vw_modeChangeBlocked :: "bool option"
  vw_activeOperationCount :: "nat option"
  vw_online :: bool
  vw_reportFresh :: bool
  vw_report :: "(source_report \<times> int) option"
  vw_requests :: "source_request list"
  vw_affectedPlans :: "source_plan list"

text \<open>\<open>getView\<close>: the reconciliation runs first, for an agent that supports source access.\<close>

definition getView :: "int \<Rightarrow> int \<Rightarrow> string \<Rightarrow> control_db \<Rightarrow> source_view result \<times> control_db" where
  "getView fresh now deviceId db =
     (case service_identity deviceId db of
        Inl e \<Rightarrow> (Throw e, db)
      | Inr a \<Rightarrow>
          if \<not> capability_is ''sourceAccessVersion'' 1 a
          then (Ok \<lparr>vw_supported = False, vw_modeSetupSupported = None, vw_modeChangePlans = None,
                    vw_modeChangeBlocked = None, vw_activeOperationCount = None, vw_online = online fresh now a,
                    vw_reportFresh = False, vw_report = None, vw_requests = [], vw_affectedPlans = []\<rparr>, db)
          else let db1 = snd (reconcileTerminalRequests (ai_agentId a) now db);
                   state = getState (ai_agentId a) db1;
                   (plans, n, blocked) = getModeChangeState (ai_agentId a) deviceId now db1
               in (Ok \<lparr>vw_supported = True,
                       vw_modeSetupSupported = Some (capability_is ''sourceAccessModesVersion'' 1 a),
                       vw_modeChangePlans = Some plans, vw_modeChangeBlocked = Some blocked,
                       vw_activeOperationCount = Some n, vw_online = online fresh now a,
                       vw_reportFresh = (online fresh now a \<and>
                         (case state of None \<Rightarrow> False | Some s \<Rightarrow> report_fresh fresh now s)),
                       vw_report = map_option (\<lambda>s. (ss_report s, ss_receivedAt s)) state,
                       vw_requests = listRequests (ai_agentId a) db1,
                       vw_affectedPlans = (case state of
                          None \<Rightarrow> []
                        | Some s \<Rightarrow> filter (\<lambda>p. list_ex (\<lambda>root. sourcePathWithin root (sp_sourcePath p))
                            (ss_selectedRoots s)) (readPlans deviceId db1))\<rparr>, db1))"

section \<open>Pages of the audit history\<close>

definition cursor_json :: "history_cursor \<Rightarrow> json" where
  "cursor_json c =
     JObj ([(''version'', JInt 1), (''ceiling'', JInt (int (hc_ceiling c)))] @
       (case hc_before c of
          None \<Rightarrow> []
        | Some (t, i) \<Rightarrow> [(''before'', JObj [(''time'', JInt t), (''id'', JStr i)])]))"

definition sourceHistoryCursor :: "(json \<Rightarrow> string) \<Rightarrow> history_cursor \<Rightarrow> string" where
  "sourceHistoryCursor encode c = encode (cursor_json c)"

fun parse_before :: "json \<Rightarrow> (int \<times> string) option" where
  "parse_before (JObj fs) =
     (if \<not> strict_keys [''time'', ''id''] fs then None
      else case (required_field (parse_int_in 0 8640000000000000) ''time'' fs,
                 required_field (parse_str_if (ident_ok 128)) ''id'' fs) of
             (Some t, Some i) \<Rightarrow> Some (t, i) | _ \<Rightarrow> None)"
| "parse_before _ = None"

fun cursorSchema :: "json \<Rightarrow> history_cursor option" where
  "cursorSchema (JObj fs) =
     (if \<not> strict_keys [''version'', ''ceiling'', ''before''] fs then None
      else case (required_field parse_version_one ''version'' fs,
                 required_field (parse_int_in 0 MAX_SAFE_INTEGER) ''ceiling'' fs,
                 optional_field parse_before ''before'' fs) of
             (Some _, Some n, Some b) \<Rightarrow> Some \<lparr>hc_ceiling = nat n, hc_before = b\<rparr>
           | _ \<Rightarrow> None)"
| "cursorSchema _ = None"

fun digits_value :: "nat \<Rightarrow> string \<Rightarrow> nat" where
  "digits_value n [] = n"
| "digits_value n (c # cs) = digits_value (10 * n + (of_char c - 48)) cs"

definition parse_limit :: "json \<Rightarrow> nat option" where
  "parse_limit j =
     (case parse_str_if (\<lambda>s. 1 \<le> length s \<and> length s \<le> 2 \<and> list_all is_digit s) j of
        None \<Rightarrow> None
      | Some s \<Rightarrow> let n = digits_value 0 s in if 1 \<le> n \<and> n \<le> 50 then Some n else None)"

fun parse_request_status :: "json \<Rightarrow> request_status option" where
  "parse_request_status (JStr s) =
     map_of [(''queued'', QQueued), (''validating'', QValidating), (''validated'', QValidated),
       (''pending-host-approval'', QPendingHostApproval), (''pending-host-setup'', QPendingHostSetup),
       (''applied'', QApplied), (''rejected'', QRejected), (''cancelled'', QCancelled)] s"
| "parse_request_status _ = None"

fun parse_request_kind :: "json \<Rightarrow> request_kind option" where
  "parse_request_kind (JStr s) = map_of [(''validate'', KValidate), (''apply'', KApply), (''mode-setup'', KModeSetup)] s"
| "parse_request_kind _ = None"

definition cursor_text_ok :: "string \<Rightarrow> bool" where
  "cursor_text_ok s \<longleftrightarrow> 1 \<le> length s \<and> length s \<le> 1024 \<and> list_all is_ident_char s"

fun parseSourceHistoryQuery :: "(string \<Rightarrow> json option) \<Rightarrow> json \<Rightarrow> history_query result" where
  "parseSourceHistoryQuery decode (JObj fs) =
     (if \<not> strict_keys [''limit'', ''cursor'', ''status'', ''kind''] fs
      then Throw (AppError 400 ''Invalid Source Access history pagination or filter.'')
      else case (optional_field parse_limit ''limit'' fs,
                 optional_field (parse_str_if cursor_text_ok) ''cursor'' fs,
                 optional_field parse_request_status ''status'' fs,
                 optional_field parse_request_kind ''kind'' fs) of
             (Some l, Some c, Some s, Some k) \<Rightarrow>
               (let page = (\<lambda>cur. \<lparr>hq_limit = (case l of None \<Rightarrow> 10 | Some n \<Rightarrow> n), hq_status = s, hq_kind = k,
                                  hq_cursor = cur\<rparr>) in
                case c of
                  None \<Rightarrow> Ok (page None)
                | Some text \<Rightarrow>
                    (case Option.bind (decode text) cursorSchema of
                       Some cur \<Rightarrow> Ok (page (Some cur))
                     | None \<Rightarrow> Throw (AppError 400 ''Invalid Source Access history cursor. Refresh history.'')))
           | _ \<Rightarrow> Throw (AppError 400 ''Invalid Source Access history pagination or filter.''))"
| "parseSourceHistoryQuery decode _ = Throw (AppError 400 ''Invalid Source Access history pagination or filter.'')"

text \<open>The cursor of the next page, where there is one.\<close>

definition next_cursor :: "history_page \<Rightarrow> history_cursor option" where
  "next_cursor p =
     (if hp_hasMore p \<and> hp_requests p \<noteq> []
      then Some \<lparr>hc_ceiling = hp_ceiling p,
                 hc_before = Some (sq_createdAt (last (hp_requests p)), sq_id (last (hp_requests p)))\<rparr>
      else None)"

definition getRequestHistory ::
  "(string \<Rightarrow> json option) \<Rightarrow> (json \<Rightarrow> string) \<Rightarrow> string \<Rightarrow> json \<Rightarrow> control_db
   \<Rightarrow> (source_request list \<times> nat \<times> nat \<times> string \<times> string option) result" where
  "getRequestHistory decode encode deviceId input db =
     bind_result (service_identity deviceId db) (\<lambda>a.
     bind_result (parseSourceHistoryQuery decode input) (\<lambda>o'.
     let p = requestHistory (ai_agentId a) o' db in
     Ok (hp_requests p, hp_total p, hq_limit o',
         sourceHistoryCursor encode \<lparr>hc_ceiling = hp_ceiling p,
           hc_before = Option.bind (hq_cursor o') hc_before\<rparr>,
         map_option (sourceHistoryCursor encode) (next_cursor p))))"

end
