(* ===== verification/Agent_Guarantees.thy ===== *)
theory Agent_Guarantees
  imports Source_Service
begin

text \<open>
  The agent control plane as a step relation over every method that writes its tables.  Commands only
  advance, an agent executes one command at a time, an enrollment token is used once, a revoked agent
  stays out, and a signed request is accepted once.
\<close>

section \<open>The steps of the control plane\<close>

text \<open>
  Any call of the stores with any arguments; reports have passed their schema.  Plans, backups and
  devices are written by other components too.
\<close>

definition result_consistent :: "command_result option \<Rightarrow> bool" where
  "result_consistent res \<longleftrightarrow> (case res of None \<Rightarrow> True | Some x \<Rightarrow> report_consistent (cs_sourceAccess x))"

inductive control_step :: "control_db \<Rightarrow> control_db \<Rightarrow> bool" where
  cs_token: "createEnrollment i h n e now db = Ok (r, db') \<Longrightarrow> control_step db db'"
| cs_revoke_token: "control_step db (snd (revokeEnrollment now i db))"
| cs_enroll: "enrollAgent clock d db = Ok (r, db') \<Longrightarrow> control_step db db'"
| cs_seen: "control_step db (snd (updateHeartbeat now a iv db))"
| cs_revoke: "control_step db (snd (revokeAgentByDeviceId now dev db))"
| cs_authenticate: "control_step db (snd (authenticate cr now clock rq db))"
| cs_enqueue: "enqueueCommand now c db = Ok (r, db') \<Longrightarrow> control_step db db'"
| cs_lease: "control_step db (snd (leaseNext a owner ms now db))"
| cs_acknowledge: "control_step db (snd (acknowledgeCommand clock a c t now db))"
| cs_event: "control_step db (snd (recordCommandEvent a c t n now ms db))"
| cs_complete: "control_step db (snd (completeCommand clock a c t n success err now db))"
| cs_cancel: "control_step db (snd (cancelCommand clock c db))"
| cs_status: "control_step db (snd (getCommandStatus a c t ms now db))"
| cs_heartbeat: "report_consistent r \<Longrightarrow> control_step db (recordHeartbeat a r signed now db)"
| cs_request: "createRequest clock inp db = Ok (q, db') \<Longrightarrow> control_step db db'"
| cs_deliver: "control_step db (snd (markDelivered a c now fresh db))"
| cs_finish: "result_consistent (ci_result ci) \<Longrightarrow> control_step db (snd (complete_source ci db))"
| cs_withdraw: "control_step db (snd (cancel_request a q now db))"
| cs_reconcile: "control_step db (snd (reconcileTerminalRequests a now db))"
| cs_other: "control_step db (db\<lparr>c_plans := ps, c_backups := bs, c_devices := ds\<rparr>)"

definition control_init :: "control_db \<Rightarrow> bool" where
  "control_init db \<longleftrightarrow> db = empty_control"

section \<open>Commands only advance\<close>

definition command_over :: "agent_command \<Rightarrow> bool" where
  "command_over c \<longleftrightarrow> cm_state c \<in> {CCompleted, CFailed, CCancelled, CExpired}"

definition command_binding :: "agent_command \<Rightarrow> string \<times> string \<times> string \<times> json \<times> string \<times> int" where
  "command_binding c = (cm_id c, cm_agentId c, cm_type c, cm_payload c, cm_idempotencyKey c, cm_createdAt c)"

definition command_progress :: "agent_command \<Rightarrow> int \<times> int \<times> string option" where
  "command_progress c = (cm_lastEventSequence c, cm_attemptCount c, cm_leaseOwner c)"

definition command_later :: "agent_command \<Rightarrow> agent_command \<Rightarrow> bool" where
  "command_later c c' \<longleftrightarrow>
     command_binding c' = command_binding c \<and> cm_lastEventSequence c \<le> cm_lastEventSequence c' \<and>
     cm_attemptCount c \<le> cm_attemptCount c' \<and>
     (command_over c \<longrightarrow> command_over c' \<and> command_progress c' = command_progress c)"

text \<open>A change that leases nothing, and the lease columns of a live command.\<close>

definition lease_set :: "agent_command \<Rightarrow> bool" where
  "lease_set c \<longleftrightarrow> (command_live c \<longrightarrow> cm_leaseOwner c \<noteq> None \<and> cm_leaseExpiresAt c \<noteq> None)"

definition command_quiet :: "agent_command \<Rightarrow> agent_command \<Rightarrow> bool" where
  "command_quiet c c' \<longleftrightarrow>
     command_later c c' \<and> (command_live c' \<longrightarrow> command_live c) \<and> (lease_set c \<longrightarrow> lease_set c')"

abbreviation commands_quiet :: "agent_command list \<Rightarrow> agent_command list \<Rightarrow> bool" where
  "commands_quiet \<equiv> list_all2 command_quiet"

named_theorems command_defs "unfolding of row predicates"

declare command_quiet_def [command_defs] command_later_def [command_defs] command_binding_def [command_defs]
  command_progress_def [command_defs] command_over_def [command_defs] command_live_def [command_defs]
  lease_set_def [command_defs]

lemma command_later_refl [simp]: "command_later c c"
  by (simp add: command_later_def)

lemma command_quiet_refl [simp]: "command_quiet c c"
  by (simp add: command_quiet_def)

lemma command_later_trans: "command_later a b \<Longrightarrow> command_later b c \<Longrightarrow> command_later a c"
  by (auto simp: command_later_def)

lemma command_quiet_trans: "command_quiet a b \<Longrightarrow> command_quiet b c \<Longrightarrow> command_quiet a c"
  by (auto simp: command_quiet_def intro: command_later_trans)

lemma commands_quiet_refl [simp]: "commands_quiet cs cs"
  by (simp add: list_all2_refl)

lemma commands_quiet_trans: "commands_quiet a b \<Longrightarrow> commands_quiet b c \<Longrightarrow> commands_quiet a c"
  by (rule list_all2_trans [OF command_quiet_trans])

lemma quiet_update:
  "(\<And>c. c \<in> set cs \<Longrightarrow> p c \<Longrightarrow> command_quiet c (f c)) \<Longrightarrow> commands_quiet cs (update_where p f cs)"
  by (induction cs) auto

lemma snd_update_returning [simp]: "snd (update_returning p f t) = update_where p f t"
  by (simp add: update_returning_def)

lemma fst_update_returning [simp]: "fst (update_returning p f t) = map_option f (find p t)"
  by (simp add: update_returning_def)

text \<open>Rows that the update statements produce.\<close>

lemma quiet_rows:
  "command_quiet c (requeue_row c) \<or> command_over c"
  "command_over c \<or> command_quiet c (cancel_command_row t c)"
  "command_live c \<Longrightarrow> cm_leaseOwner c \<noteq> None \<Longrightarrow> command_quiet c (acknowledge_row t c)"
  "command_live c \<Longrightarrow> cm_leaseOwner c \<noteq> None \<Longrightarrow> cm_lastEventSequence c < n \<Longrightarrow> command_quiet c (running_row n t c)"
  "command_live c \<Longrightarrow> cm_lastEventSequence c < n \<Longrightarrow> command_quiet c (completion_row t n s e c)"
  "command_quiet c (renew_row t c)"
  by (auto simp: command_defs requeue_row_def cancel_command_row_def acknowledge_row_def running_row_def
      completion_row_def renew_row_def)

lemma quiet_acknowledge: "commands_quiet (c_commands db) (c_commands (snd (acknowledgeCommand clock a k t now db)))"
  by (auto simp: acknowledgeCommand_def Let_def split_def holds_lease_def command_live_def split: option.split
      intro!: quiet_update quiet_rows)

lemma quiet_event: "commands_quiet (c_commands db) (c_commands (snd (recordCommandEvent a k t n now ms db)))"
  by (auto simp: recordCommandEvent_def Let_def split_def accepts_sequence_def holds_lease_def split: option.split
      intro!: quiet_update quiet_rows)

lemma quiet_complete: "commands_quiet (c_commands db) (c_commands (snd (completeCommand clock a k t n s e now db)))"
  by (auto simp: completeCommand_def Let_def split_def accepts_sequence_def holds_lease_def split: option.split
      intro!: quiet_update quiet_rows)

lemma quiet_cancel: "commands_quiet (c_commands db) (c_commands (snd (cancelCommand clock k db)))"
  by (auto simp: cancelCommand_def Let_def split_def command_defs cancel_command_row_def split: option.split
      intro!: quiet_update)

lemma quiet_status: "commands_quiet (c_commands db) (c_commands (snd (getCommandStatus a k t ms now db)))"
  by (auto simp: getCommandStatus_def Let_def split_def split: option.split intro!: quiet_update quiet_rows)

text \<open>Commands that source access settles.\<close>

lemma set_command_quiet:
  "(\<And>c. c \<in> set (c_commands db) \<Longrightarrow> cm_id c = k \<Longrightarrow> command_quiet c (f c))
   \<Longrightarrow> commands_quiet (c_commands db) (c_commands (set_command k f db))"
  by (auto simp: set_command_def intro!: quiet_update)

lemma settle_quiet: "st \<in> {CCompleted, CFailed, CCancelled, CExpired} \<Longrightarrow> command_quiet c (settle_command st now e c)"
  by (auto simp: settle_command_def command_defs)

lemma settled_quiet: "command_quiet c (c\<lparr>cm_state := CCompleted, cm_completedAt := t\<rparr>)"
  by (auto simp: command_defs)

lemma set_request_frame [simp]:
  "c_commands (set_request i f db) = c_commands db" "c_identities (set_request i f db) = c_identities db"
  "c_tokens (set_request i f db) = c_tokens db" "c_nonces (set_request i f db) = c_nonces db"
  "c_sourceStates (set_request i f db) = c_sourceStates db"
  by (simp_all add: set_request_def)

lemma set_command_frame [simp]:
  "c_identities (set_command i f db) = c_identities db" "c_tokens (set_command i f db) = c_tokens db"
  "c_nonces (set_command i f db) = c_nonces db" "c_sourceStates (set_command i f db) = c_sourceStates db"
  "c_sourceRequests (set_command i f db) = c_sourceRequests db"
  by (simp_all add: set_command_def)

lemma save_state_frame [simp]:
  "c_commands (save_state s db) = c_commands db" "c_identities (save_state s db) = c_identities db"
  "c_tokens (save_state s db) = c_tokens db" "c_nonces (save_state s db) = c_nonces db"
  "c_sourceRequests (save_state s db) = c_sourceRequests db"
  by (simp_all add: save_state_def)

text \<open>A report writes source access tables only.\<close>

definition other_tables :: "control_db \<Rightarrow> enrollment_token list \<times> agent_identity list \<times> nonce_row list" where
  "other_tables db = (c_tokens db, c_identities db, c_nonces db)"

lemma accept_report_frame [simp]:
  "c_commands (snd (snd (accept_report al a s r now db))) = c_commands db"
  "c_tokens (snd (snd (accept_report al a s r now db))) = c_tokens db"
  "c_identities (snd (snd (accept_report al a s r now db))) = c_identities db"
  "c_nonces (snd (snd (accept_report al a s r now db))) = c_nonces db"
  by (simp_all add: accept_report_def Let_def split: option.split)

lemma writeReport_frame:
  "c_commands (writeReport a r signed now al db) = c_commands db"
  "other_tables (writeReport a r signed now al db) = other_tables db"
  by (simp_all add: writeReport_def Let_def other_tables_def split_def split: option.split)

lemma quiet_deliver: "commands_quiet (c_commands db) (c_commands (snd (markDelivered a k now fresh db)))"
  by (auto simp: markDelivered_def Let_def split: option.split
      intro!: set_command_quiet [of "set_request i f db" for i f, simplified] set_command_quiet settle_quiet settled_quiet)

lemma quiet_withdraw: "commands_quiet (c_commands db) (c_commands (snd (cancel_request a k now db)))"
  by (auto simp: cancel_request_def split: option.split intro!: set_command_quiet settle_quiet)

lemma reconcile_quiet:
  "commands_quiet cs (c_commands (snd acc)) \<Longrightarrow> commands_quiet cs (c_commands (snd (reconcile_request now st x acc)))"
  by (cases x; cases acc)
     (auto simp: reconcile_request_def split: option.split elim!: commands_quiet_trans
        intro!: set_command_quiet [of "set_request i f db" for i f db, simplified] settle_quiet)

lemma quiet_reconcile: "commands_quiet (c_commands db) (c_commands (snd (reconcileTerminalRequests a now db)))"
proof -
  have "commands_quiet cs (c_commands (snd (fold (reconcile_request now st) xs acc)))"
    if "commands_quiet cs (c_commands (snd acc))" for cs st xs acc
    using that by (induction xs arbitrary: acc) (simp_all add: reconcile_quiet)
  then show ?thesis by (simp add: reconcileTerminalRequests_def)
qed

lemma getCommandForAgentD:
  "getCommandForAgent a k db = Some c \<Longrightarrow> c \<in> set (c_commands db) \<and> cm_id c = k \<and> cm_agentId c = a"
  by (auto simp: getCommandForAgent_def find_Some_iff)

lemma finish_quiet:
  assumes "distinct (map cm_id (c_commands db))" "c \<in> set (c_commands db)" "command_live c"
    "cm_lastEventSequence c < ci_sequence i"
  shows "commands_quiet (c_commands db) (c_commands (finish_source_command i c q db))"
proof -
  have "r = c" if "r \<in> set (c_commands db)" "cm_id r = cm_id c" for r
    using distinct_map_eqD [OF assms(1)] assms(2) that by metis
  moreover have "command_quiet c (settle_command st now e (c\<lparr>cm_lastEventSequence := ci_sequence i\<rparr>))"
    if "st \<in> {CCompleted, CFailed}" for st now e
    using assms(3,4) that by (auto simp: settle_command_def command_defs)
  ultimately show ?thesis
    by (auto simp: finish_source_command_def Let_def split_def writeReport_frame set_command_def split: option.split
        intro!: quiet_update)
qed

lemma quiet_finish:
  "distinct (map cm_id (c_commands db)) \<Longrightarrow> commands_quiet (c_commands db) (c_commands (snd (complete_source i db)))"
  by (auto simp: complete_source_def split: option.split dest!: getCommandForAgentD
      intro!: finish_quiet set_command_quiet settled_quiet)

text \<open>Operations that leave the commands alone.\<close>

lemma same_commands:
  "createEnrollment i h n e now db = Ok (r, db') \<Longrightarrow> c_commands db' = c_commands db"
  "c_commands (snd (revokeEnrollment now i db)) = c_commands db"
  "c_commands (snd (updateHeartbeat now a iv db)) = c_commands db"
  "c_commands (snd (revokeAgentByDeviceId now dev db)) = c_commands db"
  "c_commands (snd (reserveNonce now a h e db)) = c_commands db"
  "c_commands (snd (authenticate cr now clock rq db)) = c_commands db"
  by (auto simp: createEnrollment_def revokeEnrollment_def updateHeartbeat_def revokeAgentByDeviceId_def
      reserveNonce_def authenticate_def Let_def split_def split: option.split if_splits)

lemma insert_command_Ok:
  "insert_command c db = Ok db' \<longleftrightarrow> \<not> command_conflict c db \<and> db' = db\<lparr>c_commands := c_commands db @ [c]\<rparr>"
  by (auto simp: insert_command_def)

definition new_command_row :: "agent_command \<Rightarrow> control_db \<Rightarrow> bool" where
  "new_command_row n db \<longleftrightarrow>
     cm_state n = CQueued \<and> cm_id n \<notin> cm_id ` set (c_commands db) \<and>
     cm_idempotencyKey n \<notin> cm_idempotencyKey ` set (c_commands db)"

lemma command_row_queued [simp]: "cm_state (command_row now c) = CQueued"
  by (simp add: command_row_def)

lemma enqueue_commands:
  "enqueueCommand now c db = Ok (r, db') \<Longrightarrow>
   new_command_row (command_row now c) db \<and> db' = db\<lparr>c_commands := c_commands db @ [command_row now c]\<rparr>"
  by (auto simp: enqueueCommand_def bind_result_Inr_iff insert_command_Ok command_conflict_def new_command_row_def
      split: if_splits)

lemma enrollAgent_cases:
  assumes "enrollAgent clock d db = Ok (r, db')"
  obtains (unchanged) "r = None" "db' = db"
  | (enrolled) tok where "tok \<in> set (c_tokens db)" "token_usable (ed_tokenHash d) (ed_now d) tok"
      "r = Some (tok\<lparr>et_usedAt := Some (secs (ed_now d))\<rparr>)"
      "c_tokens db' = update_where (token_usable (ed_tokenHash d) (ed_now d))
         (\<lambda>t. t\<lparr>et_usedAt := Some (secs (ed_now d))\<rparr>) (c_tokens db)"
      "ed_agentId d \<notin> ai_agentId ` set (c_identities db)" "ed_deviceId d \<notin> ai_deviceId ` set (c_identities db)"
      "ni_agentId (ed_identity d) = ed_agentId d" "ni_deviceId (ed_identity d) = ed_deviceId d"
      "c_identities db' = c_identities db @ [identity_row (ed_now d) clock (ed_identity d)]"
      "c_commands db' = c_commands db @ [command_row clock (ed_command d)]"
      "new_command_row (command_row clock (ed_command d)) db" "c_nonces db' = c_nonces db"
      "c_sourceStates db' = c_sourceStates db" "c_sourceRequests db' = c_sourceRequests db"
proof (cases "find (token_usable (ed_tokenHash d) (ed_now d)) (c_tokens db)")
  case None
  with assms have "r = None \<and> db' = db" by (auto simp: enrollAgent_def update_returning_def split: if_splits)
  with unchanged show thesis by blast
next
  case (Some tok)
  then have tok: "tok \<in> set (c_tokens db)" "token_usable (ed_tokenHash d) (ed_now d) tok"
    by (auto simp: find_Some_iff)
  show thesis
    using assms Some
    by (intro enrolled [OF tok])
       (auto simp: enrollAgent_def update_returning_def enroll_rows_def bind_result_Inr_iff Let_def insert_command_Ok
          new_command_row_def command_conflict_def split: if_splits)
qed

lemma createRequest_cases:
  assumes "createRequest clock i db = Ok (q, db')"
  obtains n a s where "new_command_row n db" "c_commands db' = c_commands db @ [n]"
    "cm_id n = ri_commandId i" "cm_payload n = request_payload i" "cm_type n = kind_command (ri_kind i)"
    "q = request_row i" "c_sourceRequests db' = c_sourceRequests db @ [q]"
    "sq_id q \<notin> sq_id ` set (c_sourceRequests db)" "other_tables db' = other_tables db"
    "c_sourceStates db' = c_sourceStates db" "getState (ri_agentId i) db = Some s" "request_checks i a s db = Ok ()"
proof -
  obtain a s where as: "find (\<lambda>a. ai_agentId a = ri_agentId i \<and> ai_deviceId a = ri_deviceId i) (c_identities db) = Some a"
      "getState (ri_agentId i) db = Some s" "identity_ready i (Some a)"
    using assms by (auto simp: createRequest_def Let_def split: if_splits option.splits)
  let ?n = "command_row clock \<lparr>nc_id = ri_commandId i, nc_agentId = ri_agentId i, nc_type = kind_command (ri_kind i),
      nc_payload = request_payload i, nc_idempotencyKey = ''source-access:'' @ ri_id i\<rparr>"
  from assms as obtain db1 where r: "request_checks i a s db = Ok ()" "insert_command ?n db = Ok db1"
      "insert_request (request_row i) db1 = Ok db'" "q = request_row i"
    by (auto simp: createRequest_def Let_def bind_result_Inr_iff)
  have n: "cm_id ?n = ri_commandId i" "cm_payload ?n = request_payload i" "cm_type ?n = kind_command (ri_kind i)"
    by (simp_all add: command_row_def)
  show thesis
    using r as(2) n
    by (intro that [of ?n s a])
       (auto simp: insert_command_Ok insert_request_def new_command_row_def command_conflict_def other_tables_def
          split: if_splits)
qed

lemma control_step_commands:
  assumes "control_step db db'" "distinct (map cm_id (c_commands db))"
  shows "commands_quiet (c_commands db) (c_commands db') \<or>
    (\<exists>n. new_command_row n db \<and> c_commands db' = c_commands db @ [n]) \<or>
    (\<exists>a owner ms now. db' = snd (leaseNext a owner ms now db))"
  using assms(1)
proof (cases rule: control_step.cases)
  case (cs_enroll clock d r)
  from cs_enroll show ?thesis by (cases rule: enrollAgent_cases) auto
next
  case (cs_enqueue now c r)
  then show ?thesis using enqueue_commands [of now c db r db'] by auto
next
  case (cs_request clock inp q)
  from cs_request show ?thesis by (rule createRequest_cases) blast
next
  case (cs_token i h n e now r)
  then show ?thesis using same_commands(1) by simp
next
  case (cs_lease a owner ms now)
  then show ?thesis by blast
qed (simp_all add: recordHeartbeat_def same_commands quiet_acknowledge quiet_event quiet_complete quiet_cancel
      quiet_status quiet_deliver quiet_finish [OF assms(2)] quiet_withdraw quiet_reconcile writeReport_frame)

section \<open>Leases\<close>

lemma order_by_hd: "order_by key t = r # rest \<Longrightarrow> r \<in> set t"
  by (metis list.set_intros(1) set_order_by)

lemma next_commandD:
  "next_command a cs = Some c \<Longrightarrow> c \<in> set cs \<and> cm_agentId c = a \<and> cm_state c = CQueued"
  by (auto simp: next_command_def split: list.splits dest: order_by_hd)

lemma requeue_binding: "command_binding (requeue_row c) = command_binding c"
  by (simp add: requeue_row_def command_binding_def)

lemma map_requeue:
  "map cm_id (requeue_expired now a cs) = map cm_id cs"
  "map cm_idempotencyKey (requeue_expired now a cs) = map cm_idempotencyKey cs"
  by (auto simp: requeue_expired_def requeue_row_def intro!: map_update_where)

lemma requeue_quiet: "commands_quiet cs (requeue_expired now a cs)"
  by (auto simp: requeue_expired_def requeue_row_def command_defs intro!: quiet_update)

lemma leaseNext_cases:
  obtains (none) "c_commands (snd (leaseNext a owner ms now db)) = requeue_expired now a (c_commands db)"
    "fst (leaseNext a owner ms now db) = None"
  | (leased) cand where "cand \<in> set (requeue_expired now a (c_commands db))" "cm_agentId cand = a" "cm_state cand = CQueued"
    "next_command a (requeue_expired now a (c_commands db)) = Some cand"
    "\<forall>c \<in> set (requeue_expired now a (c_commands db)). \<not> (cm_agentId c = a \<and> command_live c \<and> lease_valid now c)"
    "c_commands (snd (leaseNext a owner ms now db)) =
       update_where (\<lambda>c. cm_id c = cm_id cand \<and> cm_state c = CQueued)
         (lease_command now owner ms (cm_attemptCount cand + 1)) (requeue_expired now a (c_commands db))"
    "fst (leaseNext a owner ms now db) =
       map_option (lease_command now owner ms (cm_attemptCount cand + 1))
         (find (\<lambda>c. cm_id c = cm_id cand \<and> cm_state c = CQueued) (requeue_expired now a (c_commands db)))"
proof (cases "next_command a (requeue_expired now a (c_commands db))")
  case None
  then show thesis using none by (simp add: leaseNext_def Let_def)
next
  case (Some cand)
  note c = next_commandD [OF Some]
  show thesis
  proof (cases "list_ex (\<lambda>c. cm_agentId c = a \<and> command_live c \<and> lease_valid now c) (requeue_expired now a (c_commands db))")
    case True
    then show thesis using none by (simp add: leaseNext_def Let_def)
  next
    case False
    then show thesis using c Some
      by (intro leased [of cand]) (auto simp: leaseNext_def Let_def update_returning_def list_ex_iff)
  qed
qed

lemma leaseNext_frame:
  "other_tables (snd (leaseNext a owner ms now db)) = other_tables db"
  "c_sourceStates (snd (leaseNext a owner ms now db)) = c_sourceStates db"
  "c_sourceRequests (snd (leaseNext a owner ms now db)) = c_sourceRequests db"
  by (simp_all add: leaseNext_def Let_def other_tables_def split_def split: option.split)

definition commands_ok :: "control_db \<Rightarrow> bool" where
  "commands_ok db \<longleftrightarrow>
     distinct (map cm_id (c_commands db)) \<and> distinct (map cm_idempotencyKey (c_commands db)) \<and>
     list_all lease_set (c_commands db)"

definition live_count :: "string \<Rightarrow> control_db \<Rightarrow> nat" where
  "live_count a db = count_where (\<lambda>c. cm_agentId c = a \<and> command_live c) (c_commands db)"

lemma quiet_keys:
  "commands_quiet cs cs' \<Longrightarrow> map cm_id cs' = map cm_id cs \<and> map cm_idempotencyKey cs' = map cm_idempotencyKey cs"
  by (induction rule: list_all2_induct) (auto simp: command_quiet_def command_later_def command_binding_def)

lemma quiet_lease_set: "commands_quiet cs cs' \<Longrightarrow> list_all lease_set cs \<Longrightarrow> list_all lease_set cs'"
  by (induction rule: list_all2_induct) (auto simp: command_quiet_def)

lemma quiet_live:
  "commands_quiet cs cs' \<Longrightarrow> count_where (\<lambda>c. cm_agentId c = a \<and> command_live c) cs'
     \<le> count_where (\<lambda>c. cm_agentId c = a \<and> command_live c) cs"
  by (induction rule: list_all2_induct) (auto simp: command_quiet_def command_later_def command_binding_def)

lemma lease_command_set [simp]: "lease_set (lease_command now owner ms n c)"
  by (simp add: lease_set_def lease_command_def)

lemma lease_command_keys [simp]:
  "cm_id (lease_command now owner ms n c) = cm_id c" "cm_idempotencyKey (lease_command now owner ms n c) = cm_idempotencyKey c"
  "cm_agentId (lease_command now owner ms n c) = cm_agentId c"
  by (simp_all add: lease_command_def)

lemma commands_ok_lease:
  assumes "commands_ok db" shows "commands_ok (snd (leaseNext a owner ms now db))"
proof (cases rule: leaseNext_cases [of a owner ms now db])
  case none
  then show ?thesis using assms quiet_lease_set [OF requeue_quiet, of "c_commands db" now a]
    by (simp add: commands_ok_def map_requeue)
next
  case (leased cand)
  then show ?thesis using assms quiet_lease_set [OF requeue_quiet, of "c_commands db" now a]
    by (auto simp: commands_ok_def map_requeue map_update_where list_all_iff in_update_where)
qed

lemma commands_ok_step:
  assumes "commands_ok db" "control_step db db'" shows "commands_ok db'"
proof -
  have "distinct (map cm_id (c_commands db))" using assms(1) by (simp add: commands_ok_def)
  with assms(2) consider "commands_quiet (c_commands db) (c_commands db')"
    | n where "new_command_row n db" "c_commands db' = c_commands db @ [n]"
    | a owner ms now where "db' = snd (leaseNext a owner ms now db)"
    using control_step_commands by blast
  then show ?thesis
  proof cases
    case 1
    then show ?thesis using assms(1) quiet_keys [OF 1] quiet_lease_set [OF 1] by (simp add: commands_ok_def)
  next
    case (2 n)
    then show ?thesis using assms(1)
      by (auto simp: commands_ok_def new_command_row_def lease_set_def command_live_def)
  next
    case (3 a owner ms now)
    then show ?thesis using commands_ok_lease [OF assms(1)] by simp
  qed
qed

text \<open>After the expired leases are requeued, a live command of the agent has a valid lease.\<close>

lemma requeue_live_valid:
  assumes "list_all lease_set cs" "c \<in> set (requeue_expired now a cs)" "cm_agentId c = a" "command_live c"
  shows "lease_valid now c"
proof -
  from assms(2) obtain q where q: "q \<in> set cs"
      "c = (if cm_agentId q = a \<and> command_live q \<and> lease_over now q then requeue_row q else q)"
    by (auto simp: requeue_expired_def in_update_where)
  have "\<not> (cm_agentId q = a \<and> command_live q \<and> lease_over now q)"
    using q(2) assms(4) by (auto simp: requeue_row_def command_live_def split: if_splits)
  with q assms(1,3,4) have "\<not> lease_over now c" "lease_set c" "command_live c" by (auto simp: list_all_iff)
  then show ?thesis by (cases "cm_leaseExpiresAt c") (auto simp: lease_set_def lease_over_def lease_valid_def)
qed

lemma live_count_lease:
  assumes "commands_ok db"
  shows "live_count b (snd (leaseNext a owner ms now db)) \<le> live_count b db \<or>
         live_count b (snd (leaseNext a owner ms now db)) \<le> 1"
proof (cases rule: leaseNext_cases [of a owner ms now db])
  case none
  then show ?thesis using quiet_live [OF requeue_quiet [of "c_commands db" now a], of b] by (simp add: live_count_def)
next
  case (leased cand)
  let ?cs = "requeue_expired now a (c_commands db)" and ?p = "\<lambda>c. cm_agentId c = b \<and> command_live c"
  have d: "distinct (map cm_id ?cs)" using assms by (simp add: commands_ok_def map_requeue)
  show ?thesis
  proof (cases "b = a")
    case True
    have "count_where ?p ?cs = 0"
      using leased(5) requeue_live_valid [of "c_commands db"] assms True
      by (auto simp: count_where_0_iff commands_ok_def)
    then show ?thesis
      using count_where_update_by_key [OF d, of ?p "cm_id cand" "\<lambda>c. cm_state c = CQueued"
          "lease_command now owner ms (cm_attemptCount cand + 1)"] leased(6) by (simp add: live_count_def)
  next
    case False
    have "cm_agentId c = a" if "c \<in> set ?cs" "cm_id c = cm_id cand" for c
      using distinct_map_eqD [OF d that(1) leased(1) that(2)] leased(2) by simp
    then have "count_where ?p (c_commands (snd (leaseNext a owner ms now db))) = count_where ?p ?cs"
      unfolding leased(6) using False by (intro count_where_update_eq) auto
    then show ?thesis using quiet_live [OF requeue_quiet [of "c_commands db" now a], of b] by (simp add: live_count_def)
  qed
qed

lemma live_count_step:
  assumes "commands_ok db" "control_step db db'"
  shows "live_count a db' \<le> live_count a db \<or> (live_count a db = 0 \<and> live_count a db' = 1)"
proof -
  have "distinct (map cm_id (c_commands db))" using assms(1) by (simp add: commands_ok_def)
  with assms(2) consider "commands_quiet (c_commands db) (c_commands db')"
    | n where "new_command_row n db" "c_commands db' = c_commands db @ [n]"
    | b owner ms now where "db' = snd (leaseNext b owner ms now db)"
    using control_step_commands by blast
  then show ?thesis
  proof cases
    case 1
    then show ?thesis using quiet_live by (simp add: live_count_def)
  next
    case (2 n)
    then show ?thesis by (simp add: live_count_def new_command_row_def command_live_def)
  next
    case (3 b owner ms now)
    then show ?thesis using live_count_lease [OF assms(1), of a b owner ms now] by auto
  qed
qed

interpretation serial_agent: exclusive_slot control_step commands_ok "live_count a" for a
  by unfold_locales (rule commands_ok_step, assumption+, rule live_count_step)

lemma control_start: "control_init db \<Longrightarrow> commands_ok db \<and> live_count a db \<le> 1"
  by (simp add: control_init_def empty_control_def commands_ok_def live_count_def)

lemma control_reach:
  "reachable control_init control_step db \<Longrightarrow>
   reachable (\<lambda>s. commands_ok s \<and> live_count a s \<le> 1) control_step db"
proof (induction rule: reachable.induct)
  case (reach_init s)
  then show ?case using control_start [of s a] by (intro reachable.reach_init) simp
next
  case (reach_step s t)
  show ?case by (rule reachable.reach_step [OF reach_step.IH reach_step.hyps(2)])
qed

lemma control_commands_ok: "reachable control_init control_step db \<Longrightarrow> commands_ok db"
  using serial_agent.slot_bound [OF control_reach] by simp

text \<open>
  C2: An agent executes one command at a time.  In every state that any sequence of control plane
  calls reaches, at most one command of an agent is leased, acknowledged or running; such a command has
  a lease owner and an end of the lease; command ids and idempotency keys are unique.
\<close>

theorem agent_serial:
  assumes "reachable control_init control_step db"
  shows "count_where (\<lambda>c. cm_agentId c = a \<and> cm_state c \<in> {CLeased, CAcknowledged, CRunning}) (c_commands db) \<le> 1 \<and>
         (\<forall>c \<in> set (c_commands db). cm_state c \<in> {CLeased, CAcknowledged, CRunning} \<longrightarrow>
            cm_leaseOwner c \<noteq> None \<and> cm_leaseExpiresAt c \<noteq> None) \<and>
         distinct (map cm_id (c_commands db)) \<and> distinct (map cm_idempotencyKey (c_commands db))"
  using serial_agent.slot_bound [OF control_reach [OF assms], of a]
  by (auto simp: commands_ok_def live_count_def list_all_iff lease_set_def command_live_def)

section \<open>A sample enrolment\<close>

definition sample_inventory :: agent_inventory where
  "sample_inventory = \<lparr>iv_hostname = ''h'', iv_os = ''linux'', iv_architecture = ''x64'', iv_agentVersion = ''1'',
     iv_resticVersion = Some '''', iv_rcloneVersion = None, iv_uptimeSeconds = None, iv_sourceAccess = None,
     iv_capabilities = JObj [(''sourceAccessVersion'', JInt 1)]\<rparr>"

definition sample_command :: new_command where
  "sample_command = \<lparr>nc_id = ''c1'', nc_agentId = ''a1'', nc_type = ''INVENTORY_REFRESH'', nc_payload = JObj [],
     nc_idempotencyKey = ''k1''\<rparr>"

definition sample_enroll :: enroll_data where
  "sample_enroll = \<lparr>ed_tokenHash = ''t'', ed_now = 1000000, ed_deviceId = ''d1'', ed_agentId = ''a1'',
     ed_inventory = sample_inventory, ed_identity = \<lparr>ni_agentId = ''a1'', ni_deviceId = ''d1'',
       ni_encryptedSecret = ''s'', ni_inventory = sample_inventory\<rparr>, ed_command = sample_command\<rparr>"

definition sample_token :: enrollment_token where
  "sample_token = \<lparr>et_id = ''e'', et_tokenHash = ''t'', et_deviceName = ''n'', et_expiresAt = 1900,
     et_createdAt = 1000, et_usedAt = None, et_revokedAt = None\<rparr>"

definition sample_minted :: control_db where
  "sample_minted = empty_control\<lparr>c_tokens := [sample_token]\<rparr>"

definition sample_enrolled :: control_db where
  "sample_enrolled = empty_control\<lparr>c_tokens := [sample_token\<lparr>et_usedAt := Some 1000\<rparr>],
     c_devices := [enrolled_device (sample_token\<lparr>et_usedAt := Some 1000\<rparr>) sample_enroll],
     c_identities := [identity_row 1000000 1000000 (ed_identity sample_enroll)],
     c_commands := [command_row 1000000 sample_command]\<rparr>"

lemma sample_minted_step: "createEnrollment ''e'' ''t'' ''n'' 1900000 1000000 empty_control = Ok (Some sample_token, sample_minted)"
  by (simp add: createEnrollment_def empty_control_def sample_minted_def sample_token_def secs_def Let_def)

lemma sample_enrolled_step:
  "enrollAgent 1000000 sample_enroll sample_minted = Ok (Some (sample_token\<lparr>et_usedAt := Some 1000\<rparr>), sample_enrolled)"
  by (simp add: enrollAgent_def enroll_rows_def sample_enroll_def sample_minted_def sample_token_def empty_control_def
      sample_enrolled_def sample_command_def AGENT_COMMAND_TYPES_def update_returning_def token_usable_def token_open_def
      secs_def insert_command_def command_conflict_def agent_known_def identity_row_def command_row_def refuse_if_def)

lemma sample_minted_reachable: "reachable control_init control_step sample_minted"
proof (rule reach_step)
  show "reachable control_init control_step empty_control" by (rule reach_init) (simp add: control_init_def)
  show "control_step empty_control sample_minted" by (rule cs_token [OF sample_minted_step])
qed

lemma sample_enrolled_reachable: "reachable control_init control_step sample_enrolled"
  by (rule reach_step [OF sample_minted_reachable cs_enroll [OF sample_enrolled_step]])

definition sample_leased :: control_db where
  "sample_leased = snd (leaseNext ''a1'' ''tok'' 60000 1001000 sample_enrolled)"

lemma sample_leased_commands:
  "c_commands sample_leased = [lease_command 1001000 ''tok'' 60000 1 (command_row 1000000 sample_command)]"
  by (simp add: sample_leased_def leaseNext_def sample_enrolled_def empty_control_def requeue_expired_def next_command_def
      command_row_def sample_command_def command_live_def order_by_def update_returning_def Let_def)

lemma sample_leased_reachable: "reachable control_init control_step sample_leased"
  unfolding sample_leased_def by (rule reach_step [OF sample_enrolled_reachable cs_lease])

theorem agent_serial_witness:
  "count_where (\<lambda>c. cm_agentId c = ''a1'' \<and> cm_state c \<in> {CLeased, CAcknowledged, CRunning}) (c_commands sample_leased) = 1"
proof -
  have "count_where (\<lambda>c. cm_agentId c = ''a1'' \<and> cm_state c \<in> {CLeased, CAcknowledged, CRunning}) (c_commands sample_leased) \<le> 1"
    using agent_serial [OF sample_leased_reachable, of "''a1''"] by blast
  moreover have "0 < count_where (\<lambda>c. cm_agentId c = ''a1'' \<and> cm_state c \<in> {CLeased, CAcknowledged, CRunning}) (c_commands sample_leased)"
    by (simp add: sample_leased_commands lease_command_def command_row_def sample_command_def)
  ultimately show ?thesis by linarith
qed

section \<open>The history of a command\<close>

definition commands_later :: "control_db \<Rightarrow> control_db \<Rightarrow> bool" where
  "commands_later db db' \<longleftrightarrow> (\<forall>c \<in> set (c_commands db). \<exists>c' \<in> set (c_commands db'). command_later c c')"

lemma later_of_all2: "list_all2 command_later cs cs' \<Longrightarrow> \<forall>c \<in> set cs. \<exists>c' \<in> set cs'. command_later c c'"
  by (induction rule: list_all2_induct) auto

lemma quiet_later: "commands_quiet cs cs' \<Longrightarrow> \<forall>c \<in> set cs. \<exists>c' \<in> set cs'. command_later c c'"
  by (rule later_of_all2) (auto simp: command_quiet_def elim: list_all2_mono)

lemma all2_later_trans:
  "list_all2 command_later a b \<Longrightarrow> list_all2 command_later b c \<Longrightarrow> list_all2 command_later a c"
  by (rule list_all2_trans [OF command_later_trans])

lemma later_update:
  "(\<And>c. c \<in> set cs \<Longrightarrow> p c \<Longrightarrow> command_later c (f c)) \<Longrightarrow> list_all2 command_later cs (update_where p f cs)"
  by (induction cs) auto

lemma lease_later:
  assumes "distinct (map cm_id (c_commands db))"
  shows "commands_later db (snd (leaseNext a owner ms now db))"
proof (cases rule: leaseNext_cases [of a owner ms now db])
  case none
  then show ?thesis using quiet_later [OF requeue_quiet] by (simp add: commands_later_def)
next
  case (leased cand)
  let ?cs = "requeue_expired now a (c_commands db)"
  have d: "distinct (map cm_id ?cs)" using assms by (simp add: map_requeue)
  have "command_later r (lease_command now owner ms (cm_attemptCount cand + 1) r)" if "r \<in> set ?cs" "cm_id r = cm_id cand" for r
    using distinct_map_eqD [OF d that(1) leased(1) that(2)] leased(3) by (auto simp: lease_command_def command_defs)
  then have "list_all2 command_later ?cs (c_commands (snd (leaseNext a owner ms now db)))"
    unfolding leased(6) by (intro later_update) auto
  moreover have "list_all2 command_later (c_commands db) ?cs"
    using requeue_quiet by (rule list_all2_mono) (simp add: command_quiet_def)
  ultimately have "list_all2 command_later (c_commands db) (c_commands (snd (leaseNext a owner ms now db)))"
    using all2_later_trans by blast
  then show ?thesis using later_of_all2 by (simp add: commands_later_def)
qed

lemma commands_later_step:
  assumes "commands_ok db" "control_step db db'" shows "commands_later db db'"
proof -
  have d: "distinct (map cm_id (c_commands db))" using assms(1) by (simp add: commands_ok_def)
  with assms(2) consider "commands_quiet (c_commands db) (c_commands db')"
    | n where "new_command_row n db" "c_commands db' = c_commands db @ [n]"
    | b owner ms now where "db' = snd (leaseNext b owner ms now db)"
    using control_step_commands by blast
  then show ?thesis
    using quiet_later lease_later [OF d] by cases (auto simp: commands_later_def intro: command_later_refl)
qed

interpretation command_log: progress_system control_init control_step commands_ok commands_later
proof
  show "commands_ok s" if "control_init s" for s using control_start [OF that] by simp
  show "commands_ok t" if "commands_ok s" "control_step s t" for s t using commands_ok_step [OF that] .
  show "commands_later s s" for s unfolding commands_later_def using command_later_refl by blast
  show "commands_later s u" if "commands_later s t" "commands_later t u" for s t u
    using that unfolding commands_later_def by (meson command_later_trans)
  show "commands_later s t" if "commands_ok s" "control_step s t" for s t using commands_later_step [OF that] .
qed

text \<open>
  C32: The history of a command only grows.  Whatever runs, a command stays in the table with its agent,
  type, payload and idempotency key; its event sequence and its attempts never decrease; and once it is
  completed, failed, cancelled or expired it is never queued, leased or run again, and its event
  sequence, attempts and lease owner stay.
\<close>

theorem command_history:
  assumes "reachable control_init control_step db" "control_step\<^sup>*\<^sup>* db db'" "c \<in> set (c_commands db)"
  shows "\<exists>c' \<in> set (c_commands db').
     command_binding c' = command_binding c \<and> cm_lastEventSequence c \<le> cm_lastEventSequence c' \<and>
     cm_attemptCount c \<le> cm_attemptCount c' \<and>
     (cm_state c \<in> {CCompleted, CFailed, CCancelled, CExpired} \<longrightarrow>
        cm_state c' \<in> {CCompleted, CFailed, CCancelled, CExpired} \<and> command_progress c' = command_progress c)"
  using command_log.le_steps [OF assms(2) control_commands_ok [OF assms(1)]] assms(3)
  by (auto simp: commands_later_def command_later_def command_over_def)

theorem command_history_witness:
  "\<exists>c' \<in> set (c_commands sample_leased).
     command_binding c' = command_binding (command_row 1000000 sample_command) \<and> 0 \<le> cm_attemptCount c'"
proof -
  have "control_step\<^sup>*\<^sup>* sample_enrolled sample_leased"
    unfolding sample_leased_def by (rule r_into_rtranclp) (rule cs_lease)
  moreover have "command_row 1000000 sample_command \<in> set (c_commands sample_enrolled)" by (simp add: sample_enrolled_def)
  moreover have "cm_attemptCount (command_row 1000000 sample_command) = 0" by (simp add: command_row_def)
  ultimately show ?thesis using command_history [OF sample_enrolled_reachable, of sample_leased "command_row 1000000 sample_command"] by auto
qed

section \<open>Sequences after a restart of the agent\<close>

text \<open>
  A completion whose sequence number does not exceed the last recorded one is never accepted, now
  or after any further calls: it changes nothing, and it is answered with a row only when the command
  has already ended.  (An agent that restarts numbers its events from 1 again, so the completion of a
  command that was leased a second time can be refused for good.)
\<close>

theorem stale_sequence_refused:
  assumes "reachable control_init control_step db" "control_step\<^sup>*\<^sup>* db db'" "c \<in> set (c_commands db)"
    "n \<le> cm_lastEventSequence c"
  shows "snd (completeCommand clock (cm_agentId c) (cm_id c) t n success err now db') = db' \<and>
         (\<forall>r. fst (completeCommand clock (cm_agentId c) (cm_id c) t n success err now db') = Some r \<longrightarrow>
              cm_state r \<in> {CCompleted, CFailed, CCancelled})"
proof -
  obtain c' where c': "c' \<in> set (c_commands db')" "command_later c c'"
    using command_log.le_steps [OF assms(2) control_commands_ok [OF assms(1)]] assms(3) by (auto simp: commands_later_def)
  have "commands_ok db'"
    by (rule command_log.steps_inv [OF assms(2) control_commands_ok [OF assms(1)]])
  then have d: "distinct (map cm_id (c_commands db'))" by (simp add: commands_ok_def)
  have k: "cm_id c' = cm_id c" "cm_agentId c' = cm_agentId c" "n \<le> cm_lastEventSequence c'"
    using c'(2) assms(4) by (auto simp: command_later_def command_binding_def)
  have "getCommandForAgent (cm_agentId c) (cm_id c) db' = Some c'"
  proof (cases "getCommandForAgent (cm_agentId c) (cm_id c) db'")
    case None
    then show ?thesis using c'(1) k by (auto simp: getCommandForAgent_def find_None_iff)
  next
    case (Some r)
    with getCommandForAgentD [OF Some] distinct_map_eqD [OF d _ c'(1), of r] k show ?thesis by simp
  qed
  then show ?thesis using k(3) by (auto simp: completeCommand_def command_settled_def)
qed

text \<open>The agent dies after event 5; its lease ends, the command is leased again and completed with sequence 2.\<close>

definition sample_running :: control_db where
  "sample_running = snd (recordCommandEvent ''a1'' ''c1'' ''tok'' 5 1002000 60000 sample_leased)"

definition sample_released :: control_db where
  "sample_released = snd (leaseNext ''a1'' ''tok2'' 60000 1100000 sample_running)"

lemmas sample_command_rows = lease_command_def command_row_def sample_command_def

lemma sample_running_commands:
  "c_commands sample_running =
     [running_row 5 1062000 (lease_command 1001000 ''tok'' 60000 1 (command_row 1000000 sample_command))]"
  by (simp add: sample_running_def recordCommandEvent_def getCommandForAgent_def sample_leased_commands sample_command_rows
      command_settled_def lease_lost_def secs_def update_returning_def accepts_sequence_def holds_lease_def lease_valid_def
      command_live_def)

lemma sample_released_commands:
  "c_commands sample_released =
     [lease_command 1100000 ''tok2'' 60000 2 (requeue_row
        (running_row 5 1062000 (lease_command 1001000 ''tok'' 60000 1 (command_row 1000000 sample_command))))]"
  by (simp add: sample_released_def leaseNext_def requeue_expired_def next_command_def sample_running_commands
      sample_command_rows running_row_def requeue_row_def command_live_def lease_over_def secs_def order_by_def
      update_returning_def Let_def)

lemma sample_running_steps: "control_step\<^sup>*\<^sup>* sample_running sample_released"
  unfolding sample_released_def by (rule r_into_rtranclp) (rule cs_lease)

lemma sample_running_reachable: "reachable control_init control_step sample_running"
  unfolding sample_running_def by (rule reach_step [OF sample_leased_reachable cs_event])

theorem stale_sequence_refused_witness:
  "snd (completeCommand 1101000 ''a1'' ''c1'' ''tok2'' 2 True None 1101000 sample_released) = sample_released \<and>
   fst (completeCommand 1101000 ''a1'' ''c1'' ''tok2'' 2 True None 1101000 sample_released) = None"
proof
  let ?c = "running_row 5 1062000 (lease_command 1001000 ''tok'' 60000 1 (command_row 1000000 sample_command))"
  have "?c \<in> set (c_commands sample_running)" by (simp add: sample_running_commands)
  moreover have "2 \<le> cm_lastEventSequence ?c" by (simp add: running_row_def)
  moreover have "cm_agentId ?c = ''a1''" "cm_id ?c = ''c1''" by (simp_all add: running_row_def sample_command_rows)
  ultimately show "snd (completeCommand 1101000 ''a1'' ''c1'' ''tok2'' 2 True None 1101000 sample_released) = sample_released"
    using stale_sequence_refused [OF sample_running_reachable sample_running_steps, of ?c 2] by metis
  show "fst (completeCommand 1101000 ''a1'' ''c1'' ''tok2'' 2 True None 1101000 sample_released) = None"
    by (simp add: completeCommand_def getCommandForAgent_def sample_released_commands sample_command_rows running_row_def
        requeue_row_def command_settled_def lease_lost_def secs_def)
qed

section \<open>Enrollment and revocation\<close>

definition token_later :: "enrollment_token \<Rightarrow> enrollment_token \<Rightarrow> bool" where
  "token_later t t' \<longleftrightarrow>
     et_id t' = et_id t \<and> et_tokenHash t' = et_tokenHash t \<and> et_expiresAt t' = et_expiresAt t \<and>
     (\<not> token_open t \<longrightarrow> t' = t)"

definition identity_later :: "agent_identity \<Rightarrow> agent_identity \<Rightarrow> bool" where
  "identity_later a a' \<longleftrightarrow>
     ai_agentId a' = ai_agentId a \<and> ai_deviceId a' = ai_deviceId a \<and>
     ai_encryptedSecret a' = ai_encryptedSecret a \<and> (ai_revokedAt a \<noteq> None \<longrightarrow> a' = a)"

definition accounts_ok :: "control_db \<Rightarrow> bool" where
  "accounts_ok db \<longleftrightarrow>
     distinct (map et_tokenHash (c_tokens db)) \<and> distinct (map ai_agentId (c_identities db)) \<and>
     distinct (map ai_deviceId (c_identities db))"

definition accounts_later :: "control_db \<Rightarrow> control_db \<Rightarrow> bool" where
  "accounts_later db db' \<longleftrightarrow>
     (\<forall>t \<in> set (c_tokens db). \<exists>t' \<in> set (c_tokens db'). token_later t t') \<and>
     (\<forall>a \<in> set (c_identities db). \<exists>a' \<in> set (c_identities db'). identity_later a a')"

lemma token_later_refl [simp]: "token_later t t" and identity_later_refl [simp]: "identity_later a a"
  by (simp_all add: token_later_def identity_later_def)

lemma token_later_trans: "token_later a b \<Longrightarrow> token_later b c \<Longrightarrow> token_later a c"
  by (cases "token_open b") (auto simp: token_later_def)

lemma identity_later_trans: "identity_later a b \<Longrightarrow> identity_later b c \<Longrightarrow> identity_later a c"
  by (cases "ai_revokedAt b") (auto simp: identity_later_def)

lemma accounts_later_refl: "accounts_later db db"
  unfolding accounts_later_def using token_later_refl identity_later_refl by blast

lemma accounts_later_trans: "accounts_later a b \<Longrightarrow> accounts_later b c \<Longrightarrow> accounts_later a c"
  unfolding accounts_later_def by (meson token_later_trans identity_later_trans)

text \<open>The tables of tokens and identities change by appending a fresh row and by updates that keep what is settled.\<close>

lemma rows_later:
  "(\<And>r. p r \<Longrightarrow> R r (f r)) \<Longrightarrow> (\<And>r. R r r) \<Longrightarrow> \<forall>r \<in> set t. \<exists>r' \<in> set (update_where p f t @ u). R r r'"
  by (induction t) auto

lemma accounts_later_update:
  assumes "c_tokens db' = update_where p f (c_tokens db) @ ts" "c_identities db' = update_where q g (c_identities db) @ as"
    "\<And>t. p t \<Longrightarrow> token_later t (f t)" "\<And>a. q a \<Longrightarrow> identity_later a (g a)"
  shows "accounts_later db db'"
  unfolding accounts_later_def assms(1,2)
  by (intro conjI rows_later assms(3,4) token_later_refl identity_later_refl)

lemma accounts_same:
  "c_tokens db' = c_tokens db \<Longrightarrow> c_identities db' = c_identities db \<Longrightarrow> accounts_ok db' = accounts_ok db \<and> accounts_later db db'"
  using accounts_later_refl [of db] by (auto simp: accounts_ok_def accounts_later_def)

abbreviation no_rows :: "'r \<Rightarrow> bool" where
  "no_rows \<equiv> \<lambda>_. False"

lemma update_no_rows [simp]: "update_where no_rows f t = t"
  by (rule update_where_none) simp

lemma accounts_token:
  assumes "createEnrollment i h n e now db = Ok (r, db')" "accounts_ok db"
  shows "accounts_ok db' \<and> accounts_later db db'"
proof -
  let ?t = "\<lparr>et_id = i, et_tokenHash = h, et_deviceName = n, et_expiresAt = secs e, et_createdAt = secs now,
             et_usedAt = None, et_revokedAt = None\<rparr>"
  from assms(1) have t: "h \<notin> et_tokenHash ` set (c_tokens db)" "db' = db\<lparr>c_tokens := c_tokens db @ [?t]\<rparr>"
    by (auto simp: createEnrollment_def Let_def split: if_splits)
  have "accounts_later db db'"
    by (rule accounts_later_update [where p = no_rows and q = no_rows and ts = "[?t]" and as = "[]"]) (simp_all add: t)
  with assms(2) t show ?thesis by (auto simp: accounts_ok_def)
qed

lemma accounts_enroll:
  assumes "enrollAgent clock d db = Ok (r, db')" "accounts_ok db"
  shows "accounts_ok db' \<and> accounts_later db db'"
  using assms(1)
proof (cases rule: enrollAgent_cases)
  case unchanged
  then show ?thesis using assms(2) accounts_later_refl by simp
next
  case (enrolled tok)
  have "map et_tokenHash (c_tokens db') = map et_tokenHash (c_tokens db)"
    unfolding enrolled(4) by (rule map_update_where) simp
  then have "accounts_ok db'"
    using assms(2) enrolled(5-9) by (auto simp: accounts_ok_def identity_row_def Let_def)
  moreover have "accounts_later db db'"
    by (rule accounts_later_update [where p = "token_usable (ed_tokenHash d) (ed_now d)"
          and f = "\<lambda>t. t\<lparr>et_usedAt := Some (secs (ed_now d))\<rparr>" and q = no_rows and ts = "[]"
          and as = "[identity_row (ed_now d) clock (ed_identity d)]"])
       (auto simp: enrolled(4,9) token_later_def token_usable_def)
  ultimately show ?thesis by simp
qed

lemma accounts_update:
  assumes "c_tokens db' = update_where p f (c_tokens db)" "c_identities db' = update_where q g (c_identities db)"
    "\<And>t. p t \<Longrightarrow> token_later t (f t)" "\<And>a. q a \<Longrightarrow> identity_later a (g a)" "accounts_ok db"
  shows "accounts_ok db' \<and> accounts_later db db'"
proof -
  have "map et_tokenHash (c_tokens db') = map et_tokenHash (c_tokens db)"
    unfolding assms(1) using assms(3) by (auto simp: token_later_def intro!: map_update_where)
  moreover have "map ai_agentId (c_identities db') = map ai_agentId (c_identities db)"
    "map ai_deviceId (c_identities db') = map ai_deviceId (c_identities db)"
    unfolding assms(2) using assms(4) by (auto simp: identity_later_def intro!: map_update_where)
  ultimately have "accounts_ok db'" using assms(5) by (simp add: accounts_ok_def)
  moreover have "accounts_later db db'"
    by (rule accounts_later_update [where p = p and f = f and q = q and g = g and ts = "[]" and as = "[]"])
       (simp_all add: assms)
  ultimately show ?thesis by simp
qed

text \<open>Operations on commands, nonces and source access leave tokens and identities alone.\<close>

definition accounts :: "control_db \<Rightarrow> enrollment_token list \<times> agent_identity list" where
  "accounts db = (c_tokens db, c_identities db)"

lemma accounts_commands:
  "accounts (snd (acknowledgeCommand clock a k t now db)) = accounts db"
  "accounts (snd (recordCommandEvent a k t n now ms db)) = accounts db"
  "accounts (snd (completeCommand clock a k t n s e now db)) = accounts db"
  "accounts (snd (cancelCommand clock k db)) = accounts db"
  "accounts (snd (getCommandStatus a k t ms now db)) = accounts db"
  "accounts (snd (reserveNonce now a h ex db)) = accounts db"
  by (simp_all add: accounts_def acknowledgeCommand_def recordCommandEvent_def completeCommand_def cancelCommand_def
      getCommandStatus_def reserveNonce_def Let_def split_def split: option.split)

lemma accounts_authenticate: "accounts (snd (authenticate cr now clock rq db)) = accounts db"
  by (simp add: authenticate_def Let_def split_def accounts_commands split: option.split)

lemma accounts_writeReport: "accounts (writeReport a r signed now al db) = accounts db"
  using writeReport_frame(2) [of a r signed now al db] by (simp add: accounts_def other_tables_def)

lemma accounts_set [simp]:
  "accounts (set_request i f db) = accounts db" "accounts (set_command i g db) = accounts db"
  by (simp_all add: accounts_def)

lemma accounts_reconcile_request: "accounts (snd (reconcile_request now st x acc)) = accounts (snd acc)"
  by (cases x; cases acc) (auto simp: reconcile_request_def split: option.split)

lemma accounts_fold: "accounts (snd (fold (reconcile_request now st) xs acc)) = accounts (snd acc)"
  by (induction xs arbitrary: acc) (simp_all add: accounts_reconcile_request)

lemma accounts_source:
  "accounts (snd (markDelivered a k now fresh db)) = accounts db"
  "accounts (snd (cancel_request a q now db)) = accounts db"
  "accounts (snd (complete_source i db)) = accounts db"
  "accounts (snd (reconcileTerminalRequests a now db)) = accounts db"
proof -
  show "accounts (snd (markDelivered a k now fresh db)) = accounts db"
    by (auto simp: markDelivered_def Let_def accounts_def split: option.split)
  show "accounts (snd (cancel_request a q now db)) = accounts db"
    by (simp add: cancel_request_def split: option.split)
  show "accounts (snd (complete_source i db)) = accounts db"
    by (simp add: complete_source_def finish_source_command_def Let_def split_def accounts_writeReport split: option.split)
  show "accounts (snd (reconcileTerminalRequests a now db)) = accounts db"
    by (simp add: reconcileTerminalRequests_def accounts_fold)
qed

lemma accounts_other: "accounts (db\<lparr>c_plans := ps, c_backups := bs, c_devices := ds\<rparr>) = accounts db"
  by (simp add: accounts_def)

lemma accounts_eq: "accounts db' = accounts db \<Longrightarrow> accounts_ok db \<Longrightarrow> accounts_ok db' \<and> accounts_later db db'"
  using accounts_same [of db' db] by (simp add: accounts_def)

lemma accounts_step:
  assumes "control_step db db'" "accounts_ok db"
  shows "accounts_ok db' \<and> accounts_later db db'"
  using assms(1)
proof (cases rule: control_step.cases)
  case (cs_token i h n e now r)
  from accounts_token [OF this assms(2)] show ?thesis .
next
  case (cs_revoke_token now i)
  then show ?thesis
    by (intro accounts_update [where p = "\<lambda>r. et_id r = i \<and> token_open r" and f = "\<lambda>r. r\<lparr>et_revokedAt := Some (secs now)\<rparr>"
          and q = no_rows] assms(2))
       (auto simp: revokeEnrollment_def Let_def split_def token_later_def)
next
  case (cs_enroll clock d r)
  from accounts_enroll [OF this assms(2)] show ?thesis .
next
  case (cs_seen now a iv)
  then show ?thesis
    by (intro accounts_update [where p = no_rows and q = "\<lambda>x. ai_agentId x = a \<and> ai_revokedAt x = None"
          and g = "seen_identity now iv"] assms(2))
       (auto simp: updateHeartbeat_def Let_def split_def identity_later_def seen_identity_def split: option.split)
next
  case (cs_revoke now dev)
  then show ?thesis
    by (intro accounts_update [where p = no_rows and q = "\<lambda>x. ai_deviceId x = dev \<and> ai_revokedAt x = None"
          and g = "\<lambda>x. x\<lparr>ai_revokedAt := Some (secs now)\<rparr>"] assms(2))
       (auto simp: revokeAgentByDeviceId_def Let_def split_def identity_later_def split: option.split)
next
  case (cs_enqueue now c r)
  then show ?thesis using enqueue_commands [of now c db r db'] by (intro accounts_eq assms(2)) (simp add: accounts_def)
next
  case (cs_request clock inp q)
  have "other_tables db' = other_tables db" using cs_request by (rule createRequest_cases)
  then show ?thesis by (intro accounts_eq assms(2)) (simp add: accounts_def other_tables_def)
next
  case (cs_lease a owner ms now)
  then show ?thesis using leaseNext_frame(1) [of a owner ms now db]
    by (intro accounts_eq assms(2)) (simp add: accounts_def other_tables_def)
qed (rule accounts_eq [OF _ assms(2)], simp add: recordHeartbeat_def accounts_commands accounts_authenticate
      accounts_writeReport accounts_source accounts_other)+

interpretation account_log: progress_system control_init control_step accounts_ok accounts_later
proof
  show "accounts_ok s" if "control_init s" for s
    using that by (simp add: control_init_def empty_control_def accounts_ok_def)
  show "accounts_ok t" if "accounts_ok s" "control_step s t" for s t using accounts_step [OF that(2,1)] by simp
  show "accounts_later s s" for s by (rule accounts_later_refl)
  show "accounts_later s u" if "accounts_later s t" "accounts_later t u" for s t u using accounts_later_trans [OF that] .
  show "accounts_later s t" if "accounts_ok s" "control_step s t" for s t using accounts_step [OF that(2,1)] by simp
qed

lemma control_accounts_ok: "reachable control_init control_step db \<Longrightarrow> accounts_ok db"
  by (rule account_log.reachable_inv)

lemma token_hash_unique:
  "accounts_ok db \<Longrightarrow> t \<in> set (c_tokens db) \<Longrightarrow> u \<in> set (c_tokens db) \<Longrightarrow> et_tokenHash u = et_tokenHash t \<Longrightarrow> u = t"
  unfolding accounts_ok_def by (metis distinct_map_eqD)

lemma enroll_spends_token:
  assumes "enrollAgent clock d db = Ok (Some tok, db1)"
  shows "\<exists>t \<in> set (c_tokens db1). et_tokenHash t = ed_tokenHash d \<and> \<not> token_open t"
  using assms
proof (cases rule: enrollAgent_cases)
  case (enrolled t)
  show ?thesis
  proof (intro bexI [of _ "t\<lparr>et_usedAt := Some (secs (ed_now d))\<rparr>"])
    show "t\<lparr>et_usedAt := Some (secs (ed_now d))\<rparr> \<in> set (c_tokens db1)"
      unfolding enrolled(4) in_update_where using enrolled(1,2) by (intro bexI [of _ t]) simp_all
  qed (use enrolled(2) in \<open>simp add: token_usable_def token_open_def\<close>)
qed simp

text \<open>
  C35: An enrollment token enrolls one agent.  After a successful enrollment, and after any further
  calls, an enrollment with the same token hash creates nothing: it is refused without a change or it
  fails, whatever the device, the clock and the command.
\<close>

theorem enrollment_once:
  assumes "reachable control_init control_step db" "enrollAgent clock d db = Ok (Some tok, db1)"
    "control_step\<^sup>*\<^sup>* db1 db2" "ed_tokenHash d' = ed_tokenHash d" "enrollAgent clock' d' db2 = Ok (r, db3)"
  shows "r = None \<and> db3 = db2"
  using assms(5)
proof (cases rule: enrollAgent_cases)
  case unchanged
  then show ?thesis by simp
next
  case (enrolled u)
  have ok1: "accounts_ok db1" "\<exists>t \<in> set (c_tokens db1). et_tokenHash t = ed_tokenHash d \<and> \<not> token_open t"
    using accounts_enroll [OF assms(2) control_accounts_ok [OF assms(1)]] enroll_spends_token [OF assms(2)] by auto
  then obtain t where t: "t \<in> set (c_tokens db2)" "et_tokenHash t = ed_tokenHash d" "\<not> token_open t"
    using account_log.le_steps [OF assms(3) ok1(1)] by (fastforce simp: accounts_later_def token_later_def)
  have "u = t"
    using token_hash_unique [OF account_log.steps_inv [OF assms(3) ok1(1)] t(1) enrolled(1)] enrolled(2) t(2) assms(4)
    by (simp add: token_usable_def)
  with t(3) enrolled(2) show ?thesis by (simp add: token_usable_def)
qed

lemma sample_token_spent: "enrollAgent 1000000 sample_enroll sample_enrolled = Ok (None, sample_enrolled)"
  by (simp add: enrollAgent_def sample_enroll_def sample_enrolled_def sample_token_def sample_command_def
      AGENT_COMMAND_TYPES_def update_returning_def token_usable_def token_open_def)

theorem enrollment_once_witness:
  "\<exists>r db3. enrollAgent 1000000 sample_enroll sample_enrolled = Ok (r, db3) \<and> r = None \<and> db3 = sample_enrolled"
  using enrollment_once [OF sample_minted_reachable sample_enrolled_step rtranclp.rtrancl_refl refl sample_token_spent]
    sample_token_spent by blast

text \<open>
  C33: A revoked agent stays out.  Once an identity is revoked, no later state accepts a signed request
  of that agent or refreshes its identity by a heartbeat, and its credentials are never replaced.
\<close>

theorem revocation_final:
  assumes "reachable control_init control_step db" "a \<in> set (c_identities db)" "ai_revokedAt a \<noteq> None"
    "control_step\<^sup>*\<^sup>* db db'"
  shows "getAgentById (ai_agentId a) db' = Some a \<and>
         (sg_agentId rq = Some (ai_agentId a) \<longrightarrow> authenticate cr now clock rq db' = (Throw authenticationFailure, db')) \<and>
         fst (updateHeartbeat now (ai_agentId a) iv db') = None"
proof -
  note ok = control_accounts_ok [OF assms(1)]
  have "a \<in> set (c_identities db')"
    using account_log.le_steps [OF assms(4) ok] assms(2,3) by (fastforce simp: accounts_later_def identity_later_def)
  moreover have d: "distinct (map ai_agentId (c_identities db'))"
    using account_log.steps_inv [OF assms(4) ok] by (simp add: accounts_ok_def)
  ultimately have g: "getAgentById (ai_agentId a) db' = Some a"
    by (simp add: getAgentById_def row_by_unique)
  have "check_request cr now rq db' = None" if "sg_agentId rq = Some (ai_agentId a)"
    using that g assms(3) by (simp add: check_request_def or_empty_def split: option.split)
  moreover have "find (\<lambda>x. ai_agentId x = ai_agentId a \<and> ai_revokedAt x = None) (c_identities db') = None"
    using distinct_map_eqD [OF d \<open>a \<in> set (c_identities db')\<close>] assms(3) unfolding find_None_iff by metis
  ultimately show ?thesis
    using g by (simp add: authenticate_def updateHeartbeat_def update_returning_def)
qed

definition sample_revoked :: control_db where
  "sample_revoked = snd (revokeAgentByDeviceId 1002000 ''d1'' sample_enrolled)"

theorem revocation_final_witness:
  "\<exists>a. getAgentById ''a1'' sample_revoked = Some a \<and> ai_revokedAt a = Some 1002"
proof -
  let ?a = "(identity_row 1000000 1000000 (ed_identity sample_enroll))\<lparr>ai_revokedAt := Some 1002\<rparr>"
  have "reachable control_init control_step sample_revoked"
    unfolding sample_revoked_def by (rule reach_step [OF sample_enrolled_reachable cs_revoke])
  moreover have "?a \<in> set (c_identities sample_revoked)"
    by (simp add: sample_revoked_def revokeAgentByDeviceId_def sample_enrolled_def update_returning_def identity_row_def
        sample_enroll_def secs_def Let_def)
  ultimately have "getAgentById (ai_agentId ?a) sample_revoked = Some ?a"
    using revocation_final [of sample_revoked ?a sample_revoked] by simp
  then show ?thesis by (simp add: identity_row_def sample_enroll_def Let_def)
qed

section \<open>Signed requests are accepted once\<close>

text \<open>A step whose purge of old nonces reads a clock of at most \<open>T\<close>.\<close>

definition timed_step :: "int \<Rightarrow> control_db \<Rightarrow> control_db \<Rightarrow> bool" where
  "timed_step T db db' \<longleftrightarrow>
     (\<exists>cr now clock rq. clock \<le> T \<and> db' = snd (authenticate cr now clock rq db)) \<or>
     (control_step db db' \<and> c_nonces db' = c_nonces db)"

lemma secs_mono: "a \<le> b \<Longrightarrow> secs a \<le> secs b"
  by (simp add: secs_def zdiv_mono1)

lemma reserveNonce_keeps:
  "n \<in> set (c_nonces db) \<Longrightarrow> secs now \<le> nr_expiresAt n \<Longrightarrow> n \<in> set (c_nonces (snd (reserveNonce now a h e db)))"
  by (auto simp: reserveNonce_def Let_def)

lemma authenticate_keeps:
  "n \<in> set (c_nonces db) \<Longrightarrow> secs clock \<le> nr_expiresAt n \<Longrightarrow>
   n \<in> set (c_nonces (snd (authenticate cr now clock rq db)))"
  by (auto simp: authenticate_def Let_def split_def reserveNonce_keeps split: option.split)

lemma timed_step_keeps:
  assumes "timed_step T db db'" "n \<in> set (c_nonces db)" "secs T \<le> nr_expiresAt n"
  shows "n \<in> set (c_nonces db')"
  using assms(1) unfolding timed_step_def
proof
  assume "\<exists>cr now clock rq. clock \<le> T \<and> db' = snd (authenticate cr now clock rq db)"
  then obtain cr now clock rq where a: "clock \<le> T" "db' = snd (authenticate cr now clock rq db)" by blast
  show ?thesis unfolding a(2) using authenticate_keeps [OF assms(2)] secs_mono [OF a(1)] assms(3) by simp
qed (use assms(2) in simp)

lemma timed_steps_keep:
  "(timed_step T)\<^sup>*\<^sup>* db db' \<Longrightarrow> n \<in> set (c_nonces db) \<Longrightarrow> secs T \<le> nr_expiresAt n \<Longrightarrow> n \<in> set (c_nonces db')"
  by (induction rule: rtranclp_induct) (auto intro: timed_step_keeps)

lemma check_request_Some:
  assumes "check_request cr now rq db = Some (agent, ts)"
  shows "cr_number cr (or_empty (sg_timestamp rq)) = Some ts" "\<bar>now - ts\<bar> \<le> AGENT_REQUEST_SKEW_MS"
    "aa_agentId agent = or_empty (sg_agentId rq)" "or_empty (sg_agentId rq) \<in> ai_agentId ` set (c_identities db)"
    "\<exists>a \<in> set (c_identities db). ai_agentId a = aa_agentId agent \<and> ai_revokedAt a = None"
proof -
  from assms obtain a where a: "getAgentById (or_empty (sg_agentId rq)) db = Some a" "ai_revokedAt a = None"
      "aa_agentId agent = ai_agentId a" "cr_number cr (or_empty (sg_timestamp rq)) = Some ts"
      "\<not> AGENT_REQUEST_SKEW_MS < \<bar>now - ts\<bar>"
    by (auto simp: check_request_def split: if_splits option.splits)
  have r: "a \<in> set (c_identities db)" "ai_agentId a = or_empty (sg_agentId rq)"
    using row_by_SomeD [OF a(1) [unfolded getAgentById_def]] by simp_all
  show "cr_number cr (or_empty (sg_timestamp rq)) = Some ts" "\<bar>now - ts\<bar> \<le> AGENT_REQUEST_SKEW_MS"
    using a(4,5) by simp_all
  show "aa_agentId agent = or_empty (sg_agentId rq)" using a(3) r(2) by simp
  show "or_empty (sg_agentId rq) \<in> ai_agentId ` set (c_identities db)" using r by (metis image_eqI)
  show "\<exists>a \<in> set (c_identities db). ai_agentId a = aa_agentId agent \<and> ai_revokedAt a = None" using r a(2,3) by metis
qed

definition nonce_of :: "crypto \<Rightarrow> signed_request \<Rightarrow> int \<Rightarrow> nonce_row" where
  "nonce_of cr rq ts = (let a = or_empty (sg_agentId rq); h = cr_nonceHash cr (or_empty (sg_nonce rq)) in
     \<lparr>nr_id = a @ '':'' @ h, nr_agentId = a, nr_nonceHash = h, nr_expiresAt = secs (ts + AGENT_REQUEST_SKEW_MS)\<rparr>)"

lemma authenticate_Ok:
  assumes "authenticate cr now clock rq db = (Ok agent, db')"
  obtains ts where "check_request cr now rq db = Some (agent, ts)" "nonce_of cr rq ts \<in> set (c_nonces db')"
proof (cases "check_request cr now rq db")
  case (Some x)
  then obtain agent' ts where x: "check_request cr now rq db = Some (agent', ts)" by (cases x) simp
  with assms check_request_Some(3) [OF x] have "agent' = agent" "nonce_of cr rq ts \<in> set (c_nonces db')"
    by (auto simp: authenticate_def reserveNonce_def nonce_of_def Let_def split: if_splits)
  with that x show thesis by simp
qed (use assms in \<open>simp add: authenticate_def\<close>)

lemma known_nonce_refused:
  assumes "nonce_of cr rq ts \<in> set (c_nonces db)" "secs clock \<le> secs (ts + AGENT_REQUEST_SKEW_MS)"
    "sg_agentId rq' = sg_agentId rq" "sg_nonce rq' = sg_nonce rq"
  shows "fst (authenticate cr now clock rq' db) = Throw authenticationFailure"
proof (cases "check_request cr now rq' db")
  case (Some x)
  then obtain agent ts' where x: "check_request cr now rq' db = Some (agent, ts')" by (cases x) simp
  let ?db = "db\<lparr>c_nonces := delete_where (\<lambda>n. nr_expiresAt n < secs clock) (c_nonces db)\<rparr>"
  have "nonce_of cr rq ts \<in> set (c_nonces ?db)" using assms(1,2) by (simp add: nonce_of_def Let_def)
  then have "nonce_conflict (aa_agentId agent) (cr_nonceHash cr (or_empty (sg_nonce rq'))) ?db"
    unfolding nonce_conflict_def using check_request_Some(3) [OF x] assms(3,4)
    by (intro disjI1 image_eqI [of _ _ "nonce_of cr rq ts"]) (simp_all add: nonce_of_def Let_def)
  with x show ?thesis by (simp add: authenticate_def reserveNonce_def Let_def)
qed (simp add: authenticate_def)

text \<open>
  C20: A signed request is accepted once.  After a request was accepted, and after any calls whose
  clocks do not run ahead of the present, every request of the same agent with the same nonce and
  timestamp is refused, provided its two readings of the clock (the skew test and the purge of old
  nonces) fall into the same second.
\<close>

theorem request_accepted_once:
  assumes "authenticate cr now clock rq db = (Ok agent, db1)" "(timed_step T)\<^sup>*\<^sup>* db1 db2"
    "sg_agentId rq' = sg_agentId rq" "sg_nonce rq' = sg_nonce rq" "sg_timestamp rq' = sg_timestamp rq"
    "T \<le> clock'" "secs clock' = secs now'"
  shows "fst (authenticate cr now' clock' rq' db2) = Throw authenticationFailure"
proof -
  obtain ts where ts: "check_request cr now rq db = Some (agent, ts)" "nonce_of cr rq ts \<in> set (c_nonces db1)"
    using assms(1) by (rule authenticate_Ok)
  show ?thesis
  proof (cases "check_request cr now' rq' db2")
    case (Some x)
    then obtain agent' where x: "check_request cr now' rq' db2 = Some (agent', ts)"
      using check_request_Some(1) [of cr now' rq' db2] check_request_Some(1) [OF ts(1)] assms(5)
      by (metis option.inject surj_pair)
    have "now' \<le> ts + AGENT_REQUEST_SKEW_MS" using check_request_Some(2) [OF x] by linarith
    then have le: "secs clock' \<le> secs (ts + AGENT_REQUEST_SKEW_MS)" using secs_mono assms(7) by simp
    then have "secs T \<le> nr_expiresAt (nonce_of cr rq ts)"
      using secs_mono [OF assms(6)] by (simp add: nonce_of_def Let_def)
    then have "nonce_of cr rq ts \<in> set (c_nonces db2)" by (rule timed_steps_keep [OF assms(2) ts(2)])
    then show ?thesis using le assms(3,4) by (rule known_nonce_refused)
  qed (simp add: authenticate_def)
qed

definition sample_crypto :: "int \<Rightarrow> crypto" where
  "sample_crypto ts = \<lparr>cr_number = (\<lambda>_. Some ts), cr_decrypt = Some, cr_hmac = (\<lambda>k m. k), cr_bodyHash = (\<lambda>b. b),
     cr_nonceHash = (\<lambda>n. n), cr_decode64 = map of_char\<rparr>"

definition sample_request :: signed_request where
  "sample_request = \<lparr>sg_agentId = Some ''a1'', sg_timestamp = Some ''t'', sg_nonce = Some ''nonce-nonce-nonce-nonce'',
     sg_signature = Some ''s'', sg_method = ''post'', sg_path = ''/'', sg_body = []\<rparr>"

definition sample_agent :: authenticated_agent where
  "sample_agent = \<lparr>aa_agentId = ''a1'', aa_deviceId = ''d1'', aa_secret = ''s''\<rparr>"

lemma sample_nonce_ok: "nonce_ok ''nonce-nonce-nonce-nonce''"
  by code_simp

lemma sample_check:
  assumes "c_identities db = c_identities sample_enrolled" "\<bar>now - ts\<bar> \<le> AGENT_REQUEST_SKEW_MS"
  shows "check_request (sample_crypto ts) now sample_request db = Some (sample_agent, ts)"
  using assms sample_nonce_ok
  by (simp add: check_request_def sample_crypto_def sample_request_def present_def or_empty_def getAgentById_def
      sample_enrolled_def identity_row_def sample_enroll_def verifyAgentSignature_def signAgentRequest_def sample_agent_def Let_def)

definition sample_nonced :: "int \<Rightarrow> control_db" where
  "sample_nonced ts = sample_enrolled\<lparr>c_nonces := [nonce_of (sample_crypto ts) sample_request ts]\<rparr>"

lemma sample_accepted:
  assumes "\<bar>now - ts\<bar> \<le> AGENT_REQUEST_SKEW_MS" "c_nonces db = [] \<or> c_nonces db = [nonce_of (sample_crypto ts) sample_request ts] \<and> secs (ts + AGENT_REQUEST_SKEW_MS) < secs clock"
    "db = sample_enrolled\<lparr>c_nonces := c_nonces db\<rparr>"
  shows "authenticate (sample_crypto ts) now clock sample_request db = (Ok sample_agent, sample_nonced ts)"
proof -
  have i: "c_identities db = c_identities sample_enrolled" by (subst assms(3)) simp
  have d: "delete_where (\<lambda>n. nr_expiresAt n < secs clock) (c_nonces db) = []"
    using assms(2) by (auto simp: delete_where_def nonce_of_def Let_def)
  have "agent_known ''a1'' db"
    by (simp add: agent_known_def i sample_enrolled_def identity_row_def sample_enroll_def Let_def)
  then have "reserveNonce clock ''a1'' ''nonce-nonce-nonce-nonce'' (ts + AGENT_REQUEST_SKEW_MS) db =
      (True, db\<lparr>c_nonces := [nonce_of (sample_crypto ts) sample_request ts]\<rparr>)"
    by (simp add: reserveNonce_def d nonce_conflict_def agent_known_def nonce_of_def sample_crypto_def sample_request_def
        or_empty_def Let_def)
  moreover have "db\<lparr>c_nonces := ns\<rparr> = sample_enrolled\<lparr>c_nonces := ns\<rparr>" for ns by (subst assms(3)) simp
  ultimately show ?thesis
    using sample_check [OF i assms(1)]
    by (simp add: authenticate_def sample_agent_def sample_request_def sample_crypto_def or_empty_def sample_nonced_def)
qed

lemma sample_first: "authenticate (sample_crypto ts) ts ts sample_request sample_enrolled = (Ok sample_agent, sample_nonced ts)"
  by (rule sample_accepted) (simp_all add: AGENT_REQUEST_SKEW_MS_def sample_enrolled_def empty_control_def)

theorem request_accepted_once_witness:
  "fst (authenticate (sample_crypto 700999) 1000500 1000999 sample_request (sample_nonced 700999)) = Throw authenticationFailure"
  by (rule request_accepted_once [OF sample_first rtranclp.rtrancl_refl, where T = 0]) (simp_all add: secs_def)

text \<open>
  The gap at the end of the window.  A request signed at 700.999 s is accepted, and accepted a
  second time when its skew test reads 1000.999 s, the last millisecond of its window, and the purge of
  old nonces reads the clock one millisecond later: the purge compares whole seconds and drops the nonce
  that the request itself is to be checked against.
\<close>

theorem replay_at_window_end:
  "fst (authenticate (sample_crypto 700999) 700999 700999 sample_request sample_enrolled) = Ok sample_agent \<and>
   fst (authenticate (sample_crypto 700999) 1000999 1001000 sample_request
     (snd (authenticate (sample_crypto 700999) 700999 700999 sample_request sample_enrolled))) = Ok sample_agent"
proof -
  have "authenticate (sample_crypto 700999) 1000999 1001000 sample_request (sample_nonced 700999) = (Ok sample_agent, sample_nonced 700999)"
    by (rule sample_accepted) (simp_all add: AGENT_REQUEST_SKEW_MS_def sample_nonced_def secs_def)
  then show ?thesis by (simp add: sample_first)
qed

section \<open>What a signature covers\<close>

lemma append_newline_inject:
  "newline \<notin> set a \<Longrightarrow> newline \<notin> set b \<Longrightarrow> a @ newline # r = b @ newline # s \<longleftrightarrow> a = b \<and> r = s"
proof (induction a arbitrary: b)
  case Nil
  then show ?case by (cases b) auto
next
  case (Cons x a)
  then show ?case by (cases b) auto
qed

text \<open>
  A signature covers the whole request.  Two requests whose timestamp, nonce, method and path hold
  no line break have the same signed text only if these four and the hash of their bodies agree, the
  method up to case.
\<close>

theorem signed_text_unambiguous:
  assumes "canonical_request hash t n m p b = canonical_request hash t' n' m' p' b'"
    "newline \<notin> set (t @ n @ map upper_char m @ p)" "newline \<notin> set (t' @ n' @ map upper_char m' @ p')"
  shows "t = t' \<and> n = n' \<and> map upper_char m = map upper_char m' \<and> p = p' \<and> hash b = hash b'"
  using assms by (simp add: canonical_request_def append_newline_inject)

theorem signed_text_unambiguous_witness:
  "canonical_request (\<lambda>b. b) ''1'' ''n'' ''GET'' ''/a'' ''b'' \<noteq> canonical_request (\<lambda>b. b) ''1'' ''n'' ''GET'' ''/'' ''ab''"
  using signed_text_unambiguous [of "\<lambda>b. b" "''1''" "''n''" "''GET''" "''/a''" "''b''" "''1''" "''n''" "''GET''" "''/''" "''ab''"]
  by (auto simp: newline_def upper_char_def is_lower_def)

end
