(* ===== verification/Source_Guarantees.thy ===== *)
theory Source_Guarantees
  imports Agent_Guarantees
begin

text \<open>
  What source access promises: one open request per agent, effective roots that stay within the
  administrator's selection and the host's maximum, a selection that only a confirmed request changes,
  a guard for backup plans, and audit pages that list every request once.
\<close>

section \<open>Requests only advance\<close>

definition request_binding ::
  "source_request \<Rightarrow> string \<times> string \<times> string \<times> request_kind \<times> authorization_mode option \<times> int option \<times> int
     \<times> string \<times> string list \<times> string list \<times> int" where
  "request_binding q = (sq_id q, sq_agentId q, sq_commandId q, sq_kind q, sq_requestedMode q, sq_setupExpiresAt q,
     sq_expectedVersion q, sq_expectedHostPolicyRevision q, sq_roots q, sq_confirmedAffectedPlanIds q, sq_createdAt q)"

text \<open>A host setup is pending only for requests to change the mode.\<close>

definition setup_kind :: "source_request \<Rightarrow> bool" where
  "setup_kind q \<longleftrightarrow> (sq_status q = QPendingHostSetup \<longrightarrow> sq_kind q = KModeSetup)"

definition request_quiet :: "source_request \<Rightarrow> source_request \<Rightarrow> bool" where
  "request_quiet q q' \<longleftrightarrow>
     request_binding q' = request_binding q \<and> (request_open q' \<longrightarrow> request_open q) \<and> (setup_kind q \<longrightarrow> setup_kind q')"

abbreviation requests_quiet :: "source_request list \<Rightarrow> source_request list \<Rightarrow> bool" where
  "requests_quiet \<equiv> list_all2 request_quiet"

lemma request_quiet_refl [simp]: "request_quiet q q"
  by (simp add: request_quiet_def)

lemma request_quiet_trans: "request_quiet a b \<Longrightarrow> request_quiet b c \<Longrightarrow> request_quiet a c"
  by (auto simp: request_quiet_def)

lemma requests_quiet_refl [simp]: "requests_quiet qs qs"
  by (simp add: list_all2_refl)

lemma requests_quiet_trans: "requests_quiet a b \<Longrightarrow> requests_quiet b c \<Longrightarrow> requests_quiet a c"
  by (rule list_all2_trans [OF request_quiet_trans])

text \<open>An update of rows that are already related to the rows of an earlier table.\<close>

lemma requests_quiet_update:
  assumes "requests_quiet orig cur" "\<And>q r. q \<in> set orig \<Longrightarrow> request_quiet q r \<Longrightarrow> p r \<Longrightarrow> request_quiet q (f r)"
  shows "requests_quiet orig (update_where p f cur)"
  using assms by (induction rule: list_all2_induct) auto

lemma request_quiet_id: "request_quiet q r \<Longrightarrow> sq_id r = sq_id q \<and> sq_agentId r = sq_agentId q \<and> sq_kind r = sq_kind q"
  by (simp add: request_quiet_def request_binding_def)

lemma settle_request_quiet:
  "\<not> request_open (settle_request st code at r) \<Longrightarrow> (st = QPendingHostSetup \<longrightarrow> sq_kind r = KModeSetup) \<Longrightarrow>
   request_quiet r (settle_request st code at r)"
  by (auto simp: request_quiet_def settle_request_def request_binding_def request_open_def setup_kind_def)

lemma settle_closed:
  "st \<notin> {QQueued, QValidating, QPendingHostSetup} \<Longrightarrow> request_quiet r (settle_request st code at r)"
  by (rule settle_request_quiet) (auto simp: settle_request_def request_open_def)

lemma set_request_quiet:
  assumes "requests_quiet orig (c_sourceRequests db)" "st \<notin> {QQueued, QValidating, QPendingHostSetup}"
  shows "requests_quiet orig (c_sourceRequests (set_request i (settle_request st code at) db))"
  using requests_quiet_update [OF assms(1)] settle_closed [OF assms(2)] request_quiet_trans
  by (fastforce simp: set_request_def)

lemma accept_report_quiet:
  "requests_quiet orig (c_sourceRequests db) \<Longrightarrow>
   requests_quiet orig (c_sourceRequests (snd (snd (accept_report al a s r now db))))"
  by (simp add: accept_report_def Let_def set_request_quiet split: option.split)

lemma writeReport_quiet:
  assumes "requests_quiet orig (c_sourceRequests db)"
  shows "requests_quiet orig (c_sourceRequests (writeReport a r signed now al db))"
  using assms by (simp add: writeReport_def Let_def split_def set_request_quiet accept_report_quiet split: option.split)

lemma quiet_deliver_requests:
  "requests_quiet (c_sourceRequests db) (c_sourceRequests (snd (markDelivered a k now fresh db)))"
proof -
  have "requests_quiet (c_sourceRequests db) (update_where (\<lambda>x. sq_id x = i \<and> sq_status x = QQueued)
      (\<lambda>x. x\<lparr>sq_status := QValidating\<rparr>) (c_sourceRequests db))" for i
    by (rule requests_quiet_update [OF requests_quiet_refl])
       (auto simp: request_quiet_def request_binding_def request_open_def setup_kind_def)
  then show ?thesis
    by (simp add: markDelivered_def Let_def set_request_quiet split: option.split)
qed

lemma quiet_withdraw_requests:
  "requests_quiet (c_sourceRequests db) (c_sourceRequests (snd (cancel_request a k now db)))"
proof -
  have "requests_quiet (c_sourceRequests db) (c_sourceRequests (set_command j g db))" for j g by simp
  then show ?thesis by (simp add: cancel_request_def set_request_quiet split: option.split)
qed

lemma completion_outcome_closed:
  "completion_outcome q s res now = (st, code) \<Longrightarrow>
   st \<notin> {QQueued, QValidating} \<and> (st = QPendingHostSetup \<longrightarrow> sq_kind q = KModeSetup)"
  by (auto simp: completion_outcome_def Let_def split: if_splits option.splits)

definition requests_ok :: "control_db \<Rightarrow> bool" where
  "requests_ok db \<longleftrightarrow> distinct (map sq_id (c_sourceRequests db)) \<and> list_all setup_kind (c_sourceRequests db)"

lemma getRequestForCommandD:
  "getRequestForCommand a k db = Some q \<Longrightarrow> q \<in> set (c_sourceRequests db) \<and> sq_agentId q = a \<and> sq_commandId q = k"
  by (auto simp: getRequestForCommand_def find_Some_iff)

lemma request_byD: "request_by i a db = Some q \<Longrightarrow> q \<in> set (c_sourceRequests db) \<and> sq_id q = i \<and> sq_agentId q = a"
  by (auto simp: request_by_def find_Some_iff)

lemma finish_requests_quiet:
  assumes "requests_ok db" "q \<in> set (c_sourceRequests db)"
  shows "requests_quiet (c_sourceRequests db) (c_sourceRequests (finish_source_command i c q db))"
proof -
  obtain st code where o: "completion_outcome q (ci_success i) (ci_result i) (ci_now i) = (st, code)" by fastforce
  let ?f = "\<lambda>x. settle_request st code (Some (ci_now i)) (x\<lparr>sq_validation := Option.bind (ci_result i) cs_validation\<rparr>)"
  let ?db1 = "case ci_result i of None \<Rightarrow> db
      | Some res \<Rightarrow> writeReport (ci_agentId i) (cs_sourceAccess res) (ci_signedTimestamp i) (ci_now i) (sq_kind q = KApply \<and> ci_success i) db"
  have q1: "requests_quiet (c_sourceRequests db) (c_sourceRequests ?db1)"
    by (simp add: writeReport_quiet split: option.split)
  have "request_quiet r0 (?f r)" if "r0 \<in> set (c_sourceRequests db)" "request_quiet r0 r" "sq_id r = sq_id q" for r0 r
  proof -
    have "r0 = q"
      using distinct_map_eqD [of sq_id "c_sourceRequests db" r0 q] assms that request_quiet_id by (auto simp: requests_ok_def)
    then show ?thesis
      using that(2) completion_outcome_closed [OF o]
      by (auto simp: request_quiet_def request_binding_def settle_request_def request_open_def setup_kind_def)
  qed
  then have "requests_quiet (c_sourceRequests db) (c_sourceRequests (set_request (sq_id q) ?f ?db1))"
    unfolding set_request_def using requests_quiet_update [OF q1] by simp
  then show ?thesis by (simp add: finish_source_command_def o Let_def)
qed

lemma quiet_finish_requests:
  "requests_ok db \<Longrightarrow> requests_quiet (c_sourceRequests db) (c_sourceRequests (snd (complete_source i db)))"
  by (auto simp: complete_source_def finish_requests_quiet split: option.split dest!: getRequestForCommandD)

lemma terminal_outcome_status: "terminal_outcome q st state = Some (s, code) \<Longrightarrow> s \<in> {QCancelled, QRejected, QApplied, QValidating}"
  by (auto simp: terminal_outcome_def split: command_state.splits if_splits)

lemma reconcile_request_quiet:
  assumes "requests_ok db" "q \<in> set (c_sourceRequests db)" "sq_kind q \<noteq> KModeSetup \<longrightarrow> request_open q"
    "requests_quiet (c_sourceRequests db) (c_sourceRequests (snd acc))"
  shows "requests_quiet (c_sourceRequests db) (c_sourceRequests (snd (reconcile_request now state (q, st) acc)))"
proof -
  obtain ch cur where acc: "acc = (ch, cur)" by (cases acc)
  show ?thesis
  proof (cases "sq_kind q = KModeSetup")
    case True
    then show ?thesis using assms(4) by (simp add: acc reconcile_request_def set_request_quiet)
  next
    case False
    have "request_quiet r0 (settle_request s code at r)"
      if "r0 \<in> set (c_sourceRequests db)" "request_quiet r0 r" "sq_id r = sq_id q" "s \<in> {QCancelled, QRejected, QApplied, QValidating}"
      for r0 r s code at
    proof -
      have "r0 = q"
        using distinct_map_eqD [of sq_id "c_sourceRequests db" r0 q] assms(1,2) that request_quiet_id by (auto simp: requests_ok_def)
      then show ?thesis using that(2,4) assms(3) False
        by (auto simp: request_quiet_def request_binding_def settle_request_def request_open_def setup_kind_def)
    qed
    then have "requests_quiet (c_sourceRequests db) (c_sourceRequests (set_request (sq_id q) (settle_request s code at) cur))"
      if "s \<in> {QCancelled, QRejected, QApplied, QValidating}" for s code at
      unfolding set_request_def using requests_quiet_update [OF assms(4)] that acc by simp
    then show ?thesis
      using assms(4) False terminal_outcome_status [of q st state]
      by (auto simp: acc reconcile_request_def split: option.split)
  qed
qed

lemma open_rows_facts:
  assumes "requests_ok db"
  shows "\<forall>x \<in> set (open_rows a db). fst x \<in> set (c_sourceRequests db) \<and> (sq_kind (fst x) \<noteq> KModeSetup \<longrightarrow> request_open (fst x))"
  using assms by (auto simp: open_rows_def requests_ok_def list_all_iff setup_kind_def split: if_splits option.splits)

lemma quiet_reconcile_requests:
  assumes "requests_ok db"
  shows "requests_quiet (c_sourceRequests db) (c_sourceRequests (snd (reconcileTerminalRequests a now db)))"
proof -
  have "requests_quiet (c_sourceRequests db) (c_sourceRequests (snd (fold (reconcile_request now state) xs acc)))"
    if "requests_quiet (c_sourceRequests db) (c_sourceRequests (snd acc))"
      "\<forall>x \<in> set xs. fst x \<in> set (c_sourceRequests db) \<and> (sq_kind (fst x) \<noteq> KModeSetup \<longrightarrow> request_open (fst x))" for xs state acc
    using that
  proof (induction xs arbitrary: acc)
    case (Cons x xs)
    then show ?case
      using reconcile_request_quiet [OF assms, of "fst x" acc now state "snd x"] by simp
  qed simp
  from this [of "([], db)"] show ?thesis using open_rows_facts [OF assms] by (simp add: reconcileTerminalRequests_def)
qed

text \<open>Operations of the agent store leave the requests and states alone.\<close>

definition source_tables :: "control_db \<Rightarrow> source_state list \<times> source_request list" where
  "source_tables db = (c_sourceStates db, c_sourceRequests db)"

lemma source_tables_agent:
  "createEnrollment i h n e now db = Ok (r, db') \<Longrightarrow> source_tables db' = source_tables db"
  "source_tables (snd (revokeEnrollment now i db)) = source_tables db"
  "source_tables (snd (updateHeartbeat now a iv db)) = source_tables db"
  "source_tables (snd (revokeAgentByDeviceId now dev db)) = source_tables db"
  by (auto simp: source_tables_def createEnrollment_def revokeEnrollment_def updateHeartbeat_def revokeAgentByDeviceId_def
      Let_def split_def split: option.split if_splits)

lemma source_tables_commands:
  "source_tables (snd (acknowledgeCommand clock a k t now db)) = source_tables db"
  "source_tables (snd (recordCommandEvent a k t n now ms db)) = source_tables db"
  "source_tables (snd (completeCommand clock a k t n s err now db)) = source_tables db"
  "source_tables (snd (cancelCommand clock k db)) = source_tables db"
  "source_tables (snd (getCommandStatus a k t ms now db)) = source_tables db"
  "source_tables (snd (authenticate cr now clock rq db)) = source_tables db"
  by (simp_all add: source_tables_def acknowledgeCommand_def recordCommandEvent_def completeCommand_def cancelCommand_def
      getCommandStatus_def authenticate_def reserveNonce_def Let_def split_def split: option.split)

lemma source_tables_other: "source_tables (db\<lparr>c_plans := ps, c_backups := bs, c_devices := ds\<rparr>) = source_tables db"
  by (simp add: source_tables_def)

lemma control_step_requests:
  assumes "control_step db db'" "requests_ok db"
  shows "requests_quiet (c_sourceRequests db) (c_sourceRequests db') \<or>
    (\<exists>i a s. request_checks i a s db = Ok () \<and> ri_id i \<notin> sq_id ` set (c_sourceRequests db) \<and>
       c_sourceRequests db' = c_sourceRequests db @ [request_row i])"
proof -
  have same: ?thesis if "source_tables db' = source_tables db" using that by (simp add: source_tables_def)
  from assms(1) show ?thesis
  proof (cases rule: control_step.cases)
    case (cs_enroll clock d r)
    from cs_enroll show ?thesis by (cases rule: enrollAgent_cases) auto
  next
    case (cs_enqueue now c r)
    then show ?thesis using enqueue_commands [of now c db r db'] by simp
  next
    case (cs_request clock inp q)
    from cs_request show ?thesis by (rule createRequest_cases) (auto simp: request_row_def)
  next
    case (cs_token i h n e now r)
    then show ?thesis using same source_tables_agent(1) by simp
  next
    case (cs_lease a owner ms now)
    then show ?thesis using leaseNext_frame(3) by simp
  qed (use same source_tables_agent source_tables_commands source_tables_other quiet_deliver_requests
        quiet_finish_requests [OF assms(2)] quiet_withdraw_requests quiet_reconcile_requests [OF assms(2)]
        writeReport_quiet [OF requests_quiet_refl] in \<open>simp_all add: recordHeartbeat_def\<close>)
qed

definition open_requests :: "string \<Rightarrow> control_db \<Rightarrow> nat" where
  "open_requests a db = count_where (\<lambda>q. sq_agentId q = a \<and> request_open q) (c_sourceRequests db)"

lemma requests_quiet_ids: "requests_quiet qs qs' \<Longrightarrow> map sq_id qs' = map sq_id qs"
  by (induction rule: list_all2_induct) (auto dest: request_quiet_id)

lemma requests_quiet_kinds: "requests_quiet qs qs' \<Longrightarrow> list_all setup_kind qs \<Longrightarrow> list_all setup_kind qs'"
  by (induction rule: list_all2_induct) (auto simp: request_quiet_def)

lemma requests_quiet_open:
  "requests_quiet qs qs' \<Longrightarrow> count_where (\<lambda>q. sq_agentId q = a \<and> request_open q) qs'
     \<le> count_where (\<lambda>q. sq_agentId q = a \<and> request_open q) qs"
  by (induction rule: list_all2_induct) (auto simp: request_quiet_def request_binding_def)

lemma requests_ok_step:
  assumes "requests_ok db" "control_step db db'" shows "requests_ok db'"
  using control_step_requests [OF assms(2,1)]
proof (elim disjE exE conjE)
  assume "requests_quiet (c_sourceRequests db) (c_sourceRequests db')"
  then show ?thesis using assms(1) requests_quiet_ids requests_quiet_kinds by (simp add: requests_ok_def)
qed (use assms(1) in \<open>auto simp: requests_ok_def setup_kind_def request_row_def\<close>)

lemma request_checks_idle:
  "request_checks i a s db = Ok () \<Longrightarrow> open_requests (ri_agentId i) db = 0"
  by (auto simp: request_checks_def bind_result_Inr_iff open_requests_def count_where_0_iff list_ex_iff)

lemma open_requests_step:
  assumes "requests_ok db" "control_step db db'"
  shows "open_requests b db' \<le> open_requests b db \<or> (open_requests b db = 0 \<and> open_requests b db' = 1)"
  using control_step_requests [OF assms(2,1)]
proof (elim disjE exE conjE)
  assume "requests_quiet (c_sourceRequests db) (c_sourceRequests db')"
  then show ?thesis using requests_quiet_open by (simp add: open_requests_def)
next
  fix i a s
  assume r: "request_checks i a s db = Ok ()" and n: "c_sourceRequests db' = c_sourceRequests db @ [request_row i]"
  have "open_requests b db' = open_requests b db + (if ri_agentId i = b then 1 else 0)"
    by (simp add: open_requests_def n request_row_def request_open_def)
  with request_checks_idle [OF r] show ?thesis by (auto split: if_splits)
qed

interpretation source_queue: exclusive_slot control_step requests_ok "open_requests b" for b
  by unfold_locales (rule requests_ok_step, assumption+, rule open_requests_step)

section \<open>Reports and selections\<close>

definition within_maximum :: "source_report \<Rightarrow> bool" where
  "within_maximum r \<longleftrightarrow> list_all (\<lambda>root. list_ex (\<lambda>m. sourcePathWithin m root) (host_maximum r)) (sr_effectiveRoots r)"

lemma no_roots [simp]:
  "within_selection sel (r\<lparr>sr_effectiveRoots := []\<rparr>)" "within_maximum (r\<lparr>sr_effectiveRoots := []\<rparr>)"
  by (simp_all add: within_selection_def within_maximum_def)

lemma no_roots_more [simp]:
  "within_selection sel (r\<lparr>sr_effectiveVersion := v, sr_effectiveRoots := []\<rparr>)"
  "within_maximum (r\<lparr>sr_effectiveVersion := v, sr_effectiveRoots := []\<rparr>)"
  "within_selection sel (r\<lparr>sr_effectiveVersion := v, sr_effectiveRoots := [], sr_policyError := e\<rparr>)"
  "within_maximum (r\<lparr>sr_effectiveVersion := v, sr_effectiveRoots := [], sr_policyError := e\<rparr>)"
  "within_selection sel (r\<lparr>sr_effectiveRoots := [], sr_policyError := e\<rparr>)"
  "within_maximum (r\<lparr>sr_effectiveRoots := [], sr_policyError := e\<rparr>)"
  by (simp_all add: within_selection_def within_maximum_def)

lemma sourcePathWithin_refl [simp]: "sourcePathWithin r r"
  by (simp add: sourcePathWithin_def)

lemma sameSourceRoots_mset: "sameSourceRoots l r \<longleftrightarrow> mset l = mset r"
proof
  assume "sameSourceRoots l r"
  then have "sort l = sort r" by (auto simp: sameSourceRoots_def list_all_iff list_eq_iff_zip_eq)
  then show "mset l = mset r" by (metis mset_sort)
next
  assume m: "mset l = mset r"
  then have "sort l = sort r" using properties_for_sort [of "sort r" l] by simp
  then show "sameSourceRoots l r" using m by (auto simp: sameSourceRoots_def list_all_iff set_zip dest: mset_eq_length)
qed

lemma matches_within: "matchesAppliedReport q r \<Longrightarrow> within_selection (sq_roots q) r"
  by (auto simp: matchesAppliedReport_def sameSourceRoots_mset within_selection_def list_all_iff list_ex_iff
      dest!: mset_eq_setD intro: sourcePathWithin_refl)

lemma consistent_maximum: "report_consistent r \<Longrightarrow> within_maximum r"
  by (simp add: report_consistent_def within_maximum_def)

lemma within_selectionI:
  "(\<And>root. root \<in> set (sr_effectiveRoots r) \<Longrightarrow> root \<in> set sel) \<Longrightarrow> within_selection sel r"
  unfolding within_selection_def list_all_iff list_ex_iff using sourcePathWithin_refl by blast

lemma consistent_statuses: "report_consistent r \<Longrightarrow> within_selection (map ro_path (sr_rootStatuses r)) r"
  by (rule within_selectionI) (auto simp: report_consistent_def list_all_iff list_ex_iff)

lemma keep_authority_maximum: "report_consistent r \<Longrightarrow> within_maximum (keep_authority s r)"
  using consistent_maximum [of r] by (simp add: keep_authority_def within_maximum_def)

text \<open>A request that confirms a new selection.\<close>

definition confirms :: "source_request \<Rightarrow> string \<Rightarrow> string list \<Rightarrow> source_report \<Rightarrow> bool" where
  "confirms q a selected r \<longleftrightarrow>
     sq_agentId q = a \<and> sq_kind q = KApply \<and> sq_status q \<in> {QQueued, QValidating, QApplied} \<and>
     sq_roots q = selected \<and> matchesAppliedReport q r"

lemma accept_report_outcome:
  assumes "accept_report al a s r now db = (sel, acc, db')" "within_maximum r"
  shows "within_selection sel acc \<and> within_maximum acc \<and>
     (sel = ss_selectedRoots s \<or> (\<exists>q \<in> set (c_sourceRequests db). al \<and> confirms q a sel acc))"
proof -
  have apply_case: "within_selection (sq_roots q) r" "q \<in> set (c_sourceRequests db)" "al" "confirms q a (sq_roots q) r"
    if "confirming_apply al a r db = Some q" for q
  proof -
    from that have q: "request_by (or_empty (sr_lastAppliedRequestId r)) a db = Some q" "al" "matchesAppliedReport q r"
        "sq_status q \<in> {QQueued, QValidating, QApplied}"
      by (auto simp: confirming_apply_def split: if_splits option.splits)
    show "within_selection (sq_roots q) r" "q \<in> set (c_sourceRequests db)" "al" "confirms q a (sq_roots q) r"
      using q request_byD [OF q(1)] matches_within [OF q(3)] by (auto simp: confirms_def matchesAppliedReport_def)
  qed
  show ?thesis
  proof (cases "ss_selectedRoots s = sel")
    case True
    then show ?thesis using assms apply_case
      by (auto simp: accept_report_def Let_def split: if_splits option.splits)
  next
    case False
    then obtain q where q: "confirming_apply al a r db = Some q" "sel = sq_roots q" "acc = r"
      using assms(1) by (auto simp: accept_report_def Let_def split: if_splits option.splits)
    then show ?thesis using apply_case [OF q(1)] assms(2) by blast
  qed
qed

lemma row_by_replace:
  "row_by key b (update_where (\<lambda>x. key x = key s) (\<lambda>_. s) t) =
   (if b = key s then (if key s \<in> key ` set t then Some s else None) else row_by key b t)"
  by (induction t) auto

lemma row_by_upsert:
  "row_by key b (if key s \<in> key ` set t then update_where (\<lambda>x. key x = key s) (\<lambda>_. s) t else t @ [s]) =
   (if b = key s then Some s else row_by key b t)"
proof (cases "key s \<in> key ` set t")
  case True
  then show ?thesis by (simp add: row_by_replace)
next
  case False
  then have "row_by key (key s) t = None" by (simp add: row_by_None_iff)
  with False show ?thesis by (simp add: row_by_append split: option.split)
qed

lemma getState_save: "getState b (save_state s db) = (if b = ss_agentId s then Some s else getState b db)"
  using row_by_upsert [of ss_agentId b s "c_sourceStates db"] by (simp add: getState_def save_state_def)

lemma getState_frame: "c_sourceStates db' = c_sourceStates db \<Longrightarrow> getState a db' = getState a db"
  by (simp add: getState_def)

lemma confirming_setupD:
  "confirming_setup a sel r db = Some q \<Longrightarrow> q \<in> set (c_sourceRequests db) \<and> sq_kind q = KModeSetup \<and> within_selection sel r"
  by (auto simp: confirming_setup_def split: if_splits option.splits dest: request_byD)

text \<open>The confirmation of a mode setup does not touch a request to apply a selection.\<close>

lemma apply_request_untouched:
  assumes "requests_ok db" "p \<in> set (c_sourceRequests db)" "sq_kind p = KModeSetup"
    "q \<in> set (c_sourceRequests (set_request (sq_id p) (settle_request st code at) db))" "sq_kind q = KApply"
  shows "q \<in> set (c_sourceRequests db)"
proof -
  from assms(4) obtain q0 where q0: "q0 \<in> set (c_sourceRequests db)"
      "q = (if sq_id q0 = sq_id p then settle_request st code at q0 else q0)"
    by (auto simp: set_request_def in_update_where)
  have "sq_id q0 \<noteq> sq_id p"
  proof
    assume e: "sq_id q0 = sq_id p"
    then have "q0 = p" using distinct_map_eqD [of sq_id "c_sourceRequests db" q0 p] assms(1,2) q0(1) by (simp add: requests_ok_def)
    with e q0(2) assms(3,5) show False by (simp add: settle_request_def)
  qed
  with q0 show ?thesis by simp
qed

definition saved_report :: "string \<Rightarrow> bool \<Rightarrow> source_report \<Rightarrow> control_db \<Rightarrow> control_db \<Rightarrow> bool" where
  "saved_report a al r db db' \<longleftrightarrow>
     (\<forall>b. b \<noteq> a \<longrightarrow> getState b db' = getState b db) \<and>
     (\<exists>s'. getState a db' = Some s' \<and> within_selection (ss_selectedRoots s') (ss_report s') \<and> within_maximum (ss_report s') \<and>
        (case getState a db of
           None \<Rightarrow> ss_selectedRoots s' = map ro_path (sr_rootStatuses r)
         | Some s \<Rightarrow> ss_selectedRoots s' = ss_selectedRoots s \<or>
             (\<exists>q \<in> set (c_sourceRequests db). al \<and> confirms q a (ss_selectedRoots s') (ss_report s'))))"

lemma saved_reportI:
  assumes "db' = save_state s' db2" "c_sourceStates db2 = c_sourceStates db" "ss_agentId s' = a"
    "within_selection (ss_selectedRoots s') (ss_report s')" "within_maximum (ss_report s')"
    "case getState a db of
       None \<Rightarrow> ss_selectedRoots s' = map ro_path (sr_rootStatuses r)
     | Some s \<Rightarrow> ss_selectedRoots s' = ss_selectedRoots s \<or>
         (\<exists>q \<in> set (c_sourceRequests db). al \<and> confirms q a (ss_selectedRoots s') (ss_report s'))"
  shows "saved_report a al r db db'"
  using assms getState_save [of _ s' db2] getState_frame [OF assms(2)] by (simp add: saved_report_def)

lemma accept_report_states: "c_sourceStates (snd (snd (accept_report al a s r now db))) = c_sourceStates db"
  by (simp add: accept_report_def Let_def split: option.split)

lemma writeReport_new:
  assumes "report_consistent r" "getState a db = None"
  shows "saved_report a al r db (writeReport a r signed now al db)"
proof -
  let ?sel = "map ro_path (sr_rootStatuses r)"
  let ?confirmed = "if mode_changed None r then confirming_setup a ?sel r db else None"
  let ?db1 = "case ?confirmed of None \<Rightarrow> db
      | Some q \<Rightarrow> set_request (sq_id q) (settle_request QApplied ''source-mode-setup-applied'' (Some now)) db"
  let ?acc = "if mode_changed None r \<and> ?confirmed = None
      then r\<lparr>sr_effectiveVersion := 0, sr_effectiveRoots := [], sr_policyError := Some ''source-mode-unconfirmed''\<rparr> else r"
  have "writeReport a r signed now al db =
      save_state \<lparr>ss_agentId = a, ss_report = ?acc, ss_selectedRoots = ?sel, ss_latestReportTimestamp = signed,
        ss_receivedAt = now\<rparr> ?db1"
    using assms(2) by (simp add: writeReport_def Let_def)
  moreover have "c_sourceStates ?db1 = c_sourceStates db" by (simp split: option.split)
  ultimately show ?thesis
    by (rule saved_reportI) (use assms consistent_statuses consistent_maximum in simp_all)
qed

lemma writeReport_known:
  assumes "report_consistent r" "requests_ok db" "getState a db = Some s" "\<not> outdated_report s r signed"
  shows "saved_report a al r db (writeReport a r signed now al db)"
proof -
  let ?r = "keep_authority s r" and ?sel = "ss_selectedRoots s"
  let ?confirmed = "if mode_changed (Some s) ?r then confirming_setup a ?sel ?r db else None"
  let ?db1 = "case ?confirmed of None \<Rightarrow> db
      | Some q \<Rightarrow> set_request (sq_id q) (settle_request QApplied ''source-mode-setup-applied'' (Some now)) db"
  have s1: "c_sourceStates ?db1 = c_sourceStates db" by (simp split: option.split)
  show ?thesis
  proof (cases "mode_changed (Some s) ?r \<and> ?confirmed = None")
    case True
    then have "mode_changed (Some s) ?r" "confirming_setup a ?sel ?r db = None" by (auto split: if_splits)
    then have "writeReport a r signed now al db =
        save_state \<lparr>ss_agentId = a, ss_report = ?r\<lparr>sr_effectiveVersion := sr_effectiveVersion (ss_report s),
          sr_effectiveRoots := [], sr_policyError := Some ''source-mode-unconfirmed''\<rparr>, ss_selectedRoots = ?sel,
          ss_latestReportTimestamp = signed, ss_receivedAt = now\<rparr> ?db1"
      using assms(3,4) by (simp add: writeReport_def Let_def)
    then show ?thesis using s1 by (rule saved_reportI) (use assms(3) in simp_all)
  next
    case False
    obtain sel acc db2 where o: "accept_report al a s ?r now ?db1 = (sel, acc, db2)" by (cases "accept_report al a s ?r now ?db1")
    have w: "writeReport a r signed now al db =
        save_state \<lparr>ss_agentId = a, ss_report = acc, ss_selectedRoots = sel, ss_latestReportTimestamp = signed,
          ss_receivedAt = now\<rparr> db2"
    proof (cases "mode_changed (Some s) ?r")
      case True
      with False obtain q where "confirming_setup a ?sel ?r db = Some q" by auto
      with True assms(3,4) o show ?thesis by (simp add: writeReport_def Let_def)
    qed (use assms(3,4) o in \<open>simp add: writeReport_def Let_def\<close>)
    have s2: "c_sourceStates db2 = c_sourceStates db" using accept_report_states [of al a s ?r now ?db1] o s1 by simp
    note out = accept_report_outcome [OF o keep_authority_maximum [OF assms(1)]]
    have "q \<in> set (c_sourceRequests db)" if "q \<in> set (c_sourceRequests ?db1)" "sq_kind q = KApply" for q
      using that apply_request_untouched [OF assms(2) _ _ _ that(2)] confirming_setupD [of a ?sel ?r db]
      by (auto split: option.splits if_splits)
    then have "sel = ?sel \<or> (\<exists>q \<in> set (c_sourceRequests db). al \<and> confirms q a sel acc)"
      using out by (auto simp: confirms_def)
    then show ?thesis using out by (intro saved_reportI [OF w s2]) (simp_all add: assms(3))
  qed
qed

lemma writeReport_outcome:
  assumes "report_consistent r" "requests_ok db"
  shows "writeReport a r signed now al db = db \<or> saved_report a al r db (writeReport a r signed now al db)"
proof (cases "getState a db")
  case None
  then show ?thesis using writeReport_new [OF assms(1)] by simp
next
  case (Some s)
  show ?thesis
  proof (cases "outdated_report s r signed")
    case True
    then show ?thesis using Some by (simp add: writeReport_def)
  next
    case False
    then show ?thesis using writeReport_known [OF assms Some] by simp
  qed
qed

lemma states_frame: "source_tables db' = source_tables db \<Longrightarrow> getState a db' = getState a db"
  by (simp add: source_tables_def getState_def)

lemma reconcile_states: "c_sourceStates (snd (reconcileTerminalRequests a now db)) = c_sourceStates db"
proof -
  have "c_sourceStates (snd (reconcile_request now st x acc)) = c_sourceStates (snd acc)" for st x acc
    by (cases x; cases acc) (auto simp: reconcile_request_def split: option.split)
  then have "c_sourceStates (snd (fold (reconcile_request now st) xs acc)) = c_sourceStates (snd acc)" for st xs acc
    by (induction xs arbitrary: acc) simp_all
  then show ?thesis by (simp add: reconcileTerminalRequests_def)
qed

lemma saved_report_states:
  "saved_report a al r db db1 \<Longrightarrow> c_sourceStates db' = c_sourceStates db1 \<Longrightarrow> saved_report a al r db db'"
  by (simp add: saved_report_def getState_def)

lemma finish_states:
  assumes "requests_ok db" "result_consistent (ci_result i)"
  shows "(\<forall>b. getState b (finish_source_command i c q db) = getState b db) \<or>
         (\<exists>a al r. report_consistent r \<and> saved_report a al r db (finish_source_command i c q db))"
proof (cases "ci_result i")
  case None
  then show ?thesis by (simp add: finish_source_command_def Let_def split_def getState_def)
next
  case (Some res)
  let ?db1 = "writeReport (ci_agentId i) (cs_sourceAccess res) (ci_signedTimestamp i) (ci_now i) (sq_kind q = KApply \<and> ci_success i) db"
  have st: "c_sourceStates (finish_source_command i c q db) = c_sourceStates ?db1"
    using Some by (simp add: finish_source_command_def Let_def split_def)
  have rc: "report_consistent (cs_sourceAccess res)" using assms(2) Some by (simp add: result_consistent_def)
  from writeReport_outcome [OF rc assms(1)] show ?thesis
  proof
    assume "?db1 = db"
    with st show ?thesis by (simp add: getState_def)
  next
    assume "saved_report (ci_agentId i) (sq_kind q = KApply \<and> ci_success i) (cs_sourceAccess res) db ?db1"
    from saved_report_states [OF this st] rc show ?thesis by blast
  qed
qed

lemma complete_states:
  assumes "requests_ok db" "result_consistent (ci_result i)"
  shows "(\<forall>b. getState b (snd (complete_source i db)) = getState b db) \<or>
         (\<exists>a al r. report_consistent r \<and> saved_report a al r db (snd (complete_source i db)))"
  using finish_states [OF assms] by (auto simp: complete_source_def getState_def split: option.split)

lemma control_step_states:
  assumes "control_step db db'" "requests_ok db"
  shows "(\<forall>b. getState b db' = getState b db) \<or> (\<exists>a al r. report_consistent r \<and> saved_report a al r db db')"
proof -
  have same: ?thesis if "c_sourceStates db' = c_sourceStates db" using that by (simp add: getState_def)
  have tables: ?thesis if "source_tables db' = source_tables db" using that same by (simp add: source_tables_def)
  from assms(1) show ?thesis
  proof (cases rule: control_step.cases)
    case (cs_enroll clock d r)
    from cs_enroll show ?thesis by (cases rule: enrollAgent_cases) (simp_all add: getState_def)
  next
    case (cs_enqueue now c r)
    then show ?thesis using enqueue_commands [of now c db r db'] by (intro same) simp
  next
    case (cs_request clock inp q)
    have "c_sourceStates db' = c_sourceStates db" using cs_request by (rule createRequest_cases)
    then show ?thesis by (rule same)
  next
    case (cs_token i h n e now r)
    then show ?thesis using source_tables_agent(1) by (intro tables) simp
  next
    case (cs_lease a owner ms now)
    then show ?thesis using leaseNext_frame(2) by (intro same) simp
  next
    case (cs_heartbeat r a signed now)
    then show ?thesis using writeReport_outcome [OF cs_heartbeat(2) assms(2), of a signed now True]
      by (auto simp: recordHeartbeat_def intro: same)
  next
    case (cs_deliver a c now fresh)
    then show ?thesis by (intro same) (auto simp: markDelivered_def Let_def split: option.split)
  next
    case (cs_finish ci)
    then show ?thesis using complete_states [OF assms(2)] by simp
  next
    case (cs_withdraw a q now)
    then show ?thesis by (intro same) (simp add: cancel_request_def split: option.split)
  next
    case (cs_reconcile a now)
    then show ?thesis using reconcile_states by (intro same) simp
  qed (use tables source_tables_agent source_tables_commands source_tables_other in simp_all)
qed

definition states_ok :: "control_db \<Rightarrow> bool" where
  "states_ok db \<longleftrightarrow> requests_ok db \<and>
     (\<forall>a s. getState a db = Some s \<longrightarrow> within_selection (ss_selectedRoots s) (ss_report s) \<and> within_maximum (ss_report s))"

lemma states_ok_step:
  assumes "states_ok db" "control_step db db'" shows "states_ok db'"
proof -
  have r: "requests_ok db" "requests_ok db'" using assms requests_ok_step by (auto simp: states_ok_def)
  from control_step_states [OF assms(2) r(1)] show ?thesis
  proof
    assume "\<forall>b. getState b db' = getState b db"
    then show ?thesis using assms(1) r(2) by (simp add: states_ok_def)
  next
    assume "\<exists>a al r. report_consistent r \<and> saved_report a al r db db'"
    then obtain a al x where s: "saved_report a al x db db'" by blast
    have "within_selection (ss_selectedRoots s) (ss_report s) \<and> within_maximum (ss_report s)" if "getState b db' = Some s" for b s
      using s assms(1) that by (cases "b = a") (auto simp: saved_report_def states_ok_def)
    then show ?thesis using r(2) by (auto simp: states_ok_def)
  qed
qed

interpretation source_reports: invariant_system control_init control_step states_ok
proof
  show "states_ok s" if "control_init s" for s
    using that by (simp add: control_init_def empty_control_def states_ok_def requests_ok_def getState_def)
  show "states_ok t" if "states_ok s" "control_step s t" for s t using states_ok_step [OF that] .
qed

lemma control_requests_ok: "reachable control_init control_step db \<Longrightarrow> requests_ok db"
  using source_reports.reachable_inv by (auto simp: states_ok_def)

text \<open>
  Effective roots stay within the selection and the host's maximum: each root that the accepted report
  of an agent calls effective lies at or below a root the selection holds and at or below a root that
  the host approves or, in server-managed mode, delegates.
\<close>

lemma effective_roots_bounded:
  assumes "reachable control_init control_step db" "getState a db = Some s" "root \<in> set (sr_effectiveRoots (ss_report s))"
  shows "(\<exists>x \<in> set (ss_selectedRoots s). sourcePathWithin x root) \<and>
         (\<exists>x \<in> set (host_maximum (ss_report s)). sourcePathWithin x root)"
  using source_reports.reachable_inv [OF assms(1)] assms(2,3)
  by (auto simp: states_ok_def within_selection_def within_maximum_def list_all_iff list_ex_iff)

text \<open>
  C7: Only a confirmed request changes a selection.  No call removes the state of an agent, and if a
  call changes its selected roots then the new selection is the roots of a request to apply it that
  is stored for this agent and is not refused or cancelled, and the accepted report answers exactly
  that request: its id, the next version, the same host policy revision and the same roots, all
  readable.
\<close>

theorem selection_changes_confirmed:
  assumes "reachable control_init control_step db" "control_step db db'" "getState a db = Some s"
  shows "\<exists>s'. getState a db' = Some s' \<and>
     (ss_selectedRoots s' \<noteq> ss_selectedRoots s \<longrightarrow>
        (\<exists>q \<in> set (c_sourceRequests db). sq_agentId q = a \<and> sq_kind q = KApply \<and>
           sq_status q \<in> {QQueued, QValidating, QApplied} \<and> ss_selectedRoots s' = sq_roots q \<and>
           sr_lastAppliedRequestId (ss_report s') = Some (sq_id q) \<and>
           sr_effectiveVersion (ss_report s') = sq_expectedVersion q + 1 \<and>
           sr_hostPolicyRevision (ss_report s') = sq_expectedHostPolicyRevision q \<and>
           mset (sr_effectiveRoots (ss_report s')) = mset (sq_roots q) \<and> sourceReportHealthy (ss_report s')))"
  using control_step_states [OF assms(2) control_requests_ok [OF assms(1)]]
proof
  assume "\<forall>b. getState b db' = getState b db"
  then show ?thesis using assms(3) by simp
next
  assume "\<exists>b al r. report_consistent r \<and> saved_report b al r db db'"
  then obtain b al x where saved: "saved_report b al x db db'" by blast
  show ?thesis
  proof (cases "a = b")
    case True
    with saved assms(3) obtain s' where s': "getState a db' = Some s'"
        "ss_selectedRoots s' = ss_selectedRoots s \<or> (\<exists>q \<in> set (c_sourceRequests db). al \<and> confirms q a (ss_selectedRoots s') (ss_report s'))"
      by (auto simp: saved_report_def)
    then show ?thesis by (auto simp: confirms_def matchesAppliedReport_def sameSourceRoots_mset)
  next
    case False
    then show ?thesis using saved assms(3) by (simp add: saved_report_def)
  qed
qed

section \<open>The guard of backup plans\<close>

lemma sourcePathWithin_trans: "sourcePathWithin a b \<Longrightarrow> sourcePathWithin b c \<Longrightarrow> sourcePathWithin a c"
  by (auto simp: sourcePathWithin_def starts_with_iff Cons_eq_append_conv split: if_splits)


section \<open>One request at a time\<close>

lemma control_queue_reach:
  assumes "reachable control_init control_step db"
  shows "reachable (\<lambda>s. requests_ok s \<and> open_requests b s \<le> 1) control_step db"
  using assms
proof (induction rule: reachable.induct)
  case (reach_init s)
  then show ?case
    by (intro reachable.reach_init) (simp add: control_init_def empty_control_def requests_ok_def open_requests_def)
next
  case (reach_step s t)
  show ?case by (rule reachable.reach_step [OF reach_step.IH reach_step.hyps(2)])
qed

text \<open>
  C40: One source access request at a time.  In every reachable state at most one request of an agent is
  queued or being validated, and request ids are unique.
\<close>

theorem one_open_request:
  assumes "reachable control_init control_step db"
  shows "count_where (\<lambda>q. sq_agentId q = a \<and> sq_status q \<in> {QQueued, QValidating}) (c_sourceRequests db) \<le> 1 \<and>
         distinct (map sq_id (c_sourceRequests db))"
  using source_queue.slot_bound [OF control_queue_reach [OF assms], of a]
  by (simp add: requests_ok_def open_requests_def request_open_def)

definition sample_report :: source_report where
  "sample_report = \<lparr>sr_authorizationMode = None, sr_delegatedRoots = None, sr_lastModeSetupRequestId = None,
     sr_hostPolicyRevision = ''p'', sr_effectiveVersion = 1, sr_approvedRoots = [''/data'', ''/x''],
     sr_effectiveRoots = [''/data''], sr_rootStatuses = [\<lparr>ro_path = ''/data'', ro_status = RootReadable, ro_code = None\<rparr>],
     sr_lastAppliedRequestId = None, sr_policyError = None\<rparr>"

definition sample_reported :: control_db where
  "sample_reported = recordHeartbeat ''a1'' sample_report 1000500 1000500 sample_enrolled"

definition sample_input :: request_input where
  "sample_input = \<lparr>ri_id = ''q1'', ri_commandId = ''c2'', ri_agentId = ''a1'', ri_deviceId = ''d1'', ri_kind = KApply,
     ri_requestedMode = None, ri_setupExpiresAt = None, ri_expectedVersion = 1, ri_expectedHostPolicyRevision = ''p'',
     ri_roots = [''/x''], ri_confirmedAffectedPlanIds = [], ri_now = 1001000, ri_freshSince = 900000\<rparr>"

definition sample_requested :: control_db where
  "sample_requested = (case createRequest 1001000 sample_input sample_reported of Inl e \<Rightarrow> sample_reported | Inr (q, db) \<Rightarrow> db)"

definition sample_applied_report :: source_report where
  "sample_applied_report = sample_report\<lparr>sr_effectiveVersion := 2, sr_effectiveRoots := [''/x''],
     sr_rootStatuses := [\<lparr>ro_path = ''/x'', ro_status = RootReadable, ro_code = None\<rparr>],
     sr_lastAppliedRequestId := Some ''q1''\<rparr>"

definition sample_applied :: control_db where
  "sample_applied = recordHeartbeat ''a1'' sample_applied_report 1002000 1002000 sample_requested"

lemma sample_consistent: "report_consistent sample_report" "report_consistent sample_applied_report"
  by code_simp+

lemma sample_reported_reachable: "reachable control_init control_step sample_reported"
  unfolding sample_reported_def by (rule reach_step [OF sample_enrolled_reachable cs_heartbeat [OF sample_consistent(1)]])

lemma sample_request_created: "createRequest 1001000 sample_input sample_reported = Ok (request_row sample_input, sample_requested)"
  by code_simp

lemma sample_requested_reachable: "reachable control_init control_step sample_requested"
  by (rule reach_step [OF sample_reported_reachable cs_request [OF sample_request_created]])

theorem one_open_request_witness:
  "count_where (\<lambda>q. sq_agentId q = ''a1'' \<and> sq_status q \<in> {QQueued, QValidating}) (c_sourceRequests sample_requested) = 1"
proof -
  have "c_sourceRequests sample_requested = [request_row sample_input]" by code_simp
  then have "0 < count_where (\<lambda>q. sq_agentId q = ''a1'' \<and> sq_status q \<in> {QQueued, QValidating}) (c_sourceRequests sample_requested)"
    by (simp add: request_row_def sample_input_def)
  then show ?thesis using one_open_request [OF sample_requested_reachable, of "''a1''"] by linarith
qed

lemma sample_states:
  "map_option ss_selectedRoots (getState ''a1'' sample_requested) = Some [''/data'']"
  "map_option ss_selectedRoots (getState ''a1'' sample_applied) = Some [''/x'']"
  by code_simp+

theorem selection_changes_confirmed_witness:
  "\<exists>q \<in> set (c_sourceRequests sample_requested). sq_kind q = KApply \<and> sq_roots q = [''/x''] \<and> sq_expectedVersion q + 1 = 2"
proof -
  have step: "control_step sample_requested sample_applied"
    unfolding sample_applied_def by (rule cs_heartbeat [OF sample_consistent(2)])
  obtain s where s: "getState ''a1'' sample_requested = Some s" "ss_selectedRoots s = [''/data'']" using sample_states(1) by auto
  obtain s' where s': "getState ''a1'' sample_applied = Some s'" "ss_selectedRoots s' = [''/x'']" using sample_states(2) by auto
  have v: "map_option (\<lambda>s. sr_effectiveVersion (ss_report s)) (getState ''a1'' sample_applied) = Some 2" by code_simp
  from selection_changes_confirmed [OF sample_requested_reachable step s(1)] s(2) s' v show ?thesis by auto
qed

lemma sample_plan_ok:
  "assertPlanSource 90000 1001000 (identity_row 1000000 1000000 (ed_identity sample_enroll)) ''/data/a'' sample_reported = Ok ()"
  by code_simp


section \<open>Audit pages\<close>

abbreviation page_key :: "source_request \<Rightarrow> int \<times> string" where
  "page_key q \<equiv> (sq_createdAt q, sq_id q)"

abbreviation descending :: "source_request list \<Rightarrow> bool" where
  "descending \<equiv> sorted_wrt (\<lambda>a b. page_key b < page_key a)"

lemma before_position_key: "before_position (Some (t, i)) q \<longleftrightarrow> page_key q < (t, i)"
  by (auto simp: before_position_def less_prod_def)

lemma newest_first_filter: "requests_newest_first (filter p qs) = filter p (requests_newest_first qs)"
  by (simp add: requests_newest_first_def order_by_def filter_sort flip: rev_filter)

lemma newest_first_descending:
  assumes "distinct (map sq_id qs)" shows "descending (requests_newest_first qs)"
proof -
  let ?ks = "map page_key (sort_key page_key qs)"
  have "distinct (map page_key qs)" using assms by (auto simp: distinct_map inj_on_def)
  then have "distinct ?ks" by (simp add: distinct_map)
  then have "sorted_wrt (<) ?ks" using strict_sorted_iff by fastforce
  then show ?thesis
    by (simp add: requests_newest_first_def order_by_def sorted_wrt_rev sorted_wrt_map)
qed

lemma filter_after:
  assumes "descending qs" "k < length qs"
  shows "filter (before_position (Some (page_key (qs ! k)))) qs = drop (Suc k) qs"
proof -
  have e: "qs = take k qs @ qs ! k # drop (Suc k) qs" by (rule id_take_nth_drop [OF assms(2)])
  have s: "descending (take k qs @ qs ! k # drop (Suc k) qs)" using e assms(1) by argo
  have "filter (before_position (Some (page_key (qs ! k)))) (take k qs) = []"
    using s by (auto simp: filter_empty_conv sorted_wrt_append before_position_key)
  moreover have "filter (before_position (Some (page_key (qs ! k)))) (drop (Suc k) qs) = drop (Suc k) qs"
    using s by (auto simp: filter_id_conv sorted_wrt_append before_position_key)
  ultimately have "filter (before_position (Some (page_key (qs ! k)))) (take k qs @ qs ! k # drop (Suc k) qs) = drop (Suc k) qs"
    by (simp add: before_position_key)
  then show ?thesis using e by argo
qed

text \<open>Following \<open>nextCursor\<close> for up to \<open>n\<close> pages; page \<open>k\<close> is read from database \<open>dbs k\<close>.\<close>

fun read_pages :: "nat \<Rightarrow> (nat \<Rightarrow> control_db) \<Rightarrow> string \<Rightarrow> history_query \<Rightarrow> source_request list" where
  "read_pages 0 dbs a opts = []"
| "read_pages (Suc n) dbs a opts =
     (let p = requestHistory a opts (dbs 0)
      in hp_requests p @ (case next_cursor p of
           None \<Rightarrow> []
         | Some c \<Rightarrow> read_pages n (\<lambda>k. dbs (Suc k)) a (opts\<lparr>hq_cursor := Some c\<rparr>)))"

lemma page_contents:
  assumes "hq_cursor opts = Some \<lparr>hc_ceiling = roof, hc_before = b\<rparr>"
    "requests_newest_first (history_scope a roof opts db) = qs" "filter (before_position b) qs = drop m qs"
  shows "requestHistory a opts db =
     \<lparr>hp_requests = take (hq_limit opts) (drop m qs), hp_hasMore = hq_limit opts < length (drop m qs),
      hp_total = length (history_scope a roof opts db), hp_ceiling = roof\<rparr>"
  using assms by (auto simp: requestHistory_def Let_def newest_first_filter min_def)

lemma history_scope_cursor [simp]: "history_scope a roof (opts\<lparr>hq_cursor := c\<rparr>) db = history_scope a roof opts db"
  by (simp add: history_scope_def)

lemma read_pages_rest:
  assumes "1 \<le> hq_limit opts" "hq_cursor opts = Some \<lparr>hc_ceiling = roof, hc_before = b\<rparr>" "descending qs"
    "\<And>k. requests_newest_first (history_scope a roof opts (dbs k)) = qs"
    "filter (before_position b) qs = drop m qs" "length qs < n + m"
  shows "read_pages n dbs a opts = drop m qs"
  using assms
proof (induction n arbitrary: dbs opts b m)
  case 0
  then show ?case by simp
next
  case (Suc n)
  let ?l = "hq_limit opts" and ?p = "requestHistory a opts (dbs 0)"
  have p: "?p = \<lparr>hp_requests = take ?l (drop m qs), hp_hasMore = ?l < length (drop m qs),
      hp_total = length (history_scope a roof opts (dbs 0)), hp_ceiling = roof\<rparr>"
    by (rule page_contents [OF Suc.prems(2,4,5)])
  show ?case
  proof (cases "?l < length (drop m qs)")
    case False
    then show ?thesis using p by (simp add: next_cursor_def)
  next
    case True
    let ?k = "m + ?l - 1"
    have k: "?k < length qs" "Suc ?k = m + ?l" using True Suc.prems(1) by auto
    have "last (take ?l (drop m qs)) = qs ! ?k" "take ?l (drop m qs) \<noteq> []"
      using True Suc.prems(1) by (auto simp: last_conv_nth)
    then have c: "next_cursor ?p = Some \<lparr>hc_ceiling = roof, hc_before = Some (page_key (qs ! ?k))\<rparr>"
      using True p by (simp add: next_cursor_def)
    have "read_pages n (\<lambda>k. dbs (Suc k)) a (opts\<lparr>hq_cursor := Some \<lparr>hc_ceiling = roof, hc_before = Some (page_key (qs ! ?k))\<rparr>\<rparr>)
        = drop (m + ?l) qs"
      using Suc.prems(1,3,4,6) filter_after [OF Suc.prems(3) k(1)] k(2)
      by (intro Suc.IH [where b = "Some (page_key (qs ! ?k))"]) simp_all
    then have "read_pages (Suc n) dbs a opts = take ?l (drop m qs) @ drop (m + ?l) qs"
      using c p by simp
    then show ?thesis using append_take_drop_id [of ?l "drop m qs"] by (simp add: add.commute)
  qed
qed

lemma start_fold_max: "(b :: nat) \<le> fold max xs b"
proof (induction xs arbitrary: b)
  case (Cons x xs)
  show ?case using Cons.IH [of "max x b"] by simp
qed simp

lemma mem_fold_max: "x \<in> set xs \<Longrightarrow> (x :: nat) \<le> fold max xs b"
proof (induction xs arbitrary: b)
  case (Cons y xs)
  then show ?case using start_fold_max [of "max y b" xs] by auto
qed simp

lemma max_rowid_covers:
  assumes "q \<in> set (drop (max_rowid a db) (c_sourceRequests db))" shows "sq_agentId q \<noteq> a"
proof
  assume a: "sq_agentId q = a"
  from assms obtain j where j: "j < length (c_sourceRequests db) - max_rowid a db"
      "drop (max_rowid a db) (c_sourceRequests db) ! j = q"
    by (auto simp: in_set_conv_nth)
  define i where "i = max_rowid a db + j"
  have i: "i < length (c_sourceRequests db)" "max_rowid a db \<le> i" "c_sourceRequests db ! i = q"
    using j by (auto simp: i_def)
  have "Suc i \<in> set (map Suc (filter (\<lambda>i. sq_agentId (c_sourceRequests db ! i) = a) [0..<length (c_sourceRequests db)]))"
    using i a by auto
  from mem_fold_max [OF this, of 0] i(2) show False by (simp add: max_rowid_def)
qed

definition history_rows :: "string \<Rightarrow> history_query \<Rightarrow> control_db \<Rightarrow> source_request list" where
  "history_rows a opts db =
     filter (\<lambda>q. sq_agentId q = a \<and> (hq_status opts = None \<or> hq_status opts = Some (sq_status q)) \<and>
                 (hq_kind opts = None \<or> hq_kind opts = Some (sq_kind q))) (c_sourceRequests db)"

lemma filter_take:
  assumes "\<And>x. x \<in> set (drop n xs) \<Longrightarrow> \<not> p x" shows "filter p (take n xs) = filter p xs"
proof -
  have "filter p (drop n xs) = []" using assms by (simp add: filter_empty_conv)
  moreover have "filter p xs = filter p (take n xs) @ filter p (drop n xs)"
    by (simp only: filter_append [symmetric] append_take_drop_id)
  ultimately show ?thesis by simp
qed

lemma scope_is_all: "history_scope a (max_rowid a db) opts db = history_rows a opts db"
  unfolding history_scope_def history_rows_def
  by (rule filter_take) (use max_rowid_covers [of _ a db] in blast)

text \<open>
  The audit pages are complete.  Reading a history without a cursor and then following the next
  cursor, while new requests may be stored between the pages, lists every request that was stored for
  the agent before the first page and passes the filter, newest first and exactly once, and nothing
  else; it ends after at most as many pages as there are requests.
\<close>

theorem history_pages_complete:
  assumes "reachable control_init control_step (dbs 0)" "1 \<le> hq_limit opts" "hq_cursor opts = None"
    "\<forall>k. take (length (c_sourceRequests (dbs 0))) (c_sourceRequests (dbs k)) = c_sourceRequests (dbs 0)"
    "length (c_sourceRequests (dbs 0)) < n"
  shows "read_pages n dbs a opts = requests_newest_first (history_rows a opts (dbs 0)) \<and>
         set (read_pages n dbs a opts) = set (history_rows a opts (dbs 0)) \<and> distinct (map sq_id (read_pages n dbs a opts))"
proof -
  let ?roof = "max_rowid a (dbs 0)" and ?qs = "requests_newest_first (history_rows a opts (dbs 0))"
  let ?opts = "opts\<lparr>hq_cursor := Some \<lparr>hc_ceiling = ?roof, hc_before = None\<rparr>\<rparr>"
  have d: "distinct (map sq_id (history_rows a opts (dbs 0)))"
    using control_requests_ok [OF assms(1)] by (simp add: requests_ok_def history_rows_def distinct_map_filter)
  have "fold max xs b \<le> m" if "\<forall>x \<in> set xs. x \<le> m" "b \<le> m" for xs and b m :: nat
    using that by (induction xs arbitrary: b) auto
  then have roof: "?roof \<le> length (c_sourceRequests (dbs 0))" by (auto simp: max_rowid_def)
  have same: "take ?roof (c_sourceRequests (dbs k)) = take ?roof (c_sourceRequests (dbs 0))" for k
    using arg_cong [OF spec [OF assms(4), of k], of "take ?roof"] roof by (simp add: min_absorb1)
  have scope: "history_scope a ?roof opts (dbs k) = history_rows a opts (dbs 0)" for k
    unfolding scope_is_all [symmetric] history_scope_def same [of k] ..
  have len: "length ?qs \<le> length (c_sourceRequests (dbs 0))"
    by (simp add: requests_newest_first_def order_by_def history_rows_def)
  have "requestHistory a opts (dbs 0) = requestHistory a ?opts (dbs 0)"
    using assms(3) by (simp add: requestHistory_def Let_def)
  then have "read_pages n dbs a opts = read_pages n dbs a ?opts" by (cases n) (simp_all add: Let_def split: option.split)
  also have "\<dots> = drop 0 ?qs"
    using assms(2,5) newest_first_descending [OF d] scope len
    by (intro read_pages_rest [where roof = ?roof and b = None]) (simp_all add: before_position_def)
  finally have r: "read_pages n dbs a opts = ?qs" by simp
  have "distinct (map sq_id ?qs)"
    using d by (simp add: requests_newest_first_def order_by_def distinct_map rev_map)
  then show ?thesis using r by (simp add: requests_newest_first_def)
qed

theorem history_pages_complete_witness:
  "read_pages 2 (\<lambda>_. sample_requested) ''a1'' \<lparr>hq_limit = 1, hq_status = None, hq_kind = None, hq_cursor = None\<rparr> =
     [request_row sample_input]"
proof -
  let ?o = "\<lparr>hq_limit = 1, hq_status = None, hq_kind = None, hq_cursor = None\<rparr>"
  have q: "c_sourceRequests sample_requested = [request_row sample_input]" by code_simp
  have "read_pages 2 (\<lambda>_. sample_requested) ''a1'' ?o = requests_newest_first (history_rows ''a1'' ?o sample_requested)"
    using history_pages_complete [of "\<lambda>_. sample_requested" ?o 2 "''a1''"] sample_requested_reachable q by simp
  then show ?thesis
    by (simp add: history_rows_def q requests_newest_first_def order_by_def request_row_def sample_input_def)
qed

text \<open>
  A history cursor survives the trip.  A cursor that the service hands out is read back unchanged
  by the next query, with its ceiling and position, when it is within the limits of the schema and
  the encoding can be decoded.
\<close>

theorem cursor_roundtrip:
  assumes "decode (encode (cursor_json c)) = Some (cursor_json c)" "cursor_text_ok (sourceHistoryCursor encode c)"
    "int (hc_ceiling c) \<le> MAX_SAFE_INTEGER"
    "\<And>t i. hc_before c = Some (t, i) \<Longrightarrow> 0 \<le> t \<and> t \<le> 8640000000000000 \<and> ident_ok 128 i"
  shows "parseSourceHistoryQuery decode (JObj [(''cursor'', JStr (sourceHistoryCursor encode c))]) =
     Ok \<lparr>hq_limit = 10, hq_status = None, hq_kind = None, hq_cursor = Some c\<rparr>"
proof -
  have "Option.bind (decode (sourceHistoryCursor encode c)) cursorSchema = Some c"
  proof (cases "hc_before c")
    case None
    then show ?thesis using assms(1,3)
      by (cases c) (simp add: sourceHistoryCursor_def cursor_json_def strict_keys_def required_field_def optional_field_def
          parse_version_one_def parse_int_in_def)
  next
    case (Some x)
    obtain t i where x: "hc_before c = Some (t, i)" using Some by (cases x) simp
    with assms(1,3) assms(4) [OF x] show ?thesis
      by (cases c) (simp add: sourceHistoryCursor_def cursor_json_def strict_keys_def required_field_def optional_field_def
          parse_version_one_def parse_int_in_def parse_str_if_def)
  qed
  with assms(2) show ?thesis
    by (simp add: strict_keys_def optional_field_def parse_str_if_def)
qed

definition sample_cursor :: history_cursor where
  "sample_cursor = \<lparr>hc_ceiling = 3, hc_before = Some (1001000, ''q1'')\<rparr>"

theorem cursor_roundtrip_witness:
  "parseSourceHistoryQuery (\<lambda>_. Some (cursor_json sample_cursor))
     (JObj [(''cursor'', JStr (sourceHistoryCursor (\<lambda>_. ''abc'') sample_cursor))]) =
   Ok \<lparr>hq_limit = 10, hq_status = None, hq_kind = None, hq_cursor = Some sample_cursor\<rparr>"
proof (rule cursor_roundtrip)
  show "cursor_text_ok (sourceHistoryCursor (\<lambda>_. ''abc'') sample_cursor)" by code_simp
  have "ident_ok 128 ''q1''" by code_simp
  then show "0 \<le> t \<and> t \<le> 8640000000000000 \<and> ident_ok 128 i" if "hc_before sample_cursor = Some (t, i)" for t i
    using that by (auto simp: sample_cursor_def)
qed (simp_all add: sample_cursor_def MAX_SAFE_INTEGER_def)

section \<open>Safe paths\<close>

lemma join_split: "join_path (split_on slash s) = s"
proof (induction s)
  case (Cons c s)
  show ?case
  proof (cases "c = slash")
    case True
    then show ?thesis using Cons by (cases "split_on slash s") auto
  next
    case False
    then show ?thesis using Cons by (cases "split_on slash s"; cases "tl (split_on slash s)") auto
  qed
qed simp

lemma normal_segments_plain:
  "list_all (\<lambda>p. p \<noteq> [] \<and> p \<noteq> ''.'' \<and> p \<noteq> ''..'') ps \<Longrightarrow> normal_segments up acc ps = rev acc @ ps"
  by (induction ps arbitrary: acc) auto

lemma ends_with_slash: "s \<noteq> [] \<Longrightarrow> ends_with ''/'' s \<longleftrightarrow> last s = slash"
  by (cases s rule: rev_cases) (auto simp: ends_with_def starts_with_def)

lemma split_segments:
  assumes "\<not> includes_text ''//'' s" "s \<noteq> []" "last s \<noteq> slash"
  shows "[] \<notin> set (tl (split_on slash s)) \<and> (hd s \<noteq> slash \<longrightarrow> hd (split_on slash s) \<noteq> [])"
  using assms
proof (induction s)
  case (Cons c s)
  show ?case
  proof (cases "s = []")
    case True
    then show ?thesis using Cons.prems(3) by simp
  next
    case False
    with Cons have ih: "[] \<notin> set (tl (split_on slash s)) \<and> (hd s \<noteq> slash \<longrightarrow> hd (split_on slash s) \<noteq> [])" by simp
    show ?thesis
    proof (cases "c = slash")
      case True
      then have "hd s \<noteq> slash" using Cons.prems(1) False by (cases s) (auto simp: starts_with_def)
      with ih have "[] \<notin> set (split_on slash s)" by (cases "split_on slash s") auto
      with True show ?thesis by simp
    next
      case c: False
      then show ?thesis using ih by (simp add: split_on_Cons_other del: split_on.simps)
    qed
  qed
qed simp

text \<open>
  A safe path is canonical.  The path test of the schemas refuses every path that
  \<open>path.posix.normalize\<close> would change, so the two tests the code makes agree.
\<close>

theorem safe_path_canonical: "isCanonicalSourcePath v \<longleftrightarrow> isSafeSourceAccessPath v"
proof
  assume safe: "isSafeSourceAccessPath v"
  then obtain w where v: "v = slash # w" by (cases v) (auto simp: isSafeSourceAccessPath_def starts_with_def)
  have "posix_normalize v = v"
  proof (cases "w = []")
    case True
    then show ?thesis by (simp add: v posix_normalize_def)
  next
    case False
    have nd: "\<not> includes_text ''//'' v" and "\<not> ends_with ''/'' v" and
      dots: "\<not> list_ex (\<lambda>part. part = ''..'' \<or> part = ''.'') (split_on slash v)"
      using safe False by (auto simp: isSafeSourceAccessPath_def v)
    then have l: "last v \<noteq> slash" "last w \<noteq> slash"
      using ends_with_slash [of v] False by (simp_all add: v)
    have "[] \<notin> set (split_on slash w)"
      using split_segments [OF nd _ l(1)] by (simp add: v)
    moreover have "\<not> list_ex (\<lambda>part. part = ''..'' \<or> part = ''.'') (split_on slash w)" using dots by (simp add: v)
    ultimately have "list_all (\<lambda>p. p \<noteq> [] \<and> p \<noteq> ''.'' \<and> p \<noteq> ''..'') (split_on slash w)"
      by (auto simp: list_all_iff list_ex_iff)
    then have "normal_segments False [] (split_on slash v) = split_on slash w"
      using normal_segments_plain [of "split_on slash w" False "[]"] by (simp add: v)
    then show ?thesis using False l(2) by (simp add: posix_normalize_def v join_split)
  qed
  with safe show "isCanonicalSourcePath v" by (simp add: isCanonicalSourcePath_def)
qed (simp add: isCanonicalSourcePath_def)

end
