(* ===== verification/Exclusion_Guarantees.thy ===== *)
theory Exclusion_Guarantees
  imports Backup_Exclusions
begin

text \<open>
  What the exclusion matchers decide.  \<open>glob\<close> and \<open>path_glob\<close> say what a pattern means; the loops of
  \<open>segmentMatches\<close> and \<open>pathMatches\<close> decide it, the first one on names without a star.
\<close>

section \<open>Segments\<close>

text \<open>A star stands for any text, a question mark for one character.\<close>

fun glob :: "string \<Rightarrow> string \<Rightarrow> bool" where
  "glob [] v \<longleftrightarrow> v = []"
| "glob (t # ts) v \<longleftrightarrow>
     (if t = CHR ''*'' then list_ex (glob ts) (suffixes v)
      else case v of [] \<Rightarrow> False | c # cs \<Rightarrow> (t = CHR ''?'' \<or> t = c) \<and> glob ts cs)"

lemma glob_star: "glob (CHR ''*'' # ts) v \<longleftrightarrow> (\<exists>u. suffix u v \<and> glob ts u)"
  by (auto simp: list_ex_iff)

lemma glob_star_suffix:
  assumes "suffix u v" "glob (CHR ''*'' # ts) u"
  shows "glob (CHR ''*'' # ts) v"
  using assms unfolding glob_star by (meson suffix_order.trans)

lemma glob_Nil: "glob ts [] \<longleftrightarrow> list_all (\<lambda>t. t = CHR ''*'') ts"
  by (induction ts) auto

text \<open>A part of the pattern without stars consumes as many characters.\<close>

lemma glob_fixed_part:
  assumes "CHR ''*'' \<notin> set m" "glob (m @ ts) v"
  shows "length m \<le> length v \<and> glob ts (drop (length m) v)"
  using assms by (induction m arbitrary: v) (auto split: list.splits)

text \<open>What a retry can still find.\<close>

definition retry_finds :: "(string \<times> string) option \<Rightarrow> bool" where
  "retry_finds star \<longleftrightarrow>
     (case star of None \<Rightarrow> False | Some (ts, r) \<Rightarrow> \<exists>u. strict_suffix u r \<and> glob ts u)"

text \<open>Since the last star, the loop has consumed pattern and value in step.\<close>

definition in_step :: "string \<Rightarrow> string \<Rightarrow> (string \<times> string) option \<Rightarrow> bool" where
  "in_step ts cs star \<longleftrightarrow>
     (case star of
        None \<Rightarrow> True
      | Some (ts', r) \<Rightarrow>
          \<exists>m w. ts' = m @ ts \<and> r = w @ cs \<and> length m = length w \<and> CHR ''*'' \<notin> set m \<and> CHR ''*'' \<notin> set r)"

lemma suffix_drop_front:
  assumes "suffix u (w @ cs)"
  shows "suffix (drop (length w) u) cs"
proof -
  from assms obtain x where "w @ cs = x @ u" by (auto simp: suffix_def)
  then have "drop (length w) u = drop (length w) (drop (length x) (w @ cs))" by simp
  also have "\<dots> = drop (length x) (drop (length w) (w @ cs))" by (simp only: drop_drop add.commute)
  finally show ?thesis by (simp add: suffix_drop)
qed

lemma in_step_SomeE:
  assumes "in_step ts cs (Some (ts', r))"
  obtains m w where "ts' = m @ ts" "r = w @ cs" "length m = length w" "CHR ''*'' \<notin> set m" "CHR ''*'' \<notin> set r"
  using assms by (auto simp: in_step_def)

lemma in_step_advance:
  assumes "in_step (t # ts) (c # cs) star" "t \<noteq> CHR ''*''"
  shows "in_step ts cs star"
proof (cases star)
  case (Some p)
  obtain ts' r where p: "p = (ts', r)" by (cases p)
  with assms(1) Some obtain m w where "ts' = m @ t # ts" "r = w @ c # cs" "length m = length w"
    "CHR ''*'' \<notin> set m" "CHR ''*'' \<notin> set r" by (auto elim: in_step_SomeE)
  then have "ts' = (m @ [t]) @ ts \<and> r = (w @ [c]) @ cs \<and> length (m @ [t]) = length (w @ [c]) \<and>
      CHR ''*'' \<notin> set (m @ [t]) \<and> CHR ''*'' \<notin> set r" using assms(2) by simp
  then show ?thesis unfolding Some p in_step_def by (simp del: append_assoc length_append set_append) blast
qed (simp add: in_step_def)

lemma retry_finds_Some: "retry_finds (Some (ts, r)) \<longleftrightarrow> (\<exists>u. strict_suffix u r \<and> glob ts u)"
  by (simp add: retry_finds_def)

text \<open>At a further star the earlier one is no longer needed: what it could find, the new one finds.\<close>

lemma later_star_finds:
  assumes "in_step (CHR ''*'' # ts) cs star" "retry_finds star"
  shows "glob (CHR ''*'' # ts) cs"
proof -
  from assms(2) obtain ts' r u where r: "star = Some (ts', r)" "strict_suffix u r" "glob ts' u"
    by (auto simp: retry_finds_def split: option.splits)
  with assms(1) obtain m w where m: "ts' = m @ CHR ''*'' # ts" "r = w @ cs" "length m = length w" "CHR ''*'' \<notin> set m"
    by (auto elim: in_step_SomeE)
  have "glob (CHR ''*'' # ts) (drop (length w) u)" using glob_fixed_part [of m "CHR ''*'' # ts" u] m r(3) by auto
  moreover have "suffix (drop (length w) u) cs" using r(2) m(2) by (auto intro: suffix_drop_front)
  ultimately show ?thesis by (rule glob_star_suffix [rotated])
qed

lemma glob_star_here: "glob (CHR ''*'' # ts) v \<longleftrightarrow> glob ts v \<or> retry_finds (Some (ts, v))"
  unfolding glob_star retry_finds_Some suffix_order.le_less by blast

lemma strict_suffix_Cons: "strict_suffix u (c # r) \<longleftrightarrow> suffix u r"
  by (auto simp: strict_suffix_def suffix_Cons dest: suffix_length_le)

lemma retry_next: "retry_finds (Some (ts, c # r)) \<longleftrightarrow> glob ts r \<or> retry_finds (Some (ts, r))"
  unfolding retry_finds_Some strict_suffix_Cons suffix_order.le_less by blast

lemma segment_loop_glob:
  assumes "in_step ts cs star" "CHR ''*'' \<notin> set cs"
  shows "segment_loop ts cs star \<longleftrightarrow> glob ts cs \<or> retry_finds star"
  using assms
proof (induction ts cs star rule: segment_loop.induct)
  case (1 ts star)
  have "\<not> retry_finds star"
  proof
    assume "retry_finds star"
    then obtain ts' r u where r: "star = Some (ts', r)" "strict_suffix u r" "glob ts' u"
      by (auto simp: retry_finds_def split: option.splits)
    with 1(1) obtain m where m: "ts' = m @ ts" "length m = length r" "CHR ''*'' \<notin> set m"
      by (auto simp: in_step_def)
    then show False using glob_fixed_part [of m ts u] r(2,3) suffix_length_less [of u r] by auto
  qed
  then show ?case by (simp add: glob_Nil)
next
  case (2 ts c cs star)
  consider (same) t ts1 where "ts = t # ts1" "t = CHR ''?'' \<or> t = c"
    | (star) ts1 where "ts = CHR ''*'' # ts1" "c \<noteq> CHR ''*''"
    | (fail) "ts = [] \<or> hd ts \<noteq> CHR ''*'' \<and> hd ts \<noteq> CHR ''?'' \<and> hd ts \<noteq> c"
    using 2(5) by (cases ts) auto
  then show ?case
  proof cases
    case same
    then have "t \<noteq> CHR ''*''" using 2(5) by auto
    then show ?thesis using 2(1) 2(4,5) same in_step_advance by auto
  next
    case star
    have "in_step ts1 (c # cs) (Some (ts1, c # cs))" using 2(5) by (auto simp: in_step_def)
    then have "segment_loop ts1 (c # cs) (Some (ts1, c # cs)) \<longleftrightarrow> glob ts (c # cs)"
      using 2(2) 2(5) star by (simp add: glob_star_here del: glob.simps)
    then show ?thesis using star later_star_finds 2(4) by (auto simp del: glob.simps)
  next
    case fail
    then have no: "\<not> glob ts (c # cs)" by (cases ts) auto
    have stuck: "\<not> (ts \<noteq> [] \<and> (hd ts = CHR ''?'' \<or> hd ts = c))" "\<not> (ts \<noteq> [] \<and> hd ts = CHR ''*'')"
      using fail by auto
    have again: "segment_loop ts (c # cs) star =
        (case star of Some (ts', _ # r) \<Rightarrow> segment_loop ts' r (Some (ts', r)) | _ \<Rightarrow> False)"
      by (subst segment_loop.simps) (simp only: stuck if_False)
    show ?thesis
    proof (cases star)
      case None
      then show ?thesis using no again by (simp only: retry_finds_def) simp
    next
      case (Some p)
      obtain ts' r where p: "p = (ts', r)" by (cases p)
      with Some 2(4) obtain m w where mw: "r = w @ c # cs" "CHR ''*'' \<notin> set r" by (auto elim: in_step_SomeE)
      then have "r \<noteq> []" by simp
      then obtain x r1 where r: "r = x # r1" by (auto simp: neq_Nil_conv)
      have "in_step ts' r1 (Some (ts', r1))" using mw(2) unfolding r by (simp add: in_step_def)
      moreover have "CHR ''*'' \<notin> set r1" using mw(2) unfolding r by simp
      ultimately have "segment_loop ts' r1 (Some (ts', r1)) \<longleftrightarrow> retry_finds star"
        using 2(3) [OF stuck Some p [symmetric] r] unfolding Some p r retry_next by blast
      then show ?thesis using no again unfolding Some p r by (simp del: segment_loop.simps)
    qed
  qed
qed

section \<open>Paths\<close>

text \<open>Two stars stand for any number of segments, another part of the pattern for one.\<close>

fun path_glob :: "(string \<Rightarrow> string \<Rightarrow> bool) \<Rightarrow> string list \<Rightarrow> string list \<Rightarrow> bool" where
  "path_glob m [] ps \<longleftrightarrow> ps = []"
| "path_glob m (t # ts) ps \<longleftrightarrow>
     (if t = ''**'' then list_ex (path_glob m ts) (suffixes ps)
      else case ps of [] \<Rightarrow> False | p # ps' \<Rightarrow> t \<noteq> [] \<and> m t p \<and> path_glob m ts ps')"

lemma path_glob_stars: "path_glob m (''**'' # ts) ps \<longleftrightarrow> (\<exists>u. suffix u ps \<and> path_glob m ts u)"
  by (auto simp: list_ex_iff)

lemma path_glob_Nil: "path_glob m ts [] \<longleftrightarrow> list_all (\<lambda>t. t = ''**'') ts"
  by (induction ts) auto

lemma suffix_snoc_cases: "suffix u (ps @ [p]) \<longleftrightarrow> u = [] \<or> (\<exists>u'. u = u' @ [p] \<and> suffix u' ps)"
  by (cases u rule: rev_cases) auto

lemma path_glob_one: "t \<noteq> ''**'' \<Longrightarrow> path_glob m (t # ts) ps \<longleftrightarrow> (\<exists>p ps'. ps = p # ps' \<and> t \<noteq> [] \<and> m t p \<and> path_glob m ts ps')"
  by (auto split: list.splits)

text \<open>The last part of the pattern against the last segment.\<close>

lemma path_glob_snoc:
  "path_glob m (ts @ [t]) (ps @ [p]) \<longleftrightarrow>
     (if t = ''**'' then path_glob m (ts @ [t]) ps \<or> path_glob m ts (ps @ [p])
      else t \<noteq> [] \<and> m t p \<and> path_glob m ts ps)"
proof (induction ts arbitrary: ps)
  case Nil
  then show ?case by (auto simp: list_ex_iff Cons_eq_append_conv split: list.splits)
next
  case (Cons s ts)
  show ?case
  proof (cases "s = ''**''")
    case True
    let ?last = "\<lambda>u. path_glob m (ts @ [t]) u" and ?init = "\<lambda>u. path_glob m ts u"
    have *: "path_glob m (s # ts @ [t]) (ps @ [p]) \<longleftrightarrow> ?last [] \<or> (\<exists>u. suffix u ps \<and> ?last (u @ [p]))"
      "path_glob m (s # ts @ [t]) ps \<longleftrightarrow> (\<exists>u. suffix u ps \<and> ?last u)"
      "path_glob m (s # ts) ps \<longleftrightarrow> (\<exists>u. suffix u ps \<and> ?init u)"
      "path_glob m (s # ts) (ps @ [p]) \<longleftrightarrow> ?init [] \<or> (\<exists>u. suffix u ps \<and> ?init (u @ [p]))"
      unfolding True path_glob_stars suffix_snoc_cases by blast+
    show ?thesis
    proof (cases "t = ''**''")
      case stars: True
      then have IH: "?last (u @ [p]) \<longleftrightarrow> ?last u \<or> ?init (u @ [p])" for u using Cons.IH by simp
      have "?last [] = ?init []" "suffix [] ps" using stars by (auto simp: path_glob_Nil)
      then show ?thesis unfolding append_Cons * IH if_P [OF stars] by blast
    next
      case one: False
      then have IH: "?last (u @ [p]) \<longleftrightarrow> t \<noteq> [] \<and> m t p \<and> ?init u" for u using Cons.IH by simp
      have "\<not> ?last []" using one by (auto simp: path_glob_Nil)
      then show ?thesis unfolding append_Cons * IH if_not_P [OF one] by blast
    qed
  next
    case False
    then show ?thesis using Cons.IH by (cases ps) (auto simp: path_glob_Nil)
  qed
qed

text \<open>
  \<open>expand\<close> computes the least set with the given positions that has the successor of every position
  of two stars.
\<close>

definition stars_at :: "string list \<Rightarrow> nat \<Rightarrow> bool" where
  "stars_at tokens i \<longleftrightarrow> i < length tokens \<and> tokens ! i = ''**''"

lemma expand_keeps: "set seen \<union> set todo \<subseteq> set (expand tokens seen todo)"
  by (induction tokens seen todo rule: expand.induct) auto

lemma expand_from:
  assumes "j \<in> set (expand tokens seen todo)"
  shows "j \<in> set seen \<union> set todo \<or> (\<exists>i. j = Suc i \<and> stars_at tokens i \<and> i \<in> set (expand tokens seen todo))"
  using assms
proof (induction tokens seen todo rule: expand.induct)
  case (2 tokens seen i rest)
  show ?case
  proof (cases "i < length tokens \<and> tokens ! i = ''**'' \<and> Suc i \<notin> set (seen @ i # rest)")
    case True
    moreover have "i \<in> set (expand tokens (seen @ [i]) (rest @ [Suc i]))"
      using expand_keeps [of "seen @ [i]" "rest @ [Suc i]" tokens] by auto
    ultimately show ?thesis using 2(1) 2(3) by (auto simp: stars_at_def)
  next
    case False
    then show ?thesis using 2(2) 2(3) by (simp only: expand.simps if_not_P [OF False]) auto
  qed
qed auto

lemma expand_closed:
  assumes "\<And>i. i \<in> set seen \<Longrightarrow> stars_at tokens i \<Longrightarrow> Suc i \<in> set seen \<union> set todo"
    "i \<in> set (expand tokens seen todo)" "stars_at tokens i"
  shows "Suc i \<in> set (expand tokens seen todo)"
  using assms
proof (induction tokens seen todo rule: expand.induct)
  case (2 tokens seen j rest)
  show ?case
  proof (cases "j < length tokens \<and> tokens ! j = ''**'' \<and> Suc j \<notin> set (seen @ j # rest)")
    case True
    have "Suc i \<in> set (expand tokens (seen @ [j]) (rest @ [Suc j]))"
      using 2(4,5) by (intro 2(1) [OF True]) (use 2(3) True in \<open>auto split: if_splits\<close>)
    then show ?thesis using True by simp
  next
    case False
    have "Suc i \<in> set (expand tokens (seen @ [j]) rest)"
      using 2(4,5) False
      by (intro 2(2) [OF False]) (use 2(3) False in \<open>auto simp: stars_at_def split: if_splits\<close>)
    then show ?thesis by (simp only: expand.simps if_not_P [OF False])
  qed
qed auto

lemma expand_step:
  "j \<in> set (expand tokens [] todo) \<longleftrightarrow>
     j \<in> set todo \<or> (\<exists>i. j = Suc i \<and> stars_at tokens i \<and> i \<in> set (expand tokens [] todo))"
  using expand_keeps [of "[]" todo tokens] expand_from [of j tokens "[]" todo]
    expand_closed [of "[]" tokens todo] by auto

lemma next_positions_set:
  "j \<in> set (next_positions tokens part states added) \<longleftrightarrow>
     j \<in> set added \<or> (stars_at tokens j \<and> j \<in> set states) \<or>
     (\<exists>i. j = Suc i \<and> i \<in> set states \<and> i < length tokens \<and> \<not> stars_at tokens i \<and> tokens ! i \<noteq> [] \<and>
          segmentMatches (tokens ! i) part)"
  by (induction states arbitrary: added) (auto simp: stars_at_def)

text \<open>
  The positions after the segments \<open>ps\<close>: the pattern up to the position describes them; at a position
  of two stars, these may have consumed segments already.
\<close>

definition at_position :: "string list \<Rightarrow> string list \<Rightarrow> nat \<Rightarrow> bool" where
  "at_position tokens ps i \<longleftrightarrow>
     i \<le> length tokens \<and> path_glob segmentMatches (take (if stars_at tokens i then Suc i else i) tokens) ps"

definition matched_to :: "string list \<Rightarrow> string list \<Rightarrow> nat \<Rightarrow> bool" where
  "matched_to tokens ps i \<longleftrightarrow> path_glob segmentMatches (take i tokens) ps"

lemma matched_to_0 [simp]: "matched_to tokens ps 0 \<longleftrightarrow> ps = []"
  by (simp add: matched_to_def)

lemma at_position_matched:
  "at_position tokens ps i \<longleftrightarrow> i \<le> length tokens \<and> matched_to tokens ps (if stars_at tokens i then Suc i else i)"
  by (simp add: at_position_def matched_to_def)

lemma matched_to_Suc:
  assumes "i < length tokens"
  shows "matched_to tokens (ps @ [p]) (Suc i) \<longleftrightarrow>
     (if stars_at tokens i then matched_to tokens ps (Suc i) \<or> matched_to tokens (ps @ [p]) i
      else tokens ! i \<noteq> [] \<and> segmentMatches (tokens ! i) p \<and> matched_to tokens ps i)"
  using assms unfolding matched_to_def stars_at_def take_Suc_conv_app_nth [OF assms] path_glob_snoc by simp

lemma at_position_snoc:
  "at_position tokens (ps @ [p]) i \<longleftrightarrow>
     (stars_at tokens i \<and> at_position tokens ps i) \<or> (i \<le> length tokens \<and> matched_to tokens (ps @ [p]) i)"
  by (auto simp: at_position_matched matched_to_Suc stars_at_def)

lemma matched_to_position:
  assumes "i < length tokens"
  shows "matched_to tokens (ps @ [p]) (Suc i) \<longleftrightarrow>
     (if stars_at tokens i then at_position tokens (ps @ [p]) i
      else tokens ! i \<noteq> [] \<and> segmentMatches (tokens ! i) p \<and> at_position tokens ps i)"
  using assms by (simp add: at_position_matched matched_to_Suc)

lemma at_start:
  "at_position tokens [] i \<longleftrightarrow> i \<le> length tokens \<and> (\<forall>j < i. stars_at tokens j)"
  by (auto simp: at_position_def path_glob_Nil list_all_length stars_at_def less_Suc_eq)

lemma start_positions: "set (expand tokens [] [0]) = {i. at_position tokens [] i}"
proof -
  have "j \<in> set (expand tokens [] [0]) \<longleftrightarrow> at_position tokens [] j" for j
  proof (induction j)
    case 0
    then show ?case by (subst expand_step) (simp add: at_start)
  next
    case (Suc j)
    then have "Suc j \<in> set (expand tokens [] [0]) \<longleftrightarrow> stars_at tokens j \<and> at_position tokens [] j"
      by (subst expand_step) auto
    also have "\<dots> \<longleftrightarrow> at_position tokens [] (Suc j)"
      unfolding at_start less_Suc_eq Suc_le_eq using stars_at_def by auto
    finally show ?case .
  qed
  then show ?thesis by blast
qed

lemma next_states:
  assumes "set states = {i. at_position tokens ps i}"
  shows "set (expand tokens [] (next_positions tokens p states [])) = {i. at_position tokens (ps @ [p]) i}"
proof -
  let ?next = "next_positions tokens p states []"
  have "j \<in> set (expand tokens [] ?next) \<longleftrightarrow> at_position tokens (ps @ [p]) j" for j
  proof (induction j)
    case 0
    show ?case using assms by (subst expand_step) (simp add: next_positions_set at_position_snoc)
  next
    case (Suc j)
    have "Suc j \<in> set (expand tokens [] ?next) \<longleftrightarrow>
        (stars_at tokens (Suc j) \<and> at_position tokens ps (Suc j)) \<or>
        (j < length tokens \<and> \<not> stars_at tokens j \<and> tokens ! j \<noteq> [] \<and> segmentMatches (tokens ! j) p \<and>
         at_position tokens ps j) \<or>
        (stars_at tokens j \<and> at_position tokens (ps @ [p]) j)"
      using assms Suc by (subst expand_step) (auto simp: next_positions_set)
    also have "\<dots> \<longleftrightarrow> at_position tokens (ps @ [p]) (Suc j)"
      unfolding at_position_snoc [of tokens ps p "Suc j"] Suc_le_eq
      using matched_to_position [of j tokens ps p] stars_at_def [of tokens j] by auto
    finally show ?case .
  qed
  then show ?thesis by auto
qed

lemma path_loop_none: "\<not> path_loop tokens [] parts"
  by (induction parts) (auto simp: Let_def)

lemma path_loop_spec:
  assumes "set states = {i. at_position tokens ps i}"
  shows "path_loop tokens states parts \<longleftrightarrow>
    (\<exists>n. 1 \<le> n \<and> n \<le> length parts \<and> path_glob segmentMatches tokens (ps @ take n parts))"
  using assms
proof (induction parts arbitrary: states ps)
  case Nil
  then show ?case by simp
next
  case (Cons p parts)
  let ?states = "expand tokens [] (next_positions tokens p states [])"
  have sts: "set ?states = {i. at_position tokens (ps @ [p]) i}" by (rule next_states [OF Cons.prems])
  have here: "length tokens \<in> set ?states \<longleftrightarrow> path_glob segmentMatches tokens (ps @ [p])"
    by (simp add: sts at_position_def stars_at_def)
  have "path_loop tokens states (p # parts) \<longleftrightarrow>
      path_glob segmentMatches tokens (ps @ [p]) \<or> path_loop tokens ?states parts"
    using path_loop_none by (simp add: Let_def here)
  also have "\<dots> \<longleftrightarrow> (\<exists>n. 1 \<le> n \<and> n \<le> length (p # parts) \<and> path_glob segmentMatches tokens (ps @ take n (p # parts)))"
  proof -
    have "(\<exists>n. 1 \<le> n \<and> n \<le> length (p # parts) \<and> path_glob segmentMatches tokens (ps @ take n (p # parts))) \<longleftrightarrow>
        (\<exists>n. n \<le> length parts \<and> path_glob segmentMatches tokens (ps @ take (Suc n) (p # parts)))"
      by (metis Suc_le_mono One_nat_def Suc_le_D length_Cons le_add1 plus_1_eq_Suc)
    also have "\<dots> \<longleftrightarrow> (\<exists>n. n \<le> length parts \<and> path_glob segmentMatches tokens ((ps @ [p]) @ take n parts))"
      by simp
    also have "\<dots> \<longleftrightarrow> path_glob segmentMatches tokens (ps @ [p]) \<or>
        (\<exists>n. 1 \<le> n \<and> n \<le> length parts \<and> path_glob segmentMatches tokens ((ps @ [p]) @ take n parts))"
      by (metis One_nat_def Suc_leI append_Nil2 gr0I le0 take0)
    finally show ?thesis using Cons.IH [OF sts] by simp
  qed
  finally show ?case .
qed

lemma pathMatches_prefix:
  "pathMatches pattern relative \<longleftrightarrow>
     (\<exists>n. 1 \<le> n \<and> n \<le> length (split_on slash relative) \<and>
          path_glob segmentMatches (split_on slash pattern) (take n (split_on slash relative)))"
  unfolding pathMatches_def Let_def path_loop_spec [OF start_positions] append_Nil ..

lemma segmentMatches_glob: "CHR ''*'' \<notin> set v \<Longrightarrow> segmentMatches pattern v \<longleftrightarrow> glob pattern v"
  unfolding segmentMatches_def by (subst segment_loop_glob) (auto simp: in_step_def retry_finds_def)

lemma path_glob_cong:
  assumes "\<And>t p. p \<in> set ps \<Longrightarrow> m t p = m' t p"
  shows "path_glob m ts ps \<longleftrightarrow> path_glob m' ts ps"
  using assms
proof (induction ts arbitrary: ps)
  case (Cons t ts)
  have "path_glob m ts u \<longleftrightarrow> path_glob m' ts u" if "suffix u ps" for u
    using Cons.IH [of u] Cons.prems that set_mono_suffix by blast
  then show ?case using Cons by (auto simp: list_ex_iff split: list.splits)
qed simp

lemma split_on_chars: "p \<in> set (split_on sep s) \<Longrightarrow> set p \<subseteq> set s"
proof (induction s arbitrary: p)
  case (Cons c s)
  then show ?case by (cases "split_on sep s") (fastforce split: if_splits)+
qed simp

section \<open>What a pattern excludes\<close>

text \<open>
  C13: The matcher decides what a pattern means.  For a path whose names contain no star, the backtracking
  loop over each name and the set of positions over the path accept exactly when the pattern describes
  the path or a directory on the way to it: a star in a name stands for any text, a question mark for one
  character, two stars for any number of names.
\<close>

theorem exclusion_matcher_correct:
  assumes "CHR ''*'' \<notin> set relative"
  shows "pathMatches pattern relative \<longleftrightarrow>
     (\<exists>n. 1 \<le> n \<and> n \<le> length (split_on slash relative) \<and>
          path_glob glob (split_on slash pattern) (take n (split_on slash relative)))"
proof -
  have "path_glob segmentMatches ts (take n (split_on slash relative)) \<longleftrightarrow>
      path_glob glob ts (take n (split_on slash relative))" for ts n
  proof (rule path_glob_cong, rule segmentMatches_glob)
    fix p assume "p \<in> set (take n (split_on slash relative))"
    then have "set p \<subseteq> set relative" by (meson in_set_takeD split_on_chars)
    then show "CHR ''*'' \<notin> set p" using assms by blast
  qed
  then show ?thesis unfolding pathMatches_prefix by blast
qed

theorem exclusion_matcher_correct_witness:
  "pathMatches ''src/**/*.log'' ''src/a/b/x.log/old'' \<longleftrightarrow>
     (\<exists>n. 1 \<le> n \<and> n \<le> length (split_on slash ''src/a/b/x.log/old'') \<and>
          path_glob glob (split_on slash ''src/**/*.log'') (take n (split_on slash ''src/a/b/x.log/old'')))"
  by (rule exclusion_matcher_correct) simp

text \<open>
  A name that contains a star is not always matched.  The loop compares the characters before it looks
  for a star of the pattern, so a star of the name uses up the star of the pattern: \<open>*.log\<close> does not
  exclude the file \<open>*a.log\<close>, although the pattern describes it.
\<close>

theorem star_name_not_excluded:
  "backupExclusionMatches [''*.log''] ''*a.log'' = Ok False \<and> glob ''*.log'' ''*a.log'' \<and>
   backupExclusionMatches [''*.log''] ''b*a.log'' = Ok True"
  by code_simp

section \<open>Parsed patterns\<close>

text \<open>What the parser tests of one pattern.\<close>

definition pattern_ok :: "string \<Rightarrow> bool" where
  "pattern_ok p \<longleftrightarrow> p \<noteq> [] \<and> length p \<le> 512 \<and>
     length (filter (\<lambda>part. part = ''**'') (pop_stars (split_on slash p))) \<le> 1 \<and>
     \<not> list_ex exclusion_part_bad (split_on slash p)"

lemma exclusion_bad_iff: "\<not> exclusion_bad p units \<longleftrightarrow> pattern_ok p \<and> units \<le> 16384"
  by (auto simp: exclusion_bad_def pattern_ok_def Let_def)

definition total_length :: "string list \<Rightarrow> nat" where
  "total_length ps = sum_list (map length ps)"

lemma exclusion_items_Ok:
  "exclusion_items index units items = Ok ps \<longleftrightarrow>
     (\<exists>ss. items = map JStr ss \<and> ps = map exclusion_pattern ss \<and>
       (\<forall>s \<in> set ss. \<not> unsafeControls s \<and> pattern_ok (exclusion_pattern s)) \<and>
       (ss \<noteq> [] \<longrightarrow> units + total_length ps \<le> 16384))"
proof (induction items arbitrary: index units ps)
  case Nil
  then show ?case by auto
next
  case (Cons item items)
  show ?case
  proof (cases item)
    case (JStr s)
    let ?p = "exclusion_pattern s" and ?ok = "\<lambda>s. \<not> unsafeControls s \<and> pattern_ok (exclusion_pattern s)"
    let ?rest = "exclusion_items (Suc index) (units + length ?p) items"
    have "exclusion_items index units (item # items) = Ok ps \<longleftrightarrow>
        ?ok s \<and> units + length ?p \<le> 16384 \<and> (\<exists>qs. ?rest = Ok qs \<and> ps = ?p # qs)"
      unfolding JStr by (auto simp: Let_def bind_result_Inr_iff exclusion_bad_iff split: if_splits)
        (metis exclusion_bad_iff)+
    also have "\<dots> \<longleftrightarrow> (\<exists>ss. items = map JStr ss \<and> ps = map exclusion_pattern (s # ss) \<and>
        (\<forall>s \<in> set (s # ss). ?ok s) \<and> units + total_length ps \<le> 16384)"
      unfolding Cons.IH by (auto simp: total_length_def)
    also have "\<dots> \<longleftrightarrow> (\<exists>ss. item # items = map JStr ss \<and> ps = map exclusion_pattern ss \<and>
        (\<forall>s \<in> set ss. ?ok s) \<and> (ss \<noteq> [] \<longrightarrow> units + total_length ps \<le> 16384))"
      unfolding JStr Cons_eq_map_conv by blast
    finally show ?thesis .
  qed (auto simp: Cons_eq_map_conv)
qed

lemma set_order_set [simp]: "set (set_order xs) = set xs"
  by (simp add: set_order_def)

lemma set_order_distinct [simp]: "distinct (set_order xs)"
  by (simp add: set_order_def)

lemma set_order_id: "distinct xs \<Longrightarrow> set_order xs = xs"
  by (simp add: set_order_def distinct_remdups_id)

lemma set_order_length: "length (set_order xs) \<le> length xs"
  by (metis length_remdups_leq length_rev set_order_def)

lemma total_length_remdups: "total_length (remdups xs) \<le> total_length xs"
  by (induction xs) (auto simp: total_length_def)

lemma set_order_total: "total_length (set_order xs) \<le> total_length xs"
  using total_length_remdups [of "rev xs"] by (simp add: set_order_def total_length_def rev_map [symmetric])

lemma parse_Ok_obtain:
  assumes "parseBackupExclusions j = Ok ps"
  obtains ss where "j = JArr (map JStr ss)" "ps = set_order (map exclusion_pattern ss)" "length ss \<le> 100"
    "total_length (map exclusion_pattern ss) \<le> 16384"
    "\<And>s. s \<in> set ss \<Longrightarrow> \<not> unsafeControls s \<and> pattern_ok (exclusion_pattern s)"
proof (cases j)
  case (JArr items)
  with assms obtain qs where q: "exclusion_items 0 0 items = Ok qs" "ps = set_order qs" "length items \<le> 100"
    by (auto simp: bind_result_Inr_iff split: if_splits)
  then obtain ss where ss: "items = map JStr ss" "qs = map exclusion_pattern ss"
    "\<forall>s \<in> set ss. \<not> unsafeControls s \<and> pattern_ok (exclusion_pattern s)" "ss \<noteq> [] \<longrightarrow> total_length qs \<le> 16384"
    unfolding exclusion_items_Ok by auto
  show ?thesis
    by (rule that [of ss]) (use JArr q ss in \<open>auto simp: total_length_def\<close>)
qed (use assms in auto)

text \<open>
  Bounds of an accepted list of patterns.  It has at most 100 patterns without duplicates, of at most 512
  characters each and 16384 in all; no pattern is empty, absolute or leaves the source, and apart from
  final ones at most one part of a pattern is a recursive \<open>**\<close>.
\<close>

theorem exclusion_list_bounded:
  assumes "parseBackupExclusions j = Ok ps"
  shows "length ps \<le> 100 \<and> distinct ps \<and> total_length ps \<le> 16384 \<and>
    (\<forall>p \<in> set ps. p \<noteq> [] \<and> length p \<le> 512 \<and> \<not> starts_with ''/'' p \<and> ''..'' \<notin> set (split_on slash p) \<and>
       length (filter (\<lambda>part. part = ''**'') (pop_stars (split_on slash p))) \<le> 1)"
proof -
  from assms obtain ss where ss: "ps = set_order (map exclusion_pattern ss)" "length ss \<le> 100"
    "total_length (map exclusion_pattern ss) \<le> 16384" "\<And>s. s \<in> set ss \<Longrightarrow> pattern_ok (exclusion_pattern s)"
    by (metis parse_Ok_obtain)
  have "\<not> starts_with ''/'' p \<and> ''..'' \<notin> set (split_on slash p)" if "pattern_ok p" for p
  proof -
    have parts: "x \<in> set (split_on slash p) \<Longrightarrow> \<not> exclusion_part_bad x" for x
      using that by (auto simp: pattern_ok_def list_ex_iff)
    moreover have "starts_with ''/'' p \<Longrightarrow> [] \<in> set (split_on slash p)" by (auto simp: starts_with_iff)
    moreover have "exclusion_part_bad []" "exclusion_part_bad ''..''" by (simp_all add: exclusion_part_bad_def)
    ultimately show ?thesis by blast
  qed
  moreover have "\<forall>p \<in> set ps. pattern_ok p" using ss(1,4) by auto
  moreover have "length ps \<le> 100" "distinct ps" "total_length ps \<le> 16384"
    using ss(1-3) set_order_length [of "map exclusion_pattern ss"] set_order_total [of "map exclusion_pattern ss"] by auto
  ultimately show ?thesis unfolding pattern_ok_def by blast
qed

theorem exclusion_list_bounded_witness:
  "parseBackupExclusions (JArr [JStr '' cache/'', JStr ''src/**/x'', JStr ''cache'']) = Ok [''cache'', ''src/**/x''] \<and>
   total_length [''cache'', ''src/**/x''] \<le> 16384 \<and> \<not> starts_with ''/'' ''src/**/x''"
proof -
  have *: "parseBackupExclusions (JArr [JStr '' cache/'', JStr ''src/**/x'', JStr ''cache'']) = Ok [''cache'', ''src/**/x'']"
    by code_simp
  then show ?thesis using exclusion_list_bounded [OF *] by simp
qed

section \<open>Subtrees and restic\<close>

lemma path_glob_append:
  "path_glob m (us @ vs) ps \<longleftrightarrow> (\<exists>a b. ps = a @ b \<and> path_glob m us a \<and> path_glob m vs b)"
proof (induction us arbitrary: ps)
  case (Cons t us)
  show ?case
  proof (cases "t = ''**''")
    case True
    have "path_glob m (t # us @ vs) ps \<longleftrightarrow> (\<exists>c a b. ps = c @ a @ b \<and> path_glob m us a \<and> path_glob m vs b)"
      unfolding True path_glob_stars Cons.IH by (auto simp: suffix_def)
    also have "\<dots> \<longleftrightarrow> (\<exists>a b. ps = a @ b \<and> (\<exists>u. suffix u a \<and> path_glob m us u) \<and> path_glob m vs b)"
      unfolding suffix_def by (metis append.assoc)
    finally show ?thesis unfolding append_Cons True path_glob_stars .
  next
    case False
    then show ?thesis unfolding append_Cons path_glob_one [OF False] Cons.IH
      by (auto simp: Cons_eq_append_conv) blast+
  qed
qed simp

lemma path_glob_only_stars: "list_all (\<lambda>t. t = ''**'') us \<Longrightarrow> us \<noteq> [] \<Longrightarrow> path_glob m us ps"
proof (induction us arbitrary: ps)
  case (Cons t us)
  then show ?case by (cases "us = []") (auto simp: list_ex_iff)
qed simp

definition prefix_matches :: "string list \<Rightarrow> string list \<Rightarrow> bool" where
  "prefix_matches ts parts \<longleftrightarrow> (\<exists>n. 1 \<le> n \<and> n \<le> length parts \<and> path_glob segmentMatches ts (take n parts))"

lemma prefix_matches_final_stars:
  assumes "us \<noteq> []"
  shows "prefix_matches (us @ [''**'']) parts \<longleftrightarrow> prefix_matches us parts"
proof
  assume "prefix_matches (us @ [''**'']) parts"
  then obtain n a b where n: "1 \<le> n" "n \<le> length parts" "take n parts = a @ b" "path_glob segmentMatches us a"
    unfolding prefix_matches_def path_glob_append by blast
  show "prefix_matches us parts"
  proof (cases "a = []")
    case True
    then have "path_glob segmentMatches us (take n parts)"
      using n(4) assms by (intro path_glob_only_stars) (simp_all add: path_glob_Nil)
    then show ?thesis using n(1,2) unfolding prefix_matches_def by blast
  next
    case False
    have len: "length a \<le> n" using arg_cong [OF n(3), of length] by simp
    have "a = take (length a) (take n parts)" unfolding n(3) by simp
    with len have "a = take (length a) parts" "length a \<le> n" by (simp_all add: min_absorb1)
    moreover have "1 \<le> length a" using False by (cases a) auto
    ultimately show ?thesis using n(2,4) unfolding prefix_matches_def by (metis le_trans)
  qed
next
  assume "prefix_matches us parts"
  then obtain n where "1 \<le> n" "n \<le> length parts" "path_glob segmentMatches us (take n parts)"
    unfolding prefix_matches_def by blast
  moreover have "path_glob segmentMatches (us @ [''**'']) (take n parts)" if "path_glob segmentMatches us (take n parts)" for n
    unfolding path_glob_append using that by (intro exI [of _ "take n parts"] exI [of _ "[]"]) simp
  ultimately show "prefix_matches (us @ [''**'']) parts" unfolding prefix_matches_def by blast
qed

lemma prefix_matches_pop_stars: "prefix_matches (pop_stars ts) parts \<longleftrightarrow> prefix_matches ts parts"
proof (cases ts)
  case (Cons x xs)
  have "prefix_matches (x # rev (dropWhile (\<lambda>y. y = ''**'') ys)) parts \<longleftrightarrow> prefix_matches (x # rev ys) parts" for ys
    by (induction ys) (use prefix_matches_final_stars [of "x # _"] in auto)
  from this [of "rev xs"] show ?thesis using Cons by simp
qed simp

lemma split_no_sep: "p \<in> set (split_on sep s) \<Longrightarrow> sep \<notin> set p"
proof (induction s arbitrary: p)
  case (Cons c s)
  then show ?case by (cases "split_on sep s") (fastforce split: if_splits)+
qed simp

lemma split_on_plain: "sep \<notin> set s \<Longrightarrow> split_on sep s = [s]"
  by (induction s) auto

lemma split_join: "xs \<noteq> [] \<Longrightarrow> (\<And>x. x \<in> set xs \<Longrightarrow> slash \<notin> set x) \<Longrightarrow> split_on slash (join_path xs) = xs"
  by (induction xs rule: join_path.induct) (auto simp: split_on_plain split_on_append)

lemma set_pop_stars: "set (pop_stars ts) \<subseteq> set ts"
  by (cases ts) (auto dest: set_dropWhileD)

lemma pathMatches_popped:
  "pathMatches (join_path (pop_stars (split_on slash pattern))) relative \<longleftrightarrow> pathMatches pattern relative"
proof -
  have "split_on slash (join_path (pop_stars (split_on slash pattern))) = pop_stars (split_on slash pattern)"
  proof (rule split_join)
    show "pop_stars (split_on slash pattern) \<noteq> []" by (cases "split_on slash pattern") auto
    show "slash \<notin> set x" if "x \<in> set (pop_stars (split_on slash pattern))" for x
      using that set_pop_stars split_no_sep by blast
  qed
  then show ?thesis
    unfolding pathMatches_prefix prefix_matches_def [symmetric] by (simp only: prefix_matches_pop_stars)
qed



text \<open>
  An excluded directory excludes its contents, at any depth.
\<close>

theorem exclusion_covers_subtree:
  assumes "backupExclusionMatches patterns relative = Ok True" "''..'' \<notin> set (split_on slash below)"
  shows "backupExclusionMatches patterns (relative @ ''/'' @ below) = Ok True"
proof -
  from assms(1) obtain ps where ps: "parseBackupExclusions (JArr (map JStr patterns)) = Ok ps"
    and r: "relative \<noteq> []" "\<not> starts_with ''/'' relative" "\<not> list_ex (\<lambda>part. part = ''..'') (split_on slash relative)"
      "list_ex (\<lambda>pattern. pathMatches pattern relative) (map scoped_pattern ps)"
    unfolding backupExclusionMatches_def compileBackupExclusions_def
    by (auto simp: bind_result_Inr_iff Let_def split: if_splits)
  let ?path = "relative @ ''/'' @ below"
  have split: "split_on slash ?path = split_on slash relative @ split_on slash below" by (simp add: split_on_append)
  have "pathMatches pattern ?path" if "pathMatches pattern relative" for pattern
  proof -
    from that obtain n where "1 \<le> n" "n \<le> length (split_on slash relative)"
      "path_glob segmentMatches (split_on slash pattern) (take n (split_on slash relative))"
      unfolding pathMatches_prefix by blast
    then show ?thesis unfolding pathMatches_prefix split by (intro exI [of _ n]) simp
  qed
  then have "list_ex (\<lambda>pattern. pathMatches pattern ?path) (map scoped_pattern ps)"
    using r(4) by (auto simp: list_ex_iff)
  moreover have "\<not> starts_with ''/'' ?path" "\<not> list_ex (\<lambda>part. part = ''..'') (split_on slash ?path)"
    using r(1-3) assms(2) unfolding split by (auto simp: starts_with_def list_ex_iff Suc_le_eq)
  ultimately show ?thesis
    unfolding backupExclusionMatches_def compileBackupExclusions_def ps bind_result_simps Let_def by simp
qed

theorem exclusion_covers_subtree_witness:
  "backupExclusionMatches [''cache''] (''var/cache'' @ ''/'' @ ''a/b'') = Ok True"
  by (rule exclusion_covers_subtree; code_simp)

section \<open>Parsing again\<close>

text \<open>The matcher and the restic translation parse a list again that was accepted before.\<close>

lemma js_trim_fixed: "s \<noteq> [] \<Longrightarrow> \<not> is_space (hd s) \<Longrightarrow> \<not> is_space (last s) \<Longrightarrow> js_trim s = s"
proof -
  assume s: "s \<noteq> []" "\<not> is_space (hd s)" "\<not> is_space (last s)"
  then have "dropWhile is_space s = s" "dropWhile is_space (rev s) = rev s"
    by (simp_all only: dropWhile_eq_self_iff hd_rev) simp_all
  then show ?thesis by (simp add: js_trim_def)
qed

lemma js_trim_hd: "js_trim s \<noteq> [] \<Longrightarrow> \<not> is_space (hd (js_trim s))"
proof -
  assume *: "js_trim s \<noteq> []"
  have "suffix (rev (js_trim s)) (rev (dropWhile is_space s))" unfolding js_trim_def rev_rev_ident by (rule suffix_dropWhile)
  then have "prefix (js_trim s) (dropWhile is_space s)" by (simp add: suffix_to_prefix)
  then have "hd (js_trim s) = hd (dropWhile is_space s)" "dropWhile is_space s \<noteq> []" using * unfolding prefix_def by (metis hd_append2, metis append_is_Nil_conv)
  then show ?thesis using hd_dropWhile [of is_space s] by simp
qed

lemma set_js_trim: "set (js_trim s) \<subseteq> set s"
  unfolding js_trim_def by (auto dest!: set_dropWhileD)

lemma pattern_hd: "exclusion_pattern s \<noteq> [] \<Longrightarrow> \<not> is_space (hd (exclusion_pattern s))"
  using js_trim_hd [of s] by (cases "js_trim s" rule: rev_cases) (auto simp: exclusion_pattern_def drop_end_slash_def hd_append split: if_splits)

lemma set_exclusion_pattern: "set (exclusion_pattern s) \<subseteq> set s"
  using set_js_trim [of s] unfolding exclusion_pattern_def drop_end_slash_def by (auto dest: in_set_butlastD)

lemma pattern_ok_last:
  assumes "pattern_ok p"
  shows "last p \<noteq> slash"
proof
  assume "last p = slash"
  moreover have "p \<noteq> []" using assms by (simp add: pattern_ok_def)
  ultimately have "p = butlast p @ slash # []" by (metis append_butlast_last_id)
  then have "[] \<in> set (split_on slash p)" using split_on_append [of slash "butlast p" "[]"] by (metis in_set_conv_decomp split_on.simps(1))
  then show False using assms by (auto simp: pattern_ok_def list_ex_iff exclusion_part_bad_def)
qed

text \<open>
  Parsing an accepted list again gives the same list, unless a pattern ends in white space: the
  agent, which parses what it receives, applies the patterns the server stored.
\<close>

theorem exclusion_reparse:
  assumes "parseBackupExclusions j = Ok ps" "\<And>p. p \<in> set ps \<Longrightarrow> \<not> is_space (last p)"
  shows "parseBackupExclusions (JArr (map JStr ps)) = Ok ps"
proof -
  from assms(1) obtain ss where ss: "ps = set_order (map exclusion_pattern ss)" "length ss \<le> 100"
    "total_length (map exclusion_pattern ss) \<le> 16384"
    "\<And>s. s \<in> set ss \<Longrightarrow> \<not> unsafeControls s \<and> pattern_ok (exclusion_pattern s)"
    by (rule parse_Ok_obtain) blast
  have each: "\<not> unsafeControls p \<and> pattern_ok p \<and> exclusion_pattern p = p" if p: "p \<in> set ps" for p
  proof -
    from p ss(1) obtain s where s: "s \<in> set ss" "p = exclusion_pattern s" by auto
    then have ok: "pattern_ok p" "p \<noteq> []" using ss(4) by (auto simp: pattern_ok_def)
    have "js_trim p = p" using ok(2) pattern_hd s(2) assms(2) [OF p] by (intro js_trim_fixed) auto
    then have "exclusion_pattern p = p" using pattern_ok_last [OF ok(1)] by (simp add: exclusion_pattern_def drop_end_slash_def)
    moreover have "\<not> unsafeControls p"
      using ss(4) [OF s(1)] set_exclusion_pattern [of s] unfolding s(2) unsafeControls_def list_ex_iff by blast
    ultimately show ?thesis using ok(1) by blast
  qed
  then have "map exclusion_pattern ps = ps" by (simp add: map_idI)
  then have "exclusion_items 0 0 (map JStr ps) = Ok ps"
    unfolding exclusion_items_Ok
  proof (intro exI [of _ ps] conjI)
    show "ps \<noteq> [] \<longrightarrow> 0 + total_length ps \<le> 16384"
      using ss(1,3) set_order_total [of "map exclusion_pattern ss"] by simp
    show "\<forall>s \<in> set ps. \<not> unsafeControls s \<and> pattern_ok (exclusion_pattern s)" using each by metis
  qed simp_all
  moreover have "length ps \<le> 100" using ss(1,2) set_order_length [of "map exclusion_pattern ss"] by simp
  ultimately show ?thesis using ss(1) by (simp add: set_order_id)
qed

theorem exclusion_reparse_witness:
  "parseBackupExclusions (JArr (map JStr [''cache'', ''a b/c''])) = Ok [''cache'', ''a b/c'']"
  by (rule exclusion_reparse [of "JArr [JStr '' cache/'', JStr ''a b/c/ '', JStr ''cache'']"])
    (code_simp, auto simp: is_space_def)

text \<open>
  A pattern whose name ends in a blank before the final slash changes when it is parsed again: the server
  stores the name with the blank, the agent excludes the name without it.
\<close>

theorem blank_before_slash_reparsed:
  "parseBackupExclusions (JArr [JStr ''cache /'']) = Ok [''cache ''] \<and>
   parseBackupExclusions (JArr [JStr ''cache '']) = Ok [''cache'']"
  by code_simp

end
