(* ===== verification/Remote_Lifecycle.thy ===== *)
theory Remote_Lifecycle
  imports Source_Policy
begin

text \<open>
  Database dumps and hooks of a remote backup (\<open>backend/src/utils/remoteLifecycle.ts\<close>): the schema of the
  configuration, and how its passwords leave the plan settings when a plan is saved and return when a
  command is delivered.  The cipher is an argument: \<open>encrypt n\<close> is the encryption of the n-th entry
  (it draws a fresh salt), \<open>decrypt\<close> gives \<open>None\<close> where it throws.  \<open>fresh n\<close> is the random part of a new
  database id.
\<close>

section \<open>Configuration\<close>

record lifecycle_hook =
  lh_id :: string
  lh_args :: "string list"
  lh_timeoutSeconds :: int

record remote_database =
  db_databaseId :: "string option"
  db_engine :: string
  db_host :: string
  db_port :: int
  db_tls :: string
  db_database :: string
  db_username :: string
  db_dumpFilename :: string
  db_timeoutSeconds :: int
  db_maxDumpBytes :: int
  db_includeRoutines :: bool
  db_includeEvents :: bool
  db_password :: "string option"
  db_passwordConfigured :: "bool option"

text \<open>\<open>database\<close> belongs to version 1, \<open>databases\<close> to version 2.\<close>

record remote_lifecycle =
  lf_version :: int
  lf_database :: "remote_database option"
  lf_databases :: "remote_database list option"
  lf_preHook :: "lifecycle_hook option"
  lf_postHook :: "lifecycle_hook option"

record database_credential =
  dc_databaseId :: string
  dc_encryptedPassword :: string
  dc_legacySingle :: bool

section \<open>Schema\<close>

definition MAX_PLAN_DATABASES :: nat where
  "MAX_PLAN_DATABASES = 8"

text \<open>A test of an optional value.\<close>

fun if_present :: "('a \<Rightarrow> bool) \<Rightarrow> 'a option \<Rightarrow> bool" where
  "if_present p None = True"
| "if_present p (Some x) = p x"

text \<open>A first character and up to \<open>n\<close> further ones.\<close>

definition word_ok :: "(char \<Rightarrow> bool) \<Rightarrow> (char \<Rightarrow> bool) \<Rightarrow> nat \<Rightarrow> string \<Rightarrow> bool" where
  "word_ok p q n s \<longleftrightarrow> (case s of [] \<Rightarrow> False | c # cs \<Rightarrow> p c \<and> length cs \<le> n \<and> list_all q cs)"

definition is_word_char :: "char \<Rightarrow> bool" where
  "is_word_char c \<longleftrightarrow> is_alnum c \<or> c = CHR ''_''"

definition is_name_char :: "char \<Rightarrow> bool" where
  "is_name_char c \<longleftrightarrow> is_ident_char c \<or> c = CHR ''.''"

definition databaseIdSchema :: "string \<Rightarrow> bool" where
  "databaseIdSchema s \<longleftrightarrow> starts_with ''db_'' s \<and> ident_ok 64 (drop 3 s)"

definition arg_ok :: "string \<Rightarrow> bool" where
  "arg_ok a \<longleftrightarrow> length a \<le> 128 \<and> list_all (\<lambda>c. is_alnum c \<or> c \<in> set ''_.,:@/+ =-'') a \<and>
     \<not> starts_with ''-'' a \<and> \<not> starts_with ''/'' a \<and> ''..'' \<notin> set (split_on slash a)"

definition hook_ok :: "lifecycle_hook \<Rightarrow> bool" where
  "hook_ok h \<longleftrightarrow> word_ok is_ident_char is_name_char 99 (lh_id h) \<and>
     length (lh_args h) \<le> 16 \<and> list_all arg_ok (lh_args h) \<and> 1 \<le> lh_timeoutSeconds h \<and> lh_timeoutSeconds h \<le> 300"

definition database_host_ok :: "string \<Rightarrow> bool" where
  "database_host_ok s \<longleftrightarrow> length s \<le> 253 \<and>
     (s = ''::1'' \<or> (case s of [] \<Rightarrow> False | c # cs \<Rightarrow> is_alnum c \<and> list_all (\<lambda>c. is_alnum c \<or> c \<in> set ''.:-'') cs))"

text \<open>\<open>/^[A-Za-z0-9_][A-Za-z0-9_.-]{0,95}\.sql$/\<close>\<close>

definition dump_name_ok :: "string \<Rightarrow> bool" where
  "dump_name_ok s \<longleftrightarrow> ends_with ''.sql'' s \<and> word_ok is_word_char is_name_char 95 (take (length s - 4) s)"

definition database_password_ok :: "string \<Rightarrow> bool" where
  "database_password_ok s \<longleftrightarrow> 1 \<le> length s \<and> length s \<le> 1024 \<and> CHR 0x00 \<notin> set s"

definition database_ok :: "remote_database \<Rightarrow> bool" where
  "database_ok d \<longleftrightarrow>
     if_present databaseIdSchema (db_databaseId d) \<and> db_engine d \<in> {''mysql'', ''mariadb'', ''postgresql''} \<and>
     database_host_ok (db_host d) \<and> 1 \<le> db_port d \<and> db_port d \<le> 65535 \<and> db_tls d \<in> {''verify-identity'', ''local''} \<and>
     word_ok is_word_char is_ident_char 63 (db_database d) \<and> word_ok is_word_char is_name_char 79 (db_username d) \<and>
     dump_name_ok (db_dumpFilename d) \<and> 1 \<le> db_timeoutSeconds d \<and> db_timeoutSeconds d \<le> 3600 \<and>
     1024 \<le> db_maxDumpBytes d \<and> db_maxDumpBytes d \<le> 100 * 1024 ^ 3 \<and> if_present database_password_ok (db_password d) \<and>
     (db_tls d = ''local'' \<longrightarrow> db_host d \<in> {''localhost'', ''127.0.0.1'', ''::1''}) \<and>
     (db_engine d = ''postgresql'' \<longrightarrow>
        length (db_database d) \<le> 63 \<and> length (db_username d) \<le> 63 \<and> \<not> db_includeRoutines d \<and> \<not> db_includeEvents d \<and>
        if_present (\<lambda>p. CHR 0x0D \<notin> set p \<and> CHR 0x0A \<notin> set p) (db_password d))"

text \<open>
  Dump names are compared in lower case; on the characters of \<open>dump_name_ok\<close> the normalization to NFKC is
  the identity.
\<close>

definition lifecycle_ok :: "remote_lifecycle \<Rightarrow> bool" where
  "lifecycle_ok l \<longleftrightarrow> if_present hook_ok (lf_preHook l) \<and> if_present hook_ok (lf_postHook l) \<and>
     ((lf_version l = 1 \<and> lf_databases l = None \<and>
       if_present (\<lambda>d. database_ok d \<and> db_engine d \<noteq> ''postgresql'' \<and> db_databaseId d = None) (lf_database l)) \<or>
      (lf_version l = 2 \<and> lf_database l = None \<and>
       (case lf_databases l of
          None \<Rightarrow> False
        | Some ds \<Rightarrow> length ds \<le> MAX_PLAN_DATABASES \<and> list_all database_ok ds \<and>
            distinct (map (\<lambda>d. to_lower (db_dumpFilename d)) ds) \<and> distinct (List.map_filter db_databaseId ds))))"

fun read_hook :: "json \<Rightarrow> lifecycle_hook option" where
  "read_hook (JObj fs) =
     (if \<not> strict_keys [''id'', ''args'', ''timeoutSeconds''] fs then None
      else case (required_field parse_str ''id'' fs, required_field (parse_array parse_str) ''args'' fs,
                 required_field parse_int ''timeoutSeconds'' fs) of
             (Some i, Some a, Some t) \<Rightarrow> Some \<lparr>lh_id = i, lh_args = a, lh_timeoutSeconds = t\<rparr>
           | _ \<Rightarrow> None)"
| "read_hook _ = None"

definition database_keys :: "string list" where
  "database_keys = [''databaseId'', ''engine'', ''host'', ''port'', ''tls'', ''database'', ''username'', ''dumpFilename'',
     ''timeoutSeconds'', ''maxDumpBytes'', ''includeRoutines'', ''includeEvents'', ''password'', ''passwordConfigured'']"

fun read_database :: "json \<Rightarrow> remote_database option" where
  "read_database (JObj fs) =
     (if \<not> strict_keys database_keys fs then None
      else case ((optional_field parse_str ''databaseId'' fs, required_field parse_str ''engine'' fs,
                  required_field parse_str ''host'' fs, required_field parse_int ''port'' fs,
                  required_field parse_str ''tls'' fs, required_field parse_str ''database'' fs,
                  required_field parse_str ''username'' fs),
                 (required_field parse_str ''dumpFilename'' fs, required_field parse_int ''timeoutSeconds'' fs,
                  required_field parse_int ''maxDumpBytes'' fs, required_field parse_bool ''includeRoutines'' fs,
                  required_field parse_bool ''includeEvents'' fs, optional_field parse_str ''password'' fs,
                  optional_field parse_bool ''passwordConfigured'' fs)) of
             ((Some i, Some e, Some h, Some p, Some t, Some d, Some u), (Some f, Some ts, Some m, Some r, Some ev, Some pw, Some c)) \<Rightarrow>
               Some \<lparr>db_databaseId = i, db_engine = e, db_host = h, db_port = p, db_tls = t, db_database = d,
                     db_username = u, db_dumpFilename = f, db_timeoutSeconds = ts, db_maxDumpBytes = m,
                     db_includeRoutines = r, db_includeEvents = ev, db_password = pw, db_passwordConfigured = c\<rparr>
           | _ \<Rightarrow> None)"
| "read_database _ = None"

fun read_lifecycle :: "json \<Rightarrow> remote_lifecycle option" where
  "read_lifecycle (JObj fs) =
     (case map_of fs ''version'' of
        Some (JInt v) \<Rightarrow>
          if v = 1 then
            (if \<not> strict_keys [''version'', ''database'', ''preHook'', ''postHook''] fs then None
             else case (optional_field read_database ''database'' fs, optional_field read_hook ''preHook'' fs,
                        optional_field read_hook ''postHook'' fs) of
                    (Some d, Some a, Some b) \<Rightarrow> Some \<lparr>lf_version = 1, lf_database = d, lf_databases = None,
                                                   lf_preHook = a, lf_postHook = b\<rparr>
                  | _ \<Rightarrow> None)
          else if v = 2 then
            (if \<not> strict_keys [''version'', ''databases'', ''preHook'', ''postHook''] fs then None
             else case (required_field (parse_array read_database) ''databases'' fs, optional_field read_hook ''preHook'' fs,
                        optional_field read_hook ''postHook'' fs) of
                    (Some ds, Some a, Some b) \<Rightarrow> Some \<lparr>lf_version = 2, lf_database = None, lf_databases = Some ds,
                                                    lf_preHook = a, lf_postHook = b\<rparr>
                  | _ \<Rightarrow> None)
          else None
      | _ \<Rightarrow> None)"
| "read_lifecycle _ = None"

definition remoteLifecycleSchema :: "json \<Rightarrow> remote_lifecycle option" where
  "remoteLifecycleSchema = refine lifecycle_ok read_lifecycle"

definition lifecycle_invalid :: app_error where
  "lifecycle_invalid = AppError 400 ''Remote backup lifecycle configuration is invalid.''"

text \<open>The argument is absent (\<open>undefined\<close>) or a JSON value.\<close>

definition parseRemoteLifecycle :: "json option \<Rightarrow> remote_lifecycle result" where
  "parseRemoteLifecycle v =
     (case Option.bind v remoteLifecycleSchema of None \<Rightarrow> Throw lifecycle_invalid | Some l \<Rightarrow> Ok l)"

text \<open>The schema on a value that has the fields of the type already.\<close>

definition revalidate :: "remote_lifecycle \<Rightarrow> remote_lifecycle result" where
  "revalidate l = (if lifecycle_ok l then Ok l else Throw lifecycle_invalid)"

definition lifecycleDatabases :: "remote_lifecycle \<Rightarrow> remote_database list" where
  "lifecycleDatabases l =
     (if lf_version l = 2 then (case lf_databases l of None \<Rightarrow> [] | Some ds \<Rightarrow> ds)
      else (case lf_database l of Some d \<Rightarrow> [d] | None \<Rightarrow> []))"

section \<open>Saving\<close>

definition inherited_id :: "remote_lifecycle \<Rightarrow> remote_database list \<Rightarrow> string option" where
  "inherited_id input existing =
     (case existing of [e] \<Rightarrow> if lf_version input = 1 then db_databaseId e else None | _ \<Rightarrow> None)"

text \<open>
  One entry: its id, the credential and the saved configuration.  Empty strings are falsy, but the schema
  accepts no empty id.
\<close>

definition prepare_entry ::
  "(string \<Rightarrow> string) \<Rightarrow> string \<Rightarrow> string option \<Rightarrow> remote_database list \<Rightarrow> database_credential list \<Rightarrow> remote_database
   \<Rightarrow> (remote_database \<times> database_credential) result" where
  "prepare_entry encrypt newId inherited existing credentials entry =
     (let known = (case db_databaseId entry of Some i \<Rightarrow> Some i | None \<Rightarrow> inherited);
          databaseId = (case known of Some i \<Rightarrow> i | None \<Rightarrow> ''db_'' @ newId);
          old = row_by dc_databaseId databaseId credentials in
      if known \<noteq> None \<and> (old = None \<or> Some databaseId \<notin> db_databaseId ` set existing)
      then Throw (AppError 400 ''Database entry identity does not belong to this plan.'')
      else let encrypted = (case db_password entry of
                              None \<Rightarrow> map_option dc_encryptedPassword old
                            | Some p \<Rightarrow> Some (encrypt p)) in
           case encrypted of
             None \<Rightarrow> Throw (AppError 400 ''A database password is required for each new database entry.'')
           | Some c \<Rightarrow>
               if c = [] then Throw (AppError 400 ''A database password is required for each new database entry.'')
               else Ok (entry\<lparr>db_databaseId := Some databaseId, db_password := None, db_passwordConfigured := Some True\<rparr>,
                        \<lparr>dc_databaseId = databaseId, dc_encryptedPassword = c,
                         dc_legacySingle = (case old of None \<Rightarrow> False | Some o' \<Rightarrow> dc_legacySingle o')\<rparr>))"

fun prepare_entries ::
  "(nat \<Rightarrow> string \<Rightarrow> string) \<Rightarrow> (nat \<Rightarrow> string) \<Rightarrow> nat \<Rightarrow> string option \<Rightarrow> remote_database list \<Rightarrow> database_credential list
   \<Rightarrow> remote_database list \<Rightarrow> (remote_database list \<times> database_credential list) result" where
  "prepare_entries encrypt fresh n inherited existing credentials [] = Ok ([], [])"
| "prepare_entries encrypt fresh n inherited existing credentials (e # es) =
     bind_result (prepare_entry (encrypt n) (fresh n) inherited existing credentials e) (\<lambda>(d, c).
     bind_result (prepare_entries encrypt fresh (Suc n) inherited existing credentials es) (\<lambda>(ds, cs).
       Ok (d # ds, c # cs)))"

text \<open>The saved lifecycle (\<open>None\<close> where there is nothing to save) and the credentials.\<close>

definition prepareRemoteLifecycleCollection ::
  "(nat \<Rightarrow> string \<Rightarrow> string) \<Rightarrow> (nat \<Rightarrow> string) \<Rightarrow> json option \<Rightarrow> json option \<Rightarrow> database_credential list
   \<Rightarrow> (remote_lifecycle option \<times> database_credential list) result" where
  "prepareRemoteLifecycleCollection encrypt fresh settings previous credentials =
     bind_result (parseRemoteLifecycle settings) (\<lambda>input.
     bind_result (case previous of None \<Rightarrow> Ok []
                  | Some p \<Rightarrow> bind_result (parseRemoteLifecycle (Some p)) (\<lambda>l. Ok (lifecycleDatabases l))) (\<lambda>existing.
     let entries = lifecycleDatabases input in
     bind_result (refuse_if (lf_version input = 1 \<and> entries \<noteq> [] \<and> 1 < length existing)
       (AppError 400 ''A single-database request cannot replace a multi-database plan.'')) (\<lambda>_.
     bind_result (prepare_entries encrypt fresh 0 (inherited_id input existing) existing credentials entries) (\<lambda>(saved, prepared).
       Ok (if saved \<noteq> [] \<or> lf_preHook input \<noteq> None \<or> lf_postHook input \<noteq> None
           then Some \<lparr>lf_version = 2, lf_database = None, lf_databases = Some saved, lf_preHook = lf_preHook input,
                      lf_postHook = lf_postHook input\<rparr> else None, prepared)))))"

text \<open>
  The boundary of version 1: the lifecycle to save (outer \<open>None\<close>: nothing was given) and the credential
  (\<open>None\<close> where it stays as it is, \<open>Some None\<close> where it is removed).
\<close>

definition prepareRemoteLifecycleSettings ::
  "(string \<Rightarrow> string) \<Rightarrow> json option \<Rightarrow> string option \<Rightarrow> (remote_lifecycle option \<times> string option option) result" where
  "prepareRemoteLifecycleSettings encrypt settings existingCredential =
     (if settings = None then Ok (None, None)
      else bind_result (parseRemoteLifecycle settings) (\<lambda>l.
        if lf_version l \<noteq> 1 then Throw (AppError 400 ''Use the database collection credential boundary.'')
        else if lf_database l = None \<and> lf_preHook l = None \<and> lf_postHook l = None then Ok (None, Some None)
        else case lf_database l of
               None \<Rightarrow> Ok (Some l, Some None)
             | Some d \<Rightarrow>
                 let credential = (case db_password d of None \<Rightarrow> existingCredential | Some p \<Rightarrow> Some (encrypt p)) in
                 if credential = None \<or> credential = Some []
                 then Throw (AppError 400 ''A database password is required when enabling database backup.'')
                 else Ok (Some (l\<lparr>lf_database := Some (d\<lparr>db_password := None, db_passwordConfigured := Some True\<rparr>)\<rparr>),
                          Some credential)))"

section \<open>Delivery\<close>

definition credentials_unavailable :: app_error where
  "credentials_unavailable = AppError 500 ''Database backup credentials could not be prepared.''"

definition or_unavailable :: "'a result \<Rightarrow> 'a result" where
  "or_unavailable r = (case r of Inl e \<Rightarrow> Throw credentials_unavailable | Inr x \<Rightarrow> Ok x)"

definition deliver_entry ::
  "(string \<Rightarrow> string option) \<Rightarrow> database_credential list \<Rightarrow> remote_database \<Rightarrow> remote_database result" where
  "deliver_entry decrypt credentials entry =
     (case (db_databaseId entry, db_password entry) of
        (Some i, None) \<Rightarrow>
          (case row_by dc_databaseId i credentials of
             None \<Rightarrow> Throw (PlainError ''Unavailable'')
           | Some c \<Rightarrow>
               (case decrypt (dc_encryptedPassword c) of
                  None \<Rightarrow> Throw (PlainError ''Decryption failed'')
                | Some p \<Rightarrow> Ok (entry\<lparr>db_password := Some p, db_passwordConfigured := None\<rparr>)))
      | _ \<Rightarrow> Throw (PlainError ''Unavailable''))"

definition materializeRemoteLifecycleCollection ::
  "(string \<Rightarrow> string option) \<Rightarrow> json option \<Rightarrow> database_credential list \<Rightarrow> remote_lifecycle result" where
  "materializeRemoteLifecycleCollection decrypt value credentials =
     bind_result (parseRemoteLifecycle value) (\<lambda>l.
       or_unavailable (bind_result (map_result (deliver_entry decrypt credentials) (lifecycleDatabases l)) (\<lambda>ds.
         revalidate \<lparr>lf_version = 2, lf_database = None, lf_databases = Some ds, lf_preHook = lf_preHook l,
                     lf_postHook = lf_postHook l\<rparr>)))"

definition materializeRemoteLifecycle ::
  "(string \<Rightarrow> string option) \<Rightarrow> json option \<Rightarrow> string option \<Rightarrow> remote_lifecycle result" where
  "materializeRemoteLifecycle decrypt value credential =
     bind_result (parseRemoteLifecycle value) (\<lambda>l.
       case lf_database l of
         None \<Rightarrow> Ok l
       | Some d \<Rightarrow>
           if db_password d \<noteq> None \<or> credential = None \<or> credential = Some [] then Throw credentials_unavailable
           else or_unavailable (case Option.bind credential decrypt of
                  None \<Rightarrow> Throw (PlainError ''Decryption failed'')
                | Some p \<Rightarrow> revalidate (l\<lparr>lf_database := Some (d\<lparr>db_password := Some p, db_passwordConfigured := None\<rparr>)\<rparr>)))"

end
