(* ===== verification/Lifecycle_Guarantees.thy ===== *)
theory Lifecycle_Guarantees
  imports Remote_Lifecycle
begin

text \<open>
  Passwords of database dumps: they never stay in the saved settings, and the delivery of a command
  restores exactly the password that was given for each database.
\<close>

section \<open>The stored JSON\<close>

text \<open>What a JSON column keeps of a lifecycle: absent members are left out.\<close>

definition json_member :: "string \<Rightarrow> ('a \<Rightarrow> json) \<Rightarrow> 'a option \<Rightarrow> (string \<times> json) list" where
  "json_member k f v = (case v of None \<Rightarrow> [] | Some x \<Rightarrow> [(k, f x)])"

definition hook_json :: "lifecycle_hook \<Rightarrow> json" where
  "hook_json h = JObj [(''id'', JStr (lh_id h)), (''args'', JArr (map JStr (lh_args h))),
     (''timeoutSeconds'', JInt (lh_timeoutSeconds h))]"

definition database_json :: "remote_database \<Rightarrow> json" where
  "database_json d = JObj (
     [(''engine'', JStr (db_engine d)), (''host'', JStr (db_host d)), (''port'', JInt (db_port d)), (''tls'', JStr (db_tls d)),
      (''database'', JStr (db_database d)), (''username'', JStr (db_username d)), (''dumpFilename'', JStr (db_dumpFilename d)),
      (''timeoutSeconds'', JInt (db_timeoutSeconds d)), (''maxDumpBytes'', JInt (db_maxDumpBytes d)),
      (''includeRoutines'', JBool (db_includeRoutines d)), (''includeEvents'', JBool (db_includeEvents d))] @
     json_member ''databaseId'' JStr (db_databaseId d) @ json_member ''password'' JStr (db_password d) @
     json_member ''passwordConfigured'' JBool (db_passwordConfigured d))"

definition lifecycle_json :: "remote_lifecycle \<Rightarrow> json" where
  "lifecycle_json l = JObj ((''version'', JInt (lf_version l)) #
     json_member ''database'' database_json (lf_database l) @
     json_member ''databases'' (\<lambda>ds. JArr (map database_json ds)) (lf_databases l) @
     json_member ''preHook'' hook_json (lf_preHook l) @ json_member ''postHook'' hook_json (lf_postHook l))"

lemma strict_keys_Cons [simp]: "strict_keys ks ((k, v) # fs) \<longleftrightarrow> k \<in> set ks \<and> strict_keys ks fs"
  "strict_keys ks []"
  by (auto simp: strict_keys_def)

lemmas json_member_simps = json_member_def required_field_def optional_field_def

lemma all_some_map: "(\<And>x. x \<in> set xs \<Longrightarrow> p (f x) = Some x) \<Longrightarrow> all_some (map p (map f xs)) = Some xs"
  by (induction xs) auto

lemma parse_array_map: "(\<And>x. p (f x) = Some x) \<Longrightarrow> parse_array p (JArr (map f xs)) = Some xs"
  using all_some_map [of xs p f] by simp

lemma read_hook_json: "read_hook (hook_json h) = Some h"
  by (simp add: hook_json_def json_member_simps parse_array_map del: parse_array.simps)

lemma read_database_json: "read_database (database_json d) = Some d"
  by (cases "db_databaseId d"; cases "db_password d"; cases "db_passwordConfigured d")
    (simp_all add: database_json_def database_keys_def json_member_simps)

text \<open>Reading back what was stored.\<close>

lemma read_lifecycle_json:
  assumes "lifecycle_ok l"
  shows "remoteLifecycleSchema (lifecycle_json l) = Some l"
proof -
  have "read_lifecycle (lifecycle_json l) = Some l"
  proof (cases "lf_version l = 1")
    case True
    then have "lf_databases l = None" using assms by (auto simp: lifecycle_ok_def)
    then show ?thesis using True
      by (cases l; cases "lf_database l"; cases "lf_preHook l"; cases "lf_postHook l")
        (simp_all add: lifecycle_json_def json_member_simps read_hook_json read_database_json)
  next
    case False
    then obtain ds where ds: "lf_version l = 2" "lf_database l = None" "lf_databases l = Some ds"
      using assms by (auto simp: lifecycle_ok_def split: option.splits)
    have "parse_array read_database (JArr (map database_json ds)) = Some ds"
      by (rule parse_array_map) (rule read_database_json)
    with ds show ?thesis
      by (cases l; cases "lf_preHook l"; cases "lf_postHook l")
        (simp_all add: lifecycle_json_def json_member_simps read_hook_json del: parse_array.simps)
  qed
  with assms show ?thesis by (simp add: remoteLifecycleSchema_def refine_Some)
qed

section \<open>Saved entries\<close>

text \<open>The id of the n-th entry: its own, the inherited or a new one.\<close>

definition entry_id :: "(nat \<Rightarrow> string) \<Rightarrow> string option \<Rightarrow> nat \<Rightarrow> remote_database \<Rightarrow> string" where
  "entry_id fresh inherited n e =
     (case db_databaseId e of
        Some i \<Rightarrow> i
      | None \<Rightarrow> (case inherited of Some i \<Rightarrow> i | None \<Rightarrow> ''db_'' @ fresh n))"

fun entry_ids :: "(nat \<Rightarrow> string) \<Rightarrow> string option \<Rightarrow> nat \<Rightarrow> remote_database list \<Rightarrow> string list" where
  "entry_ids fresh inherited n [] = []"
| "entry_ids fresh inherited n (e # es) = entry_id fresh inherited n e # entry_ids fresh inherited (Suc n) es"

definition saved_entry :: "remote_database \<Rightarrow> string \<Rightarrow> remote_database" where
  "saved_entry e i = e\<lparr>db_databaseId := Some i, db_password := None, db_passwordConfigured := Some True\<rparr>"

definition saved_cipher ::
  "(string \<Rightarrow> string) \<Rightarrow> database_credential list \<Rightarrow> remote_database \<Rightarrow> string \<Rightarrow> string option" where
  "saved_cipher encrypt credentials e i =
     (case db_password e of
        Some p \<Rightarrow> Some (encrypt p)
      | None \<Rightarrow> map_option dc_encryptedPassword (row_by dc_databaseId i credentials))"

lemma prepare_entry_Ok:
  assumes "prepare_entry encrypt newId inherited existing credentials e = Ok (d, c)"
  shows "d = saved_entry e (entry_id (\<lambda>_. newId) inherited 0 e)"
    "dc_databaseId c = entry_id (\<lambda>_. newId) inherited 0 e"
    "saved_cipher encrypt credentials e (dc_databaseId c) = Some (dc_encryptedPassword c)"
  using assms
  by (auto simp: prepare_entry_def saved_entry_def entry_id_def saved_cipher_def Let_def split: if_splits option.splits)

lemma entry_id_shift: "entry_id (\<lambda>_. fresh n) inherited 0 e = entry_id fresh inherited n e"
  by (simp add: entry_id_def split: option.split)

lemma prepare_entries_Ok:
  assumes "prepare_entries encrypt fresh n inherited existing credentials es = Ok (ds, cs)"
  shows "ds = map2 saved_entry es (entry_ids fresh inherited n es)"
    "map dc_databaseId cs = entry_ids fresh inherited n es"
    "k < length es \<Longrightarrow> saved_cipher (encrypt (n + k)) credentials (es ! k) (dc_databaseId (cs ! k)) =
       Some (dc_encryptedPassword (cs ! k))"
  using assms
proof (induction es arbitrary: n ds cs k)
  case (Cons e es)
  {
    case 1
    then obtain d c ds' cs' where *: "prepare_entry (encrypt n) (fresh n) inherited existing credentials e = Ok (d, c)"
      "prepare_entries encrypt fresh (Suc n) inherited existing credentials es = Ok (ds', cs')" "ds = d # ds'"
      by (auto simp: bind_result_Inr_iff)
    then show ?case using Cons.IH(1) [OF *(2)] prepare_entry_Ok(1) [OF *(1)] by (simp add: entry_id_shift)
  next
    case 2
    then obtain d c ds' cs' where *: "prepare_entry (encrypt n) (fresh n) inherited existing credentials e = Ok (d, c)"
      "prepare_entries encrypt fresh (Suc n) inherited existing credentials es = Ok (ds', cs')" "cs = c # cs'"
      by (auto simp: bind_result_Inr_iff)
    then show ?case using Cons.IH(2) [OF *(2)] prepare_entry_Ok(2) [OF *(1)] by (simp add: entry_id_shift)
  next
    case 3
    then obtain d c ds' cs' where *: "prepare_entry (encrypt n) (fresh n) inherited existing credentials e = Ok (d, c)"
      "prepare_entries encrypt fresh (Suc n) inherited existing credentials es = Ok (ds', cs')" "cs = c # cs'"
      by (auto simp: bind_result_Inr_iff)
    show ?case
    proof (cases k)
      case 0
      then show ?thesis using prepare_entry_Ok(3) [OF *(1)] *(3) by simp
    next
      case (Suc k')
      then show ?thesis using Cons.IH(3) [OF _ *(2), of k'] *(3) 3(1) by simp
    qed
  }
qed simp_all

lemma length_entry_ids [simp]: "length (entry_ids fresh inherited n es) = length es"
  by (induction es arbitrary: n) auto

lemma nth_entry_ids: "k < length es \<Longrightarrow> entry_ids fresh inherited n es ! k = entry_id fresh inherited (n + k) (es ! k)"
  by (induction es arbitrary: n k) (auto simp: nth_Cons split: nat.split)

definition collection_lifecycle :: "remote_lifecycle \<Rightarrow> remote_database list \<Rightarrow> remote_lifecycle" where
  "collection_lifecycle input ds = \<lparr>lf_version = 2, lf_database = None, lf_databases = Some ds,
     lf_preHook = lf_preHook input, lf_postHook = lf_postHook input\<rparr>"

lemma databases_collection [simp]: "lifecycleDatabases (collection_lifecycle input ds) = ds"
  by (simp add: lifecycleDatabases_def collection_lifecycle_def)

definition parsed_databases :: "json option \<Rightarrow> remote_database list result" where
  "parsed_databases v = (case v of None \<Rightarrow> Ok []
     | Some p \<Rightarrow> bind_result (parseRemoteLifecycle (Some p)) (\<lambda>l. Ok (lifecycleDatabases l)))"

lemma prepare_collection_OkE:
  assumes "prepareRemoteLifecycleCollection encrypt fresh settings previous credentials = Ok (Some l, cs)"
  obtains input existing ds where "parseRemoteLifecycle settings = Ok input" "parsed_databases previous = Ok existing"
    "prepare_entries encrypt fresh 0 (inherited_id input existing) existing credentials (lifecycleDatabases input) = Ok (ds, cs)"
    "l = collection_lifecycle input ds"
  using assms unfolding prepareRemoteLifecycleCollection_def parsed_databases_def [symmetric] bind_result_Inr_iff Let_def
  by (auto simp: collection_lifecycle_def bind_result_Inr_iff split: if_splits)

text \<open>
  C18: A saved lifecycle holds no password.  Every saved entry has an id, and the stored credentials carry the
  ids of the entries, in their order.
\<close>

theorem saved_settings_without_password:
  assumes "prepareRemoteLifecycleCollection encrypt fresh settings previous credentials = Ok (Some l, cs)"
  shows "(\<forall>d \<in> set (lifecycleDatabases l). db_password d = None \<and> db_databaseId d \<noteq> None) \<and>
    map Some (map dc_databaseId cs) = map db_databaseId (lifecycleDatabases l)"
proof -
  from assms obtain input existing ds where
    p: "prepare_entries encrypt fresh 0 (inherited_id input existing) existing credentials (lifecycleDatabases input) = Ok (ds, cs)"
    and l: "lifecycleDatabases l = ds" by (auto elim: prepare_collection_OkE)
  note * = prepare_entries_Ok(1,2) [OF p]
  have "map db_databaseId ds = map Some (map dc_databaseId cs)"
    unfolding * by (rule nth_equalityI) (simp_all add: saved_entry_def)
  moreover have "\<forall>d \<in> set ds. db_password d = None \<and> db_databaseId d \<noteq> None"
    unfolding * by (auto simp: saved_entry_def set_zip)
  ultimately show ?thesis using l by simp
qed

section \<open>Delivered passwords\<close>

lemma map_result_nth:
  "length ys = length xs \<Longrightarrow> (\<And>k. k < length xs \<Longrightarrow> f (xs ! k) = Ok (ys ! k)) \<Longrightarrow> map_result f xs = Ok ys"
proof (induction xs arbitrary: ys)
  case (Cons x xs)
  then obtain y ys' where ys: "ys = y # ys'" by (cases ys) auto
  have "f x = Ok y" using Cons.prems(2) [of 0] ys by simp
  moreover have "map_result f xs = Ok ys'"
    using Cons.prems Cons.prems(2) [of "Suc _"] ys by (intro Cons.IH) auto
  ultimately show ?case using ys by simp
qed simp

text \<open>The password a delivered entry has: the one given, or the one the plan kept.\<close>

definition entry_password ::
  "(string \<Rightarrow> string option) \<Rightarrow> database_credential list \<Rightarrow> remote_database \<Rightarrow> string \<Rightarrow> string option" where
  "entry_password decrypt credentials e i =
     (case db_password e of
        Some p \<Rightarrow> Some p
      | None \<Rightarrow> Option.bind (row_by dc_databaseId i credentials) (\<lambda>c. decrypt (dc_encryptedPassword c)))"

definition delivered_entry ::
  "(string \<Rightarrow> string option) \<Rightarrow> database_credential list \<Rightarrow> remote_database \<Rightarrow> string \<Rightarrow> remote_database" where
  "delivered_entry decrypt credentials e i =
     e\<lparr>db_databaseId := Some i, db_password := entry_password decrypt credentials e i, db_passwordConfigured := None\<rparr>"

lemma cipher_password:
  assumes "\<And>p. decrypt (encrypt p) = Some p" "saved_cipher encrypt credentials e i = Some c"
  shows "entry_password decrypt credentials e i = decrypt c"
  using assms by (auto simp: saved_cipher_def entry_password_def split: option.splits)

lemma deliver_saved_entry:
  assumes "row_by dc_databaseId i cs = Some c" "decrypt (dc_encryptedPassword c) = Some p"
  shows "deliver_entry decrypt cs (saved_entry e i) =
    Ok (e\<lparr>db_databaseId := Some i, db_password := Some p, db_passwordConfigured := None\<rparr>)"
  using assms by (simp add: deliver_entry_def saved_entry_def)

lemma database_ok_saved: "database_ok e \<Longrightarrow> databaseIdSchema i \<Longrightarrow> database_ok (saved_entry e i)"
  by (simp add: database_ok_def saved_entry_def)

lemma database_ok_delivered:
  "database_ok (e\<lparr>db_password := Some p\<rparr>) \<Longrightarrow> databaseIdSchema i \<Longrightarrow>
   database_ok (e\<lparr>db_databaseId := Some i, db_password := Some p, db_passwordConfigured := c\<rparr>)"
  by (simp add: database_ok_def)

lemma in_map_filter: "i \<in> set (List.map_filter f xs) \<longleftrightarrow> (\<exists>x \<in> set xs. f x = Some i)"
  by (induction xs) (auto simp: List.map_filter_simps split: option.splits)

lemma map_filter_Some: "map f xs = map Some ids \<Longrightarrow> List.map_filter f xs = ids"
  by (induction xs arbitrary: ids) (auto simp: List.map_filter_simps Cons_eq_map_conv)

lemma input_databases:
  assumes "lifecycle_ok input"
  shows "list_all database_ok (lifecycleDatabases input)" "length (lifecycleDatabases input) \<le> MAX_PLAN_DATABASES"
    "distinct (map (\<lambda>d. to_lower (db_dumpFilename d)) (lifecycleDatabases input))"
  using assms by (auto simp: lifecycle_ok_def lifecycleDatabases_def MAX_PLAN_DATABASES_def split: option.splits)

lemma collection_ok:
  assumes "lifecycle_ok input" "map db_dumpFilename ds = map db_dumpFilename (lifecycleDatabases input)"
    "list_all database_ok ds" "map db_databaseId ds = map Some ids" "distinct ids"
  shows "lifecycle_ok (collection_lifecycle input ds)"
proof -
  have "map (\<lambda>d. to_lower (db_dumpFilename d)) ds = map (\<lambda>d. to_lower (db_dumpFilename d)) (lifecycleDatabases input)"
    using arg_cong [OF assms(2), of "map to_lower"] by (simp add: comp_def)
  moreover have "length ds = length (lifecycleDatabases input)" using arg_cong [OF assms(2), of length] by simp
  moreover have "if_present hook_ok (lf_preHook input)" "if_present hook_ok (lf_postHook input)"
    using assms(1) by (simp_all add: lifecycle_ok_def)
  ultimately show ?thesis
    using input_databases [OF assms(1)] assms(3,5) map_filter_Some [OF assms(4)]
    by (simp add: lifecycle_ok_def collection_lifecycle_def)
qed

lemma entry_ids_distinct:
  assumes "inj_on fresh {n..<n + length es}" "distinct (List.map_filter db_databaseId es)"
    "\<And>n e. e \<in> set es \<Longrightarrow> db_databaseId e \<noteq> Some (''db_'' @ fresh n)"
  shows "distinct (entry_ids fresh None n es) \<and>
    set (entry_ids fresh None n es) \<subseteq>
      set (List.map_filter db_databaseId es) \<union> {''db_'' @ fresh k | k. n \<le> k \<and> k < n + length es}"
  using assms
proof (induction es arbitrary: n)
  case (Cons e es)
  have "inj_on fresh {Suc n..<Suc n + length es}" by (rule inj_on_subset [OF Cons.prems(1)]) auto
  then have IH: "distinct (entry_ids fresh None (Suc n) es)"
    "set (entry_ids fresh None (Suc n) es) \<subseteq> set (List.map_filter db_databaseId es) \<union>
       {''db_'' @ fresh k | k. Suc n \<le> k \<and> k < Suc n + length es}"
    using Cons.IH [of "Suc n"] Cons.prems(2,3) by (auto simp: List.map_filter_simps split: option.splits)
  have known: "''db_'' @ fresh k \<notin> set (List.map_filter db_databaseId (e # es))" for k
    using Cons.prems(3) unfolding in_map_filter by blast
  have other: "fresh n \<noteq> fresh k" if "Suc n \<le> k" "k < Suc n + length es" for k
    using inj_onD [OF Cons.prems(1), of n k] that by auto
  show ?case
  proof (cases "db_databaseId e")
    case None
    have "entry_id fresh None n e = ''db_'' @ fresh n" using None by (simp add: entry_id_def)
    moreover have "''db_'' @ fresh n \<notin> set (entry_ids fresh None (Suc n) es)"
    proof
      assume "''db_'' @ fresh n \<in> set (entry_ids fresh None (Suc n) es)"
      moreover have "''db_'' @ fresh n \<notin> set (List.map_filter db_databaseId es)"
        using known [of n] None by (simp add: List.map_filter_simps)
      ultimately obtain k where "''db_'' @ fresh n = ''db_'' @ fresh k" "Suc n \<le> k" "k < Suc n + length es"
        using IH(2) by blast
      then show False using other by simp
    qed
    ultimately show ?thesis using IH None by (fastforce simp: List.map_filter_simps)
  next
    case (Some i)
    then have "i \<notin> set (List.map_filter db_databaseId es)" "i \<noteq> ''db_'' @ fresh k" for k
      using Cons.prems by (auto simp: List.map_filter_simps)
    then show ?thesis using IH Some by (fastforce simp: entry_id_def List.map_filter_simps)
  qed
qed (simp add: List.map_filter_simps)

lemma known_ids_ok:
  assumes "lifecycle_ok input" "parsed_databases previous = Ok existing" "e \<in> set (lifecycleDatabases input)"
    "ident_ok 64 (fresh n)"
  shows "databaseIdSchema (entry_id fresh (inherited_id input existing) n e)"
proof -
  have new: "databaseIdSchema (''db_'' @ fresh n)" using assms(4) by (simp add: databaseIdSchema_def starts_with_def)
  have "list_all database_ok existing"
    using assms(2) input_databases(1)
    by (auto simp: parsed_databases_def bind_result_Inr_iff parseRemoteLifecycle_def remoteLifecycleSchema_def refine_Some
        split: option.splits)
  then have "inherited_id input existing = Some i \<Longrightarrow> databaseIdSchema i" for i
    by (auto simp: inherited_id_def database_ok_def split: list.splits if_splits)
  moreover have "db_databaseId e = Some i \<Longrightarrow> databaseIdSchema i" for i
    using input_databases(1) [OF assms(1)] assms(3) by (auto simp: list_all_iff database_ok_def)
  ultimately show ?thesis using new by (auto simp: entry_id_def split: option.splits)
qed

lemma saved_ids_distinct:
  assumes "lifecycle_ok input" "inj_on fresh {..<MAX_PLAN_DATABASES}"
    "\<And>n e. e \<in> set (lifecycleDatabases input) \<Longrightarrow> db_databaseId e \<noteq> Some (''db_'' @ fresh n)"
  shows "distinct (entry_ids fresh (inherited_id input existing) 0 (lifecycleDatabases input))"
proof (cases "lf_version input = 1")
  case True
  then have "length (lifecycleDatabases input) \<le> 1"
    by (simp add: lifecycleDatabases_def split: option.split)
  then show ?thesis by (cases "lifecycleDatabases input") auto
next
  case False
  then have "inherited_id input existing = None" by (simp add: inherited_id_def split: list.split)
  moreover have "distinct (List.map_filter db_databaseId (lifecycleDatabases input))"
    using assms(1) False by (auto simp: lifecycle_ok_def lifecycleDatabases_def split: option.splits)
  moreover have "inj_on fresh {0..<0 + length (lifecycleDatabases input)}"
    using assms(2) input_databases(2) [OF assms(1)] by (auto intro: inj_on_subset)
  ultimately show ?thesis using entry_ids_distinct assms(3) by simp
qed

lemma saved_password:
  assumes "saved_cipher encrypt credentials e i = Some cipher" "\<And>p. decrypt (encrypt p) = Some p" "database_ok e"
    "\<And>c. db_password e = None \<Longrightarrow> row_by dc_databaseId i credentials = Some c \<Longrightarrow>
      \<exists>p. decrypt (dc_encryptedPassword c) = Some p \<and> database_ok (e\<lparr>db_password := Some p\<rparr>)"
  obtains p where "decrypt cipher = Some p" "entry_password decrypt credentials e i = Some p" "database_ok (e\<lparr>db_password := Some p\<rparr>)"
proof (cases "db_password e")
  case None
  with assms(1) obtain c where c: "row_by dc_databaseId i credentials = Some c" "dc_encryptedPassword c = cipher"
    by (auto simp: saved_cipher_def)
  with assms(4) [OF None c(1)] that None show ?thesis by (auto simp: entry_password_def)
next
  case (Some p)
  have "e\<lparr>db_password := Some p\<rparr> = e" using Some by (cases e) simp
  moreover have "decrypt cipher = Some p" using Some assms(1,2) by (auto simp: saved_cipher_def)
  moreover have "entry_password decrypt credentials e i = Some p" using Some by (simp add: entry_password_def)
  ultimately show ?thesis using that [of p] assms(3) by metis
qed

lemma saved_lifecycle_ok:
  assumes "lifecycle_ok input" "distinct ids" "length ids = length (lifecycleDatabases input)" "list_all databaseIdSchema ids"
  shows "lifecycle_ok (collection_lifecycle input (map2 saved_entry (lifecycleDatabases input) ids))"
proof (rule collection_ok [OF assms(1) _ _ _ assms(2)])
  show "list_all database_ok (map2 saved_entry (lifecycleDatabases input) ids)"
    using assms input_databases(1) [OF assms(1)] by (auto simp: list_all_length intro: database_ok_saved)
qed (use assms(3) in \<open>auto simp: saved_entry_def intro!: nth_equalityI\<close>)

lemma delivered_lifecycle_ok:
  assumes "lifecycle_ok input" "distinct ids" "length ids = length (lifecycleDatabases input)" "list_all databaseIdSchema ids"
    "\<And>k. k < length ids \<Longrightarrow> \<exists>p. entry_password decrypt credentials (lifecycleDatabases input ! k) (ids ! k) = Some p \<and>
      database_ok ((lifecycleDatabases input ! k)\<lparr>db_password := Some p\<rparr>)"
  shows "lifecycle_ok (collection_lifecycle input (map2 (delivered_entry decrypt credentials) (lifecycleDatabases input) ids))"
proof (rule collection_ok [OF assms(1) _ _ _ assms(2)])
  show "list_all database_ok (map2 (delivered_entry decrypt credentials) (lifecycleDatabases input) ids)"
    unfolding list_all_length
  proof (intro allI impI)
    fix k assume "k < length (map2 (delivered_entry decrypt credentials) (lifecycleDatabases input) ids)"
    then have k: "k < length ids" by simp
    from assms(5) [OF k] obtain p where "entry_password decrypt credentials (lifecycleDatabases input ! k) (ids ! k) = Some p"
      "database_ok ((lifecycleDatabases input ! k)\<lparr>db_password := Some p\<rparr>)" by blast
    moreover have "databaseIdSchema (ids ! k)" using assms(4) k by (simp add: list_all_length)
    ultimately show "database_ok (map2 (delivered_entry decrypt credentials) (lifecycleDatabases input) ids ! k)"
      using k assms(3) database_ok_delivered by (simp add: delivered_entry_def)
  qed
qed (use assms(3) in \<open>auto simp: delivered_entry_def intro!: nth_equalityI\<close>)

lemma parse_stored: "lifecycle_ok l \<Longrightarrow> parseRemoteLifecycle (Some (lifecycle_json l)) = Ok l"
  by (simp add: parseRemoteLifecycle_def read_lifecycle_json)

lemma parsed_ok: "parseRemoteLifecycle v = Ok l \<Longrightarrow> lifecycle_ok l"
  by (auto simp: parseRemoteLifecycle_def remoteLifecycleSchema_def refine_Some split: option.splits bind_splits)

lemma deliver_saved:
  assumes "distinct (map dc_databaseId cs)" "map dc_databaseId cs = ids" "length es = length ids"
    "\<And>k. k < length ids \<Longrightarrow> \<exists>p. decrypt (dc_encryptedPassword (cs ! k)) = Some p \<and>
      entry_password decrypt credentials (es ! k) (ids ! k) = Some p"
  shows "map_result (deliver_entry decrypt cs) (map2 saved_entry es ids) = Ok (map2 (delivered_entry decrypt credentials) es ids)"
proof (rule map_result_nth)
  fix k assume "k < length (map2 saved_entry es ids)"
  then have k: "k < length ids" by simp
  have id: "k < length cs" "dc_databaseId (cs ! k) = ids ! k"
    using k assms(2) by (metis length_map, metis length_map nth_map)
  have "row_by dc_databaseId (ids ! k) cs = Some (cs ! k)"
    using row_by_unique [OF assms(1), of "cs ! k"] id by simp
  moreover from assms(4) [OF k] obtain p where "decrypt (dc_encryptedPassword (cs ! k)) = Some p"
    "entry_password decrypt credentials (es ! k) (ids ! k) = Some p" by blast
  ultimately show "deliver_entry decrypt cs (map2 saved_entry es ids ! k) =
      Ok (map2 (delivered_entry decrypt credentials) es ids ! k)"
    using k assms(3) by (simp add: deliver_saved_entry delivered_entry_def)
qed (use assms(3) in simp)

text \<open>
  C17: Saving and delivering are inverse.  What the server delivers of a saved lifecycle has, for every
  database entry, the password that was given for it, or the kept one where none was given, and the rest
  of the entry as it was given.  The cipher decrypts what it encrypted, new ids are unused, and a kept
  credential decrypts to a password the schema accepts.
\<close>

theorem delivered_password_roundtrip:
  assumes prepared: "prepareRemoteLifecycleCollection encrypt fresh settings previous credentials = Ok (Some l, cs)"
    and input: "parseRemoteLifecycle settings = Ok input"
    and cipher: "\<And>n p. decrypt (encrypt n p) = Some p"
    and fresh: "inj_on fresh {..<MAX_PLAN_DATABASES}" "\<And>n. n < MAX_PLAN_DATABASES \<Longrightarrow> ident_ok 64 (fresh n)"
      "\<And>n e. e \<in> set (lifecycleDatabases input) \<Longrightarrow> db_databaseId e \<noteq> Some (''db_'' @ fresh n)"
    and kept: "\<And>e i c. e \<in> set (lifecycleDatabases input) \<Longrightarrow> db_password e = None \<Longrightarrow>
      row_by dc_databaseId i credentials = Some c \<Longrightarrow>
      \<exists>p. decrypt (dc_encryptedPassword c) = Some p \<and> database_ok (e\<lparr>db_password := Some p\<rparr>)"
  shows "\<exists>m. materializeRemoteLifecycleCollection decrypt (Some (lifecycle_json l)) cs = Ok m \<and>
    lifecycleDatabases m = map2 (delivered_entry decrypt credentials) (lifecycleDatabases input) (map dc_databaseId cs)"
proof -
  let ?es = "lifecycleDatabases input"
  from prepared obtain existing ds where ex: "parsed_databases previous = Ok existing"
    and ds: "prepare_entries encrypt fresh 0 (inherited_id input existing) existing credentials ?es = Ok (ds, cs)"
    and l: "l = collection_lifecycle input ds"
    using input by (auto elim: prepare_collection_OkE)
  let ?ids = "entry_ids fresh (inherited_id input existing) 0 ?es"
  note entries = prepare_entries_Ok [OF ds] and ok = parsed_ok [OF input]
  have ids: "distinct ?ids" "list_all databaseIdSchema ?ids"
    using saved_ids_distinct [OF ok fresh(1,3)] known_ids_ok [OF ok ex] fresh(2) input_databases(2) [OF ok]
    by (auto simp: list_all_length nth_entry_ids)
  have pw: "\<exists>p. decrypt (dc_encryptedPassword (cs ! k)) = Some p \<and> entry_password decrypt credentials (?es ! k) (?ids ! k) = Some p \<and>
      database_ok ((?es ! k)\<lparr>db_password := Some p\<rparr>)" if k: "k < length ?ids" for k
  proof -
    have k': "k < length ?es" using k by simp
    have "length cs = length ?es" using arg_cong [OF entries(2), of length] by simp
    then have "dc_databaseId (cs ! k) = ?ids ! k" using entries(2) k' by (metis nth_map)
    note c = entries(3) [OF k', unfolded this]
    have "database_ok (?es ! k)" using input_databases(1) [OF ok] k' by (simp add: list_all_length)
    then show ?thesis
      by (rule saved_password [OF c cipher]) (use kept [OF nth_mem [OF k']] in blast)+
  qed
  have "lifecycle_ok l" unfolding l entries(1) by (rule saved_lifecycle_ok [OF ok ids(1) _ ids(2)]) simp
  moreover have "map_result (deliver_entry decrypt cs) ds = Ok (map2 (delivered_entry decrypt credentials) ?es ?ids)"
    unfolding entries(1) by (rule deliver_saved [OF _ entries(2)]) (use entries(2) ids(1) pw in auto)
  moreover have "lifecycle_ok (collection_lifecycle input (map2 (delivered_entry decrypt credentials) ?es ?ids))"
    by (rule delivered_lifecycle_ok [OF ok ids(1) _ ids(2)]) (use pw in auto)
  ultimately have "materializeRemoteLifecycleCollection decrypt (Some (lifecycle_json l)) cs =
      Ok (collection_lifecycle input (map2 (delivered_entry decrypt credentials) ?es ?ids))"
    by (simp add: materializeRemoteLifecycleCollection_def parse_stored l or_unavailable_def revalidate_def
        collection_lifecycle_def [symmetric]) (simp add: collection_lifecycle_def)
  then show ?thesis using entries(2) by simp
qed

section \<open>An example\<close>

definition sample_database :: remote_database where
  "sample_database = \<lparr>db_databaseId = None, db_engine = ''mysql'', db_host = ''localhost'', db_port = 3306, db_tls = ''local'',
     db_database = ''shop'', db_username = ''backup'', db_dumpFilename = ''shop.sql'', db_timeoutSeconds = 60,
     db_maxDumpBytes = 4096, db_includeRoutines = True, db_includeEvents = False, db_password = Some ''pw'',
     db_passwordConfigured = None\<rparr>"

definition sample_lifecycle :: remote_lifecycle where
  "sample_lifecycle = \<lparr>lf_version = 1, lf_database = Some sample_database, lf_databases = None, lf_preHook = None, lf_postHook = None\<rparr>"

definition sample_encrypt :: "nat \<Rightarrow> string \<Rightarrow> string" where
  "sample_encrypt n p = CHR ''x'' # p"

definition sample_decrypt :: "string \<Rightarrow> string option" where
  "sample_decrypt c = Some (tl c)"

definition sample_fresh :: "nat \<Rightarrow> string" where
  "sample_fresh n = replicate (Suc n) (CHR ''a'')"

definition sample_credential :: database_credential where
  "sample_credential = \<lparr>dc_databaseId = ''db_a'', dc_encryptedPassword = ''xpw'', dc_legacySingle = False\<rparr>"

lemma sample_prepared:
  "prepareRemoteLifecycleCollection sample_encrypt sample_fresh (Some (lifecycle_json sample_lifecycle)) None [] =
     Ok (Some (collection_lifecycle sample_lifecycle [saved_entry sample_database ''db_a'']), [sample_credential])"
  by code_simp

theorem saved_settings_without_password_witness:
  "db_password (saved_entry sample_database ''db_a'') = None \<and>
   map Some (map dc_databaseId [sample_credential]) = map db_databaseId [saved_entry sample_database ''db_a'']"
  using saved_settings_without_password [OF sample_prepared] by simp

theorem delivered_password_roundtrip_witness:
  "\<exists>m. materializeRemoteLifecycleCollection sample_decrypt
      (Some (lifecycle_json (collection_lifecycle sample_lifecycle [saved_entry sample_database ''db_a'']))) [sample_credential] = Ok m \<and>
    lifecycleDatabases m = [sample_database\<lparr>db_databaseId := Some ''db_a''\<rparr>]"
proof -
  have input: "parseRemoteLifecycle (Some (lifecycle_json sample_lifecycle)) = Ok sample_lifecycle" by code_simp
  have inj: "inj_on sample_fresh {..<MAX_PLAN_DATABASES}" by (auto simp: inj_on_def sample_fresh_def)
  have ok: "ident_ok 64 (sample_fresh n)" if "n < MAX_PLAN_DATABASES" for n
    using that by (auto simp: ident_ok_def sample_fresh_def MAX_PLAN_DATABASES_def is_ident_char_def is_alnum_def is_lower_def
        list_all_iff less_eq_char_def)
  have dbs: "lifecycleDatabases sample_lifecycle = [sample_database]" by code_simp
  have "map2 (delivered_entry sample_decrypt []) [sample_database] (map dc_databaseId [sample_credential]) =
      [sample_database\<lparr>db_databaseId := Some ''db_a''\<rparr>]" by code_simp
  with delivered_password_roundtrip [OF sample_prepared input _ inj ok, of sample_decrypt] show ?thesis
    by (simp add: dbs sample_encrypt_def sample_decrypt_def sample_database_def)
qed

end
