(* ===== verification/Remote_Progress.thy ===== *)
theory Remote_Progress
  imports Complex_Main Backup_Exclusions
begin

text \<open>
  What a remote agent reports of a running backup: the closed failure texts
  (\<open>backend/src/utils/remoteBackupDiagnostics.ts\<close>), the diagnostics of unreadable sources
  (\<open>sourceDiagnostics.ts\<close>) and the merge of progress events into the backup row
  (\<open>remoteBackupProgress.ts\<close>).  Counters are JSON numbers, here rationals.
\<close>

section \<open>Failure texts\<close>

definition failure_messages :: "(string \<times> string) list" where
  "failure_messages = [
     (''command-lease-unavailable'', ''Command lease is expired, invalid or unavailable; backup stopped safely.''),
     (''command-authorization-rejected'', ''The server rejected Agent authorization; backup stopped safely.''),
     (''control-plane-rate-limited'', ''Command status requests were rate limited after bounded retries; backup stopped safely.''),
     (''control-plane-unavailable'', ''Command status service was unavailable after bounded retries; backup stopped safely.''),
     (''control-plane-timeout'', ''Command status could not be established before its deadline; backup stopped safely.''),
     (''control-plane-network-failed'', ''Command status transport failed after bounded retries; backup stopped safely.''),
     (''control-plane-response-invalid'', ''Command status returned malformed JSON or an invalid status schema; backup stopped safely.''),
     (''control-plane-unexpected'', ''An unexpected application exception prevented command status verification; backup stopped safely.''),
     (''database-artifact-finalization-failed'', ''The dump completed but its private artifact/credential finalization failed; no backup was authorized.''),
     (''database-invalid-configuration'', ''The database name or native client connection configuration is invalid. Check the saved database configuration; dump defaults were not changed.''),
     (''invalid-payload'', ''The backup command configuration is invalid.''),
     (''source-validation-failed'', ''The source could not be validated. Run the local read-only source preflight.''),
     (''state-overlap'', ''The source overlaps private agent state; backup was refused.''),
     (''state-validation-failed'', ''Private agent state could not be validated.''),
     (''tool-unavailable'', ''The private backup tools are unavailable.''),
     (''sftp-password-obscure-failed'', ''The private SFTP authentication configuration could not be prepared.''),
     (''temporary-config-failed'', ''Private temporary storage configuration could not be prepared.''),
     (''repository-check-failed'', ''The repository could not be checked.''),
     (''repository-target-check-failed'', ''The managed repository target could not be checked.''),
     (''repository-target-not-empty'', ''Repository initialization was refused because the target is not empty.''),
     (''target-check-access-failed'', ''Access to the managed repository target was denied.''),
     (''target-check-auth-failed'', ''Storage authentication failed.''),
     (''target-check-transport-failed'', ''The storage connection failed.''),
     (''repository-initialization-failed'', ''The managed repository could not be initialized.''),
     (''restic-backup-failed'', ''Restic backup failed; no successful snapshot was confirmed.''),
     (''restic-summary-missing'', ''No valid snapshot summary was returned.''),
     (''cleanup-failed'', ''Private temporary state cleanup needs attention.''),
     (''unexpected'', ''Remote backup failed unexpectedly.''),
     (''workspace-failed'', ''The private lifecycle workspace could not be prepared.''),
     (''hook-invalid'', ''The configured hook violates the allowed hook policy.''),
     (''hook-failed'', ''The configured hook failed.''),
     (''hook-timeout'', ''The configured hook exceeded its timeout.''),
     (''hook-output-limit'', ''The configured hook exceeded its output limit.''),
     (''snapshot-confirmation-failed'', ''The exact snapshot and required artifacts could not be confirmed.''),
     (''source-parent-not-traversable'', ''The service account cannot traverse a source parent directory. Run the read-only agent preflight and review only the required traverse permissions.''),
     (''source-root-not-readable'', ''The source root is not readable/traversable by pluton-agent. Review read-only access to its canonical path.''),
     (''source-entry-inaccessible'', ''A source file or directory is inaccessible to pluton-agent. Run the explicit read-only source scan; do not broaden permissions automatically.''),
     (''source-missing'', ''The configured source or an expected source entry is missing.''),
     (''source-symlink-escape'', ''The source symlink resolves outside its allowed roots or changed during validation.''),
     (''source-unsupported-type'', ''The selected source has an unsupported file type.''),
     (''source-policy-violation'', ''The source violates canonical allowed-root containment or path policy.''),
     (''database-auth-failed'', ''Database authentication failed. Verify the backup credential and authentication policy.''),
     (''database-insufficient-privileges'', ''Database dump privileges are insufficient. Review database grants and requested routines/events; the password may be correct. Dump options were not changed.''),
     (''database-unavailable'', ''The database connection failed. Check the configured host, port and network reachability.''),
     (''database-tls-verification-failed'', ''Database TLS verification failed. Check trusted CA material and the server identity; do not disable verification to force a pass.''),
     (''database-dump-timeout'', ''The database dump exceeded its configured timeout.''),
     (''database-tool-unavailable'', ''The required database dump client is unavailable.''),
     (''database-client-missing'', ''The required database dump client is missing or cannot be started.''),
     (''database-client-incompatible'', ''The database dump client is incompatible with the server.''),
     (''lifecycle-invalid'', ''The database/hooks configuration is invalid.''),
     (''database-dump-invalid'', ''Database dump output is invalid.''),
     (''database-output-empty'', ''The database dump produced no valid SQL output.''),
     (''database-dump-failed'', ''The database dump failed. A partial temporary SQL file is not a successful backup.''),
     (''database-dump-output-limit'', ''The database dump exceeded its configured output limit.''),
     (''cancelled'', ''The remote backup was cancelled.'')]"

definition failure_stages :: "string list" where
  "failure_stages = [''post-dump-status-check'', ''command-status-check'', ''payload-validation'', ''source-validation'',
     ''state-validation'', ''tool-validation'', ''sftp-password-obscure'', ''temporary-storage-config'', ''repository-check'',
     ''repository-target-check'', ''repository-initialization'', ''restic-backup'', ''cleanup'', ''lifecycle-validation'',
     ''workspace-creation'', ''pre-backup'', ''database-dump'', ''database-dump-validation'', ''snapshot-confirmation'',
     ''post-backup'']"

record failure_input =
  fi_failureStage :: "string option"
  fi_failureCode :: "string option"
  fi_databaseId :: "string option"
  fi_engine :: "string option"
  fi_cancelled :: bool

definition failure_code :: "failure_input \<Rightarrow> string option" where
  "failure_code i = (if fi_cancelled i then Some ''cancelled'' else fi_failureCode i)"

definition failure_message :: "string option \<Rightarrow> string" where
  "failure_message code =
     (case Option.bind code (map_of failure_messages) of
        Some m \<Rightarrow> m
      | None \<Rightarrow> ''Remote backup failed. Review the agent safe stage/code diagnostics.'')"

definition safe_stage :: "string option \<Rightarrow> string" where
  "safe_stage stage = (case stage of Some s \<Rightarrow> if s \<in> set failure_stages then s else ''unknown-stage'' | None \<Rightarrow> ''unknown-stage'')"

definition safe_code :: "string option \<Rightarrow> string" where
  "safe_code code =
     (case code of
        Some c \<Rightarrow> if c \<in> fst ` set failure_messages then c else ''unspecified''
      | None \<Rightarrow> ''unspecified'')"

text \<open>\<open>/^db_[A-Za-z0-9_-]{1,80}$/\<close>\<close>

definition failure_database :: "failure_input \<Rightarrow> string" where
  "failure_database i =
     (case fi_databaseId i of
        Some d \<Rightarrow>
          if starts_with ''db_'' d \<and> ident_ok 80 (drop 3 d)
          then ''; databaseId='' @ d @ ''; engine='' @
               (case fi_engine i of
                  Some e \<Rightarrow> if e \<in> {''mariadb'', ''mysql'', ''postgresql''} then e else ''unknown''
                | None \<Rightarrow> ''unknown'')
          else []
      | None \<Rightarrow> [])"

definition remoteBackupFailure :: "failure_input \<Rightarrow> string" where
  "remoteBackupFailure i =
     failure_message (failure_code i) @ '' ('' @ safe_stage (fi_failureStage i) @ ''/'' @ safe_code (failure_code i) @
     failure_database i @ '').''"

section \<open>Diagnostics of a source\<close>

text \<open>
  \<open>[\p{L}\p{N}\p{M} ._+@()[\]{}!#$%&',;~/-]\<close>; there is no combining mark below U+0100.
\<close>

definition diagnostic_char :: "char \<Rightarrow> bool" where
  "diagnostic_char c \<longleftrightarrow> is_letter c \<or> is_number c \<or> c \<in> set '' ._+@()[]{}!#$%&,;~/-'' \<or> c = CHR 0x27"

text \<open>A word, white space and an equals sign.\<close>

fun assigned_word :: "string \<Rightarrow> string \<Rightarrow> bool" where
  "assigned_word w [] \<longleftrightarrow> False"
| "assigned_word w (c # cs) \<longleftrightarrow>
     (starts_with w (c # cs) \<and> starts_with ''='' (dropWhile is_space (drop (length w) (c # cs)))) \<or> assigned_word w cs"

definition secret_text :: "string \<Rightarrow> bool" where
  "secret_text v \<longleftrightarrow>
     (let t = to_lower v in
      list_ex (\<lambda>w. assigned_word w t) [''password'', ''token'', ''secret'', ''credential'', ''key''] \<or>
      includes_text ''-----begin'' t \<or> includes_text ''://'' t)"

definition safeDiagnosticRelativePath :: "string \<Rightarrow> bool" where
  "safeDiagnosticRelativePath v \<longleftrightarrow>
     v = ''.'' \<or>
     (v \<noteq> [] \<and> length v \<le> 512 \<and> list_all diagnostic_char v \<and> \<not> starts_with ''/'' v \<and>
      \<not> list_ex (\<lambda>part. part = [] \<or> part = ''.'' \<or> part = ''..'') (split_on slash v) \<and> \<not> secret_text v)"

record source_entry =
  se_relativePath :: "string option"
  se_entryType :: string
  se_errno :: string

text \<open>The version is the constant 1, \<open>excluded\<close> of an entry the constant \<open>false\<close>.\<close>

record source_diagnostics =
  sd_origin :: string
  sd_problemCount :: int
  sd_countIsLowerBound :: bool
  sd_entries :: "source_entry list"

fun parse_one_of :: "string list \<Rightarrow> json \<Rightarrow> string option" where
  "parse_one_of xs (JStr s) = (if s \<in> set xs then Some s else None)"
| "parse_one_of xs _ = None"

fun parse_false :: "json \<Rightarrow> unit option" where
  "parse_false (JBool b) = (if b then None else Some ())"
| "parse_false _ = None"

fun parse_source_entry :: "json \<Rightarrow> source_entry option" where
  "parse_source_entry (JObj fs) =
     (if \<not> strict_keys [''relativePath'', ''entryType'', ''errno'', ''excluded''] fs then None
      else case (optional_field (parse_str_if (\<lambda>s. length s \<le> 512 \<and> safeDiagnosticRelativePath s)) ''relativePath'' fs,
                 required_field (parse_one_of [''file'', ''directory'', ''symlink'', ''other'', ''unknown'']) ''entryType'' fs,
                 required_field (parse_one_of [''EACCES'', ''EPERM'', ''ENOENT'', ''ENOTDIR'', ''ELOOP'', ''UNKNOWN'']) ''errno'' fs,
                 required_field parse_false ''excluded'' fs) of
             (Some p, Some t, Some e, Some _) \<Rightarrow> Some \<lparr>se_relativePath = p, se_entryType = t, se_errno = e\<rparr>
           | _ \<Rightarrow> None)"
| "parse_source_entry _ = None"

fun read_diagnostics :: "json \<Rightarrow> source_diagnostics option" where
  "read_diagnostics (JObj fs) =
     (if \<not> strict_keys [''version'', ''origin'', ''problemCount'', ''countIsLowerBound'', ''entries''] fs then None
      else case (required_field parse_version_one ''version'' fs,
                 required_field (parse_one_of [''preflight'', ''restic'']) ''origin'' fs,
                 required_field (parse_int_in 1 MAX_SAFE_INTEGER) ''problemCount'' fs,
                 required_field parse_bool ''countIsLowerBound'' fs,
                 required_field (refine (\<lambda>xs. 1 \<le> length xs \<and> length xs \<le> 20) (parse_array parse_source_entry)) ''entries'' fs) of
             (Some _, Some og, Some n, Some b, Some es) \<Rightarrow>
               Some \<lparr>sd_origin = og, sd_problemCount = n, sd_countIsLowerBound = b, sd_entries = es\<rparr>
           | _ \<Rightarrow> None)"
| "read_diagnostics _ = None"

definition sourceDiagnosticsSchema :: "json \<Rightarrow> source_diagnostics option" where
  "sourceDiagnosticsSchema = refine (\<lambda>r. int (length (sd_entries r)) \<le> sd_problemCount r) read_diagnostics"

text \<open>\<open>/^v?(\d+)\.(\d+)\.(\d+)$/\<close>\<close>

fun decimal_value :: "nat \<Rightarrow> string \<Rightarrow> nat" where
  "decimal_value n [] = n"
| "decimal_value n (c # cs) = decimal_value (10 * n + (of_char c - 48)) cs"

definition exact_version :: "string \<Rightarrow> (nat \<times> nat \<times> nat) option" where
  "exact_version s =
     (case split_on (CHR ''.'') (if starts_with ''v'' s then tl s else s) of
        [a, b, c] \<Rightarrow> if list_all (\<lambda>x. x \<noteq> [] \<and> list_all is_digit x) [a, b, c]
                     then Some (decimal_value 0 a, decimal_value 0 b, decimal_value 0 c) else None
      | _ \<Rightarrow> None)"

definition supportsSourceDiagnostics :: "string \<Rightarrow> bool" where
  "supportsSourceDiagnostics version =
     (case exact_version version of
        None \<Rightarrow> False
      | Some (major, minor, patch) \<Rightarrow> 0 < major \<or> 7 < minor \<or> (minor = 7 \<and> 1 \<le> patch))"

record source_failure =
  sf_failureStage :: string
  sf_failureCode :: string
  sf_sourceDiagnostics :: "source_diagnostics option"

section \<open>Progress\<close>

definition remoteBackupStages :: "string list" where
  "remoteBackupStages = [''preparing-backup'', ''validating-source'', ''preparing-storage'', ''checking-existing-snapshot'',
     ''preparing-database'', ''pre-backup'', ''dumping-database'', ''preparing-repository'', ''backing-up'',
     ''verifying-snapshot'', ''post-backup'', ''cleanup'']"

definition legacyStages :: "(string \<times> string) list" where
  "legacyStages = [(''pre-backup-started'', ''pre-backup''), (''database-dump-started'', ''dumping-database''),
     (''database-dump-completed'', ''dumping-database''), (''backup-started'', ''backing-up''),
     (''backup-completed'', ''verifying-snapshot''), (''post-backup-started'', ''post-backup''),
     (''cleanup-completed'', ''cleanup''), (''cleanup-warning'', ''cleanup'')]"

record event_progress =
  ep_bytesProcessed :: "rat option"
  ep_filesProcessed :: "rat option"
  ep_totalBytesProcessed :: "rat option"
  ep_totalFilesProcessed :: "rat option"

record progress_event =
  pe_phase :: "string option"
  pe_backupStage :: "string option"
  pe_lifecycleStage :: "string option"
  pe_databaseId :: "string option"
  pe_engine :: "string option"
  pe_ordinal :: "int option"
  pe_count :: "int option"
  pe_progress :: "event_progress option"

record progress_stats =
  pg_sourceFailure :: "source_failure option"
  pg_backupStage :: "string option"
  pg_remoteCommandId :: "string option"
  pg_remoteAttempt :: "int option"
  pg_remoteEventSequence :: "int option"
  pg_databaseId :: "string option"
  pg_databaseEngine :: "string option"
  pg_databaseOrdinal :: "int option"
  pg_databaseCount :: "int option"
  pg_lifecycleStage :: "string option"
  pg_bytesProcessed :: rat
  pg_filesProcessed :: rat
  pg_total_files_processed :: rat
  pg_total_bytes_processed :: rat

text \<open>The columns of a backup that the remote backup service and the agents change; dates are in seconds.\<close>

record backup_record =
  br_id :: string
  br_createdAt :: int
  br_updatedAt :: "int option"
  br_started :: "int option"
  br_ended :: "int option"
  br_inProgress :: "bool option"
  br_success :: "bool option"
  br_status :: "string option"
  br_errorMsg :: "string option"
  br_planId :: "string option"
  br_storageId :: "string option"
  br_storagePath :: "string option"
  br_sourceId :: string
  br_method :: string
  br_sourceType :: string
  br_sourceConfig :: "json option"
  br_encryption :: "bool option"
  br_compression :: "bool option"
  br_progressStats :: "progress_stats option"
  br_completionStats :: "json option"
  br_taskStats :: "json option"
  br_mirrors :: "(string \<times> json) list list"

definition terminal_status :: "string option \<Rightarrow> bool" where
  "terminal_status s \<longleftrightarrow> s \<in> {Some ''completed'', Some ''failed'', Some ''cancelled''}"

text \<open>\<open>number\<close>: absent and negative values count as zero.\<close>

definition counter :: "rat option \<Rightarrow> rat" where
  "counter v = (case v of Some x \<Rightarrow> if 0 \<le> x then x else 0 | None \<Rightarrow> 0)"

text \<open>\<open>a || b\<close> on optional strings.\<close>

definition or_else :: "string option \<Rightarrow> string option \<Rightarrow> string option" where
  "or_else a b = (if a = None \<or> a = Some [] then b else a)"

fun index_of :: "string \<Rightarrow> string list \<Rightarrow> int" where
  "index_of x [] = -1"
| "index_of x (y # ys) = (if x = y then 0 else let i = index_of x ys in if i = -1 then -1 else i + 1)"

definition stage_rank :: "string option \<Rightarrow> int" where
  "stage_rank s = (case s of None \<Rightarrow> -1 | Some x \<Rightarrow> index_of x remoteBackupStages)"

definition event_stage :: "progress_event \<Rightarrow> string option" where
  "event_stage e = or_else (pe_backupStage e)
     (if pe_lifecycleStage e = Some [] then None else Option.bind (pe_lifecycleStage e) (map_of legacyStages))"

text \<open>The number of the attempt and of the event, zero where there is none.\<close>

definition reported_attempt :: "progress_stats option \<Rightarrow> int" where
  "reported_attempt p = (case p of None \<Rightarrow> 0 | Some s \<Rightarrow> (case pg_remoteAttempt s of None \<Rightarrow> 0 | Some n \<Rightarrow> n))"

definition reported_sequence :: "progress_stats option \<Rightarrow> int" where
  "reported_sequence p = (case p of None \<Rightarrow> 0 | Some s \<Rightarrow> (case pg_remoteEventSequence s of None \<Rightarrow> 0 | Some n \<Rightarrow> n))"

definition other_command :: "progress_stats option \<Rightarrow> string \<Rightarrow> bool" where
  "other_command p commandId \<longleftrightarrow>
     (case p of None \<Rightarrow> False
      | Some s \<Rightarrow> (case pg_remoteCommandId s of None \<Rightarrow> False | Some c \<Rightarrow> c \<noteq> [] \<and> c \<noteq> commandId))"

definition no_stats :: progress_stats where
  "no_stats = \<lparr>pg_sourceFailure = None, pg_backupStage = None, pg_remoteCommandId = None, pg_remoteAttempt = None,
     pg_remoteEventSequence = None, pg_databaseId = None, pg_databaseEngine = None, pg_databaseOrdinal = None,
     pg_databaseCount = None, pg_lifecycleStage = None, pg_bytesProcessed = 0, pg_filesProcessed = 0,
     pg_total_files_processed = 0, pg_total_bytes_processed = 0\<rparr>"

text \<open>The new statistics over the current ones, those of the same attempt or none.\<close>

definition merged_stats :: "progress_stats option \<Rightarrow> string \<Rightarrow> int \<Rightarrow> int \<Rightarrow> progress_event \<Rightarrow> progress_stats" where
  "merged_stats current commandId attempt sequence e =
     (let c = (case current of None \<Rightarrow> no_stats | Some s \<Rightarrow> s);
          g = (\<lambda>f. Option.bind (pe_progress e) f);
          best = (\<lambda>old new. max (counter (Some old)) (counter new));
          stage = event_stage e;
          s1 = c\<lparr>pg_remoteCommandId := Some commandId, pg_remoteAttempt := Some attempt,
                pg_remoteEventSequence := Some sequence,
                pg_bytesProcessed := best (pg_bytesProcessed c) (g ep_bytesProcessed),
                pg_filesProcessed := best (pg_filesProcessed c) (g ep_filesProcessed),
                pg_total_bytes_processed := best (pg_total_bytes_processed c) (g ep_totalBytesProcessed),
                pg_total_files_processed := best (pg_total_files_processed c) (g ep_totalFilesProcessed)\<rparr>;
          s2 = (if 0 \<le> stage_rank stage \<and> stage_rank (pg_backupStage c) \<le> stage_rank stage
                then s1\<lparr>pg_backupStage := stage\<rparr> else s1);
          s3 = (if or_else (pe_lifecycleStage e) None = None then s2 else s2\<lparr>pg_lifecycleStage := pe_lifecycleStage e\<rparr>)
      in if or_else (pe_databaseId e) None = None then s3
         else s3\<lparr>pg_databaseId := pe_databaseId e, pg_databaseEngine := pe_engine e, pg_databaseOrdinal := pe_ordinal e,
                 pg_databaseCount := pe_count e\<rparr>)"

text \<open>The new status and statistics, or nothing to change.\<close>

definition mergeRemoteProgress ::
  "backup_record \<Rightarrow> string \<Rightarrow> int \<Rightarrow> int \<Rightarrow> progress_event \<Rightarrow> (string \<times> progress_stats) option" where
  "mergeRemoteProgress b commandId attempt sequence e =
     (let previous = br_progressStats b; retry = (reported_attempt previous < attempt) in
      if br_inProgress b \<noteq> Some True \<or> terminal_status (br_status b) then None
      else if other_command previous commandId then None
      else if attempt < reported_attempt previous then None
      else if \<not> retry \<and> sequence \<le> reported_sequence previous then None
      else Some (if pe_phase e = Some ''accepted'' \<and> (retry \<or> br_status b = Some ''queued'') then ''queued'' else ''started'',
                 merged_stats (if retry then None else previous) commandId attempt sequence e))"

section \<open>Projection\<close>

text \<open>
  \<open>/\(([a-z-]{1,60})\/([a-z-]{1,80})(?:;[^)]*)?\)\.?$/\<close>: the match that starts at the first possible
  bracket.  After a bracket the match is determined.
\<close>

definition is_kebab :: "char \<Rightarrow> bool" where
  "is_kebab c \<longleftrightarrow> is_lower c \<or> c = CHR ''-''"

definition closing :: "string \<Rightarrow> bool" where
  "closing s \<longleftrightarrow> s = '')'' \<or> s = '').''"

definition bracket_match :: "string \<Rightarrow> (string \<times> string) option" where
  "bracket_match s =
     (let stage = takeWhile is_kebab s; r = dropWhile is_kebab s in
      if stage = [] \<or> 60 < length stage \<or> \<not> starts_with ''/'' r then None
      else let code = takeWhile is_kebab (tl r); q = dropWhile is_kebab (tl r) in
           if code = [] \<or> 80 < length code then None
           else if closing q \<or> (starts_with '';'' q \<and> closing (dropWhile (\<lambda>c. c \<noteq> CHR '')'') (tl q))) then Some (stage, code)
           else None)"

fun find_failure :: "string \<Rightarrow> (string \<times> string) option" where
  "find_failure [] = None"
| "find_failure (c # cs) =
     (if c = CHR ''('' then (case bracket_match cs of Some m \<Rightarrow> Some m | None \<Rightarrow> find_failure cs) else find_failure cs)"

definition historicalFailure :: "string option \<Rightarrow> failure_input" where
  "historicalFailure message =
     (case find_failure (case message of None \<Rightarrow> [] | Some m \<Rightarrow> m) of
        Some (s, c) \<Rightarrow> \<lparr>fi_failureStage = Some s, fi_failureCode = Some c, fi_databaseId = None, fi_engine = None, fi_cancelled = False\<rparr>
      | None \<Rightarrow> \<lparr>fi_failureStage = None, fi_failureCode = None, fi_databaseId = None, fi_engine = None, fi_cancelled = False\<rparr>)"

record progress_view =
  pv_stats :: "progress_stats option"
  pv_planId :: "string option"
  pv_backupId :: string
  pv_status :: "string option"
  pv_startTime :: int
  pv_lastUpdate :: int
  pv_backupStage :: "string option"
  pv_attempt :: int
  pv_phase :: string
  pv_action :: string
  pv_completed :: bool
  pv_completionStats :: "json option"
  pv_counters :: "(rat \<times> rat \<times> rat \<times> rat) option"
  pv_error :: "string option"

definition first_date :: "int option \<Rightarrow> int option \<Rightarrow> int \<Rightarrow> int" where
  "first_date a b c = (case a of Some x \<Rightarrow> x | None \<Rightarrow> (case b of Some y \<Rightarrow> y | None \<Rightarrow> c))"

definition shown_stage :: "backup_record \<Rightarrow> string option" where
  "shown_stage b =
     (if terminal_status (br_status b) then br_status b
      else let stats = br_progressStats b;
               life = Option.bind (Option.bind stats pg_lifecycleStage) (map_of legacyStages) in
           or_else (Option.bind stats pg_backupStage)
             (or_else life (Some (if br_status b = Some ''queued'' then ''queued'' else ''backing-up''))))"

definition source_failure_input :: "source_failure \<Rightarrow> failure_input" where
  "source_failure_input f = \<lparr>fi_failureStage = Some (sf_failureStage f), fi_failureCode = Some (sf_failureCode f),
     fi_databaseId = None, fi_engine = None, fi_cancelled = False\<rparr>"

definition shown_action :: "string option \<Rightarrow> string" where
  "shown_action status =
     (if terminal_status status
      then (if status = Some ''completed'' then ''TASK_COMPLETED''
            else if status = Some ''cancelled'' then ''TASK_CANCELLED'' else ''TASK_FAILED'')
      else ''BACKUP_OPERATION_START'')"

definition projectRemoteProgress :: "backup_record \<Rightarrow> progress_view" where
  "projectRemoteProgress b =
     (let stats = br_progressStats b; finished = terminal_status (br_status b);
          successful = (br_status b = Some ''completed'');
          count = (\<lambda>f. case stats of None \<Rightarrow> 0 | Some s \<Rightarrow> f s) in
      \<lparr>pv_stats = stats, pv_planId = br_planId b, pv_backupId = br_id b, pv_status = br_status b,
       pv_startTime = first_date (br_started b) None (br_createdAt b),
       pv_lastUpdate = first_date (br_updatedAt b) (br_started b) (br_createdAt b),
       pv_backupStage = shown_stage b,
       pv_attempt = (let n = reported_attempt stats in if n = 0 then 1 else n),
       pv_phase = (if finished then ''finished'' else ''backup''), pv_action = shown_action (br_status b),
       pv_completed = finished,
       pv_completionStats = (if successful then br_completionStats b else None),
       pv_counters = (if successful then None
                      else Some (count pg_filesProcessed, count pg_bytesProcessed, count pg_total_files_processed,
                                 count pg_total_bytes_processed)),
       pv_error = (if br_status b = Some ''failed''
                   then Some (remoteBackupFailure (case Option.bind stats pg_sourceFailure of
                                Some f \<Rightarrow> source_failure_input f | None \<Rightarrow> historicalFailure (br_errorMsg b)))
                   else None)\<rparr>)"

end
