(* ===== verification/Progress_Guarantees.thy ===== *)
theory Progress_Guarantees
  imports Remote_Progress
begin

text \<open>
  Progress reports arrive late, twice or out of order.  The stored progress is that of the latest report
  of the latest attempt, and within an attempt it never moves back.  A stored failure text gives its
  stage and code back.
\<close>

section \<open>Order of reports\<close>

definition position :: "progress_stats option \<Rightarrow> int \<times> int" where
  "position p = (reported_attempt p, reported_sequence p)"

text \<open>A report: command, attempt, sequence and event.  The row after it.\<close>

definition apply_report :: "string \<times> int \<times> int \<times> progress_event \<Rightarrow> backup_record \<Rightarrow> backup_record" where
  "apply_report r b =
     (case r of (commandId, attempt, sequence, e) \<Rightarrow>
        case mergeRemoteProgress b commandId attempt sequence e of
          None \<Rightarrow> b
        | Some (st, p) \<Rightarrow> b\<lparr>br_status := Some st, br_progressStats := Some p\<rparr>)"

lemma merged_stats_fields:
  "pg_remoteAttempt (merged_stats cur c att sq e) = Some att"
  "pg_remoteEventSequence (merged_stats cur c att sq e) = Some sq"
  "pg_remoteCommandId (merged_stats cur c att sq e) = Some c"
  by (simp_all add: merged_stats_def Let_def)

lemma position_merged [simp]: "position (Some (merged_stats cur c att sq e)) = (att, sq)"
  by (simp add: position_def reported_attempt_def reported_sequence_def merged_stats_fields)

lemma counter_ge: "x \<le> counter (Some x)"
  by (simp add: counter_def)

lemma merged_stats_mono:
  "pg_bytesProcessed s \<le> pg_bytesProcessed (merged_stats (Some s) c att sq e)"
  "pg_filesProcessed s \<le> pg_filesProcessed (merged_stats (Some s) c att sq e)"
  "pg_total_bytes_processed s \<le> pg_total_bytes_processed (merged_stats (Some s) c att sq e)"
  "pg_total_files_processed s \<le> pg_total_files_processed (merged_stats (Some s) c att sq e)"
  "stage_rank (pg_backupStage s) \<le> stage_rank (pg_backupStage (merged_stats (Some s) c att sq e))"
  using counter_ge by (auto simp: merged_stats_def Let_def le_max_iff_disj)

lemma merge_Some:
  assumes "mergeRemoteProgress b c att sq e = Some (st, p)"
  shows "position (br_progressStats b) < (att, sq)"
    "p = merged_stats (if reported_attempt (br_progressStats b) < att then None else br_progressStats b) c att sq e"
    "br_inProgress b = Some True" "\<not> terminal_status (br_status b)" "st \<in> {''queued'', ''started''}"
    "\<not> other_command (br_progressStats b) c"
  using assms by (auto simp: mergeRemoteProgress_def Let_def position_def split: if_splits)

text \<open>
  Progress never moves back.  A report is applied only if it belongs to a later attempt or is a later event
  of the same attempt, and only to a backup in progress; within an attempt neither the counters nor the
  stage decrease.
\<close>

theorem progress_monotone:
  assumes "mergeRemoteProgress b commandId attempt sequence e = Some (st, p)"
  shows "(reported_attempt (br_progressStats b), reported_sequence (br_progressStats b)) < (attempt, sequence) \<and>
    br_inProgress b = Some True \<and> \<not> terminal_status (br_status b) \<and>
    (\<forall>s. br_progressStats b = Some s \<and> reported_attempt (Some s) = attempt \<longrightarrow>
       pg_bytesProcessed s \<le> pg_bytesProcessed p \<and> pg_filesProcessed s \<le> pg_filesProcessed p \<and>
       pg_total_bytes_processed s \<le> pg_total_bytes_processed p \<and>
       pg_total_files_processed s \<le> pg_total_files_processed p \<and>
       stage_rank (pg_backupStage s) \<le> stage_rank (pg_backupStage p))"
  using merge_Some [OF assms] merged_stats_mono by (auto simp: position_def)

lemma fold_reports:
  assumes "br_inProgress b = Some True" "\<not> terminal_status (br_status b)" "commandId \<noteq> []"
    "\<not> other_command (br_progressStats b) commandId" "\<And>r. r \<in> set rs \<Longrightarrow> fst r = commandId"
  shows "position (br_progressStats (fold apply_report rs b)) =
      fold (\<lambda>r q. max q (fst (snd r), fst (snd (snd r)))) rs (position (br_progressStats b)) \<and>
    br_inProgress (fold apply_report rs b) = Some True"
  using assms
proof (induction rs arbitrary: b)
  case (Cons r rs)
  obtain att sq e where r: "r = (commandId, att, sq, e)" using Cons.prems(5) [of r] by (cases r) auto
  let ?b = "apply_report r b"
  have at: "position (br_progressStats ?b) = max (position (br_progressStats b)) (att, sq)"
  proof (cases "mergeRemoteProgress b commandId att sq e")
    case None
    then have "(att, sq) \<le> position (br_progressStats b)"
      using Cons.prems by (auto simp: mergeRemoteProgress_def Let_def position_def split: if_splits)
    then show ?thesis using None r by (simp add: apply_report_def max_absorb1)
  next
    case (Some m)
    obtain st p where m: "m = (st, p)" by (cases m)
    note facts = merge_Some [OF Some [unfolded m]]
    show ?thesis using facts(1,2) Some m r by (simp add: apply_report_def max_absorb2)
  qed
  have keeps: "br_inProgress ?b = Some True \<and> \<not> terminal_status (br_status ?b) \<and> \<not> other_command (br_progressStats ?b) commandId"
  proof (cases "mergeRemoteProgress b commandId att sq e")
    case None
    then show ?thesis using Cons.prems r by (simp add: apply_report_def)
  next
    case (Some m)
    obtain st p where m: "m = (st, p)" by (cases m)
    show ?thesis using merge_Some [OF Some [unfolded m]] Some m r Cons.prems(1)
      by (auto simp: apply_report_def terminal_status_def other_command_def merged_stats_fields)
  qed
  show ?case using Cons.IH [of ?b] keeps at Cons.prems(3,5) r by simp
qed simp

lemma fold_max_Max: "fold (\<lambda>r q. max q (f r)) rs q = Max (insert q (f ` set rs))"
  for f :: "'r \<Rightarrow> 'a::linorder"
proof (induction rs arbitrary: q)
  case (Cons r rs)
  then show ?case by (cases "rs = []") (simp_all add: max.assoc)
qed simp

text \<open>
  The latest report wins.  Whatever the order in which the reports of a command arrive, and however often,
  the row of a backup in progress holds the attempt and sequence number of the latest of them, the
  lexicographic maximum.
\<close>

theorem latest_report_wins:
  assumes "br_inProgress b = Some True" "br_status b = Some ''queued''" "br_progressStats b = None" "commandId \<noteq> []"
    "\<And>r. r \<in> set reports \<Longrightarrow> fst r = commandId"
  shows "(reported_attempt (br_progressStats (fold apply_report reports b)),
          reported_sequence (br_progressStats (fold apply_report reports b))) =
    Max (insert (0, 0) ((\<lambda>r. (fst (snd r), fst (snd (snd r)))) ` set reports))"
proof -
  have "position None = (0, 0)" by (simp add: position_def reported_attempt_def reported_sequence_def)
  then show ?thesis
    using fold_reports [OF assms(1) _ assms(4) _ assms(5)] assms(2,3)
    by (simp add: position_def terminal_status_def other_command_def fold_max_Max)
qed

definition sample_progress_event :: progress_event where
  "sample_progress_event = \<lparr>pe_phase = None, pe_backupStage = Some ''backing-up'', pe_lifecycleStage = None, pe_databaseId = None,
     pe_engine = None, pe_ordinal = None, pe_count = None,
     pe_progress = Some \<lparr>ep_bytesProcessed = Some 10, ep_filesProcessed = None, ep_totalBytesProcessed = None,
       ep_totalFilesProcessed = None\<rparr>\<rparr>"

definition sample_remote_backup :: backup_record where
  "sample_remote_backup = \<lparr>br_id = ''b1'', br_createdAt = 0, br_updatedAt = None, br_started = None, br_ended = None,
     br_inProgress = Some True, br_success = None, br_status = Some ''queued'', br_errorMsg = None, br_planId = Some ''p1'',
     br_storageId = None, br_storagePath = None, br_sourceId = ''remote-1'', br_method = ''backup'', br_sourceType = ''device'',
     br_sourceConfig = None, br_encryption = None, br_compression = None, br_progressStats = None, br_completionStats = None,
     br_taskStats = None, br_mirrors = []\<rparr>"

definition sample_reports :: "(string \<times> int \<times> int \<times> progress_event) list" where
  "sample_reports = [(''c1'', 1, 4, sample_progress_event), (''c1'', 2, 1, sample_progress_event), (''c1'', 1, 9, sample_progress_event), (''c1'', 2, 1, sample_progress_event)]"

theorem progress_monotone_witness:
  "(reported_attempt (br_progressStats sample_remote_backup), reported_sequence (br_progressStats sample_remote_backup)) < (1, 4)"
proof -
  have "mergeRemoteProgress sample_remote_backup ''c1'' 1 4 sample_progress_event =
      Some (''started'', merged_stats None ''c1'' 1 4 sample_progress_event)" by code_simp
  from progress_monotone [OF this] show ?thesis by blast
qed

theorem latest_report_wins_witness:
  "(reported_attempt (br_progressStats (fold apply_report sample_reports sample_remote_backup)),
    reported_sequence (br_progressStats (fold apply_report sample_reports sample_remote_backup))) = (2, 1)"
proof -
  have top: "Max (insert (0, 0) ((\<lambda>r. (fst (snd r), fst (snd (snd r)))) ` set sample_reports)) = (2 :: int, 1 :: int)"
    by (simp add: sample_reports_def)
  have b: "br_inProgress sample_remote_backup = Some True" "br_status sample_remote_backup = Some ''queued''"
    "br_progressStats sample_remote_backup = None" by (simp_all add: sample_remote_backup_def)
  show ?thesis unfolding top [symmetric]
    by (rule latest_report_wins [OF b, of "''c1''"]) (auto simp: sample_reports_def)
qed

section \<open>Failure texts\<close>

definition no_bracket :: "string \<Rightarrow> bool" where
  "no_bracket s \<longleftrightarrow> list_all (\<lambda>c. c \<noteq> CHR ''('') s"

definition kebab :: "nat \<Rightarrow> string \<Rightarrow> bool" where
  "kebab n s \<longleftrightarrow> s \<noteq> [] \<and> length s \<le> n \<and> list_all is_kebab s"

lemma closed_texts:
  "list_all (\<lambda>(c, m). kebab 80 c \<and> no_bracket m) failure_messages" "list_all (kebab 60) failure_stages"
  by code_simp+

lemma find_skips: "no_bracket m \<Longrightarrow> find_failure (m @ s) = find_failure s"
  by (induction m) (auto simp: no_bracket_def)

lemma takeWhile_kebab:
  "kebab n s \<Longrightarrow> \<not> is_kebab c \<Longrightarrow> takeWhile is_kebab (s @ c # r) = s \<and> dropWhile is_kebab (s @ c # r) = c # r"
  by (simp add: kebab_def list_all_iff)

lemma safe_stage_kebab: "kebab 60 (safe_stage s)"
proof -
  have "kebab 60 ''unknown-stage''" by code_simp
  then show ?thesis using closed_texts(2) by (auto simp: safe_stage_def list_all_iff split: option.split)
qed

lemma safe_code_kebab: "kebab 80 (safe_code c)"
proof -
  have "kebab 80 ''unspecified''" by code_simp
  then show ?thesis using closed_texts(1) by (auto simp: safe_code_def list_all_iff split: option.split)
qed

lemma message_no_bracket: "no_bracket (failure_message c)"
proof -
  have "no_bracket ''Remote backup failed. Review the agent safe stage/code diagnostics.''" by code_simp
  then show ?thesis using closed_texts(1)
    by (auto simp: failure_message_def list_all_iff dest!: map_of_SomeD split: option.split bind_splits)
qed

lemma failure_database_cases:
  "failure_database i = [] \<or> (\<exists>r. failure_database i = CHR '';'' # r \<and> CHR '')'' \<notin> set r)"
proof -
  have "\<not> is_ident_char (CHR '')'')" by code_simp
  then have "CHR '')'' \<notin> set d" if "ident_ok 80 (drop 3 d)" "starts_with ''db_'' d" for d
    using that by (cases "CHR '')'' \<in> set (drop 3 d)") (auto simp: ident_ok_def list_all_iff starts_with_iff)
  then show ?thesis by (auto simp: failure_database_def split: option.split)
qed

lemma dropWhile_closing: "CHR '')'' \<notin> set r \<Longrightarrow> dropWhile (\<lambda>c. c \<noteq> CHR '')'') (r @ '').'') = '').''"
  by (induction r) auto

lemma bracket_match_text:
  assumes "kebab 60 s" "kebab 80 c" "d = [] \<or> (\<exists>r. d = CHR '';'' # r \<and> CHR '')'' \<notin> set r)"
  shows "bracket_match (s @ ''/'' @ c @ d @ '').'') = Some (s, c)"
proof -
  have ne: "\<not> is_kebab (CHR ''/'')" "\<not> is_kebab (CHR '')'')" "\<not> is_kebab (CHR '';'')" by code_simp+
  obtain x q where q: "d @ '').'' = x # q" "\<not> is_kebab x" using assms(3) ne by auto
  have "closing (d @ '').'') \<or> (starts_with '';'' (d @ '').'') \<and> closing (dropWhile (\<lambda>c. c \<noteq> CHR '')'') (tl (d @ '').''))))"
    using assms(3) by (auto simp: closing_def starts_with_def dropWhile_closing simp del: dropWhile_append)
  then show ?thesis
    using takeWhile_kebab [OF assms(1) ne(1)] takeWhile_kebab [OF assms(2) q(2), of q] assms(1,2) unfolding bracket_match_def
    by (simp add: q(1) Let_def kebab_def starts_with_def)
qed

text \<open>
  A stored failure text gives its stage and code back.  The view of a failed backup rebuilds the text from
  them, so it shows the closed message of the failure again, whatever the agent reported.
\<close>

theorem failure_text_recovered:
  "fi_failureStage (historicalFailure (Some (remoteBackupFailure i))) = Some (safe_stage (fi_failureStage i)) \<and>
   fi_failureCode (historicalFailure (Some (remoteBackupFailure i))) = Some (safe_code (failure_code i)) \<and>
   remoteBackupFailure (historicalFailure (Some (remoteBackupFailure i))) =
     failure_message (failure_code i) @ '' ('' @ safe_stage (fi_failureStage i) @ ''/'' @ safe_code (failure_code i) @ '').''"
proof -
  have "find_failure (remoteBackupFailure i) = Some (safe_stage (fi_failureStage i), safe_code (failure_code i))"
    unfolding remoteBackupFailure_def find_skips [OF message_no_bracket]
    using bracket_match_text [OF safe_stage_kebab safe_code_kebab failure_database_cases] by simp
  then have h: "historicalFailure (Some (remoteBackupFailure i)) =
      \<lparr>fi_failureStage = Some (safe_stage (fi_failureStage i)), fi_failureCode = Some (safe_code (failure_code i)),
       fi_databaseId = None, fi_engine = None, fi_cancelled = False\<rparr>"
    by (simp add: historicalFailure_def)
  have none: "map_of failure_messages x = None" if "x \<notin> fst ` set failure_messages" for x
    using that by (simp add: map_of_eq_None_iff)
  have "''unknown-stage'' \<notin> set failure_stages" and u: "''unspecified'' \<notin> fst ` set failure_messages" by code_simp+
  then have "safe_code (Some (safe_code c)) = safe_code c" "safe_stage (Some (safe_stage st)) = safe_stage st" for c st
    by (auto simp: safe_code_def safe_stage_def split: option.split)
  moreover have "failure_message (Some (safe_code c)) = failure_message c" for c
    using none u by (cases c) (auto simp: failure_message_def safe_code_def)
  ultimately show ?thesis unfolding h by (simp add: remoteBackupFailure_def failure_code_def failure_database_def)
qed

end
