(* ===== verification/Plan_Schedule.thy ===== *)
theory Plan_Schedule
  imports Remote_Progress Remote_Lifecycle
begin

text \<open>
  When a plan runs: the cron expression of an interval (\<open>backend/src/utils/intervalToCron.ts\<close>) and the checks
  of an interval and its time zone (\<open>planSchedule.ts\<close>).  Of \<open>Intl\<close> and \<open>croner\<close>, \<open>resolve\<close> gives the
  canonical name of a time zone (\<open>None\<close> where it is unknown), \<open>zone0\<close> is the zone of the process, and
  \<open>nextRun\<close> the next run of an expression in a zone (outer \<open>None\<close> where the expression is refused).
\<close>

section \<open>Cron expressions\<close>

record plan_interval =
  pi_timeZone :: "json option"
  pi_type :: string
  pi_minutes :: "int option"
  pi_time :: "string option"
  pi_days :: "string option"
  pi_hours :: "string option"

definition int_text :: "int \<Rightarrow> string" where
  "int_text n = (if n < 0 then CHR ''-'' # nat_text (nat (- n)) else nat_text (nat n))"

text \<open>\<open>/(\d+):(\d+)([AaPp][Mm])/\<close>: hours and minutes of the leftmost match.\<close>

definition time_at :: "string \<Rightarrow> (string \<times> string) option" where
  "time_at s =
     (let h = takeWhile is_digit s; r = dropWhile is_digit s in
      if h = [] \<or> \<not> starts_with '':'' r then None
      else let m = takeWhile is_digit (tl r); q = dropWhile is_digit (tl r) in
           if m = [] then None
           else case q of
                  a # b # _ \<Rightarrow> if a \<in> set ''AaPp'' \<and> b \<in> set ''Mm'' then Some (h, m) else None
                | _ \<Rightarrow> None)"

fun find_time :: "string \<Rightarrow> (string \<times> string) option" where
  "find_time [] = None"
| "find_time (c # cs) = (case time_at (c # cs) of Some m \<Rightarrow> Some m | None \<Rightarrow> find_time cs)"

text \<open>The parts of \<open>interval.time\<close>; an empty text is falsy.\<close>

definition time_parts :: "plan_interval \<Rightarrow> (string \<times> string) option" where
  "time_parts v = Option.bind (pi_time v) find_time"

definition is_pm :: "plan_interval \<Rightarrow> bool" where
  "is_pm v \<longleftrightarrow> (case pi_time v of None \<Rightarrow> False | Some t \<Rightarrow> includes_text ''pm'' (to_lower t))"

definition cron_hour :: "plan_interval \<Rightarrow> string" where
  "cron_hour v =
     (case time_parts v of
        None \<Rightarrow> ''0''
      | Some (h, _) \<Rightarrow>
          let n = decimal_value 0 h in
          if is_pm v then (if n = 12 then ''12'' else nat_text (n + 12))
          else (if n = 12 then ''0'' else nat_text n))"

definition cron_minutes :: "plan_interval \<Rightarrow> string" where
  "cron_minutes v = (case time_parts v of None \<Rightarrow> ''0'' | Some (_, m) \<Rightarrow> m)"

text \<open>\<open>parseInt(text)\<close> on a text, as a text; \<open>NaN\<close> where it starts with no number.\<close>

definition hex_value :: "char \<Rightarrow> nat" where
  "hex_value c = (if is_digit c then of_char c - 48 else of_char (lower_char c) - 87)"

definition parseInt_text :: "string \<Rightarrow> string" where
  "parseInt_text s =
     (let t = dropWhile is_space s; neg = starts_with ''-'' t;
          u = (if neg \<or> starts_with ''+'' t then tl t else t);
          sign = (\<lambda>n. int_text (if neg then - int n else int n)) in
      if starts_with ''0x'' u \<or> starts_with ''0X'' u
      then (let ds = takeWhile (\<lambda>c. is_hex_char (lower_char c)) (drop 2 u) in
            if ds = [] then ''NaN'' else sign (foldl (\<lambda>n c. 16 * n + hex_value c) 0 ds))
      else (let ds = takeWhile is_digit u in if ds = [] then ''NaN'' else sign (decimal_value 0 ds)))"

definition day_map :: "(string \<times> string) list" where
  "day_map = [(''sun'', ''0''), (''mon'', ''1''), (''tue'', ''2''), (''wed'', ''3''), (''thu'', ''4''), (''thur'', ''4''),
     (''fri'', ''5''), (''sat'', ''6'')]"

text \<open>The lower-case members every object inherits, as texts.\<close>

definition inherited_members :: "(string \<times> string) list" where
  "inherited_members = [(''constructor'', ''function Object() { [native code] }''), (''__proto__'', ''[object Object]'')]"

fun join_commas :: "string list \<Rightarrow> string" where
  "join_commas [] = []"
| "join_commas [x] = x"
| "join_commas (x # y # zs) = x @ '','' @ join_commas (y # zs)"

text \<open>\<open>split(/[,-]/)\<close>\<close>

definition split_days :: "string \<Rightarrow> string list" where
  "split_days s = split_on (CHR '','') (map (\<lambda>c. if c = CHR ''-'' then CHR '','' else c) s)"

definition convertDaysToDates :: "string \<Rightarrow> string" where
  "convertDaysToDates days =
     join_commas (List.map_filter (map_of (day_map @ inherited_members)) (filter (\<lambda>d. d \<noteq> []) (map (\<lambda>d. to_lower (js_trim d)) (split_days days))))"

definition intervalToCron :: "plan_interval \<Rightarrow> string" where
  "intervalToCron v =
     (let clock = cron_minutes v @ '' '' @ cron_hour v in
      if pi_type v = ''hourly'' then ''0 * * * *''
      else if pi_type v = ''hours'' then ''0 */'' @ parseInt_text (case or_else (pi_hours v) None of None \<Rightarrow> ''1'' | Some h \<Rightarrow> h) @ '' * * *''
      else if pi_type v = ''minutes''
      then ''*/'' @ (case pi_minutes v of None \<Rightarrow> ''5'' | Some m \<Rightarrow> if m = 0 then ''5'' else int_text m) @ '' * * * *''
      else if pi_type v = ''daily'' then clock @ '' * * *''
      else if pi_type v = ''weekly'' \<or> pi_type v = ''days''
      then clock @ '' * * '' @ convertDaysToDates (case or_else (pi_days v) None of None \<Rightarrow> ''sun'' | Some d \<Rightarrow> d)
      else if pi_type v = ''monthly''
      then clock @ (if pi_days v = Some ''middle'' then '' 15 * *'' else if pi_days v = Some ''last'' then '' L * *'' else '' 1 * *'')
      else ''0 0 * * *'')"

section \<open>Checks\<close>

definition DEFAULT_PLAN_TIME_ZONE :: string where
  "DEFAULT_PLAN_TIME_ZONE = ''Asia/Jakarta''"

record schedule_env =
  sv_resolve :: "string \<Rightarrow> string option"
  sv_zone :: string
  sv_nextRun :: "string \<Rightarrow> string \<Rightarrow> int \<Rightarrow> int option option"

definition bad_zone :: app_error where
  "bad_zone = AppError 400 ''Use a valid IANA schedule timezone, for example Asia/Jakarta or UTC.''"

definition scheduleTimeZone :: "schedule_env \<Rightarrow> json option \<Rightarrow> string result" where
  "scheduleTimeZone env v =
     (case (case v of None \<Rightarrow> JStr (sv_zone env) | Some z \<Rightarrow> z) of
        JStr z \<Rightarrow>
          if 100 < length z \<or> z = [] \<or> starts_with ''+'' z \<or> starts_with ''-'' z then Throw bad_zone
          else (case sv_resolve env z of None \<Rightarrow> Throw bad_zone | Some c \<Rightarrow> Ok c)
      | _ \<Rightarrow> Throw bad_zone)"

text \<open>\<open>/^(0?[1-9]|1[0-2]):[0-5]\d(?:AM|PM)$/i\<close>\<close>

definition hour_ok :: "string \<Rightarrow> bool" where
  "hour_ok h \<longleftrightarrow> h \<in> {''10'', ''11'', ''12''} \<or>
     (case (if starts_with ''0'' h then tl h else h) of [d] \<Rightarrow> is_digit d \<and> d \<noteq> CHR ''0'' | _ \<Rightarrow> False)"

definition clock_time_ok :: "string \<Rightarrow> bool" where
  "clock_time_ok t \<longleftrightarrow>
     (case split_on (CHR '':'') t of
        [h, [m1, m2, a, b]] \<Rightarrow>
          hour_ok h \<and> m1 \<in> set ''012345'' \<and> is_digit m2 \<and> lower_char a \<in> set ''ap'' \<and> lower_char b = CHR ''m''
      | _ \<Rightarrow> False)"

definition interval_types :: "string list" where
  "interval_types = [''hourly'', ''daily'', ''weekly'', ''monthly'', ''days'', ''hours'', ''minutes'']"

text \<open>An absent member passes.\<close>

fun text_up_to :: "nat \<Rightarrow> json \<Rightarrow> bool" where
  "text_up_to n (JStr s) \<longleftrightarrow> length s \<le> n"
| "text_up_to n _ \<longleftrightarrow> False"

fun clock_json_ok :: "json \<Rightarrow> bool" where
  "clock_json_ok (JStr s) \<longleftrightarrow> s = [] \<or> clock_time_ok s"
| "clock_json_ok _ \<longleftrightarrow> False"

fun minutes_ok :: "json \<Rightarrow> bool" where
  "minutes_ok (JInt m) \<longleftrightarrow> 1 \<le> m \<and> m \<le> 59"
| "minutes_ok _ \<longleftrightarrow> False"

definition read_interval :: "json \<Rightarrow> plan_interval result" where
  "read_interval j =
     (case Option.bind (json_field ''type'' j) parse_str of
        None \<Rightarrow> Throw (AppError 400 ''Invalid backup interval.'')
      | Some t \<Rightarrow>
          if t \<notin> set interval_types then Throw (AppError 400 ''Invalid backup interval.'')
          else if \<not> if_present clock_json_ok (json_field ''time'' j) then Throw (AppError 400 ''Schedule time must use HH:MMAM or HH:MMPM.'')
          else if \<not> if_present (text_up_to 100) (json_field ''days'' j) then Throw (AppError 400 ''Invalid schedule days.'')
          else if \<not> if_present (text_up_to 10) (json_field ''hours'' j) then Throw (AppError 400 ''Invalid schedule hours.'')
          else if \<not> if_present minutes_ok (json_field ''minutes'' j) then Throw (AppError 400 ''Schedule minutes must be between 1 and 59.'')
          else Ok \<lparr>pi_timeZone = json_field ''timeZone'' j, pi_type = t, pi_minutes = Option.bind (json_field ''minutes'' j) parse_int,
                   pi_time = Option.bind (json_field ''time'' j) parse_str, pi_days = Option.bind (json_field ''days'' j) parse_str,
                   pi_hours = Option.bind (json_field ''hours'' j) parse_str\<rparr>)"

record schedule_preview =
  sp_timeZone :: string
  sp_legacyTimeZone :: bool
  sp_nextRunAt :: "int option"
  sp_evaluatedAt :: int

definition previewPlanSchedule :: "schedule_env \<Rightarrow> json \<Rightarrow> int \<Rightarrow> schedule_preview result" where
  "previewPlanSchedule env j now =
     bind_result (read_interval j) (\<lambda>v.
     bind_result (scheduleTimeZone env (pi_timeZone v)) (\<lambda>zone.
       case sv_nextRun env (intervalToCron v) zone now of
         None \<Rightarrow> Throw (AppError 400 ''Invalid backup schedule.'')
       | Some n \<Rightarrow> Ok \<lparr>sp_timeZone = zone, sp_legacyTimeZone = (pi_timeZone v = None), sp_nextRunAt = n, sp_evaluatedAt = now\<rparr>))"

text \<open>The members of the object: a missing zone is taken over from the previous interval or set for a new plan.\<close>

definition preparePlanInterval ::
  "schedule_env \<Rightarrow> (string \<times> json) list \<Rightarrow> (string \<times> json) list option \<Rightarrow> int \<Rightarrow> (string \<times> json) list result" where
  "preparePlanInterval env interval previous now =
     (let zone = (case map_of interval ''timeZone'' of
                    Some z \<Rightarrow> Some z
                  | None \<Rightarrow> (case previous of Some p \<Rightarrow> map_of p ''timeZone'' | None \<Rightarrow> Some (JStr DEFAULT_PLAN_TIME_ZONE)));
          result = (case (zone, map_of interval ''timeZone'') of (Some z, None) \<Rightarrow> interval @ [(''timeZone'', z)] | _ \<Rightarrow> interval) in
      bind_result (previewPlanSchedule env (JObj result) now) (\<lambda>_. Ok result))"

end
