(* ===== verification/Cron_Manager.thy ===== *)
theory Cron_Manager
  imports Plan_Schedule
begin

text \<open>
  The schedules of plans (\<open>backend/src/managers/CronManager.ts\<close>).  A timer of \<open>croner\<close> is paused or not and
  stopped or not; \<open>pause\<close> and \<open>resume\<close> answer whether it is not stopped.  \<open>valid\<close> tells whether \<open>croner\<close>
  accepts an expression in a zone.  The callback of a schedule is there or not.  \<open>cr_file\<close> is the content of
  \<open>schedules.json\<close>, which keeps no callback; it is written before a call returns.
\<close>

section \<open>State\<close>

record schedule_options =
  so_isActive :: "bool option"
  so_timeZone :: "json option"
  so_settings :: "json option"
  so_callback :: bool

record cron_timer =
  ct_zone :: string
  ct_paused :: bool
  ct_stopped :: bool

record schedule_entry =
  sc_type :: string
  sc_cron :: cron_timer
  sc_cronExpression :: string
  sc_options :: schedule_options

record stored_schedule =
  sd_id :: string
  sd_scheduleType :: string
  sd_cronExpression :: string
  sd_options :: schedule_options

text \<open>A key is an id and a type; \<open>JSON.stringify([id, type])\<close> is injective.\<close>

type_synonym schedule_key = "string \<times> string"

record cron_state =
  cr_schedules :: "(string \<times> schedule_entry list) list"
  cr_dispatching :: "schedule_key list"
  cr_loadedHolds :: "schedule_key list"
  cr_callbacks :: "string list"
  cr_file :: "stored_schedule list"

record cron_env =
  ce_zones :: schedule_env
  ce_valid :: "string \<Rightarrow> string \<Rightarrow> bool"

text \<open>\<open>Map.set\<close>: a known key keeps its place.\<close>

definition map_set :: "string \<Rightarrow> 'v \<Rightarrow> (string \<times> 'v) list \<Rightarrow> (string \<times> 'v) list" where
  "map_set k v m = (if k \<in> fst ` set m then map (\<lambda>(k', v'). (k', if k' = k then v else v')) m else m @ [(k, v)])"

definition map_delete :: "string \<Rightarrow> (string \<times> 'v) list \<Rightarrow> (string \<times> 'v) list" where
  "map_delete k m = filter (\<lambda>(k', _). k' \<noteq> k) m"

section \<open>Operations\<close>

definition option_zone :: "schedule_options \<Rightarrow> json option" where
  "option_zone o' =
     (case so_timeZone o' of
        Some z \<Rightarrow> if z = JNull then Option.bind (Option.bind (so_settings o') (json_field ''interval'')) (json_field ''timeZone'') else Some z
      | None \<Rightarrow> Option.bind (Option.bind (so_settings o') (json_field ''interval'')) (json_field ''timeZone''))"

definition createCron ::
  "cron_env \<Rightarrow> schedule_key list \<Rightarrow> string \<Rightarrow> string \<Rightarrow> string \<Rightarrow> schedule_options \<Rightarrow> cron_timer result" where
  "createCron env holds i type expression options =
     bind_result (scheduleTimeZone (ce_zones env) (option_zone options)) (\<lambda>zone.
       if \<not> ce_valid env expression zone then Throw (PlainError ''Invalid cron expression.'')
       else Ok \<lparr>ct_zone = zone, ct_paused = (so_isActive options = Some False \<or> (i, type) \<in> set holds), ct_stopped = False\<rparr>)"

definition stored :: "string \<Rightarrow> schedule_entry \<Rightarrow> stored_schedule" where
  "stored i e = \<lparr>sd_id = i, sd_scheduleType = sc_type e, sd_cronExpression = sc_cronExpression e,
     sd_options = (sc_options e)\<lparr>so_callback := False\<rparr>\<rparr>"

definition saveSchedules :: "cron_state \<Rightarrow> cron_state" where
  "saveSchedules s = s\<lparr>cr_file := concat (map (\<lambda>(i, es). map (stored i) es) (cr_schedules s))\<rparr>"

definition entries_of :: "string \<Rightarrow> cron_state \<Rightarrow> schedule_entry list" where
  "entries_of i s = (case map_of (cr_schedules s) i of None \<Rightarrow> [] | Some es \<Rightarrow> es)"

definition entry_of :: "string \<Rightarrow> string \<Rightarrow> cron_state \<Rightarrow> schedule_entry option" where
  "entry_of i type s = row_by sc_type type (entries_of i s)"

definition scheduleTask ::
  "cron_env \<Rightarrow> string \<Rightarrow> string \<Rightarrow> schedule_options \<Rightarrow> string \<Rightarrow> cron_state \<Rightarrow> cron_state result" where
  "scheduleTask env i expression options type s =
     (if entry_of i type s \<noteq> None then Ok s
      else case createCron env (cr_loadedHolds s) i type expression options of
             Inl e \<Rightarrow> Throw (PlainError ''Could Not Schedule Cron.'')
           | Inr timer \<Rightarrow>
               Ok (saveSchedules (s\<lparr>cr_schedules := map_set i (entries_of i s @
                 [\<lparr>sc_type = type, sc_cron = timer, sc_cronExpression = expression, sc_options = options\<rparr>]) (cr_schedules s)\<rparr>)))"

text \<open>Backups wait for the reconciliation with the plans.\<close>

definition held_type :: "string \<Rightarrow> bool" where
  "held_type type \<longleftrightarrow> type = ''backup'' \<or> type = ''remote-backup''"

definition hold_loaded :: "stored_schedule \<Rightarrow> cron_state \<Rightarrow> cron_state" where
  "hold_loaded d s =
     (if held_type (sd_scheduleType d) then s\<lparr>cr_loadedHolds := (sd_id d, sd_scheduleType d) # cr_loadedHolds s\<rparr> else s)"

definition load_entry :: "cron_env \<Rightarrow> stored_schedule \<Rightarrow> cron_state \<Rightarrow> cron_state result" where
  "load_entry env d s =
     scheduleTask env (sd_id d) (sd_cronExpression d)
       ((sd_options d)\<lparr>so_callback := sd_scheduleType d \<in> set (cr_callbacks s)\<rparr>) (sd_scheduleType d) (hold_loaded d s)"

text \<open>The entries of the file in their order; one that cannot be scheduled ends the loop.\<close>

fun load_entries :: "cron_env \<Rightarrow> stored_schedule list \<Rightarrow> cron_state \<Rightarrow> cron_state" where
  "load_entries env [] s = s"
| "load_entries env (d # ds) s =
     (case load_entry env d s of Inl e \<Rightarrow> hold_loaded d s | Inr s' \<Rightarrow> load_entries env ds s')"

definition loadSchedules :: "cron_env \<Rightarrow> cron_state \<Rightarrow> cron_state" where
  "loadSchedules env s = load_entries env (cr_file s) s"

text \<open>A new manager on the file of an old one.\<close>

definition restart :: "cron_env \<Rightarrow> string list \<Rightarrow> stored_schedule list \<Rightarrow> cron_state" where
  "restart env callbacks file = loadSchedules env
     \<lparr>cr_schedules = [], cr_dispatching = [], cr_loadedHolds = [], cr_callbacks = callbacks, cr_file = file\<rparr>"

definition patched_entry ::
  "cron_env \<Rightarrow> schedule_key list \<Rightarrow> string list \<Rightarrow> string \<Rightarrow> schedule_entry \<Rightarrow> schedule_entry result" where
  "patched_entry env holds callbacks i e =
     (if \<not> so_callback (sc_options e) \<and> sc_type e \<in> set callbacks
      then let options = (sc_options e)\<lparr>so_callback := True\<rparr> in
           bind_result (createCron env holds i (sc_type e) (sc_cronExpression e) options) (\<lambda>timer.
             Ok (e\<lparr>sc_cron := timer, sc_options := options\<rparr>))
      else Ok e)"

text \<open>The loop over the schedules; a refused timer ends it.\<close>

fun patch_schedules ::
  "cron_env \<Rightarrow> schedule_key list \<Rightarrow> string list \<Rightarrow> (string \<times> schedule_entry list) list \<Rightarrow> (string \<times> schedule_entry list) list" where
  "patch_schedules env holds callbacks [] = []"
| "patch_schedules env holds callbacks ((i, es) # m) =
     (case map_result (patched_entry env holds callbacks i) es of
        Inl e \<Rightarrow> (i, es) # m
      | Inr es' \<Rightarrow> (i, es') # patch_schedules env holds callbacks m)"

definition registerCallbacks :: "cron_env \<Rightarrow> string list \<Rightarrow> cron_state \<Rightarrow> cron_state" where
  "registerCallbacks env keys s =
     (let new = filter (\<lambda>k. k \<notin> set (cr_callbacks s)) keys; callbacks = cr_callbacks s @ new in
      if new = [] then s
      else s\<lparr>cr_callbacks := callbacks,
             cr_schedules := patch_schedules env (cr_loadedHolds s) callbacks (cr_schedules s)\<rparr>)"

definition set_entry :: "string \<Rightarrow> string \<Rightarrow> (schedule_entry \<Rightarrow> schedule_entry) \<Rightarrow> cron_state \<Rightarrow> cron_state" where
  "set_entry i type f s =
     s\<lparr>cr_schedules := map (\<lambda>(i', es). (i', if i' = i then update_where (\<lambda>e. sc_type e = type) f es else es)) (cr_schedules s)\<rparr>"

definition activateLoadedSchedule :: "string \<Rightarrow> string \<Rightarrow> cron_state \<Rightarrow> cron_state" where
  "activateLoadedSchedule i type s =
     (if (i, type) \<notin> set (cr_loadedHolds s) then s
      else let s1 = s\<lparr>cr_loadedHolds := filter (\<lambda>k. k \<noteq> (i, type)) (cr_loadedHolds s)\<rparr> in
           case entry_of i type s of
             None \<Rightarrow> s1
           | Some e \<Rightarrow>
               if so_isActive (sc_options e) \<noteq> Some False \<and> so_callback (sc_options e)
               then set_entry i type (\<lambda>e. e\<lparr>sc_cron := (sc_cron e)\<lparr>ct_paused := False\<rparr>\<rparr>) s1 else s1)"

definition updateSchedule ::
  "cron_env \<Rightarrow> string \<Rightarrow> string \<Rightarrow> schedule_options \<Rightarrow> string \<Rightarrow> cron_state \<Rightarrow> cron_state result" where
  "updateSchedule env i expression options type s =
     (if entry_of i type s = None then Ok s
      else case createCron env (cr_loadedHolds s) i type expression options of
             Inl e \<Rightarrow> Throw (PlainError ''Could Not Schedule Cron with Updated Settings.'')
           | Inr timer \<Rightarrow>
               Ok (saveSchedules (set_entry i type
                 (\<lambda>_. \<lparr>sc_type = type, sc_cron = timer, sc_cronExpression = expression, sc_options = options\<rparr>) s)))"

definition removeSchedule :: "string \<Rightarrow> cron_state \<Rightarrow> cron_state" where
  "removeSchedule i s =
     (if map_of (cr_schedules s) i = None then s else saveSchedules (s\<lparr>cr_schedules := map_delete i (cr_schedules s)\<rparr>))"

definition removeSchedulesByType :: "string \<Rightarrow> string \<Rightarrow> cron_state \<Rightarrow> bool \<times> cron_state" where
  "removeSchedulesByType i type s =
     (if \<not> list_ex (\<lambda>e. sc_type e = type) (entries_of i s) then (False, s)
      else let remaining = filter (\<lambda>e. sc_type e \<noteq> type) (entries_of i s) in
           (True, saveSchedules (s\<lparr>cr_schedules := (if remaining = [] then map_delete i (cr_schedules s)
                                                   else map_set i remaining (cr_schedules s))\<rparr>)))"

text \<open>
  \<open>every\<close> over the selected entries: it stops at the first stopped timer.  The result, whether all were
  set, decides whether the file is written.
\<close>

fun set_running :: "bool \<Rightarrow> (schedule_entry \<Rightarrow> bool) \<Rightarrow> schedule_entry list \<Rightarrow> bool \<times> schedule_entry list" where
  "set_running active sel [] = (True, [])"
| "set_running active sel (e # es) =
     (if \<not> sel e then (let (b, es') = set_running active sel es in (b, e # es'))
      else let e' = e\<lparr>sc_options := (sc_options e)\<lparr>so_isActive := Some active\<rparr>,
                      sc_cron := (sc_cron e)\<lparr>ct_paused := \<not> active\<rparr>\<rparr> in
           if ct_stopped (sc_cron e) then (False, e' # es)
           else (let (b, es') = set_running active sel es in (b, e' # es')))"

definition selects :: "string option \<Rightarrow> schedule_entry \<Rightarrow> bool" where
  "selects type e \<longleftrightarrow> (case type of None \<Rightarrow> True | Some t \<Rightarrow> t = [] \<or> sc_type e = t)"

definition switchSchedule :: "bool \<Rightarrow> string \<Rightarrow> string option \<Rightarrow> cron_state \<Rightarrow> bool \<times> cron_state" where
  "switchSchedule active i type s =
     (case map_of (cr_schedules s) i of
        None \<Rightarrow> (False, s)
      | Some es \<Rightarrow>
          if \<not> list_ex (selects type) es then (False, s)
          else let (ok, es') = set_running active (selects type) es;
                   s1 = s\<lparr>cr_schedules := map_set i es' (cr_schedules s)\<rparr> in
               (ok, if ok then saveSchedules s1 else s1))"

definition pauseSchedule :: "string \<Rightarrow> string option \<Rightarrow> cron_state \<Rightarrow> bool \<times> cron_state" where
  "pauseSchedule = switchSchedule False"

definition resumeSchedule :: "string \<Rightarrow> string option \<Rightarrow> cron_state \<Rightarrow> bool \<times> cron_state" where
  "resumeSchedule = switchSchedule True"

section \<open>Runs\<close>

text \<open>A timer fires: the guards of its callback.  The second component tells whether the task is called.\<close>

definition cron_fire :: "string \<Rightarrow> string \<Rightarrow> cron_state \<Rightarrow> cron_state \<times> bool" where
  "cron_fire i type s =
     (case entry_of i type s of
        None \<Rightarrow> (s, False)
      | Some e \<Rightarrow>
          if ct_paused (sc_cron e) \<or> ct_stopped (sc_cron e) then (s, False)
          else if (i, type) \<in> set (cr_loadedHolds s) \<or> so_isActive (sc_options e) = Some False \<or> (i, type) \<in> set (cr_dispatching s)
          then (s, False)
          else (s\<lparr>cr_dispatching := (i, type) # cr_dispatching s\<rparr>, so_callback (sc_options e)))"

definition cron_done :: "string \<Rightarrow> string \<Rightarrow> cron_state \<Rightarrow> cron_state" where
  "cron_done i type s = s\<lparr>cr_dispatching := filter (\<lambda>k. k \<noteq> (i, type)) (cr_dispatching s)\<rparr>"

end
