(* ===== verification/Schedule_Guarantees.thy ===== *)
theory Schedule_Guarantees
  imports Cron_Manager
begin

text \<open>
  Schedules: one live timer per plan and kind, the file always holds what is scheduled, and a restart
  schedules the same again, with the backups held back.  Clock times become the right cron fields.
\<close>

section \<open>Well-formed schedules\<close>

definition flat :: "(string \<times> schedule_entry list) list \<Rightarrow> stored_schedule list" where
  "flat m = concat (map (\<lambda>(i, es). map (stored i) es) m)"

definition schedulable :: "cron_env \<Rightarrow> stored_schedule \<Rightarrow> bool" where
  "schedulable env d \<longleftrightarrow>
     (case scheduleTimeZone (ce_zones env) (option_zone (sd_options d)) of
        Inl e \<Rightarrow> False | Inr z \<Rightarrow> ce_valid env (sd_cronExpression d) z)"

definition entry_ok :: "cron_env \<Rightarrow> schedule_entry \<Rightarrow> bool" where
  "entry_ok env e \<longleftrightarrow> \<not> ct_stopped (sc_cron e) \<and> (so_isActive (sc_options e) = Some False \<longrightarrow> ct_paused (sc_cron e)) \<and>
     schedulable env (stored [] e)"

definition plan_entries_ok :: "cron_env \<Rightarrow> schedule_entry list \<Rightarrow> bool" where
  "plan_entries_ok env es \<longleftrightarrow> es \<noteq> [] \<and> distinct (map sc_type es) \<and> list_all (entry_ok env) es"

definition schedules_ok :: "cron_env \<Rightarrow> cron_state \<Rightarrow> bool" where
  "schedules_ok env s \<longleftrightarrow> distinct (map fst (cr_schedules s)) \<and> list_all (\<lambda>(i, es). plan_entries_ok env es) (cr_schedules s) \<and>
     cr_file s = flat (cr_schedules s) \<and> distinct (cr_dispatching s)"

lemma saveSchedules_simps [simp]:
  "cr_schedules (saveSchedules s) = cr_schedules s" "cr_file (saveSchedules s) = flat (cr_schedules s)"
  "cr_dispatching (saveSchedules s) = cr_dispatching s" "cr_loadedHolds (saveSchedules s) = cr_loadedHolds s"
  "cr_callbacks (saveSchedules s) = cr_callbacks s"
  by (simp_all add: saveSchedules_def flat_def)

lemma flat_simps [simp]: "flat [] = []" "flat ((i, es) # m) = map (stored i) es @ flat m" "flat (m @ m') = flat m @ flat m'"
  by (simp_all add: flat_def)

lemma map_set_fst: "map fst (map_set k v m) = (if k \<in> fst ` set m then map fst m else map fst m @ [k])"
  by (auto simp: map_set_def)

lemma map_set_in: "(i, x) \<in> set (map_set k v m) \<Longrightarrow> i = k \<and> x = v \<or> i \<noteq> k \<and> (i, x) \<in> set m"
  by (force simp: map_set_def split: if_splits)

lemma map_set_distinct: "distinct (map fst m) \<Longrightarrow> distinct (map fst (map_set k v m))"
  by (simp add: map_set_fst)

lemma map_delete_ok: "distinct (map fst m) \<Longrightarrow> distinct (map fst (map_delete k m))" "p \<in> set (map_delete k m) \<Longrightarrow> p \<in> set m"
  by (auto simp: map_delete_def distinct_map inj_on_def)

lemma map_of_in: "map_of m k = Some v \<Longrightarrow> (k, v) \<in> set m"
  by (rule map_of_SomeD)

lemma option_zone_callback [simp]: "option_zone (p\<lparr>so_callback := b\<rparr>) = option_zone p"
  by (cases "so_timeZone p") (simp_all add: option_zone_def)

lemma option_zone_active [simp]: "option_zone (p\<lparr>so_isActive := a\<rparr>) = option_zone p"
  by (cases "so_timeZone p") (simp_all add: option_zone_def)

lemma entry_ok_created:
  assumes "createCron env holds i type expression options = Ok timer"
  shows "entry_ok env \<lparr>sc_type = t, sc_cron = timer, sc_cronExpression = expression, sc_options = options\<rparr>"
    "(i, type) \<in> set holds \<Longrightarrow> ct_paused timer"
  using assms by (auto simp: createCron_def entry_ok_def schedulable_def stored_def bind_result_Inr_iff split: if_splits)

lemma created_iff_schedulable:
  "(\<exists>timer. createCron env holds i type expression options = Ok timer) \<longleftrightarrow>
   schedulable env (stored k \<lparr>sc_type = t, sc_cron = c, sc_cronExpression = expression, sc_options = options\<rparr>)"
  by (auto simp: createCron_def schedulable_def stored_def bind_result_Inr_iff split: sum.split)

text \<open>An update of the schedules that keeps them well formed.\<close>

lemma schedules_okI:
  assumes "distinct (map fst (cr_schedules s))" "\<And>i es. (i, es) \<in> set (cr_schedules s) \<Longrightarrow> plan_entries_ok env es"
    "cr_file s = flat (cr_schedules s)" "distinct (cr_dispatching s)"
  shows "schedules_ok env s"
  using assms by (auto simp: schedules_ok_def list_all_iff)

lemma schedules_okD:
  assumes "schedules_ok env s"
  shows "distinct (map fst (cr_schedules s))" "\<And>i es. (i, es) \<in> set (cr_schedules s) \<Longrightarrow> plan_entries_ok env es"
    "cr_file s = flat (cr_schedules s)" "distinct (cr_dispatching s)"
  using assms by (auto simp: schedules_ok_def list_all_iff)

lemma entries_of_ok:
  assumes "schedules_ok env s" "entries_of i s \<noteq> []"
  shows "plan_entries_ok env (entries_of i s)"
  using assms schedules_okD(2) [OF assms(1)] by (auto simp: entries_of_def split: option.splits dest!: map_of_SomeD)

lemma entry_of_None: "entry_of i type s = None \<longleftrightarrow> type \<notin> sc_type ` set (entries_of i s)"
  by (auto simp: entry_of_def row_by_def find_None_iff)

lemma entry_of_in: "entry_of i type s = Some e \<Longrightarrow> \<exists>es. (i, es) \<in> set (cr_schedules s) \<and> e \<in> set es \<and> sc_type e = type"
  by (cases "map_of (cr_schedules s) i")
    (auto simp: entry_of_def entries_of_def row_by_def find_Some_iff dest!: map_of_SomeD intro: nth_mem)

lemma set_schedules_ok:
  assumes "schedules_ok env s" "plan_entries_ok env es"
  shows "schedules_ok env (saveSchedules (s\<lparr>cr_schedules := map_set i es (cr_schedules s)\<rparr>))"
  by (rule schedules_okI)
    (use schedules_okD [OF assms(1)] assms(2) map_set_in map_set_distinct in \<open>auto simp: schedules_ok_def dest!: map_set_in\<close>)

lemma scheduleTask_ok:
  assumes "schedules_ok env s" "scheduleTask env i expression options type s = Ok s'"
  shows "schedules_ok env s'"
proof (cases "entry_of i type s")
  case None
  with assms(2) obtain timer where timer: "createCron env (cr_loadedHolds s) i type expression options = Ok timer"
    and s': "s' = saveSchedules (s\<lparr>cr_schedules := map_set i (entries_of i s @
       [\<lparr>sc_type = type, sc_cron = timer, sc_cronExpression = expression, sc_options = options\<rparr>]) (cr_schedules s)\<rparr>)"
    by (auto simp: scheduleTask_def split: sum.splits)
  have "plan_entries_ok env (entries_of i s @ [\<lparr>sc_type = type, sc_cron = timer, sc_cronExpression = expression, sc_options = options\<rparr>])"
    using entries_of_ok [OF assms(1), of i] None entry_ok_created(1) [OF timer, of type]
    by (cases "entries_of i s = []") (auto simp: plan_entries_ok_def entry_of_None)
  then show ?thesis unfolding s' by (rule set_schedules_ok [OF assms(1)])
qed (use assms in \<open>auto simp: scheduleTask_def\<close>)

lemma map_entries_ok:
  assumes "plan_entries_ok env es" "map sc_type es' = map sc_type es" "list_all (entry_ok env) es'"
  shows "plan_entries_ok env es'"
proof -
  have "length es' = length es" using arg_cong [OF assms(2), of length] by simp
  then show ?thesis using assms by (auto simp: plan_entries_ok_def)
qed

lemma set_entry_fst [simp]: "map fst (cr_schedules (set_entry i type f s)) = map fst (cr_schedules s)"
  by (auto simp: set_entry_def)

lemma set_entry_simps [simp]:
  "cr_file (set_entry i type f s) = cr_file s" "cr_dispatching (set_entry i type f s) = cr_dispatching s"
  by (simp_all add: set_entry_def)

lemma set_entry_entries_ok:
  assumes "schedules_ok env s" "\<And>e. entry_ok env e \<Longrightarrow> sc_type e = type \<Longrightarrow> entry_ok env (f e) \<and> sc_type (f e) = type"
    "(j, es) \<in> set (cr_schedules (set_entry i type f s))"
  shows "plan_entries_ok env es"
proof -
  from assms(3) obtain es0 where es0: "(j, es0) \<in> set (cr_schedules s)"
    and es: "es = (if j = i then update_where (\<lambda>e. sc_type e = type) f es0 else es0)"
    by (auto simp: set_entry_def)
  have ok: "plan_entries_ok env es0" by (rule schedules_okD(2) [OF assms(1) es0])
  show ?thesis
  proof (rule map_entries_ok [OF ok])
    show "map sc_type es = map sc_type es0" "list_all (entry_ok env) es"
      using ok assms(2) unfolding es by (auto simp: update_where_def plan_entries_ok_def list_all_iff)
  qed
qed

lemma stored_running [simp]: "stored i (e\<lparr>sc_cron := c\<rparr>) = stored i e"
  by (simp add: stored_def)

lemma flat_map: "(\<And>i es. map (stored i) (g i es) = map (stored i) es) \<Longrightarrow> flat (map (\<lambda>(i, es). (i, g i es)) m) = flat m"
  by (induction m) auto

lemma activate_ok:
  assumes "schedules_ok env s"
  shows "schedules_ok env (activateLoadedSchedule i type s)"
proof -
  define s1 where "s1 = s\<lparr>cr_loadedHolds := filter (\<lambda>k. k \<noteq> (i, type)) (cr_loadedHolds s)\<rparr>"
  let ?f = "\<lambda>e. e\<lparr>sc_cron := (sc_cron e)\<lparr>ct_paused := False\<rparr>\<rparr>"
  have s1: "schedules_ok env s1" using assms by (simp add: s1_def schedules_ok_def)
  have "schedules_ok env (set_entry i type ?f s1)"
    if e: "entry_of i type s = Some e" "so_isActive (sc_options e) \<noteq> Some False" for e
  proof (rule schedules_okI)
    fix j es assume "(j, es) \<in> set (cr_schedules (set_entry i type ?f s1))"
    then obtain es0 where es0: "(j, es0) \<in> set (cr_schedules s)" "es = (if j = i then update_where (\<lambda>e. sc_type e = type) ?f es0 else es0)"
      by (auto simp: set_entry_def s1_def)
    have ok: "plan_entries_ok env es0" by (rule schedules_okD(2) [OF assms es0(1)])
    have "e' = e" if "e' \<in> set es0" "sc_type e' = type" "j = i" for e'
    proof -
      have "entries_of i s = es0" using es0(1) that(3) schedules_okD(1) [OF assms] by (simp add: entries_of_def)
      then have "e \<in> set es0" "sc_type e = type" using e(1) by (auto simp: entry_of_def row_by_def find_Some_iff)
      then show ?thesis using that ok by (auto simp: plan_entries_ok_def distinct_map inj_on_def)
    qed
    then have "list_all (entry_ok env) es" using ok e(2) es0(2)
      by (auto simp: list_all_iff plan_entries_ok_def update_where_def entry_ok_def)
    then show "plan_entries_ok env es" by (rule map_entries_ok [OF ok, rotated]) (use es0(2) in \<open>auto simp: update_where_def\<close>)
  next
    have "flat (cr_schedules (set_entry i type ?f s1)) = flat (cr_schedules s1)"
      unfolding set_entry_def by (simp, rule flat_map) (auto simp: update_where_def)
    then show "cr_file (set_entry i type ?f s1) = flat (cr_schedules (set_entry i type ?f s1))"
      using schedules_okD(3) [OF s1] by simp
  qed (use schedules_okD [OF s1] in simp_all)
  then show ?thesis using assms s1 unfolding activateLoadedSchedule_def Let_def s1_def by (auto split: option.split)
qed

lemma updateSchedule_ok:
  assumes "schedules_ok env s" "updateSchedule env i expression options type s = Ok s'"
  shows "schedules_ok env s'"
proof (cases "entry_of i type s = None")
  case False
  with assms(2) obtain timer where timer: "createCron env (cr_loadedHolds s) i type expression options = Ok timer"
    and s': "s' = saveSchedules (set_entry i type
        (\<lambda>_. \<lparr>sc_type = type, sc_cron = timer, sc_cronExpression = expression, sc_options = options\<rparr>) s)"
    by (auto simp: updateSchedule_def split: sum.splits)
  show ?thesis unfolding s'
    by (rule schedules_okI)
      (use schedules_okD [OF assms(1)] entry_ok_created(1) [OF timer] in \<open>auto elim!: set_entry_entries_ok [OF assms(1), rotated]\<close>)
qed (use assms in \<open>simp add: updateSchedule_def\<close>)

lemma delete_schedules_ok:
  assumes "schedules_ok env s"
  shows "schedules_ok env (saveSchedules (s\<lparr>cr_schedules := map_delete i (cr_schedules s)\<rparr>))"
  by (rule schedules_okI) (use schedules_okD [OF assms] in \<open>auto simp: map_delete_ok(1) dest: map_delete_ok(2)\<close>)

lemma removeSchedule_ok: "schedules_ok env s \<Longrightarrow> schedules_ok env (removeSchedule i s)"
  by (simp add: removeSchedule_def delete_schedules_ok)

lemma filter_entries_ok: "plan_entries_ok env es \<Longrightarrow> filter p es \<noteq> [] \<Longrightarrow> plan_entries_ok env (filter p es)"
  by (auto simp: plan_entries_ok_def list_all_iff distinct_map_filter)

lemma removeByType_ok:
  assumes "schedules_ok env s" shows "schedules_ok env (snd (removeSchedulesByType i type s))"
proof (cases "list_ex (\<lambda>e. sc_type e = type) (entries_of i s)")
  case True
  then have "entries_of i s \<noteq> []" by auto
  then show ?thesis
    using entries_of_ok [OF assms, of i] delete_schedules_ok [OF assms, of i]
    by (auto simp: removeSchedulesByType_def Let_def assms intro!: set_schedules_ok [OF assms] filter_entries_ok)
qed (use assms in \<open>simp add: removeSchedulesByType_def\<close>)

lemma schedulable_stored:
  "schedulable env (stored i e) \<longleftrightarrow>
   (\<exists>z. scheduleTimeZone (ce_zones env) (option_zone (sc_options e)) = Ok z \<and> ce_valid env (sc_cronExpression e) z)"
  by (auto simp: schedulable_def stored_def split: sum.split)

lemma set_running_ok:
  "list_all (entry_ok env) es \<Longrightarrow>
   fst (set_running active sel es) \<and> map sc_type (snd (set_running active sel es)) = map sc_type es \<and>
   list_all (entry_ok env) (snd (set_running active sel es))"
proof (induction es)
  case (Cons e es)
  then show ?case
    by (cases "set_running active sel es") (auto simp: entry_ok_def schedulable_stored)
qed simp

lemma switchSchedule_ok:
  assumes "schedules_ok env s"
  shows "schedules_ok env (snd (switchSchedule active i type s))"
    "fst (switchSchedule active i type s) \<longleftrightarrow> list_ex (selects type) (entries_of i s)"
proof -
  have "plan_entries_ok env (snd (set_running active (selects type) es)) \<and> fst (set_running active (selects type) es)"
    if "map_of (cr_schedules s) i = Some es" for es
  proof -
    have ok: "plan_entries_ok env es" by (rule schedules_okD(2) [OF assms map_of_SomeD [OF that]])
    then have *: "list_all (entry_ok env) es" by (simp add: plan_entries_ok_def)
    show ?thesis using map_entries_ok [OF ok] set_running_ok [OF *] by blast
  qed
  then show "schedules_ok env (snd (switchSchedule active i type s))"
    "fst (switchSchedule active i type s) \<longleftrightarrow> list_ex (selects type) (entries_of i s)"
    using set_schedules_ok [OF assms] assms
    by (auto simp: switchSchedule_def entries_of_def Let_def split: option.split prod.split)
qed

lemma patched_entry_ok:
  assumes "patched_entry env holds callbacks i e = Ok e'" "entry_ok env e"
  shows "entry_ok env e' \<and> sc_type e' = sc_type e \<and> stored j e' = stored j e"
proof (cases "\<not> so_callback (sc_options e) \<and> sc_type e \<in> set callbacks")
  case True
  with assms(1) obtain timer where t: "createCron env holds i (sc_type e) (sc_cronExpression e) ((sc_options e)\<lparr>so_callback := True\<rparr>) = Ok timer"
    "e' = e\<lparr>sc_cron := timer, sc_options := (sc_options e)\<lparr>so_callback := True\<rparr>\<rparr>"
    by (auto simp: patched_entry_def Let_def bind_result_Inr_iff)
  show ?thesis using entry_ok_created(1) [OF t(1), of "sc_type e"]
    by (simp add: t(2) entry_ok_def schedulable_stored) (simp add: stored_def)
qed (use assms in \<open>auto simp: patched_entry_def\<close>)

lemma patched_entries_ok:
  assumes "map_result (patched_entry env holds callbacks i) es = Ok es'" "plan_entries_ok env es"
  shows "plan_entries_ok env es' \<and> map (stored j) es' = map (stored j) es"
proof -
  note r = map_result_Inr [OF assms(1)]
  have e: "entry_ok env (es' ! k) \<and> sc_type (es' ! k) = sc_type (es ! k) \<and> stored j (es' ! k) = stored j (es ! k)"
    if "k < length es" for k
    using patched_entry_ok r that assms(2) by (auto simp: plan_entries_ok_def list_all_length)
  have "map sc_type es' = map sc_type es" "map (stored j) es' = map (stored j) es" "list_all (entry_ok env) es'"
    using r e by (auto intro!: nth_equalityI simp: list_all_length)
  then show ?thesis using map_entries_ok [OF assms(2)] by blast
qed

lemma patch_schedules_ok:
  assumes "list_all (\<lambda>(i, es). plan_entries_ok env es) m"
  shows "map fst (patch_schedules env holds callbacks m) = map fst m \<and> flat (patch_schedules env holds callbacks m) = flat m \<and>
    list_all (\<lambda>(i, es). plan_entries_ok env es) (patch_schedules env holds callbacks m)"
  using assms
proof (induction env holds callbacks m rule: patch_schedules.induct)
  case (2 env holds callbacks i es m)
  show ?case
  proof (cases "map_result (patched_entry env holds callbacks i) es")
    case (Inr es')
    have "plan_entries_ok env es' \<and> map (stored i) es' = map (stored i) es"
      by (rule patched_entries_ok [OF Inr]) (use "2.prems" in simp)
    then show ?thesis using 2 Inr by simp
  qed (use 2 in simp)
qed simp

lemma registerCallbacks_ok: "schedules_ok env s \<Longrightarrow> schedules_ok env (registerCallbacks env keys s)"
  using patch_schedules_ok [of env "cr_schedules s"]
  by (auto simp: schedules_ok_def registerCallbacks_def Let_def)

section \<open>Restart\<close>

lemma hold_loaded_ok: "schedules_ok env s \<Longrightarrow> schedules_ok env (hold_loaded d s)"
  by (simp add: hold_loaded_def schedules_ok_def)

lemma load_entry_ok: "schedules_ok env s \<Longrightarrow> load_entry env d s = Ok s' \<Longrightarrow> schedules_ok env s'"
  unfolding load_entry_def by (rule scheduleTask_ok [OF hold_loaded_ok])

lemma load_entries_ok: "schedules_ok env s \<Longrightarrow> schedules_ok env (load_entries env ds s)"
proof (induction env ds s rule: load_entries.induct)
  case (2 env d ds s)
  then show ?case using load_entry_ok [OF "2.prems"] hold_loaded_ok [OF "2.prems"] by (cases "load_entry env d s") auto
qed simp

text \<open>Loaded backups are held and their timers paused.\<close>

definition held_paused :: "cron_state \<Rightarrow> bool" where
  "held_paused s \<longleftrightarrow> (\<forall>i es e. (i, es) \<in> set (cr_schedules s) \<and> e \<in> set es \<and> held_type (sc_type e) \<longrightarrow>
     (i, sc_type e) \<in> set (cr_loadedHolds s) \<and> ct_paused (sc_cron e))"

lemma held_paused_task:
  assumes "held_paused s" "held_type type \<Longrightarrow> (i, type) \<in> set (cr_loadedHolds s)"
    "scheduleTask env i expression options type s = Ok s'"
  shows "held_paused s' \<and> cr_callbacks s' = cr_callbacks s \<and> cr_dispatching s' = cr_dispatching s"
proof (cases "entry_of i type s")
  case None
  with assms(3) obtain timer where timer: "createCron env (cr_loadedHolds s) i type expression options = Ok timer"
    and s': "s' = saveSchedules (s\<lparr>cr_schedules := map_set i (entries_of i s @
       [\<lparr>sc_type = type, sc_cron = timer, sc_cronExpression = expression, sc_options = options\<rparr>]) (cr_schedules s)\<rparr>)"
    by (auto simp: scheduleTask_def split: sum.splits)
  have "e \<in> set (entries_of i s) \<Longrightarrow> \<exists>es. (i, es) \<in> set (cr_schedules s) \<and> e \<in> set es" for e
    by (cases "map_of (cr_schedules s) i") (auto simp: entries_of_def dest!: map_of_SomeD)
  then show ?thesis using assms(1,2) entry_ok_created(2) [OF timer]
    unfolding s' held_paused_def by (auto dest!: map_set_in) blast+
qed (use assms in \<open>auto simp: scheduleTask_def\<close>)

lemma held_paused_load: "held_paused s \<Longrightarrow> held_paused (load_entries env ds s)"
proof (induction env ds s rule: load_entries.induct)
  case (2 env d ds s)
  have "held_paused (hold_loaded d s)"
    "held_type (sd_scheduleType d) \<Longrightarrow> (sd_id d, sd_scheduleType d) \<in> set (cr_loadedHolds (hold_loaded d s))"
    using "2.prems" by (auto simp: hold_loaded_def held_paused_def)
  note * = held_paused_task [OF this]
  show ?case using "2.IH" * \<open>held_paused (hold_loaded d s)\<close> by (auto simp: load_entry_def split: sum.split)
qed simp

lemma entries_of_last:
  "cr_schedules s = m0 @ (if es0 = [] then [] else [(i, es0)]) \<Longrightarrow> i \<notin> fst ` set m0 \<Longrightarrow> entries_of i s = es0"
  by (auto simp: entries_of_def map_of_append dest: map_of_SomeD split: if_splits option.split) (force dest: map_of_SomeD)+

lemma map_set_last:
  "i \<notin> fst ` set m0 \<Longrightarrow> map_set i es (m0 @ (if es0 = [] then [] else [(i, es0)])) = m0 @ [(i, es)]"
  by (auto simp: map_set_def intro!: map_idI) force

lemma stored_sel [simp]:
  "sd_id (stored i e) = i" "sd_scheduleType (stored i e) = sc_type e" "sd_cronExpression (stored i e) = sc_cronExpression e"
  "sd_options (stored i e) = (sc_options e)\<lparr>so_callback := False\<rparr>"
  by (simp_all add: stored_def)

lemma load_entry_last:
  assumes "cr_schedules s = m0 @ (if es0 = [] then [] else [(i, es0)])" "i \<notin> fst ` set m0" "sc_type e \<notin> sc_type ` set es0"
    "schedulable env (stored i e)"
  shows "\<exists>s' e'. load_entry env (stored i e) s = Ok s' \<and> cr_schedules s' = m0 @ [(i, es0 @ [e'])] \<and> stored i e' = stored i e"
proof -
  let ?s = "hold_loaded (stored i e) s" and ?o = "(sc_options e)\<lparr>so_callback := sc_type e \<in> set (cr_callbacks s)\<rparr>"
  have sched: "cr_schedules ?s = cr_schedules s" by (simp add: hold_loaded_def)
  then have es: "entries_of i ?s = es0" using entries_of_last [OF assms(1,2)] by (simp add: entries_of_def)
  obtain z where "scheduleTimeZone (ce_zones env) (option_zone (sc_options e)) = Ok z" "ce_valid env (sc_cronExpression e) z"
    using assms(4) unfolding schedulable_stored by blast
  then obtain timer where "createCron env (cr_loadedHolds ?s) i (sc_type e) (sc_cronExpression e) ?o = Ok timer"
    by (auto simp: createCron_def)
  moreover define e' where "e' = \<lparr>sc_type = sc_type e, sc_cron = timer, sc_cronExpression = sc_cronExpression e, sc_options = ?o\<rparr>"
  ultimately have "load_entry env (stored i e) s = Ok (saveSchedules (?s\<lparr>cr_schedules := m0 @ [(i, es0 @ [e'])]\<rparr>))"
    using assms(3) es map_set_last [OF assms(2), of _ es0]
    by (simp add: load_entry_def scheduleTask_def entry_of_None sched assms(1))
  moreover have "stored i e' = stored i e" by (simp add: stored_def e'_def)
  ultimately show ?thesis by auto
qed

lemma load_block:
  assumes "cr_schedules s = m0 @ (if es0 = [] then [] else [(i, es0)])" "i \<notin> fst ` set m0" "distinct (map sc_type (es0 @ es))"
    "\<And>e. e \<in> set es \<Longrightarrow> schedulable env (stored i e)"
  shows "\<exists>s' es'. load_entries env (map (stored i) es @ ds) s = load_entries env ds s' \<and>
    cr_schedules s' = m0 @ (if es0 @ es' = [] then [] else [(i, es0 @ es')]) \<and> map (stored i) es' = map (stored i) es"
  using assms
proof (induction es arbitrary: es0 s)
  case (Cons e es)
  obtain s1 e' where s1: "load_entry env (stored i e) s = Ok s1" "cr_schedules s1 = m0 @ [(i, es0 @ [e'])]" "stored i e' = stored i e"
    using load_entry_last [OF Cons.prems(1,2), of e env] Cons.prems(3,4) by auto
  have "sc_type e' = sc_type e" using arg_cong [OF s1(3), of sd_scheduleType] by (simp add: stored_def)
  then have "distinct (map sc_type ((es0 @ [e']) @ es))" using Cons.prems(3) by auto
  then obtain s' es' where "load_entries env (map (stored i) es @ ds) s1 = load_entries env ds s'"
    "cr_schedules s' = m0 @ [(i, es0 @ [e'] @ es')]" "map (stored i) es' = map (stored i) es"
    using Cons.IH [of s1 "es0 @ [e']"] s1(2) Cons.prems(2,4) by auto
  then show ?case using s1(1,3) by (intro exI [of _ s'] exI [of _ "e' # es'"]) simp
qed force

lemma load_flat:
  assumes "cr_schedules s = m0" "distinct (map fst (m0 @ m))" "\<And>i es. (i, es) \<in> set m \<Longrightarrow> plan_entries_ok env es"
  shows "flat (cr_schedules (load_entries env (flat m) s)) = flat m0 @ flat m"
  using assms
proof (induction m arbitrary: m0 s)
  case (Cons p m)
  obtain i es where p: "p = (i, es)" by (cases p)
  have ok: "plan_entries_ok env es" by (rule Cons.prems(3) [of i]) (simp add: p)
  then have "distinct (map sc_type ([] @ es))" "\<And>e. e \<in> set es \<Longrightarrow> schedulable env (stored i e)"
    by (auto simp: plan_entries_ok_def list_all_iff entry_ok_def schedulable_stored)
  then obtain s' es' where s': "load_entries env (map (stored i) es @ flat m) s = load_entries env (flat m) s'"
    "cr_schedules s' = m0 @ (if [] @ es' = [] then [] else [(i, [] @ es')])" "map (stored i) es' = map (stored i) es"
    using load_block [of s m0 "[]" i es env "flat m"] Cons.prems(1,2) p by auto
  have "es' \<noteq> []" using s'(3) ok by (auto simp: plan_entries_ok_def)
  then have "flat (cr_schedules (load_entries env (flat m) s')) = flat (m0 @ [(i, es')]) @ flat m"
    by (intro Cons.IH) (use s'(2) Cons.prems(2,3) p in auto)
  then show ?case using s'(1,3) p by simp
qed simp

lemma restart_file:
  assumes "schedules_ok env s"
  shows "flat (cr_schedules (restart env callbacks (cr_file s))) = cr_file s"
  unfolding restart_def loadSchedules_def
  using load_flat [of _ "[]" "cr_schedules s" env] schedules_okD [OF assms] by simp

lemma load_entry_file: "cr_schedules s = [] \<Longrightarrow> load_entry env d (s\<lparr>cr_file := f\<rparr>) = load_entry env d s"
  by (simp add: load_entry_def scheduleTask_def hold_loaded_def entry_of_def entries_of_def saveSchedules_def split: sum.split)

lemma restart_ok:
  assumes "schedules_ok env s"
  shows "schedules_ok env (restart env callbacks (cr_file s))" "held_paused (restart env callbacks (cr_file s))"
proof -
  show "held_paused (restart env callbacks (cr_file s))"
    unfolding restart_def loadSchedules_def by (rule held_paused_load) (simp add: held_paused_def)
  let ?s = "\<lparr>cr_schedules = [], cr_dispatching = [], cr_loadedHolds = [], cr_callbacks = callbacks, cr_file = []\<rparr>"
  have empty: "schedules_ok env ?s" by (simp add: schedules_ok_def)
  have saved: "cr_file s = flat (cr_schedules s)" by (rule schedules_okD(3) [OF assms])
  show "schedules_ok env (restart env callbacks (cr_file s))"
  proof (cases "cr_schedules s")
    case Nil
    then show ?thesis using empty saved by (simp add: restart_def loadSchedules_def)
  next
    case (Cons p m)
    obtain i es where p: "p = (i, es)" by (cases p)
    have ok: "plan_entries_ok env es" by (rule schedules_okD(2) [OF assms, of i]) (simp add: Cons p)
    then obtain e es0 where es: "es = e # es0" by (cases es) (auto simp: plan_entries_ok_def)
    define ds where "ds = map (stored i) es0 @ flat m"
    have fl: "cr_file s = stored i e # ds" using saved Cons p es by (simp add: ds_def)
    have "schedulable env (stored i e)" using ok es by (simp add: plan_entries_ok_def entry_ok_def schedulable_stored)
    then obtain s1 where s1: "load_entry env (stored i e) ?s = Ok s1"
      using load_entry_last [of ?s "[]" "[]" i e env] by auto
    have "restart env callbacks (cr_file s) = load_entries env ds s1"
      using load_entry_file [of ?s env "stored i e" "cr_file s"] s1 by (simp add: restart_def loadSchedules_def fl)
    then show ?thesis using load_entries_ok [OF load_entry_ok [OF empty s1]] by simp
  qed
qed

section \<open>Runs of the manager\<close>

text \<open>Calls in any order, timers that fire, and restarts on the file.\<close>

inductive cron_step :: "cron_env \<Rightarrow> cron_state \<Rightarrow> cron_state \<Rightarrow> bool" for env where
  cs_schedule: "scheduleTask env i expression options type s = Ok s' \<Longrightarrow> cron_step env s s'"
| cs_update: "updateSchedule env i expression options type s = Ok s' \<Longrightarrow> cron_step env s s'"
| cs_remove: "cron_step env s (removeSchedule i s)"
| cs_removeType: "cron_step env s (snd (removeSchedulesByType i type s))"
| cs_pause: "cron_step env s (snd (pauseSchedule i types s))"
| cs_resume: "cron_step env s (snd (resumeSchedule i types s))"
| cs_activate: "cron_step env s (activateLoadedSchedule i type s)"
| cs_register: "cron_step env s (registerCallbacks env keys s)"
| cs_fire: "cron_step env s (fst (cron_fire i type s))"
| cs_done: "cron_step env s (cron_done i type s)"
| cs_restart: "cron_step env s (restart env callbacks (cr_file s))"

definition cron_start :: "cron_env \<Rightarrow> cron_state \<Rightarrow> bool" where
  "cron_start env s \<longleftrightarrow> (\<exists>callbacks. s = restart env callbacks [])"

interpretation cron: invariant_system "cron_start env" "cron_step env" "schedules_ok env" for env
proof
  fix s assume "cron_start env s"
  then show "schedules_ok env s" by (auto simp: cron_start_def restart_def loadSchedules_def schedules_ok_def)
next
  fix s s' assume ok: "schedules_ok env s" and step: "cron_step env s s'"
  show "schedules_ok env s'"
    using step
  proof cases
    case (cs_fire i type)
    then show ?thesis using ok by (auto simp: cron_fire_def schedules_ok_def split: option.split)
  next
    case (cs_done i type)
    then show ?thesis using ok by (simp add: cron_done_def schedules_ok_def)
  qed (use ok in \<open>auto simp: removeSchedule_ok removeByType_ok pauseSchedule_def resumeSchedule_def switchSchedule_ok(1) activate_ok
      registerCallbacks_ok restart_ok(1) elim: scheduleTask_ok [rotated] updateSchedule_ok [rotated]\<close>)
qed


text \<open>
  C36: A restart schedules the same again.  Whatever was called before, a new process schedules exactly what the file
  holds, writes the same file, and calls no task of a held kind before the plan is released.
\<close>

theorem restart_same_schedules:
  assumes "reachable (cron_start env) (cron_step env) s"
  shows "cr_file (restart env callbacks (cr_file s)) = cr_file s \<and>
    (\<forall>i type. held_type type \<longrightarrow> \<not> snd (cron_fire i type (restart env callbacks (cr_file s))))"
proof -
  have ok: "schedules_ok env s" by (rule cron.reachable_inv [OF assms])
  have "held_paused (restart env callbacks (cr_file s))" by (rule restart_ok(2) [OF ok])
  then have "\<not> snd (cron_fire i type (restart env callbacks (cr_file s)))" if "held_type type" for i type
    using that by (auto simp: cron_fire_def held_paused_def dest!: entry_of_in split: option.split)
  then show ?thesis using restart_file [OF ok] schedules_okD(3) [OF restart_ok(1) [OF ok]] by simp
qed

section \<open>Clock times\<close>

lemma time_at_clock:
  assumes "list_all is_digit h" "h \<noteq> []" "is_digit m1" "is_digit m2" "a \<in> set ''AaPp''" "b \<in> set ''Mm''"
  shows "find_time (h @ CHR '':'' # [m1, m2, a, b]) = Some (h, [m1, m2])"
proof -
  have n: "\<not> is_digit (CHR '':'')" "\<not> is_digit a" using assms(5) by (auto simp: is_digit_def less_eq_char_def)
  have "takeWhile is_digit (h @ CHR '':'' # r) = h" "dropWhile is_digit (h @ CHR '':'' # r) = CHR '':'' # r" for r
    using assms(1) n(1) by (simp_all add: list_all_iff)
  then have "time_at (h @ CHR '':'' # [m1, m2, a, b]) = Some (h, [m1, m2])"
    using assms n by (simp add: time_at_def starts_with_def)
  then show ?thesis using assms(2) by (cases h) auto
qed

lemma hour_ok_cases:
  assumes "hour_ok h"
  obtains "h \<in> {''10'', ''11'', ''12''}" | d where "h = [d] \<or> h = [CHR ''0'', d]" "is_digit d" "d \<noteq> CHR ''0''"
  using assms by (cases h) (auto simp: hour_ok_def starts_with_def split: list.splits if_splits)

lemma hour_ok_digits: "hour_ok h \<Longrightarrow> list_all is_digit h \<and> h \<noteq> []"
  by (erule hour_ok_cases) (auto simp: is_digit_def less_eq_char_def)

lemma hour_ok_value:
  assumes "hour_ok h" shows "1 \<le> decimal_value 0 h \<and> decimal_value 0 h \<le> 12"
  using assms
proof (cases rule: hour_ok_cases)
  case (2 d)
  have "d = CHR ''0''" if "of_char d = (48 :: nat)" using that of_char_eq_iff [of d "CHR ''0''", where ?'a = nat] by simp
  then show ?thesis using 2 by (force simp: is_digit_def less_eq_char_def)
qed auto

lemma includes_skip: "p \<notin> set xs \<Longrightarrow> includes_text (p # ps) (xs @ ys) = includes_text (p # ps) ys"
  by (induction xs) (auto simp: starts_with_def)

lemma split_on_single: "split_on sep s = [x] \<Longrightarrow> s = x"
  by (induction s arbitrary: x) (auto split: if_splits list.splits)

lemma split_on_pair: "split_on sep s = [h, r] \<Longrightarrow> s = h @ sep # r"
  by (induction s arbitrary: h) (auto split: if_splits list.splits dest: split_on_single)

lemma clock_time_cases:
  assumes "clock_time_ok t"
  obtains h m1 m2 a b where "t = h @ CHR '':'' # [m1, m2, a, b]" "hour_ok h" "m1 \<in> set ''012345''" "is_digit m2"
    "lower_char a \<in> {CHR ''a'', CHR ''p''}" "lower_char b = CHR ''m''"
  using assms by (auto simp: clock_time_ok_def dest!: split_on_pair split: list.splits)

lemma lower_char_upper: "lower_char a = c \<Longrightarrow> a = c \<or> of_char a + 32 = (of_char c :: nat)"
  by (auto simp: lower_char_def is_upper_def less_eq_char_def split: if_splits)

lemma meridiem_chars:
  "lower_char a \<in> {CHR ''a'', CHR ''p''} \<Longrightarrow> a \<in> set ''AaPp''" "lower_char b = CHR ''m'' \<Longrightarrow> b \<in> set ''Mm''"
proof -
  have eq: "x = c" if "of_char x = (of_char c :: nat)" for x c :: char using that by (simp add: of_char_eq_iff)
  show "lower_char a \<in> {CHR ''a'', CHR ''p''} \<Longrightarrow> a \<in> set ''AaPp''"
    using lower_char_upper [of a] eq [of a "CHR ''A''"] eq [of a "CHR ''P''"] by auto
  show "lower_char b = CHR ''m'' \<Longrightarrow> b \<in> set ''Mm''"
    using lower_char_upper [of b] eq [of b "CHR ''M''"] by auto
qed

lemma clock_cron:
  assumes "pi_time v = Some (h @ CHR '':'' # [m1, m2, a, b])" "hour_ok h" "is_digit m1" "is_digit m2"
    "lower_char a \<in> {CHR ''a'', CHR ''p''}" "lower_char b = CHR ''m''"
  shows "cron_minutes v = [m1, m2]"
    "cron_hour v = nat_text (decimal_value 0 h mod 12 + (if lower_char a = CHR ''p'' then 12 else 0))"
proof -
  have tp: "time_parts v = Some (h, [m1, m2])"
    unfolding time_parts_def assms(1) using time_at_clock [of h m1 m2 a b] hour_ok_digits [OF assms(2)] assms(3,4)
      meridiem_chars(1) [OF assms(5)] meridiem_chars(2) [OF assms(6)] by simp
  then show "cron_minutes v = [m1, m2]" by (simp add: cron_minutes_def)
  have low: "lower_char c \<noteq> CHR ''p''" if "is_digit c \<or> c = CHR '':''" for c
    using that lower_char_upper [of c "CHR ''p''"] by (auto simp: is_digit_def less_eq_char_def)
  have "\<forall>c \<in> set (h @ CHR '':'' # [m1, m2]). is_digit c \<or> c = CHR '':''"
    using hour_ok_digits [OF assms(2)] assms(3,4) by (auto simp: list_all_iff)
  then have "list_all (\<lambda>x. x \<noteq> CHR ''p'') (map lower_char (h @ CHR '':'' # [m1, m2]))" using low by (simp add: list_all_iff)
  then have "CHR ''p'' \<notin> set (map lower_char (h @ CHR '':'' # [m1, m2]))" unfolding list_all_iff by (rule contrapos_pn) blast
  then have "includes_text ''pm'' (map lower_char (h @ CHR '':'' # [m1, m2]) @ [lower_char a, lower_char b]) \<longleftrightarrow>
      includes_text ''pm'' [lower_char a, lower_char b]" by (rule includes_skip)
  then have pm: "is_pm v \<longleftrightarrow> lower_char a = CHR ''p''" using assms(5,6)
    by (auto simp: is_pm_def assms(1) to_lower_def starts_with_def)
  have t: "nat_text 12 = ''12''" "nat_text 0 = ''0''" by code_simp+
  have "decimal_value 0 h = 12 \<or> decimal_value 0 h mod 12 = decimal_value 0 h"
    using hour_ok_value [OF assms(2)] by (cases "decimal_value 0 h = 12") auto
  then show "cron_hour v = nat_text (decimal_value 0 h mod 12 + (if lower_char a = CHR ''p'' then 12 else 0))"
    unfolding cron_hour_def tp using pm t by (auto simp: Let_def)
qed

text \<open>
  Clock times are converted correctly.  The cron expression of an accepted daily interval with a time has the
  minutes of that time and its hour on the 24-hour clock: twelve is midnight in the morning and noon
  otherwise, so the hour is below 24.
\<close>

theorem daily_clock_time:
  assumes "read_interval j = Ok v" "pi_type v = ''daily''" "pi_time v = Some t" "t \<noteq> []"
  shows "\<exists>h m1 m2 a b. t = h @ CHR '':'' # [m1, m2, a, b] \<and> decimal_value 0 [m1, m2] < 60 \<and>
    decimal_value 0 h mod 12 + (if lower_char a = CHR ''p'' then 12 else 0) < 24 \<and>
    intervalToCron v = [m1, m2] @ '' '' @
      nat_text (decimal_value 0 h mod 12 + (if lower_char a = CHR ''p'' then 12 else 0)) @ '' * * *''"
proof -
  have "json_field ''time'' j = Some (JStr t)" "clock_json_ok (JStr t)"
    using assms(1,3) by (auto simp: read_interval_def bind_eq_Some_conv elim!: parse_str.elims split: option.splits if_splits)
  then have "clock_time_ok t" using assms(4) by simp
  then obtain h m1 m2 a b where t: "t = h @ CHR '':'' # [m1, m2, a, b]" and ok: "hour_ok h" "m1 \<in> set ''012345''" "is_digit m2"
    "lower_char a \<in> {CHR ''a'', CHR ''p''}" "lower_char b = CHR ''m''" by (rule clock_time_cases)
  have d: "is_digit m1" using ok(2) by (auto simp: is_digit_def less_eq_char_def)
  have "of_char m1 \<le> (53 :: nat)" using ok(2) by auto
  moreover have "of_char m2 \<le> (57 :: nat)" using ok(3) by (simp add: is_digit_def less_eq_char_def)
  ultimately have "decimal_value 0 [m1, m2] < 60" by simp
  moreover have "intervalToCron v = cron_minutes v @ '' '' @ cron_hour v @ '' * * *''"
    using assms(2) by (simp add: intervalToCron_def Let_def)
  moreover have "decimal_value 0 h mod 12 < 12" by simp
  then have "decimal_value 0 h mod 12 + (if lower_char a = CHR ''p'' then 12 else 0) < 24" by (cases "lower_char a = CHR ''p''") simp_all
  ultimately show ?thesis
    using clock_cron [OF assms(3) [unfolded t] ok(1) d ok(3,4,5)] t
    by (intro exI [of _ h] exI [of _ m1] exI [of _ m2] exI [of _ a] exI [of _ b]) simp
qed

section \<open>Examples\<close>

definition sample_cron_env :: cron_env where
  "sample_cron_env = \<lparr>ce_zones = \<lparr>sv_resolve = Some, sv_zone = ''UTC'', sv_nextRun = (\<lambda>_ _ now. Some (Some now))\<rparr>,
     ce_valid = (\<lambda>expression _. expression \<noteq> ''0 0 * * '')\<rparr>"

definition sample_options :: schedule_options where
  "sample_options = \<lparr>so_isActive = Some True, so_timeZone = Some (JStr ''UTC''), so_settings = None, so_callback = False\<rparr>"

definition sample_stored :: "string \<Rightarrow> string \<Rightarrow> stored_schedule" where
  "sample_stored i expression = \<lparr>sd_id = i, sd_scheduleType = ''remote-backup'', sd_cronExpression = expression, sd_options = sample_options\<rparr>"

definition sample_cron_state :: cron_state where
  "sample_cron_state = \<lparr>cr_schedules = [(''p1'', [\<lparr>sc_type = ''remote-backup'',
       sc_cron = \<lparr>ct_zone = ''UTC'', ct_paused = False, ct_stopped = False\<rparr>, sc_cronExpression = ''30 14 * * *'', sc_options = sample_options\<rparr>])],
     cr_dispatching = [], cr_loadedHolds = [], cr_callbacks = [], cr_file = [sample_stored ''p1'' ''30 14 * * *'']\<rparr>"

lemma sample_cron_reachable: "reachable (cron_start sample_cron_env) (cron_step sample_cron_env) sample_cron_state"
proof -
  have "scheduleTask sample_cron_env ''p1'' ''30 14 * * *'' sample_options ''remote-backup'' (restart sample_cron_env [] []) =
      Ok sample_cron_state" by code_simp
  then have "cron_step sample_cron_env (restart sample_cron_env [] []) sample_cron_state" by (rule cs_schedule)
  moreover have "cron_start sample_cron_env (restart sample_cron_env [] [])" by (auto simp: cron_start_def)
  ultimately show ?thesis by (blast intro: reach_init reach_step)
qed


theorem restart_same_schedules_witness:
  "cr_file (restart sample_cron_env [''remote-backup''] (cr_file sample_cron_state)) = [sample_stored ''p1'' ''30 14 * * *'']"
  using restart_same_schedules [OF sample_cron_reachable, of "[''remote-backup'']"] by (simp add: sample_cron_state_def)

theorem daily_clock_time_witness:
  "\<exists>h m1 m2 a b. ''12:05am'' = h @ CHR '':'' # [m1, m2, a, b] \<and>
    intervalToCron \<lparr>pi_timeZone = None, pi_type = ''daily'', pi_minutes = None, pi_time = Some ''12:05am'', pi_days = None, pi_hours = None\<rparr> =
      [m1, m2] @ '' '' @ nat_text (decimal_value 0 h mod 12 + (if lower_char a = CHR ''p'' then 12 else 0)) @ '' * * *''"
proof -
  have "read_interval (JObj [(''type'', JStr ''daily''), (''time'', JStr ''12:05am'')]) =
      Ok \<lparr>pi_timeZone = None, pi_type = ''daily'', pi_minutes = None, pi_time = Some ''12:05am'', pi_days = None, pi_hours = None\<rparr>"
    by code_simp
  from daily_clock_time [OF this, of "''12:05am''"] show ?thesis by fastforce
qed

text \<open>
  A schedule that cannot be created again ends the loading of the file.  The schedules after it are lost, also
  from the file, since every schedule loaded before rewrites it.
\<close>

theorem refused_schedule_drops_rest:
  "cr_file (restart sample_cron_env [''remote-backup'']
     [sample_stored ''p1'' ''30 14 * * *'', sample_stored ''p2'' ''0 0 * * '', sample_stored ''p3'' ''0 * * * *'']) =
   [sample_stored ''p1'' ''30 14 * * *'']"
  by code_simp

end
