(* ===== verification/Backup_Store.thy ===== *)
theory Backup_Store
  imports Remote_Progress "HOL-Library.List_Lexorder" "HOL-Library.Product_Lexorder" Control_Database
begin

text \<open>
  The table of backups (\<open>backend/src/stores/BackupStore.ts\<close>) and the handlers that settle a backup
  (\<open>backend/src/services/events/BackupEventService.ts\<close>).  \<open>scope\<close> is \<open>assertExportBackupScope\<close> of the namespace
  reservations, which refuses a row inside a reserved export namespace; it accepts every row where
  nothing is reserved.  A handler reads and writes the row without waiting for anything but the
  database, whose driver is synchronous, so it is one step; it logs the error of a failed write and
  does not throw.  The notification it sends afterwards belongs to the outbox.
\<close>

section \<open>Objects\<close>

text \<open>\<open>{ ...a, ...b }\<close>: the keys of \<open>a\<close> in their order, then the new keys of \<open>b\<close>; \<open>b\<close> wins.\<close>

definition object_spread :: "(string \<times> 'v) list \<Rightarrow> (string \<times> 'v) list \<Rightarrow> (string \<times> 'v) list" where
  "object_spread a b = map (\<lambda>(k, v). (k, case map_of b k of Some w \<Rightarrow> w | None \<Rightarrow> v)) a @
     filter (\<lambda>(k, v). k \<notin> fst ` set a) b"

section \<open>Rows\<close>

type_synonym scope_guard = "backup_record \<Rightarrow> unit result"

definition bs_getById :: "string \<Rightarrow> backup_record list \<Rightarrow> backup_record option" where
  "bs_getById i t = row_by br_id i t"

definition bs_create :: "scope_guard \<Rightarrow> int \<Rightarrow> backup_record \<Rightarrow> backup_record list \<Rightarrow> (backup_record \<times> backup_record list) result" where
  "bs_create scope now row t =
     bind_result (scope row) (\<lambda>_.
       let new = row\<lparr>br_createdAt := secs now, br_started := Some (secs now)\<rparr> in
       if br_id row \<in> br_id ` set t then Throw SqlError else Ok (new, t @ [new]))"

text \<open>\<open>f\<close> sets the given columns.\<close>

definition bs_update ::
  "scope_guard \<Rightarrow> int \<Rightarrow> string \<Rightarrow> (backup_record \<Rightarrow> backup_record) \<Rightarrow> backup_record list
   \<Rightarrow> (backup_record option \<times> backup_record list) result" where
  "bs_update scope now i f t =
     (case bs_getById i t of
        None \<Rightarrow> Ok (None, t)
      | Some old \<Rightarrow>
          bind_result (scope (f old)) (\<lambda>_.
            Ok (update_returning (\<lambda>r. br_id r = i) (\<lambda>r. (f r)\<lparr>br_updatedAt := Some (secs now)\<rparr>) t)))"

definition updateRemoteProgress ::
  "int \<Rightarrow> string \<Rightarrow> string \<Rightarrow> string \<Rightarrow> int \<Rightarrow> int \<Rightarrow> progress_event \<Rightarrow> backup_record list
   \<Rightarrow> backup_record option \<times> backup_record list" where
  "updateRemoteProgress now i planId commandId attempt sequence e t =
     (case bs_getById i t of
        None \<Rightarrow> (None, t)
      | Some current \<Rightarrow>
          if br_planId current \<noteq> Some planId \<or> br_sourceId current = ''main'' then (None, t)
          else case mergeRemoteProgress current commandId attempt sequence e of
                 None \<Rightarrow> (None, t)
               | Some (st, p) \<Rightarrow>
                   update_returning (\<lambda>r. br_id r = i)
                     (\<lambda>r. r\<lparr>br_status := Some st, br_progressStats := Some p, br_updatedAt := Some (secs now)\<rparr>) t)"

text \<open>The calls for one backup run one after the other, so each is one step.\<close>

definition new_mirror :: "string \<Rightarrow> (string \<times> json) list" where
  "new_mirror replicationId = (''replicationId'', JStr replicationId) #
     map (\<lambda>k. (k, JStr [])) [''storageId'', ''storageName'', ''storagePath'', ''storageType''] @ [(''status'', JStr ''pending'')]"

definition merged_mirrors :: "string \<Rightarrow> (string \<times> json) list \<Rightarrow> (string \<times> json) list list \<Rightarrow> (string \<times> json) list list" where
  "merged_mirrors replicationId upd ms =
     (let mine = (\<lambda>m. map_of m ''replicationId'' = Some (JStr replicationId)) in
      if list_ex mine ms then map (\<lambda>m. if mine m then object_spread m upd else m) ms
      else ms @ [object_spread (new_mirror replicationId) upd])"

definition updateMirrorStatus ::
  "scope_guard \<Rightarrow> int \<Rightarrow> string \<Rightarrow> string \<Rightarrow> (string \<times> json) list \<Rightarrow> backup_record list
   \<Rightarrow> (backup_record option \<times> backup_record list) result" where
  "updateMirrorStatus scope now i replicationId upd t =
     bs_update scope now i (\<lambda>r. r\<lparr>br_mirrors := merged_mirrors replicationId upd (br_mirrors r)\<rparr>) t"

definition bs_delete :: "string \<Rightarrow> backup_record list \<Rightarrow> bool \<times> backup_record list" where
  "bs_delete i t = (list_ex (\<lambda>r. br_id r = i) t, delete_where (\<lambda>r. br_id r = i) t)"

definition bs_deleteByPlanId :: "string \<Rightarrow> backup_record list \<Rightarrow> bool \<times> backup_record list" where
  "bs_deleteByPlanId planId t =
     (list_ex (\<lambda>r. br_planId r = Some planId) t, delete_where (\<lambda>r. br_planId r = Some planId) t)"

text \<open>\<open>PlanStore.hasActiveBackups\<close>\<close>

definition hasActiveBackups :: "string \<Rightarrow> backup_record list \<Rightarrow> bool" where
  "hasActiveBackups planId t \<longleftrightarrow> list_ex (\<lambda>r. br_planId r = Some planId \<and> br_inProgress r = Some True) t"

section \<open>Comparison and history\<close>

text \<open>\<open>coalesce(ended, started, createdAt)\<close>\<close>

definition backupHistoryDate :: "backup_record \<Rightarrow> int" where
  "backupHistoryDate r = first_date (br_ended r) (br_started r) (br_createdAt r)"

text \<open>Newest first; the id decides among equal dates.  Ids are compared as SQLite compares text.\<close>

definition history_order :: "backup_record list \<Rightarrow> backup_record list" where
  "history_order t = rev (order_by (\<lambda>r. (backupHistoryDate r, map of_char (br_id r) :: nat list)) t)"

definition comparable :: "backup_record \<Rightarrow> backup_record \<Rightarrow> bool" where
  "comparable current r \<longleftrightarrow>
     br_planId current \<noteq> None \<and> br_planId r = br_planId current \<and> br_method r = ''backup'' \<and> br_status r = Some ''completed'' \<and>
     br_sourceId r = br_sourceId current \<and> br_sourceType r = br_sourceType current \<and>
     br_storageId current \<noteq> None \<and> br_storageId r = br_storageId current \<and>
     br_storagePath r = Some (case br_storagePath current of None \<Rightarrow> [] | Some p \<Rightarrow> p) \<and>
     br_inProgress r \<noteq> Some True \<and> br_success r \<noteq> Some False \<and>
     (backupHistoryDate r, map of_char (br_id r) :: nat list) < (backupHistoryDate current, map of_char (br_id current))"

definition comparisonCandidates :: "backup_record \<Rightarrow> backup_record list \<Rightarrow> backup_record list" where
  "comparisonCandidates current t = take 32 (history_order (filter (comparable current) t))"

text \<open>
  The page of the finished backups of a plan between two dates (seconds); the page number is reduced to the
  last page.
\<close>

record history_query_input =
  hq_page :: nat
  hq_pageSize :: nat
  hq_from :: "int option"
  hq_until :: "int option"

record backup_page =
  bp_items :: "backup_record list"
  bp_total :: nat
  bp_page :: nat
  bp_totalPages :: nat
  bp_hasPrevious :: bool
  bp_hasNext :: bool

definition in_history :: "string \<Rightarrow> history_query_input \<Rightarrow> backup_record \<Rightarrow> bool" where
  "in_history planId q r \<longleftrightarrow> br_planId r = Some planId \<and> br_inProgress r \<noteq> Some True \<and>
     (case hq_from q of None \<Rightarrow> True | Some d \<Rightarrow> d \<le> backupHistoryDate r) \<and>
     (case hq_until q of None \<Rightarrow> True | Some d \<Rightarrow> backupHistoryDate r < d)"

definition getHistoryPage :: "string \<Rightarrow> history_query_input \<Rightarrow> backup_record list \<Rightarrow> backup_page" where
  "getHistoryPage planId q t =
     (let rows = filter (in_history planId q) t; total = length rows;
          totalPages = max 1 ((total + hq_pageSize q - 1) div hq_pageSize q);
          page = min (hq_page q) totalPages in
      \<lparr>bp_items = take (hq_pageSize q) (drop ((page - 1) * hq_pageSize q) (history_order rows)), bp_total = total,
       bp_page = page, bp_totalPages = totalPages, bp_hasPrevious = (1 < page), bp_hasNext = (page < totalPages)\<rparr>)"

section \<open>Handlers\<close>

text \<open>\<open>eventDate\<close>: the time of the event in seconds, or the clock.\<close>

definition eventDate :: "int option \<Rightarrow> int \<Rightarrow> int" where
  "eventDate occurredAt now = (case occurredAt of Some s \<Rightarrow> if s = 0 then secs now else s | None \<Rightarrow> secs now)"

text \<open>The rows after a handler: an error of the write leaves them alone.\<close>

definition settled_rows :: "(backup_record option \<times> backup_record list) result \<Rightarrow> backup_record list \<Rightarrow> backup_record list" where
  "settled_rows r t = (case r of Inl e \<Rightarrow> t | Inr (_, t') \<Rightarrow> t')"

definition wasCancelled :: "string \<Rightarrow> backup_record list \<Rightarrow> bool" where
  "wasCancelled i t \<longleftrightarrow> (case bs_getById i t of None \<Rightarrow> False | Some r \<Rightarrow> br_status r = Some ''cancelled'')"

definition wasFinalized :: "string \<Rightarrow> backup_record list \<Rightarrow> bool" where
  "wasFinalized i t \<longleftrightarrow>
     (case bs_getById i t of
        None \<Rightarrow> False
      | Some r \<Rightarrow> br_inProgress r \<noteq> Some True \<and> br_status r \<in> {Some ''completed'', Some ''failed''})"

text \<open>
  The columns a completion sets.  \<open>summary\<close> is the summary of a remote agent, \<open>file\<close> the one of the progress
  file of a local backup, \<open>rescue\<close> whether the plan exists and has that method.
\<close>

definition completed_row :: "int option \<Rightarrow> int \<Rightarrow> bool \<Rightarrow> bool \<Rightarrow> json option \<Rightarrow> backup_record \<Rightarrow> backup_record" where
  "completed_row occurredAt now rescue success data r =
     r\<lparr>br_inProgress := Some False, br_status := Some (if success then ''completed'' else ''failed''), br_success := Some success,
       br_ended := Some (eventDate occurredAt now), br_completionStats := data,
       br_errorMsg := (if success then None else br_errorMsg r),
       br_taskStats := (if rescue \<and> success then (case data of
                          Some (JObj fs) \<Rightarrow> Some (JObj (object_spread fs [(''dry_run'', JBool False)])) | _ \<Rightarrow> br_taskStats r)
                        else br_taskStats r)\<rparr>"

definition summary_data :: "json option \<Rightarrow> json option \<Rightarrow> json option" where
  "summary_data summary file =
     (if Option.bind summary (json_field ''message_type'') = Some (JStr ''summary'') then summary else file)"

definition onBackupComplete ::
  "scope_guard \<Rightarrow> int option \<Rightarrow> int \<Rightarrow> bool \<Rightarrow> bool \<Rightarrow> string \<Rightarrow> json option \<Rightarrow> json option \<Rightarrow> backup_record list \<Rightarrow> backup_record list" where
  "onBackupComplete scope occurredAt now rescue success i summary file t =
     (if wasFinalized i t then t
      else if \<not> success \<and> wasCancelled i t then t
      else settled_rows (bs_update scope now i (completed_row occurredAt now rescue success (summary_data summary file)) t) t)"

definition cancelled_row :: "int option \<Rightarrow> int \<Rightarrow> backup_record \<Rightarrow> backup_record" where
  "cancelled_row occurredAt now r = r\<lparr>br_inProgress := Some False, br_status := Some ''cancelled'', br_success := Some False,
     br_ended := Some (eventDate occurredAt now)\<rparr>"

definition onBackupCancelled :: "scope_guard \<Rightarrow> int option \<Rightarrow> int \<Rightarrow> string \<Rightarrow> backup_record list \<Rightarrow> backup_record list" where
  "onBackupCancelled scope occurredAt now i t = settled_rows (bs_update scope now i (cancelled_row occurredAt now) t) t"

definition onBackupError :: "scope_guard \<Rightarrow> int \<Rightarrow> string \<Rightarrow> string \<Rightarrow> backup_record list \<Rightarrow> backup_record list" where
  "onBackupError scope now i error t =
     (if wasCancelled i t then t
      else settled_rows (bs_update scope now i (\<lambda>r. r\<lparr>br_status := Some ''retrying'', br_errorMsg := Some error\<rparr>) t) t)"

definition failed_row :: "int option \<Rightarrow> int \<Rightarrow> string \<Rightarrow> source_failure option \<Rightarrow> backup_record \<Rightarrow> backup_record" where
  "failed_row occurredAt now error sourceFailure r =
     r\<lparr>br_status := Some ''failed'', br_errorMsg := Some error,
       br_progressStats := (case sourceFailure of
          None \<Rightarrow> br_progressStats r
        | Some f \<Rightarrow> Some ((case br_progressStats r of None \<Rightarrow> no_stats | Some s \<Rightarrow> s)\<lparr>pg_sourceFailure := Some f\<rparr>)),
       br_success := Some False, br_inProgress := Some False, br_ended := Some (eventDate occurredAt now)\<rparr>"

definition onBackupFailure ::
  "scope_guard \<Rightarrow> int option \<Rightarrow> int \<Rightarrow> string \<Rightarrow> string \<Rightarrow> source_failure option \<Rightarrow> backup_record list \<Rightarrow> backup_record list" where
  "onBackupFailure scope occurredAt now i error sourceFailure t =
     (if wasFinalized i t \<or> wasCancelled i t then t
      else settled_rows (bs_update scope now i (failed_row occurredAt now error sourceFailure) t) t)"

definition onBackupStart :: "scope_guard \<Rightarrow> int \<Rightarrow> string \<Rightarrow> json \<Rightarrow> backup_record list \<Rightarrow> backup_record list" where
  "onBackupStart scope now i summary t =
     settled_rows (bs_update scope now i (\<lambda>r. r\<lparr>br_status := Some ''started'', br_taskStats := Some summary\<rparr>) t) t"

text \<open>
  \<open>local\<close>: the handler serves the local backup manager; a known backup of the server itself is then tried
  again.  \<open>plan\<close> is the row of a new backup with the settings of the plan, \<open>None\<close> where there is no plan.
\<close>

definition onBackupInit ::
  "scope_guard \<Rightarrow> bool \<Rightarrow> int \<Rightarrow> string \<Rightarrow> string \<Rightarrow> backup_record option \<Rightarrow> backup_record list \<Rightarrow> backup_record list" where
  "onBackupInit scope local now planId i plan t =
     (if planId = [] then t
      else if local \<and> (case bs_getById i t of None \<Rightarrow> False | Some r \<Rightarrow> br_sourceId r = ''main'')
      then settled_rows (bs_update scope now i
             (\<lambda>r. r\<lparr>br_inProgress := Some True, br_status := Some ''retrying'', br_ended := None\<rparr>) t) t
      else if hasActiveBackups planId t then t
      else case plan of
             None \<Rightarrow> t
           | Some p \<Rightarrow>
               (case bs_create scope now (p\<lparr>br_id := i, br_planId := Some planId, br_status := Some ''initializing'',
                       br_inProgress := Some True, br_taskStats := None\<rparr>) t of
                  Inl e \<Rightarrow> t | Inr (_, t') \<Rightarrow> t'))"

end
