(* ===== verification/Remote_Backup.thy ===== *)
theory Remote_Backup
  imports Source_Service Remote_Lifecycle Backup_Store Cron_Manager
begin

text \<open>
  Managed backups of remote hosts (\<open>backend/src/services/RemoteBackupService.ts\<close>,
  \<open>backend/src/stores/RemoteManagedRepositoryStore.ts\<close>, \<open>services/remoteCommandPreparation.ts\<close>): which plans are
  accepted, how a backup is queued, what an agent is given for it, and what its completion changes.
  \<open>remote_db\<close> has the tables the service uses; of plans and storages the columns it reads.  What lies
  outside is in \<open>remote_env\<close>: the cipher, the configured timeouts, whether the source access service is
  there, the check of replica destinations (\<open>None\<close> where the service is missing), the namespace guards of
  the backup and plan stores, the scheduler, and the value of the text of a fraction.
\<close>

section \<open>Tables\<close>

record remote_plan =
  pn_id :: string
  pn_method :: string
  pn_sourceId :: string
  pn_sourceType :: string
  pn_storageId :: "string option"
  pn_storagePath :: "string option"
  pn_isActive :: bool
  pn_sourceConfig :: json
  pn_settings :: json
  pn_size :: rat
  pn_snapshots :: "string list"
  pn_lastBackupTime :: "int option"

record managed_repository =
  mo_id :: string
  mo_planId :: string
  mo_agentId :: string
  mo_storageId :: string
  mo_storagePath :: string
  mo_encryptedPassword :: string
  mo_initializedAt :: "int option"
  mo_updatedAt :: "int option"

record remote_storage =
  sg_id :: string
  sg_type :: "string option"
  sg_settings :: "json option"
  sg_credentials :: "json option"

record entry_credential =
  ec_planId :: string
  ec_credential :: database_credential

record remote_db =
  r_control :: control_db
  r_plans :: "remote_plan list"
  r_backups :: "backup_record list"
  r_repositories :: "managed_repository list"
  r_storages :: "remote_storage list"
  r_entryCredentials :: "entry_credential list"
  r_singleCredentials :: "(string \<times> string) list"
  r_cron :: cron_state

record remote_env =
  re_decrypt :: "string \<Rightarrow> string option"
  re_offlineSeconds :: int
  re_fresh :: int
  re_sourceAccess :: bool
  re_replication :: "(remote_plan \<Rightarrow> unit result) option"
  re_scope :: scope_guard
  re_planGuard :: "remote_plan \<Rightarrow> unit result"
  re_cron :: cron_env
  re_number :: "string \<Rightarrow> rat"

text \<open>The control plane reads plans and backups of the same database.\<close>

fun json_texts :: "json \<Rightarrow> string list option" where
  "json_texts (JArr xs) = all_some (map parse_str xs)"
| "json_texts _ = None"

definition plan_view :: "remote_plan \<Rightarrow> planned_source" where
  "plan_view p = \<lparr>ps_id = pn_id p, ps_title = [], ps_isActive = pn_isActive p, ps_sourceId = pn_sourceId p,
     ps_sourceType = pn_sourceType p, ps_includes = Option.bind (json_field ''includes'' (pn_sourceConfig p)) json_texts\<rparr>"

definition backup_view :: "backup_record \<Rightarrow> backup_activity" where
  "backup_view b = \<lparr>ba_planId = br_planId b, ba_sourceId = br_sourceId b, ba_status = br_status b, ba_inProgress = br_inProgress b\<rparr>"

definition control :: "remote_db \<Rightarrow> control_db" where
  "control db = (r_control db)\<lparr>c_plans := map plan_view (r_plans db), c_backups := map backup_view (r_backups db)\<rparr>"

section \<open>Checks of values\<close>

definition MAX_SOURCE_PATH_LENGTH :: nat where
  "MAX_SOURCE_PATH_LENGTH = 4096"

definition SFTP_AGENT_OPTION_KEYS :: "string list" where
  "SFTP_AGENT_OPTION_KEYS = [''host'', ''port'', ''user'', ''pass'']"

text \<open>\<open>/^v?(\d+)\.(\d+)\.(\d+)/\<close>: the numbers at the start of a version.\<close>

fun dotted_numbers :: "nat \<Rightarrow> string \<Rightarrow> nat list option" where
  "dotted_numbers 0 s = Some []"
| "dotted_numbers (Suc k) s =
     (let d = takeWhile is_digit s; r = dropWhile is_digit s in
      if d = [] then None
      else if k = 0 then Some [decimal_value 0 d]
      else if starts_with ''.'' r then map_option (\<lambda>ns. decimal_value 0 d # ns) (dotted_numbers k (tl r)) else None)"

text \<open>The loop over the parts of the version 0.2.0.\<close>

fun at_least :: "nat list \<Rightarrow> nat list \<Rightarrow> bool" where
  "at_least (a # as) (m # ms) = (if m < a then True else if a < m then False else at_least as ms)"
| "at_least _ _ = True"

definition versionAtLeast :: "string \<Rightarrow> bool" where
  "versionAtLeast v =
     (let t = js_trim v in
      case dotted_numbers 3 (if starts_with ''v'' t then tl t else t) of
        None \<Rightarrow> False | Some ns \<Rightarrow> at_least ns [0, 2, 0])"

definition nonempty_text :: "string \<Rightarrow> bool" where
  "nonempty_text s \<longleftrightarrow> js_trim s \<noteq> []"

definition hasUnsafeControlCharacters :: "string \<Rightarrow> bool" where
  "hasUnsafeControlCharacters s \<longleftrightarrow> list_ex control_char s"

text \<open>\<open>value.split(/[\\/]+/).includes('..')\<close>\<close>

definition has_traversal :: "string \<Rightarrow> bool" where
  "has_traversal s \<longleftrightarrow> ''..'' \<in> set (split_on slash (map (\<lambda>c. if c = CHR 0x5C then slash else c) s))"

definition source_path_safe :: "string \<Rightarrow> bool" where
  "source_path_safe s \<longleftrightarrow> s \<noteq> [] \<and> length s \<le> MAX_SOURCE_PATH_LENGTH \<and> starts_with ''/'' s \<and>
     \<not> hasUnsafeControlCharacters s \<and> \<not> has_traversal s"

definition validateAbsoluteLinuxPath :: "string \<Rightarrow> unit result" where
  "validateAbsoluteLinuxPath s =
     refuse_if (\<not> source_path_safe s) (AppError 400 ''Remote backup source must be one safe absolute Linux path.'')"

definition validateRepositoryPath :: "string \<Rightarrow> unit result" where
  "validateRepositoryPath s =
     (if s = [] \<or> MAX_SOURCE_PATH_LENGTH < length s \<or> hasUnsafeControlCharacters s
      then Throw (AppError 400 ''Remote backup destination path is invalid.'')
      else refuse_if (has_traversal s) (AppError 400 ''Remote backup destination path cannot contain traversal.''))"

definition text_field :: "string \<Rightarrow> json \<Rightarrow> string option" where
  "text_field k j = Option.bind (json_field k j) (parse_str_if nonempty_text)"

fun commandReference :: "json \<Rightarrow> (string \<times> string \<times> string) result" where
  "commandReference (JObj fs) =
     (case (text_field ''backupId'' (JObj fs), text_field ''planId'' (JObj fs), text_field ''repositoryId'' (JObj fs)) of
        (Some b, Some p, Some r) \<Rightarrow>
          if strict_keys [''backupId'', ''planId'', ''repositoryId''] fs then Ok (b, p, r)
          else Throw (AppError 400 ''Remote backup command payload is invalid.'')
      | _ \<Rightarrow> Throw (AppError 400 ''Remote backup command payload is invalid.''))"
| "commandReference _ = Throw (AppError 400 ''Remote backup command payload is invalid.'')"

text \<open>\<open>Object.values\<close>\<close>

fun object_values :: "json \<Rightarrow> json list" where
  "object_values (JObj fs) = map snd fs"
| "object_values (JArr xs) = xs"
| "object_values _ = []"

fun nonempty_array :: "json \<Rightarrow> bool" where
  "nonempty_array (JArr xs) = (xs \<noteq> [])"
| "nonempty_array _ = False"

definition hasEnabledScripts :: "remote_plan \<Rightarrow> bool" where
  "hasEnabledScripts p \<longleftrightarrow>
     (case json_field ''scripts'' (pn_settings p) of None \<Rightarrow> False | Some j \<Rightarrow> list_ex nonempty_array (object_values j))"

fun isMeaningfulStorageValue :: "json \<Rightarrow> bool" where
  "isMeaningfulStorageValue (JStr s) = (js_trim s \<noteq> [])"
| "isMeaningfulStorageValue (JInt n) = (n \<noteq> 0)"
| "isMeaningfulStorageValue (JFrac s) = True"
| "isMeaningfulStorageValue (JBool b) = b"
| "isMeaningfulStorageValue _ = False"

definition isSafeSnapshotId :: "string \<Rightarrow> bool" where
  "isSafeSnapshotId s \<longleftrightarrow> 8 \<le> length s \<and> length s \<le> 128 \<and> list_all (\<lambda>c. is_hex_char (lower_char c)) s"

definition isRemoteFilesystemPlan :: "remote_plan \<Rightarrow> bool" where
  "isRemoteFilesystemPlan p \<longleftrightarrow> pn_sourceType p = ''device'' \<and> pn_sourceId p \<noteq> ''main''"

section \<open>Preparation errors\<close>

text \<open>
  \<open>setPreparationStage\<close> notes how far the preparation of a command got.  An error carries the last stage, and
  for a refused option its name and the rule.
\<close>

type_synonym prep_point = "string \<times> string option \<times> string option"

type_synonym 'a prep = "(prep_point \<times> app_error) + 'a"

definition bind_prep :: "'a prep \<Rightarrow> ('a \<Rightarrow> 'b prep) \<Rightarrow> 'b prep" where
  "bind_prep r f = (case r of Inl e \<Rightarrow> Inl e | Inr x \<Rightarrow> f x)"

definition at_stage :: "string \<Rightarrow> 'a result \<Rightarrow> 'a prep" where
  "at_stage stage r = (case r of Inl e \<Rightarrow> Inl ((stage, None, None), e) | Inr x \<Rightarrow> Inr x)"

definition no_stage :: "'a prep \<Rightarrow> 'a result" where
  "no_stage r = (case r of Inl (_, e) \<Rightarrow> Throw e | Inr x \<Rightarrow> Ok x)"

definition preparation_messages :: "(string \<times> string) list" where
  "preparation_messages = [
     (''command-ownership'', ''The leased command did not belong to the requesting agent.''),
     (''command-reference'', ''The durable remote backup command reference was invalid.''),
     (''managed-records'', ''Remote managed backup records could not be loaded.''),
     (''managed-plan-consistency'', ''Remote managed plan state no longer matches its command.''),
     (''repository-agent'', ''The managed repository does not belong to the requesting agent.''),
     (''repository-metadata'', ''Managed repository metadata no longer matches the backup plan.''),
     (''plan-shape'', ''The remote backup plan is no longer supported.''),
     (''source-validation'', ''The remote backup source configuration is no longer valid.''),
     (''repository-path'', ''The managed remote repository path is no longer valid.''),
     (''agent-capability'', ''The remote agent no longer supports filesystem backup.''),
     (''sftp-storage-lookup'', ''The remote SFTP destination could not be loaded.''),
     (''sftp-credential-decryption'', ''Remote SFTP credentials could not be decrypted or validated.''),
     (''sftp-setting-allowlist'', ''Remote SFTP settings are not supported for filesystem backup.''),
     (''sftp-option-validation'', ''Remote SFTP configuration contains an unsafe value.''),
     (''sftp-required-credentials'', ''Remote filesystem backups require SFTP host, username, and password credentials.''),
     (''repository-secret-decryption'', ''The managed remote repository secret could not be decrypted.''),
     (''lifecycle-configuration'', ''The remote backup lifecycle configuration is not supported.''),
     (''database-credential-preparation'', ''Database backup credentials could not be prepared.''),
     (''payload'', ''The remote backup command payload could not be prepared.''),
     (''materializer-unavailable'', ''The remote backup materializer is unavailable.''),
     (''unexpected'', ''An unexpected remote command preparation error occurred.'')]"

record preparation_error =
  px_stage :: string
  px_message :: string
  px_safeMessage :: string
  px_backupId :: "string option"
  px_planId :: "string option"
  px_storageId :: "string option"
  px_rejectedField :: "string option"
  px_ruleCategory :: "string option"

text \<open>\<open>replace(/[^A-Za-z0-9_.-]/g, '_').slice(0, 128)\<close>; an empty name is left out.\<close>

definition sanitized_field :: "string \<Rightarrow> string" where
  "sanitized_field s = take 128 (map (\<lambda>c. if is_name_char c then c else CHR ''_'') s)"

definition preparationFailureMessage :: "string \<Rightarrow> string" where
  "preparationFailureMessage stage = (case map_of preparation_messages stage of None \<Rightarrow> [] | Some m \<Rightarrow> m)"

definition preparationError ::
  "prep_point \<Rightarrow> app_error \<Rightarrow> string option \<Rightarrow> string option \<Rightarrow> string option \<Rightarrow> preparation_error" where
  "preparationError point err backupId planId storageId =
     (case point of (stage, field, rule) \<Rightarrow>
      \<lparr>px_stage = stage,
       px_message = (case err of AppError _ m \<Rightarrow> m | _ \<Rightarrow> preparationFailureMessage stage),
       px_safeMessage = preparationFailureMessage stage,
       px_backupId = backupId, px_planId = planId, px_storageId = storageId,
       px_rejectedField = (case field of Some f \<Rightarrow> if sanitized_field f = [] then None else Some (sanitized_field f) | None \<Rightarrow> None),
       px_ruleCategory = (case rule of
          Some r \<Rightarrow> if r \<in> {''unsupported-field'', ''unsafe-control-character'', ''value-too-long''} then Some r else None
        | None \<Rightarrow> None)\<rparr>)"

section \<open>Storage options\<close>

text \<open>\<open>replace(/\r?\n/g, '\\n')\<close>\<close>

fun escape_newlines :: "string \<Rightarrow> string" where
  "escape_newlines [] = []"
| "escape_newlines [c] = (if c = CHR 0x0A then [CHR 0x5C, CHR ''n''] else [c])"
| "escape_newlines (c # d # cs) =
     (if c = CHR 0x0A then CHR 0x5C # CHR ''n'' # escape_newlines (d # cs)
      else if c = CHR 0x0D \<and> d = CHR 0x0A then CHR 0x5C # CHR ''n'' # escape_newlines cs
      else c # escape_newlines (d # cs))"

text \<open>\<open>String(value)\<close> of a text, a number or a truth value.\<close>

fun json_text :: "json \<Rightarrow> string" where
  "json_text (JStr s) = s"
| "json_text (JInt n) = int_text n"
| "json_text (JFrac s) = s"
| "json_text (JBool b) = (if b then ''true'' else ''false'')"
| "json_text _ = []"

fun object_entries :: "json option \<Rightarrow> (string \<times> json) list" where
  "object_entries (Some (JObj fs)) = fs"
| "object_entries _ = []"

definition decrypted_credential :: "remote_env \<Rightarrow> string \<times> json \<Rightarrow> (string \<times> json) result" where
  "decrypted_credential env kv =
     (case kv of
        (k, JStr c) \<Rightarrow>
          if k \<in> set SFTP_AGENT_OPTION_KEYS
          then (case re_decrypt env c of
                  Some p \<Rightarrow> Ok (k, JStr p)
                | None \<Rightarrow> Throw (AppError 500 ''Storage credentials could not be prepared for the remote agent.''))
          else Throw (AppError 500 ''Storage credentials could not be prepared for the remote agent.'')
      | _ \<Rightarrow> Throw (AppError 500 ''Storage credentials could not be prepared for the remote agent.''))"

definition setting_refused :: "string \<times> json \<Rightarrow> bool" where
  "setting_refused kv \<longleftrightarrow> isMeaningfulStorageValue (snd kv) \<and> (fst kv \<notin> set SFTP_AGENT_OPTION_KEYS \<or> fst kv = ''pass'')"

definition option_error :: "string \<Rightarrow> string \<Rightarrow> string \<Rightarrow> 'a prep" where
  "option_error k rule msg = Inl ((''sftp-option-validation'', Some k, Some rule), AppError 400 msg)"

fun sftp_options :: "(string \<times> json) list \<Rightarrow> (string \<times> string) list prep" where
  "sftp_options [] = Inr []"
| "sftp_options ((k, v) # r) =
     (if \<not> isMeaningfulStorageValue v then sftp_options r
      else if k \<notin> set SFTP_AGENT_OPTION_KEYS
      then option_error k ''unsupported-field'' ''Remote filesystem backup SFTP configuration is unsupported.''
      else let n = escape_newlines (json_text v) in
           if 16384 < length n then option_error k ''value-too-long'' ''SFTP configuration contains an unsafe value.''
           else if hasUnsafeControlCharacters n
           then option_error k ''unsafe-control-character'' ''SFTP configuration contains an unsafe value.''
           else bind_prep (sftp_options r) (\<lambda>os. Inr ((k, n) # os)))"

definition option_given :: "string \<Rightarrow> (string \<times> string) list \<Rightarrow> bool" where
  "option_given k os \<longleftrightarrow> (case map_of os k of None \<Rightarrow> False | Some v \<Rightarrow> v \<noteq> [])"

definition require_sftp :: "remote_storage option \<Rightarrow> remote_storage result" where
  "require_sftp s =
     (case s of
        Some t \<Rightarrow> if sg_type t = Some ''sftp'' then Ok t
                  else Throw (AppError 400 ''Remote filesystem backups currently require an SFTP destination.'')
      | None \<Rightarrow> Throw (AppError 400 ''Remote filesystem backups currently require an SFTP destination.''))"

definition materializeSftpStorage :: "remote_env \<Rightarrow> string \<Rightarrow> remote_db \<Rightarrow> (string \<times> string) list prep" where
  "materializeSftpStorage env storageId db =
     bind_prep (at_stage ''sftp-storage-lookup'' (require_sftp (row_by sg_id storageId (r_storages db)))) (\<lambda>storage.
     bind_prep (at_stage ''sftp-credential-decryption''
       (map_result (decrypted_credential env) (object_entries (sg_credentials storage)))) (\<lambda>decrypted.
     let settings = object_entries (sg_settings storage) in
     bind_prep (case find setting_refused settings of
        Some (k, _) \<Rightarrow> Inl ((''sftp-setting-allowlist'', Some k, Some ''unsupported-field''),
          AppError 400 ''Remote filesystem backups support only SFTP host, port, username, and encrypted password credentials.'')
      | None \<Rightarrow> Inr ()) (\<lambda>_.
     bind_prep (sftp_options (object_spread settings decrypted)) (\<lambda>options.
     bind_prep (at_stage ''sftp-required-credentials''
       (refuse_if (\<not> (option_given ''host'' options \<and> option_given ''user'' options \<and> option_given ''pass'' options))
         (AppError 400 ''Remote filesystem backups require SFTP host, username, and password credentials.''))) (\<lambda>_.
       Inr options)))))"

definition getSftpRecoveryOptions :: "remote_env \<Rightarrow> string \<Rightarrow> remote_db \<Rightarrow> (string \<times> string) list result" where
  "getSftpRecoveryOptions env storageId db = no_stage (materializeSftpStorage env storageId db)"

section \<open>Supported plans\<close>

definition reported_capability :: "string \<Rightarrow> agent_identity \<Rightarrow> json option" where
  "reported_capability k a = json_field k (ai_capabilities a)"

text \<open>\<open>list?.includes(text)\<close>\<close>

fun json_includes :: "string \<Rightarrow> json option \<Rightarrow> bool" where
  "json_includes s (Some (JArr xs)) = (JStr s \<in> set xs)"
| "json_includes s (Some (JStr t)) = includes_text s t"
| "json_includes s _ = False"

definition offline_limit :: "remote_env \<Rightarrow> int" where
  "offline_limit env = (if re_offlineSeconds env = 0 then 90 else re_offlineSeconds env) * 1000"

definition agent_reachable :: "remote_env \<Rightarrow> int \<Rightarrow> agent_identity \<Rightarrow> bool" where
  "agent_reachable env now a \<longleftrightarrow> ai_revokedAt a = None \<and>
     (case ai_lastSeen a of None \<Rightarrow> False | Some t \<Rightarrow> \<not> offline_limit env < now - t * 1000)"

definition array_includes :: "string \<Rightarrow> json option \<Rightarrow> bool" where
  "array_includes s v = (case v of Some (JArr xs) \<Rightarrow> JStr s \<in> set xs | _ \<Rightarrow> False)"

definition agent_capable :: "agent_identity \<Rightarrow> bool" where
  "agent_capable a \<longleftrightarrow> reported_capability ''filesystemRootsConfigured'' a = Some (JBool True) \<and>
     array_includes ''BACKUP_FILESYSTEM'' (reported_capability ''commandTypes'' a) \<and>
     (case ai_resticVersion a of None \<Rightarrow> False | Some v \<Rightarrow> nonempty_text v) \<and>
     (case ai_rcloneVersion a of None \<Rightarrow> False | Some v \<Rightarrow> nonempty_text v) \<and> versionAtLeast (ai_agentVersion a)"

definition getCapableAgent :: "remote_env \<Rightarrow> int \<Rightarrow> string \<Rightarrow> remote_db \<Rightarrow> agent_identity result" where
  "getCapableAgent env now deviceId db =
     (case getAgentByDeviceId deviceId (control db) of
        None \<Rightarrow> Throw (AppError 409 ''Remote agent is not available.'')
      | Some a \<Rightarrow>
          if \<not> agent_reachable env now a then Throw (AppError 409 ''Remote agent is not available.'')
          else if \<not> agent_capable a then Throw (AppError 409 ''Remote agent does not yet support filesystem backup.'')
          else Ok a)"

definition getSingleSource :: "json \<Rightarrow> string result" where
  "getSingleSource sourceConfig =
     (case json_field ''includes'' sourceConfig of
        Some (JArr [x]) \<Rightarrow>
          bind_result (case x of JStr s \<Rightarrow> Ok (js_trim s) | JNull \<Rightarrow> Ok [] | _ \<Rightarrow> Throw (PlainError ''trim is not a function''))
            (\<lambda>source. bind_result (validateAbsoluteLinuxPath source) (\<lambda>_. Ok source))
      | _ \<Rightarrow> Throw (AppError 400 ''Remote filesystem backup requires exactly one source path.''))"

definition error_message :: "app_error \<Rightarrow> string" where
  "error_message e = (case e of AppError _ m \<Rightarrow> m | PlainError m \<Rightarrow> m | _ \<Rightarrow> ''Invalid Backup Exclusions.'')"

definition exclusions_of :: "json \<Rightarrow> json" where
  "exclusions_of sourceConfig =
     (case json_field ''excludes'' sourceConfig of None \<Rightarrow> JArr [] | Some v \<Rightarrow> if v = JNull then JArr [] else v)"

definition getSafeExcludes :: "json \<Rightarrow> string list result" where
  "getSafeExcludes sourceConfig =
     (case bind_result (parseBackupExclusions (exclusions_of sourceConfig)) (\<lambda>patterns.
             if patterns = [] then Ok patterns
             else bind_result (getSingleSource sourceConfig) (\<lambda>source.
                  bind_result (sourceResticExclusions source patterns) (\<lambda>_. Ok patterns))) of
        Inl e \<Rightarrow> Throw (AppError 400 (error_message e)) | Inr ps \<Rightarrow> Ok ps)"

definition setting :: "string \<Rightarrow> remote_plan \<Rightarrow> json option" where
  "setting k p = json_field k (pn_settings p)"

definition replication_enabled :: "remote_plan \<Rightarrow> bool" where
  "replication_enabled p \<longleftrightarrow>
     (case Option.bind (setting ''replication'' p) (json_field ''enabled'') of None \<Rightarrow> False | Some v \<Rightarrow> truthy v)"

definition replica_count :: "remote_plan \<Rightarrow> nat" where
  "replica_count p =
     (case Option.bind (setting ''replication'' p) (json_field ''storages'') of Some (JArr xs) \<Rightarrow> length xs | _ \<Rightarrow> 0)"

definition lifecycle_unsupported :: "agent_identity \<Rightarrow> remote_lifecycle \<Rightarrow> bool" where
  "lifecycle_unsupported a l \<longleftrightarrow>
     (let version = reported_capability ''backupLifecycleVersion'' a; dbs = lifecycleDatabases l in
      version \<notin> {Some (JInt 1), Some (JInt 2)} \<or>
      (version = Some (JInt 1) \<and> (1 < length dbs \<or> list_ex (\<lambda>d. db_engine d = ''postgresql'') dbs)) \<or>
      list_ex (\<lambda>d. \<not> json_includes (db_engine d) (reported_capability ''databaseEngines'' a)) dbs \<or>
      ((lf_preHook l \<noteq> None \<or> lf_postHook l \<noteq> None) \<and> reported_capability ''hooksConfigured'' a \<noteq> Some (JBool True)))"

definition assertLifecycle :: "remote_env \<Rightarrow> int \<Rightarrow> remote_plan \<Rightarrow> remote_db \<Rightarrow> unit result" where
  "assertLifecycle env now p db =
     (case setting ''remoteLifecycle'' p of
        None \<Rightarrow> Ok ()
      | Some j \<Rightarrow>
          bind_result (parseRemoteLifecycle (Some j)) (\<lambda>l.
          bind_result (refuse_if (list_ex (\<lambda>d. db_password d \<noteq> None) (lifecycleDatabases l))
            (AppError 400 ''Database password cannot be stored in plan settings.'')) (\<lambda>_.
          bind_result (getCapableAgent env now (pn_sourceId p) db) (\<lambda>a.
            refuse_if (lifecycle_unsupported a l)
              (AppError 409 ''Remote agent does not support the selected database lifecycle or hooks. Update the agent and install the required dump client/hooks first.'')))))"

definition assertPlanShape :: "remote_env \<Rightarrow> bool \<Rightarrow> remote_plan \<Rightarrow> unit result" where
  "assertPlanShape env validateReplica p =
     (if \<not> isRemoteFilesystemPlan p \<or> pn_method p \<noteq> ''backup''
      then Throw (AppError 400 ''Only remote filesystem incremental backup is available.'')
      else if setting ''encryption'' p \<noteq> Some (JBool True)
      then Throw (AppError 400 ''Remote filesystem backups require their managed repository password.'')
      else if hasEnabledScripts p then Throw (AppError 400 ''Scripts are not available for remote filesystem backups.'')
      else bind_result (if \<not> replication_enabled p then Ok ()
             else case re_replication env of
                    None \<Rightarrow> Throw (AppError 503 ''Managed replication executor is not configured.'')
                  | Some validatePlan \<Rightarrow> if validateReplica then validatePlan p else Ok ()) (\<lambda>_.
           refuse_if (2 < replica_count p) (AppError 400 ''Managed Agent plans support at most two replica destinations.'')))"

definition assertSourceAccess :: "remote_env \<Rightarrow> int \<Rightarrow> agent_identity \<Rightarrow> string \<Rightarrow> remote_db \<Rightarrow> unit result" where
  "assertSourceAccess env now a source db =
     (if \<not> capability_is ''sourceAccessVersion'' 1 a then Ok ()
      else if \<not> re_sourceAccess env then Throw (AppError 409 ''Source Access validation is unavailable.'')
      else assertPlanSource (re_fresh env) now a source (control db))"

definition assertSupportedPlan :: "remote_env \<Rightarrow> int \<Rightarrow> bool \<Rightarrow> remote_plan \<Rightarrow> remote_db \<Rightarrow> unit prep" where
  "assertSupportedPlan env now validateReplica p db =
     bind_prep (at_stage ''plan-shape'' (assertPlanShape env validateReplica p)) (\<lambda>_.
     bind_prep (at_stage ''source-validation'' (getSingleSource (pn_sourceConfig p))) (\<lambda>source.
     bind_prep (at_stage ''source-validation'' (getSafeExcludes (pn_sourceConfig p))) (\<lambda>excludes.
     bind_prep (at_stage ''repository-path''
       (validateRepositoryPath (case pn_storagePath p of None \<Rightarrow> [] | Some s \<Rightarrow> s))) (\<lambda>_.
     bind_prep (at_stage ''agent-capability'' (
       bind_result (getCapableAgent env now (pn_sourceId p) db) (\<lambda>a.
       bind_result (refuse_if (excludes \<noteq> [] \<and> \<not> capability_is ''backupExclusionsVersion'' 1 a)
         (AppError 409 ''Update the Agent before using Backup Exclusions (capability v1 required).'')) (\<lambda>_.
       bind_result (if re_sourceAccess env then assertModeChangeIdle (ai_agentId a) now (control db) else Ok ()) (\<lambda>_.
         Ok a))))) (\<lambda>a.
     bind_prep (at_stage ''source-validation'' (assertSourceAccess env now a source db)) (\<lambda>_.
     bind_prep (at_stage ''lifecycle-configuration'' (assertLifecycle env now p db)) (\<lambda>_.
     bind_prep (at_stage ''sftp-storage-lookup''
       (require_sftp (Option.bind (pn_storageId p) (\<lambda>i. row_by sg_id i (r_storages db))))) (\<lambda>_.
       Inr ()))))))))"

definition validatePlanCreation :: "remote_env \<Rightarrow> int \<Rightarrow> remote_plan \<Rightarrow> remote_db \<Rightarrow> unit result" where
  "validatePlanCreation env now p db = no_stage (assertSupportedPlan env now True p db)"

section \<open>What an agent is given\<close>

record backup_payload =
  bd_version :: int
  bd_sourceDiagnostics :: bool
  bd_lifecycle :: "remote_lifecycle option"
  bd_backupId :: string
  bd_planId :: string
  bd_sourcePath :: string
  bd_excludes :: "string list"
  bd_repositoryPath :: string
  bd_initialize :: bool
  bd_rclone :: "(string \<times> string) list"
  bd_repositoryPassword :: string

definition getDatabaseCredential :: "string \<Rightarrow> remote_db \<Rightarrow> string option" where
  "getDatabaseCredential planId db = or_else (map_of (r_singleCredentials db) planId) None"

definition getDatabaseCredentials :: "string \<Rightarrow> remote_db \<Rightarrow> database_credential list" where
  "getDatabaseCredentials planId db = map ec_credential (filter (\<lambda>c. ec_planId c = planId) (r_entryCredentials db))"

definition command_records ::
  "string \<times> string \<times> string \<Rightarrow> remote_db \<Rightarrow> (managed_repository \<times> remote_plan \<times> backup_record) result" where
  "command_records ref db =
     (case ref of (backupId, planId, repositoryId) \<Rightarrow>
      case (row_by mo_id repositoryId (r_repositories db), row_by pn_id planId (r_plans db), bs_getById backupId (r_backups db)) of
        (Some repo, Some p, Some b) \<Rightarrow>
          if br_planId b \<noteq> Some (pn_id p) \<or> mo_planId repo \<noteq> pn_id p \<or> br_inProgress b \<noteq> Some True \<or>
             br_status b = Some ''cancelled'' \<or> br_sourceId b \<noteq> pn_sourceId p
          then Throw (AppError 409 ''Remote backup command no longer has a valid managed plan.'')
          else Ok (repo, p, b)
      | _ \<Rightarrow> Throw (AppError 409 ''Remote backup command no longer has a valid managed plan.''))"

definition repository_matches :: "string \<Rightarrow> managed_repository \<Rightarrow> remote_plan \<Rightarrow> unit prep" where
  "repository_matches agentId repo p =
     (if mo_agentId repo \<noteq> agentId then at_stage ''repository-agent'' (Throw (AppError 403 ''Managed repository belongs to another agent.''))
      else if pn_storageId p \<noteq> Some (mo_storageId repo) \<or> pn_storagePath p \<noteq> Some (mo_storagePath repo)
      then at_stage ''repository-metadata'' (Throw (AppError 409 ''Managed repository metadata no longer matches the plan.''))
      else Inr ())"

text \<open>The exclusions that run are those of the time of queuing.\<close>

definition has_length :: "json option \<Rightarrow> bool" where
  "has_length v = (case v of Some (JArr xs) \<Rightarrow> xs \<noteq> [] | Some (JStr s) \<Rightarrow> s \<noteq> [] | _ \<Rightarrow> False)"

definition queued_exclusions_kept :: "remote_plan \<Rightarrow> backup_record \<Rightarrow> string list \<Rightarrow> unit result" where
  "queued_exclusions_kept p b excludes =
     (let changed = AppError 409 ''Backup source or exclusions changed after queuing. Start a new backup.'' in
      if excludes = [] \<and> \<not> has_length (Option.bind (br_sourceConfig b) (json_field ''excludes'')) then Ok ()
      else case br_sourceConfig b of
             None \<Rightarrow> Throw changed
           | Some c \<Rightarrow>
               if json_field ''includes'' c \<noteq> json_field ''includes'' (pn_sourceConfig p) then Throw changed
               else bind_result (getSafeExcludes c) (\<lambda>es. refuse_if (es \<noteq> excludes) changed))"

definition decrypt_password :: "remote_env \<Rightarrow> managed_repository \<Rightarrow> string result" where
  "decrypt_password env repo =
     (case re_decrypt env (mo_encryptedPassword repo) of
        None \<Rightarrow> Throw (AppError 500 ''Remote repository credentials could not be prepared.'') | Some p \<Rightarrow> Ok p)"

definition deliver_lifecycle :: "remote_env \<Rightarrow> agent_identity \<Rightarrow> remote_plan \<Rightarrow> remote_db \<Rightarrow> remote_lifecycle option result" where
  "deliver_lifecycle env a p db =
     (case setting ''remoteLifecycle'' p of
        None \<Rightarrow> Ok None
      | Some j \<Rightarrow>
          if \<not> truthy j then Ok None
          else bind_result
            (if json_field ''version'' j = Some (JInt 1)
             then materializeRemoteLifecycle (re_decrypt env) (Some j)
               (case json_field ''database'' j of
                  Some d \<Rightarrow> if truthy d then getDatabaseCredential (pn_id p) db else None | None \<Rightarrow> None)
             else materializeRemoteLifecycleCollection (re_decrypt env) (Some j) (getDatabaseCredentials (pn_id p) db)) (\<lambda>l.
            if reported_capability ''backupLifecycleVersion'' a = Some (JInt 1)
            then bind_result (revalidate \<lparr>lf_version = 1,
                   lf_database = (case lifecycleDatabases l of [] \<Rightarrow> None | d # _ \<Rightarrow> Some (d\<lparr>db_databaseId := None\<rparr>)),
                   lf_databases = None, lf_preHook = lf_preHook l, lf_postHook = lf_postHook l\<rparr>) (\<lambda>l'. Ok (Some l'))
            else Ok (Some l)))"

definition payload_version :: "string list \<Rightarrow> remote_lifecycle option \<Rightarrow> int" where
  "payload_version excludes l =
     (if excludes \<noteq> [] then 4 else case l of None \<Rightarrow> 1 | Some x \<Rightarrow> if lf_version x = 2 then 3 else 2)"

definition materialize_backup :: "remote_env \<Rightarrow> int \<Rightarrow> string \<Rightarrow> agent_command \<Rightarrow> remote_db \<Rightarrow> backup_payload prep" where
  "materialize_backup env now agentId c db =
     bind_prep (at_stage ''command-ownership''
       (refuse_if (cm_agentId c \<noteq> agentId) (AppError 403 ''Command does not belong to this agent.''))) (\<lambda>_.
     bind_prep (at_stage ''command-reference'' (commandReference (cm_payload c))) (\<lambda>ref.
     bind_prep (at_stage ''managed-plan-consistency'' (command_records ref db)) (\<lambda>(repo, p, b).
     bind_prep (repository_matches agentId repo p) (\<lambda>_.
     bind_prep (assertSupportedPlan env now False p db) (\<lambda>_.
     bind_prep (at_stage ''repository-path'' (validateRepositoryPath (mo_storagePath repo))) (\<lambda>_.
     bind_prep (materializeSftpStorage env (mo_storageId repo) db) (\<lambda>options.
     bind_prep (at_stage ''repository-secret-decryption'' (decrypt_password env repo)) (\<lambda>password.
     bind_prep (at_stage ''source-validation'' (
       bind_result (getSingleSource (pn_sourceConfig p)) (\<lambda>source.
       bind_result (getSafeExcludes (pn_sourceConfig p)) (\<lambda>excludes.
       bind_result (queued_exclusions_kept p b excludes) (\<lambda>_.
       bind_result (getCapableAgent env now (pn_sourceId p) db) (\<lambda>a. Ok (source, excludes, a))))))) (\<lambda>(source, excludes, a).
     bind_prep (at_stage ''database-credential-preparation'' (deliver_lifecycle env a p db)) (\<lambda>lifecycle.
       Inr \<lparr>bd_version = payload_version excludes lifecycle, bd_sourceDiagnostics = supportsSourceDiagnostics (ai_agentVersion a),
            bd_lifecycle = lifecycle, bd_backupId = br_id b, bd_planId = pn_id p, bd_sourcePath = source, bd_excludes = excludes,
            bd_repositoryPath = mo_storagePath repo, bd_initialize = (mo_initializedAt repo = None), bd_rclone = options,
            bd_repositoryPassword = password\<rparr>))))))))))"

datatype delivered_payload = PlainPayload json | BackupPayload backup_payload

text \<open>The ids the error carries: those read before it.\<close>

definition failure_ids :: "agent_command \<Rightarrow> remote_db \<Rightarrow> string option \<times> string option \<times> string option" where
  "failure_ids c db =
     (case commandReference (cm_payload c) of
        Inl _ \<Rightarrow> (None, None, None)
      | Inr (b, p, r) \<Rightarrow>
          (Some b, Some p, case command_records (b, p, r) db of Inl _ \<Rightarrow> None | Inr (repo, _, _) \<Rightarrow> Some (mo_storageId repo)))"

definition materializeCommand ::
  "remote_env \<Rightarrow> int \<Rightarrow> string \<Rightarrow> agent_command \<Rightarrow> remote_db \<Rightarrow> preparation_error + delivered_payload" where
  "materializeCommand env now agentId c db =
     (if cm_type c \<noteq> ''BACKUP_FILESYSTEM'' then Inr (PlainPayload (cm_payload c))
      else case materialize_backup env now agentId c db of
             Inr p \<Rightarrow> Inr (BackupPayload p)
           | Inl (point, err) \<Rightarrow>
               Inl (if cm_agentId c \<noteq> agentId then preparationError point err None None None
                    else case failure_ids c db of (b, p, s) \<Rightarrow> preparationError point err b p s))"

end
