(* ===== verification/Remote_Operations.thy ===== *)
theory Remote_Operations
  imports Remote_Backup
begin

text \<open>
  The operations of \<open>RemoteBackupService.ts\<close> and of \<open>RemoteManagedRepositoryStore.ts\<close> on the tables.  An
  operation that may throw after it has written gives its result beside the new tables; its calls are
  not one transaction.  \<open>now\<close> is the clock, new ids and the encrypted password of a new repository are
  arguments.  The admission of a replica after a completed backup is left to the replication service.
\<close>

section \<open>Repositories\<close>

definition getByPlanId :: "string \<Rightarrow> remote_db \<Rightarrow> managed_repository option" where
  "getByPlanId planId db = row_by mo_planId planId (r_repositories db)"

definition create_repository :: "managed_repository \<Rightarrow> remote_db \<Rightarrow> remote_db result" where
  "create_repository repo db =
     (if mo_id repo \<in> mo_id ` set (r_repositories db) \<or> mo_planId repo \<in> mo_planId ` set (r_repositories db) \<or>
         mo_planId repo \<notin> pn_id ` set (r_plans db) \<or> \<not> agent_known (mo_agentId repo) (r_control db) \<or>
         mo_storageId repo \<notin> sg_id ` set (r_storages db)
      then Throw SqlError else Ok (db\<lparr>r_repositories := r_repositories db @ [repo]\<rparr>))"

definition deleteByPlanId :: "string \<Rightarrow> remote_db \<Rightarrow> remote_db" where
  "deleteByPlanId planId db = db\<lparr>r_repositories := delete_where (\<lambda>r. mo_planId r = planId) (r_repositories db)\<rparr>"

definition markInitialized :: "int \<Rightarrow> string \<Rightarrow> remote_db \<Rightarrow> remote_db" where
  "markInitialized now i db = db\<lparr>r_repositories := update_where (\<lambda>r. mo_id r = i)
     (\<lambda>r. r\<lparr>mo_initializedAt := Some (secs now), mo_updatedAt := Some (secs now)\<rparr>) (r_repositories db)\<rparr>"

definition createBackupAndCommand :: "int \<Rightarrow> backup_record \<Rightarrow> new_command \<Rightarrow> remote_db \<Rightarrow> remote_db result" where
  "createBackupAndCommand now b c db =
     (case or_else (br_planId b) None of
        None \<Rightarrow> Throw (PlainError ''Remote backup requires a plan ID.'')
      | Some planId \<Rightarrow>
          if hasActiveBackups planId (r_backups db) then Throw (PlainError ''A remote backup is already active for this plan.'')
          else if br_id b \<in> br_id ` set (r_backups db) then Throw SqlError
          else bind_result (insert_command (command_row now c) (r_control db)) (\<lambda>ctl.
                 Ok (db\<lparr>r_backups := r_backups db @ [b\<lparr>br_createdAt := secs now\<rparr>], r_control := ctl\<rparr>)))"

section \<open>Schedules\<close>

definition REMOTE_SCHEDULE :: string where
  "REMOTE_SCHEDULE = ''remote-backup''"

definition interval_of :: "json \<Rightarrow> plan_interval" where
  "interval_of j = \<lparr>pi_timeZone = json_field ''timeZone'' j,
     pi_type = (case Option.bind (json_field ''type'' j) parse_str of None \<Rightarrow> [] | Some t \<Rightarrow> t),
     pi_minutes = Option.bind (json_field ''minutes'' j) parse_int, pi_time = Option.bind (json_field ''time'' j) parse_str,
     pi_days = Option.bind (json_field ''days'' j) parse_str, pi_hours = Option.bind (json_field ''hours'' j) parse_str\<rparr>"

definition ensureSchedule :: "remote_env \<Rightarrow> remote_plan \<Rightarrow> remote_db \<Rightarrow> remote_db result" where
  "ensureSchedule env p db =
     (case setting ''interval'' p of
        None \<Rightarrow> Throw (PlainError ''Cannot read properties of undefined'')
      | Some j \<Rightarrow>
          bind_result (scheduleTimeZone (ce_zones (re_cron env)) (pi_timeZone (interval_of j))) (\<lambda>zone.
          let expression = intervalToCron (interval_of j);
              options = \<lparr>so_isActive = Some (pn_isActive p), so_timeZone = Some (JStr zone), so_settings = None, so_callback = True\<rparr> in
          bind_result (if entry_of (pn_id p) REMOTE_SCHEDULE (r_cron db) \<noteq> None
                       then updateSchedule (re_cron env) (pn_id p) expression options REMOTE_SCHEDULE (r_cron db)
                       else scheduleTask (re_cron env) (pn_id p) expression options REMOTE_SCHEDULE (r_cron db)) (\<lambda>cron.
            Ok (db\<lparr>r_cron := activateLoadedSchedule (pn_id p) REMOTE_SCHEDULE cron\<rparr>))))"

definition remove_schedule :: "string \<Rightarrow> remote_db \<Rightarrow> remote_db" where
  "remove_schedule planId db = db\<lparr>r_cron := snd (removeSchedulesByType planId REMOTE_SCHEDULE (r_cron db))\<rparr>"

definition pausePlan :: "string \<Rightarrow> remote_db \<Rightarrow> bool \<times> remote_db" where
  "pausePlan planId db = (let (b, cron) = pauseSchedule planId (Some REMOTE_SCHEDULE) (r_cron db) in (b, db\<lparr>r_cron := cron\<rparr>))"

definition resumePlan :: "remote_env \<Rightarrow> int \<Rightarrow> string \<Rightarrow> remote_db \<Rightarrow> (bool \<times> remote_db) result" where
  "resumePlan env now planId db =
     bind_result (case Option.bind (row_by pn_id planId (r_plans db)) (\<lambda>p. getAgentByDeviceId (pn_sourceId p) (control db)) of
        None \<Rightarrow> Ok ()
      | Some a \<Rightarrow>
          if re_sourceAccess env then assertModeChangeIdle (ai_agentId a) now (control db)
          else refuse_if (capability_is ''sourceAccessModesVersion'' 1 a)
                 (AppError 409 ''Source Access mode validation is unavailable.'')) (\<lambda>_.
     let (b, cron) = resumeSchedule planId (Some REMOTE_SCHEDULE) (r_cron db) in Ok (b, db\<lparr>r_cron := cron\<rparr>))"

text \<open>The plans are scheduled as far as they can be; other schedules of a plan stay.\<close>

definition schedule_stale :: "remote_db \<Rightarrow> string \<Rightarrow> bool" where
  "schedule_stale db planId \<longleftrightarrow>
     (case row_by pn_id planId (r_plans db) of None \<Rightarrow> True | Some p \<Rightarrow> \<not> isRemoteFilesystemPlan p) \<or> getByPlanId planId db = None"

definition reconcile_plan :: "remote_env \<Rightarrow> remote_plan \<Rightarrow> remote_db \<Rightarrow> remote_db" where
  "reconcile_plan env p db =
     (if \<not> isRemoteFilesystemPlan p \<or> getByPlanId (pn_id p) db = None then db
      else case ensureSchedule env p db of Inl e \<Rightarrow> db | Inr db' \<Rightarrow> db')"

definition reconcileSchedules :: "remote_env \<Rightarrow> remote_db \<Rightarrow> remote_db" where
  "reconcileSchedules env db =
     (let stale = filter (schedule_stale db) (map fst (filter (\<lambda>(_, es). list_ex (\<lambda>e. sc_type e = REMOTE_SCHEDULE) es)
                    (cr_schedules (r_cron db)))) in
      fold (reconcile_plan env) (r_plans db) (fold remove_schedule stale db))"

section \<open>Queuing\<close>

definition queued_backup :: "int \<Rightarrow> string \<Rightarrow> remote_plan \<Rightarrow> managed_repository \<Rightarrow> backup_record" where
  "queued_backup now backupId p repo =
     \<lparr>br_id = backupId, br_createdAt = secs now, br_updatedAt = None, br_started = Some (secs now), br_ended = None,
      br_inProgress = Some True, br_success = None, br_status = Some ''queued'', br_errorMsg = None, br_planId = Some (pn_id p),
      br_storageId = pn_storageId p, br_storagePath = Some (mo_storagePath repo), br_sourceId = pn_sourceId p, br_method = ''backup'',
      br_sourceType = pn_sourceType p, br_sourceConfig = Some (pn_sourceConfig p), br_encryption = Some True,
      br_compression = Some (case setting ''compression'' p of None \<Rightarrow> False | Some v \<Rightarrow> truthy v), br_progressStats = None,
      br_completionStats = None, br_taskStats = None, br_mirrors = []\<rparr>"

definition backup_command :: "string \<Rightarrow> string \<Rightarrow> string \<Rightarrow> string \<Rightarrow> new_command" where
  "backup_command agentId backupId planId repositoryId =
     \<lparr>nc_id = ''remote-backup-'' @ backupId, nc_agentId = agentId, nc_type = ''BACKUP_FILESYSTEM'',
      nc_payload = JObj [(''backupId'', JStr backupId), (''planId'', JStr planId), (''repositoryId'', JStr repositoryId)],
      nc_idempotencyKey = ''remote-backup:'' @ backupId\<rparr>"

definition queuePlanBackup :: "remote_env \<Rightarrow> int \<Rightarrow> string \<Rightarrow> string \<Rightarrow> remote_db \<Rightarrow> (string \<times> remote_db) result" where
  "queuePlanBackup env now backupId planId db =
     (case row_by pn_id planId (r_plans db) of
        None \<Rightarrow> Throw (NotFoundError ''Plan not found.'')
      | Some p \<Rightarrow>
          bind_result (no_stage (assertSupportedPlan env now False p db)) (\<lambda>_.
          if \<not> pn_isActive p then Ok (''Remote backup plan is paused.'', db)
          else if hasActiveBackups planId (r_backups db) then Throw (AppError 409 ''A backup is already in progress for this plan.'')
          else case getByPlanId planId db of
                 None \<Rightarrow> Throw (NotFoundError ''Managed remote repository was not found.'')
               | Some repo \<Rightarrow>
                   bind_result (getCapableAgent env now (pn_sourceId p) db) (\<lambda>a.
                   bind_result (refuse_if (ai_agentId a \<noteq> mo_agentId repo) (AppError 409 ''Remote agent identity changed.'')) (\<lambda>_.
                   bind_result (createBackupAndCommand now (queued_backup now backupId p repo)
                     (backup_command (ai_agentId a) backupId planId (mo_id repo)) db) (\<lambda>db'.
                     Ok (''Remote filesystem backup queued.'', db'))))))"

text \<open>The callback of the scheduler logs an error.\<close>

definition queueScheduledBackup :: "remote_env \<Rightarrow> int \<Rightarrow> string \<Rightarrow> string \<Rightarrow> remote_db \<Rightarrow> remote_db" where
  "queueScheduledBackup env now backupId planId db =
     (case queuePlanBackup env now backupId planId db of Inl e \<Rightarrow> db | Inr (_, db') \<Rightarrow> db')"

text \<open>The checks and the new repository of a plan, then its schedule and its first backup.\<close>

definition new_repository :: "remote_env \<Rightarrow> int \<Rightarrow> string \<Rightarrow> string \<Rightarrow> remote_plan \<Rightarrow> remote_db \<Rightarrow> remote_db result" where
  "new_repository env now repositoryId encryptedPassword p db =
     bind_result (no_stage (assertSupportedPlan env now True p db)) (\<lambda>_.
     bind_result (getCapableAgent env now (pn_sourceId p) db) (\<lambda>a.
     bind_result (refuse_if (getByPlanId (pn_id p) db \<noteq> None)
       (AppError 409 ''Remote backup repository already exists for this plan.'')) (\<lambda>_.
     let storagePath = (case pn_storagePath p of None \<Rightarrow> [] | Some s \<Rightarrow> s) in
     bind_result (validateRepositoryPath storagePath) (\<lambda>_.
       create_repository \<lparr>mo_id = ''remote-repo-'' @ repositoryId, mo_planId = pn_id p, mo_agentId = ai_agentId a,
         mo_storageId = (case pn_storageId p of None \<Rightarrow> [] | Some s \<Rightarrow> s), mo_storagePath = storagePath,
         mo_encryptedPassword = encryptedPassword, mo_initializedAt = None, mo_updatedAt = None\<rparr> db))))"

definition start_plan :: "remote_env \<Rightarrow> int \<Rightarrow> string \<Rightarrow> bool option \<Rightarrow> remote_plan \<Rightarrow> remote_db \<Rightarrow> remote_db result" where
  "start_plan env now backupId runNow p db =
     bind_result (ensureSchedule env p db) (\<lambda>db'.
       if runNow = Some False then Ok db'
       else bind_result (queuePlanBackup env now backupId (pn_id p) db') (\<lambda>(_, db''). Ok db''))"

definition createManagedPlan ::
  "remote_env \<Rightarrow> int \<Rightarrow> string \<Rightarrow> string \<Rightarrow> string \<Rightarrow> bool option \<Rightarrow> remote_plan \<Rightarrow> remote_db \<Rightarrow> unit result \<times> remote_db" where
  "createManagedPlan env now repositoryId encryptedPassword backupId runNow p db =
     (case new_repository env now repositoryId encryptedPassword p db of
        Inl e \<Rightarrow> (Throw e, db)
      | Inr db1 \<Rightarrow>
          (case start_plan env now backupId runNow p db1 of
             Inl e \<Rightarrow> (Throw e, deleteByPlanId (pn_id p) (remove_schedule (pn_id p)
                       (case ensureSchedule env p db1 of Inl _ \<Rightarrow> db1 | Inr db2 \<Rightarrow> db2)))
           | Inr db2 \<Rightarrow> (Ok (), db2)))"

definition updateManagedPlan :: "remote_env \<Rightarrow> int \<Rightarrow> remote_plan \<Rightarrow> remote_db \<Rightarrow> remote_db result" where
  "updateManagedPlan env now p db =
     bind_result (no_stage (assertSupportedPlan env now True p db)) (\<lambda>_.
       case getByPlanId (pn_id p) db of
         None \<Rightarrow> Throw (NotFoundError ''Managed remote repository was not found.'')
       | Some repo \<Rightarrow>
           bind_result (getCapableAgent env now (pn_sourceId p) db) (\<lambda>a.
           bind_result (refuse_if (mo_agentId repo \<noteq> ai_agentId a)
             (AppError 400 ''Changing a remote backup plan to another agent is not supported.'')) (\<lambda>_.
             ensureSchedule env p db)))"

section \<open>Cancelling\<close>

definition cancel_remote :: "remote_env \<Rightarrow> int \<Rightarrow> string \<Rightarrow> remote_db \<Rightarrow> remote_db" where
  "cancel_remote env now backupId db =
     db\<lparr>r_control := snd (cancelCommand now (''remote-backup-'' @ backupId) (r_control db)),
        r_backups := onBackupCancelled (re_scope env) None now backupId (r_backups db)\<rparr>"

definition cancelBackup :: "remote_env \<Rightarrow> int \<Rightarrow> string \<Rightarrow> string \<Rightarrow> remote_db \<Rightarrow> remote_db result" where
  "cancelBackup env now planId backupId db =
     (case (bs_getById backupId (r_backups db), getByPlanId planId db) of
        (Some b, Some repo) \<Rightarrow>
          if br_planId b \<noteq> Some planId \<or> br_sourceId b = ''main'' then Throw (AppError 501 ''REMOTE_CAPABILITY_NOT_IMPLEMENTED'')
          else if br_inProgress b \<noteq> Some True then Throw (AppError 409 ''The remote backup is no longer in progress.'')
          else Ok (cancel_remote env now backupId db)
      | _ \<Rightarrow> Throw (AppError 501 ''REMOTE_CAPABILITY_NOT_IMPLEMENTED''))"

definition removeManagedPlan :: "remote_env \<Rightarrow> int \<Rightarrow> string \<Rightarrow> remote_db \<Rightarrow> (string \<times> remote_db) result" where
  "removeManagedPlan env now planId db =
     (case getByPlanId planId db of
        None \<Rightarrow> Throw (NotFoundError ''Managed remote repository was not found.'')
      | Some repo \<Rightarrow>
          let active = filter (\<lambda>b. br_planId b = Some planId \<and> br_inProgress b = Some True) (r_backups db) in
          Ok (mo_storagePath repo, remove_schedule planId (fold (\<lambda>b. cancel_remote env now (br_id b)) active db)))"

definition getBackupProgress :: "string \<Rightarrow> remote_db \<Rightarrow> progress_view result" where
  "getBackupProgress backupId db =
     (case bs_getById backupId (r_backups db) of
        None \<Rightarrow> Throw (AppError 501 ''REMOTE_CAPABILITY_NOT_IMPLEMENTED'')
      | Some b \<Rightarrow>
          if Option.bind (or_else (br_planId b) None) (\<lambda>i. getByPlanId i db) = None \<or> br_sourceId b = ''main''
          then Throw (AppError 501 ''REMOTE_CAPABILITY_NOT_IMPLEMENTED'') else Ok (projectRemoteProgress b))"

section \<open>Events and completion\<close>

definition record_progress :: "int \<Rightarrow> agent_command \<Rightarrow> progress_event \<Rightarrow> int \<Rightarrow> remote_db \<Rightarrow> remote_db result" where
  "record_progress now c e sequence db =
     (if cm_type c \<noteq> ''BACKUP_FILESYSTEM'' then Ok db
      else bind_result (commandReference (cm_payload c)) (\<lambda>(backupId, planId, _).
        Ok (db\<lparr>r_backups := snd (updateRemoteProgress now backupId planId (cm_id c) (cm_attemptCount c) sequence e (r_backups db))\<rparr>)))"

record database_artifact =
  da_databaseId :: string
  da_engine :: string
  da_database :: string
  da_path :: string
  da_bytes :: int
  da_sha256 :: string

record lifecycle_report =
  lr_warnings :: "(string \<times> string) list"
  lr_database :: "(string \<times> int \<times> string) option"
  lr_databases :: "database_artifact list option"

record completion_result =
  cr_snapshotId :: "string option"
  cr_sourcePaths :: "string list option"
  cr_summary :: "(string \<times> json) list option"
  cr_lifecycle :: "lifecycle_report option"

record remote_completion =
  rc_success :: bool
  rc_cancelled :: bool
  rc_failureStage :: "string option"
  rc_failureCode :: "string option"
  rc_sourceDiagnostics :: "source_diagnostics option"
  rc_databaseId :: "string option"
  rc_engine :: "string option"
  rc_result :: "completion_result option"

definition has_lifecycle :: "remote_completion \<Rightarrow> bool" where
  "has_lifecycle c \<longleftrightarrow> Option.bind (rc_result c) cr_lifecycle \<noteq> None"

definition completion_failure :: "remote_completion \<Rightarrow> failure_input" where
  "completion_failure c = \<lparr>fi_failureStage = rc_failureStage c, fi_failureCode = rc_failureCode c, fi_databaseId = rc_databaseId c,
     fi_engine = rc_engine c, fi_cancelled = rc_cancelled c\<rparr>"

definition completion_source_failure :: "remote_completion \<Rightarrow> source_failure option" where
  "completion_source_failure c =
     (case (or_else (rc_failureStage c) None, or_else (rc_failureCode c) None) of
        (Some s, Some f) \<Rightarrow> Some \<lparr>sf_failureStage = s, sf_failureCode = f, sf_sourceDiagnostics = rc_sourceDiagnostics c\<rparr>
      | _ \<Rightarrow> None)"

definition artifact_matches :: "remote_database \<Rightarrow> database_artifact \<Rightarrow> bool" where
  "artifact_matches entry a \<longleftrightarrow> Some (da_databaseId a) = db_databaseId entry \<and> da_engine a = db_engine entry \<and>
     da_database a = db_database entry \<and> da_path a = ''/pluton/database/'' @ db_dumpFilename entry \<and>
     0 < da_bytes a \<and> da_bytes a \<le> db_maxDumpBytes entry"

definition artifacts_invalid :: "string \<Rightarrow> lifecycle_report option \<Rightarrow> remote_database list \<Rightarrow> bool" where
  "artifacts_invalid snapshotId report configured \<longleftrightarrow>
     (let reported = Option.bind report lr_databases in
      (report \<noteq> None \<and> \<not> hex_string 64 snapshotId) \<or>
      (1 < length configured \<and> reported = None) \<or>
      (case reported of
         None \<Rightarrow> False
       | Some as \<Rightarrow> length as \<noteq> length configured \<or> list_ex (\<lambda>entry. \<not> list_ex (artifact_matches entry) as) configured))"

definition artifact_json :: "database_artifact \<Rightarrow> json" where
  "artifact_json a = JObj [(''databaseId'', JStr (da_databaseId a)), (''engine'', JStr (da_engine a)), (''database'', JStr (da_database a)),
     (''path'', JStr (da_path a)), (''bytes'', JInt (da_bytes a)), (''sha256'', JStr (da_sha256 a))]"

definition report_json :: "lifecycle_report \<Rightarrow> json" where
  "report_json r = JObj ([(''warnings'', JArr (map (\<lambda>(s, c). JObj [(''stage'', JStr s), (''code'', JStr c)]) (lr_warnings r)))] @
     (case lr_database r of None \<Rightarrow> [] | Some (p, n, h) \<Rightarrow>
        [(''database'', JObj [(''path'', JStr p), (''bytes'', JInt n), (''sha256'', JStr h)])]) @
     (case lr_databases r of None \<Rightarrow> [] | Some as \<Rightarrow> [(''databases'', JArr (map artifact_json as))]))"

definition completion_summary :: "(string \<times> json) list \<Rightarrow> completion_result \<Rightarrow> json" where
  "completion_summary summary r = JObj (object_spread summary
     ((case cr_sourcePaths r of None \<Rightarrow> [] | Some ps \<Rightarrow> [(''sourcePaths'', JArr (map JStr ps))]) @
      (case cr_lifecycle r of None \<Rightarrow> [] | Some l \<Rightarrow> [(''lifecycle'', report_json l)])))"

fun join_texts :: "string \<Rightarrow> string list \<Rightarrow> string" where
  "join_texts sep [] = []"
| "join_texts sep [x] = x"
| "join_texts sep (x # y # zs) = x @ sep @ join_texts sep (y # zs)"

definition warning_text :: "lifecycle_report \<Rightarrow> string" where
  "warning_text r = ''Snapshot completed; lifecycle cleanup needs attention: '' @
     join_texts '', '' (map (\<lambda>(s, c). s @ ''/'' @ c) (lr_warnings r))"

fun json_number :: "(string \<Rightarrow> rat) \<Rightarrow> json option \<Rightarrow> rat" where
  "json_number fraction (Some (JInt n)) = of_int n"
| "json_number fraction (Some (JFrac s)) = fraction s"
| "json_number fraction _ = 0"

definition plan_stats :: "remote_env \<Rightarrow> int \<Rightarrow> string \<Rightarrow> (string \<times> json) list \<Rightarrow> remote_plan \<Rightarrow> remote_plan" where
  "plan_stats env now snapshotId summary p =
     p\<lparr>pn_size := max (pn_size p) (json_number (re_number env) (map_of summary ''total_bytes_processed'')),
       pn_snapshots := set_order (pn_snapshots p @ [snapshotId]), pn_lastBackupTime := Some (secs now)\<rparr>"

definition update_plan_stats :: "remote_env \<Rightarrow> int \<Rightarrow> string \<Rightarrow> (string \<times> json) list \<Rightarrow> remote_plan option \<Rightarrow> remote_db \<Rightarrow> unit result \<times> remote_db" where
  "update_plan_stats env now snapshotId summary plan db =
     (case plan of
        None \<Rightarrow> (Ok (), db)
      | Some p \<Rightarrow>
          (case re_planGuard env (plan_stats env now snapshotId summary p) of
             Inl e \<Rightarrow> (Throw e, db)
           | Inr _ \<Rightarrow> (Ok (), db\<lparr>r_plans := update_where (\<lambda>q. pn_id q = pn_id p) (\<lambda>q. q\<lparr>
                 pn_size := pn_size (plan_stats env now snapshotId summary p),
                 pn_snapshots := pn_snapshots (plan_stats env now snapshotId summary p),
                 pn_lastBackupTime := Some (secs now)\<rparr>) (r_plans db)\<rparr>)))"

text \<open>The writes of a successful completion.\<close>

definition record_success ::
  "remote_env \<Rightarrow> int \<Rightarrow> string \<Rightarrow> string \<Rightarrow> string \<Rightarrow> (string \<times> json) list \<Rightarrow> completion_result \<Rightarrow> remote_plan option \<Rightarrow> remote_db
   \<Rightarrow> unit result \<times> remote_db" where
  "record_success env now backupId repositoryId snapshotId summary r plan db =
     (let rescue = (case plan of None \<Rightarrow> False | Some p \<Rightarrow> pn_method p = ''rescue'');
          db1 = db\<lparr>r_backups := onBackupComplete (re_scope env) None now rescue True backupId
                     (Some (completion_summary summary r)) None (r_backups db)\<rparr>;
          warned = (case cr_lifecycle r of
                      Some l \<Rightarrow> if lr_warnings l = [] then Ok (None, r_backups db1)
                                else bs_update (re_scope env) now backupId (\<lambda>b. b\<lparr>br_errorMsg := Some (warning_text l)\<rparr>) (r_backups db1)
                    | None \<Rightarrow> Ok (None, r_backups db1)) in
      case warned of
        Inl e \<Rightarrow> (Throw e, db1)
      | Inr (_, t) \<Rightarrow> update_plan_stats env now snapshotId summary plan (markInitialized now repositoryId (db1\<lparr>r_backups := t\<rparr>)))"

definition fail_backup :: "remote_env \<Rightarrow> int \<Rightarrow> string \<Rightarrow> string \<Rightarrow> source_failure option \<Rightarrow> remote_db \<Rightarrow> remote_db" where
  "fail_backup env now backupId error f db = db\<lparr>r_backups := onBackupFailure (re_scope env) None now backupId error f (r_backups db)\<rparr>"

definition configured_databases :: "remote_plan option \<Rightarrow> remote_database list result" where
  "configured_databases plan =
     (case Option.bind plan (setting ''remoteLifecycle'') of
        Some j \<Rightarrow> if truthy j then bind_result (parseRemoteLifecycle (Some j)) (\<lambda>l. Ok (lifecycleDatabases l)) else Ok []
      | None \<Rightarrow> Ok [])"

definition settle_success ::
  "remote_env \<Rightarrow> int \<Rightarrow> string \<times> string \<times> string \<Rightarrow> remote_completion \<Rightarrow> remote_db \<Rightarrow> unit result \<times> remote_db" where
  "settle_success env now ref c db =
     (case ref of (backupId, planId, repositoryId) \<Rightarrow>
      case (rc_result c, Option.bind (rc_result c) cr_summary, Option.bind (rc_result c) cr_snapshotId) of
        (Some r, Some summary, Some snapshotId) \<Rightarrow>
          if \<not> isSafeSnapshotId snapshotId \<or> map_of summary ''snapshot_id'' \<noteq> Some (JStr snapshotId)
          then (Ok (), fail_backup env now backupId ''Remote agent completed without valid snapshot metadata.'' None db)
          else let plan = row_by pn_id planId (r_plans db) in
               (case configured_databases plan of
                  Inl e \<Rightarrow> (Throw e, db)
                | Inr configured \<Rightarrow>
                    if artifacts_invalid snapshotId (cr_lifecycle r) configured
                    then (Ok (), fail_backup env now backupId
                      ''Remote agent completed without valid database artifact metadata (snapshot-confirmation/snapshot-confirmation-failed).'' None db)
                    else record_success env now backupId repositoryId snapshotId summary r plan db)
      | _ \<Rightarrow> (Ok (), fail_backup env now backupId ''Remote agent completed without valid snapshot metadata.'' None db))"

definition complete_remote :: "remote_env \<Rightarrow> int \<Rightarrow> agent_command \<Rightarrow> remote_completion \<Rightarrow> remote_db \<Rightarrow> unit result \<times> remote_db" where
  "complete_remote env now cmd c db =
     (if cm_type cmd \<noteq> ''BACKUP_FILESYSTEM'' then (Ok (), db)
      else case commandReference (cm_payload cmd) of
             Inl e \<Rightarrow> (Throw e, db)
           | Inr (backupId, planId, repositoryId) \<Rightarrow>
               let won = rc_success c \<and> has_lifecycle c in
               if (case bs_getById backupId (r_backups db) of
                     None \<Rightarrow> False
                   | Some b \<Rightarrow> terminal_status (br_status b) \<and> \<not> (br_status b = Some ''cancelled'' \<and> won)) then (Ok (), db)
               else if (cm_state cmd = CCancelled \<or> rc_cancelled c) \<and> \<not> won
               then (Ok (), db\<lparr>r_backups := onBackupCancelled (re_scope env) None now backupId (r_backups db)\<rparr>)
               else if \<not> rc_success c
               then (Ok (), fail_backup env now backupId (remoteBackupFailure (completion_failure c)) (completion_source_failure c) db)
               else settle_success env now (backupId, planId, repositoryId) c db)"

end
