(* ===== verification/Agent_Service.thy ===== *)
theory Agent_Service
  imports Remote_Operations "HOL-Library.Monad_Syntax"
begin

text \<open>
  The service that remote agents talk to (\<open>backend/src/services/AgentService.ts\<close>, \<open>agentDistribution.ts\<close>): the
  closed schemas of what an agent may send, and every operation, composed of the agent store, the source access
  service and the remote backup service on the tables of \<open>remote_db\<close>.  \<open>authenticate\<close> is in \<open>Agent_Store\<close>.
  An operation that may throw after it has written gives its result beside the new tables.  \<open>now\<close> is the
  clock; random ids, tokens and the encrypted secret are arguments.
\<close>

section \<open>Inventory\<close>

text \<open>\<open>z.string().trim().min(1).max(n)\<close>\<close>

definition parse_trimmed :: "nat \<Rightarrow> json \<Rightarrow> string option" where
  "parse_trimmed n j =
     (case parse_str j of
        None \<Rightarrow> None | Some s \<Rightarrow> let t = js_trim s in if 1 \<le> length t \<and> length t \<le> n then Some t else None)"

definition parse_literal :: "json \<Rightarrow> json \<Rightarrow> json option" where
  "parse_literal v j = (if j = v then Some j else None)"

definition capability_keys :: "string list" where
  "capability_keys = [''backupExclusionsVersion'', ''filesystemRootsConfigured'', ''commandTypes'', ''backupLifecycleVersion'',
     ''databaseEngines'', ''hooksConfigured'', ''sourceAccessVersion'', ''sourceAccessModesVersion'']"

definition database_engines :: "string list" where
  "database_engines = [''mysql'', ''mariadb'', ''postgresql'']"

fun capabilities_ok :: "json \<Rightarrow> bool" where
  "capabilities_ok (JObj fs) \<longleftrightarrow>
     strict_keys capability_keys fs \<and>
     optional_field (parse_literal (JInt 1)) ''backupExclusionsVersion'' fs \<noteq> None \<and>
     required_field parse_bool ''filesystemRootsConfigured'' fs \<noteq> None \<and>
     required_field (refine (\<lambda>ts. 1 \<le> length ts \<and> length ts \<le> 6) (parse_array (parse_one_of AGENT_COMMAND_TYPES))) ''commandTypes'' fs \<noteq> None \<and>
     optional_field (parse_int_in 1 2) ''backupLifecycleVersion'' fs \<noteq> None \<and>
     optional_field (refine (\<lambda>es. length es \<le> 3) (parse_array (parse_one_of database_engines))) ''databaseEngines'' fs \<noteq> None \<and>
     optional_field parse_bool ''hooksConfigured'' fs \<noteq> None \<and>
     optional_field (parse_literal (JInt 1)) ''sourceAccessVersion'' fs \<noteq> None \<and>
     optional_field (parse_literal (JInt 1)) ''sourceAccessModesVersion'' fs \<noteq> None"
| "capabilities_ok _ = False"

definition capabilities_object :: "json \<Rightarrow> json option" where
  "capabilities_object j = (if capabilities_ok j then Some j else None)"

fun read_inventory :: "json \<Rightarrow> agent_inventory option" where
  "read_inventory (JObj fs) =
     (if \<not> strict_keys [''hostname'', ''os'', ''architecture'', ''agentVersion'', ''resticVersion'', ''rcloneVersion'', ''uptimeSeconds'',
           ''sourceAccess'', ''capabilities''] fs then None
      else do {
        host \<leftarrow> required_field (parse_trimmed 255) ''hostname'' fs;
        os \<leftarrow> required_field (parse_trimmed 255) ''os'' fs;
        arch \<leftarrow> required_field (parse_trimmed 128) ''architecture'' fs;
        version \<leftarrow> required_field (parse_trimmed 128) ''agentVersion'' fs;
        restic \<leftarrow> optional_field (parse_trimmed 128) ''resticVersion'' fs;
        rclone \<leftarrow> optional_field (parse_trimmed 128) ''rcloneVersion'' fs;
        uptime \<leftarrow> optional_field (parse_int_in 0 (365 * 24 * 60 * 60)) ''uptimeSeconds'' fs;
        access \<leftarrow> optional_field sourceAccessReportSchema ''sourceAccess'' fs;
        capabilities \<leftarrow> required_field capabilities_object ''capabilities'' fs;
        Some \<lparr>iv_hostname = host, iv_os = os, iv_architecture = arch, iv_agentVersion = version, iv_resticVersion = restic,
          iv_rcloneVersion = rclone, iv_uptimeSeconds = uptime, iv_sourceAccess = access, iv_capabilities = capabilities\<rparr>
      })"
| "read_inventory _ = None"

definition inventorySchema :: "json \<Rightarrow> agent_inventory option" where
  "inventorySchema = refine (\<lambda>i. iv_sourceAccess i = None \<or>
     json_field ''sourceAccessVersion'' (iv_capabilities i) = Some (JInt 1)) read_inventory"

definition parseInventory :: "json \<Rightarrow> agent_inventory result" where
  "parseInventory j =
     (case inventorySchema j of None \<Rightarrow> Throw (AppError 400 ''Agent inventory is invalid.'') | Some i \<Rightarrow> Ok i)"

fun enrollmentSchema :: "json \<Rightarrow> (string \<times> agent_inventory) option" where
  "enrollmentSchema (JObj fs) =
     (if \<not> strict_keys [''token'', ''inventory''] fs then None
      else do {
        token \<leftarrow> required_field (parse_str_if (\<lambda>s. 32 \<le> length s \<and> length s \<le> 512)) ''token'' fs;
        inventory \<leftarrow> required_field inventorySchema ''inventory'' fs;
        Some (token, inventory)
      })"
| "enrollmentSchema _ = None"

fun enrollmentNameSchema :: "json \<Rightarrow> string option" where
  "enrollmentNameSchema (JObj fs) = (if strict_keys [''name''] fs then required_field (parse_trimmed 100) ''name'' fs else None)"
| "enrollmentNameSchema _ = None"

section \<open>Reports of a backup\<close>

definition backupFailureStageSchema :: "string list" where
  "backupFailureStageSchema = [''post-dump-status-check'', ''command-status-check'', ''payload-validation'', ''source-validation'',
     ''state-validation'', ''tool-validation'', ''sftp-password-obscure'', ''temporary-storage-config'', ''repository-check'',
     ''repository-target-check'', ''repository-initialization'', ''restic-backup'', ''cleanup'', ''lifecycle-validation'',
     ''workspace-creation'', ''pre-backup'', ''database-dump'', ''database-dump-validation'', ''snapshot-confirmation'', ''post-backup'']"

definition backupFailureCodeSchema :: "string list" where
  "backupFailureCodeSchema = [''command-lease-unavailable'', ''command-authorization-rejected'', ''control-plane-rate-limited'',
     ''control-plane-unavailable'', ''control-plane-timeout'', ''control-plane-network-failed'', ''control-plane-response-invalid'',
     ''control-plane-unexpected'', ''database-artifact-finalization-failed'', ''invalid-payload'', ''source-validation-failed'',
     ''source-parent-not-traversable'', ''source-root-not-readable'', ''source-entry-inaccessible'', ''source-missing'',
     ''source-symlink-escape'', ''source-unsupported-type'', ''source-policy-violation'', ''state-overlap'', ''state-validation-failed'',
     ''tool-unavailable'', ''sftp-password-obscure-failed'', ''temporary-config-failed'', ''repository-check-failed'',
     ''repository-target-check-failed'', ''repository-target-not-empty'', ''target-check-access-failed'', ''target-check-auth-failed'',
     ''target-check-transport-failed'', ''repository-initialization-failed'', ''restic-backup-failed'', ''restic-summary-missing'',
     ''cleanup-failed'', ''cancelled'', ''unexpected'', ''lifecycle-invalid'', ''workspace-failed'', ''database-tool-unavailable'',
     ''database-client-missing'', ''database-client-incompatible'', ''database-tls-verification-failed'', ''database-output-empty'',
     ''database-auth-failed'', ''database-insufficient-privileges'', ''database-unavailable'', ''database-invalid-configuration'',
     ''database-dump-failed'', ''database-dump-timeout'', ''database-dump-output-limit'', ''database-dump-invalid'', ''hook-invalid'',
     ''hook-failed'', ''hook-timeout'', ''hook-output-limit'', ''snapshot-confirmation-failed'']"

definition lifecycleStageSchema :: "string list" where
  "lifecycleStageSchema = [''pre-backup-started'', ''database-dump-started'', ''database-dump-completed'', ''backup-started'',
     ''backup-completed'', ''post-backup-started'', ''cleanup-completed'', ''cleanup-warning'']"

fun parse_warning :: "json \<Rightarrow> (string \<times> string) option" where
  "parse_warning (JObj fs) =
     (if \<not> strict_keys [''stage'', ''code''] fs then None
      else do {
        stage \<leftarrow> required_field (parse_one_of [''post-backup'', ''cleanup'']) ''stage'' fs;
        code \<leftarrow> required_field (parse_one_of [''hook-invalid'', ''hook-failed'', ''hook-timeout'', ''hook-output-limit'', ''cleanup-failed'']) ''code'' fs;
        Some (stage, code)
      })"
| "parse_warning _ = None"

text \<open>\<open>/^\/pluton\/database\/[A-Za-z0-9_][A-Za-z0-9_.-]{0,95}\.sql$/\<close>\<close>

definition artifact_path_ok :: "string \<Rightarrow> bool" where
  "artifact_path_ok s \<longleftrightarrow> starts_with ''/pluton/database/'' s \<and> dump_name_ok (drop 17 s)"

definition parse_artifact_bytes :: "json \<Rightarrow> int option" where
  "parse_artifact_bytes = parse_int_in 1 (100 * 1024 ^ 3)"

fun parse_single_artifact :: "json \<Rightarrow> (string \<times> int \<times> string) option" where
  "parse_single_artifact (JObj fs) =
     (if \<not> strict_keys [''path'', ''bytes'', ''sha256''] fs then None
      else do {
        path \<leftarrow> required_field (parse_str_if artifact_path_ok) ''path'' fs;
        bytes \<leftarrow> required_field parse_artifact_bytes ''bytes'' fs;
        sha \<leftarrow> required_field (parse_str_if (hex_string 64)) ''sha256'' fs;
        Some (path, bytes, sha)
      })"
| "parse_single_artifact _ = None"

fun parse_artifact :: "json \<Rightarrow> database_artifact option" where
  "parse_artifact (JObj fs) =
     (if \<not> strict_keys [''databaseId'', ''engine'', ''database'', ''path'', ''bytes'', ''sha256''] fs then None
      else do {
        i \<leftarrow> required_field (parse_str_if databaseIdSchema) ''databaseId'' fs;
        engine \<leftarrow> required_field (parse_one_of database_engines) ''engine'' fs;
        database \<leftarrow> required_field (parse_str_if (word_ok is_word_char is_ident_char 63)) ''database'' fs;
        path \<leftarrow> required_field (parse_str_if artifact_path_ok) ''path'' fs;
        bytes \<leftarrow> required_field parse_artifact_bytes ''bytes'' fs;
        sha \<leftarrow> required_field (parse_str_if (hex_string 64)) ''sha256'' fs;
        Some \<lparr>da_databaseId = i, da_engine = engine, da_database = database, da_path = path, da_bytes = bytes, da_sha256 = sha\<rparr>
      })"
| "parse_artifact _ = None"

definition artifacts_distinct :: "database_artifact list \<Rightarrow> bool" where
  "artifacts_distinct as \<longleftrightarrow> distinct (map da_databaseId as) \<and> distinct (map (\<lambda>a. map lower_char (da_path a)) as)"

fun lifecycleReportSchema :: "json \<Rightarrow> lifecycle_report option" where
  "lifecycleReportSchema (JObj fs) =
     (if \<not> strict_keys [''warnings'', ''database'', ''databases''] fs then None
      else do {
        warnings \<leftarrow> required_field (refine (\<lambda>ws. length ws \<le> 3) (parse_array parse_warning)) ''warnings'' fs;
        database \<leftarrow> optional_field parse_single_artifact ''database'' fs;
        databases \<leftarrow> optional_field (refine (\<lambda>as. length as \<le> 8 \<and> artifacts_distinct as) (parse_array parse_artifact)) ''databases'' fs;
        Some \<lparr>lr_warnings = warnings, lr_database = database, lr_databases = databases\<rparr>
      })"
| "lifecycleReportSchema _ = None"

text \<open>A finite number that is not negative; \<open>number\<close> gives the value of the text of a fraction.\<close>

fun parse_count :: "(string \<Rightarrow> rat) \<Rightarrow> json \<Rightarrow> rat option" where
  "parse_count number (JInt n) = (if 0 \<le> n then Some (of_int n) else None)"
| "parse_count number (JFrac s) = (if 0 \<le> number s then Some (number s) else None)"
| "parse_count number _ = None"

definition parse_safe_count :: "(string \<Rightarrow> rat) \<Rightarrow> json \<Rightarrow> rat option" where
  "parse_safe_count number = refine (\<lambda>x. x \<le> of_int MAX_SAFE_INTEGER) (parse_count number)"

fun parse_event_progress :: "(string \<Rightarrow> rat) \<Rightarrow> json \<Rightarrow> event_progress option" where
  "parse_event_progress number (JObj fs) =
     (if \<not> strict_keys [''bytesProcessed'', ''filesProcessed'', ''totalBytesProcessed'', ''totalFilesProcessed''] fs then None
      else do {
        bytes \<leftarrow> optional_field (parse_safe_count number) ''bytesProcessed'' fs;
        files \<leftarrow> optional_field (parse_safe_count number) ''filesProcessed'' fs;
        totalBytes \<leftarrow> optional_field (parse_safe_count number) ''totalBytesProcessed'' fs;
        totalFiles \<leftarrow> optional_field (parse_safe_count number) ''totalFilesProcessed'' fs;
        Some \<lparr>ep_bytesProcessed = bytes, ep_filesProcessed = files, ep_totalBytesProcessed = totalBytes, ep_totalFilesProcessed = totalFiles\<rparr>
      })"
| "parse_event_progress number _ = None"

fun parse_event :: "(string \<Rightarrow> rat) \<Rightarrow> json \<Rightarrow> progress_event option" where
  "parse_event number (JObj fs) =
     (if \<not> strict_keys [''phase'', ''backupStage'', ''lifecycleStage'', ''databaseId'', ''engine'', ''ordinal'', ''count'', ''progress''] fs then None
      else do {
        phase \<leftarrow> optional_field (parse_one_of [''accepted'', ''running'']) ''phase'' fs;
        stage \<leftarrow> optional_field (parse_one_of remoteBackupStages) ''backupStage'' fs;
        lifecycle \<leftarrow> optional_field (parse_one_of lifecycleStageSchema) ''lifecycleStage'' fs;
        database \<leftarrow> optional_field (parse_str_if databaseIdSchema) ''databaseId'' fs;
        engine \<leftarrow> optional_field (parse_one_of database_engines) ''engine'' fs;
        ordinal \<leftarrow> optional_field (parse_int_in 1 8) ''ordinal'' fs;
        count \<leftarrow> optional_field (parse_int_in 1 8) ''count'' fs;
        progress \<leftarrow> optional_field (parse_event_progress number) ''progress'' fs;
        Some \<lparr>pe_phase = phase, pe_backupStage = stage, pe_lifecycleStage = lifecycle, pe_databaseId = database, pe_engine = engine,
          pe_ordinal = ordinal, pe_count = count, pe_progress = progress\<rparr>
      })"
| "parse_event number _ = None"

definition parse_sequence :: "json \<Rightarrow> int option" where
  "parse_sequence = parse_int_in 1 MAX_SAFE_INTEGER"

fun eventSchema :: "(string \<Rightarrow> rat) \<Rightarrow> json \<Rightarrow> (int \<times> string \<times> progress_event option) option" where
  "eventSchema number (JObj fs) =
     (if \<not> strict_keys [''sequence'', ''leaseToken'', ''event''] fs then None
      else do {
        sq \<leftarrow> required_field parse_sequence ''sequence'' fs;
        token \<leftarrow> required_field (parse_str_if lease_token_ok) ''leaseToken'' fs;
        event \<leftarrow> optional_field (parse_event number) ''event'' fs;
        Some (sq, token, event)
      })"
| "eventSchema number _ = None"

section \<open>Completions\<close>

definition summary_counters :: "string list" where
  "summary_counters = [''files_new'', ''files_changed'', ''files_unmodified'', ''dirs_new'', ''dirs_changed'', ''dirs_unmodified'',
     ''data_blobs'', ''tree_blobs'', ''data_added'', ''data_added_packed'', ''total_files_processed'', ''total_bytes_processed'', ''total_duration'']"

definition parse_snapshot_id :: "json \<Rightarrow> string option" where
  "parse_snapshot_id j = (case parse_str j of None \<Rightarrow> None | Some s \<Rightarrow> if isSafeSnapshotId (js_trim s) then Some (js_trim s) else None)"

text \<open>The summary is kept as it is, with a trimmed snapshot id.\<close>

fun parse_summary :: "(string \<Rightarrow> rat) \<Rightarrow> json \<Rightarrow> (string \<times> json) list option" where
  "parse_summary number (JObj fs) =
     (if \<not> strict_keys (''message_type'' # ''snapshot_id'' # summary_counters) fs \<or> map_of fs ''message_type'' \<noteq> Some (JStr ''summary'') \<or>
         list_ex (\<lambda>k. required_field (parse_count number) k fs = None) summary_counters then None
      else do {
        i \<leftarrow> required_field parse_snapshot_id ''snapshot_id'' fs;
        Some (map (\<lambda>(k, v). (k, if k = ''snapshot_id'' then JStr i else v)) fs)
      })"
| "parse_summary number _ = None"

fun parse_completion_result :: "(string \<Rightarrow> rat) \<Rightarrow> json \<Rightarrow> completion_result option" where
  "parse_completion_result number (JObj fs) =
     (if \<not> strict_keys [''snapshotId'', ''sourcePaths'', ''summary'', ''lifecycle''] fs then None
      else do {
        i \<leftarrow> required_field parse_snapshot_id ''snapshotId'' fs;
        paths \<leftarrow> optional_field (refine (\<lambda>ps. length ps = 1) (parse_array (parse_str_if source_path_safe))) ''sourcePaths'' fs;
        summary \<leftarrow> required_field (parse_summary number) ''summary'' fs;
        lifecycle \<leftarrow> optional_field lifecycleReportSchema ''lifecycle'' fs;
        Some \<lparr>cr_snapshotId = Some i, cr_sourcePaths = paths, cr_summary = Some summary, cr_lifecycle = lifecycle\<rparr>
      })"
| "parse_completion_result number _ = None"

record backup_completion =
  bc_sequence :: int
  bc_leaseToken :: string
  bc_success :: bool
  bc_error :: "string option"
  bc_failureStage :: "string option"
  bc_failureCode :: "string option"
  bc_sourceDiagnostics :: "source_diagnostics option"
  bc_databaseId :: "string option"
  bc_engine :: "string option"
  bc_cancelled :: "bool option"
  bc_result :: "completion_result option"

fun completion_schema :: "(string \<Rightarrow> rat) \<Rightarrow> json \<Rightarrow> backup_completion option" where
  "completion_schema number (JObj fs) =
     (if \<not> strict_keys [''sequence'', ''leaseToken'', ''success'', ''error'', ''failureStage'', ''failureCode'', ''sourceDiagnostics'',
           ''databaseId'', ''engine'', ''cancelled'', ''result''] fs then None
      else do {
        sq \<leftarrow> required_field parse_sequence ''sequence'' fs;
        token \<leftarrow> required_field (parse_str_if lease_token_ok) ''leaseToken'' fs;
        success \<leftarrow> required_field parse_bool ''success'' fs;
        err \<leftarrow> optional_field (parse_trimmed 500) ''error'' fs;
        stage \<leftarrow> optional_field (parse_one_of backupFailureStageSchema) ''failureStage'' fs;
        code \<leftarrow> optional_field (parse_one_of backupFailureCodeSchema) ''failureCode'' fs;
        diagnostics \<leftarrow> optional_field sourceDiagnosticsSchema ''sourceDiagnostics'' fs;
        database \<leftarrow> optional_field (parse_str_if databaseIdSchema) ''databaseId'' fs;
        engine \<leftarrow> optional_field (parse_one_of database_engines) ''engine'' fs;
        cancelled \<leftarrow> optional_field parse_bool ''cancelled'' fs;
        res \<leftarrow> optional_field (parse_completion_result number) ''result'' fs;
        Some \<lparr>bc_sequence = sq, bc_leaseToken = token, bc_success = success, bc_error = err, bc_failureStage = stage,
          bc_failureCode = code, bc_sourceDiagnostics = diagnostics, bc_databaseId = database, bc_engine = engine,
          bc_cancelled = cancelled, bc_result = res\<rparr>
      })"
| "completion_schema number _ = None"

definition input_failure :: "backup_completion \<Rightarrow> failure_input" where
  "input_failure c = \<lparr>fi_failureStage = bc_failureStage c, fi_failureCode = bc_failureCode c, fi_databaseId = bc_databaseId c,
     fi_engine = bc_engine c, fi_cancelled = (bc_cancelled c = Some True)\<rparr>"

text \<open>Which completions may carry diagnostics of the source.\<close>

definition diagnostics_refused :: "backup_completion \<Rightarrow> agent_command option \<Rightarrow> bool" where
  "diagnostics_refused c cmd \<longleftrightarrow> bc_sourceDiagnostics c \<noteq> None \<and>
     (bc_success c \<or> bc_cancelled c = Some True \<or> map_option cm_type cmd \<noteq> Some ''BACKUP_FILESYSTEM'' \<or>
      bc_failureCode c \<notin> {Some ''source-entry-inaccessible'', Some ''source-root-not-readable'', Some ''source-missing''} \<or>
      bc_failureStage c \<notin> {Some ''source-validation'', Some ''restic-backup''})"

definition service_completion :: "backup_completion \<Rightarrow> remote_completion" where
  "service_completion c = \<lparr>rc_success = bc_success c, rc_cancelled = (bc_cancelled c = Some True), rc_failureStage = bc_failureStage c,
     rc_failureCode = bc_failureCode c, rc_sourceDiagnostics = bc_sourceDiagnostics c, rc_databaseId = bc_databaseId c,
     rc_engine = (if bc_databaseId c = None then None else bc_engine c), rc_result = bc_result c\<rparr>"

definition failed_preparation :: remote_completion where
  "failed_preparation = \<lparr>rc_success = False, rc_cancelled = False, rc_failureStage = None, rc_failureCode = None,
     rc_sourceDiagnostics = None, rc_databaseId = None, rc_engine = None, rc_result = None\<rparr>"

section \<open>Distribution of the agent\<close>

record distribution_config =
  dc_repositoryUrl :: "string option"
  dc_commit :: "string option"
  dc_version :: "string option"
  dc_caFile :: "string option"

text \<open>The parts of a parsed URL; the parser is an argument (\<open>None\<close> where it throws).\<close>

record url_parts =
  up_protocol :: string
  up_username :: string
  up_password :: string
  up_search :: string
  up_hash :: string
  up_pathname :: string
  up_href :: string

definition unavailable :: app_error where
  "unavailable = AppError 503 ''Standalone Agent distribution is unavailable. Configure a credential-free HTTPS Git repository, reviewed full commit SHA and supported Agent version (0.7.0).''"

text \<open>\<open>/^\/[A-Za-z0-9._~-]+(?:\/[A-Za-z0-9._~-]+)*\.git$/\<close>\<close>

definition git_path_ok :: "string \<Rightarrow> bool" where
  "git_path_ok s \<longleftrightarrow> starts_with ''/'' s \<and>
     (let parts = split_on slash (tl s) in
      list_all (\<lambda>p. p \<noteq> [] \<and> list_all (\<lambda>c. is_name_char c \<or> c = CHR ''~'') p) parts \<and>
      ends_with ''.git'' (last parts) \<and> 4 < length (last parts))"

definition repository_url_ok :: "string \<Rightarrow> url_parts \<Rightarrow> bool" where
  "repository_url_ok text u \<longleftrightarrow> up_protocol u = ''https:'' \<and> up_username u = [] \<and> up_password u = [] \<and> up_search u = [] \<and> up_hash u = [] \<and>
     CHR ''?'' \<notin> set text \<and> CHR ''#'' \<notin> set text \<and> git_path_ok (up_pathname u) \<and>
     \<not> list_ex (\<lambda>p. p = ''.'' \<or> p = ''..'') (split_on slash (up_pathname u)) \<and> up_href u = text"

definition ca_file_ok :: "string \<Rightarrow> bool" where
  "ca_file_ok s \<longleftrightarrow> starts_with ''/'' s \<and> length s \<le> 1024 \<and> CHR 0x5C \<notin> set s \<and> \<not> hasUnsafeControlCharacters s \<and>
     \<not> list_ex (\<lambda>p. p = ''.'' \<or> p = ''..'' \<or> p = []) (split_on slash (tl s))"

record agent_distribution =
  ad_repositoryUrl :: string
  ad_commit :: string
  ad_version :: string
  ad_caFile :: "string option"

definition agentDistribution :: "(string \<Rightarrow> url_parts option) \<Rightarrow> distribution_config \<Rightarrow> agent_distribution result" where
  "agentDistribution parseUrl config =
     (let url = or_empty (dc_repositoryUrl config); commit = or_empty (dc_commit config); ca = or_null (dc_caFile config) in
      if url = [] \<or> 2048 < length url \<or> list_ex (\<lambda>c. is_space c \<or> c = CHR 0x5C) url \<or> hasUnsafeControlCharacters url
      then Throw unavailable
      else case parseUrl url of
             None \<Rightarrow> Throw unavailable
           | Some u \<Rightarrow>
               if \<not> repository_url_ok url u \<or> \<not> hex_string 40 commit \<or> list_all (\<lambda>c. c = CHR ''0'') commit \<or> dc_version config \<noteq> Some ''0.7.0''
               then Throw unavailable
               else if \<not> (case ca of None \<Rightarrow> True | Some f \<Rightarrow> ca_file_ok f) then Throw unavailable
               else Ok \<lparr>ad_repositoryUrl = url, ad_commit = commit, ad_version = ''0.7.0'', ad_caFile = ca\<rparr>)"

section \<open>The service\<close>

text \<open>
  \<open>ae_remoteBackups\<close> and \<open>ae_sourceAccess\<close>: whether the optional services are there.  \<open>ae_hashToken\<close>, \<open>ae_hmac\<close>,
  \<open>ae_payloadText\<close> (\<open>JSON.stringify\<close> of a payload) and \<open>ae_numberText\<close> are library functions; the rest is configuration.
\<close>

record agent_env =
  ae_remote :: remote_env
  ae_remoteBackups :: bool
  ae_sourceAccess :: bool
  ae_hashToken :: "string \<Rightarrow> string"
  ae_parseUrl :: "string \<Rightarrow> url_parts option"
  ae_distribution :: distribution_config
  ae_serverUrl :: string
  ae_insecureHttp :: bool
  ae_hmac :: "string \<Rightarrow> string \<Rightarrow> string"
  ae_payloadText :: "delivered_payload \<Rightarrow> string"
  ae_numberText :: "int \<Rightarrow> string"

abbreviation with_control :: "control_db \<Rightarrow> remote_db \<Rightarrow> remote_db" where
  "with_control ctl db \<equiv> db\<lparr>r_control := ctl\<rparr>"

definition assertTransportIsAllowed :: "agent_env \<Rightarrow> bool \<Rightarrow> unit result" where
  "assertTransportIsAllowed env isSecure =
     refuse_if (\<not> isSecure \<and> \<not> ae_insecureHttp env) (AppError 403 ''Agent HTTPS is required by this server.'')"

record minted_enrollment =
  me_id :: string
  me_token :: string
  me_expiresAt :: int
  me_deviceName :: string
  me_serverUrl :: string
  me_insecureHttpAllowed :: bool
  me_distribution :: agent_distribution

definition service_createEnrollment ::
  "agent_env \<Rightarrow> int \<Rightarrow> string \<Rightarrow> string \<Rightarrow> json \<Rightarrow> remote_db \<Rightarrow> (minted_enrollment \<times> remote_db) result" where
  "service_createEnrollment env now i token input db =
     (case enrollmentNameSchema input of
        None \<Rightarrow> Throw (AppError 400 ''A remote machine name is required.'')
      | Some name \<Rightarrow>
          bind_result (agentDistribution (ae_parseUrl env) (ae_distribution env)) (\<lambda>distribution.
          let expiresAt = now + 15 * 60 * 1000 in
          bind_result (createEnrollment i (ae_hashToken env token) name expiresAt now (r_control db)) (\<lambda>(created, ctl).
            case created of
              None \<Rightarrow> Throw (AppError 500 ''Could not create an enrollment token.'')
            | Some row \<Rightarrow> Ok (\<lparr>me_id = et_id row, me_token = token, me_expiresAt = expiresAt, me_deviceName = et_deviceName row,
                me_serverUrl = ae_serverUrl env, me_insecureHttpAllowed = ae_insecureHttp env, me_distribution = distribution\<rparr>, with_control ctl db))))"

definition service_revokeEnrollment :: "int \<Rightarrow> string \<Rightarrow> remote_db \<Rightarrow> remote_db result" where
  "service_revokeEnrollment now i db =
     (case revokeEnrollment now i (r_control db) of
        (None, ctl) \<Rightarrow> Throw (NotFoundError ''Enrollment token was not found or is already used.'')
      | (Some _, ctl) \<Rightarrow> Ok (with_control ctl db))"

definition enroll_input ::
  "agent_env \<Rightarrow> int \<Rightarrow> string \<Rightarrow> string \<Rightarrow> string \<Rightarrow> string \<Rightarrow> string \<Rightarrow> string \<Rightarrow> agent_inventory \<Rightarrow> enroll_data" where
  "enroll_input env now deviceId agentId encryptedSecret commandId key token inventory =
     \<lparr>ed_tokenHash = ae_hashToken env token, ed_now = now, ed_deviceId = deviceId, ed_agentId = agentId, ed_inventory = inventory,
      ed_identity = \<lparr>ni_agentId = agentId, ni_deviceId = deviceId, ni_encryptedSecret = encryptedSecret, ni_inventory = inventory\<rparr>,
      ed_command = \<lparr>nc_id = commandId, nc_agentId = agentId, nc_type = ''INVENTORY_REFRESH'', nc_payload = JObj [], nc_idempotencyKey = key\<rparr>\<rparr>"

definition enroll ::
  "agent_env \<Rightarrow> int \<Rightarrow> string \<Rightarrow> string \<Rightarrow> string \<Rightarrow> string \<Rightarrow> string \<Rightarrow> json \<Rightarrow> remote_db \<Rightarrow> ((string \<times> string) \<times> remote_db) result" where
  "enroll env now uid rnd encryptedSecret commandId key input db =
     (case enrollmentSchema input of
        None \<Rightarrow> Throw (AppError 400 ''Enrollment request is invalid.'')
      | Some (token, inventory) \<Rightarrow>
          let deviceId = ''remote-'' @ uid; agentId = ''agent-'' @ rnd in
          (case enrollAgent now (enroll_input env now deviceId agentId encryptedSecret commandId key token inventory) (r_control db) of
             Inl _ \<Rightarrow> Throw (AppError 500 ''Enrollment could not be completed. Create a new enrollment token.'')
           | Inr (None, _) \<Rightarrow> Throw (AppError 401 ''Enrollment token is invalid, expired, revoked, or already used.'')
           | Inr (Some _, ctl) \<Rightarrow> Ok ((deviceId, agentId), with_control ctl db)))"

section \<open>Agents\<close>

record public_agent =
  pa_agentId :: string
  pa_deviceId :: string
  pa_status :: string
  pa_hostname :: string
  pa_os :: string
  pa_architecture :: string
  pa_agentVersion :: string
  pa_resticVersion :: "string option"
  pa_rcloneVersion :: "string option"
  pa_capabilities :: json
  pa_lastSeen :: "int option"
  pa_createdAt :: int

definition toPublic :: "agent_env \<Rightarrow> int \<Rightarrow> agent_identity \<Rightarrow> public_agent" where
  "toPublic env now a =
     \<lparr>pa_agentId = ai_agentId a, pa_deviceId = ai_deviceId a,
      pa_status = (if ai_revokedAt a \<noteq> None then ''revoked''
                   else case ai_lastSeen a of
                          None \<Rightarrow> ''offline''
                        | Some t \<Rightarrow> if now - t * 1000 \<le> offline_limit (ae_remote env) then ''online'' else ''offline''),
      pa_hostname = ai_hostname a, pa_os = ai_os a, pa_architecture = ai_architecture a, pa_agentVersion = ai_agentVersion a,
      pa_resticVersion = ai_resticVersion a, pa_rcloneVersion = ai_rcloneVersion a, pa_capabilities = ai_capabilities a,
      pa_lastSeen = ai_lastSeen a, pa_createdAt = ai_createdAt a\<rparr>"

definition heartbeat :: "agent_env \<Rightarrow> int \<Rightarrow> int \<Rightarrow> string \<Rightarrow> json \<Rightarrow> remote_db \<Rightarrow> public_agent result \<times> remote_db" where
  "heartbeat env now signedTimestamp agentId input db =
     (case parseInventory input of
        Inl e \<Rightarrow> (Throw e, db)
      | Inr inventory \<Rightarrow>
          (case updateHeartbeat now agentId inventory (r_control db) of
             (None, ctl) \<Rightarrow> (Throw (AppError 401 ''Agent authentication failed.''), with_control ctl db)
           | (Some a, ctl) \<Rightarrow>
               (case iv_sourceAccess inventory of
                  None \<Rightarrow> (Ok (toPublic env now a), with_control ctl db)
                | Some report \<Rightarrow>
                    if \<not> ae_sourceAccess env then (Ok (toPublic env now a), with_control ctl db)
                    else (case service_heartbeat agentId report signedTimestamp now (control (with_control ctl db)) of
                            Inl e \<Rightarrow> (Throw e, with_control ctl db)
                          | Inr ctl' \<Rightarrow> (Ok (toPublic env now a), with_control ctl' db)))))"

definition revokeDevice :: "int \<Rightarrow> string \<Rightarrow> remote_db \<Rightarrow> remote_db result" where
  "revokeDevice now deviceId db =
     (case revokeAgentByDeviceId now deviceId (r_control db) of
        (None, ctl) \<Rightarrow> Throw (NotFoundError ''Remote machine was not found or is already revoked.'')
      | (Some _, ctl) \<Rightarrow> Ok (with_control ctl db))"

definition getPublicAgent :: "agent_env \<Rightarrow> int \<Rightarrow> string \<Rightarrow> remote_db \<Rightarrow> public_agent option" where
  "getPublicAgent env now deviceId db = map_option (toPublic env now) (getAgentByDeviceId deviceId (r_control db))"

section \<open>Commands\<close>

definition source_command :: "agent_command \<Rightarrow> bool" where
  "source_command c \<longleftrightarrow> cm_type c \<in> {''SOURCE_ACCESS_VALIDATE'', ''SOURCE_ACCESS_APPLY'', ''SOURCE_ACCESS_MODE_SETUP''}"

record delivered_command =
  dd_id :: string
  dd_type :: string
  dd_payload :: delivered_payload
  dd_idempotencyKey :: string
  dd_leaseExpiresAt :: "int option"
  dd_leaseToken :: string
  dd_signatureTimestamp :: string
  dd_signature :: string

definition command_payload :: "agent_env \<Rightarrow> int \<Rightarrow> string \<Rightarrow> agent_command \<Rightarrow> remote_db \<Rightarrow> delivered_payload option" where
  "command_payload env now agentId c db =
     (if cm_type c \<noteq> ''BACKUP_FILESYSTEM'' then Some (PlainPayload (cm_payload c))
      else if \<not> ae_remoteBackups env then None
      else case materializeCommand (ae_remote env) now agentId c db of Inl _ \<Rightarrow> None | Inr p \<Rightarrow> Some p)"

text \<open>A command that cannot be prepared ends as failed, and so does its backup.\<close>

definition fail_preparation ::
  "agent_env \<Rightarrow> int \<Rightarrow> string \<Rightarrow> string \<Rightarrow> agent_command \<Rightarrow> remote_db \<Rightarrow> delivered_command option result \<times> remote_db" where
  "fail_preparation env now agentId token c db =
     (let (failed, ctl) = completeCommand now agentId (cm_id c) token (cm_lastEventSequence c + 1) False
                            (Some ''Remote backup command could not be prepared.'') now (r_control db);
          db' = with_control ctl db in
      case failed of
        None \<Rightarrow> (Ok None, db')
      | Some cmd \<Rightarrow>
          if \<not> ae_remoteBackups env then (Ok None, db')
          else case complete_remote (ae_remote env) now cmd failed_preparation db' of
                 (Inl e, db'') \<Rightarrow> (Throw e, db'')
               | (Inr _, db'') \<Rightarrow> (Ok None, db''))"

definition deliver :: "agent_env \<Rightarrow> int \<Rightarrow> string \<Rightarrow> string \<Rightarrow> agent_command \<Rightarrow> delivered_payload \<Rightarrow> delivered_command" where
  "deliver env now secret token c p =
     \<lparr>dd_id = cm_id c, dd_type = cm_type c, dd_payload = p, dd_idempotencyKey = cm_idempotencyKey c,
      dd_leaseExpiresAt = cm_leaseExpiresAt c, dd_leaseToken = token, dd_signatureTimestamp = ae_numberText env now,
      dd_signature = signAgentCommand (ae_hmac env) (\<lambda>_. ae_payloadText env p) (ae_numberText env) secret (ae_numberText env now) c token\<rparr>"

definition delivery_ready :: "agent_env \<Rightarrow> int \<Rightarrow> string \<Rightarrow> agent_command \<Rightarrow> remote_db \<Rightarrow> bool \<times> remote_db" where
  "delivery_ready env now agentId c db =
     (if source_command c
      then let (b, ctl) = service_markDelivered agentId (cm_id c) (re_fresh (ae_remote env)) now (control db) in (b, with_control ctl db)
      else (True, db))"

definition poll_command ::
  "agent_env \<Rightarrow> int \<Rightarrow> string \<Rightarrow> authenticated_agent \<Rightarrow> remote_db \<Rightarrow> delivered_command option result \<times> remote_db" where
  "poll_command env now token agent db =
     (case leaseNext (aa_agentId agent) token AGENT_COMMAND_LEASE_MS now (r_control db) of
        (None, ctl) \<Rightarrow> (Ok None, with_control ctl db)
      | (Some c, ctl) \<Rightarrow>
          if source_command c \<and> \<not> ae_sourceAccess env
          then (Throw (AppError 503 ''Source Access service is unavailable.''), with_control ctl db)
          else case delivery_ready env now (aa_agentId agent) c (with_control ctl db) of
                 (False, db') \<Rightarrow> (Ok None, db')
               | (True, db') \<Rightarrow>
                   (case command_payload env now (aa_agentId agent) c db' of
                      None \<Rightarrow> fail_preparation env now (aa_agentId agent) token c db'
                    | Some p \<Rightarrow> (Ok (Some (deliver env now (aa_secret agent) token c p)), db')))"

fun parse_lease_token :: "json \<Rightarrow> string option" where
  "parse_lease_token (JObj fs) = (if strict_keys [''leaseToken''] fs then required_field (parse_str_if lease_token_ok) ''leaseToken'' fs else None)"
| "parse_lease_token _ = None"

definition parseLeaseToken :: "json \<Rightarrow> string result" where
  "parseLeaseToken j =
     (case parse_lease_token j of None \<Rightarrow> Throw (AppError 400 ''Command acknowledgement is invalid.'') | Some t \<Rightarrow> Ok t)"

definition command_not_found :: app_error where
  "command_not_found = NotFoundError ''Command not found.''"

definition acknowledge :: "int \<Rightarrow> string \<Rightarrow> string \<Rightarrow> json \<Rightarrow> remote_db \<Rightarrow> remote_db result" where
  "acknowledge now agentId commandId input db =
     bind_result (parseLeaseToken input) (\<lambda>token.
       case acknowledgeCommand now agentId commandId token now (r_control db) of
         (None, ctl) \<Rightarrow> Throw command_not_found | (Some _, ctl) \<Rightarrow> Ok (with_control ctl db))"

definition recordEvent :: "agent_env \<Rightarrow> int \<Rightarrow> string \<Rightarrow> string \<Rightarrow> json \<Rightarrow> remote_db \<Rightarrow> unit result \<times> remote_db" where
  "recordEvent env now agentId commandId input db =
     (case eventSchema (re_number (ae_remote env)) input of
        None \<Rightarrow> (Throw (AppError 400 ''Command event is invalid.''), db)
      | Some (sq, token, event) \<Rightarrow>
          (case recordCommandEvent agentId commandId token sq now AGENT_COMMAND_LEASE_MS (r_control db) of
             (None, ctl) \<Rightarrow> (Throw command_not_found, with_control ctl db)
           | (Some c, ctl) \<Rightarrow>
               let db' = with_control ctl db in
               (case event of
                  None \<Rightarrow> (Ok (), db')
                | Some e \<Rightarrow>
                    if cm_state c = CRunning \<and> cm_lastEventSequence c = sq \<and> ae_remoteBackups env
                    then (case record_progress now c e sq db' of Inl err \<Rightarrow> (Throw err, db') | Inr db'' \<Rightarrow> (Ok (), db''))
                    else (Ok (), db'))))"

definition complete_backup :: "agent_env \<Rightarrow> int \<Rightarrow> string \<Rightarrow> string \<Rightarrow> json \<Rightarrow> remote_db \<Rightarrow> unit result \<times> remote_db" where
  "complete_backup env now agentId commandId input db =
     (case completion_schema (re_number (ae_remote env)) input of
        None \<Rightarrow> (Throw (AppError 400 ''Command completion is invalid.''), db)
      | Some c \<Rightarrow>
          if \<not> bc_success c \<and> bc_error c = None then (Throw (AppError 400 ''Command completion is invalid.''), db)
          else if diagnostics_refused c (getCommandForAgent agentId commandId (r_control db))
          then (Throw (AppError 400 ''Command source diagnostics are invalid.''), db)
          else let safeError = (if bc_success c then None else Some (remoteBackupFailure (input_failure c))) in
               (case completeCommand now agentId commandId (bc_leaseToken c) (bc_sequence c) (bc_success c) safeError now (r_control db) of
                  (None, ctl) \<Rightarrow> (Throw command_not_found, with_control ctl db)
                | (Some cmd, ctl) \<Rightarrow>
                    let db' = with_control ctl db in
                    if cm_state cmd = CCompleted \<and> \<not> bc_success c then (Ok (), db')
                    else if \<not> ae_remoteBackups env then (Ok (), db')
                    else complete_remote (ae_remote env) now cmd (service_completion c) db'))"

definition complete_request ::
  "agent_env \<Rightarrow> int \<Rightarrow> int \<Rightarrow> string \<Rightarrow> string \<Rightarrow> json \<Rightarrow> remote_db \<Rightarrow> unit result \<times> remote_db" where
  "complete_request env now signedTimestamp agentId commandId input db =
     (case (if ae_sourceAccess env then getCommandForAgent agentId commandId (r_control db) else None) of
        Some c \<Rightarrow>
          if source_command c
          then (case service_complete agentId commandId input signedTimestamp now (control db) of
                  Inl e \<Rightarrow> (Throw e, db) | Inr ctl \<Rightarrow> (Ok (), with_control ctl db))
          else complete_backup env now agentId commandId input db
      | None \<Rightarrow> complete_backup env now agentId commandId input db)"

definition commandStatus ::
  "int \<Rightarrow> string \<Rightarrow> string \<Rightarrow> json \<Rightarrow> remote_db \<Rightarrow> ((bool \<times> int option) \<times> remote_db) result" where
  "commandStatus now agentId commandId input db =
     bind_result (parseLeaseToken input) (\<lambda>token.
       case getCommandStatus agentId commandId token AGENT_COMMAND_LEASE_MS now (r_control db) of
         (None, ctl) \<Rightarrow> Throw command_not_found
       | (Some (c, cancelled), ctl) \<Rightarrow> Ok ((cancelled, cm_leaseExpiresAt c), with_control ctl db))"

end
