(* ===== verification/Remote_Guarantees.thy ===== *)
theory Remote_Guarantees
  imports Remote_Operations
begin

text \<open>
  Remote backups: at most one of a plan is active, the outcome of a backup is final, what an agent is given
  is authorised, and the options of the storage it is given are from a closed list.
\<close>

section \<open>Changes of a row\<close>

definition same_backup :: "backup_record \<Rightarrow> backup_record \<Rightarrow> bool" where
  "same_backup r r' \<longleftrightarrow> br_id r' = br_id r \<and> br_planId r' = br_planId r \<and> br_sourceId r' = br_sourceId r \<and>
     br_sourceConfig r' = br_sourceConfig r \<and> br_storageId r' = br_storageId r \<and> br_storagePath r' = br_storagePath r"

definition remote_row :: "backup_record \<Rightarrow> bool" where
  "remote_row r \<longleftrightarrow> br_sourceId r \<noteq> ''main''"

text \<open>A backup is in progress or has ended with an outcome.\<close>

definition live_ok :: "backup_record \<Rightarrow> bool" where
  "live_ok r \<longleftrightarrow> (br_inProgress r = Some True \<and> \<not> terminal_status (br_status r)) \<or>
     (br_inProgress r = Some False \<and> terminal_status (br_status r))"

definition settled :: "backup_record \<Rightarrow> bool" where
  "settled r \<longleftrightarrow> br_status r = Some ''completed'' \<or> br_status r = Some ''failed''"

definition same_outcome :: "backup_record \<Rightarrow> backup_record \<Rightarrow> bool" where
  "same_outcome r r' \<longleftrightarrow> br_status r' = br_status r \<and> br_inProgress r' = br_inProgress r \<and> br_success r' = br_success r \<and>
     br_ended r' = br_ended r \<and> br_errorMsg r' = br_errorMsg r \<and> br_completionStats r' = br_completionStats r \<and>
     br_progressStats r' = br_progressStats r"

definition allowed :: "backup_record \<Rightarrow> backup_record \<Rightarrow> bool" where
  "allowed r r' \<longleftrightarrow> live_ok r' \<and> (settled r \<longrightarrow> same_outcome r r') \<and>
     (br_status r = Some ''cancelled'' \<longrightarrow> br_status r' \<in> {Some ''cancelled'', Some ''completed''})"

definition row_change :: "backup_record \<Rightarrow> backup_record \<Rightarrow> bool" where
  "row_change r r' \<longleftrightarrow> same_backup r r' \<and> (remote_row r \<and> live_ok r \<longrightarrow> allowed r r')"

definition evolves :: "backup_record list \<Rightarrow> backup_record list \<Rightarrow> bool" where
  "evolves t t' \<longleftrightarrow> (\<exists>g. t' = map g t \<and> (\<forall>r \<in> set t. row_change r (g r)))"

definition rows_ok :: "backup_record list \<Rightarrow> bool" where
  "rows_ok t \<longleftrightarrow> distinct (map br_id t) \<and> (\<forall>r \<in> set t. remote_row r \<longrightarrow> live_ok r)"

definition active_remote :: "string \<Rightarrow> backup_record list \<Rightarrow> nat" where
  "active_remote planId t = count_where (\<lambda>r. remote_row r \<and> br_planId r = Some planId \<and> br_inProgress r = Some True) t"

lemma same_backup_refl [simp]: "same_backup r r"
  by (simp add: same_backup_def)

lemma row_change_refl [simp]: "row_change r r"
  by (auto simp: row_change_def allowed_def same_outcome_def)

lemma evolves_refl [simp]: "evolves t t"
  unfolding evolves_def by (rule exI [of _ id]) simp

lemma evolves_ok:
  assumes "rows_ok t" "evolves t t'"
  shows "rows_ok t'"
proof -
  obtain g where t': "t' = map g t" and g: "\<And>r. r \<in> set t \<Longrightarrow> row_change r (g r)" using assms(2) by (auto simp: evolves_def)
  have "map br_id t' = map br_id t" using g by (auto simp: t' row_change_def same_backup_def)
  moreover have "live_ok (g r)" if "r \<in> set t" "remote_row (g r)" for r
    using g [OF that(1)] that assms(1) by (auto simp: row_change_def same_backup_def remote_row_def allowed_def rows_ok_def)
  ultimately show ?thesis using assms(1) unfolding rows_ok_def by (metis (no_types, lifting) imageE set_map t')
qed

lemma evolves_trans:
  assumes "rows_ok t" "evolves t t1" "evolves t1 t2"
  shows "evolves t t2"
proof -
  obtain g where t1: "t1 = map g t" and g: "\<And>r. r \<in> set t \<Longrightarrow> row_change r (g r)" using assms(2) by (auto simp: evolves_def)
  obtain h where t2: "t2 = map h t1" and h: "\<And>r. r \<in> set t1 \<Longrightarrow> row_change r (h r)" using assms(3) by (auto simp: evolves_def)
  have "row_change r (h (g r))" if "r \<in> set t" for r
  proof -
    have "row_change r (g r)" "row_change (g r) (h (g r))" using g h that by (auto simp: t1)
    then show ?thesis
      by (auto simp: row_change_def same_backup_def remote_row_def allowed_def settled_def same_outcome_def)
  qed
  then show ?thesis unfolding evolves_def by (intro exI [of _ "h \<circ> g"]) (simp add: t1 t2)
qed

lemma active_count_map:
  assumes "\<And>r. r \<in> set t \<Longrightarrow> p (g r) \<Longrightarrow> p r"
  shows "count_where p (map g t) \<le> count_where p t"
  using assms by (induction t) (auto simp: count_where_def)

lemma evolves_active:
  assumes "rows_ok t" "evolves t t'"
  shows "active_remote p t' \<le> active_remote p t"
proof -
  obtain g where t': "t' = map g t" and g: "\<And>r. r \<in> set t \<Longrightarrow> row_change r (g r)" using assms(2) by (auto simp: evolves_def)
  have "br_inProgress r = Some True" if "r \<in> set t" "remote_row r" "br_inProgress (g r) = Some True" for r
    using g [OF that(1)] that assms(1)
    by (auto simp: row_change_def allowed_def live_ok_def rows_ok_def settled_def same_outcome_def terminal_status_def)
  then show ?thesis unfolding active_remote_def t'
    by (intro active_count_map) (use g in \<open>auto simp: row_change_def same_backup_def remote_row_def\<close>)
qed

section \<open>Store calls and handlers\<close>

lemma getById_unique:
  "distinct (map br_id t) \<Longrightarrow> r \<in> set t \<Longrightarrow> bs_getById (br_id r) t = Some r"
proof (induction t)
  case (Cons a t)
  then show ?case by (cases "br_id a = br_id r") (auto simp: bs_getById_def row_by_def)
qed simp

lemma getById_in: "bs_getById i t = Some r \<Longrightarrow> r \<in> set t \<and> br_id r = i"
  by (auto simp: bs_getById_def row_by_def find_Some_iff)

lemma update_evolves:
  assumes "rows_ok t" "\<And>r. bs_getById i t = Some r \<Longrightarrow> row_change r (f r)"
  shows "evolves t (update_where (\<lambda>r. br_id r = i) f t)"
  unfolding evolves_def update_where_def
  by (rule exI [of _ "\<lambda>r. if br_id r = i then f r else r"])
    (use assms getById_unique in \<open>auto simp: rows_ok_def\<close>)

lemma bs_update_evolves:
  assumes "rows_ok t" "bs_update scope now i f t = Ok (x, t')"
    "\<And>r. bs_getById i t = Some r \<Longrightarrow> row_change r ((f r)\<lparr>br_updatedAt := Some (secs now)\<rparr>)"
  shows "evolves t t'"
proof (cases "bs_getById i t")
  case (Some old)
  then have "t' = update_where (\<lambda>r. br_id r = i) (\<lambda>r. (f r)\<lparr>br_updatedAt := Some (secs now)\<rparr>) t"
    using assms(2) by (auto simp: bs_update_def update_returning_def bind_result_Inr_iff)
  then show ?thesis using update_evolves [OF assms(1), of i "\<lambda>r. (f r)\<lparr>br_updatedAt := Some (secs now)\<rparr>"] assms(3) by blast
qed (use assms(2) in \<open>simp add: bs_update_def\<close>)

lemma settled_rows_evolves:
  assumes "rows_ok t" "\<And>r. bs_getById i t = Some r \<Longrightarrow> row_change r ((f r)\<lparr>br_updatedAt := Some (secs now)\<rparr>)"
  shows "evolves t (settled_rows (bs_update scope now i f t) t)"
  using bs_update_evolves [OF assms(1) _ assms(2)] by (auto simp: settled_rows_def split: sum.split)

lemmas change_defs = row_change_def same_backup_def allowed_def live_ok_def settled_def same_outcome_def remote_row_def
  terminal_status_def

lemma cancelled_evolves:
  assumes "rows_ok t" "\<And>r. bs_getById i t = Some r \<Longrightarrow> remote_row r \<Longrightarrow> \<not> settled r"
  shows "evolves t (onBackupCancelled scope oc now i t)"
  unfolding onBackupCancelled_def
  by (rule settled_rows_evolves [OF assms(1)]) (use assms(2) in \<open>auto simp: cancelled_row_def change_defs\<close>)

lemma failure_evolves:
  assumes "rows_ok t"
  shows "evolves t (onBackupFailure scope oc now i e f t)"
proof -
  have "row_change r ((failed_row oc now e f r)\<lparr>br_updatedAt := Some (secs now)\<rparr>)"
    if "bs_getById i t = Some r" "\<not> wasFinalized i t" "\<not> wasCancelled i t" for r
    using that by (auto simp: failed_row_def wasFinalized_def wasCancelled_def change_defs)
  then show ?thesis unfolding onBackupFailure_def by (auto intro: settled_rows_evolves [OF assms])
qed

lemma progress_evolves:
  assumes "rows_ok t"
  shows "evolves t (snd (updateRemoteProgress now i planId c att sq e t))"
proof -
  have "row_change r (r\<lparr>br_status := Some st, br_progressStats := Some p, br_updatedAt := Some (secs now)\<rparr>)"
    if "bs_getById i t = Some r" "mergeRemoteProgress r c att sq e = Some (st, p)" for r st p
    using that(2) by (auto simp: mergeRemoteProgress_def Let_def change_defs split: if_splits)
  then show ?thesis
    by (auto simp: updateRemoteProgress_def update_returning_def intro!: update_evolves [OF assms] split: option.split)
qed

lemma mirror_evolves:
  assumes "rows_ok t" "updateMirrorStatus scope now i rid upd t = Ok (x, t')"
  shows "evolves t t'"
  by (rule bs_update_evolves [OF assms(1) assms(2) [unfolded updateMirrorStatus_def]]) (auto simp: change_defs)

definition set_row :: "int \<Rightarrow> string \<Rightarrow> (backup_record \<Rightarrow> backup_record) \<Rightarrow> backup_record list \<Rightarrow> backup_record list" where
  "set_row now i f t = update_where (\<lambda>r. br_id r = i) (\<lambda>r. (f r)\<lparr>br_updatedAt := Some (secs now)\<rparr>) t"

lemma bs_update_cases: "bs_update scope now i f t = Ok (x, t') \<Longrightarrow> t' = t \<or> t' = set_row now i f t"
  by (auto simp: bs_update_def set_row_def update_returning_def bind_result_Inr_iff split: option.splits)

lemma settled_rows_cases: "settled_rows (bs_update scope now i f t) t \<in> {t, set_row now i f t}"
  using bs_update_cases [of scope now i f t] by (auto simp: settled_rows_def split: sum.split)

lemma set_row_twice:
  "(\<And>r. br_id (f r) = br_id r) \<Longrightarrow> set_row now i g (set_row now i f t) = set_row now i (\<lambda>r. g ((f r)\<lparr>br_updatedAt := Some (secs now)\<rparr>)) t"
  by (simp add: set_row_def update_where_def)

lemma set_row_evolves:
  assumes "rows_ok t" "\<And>r. bs_getById i t = Some r \<Longrightarrow> row_change r ((f r)\<lparr>br_updatedAt := Some (secs now)\<rparr>)"
  shows "evolves t (set_row now i f t)"
  unfolding set_row_def by (rule update_evolves [OF assms])

lemma success_evolves:
  fixes t and i defines "t1 \<equiv> \<lambda>scope oc now rescue s f. onBackupComplete scope oc now rescue True i s f t"
  assumes "rows_ok t" "\<And>r. bs_getById i t = Some r \<Longrightarrow> \<not> settled r"
  shows "evolves t (t1 scope oc now rescue s f)"
    "bs_update scope' now i (\<lambda>b. b\<lparr>br_errorMsg := m\<rparr>) (t1 scope oc now rescue s f) = Ok (x, t2) \<Longrightarrow> evolves t t2"
proof -
  let ?f = "completed_row oc now rescue True (summary_data s f)" and ?g = "\<lambda>b. b\<lparr>br_errorMsg := m\<rparr>"
  have t1: "t1 scope oc now rescue s f \<in> {t, set_row now i ?f t}"
    using settled_rows_cases by (auto simp: t1_def onBackupComplete_def)
  have keep: "br_id (?f r) = br_id r" for r by (simp add: completed_row_def)
  have f: "row_change r ((?f r)\<lparr>br_updatedAt := Some (secs now)\<rparr>)" "row_change r ((?g r)\<lparr>br_updatedAt := Some (secs now)\<rparr>)"
    "row_change r ((?g ((?f r)\<lparr>br_updatedAt := Some (secs now)\<rparr>))\<lparr>br_updatedAt := Some (secs now)\<rparr>)"
    if "bs_getById i t = Some r" for r
    using assms(3) [OF that] by (auto simp: completed_row_def change_defs)
  show "evolves t (t1 scope oc now rescue s f)" using t1 set_row_evolves [OF assms(2) f(1)] by auto
  show "evolves t t2" if "bs_update scope' now i ?g (t1 scope oc now rescue s f) = Ok (x, t2)"
    using bs_update_cases [OF that] t1 set_row_evolves [OF assms(2) f(1)] set_row_evolves [OF assms(2) f(2)]
      set_row_evolves [OF assms(2) f(3)] set_row_twice [of ?f, OF keep] by auto
qed

section \<open>Operations\<close>

lemma update_plan_stats_backups [simp]: "r_backups (snd (update_plan_stats env now sid summary plan db)) = r_backups db"
  by (auto simp: update_plan_stats_def split: option.split sum.split)

lemma markInitialized_backups [simp]: "r_backups (markInitialized now i db) = r_backups db"
  by (simp add: markInitialized_def)

lemma record_success_evolves:
  assumes "rows_ok (r_backups db)" "\<And>r. bs_getById i (r_backups db) = Some r \<Longrightarrow> \<not> settled r"
  shows "evolves (r_backups db) (r_backups (snd (record_success env now i repo sid summary r plan db)))"
  using success_evolves [OF assms]
  by (auto simp: record_success_def Let_def split: option.split sum.split)

lemma fail_backup_evolves: "rows_ok (r_backups db) \<Longrightarrow> evolves (r_backups db) (r_backups (fail_backup env now i e f db))"
  by (simp add: fail_backup_def failure_evolves)

lemma settle_success_evolves:
  assumes "rows_ok (r_backups db)" "\<And>r. bs_getById (fst ref) (r_backups db) = Some r \<Longrightarrow> \<not> settled r"
  shows "evolves (r_backups db) (r_backups (snd (settle_success env now ref c db)))"
  using record_success_evolves [OF assms] fail_backup_evolves [OF assms(1)]
  by (auto simp: settle_success_def Let_def split: prod.split option.split sum.split)

lemma complete_evolves:
  assumes "rows_ok (r_backups db)"
  shows "evolves (r_backups db) (r_backups (snd (complete_remote env now cmd c db)))"
proof (cases "cm_type cmd = ''BACKUP_FILESYSTEM'' \<and> (\<exists>ref. commandReference (cm_payload cmd) = Ok ref)")
  case True
  then obtain i p repo where ref: "commandReference (cm_payload cmd) = Ok (i, p, repo)" by auto
  define skip where "skip = (case bs_getById i (r_backups db) of None \<Rightarrow> False
    | Some b \<Rightarrow> terminal_status (br_status b) \<and> \<not> (br_status b = Some ''cancelled'' \<and> rc_success c \<and> has_lifecycle c))"
  have "\<not> settled r" if "\<not> skip" "bs_getById i (r_backups db) = Some r" for r
    using that by (auto simp: skip_def settled_def terminal_status_def)
  then have "\<not> skip \<Longrightarrow> evolves (r_backups db) (r_backups (snd (settle_success env now (i, p, repo) c db)))"
    "\<not> skip \<Longrightarrow> evolves (r_backups db) (onBackupCancelled (re_scope env) None now i (r_backups db))"
    using settle_success_evolves [OF assms, of "(i, p, repo)"] cancelled_evolves [OF assms] by auto
  then show ?thesis
    using True ref fail_backup_evolves [OF assms] by (auto simp: complete_remote_def Let_def skip_def)
qed (auto simp: complete_remote_def split: sum.split)

lemma bind_prep_Inr: "bind_prep r f = Inr y \<longleftrightarrow> (\<exists>x. r = Inr x \<and> f x = Inr y)"
  by (auto simp: bind_prep_def split: sum.split)

lemma at_stage_Inr [simp]: "at_stage s r = Inr x \<longleftrightarrow> r = Inr x"
  by (auto simp: at_stage_def split: sum.split)

lemma no_stage_Inr [simp]: "no_stage r = Inr x \<longleftrightarrow> r = Inr x"
  by (auto simp: no_stage_def split: sum.split)

lemma supported_plan:
  assumes "assertSupportedPlan env now v p db = Inr ()"
  obtains source excludes a where "isRemoteFilesystemPlan p" "pn_method p = ''backup''" "setting ''encryption'' p = Some (JBool True)"
    "\<not> hasEnabledScripts p" "getSingleSource (pn_sourceConfig p) = Ok source" "getSafeExcludes (pn_sourceConfig p) = Ok excludes"
    "getCapableAgent env now (pn_sourceId p) db = Ok a" "excludes \<noteq> [] \<Longrightarrow> capability_is ''backupExclusionsVersion'' 1 a"
    "assertSourceAccess env now a source db = Ok ()" "assertLifecycle env now p db = Ok ()"
  using assms unfolding assertSupportedPlan_def bind_prep_Inr bind_result_Inr_iff at_stage_Inr
  by (auto simp: assertPlanShape_def bind_result_Inr_iff split: if_splits)

definition queued :: "backup_record list \<Rightarrow> backup_record list \<Rightarrow> bool" where
  "queued t t' \<longleftrightarrow> (\<exists>b p. t' = t @ [b] \<and> br_id b \<notin> br_id ` set t \<and> live_ok b \<and> br_inProgress b = Some True \<and>
     br_planId b = Some p \<and> \<not> hasActiveBackups p t)"

lemma queued_ok: "rows_ok t \<Longrightarrow> queued t t' \<Longrightarrow> rows_ok t'"
  by (auto simp: queued_def rows_ok_def)

lemma queued_active:
  assumes "queued t t'"
  shows "active_remote p t' \<le> active_remote p t \<or> (active_remote p t = 0 \<and> active_remote p t' = 1)"
proof -
  obtain b q where b: "t' = t @ [b]" "br_planId b = Some q" "\<not> hasActiveBackups q t" using assms by (auto simp: queued_def)
  have "active_remote q t = 0" using b(3) by (auto simp: active_remote_def count_where_0_iff hasActiveBackups_def list_ex_iff)
  then show ?thesis using b by (cases "p = q") (auto simp: active_remote_def count_where_def)
qed

lemma insert_effect:
  assumes "createBackupAndCommand now (queued_backup now i p repo) c db = Ok db'"
  shows "queued (r_backups db) (r_backups db')"
proof -
  have "live_ok ((queued_backup now i p repo)\<lparr>br_createdAt := k\<rparr>)" for k
    by (simp add: queued_backup_def live_ok_def terminal_status_def)
  moreover have "br_planId (queued_backup now i p repo) = Some (pn_id p)" "br_inProgress (queued_backup now i p repo) = Some True"
    by (simp_all add: queued_backup_def)
  ultimately show ?thesis using assms
    by (auto simp: createBackupAndCommand_def bind_result_Inr_iff or_else_def queued_def split: option.splits if_splits)
qed

lemma queue_effect:
  "queuePlanBackup env now i planId db = Ok (m, db') \<Longrightarrow> r_backups db' = r_backups db \<or> queued (r_backups db) (r_backups db')"
  by (auto simp: queuePlanBackup_def bind_result_Inr_iff dest: insert_effect split: option.splits if_splits)

lemma ensureSchedule_backups: "ensureSchedule env p db = Ok db' \<Longrightarrow> r_backups db' = r_backups db"
  by (auto simp: ensureSchedule_def bind_result_Inr_iff Let_def split: option.splits)

lemma create_repository_backups: "create_repository repo db = Ok db' \<Longrightarrow> r_backups db' = r_backups db"
  by (auto simp: create_repository_def split: if_splits)

lemma remove_schedule_backups [simp]: "r_backups (remove_schedule i db) = r_backups db"
  by (simp add: remove_schedule_def)

lemma deleteByPlanId_backups [simp]: "r_backups (deleteByPlanId i db) = r_backups db"
  by (simp add: deleteByPlanId_def)

lemma create_effect:
  "r_backups (snd (createManagedPlan env now rid pw i runNow p db)) = r_backups db \<or>
   queued (r_backups db) (r_backups (snd (createManagedPlan env now rid pw i runNow p db)))"
  by (auto simp: createManagedPlan_def new_repository_def start_plan_def bind_result_Inr_iff Let_def split: sum.split if_splits
      dest!: create_repository_backups ensureSchedule_backups queue_effect)

lemma cancel_remote_evolves:
  assumes "rows_ok (r_backups db)" "\<And>r. bs_getById i (r_backups db) = Some r \<Longrightarrow> remote_row r \<Longrightarrow> \<not> settled r"
  shows "evolves (r_backups db) (r_backups (cancel_remote env now i db))"
  using cancelled_evolves [OF assms] by (simp add: cancel_remote_def)

lemma cancelBackup_evolves:
  assumes "rows_ok (r_backups db)" "cancelBackup env now planId i db = Ok db'"
  shows "evolves (r_backups db) (r_backups db')"
proof -
  from assms(2) obtain b where b: "bs_getById i (r_backups db) = Some b" "br_inProgress b = Some True" "db' = cancel_remote env now i db"
    by (auto simp: cancelBackup_def split: option.splits if_splits)
  have "\<not> settled b" if "remote_row b"
    using that assms(1) getById_in [OF b(1)] b(2) by (auto simp: rows_ok_def live_ok_def settled_def terminal_status_def)
  then show ?thesis unfolding b(3) by (intro cancel_remote_evolves [OF assms(1)]) (use b(1) in auto)
qed

lemma getById_set_row:
  assumes "\<And>r. br_id (f r) = br_id r" "j \<noteq> i"
  shows "bs_getById j (set_row now i f t) = bs_getById j t"
  using assms by (induction t) (auto simp: bs_getById_def row_by_def set_row_def update_where_def)

lemma cancel_remote_other:
  assumes "j \<noteq> i"
  shows "bs_getById j (r_backups (cancel_remote env now i db)) = bs_getById j (r_backups db)"
proof -
  have "r_backups (cancel_remote env now i db) \<in> {r_backups db, set_row now i (cancelled_row None now) (r_backups db)}"
    unfolding cancel_remote_def onBackupCancelled_def using settled_rows_cases by auto
  moreover have "br_id (cancelled_row None now r) = br_id r" for r by (simp add: cancelled_row_def)
  ultimately show ?thesis using getById_set_row [OF _ assms] by auto
qed

lemma cancel_all_evolves:
  assumes "rows_ok (r_backups db)" "distinct (map br_id bs)"
    "\<And>b. b \<in> set bs \<Longrightarrow> bs_getById (br_id b) (r_backups db) = Some b \<and> br_inProgress b = Some True"
  shows "evolves (r_backups db) (r_backups (fold (\<lambda>b. cancel_remote env now (br_id b)) bs db))"
  using assms
proof (induction bs arbitrary: db)
  case (Cons b bs)
  have b: "bs_getById (br_id b) (r_backups db) = Some b" "br_inProgress b = Some True" using Cons.prems(3) by auto
  have "\<not> settled b" if "remote_row b"
    using that Cons.prems(1) getById_in [OF b(1)] b(2) by (auto simp: rows_ok_def live_ok_def settled_def terminal_status_def)
  then have one: "evolves (r_backups db) (r_backups (cancel_remote env now (br_id b) db))"
    by (intro cancel_remote_evolves [OF Cons.prems(1)]) (use b(1) in auto)
  have "evolves (r_backups (cancel_remote env now (br_id b) db)) (r_backups (fold (\<lambda>b. cancel_remote env now (br_id b)) bs (cancel_remote env now (br_id b) db)))"
  proof (rule Cons.IH [OF evolves_ok [OF Cons.prems(1) one]])
    show "bs_getById (br_id c) (r_backups (cancel_remote env now (br_id b) db)) = Some c \<and> br_inProgress c = Some True" if "c \<in> set bs" for c
    proof -
      have "br_id c \<noteq> br_id b" using that Cons.prems(2) by (metis distinct.simps(2) image_eqI list.simps(9) set_map)
      then show ?thesis using cancel_remote_other Cons.prems(3) [of c] that by simp
    qed
  qed (use Cons.prems(2) in simp)
  then show ?case using evolves_trans [OF Cons.prems(1) one] by simp
qed simp

lemma removePlan_evolves:
  assumes "rows_ok (r_backups db)" "removeManagedPlan env now planId db = Ok (path, db')"
  shows "evolves (r_backups db) (r_backups db')"
proof -
  let ?bs = "filter (\<lambda>b. br_planId b = Some planId \<and> br_inProgress b = Some True) (r_backups db)"
  have "distinct (map br_id ?bs)" using assms(1) by (simp add: rows_ok_def distinct_map_filter)
  moreover have "bs_getById (br_id b) (r_backups db) = Some b \<and> br_inProgress b = Some True" if "b \<in> set ?bs" for b
    using that assms(1) getById_unique by (auto simp: rows_ok_def)
  ultimately have "evolves (r_backups db) (r_backups (fold (\<lambda>b. cancel_remote env now (br_id b)) ?bs db))"
    by (rule cancel_all_evolves [OF assms(1)])
  then show ?thesis using assms(2) by (auto simp: removeManagedPlan_def Let_def split: option.splits)
qed

section \<open>Runs of the service\<close>

text \<open>
  Every operation with every argument, mirrors of a backup, and what other components write: they may change
  everything but the rows of remote backups.  Between the checks of \<open>queuePlanBackup\<close> and its transaction other
  operations may run: \<open>st_insert\<close> is the transaction alone, with a plan and a repository read earlier.
\<close>

inductive remote_step :: "remote_env \<Rightarrow> remote_db \<Rightarrow> remote_db \<Rightarrow> bool" for env where
  st_queue: "queuePlanBackup env now i planId db = Ok (m, db') \<Longrightarrow> remote_step env db db'"
| st_insert: "createBackupAndCommand now (queued_backup now i p repo) (backup_command agentId i (pn_id p) (mo_id repo)) db = Ok db' \<Longrightarrow>
    remote_step env db db'"
| st_create: "remote_step env db (snd (createManagedPlan env now rid pw i runNow p db))"
| st_update: "updateManagedPlan env now p db = Ok db' \<Longrightarrow> remote_step env db db'"
| st_cancel: "cancelBackup env now planId i db = Ok db' \<Longrightarrow> remote_step env db db'"
| st_remove: "removeManagedPlan env now planId db = Ok (path, db') \<Longrightarrow> remote_step env db db'"
| st_progress: "record_progress now c e sq db = Ok db' \<Longrightarrow> remote_step env db db'"
| st_complete: "remote_step env db (snd (complete_remote env now cmd c db))"
| st_mirror: "updateMirrorStatus (re_scope env) now i rid upd (r_backups db) = Ok (x, t) \<Longrightarrow> remote_step env db (db\<lparr>r_backups := t\<rparr>)"
| st_other: "filter remote_row (r_backups db') = filter remote_row (r_backups db) \<Longrightarrow> distinct (map br_id (r_backups db')) \<Longrightarrow>
    remote_step env db db'"

text \<open>Rows are deleted with their plan or when they are pruned.\<close>

definition remote_change :: "remote_env \<Rightarrow> remote_db \<Rightarrow> remote_db \<Rightarrow> bool" where
  "remote_change env db db' \<longleftrightarrow> remote_step env db db' \<or> (\<exists>p. r_backups db' = delete_where p (r_backups db))"

lemma remote_step_cases:
  assumes "rows_ok (r_backups db)" "remote_step env db db'"
  shows "evolves (r_backups db) (r_backups db') \<or> queued (r_backups db) (r_backups db') \<or>
    (filter remote_row (r_backups db') = filter remote_row (r_backups db) \<and> distinct (map br_id (r_backups db')))"
  using assms(2)
proof cases
  case (st_update now p)
  then have "r_backups db' = r_backups db"
    by (auto simp: updateManagedPlan_def bind_result_Inr_iff dest!: ensureSchedule_backups split: option.splits)
  then show ?thesis by simp
next
  case (st_queue now i planId m)
  then show ?thesis using queue_effect [OF st_queue] by auto
next
  case (st_insert now i p repo agentId)
  then show ?thesis using insert_effect by blast
next
  case (st_create now rid pw i runNow p)
  then show ?thesis using create_effect [of env now rid pw i runNow p db] by auto
next
  case (st_progress now c e sq)
  then show ?thesis using progress_evolves [OF assms(1)] by (auto simp: record_progress_def bind_result_Inr_iff split: if_splits)
qed (use cancelBackup_evolves [OF assms(1)] removePlan_evolves [OF assms(1)] complete_evolves [OF assms(1)] mirror_evolves [OF assms(1)]
    in \<open>auto\<close>)

lemma filter_rows_ok:
  assumes "rows_ok t" "filter remote_row t' = filter remote_row t" "distinct (map br_id t')"
  shows "rows_ok t'"
proof -
  have "r \<in> set t" if "r \<in> set t'" "remote_row r" for r
    using that arg_cong [OF assms(2), of set] by (simp add: set_eq_iff) blast
  then show ?thesis using assms(1,3) by (auto simp: rows_ok_def)
qed

lemma active_remote_filter: "active_remote p t = count_where (\<lambda>r. br_planId r = Some p \<and> br_inProgress r = Some True) (filter remote_row t)"
  by (simp add: active_remote_def count_where_def conj_commute conj_left_commute)

lemma remote_step_ok: "rows_ok (r_backups db) \<Longrightarrow> remote_step env db db' \<Longrightarrow> rows_ok (r_backups db')"
  using remote_step_cases evolves_ok queued_ok filter_rows_ok by blast

lemma remote_step_active:
  assumes "rows_ok (r_backups db)" "remote_step env db db'"
  shows "active_remote p (r_backups db') \<le> active_remote p (r_backups db) \<or>
    (active_remote p (r_backups db) = 0 \<and> active_remote p (r_backups db') = 1)"
proof -
  have "active_remote p (r_backups db') = active_remote p (r_backups db)"
    if "filter remote_row (r_backups db') = filter remote_row (r_backups db)"
    using that by (simp add: active_remote_filter)
  then show ?thesis using remote_step_cases [OF assms] evolves_active [OF assms(1), of "r_backups db'" p]
      queued_active [of "r_backups db" "r_backups db'" p] by auto
qed

lemma delete_rows_ok: "rows_ok t \<Longrightarrow> rows_ok (delete_where q t)"
  by (auto simp: rows_ok_def delete_where_def distinct_map_filter)

lemma delete_active: "active_remote p (delete_where q t) \<le> active_remote p t"
  unfolding active_remote_def count_where_def delete_where_def filter_filter
  by (induction t) auto

interpretation backup_slot: exclusive_slot "remote_change env" "\<lambda>db. rows_ok (r_backups db)" "\<lambda>db. active_remote p (r_backups db)" for env p
proof
  fix db db' assume ok: "rows_ok (r_backups db)" and step: "remote_change env db db'"
  show "rows_ok (r_backups db')" using step remote_step_ok [OF ok] delete_rows_ok [OF ok] by (auto simp: remote_change_def)
  show "active_remote p (r_backups db') \<le> active_remote p (r_backups db) \<or> active_remote p (r_backups db) = 0 \<and> active_remote p (r_backups db') = 1"
    using step remote_step_active [OF ok] delete_active [of p _ "r_backups db"] by (auto simp: remote_change_def)
qed

definition remote_start :: "remote_db \<Rightarrow> bool" where
  "remote_start db \<longleftrightarrow> rows_ok (r_backups db) \<and> filter remote_row (r_backups db) = []"

lemma remote_reach:
  "reachable remote_start (remote_change env) db \<Longrightarrow>
   reachable (\<lambda>db. rows_ok (r_backups db) \<and> active_remote p (r_backups db) \<le> 1) (remote_change env) db"
proof (induction rule: reachable.induct)
  case (reach_init db)
  then have "active_remote p (r_backups db) = 0" by (simp add: remote_start_def active_remote_filter count_where_def)
  with reach_init show ?case by (intro reachable.reach_init) (simp add: remote_start_def)
qed (rule reach_step)

text \<open>
  C8: One backup of a plan at a time.  In every order of operations, events and completions of the agents, at most
  one backup of a remote plan is in progress, and every backup of a remote plan is either in progress or has ended
  as completed, failed or cancelled.
\<close>

theorem one_active_backup:
  assumes "reachable remote_start (remote_change env) db"
  shows "count_where (\<lambda>r. br_sourceId r \<noteq> ''main'' \<and> br_planId r = Some planId \<and> br_inProgress r = Some True) (r_backups db) \<le> 1 \<and>
    (\<forall>r. r \<in> set (r_backups db) \<and> br_sourceId r \<noteq> ''main'' \<longrightarrow>
       (br_inProgress r = Some True \<and> \<not> terminal_status (br_status r)) \<or> (br_inProgress r = Some False \<and> terminal_status (br_status r)))"
proof -
  note * = backup_slot.slot_bound [OF remote_reach [OF assms], of planId]
  then show ?thesis by (auto simp: active_remote_def remote_row_def rows_ok_def live_ok_def)
qed

section \<open>Outcomes\<close>

definition kept_rows :: "backup_record list \<Rightarrow> backup_record list \<Rightarrow> bool" where
  "kept_rows t t' \<longleftrightarrow> (\<forall>r \<in> set t. remote_row r \<longrightarrow> (\<exists>r' \<in> set t'. row_change r r'))"

lemma row_change_trans: "row_change r r1 \<Longrightarrow> row_change r1 r2 \<Longrightarrow> row_change r r2"
  by (auto simp: row_change_def same_backup_def remote_row_def allowed_def settled_def same_outcome_def)

interpretation backup_history: progress_system "\<lambda>db. rows_ok (r_backups db)" "remote_step env" "\<lambda>db. rows_ok (r_backups db)"
  "\<lambda>db db'. kept_rows (r_backups db) (r_backups db')" for env
proof
  fix db db' db'' :: remote_db
  show "kept_rows (r_backups db) (r_backups db)" by (auto simp: kept_rows_def intro: row_change_refl)
  show "kept_rows (r_backups db) (r_backups db'')"
    if k: "kept_rows (r_backups db) (r_backups db')" "kept_rows (r_backups db') (r_backups db'')"
    unfolding kept_rows_def
  proof (intro ballI impI)
    fix r assume r: "r \<in> set (r_backups db)" "remote_row r"
    then obtain r' where r': "r' \<in> set (r_backups db')" "row_change r r'" using k(1) unfolding kept_rows_def by blast
    then have "remote_row r'" using r(2) by (auto simp: row_change_def same_backup_def remote_row_def)
    then show "\<exists>r''\<in>set (r_backups db''). row_change r r''" using k(2) r' row_change_trans unfolding kept_rows_def by blast
  qed
  show "rows_ok (r_backups db')" if "rows_ok (r_backups db)" "remote_step env db db'" by (rule remote_step_ok [OF that])
  show "kept_rows (r_backups db) (r_backups db')" if "rows_ok (r_backups db)" "remote_step env db db'"
    using remote_step_cases [OF that]
  proof (elim disjE conjE)
    assume "filter remote_row (r_backups db') = filter remote_row (r_backups db)"
    then have "set (filter remote_row (r_backups db')) = set (filter remote_row (r_backups db))" by simp
    then show ?thesis unfolding kept_rows_def by (auto simp: set_eq_iff intro: row_change_refl)
  qed (auto simp: evolves_def queued_def kept_rows_def intro: row_change_refl)
qed


definition snapshot_evidence :: "remote_completion \<Rightarrow> remote_database list \<Rightarrow> bool" where
  "snapshot_evidence c configured \<longleftrightarrow> rc_success c \<and>
     (case rc_result c of
        None \<Rightarrow> False
      | Some r \<Rightarrow>
          (case (cr_snapshotId r, cr_summary r) of
             (Some sid, Some summary) \<Rightarrow> isSafeSnapshotId sid \<and> map_of summary ''snapshot_id'' = Some (JStr sid) \<and>
               \<not> artifacts_invalid sid (cr_lifecycle r) configured
           | _ \<Rightarrow> False))"

text \<open>The rows after a completion: unchanged, one row cancelled or failed, or there is evidence of a snapshot.\<close>

lemma failure_cases:
  "onBackupFailure scope None now i e f t = t \<or> onBackupFailure scope None now i e f t = set_row now i (failed_row None now e f) t"
  using settled_rows_cases by (auto simp: onBackupFailure_def)

lemma settle_success_cases:
  "(\<exists>configured. configured_databases (row_by pn_id (fst (snd ref)) (r_plans db)) = Ok configured \<and> (rc_success c \<longrightarrow> snapshot_evidence c configured)) \<or>
   r_backups (snd (settle_success env now ref c db)) = r_backups db \<or>
   (\<exists>e. r_backups (snd (settle_success env now ref c db)) = set_row now (fst ref) (failed_row None now e None) (r_backups db))"
  using failure_cases
  by (auto simp: settle_success_def snapshot_evidence_def fail_backup_def Let_def split: prod.split option.split sum.split) metis+

lemma set_row_status:
  assumes "r' \<in> set (set_row now i f t)" "r' \<notin> set t"
  shows "\<exists>r \<in> set t. r' = (f r)\<lparr>br_updatedAt := Some (secs now)\<rparr>"
  using assms by (auto simp: set_row_def update_where_def split: if_splits)

lemma complete_cases:
  "r_backups (snd (complete_remote env now cmd c db)) = r_backups db \<or>
   (\<exists>i. r_backups (snd (complete_remote env now cmd c db)) = set_row now i (cancelled_row None now) (r_backups db)) \<or>
   (\<exists>i e f. r_backups (snd (complete_remote env now cmd c db)) = set_row now i (failed_row None now e f) (r_backups db)) \<or>
   (\<exists>i p repo configured. commandReference (cm_payload cmd) = Ok (i, p, repo) \<and>
      configured_databases (row_by pn_id p (r_plans db)) = Ok configured \<and> snapshot_evidence c configured)"
proof (cases "cm_type cmd = ''BACKUP_FILESYSTEM'' \<and> (\<exists>ref. commandReference (cm_payload cmd) = Ok ref)")
  case True
  then obtain i p repo where ref: "commandReference (cm_payload cmd) = Ok (i, p, repo)" by auto
  let ?t = "r_backups db"
  have cancelled: "onBackupCancelled (re_scope env) None now i ?t = ?t \<or> onBackupCancelled (re_scope env) None now i ?t = set_row now i (cancelled_row None now) ?t"
    using settled_rows_cases by (auto simp: onBackupCancelled_def)
  let ?x = "complete_remote env now cmd c db"
  have "?x = (Ok (), db) \<or> ?x = (Ok (), db\<lparr>r_backups := onBackupCancelled (re_scope env) None now i ?t\<rparr>) \<or>
      (\<exists>e f. ?x = (Ok (), fail_backup env now i e f db)) \<or> (rc_success c \<and> ?x = settle_success env now (i, p, repo) c db)"
    using True ref by (simp add: complete_remote_def Let_def) metis
  then consider "r_backups (snd ?x) = ?t" | "r_backups (snd ?x) = onBackupCancelled (re_scope env) None now i ?t"
    | e f where "r_backups (snd ?x) = onBackupFailure (re_scope env) None now i e f ?t"
    | "rc_success c" "?x = settle_success env now (i, p, repo) c db"
    by (auto simp: fail_backup_def)
  then show ?thesis
  proof cases
    case 2
    then show ?thesis using cancelled by metis
  next
    case 3
    then show ?thesis using failure_cases by metis
  next
    case 4
    then show ?thesis using settle_success_cases [of "(i, p, repo)" db c env now] ref by auto
  qed simp
qed (auto simp: complete_remote_def split: sum.split)


section \<open>Storage options\<close>

lemma escape_newlines_Nil: "escape_newlines s = [] \<longleftrightarrow> s = []"
  by (induction s rule: escape_newlines.induct) auto

lemma js_trim_Nil: "js_trim [] = []"
  by (simp add: js_trim_def)

lemma meaningful_text: "isMeaningfulStorageValue v \<Longrightarrow> json_text v \<noteq> [] \<or> (\<exists>s. v = JFrac s)"
  by (cases v) (auto simp: js_trim_Nil int_text_def nat_text.simps [of "nat _"])

lemma sftp_options_sound:
  "sftp_options kvs = Inr os \<Longrightarrow> (k, n) \<in> set os \<Longrightarrow>
   \<exists>v. (k, v) \<in> set kvs \<and> isMeaningfulStorageValue v \<and> k \<in> set SFTP_AGENT_OPTION_KEYS \<and> n = escape_newlines (json_text v) \<and>
     length n \<le> 16384 \<and> \<not> hasUnsafeControlCharacters n"
proof (induction kvs arbitrary: os rule: sftp_options.induct)
  case (2 k' v' r)
  then show ?case
    by (auto simp: Let_def option_error_def bind_prep_Inr split: if_splits) blast+
qed simp

lemma spread_in: "(k, v) \<in> set (object_spread a b) \<Longrightarrow> (k, v) \<in> set b \<or> ((k, v) \<in> set a \<and> map_of b k = None)"
  by (auto simp: object_spread_def split: option.splits dest: map_of_SomeD)

lemma decrypted_in:
  assumes "map_result (decrypted_credential env) kvs = Ok ds" "(k, v) \<in> set ds"
  shows "\<exists>c p. (k, JStr c) \<in> set kvs \<and> re_decrypt env c = Some p \<and> v = JStr p"
proof -
  obtain n where n: "n < length ds" "ds ! n = (k, v)" using assms(2) by (auto simp: in_set_conv_nth)
  note r = map_result_Inr [OF assms(1)]
  have "decrypted_credential env (kvs ! n) = Ok (k, v)" "kvs ! n \<in> set kvs" using r n by auto
  then show ?thesis by (auto simp: decrypted_credential_def split: prod.splits json.splits if_splits option.splits)
qed

lemma require_sftp_Ok: "require_sftp x = Ok s \<longleftrightarrow> x = Some s \<and> sg_type s = Some ''sftp''"
  by (auto simp: require_sftp_def split: option.split if_splits)

lemma sftp_parts:
  assumes "materializeSftpStorage env sid db = Inr os"
  shows "\<exists>s ds. row_by sg_id sid (r_storages db) = Some s \<and> sg_type s = Some ''sftp'' \<and>
    map_result (decrypted_credential env) (object_entries (sg_credentials s)) = Ok ds \<and>
    find setting_refused (object_entries (sg_settings s)) = None \<and>
    sftp_options (object_spread (object_entries (sg_settings s)) ds) = Inr os \<and>
    option_given ''host'' os \<and> option_given ''user'' os \<and> option_given ''pass'' os"
  using assms unfolding materializeSftpStorage_def bind_prep_Inr at_stage_Inr Let_def require_sftp_Ok
  by (fastforce split: option.splits prod.splits)

text \<open>
  C31: The storage options of an agent are closed.  What an agent is given of a storage has the keys host, port, user
  and pass only, with at most 16384 characters and no control character each; host, user and pass are there,
  and the password is a decrypted credential, never a plain setting.
\<close>

theorem agent_storage_options:
  assumes "materializeSftpStorage env storageId db = Inr options"
  shows "fst ` set options \<subseteq> {''host'', ''port'', ''user'', ''pass''} \<and> {''host'', ''user'', ''pass''} \<subseteq> fst ` set options \<and>
    (\<forall>(k, v) \<in> set options. length v \<le> 16384 \<and> list_all (\<lambda>c. \<not> control_char c) v) \<and>
    (\<forall>v. (''pass'', v) \<in> set options \<longrightarrow>
       (\<exists>storage c p. storage \<in> set (r_storages db) \<and> sg_id storage = storageId \<and> sg_type storage = Some ''sftp'' \<and>
          (''pass'', JStr c) \<in> set (object_entries (sg_credentials storage)) \<and> re_decrypt env c = Some p \<and> v = escape_newlines p))"
proof -
  from assms obtain s ds where s: "row_by sg_id storageId (r_storages db) = Some s" "sg_type s = Some ''sftp''"
    and ds: "map_result (decrypted_credential env) (object_entries (sg_credentials s)) = Ok ds"
    and none: "find setting_refused (object_entries (sg_settings s)) = None"
    and os: "sftp_options (object_spread (object_entries (sg_settings s)) ds) = Inr options"
    and given: "option_given ''host'' options" "option_given ''user'' options" "option_given ''pass'' options"
    using sftp_parts by blast
  have plain: "\<not> setting_refused kv" if "kv \<in> set (object_entries (sg_settings s))" for kv
    using none that by (cases kv) (auto simp: find_None_iff)
  note sound = sftp_options_sound [OF os]
  have keys: "fst ` set options \<subseteq> {''host'', ''port'', ''user'', ''pass''}" using sound by (force simp: SFTP_AGENT_OPTION_KEYS_def)
  have "k \<in> fst ` set options" if "option_given k options" for k
    using that by (auto simp: option_given_def split: option.splits dest!: map_of_SomeD intro: rev_image_eqI)
  then have req: "{''host'', ''user'', ''pass''} \<subseteq> fst ` set options" using given by auto
  have vals: "length v \<le> 16384 \<and> list_all (\<lambda>c. \<not> control_char c) v" if "(k, v) \<in> set options" for k v
    using sound [OF that] by (auto simp: hasUnsafeControlCharacters_def list_ex_iff list_all_iff)
  have pass: "\<exists>c p. (''pass'', JStr c) \<in> set (object_entries (sg_credentials s)) \<and> re_decrypt env c = Some p \<and> v = escape_newlines p"
    if in_options: "(''pass'', v) \<in> set options" for v
  proof -
    obtain w where w: "(''pass'', w) \<in> set (object_spread (object_entries (sg_settings s)) ds)" "isMeaningfulStorageValue w" "v = escape_newlines (json_text w)"
      using sound [OF in_options] by blast
    have "(''pass'', w) \<in> set ds" using spread_in [OF w(1)] plain [of "(''pass'', w)"] w(2) by (auto simp: setting_refused_def)
    then show ?thesis using decrypted_in [OF ds] w(3) by fastforce
  qed
  have "s \<in> set (r_storages db) \<and> sg_id s = storageId" using s(1) by (auto simp: row_by_def find_Some_iff)
  then have "\<exists>storage c p. storage \<in> set (r_storages db) \<and> sg_id storage = storageId \<and> sg_type storage = Some ''sftp'' \<and>
      (''pass'', JStr c) \<in> set (object_entries (sg_credentials storage)) \<and> re_decrypt env c = Some p \<and> v = escape_newlines p"
    if "(''pass'', v) \<in> set options" for v using pass [OF that] s(2) by fast
  moreover have "\<forall>(k, v) \<in> set options. length v \<le> 16384 \<and> list_all (\<lambda>c. \<not> control_char c) v" using vals by fast
  ultimately show ?thesis using keys req by (intro conjI allI impI) assumption+
qed

section \<open>What an agent is given\<close>

lemma single_source_safe: "getSingleSource j = Ok s \<Longrightarrow> source_path_safe s"
  by (auto simp: getSingleSource_def validateAbsoluteLinuxPath_def bind_result_Inr_iff split: option.splits json.splits list.splits)

lemma kept_exclusions:
  assumes "queued_exclusions_kept p b excludes = Ok ()" "excludes \<noteq> []"
  obtains c where "br_sourceConfig b = Some c" "json_field ''includes'' c = json_field ''includes'' (pn_sourceConfig p)"
    "getSafeExcludes c = Ok excludes"
  using assms by (auto simp: queued_exclusions_kept_def Let_def bind_result_Inr_iff split: option.splits if_splits)

lemma capable_agent:
  "getCapableAgent env now i db = Ok a \<Longrightarrow> getAgentByDeviceId i (control db) = Some a \<and> agent_reachable env now a \<and> agent_capable a"
  by (auto simp: getCapableAgent_def split: option.splits if_splits)

lemma valid_repository_path: "validateRepositoryPath s = Ok () \<Longrightarrow> s \<noteq> [] \<and> \<not> hasUnsafeControlCharacters s \<and> \<not> has_traversal s"
  by (auto simp: validateRepositoryPath_def split: if_splits)

lemma command_records_Ok:
  "command_records (i, j, k) db = Ok (repo, p, b) \<Longrightarrow>
   row_by mo_id k (r_repositories db) = Some repo \<and> row_by pn_id j (r_plans db) = Some p \<and> bs_getById i (r_backups db) = Some b \<and>
   br_planId b = Some (pn_id p) \<and> mo_planId repo = pn_id p \<and> br_inProgress b = Some True \<and> br_sourceId b = pn_sourceId p"
  by (auto simp: command_records_def split: option.splits if_splits)

lemma repository_matches_Ok:
  "repository_matches agentId repo p = Inr () \<Longrightarrow>
   mo_agentId repo = agentId \<and> pn_storageId p = Some (mo_storageId repo) \<and> pn_storagePath p = Some (mo_storagePath repo)"
  by (auto simp: repository_matches_def split: if_splits)

lemma backup_parts:
  assumes "materialize_backup env now agentId c db = Inr p"
  obtains i j k repo plan b options password source excludes a where
    "cm_agentId c = agentId" "command_records (i, j, k) db = Ok (repo, plan, b)"
    "repository_matches agentId repo plan = Inr ()" "assertSupportedPlan env now False plan db = Inr ()"
    "validateRepositoryPath (mo_storagePath repo) = Ok ()"
    "materializeSftpStorage env (mo_storageId repo) db = Inr options" "decrypt_password env repo = Ok password"
    "getSingleSource (pn_sourceConfig plan) = Ok source" "queued_exclusions_kept plan b excludes = Ok ()"
    "getCapableAgent env now (pn_sourceId plan) db = Ok a"
    "bd_planId p = pn_id plan" "bd_backupId p = br_id b" "bd_repositoryPath p = mo_storagePath repo" "bd_sourcePath p = source"
    "bd_excludes p = excludes" "bd_repositoryPassword p = password" "bd_rclone p = options"
  using assms unfolding materialize_backup_def
  by (auto simp: bind_prep_Inr bind_result_Inr_iff split: prod.splits)

text \<open>
  C6: An agent is given only what is authorised.  The payload of a backup command belongs to a command of this
  agent, an active remote plan with its own repository on its own storage, bound to this agent, and a
  backup in progress of that plan.  Its source is one absolute path without traversal, its agent is online
  and capable, and where the agent has source access that path passed its check.  The exclusions are those of
  the time of queuing, the password is the one of that repository, the storage options are those of its
  storage.
\<close>

theorem delivered_backup_authorised:
  assumes "materializeCommand env now agentId c db = Inr (BackupPayload p)"
  shows "\<exists>repo plan b a. repo \<in> set (r_repositories db) \<and> plan \<in> set (r_plans db) \<and> b \<in> set (r_backups db) \<and>
    cm_agentId c = agentId \<and> mo_agentId repo = agentId \<and> mo_planId repo = pn_id plan \<and>
    bd_planId p = pn_id plan \<and> bd_backupId p = br_id b \<and> br_planId b = Some (pn_id plan) \<and> br_inProgress b = Some True \<and>
    br_sourceId b = pn_sourceId plan \<and> isRemoteFilesystemPlan plan \<and> pn_method plan = ''backup'' \<and> \<not> hasEnabledScripts plan \<and>
    pn_storageId plan = Some (mo_storageId repo) \<and> pn_storagePath plan = Some (bd_repositoryPath p) \<and> \<not> has_traversal (bd_repositoryPath p) \<and>
    source_path_safe (bd_sourcePath p) \<and> getSingleSource (pn_sourceConfig plan) = Ok (bd_sourcePath p) \<and>
    getAgentByDeviceId (pn_sourceId plan) (control db) = Some a \<and> agent_reachable env now a \<and> agent_capable a \<and>
    (capability_is ''sourceAccessVersion'' 1 a \<longrightarrow> assertPlanSource (re_fresh env) now a (bd_sourcePath p) (control db) = Ok ()) \<and>
    (bd_excludes p \<noteq> [] \<longrightarrow> (\<exists>config. br_sourceConfig b = Some config \<and> getSafeExcludes config = Ok (bd_excludes p) \<and>
       json_field ''includes'' config = json_field ''includes'' (pn_sourceConfig plan))) \<and>
    re_decrypt env (mo_encryptedPassword repo) = Some (bd_repositoryPassword p) \<and>
    materializeSftpStorage env (mo_storageId repo) db = Inr (bd_rclone p)"
proof -
  from assms have "materialize_backup env now agentId c db = Inr p"
    by (auto simp: materializeCommand_def split: if_splits sum.splits prod.splits)
  then obtain i j k repo plan b options password source excludes a where
      own: "cm_agentId c = agentId" and rec: "command_records (i, j, k) db = Ok (repo, plan, b)"
      and mat: "repository_matches agentId repo plan = Inr ()" and sup: "assertSupportedPlan env now False plan db = Inr ()"
      and path: "validateRepositoryPath (mo_storagePath repo) = Ok ()"
      and opt: "materializeSftpStorage env (mo_storageId repo) db = Inr options" and pw: "decrypt_password env repo = Ok password"
      and src: "getSingleSource (pn_sourceConfig plan) = Ok source" and kept: "queued_exclusions_kept plan b excludes = Ok ()"
      and cap: "getCapableAgent env now (pn_sourceId plan) db = Ok a"
      and p: "bd_planId p = pn_id plan" "bd_backupId p = br_id b" "bd_repositoryPath p = mo_storagePath repo" "bd_sourcePath p = source"
        "bd_excludes p = excludes" "bd_repositoryPassword p = password" "bd_rclone p = options"
    by (rule backup_parts)
  note r = command_records_Ok [OF rec] and m = repository_matches_Ok [OF mat]
  have mem: "repo \<in> set (r_repositories db)" "plan \<in> set (r_plans db)" "b \<in> set (r_backups db)"
    using r getById_in by (auto simp: row_by_def find_Some_iff)
  obtain s2 x2 a2 where s: "isRemoteFilesystemPlan plan" "pn_method plan = ''backup''" "\<not> hasEnabledScripts plan"
      "getSingleSource (pn_sourceConfig plan) = Ok s2" "getCapableAgent env now (pn_sourceId plan) db = Ok a2"
      "assertSourceAccess env now a2 s2 db = Ok ()"
    using sup by (rule supported_plan)
  then have "capability_is ''sourceAccessVersion'' 1 a \<Longrightarrow> assertPlanSource (re_fresh env) now a source (control db) = Ok ()"
    using src cap by (auto simp: assertSourceAccess_def split: if_splits)
  moreover have "re_decrypt env (mo_encryptedPassword repo) = Some password"
    using pw by (auto simp: decrypt_password_def split: option.splits)
  moreover have "\<exists>config. br_sourceConfig b = Some config \<and> getSafeExcludes config = Ok excludes \<and>
      json_field ''includes'' config = json_field ''includes'' (pn_sourceConfig plan)" if "excludes \<noteq> []"
    using kept_exclusions [OF kept that] by metis
  ultimately show ?thesis
    using own r m mem s(1-3) single_source_safe [OF src] src capable_agent [OF cap] valid_repository_path [OF path] opt
    unfolding p by (intro exI [of _ repo] exI [of _ plan] exI [of _ b] exI [of _ a]) simp
qed

section \<open>A run\<close>

definition sample_remote_agent :: agent_identity where
  "sample_remote_agent = \<lparr>ai_agentId = ''a1'', ai_deviceId = ''d1'', ai_encryptedSecret = ''s'', ai_hostname = ''h'', ai_os = ''linux'',
     ai_architecture = ''x64'', ai_agentVersion = ''v0.2.1'', ai_resticVersion = Some ''0.17'', ai_rcloneVersion = Some ''1.68'',
     ai_capabilities = JObj [(''filesystemRootsConfigured'', JBool True), (''commandTypes'', JArr [JStr ''BACKUP_FILESYSTEM''])],
     ai_createdAt = 900, ai_lastSeen = Some 1000, ai_revokedAt = None\<rparr>"

definition sample_remote_plan :: remote_plan where
  "sample_remote_plan = \<lparr>pn_id = ''p1'', pn_method = ''backup'', pn_sourceId = ''d1'', pn_sourceType = ''device'',
     pn_storageId = Some ''s1'', pn_storagePath = Some ''backups/p1'', pn_isActive = True,
     pn_sourceConfig = JObj [(''includes'', JArr [JStr ''/srv/data''])], pn_settings = JObj [(''encryption'', JBool True)],
     pn_size = 0, pn_snapshots = [], pn_lastBackupTime = None\<rparr>"

definition sample_repository :: managed_repository where
  "sample_repository = \<lparr>mo_id = ''r1'', mo_planId = ''p1'', mo_agentId = ''a1'', mo_storageId = ''s1'', mo_storagePath = ''backups/p1'',
     mo_encryptedPassword = ''secret'', mo_initializedAt = None, mo_updatedAt = None\<rparr>"

definition sample_sftp_storage :: remote_storage where
  "sample_sftp_storage = \<lparr>sg_id = ''s1'', sg_type = Some ''sftp'',
     sg_settings = Some (JObj [(''host'', JStr ''store''), (''port'', JInt 22), (''user'', JStr ''u''), (''pass'', JStr [])]),
     sg_credentials = Some (JObj [(''pass'', JStr ''key'')])\<rparr>"

definition sample_remote :: remote_db where
  "sample_remote = \<lparr>r_control = empty_control\<lparr>c_identities := [sample_remote_agent]\<rparr>, r_plans = [sample_remote_plan], r_backups = [],
     r_repositories = [sample_repository], r_storages = [sample_sftp_storage], r_entryCredentials = [], r_singleCredentials = [],
     r_cron = \<lparr>cr_schedules = [], cr_dispatching = [], cr_loadedHolds = [], cr_callbacks = [], cr_file = []\<rparr>\<rparr>"

definition sample_remote_env :: remote_env where
  "sample_remote_env = \<lparr>re_decrypt = Some, re_offlineSeconds = 90, re_fresh = 90000, re_sourceAccess = False, re_replication = None,
     re_scope = (\<lambda>_. Ok ()), re_planGuard = (\<lambda>_. Ok ()),
     re_cron = \<lparr>ce_zones = \<lparr>sv_resolve = Some, sv_zone = ''UTC'', sv_nextRun = (\<lambda>_ _ now. Some (Some now))\<rparr>, ce_valid = (\<lambda>_ _. True)\<rparr>,
     re_number = (\<lambda>_. 0)\<rparr>"

definition sample_queued :: remote_db where
  "sample_queued = sample_remote\<lparr>r_backups := [queued_backup 1001000 ''b1'' sample_remote_plan sample_repository],
     r_control := (r_control sample_remote)\<lparr>c_commands := [command_row 1001000 (backup_command ''a1'' ''b1'' ''p1'' ''r1'')]\<rparr>\<rparr>"

lemma sample_queued_step:
  "queuePlanBackup sample_remote_env 1001000 ''b1'' ''p1'' sample_remote = Ok (''Remote filesystem backup queued.'', sample_queued)"
  by code_simp

lemma sample_remote_queued_reachable: "reachable remote_start (remote_change sample_remote_env) sample_queued"
proof (rule reach_step)
  show "reachable remote_start (remote_change sample_remote_env) sample_remote"
    by (rule reachable.reach_init) (simp add: remote_start_def rows_ok_def sample_remote_def)
  show "remote_change sample_remote_env sample_remote sample_queued"
    unfolding remote_change_def using st_queue [OF sample_queued_step] by blast
qed

definition sample_completion :: remote_completion where
  "sample_completion = \<lparr>rc_success = True, rc_cancelled = False, rc_failureStage = None, rc_failureCode = None, rc_sourceDiagnostics = None,
     rc_databaseId = None, rc_engine = None, rc_result = Some \<lparr>cr_snapshotId = Some ''0123abcd'', cr_sourcePaths = None,
       cr_summary = Some [(''snapshot_id'', JStr ''0123abcd'')], cr_lifecycle = None\<rparr>\<rparr>"

definition sample_backup_command :: agent_command where
  "sample_backup_command = command_row 1001000 (backup_command ''a1'' ''b1'' ''p1'' ''r1'')"

definition sample_completed :: remote_db where
  "sample_completed = snd (complete_remote sample_remote_env 1002000 sample_backup_command sample_completion sample_queued)"

lemma sample_completed_rows: "map (\<lambda>r. (br_id r, br_status r, br_inProgress r, br_sourceId r)) (r_backups sample_completed) =
    [(''b1'', Some ''completed'', Some False, ''d1'')]"
  by code_simp

lemma sample_payload:
  "case materializeCommand sample_remote_env 1001500 ''a1'' sample_backup_command sample_queued of
     Inr (BackupPayload p) \<Rightarrow> (bd_sourcePath p, bd_repositoryPassword p, bd_rclone p) =
       (''/srv/data'', ''secret'', [(''host'', ''store''), (''port'', ''22''), (''user'', ''u''), (''pass'', ''key'')])
   | _ \<Rightarrow> False"
  by code_simp

lemma sample_options_given:
  "materializeSftpStorage sample_remote_env ''s1'' sample_remote = Inr [(''host'', ''store''), (''port'', ''22''), (''user'', ''u''), (''pass'', ''key'')]"
  by code_simp

lemma sample_completed_reachable: "reachable remote_start (remote_change sample_remote_env) sample_completed"
  unfolding sample_completed_def
  by (rule reach_step [OF sample_remote_queued_reachable]) (simp add: remote_change_def st_complete)

text \<open>A failure that comes after the success.\<close>

definition sample_late :: remote_db where
  "sample_late = snd (complete_remote sample_remote_env 1003000 sample_backup_command (sample_completion\<lparr>rc_success := False\<rparr>) sample_completed)"

theorem one_active_backup_witness:
  "count_where (\<lambda>r. br_sourceId r \<noteq> ''main'' \<and> br_planId r = Some ''p1'' \<and> br_inProgress r = Some True) (r_backups sample_queued) = 1"
proof -
  have "count_where (\<lambda>r. br_sourceId r \<noteq> ''main'' \<and> br_planId r = Some ''p1'' \<and> br_inProgress r = Some True) (r_backups sample_queued) \<le> 1"
    using one_active_backup [OF sample_remote_queued_reachable, of "''p1''"] by blast
  moreover have "0 < count_where (\<lambda>r. br_sourceId r \<noteq> ''main'' \<and> br_planId r = Some ''p1'' \<and> br_inProgress r = Some True) (r_backups sample_queued)"
    by (simp add: sample_queued_def queued_backup_def sample_remote_plan_def count_where_def)
  ultimately show ?thesis by linarith
qed



theorem agent_storage_options_witness:
  "list_all (\<lambda>kv. fst kv = ''host'' \<or> fst kv = ''port'' \<or> fst kv = ''user'' \<or> fst kv = ''pass'')
     [(''host'', ''store''), (''port'', ''22''), (''user'', ''u''), (''pass'', ''key'')] \<and>
   (\<exists>c. (''pass'', JStr c) \<in> set (object_entries (sg_credentials sample_sftp_storage)))"
proof -
  note * = agent_storage_options [OF sample_options_given]
  have "fst ` set [(''host'', ''store''), (''port'', ''22''), (''user'', ''u''), (''pass'', ''key'')] \<subseteq> {''host'', ''port'', ''user'', ''pass''}"
    using * by (rule conjunct1)
  moreover have "\<exists>storage c p. storage \<in> set (r_storages sample_remote) \<and> (''pass'', JStr c) \<in> set (object_entries (sg_credentials storage))"
    using * by (elim conjE) (fastforce elim!: allE [of _ "''key''"])
  ultimately show ?thesis by (auto simp: sample_remote_def)
qed

theorem delivered_backup_authorised_witness:
  "\<exists>p a. materializeCommand sample_remote_env 1001500 ''a1'' sample_backup_command sample_queued = Inr (BackupPayload p) \<and>
     source_path_safe (bd_sourcePath p) \<and> getAgentByDeviceId ''d1'' (control sample_queued) = Some a \<and> agent_capable a"
proof -
  obtain p where p: "materializeCommand sample_remote_env 1001500 ''a1'' sample_backup_command sample_queued = Inr (BackupPayload p)"
    using sample_payload by (auto split: sum.splits delivered_payload.splits)
  obtain plan a where "plan \<in> set (r_plans sample_queued)" "source_path_safe (bd_sourcePath p)"
      "getAgentByDeviceId (pn_sourceId plan) (control sample_queued) = Some a" "agent_capable a"
    using delivered_backup_authorised [OF p] by blast
  moreover have "pn_sourceId plan = ''d1''" if "plan \<in> set (r_plans sample_queued)"
    using that by (simp add: sample_queued_def sample_remote_def sample_remote_plan_def)
  ultimately show ?thesis using p by auto
qed

end
