(* ===== verification/Service_Guarantees.thy ===== *)
theory Service_Guarantees
  imports Agent_Service Agent_Guarantees Remote_Guarantees
begin

text \<open>
  The services together: every operation of the agent service, the source access service and the remote backup
  service on the one database.  They keep to the protocols of the stores, the requests of an agent change only its
  own commands and backups, and no text of an agent is kept as an error.
\<close>

section \<open>The control plane below the services\<close>

abbreviation backup_type :: "agent_command \<Rightarrow> bool" where
  "backup_type c \<equiv> cm_type c = ''BACKUP_FILESYSTEM''"

definition backup_bound :: "control_db \<Rightarrow> (string \<times> string \<times> json) set" where
  "backup_bound ctl = (\<lambda>c. (cm_id c, cm_agentId c, cm_payload c)) ` {c \<in> set (c_commands ctl). backup_type c}"

definition agent_devices :: "control_db \<Rightarrow> (string \<times> string) set" where
  "agent_devices ctl = (\<lambda>a. (ai_agentId a, ai_deviceId a)) ` set (c_identities ctl)"

definition control_sound :: "control_db \<Rightarrow> bool" where
  "control_sound ctl \<longleftrightarrow> commands_ok ctl \<and> accounts_ok ctl"

text \<open>Steps of the store that make no backup command.\<close>

definition calm :: "control_db \<Rightarrow> control_db \<Rightarrow> bool" where
  "calm ctl ctl' \<longleftrightarrow> control_step\<^sup>*\<^sup>* ctl ctl' \<and> backup_bound ctl' \<subseteq> backup_bound ctl \<and> agent_devices ctl \<subseteq> agent_devices ctl'"

lemma calm_refl [simp]: "calm ctl ctl"
  by (simp add: calm_def)

lemma calm_trans: "calm a b \<Longrightarrow> calm b c \<Longrightarrow> calm a c"
  unfolding calm_def by (meson rtranclp_trans subset_trans)

lemma sound_step: "control_sound ctl \<Longrightarrow> control_step ctl ctl' \<Longrightarrow> control_sound ctl'"
  unfolding control_sound_def using commands_ok_step accounts_step by blast

lemma sound_steps: "control_step\<^sup>*\<^sup>* ctl ctl' \<Longrightarrow> control_sound ctl \<Longrightarrow> control_sound ctl'"
  by (induction rule: rtranclp_induct) (auto intro: sound_step)

lemma calm_sound: "calm ctl ctl' \<Longrightarrow> control_sound ctl \<Longrightarrow> control_sound ctl'"
  by (auto simp: calm_def intro: sound_steps)

lemma devices_later: "accounts_later ctl ctl' \<Longrightarrow> agent_devices ctl \<subseteq> agent_devices ctl'"
  unfolding accounts_later_def agent_devices_def identity_later_def by (auto simp: image_iff) metis

lemma bound_binding:
  assumes "map command_binding cs' = map command_binding cs"
  shows "(\<lambda>c. (cm_id c, cm_agentId c, cm_payload c)) ` {c \<in> set cs'. backup_type c} =
    (\<lambda>c. (cm_id c, cm_agentId c, cm_payload c)) ` {c \<in> set cs. backup_type c}"
proof -
  have "(\<lambda>c. (cm_id c, cm_agentId c, cm_payload c)) ` {c \<in> set cs. backup_type c} =
      {(i, a, p). \<exists>k t. (i, a, ''BACKUP_FILESYSTEM'', p, k, t) \<in> set (map command_binding cs)}" for cs
    by (force simp: command_binding_def)
  then show ?thesis by (simp only: assms)
qed

lemma quiet_binding: "commands_quiet cs cs' \<Longrightarrow> map command_binding cs' = map command_binding cs"
  by (induction rule: list_all2_induct) (simp_all add: command_quiet_def command_later_def)

lemma lease_binding: "map command_binding (c_commands (snd (leaseNext a owner ms now ctl))) = map command_binding (c_commands ctl)"
proof (cases rule: leaseNext_cases [of a owner ms now ctl])
  case none
  then show ?thesis using quiet_binding [OF requeue_quiet] by simp
next
  case (leased cand)
  have "map command_binding (c_commands (snd (leaseNext a owner ms now ctl))) = map command_binding (requeue_expired now a (c_commands ctl))"
    unfolding leased(6) by (rule map_update_where) (simp add: lease_command_def command_binding_def)
  then show ?thesis using quiet_binding [OF requeue_quiet] by simp
qed

lemma calm_step:
  assumes sound: "control_sound ctl" and step: "control_step ctl ctl'"
    and new: "\<And>n. c_commands ctl' = c_commands ctl @ [n] \<Longrightarrow> \<not> backup_type n"
  shows "calm ctl ctl'"
proof -
  have d: "distinct (map cm_id (c_commands ctl))" using sound by (simp add: control_sound_def commands_ok_def)
  have "backup_bound ctl' \<subseteq> backup_bound ctl"
    using control_step_commands [OF step d]
  proof (elim disjE exE conjE)
    assume "commands_quiet (c_commands ctl) (c_commands ctl')"
    then show ?thesis using bound_binding [OF quiet_binding] by (simp add: backup_bound_def)
  next
    fix n assume "c_commands ctl' = c_commands ctl @ [n]"
    then show ?thesis using new by (auto simp: backup_bound_def)
  next
    fix a owner ms now assume "ctl' = snd (leaseNext a owner ms now ctl)"
    then show ?thesis using bound_binding [OF lease_binding] by (simp add: backup_bound_def)
  qed
  moreover have "agent_devices ctl \<subseteq> agent_devices ctl'"
    using accounts_step [OF step] sound devices_later by (simp add: control_sound_def)
  ultimately show ?thesis using step by (simp add: calm_def)
qed

lemma calm_same_length: "control_sound ctl \<Longrightarrow> control_step ctl ctl' \<Longrightarrow> length (c_commands ctl') = length (c_commands ctl) \<Longrightarrow> calm ctl ctl'"
  by (rule calm_step) auto

lemma calm_quiet: "control_sound ctl \<Longrightarrow> control_step ctl ctl' \<Longrightarrow> commands_quiet (c_commands ctl) (c_commands ctl') \<Longrightarrow> calm ctl ctl'"
  by (rule calm_same_length) (auto dest: list_all2_lengthD)

section \<open>Operations of the store\<close>

lemma calm_accounts:
  "control_sound ctl \<Longrightarrow> createEnrollment i h n e now ctl = Ok (r, ctl') \<Longrightarrow> calm ctl ctl'"
  "control_sound ctl \<Longrightarrow> calm ctl (snd (revokeEnrollment now i ctl))"
  "control_sound ctl \<Longrightarrow> calm ctl (snd (updateHeartbeat now a iv ctl))"
  "control_sound ctl \<Longrightarrow> calm ctl (snd (revokeAgentByDeviceId now dev ctl))"
  "control_sound ctl \<Longrightarrow> calm ctl (snd (authenticate cr now clock rq ctl))"
  by (simp_all add: calm_same_length control_step.intros same_commands)

lemma calm_commands:
  "control_sound ctl \<Longrightarrow> calm ctl (snd (acknowledgeCommand clock a k t now ctl))"
  "control_sound ctl \<Longrightarrow> calm ctl (snd (recordCommandEvent a k t n now ms ctl))"
  "control_sound ctl \<Longrightarrow> calm ctl (snd (completeCommand clock a k t n s e now ctl))"
  "control_sound ctl \<Longrightarrow> calm ctl (snd (cancelCommand clock k ctl))"
  "control_sound ctl \<Longrightarrow> calm ctl (snd (getCommandStatus a k t ms now ctl))"
  by (auto intro!: calm_quiet control_step.intros quiet_acknowledge quiet_event quiet_complete quiet_cancel quiet_status)

lemma calm_lease: "control_sound ctl \<Longrightarrow> calm ctl (snd (leaseNext a owner ms now ctl))"
  using arg_cong [OF lease_binding, of length a owner ms now ctl]
  by (intro calm_same_length cs_lease) simp_all

lemma calm_source:
  "control_sound ctl \<Longrightarrow> report_consistent r \<Longrightarrow> calm ctl (recordHeartbeat a r signed now ctl)"
  "control_sound ctl \<Longrightarrow> calm ctl (snd (markDelivered a k now fresh ctl))"
  "control_sound ctl \<Longrightarrow> result_consistent (ci_result i) \<Longrightarrow> calm ctl (snd (complete_source i ctl))"
  "control_sound ctl \<Longrightarrow> calm ctl (snd (cancel_request a q now ctl))"
  "control_sound ctl \<Longrightarrow> calm ctl (snd (reconcileTerminalRequests a now ctl))"
proof -
  assume s: "control_sound ctl"
  then have d: "distinct (map cm_id (c_commands ctl))" by (simp add: control_sound_def commands_ok_def)
  show "calm ctl (snd (markDelivered a k now fresh ctl))" "calm ctl (snd (cancel_request a q now ctl))"
    "calm ctl (snd (reconcileTerminalRequests a now ctl))"
    by (auto intro!: calm_quiet s control_step.intros quiet_deliver quiet_withdraw quiet_reconcile)
  show "result_consistent (ci_result i) \<Longrightarrow> calm ctl (snd (complete_source i ctl))"
    by (intro calm_quiet s cs_finish quiet_finish d)
  show "report_consistent r \<Longrightarrow> calm ctl (recordHeartbeat a r signed now ctl)"
    by (intro calm_same_length s cs_heartbeat) (simp_all add: recordHeartbeat_def writeReport_frame)
qed

lemma calm_enroll:
  assumes "control_sound ctl" "enrollAgent clock d ctl = Ok (r, ctl')" "nc_type (ed_command d) \<noteq> ''BACKUP_FILESYSTEM''"
  shows "calm ctl ctl'"
proof (rule calm_step [OF assms(1) cs_enroll [OF assms(2)]])
  fix n assume n: "c_commands ctl' = c_commands ctl @ [n]"
  from assms(2) show "\<not> backup_type n"
    by (cases rule: enrollAgent_cases) (use n assms(3) in \<open>auto simp: command_row_def\<close>)
qed

lemma calm_request: "control_sound ctl \<Longrightarrow> createRequest clock i ctl = Ok (q, ctl') \<Longrightarrow> calm ctl ctl'"
  by (rule calm_step, assumption, erule cs_request, erule createRequest_cases)
     (auto simp: kind_command_def split: request_kind.splits)

lemma calm_enqueue:
  "control_sound ctl \<Longrightarrow> enqueueCommand now c ctl = Ok (r, ctl') \<Longrightarrow> nc_type c \<noteq> ''BACKUP_FILESYSTEM'' \<Longrightarrow> calm ctl ctl'"
  by (rule calm_step, assumption, erule cs_enqueue) (auto dest!: enqueue_commands simp: command_row_def)

lemma calm_control: "control_sound (r_control db) \<Longrightarrow> calm (r_control db) (control db)"
  by (rule calm_same_length)
     (use cs_other [where db = "r_control db" and ps = "map plan_view (r_plans db)" and bs = "map backup_view (r_backups db)"
       and ds = "c_devices (r_control db)"] in \<open>simp_all add: control_def\<close>)

section \<open>Operations of the services\<close>

lemma record_success_control [simp]: "r_control (snd (record_success env now i j sid summary r p db)) = r_control db"
  by (simp add: record_success_def update_plan_stats_def markInitialized_def Let_def split_beta split: sum.split option.split)

lemma settle_success_control [simp]: "r_control (snd (settle_success env now ref c db)) = r_control db"
  by (simp add: settle_success_def fail_backup_def Let_def split_beta split: sum.split option.split)

lemma complete_remote_control [simp]: "r_control (snd (complete_remote env now cmd c db)) = r_control db"
  by (simp add: complete_remote_def fail_backup_def Let_def split_beta split: sum.split)

lemma record_progress_control: "record_progress now c e sq db = Ok db' \<Longrightarrow> r_control db' = r_control db"
  by (auto simp: record_progress_def bind_result_Inr_iff split: if_splits)

lemma inventory_report: "parseInventory j = Ok i \<Longrightarrow> iv_sourceAccess i = Some r \<Longrightarrow> report_consistent r"
proof -
  assume "parseInventory j = Ok i" "iv_sourceAccess i = Some r"
  then have "read_inventory j = Some i" by (auto simp: parseInventory_def inventorySchema_def refine_def split: option.splits if_splits)
  then obtain x where "sourceAccessReportSchema x = Some r" using \<open>iv_sourceAccess i = Some r\<close>
    by (cases j) (auto simp: optional_field_def bind_eq_Some_conv split: option.splits if_splits)
  then show ?thesis by (auto simp: sourceAccessReportSchema_def refine_def split: option.splits if_splits)
qed

lemma service_heartbeat_calm:
  "control_sound ctl \<Longrightarrow> report_consistent r \<Longrightarrow> service_heartbeat a r signed now ctl = Ok ctl' \<Longrightarrow> calm ctl ctl'"
  by (auto simp: service_heartbeat_def split: if_splits intro: calm_source)

lemma heartbeat_calm:
  assumes "control_sound (r_control db)"
  shows "calm (r_control db) (r_control (snd (heartbeat env now signed a input db)))"
proof -
  { fix i ctl' x
    assume u: "updateHeartbeat now a i (r_control db) = (x, ctl')"
    have "calm (r_control db) ctl'" using calm_accounts(3) [OF assms, of now a i] u by simp
    note this calm_sound [OF this assms]
  } note seen = this
  { fix i x ctl' r ctl''
    assume p: "parseInventory input = Ok i" "iv_sourceAccess i = Some r" "updateHeartbeat now a i (r_control db) = (x, ctl')"
      and h: "service_heartbeat a r signed now (control (with_control ctl' db)) = Ok ctl''"
    have s: "control_sound ctl'" and c: "calm (r_control db) ctl'" using seen [OF p(3)] by auto
    have "calm ctl' (control (with_control ctl' db))" using calm_control [of "with_control ctl' db"] s by simp
    then have "calm (r_control db) (control (with_control ctl' db))" by (rule calm_trans [OF c])
    moreover have "calm (control (with_control ctl' db)) ctl''"
      by (rule service_heartbeat_calm [OF calm_sound inventory_report [OF p(1,2)] h]) (use calculation assms in auto)
    ultimately have "calm (r_control db) ctl''" by (rule calm_trans)
  }
  with seen show ?thesis by (auto simp: heartbeat_def split: sum.split prod.split option.split)
qed

lemma service_markDelivered_calm: "control_sound ctl \<Longrightarrow> calm ctl (snd (service_markDelivered a k fresh now ctl))"
  by (simp add: service_markDelivered_def calm_source)

lemma fail_preparation_calm:
  "control_sound (r_control db) \<Longrightarrow> calm (r_control db) (r_control (snd (fail_preparation env now a token c db)))"
  using calm_commands(3) [of "r_control db" now a "cm_id c" token "cm_lastEventSequence c + 1" False
      "Some ''Remote backup command could not be prepared.''" now]
  by (auto simp: fail_preparation_def Let_def split: prod.splits option.splits sum.splits
      dest!: arg_cong [where f = "\<lambda>p. r_control (snd p)" and x = "complete_remote _ _ _ _ _"])

lemma ready_calm:
  assumes "control_sound (r_control db)"
  shows "calm (r_control db) (r_control (snd (delivery_ready env now a c db)))"
proof -
  note c = calm_control [OF assms]
  have "calm (r_control db) (snd (service_markDelivered a k fresh now (control db)))" for k fresh
    by (rule calm_trans [OF c service_markDelivered_calm [OF calm_sound [OF c assms]]])
  then show ?thesis by (simp add: delivery_ready_def split_beta)
qed

text \<open>Where a poll leaves the tables.\<close>

lemma poll_db:
  obtains (idle) ctl where "leaseNext (aa_agentId agent) token AGENT_COMMAND_LEASE_MS now (r_control db) = (None, ctl)"
      "poll_command env now token agent db = (Ok None, with_control ctl db)"
  | (leased) c ctl where "leaseNext (aa_agentId agent) token AGENT_COMMAND_LEASE_MS now (r_control db) = (Some c, ctl)"
      "snd (poll_command env now token agent db) = with_control ctl db"
  | (ready) c ctl b db' where "leaseNext (aa_agentId agent) token AGENT_COMMAND_LEASE_MS now (r_control db) = (Some c, ctl)"
      "delivery_ready env now (aa_agentId agent) c (with_control ctl db) = (b, db')" "snd (poll_command env now token agent db) = db'"
  | (failed) c ctl db' where "leaseNext (aa_agentId agent) token AGENT_COMMAND_LEASE_MS now (r_control db) = (Some c, ctl)"
      "delivery_ready env now (aa_agentId agent) c (with_control ctl db) = (True, db')" "backup_type c"
      "poll_command env now token agent db = fail_preparation env now (aa_agentId agent) token c db'"
proof -
  obtain x ctl where l: "leaseNext (aa_agentId agent) token AGENT_COMMAND_LEASE_MS now (r_control db) = (x, ctl)" by fastforce
  show thesis
  proof (cases x)
    case None
    then show thesis using l idle by (simp add: poll_command_def)
  next
    case (Some c)
    obtain b db' where r: "delivery_ready env now (aa_agentId agent) c (with_control ctl db) = (b, db')" by fastforce
    show thesis
    proof (cases "source_command c \<and> \<not> ae_sourceAccess env")
      case True
      then show thesis using l Some leased by (simp add: poll_command_def)
    next
      case refused: False
      show thesis
      proof (cases "b \<and> command_payload env now (aa_agentId agent) c db' = None")
        case True
        then show thesis using l Some r refused by (intro failed [of c ctl db']) (auto simp: poll_command_def command_payload_def split: if_splits)
      next
        case False
        then show thesis using l Some r refused by (intro ready [of c ctl b db']) (auto simp: poll_command_def split: bool.split option.split)
      qed
    qed
  qed
qed

lemma poll_calm:
  assumes "control_sound (r_control db)"
  shows "calm (r_control db) (r_control (snd (poll_command env now token agent db)))"
proof -
  have l: "calm (r_control db) ctl" if "leaseNext (aa_agentId agent) token AGENT_COMMAND_LEASE_MS now (r_control db) = (x, ctl)" for x ctl
    using calm_lease [OF assms, of "aa_agentId agent" token AGENT_COMMAND_LEASE_MS now] that by simp
  have r: "calm (r_control db) (r_control db')" if "leaseNext (aa_agentId agent) token AGENT_COMMAND_LEASE_MS now (r_control db) = (x, ctl)"
    "delivery_ready env now (aa_agentId agent) c (with_control ctl db) = (b, db')" for x ctl c b db'
    using calm_trans [OF l [OF that(1)]] ready_calm [of "with_control ctl db" env now "aa_agentId agent" c] calm_sound [OF l [OF that(1)] assms] that(2)
    by simp
  show ?thesis
  proof (cases rule: poll_db [of agent token now db env])
    case (failed c ctl db')
    note c = r [OF failed(1,2)]
    show ?thesis unfolding failed(4) by (rule calm_trans [OF c fail_preparation_calm [OF calm_sound [OF c assms]]])
  qed (use l r in auto)
qed

lemma acknowledge_db:
  "acknowledge now a k input db = Ok db' \<Longrightarrow> \<exists>token. db' = with_control (snd (acknowledgeCommand now a k token now (r_control db))) db"
  by (auto simp: acknowledge_def bind_result_Inr_iff split_beta split: option.splits)

lemma status_db:
  "commandStatus now a k input db = Ok (r, db') \<Longrightarrow>
   \<exists>token. db' = with_control (snd (getCommandStatus a k token AGENT_COMMAND_LEASE_MS now (r_control db))) db"
  by (auto simp: commandStatus_def bind_result_Inr_iff split_beta split: option.splits)

lemma acknowledge_calm: "control_sound (r_control db) \<Longrightarrow> acknowledge now a k input db = Ok db' \<Longrightarrow> calm (r_control db) (r_control db')"
  by (auto dest!: acknowledge_db intro: calm_commands)

lemma status_calm: "control_sound (r_control db) \<Longrightarrow> commandStatus now a k input db = Ok (r, db') \<Longrightarrow> calm (r_control db) (r_control db')"
  by (auto dest!: status_db intro: calm_commands)

text \<open>Where an event and a completion leave the tables.\<close>

lemma event_db:
  obtains (refused) "snd (recordEvent env now a k input db) = db"
  | (recorded) token sq where "snd (recordEvent env now a k input db) =
      with_control (snd (recordCommandEvent a k token sq now AGENT_COMMAND_LEASE_MS (r_control db))) db"
  | (progress) token sq c e where "fst (recordCommandEvent a k token sq now AGENT_COMMAND_LEASE_MS (r_control db)) = Some c"
      "record_progress now c e sq (with_control (snd (recordCommandEvent a k token sq now AGENT_COMMAND_LEASE_MS (r_control db))) db) =
        Ok (snd (recordEvent env now a k input db))"
proof (cases "eventSchema (re_number (ae_remote env)) input")
  case None
  then show thesis using refused by (simp add: recordEvent_def)
next
  case (Some p)
  obtain sq token event where p: "p = (sq, token, event)" by (cases p) auto
  obtain x ctl where r: "recordCommandEvent a k token sq now AGENT_COMMAND_LEASE_MS (r_control db) = (x, ctl)" by fastforce
  show thesis
  proof (cases "\<exists>c e db'. x = Some c \<and> event = Some e \<and> cm_state c = CRunning \<and> cm_lastEventSequence c = sq \<and> ae_remoteBackups env \<and>
      record_progress now c e sq (with_control ctl db) = Ok db'")
    case True
    then show thesis using Some p r by (auto simp: recordEvent_def intro!: progress [of token sq])
  next
    case False
    then have "snd (recordEvent env now a k input db) = with_control ctl db"
      using Some p r by (auto simp: recordEvent_def Let_def split: option.splits sum.splits)
    then show thesis using r by (intro recorded [of token sq]) simp
  qed
qed

lemma event_calm: "control_sound (r_control db) \<Longrightarrow> calm (r_control db) (r_control (snd (recordEvent env now a k input db)))"
proof (cases rule: event_db [of env now a k input db])
  case (progress token sq c e)
  assume "control_sound (r_control db)"
  then show ?thesis using record_progress_control [OF progress(2)] calm_commands(2) by simp
qed (auto intro: calm_commands)

lemma complete_backup_db:
  obtains (refused) "snd (complete_backup env now a k input db) = db"
  | (settled) c :: backup_completion and safe where "snd (complete_backup env now a k input db) =
      with_control (snd (completeCommand now a k (bc_leaseToken c) (bc_sequence c) (bc_success c) safe now (r_control db))) db"
  | (reported) c :: backup_completion and safe cmd where "completion_schema (re_number (ae_remote env)) input = Some c"
      "safe = (if bc_success c then None else Some (remoteBackupFailure (input_failure c)))"
      "fst (completeCommand now a k (bc_leaseToken c) (bc_sequence c) (bc_success c) safe now (r_control db)) = Some cmd"
      "complete_backup env now a k input db = complete_remote (ae_remote env) now cmd (service_completion c)
        (with_control (snd (completeCommand now a k (bc_leaseToken c) (bc_sequence c) (bc_success c) safe now (r_control db))) db)"
proof (cases "completion_schema (re_number (ae_remote env)) input")
  case None
  then show thesis using refused by (simp add: complete_backup_def)
next
  case (Some c)
  define safe where "safe = (if bc_success c then None else Some (remoteBackupFailure (input_failure c)))"
  obtain x ctl where r: "completeCommand now a k (bc_leaseToken c) (bc_sequence c) (bc_success c) safe now (r_control db) = (x, ctl)" by fastforce
  consider "snd (complete_backup env now a k input db) = db" | "snd (complete_backup env now a k input db) = with_control ctl db"
    | cmd where "x = Some cmd" "complete_backup env now a k input db = complete_remote (ae_remote env) now cmd (service_completion c) (with_control ctl db)"
    using Some r unfolding complete_backup_def safe_def Let_def by (fastforce split: if_splits option.splits)
  then show thesis
  proof cases
    case 1 then show thesis by (rule refused)
  next
    case 2 then show thesis using r by (intro settled [of c safe]) simp
  next
    case (3 cmd) then show thesis using r Some by (intro reported [of c safe cmd]) (simp_all add: safe_def)
  qed
qed

lemma complete_backup_calm: "control_sound (r_control db) \<Longrightarrow> calm (r_control db) (r_control (snd (complete_backup env now a k input db)))"
  by (cases rule: complete_backup_db [of env now a k input db]) (auto intro: calm_commands)

lemma result_schema_consistent: "sourceAccessResultSchema j = Some x \<Longrightarrow> report_consistent (cs_sourceAccess x)"
  by (cases j) (auto simp: required_field_def sourceAccessReportSchema_def refine_def split: if_splits option.splits)

lemma completion_consistent: "completionSchema input = Some (t, n, s, r) \<Longrightarrow> result_consistent r"
  by (cases input)
     (auto simp: optional_field_def result_consistent_def split: if_splits option.splits dest: result_schema_consistent)

lemma service_complete_calm:
  assumes "control_sound ctl" "service_complete a k input signed now ctl = Ok ctl'"
  shows "calm ctl ctl'"
proof -
  obtain t n s r where p: "completionSchema input = Some (t, n, s, r)"
    using assms(2) by (cases "completionSchema input") (auto simp: service_complete_def)
  define i where "i = \<lparr>ci_agentId = a, ci_commandId = k, ci_leaseToken = t, ci_sequence = n, ci_success = s, ci_result = r,
    ci_signedTimestamp = signed, ci_now = now\<rparr>"
  have "ctl' = snd (complete_source i ctl)" "result_consistent (ci_result i)"
    using assms(2) p completion_consistent [OF p] by (auto simp: service_complete_def i_def split_beta split: if_splits bool.splits)
  then show ?thesis using calm_source(3) [OF assms(1)] by simp
qed

lemma complete_calm:
  assumes "control_sound (r_control db)"
  shows "calm (r_control db) (r_control (snd (complete_request env now signed a k input db)))"
proof -
  note c = calm_control [OF assms]
  have "calm (r_control db) ctl" if "service_complete a k input signed now (control db) = Ok ctl" for ctl
    by (rule calm_trans [OF c service_complete_calm [OF calm_sound [OF c assms] that]])
  then show ?thesis using complete_backup_calm [OF assms]
    by (auto simp: complete_request_def split: option.split sum.split)
qed

lemma enroll_calm:
  "control_sound (r_control db) \<Longrightarrow> enroll env now uid rnd secret cid key input db = Ok (r, db') \<Longrightarrow> calm (r_control db) (r_control db')"
  by (auto simp: enroll_def Let_def split: option.splits sum.splits prod.splits intro!: calm_enroll simp: enroll_input_def)

lemma enrollment_calm:
  "control_sound (r_control db) \<Longrightarrow> service_createEnrollment env now i t input db = Ok (r, db') \<Longrightarrow> calm (r_control db) (r_control db')"
  "control_sound (r_control db) \<Longrightarrow> service_revokeEnrollment now i db = Ok db' \<Longrightarrow> calm (r_control db) (r_control db')"
  "control_sound (r_control db) \<Longrightarrow> revokeDevice now dev db = Ok db' \<Longrightarrow> calm (r_control db) (r_control db')"
proof -
  assume s: "control_sound (r_control db)"
  show "calm (r_control db) (r_control db')" if "service_createEnrollment env now i t input db = Ok (r, db')"
    using that by (auto simp: service_createEnrollment_def bind_result_Inr_iff Let_def split: option.splits dest!: calm_accounts(1) [OF s])
  show "calm (r_control db) (r_control db')" if "service_revokeEnrollment now i db = Ok db'"
    using that calm_accounts(2) [OF s, of now i] by (auto simp: service_revokeEnrollment_def split: prod.splits option.splits)
  show "calm (r_control db) (r_control db')" if "revokeDevice now dev db = Ok db'"
    using that calm_accounts(4) [OF s, of now dev] by (auto simp: revokeDevice_def split: prod.splits option.splits)
qed

section \<open>The source access service\<close>

lemma request_source_calm: "control_sound ctl \<Longrightarrow> calm ctl (snd (request_source rid cid fresh now dev kind input ctl))"
  "control_sound ctl \<Longrightarrow> calm ctl (snd (setupMode rid cid fresh now dev input ctl))"
proof -
  assume s: "control_sound ctl"
  have rec: "calm ctl (snd (reconcileTerminalRequests a now ctl))" for a by (rule calm_source [OF s])
  have create: "calm ctl ctl'" if "createRequest now i (snd (reconcileTerminalRequests a now ctl)) = Ok (q, ctl')" for a i q ctl'
    by (rule calm_trans [OF rec calm_request [OF calm_sound [OF rec s] that]])
  show "calm ctl (snd (request_source rid cid fresh now dev kind input ctl))"
    using rec create by (auto simp: request_source_def bind_result_Inr_iff Let_def split: sum.splits prod.splits)
  show "calm ctl (snd (setupMode rid cid fresh now dev input ctl))"
    using rec create by (auto simp: setupMode_def bind_result_Inr_iff Let_def split: sum.splits prod.splits)
qed

lemma refresh_calm: "control_sound ctl \<Longrightarrow> refresh cid fresh now dev ctl = Ok (i, ctl') \<Longrightarrow> calm ctl ctl'"
  by (auto simp: refresh_def bind_result_Inr_iff intro!: calm_enqueue)

lemma cancel_source_calm: "control_sound ctl \<Longrightarrow> cancel_source dev rid now ctl = Ok ctl' \<Longrightarrow> calm ctl ctl'"
  using calm_source(4) [of ctl _ rid now]
  by (auto simp: cancel_source_def bind_result_Inr_iff split_beta split: bool.splits)

lemma getView_calm: "control_sound ctl \<Longrightarrow> calm ctl (snd (getView fresh now dev ctl))"
  using calm_source(5) [of ctl _ now] by (auto simp: getView_def Let_def split_beta split: sum.split)

section \<open>The remote backup service\<close>

definition row_sources :: "backup_record list \<Rightarrow> (string \<times> string) set" where
  "row_sources t = (\<lambda>r. (br_id r, br_sourceId r)) ` set t"

definition quiet_db :: "remote_db \<Rightarrow> remote_db \<Rightarrow> bool" where
  "quiet_db db db' \<longleftrightarrow> calm (r_control db) (r_control db') \<and> row_sources (r_backups db') \<subseteq> row_sources (r_backups db)"

text \<open>The transaction that makes a backup and its command.\<close>

definition queued_db :: "remote_db \<Rightarrow> remote_db \<Rightarrow> bool" where
  "queued_db db db' \<longleftrightarrow> (\<exists>now i agentId planId repositoryId b.
     insert_command (command_row now (backup_command agentId i planId repositoryId)) (r_control db) = Ok (r_control db') \<and>
     r_backups db' = r_backups db @ [b] \<and> br_id b = i \<and> i \<notin> br_id ` set (r_backups db) \<and>
     (agentId, br_sourceId b) \<in> agent_devices (r_control db))"

lemma evolves_sources:
  assumes "evolves t t'"
  shows "row_sources t' = row_sources t"
proof -
  obtain g where t': "t' = map g t" and "\<And>r. r \<in> set t \<Longrightarrow> row_change r (g r)" using assms by (auto simp: evolves_def)
  then have "br_id (g r) = br_id r \<and> br_sourceId (g r) = br_sourceId r" if "r \<in> set t" for r
    using that by (simp add: row_change_def same_backup_def)
  then show ?thesis unfolding t' row_sources_def by (simp add: image_image cong: image_cong)
qed

lemma insert_queued:
  assumes "createBackupAndCommand now (queued_backup now i p repo) (backup_command agentId i planId rid) db = Ok db'"
    "(agentId, pn_sourceId p) \<in> agent_devices (r_control db)"
  shows "queued_db db db'"
proof -
  let ?b = "(queued_backup now i p repo)\<lparr>br_createdAt := secs now\<rparr>"
  from assms(1) obtain ctl where "insert_command (command_row now (backup_command agentId i planId rid)) (r_control db) = Ok ctl"
      "i \<notin> br_id ` set (r_backups db)" "db' = db\<lparr>r_backups := r_backups db @ [?b], r_control := ctl\<rparr>"
    by (auto simp: createBackupAndCommand_def bind_result_Inr_iff queued_backup_def split: option.splits if_splits)
  moreover have "br_id ?b = i" "br_sourceId ?b = pn_sourceId p" by (simp_all add: queued_backup_def)
  ultimately show ?thesis using assms(2) unfolding queued_db_def by fastforce
qed

lemma control_identities [simp]: "c_identities (control db) = c_identities (r_control db)"
  by (simp add: control_def)

lemma capable_device: "getCapableAgent env now dev db = Ok a \<Longrightarrow> (ai_agentId a, dev) \<in> agent_devices (r_control db)"
  by (drule capable_agent) (force simp: getAgentByDeviceId_def row_by_def find_Some_iff agent_devices_def)

lemma queue_db:
  assumes "queuePlanBackup env now i planId db = Ok (m, db')"
  shows "db' = db \<or> queued_db db db'"
proof -
  have "queued_db db db'" if "getCapableAgent env now (pn_sourceId p) db = Ok a"
    "createBackupAndCommand now (queued_backup now i p repo) (backup_command (ai_agentId a) i planId (mo_id repo)) db = Ok db'" for p a repo
    by (rule insert_queued [OF that(2) capable_device [OF that(1)]])
  then show ?thesis using assms
    by (auto simp: queuePlanBackup_def bind_result_Inr_iff split: option.splits if_splits)
qed

text \<open>What leaves the control plane and the backups alone.\<close>

definition same_base :: "remote_db \<Rightarrow> remote_db \<Rightarrow> bool" where
  "same_base db db' \<longleftrightarrow> r_control db' = r_control db \<and> r_backups db' = r_backups db"

lemma same_base_trans: "same_base a b \<Longrightarrow> same_base b c \<Longrightarrow> same_base a c"
  by (simp add: same_base_def)

lemma same_base_quiet: "same_base db db' \<Longrightarrow> quiet_db db db'"
  by (simp add: same_base_def quiet_db_def)

lemma schedule_base:
  "ensureSchedule env p db = Ok db' \<Longrightarrow> same_base db db'" "same_base db (remove_schedule i db)" "same_base db (deleteByPlanId i db)"
  "create_repository repo db = Ok db' \<Longrightarrow> same_base db db'"
  by (auto simp: same_base_def ensureSchedule_def remove_schedule_def deleteByPlanId_def create_repository_def bind_result_Inr_iff Let_def
      split: option.splits if_splits)

lemma update_base: "updateManagedPlan env now p db = Ok db' \<Longrightarrow> same_base db db'"
  by (auto simp: updateManagedPlan_def bind_result_Inr_iff split: option.splits intro: schedule_base)

lemma queued_base: "same_base db db1 \<Longrightarrow> queued_db db1 db2 \<Longrightarrow> queued_db db db2"
  by (simp add: same_base_def queued_db_def)

lemma new_repository_base: "new_repository env now rid pw p db = Ok db' \<Longrightarrow> same_base db db'"
  by (auto simp: new_repository_def bind_result_Inr_iff Let_def dest!: schedule_base(4))

lemma start_plan_db: "start_plan env now i runNow p db = Ok db' \<Longrightarrow> same_base db db' \<or> queued_db db db'"
  by (auto simp: start_plan_def bind_result_Inr_iff split: if_splits dest!: schedule_base(1) queue_db intro: queued_base)

lemma create_db:
  "same_base db (snd (createManagedPlan env now rid pw i runNow p db)) \<or> queued_db db (snd (createManagedPlan env now rid pw i runNow p db))"
proof (cases "new_repository env now rid pw p db")
  case (Inl e)
  then show ?thesis by (simp add: createManagedPlan_def same_base_def)
next
  case (Inr db1)
  note b = new_repository_base [OF Inr]
  show ?thesis
  proof (cases "start_plan env now i runNow p db1")
    case failed: (Inl e)
    define d where "d = (case ensureSchedule env p db1 of Inl _ \<Rightarrow> db1 | Inr db2 \<Rightarrow> db2)"
    have "same_base db1 d"
      by (cases "ensureSchedule env p db1") (auto simp: d_def same_base_def dest!: schedule_base(1))
    then have "same_base db (deleteByPlanId (pn_id p) (remove_schedule (pn_id p) d))"
      by (intro same_base_trans [OF b] same_base_trans [OF _ schedule_base(3)] same_base_trans [OF _ schedule_base(2)])
    then show ?thesis by (simp add: createManagedPlan_def Inr failed d_def [symmetric])
  next
    case started: (Inr db2)
    then show ?thesis using start_plan_db [OF started] same_base_trans [OF b] queued_base [OF b]
      by (auto simp: createManagedPlan_def Inr)
  qed
qed

lemma cancel_remote_calm:
  assumes "control_sound (r_control db)"
  shows "calm (r_control db) (r_control (cancel_remote env now i db))"
  using calm_commands(4) [OF assms] by (simp add: cancel_remote_def)

lemma fold_cancel_calm:
  "control_sound (r_control db) \<Longrightarrow> calm (r_control db) (r_control (fold (\<lambda>b. cancel_remote env now (br_id b)) bs db))"
proof (induction bs arbitrary: db)
  case (Cons b bs)
  note c = cancel_remote_calm [OF Cons.prems, of env now "br_id b"]
  show ?case using calm_trans [OF c Cons.IH [OF calm_sound [OF c Cons.prems]]] by simp
qed simp

lemma remote_quiet:
  assumes "control_sound (r_control db)" "rows_ok (r_backups db)"
  shows "cancelBackup env now planId i db = Ok db' \<Longrightarrow> quiet_db db db'"
    "removeManagedPlan env now planId db = Ok (path, db') \<Longrightarrow> quiet_db db db'"
    "record_progress now c e sq db = Ok db' \<Longrightarrow> quiet_db db db'"
    "quiet_db db (snd (complete_remote env now cmd rc db))"
proof -
  show "quiet_db db db'" if c: "cancelBackup env now planId i db = Ok db'"
    using cancel_remote_calm [OF assms(1), of env now i] evolves_sources [OF cancelBackup_evolves [OF assms(2) c]] c
    by (auto simp: quiet_db_def cancelBackup_def split: option.splits if_splits)
  show "quiet_db db db'" if c: "removeManagedPlan env now planId db = Ok (path, db')"
    using fold_cancel_calm [OF assms(1)] evolves_sources [OF removePlan_evolves [OF assms(2) c]] c
    by (auto simp: quiet_db_def removeManagedPlan_def Let_def remove_schedule_def split: option.splits)
  show "quiet_db db db'" if p: "record_progress now c e sq db = Ok db'"
    using record_progress_control [OF p] evolves_sources [OF progress_evolves [OF assms(2)]] p
    by (auto simp: quiet_db_def record_progress_def bind_result_Inr_iff split: if_splits)
  show "quiet_db db (snd (complete_remote env now cmd rc db))"
    using evolves_sources [OF complete_evolves [OF assms(2)]] by (simp add: quiet_db_def)
qed

section \<open>Runs of the services\<close>

text \<open>
  The requests of an agent: \<open>a\<close> is the agent that \<open>authenticate\<close> found.
\<close>

inductive agent_request :: "agent_env \<Rightarrow> string \<Rightarrow> remote_db \<Rightarrow> remote_db \<Rightarrow> bool" for env where
  rq_heartbeat: "agent_request env a db (snd (heartbeat env now signed a input db))"
| rq_poll: "aa_agentId agent = a \<Longrightarrow> agent_request env a db (snd (poll_command env now token agent db))"
| rq_acknowledge: "acknowledge now a k input db = Ok db' \<Longrightarrow> agent_request env a db db'"
| rq_event: "agent_request env a db (snd (recordEvent env now a k input db))"
| rq_complete: "agent_request env a db (snd (complete_request env now signed a k input db))"
| rq_status: "commandStatus now a k input db = Ok (r, db') \<Longrightarrow> agent_request env a db db'"

text \<open>
  Every operation of the three services with every argument.  \<open>ss_insert\<close> is the transaction of a queued backup with
  an agent and a plan read earlier.  Other components may write everything but the control plane and the rows of
  remote backups; the ids of their backups are new.  Rows are deleted with their plan or when they are pruned.
\<close>

inductive service_step :: "agent_env \<Rightarrow> remote_db \<Rightarrow> remote_db \<Rightarrow> bool" for env where
  ss_request: "agent_request env a db db' \<Longrightarrow> service_step env db db'"
| ss_authenticate: "service_step env db (with_control (snd (authenticate cr now clock rq (r_control db))) db)"
| ss_enrollment: "service_createEnrollment env now i t input db = Ok (r, db') \<Longrightarrow> service_step env db db'"
| ss_withdraw_token: "service_revokeEnrollment now i db = Ok db' \<Longrightarrow> service_step env db db'"
| ss_enroll: "enroll env now uid rnd secret cid key input db = Ok (r, db') \<Longrightarrow> service_step env db db'"
| ss_revoke: "revokeDevice now dev db = Ok db' \<Longrightarrow> service_step env db db'"
| ss_source: "service_step env db (with_control (snd (request_source rid cid fresh now dev kind input (control db))) db)"
| ss_mode: "service_step env db (with_control (snd (setupMode rid cid fresh now dev input (control db))) db)"
| ss_refresh: "refresh cid fresh now dev (control db) = Ok (i, ctl) \<Longrightarrow> service_step env db (with_control ctl db)"
| ss_cancel_source: "cancel_source dev rid now (control db) = Ok ctl \<Longrightarrow> service_step env db (with_control ctl db)"
| ss_view: "service_step env db (with_control (snd (getView fresh now dev (control db))) db)"
| ss_queue: "queuePlanBackup (ae_remote env) now i planId db = Ok (m, db') \<Longrightarrow> service_step env db db'"
| ss_insert: "createBackupAndCommand now (queued_backup now i p repo) (backup_command agentId i (pn_id p) (mo_id repo)) db = Ok db' \<Longrightarrow>
    (agentId, pn_sourceId p) \<in> agent_devices (r_control db) \<Longrightarrow> service_step env db db'"
| ss_create: "service_step env db (snd (createManagedPlan (ae_remote env) now rid pw i runNow p db))"
| ss_update: "updateManagedPlan (ae_remote env) now p db = Ok db' \<Longrightarrow> service_step env db db'"
| ss_cancel: "cancelBackup (ae_remote env) now planId i db = Ok db' \<Longrightarrow> service_step env db db'"
| ss_remove: "removeManagedPlan (ae_remote env) now planId db = Ok (path, db') \<Longrightarrow> service_step env db db'"
| ss_other: "r_control db' = r_control db \<Longrightarrow> filter remote_row (r_backups db') = filter remote_row (r_backups db) \<Longrightarrow>
    distinct (map br_id (r_backups db')) \<Longrightarrow>
    (\<And>r. r \<in> set (r_backups db') \<Longrightarrow>
       (br_id r, br_sourceId r) \<in> row_sources (r_backups db) \<or> ''remote-backup-'' @ br_id r \<notin> cm_id ` set (c_commands (r_control db))) \<Longrightarrow>
    service_step env db db'"
| ss_delete: "service_step env db (db\<lparr>r_backups := delete_where q (r_backups db)\<rparr>)"

definition service_start :: "remote_db \<Rightarrow> bool" where
  "service_start db \<longleftrightarrow> control_init (r_control db) \<and> remote_start db"

definition bound_ok :: "remote_db \<Rightarrow> bool" where
  "bound_ok db \<longleftrightarrow> (\<forall>(k, a, payload) \<in> backup_bound (r_control db). \<forall>i p r. commandReference payload = Ok (i, p, r) \<longrightarrow>
     k = ''remote-backup-'' @ i \<and> (\<forall>s. (i, s) \<in> row_sources (r_backups db) \<longrightarrow> (a, s) \<in> agent_devices (r_control db)))"

definition service_ok :: "remote_db \<Rightarrow> bool" where
  "service_ok db \<longleftrightarrow> control_sound (r_control db) \<and> rows_ok (r_backups db) \<and> bound_ok db"

lemma rows_with_control: "r_backups (with_control ctl db) = r_backups db"
  by simp

lemma quiet_with_control: "calm (r_control db) ctl \<Longrightarrow> quiet_db db (with_control ctl db)"
  by (simp add: quiet_db_def)

lemma quiet_trans: "quiet_db a b \<Longrightarrow> quiet_db b c \<Longrightarrow> quiet_db a c"
  unfolding quiet_db_def using calm_trans by blast

lemma quiet_bound: "quiet_db db db' \<Longrightarrow> bound_ok db \<Longrightarrow> bound_ok db'"
  unfolding quiet_db_def calm_def bound_ok_def by fast

text \<open>The steps as the stores see them.\<close>

definition store_steps :: "agent_env \<Rightarrow> remote_db \<Rightarrow> remote_db \<Rightarrow> bool" where
  "store_steps env db db' \<longleftrightarrow> control_step\<^sup>*\<^sup>* (r_control db) (r_control db') \<and> (remote_change (ae_remote env))\<^sup>*\<^sup>* db db'"

lemma remote_other: "rows_ok (r_backups db) \<Longrightarrow> remote_step env db (with_control ctl db)"
  by (rule st_other) (simp_all add: rows_ok_def)

lemma remote_changeI: "remote_step env db db' \<Longrightarrow> (remote_change env)\<^sup>*\<^sup>* db db'"
  by (rule r_into_rtranclp) (simp add: remote_change_def)

lemma store_control: "rows_ok (r_backups db) \<Longrightarrow> calm (r_control db) ctl \<Longrightarrow> store_steps env db (with_control ctl db)"
  using remote_changeI [OF remote_other] by (simp add: store_steps_def calm_def)

lemma store_trans: "store_steps env a b \<Longrightarrow> store_steps env b c \<Longrightarrow> store_steps env a c"
  unfolding store_steps_def by (meson rtranclp_trans)

lemma store_rows: "store_steps env db db' \<Longrightarrow> rows_ok (r_backups db) \<Longrightarrow> rows_ok (r_backups db')"
proof -
  assume s: "store_steps env db db'" and ok: "rows_ok (r_backups db)"
  from s have "(remote_change (ae_remote env))\<^sup>*\<^sup>* db db'" by (simp add: store_steps_def)
  then show ?thesis using ok by (induction rule: rtranclp_induct) (auto intro: backup_slot.good_step)
qed

text \<open>A step that makes no backup command, for the control plane and for the backups.\<close>

definition moved :: "agent_env \<Rightarrow> remote_db \<Rightarrow> remote_db \<Rightarrow> bool" where
  "moved env db db' \<longleftrightarrow> quiet_db db db' \<and> store_steps env db db'"

lemma moved_trans: "moved env a b \<Longrightarrow> moved env b c \<Longrightarrow> moved env a c"
  unfolding moved_def using quiet_trans store_trans by blast

lemma moved_refl [simp]: "moved env db db"
  by (simp add: moved_def quiet_db_def store_steps_def)

lemma moved_ok: "moved env db db' \<Longrightarrow> service_ok db \<Longrightarrow> service_ok db'"
  unfolding moved_def service_ok_def using quiet_bound store_rows calm_sound by (blast dest: quiet_db_def [THEN iffD1])

lemma moved_control: "service_ok db \<Longrightarrow> calm (r_control db) ctl \<Longrightarrow> moved env db (with_control ctl db)"
  by (simp add: moved_def service_ok_def quiet_with_control store_control)

lemma moved_remote:
  "service_ok db \<Longrightarrow> quiet_db db db' \<Longrightarrow> remote_step (ae_remote env) db db' \<Longrightarrow> moved env db db'"
  using remote_changeI by (simp add: moved_def store_steps_def quiet_db_def calm_def)

lemma moved_complete: "service_ok db \<Longrightarrow> moved env db (snd (complete_remote (ae_remote env) now cmd c db))"
  by (intro moved_remote remote_quiet st_complete) (simp_all add: service_ok_def)

lemma moved_progress: "service_ok db \<Longrightarrow> record_progress now c e sq db = Ok db' \<Longrightarrow> moved env db db'"
  by (rule moved_remote, assumption, rule remote_quiet(3)) (auto simp: service_ok_def intro: st_progress)

lemma service_sound: "service_ok db \<Longrightarrow> control_sound (r_control db)"
  by (simp add: service_ok_def)

lemma moved_with:
  assumes "service_ok db" "calm (r_control db) (r_control db')" "db' = with_control (r_control db') db"
  shows "moved env db db'"
  using moved_control [OF assms(1,2)] assms(3) by simp

lemma heartbeat_with: "snd (heartbeat env now signed a input db) = with_control (r_control (snd (heartbeat env now signed a input db))) db"
  by (auto simp: heartbeat_def split: sum.split prod.split option.split)

lemma moved_heartbeat: "service_ok db \<Longrightarrow> moved env db (snd (heartbeat env now signed a input db))"
  by (rule moved_with [OF _ heartbeat_calm heartbeat_with]) (simp_all add: service_sound)

lemma ready_with: "snd (delivery_ready env now a c db) = with_control (r_control (snd (delivery_ready env now a c db))) db"
  by (simp add: delivery_ready_def split_beta)

lemma moved_ready: "service_ok db \<Longrightarrow> moved env db (snd (delivery_ready env now a c db))"
  by (rule moved_with [OF _ ready_calm ready_with]) (simp_all add: service_sound)

lemma moved_fail:
  assumes "service_ok db"
  shows "moved env db (snd (fail_preparation env now a token c db))"
proof -
  let ?r = "completeCommand now a (cm_id c) token (cm_lastEventSequence c + 1) False (Some ''Remote backup command could not be prepared.'') now (r_control db)"
  have 1: "moved env db (with_control (snd ?r) db)" by (rule moved_control [OF assms calm_commands(3) [OF service_sound [OF assms]]])
  have "moved env db (snd (complete_remote (ae_remote env) now cmd failed_preparation (with_control (snd ?r) db)))" for cmd
    by (rule moved_trans [OF 1 moved_complete [OF moved_ok [OF 1 assms]]])
  then show ?thesis using 1
    by (auto simp: fail_preparation_def Let_def split_beta split: option.split sum.split)
qed

lemma moved_lease:
  "service_ok db \<Longrightarrow> leaseNext a token ms now (r_control db) = (x, ctl) \<Longrightarrow> moved env db (with_control ctl db)"
  by (drule arg_cong [where f = snd]) (auto intro!: moved_control calm_lease service_sound)

lemma moved_poll:
  assumes "service_ok db"
  shows "moved env db (snd (poll_command env now token agent db))"
proof -
  note l = moved_lease [OF assms]
  have r: "moved env db db'" if "leaseNext (aa_agentId agent) token AGENT_COMMAND_LEASE_MS now (r_control db) = (x, ctl)"
    "delivery_ready env now (aa_agentId agent) c (with_control ctl db) = (b, db')" for x ctl c b db'
    using moved_trans [OF l [OF that(1)] moved_ready [OF moved_ok [OF l [OF that(1)] assms], of env now "aa_agentId agent" c]] that(2) by simp
  show ?thesis
  proof (cases rule: poll_db [of agent token now db env])
    case (failed c ctl db')
    note m = r [OF failed(1,2)]
    show ?thesis unfolding failed(4) by (rule moved_trans [OF m moved_fail [OF moved_ok [OF m assms]]])
  qed (use l r in auto)
qed

lemma moved_event:
  assumes "service_ok db"
  shows "moved env db (snd (recordEvent env now a k input db))"
proof -
  have m: "moved env db (with_control (snd (recordCommandEvent a k token sq now AGENT_COMMAND_LEASE_MS (r_control db))) db)" for token sq
    by (rule moved_control [OF assms calm_commands(2) [OF service_sound [OF assms]]])
  show ?thesis
  proof (cases rule: event_db [of env now a k input db])
    case (progress token sq c e)
    show ?thesis by (rule moved_trans [OF m moved_progress [OF moved_ok [OF m assms] progress(2)]])
  qed (use m in auto)
qed

lemma moved_complete_backup:
  assumes "service_ok db"
  shows "moved env db (snd (complete_backup env now a k input db))"
proof -
  have m: "moved env db (with_control (snd (completeCommand now a k t n s e now (r_control db))) db)" for t n s e
    by (rule moved_control [OF assms calm_commands(3) [OF service_sound [OF assms]]])
  show ?thesis
  proof (cases rule: complete_backup_db [of env now a k input db])
    case (reported c safe cmd)
    then show ?thesis using moved_trans [OF m moved_complete [OF moved_ok [OF m assms]]] by metis
  qed (use m in auto)
qed

lemma moved_complete_request:
  assumes "service_ok db"
  shows "moved env db (snd (complete_request env now signed a k input db))"
proof -
  note s = service_sound [OF assms]
  note c = calm_control [OF s]
  have "moved env db (with_control ctl db)" if "service_complete a k input signed now (control db) = Ok ctl" for ctl
    by (rule moved_control [OF assms calm_trans [OF c service_complete_calm [OF calm_sound [OF c s] that]]])
  then show ?thesis using moved_complete_backup [OF assms]
    by (auto simp: complete_request_def split: option.split sum.split)
qed

lemma moved_request: "agent_request env a db db' \<Longrightarrow> service_ok db \<Longrightarrow> moved env db db'"
proof (induction rule: agent_request.induct)
  case (rq_acknowledge now a k input db db')
  then show ?case using acknowledge_db [OF rq_acknowledge(1)] by (auto intro: moved_control calm_commands service_sound)
next
  case (rq_status now a k input db r db')
  then show ?case using status_db [OF rq_status(1)] by (auto intro: moved_control calm_commands service_sound)
qed (auto intro: moved_heartbeat moved_poll moved_event moved_complete_request)

lemma accounts_with:
  "service_createEnrollment env now i t input db = Ok (r, db') \<Longrightarrow> db' = with_control (r_control db') db"
  "service_revokeEnrollment now i db = Ok db' \<Longrightarrow> db' = with_control (r_control db') db"
  "enroll env now uid rnd secret cid key input db = Ok (x, db') \<Longrightarrow> db' = with_control (r_control db') db"
  "revokeDevice now dev db = Ok db' \<Longrightarrow> db' = with_control (r_control db') db"
  by (auto simp: service_createEnrollment_def service_revokeEnrollment_def enroll_def revokeDevice_def bind_result_Inr_iff Let_def split_beta
      split: option.splits sum.splits)

lemma moved_accounts:
  assumes "service_ok db"
  shows "service_createEnrollment env now i t input db = Ok (r, db') \<Longrightarrow> moved env db db'"
    "service_revokeEnrollment now i db = Ok db' \<Longrightarrow> moved env db db'"
    "enroll env now uid rnd secret cid key input db = Ok (x, db') \<Longrightarrow> moved env db db'"
    "revokeDevice now dev db = Ok db' \<Longrightarrow> moved env db db'"
  by (rule moved_with [OF assms]; (rule enrollment_calm enroll_calm accounts_with service_sound [OF assms] | assumption)+)+

lemma moved_source:
  assumes "service_ok db"
  shows "moved env db (with_control (snd (request_source rid cid fresh now dev kind input (control db))) db)"
    "moved env db (with_control (snd (setupMode rid cid fresh now dev input (control db))) db)"
    "refresh cid fresh now dev (control db) = Ok (i, ctl) \<Longrightarrow> moved env db (with_control ctl db)"
    "cancel_source dev rid now (control db) = Ok ctl \<Longrightarrow> moved env db (with_control ctl db)"
    "moved env db (with_control (snd (getView fresh now dev (control db))) db)"
proof -
  note c = calm_control [OF service_sound [OF assms]]
  note s = calm_sound [OF c service_sound [OF assms]]
  have m: "moved env db (with_control ctl db)" if "calm (control db) ctl" for ctl
    by (rule moved_control [OF assms calm_trans [OF c that]])
  show "moved env db (with_control (snd (request_source rid cid fresh now dev kind input (control db))) db)"
    "moved env db (with_control (snd (setupMode rid cid fresh now dev input (control db))) db)"
    "moved env db (with_control (snd (getView fresh now dev (control db))) db)"
    by (rule m request_source_calm getView_calm s)+
  show "moved env db (with_control ctl db)" if "refresh cid fresh now dev (control db) = Ok (i, ctl)"
    by (rule m [OF refresh_calm [OF s that]])
  show "moved env db (with_control ctl db)" if "cancel_source dev rid now (control db) = Ok ctl"
    by (rule m [OF cancel_source_calm [OF s that]])
qed

text \<open>A backup and its command, made together.\<close>

lemma queued_step:
  assumes "queued_db db db'"
  shows "control_step (r_control db) (r_control db')"
proof -
  obtain now i agentId planId repositoryId where
    n: "insert_command (command_row now (backup_command agentId i planId repositoryId)) (r_control db) = Ok (r_control db')"
    using assms unfolding queued_db_def by blast
  then have "enqueueCommand now (backup_command agentId i planId repositoryId) (r_control db) =
      Ok (Some (command_row now (backup_command agentId i planId repositoryId)), r_control db')"
    by (simp add: enqueueCommand_def backup_command_def AGENT_COMMAND_TYPES_def)
  then show ?thesis by (rule cs_enqueue)
qed

lemma reference_of_backup:
  "commandReference (nc_payload (backup_command agentId i planId rid)) = Ok (j, p, r) \<Longrightarrow> j = i"
  by (auto simp: backup_command_def text_field_def parse_str_if_def split: if_splits option.splits)

lemma bound_command:
  "bound_ok db \<Longrightarrow> c \<in> set (c_commands (r_control db)) \<Longrightarrow> backup_type c \<Longrightarrow> commandReference (cm_payload c) = Ok (i, p, r) \<Longrightarrow>
   cm_id c = ''remote-backup-'' @ i \<and> (\<forall>s. (i, s) \<in> row_sources (r_backups db) \<longrightarrow> (cm_agentId c, s) \<in> agent_devices (r_control db))"
  unfolding bound_ok_def backup_bound_def by fastforce

lemma bound_okI:
  assumes "\<And>c i p r. c \<in> set (c_commands (r_control db)) \<Longrightarrow> backup_type c \<Longrightarrow> commandReference (cm_payload c) = Ok (i, p, r) \<Longrightarrow>
    cm_id c = ''remote-backup-'' @ i \<and> (\<forall>s. (i, s) \<in> row_sources (r_backups db) \<longrightarrow> (cm_agentId c, s) \<in> agent_devices (r_control db))"
  shows "bound_ok db"
  using assms unfolding bound_ok_def backup_bound_def by fastforce

lemma queued_bound:
  assumes "queued_db db db'" "bound_ok db"
  shows "bound_ok db'"
proof -
  obtain now i agentId planId rid b where
    ins: "insert_command (command_row now (backup_command agentId i planId rid)) (r_control db) = Ok (r_control db')"
    and b: "r_backups db' = r_backups db @ [b]" "br_id b = i" "i \<notin> br_id ` set (r_backups db)"
    and own: "(agentId, br_sourceId b) \<in> agent_devices (r_control db)"
    using assms(1) unfolding queued_db_def by blast
  define n where "n = command_row now (backup_command agentId i planId rid)"
  have n: "cm_id n = ''remote-backup-'' @ i" "cm_agentId n = agentId" "cm_payload n = nc_payload (backup_command agentId i planId rid)"
    by (simp_all add: n_def command_row_def backup_command_def)
  have ctl: "c_commands (r_control db') = c_commands (r_control db) @ [n]" "cm_id n \<notin> cm_id ` set (c_commands (r_control db))"
    and dev: "agent_devices (r_control db') = agent_devices (r_control db)"
    using ins [symmetric] unfolding insert_command_def n_def [symmetric] command_conflict_def agent_devices_def
    by (auto split: if_splits dest!: sym [of "r_control db'"])
  have rows: "row_sources (r_backups db') = insert (i, br_sourceId b) (row_sources (r_backups db))"
    using b by (simp add: row_sources_def)
  show ?thesis
  proof (rule bound_okI)
    fix c j p r assume c: "c \<in> set (c_commands (r_control db'))" "backup_type c" and r: "commandReference (cm_payload c) = Ok (j, p, r)"
    consider "c = n" | "c \<in> set (c_commands (r_control db))" using c ctl by auto
    then show "cm_id c = ''remote-backup-'' @ j \<and>
        (\<forall>s. (j, s) \<in> row_sources (r_backups db') \<longrightarrow> (cm_agentId c, s) \<in> agent_devices (r_control db'))"
    proof cases
      case 1
      then have "j = i" using r n reference_of_backup by metis
      moreover have "(i, s) \<notin> row_sources (r_backups db)" for s using b(3) by (auto simp: row_sources_def)
      ultimately show ?thesis using 1 n own dev rows by auto
    next
      case 2
      note old = bound_command [OF assms(2) 2 c(2) r]
      then have "j \<noteq> i" using ctl(2) n(1) 2 by (metis image_eqI)
      then show ?thesis using old dev rows by auto
    qed
  qed
qed

definition service_move :: "agent_env \<Rightarrow> remote_db \<Rightarrow> remote_db \<Rightarrow> bool" where
  "service_move env db db' \<longleftrightarrow> store_steps env db db' \<and> bound_ok db'"

lemma move_moved: "service_ok db \<Longrightarrow> moved env db db' \<Longrightarrow> service_move env db db'"
  using moved_ok by (auto simp: service_move_def moved_def service_ok_def)

lemma move_queued:
  assumes "service_ok db" "remote_step (ae_remote env) db db'" "db' = db \<or> same_base db db' \<or> queued_db db db'"
  shows "service_move env db db'"
  using assms(3)
proof (elim disjE)
  assume "same_base db db'"
  then show ?thesis by (rule move_moved [OF assms(1) moved_remote [OF assms(1) same_base_quiet assms(2)]])
next
  assume q: "queued_db db db'"
  then show ?thesis using queued_step [OF q] remote_changeI [OF assms(2)] queued_bound [OF q] assms(1)
    by (auto simp: service_move_def store_steps_def service_ok_def)
qed (simp add: move_moved [OF assms(1)])

lemma move_rows:
  assumes "service_ok db" "r_control db' = r_control db" "remote_change (ae_remote env) db db'"
    "\<And>r. r \<in> set (r_backups db') \<Longrightarrow>
       (br_id r, br_sourceId r) \<in> row_sources (r_backups db) \<or> ''remote-backup-'' @ br_id r \<notin> cm_id ` set (c_commands (r_control db))"
  shows "service_move env db db'"
proof -
  have "bound_ok db" using assms(1) by (simp add: service_ok_def)
  have "bound_ok db'"
  proof (rule bound_okI)
    fix c i p r assume c: "c \<in> set (c_commands (r_control db'))" "backup_type c" "commandReference (cm_payload c) = Ok (i, p, r)"
    note old = bound_command [OF \<open>bound_ok db\<close> c(1) [unfolded assms(2)] c(2,3)]
    then have "''remote-backup-'' @ i \<in> cm_id ` set (c_commands (r_control db))" using c(1) assms(2) by (metis image_eqI)
    then have "(i, s) \<in> row_sources (r_backups db)" if "(i, s) \<in> row_sources (r_backups db')" for s
      using that assms(4) unfolding row_sources_def [of "r_backups db'"] by auto
    then show "cm_id c = ''remote-backup-'' @ i \<and>
        (\<forall>s. (i, s) \<in> row_sources (r_backups db') \<longrightarrow> (cm_agentId c, s) \<in> agent_devices (r_control db'))"
      using old assms(2) by auto
  qed
  then show ?thesis using assms(2,3) by (simp add: service_move_def store_steps_def r_into_rtranclp)
qed

lemma service_step_move: "service_step env db db' \<Longrightarrow> service_ok db \<Longrightarrow> service_move env db db'"
proof (induction rule: service_step.induct)
  case (ss_authenticate db cr now clock rq)
  then show ?case by (intro move_moved moved_control calm_accounts service_sound)
next
  case (ss_queue now i planId db m db')
  then show ?case using queue_db [OF ss_queue(1)] by (intro move_queued st_queue [OF ss_queue(1)]) auto
next
  case (ss_insert now i p repo agentId db db')
  then show ?case using insert_queued [OF ss_insert(1,2)] by (intro move_queued st_insert [OF ss_insert(1)]) auto
next
  case (ss_create db now rid pw i runNow p)
  then show ?case using create_db by (intro move_queued st_create) auto
next
  case (ss_update now p db db')
  then show ?case using update_base by (intro move_queued st_update [OF ss_update(1)]) auto
next
  case (ss_cancel now planId i db db')
  then show ?case
    by (intro move_moved moved_remote st_cancel [OF ss_cancel(1)] remote_quiet(1) [OF _ _ ss_cancel(1)]) (auto simp: service_ok_def)
next
  case (ss_remove now planId db path db')
  then show ?case
    by (intro move_moved moved_remote st_remove [OF ss_remove(1)] remote_quiet(2) [OF _ _ ss_remove(1)]) (auto simp: service_ok_def)
next
  case (ss_other db' db)
  then show ?case by (intro move_rows) (auto simp: remote_change_def intro: st_other)
next
  case (ss_delete db q)
  then show ?case by (intro move_rows) (auto simp: remote_change_def row_sources_def delete_where_def)
qed (auto intro: move_moved moved_request moved_accounts moved_source)

lemma service_ok_start: "service_start db \<Longrightarrow> service_ok db"
  by (auto simp: service_start_def service_ok_def control_init_def remote_start_def empty_control_def control_sound_def commands_ok_def
      accounts_ok_def bound_ok_def backup_bound_def)

lemma service_ok_step: "service_ok db \<Longrightarrow> service_step env db db' \<Longrightarrow> service_ok db'"
  using service_step_move [of env db db'] store_rows sound_steps by (auto simp: service_ok_def service_move_def store_steps_def)

interpretation services: invariant_system service_start "service_step env" service_ok for env
  by unfold_locales (auto intro: service_ok_start service_ok_step)

interpretation service_control: simulation service_start "service_step env" service_ok "control_step\<^sup>*\<^sup>*" r_control for env
  by unfold_locales (auto dest: service_step_move simp: service_move_def store_steps_def)

interpretation service_backups: simulation service_start "service_step env" service_ok "(remote_change (ae_remote env))\<^sup>*\<^sup>*" "\<lambda>db. db" for env
  by unfold_locales (auto dest: service_step_move simp: service_move_def store_steps_def)

section \<open>What a request of an agent leaves alone\<close>

lemma filter_update_other:
  "(\<And>r. r \<in> set t \<Longrightarrow> p r \<Longrightarrow> \<not> q r \<and> \<not> q (f r)) \<Longrightarrow> filter q (update_where p f t) = filter q t"
  by (induction t) auto

text \<open>The commands, the identities and the source states of the other agents.\<close>

definition others :: "string \<Rightarrow> control_db \<Rightarrow> agent_command list \<times> agent_identity list \<times> source_state list" where
  "others a ctl = (filter (\<lambda>c. cm_agentId c \<noteq> a) (c_commands ctl), filter (\<lambda>i. ai_agentId i \<noteq> a) (c_identities ctl),
     filter (\<lambda>s. ss_agentId s \<noteq> a) (c_sourceStates ctl))"

named_theorems others_simps "operations on behalf of an agent leave the others alone"

lemma others_tables:
  "others a (ctl\<lparr>c_sourceRequests := q\<rparr>) = others a ctl" "others a (set_request i f ctl) = others a ctl"
  "others a (control db) = others a (r_control db)"
  by (simp_all add: others_def set_request_def control_def)

lemma others_commands:
  "filter (\<lambda>c. cm_agentId c \<noteq> a) cs = filter (\<lambda>c. cm_agentId c \<noteq> a) (c_commands ctl) \<Longrightarrow> others a (ctl\<lparr>c_commands := cs\<rparr>) = others a ctl"
  by (simp add: others_def)

lemma others_leased_commands [others_simps]:
  "others a (snd (acknowledgeCommand clock a k t now ctl)) = others a ctl"
  "others a (snd (recordCommandEvent a k t n now ms ctl)) = others a ctl"
  "others a (snd (completeCommand clock a k t n s e now ctl)) = others a ctl"
  "others a (snd (getCommandStatus a k t ms now ctl)) = others a ctl"
  by (auto simp: acknowledgeCommand_def recordCommandEvent_def completeCommand_def getCommandStatus_def split_beta holds_lease_def
      accepts_sequence_def acknowledge_row_def running_row_def completion_row_def renew_row_def
      split: option.split intro!: others_commands filter_update_other)

lemma others_heartbeat [others_simps]: "others a (snd (updateHeartbeat now a iv ctl)) = others a ctl"
  by (auto simp: updateHeartbeat_def Let_def split_beta others_def seen_identity_def split: option.split intro!: filter_update_other)

lemma others_save: "ss_agentId s = a \<Longrightarrow> others a (save_state s ctl) = others a ctl"
  by (auto simp: others_def save_state_def intro!: filter_update_other)

lemma others_accept: "others a (snd (snd (accept_report al a s r now ctl))) = others a ctl"
  by (auto simp: accept_report_def Let_def others_tables split: option.split)

lemma others_report [others_simps]: "others a (writeReport a r signed now al ctl) = others a ctl"
  by (auto simp: writeReport_def Let_def split_beta others_tables others_accept split: option.split intro!: others_save [THEN trans])

lemma others_set_command:
  assumes "control_sound ctl" "c \<in> set (c_commands ctl)" "cm_agentId c = a" "\<And>r. cm_agentId (f r) = cm_agentId r"
  shows "others a (set_command (cm_id c) f ctl) = others a ctl"
proof -
  have "r = c" if "r \<in> set (c_commands ctl)" "cm_id r = cm_id c" for r
    using assms(1,2) that distinct_map_eqD unfolding control_sound_def commands_ok_def by metis
  then show ?thesis using assms(3,4) unfolding set_command_def by (intro others_commands filter_update_other) auto
qed

lemma others_lease:
  assumes "control_sound ctl"
  shows "others a (snd (leaseNext a owner ms now ctl)) = others a ctl"
proof -
  let ?cs = "requeue_expired now a (c_commands ctl)" and ?l = "snd (leaseNext a owner ms now ctl)"
  have re: "filter (\<lambda>c. cm_agentId c \<noteq> a) ?cs = filter (\<lambda>c. cm_agentId c \<noteq> a) (c_commands ctl)"
    unfolding requeue_expired_def by (rule filter_update_other) (simp add: requeue_row_def)
  have "filter (\<lambda>c. cm_agentId c \<noteq> a) (c_commands ?l) = filter (\<lambda>c. cm_agentId c \<noteq> a) (c_commands ctl)"
  proof (cases rule: leaseNext_cases [of a owner ms now ctl])
    case (leased cand)
    have "distinct (map cm_id ?cs)" using assms by (simp add: control_sound_def commands_ok_def map_requeue)
    then have "r = cand" if "r \<in> set ?cs" "cm_id r = cm_id cand" for r using that leased(1) distinct_map_eqD by metis
    then show ?thesis unfolding leased(6) re [symmetric] using leased(2) by (intro filter_update_other) (auto simp: lease_command_def)
  qed (simp add: re)
  moreover have "c_identities ?l = c_identities ctl" "c_sourceStates ?l = c_sourceStates ctl"
    by (simp_all add: leaseNext_def Let_def split_beta split: option.split)
  ultimately show ?thesis by (simp add: others_def)
qed

lemma others_delivered:
  assumes "control_sound ctl" "c \<in> set (c_commands ctl)" "cm_agentId c = a"
  shows "others a (snd (markDelivered a (cm_id c) now fresh ctl)) = others a ctl"
proof -
  have "others a (set_command (cm_id c) f ctl) = others a ctl" if "\<And>r. cm_agentId (f r) = cm_agentId r" for f
    by (rule others_set_command [OF assms that])
  moreover have "others a (set_command (cm_id c) f (set_request i g ctl)) = others a (set_command (cm_id c) f ctl)" for f g i
    by (simp add: others_def set_command_def set_request_def)
  ultimately show ?thesis
    by (auto simp: markDelivered_def Let_def others_tables settle_command_def split: option.split)
qed

lemma others_completed:
  assumes "control_sound ctl"
  shows "others (ci_agentId i) (snd (complete_source i ctl)) = others (ci_agentId i) ctl"
proof -
  have set: "others (ci_agentId i) (set_command (cm_id c) f (set_request q g ctl')) = others (ci_agentId i) ctl'"
    if "getCommandForAgent (ci_agentId i) k ctl = Some c" "\<And>r. cm_agentId (f r) = cm_agentId r" "c_commands ctl' = c_commands ctl" for c f q g ctl' k
  proof -
    have "others (ci_agentId i) (set_command (cm_id c) f ctl) = others (ci_agentId i) ctl"
      by (rule others_set_command [OF assms _ _ that(2)]) (use getCommandForAgentD [OF that(1)] in auto)
    then show ?thesis using that(3) by (auto simp: others_def set_command_def set_request_def)
  qed
  have none: "set_request (sq_id q) (\<lambda>x. x) ctl = ctl" for q by (simp add: set_request_def update_where_def)
  have "others (ci_agentId i) (finish_source_command i c q ctl) = others (ci_agentId i) ctl"
    if "getCommandForAgent (ci_agentId i) k ctl = Some c" for c q k
    using set [OF that] by (auto simp: finish_source_command_def Let_def split_beta settle_command_def others_report writeReport_frame split: option.split)
  moreover have "others (ci_agentId i) (set_command (cm_id c) f ctl) = others (ci_agentId i) ctl"
    if "getCommandForAgent (ci_agentId i) k ctl = Some c" "\<And>r. cm_agentId (f r) = cm_agentId r" for c f k
    using set [OF that refl, of _ "\<lambda>x. x"] none by metis
  ultimately show ?thesis by (auto simp: complete_source_def split: option.split)
qed

text \<open>The rows of the other backups.\<close>

abbreviation other_rows :: "string \<Rightarrow> backup_record list \<Rightarrow> backup_record list" where
  "other_rows i t \<equiv> filter (\<lambda>r. br_id r \<noteq> i) t"

lemma rows_update: "(\<And>r. br_id (f r) = br_id r) \<Longrightarrow> other_rows i (update_where (\<lambda>r. br_id r = i) f t) = other_rows i t"
  by (rule filter_update_other) auto

lemma rows_settled: "(\<And>r. br_id (f r) = br_id r) \<Longrightarrow> other_rows i (settled_rows (bs_update scope now i f t) t) = other_rows i t"
  by (auto simp: settled_rows_def bs_update_def update_returning_def bind_result_def rows_update split: option.split sum.split)

lemma rows_handlers:
  "other_rows i (onBackupComplete scope occurred now rescue success i summary path t) = other_rows i t"
  "other_rows i (onBackupCancelled scope occurred now i t) = other_rows i t"
  "other_rows i (onBackupFailure scope occurred now i error f t) = other_rows i t"
  "other_rows i (snd (updateRemoteProgress now i planId k attempt sq e t)) = other_rows i t"
  by (simp_all add: onBackupComplete_def onBackupCancelled_def onBackupFailure_def rows_settled completed_row_def cancelled_row_def failed_row_def
      updateRemoteProgress_def update_returning_def rows_update split: option.split)

lemma rows_warning:
  "bs_update scope now i (\<lambda>b. b\<lparr>br_errorMsg := e\<rparr>) t = Ok (x, t') \<Longrightarrow> other_rows i t' = other_rows i t"
  using rows_settled [of "\<lambda>b. b\<lparr>br_errorMsg := e\<rparr>" i scope now t] by (simp add: settled_rows_def)

lemma rows_stats: "r_backups (snd (update_plan_stats env now sid summary plan db)) = r_backups db"
  by (auto simp: update_plan_stats_def split: option.split sum.split)

lemma rows_success: "other_rows i (r_backups (snd (record_success env now i rid sid summary r plan db))) = other_rows i (r_backups db)"
  by (auto simp: record_success_def Let_def rows_stats markInitialized_def rows_handlers split: option.split sum.split dest!: rows_warning)

lemma rows_complete:
  assumes "commandReference (cm_payload cmd) = Ok (i, p, r)"
  shows "other_rows i (r_backups (snd (complete_remote env now cmd c db))) = other_rows i (r_backups db)"
proof -
  have "other_rows i (r_backups (snd (settle_success env now (i, p, r) c db))) = other_rows i (r_backups db)"
    by (auto simp: settle_success_def Let_def fail_backup_def rows_handlers rows_success split: option.split sum.split)
  then show ?thesis using assms
    by (auto simp: complete_remote_def Let_def fail_backup_def rows_handlers split: option.split)
qed

lemma complete_untouched:
  "\<not> backup_type cmd \<or> (\<nexists>i p r. commandReference (cm_payload cmd) = Ok (i, p, r)) \<Longrightarrow> r_backups (snd (complete_remote env now cmd c db)) = r_backups db"
  by (auto simp: complete_remote_def split: sum.split)

definition other_backups :: "string \<Rightarrow> (string \<times> string) set \<Rightarrow> backup_record list \<Rightarrow> backup_record list" where
  "other_backups a devs t = filter (\<lambda>r. (a, br_sourceId r) \<notin> devs) t"

lemma other_backups_rows:
  assumes "other_rows i t' = other_rows i t" "row_sources t' = row_sources t" "\<And>s. (i, s) \<in> row_sources t \<Longrightarrow> (a, s) \<in> devs"
  shows "other_backups a devs t' = other_backups a devs t"
proof -
  have "other_backups a devs u = other_backups a devs (other_rows i u)" if u: "row_sources u = row_sources t" for u
  proof -
    have "(a, br_sourceId r) \<in> devs" if r: "r \<in> set u" "br_id r = i" for r
    proof -
      have "(i, br_sourceId r) \<in> row_sources u" using r by (auto simp: row_sources_def)
      then show ?thesis using assms(3) u by simp
    qed
    then show ?thesis unfolding other_backups_def filter_filter by (intro filter_cong) auto
  qed
  then show ?thesis using assms(1,2) by metis
qed

lemma bound_later:
  "bound_ok db \<Longrightarrow> calm (r_control db) ctl \<Longrightarrow> cmd \<in> set (c_commands ctl) \<Longrightarrow> backup_type cmd \<Longrightarrow> commandReference (cm_payload cmd) = Ok (i, p, r) \<Longrightarrow>
   (i, s) \<in> row_sources (r_backups db) \<Longrightarrow> (cm_agentId cmd, s) \<in> agent_devices (r_control db)"
proof -
  assume "bound_ok db" "calm (r_control db) ctl" "cmd \<in> set (c_commands ctl)" "backup_type cmd"
    and r: "commandReference (cm_payload cmd) = Ok (i, p, r)" "(i, s) \<in> row_sources (r_backups db)"
  then have "(cm_id cmd, cm_agentId cmd, cm_payload cmd) \<in> backup_bound (r_control db)"
    by (auto simp: calm_def backup_bound_def)
  then show ?thesis using \<open>bound_ok db\<close> r unfolding bound_ok_def by fastforce
qed

text \<open>A completion and an event for a command of the agent.\<close>

lemma isolated_complete:
  assumes "service_ok db" "calm (r_control db) ctl" "cmd \<in> set (c_commands ctl)" "cm_agentId cmd = a"
  shows "other_backups a (agent_devices (r_control db)) (r_backups (snd (complete_remote env now cmd c (with_control ctl db)))) =
    other_backups a (agent_devices (r_control db)) (r_backups db)"
proof (cases "backup_type cmd \<and> (\<exists>i p r. commandReference (cm_payload cmd) = Ok (i, p, r))")
  case False
  then show ?thesis using complete_untouched [of cmd env now c "with_control ctl db"] by auto
next
  case True
  then obtain i p r where ref: "commandReference (cm_payload cmd) = Ok (i, p, r)" by blast
  have ok: "rows_ok (r_backups (with_control ctl db))" "bound_ok db" using assms(1) by (simp_all add: service_ok_def)
  show ?thesis
    using rows_complete [OF ref, of env now c "with_control ctl db"] evolves_sources [OF complete_evolves [OF ok(1), of env now cmd c]]
      bound_later [OF ok(2) assms(2,3) _ ref] True assms(4)
    by (intro other_backups_rows [of i]) auto
qed

lemma isolated_progress:
  assumes "service_ok db" "calm (r_control db) ctl" "cmd \<in> set (c_commands ctl)" "cm_agentId cmd = a"
    "record_progress now cmd e sq (with_control ctl db) = Ok db'"
  shows "other_backups a (agent_devices (r_control db)) (r_backups db') = other_backups a (agent_devices (r_control db)) (r_backups db)"
proof (cases "backup_type cmd")
  case False
  then show ?thesis using assms(5) by (auto simp: record_progress_def)
next
  case True
  have ok: "rows_ok (r_backups db)" "bound_ok db" using assms(1) by (simp_all add: service_ok_def)
  from assms(5) True obtain i p r where ref: "commandReference (cm_payload cmd) = Ok (i, p, r)"
    and t: "r_backups db' = snd (updateRemoteProgress now i p (cm_id cmd) (cm_attemptCount cmd) sq e (r_backups db))"
    by (auto simp: record_progress_def bind_result_Inr_iff)
  show ?thesis unfolding t
    using rows_handlers(4) evolves_sources [OF progress_evolves [OF ok(1)]] bound_later [OF ok(2) assms(2,3) True ref] assms(4)
    by (intro other_backups_rows [of i]) auto
qed

lemma find_SomeD: "find p t = Some r \<Longrightarrow> r \<in> set t \<and> p r"
  by (auto simp: find_Some_iff)

lemma updated_row: "find p t = Some r \<Longrightarrow> f r \<in> set (update_where p f t)"
  by (force simp: in_update_where dest: find_SomeD)

lemma accepted_row:
  assumes "map_option f (find (accepts_sequence a k t now n) cs) = Some c" "\<And>r. cm_agentId (f r) = cm_agentId r"
  shows "c \<in> set (update_where (accepts_sequence a k t now n) f cs) \<and> cm_agentId c = a"
proof -
  obtain r where r: "find (accepts_sequence a k t now n) cs = Some r" "c = f r" using assms(1) by auto
  then show ?thesis using updated_row [OF r(1), of f] find_SomeD [OF r(1)] assms(2) by (simp add: accepts_sequence_def holds_lease_def)
qed

lemma returned_command:
  "fst (recordCommandEvent a k t n now ms ctl) = Some c \<Longrightarrow> c \<in> set (c_commands (snd (recordCommandEvent a k t n now ms ctl))) \<and> cm_agentId c = a"
  "fst (completeCommand clock a k t n s e now ctl) = Some c \<Longrightarrow> c \<in> set (c_commands (snd (completeCommand clock a k t n s e now ctl))) \<and> cm_agentId c = a"
  using accepted_row [of "running_row n (now + ms)" a k t now n "c_commands ctl" c]
    accepted_row [of "completion_row clock n s e" a k t now n "c_commands ctl" c]
  by (auto simp: recordCommandEvent_def completeCommand_def split_beta running_row_def completion_row_def
      split: option.splits if_splits dest: getCommandForAgentD)

lemma leased_command:
  assumes "leaseNext a token ms now ctl = (Some c, ctl')" "control_sound ctl"
  shows "c \<in> set (c_commands ctl') \<and> cm_agentId c = a"
proof -
  let ?cs = "requeue_expired now a (c_commands ctl)"
  obtain cand where n: "next_command a ?cs = Some cand"
    and c: "map_option (lease_command now token ms (cm_attemptCount cand + 1)) (find (\<lambda>c. cm_id c = cm_id cand \<and> cm_state c = CQueued) ?cs) = Some c"
    and ctl': "c_commands ctl' = update_where (\<lambda>c. cm_id c = cm_id cand \<and> cm_state c = CQueued) (lease_command now token ms (cm_attemptCount cand + 1)) ?cs"
    using assms(1) by (auto simp: leaseNext_def Let_def update_returning_def split: if_splits option.splits)
  obtain x where x: "x \<in> set ?cs" "cm_id x = cm_id cand" "cm_state x = CQueued" "c = lease_command now token ms (cm_attemptCount cand + 1) x"
    using c by (auto dest!: find_SomeD)
  have "distinct (map cm_id ?cs)" using assms(2) by (simp add: control_sound_def commands_ok_def map_requeue)
  then have "x = cand" using x(1,2) next_commandD [OF n] distinct_map_eqD by metis
  then show ?thesis using x next_commandD [OF n] unfolding ctl' in_update_where by (auto simp: lease_command_def)
qed

definition isolated :: "string \<Rightarrow> remote_db \<Rightarrow> remote_db \<Rightarrow> bool" where
  "isolated a db db' \<longleftrightarrow> others a (r_control db') = others a (r_control db) \<and>
     other_backups a (agent_devices (r_control db)) (r_backups db') = other_backups a (agent_devices (r_control db)) (r_backups db)"

lemma isolated_control: "others a ctl = others a (r_control db) \<Longrightarrow> isolated a db (with_control ctl db)"
  by (simp add: isolated_def)

lemma isolated_heartbeat: "isolated a db (snd (heartbeat env now signed a input db))"
proof -
  have u: "others a ctl = others a (r_control db)" if "updateHeartbeat now a iv (r_control db) = (x, ctl)" for iv x ctl
    using others_heartbeat [of a now iv "r_control db"] that by simp
  have "others a ctl' = others a (r_control db)"
    if "updateHeartbeat now a iv (r_control db) = (x, ctl)" "service_heartbeat a r signed now (control (with_control ctl db)) = Ok ctl'" for iv x ctl r ctl'
    using u [OF that(1)] that(2) by (auto simp: service_heartbeat_def recordHeartbeat_def others_report others_tables split: if_splits)
  with u show ?thesis
    by (auto simp: heartbeat_def intro!: isolated_control split: sum.split prod.split option.split) (simp_all add: isolated_def)
qed

lemma isolated_event:
  assumes "service_ok db"
  shows "isolated a db (snd (recordEvent env now a k input db))"
proof (cases rule: event_db [of env now a k input db])
  case (progress token sq c e)
  let ?ctl = "snd (recordCommandEvent a k token sq now AGENT_COMMAND_LEASE_MS (r_control db))"
  show ?thesis unfolding isolated_def
    using isolated_progress [OF assms calm_commands(2) [OF service_sound [OF assms]] _ _ progress(2)] returned_command(1) [OF progress(1)]
      record_progress_control [OF progress(2)] by (simp add: others_simps)
qed (auto simp: isolated_def others_simps)

lemma isolated_complete_backup:
  assumes "service_ok db"
  shows "isolated a db (snd (complete_backup env now a k input db))"
proof (cases rule: complete_backup_db [of env now a k input db])
  case (reported c safe cmd)
  show ?thesis unfolding isolated_def reported(4)
    using isolated_complete [OF assms calm_commands(3) [OF service_sound [OF assms]]] returned_command(2) [OF reported(3)]
    by (simp add: others_simps)
qed (auto simp: isolated_def others_simps)

lemma isolated_complete_request:
  assumes "service_ok db"
  shows "isolated a db (snd (complete_request env now signed a k input db))"
proof -
  have s: "control_sound (control db)" by (rule calm_sound [OF calm_control]; rule service_sound [OF assms])
  have "others a ctl = others a (r_control db)" if "service_complete a k input signed now (control db) = Ok ctl" for ctl
    using that others_completed [OF s, of "\<lparr>ci_agentId = a, ci_commandId = k, ci_leaseToken = t, ci_sequence = n, ci_success = su, ci_result = r,
      ci_signedTimestamp = signed, ci_now = now\<rparr>" for t n su r]
    by (auto simp: service_complete_def others_tables split_beta split: option.splits if_splits bool.splits)
  then show ?thesis using isolated_complete_backup [OF assms] isolated_control
    by (auto simp: complete_request_def isolated_def [of a db db] split: option.split sum.split)
qed

lemma isolated_ready:
  assumes "control_sound ctl" "c \<in> set (c_commands ctl)" "cm_agentId c = a"
  shows "others a (r_control (snd (delivery_ready env now a c (with_control ctl db)))) = others a ctl"
proof -
  let ?ctl = "control (with_control ctl db)"
  have "control_sound ?ctl" using calm_sound [OF calm_control] assms(1) by simp
  moreover have "c \<in> set (c_commands ?ctl)" using assms(2) by (simp add: control_def)
  ultimately show ?thesis using others_delivered [of ?ctl c a] assms(3)
    by (simp add: delivery_ready_def service_markDelivered_def split_beta others_tables)
qed

lemma isolated_fail:
  assumes "service_ok db" "calm (r_control db) ctl" "others a ctl = others a (r_control db)"
  shows "isolated a db (snd (fail_preparation env now a token c (with_control ctl db)))"
proof -
  let ?r = "completeCommand now a (cm_id c) token (cm_lastEventSequence c + 1) False (Some ''Remote backup command could not be prepared.'') now ctl"
  have s: "control_sound ctl" by (rule calm_sound [OF assms(2) service_sound [OF assms(1)]])
  have o: "others a (snd ?r) = others a (r_control db)" using assms(3) by (simp add: others_simps)
  have calm: "calm (r_control db) (snd ?r)" by (rule calm_trans [OF assms(2) calm_commands(3) [OF s]])
  have settled: "isolated a db (snd (complete_remote (ae_remote env) now cmd failed_preparation (with_control (snd ?r) db)))" if "fst ?r = Some cmd" for cmd
    using isolated_complete [OF assms(1) calm] returned_command(2) [OF that] o by (simp add: isolated_def)
  show ?thesis using settled isolated_control [OF o]
    by (auto simp: fail_preparation_def Let_def split_beta split: option.split sum.split)
qed

lemma isolated_poll:
  assumes "service_ok db" "aa_agentId agent = a"
  shows "isolated a db (snd (poll_command env now token agent db))"
proof -
  note s = service_sound [OF assms(1)]
  have l: "others a ctl = others a (r_control db)" if "leaseNext a token AGENT_COMMAND_LEASE_MS now (r_control db) = (x, ctl)" for x ctl
    using others_lease [OF s, of a token AGENT_COMMAND_LEASE_MS now] that by simp
  have lc: "calm (r_control db) ctl" if "leaseNext a token AGENT_COMMAND_LEASE_MS now (r_control db) = (x, ctl)" for x ctl
    using calm_lease [OF s, of a token AGENT_COMMAND_LEASE_MS now] that by simp
  have r: "db' = with_control (r_control db') db \<and> calm (r_control db) (r_control db') \<and> others a (r_control db') = others a (r_control db)"
    if "leaseNext a token AGENT_COMMAND_LEASE_MS now (r_control db) = (Some c, ctl)"
      "delivery_ready env now a c (with_control ctl db) = (b, db')" for c ctl b db'
  proof -
    have sc: "control_sound ctl" by (rule calm_sound [OF lc [OF that(1)] s])
    have "db' = with_control (r_control db') (with_control ctl db)"
      using ready_with [of env now a c "with_control ctl db"] that(2) by simp
    moreover have "calm ctl (r_control db')" using ready_calm [of "with_control ctl db" env now a c] sc that(2) by simp
    moreover have "others a (r_control db') = others a ctl"
      using isolated_ready [OF sc, of c a env now db] leased_command [OF that(1) s] that(2) by simp
    ultimately show ?thesis using calm_trans [OF lc [OF that(1)]] l [OF that(1)] by simp
  qed
  show ?thesis
  proof (cases rule: poll_db [of agent token now db env])
    case (ready c ctl b db')
    then show ?thesis using r [of c ctl b db'] isolated_control [of a "r_control db'" db] assms(2) by auto
  next
    case (failed c ctl db')
    then show ?thesis using r [of c ctl True db'] isolated_fail [OF assms(1), of "r_control db'" a env now token c] assms(2) by auto
  qed (use l assms(2) isolated_control in auto)
qed

lemma isolated_request: "agent_request env a db db' \<Longrightarrow> service_ok db \<Longrightarrow> isolated a db db'"
proof (induction rule: agent_request.induct)
  case (rq_acknowledge now a k input db db')
  then show ?case using acknowledge_db [OF rq_acknowledge(1)] by (auto simp: isolated_def others_simps)
next
  case (rq_status now a k input db r db')
  then show ?case using status_db [OF rq_status(1)] by (auto simp: isolated_def others_simps)
qed (auto intro: isolated_heartbeat isolated_poll isolated_event isolated_complete_request)

section \<open>A command that cannot be prepared\<close>

lemma leased_fields:
  assumes "leaseNext a token ms now ctl = (Some c, ctl')"
  shows "cm_state c = CLeased \<and> cm_leaseOwner c = Some token \<and> cm_leaseExpiresAt c = Some (secs (now + ms))"
  using assms by (auto simp: leaseNext_def Let_def update_returning_def lease_command_def split: if_splits option.splits)

lemma find_distinct:
  assumes "distinct (map cm_id cs)" "c \<in> set cs" "p c" "\<And>x. p x \<Longrightarrow> cm_id x = cm_id c"
  shows "find p cs = Some c"
proof (cases "find p cs")
  case None
  then show ?thesis using assms(2,3) by (simp add: find_None_iff)
next
  case (Some x)
  then have "x = c" using find_SomeD [OF Some] assms(4) distinct_map_eqD [OF assms(1) _ assms(2)] by blast
  then show ?thesis using Some by simp
qed

text \<open>The holder of a fresh lease can always end its command.\<close>

lemma leased_completes:
  assumes lease: "leaseNext a token AGENT_COMMAND_LEASE_MS now ctl = (Some c, ctl')" and sound: "control_sound ctl"
    and n: "n = cm_lastEventSequence c + 1"
  shows "fst (completeCommand now a (cm_id c) token n success e now ctl') = Some (completion_row now n success e c)"
proof -
  have "control_sound ctl'" using calm_sound [OF calm_lease [OF sound] sound, of a token AGENT_COMMAND_LEASE_MS now] lease by simp
  then have d: "distinct (map cm_id (c_commands ctl'))" by (simp add: control_sound_def commands_ok_def)
  note c = leased_command [OF lease sound] and f = leased_fields [OF lease]
  have over: "secs now < secs (now + AGENT_COMMAND_LEASE_MS)" "now < secs (now + AGENT_COMMAND_LEASE_MS) * 1000"
    by (simp_all add: secs_def AGENT_COMMAND_LEASE_MS_def)
  have "getCommandForAgent a (cm_id c) ctl' = Some c"
    unfolding getCommandForAgent_def by (rule find_distinct [OF d]) (use c in auto)
  moreover have "find (accepts_sequence a (cm_id c) token now n) (c_commands ctl') = Some c"
    by (rule find_distinct [OF d]) (use c f n over in \<open>auto simp: accepts_sequence_def holds_lease_def lease_valid_def command_live_def\<close>)
  ultimately show ?thesis using f n over
    by (simp add: completeCommand_def command_settled_def lease_lost_def split_beta)
qed

lemma completed_stored:
  assumes "fst (completeCommand now a k token n success e now ctl) = Some cmd"
  shows "cmd \<in> set (c_commands (snd (completeCommand now a k token n success e now ctl)))"
  using returned_command(2) [OF assms] by simp

lemma failure_ends_row:
  assumes "rows_ok t" "\<And>r. scope r = Ok ()" "r \<in> set (onBackupFailure scope None now (br_id r) e f t)"
  shows "terminal_status (br_status r)"
proof (cases "wasFinalized (br_id r) t \<or> wasCancelled (br_id r) t")
  case True
  then have t: "r \<in> set t" using assms(3) by (simp add: onBackupFailure_def)
  have "bs_getById (br_id r) t = Some r" using getById_unique [OF _ t] assms(1) by (simp add: rows_ok_def)
  then show ?thesis using True by (auto simp: wasFinalized_def wasCancelled_def terminal_status_def split: option.splits)
next
  case False
  have none: "r \<notin> set t" if "bs_getById (br_id r) t = None" using that by (auto simp: bs_getById_def row_by_None_iff)
  from False assms(3) have r: "r \<in> set (settled_rows (bs_update scope now (br_id r) (failed_row None now e f) t) t)"
    by (simp add: onBackupFailure_def)
  show ?thesis
  proof (cases "bs_getById (br_id r) t")
    case None
    then show ?thesis using r none by (simp add: settled_rows_def bs_update_def)
  next
    case (Some x)
    with r assms(2) have "r \<in> set (set_row now (br_id r) (failed_row None now e f) t)"
      by (simp add: settled_rows_def bs_update_def set_row_def update_returning_def bind_result_def)
    then obtain q where "r = (if br_id q = br_id r then (failed_row None now e f q)\<lparr>br_updatedAt := Some (secs now)\<rparr> else q)"
      unfolding set_row_def in_update_where by blast
    then have "br_status r = Some ''failed''" by (cases "br_id q = br_id r") (simp_all add: failed_row_def)
    then show ?thesis by (simp add: terminal_status_def)
  qed
qed

lemma failed_completion:
  assumes "backup_type cmd" "commandReference (cm_payload cmd) = Ok (i, p, q)" "cm_state cmd = CFailed"
  shows "complete_remote env now cmd failed_preparation db =
    (if (case bs_getById i (r_backups db) of None \<Rightarrow> False | Some b \<Rightarrow> terminal_status (br_status b)) then (Ok (), db)
     else (Ok (), fail_backup env now i (remoteBackupFailure (completion_failure failed_preparation)) (completion_source_failure failed_preparation) db))"
  using assms by (simp add: complete_remote_def failed_preparation_def split: option.split)

lemma failed_completion_ends:
  assumes "rows_ok (r_backups db)" "\<And>r. re_scope env r = Ok ()" "backup_type cmd" "commandReference (cm_payload cmd) = Ok (br_id y, p, q)"
    "cm_state cmd = CFailed" "y \<in> set (r_backups (snd (complete_remote env now cmd failed_preparation db)))"
  shows "terminal_status (br_status y)"
proof (cases "case bs_getById (br_id y) (r_backups db) of None \<Rightarrow> False | Some b \<Rightarrow> terminal_status (br_status b)")
  case True
  then have "y \<in> set (r_backups db)" using assms by (simp add: failed_completion)
  then have "bs_getById (br_id y) (r_backups db) = Some y" using getById_unique assms(1) by (simp add: rows_ok_def)
  then show ?thesis using True by simp
next
  case False
  then show ?thesis using assms(6) by (intro failure_ends_row [OF assms(1,2)]) (simp add: failed_completion [OF assms(3-5)] fail_backup_def)
qed

section \<open>The theorems\<close>

text \<open>
  C5: Every run of the agent service, the source access service and the remote backup service over the shared database
  is a run of the two protocols below them: its control plane is reached by operations of the agent and source stores
  alone, and its backups by operations of the remote backups alone, so what is proved of those protocols holds of the
  services.
\<close>

theorem service_refines_stores:
  assumes "reachable service_start (service_step env) db"
  shows "reachable control_init control_step (r_control db) \<and> reachable remote_start (remote_change (ae_remote env)) db"
proof -
  obtain db0 where "service_start db0" "(service_step env)\<^sup>*\<^sup>* db0 db"
    using assms by (induction rule: reachable.induct) (auto intro: rtranclp.rtrancl_into_rtrancl)
  then have steps: "control_step\<^sup>*\<^sup>* (r_control db0) (r_control db)" "(remote_change (ae_remote env))\<^sup>*\<^sup>* db0 db"
    using service_control.sim_steps [OF _ service_ok_start] service_backups.sim_steps [OF _ service_ok_start] by (simp_all add: rtranclp_idemp)
  have "control_init (r_control db0)" "remote_start db0" using \<open>service_start db0\<close> by (simp_all add: service_start_def)
  then show ?thesis using steps by (intro conjI; elim reachable_steps) (rule reach_init; assumption)+
qed

text \<open>
  C4: An authenticated request of one agent (heartbeat, poll, acknowledgement, event, completion or status) never
  changes a command, an identity or a source state of another agent, nor a backup of a machine that is not its own,
  whatever the request names as its command and whatever it carries.
\<close>

theorem agent_requests_isolated:
  assumes "reachable service_start (service_step env) db" "agent_request env a db db'"
  shows "filter (\<lambda>c. cm_agentId c \<noteq> a) (c_commands (r_control db')) = filter (\<lambda>c. cm_agentId c \<noteq> a) (c_commands (r_control db)) \<and>
    filter (\<lambda>i. ai_agentId i \<noteq> a) (c_identities (r_control db')) = filter (\<lambda>i. ai_agentId i \<noteq> a) (c_identities (r_control db)) \<and>
    filter (\<lambda>s. ss_agentId s \<noteq> a) (c_sourceStates (r_control db')) = filter (\<lambda>s. ss_agentId s \<noteq> a) (c_sourceStates (r_control db)) \<and>
    filter (\<lambda>r. (a, br_sourceId r) \<notin> agent_devices (r_control db)) (r_backups db') =
      filter (\<lambda>r. (a, br_sourceId r) \<notin> agent_devices (r_control db)) (r_backups db)"
  using isolated_request [OF assms(2) services.reachable_inv [OF assms(1)]]
  by (simp add: isolated_def others_def other_backups_def)

text \<open>
  C12: A backup command that cannot be prepared for its agent is never delivered and never left waiting.  The poll that
  leases it gives the agent nothing, the command ends as failed with a fixed text, and the backup it names is finished
  as well, so that the plan can run again (the scope of the row is taken to accept the update).
\<close>

theorem failed_preparation_settles:
  assumes "reachable service_start (service_step env) db"
    and lease: "leaseNext (aa_agentId agent) token AGENT_COMMAND_LEASE_MS now (r_control db) = (Some c, ctl)"
    and bad: "cm_type c = ''BACKUP_FILESYSTEM''" "command_payload env now (aa_agentId agent) c (with_control ctl db) = None"
    and on: "ae_remoteBackups env" "\<And>r. re_scope (ae_remote env) r = Ok ()"
    and ref: "commandReference (cm_payload c) = Ok (i, p, q)"
  shows "fst (poll_command env now token agent db) = Ok None \<and>
    list_ex (\<lambda>x. cm_id x = cm_id c \<and> cm_state x = CFailed \<and> cm_lastError x = Some ''Remote backup command could not be prepared.'')
      (c_commands (r_control (snd (poll_command env now token agent db)))) \<and>
    list_all (\<lambda>r. br_id r = i \<longrightarrow> terminal_status (br_status r)) (r_backups (snd (poll_command env now token agent db)))"
proof -
  have ok: "service_ok db" by (rule services.reachable_inv [OF assms(1)])
  define cmd where "cmd = completion_row now (cm_lastEventSequence c + 1) False (Some ''Remote backup command could not be prepared.'') c"
  let ?r = "completeCommand now (aa_agentId agent) (cm_id c) token (cm_lastEventSequence c + 1) False
    (Some ''Remote backup command could not be prepared.'') now ctl"
  have r: "fst ?r = Some cmd" unfolding cmd_def by (rule leased_completes [OF lease service_sound [OF ok] refl])
  let ?db = "with_control (snd ?r) db"
  let ?x = "complete_remote (ae_remote env) now cmd failed_preparation ?db"
  have cmd: "cm_id cmd = cm_id c" "cm_type cmd = cm_type c" "cm_payload cmd = cm_payload c" "cm_state cmd = CFailed"
    "cm_lastError cmd = Some ''Remote backup command could not be prepared.''" by (simp_all add: cmd_def completion_row_def or_null_def)
  have rows: "rows_ok (r_backups db)" using ok by (simp add: service_ok_def)
  have x: "fst ?x = Ok ()" "r_control (snd ?x) = snd ?r"
    using cmd bad(1) ref by (simp_all add: failed_completion fail_backup_def)
  have ended: "terminal_status (br_status y)" if "y \<in> set (r_backups (snd ?x))" "br_id y = i" for y
    by (rule failed_completion_ends [of ?db "ae_remote env" cmd y p q now]) (use rows on(2) cmd bad(1) ref that in simp_all)
  have "poll_command env now token agent db = (Ok None, snd ?x)"
  proof -
    have "delivery_ready env now (aa_agentId agent) c (with_control ctl db) = (True, with_control ctl db)"
      using bad(1) by (simp add: delivery_ready_def source_command_def)
    moreover have "fail_preparation env now (aa_agentId agent) token c (with_control ctl db) = (Ok None, snd ?x)"
      using r x(1) on(1) by (cases ?x) (auto simp: fail_preparation_def Let_def split_beta split: sum.split)
    ultimately show ?thesis using lease bad by (simp add: poll_command_def source_command_def)
  qed
  moreover have "cmd \<in> set (c_commands (r_control (snd ?x)))" unfolding x(2) by (rule completed_stored [OF r])
  then have "list_ex (\<lambda>x. cm_id x = cm_id c \<and> cm_state x = CFailed \<and> cm_lastError x = Some ''Remote backup command could not be prepared.'')
      (c_commands (r_control (snd ?x)))" using cmd by (auto simp: list_ex_iff)
  ultimately show ?thesis using ended by (simp add: list_all_iff)
qed

section \<open>A run\<close>

definition sample_service_env :: agent_env where
  "sample_service_env = \<lparr>ae_remote = sample_remote_env, ae_remoteBackups = True, ae_sourceAccess = False, ae_hashToken = (\<lambda>t. t),
     ae_parseUrl = (\<lambda>u. Some \<lparr>up_protocol = ''https:'', up_username = [], up_password = [], up_search = [], up_hash = [],
       up_pathname = ''/a/b.git'', up_href = u\<rparr>),
     ae_distribution = \<lparr>dc_repositoryUrl = Some ''https://h/a/b.git'', dc_commit = Some (replicate 40 (CHR ''1'')), dc_version = Some ''0.7.0'', dc_caFile = None\<rparr>,
     ae_serverUrl = ''https://s'', ae_insecureHttp = False, ae_hmac = (\<lambda>k t. []), ae_payloadText = (\<lambda>p. []), ae_numberText = (\<lambda>n. [])\<rparr>"

definition sample_world :: remote_db where
  "sample_world = sample_remote\<lparr>r_control := empty_control, r_plans := [sample_remote_plan\<lparr>pn_sourceId := ''remote-1''\<rparr>],
     r_repositories := [sample_repository\<lparr>mo_agentId := ''agent-1''\<rparr>]\<rparr>"

definition sample_token_text :: "string \<Rightarrow> string" where
  "sample_token_text n = replicate 32 (CHR ''t'') @ n"

text \<open>A token for machine \<open>n\<close>, and the enrollment of its agent with it.\<close>

definition sample_mint :: "string \<Rightarrow> remote_db \<Rightarrow> (minted_enrollment \<times> remote_db) result" where
  "sample_mint n = service_createEnrollment sample_service_env 1000000 (''e'' @ n) (sample_token_text n) (JObj [(''name'', JStr ''machine'')])"

definition sample_join :: "string \<Rightarrow> remote_db \<Rightarrow> ((string \<times> string) \<times> remote_db) result" where
  "sample_join n = enroll sample_service_env 1000000 n n ''s'' (''c'' @ n) (''k'' @ n) (JObj [(''token'', JStr (sample_token_text n)),
     (''inventory'', JObj [(''hostname'', JStr ''h''), (''os'', JStr ''linux''), (''architecture'', JStr ''x64''), (''agentVersion'', JStr ''v0.2.1''),
       (''resticVersion'', JStr ''0.17''), (''rcloneVersion'', JStr ''1.68''),
       (''capabilities'', JObj [(''filesystemRootsConfigured'', JBool True), (''commandTypes'', JArr [JStr ''BACKUP_FILESYSTEM''])])])])"

definition sample_joined :: "remote_db result" where
  "sample_joined = bind_result (sample_mint ''1'' sample_world) (\<lambda>(_, db). bind_result (sample_join ''1'' db) (\<lambda>(_, db).
     bind_result (sample_mint ''2'' db) (\<lambda>(_, db). bind_result (sample_join ''2'' db) (\<lambda>(_, db). Ok db))))"

lemma sample_joined_reachable:
  assumes "sample_joined = Ok db"
  shows "reachable service_start (service_step sample_service_env) db"
proof -
  obtain m1 db1 j1 db2 m2 db3 j2 where "sample_mint ''1'' sample_world = Ok (m1, db1)" "sample_join ''1'' db1 = Ok (j1, db2)"
    "sample_mint ''2'' db2 = Ok (m2, db3)" "sample_join ''2'' db3 = Ok (j2, db)"
    using assms by (auto simp: sample_joined_def bind_result_Inr_iff)
  then have "service_step sample_service_env sample_world db1" "service_step sample_service_env db1 db2"
      "service_step sample_service_env db2 db3" "service_step sample_service_env db3 db"
    unfolding sample_mint_def sample_join_def by (auto intro: ss_enrollment ss_enroll)
  moreover have "reachable service_start (service_step sample_service_env) sample_world"
    by (rule reach_init) (simp add: service_start_def control_init_def remote_start_def rows_ok_def sample_world_def sample_remote_def)
  ultimately show ?thesis by (meson reach_step)
qed

definition sample_service :: "remote_db result" where
  "sample_service = bind_result sample_joined (\<lambda>db. bind_result (queuePlanBackup sample_remote_env 1001000 ''b1'' ''p1'' db) (\<lambda>(_, db). Ok db))"

definition sample_machine :: "string \<Rightarrow> device_row" where
  "sample_machine n = \<lparr>dv_id = ''remote-'' @ n, dv_name = ''machine'', dv_type = ''remote-agent'', dv_agentId = Some (''agent-'' @ n),
     dv_hostname = Some ''h'', dv_os = Some ''linux'', dv_platform = Some ''x64'', dv_versions = Some (''v0.2.1'', ''0.17'', ''1.68''),
     dv_status = Some ''active'', dv_lastSeen = Some 1000\<rparr>"

definition sample_refresh :: "string \<Rightarrow> agent_command" where
  "sample_refresh n = command_row 1000000 \<lparr>nc_id = ''c'' @ n, nc_agentId = ''agent-'' @ n, nc_type = ''INVENTORY_REFRESH'', nc_payload = JObj [],
     nc_idempotencyKey = ''k'' @ n\<rparr>"

definition sample_running_service :: remote_db where
  "sample_running_service = sample_world\<lparr>r_control := empty_control\<lparr>
     c_tokens := map (\<lambda>n. \<lparr>et_id = ''e'' @ n, et_tokenHash = sample_token_text n, et_deviceName = ''machine'', et_expiresAt = 1900,
       et_createdAt = 1000, et_usedAt = Some 1000, et_revokedAt = None\<rparr>) [''1'', ''2''],
     c_devices := map sample_machine [''1'', ''2''],
     c_identities := map (\<lambda>n. sample_remote_agent\<lparr>ai_agentId := ''agent-'' @ n, ai_deviceId := ''remote-'' @ n, ai_createdAt := 1000\<rparr>) [''1'', ''2''],
     c_commands := [sample_refresh ''1'', sample_refresh ''2'', command_row 1001000 (backup_command ''agent-1'' ''b1'' ''p1'' ''r1'')]\<rparr>,
     r_backups := [queued_backup 1001000 ''b1'' (sample_remote_plan\<lparr>pn_sourceId := ''remote-1''\<rparr>) (sample_repository\<lparr>mo_agentId := ''agent-1''\<rparr>)]\<rparr>"

lemma sample_service_runs: "sample_service = Ok sample_running_service"
  by code_simp

lemma sample_service_reachable: "reachable service_start (service_step sample_service_env) sample_running_service"
proof -
  obtain db m where j: "sample_joined = Ok db" and q: "queuePlanBackup sample_remote_env 1001000 ''b1'' ''p1'' db = Ok (m, sample_running_service)"
    using sample_service_runs by (auto simp: sample_service_def bind_result_Inr_iff)
  have "service_step sample_service_env db sample_running_service"
    by (rule ss_queue [of _ _ _ "''p1''"]) (use q in \<open>simp add: sample_service_env_def\<close>)
  with sample_joined_reachable [OF j] show ?thesis by (rule reach_step)
qed

definition sample_agent_one :: authenticated_agent where
  "sample_agent_one = \<lparr>aa_agentId = ''agent-1'', aa_deviceId = ''remote-1'', aa_secret = ''s''\<rparr>"

definition sample_held :: agent_command where
  "sample_held = (sample_refresh ''1'')\<lparr>cm_state := CLeased, cm_leasedAt := Some 1002, cm_leaseOwner := Some (sample_token_text []),
     cm_leaseExpiresAt := Some 1062, cm_attemptCount := 1\<rparr>"

definition sample_with_first :: "agent_command \<Rightarrow> remote_db" where
  "sample_with_first c = sample_running_service\<lparr>r_control := (r_control sample_running_service)\<lparr>c_commands :=
     c # tl (c_commands (r_control sample_running_service))\<rparr>\<rparr>"

definition sample_polled :: remote_db where
  "sample_polled = sample_with_first sample_held"

lemma sample_polled_runs: "snd (poll_command sample_service_env 1002000 (sample_token_text []) sample_agent_one sample_running_service) = sample_polled"
  by code_simp

lemma sample_polled_request: "agent_request sample_service_env ''agent-1'' sample_running_service sample_polled"
  unfolding sample_polled_runs [symmetric] by (rule rq_poll) (simp add: sample_agent_one_def)

theorem service_refines_stores_witness:
  "reachable control_init control_step (r_control sample_running_service) \<and>
   reachable remote_start (remote_change sample_remote_env) sample_running_service \<and>
   map cm_id (c_commands (r_control sample_running_service)) = [''c1'', ''c2'', ''remote-backup-b1''] \<and>
   map br_status (r_backups sample_running_service) = [Some ''queued'']"
proof -
  have "map cm_id (c_commands (r_control sample_running_service)) = [''c1'', ''c2'', ''remote-backup-b1'']"
    "map br_status (r_backups sample_running_service) = [Some ''queued'']" by code_simp+
  then show ?thesis using service_refines_stores [OF sample_service_reachable] by (simp add: sample_service_env_def)
qed

theorem agent_requests_isolated_witness:
  "filter (\<lambda>c. cm_agentId c \<noteq> ''agent-1'') (c_commands (r_control sample_polled)) =
     filter (\<lambda>c. cm_agentId c \<noteq> ''agent-1'') (c_commands (r_control sample_running_service)) \<and>
   map cm_state (c_commands (r_control sample_polled)) = [CLeased, CQueued, CQueued]"
proof -
  have "map cm_state (c_commands (r_control sample_polled)) = [CLeased, CQueued, CQueued]" by code_simp
  then show ?thesis using agent_requests_isolated [OF sample_service_reachable sample_polled_request] by blast
qed

text \<open>The agent finishes its first command and then asks again, long after its last heartbeat.\<close>

definition sample_finished :: remote_db where
  "sample_finished = sample_with_first (sample_held\<lparr>cm_state := CCompleted, cm_completedAt := Some 1002, cm_lastEventSequence := 1\<rparr>)"

lemma sample_finished_runs:
  "snd (complete_request sample_service_env 1002500 1002500 ''agent-1'' ''c1''
     (JObj [(''leaseToken'', JStr (sample_token_text [])), (''sequence'', JInt 1), (''success'', JBool True)]) sample_polled) = sample_finished"
  by code_simp

lemma sample_finished_reachable: "reachable service_start (service_step sample_service_env) sample_finished"
proof (rule reach_step)
  show "reachable service_start (service_step sample_service_env) sample_polled"
    by (rule reach_step [OF sample_service_reachable ss_request [OF sample_polled_request]])
  show "service_step sample_service_env sample_polled sample_finished"
    unfolding sample_finished_runs [symmetric] by (rule ss_request, rule rq_complete)
qed

definition sample_lease :: "agent_command option \<times> control_db" where
  "sample_lease = leaseNext ''agent-1'' (sample_token_text []) AGENT_COMMAND_LEASE_MS 5000000 (r_control sample_finished)"

definition sample_reference :: "agent_command \<Rightarrow> (string \<times> string \<times> string) result" where
  "sample_reference c = commandReference (cm_payload c)"

definition sample_refused :: "agent_command \<Rightarrow> bool" where
  "sample_refused c = isl (materializeCommand sample_remote_env 5000000 ''agent-1'' c (with_control (snd sample_lease) sample_finished))"

lemma sample_lease_facts:
  "map_option cm_type (fst sample_lease) = Some ''BACKUP_FILESYSTEM''"
  "map_option sample_reference (fst sample_lease) = Some (Ok (''b1'', ''p1'', ''r1''))"
  "map_option sample_refused (fst sample_lease) = Some True"
  by code_simp+

theorem failed_preparation_settles_witness:
  "fst (poll_command sample_service_env 5000000 (sample_token_text []) sample_agent_one sample_finished) = Ok None \<and>
   map (\<lambda>r. (br_id r, br_status r)) (r_backups (snd (poll_command sample_service_env 5000000 (sample_token_text []) sample_agent_one sample_finished))) =
     [(''b1'', Some ''failed'')]"
proof -
  obtain c where c: "fst sample_lease = Some c" using sample_lease_facts(1) by auto
  define ctl where "ctl = snd sample_lease"
  have l: "sample_lease = (Some c, ctl)" unfolding ctl_def using c by (metis prod.collapse)
  have "leaseNext (aa_agentId sample_agent_one) (sample_token_text []) AGENT_COMMAND_LEASE_MS 5000000 (r_control sample_finished) = (Some c, ctl)"
    using l by (simp add: sample_lease_def sample_agent_one_def)
  moreover have "cm_type c = ''BACKUP_FILESYSTEM''" "commandReference (cm_payload c) = Ok (''b1'', ''p1'', ''r1'')"
    "command_payload sample_service_env 5000000 (aa_agentId sample_agent_one) c (with_control ctl sample_finished) = None"
    using sample_lease_facts c by (auto simp: sample_reference_def sample_refused_def ctl_def command_payload_def sample_agent_one_def sample_service_env_def split: sum.split)
  ultimately have "fst (poll_command sample_service_env 5000000 (sample_token_text []) sample_agent_one sample_finished) = Ok None"
    using failed_preparation_settles [OF sample_finished_reachable, of sample_agent_one "sample_token_text []" 5000000 c ctl "''b1''" "''p1''" "''r1''"]
    by (auto simp: sample_service_env_def sample_remote_env_def)
  moreover have "map (\<lambda>r. (br_id r, br_status r))
      (r_backups (snd (poll_command sample_service_env 5000000 (sample_token_text []) sample_agent_one sample_finished))) = [(''b1'', Some ''failed'')]"
    by code_simp
  ultimately show ?thesis by blast
qed

end
