(* ===== verification/Snapshot_Index.thy ===== *)
theory Snapshot_Index
  imports Source_Policy Json_Schema
begin

text \<open>
  The metadata index of a snapshot (\<open>ManagedSnapshotIndex.ts\<close>, \<open>managedSnapshotPath.ts\<close>): what is accepted into it,
  what it answers and how its pages are ordered.  The table of nodes is the list of its rows in the order of insertion.
  The size of the database file, a full disk and \<open>Date.parse\<close> are arguments.
\<close>

section \<open>Paths\<close>

text \<open>The replacement character is not a character of the model.\<close>

definition snapshot_path_ok :: "string \<Rightarrow> bool" where
  "snapshot_path_ok v \<longleftrightarrow> length v \<le> 1025 \<and> starts_with ''/'' v \<and> CHR 0x5C \<notin> set v \<and> \<not> list_ex control_char v \<and>
     \<not> list_ex (\<lambda>part. part = [] \<or> part = ''.'' \<or> part = ''..'') (split_on slash (drop 1 v))"

definition managedSnapshotPath :: "string \<Rightarrow> string result" where
  "managedSnapshotPath v =
     (if snapshot_path_ok v then Ok v else Throw (AppError 400 ''Snapshot path must be an exact safe absolute POSIX path.''))"

definition reserved_stems :: "string list" where
  "reserved_stems = [''con'', ''prn'', ''aux'', ''nul''] @ map (\<lambda>c. ''com'' @ [c]) ''123456789'' @ map (\<lambda>c. ''lpt'' @ [c]) ''123456789''"

text \<open>\<open>/[<>:"|?*]|[. ]$/\<close> and the device names of Windows, up to the first dot.\<close>

definition windows_unsafe :: "string \<Rightarrow> bool" where
  "windows_unsafe part \<longleftrightarrow> list_ex (\<lambda>c. c \<in> set [CHR ''<'', CHR ''>'', CHR '':'', CHR 0x22, CHR ''|'', CHR ''?'', CHR ''*'']) part \<or>
     (part \<noteq> [] \<and> (last part = CHR ''.'' \<or> last part = CHR '' '')) \<or>
     takeWhile (\<lambda>c. c \<noteq> CHR ''.'') (to_lower part) \<in> set reserved_stems"

definition assertManagedRestorePath :: "bool \<Rightarrow> string \<Rightarrow> unit result" where
  "assertManagedRestorePath windows v =
     bind_result (managedSnapshotPath v) (\<lambda>_.
       if windows \<and> list_ex windows_unsafe (split_on slash (drop 1 v))
       then Throw (AppError 409 ''Snapshot filenames require a POSIX restore destination.'') else Ok ())"

text \<open>\<open>path.posix.basename\<close> and \<open>dirname\<close> of an absolute path without a final slash.\<close>

definition posix_basename :: "string \<Rightarrow> string" where
  "posix_basename s = rev (takeWhile (\<lambda>c. c \<noteq> slash) (rev s))"

definition posix_dirname :: "string \<Rightarrow> string" where
  "posix_dirname s = (let d = rev (drop 1 (dropWhile (\<lambda>c. c \<noteq> slash) (rev s))) in if d = [] then ''/'' else d)"

text \<open>
  The loop over the parents of a path, up to the root.  The test of the lengths only serves the recursion: the parent of
  an absolute path is shorter.
\<close>

fun ancestor_paths :: "string \<Rightarrow> string list" where
  "ancestor_paths p =
     (if p = ''/'' then [] else p # (if length (posix_dirname p) < length p then ancestor_paths (posix_dirname p) else []))"

declare ancestor_paths.simps [simp del]

section \<open>Building an index\<close>

record snapshot_node =
  sn_path :: string
  sn_name :: string
  sn_type :: string
  sn_size :: int
  sn_mtime :: string
  sn_mode :: string

record index_row =
  ir_path :: string
  ir_parent :: string
  ir_name :: string
  ir_type :: string
  ir_size :: int
  ir_modifiedAt :: string
  ir_permissions :: string
  ir_modifiedTime :: int
  ir_isDirectory :: bool

text \<open>\<open>IndexError code reason\<close>; an error of the repository session has a code and perhaps a reason.\<close>

datatype index_error =
    IndexError string string
  | RepositoryError string "string option"

definition reasonMessages :: "(string \<times> string) list" where
  "reasonMessages = [(''unsafe-path'', ''Snapshot metadata contains an unsafe or ambiguous path. Export was refused.''),
     (''invalid-node-name'', ''Snapshot node name does not match its exact path.''),
     (''duplicate-entry'', ''Snapshot metadata contains a duplicate path. Export was refused.''),
     (''invalid-timestamp'', ''Snapshot metadata contains an invalid timestamp.''),
     (''ancestor-conflict'', ''Snapshot metadata places entries below a non-directory node.''),
     (''invalid-size'', ''Snapshot metadata contains an invalid file size.''),
     (''metadata-schema-invalid'', ''Snapshot metadata does not match the supported Restic schema.''),
     (''repository-output-invalid'', ''Repository metadata output is malformed or incomplete.''),
     (''unsupported-node-type'', ''This snapshot contains an unsupported file type (device, FIFO or socket). Complete export and recovery were refused; no entries were omitted.''),
     (''symlink-target-unverified'', ''This snapshot contains symbolic links. The Restic listing does not expose their targets, so safe complete export or recovery cannot be verified. No entries were omitted.''),
     (''host-path-unsupported'', ''Snapshot filenames require a POSIX restore destination.''),
     (''cache-active'', ''Snapshot cache is busy with active readers. Retry after those operations finish.''),
     (''build-busy'', ''Another snapshot is being indexed. Retry shortly.''),
     (''admission-busy'', ''Snapshot cache is busy handling requests. Retry shortly.''),
     (''disk-capacity'', ''Snapshot indexing needs 320 MiB of available cache filesystem space. Free cache filesystem space and retry.''),
     (''database-size'', ''Snapshot metadata index exceeds the bounded database size limit (256 MiB by default).''),
     (''entry-count'', ''Snapshot metadata exceeds the maximum entry count (500,000 by default).''),
     (''cleanup-failed'', ''Snapshot index cleanup failed. Check cache filesystem access and retry.''),
     (''storage-full'', ''SQLite index storage is full or quota-limited. Check available cache capacity and filesystem quota before retrying.''),
     (''timeout'', ''Snapshot indexing timed out. Retry indexing.'')]"

definition code_messages :: "(string \<times> string) list" where
  "code_messages = [(''index-resource-limit'', ''Snapshot index resource limit reached. Retry after other operations finish or free cache space.''),
     (''index-unavailable'', ''Snapshot metadata is unavailable. Retry indexing.''),
     (''metadata-invalid'', ''Snapshot metadata contains invalid or ambiguous records.''),
     (''unsupported-snapshot-file'', ''This snapshot contains an unsafe path or unsupported file type. Only regular files and directories can be downloaded or recovered.''),
     (''snapshot-indexing'', ''Snapshot indexing is in progress. Retry shortly.''),
     (''pagination-required'', ''Use paginated browsing for this snapshot.''),
     (''cancelled'', ''Snapshot operation was cancelled.'')]"

definition error_status :: "string \<Rightarrow> string \<Rightarrow> nat" where
  "error_status code reason =
     (if reason = ''database-size'' \<or> reason = ''entry-count'' then 413
      else if reason = ''disk-capacity'' \<or> reason = ''storage-full'' then 507
      else if reason = ''timeout'' then 504
      else if code = ''index-resource-limit'' then 429
      else if code = ''metadata-invalid'' then 422
      else if code = ''snapshot-indexing'' then 202
      else if code = ''index-unavailable'' then 503
      else 409)"

fun index_app_error :: "index_error \<Rightarrow> app_error" where
  "index_app_error (IndexError code reason) =
     AppError (error_status code reason)
       (case map_of reasonMessages reason of Some m \<Rightarrow> m | None \<Rightarrow> (case map_of code_messages code of Some m \<Rightarrow> m | None \<Rightarrow> []))"
| "index_app_error (RepositoryError code reason) =
     AppError (if code = ''repository-busy'' then 429 else 502) (''Managed repository access failed ('' @ code @ '').'')"

record index_limits =
  il_maxEntries :: int
  il_maxBytes :: int
  il_maxIndexes :: nat
  il_ttlMs :: int
  il_maxBuilds :: nat
  il_pageSize :: int
  il_maxPageSize :: int

definition SNAPSHOT_INDEX_LIMITS :: index_limits where
  "SNAPSHOT_INDEX_LIMITS = \<lparr>il_maxEntries = 500000, il_maxBytes = 256 * 1024 ^ 2, il_maxIndexes = 2, il_ttlMs = 15 * 60000,
     il_maxBuilds = 1, il_pageSize = 200, il_maxPageSize = 500\<rparr>"

record build_env =
  bv_limits :: index_limits
  bv_parseDate :: "string \<Rightarrow> int option"
  bv_bytes :: "index_row list \<Rightarrow> int"
  bv_full :: "index_row list \<Rightarrow> bool"

record build_state =
  bd_nodes :: "index_row list"
  bd_ancestors :: "string list"
  bd_count :: int
  bd_logicalBytes :: int
  bd_bytes :: int

definition empty_build :: build_state where
  "empty_build = \<lparr>bd_nodes = [], bd_ancestors = [], bd_count = 0, bd_logicalBytes = 0, bd_bytes = 0\<rparr>"

definition node_types :: "string list" where
  "node_types = [''file'', ''dir'', ''symlink'', ''dev'', ''chardev'', ''fifo'', ''socket'']"

definition invalid :: "string \<Rightarrow> index_error" where
  "invalid reason = IndexError ''metadata-invalid'' reason"

definition cancelled_build :: index_error where
  "cancelled_build = IndexError ''cancelled'' ''cancelled''"

definition node_row :: "snapshot_node \<Rightarrow> int \<Rightarrow> index_row" where
  "node_row n t = \<lparr>ir_path = sn_path n, ir_parent = (if posix_dirname (sn_path n) = ''/'' then [] else posix_dirname (sn_path n)),
     ir_name = sn_name n, ir_type = sn_type n, ir_size = sn_size n, ir_modifiedAt = sn_mtime n, ir_permissions = sn_mode n,
     ir_modifiedTime = t, ir_isDirectory = (sn_type n = ''dir'')\<rparr>"

text \<open>The checks of a node, and its parsed time.\<close>

definition check_node :: "build_env \<Rightarrow> snapshot_node \<Rightarrow> index_error + int" where
  "check_node env n =
     (if \<not> snapshot_path_ok (sn_path n) then Inl (invalid ''unsafe-path'')
      else if sn_name n \<noteq> posix_basename (sn_path n) then Inl (invalid ''invalid-node-name'')
      else if \<not> (0 \<le> sn_size n \<and> sn_size n \<le> MAX_SAFE_INTEGER) then Inl (invalid ''invalid-size'')
      else if 64 < length (sn_mtime n) then Inl (invalid ''invalid-timestamp'')
      else case bv_parseDate env (sn_mtime n) of
             None \<Rightarrow> Inl (invalid ''invalid-timestamp'')
           | Some t \<Rightarrow> if sn_type n \<notin> set node_types then Inl (invalid ''metadata-schema-invalid'') else Inr t)"

definition appendNode :: "build_env \<Rightarrow> bool \<Rightarrow> snapshot_node \<Rightarrow> build_state \<Rightarrow> index_error + build_state" where
  "appendNode env aborted n st =
     (let l = bv_limits env; count = bd_count st + 1 in
      if aborted then Inl cancelled_build
      else if il_maxBytes l \<le> bd_bytes st then Inl (IndexError ''index-resource-limit'' ''database-size'')
      else if il_maxEntries l < count then Inl (IndexError ''index-resource-limit'' ''entry-count'')
      else case check_node env n of
             Inl e \<Rightarrow> Inl e
           | Inr t \<Rightarrow>
               let logical = bd_logicalBytes st + (if sn_type n = ''file'' then sn_size n else 0); row = node_row n t;
                   nodes = bd_nodes st @ [row] in
               if MAX_SAFE_INTEGER < logical then Inl (invalid ''invalid-size'')
               else if bv_full env (bd_nodes st) then Inl (IndexError ''index-resource-limit'' ''storage-full'')
               else if sn_path n \<in> ir_path ` set (bd_nodes st) then Inl (invalid ''duplicate-entry'')
               else Inr \<lparr>bd_nodes = nodes, bd_ancestors = bd_ancestors st @ ancestor_paths (posix_dirname (sn_path n)), bd_count = count,
                         bd_logicalBytes = logical,
                         bd_bytes = (if count mod 256 = 0 \<or> il_maxBytes l < 1024 ^ 2 then bv_bytes env nodes else bd_bytes st)\<rparr>)"

text \<open>What the repository session sends: nodes (with the state of the abort signal), or an error that ends it.\<close>

datatype build_event =
    NodeEvent bool snapshot_node
  | FailureEvent string "string option"

fun append_all :: "build_env \<Rightarrow> build_event list \<Rightarrow> build_state \<Rightarrow> index_error option \<times> build_state" where
  "append_all env [] st = (None, st)"
| "append_all env (FailureEvent code reason # es) st = (Some (RepositoryError code reason), st)"
| "append_all env (NodeEvent aborted n # es) st =
     (case appendNode env aborted n st of Inl e \<Rightarrow> (Some e, st) | Inr st' \<Rightarrow> append_all env es st')"

definition ancestor_conflict :: "build_state \<Rightarrow> bool" where
  "ancestor_conflict st \<longleftrightarrow> list_ex (\<lambda>r. ir_path r \<in> set (bd_ancestors st) \<and> ir_type r \<noteq> ''dir'') (bd_nodes st)"

text \<open>How an error of the construction is reported; \<open>available\<close> is the free space, when it can be read.\<close>

definition build_failure :: "index_limits \<Rightarrow> int \<Rightarrow> int option \<Rightarrow> index_error \<Rightarrow> index_error" where
  "build_failure l bytes available e =
     (case e of
        IndexError code reason \<Rightarrow>
          if reason = ''storage-full''
          then IndexError ''index-resource-limit''
                 (if il_maxBytes l \<le> bytes then ''database-size''
                  else case available of
                         Some a \<Rightarrow> if a < 64 * 1024 ^ 2 then ''disk-capacity'' else ''storage-full''
                       | None \<Rightarrow> ''storage-full'')
          else e
      | RepositoryError code reason \<Rightarrow>
          if code = ''timeout'' then IndexError ''index-unavailable'' ''timeout''
          else if code = ''cancelled'' then cancelled_build
          else if code = ''invalid-output''
          then invalid (case reason of
                 Some r \<Rightarrow> if r \<in> set [''invalid-size'', ''invalid-timestamp'', ''metadata-schema-invalid'', ''repository-output-invalid'']
                           then r else ''repository-output-invalid''
               | None \<Rightarrow> ''repository-output-invalid'')
          else e)"

text \<open>\<open>free\<close> is the free space before, \<open>left\<close> after a failure; \<open>aborted\<close> the signal after the last node.\<close>

definition build_index :: "build_env \<Rightarrow> int \<Rightarrow> int option \<Rightarrow> build_event list \<Rightarrow> bool \<Rightarrow> index_error + index_row list" where
  "build_index env free left es aborted =
     (let l = bv_limits env in
      if free < il_maxBytes l + 64 * 1024 ^ 2 then Inl (IndexError ''index-resource-limit'' ''disk-capacity'')
      else if il_maxBytes l < 2 * 4096 then Inl (IndexError ''index-resource-limit'' ''database-size'')
      else case append_all env es empty_build of
             (Some e, st) \<Rightarrow> Inl (build_failure l (max (bd_bytes st) (bv_bytes env (bd_nodes st))) left e)
           | (None, st) \<Rightarrow>
               if aborted then Inl cancelled_build
               else if ancestor_conflict st then Inl (invalid ''ancestor-conflict'')
               else Inr (bd_nodes st))"

section \<open>Queries\<close>

definition index_get :: "index_row list \<Rightarrow> string \<Rightarrow> index_row option" where
  "index_get t p = row_by ir_path p t"

text \<open>The paths of a directory as a range: \<open>0\<close> is the character after the slash.\<close>

definition hasDescendant :: "index_row list \<Rightarrow> string \<Rightarrow> bool" where
  "hasDescendant t p \<longleftrightarrow> list_ex (\<lambda>r. p @ ''/'' \<le> ir_path r \<and> ir_path r < p @ ''0'') t"

definition index_files :: "index_row list \<Rightarrow> index_row list" where
  "index_files t = order_by ir_path t"

definition databaseFiles :: "index_row list \<Rightarrow> index_error + index_row list" where
  "databaseFiles t =
     (let fs = filter (\<lambda>r. ir_type r = ''file'' \<and> ''/pluton/database/'' \<le> ir_path r \<and> ir_path r < ''/pluton/database0'') (index_files t) in
      if 8 < length fs then Inl (invalid ''metadata-invalid'') else Inr fs)"

definition typeCounts :: "index_row list \<Rightarrow> (string \<times> nat) list" where
  "typeCounts t = map (\<lambda>ty. (ty, length (filter (\<lambda>r. ir_type r = ty) t))) (order_by id (remdups (map ir_type t)))"

definition index_stats :: "index_row list \<Rightarrow> index_error + (nat \<times> int)" where
  "index_stats t =
     (let fs = filter (\<lambda>r. ir_type r = ''file'') t; bytes = sum_list (map ir_size fs) in
      if MAX_SAFE_INTEGER < bytes then Inl (invalid ''metadata-invalid'') else Inr (length fs, bytes))"

definition unsupported :: "string \<Rightarrow> index_error" where
  "unsupported reason = IndexError ''unsupported-snapshot-file'' reason"

definition assertSafe :: "bool \<Rightarrow> bool \<Rightarrow> index_row list \<Rightarrow> index_error + unit" where
  "assertSafe windows restore t =
     (if list_ex (\<lambda>r. ir_type r \<notin> set [''file'', ''dir'', ''symlink'']) t then Inl (unsupported ''unsupported-node-type'')
      else if list_ex (\<lambda>r. ir_type r = ''symlink'') t then Inl (unsupported ''symlink-target-unverified'')
      else if restore \<and> windows \<and> list_ex (\<lambda>r. isl (assertManagedRestorePath True (ir_path r))) (index_files t)
      then Inl (unsupported ''host-path-unsupported'') else Inr ())"

datatype export_mode = FullExport | RegularFiles

text \<open>An error of the export has a code; a path that the host refuses throws the error of the path.\<close>

datatype export_error = ExportError string | PathError app_error

definition assertExportEntries :: "bool \<Rightarrow> export_mode \<Rightarrow> bool \<Rightarrow> index_row list \<Rightarrow> export_error + unit" where
  "assertExportEntries windows mode restore t =
     (if mode = FullExport \<and> list_ex (\<lambda>ty. ty \<notin> set [''file'', ''dir'', ''symlink'']) (map fst (typeCounts t)) then Inl (ExportError ''unsupported-node-type'')
      else if restore \<and> windows
      then if map_of (typeCounts t) ''symlink'' \<noteq> None then Inl (ExportError ''posix-restore-required'')
           else case find (\<lambda>r. isl (assertManagedRestorePath True (ir_path r))) (index_files t) of
                  None \<Rightarrow> Inr ()
                | Some r \<Rightarrow> (case assertManagedRestorePath True (ir_path r) of Inl e \<Rightarrow> Inl (PathError e) | Inr _ \<Rightarrow> Inr ())
      else Inr ())"

record page_query =
  pq_path :: "string option"
  pq_search :: "string option"
  pq_offset :: "int option"
  pq_limit :: "int option"
  pq_sort :: "string option"
  pq_order :: "string option"
  pq_directoriesOnly :: bool

record snapshot_page =
  xp_files :: "index_row list"
  xp_total :: int
  xp_offset :: int
  xp_limit :: int
  xp_nextOffset :: "int option"
  xp_entries :: int

definition query_invalid :: "page_query \<Rightarrow> bool" where
  "query_invalid q \<longleftrightarrow>
     (case pq_limit q of Some n \<Rightarrow> n < 1 \<or> il_maxPageSize SNAPSHOT_INDEX_LIMITS < n | None \<Rightarrow> False) \<or>
     (case pq_offset q of Some n \<Rightarrow> n < 0 \<or> il_maxEntries SNAPSHOT_INDEX_LIMITS < n | None \<Rightarrow> False) \<or>
     (case pq_search q of Some s \<Rightarrow> 128 < length s | None \<Rightarrow> False) \<or>
     (case pq_sort q of Some s \<Rightarrow> s \<notin> set [''name'', ''size'', ''modifiedAt''] | None \<Rightarrow> False) \<or>
     (case pq_order q of Some s \<Rightarrow> s \<notin> set [''asc'', ''desc''] | None \<Rightarrow> False)"

text \<open>\<open>ORDER BY key ASC\<close> or \<open>DESC\<close>, keeping the order of rows with the same key.\<close>

definition order_dir :: "bool \<Rightarrow> ('r \<Rightarrow> 'k::linorder) \<Rightarrow> 'r list \<Rightarrow> 'r list" where
  "order_dir desc key t = (if desc then rev (order_by key (rev t)) else order_by key t)"

definition ordered_rows :: "page_query \<Rightarrow> index_row list \<Rightarrow> index_row list" where
  "ordered_rows q t =
     (let desc = (pq_order q = Some ''desc''); rows = order_by ir_path t in
      order_by (\<lambda>r. \<not> ir_isDirectory r)
        (if pq_sort q = Some ''size'' then order_dir desc ir_size rows
         else if pq_sort q = Some ''modifiedAt'' then order_dir desc ir_modifiedTime rows
         else order_dir desc (\<lambda>r. to_lower (ir_name r)) rows))"

definition page_match :: "page_query \<Rightarrow> index_row \<Rightarrow> bool" where
  "page_match q r \<longleftrightarrow> ir_parent r = (case pq_path q of None \<Rightarrow> [] | Some p \<Rightarrow> p) \<and>
     includes_text (to_lower (case pq_search q of None \<Rightarrow> [] | Some s \<Rightarrow> s)) (to_lower (ir_name r)) \<and>
     (pq_directoriesOnly q \<longrightarrow> ir_type r = ''dir'')"

definition page_of :: "page_query \<Rightarrow> index_row list \<Rightarrow> snapshot_page" where
  "page_of q t =
     (let rows = filter (page_match q) t; total = int (length rows); offset = (case pq_offset q of None \<Rightarrow> 0 | Some n \<Rightarrow> n);
          limit = (case pq_limit q of None \<Rightarrow> il_pageSize SNAPSHOT_INDEX_LIMITS | Some n \<Rightarrow> n);
          files = take (nat limit) (drop (nat offset) (ordered_rows q rows)) in
      \<lparr>xp_files = files, xp_total = total, xp_offset = offset, xp_limit = limit,
       xp_nextOffset = (if offset + int (length files) < total then Some (offset + int (length files)) else None),
       xp_entries = int (length t)\<rparr>)"

definition index_page :: "page_query \<Rightarrow> index_row list \<Rightarrow> snapshot_page result" where
  "index_page q t =
     (if query_invalid q then Throw (AppError 400 ''Invalid snapshot page parameters.'')
      else case pq_path q of
             None \<Rightarrow> Ok (page_of q t)
           | Some p \<Rightarrow>
               if p = [] then Ok (page_of q t)
               else if \<not> starts_with ''/'' p then Throw (AppError 400 ''Invalid snapshot directory.'')
               else bind_result (managedSnapshotPath p) (\<lambda>_.
                      if map_option ir_type (index_get t p) \<noteq> Some ''dir'' then Throw (AppError 404 ''Snapshot directory not found.'')
                      else Ok (page_of q t)))"

end
