(* ===== verification/Snapshot_Compare.thy ===== *)
theory Snapshot_Compare
  imports Snapshot_Index
begin

text \<open>
  The comparison of two snapshots (\<open>SnapshotComparison.ts\<close>): the paths of both indexes, and the differences that restic
  reports, which must agree with them.  \<open>stop n\<close> is the error that the \<open>n\<close>-th step throws when the work is aborted or the
  private database refuses a write.
\<close>

section \<open>Data\<close>

record comparison_limits =
  cl_maxJobs :: nat
  cl_maxEntries :: int
  cl_ttlMs :: int

definition COMPARISON_LIMITS :: comparison_limits where
  "COMPARISON_LIMITS = \<lparr>cl_maxJobs = 2, cl_maxEntries = 1000000, cl_ttlMs = 15 * 60000\<rparr>"

datatype snapshot_change = ChAdded | ChModified | ChUnchanged | ChDeleted

datatype diff_record =
    ChangeRecord string string
  | StatisticsRecord string string

record comparison_binding =
  cb_currentBackupId :: string
  cb_previousBackupId :: string
  cb_currentSnapshotId :: string
  cb_previousSnapshotId :: string

record compare_row =
  cw_path :: string
  cw_parent :: string
  cw_name :: string
  cw_type :: string
  cw_size :: int
  cw_modifiedAt :: string
  cw_change :: snapshot_change

section \<open>Indexing\<close>

text \<open>\<open>path.slice(0, path.lastIndexOf('/'))\<close>\<close>

definition before_last_slash :: "string \<Rightarrow> string" where
  "before_last_slash s = rev (drop 1 (dropWhile (\<lambda>c. c \<noteq> slash) (rev s)))"

definition compare_entry :: "snapshot_change \<Rightarrow> index_row \<Rightarrow> compare_row" where
  "compare_entry ch f = \<lparr>cw_path = ir_path f, cw_parent = before_last_slash (ir_path f), cw_name = ir_name f, cw_type = ir_type f,
     cw_size = ir_size f, cw_modifiedAt = ir_modifiedAt f, cw_change = ch\<rparr>"

text \<open>\<open>INSERT ... ON CONFLICT(path) DO UPDATE SET change='unchanged'\<close>\<close>

definition insert_entry :: "compare_row \<Rightarrow> compare_row list \<Rightarrow> compare_row list" where
  "insert_entry r t =
     (if cw_path r \<in> cw_path ` set t then update_where (\<lambda>x. cw_path x = cw_path r) (\<lambda>x. x\<lparr>cw_change := ChUnchanged\<rparr>) t else t @ [r])"

fun index_side :: "(int \<Rightarrow> app_error option) \<Rightarrow> snapshot_change \<Rightarrow> index_row list \<Rightarrow> int \<Rightarrow> compare_row list \<Rightarrow> (int \<times> compare_row list) result" where
  "index_side stop ch [] n t = Ok (n, t)"
| "index_side stop ch (f # fs) n t =
     (case stop n of
        Some e \<Rightarrow> Throw e
      | None \<Rightarrow>
          if cl_maxEntries COMPARISON_LIMITS < n + 1 then Throw (AppError 413 ''Snapshot comparison entry limit reached.'')
          else index_side stop ch fs (n + 1) (insert_entry (compare_entry ch f) t))"

section \<open>Comparing\<close>

record compare_state =
  cs_entries :: "compare_row list"
  cs_observed :: "string list"
  cs_summary :: bool
  cs_changes :: int

text \<open>\<open>/^[+\-TMU]+$/\<close>\<close>

definition modifier_ok :: "string \<Rightarrow> bool" where
  "modifier_ok m \<longleftrightarrow> m \<noteq> [] \<and> list_all (\<lambda>c. c \<in> set ''+-TMU'') m"

definition exact_path :: "string \<Rightarrow> string" where
  "exact_path p = (if ends_with ''/'' p then butlast p else p)"

definition evidence_error :: "string \<Rightarrow> app_error" where
  "evidence_error m = AppError 422 m"

definition consume_change :: "index_row list \<Rightarrow> string \<Rightarrow> string \<Rightarrow> compare_state \<Rightarrow> compare_state result" where
  "consume_change previous path modifier st =
     (let p = exact_path path in
      bind_result (managedSnapshotPath p) (\<lambda>_.
        if cl_maxEntries COMPARISON_LIMITS < cs_changes st + 1 \<or> \<not> modifier_ok modifier
        then Throw (evidence_error ''Unsupported snapshot comparison evidence.'')
        else let row = row_by cw_path p (cs_entries st) in
          if ends_with ''/'' path \<and> map_option cw_type row \<noteq> Some ''dir'' \<and> map_option ir_type (index_get previous p) \<noteq> Some ''dir''
          then Throw (evidence_error ''Directory comparison evidence does not match indexed metadata.'')
          else case row of
                 None \<Rightarrow> Throw (evidence_error ''Snapshot comparison disagrees with indexed paths.'')
               | Some r \<Rightarrow>
                   if (modifier = ''+'' \<and> cw_change r \<noteq> ChAdded) \<or> (modifier = ''-'' \<and> cw_change r \<noteq> ChDeleted)
                   then Throw (evidence_error ''Snapshot comparison disagrees with indexed paths.'')
                   else if p \<in> set (cs_observed st) then Throw (evidence_error ''Duplicate snapshot comparison evidence.'')
                   else Ok (st\<lparr>cs_observed := cs_observed st @ [p], cs_changes := cs_changes st + 1,
                          cs_entries := (if cw_change r = ChUnchanged
                             then update_where (\<lambda>x. cw_path x = p) (\<lambda>x. x\<lparr>cw_change := ChModified\<rparr>) (cs_entries st) else cs_entries st)\<rparr>)))"

definition consume :: "comparison_binding \<Rightarrow> index_row list \<Rightarrow> diff_record \<Rightarrow> compare_state \<Rightarrow> compare_state result" where
  "consume b previous d st =
     (if cs_summary st then Throw (evidence_error ''Incomplete or ambiguous snapshot comparison.'')
      else case d of
             StatisticsRecord source target \<Rightarrow>
               if source \<noteq> cb_previousSnapshotId b \<or> target \<noteq> cb_currentSnapshotId b
               then Throw (AppError 409 ''Snapshot comparison identity mismatch.'') else Ok (st\<lparr>cs_summary := True\<rparr>)
           | ChangeRecord path modifier \<Rightarrow> consume_change previous path modifier st)"

fun consume_all ::
  "(int \<Rightarrow> app_error option) \<Rightarrow> comparison_binding \<Rightarrow> index_row list \<Rightarrow> diff_record list \<Rightarrow> int \<Rightarrow> compare_state \<Rightarrow> compare_state result" where
  "consume_all stop b previous [] n st = Ok st"
| "consume_all stop b previous (d # ds) n st =
     (case stop n of Some e \<Rightarrow> Throw e | None \<Rightarrow> bind_result (consume b previous d st) (consume_all stop b previous ds (n + 1)))"

definition unobserved :: "compare_state \<Rightarrow> bool" where
  "unobserved st \<longleftrightarrow> list_ex (\<lambda>r. cw_change r \<in> {ChAdded, ChDeleted} \<and> cw_path r \<notin> set (cs_observed st)) (cs_entries st)"

definition populate ::
  "(int \<Rightarrow> app_error option) \<Rightarrow> comparison_binding \<Rightarrow> index_row list \<Rightarrow> index_row list \<Rightarrow> diff_record list \<Rightarrow> compare_row list result" where
  "populate stop b current previous ds =
     bind_result (index_side stop ChAdded (index_files current) 0 []) (\<lambda>(n, t).
     bind_result (index_side stop ChDeleted (index_files previous) n t) (\<lambda>(n, t).
     bind_result (consume_all stop b previous ds n \<lparr>cs_entries = t, cs_observed = [], cs_summary = False, cs_changes = 0\<rparr>) (\<lambda>st.
       if \<not> cs_summary st \<or> unobserved st then Throw (evidence_error ''Incomplete snapshot comparison evidence.'') else Ok (cs_entries st))))"

section \<open>Pages and summary\<close>

record comparison_query =
  cq_path :: "string option"
  cq_search :: "string option"
  cq_offset :: int
  cq_limit :: int
  cq_sort :: "string option"
  cq_order :: "string option"
  cq_change :: "snapshot_change option"
  cq_recursive :: bool

text \<open>An absent or zero offset is 0, an absent or zero limit 200.  \<open>julianday\<close> of a time that SQLite cannot read is \<open>NULL\<close>.\<close>

definition comparison_invalid :: "comparison_query \<Rightarrow> bool" where
  "comparison_invalid q \<longleftrightarrow>
     cq_offset q < 0 \<or> cl_maxEntries COMPARISON_LIMITS < cq_offset q \<or> cq_limit q < 1 \<or> 200 < cq_limit q \<or>
     (case cq_search q of Some s \<Rightarrow> 128 < length s | None \<Rightarrow> False) \<or>
     (case cq_sort q of Some s \<Rightarrow> s \<noteq> [] \<and> s \<notin> set [''name'', ''size'', ''modifiedAt''] | None \<Rightarrow> False) \<or>
     (case cq_order q of Some s \<Rightarrow> s \<noteq> [] \<and> s \<notin> set [''asc'', ''desc''] | None \<Rightarrow> False)"

definition comparison_match :: "comparison_query \<Rightarrow> compare_row \<Rightarrow> bool" where
  "comparison_match q r \<longleftrightarrow>
     (cq_recursive q \<or> cw_parent r = (case cq_path q of None \<Rightarrow> [] | Some p \<Rightarrow> p)) \<and>
     includes_text (to_lower (case cq_search q of None \<Rightarrow> [] | Some s \<Rightarrow> s)) (to_lower (cw_name r)) \<and>
     (case cq_change q of Some c \<Rightarrow> cw_change r = c | None \<Rightarrow> cw_change r \<noteq> ChDeleted)"

text \<open>\<open>NULL\<close> sorts first.\<close>

definition null_first :: "int option \<Rightarrow> bool \<times> int" where
  "null_first v = (case v of None \<Rightarrow> (False, 0) | Some n \<Rightarrow> (True, n))"

definition compare_ordered :: "(string \<Rightarrow> int option) \<Rightarrow> comparison_query \<Rightarrow> compare_row list \<Rightarrow> compare_row list" where
  "compare_ordered julianday q t =
     (let desc = (cq_order q = Some ''desc''); rows = order_by cw_path t in
      order_by (\<lambda>r. cw_type r \<noteq> ''dir'')
        (if cq_sort q = Some ''size'' then order_dir desc cw_size rows
         else if cq_sort q = Some ''modifiedAt'' then order_dir desc (\<lambda>r. null_first (julianday (cw_modifiedAt r))) rows
         else order_dir desc (\<lambda>r. to_lower (cw_name r)) rows))"

record compared_entry =
  cf_row :: compare_row
  cf_isAvailable :: bool
  cf_snapshotId :: string
  cf_backupId :: string

definition compared_file :: "comparison_binding \<Rightarrow> compare_row \<Rightarrow> compared_entry" where
  "compared_file b r = \<lparr>cf_row = r, cf_isAvailable = (cw_change r \<noteq> ChDeleted),
     cf_snapshotId = (if cw_change r = ChDeleted then cb_previousSnapshotId b else cb_currentSnapshotId b),
     cf_backupId = (if cw_change r = ChDeleted then cb_previousBackupId b else cb_currentBackupId b)\<rparr>"

record comparison_page =
  cp_files :: "compared_entry list"
  cp_total :: int
  cp_nextOffset :: "int option"

definition compare_page :: "(string \<Rightarrow> int option) \<Rightarrow> comparison_binding \<Rightarrow> comparison_query \<Rightarrow> compare_row list \<Rightarrow> comparison_page result" where
  "compare_page julianday b q t =
     (if comparison_invalid q then Throw (AppError 400 ''Invalid comparison page.'')
      else bind_result (case cq_path q of None \<Rightarrow> Ok [] | Some p \<Rightarrow> if p = [] then Ok [] else managedSnapshotPath p) (\<lambda>_.
        let rows = filter (comparison_match q) t; total = int (length rows);
            files = take (nat (cq_limit q)) (drop (nat (cq_offset q)) (compare_ordered julianday q rows));
            end = cq_offset q + int (length files) in
        Ok \<lparr>cp_files = map (compared_file b) files, cp_total = total, cp_nextOffset = (if end < total then Some end else None)\<rparr>))"

record comparison_counts =
  cy_added :: nat
  cy_modified :: nat
  cy_unchanged :: nat
  cy_deleted :: nat
  cy_addedLogicalBytes :: int
  cy_removedLogicalBytes :: int

definition files_with :: "snapshot_change \<Rightarrow> compare_row list \<Rightarrow> compare_row list" where
  "files_with c t = filter (\<lambda>r. cw_type r = ''file'' \<and> cw_change r = c) t"

definition comparison_summary :: "compare_row list \<Rightarrow> comparison_counts" where
  "comparison_summary t =
     \<lparr>cy_added = length (files_with ChAdded t), cy_modified = length (files_with ChModified t), cy_unchanged = length (files_with ChUnchanged t),
      cy_deleted = length (files_with ChDeleted t), cy_addedLogicalBytes = sum_list (map cw_size (files_with ChAdded t)),
      cy_removedLogicalBytes = sum_list (map cw_size (files_with ChDeleted t))\<rparr>"

end
