(* ===== verification/Snapshot_Cache.thy ===== *)
theory Snapshot_Cache
  imports Snapshot_Compare
begin

text \<open>
  The caches of snapshot indexes (\<open>ManagedSnapshotIndexCache\<close>) and of comparisons (\<open>SnapshotComparisonCache\<close>).  An action
  that the cache runs exclusively is one step: while it waits for the file system, readers can only leave and builds can
  only settle, and both are steps of their own.  \<open>cleanup key\<close> tells whether the files of an entry can be removed.  The
  limit on waiting actions and the preparation of the private directory are left out.
\<close>

section \<open>Indexes\<close>

record cache_entry =
  ce_generation :: string
  ce_background :: bool
  ce_index :: "index_row list option"
  ce_error :: "index_error option"
  ce_updated :: int
  ce_used :: int
  ce_readers :: nat
  ce_settled :: bool
  ce_started :: int

record index_cache =
  ic_entries :: "(string \<times> cache_entry) list"
  ic_sequence :: int
  ic_builds :: nat
  ic_closed :: bool

definition empty_cache :: index_cache where
  "empty_cache = \<lparr>ic_entries = [], ic_sequence = 0, ic_builds = 0, ic_closed = False\<rparr>"

definition resource_limit :: "string \<Rightarrow> index_error" where
  "resource_limit reason = IndexError ''index-resource-limit'' reason"

definition index_unavailable :: "string \<Rightarrow> index_error" where
  "index_unavailable reason = IndexError ''index-unavailable'' reason"

definition set_cached :: "string \<Rightarrow> (cache_entry \<Rightarrow> cache_entry) \<Rightarrow> index_cache \<Rightarrow> index_cache" where
  "set_cached key f c = c\<lparr>ic_entries := map (\<lambda>(k, e). (k, if k = key then f e else e)) (ic_entries c)\<rparr>"

definition cache_status :: "string \<Rightarrow> index_cache \<Rightarrow> string" where
  "cache_status key c =
     (case map_of (ic_entries c) key of
        None \<Rightarrow> ''missing''
      | Some e \<Rightarrow> if ce_index e \<noteq> None then ''ready'' else if ce_error e \<noteq> None then ''failed'' else ''indexing'')"

definition cache_inspect :: "index_limits \<Rightarrow> int \<Rightarrow> string \<Rightarrow> index_cache \<Rightarrow> (string \<times> string \<times> int) option" where
  "cache_inspect l now key c =
     (case map_of (ic_entries c) key of
        None \<Rightarrow> None
      | Some e \<Rightarrow>
          if 0 < ce_readers e \<or> \<not> ce_settled e \<or> now - ce_updated e < il_ttlMs l
          then Some (cache_status key c, ce_generation e, max 0 ((if ce_settled e then ce_updated e else now) - ce_started e)) else None)"

text \<open>The removal of an entry; a failed one leaves its error in the entry and closes the index.\<close>

definition remove_entry :: "(string \<Rightarrow> bool) \<Rightarrow> string \<Rightarrow> cache_entry \<Rightarrow> index_cache \<Rightarrow> index_error option \<times> index_cache" where
  "remove_entry cleanup key e c =
     (if 0 < ce_readers e \<or> \<not> ce_settled e then (Some (resource_limit ''cache-active''), c)
      else if cleanup key then (None, c\<lparr>ic_entries := filter (\<lambda>(k, _). k \<noteq> key) (ic_entries c)\<rparr>)
      else (Some (index_unavailable ''cleanup-failed''),
            set_cached key (\<lambda>e. e\<lparr>ce_index := None, ce_error := Some (index_unavailable ''cleanup-failed'')\<rparr>) c))"

definition expired_entry :: "index_limits \<Rightarrow> int \<Rightarrow> cache_entry \<Rightarrow> bool" where
  "expired_entry l now e \<longleftrightarrow> ce_readers e = 0 \<and> ce_settled e \<and> il_ttlMs l \<le> now - ce_updated e"

fun expire_all :: "index_limits \<Rightarrow> (string \<Rightarrow> bool) \<Rightarrow> int \<Rightarrow> (string \<times> cache_entry) list \<Rightarrow> index_cache \<Rightarrow> index_error option \<times> index_cache" where
  "expire_all l cleanup now [] c = (None, c)"
| "expire_all l cleanup now ((key, e) # es) c =
     (if expired_entry l now e
      then case remove_entry cleanup key e c of (Some err, c') \<Rightarrow> (Some err, c') | (None, c') \<Rightarrow> expire_all l cleanup now es c'
      else expire_all l cleanup now es c)"

definition expire_entries :: "index_limits \<Rightarrow> (string \<Rightarrow> bool) \<Rightarrow> int \<Rightarrow> index_cache \<Rightarrow> index_error option \<times> index_cache" where
  "expire_entries l cleanup now c = expire_all l cleanup now (ic_entries c) c"

text \<open>The least recently used entry that nobody reads or builds.\<close>

definition cache_victim :: "index_cache \<Rightarrow> (string \<times> cache_entry) option" where
  "cache_victim c = (case order_by (\<lambda>(k, e). ce_used e) (filter (\<lambda>(k, e). ce_settled e \<and> ce_readers e = 0) (ic_entries c)) of
     [] \<Rightarrow> None | v # _ \<Rightarrow> Some v)"

definition make_room :: "index_limits \<Rightarrow> (string \<Rightarrow> bool) \<Rightarrow> index_cache \<Rightarrow> index_error option \<times> index_cache" where
  "make_room l cleanup c =
     (if length (ic_entries c) < il_maxIndexes l then (None, c)
      else case cache_victim c of None \<Rightarrow> (Some (resource_limit ''cache-active''), c) | Some (k, e) \<Rightarrow> remove_entry cleanup k e c)"

text \<open>
  Entries are removed until the disk has room; \<open>free n\<close> is the free space with \<open>n\<close> entries.  Every round removes an entry
  or ends.
\<close>

fun free_disk :: "index_limits \<Rightarrow> (string \<Rightarrow> bool) \<Rightarrow> (nat \<Rightarrow> int) \<Rightarrow> nat \<Rightarrow> index_cache \<Rightarrow> index_error option \<times> index_cache" where
  "free_disk l cleanup free 0 c = (if free (length (ic_entries c)) < il_maxBytes l + 64 * 1024 ^ 2 then (Some (resource_limit ''disk-capacity''), c) else (None, c))"
| "free_disk l cleanup free (Suc n) c =
     (if free (length (ic_entries c)) < il_maxBytes l + 64 * 1024 ^ 2
      then case cache_victim c of
             None \<Rightarrow> (Some (resource_limit ''disk-capacity''), c)
           | Some (k, e) \<Rightarrow>
               (case remove_entry cleanup k e c of (Some err, c') \<Rightarrow> (Some err, c') | (None, c') \<Rightarrow> free_disk l cleanup free n c')
      else (None, c))"

definition new_entry :: "string \<Rightarrow> bool \<Rightarrow> int \<Rightarrow> int \<Rightarrow> cache_entry" where
  "new_entry generation background now used = \<lparr>ce_generation = generation, ce_background = background, ce_index = None, ce_error = None,
     ce_updated = now, ce_used = used, ce_readers = 0, ce_settled = False, ce_started = now\<rparr>"

text \<open>A failed entry that may be tried again is removed first.\<close>

definition drop_failed :: "(string \<Rightarrow> bool) \<Rightarrow> string \<Rightarrow> bool \<Rightarrow> index_cache \<Rightarrow> index_error option \<times> index_cache" where
  "drop_failed cleanup key retry c =
     (case map_of (ic_entries c) key of
        None \<Rightarrow> (None, c)
      | Some e \<Rightarrow>
          if ce_error e \<noteq> None \<and> retry \<and> ce_readers e = 0 \<and> ce_settled e then remove_entry cleanup key e c else (None, c))"

definition admit_entry ::
  "index_limits \<Rightarrow> (string \<Rightarrow> bool) \<Rightarrow> (nat \<Rightarrow> int) \<Rightarrow> int \<Rightarrow> string \<Rightarrow> string \<Rightarrow> bool \<Rightarrow> index_cache \<Rightarrow> index_error option \<times> index_cache" where
  "admit_entry l cleanup free now generation key background c =
     (if il_maxBuilds l \<le> ic_builds c then (Some (resource_limit ''build-busy''), c)
      else case make_room l cleanup c of
             (Some err, c1) \<Rightarrow> (Some err, c1)
           | (None, c1) \<Rightarrow>
               (case free_disk l cleanup free (length (ic_entries c1)) c1 of
                  (Some err, c2) \<Rightarrow> (Some err, c2)
                | (None, c2) \<Rightarrow>
                    (None, c2\<lparr>ic_entries := ic_entries c2 @ [(key, new_entry generation background now (ic_sequence c2 + 1))],
                              ic_sequence := ic_sequence c2 + 1, ic_builds := ic_builds c2 + 1\<rparr>)))"

definition touch_entry :: "bool \<Rightarrow> bool \<Rightarrow> int \<Rightarrow> string \<Rightarrow> index_cache \<Rightarrow> index_cache" where
  "touch_entry background lease now key c = set_cached key (\<lambda>e. e\<lparr>ce_background := (ce_background e \<or> background), ce_updated := now,
     ce_used := ic_sequence c + 1, ce_readers := ce_readers e + (if lease then 1 else 0)\<rparr>) (c\<lparr>ic_sequence := ic_sequence c + 1\<rparr>)"

definition acquire ::
  "index_limits \<Rightarrow> (string \<Rightarrow> bool) \<Rightarrow> (nat \<Rightarrow> int) \<Rightarrow> int \<Rightarrow> string \<Rightarrow> string \<Rightarrow> bool \<Rightarrow> bool \<Rightarrow> bool \<Rightarrow> index_cache
   \<Rightarrow> index_error option \<times> index_cache" where
  "acquire l cleanup free now generation key background lease retry c =
     (if ic_closed c \<or> \<not> hex_string 64 key then (Some (index_unavailable ''unavailable''), c)
      else case expire_entries l cleanup now c of
             (Some err, c1) \<Rightarrow> (Some err, c1)
           | (None, c1) \<Rightarrow>
               (case drop_failed cleanup key retry c1 of
                  (Some err, c2) \<Rightarrow> (Some err, c2)
                | (None, c2) \<Rightarrow>
                    (case map_of (ic_entries c2) key of
                       Some e \<Rightarrow>
                         (case ce_error e of Some err \<Rightarrow> (Some err, c2) | None \<Rightarrow> (None, touch_entry background lease now key c2))
                     | None \<Rightarrow>
                         (case admit_entry l cleanup free now generation key background c2 of
                            (Some err, c3) \<Rightarrow> (Some err, c3)
                          | (None, c3) \<Rightarrow> (None, touch_entry background lease now key c3)))))"

definition useReady :: "index_limits \<Rightarrow> (string \<Rightarrow> bool) \<Rightarrow> int \<Rightarrow> string \<Rightarrow> string \<Rightarrow> index_cache \<Rightarrow> app_error option \<times> index_cache" where
  "useReady l cleanup now key generation c =
     (if ic_closed c then (Some (index_app_error (index_unavailable ''unavailable'')), c)
      else case expire_entries l cleanup now c of
             (Some err, c1) \<Rightarrow> (Some (index_app_error err), c1)
           | (None, c1) \<Rightarrow>
               (case map_of (ic_entries c1) key of
                  None \<Rightarrow> (Some (AppError 409 ''Download preparation expired. Prepare this snapshot again.''), c1)
                | Some e \<Rightarrow>
                    if ce_index e = None \<or> ce_generation e \<noteq> generation
                    then (Some (AppError 409 ''Download preparation expired. Prepare this snapshot again.''), c1)
                    else (None, set_cached key (\<lambda>e. e\<lparr>ce_readers := ce_readers e + 1, ce_used := ic_sequence c1 + 1\<rparr>)
                                  (c1\<lparr>ic_sequence := ic_sequence c1 + 1\<rparr>))))"

definition cache_retry :: "index_limits \<Rightarrow> (string \<Rightarrow> bool) \<Rightarrow> int \<Rightarrow> string \<Rightarrow> index_cache \<Rightarrow> index_error option \<times> index_cache" where
  "cache_retry l cleanup now key c =
     (if ic_closed c then (Some (index_unavailable ''unavailable''), c)
      else case drop_failed cleanup key True c of (Some err, c1) \<Rightarrow> (Some err, c1) | (None, c1) \<Rightarrow> expire_entries l cleanup now c1)"

text \<open>The \<open>finally\<close> block of a reader, and the end of a build.\<close>

definition release_reader :: "int \<Rightarrow> string \<Rightarrow> index_cache \<Rightarrow> index_cache" where
  "release_reader now key c = set_cached key (\<lambda>e. e\<lparr>ce_readers := ce_readers e - 1, ce_updated := now, ce_used := ic_sequence c + 1\<rparr>)
     (c\<lparr>ic_sequence := ic_sequence c + 1\<rparr>)"

definition settle_build :: "int \<Rightarrow> string \<Rightarrow> index_error + index_row list \<Rightarrow> index_cache \<Rightarrow> index_cache" where
  "settle_build now key outcome c = set_cached key (\<lambda>e. (case outcome of Inl err \<Rightarrow> e\<lparr>ce_error := Some err\<rparr> | Inr t \<Rightarrow> e\<lparr>ce_index := Some t\<rparr>)
       \<lparr>ce_settled := True, ce_updated := now, ce_used := ic_sequence c + 1\<rparr>)
     (c\<lparr>ic_sequence := ic_sequence c + 1, ic_builds := ic_builds c - 1\<rparr>)"

text \<open>
  \<open>close\<close> refuses new actions and stops the builds; once every build has settled it waits for the readers of each entry and
  removes it.
\<close>

definition begin_close :: "index_cache \<Rightarrow> index_cache" where
  "begin_close c = c\<lparr>ic_closed := True\<rparr>"

definition close_entry :: "(string \<Rightarrow> bool) \<Rightarrow> string \<Rightarrow> index_cache \<Rightarrow> index_error option \<times> index_cache" where
  "close_entry cleanup key c =
     (case map_of (ic_entries c) key of
        None \<Rightarrow> (None, c)
      | Some e \<Rightarrow>
          if ic_closed c \<and> list_all (\<lambda>(_, x). ce_settled x) (ic_entries c) \<and> ce_readers e = 0 then remove_entry cleanup key e c else (None, c))"

section \<open>Comparisons\<close>

datatype job_state = JPreparing | JReady | JFailed | JCancelled

record compare_job =
  cj_binding :: comparison_binding
  cj_state :: job_state
  cj_started :: int
  cj_updated :: int
  cj_entries :: "compare_row list"

text \<open>The jobs in the order of their insertion.\<close>

record compare_cache =
  cc_jobs :: "(string \<times> compare_job) list"
  cc_closed :: bool

definition drop_job :: "string \<Rightarrow> compare_cache \<Rightarrow> compare_cache" where
  "drop_job key c = c\<lparr>cc_jobs := filter (\<lambda>(k, _). k \<noteq> key) (cc_jobs c)\<rparr>"

definition stale_job :: "int \<Rightarrow> compare_job \<Rightarrow> bool" where
  "stale_job now j \<longleftrightarrow> cl_ttlMs COMPARISON_LIMITS < now - cj_updated j"

text \<open>\<open>status\<close>: the binding and the state, \<open>None\<close> for a missing job.\<close>

definition job_status :: "int \<Rightarrow> string \<Rightarrow> compare_cache \<Rightarrow> (comparison_binding \<times> job_state \<times> comparison_counts option) option" where
  "job_status now key c =
     (case map_of (cc_jobs c) key of
        None \<Rightarrow> None
      | Some j \<Rightarrow>
          if stale_job now j then None
          else Some (cj_binding j, cj_state j, if cj_state j = JReady then Some (comparison_summary (cj_entries j)) else None))"

definition new_job :: "comparison_binding \<Rightarrow> int \<Rightarrow> compare_job" where
  "new_job b now = \<lparr>cj_binding = b, cj_state = JPreparing, cj_started = now, cj_updated = now, cj_entries = []\<rparr>"

definition admit_job :: "int \<Rightarrow> string \<Rightarrow> comparison_binding \<Rightarrow> bool \<Rightarrow> compare_cache \<Rightarrow> compare_cache result" where
  "admit_job now key b retry c =
     (if cc_closed c then Throw (AppError 503 ''Snapshot comparisons are unavailable.'')
      else if (case map_of (cc_jobs c) key of
                 None \<Rightarrow> False
               | Some old \<Rightarrow> now - cj_updated old < cl_ttlMs COMPARISON_LIMITS \<and> \<not> (retry \<and> cj_state old \<in> {JFailed, JCancelled})) then Ok c
      else if list_ex (\<lambda>(_, j). cj_state j = JPreparing) (cc_jobs c)
      then Throw (AppError 429 ''Another snapshot comparison is running. Retry shortly.'')
      else let c1 = drop_job key c; c2 = c1\<lparr>cc_jobs := filter (\<lambda>(_, j). \<not> stale_job now j) (cc_jobs c1)\<rparr>;
               c3 = (if cl_maxJobs COMPARISON_LIMITS \<le> length (cc_jobs c2) then drop_job (fst (hd (cc_jobs c2))) c2 else c2) in
           Ok (c3\<lparr>cc_jobs := cc_jobs c3 @ [(key, new_job b now)]\<rparr>))"

text \<open>The end of the work of a job: its entries, or a failure; \<open>aborted\<close> is the signal of the job.\<close>

definition finish_job :: "int \<Rightarrow> string \<Rightarrow> bool \<Rightarrow> compare_row list result \<Rightarrow> compare_cache \<Rightarrow> compare_cache" where
  "finish_job now key aborted outcome c = c\<lparr>cc_jobs := map (\<lambda>(k, j). (k, if k = key \<and> cj_state j = JPreparing
     then (case outcome of
             Inr t \<Rightarrow> if aborted then j\<lparr>cj_state := JCancelled\<rparr> else j\<lparr>cj_state := JReady, cj_entries := t\<rparr>
           | Inl _ \<Rightarrow> j\<lparr>cj_state := (if aborted then JCancelled else JFailed)\<rparr>)\<lparr>cj_updated := now\<rparr> else j)) (cc_jobs c)\<rparr>"

definition cache_page ::
  "(string \<Rightarrow> int option) \<Rightarrow> int \<Rightarrow> string \<Rightarrow> comparison_query \<Rightarrow> compare_cache \<Rightarrow> comparison_page result" where
  "cache_page julianday now key q c =
     (case map_of (cc_jobs c) key of
        None \<Rightarrow> Throw (AppError 409 ''Snapshot comparison expired or unavailable.'')
      | Some j \<Rightarrow>
          if cj_state j \<noteq> JReady \<or> stale_job now j then Throw (AppError 409 ''Snapshot comparison expired or unavailable.'')
          else compare_page julianday (cj_binding j) q (cj_entries j))"

text \<open>A cancelled job is aborted and waited for.\<close>

definition cancel_job :: "int \<Rightarrow> string \<Rightarrow> compare_cache \<Rightarrow> compare_cache" where
  "cancel_job now key c = finish_job now key True (Inl (PlainError ''aborted'')) c"

definition expire_jobs :: "int \<Rightarrow> compare_cache \<Rightarrow> compare_cache" where
  "expire_jobs now c = c\<lparr>cc_jobs := filter (\<lambda>(_, j). cj_state j = JPreparing \<or> \<not> stale_job now j) (cc_jobs c)\<rparr>"

definition close_jobs :: "compare_cache \<Rightarrow> compare_cache" where
  "close_jobs c = \<lparr>cc_jobs = [], cc_closed = True\<rparr>"

end
