(* ===== verification/Snapshot_Guarantees.thy ===== *)
theory Snapshot_Guarantees
  imports Snapshot_Cache
begin

text \<open>
  The guarantees of snapshot indexes and comparisons: an index is the complete tree that was sent, a directory is a range
  of paths, pages list every entry once, a comparison classifies every path as the two snapshots and the reported
  differences say, and the caches keep their limits and what is in use.
\<close>

section \<open>Paths as lists of segments\<close>

definition path_of :: "string list \<Rightarrow> string" where
  "path_of segs = concat (map (\<lambda>s. slash # s) segs)"

lemma path_of_simps [simp]: "path_of [] = []" "path_of (s # segs) = slash # s @ path_of segs" "path_of (xs @ ys) = path_of xs @ path_of ys"
  by (simp_all add: path_of_def)

lemma path_of_split: "path_of (split_on slash s) = slash # s"
proof (induction s)
  case (Cons c s)
  then show ?case by (cases "split_on slash s") auto
qed simp

lemma part_no_slash: "part \<in> set (split_on slash s) \<Longrightarrow> slash \<notin> set part"
proof (induction s arbitrary: part)
  case (Cons c s)
  then show ?case by (cases "split_on slash s") (auto split: if_splits)
qed simp

definition good_segs :: "string list \<Rightarrow> bool" where
  "good_segs segs \<longleftrightarrow> segs \<noteq> [] \<and> (\<forall>s \<in> set segs. s \<noteq> [] \<and> slash \<notin> set s)"

lemma snapshot_path_segs: "snapshot_path_ok p \<Longrightarrow> \<exists>segs. p = path_of segs \<and> good_segs segs"
proof -
  assume ok: "snapshot_path_ok p"
  then obtain r where p: "p = slash # r" by (cases p) (auto simp: snapshot_path_ok_def starts_with_def)
  have "good_segs (split_on slash r)" using ok part_no_slash by (auto simp: snapshot_path_ok_def good_segs_def p list_ex_iff)
  then show ?thesis using path_of_split [of r] p by metis
qed

lemma last_segment: "slash \<notin> set s \<Longrightarrow> takeWhile (\<lambda>c. c \<noteq> slash) (rev (q @ slash # s)) = rev s"
    "slash \<notin> set s \<Longrightarrow> dropWhile (\<lambda>c. c \<noteq> slash) (rev (q @ slash # s)) = slash # rev q"
  by (simp_all add: takeWhile_append dropWhile_append)

lemma posix_split:
  assumes "slash \<notin> set s"
  shows "posix_basename (q @ slash # s) = s" "posix_dirname (q @ slash # s) = (if q = [] then ''/'' else q)"
    "before_last_slash (q @ slash # s) = q"
  using last_segment [OF assms, of q] by (simp_all add: posix_basename_def posix_dirname_def before_last_slash_def)

lemma path_of_nonempty: "good_segs segs \<Longrightarrow> path_of segs \<noteq> [] \<and> path_of segs \<noteq> ''/''"
  by (cases segs) (auto simp: good_segs_def)

lemma ancestors_of_dir:
  "good_segs segs \<Longrightarrow> ancestor_paths (path_of segs) = map (\<lambda>k. path_of (take k segs)) (rev [1..<Suc (length segs)])"
proof (induction segs rule: rev_induct)
  case (snoc s segs)
  have s: "slash \<notin> set s" "path_of (segs @ [s]) \<noteq> ''/''" using snoc.prems path_of_nonempty [OF snoc.prems] by (simp_all add: good_segs_def)
  have d: "posix_dirname (path_of (segs @ [s])) = (if path_of segs = [] then ''/'' else path_of segs)" using posix_split(2) [OF s(1)] by simp
  show ?case
  proof (cases "segs = []")
    case True
    have "s \<noteq> []" using snoc.prems by (simp add: good_segs_def)
    then show ?thesis using d s True ancestor_paths.simps [of "path_of [s]"] ancestor_paths.simps [of "''/''"] by (cases s) simp_all
  next
    case False
    then have g: "good_segs segs" using snoc.prems by (simp add: good_segs_def)
    have "ancestor_paths (path_of (segs @ [s])) = path_of (segs @ [s]) # ancestor_paths (path_of segs)"
      using d s path_of_nonempty [OF g] ancestor_paths.simps [of "path_of (segs @ [s])"] by simp
    also have "\<dots> = path_of (segs @ [s]) # map (\<lambda>k. path_of (take k (segs @ [s]))) (rev [1..<Suc (length segs)])"
      using snoc.IH [OF g] by (auto simp: set_upt simp del: upt.simps)
    finally show ?thesis by simp
  qed
qed (simp add: good_segs_def)

text \<open>The ancestors that an index collects for a path are the paths above it.\<close>

lemma ancestors_above:
  assumes "good_segs segs" "d \<noteq> []" "starts_with (d @ ''/'') (path_of segs)"
  shows "d \<in> set (ancestor_paths (posix_dirname (path_of segs)))"
proof -
  have "d \<noteq> [] \<Longrightarrow> starts_with (d @ ''/'') (path_of segs) \<Longrightarrow> \<exists>k. 1 \<le> k \<and> k < length segs \<and> d = path_of (take k segs)" if "good_segs segs" for d segs
    using that
  proof (induction segs rule: rev_induct)
    case (snoc s segs)
    then obtain r where r: "path_of segs @ slash # s = d @ slash # r" by (auto simp: starts_with_iff)
    have s: "slash \<notin> set s" using snoc.prems by (simp add: good_segs_def)
    from r consider "path_of segs = d" | x where "path_of segs = d @ slash # x" | x where "d = path_of segs @ x" "slash # s = x @ slash # r" "x \<noteq> []"
    proof -
      consider us where "path_of segs = d @ us" "us @ slash # s = slash # r" | us where "d = path_of segs @ us" "slash # s = us @ slash # r"
        using r by (auto simp: append_eq_append_conv2)
      then show thesis
      proof cases
        case (1 us)
        then show thesis using that(1,2) by (cases us) auto
      next
        case (2 us)
        then show thesis using that(1,3) by (cases us) auto
      qed
    qed
    then show ?case
    proof cases
      case 1
      then have "segs \<noteq> []" using snoc.prems by auto
      then show ?thesis using 1 by (intro exI [of _ "length segs"]) (simp add: Suc_le_eq)
    next
      case 2
      then have "segs \<noteq> []" by auto
      then have "good_segs segs" "starts_with (d @ ''/'') (path_of segs)" using snoc.prems 2 by (auto simp: good_segs_def starts_with_iff)
      then obtain k where "1 \<le> k" "k < length segs" "d = path_of (take k segs)" using snoc.IH snoc.prems(1) by blast
      then show ?thesis by (intro exI [of _ k]) simp
    next
      case 3
      then have "slash \<in> set s" by (cases x) auto
      then show ?thesis using s by simp
    qed
  qed (simp add: good_segs_def)
  from this [OF assms] obtain k where k: "1 \<le> k" "k < length segs" "d = path_of (take k segs)" by blast
  obtain init s where segs: "segs = init @ [s]" using k(2) by (cases segs rule: rev_cases) auto
  have init: "good_segs init" "slash \<notin> set s" using assms(1) k segs by (auto simp: good_segs_def)
  have "posix_dirname (path_of segs) = path_of init" using posix_split(2) [OF init(2)] path_of_nonempty [OF init(1)] segs by simp
  moreover have "d = path_of (take k init)" "k \<in> {1..<Suc (length init)}" using k segs by auto
  ultimately show ?thesis using ancestors_of_dir [OF init(1)] by (simp only: set_map set_rev set_upt) blast
qed

section \<open>An index is the tree that was sent\<close>

definition index_row_ok :: "index_row \<Rightarrow> bool" where
  "index_row_ok r \<longleftrightarrow> snapshot_path_ok (ir_path r) \<and> ir_path r = ir_parent r @ ''/'' @ ir_name r \<and> slash \<notin> set (ir_name r) \<and>
     0 \<le> ir_size r \<and> ir_type r \<in> set node_types \<and> (ir_isDirectory r \<longleftrightarrow> ir_type r = ''dir'')"

definition file_bytes :: "index_row list \<Rightarrow> int" where
  "file_bytes t = sum_list (map ir_size (filter (\<lambda>r. ir_type r = ''file'') t))"

definition build_ok :: "build_env \<Rightarrow> build_state \<Rightarrow> bool" where
  "build_ok env st \<longleftrightarrow> distinct (map ir_path (bd_nodes st)) \<and> (\<forall>r \<in> set (bd_nodes st). index_row_ok r) \<and>
     set (bd_ancestors st) = (\<Union>r \<in> set (bd_nodes st). set (ancestor_paths (posix_dirname (ir_path r)))) \<and>
     bd_count st = int (length (bd_nodes st)) \<and> (bd_nodes st = [] \<or> bd_count st \<le> il_maxEntries (bv_limits env)) \<and>
     bd_logicalBytes st = file_bytes (bd_nodes st) \<and> bd_logicalBytes st \<le> MAX_SAFE_INTEGER"

lemma check_node_row:
  assumes "check_node env n = Inr t"
  shows "index_row_ok (node_row n t)"
proof -
  have c: "snapshot_path_ok (sn_path n)" "sn_name n = posix_basename (sn_path n)" "0 \<le> sn_size n" "sn_type n \<in> set node_types"
    using assms by (auto simp: check_node_def split: if_splits option.splits)
  obtain segs where segs: "sn_path n = path_of segs" "good_segs segs" using snapshot_path_segs [OF c(1)] by blast
  obtain init s where s: "segs = init @ [s]" using segs(2) by (metis append_butlast_last_id good_segs_def)
  have ns: "slash \<notin> set s" using segs(2) s by (simp add: good_segs_def)
  have p: "sn_path n = path_of init @ slash # s" using segs(1) s by simp
  have "path_of init \<noteq> ''/''" using segs(2) s path_of_nonempty [of init] by (cases "init = []") (auto simp: good_segs_def)
  then have "ir_parent (node_row n t) = path_of init" using posix_split(2) [OF ns, of "path_of init"] p by (auto simp: node_row_def)
  then show ?thesis using c ns posix_split(1) [OF ns, of "path_of init"] p by (simp add: index_row_ok_def node_row_def)
qed

lemma appended:
  assumes "appendNode env aborted n st = Inr st'" "build_ok env st"
  shows "build_ok env st' \<and> (\<exists>t. bd_nodes st' = bd_nodes st @ [node_row n t])"
proof -
  obtain t where t: "check_node env n = Inr t" and new: "sn_path n \<notin> ir_path ` set (bd_nodes st)"
    and st': "bd_nodes st' = bd_nodes st @ [node_row n t]" "bd_ancestors st' = bd_ancestors st @ ancestor_paths (posix_dirname (sn_path n))"
      "bd_count st' = bd_count st + 1" "bd_logicalBytes st' = bd_logicalBytes st + (if sn_type n = ''file'' then sn_size n else 0)"
      "bd_count st' \<le> il_maxEntries (bv_limits env)" "bd_logicalBytes st' \<le> MAX_SAFE_INTEGER"
    using assms(1) by (auto simp: appendNode_def Let_def split: if_splits sum.splits)
  have "ir_path (node_row n t) = sn_path n" "ir_size (node_row n t) = sn_size n" "ir_type (node_row n t) = sn_type n" by (simp_all add: node_row_def)
  then show ?thesis using assms(2) check_node_row [OF t] new st' by (auto simp: build_ok_def file_bytes_def)
qed

fun event_nodes :: "build_event list \<Rightarrow> snapshot_node list" where
  "event_nodes [] = []"
| "event_nodes (NodeEvent _ n # es) = n # event_nodes es"
| "event_nodes (FailureEvent _ _ # es) = event_nodes es"

definition node_facts :: "snapshot_node \<Rightarrow> string \<times> string \<times> string \<times> int \<times> string" where
  "node_facts n = (sn_path n, sn_name n, sn_type n, sn_size n, sn_mtime n)"

definition row_facts_of :: "index_row \<Rightarrow> string \<times> string \<times> string \<times> int \<times> string" where
  "row_facts_of r = (ir_path r, ir_name r, ir_type r, ir_size r, ir_modifiedAt r)"

lemma appended_all:
  "append_all env es st = (None, st') \<Longrightarrow> build_ok env st \<Longrightarrow>
   build_ok env st' \<and> map row_facts_of (bd_nodes st') = map row_facts_of (bd_nodes st) @ map node_facts (event_nodes es)"
proof (induction env es st rule: append_all.induct)
  case (3 env aborted n es st)
  then obtain st1 where st1: "appendNode env aborted n st = Inr st1" "append_all env es st1 = (None, st')" by (auto split: sum.splits)
  obtain t where t: "bd_nodes st1 = bd_nodes st @ [node_row n t]" "build_ok env st1" using appended [OF st1(1) 3(3)] by blast
  have "row_facts_of (node_row n t) = node_facts n" by (simp add: row_facts_of_def node_facts_def node_row_def)
  then show ?case using 3(1) [OF st1(1,2) t(2)] t(1) by simp
qed auto

lemma empty_build_ok: "build_ok env empty_build"
  by (simp add: build_ok_def empty_build_def file_bytes_def MAX_SAFE_INTEGER_def)

lemma above_is_dir:
  assumes "build_ok env st" "\<not> ancestor_conflict st" "d \<in> set (bd_nodes st)" "r \<in> set (bd_nodes st)" "starts_with (ir_path d @ ''/'') (ir_path r)"
  shows "ir_type d = ''dir''"
proof -
  obtain segs where segs: "ir_path r = path_of segs" "good_segs segs"
    using assms(1,4) snapshot_path_segs by (metis build_ok_def index_row_ok_def)
  have "ir_path d \<noteq> []" using assms(1,3) by (auto simp: build_ok_def index_row_ok_def snapshot_path_ok_def starts_with_def)
  then have "ir_path d \<in> set (ancestor_paths (posix_dirname (ir_path r)))" using ancestors_above [OF segs(2)] assms(5) segs(1) by simp
  then have "ir_path d \<in> set (bd_ancestors st)" using assms(1,4) by (auto simp: build_ok_def)
  then show ?thesis using assms(2,3) by (auto simp: ancestor_conflict_def list_ex_iff)
qed

text \<open>
  C22: An index is complete and a tree.  An index that is handed out has exactly the nodes that the repository sent, in
  their order and none left out, with distinct safe paths that are their parent and their name; nothing lies below an
  entry that is not a directory; the number of entries keeps the limit and the total size is a safe integer.
\<close>

theorem snapshot_index_sound:
  assumes "build_index env free left es aborted = Inr t"
  shows "map row_facts_of t = map node_facts (event_nodes es) \<and> distinct (map ir_path t) \<and>
    (\<forall>r \<in> set t. snapshot_path_ok (ir_path r) \<and> ir_path r = ir_parent r @ ''/'' @ ir_name r \<and> slash \<notin> set (ir_name r)) \<and>
    (\<forall>d \<in> set t. \<forall>r \<in> set t. starts_with (ir_path d @ ''/'') (ir_path r) \<longrightarrow> ir_type d = ''dir'') \<and>
    (t = [] \<or> int (length t) \<le> il_maxEntries (bv_limits env)) \<and> file_bytes t \<le> MAX_SAFE_INTEGER"
proof -
  obtain st where st: "append_all env es empty_build = (None, st)" "\<not> ancestor_conflict st" "t = bd_nodes st"
    using assms by (auto simp: build_index_def Let_def split: if_splits prod.splits option.splits)
  note ok = appended_all [OF st(1) empty_build_ok]
  then have b: "build_ok env st" by simp
  show ?thesis using ok above_is_dir [OF b st(2)] unfolding st(3) by (auto simp: build_ok_def index_row_ok_def empty_build_def)
qed

section \<open>A directory is a range of paths\<close>

lemma char_between: "CHR ''/'' \<le> c \<Longrightarrow> c < CHR ''0'' \<Longrightarrow> c = CHR ''/''"
proof -
  assume "CHR ''/'' \<le> c" "c < CHR ''0''"
  then have "of_char c = (of_char (CHR ''/'') :: nat)" by (simp add: less_eq_char_def less_char_def)
  then show ?thesis by (simp only: of_char_eq_iff)
qed

lemma range_prefix: "p @ ''/'' \<le> s \<and> s < p @ ''0'' \<longleftrightarrow> starts_with (p @ ''/'') s"
proof (induction p arbitrary: s)
  case Nil
  show ?case
  proof (cases s)
    case (Cons c r)
    have "''/'' \<le> s \<and> s < ''0'' \<longleftrightarrow> c = CHR ''/''"
      using char_between [of c] Cons by (auto simp: less_char_def)
    then show ?thesis using Cons by (simp add: starts_with_def)
  qed (simp add: starts_with_def)
next
  case (Cons x p)
  show ?case
  proof (cases s)
    case (Cons c r)
    then show ?thesis using Cons.IH [of r] by (auto simp: starts_with_def)
  qed (simp add: starts_with_def)
qed

text \<open>
  The query by a range of paths is exact: it finds an entry below a directory if and only if the path of some entry
  continues that of the directory by a slash.
\<close>

theorem descendant_range_exact: "hasDescendant t p \<longleftrightarrow> list_ex (\<lambda>r. starts_with (p @ ''/'') (ir_path r)) t"
  by (simp only: hasDescendant_def range_prefix)

section \<open>Pages\<close>

lemma mset_order_by [simp]: "mset (order_by key t) = mset t"
  by (simp add: order_by_def)

lemma mset_order_dir [simp]: "mset (order_dir desc key t) = mset t"
  by (simp add: order_dir_def)

lemma mset_ordered_rows [simp]: "mset (ordered_rows q t) = mset t"
  by (simp add: ordered_rows_def Let_def)

lemma ordered_offset [simp]: "ordered_rows (q\<lparr>pq_offset := o'\<rparr>) t = ordered_rows q t" "page_match (q\<lparr>pq_offset := o'\<rparr>) = page_match q"
  by (simp_all add: ordered_rows_def Let_def page_match_def fun_eq_iff)

text \<open>A reader that follows the next offset, for at most \<open>n\<close> pages.\<close>

fun read_index :: "nat \<Rightarrow> page_query \<Rightarrow> index_row list \<Rightarrow> index_row list" where
  "read_index 0 q t = []"
| "read_index (Suc n) q t =
     (case index_page q t of
        Inl e \<Rightarrow> []
      | Inr p \<Rightarrow> xp_files p @ (case xp_nextOffset p of None \<Rightarrow> [] | Some i \<Rightarrow> read_index n (q\<lparr>pq_offset := Some i\<rparr>) t))"

definition page_limit :: "page_query \<Rightarrow> int" where
  "page_limit q = (case pq_limit q of None \<Rightarrow> 200 | Some n \<Rightarrow> n)"

definition query_ok :: "page_query \<Rightarrow> index_row list \<Rightarrow> bool" where
  "query_ok q t \<longleftrightarrow> (\<exists>p. index_page q t = Ok p)"

lemma page_given:
  assumes "query_ok q t" "0 \<le> i" "i \<le> 500000"
  shows "index_page (q\<lparr>pq_offset := Some i\<rparr>) t = Ok (page_of (q\<lparr>pq_offset := Some i\<rparr>) t)"
proof -
  have "\<not> query_invalid q" using assms(1) by (auto simp: query_ok_def index_page_def)
  then have "\<not> query_invalid (q\<lparr>pq_offset := Some i\<rparr>)" using assms(2,3) by (simp add: query_invalid_def SNAPSHOT_INDEX_LIMITS_def)
  then show ?thesis using assms(1) by (auto simp: query_ok_def index_page_def bind_result_Inr_iff split: option.splits if_splits)
qed

lemma limit_positive: "query_ok q t \<Longrightarrow> 1 \<le> page_limit q"
  by (auto simp: query_ok_def index_page_def query_invalid_def page_limit_def split: option.splits if_splits)

lemma read_rest:
  assumes "query_ok q t" "length t \<le> 500000" "i \<le> length t" "length t - i < n"
  shows "read_index n (q\<lparr>pq_offset := Some (int i)\<rparr>) t = drop i (ordered_rows q (filter (page_match q) t))"
  using assms(3,4)
proof (induction n arbitrary: i)
  case (Suc n)
  let ?rows = "ordered_rows q (filter (page_match q) t)" and ?l = "nat (page_limit q)"
  have len: "length ?rows = length (filter (page_match q) t)" by (metis mset_ordered_rows size_mset)
  have le: "length ?rows \<le> length t" using len by simp
  have l: "0 < ?l" using limit_positive [OF assms(1)] by simp
  have lim: "(case pq_limit q of None \<Rightarrow> il_pageSize SNAPSHOT_INDEX_LIMITS | Some n \<Rightarrow> n) = page_limit q"
    by (simp add: page_limit_def SNAPSHOT_INDEX_LIMITS_def split: option.split)
  let ?p = "page_of (q\<lparr>pq_offset := Some (int i)\<rparr>) t"
  have p: "index_page (q\<lparr>pq_offset := Some (int i)\<rparr>) t = Ok ?p" using page_given [OF assms(1)] Suc.prems(1) assms(2) by simp
  have f: "xp_files ?p = take ?l (drop i ?rows)" using lim by (simp add: page_of_def Let_def)
  have "xp_nextOffset ?p = (if i + length (xp_files ?p) < length ?rows then Some (int (i + length (xp_files ?p))) else None)"
    unfolding f using lim len by (auto simp: page_of_def Let_def)
  then show ?case
  proof (cases "i + length (xp_files ?p) < length ?rows")
    case True
    then have "length (xp_files ?p) = ?l" unfolding f by simp
    then have "read_index n (q\<lparr>pq_offset := Some (int (i + ?l))\<rparr>) t = drop (i + ?l) ?rows"
      using Suc.IH [of "i + ?l"] Suc.prems True l le by simp
    moreover have "read_index (Suc n) (q\<lparr>pq_offset := Some (int i)\<rparr>) t = xp_files ?p @ read_index n (q\<lparr>pq_offset := Some (int (i + ?l))\<rparr>) t"
      using True p \<open>length (xp_files ?p) = ?l\<close> \<open>xp_nextOffset ?p = _\<close> by simp
    moreover have "take ?l (drop i ?rows) @ drop (i + ?l) ?rows = drop i ?rows" by (metis add.commute append_take_drop_id drop_drop)
    ultimately show ?thesis by (simp only: f)
  next
    case False
    then have "xp_nextOffset ?p = None" using \<open>xp_nextOffset ?p = _\<close> by (simp only: if_False)
    moreover have "take ?l (drop i ?rows) = drop i ?rows" using False unfolding f by (auto simp: min_def split: if_splits)
    ultimately show ?thesis using p f by simp
  qed
qed simp

text \<open>
  The pages of a directory are complete.  Following the next offset from the first page of a query that is accepted
  gives every entry of the index that the query selects, each as often as the index has it and none twice, in the one
  order of the query, after at most one page more than the index has entries.
\<close>

theorem index_pages_complete:
  assumes "index_page q t = Ok p" "pq_offset q = None" "length t \<le> 500000" "length t < n"
  shows "read_index n q t = ordered_rows q (filter (page_match q) t) \<and>
    mset (read_index n q t) = mset (filter (page_match q) t)"
proof -
  have ok: "query_ok q t" using assms(1) by (auto simp: query_ok_def)
  have "page_of (q\<lparr>pq_offset := Some 0\<rparr>) t = page_of q t" using assms(2) by (simp add: page_of_def Let_def)
  moreover have "p = page_of q t" using assms(1) by (auto simp: index_page_def bind_result_Inr_iff split: option.splits if_splits)
  ultimately have "index_page (q\<lparr>pq_offset := Some 0\<rparr>) t = Ok p" using page_given [OF ok, of 0] by simp
  then have "read_index n q t = read_index n (q\<lparr>pq_offset := Some (int 0)\<rparr>) t"
    using assms(1) by (cases n) (simp_all split: option.split)
  then show ?thesis using read_rest [OF ok assms(3), of 0 n] assms(4) by simp
qed

section \<open>A comparison classifies every path\<close>

lemma row_by_other: "p \<noteq> k \<Longrightarrow> map_option (\<lambda>x. if cw_path x = k then f x else x) (row_by cw_path p t) = row_by cw_path p t"
  by (cases "row_by cw_path p t") (auto dest: row_by_SomeD)

lemma row_by_insert_entry:
  "row_by cw_path p (insert_entry r t) =
   (if p = cw_path r then (case row_by cw_path p t of None \<Rightarrow> Some r | Some x \<Rightarrow> Some (x\<lparr>cw_change := ChUnchanged\<rparr>)) else row_by cw_path p t)"
proof (cases "cw_path r \<in> cw_path ` set t")
  case True
  have u: "row_by cw_path p (update_where (\<lambda>x. cw_path x = cw_path r) (\<lambda>x. x\<lparr>cw_change := ChUnchanged\<rparr>) t) =
      map_option (\<lambda>x. if cw_path x = cw_path r then x\<lparr>cw_change := ChUnchanged\<rparr> else x) (row_by cw_path p t)"
    by (rule row_by_update_where) simp
  obtain x where x: "row_by cw_path (cw_path r) t = Some x" using True row_by_None_iff [of cw_path "cw_path r" t] by (cases "row_by cw_path (cw_path r) t") auto
  show ?thesis
  proof (cases "p = cw_path r")
    case eq: True
    then show ?thesis using True x row_by_SomeD [OF x] u by (simp add: insert_entry_def)
  next
    case False
    then show ?thesis using True u row_by_other [OF False] by (simp add: insert_entry_def)
  qed
next
  case False
  then have "row_by cw_path (cw_path r) t = None" by (auto simp: row_by_None_iff)
  then show ?thesis using False by (auto simp: insert_entry_def row_by_append split: option.splits)
qed

lemma insert_entry_distinct: "distinct (map cw_path t) \<Longrightarrow> distinct (map cw_path (insert_entry r t))"
  by (auto simp: insert_entry_def map_update_where)

lemma index_side_rows:
  "index_side stop ch fs n t = Ok (n', t') \<Longrightarrow> distinct (map ir_path fs) \<Longrightarrow>
   row_by cw_path p t' = (case index_get fs p of
      None \<Rightarrow> row_by cw_path p t
    | Some f \<Rightarrow> (case row_by cw_path p t of None \<Rightarrow> Some (compare_entry ch f) | Some x \<Rightarrow> Some (x\<lparr>cw_change := ChUnchanged\<rparr>)))"
proof (induction stop ch fs n t rule: index_side.induct)
  case (2 stop ch f fs n t)
  then have step: "index_side stop ch fs (n + 1) (insert_entry (compare_entry ch f) t) = Ok (n', t')" "distinct (map ir_path fs)"
    and ih: "row_by cw_path p t' = (case index_get fs p of
      None \<Rightarrow> row_by cw_path p (insert_entry (compare_entry ch f) t)
    | Some g \<Rightarrow> (case row_by cw_path p (insert_entry (compare_entry ch f) t) of None \<Rightarrow> Some (compare_entry ch g) | Some x \<Rightarrow> Some (x\<lparr>cw_change := ChUnchanged\<rparr>)))"
    by (auto split: option.splits if_splits)
  have path: "cw_path (compare_entry ch f) = ir_path f" by (simp add: compare_entry_def)
  have new: "index_get fs (ir_path f) = None" using 2(3) by (auto simp: index_get_def row_by_None_iff)
  show ?case using ih new by (cases "p = ir_path f") (auto simp: index_get_def row_by_insert_entry path split: option.splits)
qed (simp add: index_get_def)

lemma index_side_distinct: "index_side stop ch fs n t = Ok (n', t') \<Longrightarrow> distinct (map cw_path t) \<Longrightarrow> distinct (map cw_path t')"
  by (induction stop ch fs n t rule: index_side.induct) (auto split: option.splits if_splits intro: insert_entry_distinct)

lemma index_get_files: "distinct (map ir_path t) \<Longrightarrow> index_get (index_files t) p = index_get t p"
proof -
  assume d: "distinct (map ir_path t)"
  have d': "distinct (map ir_path (index_files t))"
    using d by (simp add: index_files_def order_by_def distinct_map)
  show ?thesis
  proof (cases "index_get t p")
    case None
    then have "p \<notin> ir_path ` set (index_files t)" by (simp add: index_get_def index_files_def row_by_None_iff)
    then show ?thesis using None by (simp add: index_get_def row_by_None_iff [symmetric])
  next
    case (Some r)
    then have "r \<in> set (index_files t)" "ir_path r = p" by (auto simp: index_get_def index_files_def dest: row_by_SomeD)
    then show ?thesis using row_by_unique [OF d', of r] Some by (simp add: index_get_def)
  qed
qed

text \<open>The paths of the reported differences.\<close>

fun reported :: "diff_record list \<Rightarrow> string list" where
  "reported [] = []"
| "reported (ChangeRecord p m # ds) = exact_path p # reported ds"
| "reported (StatisticsRecord s u # ds) = reported ds"

definition mark :: "bool \<Rightarrow> compare_row \<Rightarrow> compare_row" where
  "mark seen r = (if seen \<and> cw_change r = ChUnchanged then r\<lparr>cw_change := ChModified\<rparr> else r)"

lemma mark_no [simp]: "map_option (mark False) v = v"
  by (cases v) (simp_all add: mark_def)

definition marked :: "compare_row list \<Rightarrow> compare_state \<Rightarrow> bool" where
  "marked t st \<longleftrightarrow> (\<forall>p. row_by cw_path p (cs_entries st) = map_option (mark (p \<in> set (cs_observed st))) (row_by cw_path p t)) \<and>
     distinct (map cw_path (cs_entries st)) \<and> distinct (cs_observed st)"

lemma consume_change_marked:
  assumes "consume_change previous path modifier st = Ok st'" "marked t st" "\<And>p r. row_by cw_path p t = Some r \<Longrightarrow> cw_change r \<noteq> ChModified"
  shows "marked t st' \<and> cs_observed st' = cs_observed st @ [exact_path path] \<and> cs_summary st' = cs_summary st"
proof -
  let ?p = "exact_path path"
  obtain r where r: "row_by cw_path ?p (cs_entries st) = Some r" and new: "?p \<notin> set (cs_observed st)"
    and st': "cs_observed st' = cs_observed st @ [?p]" "cs_summary st' = cs_summary st"
      "cs_entries st' = (if cw_change r = ChUnchanged then update_where (\<lambda>x. cw_path x = ?p) (\<lambda>x. x\<lparr>cw_change := ChModified\<rparr>) (cs_entries st) else cs_entries st)"
    using assms(1) by (auto simp: consume_change_def Let_def bind_result_Inr_iff split: option.splits if_splits)
  have r0: "row_by cw_path ?p t = Some r" using assms(2) r new by (auto simp: marked_def mark_def)
  have u: "row_by cw_path p (update_where (\<lambda>x. cw_path x = ?p) (\<lambda>x. x\<lparr>cw_change := ChModified\<rparr>) (cs_entries st)) =
      map_option (\<lambda>x. if cw_path x = ?p then x\<lparr>cw_change := ChModified\<rparr> else x) (row_by cw_path p (cs_entries st))" for p
    by (rule row_by_update_where) simp
  have "row_by cw_path p (cs_entries st') = map_option (mark (p \<in> set (cs_observed st'))) (row_by cw_path p t)" for p
  proof (cases "p = ?p")
    case True
    have "cw_path r = ?p" using row_by_SomeD [OF r] by simp
    then show ?thesis using True r r0 u [of ?p] st' by (simp add: mark_def)
  next
    case False
    then have "map_option (\<lambda>x. if cw_path x = ?p then x\<lparr>cw_change := ChModified\<rparr> else x) (row_by cw_path p (cs_entries st)) = row_by cw_path p (cs_entries st)"
      by (rule row_by_other)
    moreover have "row_by cw_path p (cs_entries st) = map_option (mark (p \<in> set (cs_observed st))) (row_by cw_path p t)" using assms(2) by (simp add: marked_def)
    ultimately show ?thesis using False u [of p] st' by simp
  qed
  moreover have "distinct (map cw_path (cs_entries st'))" using assms(2) st'(3) by (simp add: marked_def map_update_where)
  ultimately show ?thesis using assms(2) new st' by (simp add: marked_def)
qed

lemma consume_all_marked:
  assumes "\<And>p r. row_by cw_path p t = Some r \<Longrightarrow> cw_change r \<noteq> ChModified"
  shows "consume_all stop b previous ds n st = Ok st' \<Longrightarrow> marked t st \<Longrightarrow>
    marked t st' \<and> cs_observed st' = cs_observed st @ reported ds \<and>
    (cs_summary st' \<longrightarrow> cs_summary st \<or> (ds \<noteq> [] \<and> last ds = StatisticsRecord (cb_previousSnapshotId b) (cb_currentSnapshotId b)))"
proof (induction stop b previous ds n st rule: consume_all.induct)
  case (2 stop b previous d ds n st)
  then obtain st1 where st1: "stop n = None" "consume b previous d st = Ok st1" "consume_all stop b previous ds (n + 1) st1 = Ok st'"
    by (auto simp: bind_result_Inr_iff split: option.splits)
  have open_: "\<not> cs_summary st" using st1(2) by (auto simp: consume_def split: if_splits)
  show ?case
  proof (cases d)
    case (ChangeRecord path m)
    then have m: "marked t st1" "cs_observed st1 = cs_observed st @ [exact_path path]" "cs_summary st1 = cs_summary st"
      using consume_change_marked [OF _ 2(3) assms] st1(2) open_ by (auto simp: consume_def)
    show ?thesis using 2(1) [OF st1(1,3) m(1)] m open_ ChangeRecord by auto
  next
    case (StatisticsRecord s u)
    then have s1: "st1 = st\<lparr>cs_summary := True\<rparr>" "s = cb_previousSnapshotId b" "u = cb_currentSnapshotId b"
      using st1(2) open_ by (auto simp: consume_def split: if_splits)
    have "marked t st1" using 2(3) s1(1) by (simp add: marked_def)
    moreover have "ds = []" using st1(3) s1(1) by (cases ds) (auto simp: consume_def bind_result_def split: option.splits)
    ultimately show ?thesis using 2(1) [OF st1(1,3)] s1 StatisticsRecord by simp
  qed
qed simp

lemma populate_parts:
  assumes "populate stop b current previous ds = Ok t"
  obtains n t1 n2 t2 st where "index_side stop ChAdded (index_files current) 0 [] = Ok (n, t1)"
    "index_side stop ChDeleted (index_files previous) n t1 = Ok (n2, t2)"
    "consume_all stop b previous ds n2 \<lparr>cs_entries = t2, cs_observed = [], cs_summary = False, cs_changes = 0\<rparr> = Ok st"
    "cs_summary st" "\<not> unobserved st" "t = cs_entries st"
  using assms by (auto simp: populate_def bind_result_Inr_iff split: if_splits)

lemma distinct_files: "distinct (map ir_path t) \<Longrightarrow> distinct (map ir_path (index_files t))"
  by (simp add: index_files_def order_by_def distinct_map)

definition classified :: "index_row list \<Rightarrow> index_row list \<Rightarrow> string \<Rightarrow> bool \<Rightarrow> compare_row option" where
  "classified current previous p seen =
     (case (index_get current p, index_get previous p) of
        (Some f, Some g) \<Rightarrow> Some (compare_entry (if seen then ChModified else ChUnchanged) f)
      | (Some f, None) \<Rightarrow> Some (compare_entry ChAdded f)
      | (None, Some g) \<Rightarrow> Some (compare_entry ChDeleted g)
      | (None, None) \<Rightarrow> None)"

lemma sides_classified:
  assumes "index_side stop ChAdded (index_files current) 0 [] = Ok (n, t1)" "index_side stop ChDeleted (index_files previous) n t1 = Ok (n2, t2)"
    "distinct (map ir_path current)" "distinct (map ir_path previous)"
  shows "row_by cw_path p t2 = classified current previous p False"
  using index_side_rows [OF assms(1) distinct_files [OF assms(3)], of p] index_side_rows [OF assms(2) distinct_files [OF assms(4)], of p]
  by (simp add: index_get_files [OF assms(3)] index_get_files [OF assms(4)] classified_def compare_entry_def split: option.splits)

lemma mark_classified: "map_option (mark seen) (classified current previous p False) = classified current previous p seen"
  by (simp add: classified_def mark_def compare_entry_def split: option.split)

lemma unmarked: "classified current previous p False = Some r \<Longrightarrow> cw_change r \<noteq> ChModified"
  by (auto simp: classified_def compare_entry_def split: option.splits)

lemma one_sided_reported:
  assumes "\<not> unobserved st" "row_by cw_path p (cs_entries st) = classified current previous p seen"
    "(index_get current p = None) \<noteq> (index_get previous p = None)"
  shows "p \<in> set (cs_observed st)"
proof -
  obtain r where r: "classified current previous p seen = Some r" "cw_change r \<in> {ChAdded, ChDeleted}"
    using assms(3) by (cases "index_get current p"; cases "index_get previous p") (auto simp: classified_def compare_entry_def)
  then show ?thesis using assms(1,2) row_by_SomeD [of cw_path p "cs_entries st" r] by (auto simp: unobserved_def list_ex_iff)
qed

text \<open>
  C23: A comparison classifies every path.  When a comparison is ready, every path of either snapshot has one entry and no
  other path has one: a path of both is modified if and only if restic reported it and unchanged otherwise, with the newer
  metadata, a path of the newer only is added, of the older only deleted.  restic reported no path twice and every path
  that is only in one snapshot, and its last record names the two snapshots in their order.
\<close>

theorem comparison_classifies:
  assumes "populate stop b current previous ds = Ok t" "distinct (map ir_path current)" "distinct (map ir_path previous)"
  shows "row_by cw_path p t =
      (case (index_get current p, index_get previous p) of
         (Some f, Some g) \<Rightarrow> Some (compare_entry (if p \<in> set (reported ds) then ChModified else ChUnchanged) f)
       | (Some f, None) \<Rightarrow> Some (compare_entry ChAdded f)
       | (None, Some g) \<Rightarrow> Some (compare_entry ChDeleted g)
       | (None, None) \<Rightarrow> None) \<and>
    distinct (map cw_path t) \<and> distinct (reported ds) \<and>
    ((index_get current p = None) = (index_get previous p = None) \<or> p \<in> set (reported ds)) \<and>
    ds \<noteq> [] \<and> last ds = StatisticsRecord (cb_previousSnapshotId b) (cb_currentSnapshotId b)"
proof -
  obtain n t1 n2 t2 st where s: "index_side stop ChAdded (index_files current) 0 [] = Ok (n, t1)"
    "index_side stop ChDeleted (index_files previous) n t1 = Ok (n2, t2)"
    "consume_all stop b previous ds n2 \<lparr>cs_entries = t2, cs_observed = [], cs_summary = False, cs_changes = 0\<rparr> = Ok st"
    "cs_summary st" "\<not> unobserved st" "t = cs_entries st" using populate_parts [OF assms(1)] by blast
  have c: "row_by cw_path q t2 = classified current previous q False" for q by (rule sides_classified [OF s(1,2) assms(2,3)])
  have d: "distinct (map cw_path t2)" using index_side_distinct [OF s(2)] index_side_distinct [OF s(1)] by simp
  have "marked t2 \<lparr>cs_entries = t2, cs_observed = [], cs_summary = False, cs_changes = 0\<rparr>"
    using d by (simp add: marked_def mark_no)
  note m = consume_all_marked [OF _ s(3) this]
  have m': "marked t2 st" "cs_observed st = reported ds" "ds \<noteq> [] \<and> last ds = StatisticsRecord (cb_previousSnapshotId b) (cb_currentSnapshotId b)"
    using m unmarked s(4) c by auto
  have r: "row_by cw_path p t = classified current previous p (p \<in> set (reported ds))"
    using m'(1,2) c mark_classified s(6) by (simp add: marked_def)
  have one: "(index_get current p = None) = (index_get previous p = None) \<or> p \<in> set (reported ds)"
    using one_sided_reported [OF s(5), of p current previous "p \<in> set (reported ds)"] r s(6) m'(2) by metis
  have "distinct (map cw_path t)" "distinct (reported ds)" using m'(1,2) s(6) by (simp_all add: marked_def)
  then show ?thesis using r one m'(3) by (simp only: classified_def simp_thms)
qed

section \<open>Examples\<close>

definition sample_node :: "string \<Rightarrow> string \<Rightarrow> string \<Rightarrow> int \<Rightarrow> snapshot_node" where
  "sample_node p n t bytes = \<lparr>sn_path = p, sn_name = n, sn_type = t, sn_size = bytes, sn_mtime = ''2024-01-01T00:00:00Z'', sn_mode = ''-rw-r--r--''\<rparr>"

definition sample_file :: "string \<Rightarrow> string \<Rightarrow> string \<Rightarrow> string \<Rightarrow> int \<Rightarrow> index_row" where
  "sample_file p parent n t bytes = \<lparr>ir_path = p, ir_parent = parent, ir_name = n, ir_type = t, ir_size = bytes,
     ir_modifiedAt = ''2024-01-01T00:00:00Z'', ir_permissions = ''-rw-r--r--'', ir_modifiedTime = 0, ir_isDirectory = (t = ''dir'')\<rparr>"

definition sample_build :: build_env where
  "sample_build = \<lparr>bv_limits = SNAPSHOT_INDEX_LIMITS, bv_parseDate = (\<lambda>_. Some 0), bv_bytes = (\<lambda>_. 0), bv_full = (\<lambda>_. False)\<rparr>"

definition sample_events :: "build_event list" where
  "sample_events = [NodeEvent False (sample_node ''/a'' ''a'' ''dir'' 0), NodeEvent False (sample_node ''/a/b'' ''b'' ''file'' 3)]"

definition sample_index :: "index_row list" where
  "sample_index = [sample_file ''/a'' [] ''a'' ''dir'' 0, sample_file ''/a/b'' ''/a'' ''b'' ''file'' 3]"

definition older_index :: "index_row list" where
  "older_index = [sample_file ''/a'' [] ''a'' ''dir'' 0, sample_file ''/c'' [] ''c'' ''file'' 5]"

definition sample_page :: page_query where
  "sample_page = \<lparr>pq_path = Some ''/a'', pq_search = None, pq_offset = None, pq_limit = Some 1, pq_sort = None, pq_order = None, pq_directoriesOnly = False\<rparr>"

definition sample_pair :: comparison_binding where
  "sample_pair = \<lparr>cb_currentBackupId = ''n'', cb_previousBackupId = ''o'', cb_currentSnapshotId = ''new'', cb_previousSnapshotId = ''old''\<rparr>"

definition sample_diff :: "diff_record list" where
  "sample_diff = [ChangeRecord ''/a/'' ''U'', ChangeRecord ''/a/b'' ''+'', ChangeRecord ''/c'' ''-'', StatisticsRecord ''old'' ''new'']"

definition sample_rows :: "compare_row list" where
  "sample_rows = [compare_entry ChModified (sample_file ''/a'' [] ''a'' ''dir'' 0), compare_entry ChAdded (sample_file ''/a/b'' ''/a'' ''b'' ''file'' 3),
     compare_entry ChDeleted (sample_file ''/c'' [] ''c'' ''file'' 5)]"

lemma sample_built: "build_index sample_build 500000000 None sample_events False = Inr sample_index"
  by code_simp

lemma sample_paged: "index_page sample_page sample_index = Ok (page_of sample_page sample_index)"
  by code_simp

lemma sample_compared: "populate (\<lambda>_. None) sample_pair sample_index older_index sample_diff = Ok sample_rows"
  by code_simp

text \<open>The theorems on two small snapshots.\<close>

theorem snapshot_index_sound_witness:
  "build_index sample_build 500000000 None sample_events False = Inr sample_index \<and>
   map row_facts_of sample_index = map node_facts (event_nodes sample_events) \<and> distinct (map ir_path sample_index)"
  using snapshot_index_sound [OF sample_built] sample_built by simp

theorem index_pages_complete_witness:
  "index_page sample_page sample_index = Ok (page_of sample_page sample_index) \<and>
   read_index 3 sample_page sample_index = ordered_rows sample_page (filter (page_match sample_page) sample_index)"
  using index_pages_complete [OF sample_paged, of 3] sample_paged by (simp add: sample_page_def sample_index_def)

theorem comparison_classifies_witness:
  "populate (\<lambda>_. None) sample_pair sample_index older_index sample_diff = Ok sample_rows \<and>
   row_by cw_path ''/c'' sample_rows = Some (compare_entry ChDeleted (sample_file ''/c'' [] ''c'' ''file'' 5))"
proof -
  have d: "distinct (map ir_path sample_index)" "distinct (map ir_path older_index)"
    by (simp_all add: sample_index_def older_index_def sample_file_def)
  have g: "index_get sample_index ''/c'' = None" "index_get older_index ''/c'' = Some (sample_file ''/c'' [] ''c'' ''file'' 5)"
    by (simp_all add: index_get_def sample_index_def older_index_def sample_file_def)
  show ?thesis using comparison_classifies [OF sample_compared d, of "''/c''"] sample_compared g by simp
qed

end
