(* ===== verification/Snapshot_Cache_Guarantees.thy ===== *)
theory Snapshot_Cache_Guarantees
  imports Snapshot_Cache
begin

text \<open>
  The guarantees of the two caches: their limits hold in every reachable state, and an index that somebody reads or
  builds is never taken away.
\<close>

section \<open>Entries in use\<close>

definition pinned :: "string \<times> cache_entry \<Rightarrow> bool" where
  "pinned ke \<longleftrightarrow> 0 < ce_readers (snd ke) \<or> \<not> ce_settled (snd ke)"

definition cached_ok :: "cache_entry \<Rightarrow> bool" where
  "cached_ok e \<longleftrightarrow> (if ce_settled e then (ce_index e = None) \<noteq> (ce_error e = None) else ce_index e = None \<and> ce_error e = None)"

definition keys_ok :: "index_cache \<Rightarrow> bool" where
  "keys_ok c \<longleftrightarrow> distinct (map fst (ic_entries c)) \<and> (\<forall>ke \<in> set (ic_entries c). cached_ok (snd ke))"

text \<open>What a removal of entries keeps: everything that is in use.\<close>

definition cleans :: "index_cache \<Rightarrow> index_cache \<Rightarrow> bool" where
  "cleans c c' \<longleftrightarrow> ic_builds c' = ic_builds c \<and> ic_sequence c' = ic_sequence c \<and> ic_closed c' = ic_closed c \<and>
     length (ic_entries c') \<le> length (ic_entries c) \<and> set (map fst (ic_entries c')) \<subseteq> set (map fst (ic_entries c)) \<and>
     filter pinned (ic_entries c') = filter pinned (ic_entries c) \<and> keys_ok c'"

lemma cleans_refl [intro]: "keys_ok c \<Longrightarrow> cleans c c"
  by (simp add: cleans_def)

lemma cleans_trans [trans]: "cleans c c1 \<Longrightarrow> cleans c1 c2 \<Longrightarrow> cleans c c2"
  unfolding cleans_def by (elim conjE, intro conjI; (rule order_trans | simp); assumption?)

lemma cleans_keys: "cleans c c' \<Longrightarrow> keys_ok c'"
  by (simp add: cleans_def)

lemma filter_map_fixed:
  "(\<And>x. x \<in> set xs \<Longrightarrow> P x \<Longrightarrow> g x = x) \<Longrightarrow> (\<And>x. x \<in> set xs \<Longrightarrow> \<not> P x \<Longrightarrow> \<not> P (g x)) \<Longrightarrow> filter P (map g xs) = filter P xs"
  by (induction xs) auto

lemma fst_set_cached [simp]: "map fst (ic_entries (set_cached key f c)) = map fst (ic_entries c)"
  by (simp add: set_cached_def case_prod_beta comp_def)

lemma entries_set_cached: "ic_entries (set_cached key f c) = map (\<lambda>ke. if fst ke = key then (fst ke, f (snd ke)) else ke) (ic_entries c)"
  by (auto simp: set_cached_def)

lemma rest_set_cached [simp]: "ic_builds (set_cached key f c) = ic_builds c" "ic_sequence (set_cached key f c) = ic_sequence c"
    "ic_closed (set_cached key f c) = ic_closed c"
  by (simp_all add: set_cached_def)

lemma same_entry: "keys_ok c \<Longrightarrow> (key, e) \<in> set (ic_entries c) \<Longrightarrow> ke \<in> set (ic_entries c) \<Longrightarrow> fst ke = key \<Longrightarrow> ke = (key, e)"
  by (metis eq_key_imp_eq_value keys_ok_def prod.collapse)

lemma set_cached_keys:
  assumes "keys_ok c" "\<And>e. (key, e) \<in> set (ic_entries c) \<Longrightarrow> cached_ok e \<Longrightarrow> cached_ok (f e)"
  shows "keys_ok (set_cached key f c)"
proof -
  have "cached_ok (snd ke)" if ke: "ke \<in> set (ic_entries (set_cached key f c))" for ke
  proof -
    obtain x where x: "x \<in> set (ic_entries c)" "ke = (if fst x = key then (fst x, f (snd x)) else x)" using ke unfolding entries_set_cached set_map by blast
    moreover have "cached_ok (snd x)" using assms(1) x(1) by (simp add: keys_ok_def)
    ultimately show ?thesis using assms(2) [of "snd x"] by (cases x) auto
  qed
  then show ?thesis using assms(1) by (simp add: keys_ok_def)
qed

lemma keys_ok_sequence [simp]: "keys_ok (c\<lparr>ic_sequence := s\<rparr>) = keys_ok c" "keys_ok (c\<lparr>ic_builds := n\<rparr>) = keys_ok c"
  by (simp_all add: keys_ok_def)

lemma remove_cleans:
  assumes "keys_ok c" "(key, e) \<in> set (ic_entries c)"
  shows "cleans c (snd (remove_entry cleanup key e c)) \<and>
    (fst (remove_entry cleanup key e c) = None \<longrightarrow> length (ic_entries (snd (remove_entry cleanup key e c))) < length (ic_entries c) \<and>
       ic_entries (snd (remove_entry cleanup key e c)) = filter (\<lambda>ke. fst ke \<noteq> key) (ic_entries c))"
proof (cases "pinned (key, e)")
  case True
  then show ?thesis using assms(1) by (auto simp: remove_entry_def pinned_def)
next
  case False
  have eq: "ke \<in> set (ic_entries c) \<Longrightarrow> fst ke = key \<Longrightarrow> ke = (key, e)" for ke using same_entry [OF assms] .
  show ?thesis
  proof (cases "cleanup key")
    case True
    have "filter (\<lambda>ke. fst ke \<noteq> key \<and> pinned ke) (ic_entries c) = filter pinned (ic_entries c)"
      using eq False by (intro filter_cong) auto
    moreover have "length (filter (\<lambda>ke. fst ke \<noteq> key) (ic_entries c)) < length (ic_entries c)"
      using length_filter_less [of "(key, e)" "ic_entries c" "\<lambda>ke. fst ke \<noteq> key"] assms(2) by simp
    moreover have "distinct (map fst (filter (\<lambda>ke. fst ke \<noteq> key) (ic_entries c)))" using assms(1) by (simp add: keys_ok_def distinct_map_filter)
    moreover have "snd (remove_entry cleanup key e c) = c\<lparr>ic_entries := filter (\<lambda>ke. fst ke \<noteq> key) (ic_entries c)\<rparr>"
      using True False by (simp add: remove_entry_def pinned_def case_prod_beta')
    ultimately show ?thesis using assms(1) by (auto simp: cleans_def keys_ok_def)
  next
    case False': False
    let ?f = "\<lambda>e. e\<lparr>ce_index := None, ce_error := Some (index_unavailable ''cleanup-failed'')\<rparr>"
    have r: "remove_entry cleanup key e c = (Some (index_unavailable ''cleanup-failed''), set_cached key ?f c)"
      using False False' by (simp add: remove_entry_def pinned_def)
    have "filter pinned (ic_entries (set_cached key ?f c)) = filter pinned (ic_entries c)"
      unfolding entries_set_cached using eq False by (intro filter_map_fixed) (auto simp: pinned_def)
    moreover have "keys_ok (set_cached key ?f c)"
      using same_entry [OF assms] False by (intro set_cached_keys [OF assms(1)]) (fastforce simp: cached_ok_def pinned_def)
    ultimately show ?thesis unfolding r by (simp add: cleans_def) (simp add: entries_set_cached image_image)
  qed
qed

lemma expire_all_cleans:
  "keys_ok c \<Longrightarrow> set es \<subseteq> set (ic_entries c) \<Longrightarrow> distinct (map fst es) \<Longrightarrow> cleans c (snd (expire_all l cleanup now es c))"
proof (induction es arbitrary: c)
  case (Cons ke es)
  obtain key e where ke: "ke = (key, e)" by (cases ke)
  have m: "(key, e) \<in> set (ic_entries c)" using Cons.prems(2) ke by simp
  note r = remove_cleans [OF Cons.prems(1) m, of cleanup]
  show ?case
  proof (cases "expired_entry l now e \<and> fst (remove_entry cleanup key e c) = None")
    case True
    let ?c = "snd (remove_entry cleanup key e c)"
    have "set es \<subseteq> set (ic_entries ?c)" using r True Cons.prems(2,3) ke by (auto simp: rev_image_eqI)
    then have "cleans ?c (snd (expire_all l cleanup now es ?c))" using Cons.IH [of ?c] cleans_keys [OF conjunct1 [OF r]] Cons.prems(3) by simp
    then show ?thesis using r True ke by (auto simp: split_beta intro: cleans_trans split: option.splits)
  next
    case False
    then show ?thesis using Cons ke r by (auto simp: split_beta split: option.splits)
  qed
qed (simp add: cleans_refl)

lemma expire_cleans: "keys_ok c \<Longrightarrow> cleans c (snd (expire_entries l cleanup now c))"
  unfolding expire_entries_def by (rule expire_all_cleans) (auto simp: keys_ok_def)

lemma victim_entry: "cache_victim c = Some v \<Longrightarrow> v \<in> set (ic_entries c) \<and> \<not> pinned v"
proof -
  assume "cache_victim c = Some v"
  then obtain vs where "order_by (\<lambda>(k, e). ce_used e) (filter (\<lambda>(k, e). ce_settled e \<and> ce_readers e = 0) (ic_entries c)) = v # vs"
    by (auto simp: cache_victim_def split: list.splits)
  then have "v \<in> set (order_by (\<lambda>(k, e). ce_used e) (filter (\<lambda>(k, e). ce_settled e \<and> ce_readers e = 0) (ic_entries c)))" by simp
  then show ?thesis by (auto simp: order_by_def pinned_def)
qed

lemma make_room_cleans:
  assumes "keys_ok c" "length (ic_entries c) \<le> il_maxIndexes l"
  shows "cleans c (snd (make_room l cleanup c)) \<and> (fst (make_room l cleanup c) = None \<longrightarrow> length (ic_entries (snd (make_room l cleanup c))) < il_maxIndexes l)"
  using assms remove_cleans [OF assms(1), of _ _ cleanup] victim_entry [of c]
  by (cases "cache_victim c") (auto simp: make_room_def split: prod.splits, fastforce)

lemma free_disk_cleans: "keys_ok c \<Longrightarrow> cleans c (snd (free_disk l cleanup free n c))"
proof (induction n arbitrary: c)
  case (Suc n)
  show ?case
  proof (cases "cache_victim c")
    case (Some v)
    then have r: "cleans c (snd (remove_entry cleanup (fst v) (snd v) c))" using victim_entry [OF Some] remove_cleans [OF Suc.prems, of "fst v" "snd v"] by simp
    then show ?thesis using Suc.IH [OF cleans_keys [OF r]] Some Suc.prems by (auto simp: split_beta intro: cleans_trans split: option.splits)
  qed (auto simp: Suc.prems cleans_refl)
qed auto

lemma drop_failed_cleans: "keys_ok c \<Longrightarrow> cleans c (snd (drop_failed cleanup key retry c))"
  using remove_cleans [of c key _ cleanup] by (auto simp: drop_failed_def split: option.split dest: map_of_SomeD)


section \<open>The index cache\<close>

definition unsettled :: "index_cache \<Rightarrow> nat" where
  "unsettled c = length (filter (\<lambda>ke. \<not> ce_settled (snd ke)) (ic_entries c))"

definition index_cache_ok :: "index_limits \<Rightarrow> index_cache \<Rightarrow> bool" where
  "index_cache_ok l c \<longleftrightarrow> keys_ok c \<and> length (ic_entries c) \<le> il_maxIndexes l \<and> ic_builds c = unsettled c \<and> ic_builds c \<le> il_maxBuilds l"

text \<open>An entry in use stays, with its generation and its index.\<close>

definition keeps :: "index_cache \<Rightarrow> index_cache \<Rightarrow> bool" where
  "keeps c c' \<longleftrightarrow> (\<forall>k e. map_of (ic_entries c) k = Some e \<and> pinned (k, e) \<longrightarrow>
     (\<exists>e'. map_of (ic_entries c') k = Some e' \<and> ce_generation e' = ce_generation e \<and> (ce_index e = None \<or> ce_index e' = ce_index e)))"

inductive cache_step :: "index_limits \<Rightarrow> index_cache \<Rightarrow> index_cache \<Rightarrow> bool" for l where
  acquire_step: "cache_step l c (snd (acquire l cleanup free now generation key background lease retry c))"
| ready_step: "cache_step l c (snd (useReady l cleanup now key generation c))"
| retry_step: "cache_step l c (snd (cache_retry l cleanup now key c))"
| expire_step: "cache_step l c (snd (expire_entries l cleanup now c))"
| release_step: "map_of (ic_entries c) key = Some e \<Longrightarrow> 0 < ce_readers e \<Longrightarrow> cache_step l c (release_reader now key c)"
| settle_step: "map_of (ic_entries c) key = Some e \<Longrightarrow> \<not> ce_settled e \<Longrightarrow> cache_step l c (settle_build now key outcome c)"
| begin_close_step: "cache_step l c (begin_close c)"
| close_entry_step: "cache_step l c (snd (close_entry cleanup key c))"

inductive_cases cache_stepE: "cache_step l c c'"

lemma unsettled_pinned: "unsettled c = length (filter (\<lambda>ke. \<not> ce_settled (snd ke)) (filter pinned (ic_entries c)))"
  unfolding unsettled_def by (simp add: pinned_def) (metis (no_types, lifting))

lemma cleans_ok: "cleans c c' \<Longrightarrow> index_cache_ok l c \<Longrightarrow> index_cache_ok l c'"
  using unsettled_pinned [of c] unsettled_pinned [of c'] by (auto simp: index_cache_ok_def cleans_def)

lemma cleans_same:
  assumes "cleans c c'" "keys_ok c" "map_of (ic_entries c) k = Some e" "pinned (k, e)"
  shows "map_of (ic_entries c') k = Some e"
proof -
  have "(k, e) \<in> set (filter pinned (ic_entries c'))" using assms(1,4) map_of_SomeD [OF assms(3)] by (simp add: cleans_def)
  then show ?thesis using cleans_keys [OF assms(1)] by (simp add: keys_ok_def)
qed

lemma cleans_keeps: "cleans c c' \<Longrightarrow> keys_ok c \<Longrightarrow> keeps c c'"
  using cleans_same by (auto simp: keeps_def)

lemma map_of_set_cached: "map_of (ic_entries (set_cached key f c)) k = map_option (if k = key then f else id) (map_of (ic_entries c) k)"
proof -
  have "map_of (map (\<lambda>ke. if fst ke = key then (fst ke, f (snd ke)) else ke) es) k = map_option (if k = key then f else id) (map_of es k)" for es
    by (induction es) auto
  then show ?thesis by (simp add: entries_set_cached)
qed

text \<open>A change of one entry that keeps whether it is settled.\<close>

lemma set_cached_ok:
  assumes "index_cache_ok l c" "\<And>e. ce_settled (f e) = ce_settled e" "\<And>e. ce_index (f e) = ce_index e" "\<And>e. ce_error (f e) = ce_error e"
  shows "index_cache_ok l (set_cached key f (c\<lparr>ic_sequence := s\<rparr>))"
proof -
  let ?c = "set_cached key f (c\<lparr>ic_sequence := s\<rparr>)"
  have e: "ic_entries ?c = map (\<lambda>ke. if fst ke = key then (fst ke, f (snd ke)) else ke) (ic_entries c)" by (simp add: entries_set_cached)
  have "length (filter (\<lambda>ke. \<not> ce_settled (snd ke)) (map (\<lambda>ke. if fst ke = key then (fst ke, f (snd ke)) else ke) es)) =
      length (filter (\<lambda>ke. \<not> ce_settled (snd ke)) es)" for es :: "(string \<times> cache_entry) list"
    by (induction es) (auto simp: assms(2))
  moreover have "keys_ok ?c" using assms(1) by (intro set_cached_keys) (simp_all add: index_cache_ok_def cached_ok_def assms(2,3,4))
  ultimately show ?thesis using assms(1) by (simp add: index_cache_ok_def unsettled_def e)
qed

lemma keeps_refl [simp]: "keeps c c"
  by (simp add: keeps_def)

lemma keeps_after: "cleans c c1 \<Longrightarrow> keys_ok c \<Longrightarrow> keeps c1 c2 \<Longrightarrow> keeps c c2"
  using cleans_same [of c c1] unfolding keeps_def by blast

lemma set_cached_keeps:
  assumes "keeps c c1" "\<And>e. ce_generation (f e) = ce_generation e" "\<And>e. ce_index (f e) = ce_index e"
  shows "keeps c (set_cached key f (c1\<lparr>ic_sequence := s\<rparr>))"
proof -
  have "map_of (ic_entries (set_cached key f (c1\<lparr>ic_sequence := s\<rparr>))) k = map_option (if k = key then f else id) (map_of (ic_entries c1) k)" for k
    using map_of_set_cached [of key f "c1\<lparr>ic_sequence := s\<rparr>"] by simp
  then show ?thesis using assms unfolding keeps_def by fastforce
qed

lemma one_settled:
  assumes "distinct (map fst es)" "(key, e) \<in> set es" "\<not> ce_settled e" "\<And>e. ce_settled (f e)"
  shows "length (filter (\<lambda>ke. \<not> ce_settled (snd ke)) (map (\<lambda>ke. if fst ke = key then (fst ke, f (snd ke)) else ke) es)) =
    length (filter (\<lambda>ke. \<not> ce_settled (snd ke)) es) - 1"
  using assms(1,2)
proof (induction es)
  case (Cons x es)
  have other: "map (\<lambda>ke. if fst ke = key then (fst ke, f (snd ke)) else ke) ys = ys" if "key \<notin> fst ` set ys" for ys
    using that by (induction ys) auto
  show ?case
  proof (cases "fst x = key")
    case True
    then have "x = (key, e)" "key \<notin> fst ` set es" using Cons.prems by (auto simp: rev_image_eqI)
    then show ?thesis using other [of es] assms(3,4) by simp
  next
    case False
    then have m: "(key, e) \<in> set es" "distinct (map fst es)" using Cons.prems by auto
    then have "0 < length (filter (\<lambda>ke. \<not> ce_settled (snd ke)) es)" using assms(3) by (force simp: filter_empty_conv)
    then show ?thesis using Cons.IH m False by simp
  qed
qed simp

lemma settle_ok:
  assumes "index_cache_ok l c" "map_of (ic_entries c) key = Some e" "\<not> ce_settled e"
  shows "index_cache_ok l (settle_build now key outcome c) \<and> keeps c (settle_build now key outcome c)"
proof -
  let ?f = "\<lambda>e. (case outcome of Inl err \<Rightarrow> e\<lparr>ce_error := Some err\<rparr> | Inr t \<Rightarrow> e\<lparr>ce_index := Some t\<rparr>)
       \<lparr>ce_settled := True, ce_updated := now, ce_used := ic_sequence c + 1\<rparr>"
  let ?c = "c\<lparr>ic_sequence := ic_sequence c + 1, ic_builds := ic_builds c - 1\<rparr>"
  have s: "settle_build now key outcome c = set_cached key ?f ?c" by (simp add: settle_build_def)
  have m: "(key, e) \<in> set (ic_entries c)" using assms(2) by (rule map_of_SomeD)
  have ok: "keys_ok c" using assms(1) by (simp add: index_cache_ok_def)
  have only: "(key, x) \<in> set (ic_entries c) \<Longrightarrow> x = e" for x using same_entry [OF ok m, of "(key, x)"] by simp
  have e: "cached_ok e" using ok m by (auto simp: keys_ok_def)
  have "keys_ok (set_cached key ?f ?c)"
    using only e assms(3) by (intro set_cached_keys) (auto simp: ok cached_ok_def split: sum.splits)
  moreover have "unsettled (set_cached key ?f ?c) = unsettled c - 1"
    using one_settled [of "ic_entries c" key e ?f] ok m assms(3) by (simp add: unsettled_def entries_set_cached keys_ok_def)
  ultimately have "index_cache_ok l (set_cached key ?f ?c)" using assms(1) by (auto simp: index_cache_ok_def entries_set_cached)
  moreover have "keeps c (set_cached key ?f ?c)"
    using map_of_set_cached [of key ?f ?c] assms(2,3) e by (auto simp: keeps_def cached_ok_def split: sum.splits)
  ultimately show ?thesis unfolding s by simp
qed

lemma admit_ok:
  assumes "index_cache_ok l c" "map_of (ic_entries c) key = None"
  shows "index_cache_ok l (snd (admit_entry l cleanup free now generation key background c)) \<and>
    keeps c (snd (admit_entry l cleanup free now generation key background c))"
proof -
  have ok: "keys_ok c" "length (ic_entries c) \<le> il_maxIndexes l" using assms(1) by (simp_all add: index_cache_ok_def)
  let ?m = "make_room l cleanup c"
  let ?d = "free_disk l cleanup free (length (ic_entries (snd ?m))) (snd ?m)"
  let ?c = "snd ?d"
  let ?e = "new_entry generation background now (ic_sequence ?c + 1)"
  let ?n = "?c\<lparr>ic_entries := ic_entries ?c @ [(key, ?e)], ic_sequence := ic_sequence ?c + 1, ic_builds := ic_builds ?c + 1\<rparr>"
  note room = make_room_cleans [OF ok, of cleanup]
  have cl: "cleans c (snd ?m)" "cleans (snd ?m) ?c" using room free_disk_cleans cleans_keys by blast+
  have c: "cleans c ?c" using cleans_trans [OF cl] .
  show ?thesis
  proof (cases "ic_builds c < il_maxBuilds l \<and> fst ?m = None \<and> fst ?d = None")
    case True
    then have a: "snd (admit_entry l cleanup free now generation key background c) = ?n"
      by (simp add: admit_entry_def split_beta)
    have len: "length (ic_entries ?c) < il_maxIndexes l" using True room cl(2) by (simp add: cleans_def)
    have new: "key \<notin> fst ` set (ic_entries ?c)" using c assms(2) by (auto simp: cleans_def map_of_eq_None_iff)
    have e: "cached_ok ?e" "\<not> ce_settled ?e" by (simp_all add: new_entry_def cached_ok_def)
    have "index_cache_ok l ?c" using cleans_ok [OF c assms(1)] .
    then have "index_cache_ok l ?n" using len new e c True by (auto simp: index_cache_ok_def keys_ok_def unsettled_def cleans_def)
    moreover have "keeps c ?n" using cleans_keeps [OF c ok(1)] by (fastforce simp: keeps_def map_add_def split: option.splits)
    ultimately show ?thesis unfolding a by simp
  next
    case False
    then have "snd (admit_entry l cleanup free now generation key background c) \<in> {c, snd ?m, ?c}"
      by (auto simp: admit_entry_def split_beta split: option.split)
    moreover have "cleans c c" using ok(1) by (rule cleans_refl)
    ultimately show ?thesis using cl(1) c cleans_ok [OF _ assms(1)] cleans_keeps [OF _ ok(1)] by auto
  qed
qed

lemma touch_ok: "index_cache_ok l c1 \<Longrightarrow> keeps c c1 \<Longrightarrow> index_cache_ok l (touch_entry background lease now key c1) \<and> keeps c (touch_entry background lease now key c1)"
  unfolding touch_entry_def by (intro conjI set_cached_ok set_cached_keeps) simp_all

lemma reach_state:
  assumes "cleans c c1" "index_cache_ok l c"
  shows "index_cache_ok l c1" "keeps c c1" "keeps c1 c2 \<Longrightarrow> keeps c c2"
  using assms cleans_ok cleans_keeps keeps_after by (auto simp: index_cache_ok_def)

lemma acquire_ok:
  assumes "index_cache_ok l c"
  shows "index_cache_ok l (snd (acquire l cleanup free now generation key background lease retry c)) \<and>
    keeps c (snd (acquire l cleanup free now generation key background lease retry c))"
proof -
  let ?e = "expire_entries l cleanup now c"
  let ?d = "drop_failed cleanup key retry (snd ?e)"
  let ?c = "snd ?d"
  let ?a = "admit_entry l cleanup free now generation key background ?c"
  have k: "keys_ok c" using assms by (simp add: index_cache_ok_def)
  have cl: "cleans c (snd ?e)" "cleans c ?c"
    using expire_cleans [OF k] drop_failed_cleans cleans_keys cleans_trans by blast+
  note ok = reach_state [OF cl(2) assms]
  have t: "index_cache_ok l (touch_entry background lease now key ?c) \<and> keeps c (touch_entry background lease now key ?c)"
    using touch_ok [OF ok(1) keeps_refl] ok(3) by blast
  have a: "index_cache_ok l (snd ?a) \<and> keeps c (snd ?a)" if "map_of (ic_entries ?c) key = None"
    using admit_ok [OF ok(1) that] ok(3) by blast
  then have ta: "index_cache_ok l (touch_entry background lease now key (snd ?a)) \<and> keeps c (touch_entry background lease now key (snd ?a))"
    if "map_of (ic_entries ?c) key = None" using touch_ok that by blast
  show ?thesis using assms ok reach_state [OF cl(1) assms] t a ta
    by (auto simp: acquire_def split_beta simp del: split_paired_All split: option.split)
qed

lemma ready_ok:
  assumes "index_cache_ok l c"
  shows "index_cache_ok l (snd (useReady l cleanup now key generation c)) \<and> keeps c (snd (useReady l cleanup now key generation c))"
proof -
  let ?c = "snd (expire_entries l cleanup now c)"
  have cl: "cleans c ?c" using expire_cleans assms by (simp add: index_cache_ok_def)
  note ok = reach_state [OF cl assms]
  have "index_cache_ok l (set_cached key (\<lambda>e. e\<lparr>ce_readers := ce_readers e + 1, ce_used := n\<rparr>) (?c\<lparr>ic_sequence := m\<rparr>)) \<and>
      keeps c (set_cached key (\<lambda>e. e\<lparr>ce_readers := ce_readers e + 1, ce_used := n\<rparr>) (?c\<lparr>ic_sequence := m\<rparr>))" for n m
    using ok by (intro conjI set_cached_ok set_cached_keeps) simp_all
  then show ?thesis using assms ok by (auto simp: useReady_def split_beta split: option.split)
qed

lemma retry_ok:
  assumes "index_cache_ok l c"
  shows "index_cache_ok l (snd (cache_retry l cleanup now key c)) \<and> keeps c (snd (cache_retry l cleanup now key c))"
proof -
  let ?c = "snd (drop_failed cleanup key True c)"
  have d: "cleans c ?c" using drop_failed_cleans assms by (simp add: index_cache_ok_def)
  have e: "cleans c (snd (expire_entries l cleanup now ?c))" using cleans_trans [OF d expire_cleans [OF cleans_keys [OF d]]] .
  show ?thesis using assms reach_state [OF d assms] reach_state [OF e assms] by (auto simp: cache_retry_def split_beta split: option.split)
qed

lemma release_ok: "index_cache_ok l c \<Longrightarrow> index_cache_ok l (release_reader now key c) \<and> keeps c (release_reader now key c)"
  unfolding release_reader_def by (intro conjI set_cached_ok set_cached_keeps) simp_all

lemma close_ok:
  assumes "index_cache_ok l c"
  shows "index_cache_ok l (begin_close c) \<and> keeps c (begin_close c)"
    "index_cache_ok l (snd (close_entry cleanup key c)) \<and> keeps c (snd (close_entry cleanup key c))"
proof -
  show "index_cache_ok l (begin_close c) \<and> keeps c (begin_close c)" using assms
    by (auto simp: begin_close_def index_cache_ok_def keys_ok_def unsettled_def keeps_def)
  have k: "keys_ok c" using assms by (simp add: index_cache_ok_def)
  have "cleans c (snd (close_entry cleanup key c))"
    using k remove_cleans [OF k map_of_SomeD, of key] by (auto simp: close_entry_def split: option.split)
  then show "index_cache_ok l (snd (close_entry cleanup key c)) \<and> keeps c (snd (close_entry cleanup key c))" using reach_state [OF _ assms] by blast
qed

lemma cache_step_ok: "cache_step l c c' \<Longrightarrow> index_cache_ok l c \<Longrightarrow> index_cache_ok l c' \<and> keeps c c'"
proof (induction rule: cache_step.induct)
  case (expire_step c cleanup now)
  then have "cleans c (snd (expire_entries l cleanup now c))" using expire_cleans by (simp add: index_cache_ok_def)
  then show ?case using reach_state expire_step by blast
qed (simp_all add: acquire_ok ready_ok retry_ok release_ok settle_ok close_ok)

lemma empty_cache_ok: "index_cache_ok l empty_cache"
  by (simp add: index_cache_ok_def empty_cache_def keys_ok_def unsettled_def)

interpretation index_caches: invariant_system "\<lambda>c. c = empty_cache" "cache_step l" "index_cache_ok l" for l
  by unfold_locales (use empty_cache_ok cache_step_ok in blast)+

text \<open>
  C24: The index cache keeps its limits and what is in use.  However requests, readers, finished builds, the periodic
  expiry and the shutdown interleave, the cache never has more indexes than its limit, nor more builds, and its count of builds is that
  of the entries under construction.  No step takes away or replaces an index that has a reader or that is being built,
  whether it makes room, frees disk space or expires entries.
\<close>

theorem index_cache_safe:
  assumes "reachable (\<lambda>c. c = empty_cache) (cache_step l) c" "cache_step l c c'"
  shows "length (ic_entries c) \<le> il_maxIndexes l \<and> distinct (map fst (ic_entries c)) \<and>
    ic_builds c = length (filter (\<lambda>ke. \<not> ce_settled (snd ke)) (ic_entries c)) \<and> ic_builds c \<le> il_maxBuilds l \<and>
    (map_of (ic_entries c) key = Some e \<and> (0 < ce_readers e \<or> \<not> ce_settled e) \<longrightarrow>
       (\<exists>e'. map_of (ic_entries c') key = Some e' \<and> ce_generation e' = ce_generation e \<and> (ce_index e = None \<or> ce_index e' = ce_index e)))"
proof -
  have ok: "index_cache_ok l c" using index_caches.reachable_inv [OF assms(1)] .
  have "keeps c c'" using cache_step_ok [OF assms(2) ok] by simp
  then show ?thesis using ok by (simp add: index_cache_ok_def keys_ok_def unsettled_def keeps_def pinned_def)
qed

definition sample_key :: string where
  "sample_key = replicate 64 (CHR ''a'')"

definition built_cache :: index_cache where
  "built_cache = snd (acquire SNAPSHOT_INDEX_LIMITS (\<lambda>_. True) (\<lambda>_. 500000000) 1 ''g'' sample_key False True True empty_cache)"

text \<open>A reader waits for the index of a snapshot, and its build ends.\<close>

theorem index_cache_safe_witness:
  "ce_readers (snd (hd (ic_entries built_cache))) = 1 \<and>
   (\<exists>e'. map_of (ic_entries (settle_build 2 sample_key (Inr []) built_cache)) sample_key = Some e' \<and> ce_generation e' = ''g'')"
proof -
  let ?e = "\<lparr>ce_generation = ''g'', ce_background = False, ce_index = None, ce_error = None, ce_updated = 1, ce_used = 2, ce_readers = 1,
     ce_settled = False, ce_started = 1\<rparr>"
  have b: "ic_entries built_cache = [(sample_key, ?e)]" by code_simp
  have r: "reachable (\<lambda>c. c = empty_cache) (cache_step SNAPSHOT_INDEX_LIMITS) built_cache"
    unfolding built_cache_def by (rule reach_step, rule reach_init, rule refl, rule acquire_step)
  have s: "cache_step SNAPSHOT_INDEX_LIMITS built_cache (settle_build 2 sample_key (Inr []) built_cache)"
    by (rule settle_step [of _ _ ?e]) (simp_all add: b)
  show ?thesis using index_cache_safe [OF r s, of sample_key ?e] b by auto
qed

section \<open>The comparison cache\<close>

definition preparing :: "compare_cache \<Rightarrow> nat" where
  "preparing c = length (filter (\<lambda>kj. cj_state (snd kj) = JPreparing) (cc_jobs c))"

definition compare_jobs_ok :: "compare_cache \<Rightarrow> bool" where
  "compare_jobs_ok c \<longleftrightarrow> length (cc_jobs c) \<le> cl_maxJobs COMPARISON_LIMITS \<and> distinct (map fst (cc_jobs c)) \<and> preparing c \<le> 1"

inductive job_step :: "compare_cache \<Rightarrow> compare_cache \<Rightarrow> bool" where
  admit_step: "admit_job now key b retry c = Ok c' \<Longrightarrow> job_step c c'"
| finish_step: "job_step c (finish_job now key aborted outcome c)"
| cancel_step: "job_step c (cancel_job now key c)"
| expire_jobs_step: "job_step c (expire_jobs now c)"
| close_step: "job_step c (close_jobs c)"

lemma filter_jobs_ok:
  assumes "compare_jobs_ok c"
  shows "compare_jobs_ok (c\<lparr>cc_jobs := filter P (cc_jobs c)\<rparr>)"
proof -
  have "length (filter P (cc_jobs c)) \<le> cl_maxJobs COMPARISON_LIMITS"
    using assms length_filter_le [of P "cc_jobs c"] unfolding compare_jobs_ok_def by linarith
  moreover have "length (filter (\<lambda>kj. P kj \<and> cj_state (snd kj) = JPreparing) (cc_jobs c)) \<le> preparing c"
    unfolding preparing_def using length_filter_le [of P "filter (\<lambda>kj. cj_state (snd kj) = JPreparing) (cc_jobs c)"] by (simp add: conj_commute)
  ultimately show ?thesis using assms by (simp add: compare_jobs_ok_def preparing_def distinct_map_filter)
qed

lemma finish_ok:
  assumes "compare_jobs_ok c"
  shows "compare_jobs_ok (finish_job now key aborted outcome c)"
proof -
  have "map fst (cc_jobs (finish_job now key aborted outcome c)) = map fst (cc_jobs c)" "length (cc_jobs (finish_job now key aborted outcome c)) = length (cc_jobs c)"
    by (auto simp: finish_job_def)
  moreover have "preparing (finish_job now key aborted outcome c) \<le> preparing c"
  proof -
    have "length (filter (\<lambda>kj. cj_state (snd kj) = JPreparing) (map g js)) \<le> length (filter (\<lambda>kj. cj_state (snd kj) = JPreparing) js)"
      if "\<And>kj. cj_state (snd (g kj)) = JPreparing \<Longrightarrow> cj_state (snd kj) = JPreparing" for g and js :: "(string \<times> compare_job) list"
      using that by (induction js) (auto simp: le_Suc_eq)
    note less = this
    have j: "cc_jobs (finish_job now key aborted outcome c) = map (\<lambda>(k, j). (k, if k = key \<and> cj_state j = JPreparing
     then (case outcome of
             Inr t \<Rightarrow> if aborted then j\<lparr>cj_state := JCancelled\<rparr> else j\<lparr>cj_state := JReady, cj_entries := t\<rparr>
           | Inl _ \<Rightarrow> j\<lparr>cj_state := (if aborted then JCancelled else JFailed)\<rparr>)\<lparr>cj_updated := now\<rparr> else j)) (cc_jobs c)"
      by (simp add: finish_job_def)
    show ?thesis unfolding preparing_def j by (rule less) (auto split: if_splits sum.splits)
  qed
  ultimately show ?thesis using assms by (simp add: compare_jobs_ok_def)
qed

lemma admit_job_ok:
  assumes "admit_job now key b retry c = Ok c'" "compare_jobs_ok c"
  shows "compare_jobs_ok c'"
proof (cases "c' = c")
  case False
  let ?c1 = "drop_job key c"
  let ?c2 = "?c1\<lparr>cc_jobs := filter (\<lambda>(_, j). \<not> stale_job now j) (cc_jobs ?c1)\<rparr>"
  let ?c3 = "if cl_maxJobs COMPARISON_LIMITS \<le> length (cc_jobs ?c2) then drop_job (fst (hd (cc_jobs ?c2))) ?c2 else ?c2"
  have c': "c' = ?c3\<lparr>cc_jobs := cc_jobs ?c3 @ [(key, new_job b now)]\<rparr>" and idle: "\<not> list_ex (\<lambda>(_, j). cj_state j = JPreparing) (cc_jobs c)"
    using assms(1) False by (auto simp: admit_job_def Let_def split: if_splits option.splits)
  have ok: "compare_jobs_ok ?c2" "compare_jobs_ok ?c3" using assms(2) by (auto simp: drop_job_def intro: filter_jobs_ok)
  have sub: "set (cc_jobs ?c3) \<subseteq> {kj \<in> set (cc_jobs c). fst kj \<noteq> key}" by (auto simp: drop_job_def)
  have len: "length (cc_jobs ?c3) < cl_maxJobs COMPARISON_LIMITS"
  proof (cases "cl_maxJobs COMPARISON_LIMITS \<le> length (cc_jobs ?c2)")
    case True
    then obtain x xs where x: "cc_jobs ?c2 = x # xs" by (cases "cc_jobs ?c2") (auto simp: COMPARISON_LIMITS_def)
    have "length (filter (\<lambda>(k, _). k \<noteq> fst x) (x # xs)) < length (x # xs)" by (rule length_filter_less [of x]) (auto split: prod.splits)
    then show ?thesis using ok(1) True x by (simp add: compare_jobs_ok_def drop_job_def)
  qed simp
  have none: "filter (\<lambda>kj. cj_state (snd kj) = JPreparing) (cc_jobs ?c3) = []"
    using sub idle by (fastforce simp: filter_empty_conv list_ex_iff)
  have "key \<notin> fst ` set (cc_jobs ?c3)" using sub by blast
  then have "distinct (map fst (cc_jobs ?c3 @ [(key, new_job b now)]))" using ok(2) by (simp add: compare_jobs_ok_def)
  then show ?thesis using len none unfolding c' by (simp add: compare_jobs_ok_def preparing_def)
qed (use assms in simp)

lemma job_step_ok: "job_step c c' \<Longrightarrow> compare_jobs_ok c \<Longrightarrow> compare_jobs_ok c'"
  by (induction rule: job_step.induct)
    (auto simp: admit_job_ok finish_ok cancel_job_def expire_jobs_def filter_jobs_ok, simp add: close_jobs_def compare_jobs_ok_def preparing_def)

interpretation comparison_caches: invariant_system "\<lambda>c. c = \<lparr>cc_jobs = [], cc_closed = False\<rparr>" job_step compare_jobs_ok
  by unfold_locales (simp add: compare_jobs_ok_def preparing_def, rule job_step_ok)

text \<open>
  The comparison cache keeps its limits: however jobs are admitted, finished, cancelled and expired, it has at most two
  jobs and prepares at most one of them.
\<close>

theorem comparison_cache_bounded:
  assumes "reachable (\<lambda>c. c = \<lparr>cc_jobs = [], cc_closed = False\<rparr>) job_step c"
  shows "length (cc_jobs c) \<le> 2 \<and> distinct (map fst (cc_jobs c)) \<and>
    length (filter (\<lambda>kj. cj_state (snd kj) = JPreparing) (cc_jobs c)) \<le> 1"
  using comparison_caches.reachable_inv [OF assms] by (simp add: compare_jobs_ok_def preparing_def COMPARISON_LIMITS_def)

end
