(* ===== verification/Backup_Blob.thy ===== *)
theory Backup_Blob
  imports Pluton_Prelude "HOL-Library.Word"
begin

unbundle bit_operations_syntax

text \<open>
  The file of a self-backup (\<open>blobFormat.ts\<close>): a plain header with the parameters of the key derivation, then the
  encrypted archive and its tag.  A buffer is a list of bytes.  The key derivation and the cipher are arguments; what
  the round trip needs of them is \<open>cipher_ok\<close>.
\<close>

section \<open>Format\<close>

type_synonym buffer = "8 word list"

datatype blob_error =
    SaltLength nat
  | NonceLength nat
  | OutOfRange int
  | NoKdf
  | TooSmall
  | BadMagic buffer
  | UnsupportedVersion int
  | UnreasonableMemory int
  | UnreasonablePasses int
  | UnreasonableParallelism int
  | CannotDecrypt

definition MAGIC :: buffer where
  "MAGIC = [0x50, 0x4C, 0x42, 0x4B]"

definition FORMAT_VERSION :: int where
  "FORMAT_VERSION = 1"

definition MAGIC_LEN :: nat where
  "MAGIC_LEN = 4"

definition VERSION_LEN :: nat where
  "VERSION_LEN = 2"

definition KDF_PARAMS_LEN :: nat where
  "KDF_PARAMS_LEN = 12"

definition SALT_LEN :: nat where
  "SALT_LEN = 16"

definition NONCE_LEN :: nat where
  "NONCE_LEN = 12"

definition TAG_LEN :: nat where
  "TAG_LEN = 16"

definition HEADER_LEN :: nat where
  "HEADER_LEN = MAGIC_LEN + VERSION_LEN + KDF_PARAMS_LEN + SALT_LEN + NONCE_LEN"

record kdf_params =
  kp_memory :: int
  kp_passes :: int
  kp_parallelism :: int

definition ARGON2_DEFAULTS :: kdf_params where
  "ARGON2_DEFAULTS = \<lparr>kp_memory = 65536, kp_passes = 3, kp_parallelism = 1\<rparr>"

record kdf_limits =
  kl_maxMemory :: int
  kl_minMemory :: int
  kl_maxPasses :: int
  kl_maxParallelism :: int

definition KDF_LIMITS :: kdf_limits where
  "KDF_LIMITS = \<lparr>kl_maxMemory = 1024 * 1024, kl_minMemory = 8, kl_maxPasses = 10, kl_maxParallelism = 4\<rparr>"

definition in_range :: "int \<Rightarrow> int \<Rightarrow> int \<Rightarrow> bool" where
  "in_range v lo hi \<longleftrightarrow> lo \<le> v \<and> v \<le> hi"

definition assertSaneKdfParams :: "kdf_params \<Rightarrow> blob_error + unit" where
  "assertSaneKdfParams kdf =
     (if \<not> in_range (kp_memory kdf) (kl_minMemory KDF_LIMITS) (kl_maxMemory KDF_LIMITS) then Inl (UnreasonableMemory (kp_memory kdf))
      else if \<not> in_range (kp_passes kdf) 1 (kl_maxPasses KDF_LIMITS) then Inl (UnreasonablePasses (kp_passes kdf))
      else if \<not> in_range (kp_parallelism kdf) 1 (kl_maxParallelism KDF_LIMITS) then Inl (UnreasonableParallelism (kp_parallelism kdf))
      else Inr ())"

text \<open>\<open>writeUIntBE\<close> of \<open>n\<close> bytes throws on a value that does not fit; \<open>readUIntBE\<close>.\<close>

fun be_bytes :: "nat \<Rightarrow> int \<Rightarrow> buffer" where
  "be_bytes 0 v = []"
| "be_bytes (Suc n) v = be_bytes n (v div 256) @ [word_of_int v]"

definition writeUInt :: "nat \<Rightarrow> int \<Rightarrow> blob_error + buffer" where
  "writeUInt n v = (if 0 \<le> v \<and> v < 256 ^ n then Inr (be_bytes n v) else Inl (OutOfRange v))"

definition readUInt :: "buffer \<Rightarrow> int" where
  "readUInt bs = foldl (\<lambda>a b. a * 256 + uint b) 0 bs"

text \<open>\<open>subarray(start, end)\<close>\<close>

definition subarray :: "nat \<Rightarrow> nat \<Rightarrow> 'b list \<Rightarrow> 'b list" where
  "subarray i j bs = take (j - i) (drop i bs)"

definition bind_blob :: "blob_error + 'b \<Rightarrow> ('b \<Rightarrow> blob_error + 'c) \<Rightarrow> blob_error + 'c" where
  "bind_blob r f = (case r of Inl e \<Rightarrow> Inl e | Inr x \<Rightarrow> f x)"

definition encodeHeader :: "kdf_params \<Rightarrow> buffer \<Rightarrow> buffer \<Rightarrow> blob_error + buffer" where
  "encodeHeader kdf salt nonce =
     (if length salt \<noteq> SALT_LEN then Inl (SaltLength (length salt))
      else if length nonce \<noteq> NONCE_LEN then Inl (NonceLength (length nonce))
      else bind_blob (writeUInt 2 FORMAT_VERSION) (\<lambda>version.
           bind_blob (writeUInt 4 (kp_memory kdf)) (\<lambda>memory.
           bind_blob (writeUInt 4 (kp_passes kdf)) (\<lambda>passes.
           bind_blob (writeUInt 4 (kp_parallelism kdf)) (\<lambda>parallelism.
             Inr (MAGIC @ version @ memory @ passes @ parallelism @ salt @ nonce))))))"

record parsed_header =
  ph_version :: int
  ph_kdf :: kdf_params
  ph_salt :: buffer
  ph_nonce :: buffer
  ph_bodyOffset :: nat

text \<open>\<open>toString('ascii')\<close> clears the highest bit of a byte.\<close>

definition ascii :: "buffer \<Rightarrow> buffer" where
  "ascii bs = map (\<lambda>b. b AND 0x7F) bs"

definition parseHeader :: "buffer \<Rightarrow> blob_error + parsed_header" where
  "parseHeader buf =
     (if length buf < HEADER_LEN + TAG_LEN then Inl TooSmall
      else let magic = ascii (subarray 0 4 buf); version = readUInt (subarray 4 6 buf) in
        if magic \<noteq> MAGIC then Inl (BadMagic magic)
        else if version \<noteq> FORMAT_VERSION then Inl (UnsupportedVersion version)
        else let kdf = \<lparr>kp_memory = readUInt (subarray 6 10 buf), kp_passes = readUInt (subarray 10 14 buf),
                        kp_parallelism = readUInt (subarray 14 18 buf)\<rparr> in
          bind_blob (assertSaneKdfParams kdf) (\<lambda>_.
            Inr \<lparr>ph_version = version, ph_kdf = kdf, ph_salt = subarray 18 34 buf, ph_nonce = subarray 34 46 buf, ph_bodyOffset = 46\<rparr>))"

section \<open>Sealing\<close>

text \<open>
  \<open>derive\<close> is argon2id of a password, a salt and parameters (\<open>None\<close>: the function is missing or throws), \<open>encrypt\<close> and
  \<open>decrypt\<close> are AES-256-GCM under a key and a nonce (\<open>None\<close>: the tag does not fit).
\<close>

record blob_crypto =
  bl_derive :: "string \<Rightarrow> buffer \<Rightarrow> kdf_params \<Rightarrow> buffer option"
  bl_encrypt :: "buffer \<Rightarrow> buffer \<Rightarrow> buffer \<Rightarrow> buffer \<times> buffer"
  bl_decrypt :: "buffer \<Rightarrow> buffer \<Rightarrow> buffer \<Rightarrow> buffer \<Rightarrow> buffer option"

definition deriveKey :: "blob_crypto \<Rightarrow> string \<Rightarrow> buffer \<Rightarrow> kdf_params \<Rightarrow> blob_error + buffer" where
  "deriveKey cry password salt kdf = (case bl_derive cry password salt kdf of None \<Rightarrow> Inl NoKdf | Some key \<Rightarrow> Inr key)"

text \<open>\<open>salt\<close> and \<open>nonce\<close> are the random bytes.\<close>

definition sealBlob :: "blob_crypto \<Rightarrow> buffer \<Rightarrow> buffer \<Rightarrow> buffer \<Rightarrow> string \<Rightarrow> kdf_params \<Rightarrow> blob_error + buffer" where
  "sealBlob cry salt nonce tar password kdf =
     bind_blob (deriveKey cry password salt kdf) (\<lambda>key.
       let (ciphertext, tag) = bl_encrypt cry key nonce tar in
       bind_blob (encodeHeader kdf salt nonce) (\<lambda>header. Inr (header @ ciphertext @ tag)))"

definition openBlob :: "blob_crypto \<Rightarrow> buffer \<Rightarrow> string \<Rightarrow> blob_error + buffer" where
  "openBlob cry blob password =
     bind_blob (parseHeader blob) (\<lambda>h.
       let tag = subarray (length blob - TAG_LEN) (length blob) blob;
           ciphertext = subarray (ph_bodyOffset h) (length blob - TAG_LEN) blob in
       bind_blob (deriveKey cry password (ph_salt h) (ph_kdf h)) (\<lambda>key.
         case bl_decrypt cry key (ph_nonce h) ciphertext tag of None \<Rightarrow> Inl CannotDecrypt | Some tar \<Rightarrow> Inr tar))"

section \<open>Bytes\<close>

lemmas blob_lengths = MAGIC_LEN_def VERSION_LEN_def KDF_PARAMS_LEN_def SALT_LEN_def NONCE_LEN_def TAG_LEN_def HEADER_LEN_def

lemma bind_blob_simps [simp]: "bind_blob (Inr x) f = f x" "bind_blob (Inl e) f = Inl e"
  by (simp_all add: bind_blob_def)

lemma bind_blob_Inr_iff: "bind_blob r f = Inr y \<longleftrightarrow> (\<exists>x. r = Inr x \<and> f x = Inr y)"
  by (cases r) simp_all

lemma length_be_bytes [simp]: "length (be_bytes n v) = n"
  by (induction n arbitrary: v) simp_all

lemma read_be_bytes: "0 \<le> v \<Longrightarrow> v < 256 ^ n \<Longrightarrow> readUInt (be_bytes n v) = v"
proof (induction n arbitrary: v)
  case (Suc n)
  have "v div 256 < 256 ^ n" using Suc.prems by (simp add: div_less_iff_less_mult mult.commute)
  then have "readUInt (be_bytes n (v div 256)) = v div 256" using Suc by simp
  moreover have "uint (word_of_int v :: 8 word) = v mod 256" by (simp add: uint_word_of_int)
  ultimately show ?case by (simp add: readUInt_def)
qed (simp add: readUInt_def)

lemma foldl_bytes_bound: "0 \<le> a \<Longrightarrow> a < 256 ^ k \<Longrightarrow> foldl (\<lambda>a (b :: 8 word). a * 256 + uint b) a bs < 256 ^ (k + length bs) \<and>
    0 \<le> foldl (\<lambda>a (b :: 8 word). a * 256 + uint b) a bs"
proof (induction bs arbitrary: a k)
  case (Cons b bs)
  have "uint b < 256" using uint_bounded [of b] by simp
  then have "a * 256 + uint b < 256 ^ Suc k" "0 \<le> a * 256 + uint b" using Cons.prems by auto
  from Cons.IH [OF this(2,1)] show ?case by simp
qed simp

lemma readUInt_bound: "readUInt bs < 256 ^ length bs \<and> 0 \<le> readUInt bs"
  using foldl_bytes_bound [of 0 0 bs] by (simp add: readUInt_def)

lemma writeUInt_Inr: "writeUInt n v = Inr bs \<longleftrightarrow> 0 \<le> v \<and> v < 256 ^ n \<and> bs = be_bytes n v"
  by (auto simp: writeUInt_def)

lemma subarray_append: "length xs = i \<Longrightarrow> length ys = j - i \<Longrightarrow> subarray i j (xs @ ys @ zs) = ys"
  by (simp add: subarray_def)

lemma ascii_MAGIC: "ascii MAGIC = MAGIC"
  by (simp add: ascii_def MAGIC_def)

section \<open>Header\<close>

definition sane_kdf :: "kdf_params \<Rightarrow> bool" where
  "sane_kdf kdf \<longleftrightarrow> 8 \<le> kp_memory kdf \<and> kp_memory kdf \<le> 1048576 \<and> 1 \<le> kp_passes kdf \<and> kp_passes kdf \<le> 10 \<and>
     1 \<le> kp_parallelism kdf \<and> kp_parallelism kdf \<le> 4"

lemma sane_iff: "assertSaneKdfParams kdf = Inr () \<longleftrightarrow> sane_kdf kdf"
  by (simp add: assertSaneKdfParams_def sane_kdf_def in_range_def KDF_LIMITS_def) auto

lemma encoded_header:
  "encodeHeader kdf salt nonce = Inr header \<longleftrightarrow>
   length salt = 16 \<and> length nonce = 12 \<and> 0 \<le> kp_memory kdf \<and> kp_memory kdf < 256 ^ 4 \<and> 0 \<le> kp_passes kdf \<and> kp_passes kdf < 256 ^ 4 \<and>
   0 \<le> kp_parallelism kdf \<and> kp_parallelism kdf < 256 ^ 4 \<and>
   header = MAGIC @ be_bytes 2 1 @ be_bytes 4 (kp_memory kdf) @ be_bytes 4 (kp_passes kdf) @ be_bytes 4 (kp_parallelism kdf) @ salt @ nonce"
  by (auto simp: encodeHeader_def blob_lengths bind_blob_Inr_iff writeUInt_Inr FORMAT_VERSION_def)

lemma encodes: "sane_kdf kdf \<Longrightarrow> length salt = 16 \<Longrightarrow> length nonce = 12 \<Longrightarrow> \<exists>header. encodeHeader kdf salt nonce = Inr header"
  by (simp add: encoded_header sane_kdf_def)

lemma header_length: "encodeHeader kdf salt nonce = Inr header \<Longrightarrow> length header = 46"
  by (simp add: encoded_header MAGIC_def)

lemma parse_encoded:
  assumes "encodeHeader kdf salt nonce = Inr header" "sane_kdf kdf" "16 \<le> length body"
  shows "parseHeader (header @ body) = Inr \<lparr>ph_version = 1, ph_kdf = kdf, ph_salt = salt, ph_nonce = nonce, ph_bodyOffset = 46\<rparr>"
proof -
  let ?m = "be_bytes 4 (kp_memory kdf)" and ?p = "be_bytes 4 (kp_passes kdf)" and ?l = "be_bytes 4 (kp_parallelism kdf)"
  have h: "header = MAGIC @ be_bytes 2 1 @ ?m @ ?p @ ?l @ salt @ nonce" and len: "length salt = 16" "length nonce = 12" "length MAGIC = 4"
    using assms(1) by (simp_all add: encoded_header MAGIC_def)
  have sub: "subarray 0 4 (header @ body) = MAGIC" "subarray 4 6 (header @ body) = be_bytes 2 1" "subarray 6 10 (header @ body) = ?m"
    "subarray 10 14 (header @ body) = ?p" "subarray 14 18 (header @ body) = ?l" "subarray 18 34 (header @ body) = salt" "subarray 34 46 (header @ body) = nonce"
    by (simp_all add: h subarray_def len)
  have "readUInt (be_bytes 2 1) = 1" by (rule read_be_bytes) simp_all
  moreover have "readUInt ?m = kp_memory kdf" "readUInt ?p = kp_passes kdf" "readUInt ?l = kp_parallelism kdf"
    using assms(2) by (simp_all add: read_be_bytes sane_kdf_def)
  moreover obtain a b c where "kdf = \<lparr>kp_memory = a, kp_passes = b, kp_parallelism = c\<rparr>" by (cases kdf)
  ultimately show ?thesis
    using assms(2,3) header_length [OF assms(1)] by (simp add: parseHeader_def Let_def blob_lengths sub ascii_MAGIC FORMAT_VERSION_def sane_iff [symmetric])
qed

section \<open>Theorems\<close>

text \<open>What the cipher promises: what it encrypts it decrypts, with a tag of 16 bytes.\<close>

definition cipher_ok :: "blob_crypto \<Rightarrow> bool" where
  "cipher_ok cry \<longleftrightarrow> (\<forall>key nonce tar. length (snd (bl_encrypt cry key nonce tar)) = 16 \<and>
     bl_decrypt cry key nonce (fst (bl_encrypt cry key nonce tar)) (snd (bl_encrypt cry key nonce tar)) = Some tar)"

text \<open>
  C26: A self-backup can be restored.  With parameters the reader accepts, random salt and nonce of their lengths and a
  key derivation that answers, sealing an archive succeeds, and opening the sealed file with the same password gives the
  archive back, for an archive of any length.
\<close>

theorem sealed_blob_opens:
  assumes "cipher_ok cry" "bl_derive cry password salt kdf = Some key"
    and "8 \<le> kp_memory kdf" "kp_memory kdf \<le> 1048576" "1 \<le> kp_passes kdf" "kp_passes kdf \<le> 10"
      "1 \<le> kp_parallelism kdf" "kp_parallelism kdf \<le> 4"
    and "length salt = 16" "length nonce = 12"
  shows "\<exists>blob. sealBlob cry salt nonce tar password kdf = Inr blob \<and> openBlob cry blob password = Inr tar"
proof -
  obtain ciphertext tag where e: "bl_encrypt cry key nonce tar = (ciphertext, tag)" by fastforce
  then have tag: "length tag = 16" and dec: "bl_decrypt cry key nonce ciphertext tag = Some tar"
    using assms(1) unfolding cipher_ok_def by (metis fst_conv snd_conv)+
  have sane: "sane_kdf kdf" using assms(3-8) by (simp add: sane_kdf_def)
  obtain header where h: "encodeHeader kdf salt nonce = Inr header" using encodes [OF sane assms(9,10)] by blast
  let ?blob = "header @ ciphertext @ tag"
  have "sealBlob cry salt nonce tar password kdf = Inr ?blob"
    using assms(2) e h by (simp add: sealBlob_def deriveKey_def)
  moreover have "subarray (length ?blob - 16) (length ?blob) ?blob = tag" "subarray 46 (length ?blob - 16) ?blob = ciphertext"
    using tag header_length [OF h] by (simp_all add: subarray_def)
  then have "openBlob cry ?blob password = Inr tar"
    using parse_encoded [OF h sane, of "ciphertext @ tag"] tag dec assms(2) by (simp add: openBlob_def Let_def deriveKey_def TAG_LEN_def)
  ultimately show ?thesis by blast
qed


text \<open>
  The reader accepts a magic with the highest bit of its bytes set, since the text it compares is decoded as ASCII
  by clearing that bit: two different files have the same header.
\<close>

theorem magic_high_bit_ignored:
  assumes "length m = 4" "length m' = 4" "ascii m' = ascii m"
  shows "parseHeader (m' @ rest) = parseHeader (m @ rest)"
proof -
  have "subarray i j (m' @ rest) = subarray i j (m @ rest)" if "4 \<le> i" for i j using that assms(1,2) by (simp add: subarray_def)
  moreover have "subarray 0 4 (m @ rest) = m" "subarray 0 4 (m' @ rest) = m'" using assms(1,2) by (simp_all add: subarray_def)
  ultimately show ?thesis using assms unfolding parseHeader_def Let_def by simp
qed

section \<open>A file\<close>

definition sample_cipher :: blob_crypto where
  "sample_cipher = \<lparr>bl_derive = (\<lambda>p s k. Some s), bl_encrypt = (\<lambda>k n t. (map (\<lambda>b. b XOR 0x5A) t, take 16 (k @ replicate 16 0))),
     bl_decrypt = (\<lambda>k n c t. if t = take 16 (k @ replicate 16 0) then Some (map (\<lambda>b. b XOR 0x5A) c) else None)\<rparr>"

lemma sample_crypto_ok: "cipher_ok sample_cipher"
  by (simp add: cipher_ok_def sample_cipher_def o_def xor.assoc min_def)

theorem sealed_blob_opens_witness:
  "\<exists>blob. sealBlob sample_cipher (replicate 16 7) (replicate 12 9) [1, 2, 3] ''secret'' ARGON2_DEFAULTS = Inr blob \<and>
    openBlob sample_cipher blob ''secret'' = Inr [1, 2, 3]"
  by (rule sealed_blob_opens [OF sample_crypto_ok, where key = "replicate 16 7"]) (simp_all add: sample_cipher_def ARGON2_DEFAULTS_def)

definition sample_header :: buffer where
  "sample_header = MAGIC @ be_bytes 2 1 @ be_bytes 4 65536 @ be_bytes 4 3 @ be_bytes 4 1 @ replicate 28 5"

definition sample_parsed :: parsed_header where
  "sample_parsed = \<lparr>ph_version = 1, ph_kdf = ARGON2_DEFAULTS, ph_salt = replicate 16 5, ph_nonce = replicate 12 5, ph_bodyOffset = 46\<rparr>"

lemma sample_header_parsed: "parseHeader (sample_header @ replicate 16 0) = Inr sample_parsed"
  by code_simp


theorem magic_high_bit_ignored_witness:
  "parseHeader ([0xD0, 0x4C, 0x42, 0xCB] @ drop 4 (sample_header @ replicate 16 0)) = Inr sample_parsed"
proof -
  have "parseHeader ([0xD0, 0x4C, 0x42, 0xCB] @ drop 4 (sample_header @ replicate 16 0)) = parseHeader (MAGIC @ drop 4 (sample_header @ replicate 16 0))"
    by (rule magic_high_bit_ignored) (simp_all add: MAGIC_def ascii_def)
  moreover have "MAGIC @ drop 4 (sample_header @ replicate 16 0) = sample_header @ replicate 16 0" by (simp add: sample_header_def MAGIC_def)
  ultimately show ?thesis using sample_header_parsed by simp
qed

end
