(* ===== verification/Spec2Isabelle.thy ===== *)
theory Spec2Isabelle
  imports Pluton_Prelude Job_Queue Job_Processor Notification_Guarantees Replication_Guarantees
    Recovery_Guarantees Restore_Guarantees Mailbox_Guarantees Agent_Guarantees Source_Guarantees
    Exclusion_Guarantees Lifecycle_Guarantees Progress_Guarantees Schedule_Guarantees Service_Guarantees
    Snapshot_Guarantees Snapshot_Cache_Guarantees Backup_Blob
begin

text \<open>
  Pluton is a self-hosted backup server: a web user interface, a Node.js server with one SQLite
  database, and agents on remote hosts.  This development models the parts of the server that decide
  what may happen when (queues, leases, claims, reservations, approvals), not the programs it starts
  (restic, rclone, database clients) or the network.

  \<^bold>\<open>Parts and theories.\<close>
  \<^item> \<open>Pluton_Prelude\<close>: results with errors, SQL tables as lists of rows, the validators' character
    classes, and the locales of transition systems (below).  \<open>Json_Schema\<close>: the shared parsers.
  \<^item> \<open>Job_Queue\<close>, \<open>Job_Processor\<close>: the in-memory queue of \<open>backend/src/jobs/JobQueue.ts\<close> and the
    processor of \<open>JobProcessor.ts\<close> that starts one task after the other.
  \<^item> \<open>Pluton_Database\<close>: the rows and triggers of \<open>backend/src/db/schema/*.ts\<close> and of the migrations;
    \<open>pdb\<close> is the database all stores share.
  \<^item> \<open>Notification_Store\<close>, \<open>Notification_Worker\<close>, \<open>Notification_Guarantees\<close>: the notification
    outbox (\<open>NotificationDeliveryStore.ts\<close>) and its worker (\<open>NotificationDeliveryManager.ts\<close>).
  \<^item> \<open>Namespace_Policy\<close>: who may write where on a storage (\<open>managedReplicationPolicy.ts\<close>,
    \<open>NamespaceReservation.ts\<close>).
  \<^item> \<open>Replication_Store\<close>, \<open>Replication_Guarantees\<close>: the durable replication queue
    (\<open>ManagedReplicationStore.ts\<close>).
  \<^item> \<open>Recovery_Store\<close>, \<open>Recovery_Guarantees\<close>: recovery tests (\<open>recoveryTestPolicy.ts\<close>,
    \<open>RecoveryTestStore.ts\<close>).
  \<^item> \<open>Restore_Store\<close>, \<open>Restore_Guarantees\<close>: persistent database restores
    (\<open>persistentRestorePolicy.ts\<close>, \<open>retainedRestoreDependency.ts\<close>, \<open>DatabaseRestoreStore.ts\<close>).
  \<^item> \<open>Recovery_Mailbox\<close>, \<open>Mailbox_Guarantees\<close>: the file mailbox to the privileged operator
    (\<open>automaticRecoveryLifecycle.ts\<close>).
  \<^item> \<open>Control_Database\<close>, \<open>Agent_Store\<close>, \<open>Agent_Guarantees\<close>: the control plane of remote agents
    (\<open>schema/agents.ts\<close>, \<open>AgentStore.ts\<close>, \<open>agentProtocol.ts\<close>, \<open>authenticate\<close> of \<open>AgentService.ts\<close>).
  \<^item> \<open>Source_Policy\<close>, \<open>Source_Access\<close>, \<open>Source_Service\<close>, \<open>Source_Guarantees\<close>: which directories an
    agent may back up (\<open>agentSourceAccess.ts\<close>, \<open>AgentSourceAccessStore.ts\<close>,
    \<open>AgentSourceAccessService.ts\<close>, \<open>sourceAccessHistory.ts\<close>).
  \<^item> \<open>Backup_Exclusions\<close>, \<open>Exclusion_Guarantees\<close>: which files a backup leaves out
    (\<open>backupExclusions.ts\<close>; the agent has the same code).
  \<^item> \<open>Remote_Lifecycle\<close>, \<open>Lifecycle_Guarantees\<close>: database dumps and hooks of a remote backup and their
    passwords (\<open>remoteLifecycle.ts\<close>).  \<open>Remote_Progress\<close>, \<open>Progress_Guarantees\<close>: progress and failures an
    agent reports (\<open>remoteBackupProgress.ts\<close>, \<open>remoteBackupDiagnostics.ts\<close>, \<open>sourceDiagnostics.ts\<close>).
  \<^item> \<open>Plan_Schedule\<close>, \<open>Cron_Manager\<close>, \<open>Schedule_Guarantees\<close>: the schedule of a plan and the timers
    (\<open>intervalToCron.ts\<close>, \<open>planSchedule.ts\<close>, \<open>CronManager.ts\<close>).
  \<^item> \<open>Backup_Store\<close>: the rows of backups and what the events of a backup write (\<open>BackupStore.ts\<close>,
    \<open>BackupEventService.ts\<close>).  \<open>Remote_Backup\<close>: the checks of a remote plan and what an agent is given
    (\<open>RemoteBackupService.ts\<close>, \<open>remoteCommandPreparation.ts\<close>).  \<open>Remote_Operations\<close>: its operations on the
    tables, with \<open>RemoteManagedRepositoryStore.ts\<close>.  \<open>Remote_Guarantees\<close>: their theorems.
  \<^item> \<open>Agent_Service\<close>, \<open>Service_Guarantees\<close>: the requests of agents and of their administration
    (\<open>AgentService.ts\<close>, \<open>agentDistribution.ts\<close>), and the three services over the shared tables together.
  \<^item> \<open>Snapshot_Index\<close>, \<open>Snapshot_Compare\<close>, \<open>Snapshot_Guarantees\<close>: the metadata index of a snapshot and the
    comparison of two (\<open>managedSnapshotPath.ts\<close>, \<open>ManagedSnapshotIndex.ts\<close>, \<open>SnapshotComparison.ts\<close>);
    \<open>Snapshot_Cache\<close>, \<open>Snapshot_Cache_Guarantees\<close>: their two caches.
  \<^item> \<open>Backup_Blob\<close>: the file of the server's own backup (\<open>selfBackup/blobFormat.ts\<close>).
  \<^item> This theory: the two stores that start heavy database work, on the one database they share.

  \<^bold>\<open>How the parts interact.\<close>  A finished job is reported through the outbox.  A plan or a storage
  edit asks the namespace policy; a replication binds its destination under the same policy.  A
  recovery test and a persistent restore read the plans and backups of the database, exclude each
  other through the rows of both tables, and ask the operator for database targets through the
  mailbox.  The removal of a source asks whether a restore still depends on it.  A remote agent polls the
  command queue with signed requests; source access requests travel as commands of that queue, and its
  reports decide which plan sources the server accepts.  A remote backup is a row of the backups and a
  command of that queue, made in one transaction; the scheduler queues it, the progress and the completion
  of the command settle the row.  The tables of the control plane are disjoint
  from those of the other stores and have a record of their own, \<open>control_db\<close>.  \<open>remote_db\<close> joins them with
  the columns of plans, backups, repositories and storages that remote backups use, and with the scheduler.

  \<^bold>\<open>State and operations.\<close>  A struct of the code is a \<open>record\<close>, an enumerated column a
  \<open>datatype\<close>, JSON a datatype of values.  A store method maps the database (and its arguments, the
  clock, random ids and the results of the cipher) to a result: \<open>Err\<close> carries the error it throws and
  no new database, since the transaction is rolled back.  A \<open>..._step\<close> relation is the union of the
  operations of a component with every argument, and of what other components may write in between,
  so a theorem on reachable states holds for every order of calls, by any number of processes.  Where
  a method suspends (\<open>processQueue\<close>, \<open>writeRequest\<close>) its parts before and after are separate steps.

  \<^bold>\<open>What the theorems show.\<close>
  \<^item> Exclusion and bounds: one running job, one executing replication, one recovery test or restore in
    the whole system, at most eight retained restores, one live lifecycle record, one live command and
    one open source access request per agent, one active backup per remote plan, bounded attempts;
    the caches of snapshot indexes and comparisons keep their limits and whatever is in use.
  \<^item> Authority: a signed request is accepted once, a token enrolls once, a revoked agent stays out, and
    effective source roots stay within the administrator's selection and the host's maximum.  An agent is
    given a backup only for its own plan, agent, repository and checked source, with storage options from a
    closed list, and its requests change nothing of other agents and machines.
  \<^item> Permanence: bindings, decisions, deletions and reservations are never undone by a later step;
    the outcome of a backup is final and completion needs a confirmed snapshot.
  \<^item> Functional behaviour of claims, settlements, validators and namespace tests on every branch.
  \<^item> Refinement: the mailbox implements an abstract lifecycle protocol for each record; every run of the
    agent, source access and remote backup services is a run of the protocols of the stores below them.
  \<^item> Round trips and equivalences: approvals and history cursors are read back unchanged, audit pages
    list every request once, the path test agrees with normalization, the exclusion matchers decide
    what a pattern means, a delivered lifecycle has the passwords that were saved, and a restart of the
    scheduler reads its schedules back; a sealed backup file opens again.
  \<^item> Evidence: an index of a snapshot is the tree the repository sent, complete and unambiguous, and a
    comparison classifies every path as the two indexes and the reported differences say.
  \<^item> Progress: the earliest due delivery is claimed, an idle tick starts the head of the queue, the row of
    a backup holds the latest report.

  \<^bold>\<open>Locales.\<close>  \<open>work_queue\<close> is the contract of the queue with the processor.  \<open>invariant_system\<close>,
  \<open>exclusive_slot\<close>, \<open>monotone_system\<close>, \<open>progress_system\<close> and \<open>simulation\<close> hold the inductions over
  runs; each component interprets them on its own step relation.  \<open>keyed_rows\<close> is the contract of an
  update that keeps the key of a row.

  \<^bold>\<open>Bounds and fuel.\<close>  All operations are total.  The loop that frees disk space gets
  the number of entries as fuel, since each round removes one or ends.  The loops that are not structurally
  recursive (\<open>segment_loop\<close>, \<open>expand\<close>, \<open>ancestor_paths\<close>) have a termination proof.  Times
  are integers (milliseconds; columns in timestamp mode keep seconds), sequence numbers are integers
  compared with \<open>MAX_SAFE_INTEGER\<close> where the code does so.  Strings have
  characters below U+0100.

  \<^bold>\<open>Assumptions.\<close>  SQLite runs one transaction at a time, and its driver is synchronous, so the statements
  of a store method are not interleaved with another method.  A method of the agent and of the remote backup
  service is one step with its store calls; the transaction that queues a backup is also a step of its own,
  with a plan, a repository and an agent read earlier.  Random ids are fresh where a statement says
  so.  Ciphers and hashes are arguments with the law a theorem needs as a hypothesis; so are the timer
  library (whether an expression is accepted, the next run) and the time zone data.

  \<^bold>\<open>Not modelled.\<close>  The user interface, HTTP routes and controllers (glue); the wrappers of restic,
  rclone and database clients, the export storage protocols and encryption (external programs, network
  and cryptography); message templates and transports (rendering and I/O); services that only
  sequence calls of the modelled stores around external processes; log lines.
\<close>

section \<open>One heavy workload at a time\<close>

text \<open>
  The steps of the recovery test store and of the persistent restore store on the one database they
  share.  A step of one store leaves the tables of the other alone.
\<close>

definition workload_step :: "pdb \<Rightarrow> pdb \<Rightarrow> bool" where
  "workload_step db db' \<longleftrightarrow>
     (rt_step db db' \<and> t_dbRestores db' = t_dbRestores db \<and> t_dbRestoreLeases db' = t_dbRestoreLeases db) \<or>
     (any_rs_step db db' \<and> t_recoveryTests db' = t_recoveryTests db \<and>
      t_internalSessions db' = t_internalSessions db \<and> t_internalLeases db' = t_internalLeases db)"

definition workloads_ok :: "pdb \<Rightarrow> bool" where
  "workloads_ok db \<longleftrightarrow> tests_ok db \<and> restores_ok db"

definition heavy_workloads :: "pdb \<Rightarrow> nat" where
  "heavy_workloads db = running_tests db + executing_restores db"

lemma tests_ok_cong: "t_recoveryTests db' = t_recoveryTests db \<Longrightarrow> tests_ok db' = tests_ok db"
  by (simp add: tests_ok_def)

lemma restores_ok_cong:
  "t_dbRestores db' = t_dbRestores db \<Longrightarrow> t_dbRestoreLeases db' = t_dbRestoreLeases db \<Longrightarrow> restores_ok db' = restores_ok db"
  by (simp add: restores_ok_def leases_ok_def)

lemma running_step_idle:
  assumes "rt_step db db'" "running_tests db' > running_tests db"
  shows "executing_restores db = 0"
  using assms(1)
proof (cases rule: rt_step_tests)
  case (insert row)
  then show ?thesis using assms(2) by (simp add: running_tests_def)
next
  case (start now row)
  then show ?thesis by (auto simp: worker_blocked_def list_ex_iff count_where_0_iff)
next
  case progress
  then show ?thesis using assms(2) progress_facts(5) [OF progress] by (simp add: running_tests_def)
qed

lemma not_busy_idle: "restores_ok db \<Longrightarrow> \<not> dr_busy [] db \<Longrightarrow> heavy_workloads db = 0"
  by (auto simp: heavy_workloads_def running_tests_def count_where_0_iff dr_busy_def list_ex_iff restores_ok_def list_all_iff)

interpretation workload: exclusive_slot workload_step workloads_ok heavy_workloads
proof
  fix db db' assume ok: "workloads_ok db" and step: "workload_step db db'"
  from ok have t: "tests_ok db" and r: "restores_ok db" by (auto simp: workloads_ok_def)
  from step consider
      (test) "rt_step db db'" "t_dbRestores db' = t_dbRestores db" "t_dbRestoreLeases db' = t_dbRestoreLeases db"
    | (restore) removals where "rs_step removals db db'" "t_recoveryTests db' = t_recoveryTests db"
    unfolding workload_step_def any_rs_step_def by blast
  then have "workloads_ok db' \<and>
      (heavy_workloads db' \<le> heavy_workloads db \<or> heavy_workloads db = 0 \<and> heavy_workloads db' = 1)"
  proof cases
    case test
    then show ?thesis using tests_ok_step [OF t test(1)] restores_ok_cong [OF test(2,3)] r
        running_step [OF t test(1)] running_step_idle [OF test(1)]
      by (auto simp: workloads_ok_def heavy_workloads_def)
  next
    case restore
    have "restores_ok db'" by (rule restores_ok_step [OF r restore(1)])
    moreover have "restore_indexes (t_dbRestores db)" using r by (simp add: restores_ok_def)
    ultimately show ?thesis
      using restore_executing_step [OF restore(1)] not_busy_idle [OF r] tests_ok_cong [OF restore(2)] t restore(2)
      by (auto simp: workloads_ok_def heavy_workloads_def running_tests_def restores_ok_def restore_indexes_def)
  qed
  then show "workloads_ok db'" and "heavy_workloads db' \<le> heavy_workloads db \<or> heavy_workloads db = 0 \<and> heavy_workloads db' = 1"
    by blast+
qed

definition workload_init :: "pdb \<Rightarrow> bool" where
  "workload_init db \<longleftrightarrow> rt_init db \<and> rs_init db"

lemma workload_reach:
  "reachable workload_init workload_step db \<Longrightarrow>
   reachable (\<lambda>s. workloads_ok s \<and> heavy_workloads s \<le> 1) workload_step db"
  by (induction rule: reachable.induct)
     (auto simp: workload_init_def rt_init_def rs_init_def workloads_ok_def heavy_workloads_def tests_ok_def running_tests_def
       restores_ok_def restore_indexes_def leases_ok_def intro: reach_init reach_step)

text \<open>
  C1: Recovery tests and persistent restores exclude each other: whatever sequence of operations the
  two services run on the shared database, at most one test is running or one restore is importing or
  deleting, never both.
\<close>

theorem workloads_exclusive:
  assumes "reachable workload_init workload_step db"
  shows "running_tests db + executing_restores db \<le> 1"
  using workload.slot_bound [OF workload_reach [OF assms]] by (simp add: heavy_workloads_def)

theorem workloads_exclusive_witness:
  "\<exists>db. t_recoveryTests db = [start_row 9000 sample_test] \<and> running_tests db + executing_restores db \<le> 1"
proof -
  let ?db = "snd (rt_claim 9000 sample_queue_db)"
  have init: "workload_init sample_recovery_db"
    by (simp add: workload_init_def rt_init_def rs_init_def sample_recovery_db_def empty_db_def)
  have "rt_step sample_recovery_db sample_queue_db"
    by (rule ts_enqueue [OF _ sample_test_enqueued]) (simp add: sample_test_def)
  moreover have "t_dbRestores sample_queue_db = t_dbRestores sample_recovery_db" "t_dbRestoreLeases sample_queue_db = t_dbRestoreLeases sample_recovery_db"
    by (simp_all add: sample_queue_db_def insert_recovery_test_def register_source_def)
  ultimately have one: "workload_step sample_recovery_db sample_queue_db" by (simp add: workload_step_def)
  have q: "t_recoveryTests sample_queue_db = [sample_test]" "t_internalSessions sample_queue_db = []"
    "\<not> worker_blocked sample_queue_db"
    by (simp_all add: sample_queue_db_def sample_recovery_db_def empty_db_def worker_blocked_def insert_recovery_test_def
        register_source_def sample_test_def)
  then have "claim_candidate sample_queue_db = Some sample_test"
    by (simp add: claim_candidate_def pendingInternalSessions_def order_by_def) (simp add: sample_test_def)
  with q have claim: "rt_claim 9000 sample_queue_db = (Some (start_row 9000 sample_test), ?db)" "t_recoveryTests ?db = [start_row 9000 sample_test]"
    by (simp_all add: rt_claim_def Let_def rt_get_def) (simp_all add: start_row_def sample_test_def)
  moreover have "t_dbRestores ?db = t_dbRestores sample_queue_db" "t_dbRestoreLeases ?db = t_dbRestoreLeases sample_queue_db"
    by (auto simp: rt_claim_def Let_def update_recovery_tests_def split: option.split)
  ultimately have "workload_step sample_queue_db ?db" using ts_claim [OF claim(1)] by (simp add: workload_step_def)
  with one init have "reachable workload_init workload_step ?db" by (blast intro: reach_init reach_step)
  from workloads_exclusive [OF this] claim(2) show ?thesis by blast
qed

end
